(* ===== verification/Prelude.thy ===== *)
theory Prelude
  imports Main "HOL-Library.Word"
begin

unbundle bit_operations_syntax

text \<open>
  What every component of the LON Stack DX model shares: the names of the machine types,
  the status codes, reading and copying bytes in buffers, the attribute macros of
  \<^verbatim>\<open>include/izot/lon_types.h\<close>, and the generic lemmas on modular indices,
  list updates and words that the component proofs use.
\<close>

section \<open>Machine types\<close>

type_synonym u8 = "8 word"
type_synonym u16 = "16 word"
type_synonym u32 = "32 word"
type_synonym bytes = "8 word list"

text \<open>
  The status codes of \<open>LonStatusCode\<close> that the modelled functions return.
\<close>

datatype LonStatusCode =
    LonStatusNoError
  | LonStatusNoMemoryAvailable
  | LonStatusInvalidParameter
  | LonStatusInvalidBufferSize
  | LonStatusInvalidBufferCount
  | LonStatusInvalidTimer
  | LonStatusInvalidDomain
  | LonStatusInvalidAddrTableIndex
  | LonStatusInvalidBufferLength
  | LonStatusTransactionInProgress
  | LonStatusTransactionNotAvailable
  | LonStatusDestinationAddressMissing
  | LonStatusBadAddressType
  | LonStatusPersistentDataFailure
  | LonStatusInvalidInterfaceId
  | LonStatusNoBufferAvailable
  | LonStatusNoMessageAvailable
  | LonStatusFrameError
  | LonStatusTimeout
  | LonStatusWriteFailed
  | LonStatusLniWriteFailure
  | LonStatusLniUniqueIdNotAvailable
  | LonStatusOpenFailed
  | LonStatusInvalidMessageLength
  | LonStatusInvalidMessageAddress
  | LonStatusInvalidMessageCommand
  | LonStatusInvalidMessageMode
  | LonStatusInvalidOperation
  | LonStatusInvalidDatapointIndex
  | LonStatusBufferSizeTooSmall
  | LonStatusUnknownPdu
  | LonStatusTransactionFailure
  | LonStatusAuthenticationMismatch
  | LonStatusWritePastEndOfApplBuffer
  | LonStatusWritePastEndOfNetBuffer
  | LonStatusDatapointMsgTooShort
  | LonStatusStackInitializationFailure
  | LonStatusReadFailed
  | LonStatusCallbackNotRegistered
  | LonStatusDataIntegrityError
  | LonStatusInternalError
  | LonStatusNotOpen
  | LonStatusInvalidMessageService
  | LonStatusInvalidMessageCode
  | LonStatusModeChangeFailure
  | LonStatusDpIndexInvalid
  | LonStatusDatapointLengthMismatch
  | LonStatusDatapointUpdateOnOutput
  | LonStatusTxBufferFull
  | LonStatusCnfgChecksumError
  | LonStatusInvalidSegmentType
  | LonStatusPersistentDataDirError
  | LonStatusPersistentDataAccessError
  | LonStatusEepromWriteFail
  | LonStatusIncompleteMsg
  | LonStatusIndexInvalid
  | LonStatusInitializationFailed
  | LonStatusInvalidMessageTag
  | LonStatusInvalidNvLength
  | LonStatusInvalidNvName
  | LonStatusInvalidSelector
  | LonStatusInvalidSelfDocumentation
  | LonStatusNoSelectorsAvailable
  | LonStatusNoSpaceInNvTable
  | LonStatusNotConfiguredOnline
  | LonStatusOutputDpPropagateFailure
  | LonStatusProxyFailure
  | LonStatusStackNotInitialized

section \<open>Bytes in buffers\<close>

text \<open>
  A buffer is the list of the bytes it holds. A C read never fails; a byte past the end of
  the modelled buffer is not defined by the program, and reads as 0 here. A buffer may be
  longer than the size field that travels with it, so stale bytes behind a short PDU are
  covered by every theorem about an arbitrary list.
\<close>

definition byte_at :: "bytes \<Rightarrow> nat \<Rightarrow> u8" where
  "byte_at bs i = (if i < length bs then bs ! i else 0)"

text \<open>\<open>memcpy(dst, src + off, n)\<close>: the \<open>n\<close> bytes read.\<close>

definition bytes_from :: "bytes \<Rightarrow> nat \<Rightarrow> nat \<Rightarrow> bytes" where
  "bytes_from bs off n = map (\<lambda>i. byte_at bs (off + i)) [0..<n]"

text \<open>\<open>memcpy(dst + off, src, n)\<close> into a buffer that is long enough.\<close>

definition copy_into :: "'a list \<Rightarrow> nat \<Rightarrow> 'a list \<Rightarrow> 'a list" where
  "copy_into dst off src = take off dst @ src @ drop (off + length src) dst"

lemma length_bytes_from [simp]: "length (bytes_from bs off n) = n"
  by (simp add: bytes_from_def)

lemma nth_bytes_from [simp]: "i < n \<Longrightarrow> bytes_from bs off n ! i = byte_at bs (off + i)"
  by (simp add: bytes_from_def)

lemma byte_at_nth [simp]: "i < length bs \<Longrightarrow> byte_at bs i = bs ! i"
  by (simp add: byte_at_def)

lemma bytes_from_eq_take: "off + n \<le> length bs \<Longrightarrow> bytes_from bs off n = take n (drop off bs)"
  by (rule nth_equalityI) auto

lemma bytes_from_append [simp]:
  "bytes_from (xs @ ys) (length xs + k) n = bytes_from ys k n"
  by (rule nth_equalityI) (auto simp: byte_at_def nth_append)

lemma bytes_from_Cons_Suc [simp]: "bytes_from (x # ys) (Suc k) n = bytes_from ys k n"
  using bytes_from_append [of "[x]" ys k n] by simp

lemma byte_at_Cons_0 [simp]: "byte_at (x # xs) 0 = x"
  by (simp add: byte_at_def)

lemma byte_at_Cons_Suc [simp]: "byte_at (x # xs) (Suc i) = byte_at xs i"
  by (simp add: byte_at_def)

lemma bytes_from_all [simp]: "bytes_from bs 0 (length bs) = bs"
  by (rule nth_equalityI) auto

lemma length_copy_into [simp]:
  "off + length src \<le> length dst \<Longrightarrow> length (copy_into dst off src) = length dst"
  by (simp add: copy_into_def)

lemma nth_copy_into:
  assumes "off + length src \<le> length dst" and "i < length dst"
  shows "copy_into dst off src ! i =
    (if off \<le> i \<and> i < off + length src then src ! (i - off) else dst ! i)"
proof -
  have "length (take off dst) = off" using assms by simp
  then show ?thesis
    using assms unfolding copy_into_def
    by (auto simp: nth_append not_less)
qed

section \<open>Circular indices\<close>

lemma mod_add_cancel_eq:
  fixes a i j n :: nat
  assumes "(a + i) mod n = (a + j) mod n" and "i \<le> j" and "j < i + n"
  shows "i = j"
proof -
  have "n dvd (a + j) - (a + i)"
    using assms(1,2) by (metis mod_eq_dvd_iff_nat add_le_mono le_refl)
  then have "n dvd j - i" by simp
  moreover have "j - i < n" using assms(2,3) by arith
  ultimately have "j - i = 0" by (auto dest: dvd_imp_le)
  then show ?thesis using assms(2) by simp
qed

lemma mod_add_neq:
  fixes a i j n :: nat
  assumes "i < j" and "j < i + n"
  shows "(a + i) mod n \<noteq> (a + j) mod n"
  using mod_add_cancel_eq [of a i n j] assms by auto

lemma Suc_mod_wrap: "i < n \<Longrightarrow> Suc i mod n = (if Suc i = n then 0 else Suc i)"
  by auto

section \<open>Bytes and words\<close>

lemma unat_u8: "unat (b :: u8) < 256"
proof -
  have "unat b < 2 ^ LENGTH(8)" by (rule unsigned_less)
  then show ?thesis by simp
qed

lemma unat_u16: "unat (w :: u16) < 65536"
proof -
  have "unat w < 2 ^ LENGTH(16)" by (rule unsigned_less)
  then show ?thesis by simp
qed

lemma unat_u32: "unat (w :: u32) < 4294967296"
proof -
  have "unat w < 2 ^ LENGTH(32)" by (rule unsigned_less)
  then show ?thesis by simp
qed

lemma unat_ucast_up [simp]:
  "unat (ucast (b :: u8) :: u16) = unat b"
  "unat (ucast (b :: u8) :: u32) = unat b"
  "unat (ucast (w :: u16) :: u32) = unat w"
  using unat_u8 [of b] unat_u16 [of w]
  by (simp_all add: unsigned_ucast_eq take_bit_eq_mod)

lemma join_bytes [simp]:
  "push_bit 8 (ucast (ucast (drop_bit 8 v) :: u8)) + ucast (ucast v :: u8) = (v :: u16)"
proof -
  have "push_bit 8 (ucast (ucast (drop_bit 8 v) :: u8)) + ucast (ucast v :: u8) =
      push_bit 8 (ucast (ucast (drop_bit 8 v) :: u8)) OR (ucast (ucast v :: u8) :: u16)"
    by (rule disjunctive_add_eq_or) (rule bit_word_eqI, auto simp: bit_simps)
  also have "\<dots> = v" by (rule bit_word_eqI) (auto simp: bit_simps)
  finally show ?thesis .
qed

section \<open>Attribute fields of a byte\<close>

text \<open>
  \<open>IZOT_GET_ATTRIBUTE\<close> and \<open>IZOT_SET_ATTRIBUTE\<close> read and write the bits of a field under a
  mask; the macros of \<open>lon_types.h\<close> fix the mask and the shift of each attribute.
\<close>

definition get_attribute :: "u8 \<Rightarrow> nat \<Rightarrow> u8 \<Rightarrow> u8" where
  "get_attribute m shift field = drop_bit shift (field AND m)"

definition set_attribute :: "u8 \<Rightarrow> nat \<Rightarrow> u8 \<Rightarrow> u8 \<Rightarrow> u8" where
  "set_attribute m shift v field = (field AND NOT m) OR (push_bit shift v AND m)"

lemma get_set_attribute:
  assumes "push_bit shift v AND m = push_bit shift v" and "drop_bit shift (push_bit shift v) = v"
  shows "get_attribute m shift (set_attribute m shift v field) = v"
proof -
  have "set_attribute m shift v field AND m = push_bit shift v AND m"
    by (rule bit_word_eqI) (auto simp: set_attribute_def bit_simps)
  then show ?thesis using assms by (simp add: get_attribute_def)
qed

lemma get_set_attribute_other:
  assumes "m AND m' = 0"
  shows "get_attribute m shift (set_attribute m' shift' v field) = get_attribute m shift field"
proof -
  have "\<not> (bit m n \<and> bit m' n)" for n
    using assms by (metis bit_0_eq bit_and_iff bot_apply bot_bool_def)
  then have "set_attribute m' shift' v field AND m = field AND m"
    by (intro bit_word_eqI) (auto simp: set_attribute_def bit_simps)
  then show ?thesis by (simp add: get_attribute_def)
qed

end
