(* ===== verification/Lcs_Queue.thy ===== *)
theory Lcs_Queue
  imports Prelude
begin

text \<open>
  \<^verbatim>\<open>lcs/lcs_queue.c\<close>, queues: the fixed-size entry queues that join the layers of the
  stack. The entry type is a type parameter: each layer pair puts its own parameter
  structure and PDU into an entry. The \<open>head\<close> and \<open>tail\<close> pointers are byte offsets from
  \<open>data\<close>, kept beside the debugging indices as in the code; \<open>data\<close> is \<open>None\<close> for a
  null pointer (\<open>head\<close> and \<open>tail\<close> are set from \<open>data\<close>, so they are null with it). The
  byte ring buffers of the same source file are in the theory \<open>Lcs_Ring\<close>.
\<close>

section \<open>State\<close>

record 'a Queue =
  queueName :: "string option"
  queueCapacity :: nat
  queueEntries :: nat
  entrySize :: nat
  emptyCountReports :: nat
  qhead :: nat
  headIndex :: nat
  qtail :: nat
  tailIndex :: nat
  qdata :: "'a list option"

text \<open>The validity test that every operation opens with.\<close>

definition QueueInvalid :: "'a Queue \<Rightarrow> bool" where
  "QueueInvalid q \<longleftrightarrow> qdata q = None \<or> queueCapacity q = 0 \<or> entrySize q = 0 \<or>
     queueEntries q > queueCapacity q"

section \<open>Operations\<close>

text \<open>
  \<open>mem\<close> is what \<open>OsalAllocateMemory\<close> returns: \<open>None\<close> when it fails, else the entries'
  uninitialised memory. The size arguments are stored in 16-bit fields.
\<close>

definition QueueInit ::
    "'a Queue \<Rightarrow> string option \<Rightarrow> nat \<Rightarrow> nat \<Rightarrow> 'a list option \<Rightarrow> LonStatusCode \<times> 'a Queue" where
  "QueueInit q name entry_size queue_capacity mem =
     (case mem of
        None \<Rightarrow> (LonStatusNoMemoryAvailable, q\<lparr>queueName := name, qdata := None\<rparr>)
      | Some d \<Rightarrow>
          (LonStatusNoError,
           \<lparr>queueName = name, queueCapacity = queue_capacity mod 2 ^ 16, queueEntries = 0,
            entrySize = entry_size mod 2 ^ 16, emptyCountReports = 0,
            qhead = 0, headIndex = 0, qtail = 0, tailIndex = 0, qdata = Some d\<rparr>))"

definition QueueCapacity :: "'a Queue \<Rightarrow> nat" where
  "QueueCapacity q = (if QueueInvalid q then 0 else queueCapacity q)"

definition QueueAvail :: "'a Queue \<Rightarrow> nat" where
  "QueueAvail q = (if QueueInvalid q then 0 else queueCapacity q - queueEntries q)"

definition QueueEntries :: "'a Queue \<Rightarrow> nat" where
  "QueueEntries q = (if QueueInvalid q then 0 else queueEntries q)"

definition QueueFull :: "'a Queue \<Rightarrow> bool" where
  "QueueFull q = (if QueueInvalid q then True else queueEntries q \<ge> queueCapacity q)"

definition QueueEmpty :: "'a Queue \<Rightarrow> bool" where
  "QueueEmpty q = (if QueueInvalid q then False else queueEntries q = 0)"

definition QueueEntrySize :: "'a Queue \<Rightarrow> nat" where
  "QueueEntrySize q = (if QueueInvalid q then 0 else entrySize q)"

definition QueueDropHead :: "'a Queue \<Rightarrow> 'a Queue" where
  "QueueDropHead q =
     (if QueueInvalid q then q
      else if queueEntries q = 0 then
        (if emptyCountReports q < 20
         then q\<lparr>emptyCountReports := emptyCountReports q + 1\<rparr> else q)
      else
        (let q1 = q\<lparr>queueEntries := queueEntries q - 1,
                     qhead := qhead q + entrySize q, headIndex := headIndex q + 1\<rparr>
         in if qhead q1 = entrySize q1 * queueCapacity q1
            then q1\<lparr>qhead := 0, headIndex := 0\<rparr> else q1))"

definition QueueFlush :: "'a Queue \<Rightarrow> 'a Queue" where
  "QueueFlush q =
     (if QueueInvalid q then q
      else q\<lparr>qhead := 0, qtail := 0, headIndex := 0, tailIndex := 0, queueEntries := 0,
             emptyCountReports := 0\<rparr>)"

definition QueueWrite :: "'a Queue \<Rightarrow> 'a Queue" where
  "QueueWrite q =
     (if QueueInvalid q then q
      else if queueEntries q \<ge> queueCapacity q - 1 then q
      else
        (let q1 = q\<lparr>queueEntries := queueEntries q + 1,
                     qtail := qtail q + entrySize q, tailIndex := tailIndex q + 1\<rparr>
         in if qtail q1 = entrySize q1 * queueCapacity q1
            then q1\<lparr>qtail := 0, tailIndex := 0\<rparr> else q1))"

text \<open>\<open>QueuePeek\<close> and \<open>QueueTail\<close> return pointers: the offset of an entry, or null.\<close>

definition QueuePeek :: "'a Queue \<Rightarrow> nat option" where
  "QueuePeek q =
     (if QueueInvalid q then None
      else if queueEntries q \<noteq> 0 then Some (qhead q) else None)"

definition QueueTail :: "'a Queue \<Rightarrow> nat option" where
  "QueueTail q =
     (if QueueInvalid q then None
      else if queueEntries q < queueCapacity q then Some (qtail q) else None)"

section \<open>Entries through pointers\<close>

text \<open>
  The layers read the entry that \<open>QueuePeek\<close> points to, update it in place, and form a new
  entry where \<open>QueueTail\<close> points before they call \<open>QueueWrite\<close>. \<open>QueuePut\<close> is that last
  pair; a null tail pointer, which no caller has because it tests \<open>QueueFull\<close> first,
  leaves the memory as it is.
\<close>

definition QueueDeref :: "'a Queue \<Rightarrow> nat \<Rightarrow> 'a" where
  "QueueDeref q off = the (qdata q) ! (off div entrySize q)"

definition QueueStore :: "'a Queue \<Rightarrow> nat \<Rightarrow> 'a \<Rightarrow> 'a Queue" where
  "QueueStore q off x = q\<lparr>qdata := map_option (\<lambda>d. d[off div entrySize q := x]) (qdata q)\<rparr>"

definition QueueHead :: "'a Queue \<Rightarrow> 'a option" where
  "QueueHead q = map_option (QueueDeref q) (QueuePeek q)"

definition QueuePokeHead :: "('a \<Rightarrow> 'a) \<Rightarrow> 'a Queue \<Rightarrow> 'a Queue" where
  "QueuePokeHead f q =
     (case QueuePeek q of None \<Rightarrow> q | Some off \<Rightarrow> QueueStore q off (f (QueueDeref q off)))"

definition QueueFill :: "'a \<Rightarrow> 'a Queue \<Rightarrow> 'a Queue" where
  "QueueFill x q = (case QueueTail q of None \<Rightarrow> q | Some off \<Rightarrow> QueueStore q off x)"

definition QueuePut :: "'a \<Rightarrow> 'a Queue \<Rightarrow> 'a Queue" where
  "QueuePut x q = QueueWrite (QueueFill x q)"

text \<open>
  A layer that sets some fields of the entry at the tail leaves the others as the last use
  of the slot left them: \<open>QueueEmit f\<close> updates the slot with \<open>f\<close> and then writes it.
\<close>

definition QueueEmit :: "('a \<Rightarrow> 'a) \<Rightarrow> 'a Queue \<Rightarrow> 'a Queue" where
  "QueueEmit f q =
     (case QueueTail q of
        None \<Rightarrow> QueueWrite q
      | Some off \<Rightarrow> QueuePut (f (QueueDeref q off)) q)"

section \<open>Well-formed queues and their contents\<close>

text \<open>
  Between initialisation and any sequence of operations the pointers and indices agree, the
  tail is \<open>queueEntries\<close> entries after the head, and at least one entry stays free.
\<close>

definition queue_wf :: "'a Queue \<Rightarrow> bool" where
  "queue_wf q \<longleftrightarrow>
     (\<exists>d. qdata q = Some d \<and> length d = queueCapacity q) \<and>
     0 < queueCapacity q \<and> 0 < entrySize q \<and> queueEntries q < queueCapacity q \<and>
     headIndex q < queueCapacity q \<and>
     tailIndex q = (headIndex q + queueEntries q) mod queueCapacity q \<and>
     qhead q = headIndex q * entrySize q \<and> qtail q = tailIndex q * entrySize q"

text \<open>What the queue holds, oldest first.\<close>

definition queue_list :: "'a Queue \<Rightarrow> 'a list" where
  "queue_list q =
     map (\<lambda>i. the (qdata q) ! ((headIndex q + i) mod queueCapacity q)) [0..<queueEntries q]"

text \<open>How many entries \<open>QueueWrite\<close> lets the queue hold.\<close>

definition queue_room :: "'a Queue \<Rightarrow> nat" where
  "queue_room q = queueCapacity q - 1"

lemma length_queue_list [simp]: "length (queue_list q) = queueEntries q"
  by (simp add: queue_list_def)

lemma queue_wf_valid: "queue_wf q \<Longrightarrow> \<not> QueueInvalid q"
  by (auto simp: queue_wf_def QueueInvalid_def)

lemma queue_list_Nil_iff: "queue_list q = [] \<longleftrightarrow> queueEntries q = 0"
  by (simp add: queue_list_def)

lemma QueueInit_wf:
  assumes "QueueInit q name esz cap (Some d) = (st, q')"
    and "0 < esz" "esz < 2 ^ 16" "0 < cap" "cap < 2 ^ 16" "length d = cap"
  shows "st = LonStatusNoError" and "queue_wf q'" and "queue_list q' = []"
    and "queueCapacity q' = cap" and "entrySize q' = esz"
  using assms by (auto simp: QueueInit_def queue_wf_def queue_list_def)

text \<open>Under the invariant the pointer wrap of the code is the index wrap.\<close>

lemma pointer_wrap:
  assumes "(0::nat) < esz"
  shows "i * esz + esz = esz * cap \<longleftrightarrow> Suc i = cap"
proof -
  have "i * esz + esz = esz * Suc i" by simp
  then show ?thesis using assms by (simp only: nat_mult_eq_cancel1)
qed

lemma QueueDropHead_nonempty:
  assumes "queue_wf q" and "queueEntries q \<noteq> 0"
  shows "QueueDropHead q = q\<lparr>queueEntries := queueEntries q - 1,
    qhead := (Suc (headIndex q) mod queueCapacity q) * entrySize q,
    headIndex := Suc (headIndex q) mod queueCapacity q\<rparr>"
proof -
  have v: "\<not> QueueInvalid q" using assms(1) by (rule queue_wf_valid)
  have w: "qhead q = headIndex q * entrySize q" "0 < entrySize q"
    "headIndex q < queueCapacity q"
    using assms(1) by (auto simp: queue_wf_def)
  show ?thesis
    using v w assms(2) pointer_wrap [OF w(2), of "headIndex q" "queueCapacity q"]
    by (auto simp: QueueDropHead_def Let_def Suc_mod_wrap)
qed

lemma QueueDropHead_wf:
  assumes "queue_wf q" shows "queue_wf (QueueDropHead q)"
proof (cases "queueEntries q = 0")
  case True
  then show ?thesis using assms by (auto simp: QueueDropHead_def queue_wf_def)
next
  case False
  then obtain n where n: "queueEntries q = Suc n" by (cases "queueEntries q") auto
  have "(Suc (headIndex q) mod queueCapacity q + n) mod queueCapacity q
      = (headIndex q + Suc n) mod queueCapacity q"
    by (simp add: mod_add_left_eq)
  with n assms show ?thesis
    by (auto simp: QueueDropHead_nonempty queue_wf_def)
qed

lemma QueueDropHead_empty_list:
  assumes "queueEntries q = 0" shows "queue_list (QueueDropHead q) = []"
  using assms by (auto simp: QueueDropHead_def queue_list_def Let_def)

lemma queue_list_DropHead [simp]:
  assumes "queue_wf q" shows "queue_list (QueueDropHead q) = tl (queue_list q)"
proof (cases "queueEntries q = 0")
  case True
  then have "queue_list q = []" by (simp add: queue_list_Nil_iff)
  then show ?thesis using True by (simp add: QueueDropHead_empty_list)
next
  case False
  have "(Suc (headIndex q) mod queueCapacity q + i) mod queueCapacity q
      = (headIndex q + Suc i) mod queueCapacity q" for i
    by (simp add: mod_add_left_eq)
  with False assms show ?thesis
    by (intro nth_equalityI)
      (auto simp: QueueDropHead_nonempty queue_list_def nth_tl)
qed

lemma QueueWrite_room:
  assumes "queue_wf q" and "queueEntries q < queueCapacity q - 1"
  shows "QueueWrite q = q\<lparr>queueEntries := Suc (queueEntries q),
    qtail := (Suc (tailIndex q) mod queueCapacity q) * entrySize q,
    tailIndex := Suc (tailIndex q) mod queueCapacity q\<rparr>"
proof -
  have v: "\<not> QueueInvalid q" using assms(1) by (rule queue_wf_valid)
  have w: "qtail q = tailIndex q * entrySize q" "0 < entrySize q"
    "tailIndex q < queueCapacity q"
    using assms(1) by (auto simp: queue_wf_def)
  show ?thesis
    using v w assms(2) pointer_wrap [OF w(2), of "tailIndex q" "queueCapacity q"]
    by (auto simp: QueueWrite_def Let_def Suc_mod_wrap)
qed

lemma QueueWrite_no_room:
  "queueCapacity q - 1 \<le> queueEntries q \<Longrightarrow> QueueWrite q = q"
  by (simp add: QueueWrite_def)

lemma queue_wf_tail_slot:
  assumes "queue_wf q" shows "qtail q div entrySize q = tailIndex q"
  using assms by (auto simp: queue_wf_def)

lemma queue_wf_head_slot:
  assumes "queue_wf q" shows "qhead q div entrySize q = headIndex q"
  using assms by (auto simp: queue_wf_def)

lemma QueueFill_wf_eq:
  assumes "queue_wf q" and "qdata q = Some d"
  shows "QueueFill x q = q\<lparr>qdata := Some (d[tailIndex q := x])\<rparr>"
  using assms queue_wf_valid [OF assms(1)] queue_wf_tail_slot [OF assms(1)]
  by (auto simp: QueueFill_def QueueTail_def QueueStore_def queue_wf_def)

lemma QueueFill_wf [simp]: "queue_wf q \<Longrightarrow> queue_wf (QueueFill x q)"
  by (auto simp: QueueFill_def QueueStore_def queue_wf_def split: option.splits)

lemma QueueFill_fields [simp]:
  "queueCapacity (QueueFill x q) = queueCapacity q"
  "queueEntries (QueueFill x q) = queueEntries q"
  "entrySize (QueueFill x q) = entrySize q"
  "headIndex (QueueFill x q) = headIndex q"
  "tailIndex (QueueFill x q) = tailIndex q"
  by (auto simp: QueueFill_def QueueStore_def split: option.splits)

lemma QueueWrite_wf:
  assumes "queue_wf q" shows "queue_wf (QueueWrite q)"
proof (cases "queueEntries q < queueCapacity q - 1")
  case True
  have "Suc (tailIndex q) mod queueCapacity q =
      (headIndex q + Suc (queueEntries q)) mod queueCapacity q"
    using assms by (auto simp: queue_wf_def mod_Suc_eq)
  with True assms show ?thesis by (auto simp: QueueWrite_room queue_wf_def)
next
  case False
  then show ?thesis using assms by (simp add: QueueWrite_no_room)
qed

lemma queue_list_Fill [simp]:
  assumes "queue_wf q" shows "queue_list (QueueFill x q) = queue_list q"
proof -
  obtain d where d: "qdata q = Some d" "length d = queueCapacity q"
    using assms by (auto simp: queue_wf_def)
  have "d[tailIndex q := x] ! ((headIndex q + i) mod queueCapacity q)
      = d ! ((headIndex q + i) mod queueCapacity q)" if "i < queueEntries q" for i
    using mod_add_neq [of i "queueEntries q" "queueCapacity q" "headIndex q"] that assms
    by (auto simp: queue_wf_def intro!: nth_list_update_neq)
  with d assms show ?thesis
    by (auto simp: QueueFill_wf_eq queue_list_def)
qed

lemma queue_list_Write:
  assumes "queue_wf q" and "queueEntries q < queueCapacity q - 1"
  shows "queue_list (QueueWrite q) = queue_list q @ [the (qdata q) ! tailIndex q]"
  using assms by (auto simp: QueueWrite_room queue_list_def queue_wf_def)

lemma QueuePut_wf [simp]: "queue_wf q \<Longrightarrow> queue_wf (QueuePut x q)"
  by (simp add: QueuePut_def QueueWrite_wf)

lemma QueueDropHead_wf' [simp]: "queue_wf q \<Longrightarrow> queue_wf (QueueDropHead q)"
  by (rule QueueDropHead_wf)

lemma queue_list_Put:
  assumes "queue_wf q"
  shows "queue_list (QueuePut x q) =
    (if queueEntries q < queueCapacity q - 1 then queue_list q @ [x] else queue_list q)"
proof -
  obtain d where d: "qdata q = Some d" "length d = queueCapacity q"
    using assms by (auto simp: queue_wf_def)
  have "tailIndex q < length d" using assms d by (auto simp: queue_wf_def)
  with assms d show ?thesis
    using queue_list_Write [OF QueueFill_wf [OF assms], of x] queue_list_Fill [OF assms, of x]
    by (auto simp: QueuePut_def QueueFill_wf_eq QueueWrite_no_room)
qed

lemma QueuePut_capacity [simp]: "queueCapacity (QueuePut x q) = queueCapacity q"
  by (auto simp: QueuePut_def QueueWrite_def Let_def)

lemma QueueDropHead_capacity [simp]: "queueCapacity (QueueDropHead q) = queueCapacity q"
  by (auto simp: QueueDropHead_def Let_def)

lemma queueEntries_Put:
  assumes "queue_wf q"
  shows "queueEntries (QueuePut x q) =
    (if queueEntries q < queueCapacity q - 1 then Suc (queueEntries q) else queueEntries q)"
  using arg_cong [OF queue_list_Put [OF assms, of x], of length] by (auto split: if_splits)

lemma queueEntries_DropHead:
  assumes "queue_wf q" shows "queueEntries (QueueDropHead q) = queueEntries q - 1"
  using arg_cong [OF queue_list_DropHead [OF assms], of length] by simp

lemma QueueHead_eq:
  assumes "queue_wf q"
  shows "QueueHead q = (if queue_list q = [] then None else Some (hd (queue_list q)))"
proof (cases "queueEntries q")
  case 0
  then show ?thesis by (simp add: QueueHead_def QueuePeek_def queue_list_Nil_iff)
next
  case (Suc n)
  have "hd (queue_list q) = the (qdata q) ! headIndex q"
    using assms Suc by (simp add: hd_conv_nth queue_list_Nil_iff queue_list_def queue_wf_def del: upt_Suc)
  with Suc assms queue_wf_valid [OF assms] queue_wf_head_slot [OF assms] show ?thesis
    by (simp add: QueueHead_def QueuePeek_def QueueDeref_def queue_list_Nil_iff)
qed

lemma QueuePokeHead_wf [simp]: "queue_wf q \<Longrightarrow> queue_wf (QueuePokeHead f q)"
  by (auto simp: QueuePokeHead_def QueueStore_def queue_wf_def split: option.splits)

lemma QueuePokeHead_fields [simp]:
  "queueCapacity (QueuePokeHead f q) = queueCapacity q"
  "queueEntries (QueuePokeHead f q) = queueEntries q"
  by (auto simp: QueuePokeHead_def QueueStore_def split: option.splits)

lemma queue_list_PokeHead:
  assumes "queue_wf q"
  shows "queue_list (QueuePokeHead f q) =
    (case queue_list q of [] \<Rightarrow> [] | x # xs \<Rightarrow> f x # xs)"
proof (cases "queueEntries q")
  case 0
  then show ?thesis
    by (simp add: QueuePokeHead_def QueuePeek_def queue_list_def)
next
  case (Suc n)
  obtain d where d: "qdata q = Some d" "length d = queueCapacity q"
    using assms by (auto simp: queue_wf_def)
  let ?h = "headIndex q" and ?c = "queueCapacity q"
  have poke: "QueuePokeHead f q = q\<lparr>qdata := Some (d[?h := f (d ! ?h)])\<rparr>"
    using Suc d assms queue_wf_valid [OF assms] queue_wf_head_slot [OF assms]
    by (simp add: QueuePokeHead_def QueuePeek_def QueueStore_def QueueDeref_def)
  have "d[?h := f (d ! ?h)] ! ((?h + Suc i) mod ?c) = d ! ((?h + Suc i) mod ?c)"
    if "i < n" for i
    using mod_add_neq [of 0 "Suc i" ?c ?h] that assms Suc
    by (auto simp: queue_wf_def intro!: nth_list_update_neq)
  moreover have "?h < length d" using assms d by (auto simp: queue_wf_def)
  ultimately have eq: "queue_list (QueuePokeHead f q) ! i =
      (if i = 0 then f (queue_list q ! 0) else queue_list q ! i)" if "i < Suc n" for i
    using Suc poke d that by (cases i) (simp_all add: queue_list_def del: upt_Suc)
  obtain x xs where xs: "queue_list q = x # xs"
    using Suc by (cases "queue_list q") (auto simp: queue_list_Nil_iff)
  have "length xs = n"
    using Suc xs length_queue_list [of q] by (simp del: length_queue_list)
  then have "queue_list (QueuePokeHead f q) = f x # xs"
    using Suc eq xs
    by (intro nth_equalityI) (auto simp: nth_Cons split: nat.splits)
  then show ?thesis using xs by simp
qed

text \<open>
  \<open>QueueFull\<close> asks for \<open>queueCapacity\<close> entries, \<open>QueueWrite\<close> stops at
  \<open>queueCapacity - 1\<close>: a well-formed queue never answers that it is full.
\<close>

lemma QueueFull_never [simp]: "queue_wf q \<Longrightarrow> \<not> QueueFull q"
  using queue_wf_valid [of q] by (auto simp: QueueFull_def queue_wf_def)

lemma QueueEmpty_iff [simp]: "queue_wf q \<Longrightarrow> QueueEmpty q \<longleftrightarrow> queue_list q = []"
  using queue_wf_valid [of q] by (auto simp: QueueEmpty_def queue_list_Nil_iff)

lemma queue_list_bound: "queue_wf q \<Longrightarrow> length (queue_list q) \<le> queue_room q"
  by (auto simp: queue_wf_def queue_room_def)

lemma QueueFlush_wf [simp]: "queue_wf q \<Longrightarrow> queue_wf (QueueFlush q)"
  by (auto simp: QueueFlush_def queue_wf_def)

lemma queue_list_Flush [simp]: "queue_wf q \<Longrightarrow> queue_list (QueueFlush q) = []"
  using queue_wf_valid [of q] by (simp add: QueueFlush_def queue_list_def)

section \<open>The interface the layers use\<close>

text \<open>
  A bounded first-in first-out store: the client puts entries, reads the front and drops
  it. What the layers rely on follows from these laws alone; a put beyond the room is lost
  without notice.
\<close>

locale bounded_fifo =
  fixes wf :: "'q \<Rightarrow> bool"
    and contents :: "'q \<Rightarrow> 'a list"
    and room :: "'q \<Rightarrow> nat"
    and put :: "'a \<Rightarrow> 'q \<Rightarrow> 'q"
    and dropq :: "'q \<Rightarrow> 'q"
    and front :: "'q \<Rightarrow> 'a option"
  assumes wf_put: "wf q \<Longrightarrow> wf (put x q)"
    and wf_drop: "wf q \<Longrightarrow> wf (dropq q)"
    and room_put: "wf q \<Longrightarrow> room (put x q) = room q"
    and room_drop: "wf q \<Longrightarrow> room (dropq q) = room q"
    and contents_put: "wf q \<Longrightarrow> contents (put x q) =
          (if length (contents q) < room q then contents q @ [x] else contents q)"
    and contents_drop: "wf q \<Longrightarrow> contents (dropq q) = tl (contents q)"
    and front_eq: "wf q \<Longrightarrow> front q =
          (if contents q = [] then None else Some (hd (contents q)))"
    and within_room: "wf q \<Longrightarrow> length (contents q) \<le> room q"
begin

lemma fold_put:
  assumes "wf q"
  shows "wf (fold put xs q)" and "room (fold put xs q) = room q"
    and "contents (fold put xs q) = contents q @ take (room q - length (contents q)) xs"
proof -
  have "wf (fold put xs q) \<and> room (fold put xs q) = room q \<and>
      contents (fold put xs q) = contents q @ take (room q - length (contents q)) xs"
    using assms
  proof (induction xs arbitrary: q)
    case Nil
    then show ?case by simp
  next
    case (Cons x xs)
    have IH: "wf (fold put xs (put x q)) \<and> room (fold put xs (put x q)) = room (put x q) \<and>
        contents (fold put xs (put x q)) =
          contents (put x q) @ take (room (put x q) - length (contents (put x q))) xs"
      using Cons.IH [OF wf_put [OF Cons.prems]] .
    show ?case
    proof (cases "length (contents q) < room q")
      case True
      then have "room q - length (contents q) = Suc (room q - Suc (length (contents q)))"
        by simp
      with IH True Cons.prems show ?thesis by (simp add: contents_put room_put)
    next
      case False
      then have "room q - length (contents q) = 0" by simp
      with IH False Cons.prems show ?thesis by (simp add: contents_put room_put)
    qed
  qed
  then show "wf (fold put xs q)" "room (fold put xs q) = room q"
    "contents (fold put xs q) = contents q @ take (room q - length (contents q)) xs"
    by auto
qed

lemma drop_n:
  assumes "wf q"
  shows "wf ((dropq ^^ n) q)" and "contents ((dropq ^^ n) q) = drop n (contents q)"
    and "room ((dropq ^^ n) q) = room q"
proof -
  have "wf ((dropq ^^ n) q) \<and> contents ((dropq ^^ n) q) = drop n (contents q) \<and>
      room ((dropq ^^ n) q) = room q"
    by (induction n) (auto simp: assms wf_drop contents_drop room_drop tl_drop drop_Suc)
  then show "wf ((dropq ^^ n) q)" "contents ((dropq ^^ n) q) = drop n (contents q)"
    "room ((dropq ^^ n) q) = room q" by auto
qed

text \<open>What fits comes out in the order it went in.\<close>

lemma fifo_order:
  assumes "wf q" and "contents q = []" and "length xs \<le> room q" and "n < length xs"
  shows "front ((dropq ^^ n) (fold put xs q)) = Some (xs ! n)"
proof -
  have c: "contents ((dropq ^^ n) (fold put xs q)) = drop n xs"
    using assms fold_put [OF assms(1), of xs] by (simp add: drop_n)
  have w: "wf ((dropq ^^ n) (fold put xs q))"
    using fold_put(1) [OF assms(1)] by (rule drop_n)
  show ?thesis using c assms(4) front_eq [OF w] by (simp add: hd_drop_conv_nth)
qed

text \<open>Once the room is used up a put changes nothing that can be read.\<close>

lemma put_full_lost:
  "wf q \<Longrightarrow> length (contents q) = room q \<Longrightarrow> contents (put x q) = contents q"
  by (simp add: contents_put)

lemma put_then_front:
  assumes "wf q" and "contents q \<noteq> []" shows "front (put x q) = front q"
  using assms by (simp add: front_eq wf_put contents_put)

end

interpretation lq: bounded_fifo queue_wf queue_list queue_room QueuePut QueueDropHead QueueHead
proof unfold_locales
  fix q :: "'a Queue" and x
  assume w: "queue_wf q"
  show "queue_wf (QueuePut x q)" using w by simp
  show "queue_wf (QueueDropHead q)" using w by simp
  show "queue_room (QueuePut x q) = queue_room q" by (simp add: queue_room_def)
  show "queue_room (QueueDropHead q) = queue_room q" by (simp add: queue_room_def)
  show "queue_list (QueuePut x q) =
      (if length (queue_list q) < queue_room q then queue_list q @ [x] else queue_list q)"
    using w by (simp add: queue_list_Put queue_room_def)
  show "queue_list (QueueDropHead q) = tl (queue_list q)" using w by simp
  show "QueueHead q = (if queue_list q = [] then None else Some (hd (queue_list q)))"
    using w by (rule QueueHead_eq)
  show "length (queue_list q) \<le> queue_room q" using w by (rule queue_list_bound)
qed

section \<open>Emitting an entry\<close>

lemma QueueEmit_eq_Put:
  "queue_wf q \<Longrightarrow> QueueEmit f q = QueuePut (f (QueueDeref q (qtail q))) q"
  using queue_wf_valid [of q] by (auto simp: QueueEmit_def QueueTail_def queue_wf_def)

lemma QueueEmit_wf [simp]: "queue_wf q \<Longrightarrow> queue_wf (QueueEmit f q)"
  by (simp add: QueueEmit_eq_Put)

lemma QueueEmit_capacity [simp]: "queueCapacity (QueueEmit f q) = queueCapacity q"
  by (auto simp: QueueEmit_def QueueWrite_def Let_def split: option.splits)

lemma queue_list_Emit:
  "queue_wf q \<Longrightarrow> queue_list (QueueEmit f q) =
     (if queueEntries q < queueCapacity q - 1
      then queue_list q @ [f (QueueDeref q (qtail q))] else queue_list q)"
  by (simp add: QueueEmit_eq_Put queue_list_Put)

lemma queueEntries_Emit:
  "queue_wf q \<Longrightarrow> queueEntries (QueueEmit f q) =
     (if queueEntries q < queueCapacity q - 1 then Suc (queueEntries q) else queueEntries q)"
  by (simp add: QueueEmit_eq_Put queueEntries_Put)

lemmas queue_facts =
  queue_list_Put queueEntries_Put queueEntries_DropHead QueueHead_eq queue_list_PokeHead
  queue_list_Emit queueEntries_Emit queue_wf_valid

section \<open>Properties\<close>

text \<open>
  C33. A queue is first in, first out, and holds \<open>queueCapacity - 1\<close> entries: of the entries
  written to an empty queue the first \<open>queueCapacity - 1\<close> are kept, in order, and reading
  and dropping the head \<open>n\<close> times reaches the one written as number \<open>n\<close>.
\<close>

theorem queue_is_fifo:
  assumes "queue_wf q" and "queue_list q = []"
  shows "queue_list (fold QueuePut xs q) = take (queueCapacity q - 1) xs \<and>
    queue_wf (fold QueuePut xs q) \<and>
    (\<forall>n. n < length xs \<and> length xs \<le> queueCapacity q - 1 \<longrightarrow>
      QueueHead ((QueueDropHead ^^ n) (fold QueuePut xs q)) = Some (xs ! n))"
  using lq.fold_put [OF assms(1), of xs] lq.fifo_order [OF assms(1,2)] assms(2)
  by (simp add: queue_room_def)

theorem queue_is_fifo_witness:
  "let q = snd (QueueInit undefined None 4 3 (Some [0, 1, 2 :: nat]))
   in queue_list (fold QueuePut [7, 8, 9] q) = [7, 8]"
proof -
  obtain st q where q: "QueueInit undefined None 4 3 (Some [0, 1, 2 :: nat]) = (st, q)" by force
  have "queue_wf q" "queue_list q = []" "queueCapacity q = 3"
    using QueueInit_wf [OF q] by simp_all
  then show ?thesis using queue_is_fifo [of q "[7, 8, 9]"] q by (simp add: Let_def)
qed

text \<open>
  The test for a full queue and the write disagree by one entry: a well-formed queue
  never answers that it is full, and yet a queue with \<open>queueCapacity - 1\<close> entries, for
  which the test has just said that there is room, silently loses the next entry. A queue
  of capacity one, which is what buffer count code 2 decodes to, holds nothing at all.
\<close>

theorem queue_full_test_loses_entry:
  assumes "queue_wf q" and "queueEntries q = queueCapacity q - 1"
  shows "\<not> QueueFull q \<and> QueueTail q \<noteq> None \<and> queue_list (QueuePut x q) = queue_list q \<and>
    (queueCapacity q = 1 \<longrightarrow> queue_list (fold QueuePut xs q) = [])"
proof -
  have "queue_list (fold QueuePut xs q) = []" if "queueCapacity q = 1"
    using that assms lq.fold_put [OF assms(1), of xs]
    by (simp add: queue_room_def queue_list_Nil_iff)
  then show ?thesis
    using assms queue_wf_valid [OF assms(1)]
    by (auto simp: queue_list_Put QueueTail_def queue_wf_def)
qed

theorem queue_full_test_loses_entry_witness:
  "let q = snd (QueueInit undefined None 4 1 (Some [0 :: nat]))
   in \<not> QueueFull q \<and> queue_list (fold QueuePut [7, 8] q) = []"
proof -
  obtain st q where q: "QueueInit undefined None 4 1 (Some [0 :: nat]) = (st, q)" by force
  have "queue_wf q" "queue_list q = []" "queueCapacity q = 1"
    using QueueInit_wf [OF q] by simp_all
  then show ?thesis
    using queue_full_test_loses_entry [of q _ "[7, 8]"] q
    by (simp add: Let_def queue_list_Nil_iff)
qed

end
