(* ===== verification/Lcs_Ring.thy ===== *)
theory Lcs_Ring
  imports Lcs_Queue
begin

text \<open>
  \<^verbatim>\<open>lcs/lcs_queue.c\<close>, ring buffers: a byte stream in a fixed array of
  \<open>RING_BUFFER_MAX_CAPACITY\<close> bytes, of which the first \<open>rb_size\<close> are used. The copy
  loops are \<^theory_text>\<open>partial_function (option)\<close>: \<open>None\<close> would be a loop that never ends
  (an index that left the used area makes every chunk empty); on a well-formed buffer they
  return, which is proved with what they compute.
\<close>

section \<open>State and operations\<close>

definition RING_BUFFER_MAX_CAPACITY :: nat where
  "RING_BUFFER_MAX_CAPACITY = 2048"

record RingBuffer =
  rb_size :: nat
  rb_head :: nat
  rb_tail :: nat
  rb_count :: nat
  rb_data :: bytes

definition RingBufferInit :: "RingBuffer \<Rightarrow> nat \<Rightarrow> LonStatusCode \<times> RingBuffer" where
  "RingBufferInit rb capacity =
     (if capacity = 0 then (LonStatusInvalidParameter, rb)
      else if capacity > RING_BUFFER_MAX_CAPACITY then (LonStatusInvalidParameter, rb)
      else (LonStatusNoError,
            rb\<lparr>rb_size := capacity, rb_head := 0, rb_tail := 0, rb_count := 0\<rparr>))"

definition RingBufferAvail :: "RingBuffer \<Rightarrow> nat" where
  "RingBufferAvail rb = rb_size rb - rb_count rb"

definition RingBufferSize :: "RingBuffer \<Rightarrow> nat" where
  "RingBufferSize rb = rb_count rb"

definition RingBufferClear :: "RingBuffer \<Rightarrow> RingBuffer" where
  "RingBufferClear rb = rb\<lparr>rb_head := 0, rb_tail := 0, rb_count := 0\<rparr>"

partial_function (option) rb_write_loop ::
    "bytes \<Rightarrow> nat \<Rightarrow> RingBuffer \<Rightarrow> nat \<Rightarrow> (nat \<times> RingBuffer) option" where
  "rb_write_loop src to_write rb written =
     (if written < to_write then
        (let space_end = rb_size rb - rb_head rb;
             chunk = (if to_write - written > space_end then space_end
                      else to_write - written)
         in rb_write_loop src to_write
              (rb\<lparr>rb_data := copy_into (rb_data rb) (rb_head rb) (bytes_from src written chunk),
                  rb_head := (rb_head rb + chunk) mod rb_size rb,
                  rb_count := rb_count rb + chunk\<rparr>)
              (written + chunk))
      else Some (written, rb))"

definition RingBufferWrite :: "RingBuffer \<Rightarrow> bytes \<Rightarrow> nat \<Rightarrow> (nat \<times> RingBuffer) option" where
  "RingBufferWrite rb src len =
     (if len = 0 then Some (0, rb)
      else
        (let space = RingBufferAvail rb;
             to_write = (if len > space then space else len)
         in rb_write_loop src to_write rb 0))"

text \<open>\<open>dst\<close> is the destination written so far; the result is the bytes peeked.\<close>

partial_function (option) rb_peek_loop ::
    "RingBuffer \<Rightarrow> nat \<Rightarrow> nat \<Rightarrow> bytes \<Rightarrow> bytes option" where
  "rb_peek_loop rb to_read t dst =
     (if length dst < to_read then
        (let avail_end = rb_size rb - t;
             chunk = (if to_read - length dst > avail_end then avail_end
                      else to_read - length dst)
         in rb_peek_loop rb to_read ((t + chunk) mod rb_size rb)
              (dst @ bytes_from (rb_data rb) t chunk))
      else Some dst)"

definition RingBufferPeek :: "RingBuffer \<Rightarrow> nat \<Rightarrow> bytes option" where
  "RingBufferPeek rb len =
     (if len = 0 then Some []
      else rb_peek_loop rb (if len > rb_count rb then rb_count rb else len) (rb_tail rb) [])"

definition RingBufferRead :: "RingBuffer \<Rightarrow> nat \<Rightarrow> (bytes \<times> RingBuffer) option" where
  "RingBufferRead rb len =
     (if len = 0 then Some ([], rb)
      else
        (case RingBufferPeek rb len of
           None \<Rightarrow> None
         | Some got \<Rightarrow>
             Some (got, rb\<lparr>rb_tail := (rb_tail rb + length got) mod rb_size rb,
                            rb_count := rb_count rb - length got\<rparr>)))"

section \<open>Well-formed buffers and their contents\<close>

definition rb_wf :: "RingBuffer \<Rightarrow> bool" where
  "rb_wf rb \<longleftrightarrow> 0 < rb_size rb \<and> rb_size rb \<le> length (rb_data rb) \<and>
     rb_tail rb < rb_size rb \<and> rb_count rb \<le> rb_size rb \<and>
     rb_head rb = (rb_tail rb + rb_count rb) mod rb_size rb"

definition rb_list :: "RingBuffer \<Rightarrow> bytes" where
  "rb_list rb =
     map (\<lambda>i. rb_data rb ! ((rb_tail rb + i) mod rb_size rb)) [0..<rb_count rb]"

lemma length_rb_list [simp]: "length (rb_list rb) = rb_count rb"
  by (simp add: rb_list_def)

lemma RingBufferInit_wf:
  assumes "0 < n" and "n \<le> RING_BUFFER_MAX_CAPACITY"
    and "length (rb_data rb) = RING_BUFFER_MAX_CAPACITY"
  shows "fst (RingBufferInit rb n) = LonStatusNoError" and "rb_wf (snd (RingBufferInit rb n))"
    and "rb_list (snd (RingBufferInit rb n)) = []"
    and "rb_size (snd (RingBufferInit rb n)) = n"
  using assms by (auto simp: RingBufferInit_def rb_wf_def rb_list_def)

lemma RingBufferClear_wf: "rb_wf rb \<Longrightarrow> rb_wf (RingBufferClear rb)"
  by (auto simp: RingBufferClear_def rb_wf_def)

lemma rb_list_Clear: "rb_list (RingBufferClear rb) = []"
  by (simp add: RingBufferClear_def rb_list_def)

subsection \<open>One chunk of a write\<close>

definition rb_append :: "RingBuffer \<Rightarrow> bytes \<Rightarrow> RingBuffer" where
  "rb_append rb bs =
     rb\<lparr>rb_data := copy_into (rb_data rb) (rb_head rb) bs,
        rb_head := (rb_head rb + length bs) mod rb_size rb,
        rb_count := rb_count rb + length bs\<rparr>"

lemma rb_append_facts:
  assumes w: "rb_wf rb" and e: "length bs \<le> rb_size rb - rb_head rb"
    and s: "length bs \<le> rb_size rb - rb_count rb"
  shows "rb_wf (rb_append rb bs)" and "rb_list (rb_append rb bs) = rb_list rb @ bs"
    and "rb_size (rb_append rb bs) = rb_size rb"
    and "rb_count (rb_append rb bs) = rb_count rb + length bs"
proof -
  let ?n = "rb_size rb" and ?t = "rb_tail rb" and ?h = "rb_head rb" and ?c = "rb_count rb"
  have n: "0 < ?n" "?n \<le> length (rb_data rb)" "?c \<le> ?n" "?h = (?t + ?c) mod ?n" "?h < ?n"
    using w by (auto simp: rb_wf_def)
  have fits: "?h + length bs \<le> length (rb_data rb)" using n e by simp
  have old: "copy_into (rb_data rb) ?h bs ! ((?t + i) mod ?n) = rb_data rb ! ((?t + i) mod ?n)"
    if i: "i < ?c" for i
  proof -
    have "(?t + i) mod ?n \<noteq> ?h + j" if j: "j < length bs" for j
    proof -
      have "?h + j < ?n" using j e by simp
      then have "?h + j = (?t + (?c + j)) mod ?n"
        using n(4) by (metis add.assoc mod_add_left_eq mod_less)
      moreover have "(?t + i) mod ?n \<noteq> (?t + (?c + j)) mod ?n"
        using i j s n(3) by (intro mod_add_neq) auto
      ultimately show ?thesis by simp
    qed
    then have "\<not> (?h \<le> (?t + i) mod ?n \<and> (?t + i) mod ?n < ?h + length bs)"
      by (metis add_diff_inverse_nat less_diff_conv2 linorder_not_le nat_add_left_cancel_less)
    moreover have "(?t + i) mod ?n < length (rb_data rb)"
      using n by (meson less_le_trans mod_less_divisor)
    ultimately show ?thesis using fits by (auto simp: nth_copy_into)
  qed
  have new: "copy_into (rb_data rb) ?h bs ! ((?t + (?c + j)) mod ?n) = bs ! j"
    if j: "j < length bs" for j
  proof -
    have "?h + j < ?n" using j e by simp
    then have "(?t + (?c + j)) mod ?n = ?h + j"
      using n(4) by (metis add.assoc mod_add_left_eq mod_less)
    then show ?thesis using fits j by (simp add: nth_copy_into)
  qed
  show "rb_list (rb_append rb bs) = rb_list rb @ bs"
  proof (rule nth_equalityI)
    fix i assume "i < length (rb_list (rb_append rb bs))"
    then have "i < ?c + length bs" by (simp add: rb_append_def)
    then show "rb_list (rb_append rb bs) ! i = (rb_list rb @ bs) ! i"
      using old [of i] new [of "i - ?c"]
      by (cases "i < ?c") (auto simp: rb_append_def rb_list_def nth_append)
  qed (simp add: rb_append_def)
  show "rb_wf (rb_append rb bs)"
    using w s fits by (auto simp: rb_append_def rb_wf_def mod_add_left_eq add.assoc)
qed (simp_all add: rb_append_def)

lemma rb_write_loop_Some:
  assumes "rb_wf rb" and "to_write - written \<le> rb_size rb - rb_count rb"
    and "written \<le> to_write"
  shows "\<exists>rb'. rb_write_loop src to_write rb written = Some (to_write, rb') \<and> rb_wf rb' \<and>
    rb_size rb' = rb_size rb \<and>
    rb_list rb' = rb_list rb @ bytes_from src written (to_write - written)"
  using assms
proof (induction "to_write - written" arbitrary: rb written rule: less_induct)
  case less
  show ?case
  proof (cases "written < to_write")
    case False
    then show ?thesis
      using less.prems by (simp add: rb_write_loop.simps [of src to_write] bytes_from_def)
  next
    case True
    define chunk where "chunk = (if to_write - written > rb_size rb - rb_head rb
      then rb_size rb - rb_head rb else to_write - written)"
    let ?bs = "bytes_from src written chunk"
    let ?rb = "rb_append rb ?bs"
    have "rb_head rb < rb_size rb" using less.prems(1) by (auto simp: rb_wf_def)
    then have c: "0 < chunk" "chunk \<le> to_write - written" "chunk \<le> rb_size rb - rb_head rb"
      using True by (auto simp: chunk_def)
    have a: "rb_wf ?rb" "rb_list ?rb = rb_list rb @ ?bs" "rb_size ?rb = rb_size rb"
      "rb_count ?rb = rb_count rb + chunk"
      using rb_append_facts [OF less.prems(1), of ?bs] c less.prems(2) by auto
    have unfold: "rb_write_loop src to_write rb written =
        rb_write_loop src to_write ?rb (written + chunk)"
      using True by (simp add: rb_write_loop.simps [of src to_write rb] Let_def rb_append_def
          chunk_def [symmetric])
    have bs: "bytes_from src written (to_write - written) =
        ?bs @ bytes_from src (written + chunk) (to_write - (written + chunk))"
      using c by (intro nth_equalityI) (auto simp: nth_append)
    show ?thesis
      using less.hyps [of "written + chunk" ?rb] a bs c unfold less.prems(2) by auto
  qed
qed

lemma RingBufferWrite_Some:
  assumes "rb_wf rb"
  shows "\<exists>rb'. RingBufferWrite rb src len = Some (min len (rb_size rb - rb_count rb), rb') \<and>
    rb_wf rb' \<and> rb_size rb' = rb_size rb \<and>
    rb_list rb' = rb_list rb @ bytes_from src 0 (min len (rb_size rb - rb_count rb))"
proof -
  let ?w = "min len (rb_size rb - rb_count rb)"
  have "RingBufferWrite rb src len = (if len = 0 then Some (0, rb) else rb_write_loop src ?w rb 0)"
    by (simp add: RingBufferWrite_def RingBufferAvail_def min_def)
  then show ?thesis
    using rb_write_loop_Some [OF assms, of ?w 0 src] assms by (auto simp: bytes_from_def)
qed

subsection \<open>Peeking and reading\<close>

lemma rb_peek_loop_Some:
  assumes "rb_wf rb" and "to_read \<le> rb_count rb" and "length dst \<le> to_read"
    and "dst = take (length dst) (rb_list rb)"
    and "t = (rb_tail rb + length dst) mod rb_size rb"
  shows "rb_peek_loop rb to_read t dst = Some (take to_read (rb_list rb))"
  using assms(3-)
proof (induction "to_read - length dst" arbitrary: dst t rule: less_induct)
  case less
  show ?case
  proof (cases "length dst < to_read")
    case False
    then show ?thesis
      using less.prems by (simp add: rb_peek_loop.simps [of rb to_read])
  next
    case True
    let ?n = "rb_size rb"
    have n: "0 < ?n" "?n \<le> length (rb_data rb)" using assms(1) by (auto simp: rb_wf_def)
    then have t: "t < ?n" using less.prems by simp
    define chunk where "chunk = (if to_read - length dst > ?n - t then ?n - t
      else to_read - length dst)"
    have c: "0 < chunk" "chunk \<le> to_read - length dst" "chunk \<le> ?n - t"
      using True t by (auto simp: chunk_def)
    let ?dst = "dst @ bytes_from (rb_data rb) t chunk"
    have unfold: "rb_peek_loop rb to_read t dst =
        rb_peek_loop rb to_read ((t + chunk) mod ?n) ?dst"
      using True by (simp add: rb_peek_loop.simps [of rb to_read t] Let_def chunk_def [symmetric])
    have "rb_data rb ! (t + j) = rb_list rb ! (length dst + j)" if "j < chunk" for j
    proof -
      have "(rb_tail rb + (length dst + j)) mod ?n = (t + j) mod ?n"
        using less.prems(3) by (simp add: mod_add_left_eq add.assoc)
      then show ?thesis
        using that c assms(2) by (simp add: rb_list_def)
    qed
    then have "bytes_from (rb_data rb) t chunk = take chunk (drop (length dst) (rb_list rb))"
      using c n assms(2) by (intro nth_equalityI) auto
    then have d: "?dst = take (length ?dst) (rb_list rb)"
      using less.prems(2) c assms(2) by (simp add: take_add min_absorb2)
    have t': "(t + chunk) mod ?n = (rb_tail rb + length ?dst) mod ?n"
      using less.prems(3) by (simp add: mod_add_left_eq add.assoc)
    show ?thesis
      unfolding unfold by (rule less.hyps [OF _ _ d t']) (use c True in auto)
  qed
qed

lemma RingBufferPeek_Some:
  assumes "rb_wf rb" shows "RingBufferPeek rb len = Some (take len (rb_list rb))"
proof -
  have "RingBufferPeek rb len =
      (if len = 0 then Some [] else rb_peek_loop rb (min len (rb_count rb)) (rb_tail rb) [])"
    by (simp add: RingBufferPeek_def min_def)
  moreover have "rb_peek_loop rb (min len (rb_count rb)) (rb_tail rb) [] =
      Some (take (min len (rb_count rb)) (rb_list rb))"
    using assms by (intro rb_peek_loop_Some) (auto simp: rb_wf_def)
  moreover have "take (min len (rb_count rb)) (rb_list rb) = take len (rb_list rb)"
    by (simp add: min_def)
  ultimately show ?thesis by simp
qed

lemma RingBufferRead_Some:
  assumes w: "rb_wf rb"
  shows "\<exists>rb'. RingBufferRead rb len = Some (take len (rb_list rb), rb') \<and> rb_wf rb' \<and>
    rb_size rb' = rb_size rb \<and> rb_list rb' = drop len (rb_list rb)"
proof -
  let ?k = "min len (rb_count rb)"
  let ?rb = "rb\<lparr>rb_tail := (rb_tail rb + ?k) mod rb_size rb, rb_count := rb_count rb - ?k\<rparr>"
  have n: "0 < rb_size rb" "rb_tail rb < rb_size rb" using w by (auto simp: rb_wf_def)
  have "rb_tail rb + ?k + (rb_count rb - ?k) = rb_tail rb + rb_count rb" by simp
  then have "((rb_tail rb + ?k) mod rb_size rb + (rb_count rb - ?k)) mod rb_size rb =
      (rb_tail rb + rb_count rb) mod rb_size rb"
    by (metis mod_add_left_eq)
  then have wf: "rb_wf ?rb" using w by (simp add: rb_wf_def le_diff_conv trans_le_add1)
  have list: "rb_list ?rb = drop len (rb_list rb)"
    by (rule nth_equalityI) (auto simp: rb_list_def mod_add_left_eq min_def add.assoc)
  show ?thesis
  proof (cases "len = 0")
    case True
    then show ?thesis using w by (simp add: RingBufferRead_def)
  next
    case False
    then have "RingBufferRead rb len = Some (take len (rb_list rb), ?rb)"
      by (simp add: RingBufferRead_def RingBufferPeek_Some [OF w] min.commute)
    then show ?thesis using wf list by auto
  qed
qed

section \<open>The ring buffer as a bounded first-in first-out store of bytes\<close>

text \<open>One-byte writes and reads give the interface of \<open>bounded_fifo\<close>, here with the whole
  capacity as its room.\<close>

definition rb_put :: "u8 \<Rightarrow> RingBuffer \<Rightarrow> RingBuffer" where
  "rb_put b rb = (case RingBufferWrite rb [b] 1 of None \<Rightarrow> rb | Some (_, rb') \<Rightarrow> rb')"

definition rb_drop :: "RingBuffer \<Rightarrow> RingBuffer" where
  "rb_drop rb = (case RingBufferRead rb 1 of None \<Rightarrow> rb | Some (_, rb') \<Rightarrow> rb')"

definition rb_front :: "RingBuffer \<Rightarrow> u8 option" where
  "rb_front rb = (case RingBufferPeek rb 1 of Some (b # _) \<Rightarrow> Some b | _ \<Rightarrow> None)"

lemma rb_put_facts:
  assumes w: "rb_wf rb"
  shows "rb_wf (rb_put b rb) \<and> rb_size (rb_put b rb) = rb_size rb \<and>
    rb_list (rb_put b rb) =
      (if rb_count rb < rb_size rb then rb_list rb @ [b] else rb_list rb)"
proof -
  let ?k = "min 1 (rb_size rb - rb_count rb)"
  obtain rb' where r: "RingBufferWrite rb [b] 1 = Some (?k, rb')" "rb_wf rb'"
    "rb_size rb' = rb_size rb" "rb_list rb' = rb_list rb @ bytes_from [b] 0 ?k"
    using RingBufferWrite_Some [OF w, of "[b]" 1] by blast
  moreover have "bytes_from [b] 0 ?k = (if rb_count rb < rb_size rb then [b] else [])"
    by (auto simp: bytes_from_def)
  ultimately show ?thesis by (simp add: rb_put_def)
qed

lemma rb_drop_facts:
  assumes w: "rb_wf rb"
  shows "rb_wf (rb_drop rb) \<and> rb_size (rb_drop rb) = rb_size rb \<and>
    rb_list (rb_drop rb) = tl (rb_list rb)"
  using RingBufferRead_Some [OF w, of 1] by (auto simp: rb_drop_def drop_Suc)

lemma rb_front_eq:
  assumes w: "rb_wf rb"
  shows "rb_front rb = (if rb_list rb = [] then None else Some (hd (rb_list rb)))"
  by (cases "rb_list rb") (simp_all add: rb_front_def RingBufferPeek_Some [OF w])

interpretation rbq: bounded_fifo rb_wf rb_list rb_size rb_put rb_drop rb_front
proof unfold_locales
  fix rb :: RingBuffer and x
  assume w: "rb_wf rb"
  show "rb_wf (rb_put x rb)" "rb_size (rb_put x rb) = rb_size rb"
    "rb_list (rb_put x rb) =
      (if length (rb_list rb) < rb_size rb then rb_list rb @ [x] else rb_list rb)"
    using rb_put_facts [OF w, of x] by auto
  show "rb_wf (rb_drop rb)" "rb_size (rb_drop rb) = rb_size rb"
    "rb_list (rb_drop rb) = tl (rb_list rb)"
    using rb_drop_facts [OF w] by auto
  show "rb_front rb = (if rb_list rb = [] then None else Some (hd (rb_list rb)))"
    using w by (rule rb_front_eq)
  show "length (rb_list rb) \<le> rb_size rb" using w by (simp add: rb_wf_def)
qed

section \<open>Properties\<close>

text \<open>
  Writing to a ring buffer and reading from it always return, whatever the sizes and
  however the data wraps around: a write stores the longest prefix that fits and says how
  much it stored, a later read returns the oldest bytes in order, and reading back at least
  as many bytes as the buffer holds returns what was there followed by what was written.
\<close>

theorem ring_write_read:
  assumes "rb_wf rb"
  shows "\<exists>n rb1 got rb2. RingBufferWrite rb src len = Some (n, rb1) \<and>
    n = min len (rb_size rb - rb_count rb) \<and>
    RingBufferRead rb1 k = Some (got, rb2) \<and> rb_wf rb2 \<and>
    got @ rb_list rb2 = rb_list rb @ bytes_from src 0 n \<and>
    (rb_count rb + n \<le> k \<longrightarrow> got = rb_list rb @ bytes_from src 0 n)"
proof -
  obtain rb1 where w: "RingBufferWrite rb src len = Some (min len (rb_size rb - rb_count rb), rb1)"
    "rb_wf rb1" "rb_list rb1 = rb_list rb @ bytes_from src 0 (min len (rb_size rb - rb_count rb))"
    using RingBufferWrite_Some [OF assms] by blast
  obtain rb2 where r: "RingBufferRead rb1 k = Some (take k (rb_list rb1), rb2)" "rb_wf rb2"
    "rb_list rb2 = drop k (rb_list rb1)"
    using RingBufferRead_Some [OF w(2)] by blast
  let ?L = "rb_list rb @ bytes_from src 0 (min len (rb_size rb - rb_count rb))"
  have a: "take k (rb_list rb1) @ rb_list rb2 = ?L" using r(3) w(3) by (metis append_take_drop_id)
  have b: "rb_count rb + min len (rb_size rb - rb_count rb) \<le> k \<Longrightarrow> take k (rb_list rb1) = ?L"
    using w(3) by (simp only: take_all_iff length_append length_rb_list length_bytes_from)
  show ?thesis
    by (intro exI conjI impI) (rule w(1), rule refl, rule r(1), rule r(2), rule a, erule b)
qed

theorem ring_write_read_witness:
  "\<exists>rb1 got rb2. RingBufferWrite
      \<lparr>rb_size = 4, rb_head = 0, rb_tail = 3, rb_count = 1, rb_data = [9, 9, 9, 7]\<rparr> [1, 2, 3] 3
      = Some (3, rb1) \<and> RingBufferRead rb1 4 = Some ([7, 1, 2, 3], rb2)"
proof -
  let ?rb = "\<lparr>rb_size = 4, rb_head = 0, rb_tail = 3, rb_count = 1, rb_data = [9, 9, 9, 7]\<rparr>"
  have "rb_wf ?rb" by (simp add: rb_wf_def)
  then show ?thesis
    using ring_write_read [of ?rb "[1, 2, 3]" 3 4] by (auto simp: rb_list_def bytes_from_eq_take)
qed

end
