(* ===== verification/Lcs_Timer.thy ===== *)
theory Lcs_Timer
  imports Prelude
begin

text \<open>
  \<^verbatim>\<open>lcs/lcs_timer.c\<close>: millisecond timers and stopwatches over the free running 32-bit tick
  counter. \<open>now\<close> is the value \<open>OsalGetTickCount\<close> returns during the call. The timers of the
  stack are fields of its structures, so the null pointer tests never fire and are left out;
  \<open>ElapsedTimeToMs\<close>, which takes a caller's pointer, keeps its test.
\<close>

section \<open>Timers\<close>

record LonTimer =
  expiration :: u32
  repeatTimeout :: u32

definition LON_TIMER_MAX_DURATION :: u32 where
  "LON_TIMER_MAX_DURATION = 0x7FFFFFFF"

definition SetLonTimer :: "u32 \<Rightarrow> LonTimer \<Rightarrow> u32 \<Rightarrow> LonTimer" where
  "SetLonTimer now timer duration =
     (if duration \<noteq> 0 then
        (let duration = min duration LON_TIMER_MAX_DURATION;
             timer = timer\<lparr>repeatTimeout := 0, expiration := now + duration\<rparr>
         in if expiration timer = 0 then timer\<lparr>expiration := 1\<rparr> else timer)
      else timer\<lparr>expiration := 0\<rparr>)"

definition SetLonRepeatTimer :: "u32 \<Rightarrow> LonTimer \<Rightarrow> u32 \<Rightarrow> u32 \<Rightarrow> LonTimer" where
  "SetLonRepeatTimer now timer first_duration repeat_duration =
     (let first_duration = min first_duration LON_TIMER_MAX_DURATION;
          repeat_duration = min repeat_duration LON_TIMER_MAX_DURATION
      in (SetLonTimer now timer first_duration)\<lparr>repeatTimeout := repeat_duration\<rparr>)"

definition LonTimerExpired :: "u32 \<Rightarrow> LonTimer \<Rightarrow> bool \<times> LonTimer" where
  "LonTimerExpired now timer =
     (if expiration timer = 0 then (False, timer)
      else
        (let delta = expiration timer - now;
             isExpired = (expiration timer \<noteq> 0 \<and> sint delta \<le> 0)
         in if isExpired then
              (let timer = timer\<lparr>expiration := 0\<rparr>
               in if repeatTimeout timer \<noteq> 0 then
                    (let t = repeatTimeout timer;
                         delta = (if sint (t + delta) < 0 then 0 else delta)
                     in (isExpired, (SetLonTimer now timer (t + delta))\<lparr>repeatTimeout := t\<rparr>))
                  else (isExpired, timer))
            else (isExpired, timer)))"

definition LonTimerRunning :: "u32 \<Rightarrow> LonTimer \<Rightarrow> bool" where
  "LonTimerRunning now timer \<longleftrightarrow> expiration timer \<noteq> 0 \<and> sint (expiration timer - now) > 0"

definition LonTimerRemaining :: "u32 \<Rightarrow> LonTimer \<Rightarrow> u32" where
  "LonTimerRemaining now timer = (if LonTimerRunning now timer then expiration timer - now else 0)"

section \<open>Stopwatches\<close>

record LonWatch =
  start :: u32

definition StartLonWatch :: "u32 \<Rightarrow> LonWatch \<Rightarrow> LonWatch" where
  "StartLonWatch now watch = watch\<lparr>start := now\<rparr>"

definition StopLonWatch :: "LonWatch \<Rightarrow> LonWatch" where
  "StopLonWatch watch = watch\<lparr>start := 0\<rparr>"

definition LonWatchElapsed :: "u32 \<Rightarrow> LonWatch \<Rightarrow> u32" where
  "LonWatchElapsed now watch = (if start watch \<noteq> 0 then now - start watch else 0)"

section \<open>SNVT_elapsed_tm to milliseconds\<close>

text \<open>\<open>IzotWord\<close> is two bytes, read with \<open>IZOT_GET_UNSIGNED_WORD\<close>.\<close>

record IzotWord =
  msb :: u8
  lsb :: u8

definition IZOT_GET_UNSIGNED_WORD :: "IzotWord \<Rightarrow> u16" where
  "IZOT_GET_UNSIGNED_WORD n = push_bit 8 (ucast (msb n)) + ucast (lsb n)"

definition IZOT_SET_UNSIGNED_WORD :: "u16 \<Rightarrow> IzotWord" where
  "IZOT_SET_UNSIGNED_WORD v = \<lparr>msb = ucast (drop_bit 8 v), lsb = ucast v\<rparr>"

record SNVT_elapsed_tm =
  day :: IzotWord
  hour :: u8
  minute :: u8
  second :: u8
  millisecond :: IzotWord

text \<open>The products are stored in \<open>uint32_t\<close> variables, so they are taken modulo \<open>2 ^ 32\<close>.\<close>

definition ElapsedTimeToMs :: "SNVT_elapsed_tm option \<Rightarrow> u32" where
  "ElapsedTimeToMs elapsed_time =
     (case elapsed_time of
        None \<Rightarrow> 0
      | Some e \<Rightarrow>
          (let days = IZOT_GET_UNSIGNED_WORD (day e)
           in if days = 0xFFFF then LON_TIMER_MAX_DURATION
              else if days \<ge> 50 then LON_TIMER_MAX_DURATION
              else
           (let total_ms = (ucast days :: u32) * 864000000;
                hours_ms = (ucast (hour e) :: u32) * 3600000
            in if total_ms > LON_TIMER_MAX_DURATION - hours_ms then LON_TIMER_MAX_DURATION
               else
           (let total_ms = total_ms + hours_ms;
                minutes_ms = (ucast (minute e) :: u32) * 60000
            in if total_ms > LON_TIMER_MAX_DURATION - minutes_ms then LON_TIMER_MAX_DURATION
               else
           (let total_ms = total_ms + minutes_ms;
                seconds_ms = (ucast (second e) :: u32) * 1000
            in if total_ms > LON_TIMER_MAX_DURATION - seconds_ms then LON_TIMER_MAX_DURATION
               else
           (let total_ms = total_ms + seconds_ms;
                milliseconds = (ucast (IZOT_GET_UNSIGNED_WORD (millisecond e)) :: u32)
            in if total_ms > LON_TIMER_MAX_DURATION - milliseconds then LON_TIMER_MAX_DURATION
               else total_ms + milliseconds))))))"

section \<open>Signed differences of tick counts\<close>

lemma sint_of_int_32: "- (2 ^ 31) \<le> x \<Longrightarrow> x < 2 ^ 31 \<Longrightarrow> sint (word_of_int x :: u32) = x"
  by (simp add: signed_of_int signed_take_bit_int_eq_self)

lemma sint_tick_difference:
  assumes "- (2 ^ 31) \<le> int a - int b" and "int a - int b < 2 ^ 31"
  shows "sint ((of_nat a :: u32) - of_nat b) = int a - int b"
proof -
  have "(of_nat a :: u32) - of_nat b = word_of_int (int a - int b)" by simp
  then show ?thesis using assms by (simp only: sint_of_int_32)
qed

text \<open>
  When a one-shot timer set at \<open>now\<close> for \<open>d\<close> ms falls due, in ms after \<open>now\<close>: one ms late
  when the expiration would be the reserved value 0.
\<close>

definition timer_due :: "u32 \<Rightarrow> u32 \<Rightarrow> nat" where
  "timer_due now d =
     unat (min d LON_TIMER_MAX_DURATION) +
     (if now + min d LON_TIMER_MAX_DURATION = 0 then 1 else 0)"

lemma expiration_SetLonTimer:
  "d \<noteq> 0 \<Longrightarrow> expiration (SetLonTimer now timer d) = now + of_nat (timer_due now d)"
  by (cases "now + min d LON_TIMER_MAX_DURATION = 0")
    (simp_all add: SetLonTimer_def timer_due_def Let_def add.assoc [symmetric])

lemma SetLonTimer_facts [simp]:
  "d \<noteq> 0 \<Longrightarrow> repeatTimeout (SetLonTimer now timer d) = 0"
  "d \<noteq> 0 \<Longrightarrow> expiration (SetLonTimer now timer d) \<noteq> 0"
  "SetLonTimer now timer 0 = timer\<lparr>expiration := 0\<rparr>"
  by (auto simp: SetLonTimer_def Let_def)

lemma due_not_reserved [simp]: "d \<noteq> 0 \<Longrightarrow> now + of_nat (timer_due now d) \<noteq> 0"
  using SetLonTimer_facts(2) [of d now undefined] by (simp add: expiration_SetLonTimer)

lemma timer_due_pos: "d \<noteq> 0 \<Longrightarrow> 0 < timer_due now d"
  by (auto simp: timer_due_def unat_gt_0 min_def LON_TIMER_MAX_DURATION_def)

lemma timer_due_le: "timer_due now d \<le> 2 ^ 31"
proof -
  have "unat (min d LON_TIMER_MAX_DURATION) \<le> unat LON_TIMER_MAX_DURATION"
    by (simp add: word_le_nat_alt [symmetric])
  then show ?thesis by (simp add: timer_due_def LON_TIMER_MAX_DURATION_def)
qed

text \<open>The signed difference of a due time and a later (or earlier) tick of the same period.\<close>

lemma sint_due_difference:
  assumes "due < 2 ^ 31" and "a \<le> due + 2 ^ 31"
  shows "sint ((now + of_nat due) - (now + of_nat a) :: u32) = int due - int a"
proof -
  have "(now + of_nat due) - (now + of_nat a) = (of_nat due - of_nat a :: u32)" by simp
  then show ?thesis using sint_tick_difference [of due a] assms by simp
qed

section \<open>One-shot timers\<close>

text \<open>Polling a timer at a sequence of ages, each in ms after \<open>now\<close>: what each poll says.\<close>

fun poll :: "u32 \<Rightarrow> LonTimer \<Rightarrow> nat list \<Rightarrow> bool list \<times> LonTimer" where
  "poll now timer [] = ([], timer)"
| "poll now timer (a # as) =
     (let (b, timer') = LonTimerExpired (now + of_nat a) timer;
          (bs, timer'') = poll now timer' as
      in (b # bs, timer''))"

lemma LonTimerExpired_stopped [simp]:
  "expiration timer = 0 \<Longrightarrow> LonTimerExpired now timer = (False, timer)"
  by (simp add: LonTimerExpired_def)

lemma poll_stopped:
  "expiration timer = 0 \<Longrightarrow> poll now timer as = (replicate (length as) False, timer)"
  by (induction as) simp_all

lemma LonTimerExpired_one_shot:
  assumes "expiration timer = now + of_nat due" "expiration timer \<noteq> 0" "repeatTimeout timer = 0"
    and "due < 2 ^ 31" and "a \<le> due + 2 ^ 31"
  shows "LonTimerExpired (now + of_nat a) timer =
    (if a < due then (False, timer) else (True, timer\<lparr>expiration := 0\<rparr>))"
  using assms sint_due_difference [OF assms(4,5), of now]
  by (auto simp: LonTimerExpired_def Let_def)

lemma poll_one_shot:
  assumes "expiration timer = now + of_nat due" "expiration timer \<noteq> 0" "repeatTimeout timer = 0"
    and "due < 2 ^ 31" and "\<forall>a\<in>set as. a \<le> due + 2 ^ 31"
  shows "fst (poll now timer as) =
    (let early = takeWhile (\<lambda>a. a < due) as; late = dropWhile (\<lambda>a. a < due) as
     in replicate (length early) False @
        (if late = [] then [] else True # replicate (length late - 1) False))"
  using assms(5)
proof (induction as)
  case (Cons a as)
  then show ?case
    using LonTimerExpired_one_shot [OF assms(1-4), of a]
    by (auto simp: poll_stopped split_beta Let_def)
qed simp

text \<open>
  A one-shot timer set for \<open>d\<close> ms and then polled with \<open>LonTimerExpired\<close> at any
  ages reports \<open>false\<close> at every poll before it is due, \<open>true\<close> exactly once, at the first
  poll at or after its due time, and \<open>false\<close> at every later poll, across the wrap of the
  tick counter, as long as no poll is later than \<open>2 ^ 31\<close> ms after the due time.
\<close>

theorem one_shot_reports_once:
  assumes "d \<noteq> 0" and "timer_due now d < 2 ^ 31"
    and "\<forall>a\<in>set ages. a \<le> timer_due now d + 2 ^ 31"
  shows "fst (poll now (SetLonTimer now timer d) ages) =
    (let early = takeWhile (\<lambda>a. a < timer_due now d) ages;
         late = dropWhile (\<lambda>a. a < timer_due now d) ages
     in replicate (length early) False @
        (if late = [] then [] else True # replicate (length late - 1) False))"
  using assms by (intro poll_one_shot) (simp_all add: expiration_SetLonTimer)

theorem one_shot_reports_once_witness:
  "fst (poll 0xFFFFFFFE (SetLonTimer 0xFFFFFFFE \<lparr>expiration = 7, repeatTimeout = 9\<rparr> 5)
     [0, 4, 5, 9]) = [False, False, True, False]"
proof -
  have due: "timer_due 0xFFFFFFFE 5 = 5"
    by (simp add: timer_due_def LON_TIMER_MAX_DURATION_def min_def)
  show ?thesis
    by (subst one_shot_reports_once) (simp_all add: due)
qed

section \<open>Running and remaining time\<close>

text \<open>
  A timer that has just been set for \<open>d\<close> ms runs until it is due and no longer, and
  \<open>LonTimerRemaining\<close> counts down to it without a gap, across the wrap of the tick counter.
\<close>

theorem remaining_counts_down:
  assumes "d \<noteq> 0" and "timer_due now d < 2 ^ 31" and "a \<le> timer_due now d + 2 ^ 31"
  shows "(LonTimerRunning (now + of_nat a) (SetLonTimer now timer d) \<longleftrightarrow> a < timer_due now d) \<and>
    unat (LonTimerRemaining (now + of_nat a) (SetLonTimer now timer d)) = timer_due now d - a"
proof -
  let ?t = "SetLonTimer now timer d" and ?due = "timer_due now d"
  have run: "LonTimerRunning (now + of_nat a) ?t \<longleftrightarrow> a < ?due"
    using assms sint_due_difference [OF assms(2,3), of now]
    by (simp add: LonTimerRunning_def expiration_SetLonTimer)
  show ?thesis
  proof (cases "a < ?due")
    case True
    then have "now + of_nat ?due - (now + of_nat a) = (of_nat (?due - a) :: u32)"
      by (simp add: of_nat_diff)
    then have "unat (now + of_nat ?due - (now + of_nat a)) = ?due - a"
      using assms(2) by (simp only: unat_of_nat) simp
    then show ?thesis
      using True run by (simp only: LonTimerRemaining_def expiration_SetLonTimer [OF assms(1)]) simp
  next
    case False
    then show ?thesis using run by (simp add: LonTimerRemaining_def)
  qed
qed

theorem remaining_counts_down_witness:
  "LonTimerRunning (0xFFFFFFF0 + of_nat 30)
     (SetLonTimer 0xFFFFFFF0 \<lparr>expiration = 0, repeatTimeout = 0\<rparr> 100) \<and>
   unat (LonTimerRemaining (0xFFFFFFF0 + of_nat 30)
     (SetLonTimer 0xFFFFFFF0 \<lparr>expiration = 0, repeatTimeout = 0\<rparr> 100)) = 70"
proof -
  have due: "timer_due 0xFFFFFFF0 100 = 100"
    by (simp add: timer_due_def LON_TIMER_MAX_DURATION_def min_def)
  show ?thesis
    using remaining_counts_down
      [of 100 "0xFFFFFFF0" 30 "\<lparr>expiration = 0, repeatTimeout = 0\<rparr>"]
    by (simp only: due) simp
qed

section \<open>Repeating timers\<close>

lemma LonTimerExpired_repeat:
  assumes "expiration timer \<noteq> 0" and "repeatTimeout timer = t" and "t \<noteq> 0"
    and "t \<le> LON_TIMER_MAX_DURATION" and "late < 2 ^ 31"
  shows "LonTimerExpired (expiration timer + of_nat late) timer =
    (True, (SetLonTimer (expiration timer + of_nat late) timer
       (if late \<le> unat t then t - of_nat late else t))\<lparr>repeatTimeout := t\<rparr>)"
proof -
  let ?delta = "expiration timer - (expiration timer + of_nat late)"
  have d: "?delta = - of_nat late" by simp
  have "sint (of_nat 0 - of_nat late :: u32) = int 0 - int late"
    using assms(5) by (intro sint_tick_difference) simp_all
  then have sd: "sint ?delta = - int late" by simp
  have tm: "unat t < 2 ^ 31"
    using assms(4) by (simp add: word_le_nat_alt LON_TIMER_MAX_DURATION_def)
  have p31: "(2::int) ^ 31 = 2147483648" by simp
  have lt: "late < 2147483648" "unat t < 2147483648" using assms(5) tm by simp_all
  have "- 2147483648 \<le> int (unat t) - int late" "int (unat t) - int late < 2147483648"
    using lt by linarith+
  then have "sint (of_nat (unat t) - of_nat late :: u32) = int (unat t) - int late"
    by (intro sint_tick_difference; simp only: p31)
  then have st: "sint (t + ?delta) = int (unat t) - int late" by simp
  have ut: "uint t < int late \<longleftrightarrow> unat t < late"
    using of_nat_less_iff [of "unat t" late, where 'a = int] by simp
  have "LonTimerExpired (expiration timer + of_nat late) timer =
    (True, (SetLonTimer (expiration timer + of_nat late) (timer\<lparr>expiration := 0\<rparr>)
       (if late \<le> unat t then t - of_nat late else t))\<lparr>repeatTimeout := t\<rparr>)"
    using assms(1-3) sd st ut unfolding LonTimerExpired_def Let_def
    by (auto simp add: d)
  then show ?thesis by (simp add: SetLonTimer_def Let_def)
qed

text \<open>
  A repeating timer of period \<open>t\<close> that is polled \<open>late\<close> ms after its expiration reports
  the expiration and keeps its period. Polled less than a period late it runs on its
  original grid (the next expiration is \<open>t\<close> after the last one); polled more than a period
  late it skips the lost intervals and starts a full period now; and polled exactly one
  period late it is left stopped, so that it never reports again.
\<close>

theorem repeat_timer_rearms:
  assumes "expiration timer \<noteq> 0" and "repeatTimeout timer = t" and "t \<noteq> 0"
    and "t \<le> LON_TIMER_MAX_DURATION" and "late < 2 ^ 31"
    and "LonTimerExpired (expiration timer + of_nat late) timer = (b, timer')"
  shows "b \<and> repeatTimeout timer' = t \<and>
    (late < unat t \<longrightarrow> expiration timer' = (if expiration timer + t = 0 then 1 else expiration timer + t)) \<and>
    (unat t < late \<longrightarrow> expiration timer' =
       (if expiration timer + of_nat late + t = 0 then 1 else expiration timer + of_nat late + t)) \<and>
    (late = unat t \<longrightarrow> expiration timer' = 0)"
proof -
  have eq: "b" "timer' = (SetLonTimer (expiration timer + of_nat late) timer
      (if late \<le> unat t then t - of_nat late else t))\<lparr>repeatTimeout := t\<rparr>"
    using assms(6) LonTimerExpired_repeat [OF assms(1-5)] by auto
  have lt: "of_nat late < t \<and> t - of_nat late \<le> LON_TIMER_MAX_DURATION" if "late < unat t"
  proof -
    have "unat (of_nat late :: u32) = late" using assms(5) by (simp add: unat_of_nat)
    then have lt: "of_nat late < t" using that by (simp add: word_less_nat_alt)
    then have "t - of_nat late \<le> t"
      by (simp add: word_sub_le)
    with lt assms(4) show ?thesis by auto
  qed
  have *: "expiration timer + of_nat late + (t - of_nat late) = expiration timer + t" by simp
  have m: "min (t - of_nat late) LON_TIMER_MAX_DURATION = t - of_nat late" if "late < unat t"
    using lt [OF that] by (simp add: min_def)
  have "late = unat t \<Longrightarrow> t - of_nat late = 0" by simp
  then show ?thesis
    using eq assms(3,4) lt m *
    by (auto simp: SetLonTimer_def Let_def min_def)
qed

theorem repeat_timer_rearms_witness:
  "LonTimerExpired 110 \<lparr>expiration = 100, repeatTimeout = 10\<rparr> =
     (True, \<lparr>expiration = 0, repeatTimeout = 10\<rparr>) \<and>
   expiration (snd (LonTimerExpired 104 \<lparr>expiration = 100, repeatTimeout = 10\<rparr>)) = 110"
proof -
  let ?T = "\<lparr>expiration = 100, repeatTimeout = 10\<rparr> :: LonTimer"
  have a: "fst (LonTimerExpired 110 ?T) \<and> expiration (snd (LonTimerExpired 110 ?T)) = 0 \<and>
      repeatTimeout (snd (LonTimerExpired 110 ?T)) = 10"
    using repeat_timer_rearms [of ?T 10 10 "fst (LonTimerExpired 110 ?T)"
        "snd (LonTimerExpired 110 ?T)"]
    by (simp add: LON_TIMER_MAX_DURATION_def)
  have b: "expiration (snd (LonTimerExpired 104 ?T)) = 110"
    using repeat_timer_rearms [of ?T 10 4 "fst (LonTimerExpired 104 ?T)"
        "snd (LonTimerExpired 104 ?T)"]
    by (simp add: LON_TIMER_MAX_DURATION_def)
  show ?thesis
    using a b by (cases "LonTimerExpired 110 ?T"; cases "snd (LonTimerExpired 110 ?T)") auto
qed

section \<open>Elapsed times\<close>

lemma izot_word_roundtrip [simp]: "IZOT_GET_UNSIGNED_WORD (IZOT_SET_UNSIGNED_WORD v) = v"
  by (simp add: IZOT_GET_UNSIGNED_WORD_def IZOT_SET_UNSIGNED_WORD_def join_bytes)

lemma capped_sum:
  fixes x y m :: u32
  assumes "y \<le> m" and "\<not> m - y < x"
  shows "x + y \<le> m" and "unat (x + y) = unat x + unat y"
proof -
  have "unat (m - y) = unat m - unat y" using assms(1) by (rule unat_sub)
  then have le: "unat x + unat y \<le> unat m"
    using assms by (simp add: word_less_nat_alt word_le_nat_alt not_less)
  then have "unat x + unat y < 2 ^ 32" using unat_u32 [of m] by simp
  then show *: "unat (x + y) = unat x + unat y" by (simp add: unat_word_ariths)
  show "x + y \<le> m" using le * by (simp add: word_le_nat_alt)
qed

lemma uncapped_sum:
  fixes x y m :: u32
  assumes "unat x + unat y \<le> unat m"
  shows "\<not> m - y < x" and "unat (x + y) = unat x + unat y"
proof -
  have y: "y \<le> m" using assms by (simp add: word_le_nat_alt)
  then have "unat (m - y) = unat m - unat y" by (rule unat_sub)
  then show "\<not> m - y < x" using assms by (simp add: word_less_nat_alt)
  then show "unat (x + y) = unat x + unat y" by (rule capped_sum(2) [OF y])
qed

lemma unat_scaled_byte:
  assumes "k \<le> 3600000"
  shows "unat ((ucast (b :: u8) :: u32) * of_nat k) = unat b * k"
    and "(ucast (b :: u8) :: u32) * of_nat k \<le> LON_TIMER_MAX_DURATION"
proof -
  have "unat b \<le> 255" using unat_u8 [of b] by simp
  then have "unat b * k \<le> 255 * 3600000" using assms by (rule mult_le_mono)
  then have "unat b * k \<le> 2147483647" by simp
  then show *: "unat ((ucast (b :: u8) :: u32) * of_nat k) = unat b * k"
    using assms by (simp add: unat_word_ariths unat_of_nat)
  then show "(ucast (b :: u8) :: u32) * of_nat k \<le> LON_TIMER_MAX_DURATION"
    using \<open>unat b * k \<le> 2147483647\<close>
    by (simp add: word_le_nat_alt LON_TIMER_MAX_DURATION_def)
qed

lemmas scaled_bytes =
  unat_scaled_byte [of 3600000, simplified] unat_scaled_byte [of 60000, simplified]
  unat_scaled_byte [of 1000, simplified]

lemma word_millis: "(ucast (w :: u16) :: u32) \<le> LON_TIMER_MAX_DURATION"
proof -
  show ?thesis
    using unat_u16 [of w] by (simp add: word_le_nat_alt LON_TIMER_MAX_DURATION_def)
qed

text \<open>
  \<open>ElapsedTimeToMs\<close> never exceeds \<open>LON_TIMER_MAX_DURATION\<close>, whatever the bytes it is
  given, and when the day count is 0 it is the exact number of ms, even for hours, minutes,
  seconds and ms out of their documented ranges: no step of the sum wraps.
\<close>

theorem elapsed_time_exact_within_a_day:
  "ElapsedTimeToMs (Some e) \<le> LON_TIMER_MAX_DURATION \<and>
   (IZOT_GET_UNSIGNED_WORD (day e) = 0 \<longrightarrow>
    unat (ElapsedTimeToMs (Some e)) =
      unat (hour e) * 3600000 + unat (minute e) * 60000 + unat (second e) * 1000 +
      unat (IZOT_GET_UNSIGNED_WORD (millisecond e)))"
proof (intro conjI impI)
  show "ElapsedTimeToMs (Some e) \<le> LON_TIMER_MAX_DURATION"
    using capped_sum(1) word_millis by (simp add: ElapsedTimeToMs_def Let_def not_less [symmetric])
next
  assume day: "IZOT_GET_UNSIGNED_WORD (day e) = 0"
  let ?M = LON_TIMER_MAX_DURATION
  define h :: u32 where "h = ucast (hour e) * 3600000"
  define m :: u32 where "m = ucast (minute e) * 60000"
  define s :: u32 where "s = ucast (second e) * 1000"
  define ms :: u32 where "ms = ucast (IZOT_GET_UNSIGNED_WORD (millisecond e))"
  have u: "unat h = unat (hour e) * 3600000" "unat m = unat (minute e) * 60000"
    "unat s = unat (second e) * 1000" "unat ms = unat (IZOT_GET_UNSIGNED_WORD (millisecond e))"
    "unat ?M = 2147483647"
    by (simp_all add: h_def m_def s_def ms_def scaled_bytes LON_TIMER_MAX_DURATION_def)
  note b = unat_u8 [of "hour e"] unat_u8 [of "minute e"] unat_u8 [of "second e"]
    unat_u16 [of "IZOT_GET_UNSIGNED_WORD (millisecond e)"]
  have 1: "unat (0 :: u32) + unat h \<le> unat ?M" using u b by simp
  note s1 = uncapped_sum [OF 1]
  have 2: "unat (0 + h) + unat m \<le> unat ?M" using u b s1(2) by simp
  note s2 = uncapped_sum [OF 2]
  have 3: "unat (0 + h + m) + unat s \<le> unat ?M" using u b s1(2) s2(2) by simp
  note s3 = uncapped_sum [OF 3]
  have 4: "unat (0 + h + m + s) + unat ms \<le> unat ?M" using u b s1(2) s2(2) s3(2) by simp
  note s4 = uncapped_sum [OF 4]
  have "ElapsedTimeToMs (Some e) = 0 + h + m + s + ms"
    using s1(1) s2(1) s3(1) s4(1)
    by (simp add: ElapsedTimeToMs_def Let_def day h_def m_def s_def ms_def)
  then show "unat (ElapsedTimeToMs (Some e)) =
      unat (hour e) * 3600000 + unat (minute e) * 60000 + unat (second e) * 1000 +
      unat (IZOT_GET_UNSIGNED_WORD (millisecond e))"
    using s1(2) s2(2) s3(2) s4(2) u by simp
qed

theorem elapsed_time_exact_within_a_day_witness:
  "unat (ElapsedTimeToMs (Some \<lparr>day = IZOT_SET_UNSIGNED_WORD 0, hour = 23, minute = 59, second = 59,
     millisecond = IZOT_SET_UNSIGNED_WORD 999\<rparr>)) = 86399999"
  using elapsed_time_exact_within_a_day
    [of "\<lparr>day = IZOT_SET_UNSIGNED_WORD 0, hour = 23, minute = 59, second = 59,
      millisecond = IZOT_SET_UNSIGNED_WORD 999\<rparr>"]
  by simp

text \<open>
  The day count is scaled with 864000000 ms, ten days' worth: one day converts to ten, and
  five days wrap to less than seven hours.
\<close>

lemma elapsed_days_scaled_by_ten:
  "ElapsedTimeToMs (Some \<lparr>day = IZOT_SET_UNSIGNED_WORD 1, hour = 0, minute = 0, second = 0,
     millisecond = IZOT_SET_UNSIGNED_WORD 0\<rparr>) = 10 * 86400000 \<and>
   ElapsedTimeToMs (Some \<lparr>day = IZOT_SET_UNSIGNED_WORD 5, hour = 0, minute = 0, second = 0,
     millisecond = IZOT_SET_UNSIGNED_WORD 0\<rparr>) = 25032704"
  by (simp add: ElapsedTimeToMs_def Let_def LON_TIMER_MAX_DURATION_def word_le_nat_alt)

end
