(* ===== verification/Lon_Types.thy ===== *)
theory Lon_Types
  imports Lcs_Queue Lcs_Timer
begin

text \<open>
  The data of the stack, from \<^verbatim>\<open>include/izot/lon_types.h\<close>,
  \<^verbatim>\<open>include/lcs/lcs_eia709_1.h\<close> and \<^verbatim>\<open>include/lcs/lcs_node.h\<close>: addresses, domain and
  address tables, the parameter structures that travel in the queues, the transmit and
  receive records, and the state of one stack instance. A queue entry is its parameter
  structure with the PDU that follows it in the C buffer as a last field of bytes. Sizes
  and indices are natural numbers, with the wrap of their C type written out where they are
  computed; counters and attribute values are words.
\<close>

section \<open>Addresses\<close>

record IzotReceiveSubnetNode =
  snSubnet :: u8
  snNode :: u8

abbreviation IZOT_RECEIVESN_SELFIELD :: "u8 \<Rightarrow> u8" where
  "IZOT_RECEIVESN_SELFIELD b \<equiv> get_attribute 0x80 7 b"

abbreviation IZOT_RECEIVESN_NODE :: "u8 \<Rightarrow> u8" where
  "IZOT_RECEIVESN_NODE b \<equiv> get_attribute 0x7F 0 b"

text \<open>
  The union \<open>IzotSendAddress\<close> is read through several members; all of them lay the same
  six fields over the same bytes: type or type and size; domain index with member, node or
  backlog; repeat timer and retry; receive and transmit timer; group or subnet; unique ID.
\<close>

record IzotSendAddress =
  saTypeSize :: u8
  saDomain :: u8
  saRepeatRetry :: u8
  saTransmit :: u8
  saSubnetGroup :: u8
  saNeuronId :: bytes

abbreviation IZOT_SENDGROUP_TYPE :: "IzotSendAddress \<Rightarrow> u8" where
  "IZOT_SENDGROUP_TYPE a \<equiv> get_attribute 0x80 7 (saTypeSize a)"

abbreviation IZOT_SENDGROUP_SIZE :: "IzotSendAddress \<Rightarrow> u8" where
  "IZOT_SENDGROUP_SIZE a \<equiv> get_attribute 0x7F 0 (saTypeSize a)"

abbreviation IZOT_SENDSN_DOMAIN :: "IzotSendAddress \<Rightarrow> u8" where
  "IZOT_SENDSN_DOMAIN a \<equiv> get_attribute 0x80 7 (saDomain a)"

abbreviation IZOT_SENDSN_NODE :: "IzotSendAddress \<Rightarrow> u8" where
  "IZOT_SENDSN_NODE a \<equiv> get_attribute 0x7F 0 (saDomain a)"

abbreviation IZOT_SENDBCAST_BACKLOG :: "IzotSendAddress \<Rightarrow> u8" where
  "IZOT_SENDBCAST_BACKLOG a \<equiv> get_attribute 0x3F 0 (saDomain a)"

abbreviation IZOT_SENDSN_REPEAT_TIMER :: "IzotSendAddress \<Rightarrow> u8" where
  "IZOT_SENDSN_REPEAT_TIMER a \<equiv> get_attribute 0xF0 4 (saRepeatRetry a)"

abbreviation IZOT_SENDSN_RETRY :: "IzotSendAddress \<Rightarrow> u8" where
  "IZOT_SENDSN_RETRY a \<equiv> get_attribute 0x0F 0 (saRepeatRetry a)"

abbreviation IZOT_SENDSN_TRANSMIT_TIMER :: "IzotSendAddress \<Rightarrow> u8" where
  "IZOT_SENDSN_TRANSMIT_TIMER a \<equiv> get_attribute 0x0F 0 (saTransmit a)"

abbreviation IZOT_SENDBCAST_RSVD1 :: "IzotSendAddress \<Rightarrow> u8" where
  "IZOT_SENDBCAST_RSVD1 a \<equiv> get_attribute 0xF0 4 (saTransmit a)"

datatype AddrMode =
    UNBOUND | AM_SUBNET_NODE | AM_UNIQUE_NODE_ID | AM_BROADCAST | AM_MULTICAST | AM_MULTICAST_ACK

record Domain =
  domainIndex :: u8
  domainLen :: u8
  domainId :: bytes

definition FLEX_DOMAIN :: u8 where "FLEX_DOMAIN = 2"
definition COMPUTE_DOMAIN_INDEX :: u8 where "COMPUTE_DOMAIN_INDEX = 3"

record MulticastAckAddress =
  mcaSubnetAddr :: IzotReceiveSubnetNode
  mcaGroup :: u8
  mcaMember :: u8

text \<open>
  \<open>DestinationAddress\<close> is a union tagged by its address mode: \<open>addr0\<close> to \<open>addr3\<close> are the
  arguments of the constructors.
\<close>

datatype DestAddr =
    DA_Unbound
  | DA_SubnetNode IzotReceiveSubnetNode
  | DA_UniqueId u8 bytes
  | DA_Broadcast u8
  | DA_Multicast u8
  | DA_MulticastAck MulticastAckAddress

record DestinationAddress =
  dstDmn :: Domain
  dstAddr :: DestAddr

fun addressModeOf :: "DestAddr \<Rightarrow> AddrMode" where
  "addressModeOf DA_Unbound = UNBOUND"
| "addressModeOf (DA_SubnetNode _) = AM_SUBNET_NODE"
| "addressModeOf (DA_UniqueId _ _) = AM_UNIQUE_NODE_ID"
| "addressModeOf (DA_Broadcast _) = AM_BROADCAST"
| "addressModeOf (DA_Multicast _) = AM_MULTICAST"
| "addressModeOf (DA_MulticastAck _) = AM_MULTICAST_ACK"

abbreviation dstMode :: "DestinationAddress \<Rightarrow> AddrMode" where
  "dstMode d \<equiv> addressModeOf (dstAddr d)"

record SourceAddress =
  srcSubnetAddr :: IzotReceiveSubnetNode
  srcMode :: AddrMode
  srcDmn :: Domain
  srcGroup :: u8
  srcAckNode :: MulticastAckAddress
  srcBroadcastSubnet :: u8

section \<open>Tables of the node\<close>

record IzotDomain =
  domId :: bytes
  domSubnet :: u8
  domNodeClone :: u8
  domInvalidIdLength :: u8
  domKey :: bytes

abbreviation IZOT_DOMAIN_NONCLONE :: "IzotDomain \<Rightarrow> u8" where
  "IZOT_DOMAIN_NONCLONE d \<equiv> get_attribute 0x80 7 (domNodeClone d)"

abbreviation IZOT_DOMAIN_NODE :: "IzotDomain \<Rightarrow> u8" where
  "IZOT_DOMAIN_NODE d \<equiv> get_attribute 0x7F 0 (domNodeClone d)"

abbreviation IZOT_DOMAIN_INVALID :: "IzotDomain \<Rightarrow> u8" where
  "IZOT_DOMAIN_INVALID d \<equiv> get_attribute 0x80 7 (domInvalidIdLength d)"

abbreviation IZOT_AUTH_TYPE :: "IzotDomain \<Rightarrow> u8" where
  "IZOT_AUTH_TYPE d \<equiv> get_attribute 0x18 3 (domInvalidIdLength d)"

abbreviation IZOT_DOMAIN_ID_LENGTH :: "IzotDomain \<Rightarrow> u8" where
  "IZOT_DOMAIN_ID_LENGTH d \<equiv> get_attribute 0x07 0 (domInvalidIdLength d)"

definition IZOT_DOMAIN_ID_MAX_LENGTH :: nat where "IZOT_DOMAIN_ID_MAX_LENGTH = 6"
definition IZOT_UNIQUE_ID_LENGTH :: nat where "IZOT_UNIQUE_ID_LENGTH = 6"
definition IZOT_AUTHENTICATION_KEY_LENGTH :: nat where "IZOT_AUTHENTICATION_KEY_LENGTH = 6"

text \<open>The members of the union \<open>IzotAddress\<close> overlay the same five bytes as well.\<close>

record IzotAddress =
  adTypeSize :: u8
  adDomainMember :: u8
  adRepeatRetry :: u8
  adReceiveTransmit :: u8
  adGroup :: u8

abbreviation IZOT_ADDRESS_GROUP_TYPE :: "IzotAddress \<Rightarrow> u8" where
  "IZOT_ADDRESS_GROUP_TYPE a \<equiv> get_attribute 0x80 7 (adTypeSize a)"

abbreviation IZOT_ADDRESS_GROUP_DOMAIN :: "IzotAddress \<Rightarrow> u8" where
  "IZOT_ADDRESS_GROUP_DOMAIN a \<equiv> get_attribute 0x80 7 (adDomainMember a)"

abbreviation IZOT_ADDRESS_GROUP_MEMBER :: "IzotAddress \<Rightarrow> u8" where
  "IZOT_ADDRESS_GROUP_MEMBER a \<equiv> get_attribute 0x7F 0 (adDomainMember a)"

abbreviation IZOT_ADDRESS_GROUP_RECEIVE_TIMER :: "IzotAddress \<Rightarrow> u8" where
  "IZOT_ADDRESS_GROUP_RECEIVE_TIMER a \<equiv> get_attribute 0xF0 4 (adReceiveTransmit a)"

record IzotDatapointConfig =
  dpSelhiDirPrio :: u8
  dpSelectorLow :: u8
  dpAttribute1 :: u8
  dpAttribute2 :: u8

abbreviation IZOT_DATAPOINT_ADDRESS_LOW :: "IzotDatapointConfig \<Rightarrow> u8" where
  "IZOT_DATAPOINT_ADDRESS_LOW c \<equiv> get_attribute 0x0F 0 (dpAttribute1 c)"

abbreviation IZOT_DATAPOINT_ADDRESS_HIGH :: "IzotDatapointConfig \<Rightarrow> u8" where
  "IZOT_DATAPOINT_ADDRESS_HIGH c \<equiv> get_attribute 0xF0 4 (dpAttribute2 c)"

record IzotAliasConfig =
  aliasConfig :: IzotDatapointConfig
  aliasPrimary :: u8

text \<open>The bytes of \<open>IzotReadOnlyData\<close> that the modelled code reads.\<close>

record IzotReadOnlyData =
  roUniqueNodeId :: bytes
  roReadOnly1 :: u8
  roReadOnly2 :: u8
  roAppBufSize :: u8
  roNwBufSize :: u8
  roPriCnt :: u8
  roAppBufCnt :: u8
  roNwBufCnt :: u8
  roExtended :: u8

abbreviation IZOT_READONLY_RUN_UNCONFIG :: "IzotReadOnlyData \<Rightarrow> u8" where
  "IZOT_READONLY_RUN_UNCONFIG r \<equiv> get_attribute 0x40 6 (roReadOnly1 r)"

abbreviation IZOT_READONLY_TWO_DOMAINS :: "IzotReadOnlyData \<Rightarrow> u8" where
  "IZOT_READONLY_TWO_DOMAINS r \<equiv> get_attribute 0x40 6 (roReadOnly2 r)"

abbreviation IZOT_READONLY_NODE_STATE :: "IzotReadOnlyData \<Rightarrow> u8" where
  "IZOT_READONLY_NODE_STATE r \<equiv> get_attribute 0x07 0 (roReadOnly2 r)"

abbreviation IZOT_READONLY_NW_OUTBUF_SIZE :: "IzotReadOnlyData \<Rightarrow> u8" where
  "IZOT_READONLY_NW_OUTBUF_SIZE r \<equiv> get_attribute 0xF0 4 (roNwBufSize r)"

abbreviation IZOT_READONLY_NW_INBUF_SIZE :: "IzotReadOnlyData \<Rightarrow> u8" where
  "IZOT_READONLY_NW_INBUF_SIZE r \<equiv> get_attribute 0x0F 0 (roNwBufSize r)"

abbreviation IZOT_READONLY_NW_OUT_PRICNT :: "IzotReadOnlyData \<Rightarrow> u8" where
  "IZOT_READONLY_NW_OUT_PRICNT r \<equiv> get_attribute 0xF0 4 (roPriCnt r)"

abbreviation IZOT_READONLY_OUT_PRICNT :: "IzotReadOnlyData \<Rightarrow> u8" where
  "IZOT_READONLY_OUT_PRICNT r \<equiv> get_attribute 0x0F 0 (roPriCnt r)"

abbreviation IZOT_READONLY_OUTBUF_CNT :: "IzotReadOnlyData \<Rightarrow> u8" where
  "IZOT_READONLY_OUTBUF_CNT r \<equiv> get_attribute 0xF0 4 (roAppBufCnt r)"

abbreviation IZOT_READONLY_INBUF_CNT :: "IzotReadOnlyData \<Rightarrow> u8" where
  "IZOT_READONLY_INBUF_CNT r \<equiv> get_attribute 0x0F 0 (roAppBufCnt r)"

abbreviation IZOT_READONLY_NW_OUTBUF_CNT :: "IzotReadOnlyData \<Rightarrow> u8" where
  "IZOT_READONLY_NW_OUTBUF_CNT r \<equiv> get_attribute 0xF0 4 (roNwBufCnt r)"

abbreviation IZOT_READONLY_NW_INBUF_CNT :: "IzotReadOnlyData \<Rightarrow> u8" where
  "IZOT_READONLY_NW_INBUF_CNT r \<equiv> get_attribute 0x0F 0 (roNwBufCnt r)"

definition IzotApplicationUnconfig :: u8 where "IzotApplicationUnconfig = 2"
definition IzotConfigOnLine :: u8 where "IzotConfigOnLine = 4"
definition IS_CONFIGURED :: u8 where "IS_CONFIGURED = 0x04"

datatype ConfigMode = OFF_LINE | ON_LINE | NOT_RUNNING

datatype IzotResetCause =
  IzotResetCleared | IzotPowerUpReset | IzotExternalReset | IzotWatchdogReset | IzotSoftwareReset

definition NUM_ADDR_TBL_ENTRIES :: nat where "NUM_ADDR_TBL_ENTRIES = 254"
definition NV_ALIAS_TABLE_SIZE :: nat where "NV_ALIAS_TABLE_SIZE = 254"
definition MAX_DOMAINS :: nat where "MAX_DOMAINS = 2"
definition MAX_GROUP_NUMBER :: nat where "MAX_GROUP_NUMBER = 63"

section \<open>Services, PDU types and statistics\<close>

datatype IzotServiceType =
    IzotServiceAcknowledged
  | IzotServiceRepeated
  | IzotServiceUnacknowledged
  | IzotServiceRequest
  | IzotServiceResponse

datatype PDUType = TPDU_TYPE | SPDU_TYPE | AUTHPDU_TYPE | APDU_TYPE

datatype LcsStatistic =
    LcsTxError | LcsTxFailure | LcsRxError | LcsRxTxFull | LcsLost | LcsMissed | LcsL2Rx
  | LcsL3Rx | LcsL3Tx | LcsRetry | LcsBacklogOverflow | LcsLateAck | LcsCollision

fun lcsStatIndex :: "LcsStatistic \<Rightarrow> nat" where
  "lcsStatIndex LcsTxError = 0"
| "lcsStatIndex LcsTxFailure = 1"
| "lcsStatIndex LcsRxError = 2"
| "lcsStatIndex LcsRxTxFull = 3"
| "lcsStatIndex LcsLost = 4"
| "lcsStatIndex LcsMissed = 5"
| "lcsStatIndex LcsL2Rx = 6"
| "lcsStatIndex LcsL3Rx = 7"
| "lcsStatIndex LcsL3Tx = 8"
| "lcsStatIndex LcsRetry = 9"
| "lcsStatIndex LcsBacklogOverflow = 10"
| "lcsStatIndex LcsLateAck = 11"
| "lcsStatIndex LcsCollision = 12"

definition LcsNumStats :: nat where "LcsNumStats = 13"

datatype RxStatType = RX_SOLICITED | RX_UNSOLICITED

datatype LsProtocolMode = LsProtocolModeLegacy | LsProtocolModeEncapsulatedIp | LsProtocolModeEnhanced

text \<open>
  The two bits of a version field. Its only reading in the code is the comparison with the
  legacy mode, so the fourth value is not kept apart.
\<close>

fun version_bits :: "LsProtocolMode \<Rightarrow> u8" where
  "version_bits LsProtocolModeLegacy = 0"
| "version_bits LsProtocolModeEncapsulatedIp = 1"
| "version_bits LsProtocolModeEnhanced = 2"

definition version_of_bits :: "u8 \<Rightarrow> LsProtocolMode" where
  "version_of_bits b =
     (if b AND 3 = 0 then LsProtocolModeLegacy
      else if b AND 3 = 1 then LsProtocolModeEncapsulatedIp else LsProtocolModeEnhanced)"

definition ALT_PATH :: u8 where "ALT_PATH = 0x01"
definition ALT_RETRY :: u8 where "ALT_RETRY = 0x02"
definition ALT_CHANNEL :: u8 where "ALT_CHANNEL = 0x04"
definition ALT_CHANNEL_LOCK :: u8 where "ALT_CHANNEL_LOCK = 0x08"

section \<open>Queue entries\<close>

record AltKey =
  altKey :: bool
  altKeyValue :: "bytes list"

record NWSendParam =
  nwsDestAddr :: DestinationAddress
  nwsPduType :: PDUType
  nwsTag :: u16
  nwsDeltaBL :: u8
  nwsAltPath :: u8
  nwsPduSize :: nat
  nwsDropIfUnconfigured :: bool
  nwsProxy :: bool
  nwsVersion :: LsProtocolMode
  nwsPdu :: bytes

record NWReceiveParam =
  nwrPriority :: bool
  nwrAltPath :: u8
  nwrPduSize :: nat
  nwrPdu :: bytes

record TSASendParam =
  tssDestAddr :: IzotSendAddress
  tssDmn :: Domain
  tssService :: IzotServiceType
  tssAuth :: bool
  tssApduSize :: nat
  tssTag :: u16
  tssNullResponse :: bool
  tssFlexResponse :: bool
  tssReqId :: u16
  tssAltPathOverride :: bool
  tssAltPath :: u8
  tssPriority :: bool
  tssProxy :: bool
  tssProxyDone :: bool
  tssTxInherit :: bool
  tssProxyCount :: u8
  tssTxTimerDeltaLast :: u16
  tssAltKey :: AltKey
  tssApdu :: bytes

record TSAReceiveParam =
  tsrSrcAddr :: SourceAddress
  tsrPriority :: bool
  tsrPduSize :: nat
  tsrPduType :: PDUType
  tsrAltPath :: u8
  tsrXcvrParams :: bytes
  tsrVersion :: LsProtocolMode
  tsrPdu :: bytes

datatype APIndType = MESSAGE | COMPLETION

record APPReceiveParam =
  aprIndication :: APIndType
  aprSuccess :: bool
  aprTag :: u16
  aprSrcAddr :: SourceAddress
  aprService :: IzotServiceType
  aprPriority :: bool
  aprAltPath :: u8
  aprPduSize :: nat
  aprAuth :: bool
  aprReqId :: u16
  aprProxy :: bool
  aprProxyDone :: bool
  aprProxyCount :: u8
  aprXcvrParams :: bytes
  aprApdu :: bytes

record LKSendParam =
  lksDeltaBL :: u8
  lksAltPath :: u8
  lksPduSize :: nat
  lksDomainIndex :: u8
  lksNpdu :: bytes

section \<open>Records of the transaction, transport and session layers\<close>

record TransCtrlRecord =
  tcTransNum :: u16
  tcInProgress :: bool

text \<open>The union of an entry of the transaction ID table, tagged by its address mode.\<close>

record TIDTableEntry =
  tidDomainId :: bytes
  tidLen :: u8
  tidAddr :: DestAddr
  tidTimer :: LonTimer
  tidTid :: u16

datatype TXStatus = UNUSED_TX | SESSION_TX | TRANSPORT_TX
datatype RRStatus = UNUSED_RR | SESSION_RR | TRANSPORT_RR
datatype TransactionState =
  JUST_RECEIVED | DELIVERED | DONE | AUTHENTICATED | AUTHENTICATING | RESPONDED
datatype TransStatus = TRANS_CURRENT | TRANS_NOT_CURRENT | TRANS_NEW | TRANS_DUPLICATE

text \<open>
  \<open>apdu\<close> of a transmit record points to the APDU of the message at the head of the output
  queue, which nobody changes while the transaction is active; the record holds those bytes.
\<close>

record TransmitRecord =
  txStatus :: TXStatus
  txNwDestAddr :: DestinationAddress
  txAckReceived :: "bool list"
  txDestCount :: u8
  txAckCount :: u8
  txTransNum :: u16
  txXmitTimerValue :: u16
  txXmitTimer :: LonTimer
  txRetriesLeft :: u8
  txApdu :: bytes
  txApduSize :: nat
  txAuth :: bool
  txTimerDeltaLast :: u16
  txAltKey :: AltKey
  txVersion :: LsProtocolMode

record ReceiveRecord =
  rrStatus :: RRStatus
  rrSrcAddr :: SourceAddress
  rrTransNum :: u16
  rrReqId :: u16
  rrRecvTimer :: LonTimer
  rrTransState :: TransactionState
  rrPriority :: bool
  rrAltPath :: u8
  rrAuth :: bool
  rrNeedAuth :: bool
  rrServiceType :: IzotServiceType
  rrRand :: bytes
  rrResponse :: bytes
  rrRspSize :: nat
  rrApdu :: bytes
  rrApduSize :: nat
  rrXcvrParams :: bytes
  rrVersion :: LsProtocolMode

section \<open>One stack instance\<close>

text \<open>
  The fields of the three structures that \<open>gp\<close>, \<open>eep\<close> and \<open>nmp\<close> point to. One field is
  not in the code: \<open>memFault\<close> records that a copy went past the end of the buffer it was
  made into, or that a null pointer was read, and no operation clears it. Logging
  is left out of the layers; besides its output it keeps the last error code in
  \<open>errorLog\<close>, which only network management reads (\<open>Lcs_Eeprom\<close>).
\<close>

record stack =
  \<comment> \<open>\<open>EEPROM\<close>\<close>
  readOnlyData :: IzotReadOnlyData
  configNonGrpRcv :: u8
  domainTable :: "IzotDomain list"
  addrTable :: "IzotAddress list"
  nvConfigTable :: "IzotDatapointConfig list"
  nvAliasTable :: "IzotAliasConfig list"
  \<comment> \<open>\<open>NmMap\<close>\<close>
  stats :: bytes
  mtagCount :: u8
  resetCause :: IzotResetCause
  nvTableSize :: nat
  rxStat :: "u16 list"
  \<comment> \<open>\<open>ProtocolStackData\<close>: transaction control\<close>
  priTransCtrlRec :: TransCtrlRecord
  nonpriTransCtrlRec :: TransCtrlRecord
  priTransID :: u16
  nonpriTransID :: u16
  priTbl :: "TIDTableEntry list"
  nonpriTbl :: "TIDTableEntry list"
  priTblSize :: nat
  nonpriTblSize :: nat
  \<comment> \<open>transport, session and authentication\<close>
  tsDelayTimer :: LonTimer
  xmitRec :: TransmitRecord
  priXmitRec :: TransmitRecord
  recvRec :: "ReceiveRecord list"
  reqId :: u16
  prevChallenge :: bytes
  \<comment> \<open>queues and their buffer sizes\<close>
  appInQ :: "APPReceiveParam Queue"
  appCeRspInQ :: "APPReceiveParam Queue"
  appInBufSize :: nat
  tsaInQ :: "TSAReceiveParam Queue"
  tsaInBufSize :: nat
  tsaInQCnt :: nat
  tsaOutQ :: "TSASendParam Queue"
  tsaOutBufSize :: nat
  tsaOutQCnt :: nat
  tsaOutPriQ :: "TSASendParam Queue"
  tsaOutPriBufSize :: nat
  tsaOutPriQCnt :: nat
  tsaRespQ :: "TSASendParam Queue"
  tsaRespBufSize :: nat
  tsaRespQCnt :: nat
  nwInQ :: "NWReceiveParam Queue"
  nwInBufSize :: nat
  nwInQCnt :: nat
  nwOutQ :: "NWSendParam Queue"
  nwOutBufSize :: nat
  nwOutQCnt :: nat
  nwOutPriQ :: "NWSendParam Queue"
  nwOutPriBufSize :: nat
  nwOutPriQCnt :: nat
  lkOutQ :: "LKSendParam Queue"
  lkOutBufSize :: nat
  lkOutPriQ :: "LKSendParam Queue"
  lkOutPriBufSize :: nat
  \<comment> \<open>node\<close>
  resetNode :: bool
  resetOk :: bool
  appPgmMode :: ConfigMode
  \<comment> \<open>not in the code\<close>
  memFault :: bool

end
