(* ===== verification/Lcs_Encrypt.thy ===== *)
theory Lcs_Encrypt
  imports Lon_Types
begin

text \<open>
  \<^verbatim>\<open>lcs/lcs_tsa.c\<close>, \<open>Encrypt\<close>: the eight bytes that a node computes from a challenge, an APDU
  and a key. The loops are recursive functions over the bytes that are left, taken from the
  end of the message; \<open>encrypt_ref\<close> is a closed description of the same computation, from
  which it follows that the computation can be undone.
\<close>

section \<open>The loops\<close>

text \<open>One round of the innermost loop: byte \<open>j\<close> of the value is replaced.\<close>

definition encrypt_byte :: "u8 \<Rightarrow> nat \<Rightarrow> u8 \<Rightarrow> bytes \<Rightarrow> bytes" where
  "encrypt_byte key j m ev =
     (let k = (j + 1) mod 8; n = NOT (ev ! j + of_nat j)
      in ev[j := (if bit key (7 - j)
                  then ev ! k + m + (push_bit 1 n + drop_bit 7 n)
                  else ev ! k + m - (drop_bit 1 n + push_bit 7 n))])"

text \<open>The next byte of the message, 0 behind its start.\<close>

definition next_byte :: "bytes \<Rightarrow> u8" where
  "next_byte rest = (case rest of [] \<Rightarrow> 0 | m # _ \<Rightarrow> m)"

text \<open>The loop over \<open>j\<close>, downwards from \<open>j - 1\<close>; \<open>rest\<close> holds the bytes left, the last first.\<close>

fun encrypt_bytes :: "u8 \<Rightarrow> nat \<Rightarrow> bytes \<times> bytes \<Rightarrow> bytes \<times> bytes" where
  "encrypt_bytes key 0 st = st"
| "encrypt_bytes key (Suc j) (ev, rest) =
     encrypt_bytes key j (encrypt_byte key j (next_byte rest) ev, tl rest)"

text \<open>The loop over the bytes of the key.\<close>

fun encrypt_keys :: "bytes \<Rightarrow> bytes \<times> bytes \<Rightarrow> bytes \<times> bytes" where
  "encrypt_keys [] st = st"
| "encrypt_keys (key # keys) st = encrypt_keys keys (encrypt_bytes key 8 st)"

lemma encrypt_bytes_rest [simp]: "snd (encrypt_bytes key j st) = drop j (snd st)"
proof (induction key j st rule: encrypt_bytes.induct)
  case (2 key j ev rest)
  then show ?case by (cases rest) simp_all
qed simp

lemma encrypt_keys_rest [simp]: "snd (encrypt_keys keys st) = drop (8 * length keys) (snd st)"
  by (induction keys st rule: encrypt_keys.induct) (simp_all add: add.commute)

text \<open>The outer loop; the code's keys have six or twelve bytes, and no key is no loop here.\<close>

function encrypt_loop :: "bytes \<Rightarrow> bytes \<times> bytes \<Rightarrow> bytes" where
  "encrypt_loop keys st =
     (if snd st = [] \<or> keys = [] then fst st else encrypt_loop keys (encrypt_keys keys st))"
  by pat_completeness auto

termination by (relation "measure (\<lambda>(keys, st). length (snd st))") auto

declare encrypt_loop.simps [simp del]

text \<open>
  The bytes of the key in the order of the iterations: once over a classic key, once and a
  half over a key of open media authentication (\<open>i % keyLength\<close>).
\<close>

definition IZOT_OMA_AUTHENTICATION_KEY_LENGTH :: nat where
  "IZOT_OMA_AUTHENTICATION_KEY_LENGTH = 12"

definition key_bytes :: "bool \<Rightarrow> bytes \<Rightarrow> bytes" where
  "key_bytes isOma pKey =
     (let keyLength = (if isOma then IZOT_OMA_AUTHENTICATION_KEY_LENGTH else IZOT_AUTHENTICATION_KEY_LENGTH);
          keyIterations = (if isOma then IZOT_OMA_AUTHENTICATION_KEY_LENGTH +
                             IZOT_OMA_AUTHENTICATION_KEY_LENGTH div 2
                           else keyLength)
      in map (\<lambda>i. byte_at pKey (i mod keyLength)) [0..<keyIterations])"

text \<open>
  \<open>pOmaDest\<close> are the nine bytes of the \<open>OmaAddress\<close>; \<open>randIn\<close> the eight of the challenge.
\<close>

definition Encrypt :: "bytes \<Rightarrow> bytes \<Rightarrow> bytes \<Rightarrow> bool \<Rightarrow> bytes \<Rightarrow> bytes" where
  "Encrypt randIn apduIn pKey isOma pOmaDest =
     (let apduBytes = (if isOma then pOmaDest @ apduIn else apduIn)
      in encrypt_loop (key_bytes isOma pKey) (bytes_from randIn 0 8, rev apduBytes))"

section \<open>A closed description\<close>

text \<open>The key byte and the index of every round of the loops over \<open>i\<close> and \<open>j\<close>.\<close>

definition encrypt_schedule :: "bytes \<Rightarrow> (u8 \<times> nat) list" where
  "encrypt_schedule keys = concat (map (\<lambda>key. map (Pair key) (rev [0..<8])) keys)"

text \<open>The first \<open>n\<close> bytes of a message that is continued with zeros.\<close>

definition pad :: "nat \<Rightarrow> bytes \<Rightarrow> bytes" where
  "pad n xs = take n (xs @ replicate n 0)"

fun encrypt_round :: "(u8 \<times> nat) \<times> u8 \<Rightarrow> bytes \<Rightarrow> bytes" where
  "encrypt_round ((key, j), m) ev = encrypt_byte key j m ev"

definition encrypt_rounds :: "nat \<Rightarrow> nat \<Rightarrow> nat" where
  "encrypt_rounds l n = (n + l - 1) div l"

definition encrypt_ref :: "bytes \<Rightarrow> bytes \<Rightarrow> bytes \<Rightarrow> bytes" where
  "encrypt_ref keys rest ev =
     (let l = 8 * length keys; r = encrypt_rounds l (length rest)
      in fold encrypt_round
           (zip (concat (replicate r (encrypt_schedule keys))) (pad (r * l) rest)) ev)"

lemma length_pad [simp]: "length (pad n xs) = n"
  by (simp add: pad_def)

lemma pad_0 [simp]: "pad 0 xs = []"
  by (simp add: pad_def)

lemma nth_pad: "i < n \<Longrightarrow> pad n xs ! i = (if i < length xs then xs ! i else 0)"
  by (simp add: pad_def nth_append)

lemma pad_Suc: "pad (Suc n) xs = next_byte xs # pad n (tl xs)"
  by (rule nth_equalityI)
    (auto simp: nth_pad next_byte_def nth_Cons nth_tl split: nat.split list.split)

lemma pad_add: "pad (m + n) xs = pad m xs @ pad n (drop m xs)"
  by (rule nth_equalityI) (auto simp: nth_pad nth_append)

lemma length_schedule [simp]: "length (encrypt_schedule keys) = 8 * length keys"
  by (induction keys) (simp_all add: encrypt_schedule_def)

lemma encrypt_bytes_fold:
  "fst (encrypt_bytes key j st) =
     fold encrypt_round (zip (map (Pair key) (rev [0..<j])) (pad j (snd st))) (fst st)"
  by (induction key j st rule: encrypt_bytes.induct) (simp_all add: pad_Suc)

lemma encrypt_keys_fold:
  "fst (encrypt_keys keys st) =
     fold encrypt_round (zip (encrypt_schedule keys) (pad (8 * length keys) (snd st))) (fst st)"
proof (induction keys st rule: encrypt_keys.induct)
  case (2 key keys st)
  have "pad (8 * length (key # keys)) (snd st) =
      pad 8 (snd st) @ pad (8 * length keys) (drop 8 (snd st))"
    using pad_add [of 8 "8 * length keys"] by simp
  then show ?case
    using 2 by (simp add: encrypt_schedule_def encrypt_bytes_fold del: upt_rec_numeral)
qed (simp add: encrypt_schedule_def)

lemma encrypt_rounds_0 [simp]: "0 < l \<Longrightarrow> encrypt_rounds l 0 = 0"
  by (simp add: encrypt_rounds_def)

lemma encrypt_rounds_Suc:
  assumes "0 < l" "0 < n" shows "encrypt_rounds l n = Suc (encrypt_rounds l (n - l))"
proof -
  have d: "(a + l) div l = Suc (a div l)" for a using assms by (simp add: div_add_self2)
  show ?thesis
  proof (cases "n \<le> l")
    case True
    then have a: "n + l - 1 = (n - 1) + l" "n - 1 < l" "n - l + l - 1 < l" using assms by simp_all
    then show ?thesis unfolding encrypt_rounds_def a(1) d by simp
  next
    case False
    then have a: "n + l - 1 = (n - l + l - 1) + l" using assms by simp
    show ?thesis unfolding encrypt_rounds_def a d ..
  qed
qed

lemma encrypt_loop_ref: "keys \<noteq> [] \<Longrightarrow> encrypt_loop keys st = encrypt_ref keys (snd st) (fst st)"
proof (induction keys st rule: encrypt_loop.induct)
  case (1 keys st)
  let ?l = "8 * length keys" and ?n = "length (snd st)"
  have l: "0 < ?l" using 1(2) by simp
  show ?case
  proof (cases "snd st = []")
    case True
    then show ?thesis using l by (simp add: encrypt_loop.simps [of keys st] encrypt_ref_def Let_def)
  next
    case False
    let ?r = "encrypt_rounds ?l (?n - ?l)"
    have r: "encrypt_rounds ?l ?n = Suc ?r" using False l by (intro encrypt_rounds_Suc) simp_all
    have "encrypt_loop keys st = encrypt_ref keys (drop ?l (snd st)) (fst (encrypt_keys keys st))"
      using 1 False by (simp add: encrypt_loop.simps [of keys st])
    also have "\<dots> = encrypt_ref keys (snd st) (fst st)"
      using pad_add [of ?l "?r * ?l" "snd st"]
      by (simp add: encrypt_ref_def Let_def r encrypt_keys_fold zip_append)
    finally show ?thesis .
  qed
qed

section \<open>The computation can be undone\<close>

lemma rotations_disjoint:
  fixes k :: u8
  shows "push_bit 1 k AND drop_bit 7 k = 0" and "drop_bit 1 k AND push_bit 7 k = 0"
proof -
  show "push_bit 1 k AND drop_bit 7 k = 0"
  proof (rule bit_word_eqI)
    fix n assume "n < LENGTH(8)"
    show "bit (push_bit 1 k AND drop_bit 7 k) n = bit (0 :: u8) n"
      using bit_imp_le_length [of k "7 + n"]
      by (cases "n = 0") (auto simp only: bit_and_iff bit_push_bit_iff bit_drop_bit_eq o_def, simp_all)
  qed
  show "drop_bit 1 k AND push_bit 7 k = 0"
  proof (rule bit_word_eqI)
    fix n assume "n < LENGTH(8)"
    show "bit (drop_bit 1 k AND push_bit 7 k) n = bit (0 :: u8) n"
      using bit_imp_le_length [of k "1 + n"]
      by (cases "n = 7") (auto simp only: bit_and_iff bit_push_bit_iff bit_drop_bit_eq o_def, simp_all)
  qed
qed

lemma bit_rotations:
  assumes "i < 8"
  shows "bit (push_bit 1 k + drop_bit 7 k) ((i + 1) mod 8) = bit (k :: u8) i"
    and "bit (drop_bit 1 k + push_bit 7 k) ((i + 7) mod 8) = bit (k :: u8) i"
proof -
  show "bit (push_bit 1 k + drop_bit 7 k) ((i + 1) mod 8) = bit k i"
    using assms bit_imp_le_length [of k "7 + (i + 1)"]
    unfolding disjunctive_add_eq_or [OF rotations_disjoint(1)]
    by (cases "i = 7") (auto simp only: bit_or_iff bit_push_bit_iff bit_drop_bit_eq o_def, simp_all)
  have "(i + 7) mod 8 = (if i = 0 then 7 else i - 1)" using assms by presburger
  then show "bit (drop_bit 1 k + push_bit 7 k) ((i + 7) mod 8) = bit k i"
    using assms bit_imp_le_length [of k 8]
    unfolding disjunctive_add_eq_or [OF rotations_disjoint(2)]
    by (cases "i = 0") (auto simp only: bit_or_iff bit_push_bit_iff bit_drop_bit_eq o_def, simp_all)
qed

lemma rotations_inj:
  fixes m n :: u8
  shows "push_bit 1 m + drop_bit 7 m = push_bit 1 n + drop_bit 7 n \<Longrightarrow> m = n"
    and "drop_bit 1 m + push_bit 7 m = drop_bit 1 n + push_bit 7 n \<Longrightarrow> m = n"
proof -
  show "m = n" if e: "push_bit 1 m + drop_bit 7 m = push_bit 1 n + drop_bit 7 n"
  proof (rule bit_word_eqI)
    fix i assume "i < LENGTH(8)"
    then show "bit m i = bit n i"
      using bit_rotations(1) [of i m] bit_rotations(1) [of i n] e by simp
  qed
  show "m = n" if e: "drop_bit 1 m + push_bit 7 m = drop_bit 1 n + push_bit 7 n"
  proof (rule bit_word_eqI)
    fix i assume "i < LENGTH(8)"
    then show "bit m i = bit n i"
      using bit_rotations(2) [of i m] bit_rotations(2) [of i n] e by simp
  qed
qed

lemma length_encrypt_byte [simp]: "length (encrypt_byte key j m ev) = length ev"
  by (simp add: encrypt_byte_def Let_def)

text \<open>A round determines the byte it replaces, and it determines the message byte.\<close>

lemma encrypt_byte_inj:
  assumes "encrypt_byte key j m ev = encrypt_byte key j m ev'" "j < 8" "length ev = 8" "length ev' = 8"
  shows "ev = ev'"
proof -
  let ?k = "(j + 1) mod 8" and ?n = "\<lambda>ev. NOT (ev ! j + of_nat j) :: u8"
  have k: "?k \<noteq> j" "?k < 8" using assms(2) by presburger+
  have other: "ev ! i = ev' ! i" if "i \<noteq> j" "i < 8" for i
    using arg_cong [OF assms(1), of "\<lambda>l. l ! i"] that by (simp add: encrypt_byte_def Let_def)
  have at: "encrypt_byte key j m ev ! j = encrypt_byte key j m ev' ! j" using assms(1) by simp
  have "?n ev = ?n ev'"
  proof (cases "bit key (7 - j)")
    case True
    have "push_bit 1 (?n ev) + drop_bit 7 (?n ev) = push_bit 1 (?n ev') + drop_bit 7 (?n ev')"
      using at other [OF k] assms(2-4) unfolding encrypt_byte_def Let_def
      by (simp only: True if_True nth_list_update_eq add_left_cancel)
    then show ?thesis by (rule rotations_inj(1))
  next
    case False
    have "drop_bit 1 (?n ev) + push_bit 7 (?n ev) = drop_bit 1 (?n ev') + push_bit 7 (?n ev')"
      using at other [OF k] assms(2-4) unfolding encrypt_byte_def Let_def
      by (simp only: False if_False nth_list_update_eq diff_left_imp_eq)
    then show ?thesis by (rule rotations_inj(2))
  qed
  then have "ev ! j = ev' ! j" by simp
  then show ?thesis using other assms(3,4) by (intro nth_equalityI) (auto, metis)
qed

lemma encrypt_byte_message:
  assumes "encrypt_byte key j a ev = encrypt_byte key j b ev" "j < 8" "length ev = 8"
  shows "a = b"
  using arg_cong [OF assms(1), of "\<lambda>l. l ! j"] assms(2,3)
  by (auto simp: encrypt_byte_def Let_def split: if_splits)

lemma length_encrypt_rounds [simp]: "length (fold encrypt_round rs ev) = length ev"
proof (induction rs arbitrary: ev)
  case (Cons r rs)
  obtain key j m where "r = ((key, j), m)" by (cases r) auto
  then show ?case using Cons by simp
qed simp

lemma encrypt_rounds_inj:
  assumes "fold encrypt_round rs ev = fold encrypt_round rs ev'"
    and "\<forall>r\<in>set rs. snd (fst r) < 8" "length ev = 8" "length ev' = 8"
  shows "ev = ev'"
  using assms
proof (induction rs arbitrary: ev ev')
  case (Cons r rs)
  obtain key j m where r: "r = ((key, j), m)" by (metis surj_pair)
  have "encrypt_byte key j m ev = encrypt_byte key j m ev'"
    by (rule Cons.IH) (use Cons.prems in \<open>simp_all add: r\<close>)
  moreover have "j < 8" using Cons.prems(2) by (simp add: r)
  ultimately show ?case using Cons.prems(3,4) by (rule encrypt_byte_inj)
qed simp

lemma schedule_indices: "r \<in> set (concat (replicate n (encrypt_schedule keys))) \<Longrightarrow> snd r < 8"
  by (auto simp: encrypt_schedule_def split: if_splits)

lemma zipped_indices:
  "\<forall>r\<in>set sched. snd r < 8 \<Longrightarrow> \<forall>r\<in>set (zip sched ms). snd (fst r) < 8"
  by (auto dest!: set_zip_leftD)

lemma pad_update: "i < length xs \<Longrightarrow> i < n \<Longrightarrow> pad n (xs[i := a]) = (pad n xs)[i := a]"
  by (rule nth_equalityI) (simp_all add: nth_pad nth_list_update)

text \<open>Another byte in one round leads to another value at the end.\<close>

lemma encrypt_rounds_message:
  assumes "fold encrypt_round (zip sched (ms[i := a])) ev = fold encrypt_round (zip sched (ms[i := b])) ev"
    and i: "i < length sched" "i < length ms"
    and s: "\<forall>r\<in>set sched. snd r < 8" and ev: "length ev = 8"
  shows "a = b"
proof -
  obtain key j where kj: "sched ! i = (key, j)" by (metis surj_pair)
  have "j < 8" using s i(1) nth_mem [of i sched] kj by auto
  have split: "zip sched (ms[i := c]) =
      zip (take i sched) (take i ms) @ ((key, j), c) # zip (drop (Suc i) sched) (drop (Suc i) ms)" for c
    using id_take_nth_drop [OF i(1)] kj
    by (metis (no_types) i length_take min.absorb4 upd_conv_take_nth_drop zip_Cons_Cons zip_append)
  let ?ev = "fold encrypt_round (zip (take i sched) (take i ms)) ev"
    and ?rest = "zip (drop (Suc i) sched) (drop (Suc i) ms)"
  have "encrypt_byte key j a ?ev = encrypt_byte key j b ?ev"
  proof (rule encrypt_rounds_inj)
    show "fold encrypt_round ?rest (encrypt_byte key j a ?ev) =
        fold encrypt_round ?rest (encrypt_byte key j b ?ev)"
      using assms(1) by (simp add: split)
    show "\<forall>r\<in>set ?rest. snd (fst r) < 8"
      using s by (intro zipped_indices) (auto dest!: in_set_dropD)
  qed (simp_all add: ev)
  then show ?thesis using \<open>j < 8\<close> by (rule encrypt_byte_message) (simp add: ev)
qed

section \<open>Properties\<close>

lemma length_encrypt_loop [simp]: "keys \<noteq> [] \<Longrightarrow> length (encrypt_loop keys st) = length (fst st)"
  by (simp add: encrypt_loop_ref encrypt_ref_def Let_def)

lemma key_bytes_nonempty [simp]: "key_bytes isOma pKey \<noteq> []"
  by (simp add: key_bytes_def Let_def IZOT_OMA_AUTHENTICATION_KEY_LENGTH_def
      IZOT_AUTHENTICATION_KEY_LENGTH_def)

lemma length_Encrypt [simp]: "length (Encrypt randIn apduIn pKey isOma pOmaDest) = 8"
  by (simp add: Encrypt_def)

lemma key_bytes_classic:
  assumes "length k = 6" shows "key_bytes False (k @ k') = k"
  using assms by (intro nth_equalityI)
    (simp_all add: key_bytes_def IZOT_AUTHENTICATION_KEY_LENGTH_def byte_at_def nth_append)

lemma Encrypt_cong:
  "bytes_from randIn 0 8 = bytes_from randIn' 0 8 \<Longrightarrow> key_bytes isOma k = key_bytes isOma k' \<Longrightarrow>
     (isOma \<Longrightarrow> d = d') \<Longrightarrow> Encrypt randIn apduIn k isOma d = Encrypt randIn' apduIn k' isOma d'"
  by (simp add: Encrypt_def)

lemma Encrypt_ref:
  "Encrypt randIn apduIn pKey isOma pOmaDest =
     encrypt_ref (key_bytes isOma pKey)
       (rev (if isOma then pOmaDest @ apduIn else apduIn)) (bytes_from randIn 0 8)"
  by (simp add: Encrypt_def encrypt_loop_ref)

text \<open>
  The nested loops of \<open>Encrypt\<close> are one pass over the rounds (key byte by key byte, the
  indices 7 to 0), each taking the next byte from the end of the message; the message is
  continued with zeros until the last pass over the key is complete.
\<close>

theorem Encrypt_is_one_pass:
  "Encrypt randIn apduIn pKey isOma pOmaDest =
     encrypt_ref (key_bytes isOma pKey)
       (rev (if isOma then pOmaDest @ apduIn else apduIn)) (bytes_from randIn 0 8)"
  by (rule Encrypt_ref)

lemma Encrypt_fold:
  "\<exists>sched n. (\<forall>r\<in>set sched. snd r < 8) \<and> length sched = n \<and> length msg \<le> n \<and>
     (\<forall>ev msg'. length msg' = length msg \<longrightarrow>
        encrypt_ref (key_bytes isOma pKey) msg' ev = fold encrypt_round (zip sched (pad n msg')) ev)"
proof -
  let ?l = "8 * length (key_bytes isOma pKey)"
  let ?r = "encrypt_rounds ?l (length msg)"
  let ?sched = "concat (replicate ?r (encrypt_schedule (key_bytes isOma pKey)))"
  have "0 < ?l" by simp
  then have "length msg \<le> ?r * ?l"
    unfolding encrypt_rounds_def using div_mult_mod_eq [of "length msg + ?l - 1" ?l]
      mod_less_divisor [of ?l "length msg + ?l - 1"] by linarith
  moreover have "length ?sched = ?r * ?l" by (simp add: length_concat sum_list_replicate)
  ultimately show ?thesis
    by (intro exI [of _ ?sched] exI [of _ "?r * ?l"])
      (simp add: encrypt_ref_def Let_def schedule_indices del: concat_replicate_trivial)
qed

text \<open>
  For one key and one message, two different challenges have two different answers: no
  answer can be used for another challenge.
\<close>

theorem different_challenges_different_answers:
  assumes "bytes_from randIn 0 8 \<noteq> bytes_from randIn' 0 8"
  shows "Encrypt randIn apduIn pKey isOma pOmaDest \<noteq> Encrypt randIn' apduIn pKey isOma pOmaDest"
proof
  assume eq: "Encrypt randIn apduIn pKey isOma pOmaDest = Encrypt randIn' apduIn pKey isOma pOmaDest"
  let ?msg = "rev (if isOma then pOmaDest @ apduIn else apduIn)"
  obtain sched n where sched: "\<forall>r\<in>set sched. snd r < 8"
    and ref: "\<And>ev. encrypt_ref (key_bytes isOma pKey) ?msg ev = fold encrypt_round (zip sched (pad n ?msg)) ev"
    using Encrypt_fold [where msg = ?msg] by blast
  have "bytes_from randIn 0 8 = bytes_from randIn' 0 8"
  proof (rule encrypt_rounds_inj)
    show "fold encrypt_round (zip sched (pad n ?msg)) (bytes_from randIn 0 8) =
        fold encrypt_round (zip sched (pad n ?msg)) (bytes_from randIn' 0 8)"
      using eq by (simp only: Encrypt_ref ref)
    show "\<forall>r\<in>set (zip sched (pad n ?msg)). snd (fst r) < 8"
      using sched by (rule zipped_indices)
  qed simp_all
  then show False using assms by contradiction
qed

theorem different_challenges_different_answers_witness:
  "Encrypt [1, 2, 3, 4, 5, 6, 7, 8] [0x11] [1, 2, 3, 4, 5, 6] False [] \<noteq>
   Encrypt [1, 2, 3, 4, 5, 6, 7, 9] [0x11] [1, 2, 3, 4, 5, 6] False []"
  by (rule different_challenges_different_answers) (simp add: bytes_from_def numeral_eq_Suc)

text \<open>
  The answer depends on every single byte of the message: if two APDUs differ in exactly
  one byte, the answers to the same challenge differ, for both kinds of keys.
\<close>

theorem every_byte_is_authenticated:
  assumes "i < length apduIn" "a \<noteq> b"
  shows "Encrypt randIn (apduIn[i := a]) pKey isOma pOmaDest \<noteq>
         Encrypt randIn (apduIn[i := b]) pKey isOma pOmaDest"
proof
  assume eq: "Encrypt randIn (apduIn[i := a]) pKey isOma pOmaDest =
    Encrypt randIn (apduIn[i := b]) pKey isOma pOmaDest"
  let ?msg = "\<lambda>apdu. rev (if isOma then pOmaDest @ apdu else apdu)"
  let ?k = "length apduIn - i - 1"
  obtain sched n where sched: "\<forall>r\<in>set sched. snd r < 8" "length sched = n" "length (?msg apduIn) \<le> n"
    and ref: "\<And>ev msg'. length msg' = length (?msg apduIn) \<Longrightarrow>
      encrypt_ref (key_bytes isOma pKey) msg' ev = fold encrypt_round (zip sched (pad n msg')) ev"
    using Encrypt_fold [where msg = "?msg apduIn"] by blast
  have k: "?k < length (?msg apduIn)" "?k < n" using assms(1) sched(3) by (auto split: if_splits)
  have msg: "?msg (apduIn[i := c]) = (?msg apduIn)[?k := c]" for c
    using assms(1) by (auto simp: rev_update list_update_append)
  have enc: "Encrypt randIn (apduIn[i := c]) pKey isOma pOmaDest =
      fold encrypt_round (zip sched ((pad n (?msg apduIn))[?k := c])) (bytes_from randIn 0 8)" for c
    using k by (simp add: Encrypt_ref msg ref pad_update del: if_split_asm)
  have "a = b"
    by (rule encrypt_rounds_message [OF eq [unfolded enc]]) (use k sched in auto)
  then show False using assms(2) by contradiction
qed

theorem every_byte_is_authenticated_witness:
  "Encrypt [1, 2, 3, 4, 5, 6, 7, 8] [0x11, 0x22] [1, 2, 3, 4, 5, 6] False [] \<noteq>
   Encrypt [1, 2, 3, 4, 5, 6, 7, 8] [0x11, 0x23] [1, 2, 3, 4, 5, 6] False []"
  using every_byte_is_authenticated [of 1 "[0x11, 0]" "0x22" "0x23" "[1, 2, 3, 4, 5, 6, 7, 8]"
      "[1, 2, 3, 4, 5, 6]" False "[]"] by simp

text \<open>
  A classic answer to a message without bytes is the challenge itself: the loop over the
  message does not run, and the key has no part in the result.
\<close>

theorem empty_message_echoes_the_challenge:
  "Encrypt randIn [] pKey False pOmaDest = bytes_from randIn 0 8"
  by (simp add: Encrypt_def encrypt_loop.simps)

end
