(* ===== verification/Sample_Stack.thy ===== *)
theory Sample_Stack
  imports Lon_Types
begin

text \<open>
  A concrete stack state, as it is after a reset of a configured node, for the examples at
  which the properties are evaluated: domain 0 has the one-byte identifier \<open>0x51\<close>, in which
  the node is node 10 of subnet 1; domain 1 is not in use; the address table holds two
  entries of group 7 in domain 0, of which the first one counts; every queue has four slots.
\<close>

definition emptyQueue :: "nat \<Rightarrow> 'a \<Rightarrow> 'a Queue" where
  "emptyQueue cap x =
     \<lparr>queueName = None, queueCapacity = cap, queueEntries = 0, entrySize = 1,
      emptyCountReports = 0, qhead = 0, headIndex = 0, qtail = 0, tailIndex = 0,
      qdata = Some (replicate cap x)\<rparr>"

lemma emptyQueue_wf [simp]: "0 < cap \<Longrightarrow> queue_wf (emptyQueue cap x)"
  by (simp add: emptyQueue_def queue_wf_def)

definition sampleTimer :: LonTimer where
  "sampleTimer = \<lparr>expiration = 0, repeatTimeout = 0\<rparr>"

definition sampleDmn :: Domain where
  "sampleDmn = \<lparr>domainIndex = 0, domainLen = 1, domainId = [0x51, 0, 0, 0, 0, 0]\<rparr>"

definition sampleSn :: IzotReceiveSubnetNode where
  "sampleSn = \<lparr>snSubnet = 1, snNode = 0x94\<rparr>"

definition sampleSrc :: SourceAddress where
  "sampleSrc = \<lparr>srcSubnetAddr = sampleSn, srcMode = AM_SUBNET_NODE, srcDmn = sampleDmn, srcGroup = 0,
     srcAckNode = \<lparr>mcaSubnetAddr = sampleSn, mcaGroup = 0, mcaMember = 0\<rparr>, srcBroadcastSubnet = 0\<rparr>"

definition sampleDst :: DestinationAddress where
  "sampleDst = \<lparr>dstDmn = sampleDmn, dstAddr = DA_SubnetNode sampleSn\<rparr>"

definition sampleAltKey :: AltKey where
  "sampleAltKey = \<lparr>altKey = False, altKeyValue = [[0, 0, 0, 0, 0, 0], [0, 0, 0, 0, 0, 0]]\<rparr>"

definition sampleSendAddress :: IzotSendAddress where
  "sampleSendAddress = \<lparr>saTypeSize = 1, saDomain = 20, saRepeatRetry = 0x13, saTransmit = 0x04,
     saSubnetGroup = 1, saNeuronId = [0, 0, 0, 0, 0, 0]\<rparr>"

definition sampleTx :: TransmitRecord where
  "sampleTx = \<lparr>txStatus = UNUSED_TX, txNwDestAddr = sampleDst, txAckReceived = replicate 64 False,
     txDestCount = 0, txAckCount = 0, txTransNum = 0, txXmitTimerValue = 0, txXmitTimer = sampleTimer,
     txRetriesLeft = 0, txApdu = [], txApduSize = 0, txAuth = False, txTimerDeltaLast = 0,
     txAltKey = sampleAltKey, txVersion = LsProtocolModeLegacy\<rparr>"

definition sampleRr :: ReceiveRecord where
  "sampleRr = \<lparr>rrStatus = UNUSED_RR, rrSrcAddr = sampleSrc, rrTransNum = 0, rrReqId = 0,
     rrRecvTimer = sampleTimer, rrTransState = JUST_RECEIVED, rrPriority = False, rrAltPath = 0,
     rrAuth = False, rrNeedAuth = False, rrServiceType = IzotServiceAcknowledged,
     rrRand = replicate 8 0, rrResponse = replicate 82 0, rrRspSize = 0, rrApdu = replicate 82 0,
     rrApduSize = 0, rrXcvrParams = replicate 7 0, rrVersion = LsProtocolModeLegacy\<rparr>"

definition sampleNws :: NWSendParam where
  "sampleNws = \<lparr>nwsDestAddr = sampleDst, nwsPduType = TPDU_TYPE, nwsTag = 0, nwsDeltaBL = 0,
     nwsAltPath = 0, nwsPduSize = 0, nwsDropIfUnconfigured = False, nwsProxy = False,
     nwsVersion = LsProtocolModeLegacy, nwsPdu = []\<rparr>"

definition sampleNwr :: NWReceiveParam where
  "sampleNwr = \<lparr>nwrPriority = False, nwrAltPath = 0, nwrPduSize = 0, nwrPdu = []\<rparr>"

definition sampleTss :: TSASendParam where
  "sampleTss = \<lparr>tssDestAddr = sampleSendAddress, tssDmn = sampleDmn,
     tssService = IzotServiceAcknowledged, tssAuth = False, tssApduSize = 2, tssTag = 3,
     tssNullResponse = False, tssFlexResponse = False, tssReqId = 0, tssAltPathOverride = False,
     tssAltPath = 0, tssPriority = False, tssProxy = False, tssProxyDone = False,
     tssTxInherit = False, tssProxyCount = 0, tssTxTimerDeltaLast = 0, tssAltKey = sampleAltKey,
     tssApdu = [0x21, 0x22]\<rparr>"

definition sampleTsr :: TSAReceiveParam where
  "sampleTsr = \<lparr>tsrSrcAddr = sampleSrc, tsrPriority = False, tsrPduSize = 3, tsrPduType = TPDU_TYPE,
     tsrAltPath = 0, tsrXcvrParams = replicate 7 0, tsrVersion = LsProtocolModeLegacy,
     tsrPdu = [0x05, 0x21, 0x22]\<rparr>"

definition sampleApr :: APPReceiveParam where
  "sampleApr = \<lparr>aprIndication = MESSAGE, aprSuccess = False, aprTag = 0, aprSrcAddr = sampleSrc,
     aprService = IzotServiceAcknowledged, aprPriority = False, aprAltPath = 0, aprPduSize = 0,
     aprAuth = False, aprReqId = 0, aprProxy = False, aprProxyDone = False, aprProxyCount = 0,
     aprXcvrParams = replicate 7 0, aprApdu = []\<rparr>"

definition sampleLks :: LKSendParam where
  "sampleLks = \<lparr>lksDeltaBL = 0, lksAltPath = 0, lksPduSize = 0, lksDomainIndex = 0, lksNpdu = []\<rparr>"

definition sampleDomain :: IzotDomain where
  "sampleDomain = \<lparr>domId = [0x51, 0, 0, 0, 0, 0], domSubnet = 1, domNodeClone = 0x8A,
     domInvalidIdLength = 0x01, domKey = [1, 2, 3, 4, 5, 6]\<rparr>"

definition sampleDomain1 :: IzotDomain where
  "sampleDomain1 = \<lparr>domId = [0, 0, 0, 0, 0, 0], domSubnet = 0, domNodeClone = 0,
     domInvalidIdLength = 0x80, domKey = [0, 0, 0, 0, 0, 0]\<rparr>"

definition zeroAddress :: IzotAddress where
  "zeroAddress = \<lparr>adTypeSize = 0, adDomainMember = 0, adRepeatRetry = 0, adReceiveTransmit = 0,
                  adGroup = 0\<rparr>"

definition sampleAddrTable :: "IzotAddress list" where
  "sampleAddrTable =
     \<lparr>adTypeSize = 1, adDomainMember = 5, adRepeatRetry = 0, adReceiveTransmit = 0, adGroup = 7\<rparr> #
     \<lparr>adTypeSize = 0x85, adDomainMember = 3, adRepeatRetry = 0, adReceiveTransmit = 0x40, adGroup = 7\<rparr> #
     \<lparr>adTypeSize = 0x85, adDomainMember = 9, adRepeatRetry = 0, adReceiveTransmit = 0, adGroup = 7\<rparr> #
     replicate 251 zeroAddress"

definition sampleTid :: TIDTableEntry where
  "sampleTid = \<lparr>tidDomainId = replicate 6 0, tidLen = 0, tidAddr = DA_Unbound, tidTimer = sampleTimer,
     tidTid = 0\<rparr>"

definition sampleStack :: stack where
  "sampleStack =
     \<lparr>readOnlyData = \<lparr>roUniqueNodeId = [1, 2, 3, 4, 5, 6], roReadOnly1 = 0x40, roReadOnly2 = 0x4C,
        roAppBufSize = 0, roNwBufSize = 0, roPriCnt = 0x22, roAppBufCnt = 0x33, roNwBufCnt = 0x33,
        roExtended = 254\<rparr>,
      configNonGrpRcv = 8, domainTable = [sampleDomain, sampleDomain1],
      addrTable = sampleAddrTable, nvConfigTable = [], nvAliasTable = [],
      stats = replicate 26 0, mtagCount = 0, resetCause = IzotPowerUpReset, nvTableSize = 0,
      rxStat = replicate 8 0,
      priTransCtrlRec = \<lparr>tcTransNum = 0, tcInProgress = False\<rparr>,
      nonpriTransCtrlRec = \<lparr>tcTransNum = 0, tcInProgress = False\<rparr>,
      priTransID = 0, nonpriTransID = 0,
      priTbl = replicate 10 sampleTid, nonpriTbl = replicate 10 sampleTid,
      priTblSize = 0, nonpriTblSize = 0,
      tsDelayTimer = sampleTimer, xmitRec = sampleTx, priXmitRec = sampleTx,
      recvRec = replicate 16 sampleRr, reqId = 0, prevChallenge = replicate 8 0,
      appInQ = emptyQueue 4 sampleApr, appCeRspInQ = emptyQueue 4 sampleApr, appInBufSize = 255,
      tsaInQ = emptyQueue 4 sampleTsr, tsaInBufSize = 259, tsaInQCnt = 4,
      tsaOutQ = emptyQueue 4 sampleTss, tsaOutBufSize = 259, tsaOutQCnt = 4,
      tsaOutPriQ = emptyQueue 4 sampleTss, tsaOutPriBufSize = 259, tsaOutPriQCnt = 4,
      tsaRespQ = emptyQueue 4 sampleTss, tsaRespBufSize = 255, tsaRespQCnt = 4,
      nwInQ = emptyQueue 4 sampleNwr, nwInBufSize = 255, nwInQCnt = 4,
      nwOutQ = emptyQueue 4 sampleNws, nwOutBufSize = 255, nwOutQCnt = 4,
      nwOutPriQ = emptyQueue 4 sampleNws, nwOutPriBufSize = 255, nwOutPriQCnt = 4,
      lkOutQ = emptyQueue 4 sampleLks, lkOutBufSize = 276,
      lkOutPriQ = emptyQueue 4 sampleLks, lkOutPriBufSize = 276,
      resetNode = False, resetOk = True, appPgmMode = ON_LINE, memFault = False\<rparr>"

lemma sampleStack_fields [simp]:
  "readOnlyData sampleStack = \<lparr>roUniqueNodeId = [1, 2, 3, 4, 5, 6], roReadOnly1 = 0x40,
     roReadOnly2 = 0x4C, roAppBufSize = 0, roNwBufSize = 0, roPriCnt = 0x22, roAppBufCnt = 0x33,
     roNwBufCnt = 0x33, roExtended = 254\<rparr>"
  "configNonGrpRcv sampleStack = 8"
  "domainTable sampleStack = [sampleDomain, sampleDomain1]"
  "addrTable sampleStack = sampleAddrTable"
  "stats sampleStack = replicate 26 0"
  "rxStat sampleStack = replicate 8 0"
  "priTransCtrlRec sampleStack = \<lparr>tcTransNum = 0, tcInProgress = False\<rparr>"
  "nonpriTransCtrlRec sampleStack = \<lparr>tcTransNum = 0, tcInProgress = False\<rparr>"
  "priTransID sampleStack = 0" "nonpriTransID sampleStack = 0"
  "priTbl sampleStack = replicate 10 sampleTid" "nonpriTbl sampleStack = replicate 10 sampleTid"
  "priTblSize sampleStack = 0" "nonpriTblSize sampleStack = 0"
  "tsDelayTimer sampleStack = sampleTimer" "xmitRec sampleStack = sampleTx"
  "priXmitRec sampleStack = sampleTx" "recvRec sampleStack = replicate 16 sampleRr"
  "reqId sampleStack = 0" "prevChallenge sampleStack = replicate 8 0"
  "appInQ sampleStack = emptyQueue 4 sampleApr" "appCeRspInQ sampleStack = emptyQueue 4 sampleApr"
  "appInBufSize sampleStack = 255"
  "tsaInQ sampleStack = emptyQueue 4 sampleTsr" "tsaInBufSize sampleStack = 259"
  "tsaOutQ sampleStack = emptyQueue 4 sampleTss" "tsaOutPriQ sampleStack = emptyQueue 4 sampleTss"
  "tsaRespQ sampleStack = emptyQueue 4 sampleTss" "nwInQ sampleStack = emptyQueue 4 sampleNwr"
  "nwInBufSize sampleStack = 255" "nwOutQ sampleStack = emptyQueue 4 sampleNws"
  "nwOutBufSize sampleStack = 255" "nwOutPriQ sampleStack = emptyQueue 4 sampleNws"
  "nwOutPriBufSize sampleStack = 255" "lkOutQ sampleStack = emptyQueue 4 sampleLks"
  "lkOutBufSize sampleStack = 276" "lkOutPriQ sampleStack = emptyQueue 4 sampleLks"
  "lkOutPriBufSize sampleStack = 276" "resetOk sampleStack" "appPgmMode sampleStack = ON_LINE"
  "memFault sampleStack = False" "nvTableSize sampleStack = 0"
  by (simp_all add: sampleStack_def)

end
