(* ===== verification/Lcs_Node.thy ===== *)
theory Lcs_Node
  imports Sample_Stack
begin

text \<open>
  \<^verbatim>\<open>lcs/lcs_node.c\<close>: access to the domain, address and network variable tables, the decoding
  of buffer and timer codes, the node state tests, and the initial tables; with
  \<open>IncrementStat\<close> of \<^verbatim>\<open>lcs/lcs_network.c\<close>, which every layer calls. A pointer to a table entry
  is the entry's index. Log messages are left out.
\<close>

section \<open>Domain and address tables\<close>

definition AccessDomain :: "stack \<Rightarrow> u8 \<Rightarrow> nat option" where
  "AccessDomain s indexIn =
     (if indexIn \<le> IZOT_READONLY_TWO_DOMAINS (readOnlyData s) then Some (unat indexIn) else None)"

definition UpdateDomain :: "stack \<Rightarrow> IzotDomain \<Rightarrow> u8 \<Rightarrow> bool \<Rightarrow> LonStatusCode \<times> stack" where
  "UpdateDomain s domainInp indexIn includeKey =
     (let nDomains = (if IZOT_READONLY_TWO_DOMAINS (readOnlyData s) \<noteq> 0 then MAX_DOMAINS else 1)
      in if unat indexIn < nDomains then
           (let old = domainTable s ! unat indexIn;
                new = (if includeKey then domainInp else domainInp\<lparr>domKey := domKey old\<rparr>)
            in (LonStatusNoError, s\<lparr>domainTable := (domainTable s)[unat indexIn := new]\<rparr>))
         else (LonStatusInvalidDomain, s))"

definition AccessAddress :: "stack \<Rightarrow> nat \<Rightarrow> nat option" where
  "AccessAddress s indexIn =
     (if indexIn < unat (roExtended (readOnlyData s)) then Some indexIn else None)"

definition UpdateAddress :: "stack \<Rightarrow> IzotAddress \<Rightarrow> nat \<Rightarrow> LonStatusCode \<times> stack" where
  "UpdateAddress s addrEntryInp indexIn =
     (if indexIn < unat (roExtended (readOnlyData s)) then
        (LonStatusNoError, s\<lparr>addrTable := (addrTable s)[indexIn := addrEntryInp]\<rparr>)
      else (LonStatusInvalidAddrTableIndex, s))"

text \<open>
  \<open>IsGroupMember\<close> and \<open>AddrTableIndex\<close> run the same loop: the index of the first entry of
  group format with the group and domain index.
\<close>

fun group_loop :: "IzotAddress list \<Rightarrow> u8 \<Rightarrow> u8 \<Rightarrow> nat \<Rightarrow> nat option" where
  "group_loop [] domainIndexIn groupIn i = None"
| "group_loop (a # as) domainIndexIn groupIn i =
     (if IZOT_ADDRESS_GROUP_TYPE a = 1 \<and> adGroup a = groupIn \<and>
         IZOT_ADDRESS_GROUP_DOMAIN a = domainIndexIn
      then Some i else group_loop as domainIndexIn groupIn (i + 1))"

text \<open>The result is \<open>None\<close> for \<open>FALSE\<close>, and the member number when the answer is \<open>TRUE\<close>.\<close>

definition IsGroupMember :: "stack \<Rightarrow> u8 \<Rightarrow> u8 \<Rightarrow> u8 option" where
  "IsGroupMember s domainIndexIn groupIn =
     (case group_loop (take NUM_ADDR_TBL_ENTRIES (addrTable s)) domainIndexIn groupIn 0 of
        None \<Rightarrow> None
      | Some i \<Rightarrow> Some (IZOT_ADDRESS_GROUP_MEMBER (addrTable s ! i)))"

definition AddrTableIndex :: "stack \<Rightarrow> u8 \<Rightarrow> u8 \<Rightarrow> nat" where
  "AddrTableIndex s domainIndexIn groupIn =
     (case group_loop (take NUM_ADDR_TBL_ENTRIES (addrTable s)) domainIndexIn groupIn 0 of
        None \<Rightarrow> 0xFF
      | Some i \<Rightarrow> i)"

section \<open>Buffer and timer codes\<close>

definition bufSizeCodeLGbl :: "nat list" where
  "bufSizeCodeLGbl = [255, 20, 20, 21, 22, 24, 26, 30, 34, 42, 50, 66, 82, 114, 146, 210]"

definition bufCntCodeLGbl :: "nat list" where
  "bufCntCodeLGbl = [0, 1, 1, 2, 3, 5, 7, 11, 15, 23, 31, 47, 63, 95, 127, 191]"

definition rptTimerCodeLGbl :: "nat list" where
  "rptTimerCodeLGbl =
     [16, 24, 32, 48, 64, 96, 128, 192, 256, 384, 512, 768, 1024, 1536, 2048, 3072]"

definition rcvTimerCodeLGbl :: "nat list" where
  "rcvTimerCodeLGbl =
     [128, 192, 256, 384, 512, 768, 1024, 1536, 2048, 3072, 4096, 6144, 8192, 12288, 16384, 24576]"

definition DecodeBufferSize :: "u8 \<Rightarrow> LonStatusCode + nat" where
  "DecodeBufferSize bufSizeIn =
     (if bufSizeIn \<le> 15 then Inr (bufSizeCodeLGbl ! unat bufSizeIn)
      else Inl LonStatusInvalidBufferSize)"

definition DecodeBufferCnt :: "u8 \<Rightarrow> LonStatusCode + nat" where
  "DecodeBufferCnt bufCntIn =
     (if bufCntIn \<le> 15 then Inr (bufCntCodeLGbl ! unat bufCntIn)
      else Inl LonStatusInvalidBufferCount)"

definition DecodeRptTimer :: "u8 \<Rightarrow> LonStatusCode + u16" where
  "DecodeRptTimer rptTimerIn =
     (if rptTimerIn \<le> 15 then Inr (of_nat (rptTimerCodeLGbl ! unat rptTimerIn))
      else Inl LonStatusInvalidTimer)"

definition DecodeRcvTimer :: "u8 \<Rightarrow> LonStatusCode + u16" where
  "DecodeRcvTimer rcvTimerIn =
     (if rcvTimerIn \<le> 15 then Inr (of_nat (rcvTimerCodeLGbl ! unat rcvTimerIn))
      else Inl LonStatusInvalidTimer)"

definition DecodeTxTimer :: "u8 \<Rightarrow> u16" where
  "DecodeTxTimer txTimerIn =
     (let v = 16 * 2 ^ (unat txTimerIn div 2);
          v = (if odd (unat txTimerIn) then v + v div 2 else v)
      in of_nat v)"

section \<open>Network variable and alias tables\<close>

definition AccessNV :: "stack \<Rightarrow> nat \<Rightarrow> nat option" where
  "AccessNV s indexIn = (if indexIn < nvTableSize s then Some indexIn else None)"

definition AccessAlias :: "stack \<Rightarrow> nat \<Rightarrow> nat option" where
  "AccessAlias s indexIn = (if indexIn < NV_ALIAS_TABLE_SIZE then Some indexIn else None)"

definition UpdateNV :: "stack \<Rightarrow> IzotDatapointConfig option \<Rightarrow> nat \<Rightarrow> stack" where
  "UpdateNV s nvStructInp indexIn =
     (case nvStructInp of
        Some c \<Rightarrow> (if indexIn < nvTableSize s
                    then s\<lparr>nvConfigTable := (nvConfigTable s)[indexIn := c]\<rparr> else s)
      | None \<Rightarrow> s)"

definition UpdateAlias :: "stack \<Rightarrow> IzotAliasConfig option \<Rightarrow> nat \<Rightarrow> stack" where
  "UpdateAlias s aliasStructInp indexIn =
     (case aliasStructInp of
        Some c \<Rightarrow> (if indexIn < NV_ALIAS_TABLE_SIZE
                    then s\<lparr>nvAliasTable := (nvAliasTable s)[indexIn := c]\<rparr> else s)
      | None \<Rightarrow> s)"

text \<open>An index is an \<open>IzotBits16\<close>; the results are \<open>-1\<close> for a bad index.\<close>

definition GetPrimaryIndex :: "stack \<Rightarrow> int \<Rightarrow> int" where
  "GetPrimaryIndex s nvIndex =
     (if nvIndex < 0 \<or> nvIndex \<ge> int (nvTableSize s + NV_ALIAS_TABLE_SIZE) then -1
      else if nvIndex < int (nvTableSize s) then nvIndex
      else
        (let i = nat nvIndex - nvTableSize s;
             primaryIndex = int (unat (aliasPrimary (nvAliasTable s ! i)))
         in if primaryIndex \<ge> int (nvTableSize s) then -1 else primaryIndex))"

definition GetNVStructPtr :: "stack \<Rightarrow> int \<Rightarrow> IzotDatapointConfig option" where
  "GetNVStructPtr s nvIndexIn =
     (if nvIndexIn < 0 \<or> nvIndexIn \<ge> int (nvTableSize s + NV_ALIAS_TABLE_SIZE) then None
      else if nvIndexIn < int (nvTableSize s) then Some (nvConfigTable s ! nat nvIndexIn)
      else Some (aliasConfig (nvAliasTable s ! (nat nvIndexIn - nvTableSize s))))"

definition IsTagBound :: "stack \<Rightarrow> u8 \<Rightarrow> bool" where
  "IsTagBound s tagIn \<longleftrightarrow>
     tagIn < mtagCount s \<and> unat tagIn < NUM_ADDR_TBL_ENTRIES \<and>
     adTypeSize (addrTable s ! unat tagIn) \<noteq> 0"

section \<open>Checksums, node state and statistics\<close>

definition CheckSum8 :: "bytes \<Rightarrow> u8" where
  "CheckSum8 dataIn = fold (\<lambda>p result. result XOR p) dataIn 0"

definition AppPgmRuns :: "stack \<Rightarrow> bool" where
  "AppPgmRuns s =
     (if IZOT_READONLY_NODE_STATE (readOnlyData s) = IzotConfigOnLine \<and> appPgmMode s = ON_LINE
      then True
      else if IZOT_READONLY_NODE_STATE (readOnlyData s) = IzotApplicationUnconfig \<and>
              IZOT_READONLY_RUN_UNCONFIG (readOnlyData s) \<noteq> 0 \<and> appPgmMode s = ON_LINE
      then True
      else False)"

definition NodeConfigured :: "stack \<Rightarrow> bool" where
  "NodeConfigured s \<longleftrightarrow> IZOT_READONLY_NODE_STATE (readOnlyData s) AND IS_CONFIGURED \<noteq> 0"

definition NodeUnConfigured :: "stack \<Rightarrow> bool" where
  "NodeUnConfigured s \<longleftrightarrow> IZOT_READONLY_NODE_STATE (readOnlyData s) \<noteq> IzotConfigOnLine"

text \<open>\<open>rx[channel][path][type]\<close> is the element \<open>(channel * 2 + path) * 2 + type\<close> of \<open>rxStat\<close>.\<close>

definition LCS_LogRxStat :: "stack \<Rightarrow> u8 \<Rightarrow> RxStatType \<Rightarrow> stack" where
  "LCS_LogRxStat s altPath rxType =
     (let channel = (if altPath AND ALT_CHANNEL \<noteq> 0 then 1 else 0);
          i = (channel * 2 + unat (altPath AND ALT_PATH)) * 2 +
              (case rxType of RX_SOLICITED \<Rightarrow> 0 | RX_UNSOLICITED \<Rightarrow> 1)
      in s\<lparr>rxStat := (rxStat s)[i := rxStat s ! i + 1]\<rparr>)"

definition IncrementStat :: "LcsStatistic \<Rightarrow> stack \<Rightarrow> stack" where
  "IncrementStat stat s =
     (let p = lcsStatIndex stat * 2; p0 = stats s ! p; p1 = stats s ! (p + 1)
      in if p0 \<noteq> 0xff \<or> p1 \<noteq> 0xff then
           (let st = (stats s)[p + 1 := p1 + 1]
            in if p1 + 1 = 0 then s\<lparr>stats := st[p := p0 + 1]\<rparr> else s\<lparr>stats := st\<rparr>)
         else s)"

definition izot_device_reset :: "stack \<Rightarrow> stack" where
  "izot_device_reset s = s\<lparr>resetNode := True, resetCause := IzotSoftwareReset\<rparr>"

section \<open>Initial tables\<close>

definition LCS_InitAddress :: "stack \<Rightarrow> stack" where
  "LCS_InitAddress s =
     s\<lparr>addrTable := map (\<lambda>i. if i < NUM_ADDR_TBL_ENTRIES then zeroAddress else addrTable s ! i)
                       [0..<length (addrTable s)]\<rparr>"

text \<open>
  \<open>LCS_InitAlias\<close> writes through byte pointers, so it is stated on the bytes of
  \<open>nvAliasTable\<close>, entry \<open>i\<close> at \<open>sizeof(IzotAliasConfig) * i\<close>, and what follows them.
\<close>

definition sizeof_IzotAliasConfig :: nat where "sizeof_IzotAliasConfig = 5"

fun alias_clear_loop :: "nat \<Rightarrow> bytes \<Rightarrow> bytes" where
  "alias_clear_loop 0 m = m"
| "alias_clear_loop (Suc i) m =
     copy_into (alias_clear_loop i m) (sizeof_IzotAliasConfig * i) (replicate 6 0)"

fun alias_init_loop :: "nat \<Rightarrow> bytes \<Rightarrow> bytes" where
  "alias_init_loop 0 m = m"
| "alias_init_loop (Suc i) m =
     copy_into (alias_init_loop i m) (sizeof_IzotAliasConfig * i)
       [0x7F, 0xFF, 0x0F, 0xFF, 0xFF, 0xFF]"

definition LCS_InitAlias :: "bytes \<Rightarrow> bytes" where
  "LCS_InitAlias m = alias_init_loop NV_ALIAS_TABLE_SIZE (alias_clear_loop NV_ALIAS_TABLE_SIZE m)"

section \<open>Group membership\<close>

lemma group_loop_Some:
  "group_loop as d g k = Some i \<Longrightarrow>
     k \<le> i \<and> i < k + length as \<and> IZOT_ADDRESS_GROUP_TYPE (as ! (i - k)) = 1 \<and>
     adGroup (as ! (i - k)) = g \<and> IZOT_ADDRESS_GROUP_DOMAIN (as ! (i - k)) = d"
  by (induction as d g k rule: group_loop.induct) (auto simp: nth_Cons' split: if_splits)

lemma group_loop_None:
  "group_loop as d g k = None \<longleftrightarrow>
     \<not> (\<exists>a\<in>set as. IZOT_ADDRESS_GROUP_TYPE a = 1 \<and> adGroup a = g \<and> IZOT_ADDRESS_GROUP_DOMAIN a = d)"
  by (induction as d g k rule: group_loop.induct) auto

text \<open>
  The two lookups of the address table agree: \<open>AddrTableIndex\<close> returns \<open>0xFF\<close> exactly
  when the node is not a member of the group in that domain, and otherwise the index of a
  group entry of that group and domain below the table size, whose member number is the
  one \<open>IsGroupMember\<close> reports.
\<close>

theorem group_lookups_agree:
  assumes "length (addrTable s) = NUM_ADDR_TBL_ENTRIES"
  shows "(AddrTableIndex s d g = 0xFF \<longleftrightarrow> IsGroupMember s d g = None) \<and>
    (\<forall>m. IsGroupMember s d g = Some m \<longrightarrow>
      (let i = AddrTableIndex s d g
       in i < NUM_ADDR_TBL_ENTRIES \<and> IZOT_ADDRESS_GROUP_TYPE (addrTable s ! i) = 1 \<and>
          adGroup (addrTable s ! i) = g \<and> IZOT_ADDRESS_GROUP_DOMAIN (addrTable s ! i) = d \<and>
          IZOT_ADDRESS_GROUP_MEMBER (addrTable s ! i) = m))"
proof (cases "group_loop (addrTable s) d g 0")
  case None
  then show ?thesis using assms by (simp add: AddrTableIndex_def IsGroupMember_def)
next
  case (Some i)
  have "i < NUM_ADDR_TBL_ENTRIES" using group_loop_Some [OF Some] assms by simp
  then show ?thesis
    using group_loop_Some [OF Some] Some assms
    by (simp add: AddrTableIndex_def IsGroupMember_def NUM_ADDR_TBL_ENTRIES_def)
qed

lemma sample_group_loop:
  "group_loop (take NUM_ADDR_TBL_ENTRIES sampleAddrTable) 0 7 0 = Some 1"
  by (simp add: sampleAddrTable_def NUM_ADDR_TBL_ENTRIES_def get_attribute_def take_Cons')

theorem group_lookups_agree_witness:
  "AddrTableIndex sampleStack 0 7 = 1 \<and> IsGroupMember sampleStack 0 7 = Some 3"
  using group_lookups_agree [of sampleStack 0 7]
  by (simp add: AddrTableIndex_def IsGroupMember_def sample_group_loop)
     (simp add: sampleAddrTable_def NUM_ADDR_TBL_ENTRIES_def get_attribute_def)

section \<open>Domain table\<close>

lemma two_domains_0_1: "IZOT_READONLY_TWO_DOMAINS r = 0 \<or> IZOT_READONLY_TWO_DOMAINS r = 1"
proof -
  have "get_attribute 0x40 6 b = (if bit b 6 then 1 else 0)" for b :: u8
    by (rule bit_word_eqI) (auto simp: get_attribute_def bit_simps, metis add_0_right gr0I)
  then show ?thesis by simp
qed

text \<open>
  \<open>UpdateDomain\<close> accepts exactly the indices that \<open>AccessDomain\<close> resolves; it then
  changes that entry only, keeping the authentication key when the caller does not include
  one, and a rejected update changes nothing.
\<close>

theorem update_domain_spec:
  assumes "length (domainTable s) = MAX_DOMAINS"
    and "UpdateDomain s new i includeKey = (st, s')"
  shows "(st = LonStatusNoError \<longleftrightarrow> AccessDomain s i \<noteq> None) \<and>
    (st = LonStatusNoError \<longrightarrow>
      unat i < MAX_DOMAINS \<and>
      domainTable s' ! unat i =
        (if includeKey then new else new\<lparr>domKey := domKey (domainTable s ! unat i)\<rparr>) \<and>
      (\<forall>j. j \<noteq> unat i \<longrightarrow> domainTable s' ! j = domainTable s ! j) \<and>
      s'\<lparr>domainTable := domainTable s\<rparr> = s) \<and>
    (st \<noteq> LonStatusNoError \<longrightarrow> s' = s)"
proof -
  have le1: "i \<le> 1 \<longleftrightarrow> unat i < 2" by (auto simp: word_le_nat_alt)
  have le0: "i \<le> 0 \<longleftrightarrow> unat i < 1" by (auto simp: word_le_nat_alt unat_eq_0)
  show ?thesis
    using two_domains_0_1 [of "readOnlyData s"] assms le0 le1
    by (auto simp: UpdateDomain_def AccessDomain_def MAX_DOMAINS_def Let_def split: if_splits)
qed

theorem update_domain_spec_witness:
  "fst (UpdateDomain sampleStack sampleDomain1 0 False) = LonStatusNoError \<and>
   domainTable (snd (UpdateDomain sampleStack sampleDomain1 0 False)) ! 0 =
     sampleDomain1\<lparr>domKey := [1, 2, 3, 4, 5, 6]\<rparr>"
proof -
  have "AccessDomain sampleStack 0 \<noteq> None" by (simp add: AccessDomain_def)
  then show ?thesis
    using update_domain_spec [of sampleStack sampleDomain1 0 False]
    by (cases "UpdateDomain sampleStack sampleDomain1 0 False")
      (simp add: MAX_DOMAINS_def sampleDomain_def)
qed

section \<open>Timer codes\<close>

lemma unat_nibble:
  assumes "(b :: u8) \<le> 15"
  shows "unat b = 0 \<or> unat b = 1 \<or> unat b = 2 \<or> unat b = 3 \<or> unat b = 4 \<or> unat b = 5 \<or>
    unat b = 6 \<or> unat b = 7 \<or> unat b = 8 \<or> unat b = 9 \<or> unat b = 10 \<or> unat b = 11 \<or>
    unat b = 12 \<or> unat b = 13 \<or> unat b = 14 \<or> unat b = 15"
proof -
  have "unat b \<le> 15" using assms by (simp add: word_le_nat_alt)
  then show ?thesis by presburger
qed

text \<open>
  The formula of \<open>DecodeTxTimer\<close> computes the table of \<open>DecodeRptTimer\<close> for every 4-bit
  code, the receive timers are eight times as long, and any larger code is refused by the
  table lookups.
\<close>

theorem timer_codes:
  "(t \<le> 15 \<longrightarrow> DecodeRptTimer t = Inr (DecodeTxTimer t) \<and>
      DecodeRcvTimer t = Inr (8 * DecodeTxTimer t)) \<and>
   (15 < t \<longrightarrow> DecodeRptTimer t = Inl LonStatusInvalidTimer \<and>
      DecodeRcvTimer t = Inl LonStatusInvalidTimer)"
proof (cases "t \<le> 15")
  case True
  have d: "DecodeRptTimer t = Inr (of_nat (rptTimerCodeLGbl ! unat t))"
    "DecodeRcvTimer t = Inr (of_nat (rcvTimerCodeLGbl ! unat t))"
    using True by (simp_all add: DecodeRptTimer_def DecodeRcvTimer_def)
  show ?thesis
    using unat_nibble [OF True] True
    by (elim disjE)
      (simp_all add: d DecodeTxTimer_def rptTimerCodeLGbl_def rcvTimerCodeLGbl_def)
next
  case False
  then show ?thesis by (simp add: DecodeRptTimer_def DecodeRcvTimer_def)
qed

theorem timer_codes_witness:
  "DecodeRptTimer 5 = Inr 96 \<and> DecodeRcvTimer 5 = Inr 768 \<and>
   DecodeRptTimer 16 = Inl LonStatusInvalidTimer"
proof -
  have "DecodeTxTimer 5 = 96" by (simp add: DecodeTxTimer_def)
  then show ?thesis
    using timer_codes [of 5] timer_codes [of 16] by simp
qed

section \<open>Statistics\<close>

text \<open>The value of a counter: two bytes, the high one first.\<close>

definition stat_value :: "bytes \<Rightarrow> nat \<Rightarrow> nat" where
  "stat_value st k = unat (st ! (2 * k)) * 256 + unat (st ! (2 * k + 1))"

lemma stat_increment:
  assumes "p0 \<noteq> 0xFF \<or> p1 \<noteq> (0xFF :: u8)"
  shows "unat (if p1 + 1 = 0 then p0 + 1 else (p0 :: u8)) * 256 + unat (p1 + 1) =
    Suc (unat p0 * 256 + unat p1)"
proof -
  have b: "unat p0 < 256" "unat p1 < 256" by (rule unat_u8)+
  have e0: "p0 = 0xFF \<longleftrightarrow> unat p0 = 255" and e1: "p1 = 0xFF \<longleftrightarrow> unat p1 = 255"
    by (simp_all add: word_unat_eq_iff)
  have s0: "unat (p0 + 1) = (unat p0 + 1) mod 256" and s1: "unat (p1 + 1) = (unat p1 + 1) mod 256"
    by (simp_all add: unat_word_ariths)
  have z: "p1 + 1 = 0 \<longleftrightarrow> unat p1 = 255"
  proof -
    have "p1 + 1 = 0 \<longleftrightarrow> (unat p1 + 1) mod 256 = 0"
      using s1 by (metis unat_eq_0)
    then show ?thesis using b by presburger
  qed
  show ?thesis
    using assms b e0 e1 s0 s1 z by (cases "unat p1 = 255") auto
qed

lemma lcsStatIndex_less: "lcsStatIndex k < LcsNumStats"
  by (cases k) (simp_all add: LcsNumStats_def)

text \<open>
  \<open>IncrementStat\<close> adds one to the 16-bit counter it is given, stops at 65535 instead of
  wrapping, and changes no other counter and no other field of the stack.
\<close>

theorem increment_stat_saturates:
  assumes "length (stats s) = 2 * LcsNumStats"
  shows "stat_value (stats (IncrementStat k s)) (lcsStatIndex k) =
      min 65535 (stat_value (stats s) (lcsStatIndex k) + 1) \<and>
    (\<forall>j. j \<noteq> lcsStatIndex k \<longrightarrow>
      stat_value (stats (IncrementStat k s)) j = stat_value (stats s) j) \<and>
    (IncrementStat k s)\<lparr>stats := stats s\<rparr> = s"
proof -
  let ?i = "lcsStatIndex k"
  let ?p0 = "stats s ! (2 * ?i)" and ?p1 = "stats s ! (2 * ?i + 1)"
  have i: "2 * ?i + 1 < length (stats s)"
    using lcsStatIndex_less [of k] assms by simp
  have frame: "stat_value ((stats s)[2 * ?i + 1 := x]) j = stat_value (stats s) j"
    "stat_value ((stats s)[2 * ?i + 1 := x, 2 * ?i := y]) j = stat_value (stats s) j"
    if "j \<noteq> ?i" for j x y
  proof -
    have "2 * j \<noteq> 2 * ?i" "2 * j \<noteq> 2 * ?i + 1" "2 * j + 1 \<noteq> 2 * ?i + 1" "2 * j + 1 \<noteq> 2 * ?i"
      using that by presburger+
    then show "stat_value ((stats s)[2 * ?i + 1 := x]) j = stat_value (stats s) j"
      "stat_value ((stats s)[2 * ?i + 1 := x, 2 * ?i := y]) j = stat_value (stats s) j"
      by (simp_all add: stat_value_def)
  qed
  show ?thesis
  proof (cases "?p0 \<noteq> 0xFF \<or> ?p1 \<noteq> 0xFF")
    case True
    have st: "stats (IncrementStat k s) =
        (stats s)[2 * ?i + 1 := ?p1 + 1, 2 * ?i := (if ?p1 + 1 = 0 then ?p0 + 1 else ?p0)]"
      using True i by (auto simp: IncrementStat_def Let_def mult.commute list_update_swap)
    have "stat_value (stats (IncrementStat k s)) ?i = Suc (stat_value (stats s) ?i)"
      using i stat_increment [OF True] by (simp add: st stat_value_def)
    moreover have "stat_value (stats (IncrementStat k s)) ?i \<le> 65535"
      using unat_u8 [of "stats (IncrementStat k s) ! (2 * ?i)"]
        unat_u8 [of "stats (IncrementStat k s) ! (2 * ?i + 1)"] by (simp add: stat_value_def)
    ultimately show ?thesis
      using frame(2) st by (simp add: IncrementStat_def Let_def)
  next
    case False
    then show ?thesis by (simp add: IncrementStat_def Let_def mult.commute stat_value_def)
  qed
qed

theorem increment_stat_saturates_witness:
  "stat_value (stats (IncrementStat LcsLateAck (sampleStack\<lparr>stats := replicate 26 0xFF\<rparr>))) 11 = 65535 \<and>
   stat_value (stats (IncrementStat LcsLateAck sampleStack)) 11 = 1"
  using increment_stat_saturates [of "sampleStack\<lparr>stats := replicate 26 0xFF\<rparr>" LcsLateAck]
    increment_stat_saturates [of sampleStack LcsLateAck]
  by (simp add: LcsNumStats_def stat_value_def)

section \<open>The initial alias table\<close>

lemma copy_into_in_range:
  assumes "off + length src \<le> length dst"
  shows "length (copy_into dst off src) = length dst"
    "i < off \<Longrightarrow> copy_into dst off src ! i = dst ! i"
    "off + length src \<le> i \<Longrightarrow> i < length dst \<Longrightarrow> copy_into dst off src ! i = dst ! i"
    "j < length src \<Longrightarrow> copy_into dst off src ! (off + j) = src ! j"
  using assms by (auto simp: nth_copy_into)

lemma alias_clear_loop_length:
  "5 * n + 1 \<le> length m \<Longrightarrow> length (alias_clear_loop n m) = length m"
  by (induction n) (simp_all add: sizeof_IzotAliasConfig_def)

lemma alias_init_loop_facts:
  assumes "5 * n + 1 \<le> length m"
  shows "length (alias_init_loop n m) = length m" and "0 < n \<Longrightarrow> alias_init_loop n m ! (5 * n) = 0xFF"
    and "5 * n < i \<Longrightarrow> i < length m \<Longrightarrow> alias_init_loop n m ! i = m ! i"
  using assms
  by (induction n arbitrary: i) (simp_all add: sizeof_IzotAliasConfig_def nth_copy_into)

text \<open>
  \<open>LCS_InitAlias\<close> clears and sets six bytes per entry although an entry has five: the
  byte after the table, which is \<open>configCheckSum\<close>, is overwritten with \<open>0xFF\<close> whatever it
  held, and nothing behind that byte is touched.
\<close>

theorem init_alias_overwrites_checksum:
  assumes "length table = sizeof_IzotAliasConfig * NV_ALIAS_TABLE_SIZE"
  shows "LCS_InitAlias (table @ configCheckSum # rest) ! length table = 0xFF \<and>
    length (LCS_InitAlias (table @ configCheckSum # rest)) = length (table @ configCheckSum # rest)"
proof -
  let ?m = "table @ configCheckSum # rest"
  have n: "length table = 5 * NV_ALIAS_TABLE_SIZE" "0 < NV_ALIAS_TABLE_SIZE"
    using assms by (simp_all add: sizeof_IzotAliasConfig_def NV_ALIAS_TABLE_SIZE_def)
  then have l: "5 * NV_ALIAS_TABLE_SIZE + 1 \<le> length ?m" by simp
  then have "5 * NV_ALIAS_TABLE_SIZE + 1 \<le> length (alias_clear_loop NV_ALIAS_TABLE_SIZE ?m)"
    by (simp only: alias_clear_loop_length)
  from alias_init_loop_facts(1,2) [OF this] n alias_clear_loop_length [OF l]
  show ?thesis by (simp add: LCS_InitAlias_def)
qed

theorem init_alias_overwrites_checksum_witness:
  "LCS_InitAlias (replicate 1270 0 @ [0x42, 0x43]) ! 1270 = 0xFF"
  using init_alias_overwrites_checksum [of "replicate 1270 0" "0x42" "[0x43]"]
  by (simp add: sizeof_IzotAliasConfig_def NV_ALIAS_TABLE_SIZE_def)

end
