(* ===== verification/Lcs_Tcs.thy ===== *)
theory Lcs_Tcs
  imports Lcs_Node
begin

text \<open>
  \<^verbatim>\<open>lcs/lcs_tcs.c\<close>, the transaction control sublayer: the assignment of transaction IDs
  (TIDs) to outgoing transactions, with the table of the last TID used for each destination.
  The code selects the priority or the non-priority copy of its variables by pointers; here
  the selectors \<open>transRec\<close>, \<open>transID\<close>, \<open>tidTbl\<close> and \<open>tblSize\<close> and their updates do.
\<close>

section \<open>Selecting the priority\<close>

definition transRec :: "bool \<Rightarrow> stack \<Rightarrow> TransCtrlRecord" where
  "transRec pri s = (if pri then priTransCtrlRec s else nonpriTransCtrlRec s)"

definition transID :: "bool \<Rightarrow> stack \<Rightarrow> u16" where
  "transID pri s = (if pri then priTransID s else nonpriTransID s)"

definition tidTbl :: "bool \<Rightarrow> stack \<Rightarrow> TIDTableEntry list" where
  "tidTbl pri s = (if pri then priTbl s else nonpriTbl s)"

definition tblSize :: "bool \<Rightarrow> stack \<Rightarrow> nat" where
  "tblSize pri s = (if pri then priTblSize s else nonpriTblSize s)"

definition set_transRec :: "bool \<Rightarrow> TransCtrlRecord \<Rightarrow> stack \<Rightarrow> stack" where
  "set_transRec pri r s =
     (if pri then s\<lparr>priTransCtrlRec := r\<rparr> else s\<lparr>nonpriTransCtrlRec := r\<rparr>)"

definition set_transID :: "bool \<Rightarrow> u16 \<Rightarrow> stack \<Rightarrow> stack" where
  "set_transID pri t s = (if pri then s\<lparr>priTransID := t\<rparr> else s\<lparr>nonpriTransID := t\<rparr>)"

definition set_tidTbl :: "bool \<Rightarrow> TIDTableEntry list \<Rightarrow> stack \<Rightarrow> stack" where
  "set_tidTbl pri tbl s = (if pri then s\<lparr>priTbl := tbl\<rparr> else s\<lparr>nonpriTbl := tbl\<rparr>)"

definition set_tblSize :: "bool \<Rightarrow> nat \<Rightarrow> stack \<Rightarrow> stack" where
  "set_tblSize pri n s = (if pri then s\<lparr>priTblSize := n\<rparr> else s\<lparr>nonpriTblSize := n\<rparr>)"

lemma tcs_select [simp]:
  "transRec pri (set_transRec pri' r s) = (if pri = pri' then r else transRec pri s)"
  "transRec pri (set_transID pri' t s) = transRec pri s"
  "transRec pri (set_tidTbl pri' tbl s) = transRec pri s"
  "transRec pri (set_tblSize pri' n s) = transRec pri s"
  "transID pri (set_transRec pri' r s) = transID pri s"
  "transID pri (set_transID pri' t s) = (if pri = pri' then t else transID pri s)"
  "transID pri (set_tidTbl pri' tbl s) = transID pri s"
  "transID pri (set_tblSize pri' n s) = transID pri s"
  "tidTbl pri (set_transRec pri' r s) = tidTbl pri s"
  "tidTbl pri (set_transID pri' t s) = tidTbl pri s"
  "tidTbl pri (set_tidTbl pri' tbl s) = (if pri = pri' then tbl else tidTbl pri s)"
  "tidTbl pri (set_tblSize pri' n s) = tidTbl pri s"
  "tblSize pri (set_transRec pri' r s) = tblSize pri s"
  "tblSize pri (set_transID pri' t s) = tblSize pri s"
  "tblSize pri (set_tidTbl pri' tbl s) = tblSize pri s"
  "tblSize pri (set_tblSize pri' n s) = (if pri = pri' then n else tblSize pri s)"
  "domainTable (set_transRec pri' r s) = domainTable s"
  "domainTable (set_transID pri' t s) = domainTable s"
  "domainTable (set_tidTbl pri' tbl s) = domainTable s"
  "domainTable (set_tblSize pri' n s) = domainTable s"
  by (simp_all add: transRec_def transID_def tidTbl_def tblSize_def
      set_transRec_def set_transID_def set_tidTbl_def set_tblSize_def)

section \<open>Operations\<close>

definition MIN_TABLE_TIME :: nat where "MIN_TABLE_TIME = 24"
definition TID_TABLE_SIZE :: nat where "TID_TABLE_SIZE = 10"

definition TransactionControlSublayerReset :: "stack \<Rightarrow> LonStatusCode \<times> stack" where
  "TransactionControlSublayerReset s =
     (let s1 = s\<lparr>priTransID := 0, nonpriTransID := 0,
                 priTransCtrlRec := (priTransCtrlRec s)\<lparr>tcInProgress := False\<rparr>,
                 nonpriTransCtrlRec := (nonpriTransCtrlRec s)\<lparr>tcInProgress := False\<rparr>\<rparr>;
          s2 = (if resetCause s1 = IzotPowerUpReset \<or> resetCause s1 = IzotExternalReset
                then s1\<lparr>priTblSize := 0, nonpriTblSize := 0\<rparr> else s1)
      in (LonStatusNoError, s2))"

text \<open>The domain test of the search loop: the entry is not skipped.\<close>

definition tid_domain_match :: "stack \<Rightarrow> DestinationAddress \<Rightarrow> TIDTableEntry \<Rightarrow> bool" where
  "tid_domain_match s addrIn e =
     (let dmn = dstDmn addrIn; d = domainTable s ! unat (domainIndex dmn)
      in if domainIndex dmn \<noteq> FLEX_DOMAIN \<and>
            (IZOT_DOMAIN_INVALID d \<noteq> 0 \<or> tidLen e \<noteq> IZOT_DOMAIN_ID_LENGTH d \<or>
             bytes_from (domId d) 0 (unat (IZOT_DOMAIN_ID_LENGTH d)) \<noteq>
             bytes_from (tidDomainId e) 0 (unat (IZOT_DOMAIN_ID_LENGTH d)))
         then False
         else if domainIndex dmn = FLEX_DOMAIN \<and>
            (tidLen e \<noteq> domainLen dmn \<or>
             bytes_from (domainId dmn) 0 (unat (domainLen dmn)) \<noteq>
             bytes_from (tidDomainId e) 0 (unat (domainLen dmn)))
         then False
         else True)"

text \<open>What an entry stores of a destination: the union has no subnet for a unique ID.\<close>

fun tid_addr_of :: "DestAddr \<Rightarrow> DestAddr" where
  "tid_addr_of (DA_UniqueId _ uid) = DA_UniqueId 0 (bytes_from uid 0 IZOT_UNIQUE_ID_LENGTH)"
| "tid_addr_of a = a"

fun tid_addr_match :: "DestAddr \<Rightarrow> DestAddr \<Rightarrow> bool" where
  "tid_addr_match (DA_SubnetNode a) (DA_SubnetNode b) = (b = a)"
| "tid_addr_match (DA_UniqueId _ a) (DA_UniqueId _ b) =
     (bytes_from b 0 IZOT_UNIQUE_ID_LENGTH = bytes_from a 0 IZOT_UNIQUE_ID_LENGTH)"
| "tid_addr_match (DA_Multicast a) (DA_Multicast b) = (b = a)"
| "tid_addr_match (DA_Broadcast a) (DA_Broadcast b) = (b = a)"
| "tid_addr_match _ _ = False"

fun tid_find_loop :: "(TIDTableEntry \<Rightarrow> bool) \<Rightarrow> TIDTableEntry list \<Rightarrow> nat \<Rightarrow> nat option" where
  "tid_find_loop p [] i = None"
| "tid_find_loop p (e # es) i = (if p e then Some i else tid_find_loop p es (i + 1))"

text \<open>The search for an entry whose timer has expired; testing the timer stops it.\<close>

fun tid_expired_loop ::
    "u32 \<Rightarrow> TIDTableEntry list \<Rightarrow> nat \<Rightarrow> nat \<Rightarrow> nat option \<times> TIDTableEntry list" where
  "tid_expired_loop now tbl i 0 = (None, tbl)"
| "tid_expired_loop now tbl i (Suc n) =
     (let (expired, timer) = LonTimerExpired now (tidTimer (tbl ! i));
          tbl = tbl[i := (tbl ! i)\<lparr>tidTimer := timer\<rparr>]
      in if expired then (Some i, tbl) else tid_expired_loop now tbl (i + 1) n)"

definition next_tid :: "u16 \<Rightarrow> u16" where
  "next_tid t = (if t + 1 = 16 then 1 else t + 1)"

definition table_timer :: "u32 \<Rightarrow> LonTimer \<Rightarrow> LonTimer" where
  "table_timer now timer = SetLonTimer now timer (of_nat (MIN_TABLE_TIME * 1000))"

text \<open>
  The new entry: the fields that the code writes into the entry \<open>tbl[*tblSize]\<close>, the
  domain length going to \<open>tbl[i]\<close>.
\<close>

definition tid_new_entry ::
    "u32 \<Rightarrow> stack \<Rightarrow> DestinationAddress \<Rightarrow> u16 \<Rightarrow> nat \<Rightarrow> nat \<Rightarrow> TIDTableEntry list \<Rightarrow> TIDTableEntry list"
  where
  "tid_new_entry now s addrIn tid i n tbl =
     (let dmn = dstDmn addrIn; d = domainTable s ! unat (domainIndex dmn);
          len = (if domainIndex dmn = FLEX_DOMAIN then domainLen dmn else IZOT_DOMAIN_ID_LENGTH d);
          src = (if domainIndex dmn = FLEX_DOMAIN then domainId dmn else domId d);
          tbl = tbl[n := (tbl ! n)\<lparr>tidDomainId :=
                      copy_into (tidDomainId (tbl ! n)) 0 (bytes_from src 0 (unat len))\<rparr>];
          tbl = tbl[i := (tbl ! i)\<lparr>tidLen := len\<rparr>];
          tbl = tbl[n := (tbl ! n)\<lparr>tidAddr := tid_addr_of (dstAddr addrIn)\<rparr>];
          tbl = tbl[n := (tbl ! n)\<lparr>tidTimer := table_timer now (tidTimer (tbl ! n))\<rparr>]
      in tbl[n := (tbl ! n)\<lparr>tidTid := tid\<rparr>])"

text \<open>The results are the status and, when it is \<open>LonStatusNoError\<close>, \<open>*transNumOut\<close>.\<close>

definition NewTrans ::
    "u32 \<Rightarrow> bool \<Rightarrow> DestinationAddress \<Rightarrow> stack \<Rightarrow> LonStatusCode \<times> u16 option \<times> stack" where
  "NewTrans now pri addrIn s =
     (if tcInProgress (transRec pri s) then (LonStatusTransactionInProgress, None, s)
      else
       (let s1 = set_transRec pri ((transRec pri s)\<lparr>tcTransNum := transID pri s\<rparr>) s;
            tbl = tidTbl pri s1;
            found = tid_find_loop
              (\<lambda>e. tid_domain_match s1 addrIn e \<and> tid_addr_match (dstAddr addrIn) (tidAddr e))
              (take (tblSize pri s1) tbl) 0
        in case found of
          Some i \<Rightarrow>
            (let s2 = (if tidTid (tbl ! i) = transID pri s1 then
                         (let t = next_tid (transID pri s1)
                          in set_transRec pri ((transRec pri s1)\<lparr>tcTransNum := t\<rparr>)
                               (set_transID pri t s1))
                       else s1);
                 t = transID pri s2;
                 s3 = set_tidTbl pri (tbl[i := (tbl ! i)\<lparr>tidTid := t,
                        tidTimer := table_timer now (tidTimer (tbl ! i))\<rparr>]) s2
             in (LonStatusNoError, Some t,
                 set_transRec pri ((transRec pri s3)\<lparr>tcInProgress := True\<rparr>) s3))
        | None \<Rightarrow>
            (let (place, tbl, n) =
                  (if tblSize pri s1 = TID_TABLE_SIZE then
                     (case tid_expired_loop now tbl 0 (tblSize pri s1) of
                        (None, tbl) \<Rightarrow> (None, tbl, tblSize pri s1)
                      | (Some i, tbl) \<Rightarrow>
                          (let n = tblSize pri s1 - 1 in (Some i, tbl[i := tbl ! n], n)))
                   else (Some (tblSize pri s1), tbl, tblSize pri s1));
                 s2 = set_tidTbl pri tbl (set_tblSize pri n s1)
             in case place of
               None \<Rightarrow> (LonStatusTransactionNotAvailable, None, s2)
             | Some i \<Rightarrow>
                 (let t = transID pri s2;
                      s3 = set_tidTbl pri (tid_new_entry now s2 addrIn t i n tbl) s2;
                      s4 = set_tblSize pri (n + 1) s3
                  in (LonStatusNoError, Some t,
                      set_transRec pri ((transRec pri s4)\<lparr>tcInProgress := True\<rparr>) s4)))))"

definition OverrideTrans :: "bool \<Rightarrow> u16 \<Rightarrow> stack \<Rightarrow> stack" where
  "OverrideTrans pri num s =
     set_transRec pri ((transRec pri s)\<lparr>tcTransNum := num\<rparr>) (set_transID pri num s)"

definition TransDone :: "bool \<Rightarrow> stack \<Rightarrow> stack" where
  "TransDone pri s =
     set_transID pri (next_tid (transID pri s))
       (set_transRec pri ((transRec pri s)\<lparr>tcInProgress := False\<rparr>) s)"

definition ValidateTrans :: "bool \<Rightarrow> u16 \<Rightarrow> stack \<Rightarrow> TransStatus" where
  "ValidateTrans pri transNumIn s =
     (if tcInProgress (transRec pri s) \<and> tcTransNum (transRec pri s) = transNumIn
      then TRANS_CURRENT else TRANS_NOT_CURRENT)"

section \<open>Transaction IDs\<close>

lemma next_tid_bound: "t < 16 \<Longrightarrow> next_tid t < 16"
proof -
  assume "t < 16"
  then have t: "unat t < 16" by (simp add: word_less_nat_alt)
  then have s: "unat (t + 1) = unat t + 1" by (simp add: unat_word_ariths)
  show ?thesis
  proof (cases "t + 1 = 16")
    case False
    then have "unat (t + 1) \<noteq> 16" by (simp add: word_unat_eq_iff)
    then show ?thesis using t s False by (simp add: next_tid_def word_less_nat_alt)
  qed (simp add: next_tid_def)
qed

lemma next_tid_neq: "next_tid t \<noteq> t"
  by (simp add: next_tid_def)

section \<open>The table as a map from destinations to their last TID\<close>

type_synonym tid_dest = "u8 \<times> bytes \<times> DestAddr"

definition tid_key :: "TIDTableEntry \<Rightarrow> tid_dest" where
  "tid_key e = (tidLen e, bytes_from (tidDomainId e) 0 (unat (tidLen e)), tidAddr e)"

definition dest_key :: "IzotDomain list \<Rightarrow> DestinationAddress \<Rightarrow> tid_dest" where
  "dest_key dt addrIn =
     (let dmn = dstDmn addrIn; d = dt ! unat (domainIndex dmn);
          len = (if domainIndex dmn = FLEX_DOMAIN then domainLen dmn else IZOT_DOMAIN_ID_LENGTH d);
          src = (if domainIndex dmn = FLEX_DOMAIN then domainId dmn else domId d)
      in (len, bytes_from src 0 (unat len), tid_addr_of (dstAddr addrIn)))"

text \<open>A transaction's destination: one of the four address modes, in a domain in use.\<close>

definition dest_valid :: "IzotDomain list \<Rightarrow> DestinationAddress \<Rightarrow> bool" where
  "dest_valid dt addrIn \<longleftrightarrow>
     (domainIndex (dstDmn addrIn) = FLEX_DOMAIN \<or>
      IZOT_DOMAIN_INVALID (dt ! unat (domainIndex (dstDmn addrIn))) = 0) \<and>
     dstMode addrIn \<in> {AM_SUBNET_NODE, AM_UNIQUE_NODE_ID, AM_MULTICAST, AM_BROADCAST}"

definition tid_entries :: "bool \<Rightarrow> stack \<Rightarrow> TIDTableEntry list" where
  "tid_entries pri s = take (tblSize pri s) (tidTbl pri s)"

definition last_tids :: "bool \<Rightarrow> stack \<Rightarrow> tid_dest \<Rightarrow> u16 option" where
  "last_tids pri s = map_of (map (\<lambda>e. (tid_key e, tidTid e)) (tid_entries pri s))"

definition tcs_inv :: "bool \<Rightarrow> IzotDomain list \<Rightarrow> stack \<Rightarrow> bool" where
  "tcs_inv pri dt s \<longleftrightarrow>
     domainTable s = dt \<and> length (tidTbl pri s) = TID_TABLE_SIZE \<and>
     tblSize pri s \<le> TID_TABLE_SIZE \<and> transID pri s < 16 \<and>
     (\<forall>e\<in>set (tid_entries pri s). tid_addr_of (tidAddr e) = tidAddr e) \<and>
     distinct (map tid_key (tid_entries pri s))"

definition tcs_idle :: "bool \<Rightarrow> IzotDomain list \<Rightarrow> stack \<Rightarrow> bool" where
  "tcs_idle pri dt s \<longleftrightarrow> tcs_inv pri dt s \<and> \<not> tcInProgress (transRec pri s)"

lemma tid_addr_of_idem [simp]: "tid_addr_of (tid_addr_of a) = tid_addr_of a"
proof (cases a)
  case (DA_UniqueId sn uid)
  have "bytes_from (bytes_from uid 0 n) 0 n = bytes_from uid 0 n" for n
    by (rule nth_equalityI) simp_all
  then show ?thesis using DA_UniqueId by simp
qed simp_all

lemma tid_addr_match_iff:
  assumes "tid_addr_of b = b"
    and "addressModeOf a \<in> {AM_SUBNET_NODE, AM_UNIQUE_NODE_ID, AM_MULTICAST, AM_BROADCAST}"
  shows "tid_addr_match a b \<longleftrightarrow> b = tid_addr_of a"
  using assms by (cases a; cases b) auto

lemma tid_match_iff:
  assumes "dest_valid (domainTable s) addrIn" and "tid_addr_of (tidAddr e) = tidAddr e"
  shows "tid_domain_match s addrIn e \<and> tid_addr_match (dstAddr addrIn) (tidAddr e) \<longleftrightarrow>
    tid_key e = dest_key (domainTable s) addrIn"
  using assms tid_addr_match_iff [OF assms(2), of "dstAddr addrIn"]
  by (auto simp: tid_domain_match_def tid_key_def dest_key_def dest_valid_def Let_def)

lemma tid_find_loop_Some:
  "tid_find_loop p es k = Some i \<Longrightarrow>
     k \<le> i \<and> i < k + length es \<and> p (es ! (i - k)) \<and> (\<forall>j. k + j < i \<longrightarrow> \<not> p (es ! j))"
proof (induction p es k rule: tid_find_loop.induct)
  case (2 p e es k)
  show ?case
  proof (cases "p e")
    case False
    then have "tid_find_loop p es (k + 1) = Some i" using 2 by simp
    from 2(1) [OF False this] have ih: "k + 1 \<le> i" "i < k + 1 + length es"
      "p (es ! (i - (k + 1)))" "\<And>j. k + 1 + j < i \<Longrightarrow> \<not> p (es ! j)" by auto
    have "\<not> p ((e # es) ! j)" if "k + j < i" for j
      using that ih(4) [of "j - 1"] False by (cases j) auto
    moreover have "i - k = Suc (i - (k + 1))" using ih(1) by simp
    ultimately show ?thesis using ih by auto
  qed (use 2 in auto)
qed simp

lemma tid_find_loop_None: "tid_find_loop p es k = None \<longleftrightarrow> (\<forall>e\<in>set es. \<not> p e)"
  by (induction p es k rule: tid_find_loop.induct) auto

lemma tid_find_loop_cong:
  "(\<And>e. e \<in> set es \<Longrightarrow> p e = q e) \<Longrightarrow> tid_find_loop p es k = tid_find_loop q es k"
  by (induction p es k rule: tid_find_loop.induct) auto

lemma map_of_map_nth:
  assumes "distinct (map f es)" and "i < length es"
  shows "map_of (map (\<lambda>e. (f e, g e)) es) (f (es ! i)) = Some (g (es ! i))"
  using assms by (intro map_of_is_SomeI) (auto simp: comp_def)

lemma map_of_map_update:
  assumes "distinct (map f es)" and "i < length es" and "f e = f (es ! i)"
  shows "map_of (map (\<lambda>e. (f e, g e)) (es[i := e])) =
    (map_of (map (\<lambda>e. (f e, g e)) es))(f e \<mapsto> g e)"
  using assms
proof (induction es arbitrary: i)
  case (Cons a es)
  then show ?case
  proof (cases i)
    case (Suc j)
    have "f (es ! j) \<in> f ` set es" using Cons.prems Suc by simp
    then have "f a \<noteq> f e" using Cons.prems Suc by auto
    then show ?thesis using Cons Suc by (auto simp: fun_upd_twist)
  qed auto
qed simp

lemma map_of_map_append1:
  assumes "f e \<notin> f ` set es"
  shows "map_of (map (\<lambda>e. (f e, g e)) (es @ [e])) =
    (map_of (map (\<lambda>e. (f e, g e)) es))(f e \<mapsto> g e)"
  using assms by (induction es) (auto simp: fun_upd_twist)

lemma dom_last_tids: "dom (last_tids pri s) = set (map tid_key (tid_entries pri s))"
  by (auto simp: last_tids_def dom_map_of_conv_image_fst image_image)

lemma tid_search:
  assumes "tcs_inv pri dt s" and "dest_valid dt addrIn"
  shows "tid_find_loop
      (\<lambda>e. tid_domain_match (set_transRec pri r s) addrIn e \<and>
            tid_addr_match (dstAddr addrIn) (tidAddr e)) (tid_entries pri s) 0 =
    tid_find_loop (\<lambda>e. tid_key e = dest_key dt addrIn) (tid_entries pri s) 0"
proof (rule tid_find_loop_cong)
  fix e assume "e \<in> set (tid_entries pri s)"
  moreover have "tid_domain_match (set_transRec pri r s) addrIn e = tid_domain_match s addrIn e"
    by (simp add: tid_domain_match_def)
  ultimately show "(tid_domain_match (set_transRec pri r s) addrIn e \<and>
      tid_addr_match (dstAddr addrIn) (tidAddr e)) = (tid_key e = dest_key dt addrIn)"
    using assms tid_match_iff [of s addrIn e] by (auto simp: tcs_inv_def)
qed

text \<open>The two ways in which \<open>NewTrans\<close> gives out an ID: from a known entry or a new one.\<close>

definition tcs_granted :: "bool \<Rightarrow> IzotDomain list \<Rightarrow> tid_dest \<Rightarrow> stack \<Rightarrow> u16 \<Rightarrow> stack \<Rightarrow> bool" where
  "tcs_granted pri dt k s t s' \<longleftrightarrow>
     t = (if last_tids pri s k = Some (transID pri s) then next_tid (transID pri s)
          else transID pri s) \<and>
     last_tids pri s' = (last_tids pri s)(k \<mapsto> t) \<and> transID pri s' = t \<and>
     transRec pri s' = \<lparr>tcTransNum = t, tcInProgress = True\<rparr> \<and> tcs_inv pri dt s'"

lemma NewTrans_known:
  assumes inv: "tcs_inv pri dt s" and idle: "\<not> tcInProgress (transRec pri s)"
    and valid: "dest_valid dt addrIn" and known: "last_tids pri s (dest_key dt addrIn) \<noteq> None"
  shows "\<exists>t s'. NewTrans now pri addrIn s = (LonStatusNoError, Some t, s') \<and>
    tcs_granted pri dt (dest_key dt addrIn) s t s'"
proof -
  let ?k = "dest_key dt addrIn" and ?es = "tid_entries pri s" and ?tbl = "tidTbl pri s"
  let ?id = "transID pri s"
  have "?k \<in> set (map tid_key ?es)" using known dom_last_tids [of pri s] by (metis domIff)
  then obtain i where f: "tid_find_loop (\<lambda>e. tid_key e = ?k) ?es 0 = Some i"
    using tid_find_loop_None [of "\<lambda>e. tid_key e = ?k" ?es 0] by fastforce
  then have i: "i < length ?es" "tid_key (?es ! i) = ?k"
    using tid_find_loop_Some [OF f] by auto
  have w: "length ?tbl = TID_TABLE_SIZE" "tblSize pri s \<le> TID_TABLE_SIZE" "?id < 16"
    "distinct (map tid_key ?es)" "\<forall>e\<in>set ?es. tid_addr_of (tidAddr e) = tidAddr e"
    "domainTable s = dt"
    using inv by (simp_all add: tcs_inv_def)
  then have i': "i < tblSize pri s" "i < length ?tbl" "?es ! i = ?tbl ! i"
    using i(1) by (auto simp: tid_entries_def)
  have last: "last_tids pri s ?k = Some (tidTid (?es ! i))"
    unfolding last_tids_def i(2) [symmetric] by (rule map_of_map_nth [OF w(4) i(1)])
  define t where "t = (if tidTid (?tbl ! i) = ?id then next_tid ?id else ?id)"
  define e where "e = (?tbl ! i)\<lparr>tidTid := t, tidTimer := table_timer now (tidTimer (?tbl ! i))\<rparr>"
  define s' where "s' = snd (snd (NewTrans now pri addrIn s))"
  have search: "tid_find_loop
      (\<lambda>e. tid_domain_match (set_transRec pri ((transRec pri s)\<lparr>tcTransNum := ?id\<rparr>) s) addrIn e \<and>
            tid_addr_match (dstAddr addrIn) (tidAddr e)) (take (tblSize pri s) ?tbl) 0 = Some i"
    using tid_search [OF inv valid] f by (simp add: tid_entries_def)
  have new: "NewTrans now pri addrIn s = (LonStatusNoError, Some t, s')"
    and s': "tidTbl pri s' = ?tbl[i := e]" "transID pri s' = t" "tblSize pri s' = tblSize pri s"
      "transRec pri s' = \<lparr>tcTransNum = t, tcInProgress = True\<rparr>" "domainTable s' = dt"
    using idle w(6) unfolding s'_def
    by (simp_all add: NewTrans_def search t_def e_def Let_def)
  have es': "tid_entries pri s' = ?es[i := e]"
    using i' by (simp add: tid_entries_def s' take_update_swap)
  have key: "tid_key e = tid_key (?es ! i)" using i'(3) by (simp add: e_def tid_key_def)
  have "last_tids pri s' = (last_tids pri s)(?k \<mapsto> t)"
    using map_of_map_update [OF w(4) i(1) key, of tidTid] i(2) key
    by (simp add: last_tids_def es' e_def)
  moreover have "t < 16" using w(3) next_tid_bound by (simp add: t_def)
  moreover have "map tid_key (?es[i := e]) = map tid_key ?es"
    using key i(1) by (simp add: map_update list_update_same_conv)
  moreover have "tid_addr_of (tidAddr x) = tidAddr x" if "x \<in> set (?es[i := e])" for x
    using that w(5) i i' set_update_subset_insert [of ?es i e] nth_mem [OF i(1)]
    by (auto simp: e_def)
  ultimately have "tcs_inv pri dt s'"
    using w by (simp add: tcs_inv_def s' es')
  then show ?thesis
    using new last s' i'(3) \<open>last_tids pri s' = _\<close>
    by (auto simp: tcs_granted_def t_def)
qed

lemma bytes_from_copy_prefix: "bytes_from (copy_into dst 0 (bytes_from src 0 n)) 0 n = bytes_from src 0 n"
  by (rule nth_equalityI) (auto simp: copy_into_def byte_at_def nth_append)

lemma tid_new_entry_same:
  assumes "n < length tbl"
  obtains e where "tid_new_entry now s addrIn t n n tbl = tbl[n := e]" and "tidTid e = t"
    and "tid_key e = dest_key (domainTable s) addrIn" and "tid_addr_of (tidAddr e) = tidAddr e"
proof -
  let ?e = "tid_new_entry now s addrIn t n n tbl ! n"
  have "tid_new_entry now s addrIn t n n tbl = tbl[n := ?e]"
    using assms by (simp add: tid_new_entry_def Let_def)
  moreover have "tid_key ?e = dest_key (domainTable s) addrIn"
    using assms by (simp add: tid_new_entry_def Let_def tid_key_def dest_key_def bytes_from_copy_prefix)
  ultimately show thesis
    using that [of ?e] assms by (simp add: tid_new_entry_def Let_def)
qed

lemma NewTrans_unknown:
  assumes inv: "tcs_inv pri dt s" and idle: "\<not> tcInProgress (transRec pri s)"
    and valid: "dest_valid dt addrIn" and unknown: "last_tids pri s (dest_key dt addrIn) = None"
    and room: "tblSize pri s < TID_TABLE_SIZE"
  shows "\<exists>t s'. NewTrans now pri addrIn s = (LonStatusNoError, Some t, s') \<and>
    tcs_granted pri dt (dest_key dt addrIn) s t s'"
proof -
  let ?k = "dest_key dt addrIn" and ?es = "tid_entries pri s" and ?tbl = "tidTbl pri s"
  let ?id = "transID pri s" and ?n = "tblSize pri s"
  have out: "?k \<notin> tid_key ` set ?es"
    using unknown dom_last_tids [of pri s] by (auto simp: domIff [symmetric])
  then have f: "tid_find_loop (\<lambda>e. tid_key e = ?k) ?es 0 = None"
    unfolding tid_find_loop_None by (metis imageI)
  have w: "length ?tbl = TID_TABLE_SIZE" "?id < 16" "distinct (map tid_key ?es)"
    "\<forall>e\<in>set ?es. tid_addr_of (tidAddr e) = tidAddr e" "domainTable s = dt"
    using inv by (simp_all add: tcs_inv_def)
  have n: "?n < length ?tbl" using w(1) room by simp
  let ?s2 = "set_tidTbl pri ?tbl (set_tblSize pri ?n
      (set_transRec pri ((transRec pri s)\<lparr>tcTransNum := ?id\<rparr>) s))"
  have "domainTable ?s2 = dt" using w(5) by simp
  then obtain e where e: "tid_new_entry now ?s2 addrIn ?id ?n ?n ?tbl = ?tbl[?n := e]"
    "tidTid e = ?id" "tid_key e = ?k" "tid_addr_of (tidAddr e) = tidAddr e"
    using tid_new_entry_same [OF n, of now ?s2 addrIn ?id] by metis
  define s' where "s' = snd (snd (NewTrans now pri addrIn s))"
  have search: "tid_find_loop
      (\<lambda>e. tid_domain_match (set_transRec pri ((transRec pri s)\<lparr>tcTransNum := ?id\<rparr>) s) addrIn e \<and>
            tid_addr_match (dstAddr addrIn) (tidAddr e)) (take ?n ?tbl) 0 = None"
    using tid_search [OF inv valid] f by (simp add: tid_entries_def)
  have new: "NewTrans now pri addrIn s = (LonStatusNoError, Some ?id, s')"
    and s': "tidTbl pri s' = ?tbl[?n := e]" "transID pri s' = ?id" "tblSize pri s' = Suc ?n"
      "transRec pri s' = \<lparr>tcTransNum = ?id, tcInProgress = True\<rparr>" "domainTable s' = dt"
    using idle w(5) room unfolding s'_def
    by (simp_all add: NewTrans_def search Let_def e(1))
  have es': "tid_entries pri s' = ?es @ [e]"
    using n by (simp add: tid_entries_def s' take_Suc_conv_app_nth)
  have last': "last_tids pri s' = (last_tids pri s)(?k \<mapsto> ?id)"
    using map_of_map_append1 [of tid_key e ?es tidTid] out e(2,3)
    by (simp add: last_tids_def es')
  have "tcs_inv pri dt s'"
    using w room out e(3,4) by (simp add: tcs_inv_def s' es')
  then show ?thesis
    using new s' last' unknown by (auto simp: tcs_granted_def)
qed

lemma NewTrans_granted:
  assumes idle: "tcs_idle pri dt s" and valid: "dest_valid dt addrIn"
    and fits: "dest_key dt addrIn \<in> dom (last_tids pri s) \<or> card (dom (last_tids pri s)) < TID_TABLE_SIZE"
  shows "\<exists>t s'. NewTrans now pri addrIn s = (LonStatusNoError, Some t, s') \<and>
    tcs_granted pri dt (dest_key dt addrIn) s t s'"
proof (cases "last_tids pri s (dest_key dt addrIn)")
  case (Some t)
  then show ?thesis using NewTrans_known [of pri dt s addrIn now] idle valid by (simp add: tcs_idle_def)
next
  case None
  have inv: "tcs_inv pri dt s" using idle by (simp add: tcs_idle_def)
  then have "card (dom (last_tids pri s)) = tblSize pri s"
    by (simp add: dom_last_tids tcs_inv_def distinct_card del: set_map)
       (simp add: tid_entries_def)
  then have "tblSize pri s < TID_TABLE_SIZE" using fits None by auto
  then show ?thesis
    using NewTrans_unknown [OF inv _ valid None] idle by (simp add: tcs_idle_def)
qed

section \<open>The contract of a TID allocator\<close>

text \<open>
  What a user of the sublayer relies on: a request for a destination that has an entry, or
  for which there is room, is granted an ID different from the last one granted for it, and
  only that destination's last ID changes.
\<close>

locale tid_allocator =
  fixes idle :: "'s \<Rightarrow> bool" and valid :: "'d \<Rightarrow> bool" and key :: "'d \<Rightarrow> 'k"
    and capacity :: nat and alloc :: "'d \<Rightarrow> 's \<Rightarrow> 't option \<times> 's" and release :: "'s \<Rightarrow> 's"
    and last :: "'s \<Rightarrow> 'k \<Rightarrow> 't option"
  assumes alloc_fresh: "idle s \<Longrightarrow> valid d \<Longrightarrow>
      key d \<in> dom (last s) \<or> card (dom (last s)) < capacity \<Longrightarrow>
      \<exists>t s'. alloc d s = (Some t, s') \<and> last s (key d) \<noteq> Some t \<and>
        idle (release s') \<and> last (release s') = (last s)(key d \<mapsto> t)"
    and finite_dom: "idle s \<Longrightarrow> finite (dom (last s))"
begin

fun run :: "'s \<Rightarrow> 'd list \<Rightarrow> ('k \<times> 't option) list" where
  "run s [] = []"
| "run s (d # ds) = (let (t, s') = alloc d s in (key d, t) # run (release s') ds)"

fun fresh :: "('k \<Rightarrow> 't option) \<Rightarrow> ('k \<times> 't option) list \<Rightarrow> bool" where
  "fresh m [] = True"
| "fresh m ((k, t) # r) = (t \<noteq> None \<and> m k \<noteq> t \<and> fresh (m(k := t)) r)"

lemma run_fresh:
  "idle s \<Longrightarrow> \<forall>d\<in>set ds. valid d \<Longrightarrow> card (dom (last s) \<union> key ` set ds) \<le> capacity \<Longrightarrow>
     fresh (last s) (run s ds)"
proof (induction ds arbitrary: s)
  case (Cons d ds)
  have fin: "finite (dom (last s))" using Cons.prems(1) by (rule finite_dom)
  have "key d \<in> dom (last s) \<or> card (dom (last s)) < capacity"
  proof (rule disjCI)
    assume "\<not> card (dom (last s)) < capacity"
    then have "card (dom (last s) \<union> key ` set (d # ds)) \<le> card (dom (last s))"
      using Cons.prems(3) by simp
    then have "dom (last s) = dom (last s) \<union> key ` set (d # ds)"
      using fin by (intro card_seteq) auto
    then show "key d \<in> dom (last s)" by auto
  qed
  then obtain t s' where a: "alloc d s = (Some t, s')" "last s (key d) \<noteq> Some t"
    "idle (release s')" "last (release s') = (last s)(key d \<mapsto> t)"
    using alloc_fresh [OF Cons.prems(1), of d] Cons.prems(2) by auto
  have "dom (last (release s')) \<union> key ` set ds = dom (last s) \<union> key ` set (d # ds)"
    using a(4) by auto
  then have "fresh (last (release s')) (run (release s') ds)"
    using Cons a(3) by auto
  then show ?case using a by simp
qed simp

lemma fresh_granted: "fresh m r \<Longrightarrow> (k, t) \<in> set r \<Longrightarrow> t \<noteq> None"
  by (induction m r rule: fresh.induct) auto

lemma fresh_first:
  "fresh m r \<Longrightarrow> j < length r \<Longrightarrow> fst (r ! j) = k \<Longrightarrow> (\<forall>l<j. fst (r ! l) \<noteq> k) \<Longrightarrow> snd (r ! j) \<noteq> m k"
proof (induction m r arbitrary: j rule: fresh.induct)
  case (2 m k' t r)
  show ?case
  proof (cases j)
    case (Suc i)
    have ne: "k' \<noteq> k" using 2(5) Suc by (metis fst_conv nth_Cons_0 zero_less_Suc)
    have "\<forall>l<i. fst (r ! l) \<noteq> k" using 2(5) Suc by (metis nth_Cons_Suc Suc_less_eq)
    moreover have f: "fresh (m(k' := t)) r" using 2(2) by simp
    ultimately have "snd (r ! i) \<noteq> (m(k' := t)) k"
      using 2(1) [OF f, of i] 2(3,4) Suc by (simp del: fun_upd_apply)
    then show ?thesis using ne Suc by simp
  qed (use 2 in auto)
qed simp

lemma fresh_consecutive:
  "fresh m r \<Longrightarrow> i < j \<Longrightarrow> j < length r \<Longrightarrow> fst (r ! i) = fst (r ! j) \<Longrightarrow>
     (\<forall>l. i < l \<and> l < j \<longrightarrow> fst (r ! l) \<noteq> fst (r ! j)) \<Longrightarrow> snd (r ! i) \<noteq> snd (r ! j)"
proof (induction m r arbitrary: i j rule: fresh.induct)
  case (2 m k t r)
  obtain j' where j: "j = Suc j'" using 2(3) by (cases j) auto
  have f: "fresh (m(k := t)) r" using 2(2) by simp
  have j': "j' < length r" using 2(4) j by simp
  show ?case
  proof (cases i)
    case 0
    have k: "fst (r ! j') = k" using 2(5) 0 j by simp
    have "fst (r ! l) \<noteq> k" if "l < j'" for l
      using 2(6) [THEN spec, of "Suc l"] that 0 j k by simp
    then have "snd (r ! j') \<noteq> (m(k := t)) k" using fresh_first [OF f j' k] by blast
    then show ?thesis using 0 j by simp
  next
    case (Suc i')
    have "fst (r ! l) \<noteq> fst (r ! j')" if "i' < l \<and> l < j'" for l
      using 2(6) [THEN spec, of "Suc l"] that Suc j by simp
    then have "snd (r ! i') \<noteq> snd (r ! j')"
      using 2(1) [OF f, of i' j'] 2(3,5) Suc j j' by simp
    then show ?thesis using Suc j by simp
  qed
qed simp

end

lemma tid_entries_TransDone [simp]: "tid_entries pri (TransDone pri s) = tid_entries pri s"
  by (simp add: tid_entries_def TransDone_def)

lemma last_tids_TransDone [simp]: "last_tids pri (TransDone pri s) = last_tids pri s"
  by (simp add: last_tids_def)

lemma tcs_released:
  assumes "tcs_inv pri dt s" shows "tcs_idle pri dt (TransDone pri s)"
proof -
  have "tcs_inv pri dt (TransDone pri s)"
    using assms next_tid_bound unfolding tcs_inv_def tid_entries_TransDone
    by (simp add: TransDone_def)
  then show ?thesis by (simp add: tcs_idle_def TransDone_def)
qed

text \<open>A request is the tick count at which it is made and its destination.\<close>

definition tcs_alloc :: "bool \<Rightarrow> u32 \<times> DestinationAddress \<Rightarrow> stack \<Rightarrow> u16 option \<times> stack" where
  "tcs_alloc pri d s = (let (_, t, s') = NewTrans (fst d) pri (snd d) s in (t, s'))"

interpretation tcs: tid_allocator "tcs_idle pri dt" "\<lambda>d. dest_valid dt (snd d)"
    "\<lambda>d. dest_key dt (snd d)" TID_TABLE_SIZE "tcs_alloc pri" "TransDone pri" "last_tids pri"
  for pri dt
proof unfold_locales
  fix s :: stack and d :: "u32 \<times> DestinationAddress"
  assume s: "tcs_idle pri dt s" and d: "dest_valid dt (snd d)"
    and fits: "dest_key dt (snd d) \<in> dom (last_tids pri s) \<or>
      card (dom (last_tids pri s)) < TID_TABLE_SIZE"
  obtain t s' where n: "NewTrans (fst d) pri (snd d) s = (LonStatusNoError, Some t, s')"
    and g: "tcs_granted pri dt (dest_key dt (snd d)) s t s'"
    using NewTrans_granted [OF s d fits] by blast
  have "last_tids pri s (dest_key dt (snd d)) \<noteq> Some t"
    using g next_tid_neq [of "transID pri s"] by (auto simp: tcs_granted_def)
  then show "\<exists>t s'. tcs_alloc pri d s = (Some t, s') \<and>
      last_tids pri s (dest_key dt (snd d)) \<noteq> Some t \<and> tcs_idle pri dt (TransDone pri s') \<and>
      last_tids pri (TransDone pri s') = (last_tids pri s)(dest_key dt (snd d) \<mapsto> t)"
    using n g tcs_released [of pri dt s'] by (auto simp: tcs_alloc_def tcs_granted_def)
next
  fix s show "finite (dom (last_tids pri s))" by (simp add: last_tids_def finite_dom_map_of)
qed

section \<open>Properties\<close>

text \<open>Transactions one after the other: each is begun with \<open>NewTrans\<close> and then ended.\<close>

fun tcs_run ::
    "bool \<Rightarrow> stack \<Rightarrow> (u32 \<times> DestinationAddress) list \<Rightarrow> (tid_dest \<times> u16 option) list" where
  "tcs_run pri s [] = []"
| "tcs_run pri s ((now, addrIn) # ds) =
     (let (status, t, s') = NewTrans now pri addrIn s
      in (dest_key (domainTable s) addrIn, t) # tcs_run pri (TransDone pri s') ds)"

lemma NewTrans_domainTable [simp]: "domainTable (snd (snd (NewTrans now pri addrIn s))) = domainTable s"
  by (auto simp: NewTrans_def Let_def split: option.splits prod.splits)

lemma TransDone_domainTable [simp]: "domainTable (TransDone pri s) = domainTable s"
  by (simp add: TransDone_def)

lemma tcs_run_eq: "domainTable s = dt \<Longrightarrow> tcs_run pri s ds = tcs.run dt pri s ds"
proof (induction ds arbitrary: s)
  case (Cons d ds)
  obtain now addrIn where d: "d = (now, addrIn)" by force
  obtain st t s' where n: "NewTrans now pri addrIn s = (st, t, s')"
    by (cases "NewTrans now pri addrIn s") auto
  have "domainTable (TransDone pri s') = dt"
    using NewTrans_domainTable [of now pri addrIn s] n Cons.prems by simp
  moreover have "tcs_alloc pri (now, addrIn) s = (t, s')" by (simp add: tcs_alloc_def n)
  ultimately show ?case using Cons d n by simp
qed simp

text \<open>
  C34. As long as the transactions of one priority go to at most \<open>TID_TABLE_SIZE\<close> different
  destinations, in domains that are in use, every request is granted an ID, and two
  transactions to the same destination with no other one to it in between never have the
  same ID, whatever transactions to other destinations come in between and whenever they
  are made. (It is the guarantee that the table exists for: the receiver would take the
  second transaction for a duplicate of the first.)
\<close>

theorem consecutive_tids_differ:
  assumes "tcs_idle pri (domainTable s) s"
    and "\<forall>d\<in>set ds. dest_valid (domainTable s) (snd d)"
    and "card (dom (last_tids pri s) \<union> (\<lambda>d. dest_key (domainTable s) (snd d)) ` set ds)
      \<le> TID_TABLE_SIZE"
    and "r = tcs_run pri s ds"
  shows "(\<forall>(k, t)\<in>set r. t \<noteq> None) \<and>
    (\<forall>i j. i < j \<and> j < length r \<and> fst (r ! i) = fst (r ! j) \<and>
      (\<forall>l. i < l \<and> l < j \<longrightarrow> fst (r ! l) \<noteq> fst (r ! j)) \<longrightarrow> snd (r ! i) \<noteq> snd (r ! j))"
proof -
  have "tcs.fresh (last_tids pri s) (tcs.run (domainTable s) pri s ds)"
    using assms(1-3) by (rule tcs.run_fresh)
  then have f: "tcs.fresh (last_tids pri s) r" using assms(4) by (simp add: tcs_run_eq)
  show ?thesis
    using tcs.fresh_granted [OF f] tcs.fresh_consecutive [OF f] by blast
qed

lemma sampleStack_tcs_idle [simp]: "tcs_idle pri [sampleDomain, sampleDomain1] sampleStack"
  by (simp add: tcs_idle_def tcs_inv_def transRec_def tidTbl_def tblSize_def transID_def
      tid_entries_def TID_TABLE_SIZE_def)

lemma sample_last_tids [simp]: "last_tids pri sampleStack = Map.empty"
  by (simp add: last_tids_def tid_entries_def tblSize_def)

lemma sampleDst_valid [simp]: "dest_valid [sampleDomain, sampleDomain1] sampleDst"
  by (simp add: dest_valid_def sampleDst_def sampleDmn_def sampleDomain_def get_attribute_def)

theorem consecutive_tids_differ_witness:
  "let r = tcs_run False sampleStack [(0, sampleDst), (5, sampleDst)]
   in snd (r ! 0) \<noteq> snd (r ! 1)"
proof -
  let ?ds = "[(0, sampleDst), (5, sampleDst)]"
  let ?r = "tcs_run False sampleStack ?ds"
  have "length ?r = 2" "fst (?r ! 0) = fst (?r ! 1)"
    by (simp_all add: split_beta Let_def TransDone_def)
  moreover have "\<forall>i j. i < j \<and> j < length ?r \<and> fst (?r ! i) = fst (?r ! j) \<and>
      (\<forall>l. i < l \<and> l < j \<longrightarrow> fst (?r ! l) \<noteq> fst (?r ! j)) \<longrightarrow> snd (?r ! i) \<noteq> snd (?r ! j)"
    using consecutive_tids_differ [of False sampleStack ?ds ?r] by (simp add: TID_TABLE_SIZE_def)
  ultimately show ?thesis unfolding Let_def by (metis Suc_1 Suc_leI lessI not_less zero_less_one One_nat_def)
qed

lemma set_other_priority [simp]:
  "transRec (\<not> pri) (set_transRec pri r s) = transRec (\<not> pri) s"
  "transID (\<not> pri) (set_transID pri t s) = transID (\<not> pri) s"
  "tidTbl (\<not> pri) (set_tidTbl pri tbl s) = tidTbl (\<not> pri) s"
  "tblSize (\<not> pri) (set_tblSize pri n s) = tblSize (\<not> pri) s"
  by auto

lemma NewTrans_cases:
  assumes "NewTrans now pri addrIn s = (st, out, s')"
  shows "st = LonStatusTransactionInProgress \<and> out = None \<and> s' = s \<and> tcInProgress (transRec pri s) \<or>
    st = LonStatusTransactionNotAvailable \<and> out = None \<and> \<not> tcInProgress (transRec pri s') \<and>
      tblSize pri s = TID_TABLE_SIZE \<or>
    (\<exists>t. st = LonStatusNoError \<and> out = Some t \<and> \<not> tcInProgress (transRec pri s) \<and>
      transID pri s' = t \<and> transRec pri s' = \<lparr>tcTransNum = t, tcInProgress = True\<rparr>)"
  using assms unfolding NewTrans_def Let_def
  by (auto split: if_splits option.splits prod.splits)

lemma NewTrans_other_priority:
  "transRec (\<not> pri) (snd (snd (NewTrans now pri addrIn s))) = transRec (\<not> pri) s"
  by (auto simp: NewTrans_def Let_def split: if_splits option.splits prod.splits)

text \<open>
  A transaction is current for exactly one ID, from its grant to its end: after a
  granted request \<open>ValidateTrans\<close> accepts the granted ID and no other, a second request of
  that priority is refused and changes nothing, and after \<open>TransDone\<close> no ID is accepted;
  the other priority's transaction is untouched throughout.
\<close>

theorem transaction_window:
  assumes "NewTrans now pri addrIn s = (LonStatusNoError, out, s')"
  shows "(\<forall>n. ValidateTrans pri n s' = TRANS_CURRENT \<longleftrightarrow> out = Some n) \<and>
    NewTrans now' pri addrIn' s' = (LonStatusTransactionInProgress, None, s') \<and>
    (\<forall>n. ValidateTrans pri n (TransDone pri s') = TRANS_NOT_CURRENT) \<and>
    (\<forall>n. ValidateTrans (\<not> pri) n s' = ValidateTrans (\<not> pri) n s \<and>
      ValidateTrans (\<not> pri) n (TransDone pri s') = ValidateTrans (\<not> pri) n s)"
proof -
  obtain t where t: "out = Some t" "transRec pri s' = \<lparr>tcTransNum = t, tcInProgress = True\<rparr>"
    using NewTrans_cases [OF assms] by auto
  have other: "transRec (\<not> pri) s' = transRec (\<not> pri) s"
    using NewTrans_other_priority [of pri now addrIn s] assms by simp
  then have "transRec (\<not> pri) (TransDone pri s') = transRec (\<not> pri) s"
    by (simp add: TransDone_def)
  then show ?thesis
    using t other by (auto simp: ValidateTrans_def NewTrans_def TransDone_def)
qed

lemma sample_NewTrans:
  "fst (NewTrans 0 False sampleDst sampleStack) = LonStatusNoError"
  "fst (snd (NewTrans 0 False sampleDst sampleStack)) = Some 0"
  using NewTrans_granted [of False "[sampleDomain, sampleDomain1]" sampleStack sampleDst 0]
  by (auto simp: TID_TABLE_SIZE_def tcs_granted_def transID_def)

theorem transaction_window_witness:
  "ValidateTrans False 0 (snd (snd (NewTrans 0 False sampleDst sampleStack))) = TRANS_CURRENT \<and>
   ValidateTrans False 1 (snd (snd (NewTrans 0 False sampleDst sampleStack))) \<noteq> TRANS_CURRENT"
proof -
  obtain out s' where n: "NewTrans 0 False sampleDst sampleStack = (LonStatusNoError, out, s')"
    using sample_NewTrans(1) by (cases "NewTrans 0 False sampleDst sampleStack") auto
  then have "out = Some 0" using sample_NewTrans(2) by simp
  then show ?thesis using transaction_window [OF n] n by simp
qed

lemma tid_expired_loop_Some:
  "tid_expired_loop now tbl i n = (Some j, tbl') \<Longrightarrow>
     i \<le> j \<and> j < i + n \<and> (\<forall>l. l < i \<or> l > j \<longrightarrow> tbl' ! l = tbl ! l) \<and> length tbl' = length tbl"
proof (induction n arbitrary: i tbl)
  case (Suc n)
  obtain b timer where e: "LonTimerExpired now (tidTimer (tbl ! i)) = (b, timer)" by force
  show ?case
  proof (cases b)
    case False
    then have "tid_expired_loop now (tbl[i := (tbl ! i)\<lparr>tidTimer := timer\<rparr>]) (i + 1) n = (Some j, tbl')"
      using Suc.prems e by simp
    then show ?thesis using Suc.IH by fastforce
  qed (use Suc.prems e in auto)
qed simp

text \<open>
  When the table is full and an expired entry that is not the last one is replaced, the
  domain length of the new destination is written into the entry that was moved, not into
  the new entry: the moved entry now claims the new destination's length, and the new entry
  keeps the length of the entry that used to be last.
\<close>

theorem replacement_mixes_lengths:
  assumes "\<not> tcInProgress (transRec pri s)"
    and "tblSize pri s = TID_TABLE_SIZE" and "length (tidTbl pri s) = TID_TABLE_SIZE"
    and "\<forall>e\<in>set (tidTbl pri s). \<not> (tid_domain_match s addrIn e \<and> tid_addr_match (dstAddr addrIn) (tidAddr e))"
    and "fst (tid_expired_loop now (tidTbl pri s) 0 TID_TABLE_SIZE) = Some i" and "i < TID_TABLE_SIZE - 1"
    and "NewTrans now pri addrIn s = (st, out, s')"
  shows "st = LonStatusNoError \<and>
    tidAddr (tidTbl pri s' ! i) = tidAddr (tidTbl pri s ! (TID_TABLE_SIZE - 1)) \<and>
    tidLen (tidTbl pri s' ! i) = fst (dest_key (domainTable s) addrIn) \<and>
    tidAddr (tidTbl pri s' ! (TID_TABLE_SIZE - 1)) = tid_addr_of (dstAddr addrIn) \<and>
    tidLen (tidTbl pri s' ! (TID_TABLE_SIZE - 1)) = tidLen (tidTbl pri s ! (TID_TABLE_SIZE - 1))"
proof -
  let ?tbl = "tidTbl pri s" and ?s1 = "set_transRec pri ((transRec pri s)\<lparr>tcTransNum := transID pri s\<rparr>) s"
  obtain tbl where x: "tid_expired_loop now ?tbl 0 TID_TABLE_SIZE = (Some i, tbl)"
    using assms(5) by (cases "tid_expired_loop now ?tbl 0 TID_TABLE_SIZE") auto
  have tbl: "length tbl = TID_TABLE_SIZE" "tbl ! (TID_TABLE_SIZE - 1) = ?tbl ! (TID_TABLE_SIZE - 1)"
    using tid_expired_loop_Some [OF x] assms(3,6) by auto
  have "tid_domain_match ?s1 addrIn e = tid_domain_match s addrIn e" for e
    by (simp add: tid_domain_match_def)
  then have none: "tid_find_loop
      (\<lambda>e. tid_domain_match ?s1 addrIn e \<and> tid_addr_match (dstAddr addrIn) (tidAddr e))
      (take TID_TABLE_SIZE ?tbl) 0 = None"
    using assms(3,4) by (auto simp: tid_find_loop_None)
  let ?n = "TID_TABLE_SIZE - 1" and ?t = "transID pri s"
  have n: "?n < TID_TABLE_SIZE" "i \<noteq> ?n" "Suc ?n = TID_TABLE_SIZE"
    using assms(6) by (simp_all add: TID_TABLE_SIZE_def)
  let ?s2 = "set_tidTbl pri (tbl[i := tbl ! ?n]) (set_tblSize pri ?n ?s1)"
  have st: "st = LonStatusNoError"
    and tbl': "tidTbl pri s' = tid_new_entry now ?s2 addrIn ?t i ?n (tbl[i := tbl ! ?n])"
    using assms(1,2,7) none x n by (simp_all add: NewTrans_def Let_def) auto
  show ?thesis
    using st n assms(6) tbl by (simp add: tbl' tid_new_entry_def dest_key_def Let_def)
qed

definition fullTable :: "TIDTableEntry list" where
  "fullTable = sampleTid\<lparr>tidTimer := \<lparr>expiration = 1, repeatTimeout = 0\<rparr>\<rparr> #
     replicate 8 sampleTid @ [sampleTid\<lparr>tidAddr := DA_Multicast 9, tidLen := 6\<rparr>]"

theorem replacement_mixes_lengths_witness:
  "let s' = snd (snd (NewTrans 5 False sampleDst
      (sampleStack\<lparr>nonpriTbl := fullTable, nonpriTblSize := 10\<rparr>)))
   in tidAddr (tidTbl False s' ! 0) = DA_Multicast 9 \<and> tidLen (tidTbl False s' ! 0) = 1 \<and>
      tidAddr (tidTbl False s' ! 9) = dstAddr sampleDst \<and> tidLen (tidTbl False s' ! 9) = 6"
proof -
  let ?s = "sampleStack\<lparr>nonpriTbl := fullTable, nonpriTblSize := 10\<rparr>"
  obtain st out s' where n: "NewTrans 5 False sampleDst ?s = (st, out, s')"
    by (cases "NewTrans 5 False sampleDst ?s") auto
  have "LonTimerExpired 5 \<lparr>expiration = 1, repeatTimeout = 0\<rparr> = (True, \<lparr>expiration = 0, repeatTimeout = 0\<rparr>)"
    using LonTimerExpired_one_shot [of "\<lparr>expiration = 1, repeatTimeout = 0\<rparr>" 0 1 5] by simp
  then have x: "fst (tid_expired_loop 5 fullTable 0 10) = Some 0"
    by (simp add: fullTable_def numeral_eq_Suc)
  have m: "\<forall>e\<in>set fullTable. \<not> tid_addr_match (dstAddr sampleDst) (tidAddr e)"
    by (simp add: fullTable_def sampleDst_def sampleTid_def)
  have l: "fst (dest_key [sampleDomain, sampleDomain1] sampleDst) = 1"
    by (simp add: dest_key_def sampleDst_def sampleDmn_def sampleDomain_def FLEX_DOMAIN_def
        get_attribute_def)
  show ?thesis
    using replacement_mixes_lengths [of False ?s sampleDst 5 0 st out s'] n x m l
    by (simp add: transRec_def tblSize_def tidTbl_def TID_TABLE_SIZE_def)
      (simp add: fullTable_def sampleDst_def nth_append)
qed

end
