(* ===== verification/Lcs_Tsa.thy ===== *)
theory Lcs_Tsa
  imports Lcs_Tcs
begin

text \<open>
  \<^verbatim>\<open>lcs/lcs_tsa.c\<close>, what its parts share: the headers of transport, session and
  authentication PDUs, the choice of the priority or non-priority queue and transmit record,
  address conversion, completion events, the end of a transaction, and the receive records.
  The theories \<open>Lcs_Tsa_Send\<close>, \<open>Lcs_Tsa_Receive\<close> and \<open>Lcs_Tsa_Auth\<close> model the rest of the file.
\<close>

datatype Layer = TRANSPORT | SESSION

section \<open>PDU headers\<close>

text \<open>The numbers of \<open>PDUMsgType\<close>; several names stand for one number.\<close>

definition ACKD_MSG :: u8 where "ACKD_MSG = 0"
definition REQUEST_MSG :: u8 where "REQUEST_MSG = 0"
definition CHALLENGE_MSG :: u8 where "CHALLENGE_MSG = 0"
definition CHALLENGE_OMA_MSG :: u8 where "CHALLENGE_OMA_MSG = 1"
definition UNACK_RPT_MSG :: u8 where "UNACK_RPT_MSG = 1"
definition ACK_MSG :: u8 where "ACK_MSG = 2"
definition RESPONSE_MSG :: u8 where "RESPONSE_MSG = 2"
definition REPLY_MSG :: u8 where "REPLY_MSG = 2"
definition REPLY_OMA_MSG :: u8 where "REPLY_OMA_MSG = 3"
definition REMINDER_MSG :: u8 where "REMINDER_MSG = 4"
definition REM_MSG_MSG :: u8 where "REM_MSG_MSG = 5"

lemmas pdu_msg_types =
  ACKD_MSG_def REQUEST_MSG_def CHALLENGE_MSG_def CHALLENGE_OMA_MSG_def UNACK_RPT_MSG_def
  ACK_MSG_def RESPONSE_MSG_def REPLY_MSG_def REPLY_OMA_MSG_def REMINDER_MSG_def REM_MSG_MSG_def

text \<open>
  The first byte of a \<open>TSPDU\<close>: \<open>auth\<close> in bit 7, \<open>pduMsgType\<close> in bits 6 to 4, \<open>transNum\<close> in
  bits 3 to 0. The first byte of an \<open>AuthPDU\<close>: \<open>fmt\<close> in bits 7 and 6, \<open>pduMsgType\<close> in bits
  5 and 4, \<open>transNum\<close> in bits 3 to 0. Assigning to a field truncates.
\<close>

definition TSPDU_header :: "bool \<Rightarrow> u8 \<Rightarrow> u16 \<Rightarrow> u8" where
  "TSPDU_header auth msgType transNum =
     push_bit 7 (if auth then 1 else 0) OR push_bit 4 (msgType AND 7) OR (ucast transNum AND 0x0F)"

definition TSPDU_auth :: "u8 \<Rightarrow> bool" where
  "TSPDU_auth b \<longleftrightarrow> bit b 7"

definition TSPDU_pduMsgType :: "u8 \<Rightarrow> u8" where
  "TSPDU_pduMsgType b = drop_bit 4 b AND 7"

definition AuthPDU_header :: "u8 \<Rightarrow> u8 \<Rightarrow> u16 \<Rightarrow> u8" where
  "AuthPDU_header fmt msgType transNum =
     push_bit 6 (fmt AND 3) OR push_bit 4 (msgType AND 3) OR (ucast transNum AND 0x0F)"

definition AuthPDU_fmt :: "u8 \<Rightarrow> u8" where
  "AuthPDU_fmt b = drop_bit 6 b"

definition AuthPDU_pduMsgType :: "u8 \<Rightarrow> u8" where
  "AuthPDU_pduMsgType b = drop_bit 4 b AND 3"

definition pdu_transNum_field :: "u8 \<Rightarrow> u8" where
  "pdu_transNum_field b = b AND 0x0F"

text \<open>
  In legacy mode the header's four bits are the transaction number; else they are its high
  part, its low byte is the first data byte, and the data proper starts one byte later.
\<close>

definition dataIndexOf :: "LsProtocolMode \<Rightarrow> nat" where
  "dataIndexOf version = (if version = LsProtocolModeLegacy then 0 else 1)"

definition pdu_transNum :: "LsProtocolMode \<Rightarrow> bytes \<Rightarrow> u16" where
  "pdu_transNum version pdu =
     (if version = LsProtocolModeLegacy then ucast (pdu_transNum_field (byte_at pdu 0))
      else push_bit 8 (ucast (pdu_transNum_field (byte_at pdu 0))) OR ucast (byte_at pdu 1))"

text \<open>The mode that an outgoing PDU is marked with, and the bytes of a \<open>TSPDU\<close>.\<close>

definition sent_version :: "LsProtocolMode \<Rightarrow> LsProtocolMode" where
  "sent_version version =
     (if version = LsProtocolModeLegacy then LsProtocolModeLegacy else LsProtocolModeEnhanced)"

definition tspdu :: "LsProtocolMode \<Rightarrow> bool \<Rightarrow> u8 \<Rightarrow> u16 \<Rightarrow> bytes \<Rightarrow> bytes" where
  "tspdu version auth msgType transNum data =
     (if version = LsProtocolModeLegacy then TSPDU_header auth msgType transNum # data
      else TSPDU_header auth msgType (drop_bit 8 transNum) # ucast transNum # data)"

definition authpdu :: "LsProtocolMode \<Rightarrow> u8 \<Rightarrow> u8 \<Rightarrow> u16 \<Rightarrow> bytes \<Rightarrow> bytes" where
  "authpdu version fmt msgType transNum data =
     (if version = LsProtocolModeLegacy then AuthPDU_header fmt msgType transNum # data
      else AuthPDU_header fmt msgType (drop_bit 8 transNum) # ucast transNum # data)"

section \<open>Selecting the priority\<close>

definition tsaQ :: "bool \<Rightarrow> stack \<Rightarrow> TSASendParam Queue" where
  "tsaQ pri s = (if pri then tsaOutPriQ s else tsaOutQ s)"

definition set_tsaQ :: "bool \<Rightarrow> TSASendParam Queue \<Rightarrow> stack \<Rightarrow> stack" where
  "set_tsaQ pri q s = (if pri then s\<lparr>tsaOutPriQ := q\<rparr> else s\<lparr>tsaOutQ := q\<rparr>)"

definition nwQ :: "bool \<Rightarrow> stack \<Rightarrow> NWSendParam Queue" where
  "nwQ pri s = (if pri then nwOutPriQ s else nwOutQ s)"

definition set_nwQ :: "bool \<Rightarrow> NWSendParam Queue \<Rightarrow> stack \<Rightarrow> stack" where
  "set_nwQ pri q s = (if pri then s\<lparr>nwOutPriQ := q\<rparr> else s\<lparr>nwOutQ := q\<rparr>)"

definition xmitRecOf :: "bool \<Rightarrow> stack \<Rightarrow> TransmitRecord" where
  "xmitRecOf pri s = (if pri then priXmitRec s else xmitRec s)"

definition set_xmitRec :: "bool \<Rightarrow> TransmitRecord \<Rightarrow> stack \<Rightarrow> stack" where
  "set_xmitRec pri x s = (if pri then s\<lparr>priXmitRec := x\<rparr> else s\<lparr>xmitRec := x\<rparr>)"

definition update_xmitRec :: "bool \<Rightarrow> (TransmitRecord \<Rightarrow> TransmitRecord) \<Rightarrow> stack \<Rightarrow> stack" where
  "update_xmitRec pri f s = set_xmitRec pri (f (xmitRecOf pri s)) s"

definition update_rr :: "nat \<Rightarrow> (ReceiveRecord \<Rightarrow> ReceiveRecord) \<Rightarrow> stack \<Rightarrow> stack" where
  "update_rr i f s = s\<lparr>recvRec := (recvRec s)[i := f (recvRec s ! i)]\<rparr>"

text \<open>
  A copy that does not fit its buffer sets \<open>memFault\<close>. The buffer of an entry of the network
  layer's output queues has the size that the reset of the network layer decodes for the queue.
\<close>

definition fault_if :: "bool \<Rightarrow> stack \<Rightarrow> stack" where
  "fault_if b s = (if b then s\<lparr>memFault := True\<rparr> else s)"

definition nwBufSize :: "bool \<Rightarrow> stack \<Rightarrow> nat" where
  "nwBufSize pri s = (if pri then nwOutPriBufSize s else nwOutBufSize s)"

text \<open>
  The PDU is written straight into the slot at the tail of the queue; \<open>f\<close> fills the slot,
  and the bytes of its \<open>nwsPdu\<close> are what is copied.
\<close>

definition nw_slot :: "bool \<Rightarrow> stack \<Rightarrow> NWSendParam" where
  "nw_slot pri s = QueueDeref (nwQ pri s) (qtail (nwQ pri s))"

definition nw_overflow :: "bool \<Rightarrow> (NWSendParam \<Rightarrow> NWSendParam) \<Rightarrow> stack \<Rightarrow> bool" where
  "nw_overflow pri f s \<longleftrightarrow> nwBufSize pri s < length (nwsPdu (f (nw_slot pri s)))"

definition nw_emit :: "bool \<Rightarrow> (NWSendParam \<Rightarrow> NWSendParam) \<Rightarrow> stack \<Rightarrow> stack" where
  "nw_emit pri f s = fault_if (nw_overflow pri f s) (set_nwQ pri (QueueEmit f (nwQ pri s)) s)"

definition drop_tsaIn :: "stack \<Rightarrow> stack" where
  "drop_tsaIn s = s\<lparr>tsaInQ := QueueDropHead (tsaInQ s)\<rparr>"

text \<open>
  \<open>QueuePeek\<close> returns null for an empty queue, and the code reads through its result
  without a test. \<open>null_pointer\<close> is what such a read comes to here.
\<close>

definition null_pointer :: "stack \<Rightarrow> stack" where
  "null_pointer s = s\<lparr>memFault := True\<rparr>"

section \<open>Address conversion\<close>

text \<open>\<open>pDst\<close> is passed in: its domain is kept but for the index, which is always written.\<close>

definition TSA_AddressConversion ::
    "IzotSendAddress \<Rightarrow> DestinationAddress \<Rightarrow> LonStatusCode \<times> DestinationAddress" where
  "TSA_AddressConversion pSrc pDst =
     (let pDst = pDst\<lparr>dstDmn := (dstDmn pDst)\<lparr>domainIndex := IZOT_SENDSN_DOMAIN pSrc\<rparr>\<rparr>
      in if IZOT_SENDGROUP_TYPE pSrc \<noteq> 0 then
           (LonStatusNoError, pDst\<lparr>dstAddr := DA_Multicast (saSubnetGroup pSrc)\<rparr>)
         else if saTypeSize pSrc = 0 then (LonStatusDestinationAddressMissing, pDst\<lparr>dstAddr := DA_Unbound\<rparr>)
         else if saTypeSize pSrc = 1 then
           (LonStatusNoError, pDst\<lparr>dstAddr := DA_SubnetNode
              \<lparr>snSubnet = saSubnetGroup pSrc, snNode = 0x80 OR IZOT_SENDSN_NODE pSrc\<rparr>\<rparr>)
         else if saTypeSize pSrc = 2 then
           (LonStatusNoError, pDst\<lparr>dstAddr := DA_UniqueId (saSubnetGroup pSrc)
              (bytes_from (saNeuronId pSrc) 0 IZOT_UNIQUE_ID_LENGTH)\<rparr>)
         else if saTypeSize pSrc = 3 then
           (LonStatusNoError, pDst\<lparr>dstAddr := DA_Broadcast (saSubnetGroup pSrc)\<rparr>)
         else (LonStatusBadAddressType, pDst))"

definition AuthOma :: "stack \<Rightarrow> bool" where
  "AuthOma s \<longleftrightarrow> IZOT_AUTH_TYPE (domainTable s ! 0) = 1"

section \<open>Completion events and the end of a transaction\<close>

text \<open>
  \<open>SendCompletion\<close> gets a pointer to the entry at the head of an output queue; \<open>p\<close> is that
  entry. The queue it drops from is the one the entry's own priority names.
\<close>

definition SendCompletion :: "TSASendParam \<Rightarrow> bool \<Rightarrow> stack \<Rightarrow> stack" where
  "SendCompletion p success s =
     (if \<not> QueueFull (appCeRspInQ s) then
        (let s1 = s\<lparr>appCeRspInQ := QueueEmit (\<lambda>r. r\<lparr>aprIndication := COMPLETION,
                     aprSuccess := success, aprTag := tssTag p, aprProxy := tssProxy p,
                     aprProxyCount := tssProxyCount p, aprProxyDone := tssProxyDone p\<rparr>)
                     (appCeRspInQ s)\<rparr>;
             q = QueuePokeHead (\<lambda>r. r\<lparr>tssProxy := False\<rparr>) (tsaQ (tssPriority p) s1)
         in set_tsaQ (tssPriority p) (QueueDropHead q) s1)
      else s)"

definition SendBlocked :: "u32 \<Rightarrow> stack \<Rightarrow> bool" where
  "SendBlocked now s = LonTimerRunning now (tsDelayTimer s)"

definition TerminateTrans :: "bool \<Rightarrow> stack \<Rightarrow> stack" where
  "TerminateTrans pri s =
     (if QueueFull (appCeRspInQ s) then s
      else (case QueueHead (tsaQ pri s) of
        None \<Rightarrow> null_pointer s
      | Some p \<Rightarrow>
          (let x = xmitRecOf pri s;
               success = (tssService p = IzotServiceRepeated \<or> txDestCount x = txAckCount x \<or>
                          (dstMode (txNwDestAddr x) = AM_BROADCAST \<and> txAckCount x \<ge> 1));
               s1 = (if success then s else IncrementStat LcsTxFailure s);
               s2 = TransDone pri s1;
               s3 = update_xmitRec pri (\<lambda>x. x\<lparr>txStatus := UNUSED_TX\<rparr>) s2
           in SendCompletion p success s3)))"

section \<open>Receive records\<close>

definition rr_matches :: "SourceAddress \<Rightarrow> bool \<Rightarrow> ReceiveRecord \<Rightarrow> bool" where
  "rr_matches srcAddrIn pri r \<longleftrightarrow>
     pri = rrPriority r \<and>
     domainIndex (srcDmn srcAddrIn) = domainIndex (srcDmn (rrSrcAddr r)) \<and>
     srcMode srcAddrIn = srcMode (rrSrcAddr r) \<and>
     srcSubnetAddr srcAddrIn = srcSubnetAddr (rrSrcAddr r) \<and>
     (srcMode srcAddrIn \<noteq> AM_BROADCAST \<or>
      srcBroadcastSubnet srcAddrIn = srcBroadcastSubnet (rrSrcAddr r)) \<and>
     (srcMode srcAddrIn \<noteq> AM_MULTICAST \<or> srcGroup srcAddrIn = srcGroup (rrSrcAddr r))"

fun rr_find :: "(ReceiveRecord \<Rightarrow> bool) \<Rightarrow> ReceiveRecord list \<Rightarrow> nat \<Rightarrow> nat option" where
  "rr_find p [] i = None"
| "rr_find p (r # rs) i = (if p r then Some i else rr_find p rs (i + 1))"

text \<open>The results \<open>-1\<close> are \<open>None\<close>.\<close>

definition RetrieveRR :: "SourceAddress \<Rightarrow> bool \<Rightarrow> stack \<Rightarrow> nat option" where
  "RetrieveRR srcAddrIn pri s = rr_find (rr_matches srcAddrIn pri) (recvRec s) 0"

definition AllocateRR :: "stack \<Rightarrow> nat option" where
  "AllocateRR s = rr_find (\<lambda>r. rrStatus r = UNUSED_RR) (recvRec s) 0"

definition FindRR :: "u16 \<Rightarrow> stack \<Rightarrow> nat option" where
  "FindRR rid s =
     (case rr_find (\<lambda>r. rrStatus r = SESSION_RR \<and> rrReqId r = rid) (recvRec s) 0 of
        None \<Rightarrow> None
      | Some i \<Rightarrow>
          (if rrServiceType (recvRec s ! i) \<noteq> IzotServiceRequest \<or>
              rrTransState (recvRec s ! i) \<noteq> DELIVERED
           then None else Some i))"

definition NGTIMER_SPCL_VAL :: u16 where "NGTIMER_SPCL_VAL = 8192"

text \<open>The loop over the address table, with the running maximum; a bad code ends it with 0.\<close>

fun group_timer_loop :: "IzotAddress list \<Rightarrow> u8 \<Rightarrow> u16 \<Rightarrow> u16" where
  "group_timer_loop [] groupIdIn mx = mx"
| "group_timer_loop (a # as) groupIdIn mx =
     (if IZOT_ADDRESS_GROUP_TYPE a = 1 \<and> adGroup a = groupIdIn then
        (case DecodeRcvTimer (IZOT_ADDRESS_GROUP_RECEIVE_TIMER a) of
           Inl _ \<Rightarrow> 0
         | Inr temp \<Rightarrow> group_timer_loop as groupIdIn (if temp > mx then temp else mx))
      else group_timer_loop as groupIdIn mx)"

definition ComputeRecvTimerValue :: "AddrMode \<Rightarrow> u8 \<Rightarrow> stack \<Rightarrow> u16" where
  "ComputeRecvTimerValue addrModeIn groupIdIn s =
     (if addrModeIn = AM_UNIQUE_NODE_ID then NGTIMER_SPCL_VAL
      else if addrModeIn = AM_MULTICAST then
        group_timer_loop (take NUM_ADDR_TBL_ENTRIES (addrTable s)) groupIdIn 0
      else (case DecodeRcvTimer (configNonGrpRcv s) of Inl _ \<Rightarrow> 0 | Inr temp \<Rightarrow> temp))"


section \<open>Selectors after updates\<close>

lemmas tcs_select_defs =
  transRec_def transID_def tidTbl_def tblSize_def set_transRec_def set_transID_def set_tidTbl_def
  set_tblSize_def

lemmas tsa_select_defs = tsaQ_def set_tsaQ_def nwQ_def set_nwQ_def xmitRecOf_def set_xmitRec_def

lemma fault_if_select [simp]:
  "nwQ p (fault_if b s) = nwQ p s"
  "xmitRecOf p (fault_if b s) = xmitRecOf p s"
  "transRec p (fault_if b s) = transRec p s"
  "transID p (fault_if b s) = transID p s"
  "tidTbl p (fault_if b s) = tidTbl p s"
  "tblSize p (fault_if b s) = tblSize p s"
  "tsaInQ (fault_if b s) = tsaInQ s"
  "tsaRespQ (fault_if b s) = tsaRespQ s"
  "appInQ (fault_if b s) = appInQ s"
  "appCeRspInQ (fault_if b s) = appCeRspInQ s"
  "recvRec (fault_if b s) = recvRec s"
  "reqId (fault_if b s) = reqId s"
  "prevChallenge (fault_if b s) = prevChallenge s"
  "memFault (fault_if b s) = (memFault s \<or> b)"
  "readOnlyData (fault_if b s) = readOnlyData s"
  "configNonGrpRcv (fault_if b s) = configNonGrpRcv s"
  "domainTable (fault_if b s) = domainTable s"
  "addrTable (fault_if b s) = addrTable s"
  "stats (fault_if b s) = stats s"
  "rxStat (fault_if b s) = rxStat s"
  "appInBufSize (fault_if b s) = appInBufSize s"
  "nwOutBufSize (fault_if b s) = nwOutBufSize s"
  "nwOutPriBufSize (fault_if b s) = nwOutPriBufSize s"
  "tsDelayTimer (fault_if b s) = tsDelayTimer s"
  "nwInQ (fault_if b s) = nwInQ s"
  "tsaInBufSize (fault_if b s) = tsaInBufSize s"
  "tsaQ p (fault_if b s) = tsaQ p s"
  by (auto simp: fault_if_def tsa_select_defs tcs_select_defs)

lemma set_tsaQ_frame [simp]:
  "nwQ p (set_tsaQ pri q s) = nwQ p s"
  "xmitRecOf p (set_tsaQ pri q s) = xmitRecOf p s"
  "transRec p (set_tsaQ pri q s) = transRec p s"
  "transID p (set_tsaQ pri q s) = transID p s"
  "tidTbl p (set_tsaQ pri q s) = tidTbl p s"
  "tblSize p (set_tsaQ pri q s) = tblSize p s"
  "tsaInQ (set_tsaQ pri q s) = tsaInQ s"
  "tsaRespQ (set_tsaQ pri q s) = tsaRespQ s"
  "appInQ (set_tsaQ pri q s) = appInQ s"
  "appCeRspInQ (set_tsaQ pri q s) = appCeRspInQ s"
  "recvRec (set_tsaQ pri q s) = recvRec s"
  "reqId (set_tsaQ pri q s) = reqId s"
  "prevChallenge (set_tsaQ pri q s) = prevChallenge s"
  "memFault (set_tsaQ pri q s) = memFault s"
  "readOnlyData (set_tsaQ pri q s) = readOnlyData s"
  "configNonGrpRcv (set_tsaQ pri q s) = configNonGrpRcv s"
  "domainTable (set_tsaQ pri q s) = domainTable s"
  "addrTable (set_tsaQ pri q s) = addrTable s"
  "stats (set_tsaQ pri q s) = stats s"
  "rxStat (set_tsaQ pri q s) = rxStat s"
  "appInBufSize (set_tsaQ pri q s) = appInBufSize s"
  "nwOutBufSize (set_tsaQ pri q s) = nwOutBufSize s"
  "nwOutPriBufSize (set_tsaQ pri q s) = nwOutPriBufSize s"
  "tsDelayTimer (set_tsaQ pri q s) = tsDelayTimer s"
  "nwInQ (set_tsaQ pri q s) = nwInQ s"
  "tsaInBufSize (set_tsaQ pri q s) = tsaInBufSize s"
  "tsaQ p (set_tsaQ pri q s) = (if p = pri then q else tsaQ p s)"
  by (auto simp: tsa_select_defs tcs_select_defs)

lemma set_nwQ_frame [simp]:
  "tsaQ p (set_nwQ pri q s) = tsaQ p s"
  "xmitRecOf p (set_nwQ pri q s) = xmitRecOf p s"
  "transRec p (set_nwQ pri q s) = transRec p s"
  "transID p (set_nwQ pri q s) = transID p s"
  "tidTbl p (set_nwQ pri q s) = tidTbl p s"
  "tblSize p (set_nwQ pri q s) = tblSize p s"
  "tsaInQ (set_nwQ pri q s) = tsaInQ s"
  "tsaRespQ (set_nwQ pri q s) = tsaRespQ s"
  "appInQ (set_nwQ pri q s) = appInQ s"
  "appCeRspInQ (set_nwQ pri q s) = appCeRspInQ s"
  "recvRec (set_nwQ pri q s) = recvRec s"
  "reqId (set_nwQ pri q s) = reqId s"
  "prevChallenge (set_nwQ pri q s) = prevChallenge s"
  "memFault (set_nwQ pri q s) = memFault s"
  "readOnlyData (set_nwQ pri q s) = readOnlyData s"
  "configNonGrpRcv (set_nwQ pri q s) = configNonGrpRcv s"
  "domainTable (set_nwQ pri q s) = domainTable s"
  "addrTable (set_nwQ pri q s) = addrTable s"
  "stats (set_nwQ pri q s) = stats s"
  "rxStat (set_nwQ pri q s) = rxStat s"
  "appInBufSize (set_nwQ pri q s) = appInBufSize s"
  "nwOutBufSize (set_nwQ pri q s) = nwOutBufSize s"
  "nwOutPriBufSize (set_nwQ pri q s) = nwOutPriBufSize s"
  "tsDelayTimer (set_nwQ pri q s) = tsDelayTimer s"
  "nwInQ (set_nwQ pri q s) = nwInQ s"
  "tsaInBufSize (set_nwQ pri q s) = tsaInBufSize s"
  "nwQ p (set_nwQ pri q s) = (if p = pri then q else nwQ p s)"
  by (auto simp: tsa_select_defs tcs_select_defs)

lemma set_xmitRec_frame [simp]:
  "tsaQ p (set_xmitRec pri x s) = tsaQ p s"
  "nwQ p (set_xmitRec pri x s) = nwQ p s"
  "transRec p (set_xmitRec pri x s) = transRec p s"
  "transID p (set_xmitRec pri x s) = transID p s"
  "tidTbl p (set_xmitRec pri x s) = tidTbl p s"
  "tblSize p (set_xmitRec pri x s) = tblSize p s"
  "tsaInQ (set_xmitRec pri x s) = tsaInQ s"
  "tsaRespQ (set_xmitRec pri x s) = tsaRespQ s"
  "appInQ (set_xmitRec pri x s) = appInQ s"
  "appCeRspInQ (set_xmitRec pri x s) = appCeRspInQ s"
  "recvRec (set_xmitRec pri x s) = recvRec s"
  "reqId (set_xmitRec pri x s) = reqId s"
  "prevChallenge (set_xmitRec pri x s) = prevChallenge s"
  "memFault (set_xmitRec pri x s) = memFault s"
  "readOnlyData (set_xmitRec pri x s) = readOnlyData s"
  "configNonGrpRcv (set_xmitRec pri x s) = configNonGrpRcv s"
  "domainTable (set_xmitRec pri x s) = domainTable s"
  "addrTable (set_xmitRec pri x s) = addrTable s"
  "stats (set_xmitRec pri x s) = stats s"
  "rxStat (set_xmitRec pri x s) = rxStat s"
  "appInBufSize (set_xmitRec pri x s) = appInBufSize s"
  "nwOutBufSize (set_xmitRec pri x s) = nwOutBufSize s"
  "nwOutPriBufSize (set_xmitRec pri x s) = nwOutPriBufSize s"
  "tsDelayTimer (set_xmitRec pri x s) = tsDelayTimer s"
  "nwInQ (set_xmitRec pri x s) = nwInQ s"
  "tsaInBufSize (set_xmitRec pri x s) = tsaInBufSize s"
  "xmitRecOf p (set_xmitRec pri x s) = (if p = pri then x else xmitRecOf p s)"
  by (auto simp: tsa_select_defs tcs_select_defs)

lemma update_xmitRec_frame [simp]:
  "tsaQ p (update_xmitRec pri f s) = tsaQ p s"
  "nwQ p (update_xmitRec pri f s) = nwQ p s"
  "transRec p (update_xmitRec pri f s) = transRec p s"
  "transID p (update_xmitRec pri f s) = transID p s"
  "tidTbl p (update_xmitRec pri f s) = tidTbl p s"
  "tblSize p (update_xmitRec pri f s) = tblSize p s"
  "tsaInQ (update_xmitRec pri f s) = tsaInQ s"
  "tsaRespQ (update_xmitRec pri f s) = tsaRespQ s"
  "appInQ (update_xmitRec pri f s) = appInQ s"
  "appCeRspInQ (update_xmitRec pri f s) = appCeRspInQ s"
  "recvRec (update_xmitRec pri f s) = recvRec s"
  "reqId (update_xmitRec pri f s) = reqId s"
  "prevChallenge (update_xmitRec pri f s) = prevChallenge s"
  "memFault (update_xmitRec pri f s) = memFault s"
  "readOnlyData (update_xmitRec pri f s) = readOnlyData s"
  "configNonGrpRcv (update_xmitRec pri f s) = configNonGrpRcv s"
  "domainTable (update_xmitRec pri f s) = domainTable s"
  "addrTable (update_xmitRec pri f s) = addrTable s"
  "stats (update_xmitRec pri f s) = stats s"
  "rxStat (update_xmitRec pri f s) = rxStat s"
  "appInBufSize (update_xmitRec pri f s) = appInBufSize s"
  "nwOutBufSize (update_xmitRec pri f s) = nwOutBufSize s"
  "nwOutPriBufSize (update_xmitRec pri f s) = nwOutPriBufSize s"
  "tsDelayTimer (update_xmitRec pri f s) = tsDelayTimer s"
  "nwInQ (update_xmitRec pri f s) = nwInQ s"
  "tsaInBufSize (update_xmitRec pri f s) = tsaInBufSize s"
  "xmitRecOf p (update_xmitRec pri f s) = (if p = pri then f (xmitRecOf p s) else xmitRecOf p s)"
  by (simp_all add: update_xmitRec_def)

lemma nw_emit_frame [simp]:
  "tsaQ p (nw_emit pri f s) = tsaQ p s"
  "xmitRecOf p (nw_emit pri f s) = xmitRecOf p s"
  "transRec p (nw_emit pri f s) = transRec p s"
  "transID p (nw_emit pri f s) = transID p s"
  "tidTbl p (nw_emit pri f s) = tidTbl p s"
  "tblSize p (nw_emit pri f s) = tblSize p s"
  "tsaInQ (nw_emit pri f s) = tsaInQ s"
  "tsaRespQ (nw_emit pri f s) = tsaRespQ s"
  "appInQ (nw_emit pri f s) = appInQ s"
  "appCeRspInQ (nw_emit pri f s) = appCeRspInQ s"
  "recvRec (nw_emit pri f s) = recvRec s"
  "reqId (nw_emit pri f s) = reqId s"
  "prevChallenge (nw_emit pri f s) = prevChallenge s"
  "memFault (nw_emit pri f s) = (memFault s \<or> nw_overflow pri f s)"
  "readOnlyData (nw_emit pri f s) = readOnlyData s"
  "configNonGrpRcv (nw_emit pri f s) = configNonGrpRcv s"
  "domainTable (nw_emit pri f s) = domainTable s"
  "addrTable (nw_emit pri f s) = addrTable s"
  "stats (nw_emit pri f s) = stats s"
  "rxStat (nw_emit pri f s) = rxStat s"
  "appInBufSize (nw_emit pri f s) = appInBufSize s"
  "nwOutBufSize (nw_emit pri f s) = nwOutBufSize s"
  "nwOutPriBufSize (nw_emit pri f s) = nwOutPriBufSize s"
  "tsDelayTimer (nw_emit pri f s) = tsDelayTimer s"
  "nwInQ (nw_emit pri f s) = nwInQ s"
  "tsaInBufSize (nw_emit pri f s) = tsaInBufSize s"
  "nwQ p (nw_emit pri f s) = (if p = pri then QueueEmit f (nwQ p s) else nwQ p s)"
  by (simp_all add: nw_emit_def)

lemma update_rr_frame [simp]:
  "tsaQ p (update_rr i f s) = tsaQ p s"
  "nwQ p (update_rr i f s) = nwQ p s"
  "xmitRecOf p (update_rr i f s) = xmitRecOf p s"
  "transRec p (update_rr i f s) = transRec p s"
  "transID p (update_rr i f s) = transID p s"
  "tidTbl p (update_rr i f s) = tidTbl p s"
  "tblSize p (update_rr i f s) = tblSize p s"
  "tsaInQ (update_rr i f s) = tsaInQ s"
  "tsaRespQ (update_rr i f s) = tsaRespQ s"
  "appInQ (update_rr i f s) = appInQ s"
  "appCeRspInQ (update_rr i f s) = appCeRspInQ s"
  "reqId (update_rr i f s) = reqId s"
  "prevChallenge (update_rr i f s) = prevChallenge s"
  "memFault (update_rr i f s) = memFault s"
  "readOnlyData (update_rr i f s) = readOnlyData s"
  "configNonGrpRcv (update_rr i f s) = configNonGrpRcv s"
  "domainTable (update_rr i f s) = domainTable s"
  "addrTable (update_rr i f s) = addrTable s"
  "stats (update_rr i f s) = stats s"
  "rxStat (update_rr i f s) = rxStat s"
  "appInBufSize (update_rr i f s) = appInBufSize s"
  "nwOutBufSize (update_rr i f s) = nwOutBufSize s"
  "nwOutPriBufSize (update_rr i f s) = nwOutPriBufSize s"
  "tsDelayTimer (update_rr i f s) = tsDelayTimer s"
  "nwInQ (update_rr i f s) = nwInQ s"
  "tsaInBufSize (update_rr i f s) = tsaInBufSize s"
  "recvRec (update_rr i f s) = (recvRec s)[i := f (recvRec s ! i)]"
  by (auto simp: update_rr_def tsa_select_defs tcs_select_defs)

lemma drop_tsaIn_frame [simp]:
  "tsaQ p (drop_tsaIn s) = tsaQ p s"
  "nwQ p (drop_tsaIn s) = nwQ p s"
  "xmitRecOf p (drop_tsaIn s) = xmitRecOf p s"
  "transRec p (drop_tsaIn s) = transRec p s"
  "transID p (drop_tsaIn s) = transID p s"
  "tidTbl p (drop_tsaIn s) = tidTbl p s"
  "tblSize p (drop_tsaIn s) = tblSize p s"
  "tsaRespQ (drop_tsaIn s) = tsaRespQ s"
  "appInQ (drop_tsaIn s) = appInQ s"
  "appCeRspInQ (drop_tsaIn s) = appCeRspInQ s"
  "recvRec (drop_tsaIn s) = recvRec s"
  "reqId (drop_tsaIn s) = reqId s"
  "prevChallenge (drop_tsaIn s) = prevChallenge s"
  "memFault (drop_tsaIn s) = memFault s"
  "readOnlyData (drop_tsaIn s) = readOnlyData s"
  "configNonGrpRcv (drop_tsaIn s) = configNonGrpRcv s"
  "domainTable (drop_tsaIn s) = domainTable s"
  "addrTable (drop_tsaIn s) = addrTable s"
  "stats (drop_tsaIn s) = stats s"
  "rxStat (drop_tsaIn s) = rxStat s"
  "appInBufSize (drop_tsaIn s) = appInBufSize s"
  "nwOutBufSize (drop_tsaIn s) = nwOutBufSize s"
  "nwOutPriBufSize (drop_tsaIn s) = nwOutPriBufSize s"
  "tsDelayTimer (drop_tsaIn s) = tsDelayTimer s"
  "nwInQ (drop_tsaIn s) = nwInQ s"
  "tsaInBufSize (drop_tsaIn s) = tsaInBufSize s"
  "tsaInQ (drop_tsaIn s) = QueueDropHead (tsaInQ s)"
  by (auto simp: drop_tsaIn_def tsa_select_defs tcs_select_defs)

lemma nwBufSize_cong:
  "nwOutBufSize s' = nwOutBufSize s \<Longrightarrow> nwOutPriBufSize s' = nwOutPriBufSize s \<Longrightarrow>
     nwBufSize p s' = nwBufSize p s"
  by (simp add: nwBufSize_def)

lemma nwBufSize_frame [simp]:
  "nwBufSize p (fault_if b s) = nwBufSize p s" "nwBufSize p (set_tsaQ pri q s) = nwBufSize p s"
  "nwBufSize p (set_nwQ pri q' s) = nwBufSize p s" "nwBufSize p (set_xmitRec pri x s) = nwBufSize p s"
  "nwBufSize p (update_xmitRec pri g s) = nwBufSize p s" "nwBufSize p (nw_emit pri f s) = nwBufSize p s"
  "nwBufSize p (update_rr i h s) = nwBufSize p s" "nwBufSize p (drop_tsaIn s) = nwBufSize p s"
  "nwBufSize p (s\<lparr>memFault := b\<rparr>) = nwBufSize p s" "nwBufSize p (s\<lparr>appInQ := qa\<rparr>) = nwBufSize p s"
  "nwBufSize p (s\<lparr>appCeRspInQ := qa\<rparr>) = nwBufSize p s" "nwBufSize p (s\<lparr>reqId := k\<rparr>) = nwBufSize p s"
  "nwBufSize p (s\<lparr>tsaRespQ := qr\<rparr>) = nwBufSize p s" "nwBufSize p (s\<lparr>prevChallenge := v\<rparr>) = nwBufSize p s"
  "nwBufSize p (s\<lparr>recvRec := rs\<rparr>) = nwBufSize p s"
  by (rule nwBufSize_cong; simp)+

lemma null_pointer_frame [simp]:
  "tsaQ p (null_pointer s) = tsaQ p s"
  "nwQ p (null_pointer s) = nwQ p s"
  "xmitRecOf p (null_pointer s) = xmitRecOf p s"
  "transRec p (null_pointer s) = transRec p s"
  "transID p (null_pointer s) = transID p s"
  "tidTbl p (null_pointer s) = tidTbl p s"
  "tblSize p (null_pointer s) = tblSize p s"
  "tsaInQ (null_pointer s) = tsaInQ s"
  "tsaRespQ (null_pointer s) = tsaRespQ s"
  "appInQ (null_pointer s) = appInQ s"
  "appCeRspInQ (null_pointer s) = appCeRspInQ s"
  "recvRec (null_pointer s) = recvRec s"
  "reqId (null_pointer s) = reqId s"
  "prevChallenge (null_pointer s) = prevChallenge s"
  "readOnlyData (null_pointer s) = readOnlyData s"
  "configNonGrpRcv (null_pointer s) = configNonGrpRcv s"
  "domainTable (null_pointer s) = domainTable s"
  "addrTable (null_pointer s) = addrTable s"
  "stats (null_pointer s) = stats s"
  "rxStat (null_pointer s) = rxStat s"
  "appInBufSize (null_pointer s) = appInBufSize s"
  "nwOutBufSize (null_pointer s) = nwOutBufSize s"
  "nwOutPriBufSize (null_pointer s) = nwOutPriBufSize s"
  "tsDelayTimer (null_pointer s) = tsDelayTimer s"
  "nwInQ (null_pointer s) = nwInQ s"
  "tsaInBufSize (null_pointer s) = tsaInBufSize s"
  "memFault (null_pointer s)"
  by (auto simp: null_pointer_def tsa_select_defs tcs_select_defs)

lemma IncrementStat_frame [simp]:
  "tsaQ p (IncrementStat st s) = tsaQ p s"
  "nwQ p (IncrementStat st s) = nwQ p s"
  "xmitRecOf p (IncrementStat st s) = xmitRecOf p s"
  "transRec p (IncrementStat st s) = transRec p s"
  "transID p (IncrementStat st s) = transID p s"
  "tidTbl p (IncrementStat st s) = tidTbl p s"
  "tblSize p (IncrementStat st s) = tblSize p s"
  "tsaInQ (IncrementStat st s) = tsaInQ s"
  "tsaRespQ (IncrementStat st s) = tsaRespQ s"
  "appInQ (IncrementStat st s) = appInQ s"
  "appCeRspInQ (IncrementStat st s) = appCeRspInQ s"
  "recvRec (IncrementStat st s) = recvRec s"
  "reqId (IncrementStat st s) = reqId s"
  "prevChallenge (IncrementStat st s) = prevChallenge s"
  "memFault (IncrementStat st s) = memFault s"
  "readOnlyData (IncrementStat st s) = readOnlyData s"
  "configNonGrpRcv (IncrementStat st s) = configNonGrpRcv s"
  "domainTable (IncrementStat st s) = domainTable s"
  "addrTable (IncrementStat st s) = addrTable s"
  "rxStat (IncrementStat st s) = rxStat s"
  "appInBufSize (IncrementStat st s) = appInBufSize s"
  "nwOutBufSize (IncrementStat st s) = nwOutBufSize s"
  "nwOutPriBufSize (IncrementStat st s) = nwOutPriBufSize s"
  "tsDelayTimer (IncrementStat st s) = tsDelayTimer s"
  "nwInQ (IncrementStat st s) = nwInQ s"
  "tsaInBufSize (IncrementStat st s) = tsaInBufSize s"
  by (auto simp: IncrementStat_def Let_def tsa_select_defs tcs_select_defs)

lemma LogRxStat_frame [simp]:
  "tsaQ p (LCS_LogRxStat s a ty) = tsaQ p s"
  "nwQ p (LCS_LogRxStat s a ty) = nwQ p s"
  "xmitRecOf p (LCS_LogRxStat s a ty) = xmitRecOf p s"
  "transRec p (LCS_LogRxStat s a ty) = transRec p s"
  "transID p (LCS_LogRxStat s a ty) = transID p s"
  "tidTbl p (LCS_LogRxStat s a ty) = tidTbl p s"
  "tblSize p (LCS_LogRxStat s a ty) = tblSize p s"
  "tsaInQ (LCS_LogRxStat s a ty) = tsaInQ s"
  "tsaRespQ (LCS_LogRxStat s a ty) = tsaRespQ s"
  "appInQ (LCS_LogRxStat s a ty) = appInQ s"
  "appCeRspInQ (LCS_LogRxStat s a ty) = appCeRspInQ s"
  "recvRec (LCS_LogRxStat s a ty) = recvRec s"
  "reqId (LCS_LogRxStat s a ty) = reqId s"
  "prevChallenge (LCS_LogRxStat s a ty) = prevChallenge s"
  "memFault (LCS_LogRxStat s a ty) = memFault s"
  "readOnlyData (LCS_LogRxStat s a ty) = readOnlyData s"
  "configNonGrpRcv (LCS_LogRxStat s a ty) = configNonGrpRcv s"
  "domainTable (LCS_LogRxStat s a ty) = domainTable s"
  "addrTable (LCS_LogRxStat s a ty) = addrTable s"
  "stats (LCS_LogRxStat s a ty) = stats s"
  "appInBufSize (LCS_LogRxStat s a ty) = appInBufSize s"
  "nwOutBufSize (LCS_LogRxStat s a ty) = nwOutBufSize s"
  "nwOutPriBufSize (LCS_LogRxStat s a ty) = nwOutPriBufSize s"
  "tsDelayTimer (LCS_LogRxStat s a ty) = tsDelayTimer s"
  "nwInQ (LCS_LogRxStat s a ty) = nwInQ s"
  "tsaInBufSize (LCS_LogRxStat s a ty) = tsaInBufSize s"
  by (auto simp: LCS_LogRxStat_def Let_def tsa_select_defs tcs_select_defs)

lemma TransDone_frame [simp]:
  "tsaQ p (TransDone pri s) = tsaQ p s"
  "nwQ p (TransDone pri s) = nwQ p s"
  "xmitRecOf p (TransDone pri s) = xmitRecOf p s"
  "tidTbl p (TransDone pri s) = tidTbl p s"
  "tblSize p (TransDone pri s) = tblSize p s"
  "tsaInQ (TransDone pri s) = tsaInQ s"
  "tsaRespQ (TransDone pri s) = tsaRespQ s"
  "appInQ (TransDone pri s) = appInQ s"
  "appCeRspInQ (TransDone pri s) = appCeRspInQ s"
  "recvRec (TransDone pri s) = recvRec s"
  "reqId (TransDone pri s) = reqId s"
  "prevChallenge (TransDone pri s) = prevChallenge s"
  "memFault (TransDone pri s) = memFault s"
  "readOnlyData (TransDone pri s) = readOnlyData s"
  "configNonGrpRcv (TransDone pri s) = configNonGrpRcv s"
  "domainTable (TransDone pri s) = domainTable s"
  "addrTable (TransDone pri s) = addrTable s"
  "stats (TransDone pri s) = stats s"
  "rxStat (TransDone pri s) = rxStat s"
  "appInBufSize (TransDone pri s) = appInBufSize s"
  "nwOutBufSize (TransDone pri s) = nwOutBufSize s"
  "nwOutPriBufSize (TransDone pri s) = nwOutPriBufSize s"
  "tsDelayTimer (TransDone pri s) = tsDelayTimer s"
  "nwInQ (TransDone pri s) = nwInQ s"
  "tsaInBufSize (TransDone pri s) = tsaInBufSize s"
  "tcInProgress (transRec p (TransDone pri s)) \<longleftrightarrow> p \<noteq> pri \<and> tcInProgress (transRec p s)"
  "tcTransNum (transRec p (TransDone pri s)) = tcTransNum (transRec p s)"
  by (auto simp: TransDone_def Let_def tsa_select_defs tcs_select_defs)

lemma OverrideTrans_frame [simp]:
  "tsaQ p (OverrideTrans pri n s) = tsaQ p s"
  "nwQ p (OverrideTrans pri n s) = nwQ p s"
  "xmitRecOf p (OverrideTrans pri n s) = xmitRecOf p s"
  "tidTbl p (OverrideTrans pri n s) = tidTbl p s"
  "tblSize p (OverrideTrans pri n s) = tblSize p s"
  "tsaInQ (OverrideTrans pri n s) = tsaInQ s"
  "tsaRespQ (OverrideTrans pri n s) = tsaRespQ s"
  "appInQ (OverrideTrans pri n s) = appInQ s"
  "appCeRspInQ (OverrideTrans pri n s) = appCeRspInQ s"
  "recvRec (OverrideTrans pri n s) = recvRec s"
  "reqId (OverrideTrans pri n s) = reqId s"
  "prevChallenge (OverrideTrans pri n s) = prevChallenge s"
  "memFault (OverrideTrans pri n s) = memFault s"
  "readOnlyData (OverrideTrans pri n s) = readOnlyData s"
  "configNonGrpRcv (OverrideTrans pri n s) = configNonGrpRcv s"
  "domainTable (OverrideTrans pri n s) = domainTable s"
  "addrTable (OverrideTrans pri n s) = addrTable s"
  "stats (OverrideTrans pri n s) = stats s"
  "rxStat (OverrideTrans pri n s) = rxStat s"
  "appInBufSize (OverrideTrans pri n s) = appInBufSize s"
  "nwOutBufSize (OverrideTrans pri n s) = nwOutBufSize s"
  "nwOutPriBufSize (OverrideTrans pri n s) = nwOutPriBufSize s"
  "tsDelayTimer (OverrideTrans pri n s) = tsDelayTimer s"
  "nwInQ (OverrideTrans pri n s) = nwInQ s"
  "tsaInBufSize (OverrideTrans pri n s) = tsaInBufSize s"
  by (auto simp: OverrideTrans_def Let_def tsa_select_defs tcs_select_defs)

lemma appCe_frame [simp]:
  "tsaQ p (s\<lparr>appCeRspInQ := q\<rparr>) = tsaQ p s"
  "nwQ p (s\<lparr>appCeRspInQ := q\<rparr>) = nwQ p s"
  "xmitRecOf p (s\<lparr>appCeRspInQ := q\<rparr>) = xmitRecOf p s"
  "transRec p (s\<lparr>appCeRspInQ := q\<rparr>) = transRec p s"
  "transID p (s\<lparr>appCeRspInQ := q\<rparr>) = transID p s"
  "tidTbl p (s\<lparr>appCeRspInQ := q\<rparr>) = tidTbl p s"
  "tblSize p (s\<lparr>appCeRspInQ := q\<rparr>) = tblSize p s"
  "tsaInQ (s\<lparr>appCeRspInQ := q\<rparr>) = tsaInQ s"
  "tsaRespQ (s\<lparr>appCeRspInQ := q\<rparr>) = tsaRespQ s"
  "appInQ (s\<lparr>appCeRspInQ := q\<rparr>) = appInQ s"
  "recvRec (s\<lparr>appCeRspInQ := q\<rparr>) = recvRec s"
  "reqId (s\<lparr>appCeRspInQ := q\<rparr>) = reqId s"
  "prevChallenge (s\<lparr>appCeRspInQ := q\<rparr>) = prevChallenge s"
  "memFault (s\<lparr>appCeRspInQ := q\<rparr>) = memFault s"
  "readOnlyData (s\<lparr>appCeRspInQ := q\<rparr>) = readOnlyData s"
  "configNonGrpRcv (s\<lparr>appCeRspInQ := q\<rparr>) = configNonGrpRcv s"
  "domainTable (s\<lparr>appCeRspInQ := q\<rparr>) = domainTable s"
  "addrTable (s\<lparr>appCeRspInQ := q\<rparr>) = addrTable s"
  "stats (s\<lparr>appCeRspInQ := q\<rparr>) = stats s"
  "rxStat (s\<lparr>appCeRspInQ := q\<rparr>) = rxStat s"
  "appInBufSize (s\<lparr>appCeRspInQ := q\<rparr>) = appInBufSize s"
  "nwOutBufSize (s\<lparr>appCeRspInQ := q\<rparr>) = nwOutBufSize s"
  "nwOutPriBufSize (s\<lparr>appCeRspInQ := q\<rparr>) = nwOutPriBufSize s"
  "tsDelayTimer (s\<lparr>appCeRspInQ := q\<rparr>) = tsDelayTimer s"
  "nwInQ (s\<lparr>appCeRspInQ := q\<rparr>) = nwInQ s"
  "tsaInBufSize (s\<lparr>appCeRspInQ := q\<rparr>) = tsaInBufSize s"
  by (auto simp: tsa_select_defs tcs_select_defs)

lemma appIn_frame [simp]:
  "tsaQ p (s\<lparr>appInQ := q\<rparr>) = tsaQ p s"
  "nwQ p (s\<lparr>appInQ := q\<rparr>) = nwQ p s"
  "xmitRecOf p (s\<lparr>appInQ := q\<rparr>) = xmitRecOf p s"
  "transRec p (s\<lparr>appInQ := q\<rparr>) = transRec p s"
  "transID p (s\<lparr>appInQ := q\<rparr>) = transID p s"
  "tidTbl p (s\<lparr>appInQ := q\<rparr>) = tidTbl p s"
  "tblSize p (s\<lparr>appInQ := q\<rparr>) = tblSize p s"
  "tsaInQ (s\<lparr>appInQ := q\<rparr>) = tsaInQ s"
  "tsaRespQ (s\<lparr>appInQ := q\<rparr>) = tsaRespQ s"
  "appCeRspInQ (s\<lparr>appInQ := q\<rparr>) = appCeRspInQ s"
  "recvRec (s\<lparr>appInQ := q\<rparr>) = recvRec s"
  "reqId (s\<lparr>appInQ := q\<rparr>) = reqId s"
  "prevChallenge (s\<lparr>appInQ := q\<rparr>) = prevChallenge s"
  "memFault (s\<lparr>appInQ := q\<rparr>) = memFault s"
  "readOnlyData (s\<lparr>appInQ := q\<rparr>) = readOnlyData s"
  "configNonGrpRcv (s\<lparr>appInQ := q\<rparr>) = configNonGrpRcv s"
  "domainTable (s\<lparr>appInQ := q\<rparr>) = domainTable s"
  "addrTable (s\<lparr>appInQ := q\<rparr>) = addrTable s"
  "stats (s\<lparr>appInQ := q\<rparr>) = stats s"
  "rxStat (s\<lparr>appInQ := q\<rparr>) = rxStat s"
  "appInBufSize (s\<lparr>appInQ := q\<rparr>) = appInBufSize s"
  "nwOutBufSize (s\<lparr>appInQ := q\<rparr>) = nwOutBufSize s"
  "nwOutPriBufSize (s\<lparr>appInQ := q\<rparr>) = nwOutPriBufSize s"
  "tsDelayTimer (s\<lparr>appInQ := q\<rparr>) = tsDelayTimer s"
  "nwInQ (s\<lparr>appInQ := q\<rparr>) = nwInQ s"
  "tsaInBufSize (s\<lparr>appInQ := q\<rparr>) = tsaInBufSize s"
  by (auto simp: tsa_select_defs tcs_select_defs)

lemma tsaResp_frame [simp]:
  "tsaQ p (s\<lparr>tsaRespQ := q\<rparr>) = tsaQ p s"
  "nwQ p (s\<lparr>tsaRespQ := q\<rparr>) = nwQ p s"
  "xmitRecOf p (s\<lparr>tsaRespQ := q\<rparr>) = xmitRecOf p s"
  "transRec p (s\<lparr>tsaRespQ := q\<rparr>) = transRec p s"
  "transID p (s\<lparr>tsaRespQ := q\<rparr>) = transID p s"
  "tidTbl p (s\<lparr>tsaRespQ := q\<rparr>) = tidTbl p s"
  "tblSize p (s\<lparr>tsaRespQ := q\<rparr>) = tblSize p s"
  "tsaInQ (s\<lparr>tsaRespQ := q\<rparr>) = tsaInQ s"
  "appInQ (s\<lparr>tsaRespQ := q\<rparr>) = appInQ s"
  "appCeRspInQ (s\<lparr>tsaRespQ := q\<rparr>) = appCeRspInQ s"
  "recvRec (s\<lparr>tsaRespQ := q\<rparr>) = recvRec s"
  "reqId (s\<lparr>tsaRespQ := q\<rparr>) = reqId s"
  "prevChallenge (s\<lparr>tsaRespQ := q\<rparr>) = prevChallenge s"
  "memFault (s\<lparr>tsaRespQ := q\<rparr>) = memFault s"
  "readOnlyData (s\<lparr>tsaRespQ := q\<rparr>) = readOnlyData s"
  "configNonGrpRcv (s\<lparr>tsaRespQ := q\<rparr>) = configNonGrpRcv s"
  "domainTable (s\<lparr>tsaRespQ := q\<rparr>) = domainTable s"
  "addrTable (s\<lparr>tsaRespQ := q\<rparr>) = addrTable s"
  "stats (s\<lparr>tsaRespQ := q\<rparr>) = stats s"
  "rxStat (s\<lparr>tsaRespQ := q\<rparr>) = rxStat s"
  "appInBufSize (s\<lparr>tsaRespQ := q\<rparr>) = appInBufSize s"
  "nwOutBufSize (s\<lparr>tsaRespQ := q\<rparr>) = nwOutBufSize s"
  "nwOutPriBufSize (s\<lparr>tsaRespQ := q\<rparr>) = nwOutPriBufSize s"
  "tsDelayTimer (s\<lparr>tsaRespQ := q\<rparr>) = tsDelayTimer s"
  "nwInQ (s\<lparr>tsaRespQ := q\<rparr>) = nwInQ s"
  "tsaInBufSize (s\<lparr>tsaRespQ := q\<rparr>) = tsaInBufSize s"
  by (auto simp: tsa_select_defs tcs_select_defs)

lemma reqId_frame [simp]:
  "tsaQ p (s\<lparr>reqId := q\<rparr>) = tsaQ p s"
  "nwQ p (s\<lparr>reqId := q\<rparr>) = nwQ p s"
  "xmitRecOf p (s\<lparr>reqId := q\<rparr>) = xmitRecOf p s"
  "transRec p (s\<lparr>reqId := q\<rparr>) = transRec p s"
  "transID p (s\<lparr>reqId := q\<rparr>) = transID p s"
  "tidTbl p (s\<lparr>reqId := q\<rparr>) = tidTbl p s"
  "tblSize p (s\<lparr>reqId := q\<rparr>) = tblSize p s"
  "tsaInQ (s\<lparr>reqId := q\<rparr>) = tsaInQ s"
  "tsaRespQ (s\<lparr>reqId := q\<rparr>) = tsaRespQ s"
  "appInQ (s\<lparr>reqId := q\<rparr>) = appInQ s"
  "appCeRspInQ (s\<lparr>reqId := q\<rparr>) = appCeRspInQ s"
  "recvRec (s\<lparr>reqId := q\<rparr>) = recvRec s"
  "prevChallenge (s\<lparr>reqId := q\<rparr>) = prevChallenge s"
  "memFault (s\<lparr>reqId := q\<rparr>) = memFault s"
  "readOnlyData (s\<lparr>reqId := q\<rparr>) = readOnlyData s"
  "configNonGrpRcv (s\<lparr>reqId := q\<rparr>) = configNonGrpRcv s"
  "domainTable (s\<lparr>reqId := q\<rparr>) = domainTable s"
  "addrTable (s\<lparr>reqId := q\<rparr>) = addrTable s"
  "stats (s\<lparr>reqId := q\<rparr>) = stats s"
  "rxStat (s\<lparr>reqId := q\<rparr>) = rxStat s"
  "appInBufSize (s\<lparr>reqId := q\<rparr>) = appInBufSize s"
  "nwOutBufSize (s\<lparr>reqId := q\<rparr>) = nwOutBufSize s"
  "nwOutPriBufSize (s\<lparr>reqId := q\<rparr>) = nwOutPriBufSize s"
  "tsDelayTimer (s\<lparr>reqId := q\<rparr>) = tsDelayTimer s"
  "nwInQ (s\<lparr>reqId := q\<rparr>) = nwInQ s"
  "tsaInBufSize (s\<lparr>reqId := q\<rparr>) = tsaInBufSize s"
  by (auto simp: tsa_select_defs tcs_select_defs)

lemma memFault_frame [simp]:
  "tsaQ p (s\<lparr>memFault := q\<rparr>) = tsaQ p s"
  "nwQ p (s\<lparr>memFault := q\<rparr>) = nwQ p s"
  "xmitRecOf p (s\<lparr>memFault := q\<rparr>) = xmitRecOf p s"
  "transRec p (s\<lparr>memFault := q\<rparr>) = transRec p s"
  "transID p (s\<lparr>memFault := q\<rparr>) = transID p s"
  "tidTbl p (s\<lparr>memFault := q\<rparr>) = tidTbl p s"
  "tblSize p (s\<lparr>memFault := q\<rparr>) = tblSize p s"
  "tsaInQ (s\<lparr>memFault := q\<rparr>) = tsaInQ s"
  "tsaRespQ (s\<lparr>memFault := q\<rparr>) = tsaRespQ s"
  "appInQ (s\<lparr>memFault := q\<rparr>) = appInQ s"
  "appCeRspInQ (s\<lparr>memFault := q\<rparr>) = appCeRspInQ s"
  "recvRec (s\<lparr>memFault := q\<rparr>) = recvRec s"
  "reqId (s\<lparr>memFault := q\<rparr>) = reqId s"
  "prevChallenge (s\<lparr>memFault := q\<rparr>) = prevChallenge s"
  "readOnlyData (s\<lparr>memFault := q\<rparr>) = readOnlyData s"
  "configNonGrpRcv (s\<lparr>memFault := q\<rparr>) = configNonGrpRcv s"
  "domainTable (s\<lparr>memFault := q\<rparr>) = domainTable s"
  "addrTable (s\<lparr>memFault := q\<rparr>) = addrTable s"
  "stats (s\<lparr>memFault := q\<rparr>) = stats s"
  "rxStat (s\<lparr>memFault := q\<rparr>) = rxStat s"
  "appInBufSize (s\<lparr>memFault := q\<rparr>) = appInBufSize s"
  "nwOutBufSize (s\<lparr>memFault := q\<rparr>) = nwOutBufSize s"
  "nwOutPriBufSize (s\<lparr>memFault := q\<rparr>) = nwOutPriBufSize s"
  "tsDelayTimer (s\<lparr>memFault := q\<rparr>) = tsDelayTimer s"
  "nwInQ (s\<lparr>memFault := q\<rparr>) = nwInQ s"
  "tsaInBufSize (s\<lparr>memFault := q\<rparr>) = tsaInBufSize s"
  by (auto simp: tsa_select_defs tcs_select_defs)

lemma prevChallenge_frame [simp]:
  "tsaQ p (s\<lparr>prevChallenge := q\<rparr>) = tsaQ p s"
  "nwQ p (s\<lparr>prevChallenge := q\<rparr>) = nwQ p s"
  "xmitRecOf p (s\<lparr>prevChallenge := q\<rparr>) = xmitRecOf p s"
  "transRec p (s\<lparr>prevChallenge := q\<rparr>) = transRec p s"
  "transID p (s\<lparr>prevChallenge := q\<rparr>) = transID p s"
  "tidTbl p (s\<lparr>prevChallenge := q\<rparr>) = tidTbl p s"
  "tblSize p (s\<lparr>prevChallenge := q\<rparr>) = tblSize p s"
  "tsaInQ (s\<lparr>prevChallenge := q\<rparr>) = tsaInQ s"
  "tsaRespQ (s\<lparr>prevChallenge := q\<rparr>) = tsaRespQ s"
  "appInQ (s\<lparr>prevChallenge := q\<rparr>) = appInQ s"
  "appCeRspInQ (s\<lparr>prevChallenge := q\<rparr>) = appCeRspInQ s"
  "recvRec (s\<lparr>prevChallenge := q\<rparr>) = recvRec s"
  "reqId (s\<lparr>prevChallenge := q\<rparr>) = reqId s"
  "memFault (s\<lparr>prevChallenge := q\<rparr>) = memFault s"
  "readOnlyData (s\<lparr>prevChallenge := q\<rparr>) = readOnlyData s"
  "configNonGrpRcv (s\<lparr>prevChallenge := q\<rparr>) = configNonGrpRcv s"
  "domainTable (s\<lparr>prevChallenge := q\<rparr>) = domainTable s"
  "addrTable (s\<lparr>prevChallenge := q\<rparr>) = addrTable s"
  "stats (s\<lparr>prevChallenge := q\<rparr>) = stats s"
  "rxStat (s\<lparr>prevChallenge := q\<rparr>) = rxStat s"
  "appInBufSize (s\<lparr>prevChallenge := q\<rparr>) = appInBufSize s"
  "nwOutBufSize (s\<lparr>prevChallenge := q\<rparr>) = nwOutBufSize s"
  "nwOutPriBufSize (s\<lparr>prevChallenge := q\<rparr>) = nwOutPriBufSize s"
  "tsDelayTimer (s\<lparr>prevChallenge := q\<rparr>) = tsDelayTimer s"
  "nwInQ (s\<lparr>prevChallenge := q\<rparr>) = nwInQ s"
  "tsaInBufSize (s\<lparr>prevChallenge := q\<rparr>) = tsaInBufSize s"
  by (auto simp: tsa_select_defs tcs_select_defs)

section \<open>Reset\<close>

text \<open>
  A failing step of a reset ends it: \<open>Inl\<close> is the value the function returns with the state
  it leaves, \<open>Inr\<close> the state with which it goes on. The memory that the allocator returns,
  or \<open>None\<close> when it fails, is an argument, and so are the sizes of the two C structures
  that precede the PDU in a queue entry.
\<close>

type_synonym reset_result = "(LonStatusCode \<times> stack) + stack"

definition and_then :: "'e + 'a \<Rightarrow> ('a \<Rightarrow> 'e + 'b) \<Rightarrow> 'e + 'b" where
  "and_then m f = (case m of Inl e \<Rightarrow> Inl e | Inr a \<Rightarrow> f a)"

definition reset_decode :: "LonStatusCode + nat \<Rightarrow> (nat \<Rightarrow> stack) \<Rightarrow> stack \<Rightarrow> reset_result" where
  "reset_decode d f s =
     (case d of Inl e \<Rightarrow> Inl (e, s\<lparr>resetOk := False\<rparr>) | Inr n \<Rightarrow> Inr (f n))"

definition reset_queue :: "LonStatusCode \<times> 'a Queue \<Rightarrow> ('a Queue \<Rightarrow> stack) \<Rightarrow> reset_result" where
  "reset_queue r store =
     (if fst r = LonStatusNoError then Inr (store (snd r))
      else Inl (fst r, (store (snd r))\<lparr>resetOk := False\<rparr>))"

record tsa_memory =
  memTsaIn :: "TSAReceiveParam list option"
  memTsaOut :: "TSASendParam list option"
  memTsaOutPri :: "TSASendParam list option"
  memTsaResp :: "TSASendParam list option"
  memRecvRec :: "ReceiveRecord list option"
  memBuffers :: "(bytes \<times> bytes) option list"

definition LCS_BUF_SIZE :: u8 where "LCS_BUF_SIZE = 12"
definition TSA_IN_BUF_SIZE :: u8 where "TSA_IN_BUF_SIZE = 0"
definition TSA_OUT_BUF_SIZE :: u8 where "TSA_OUT_BUF_SIZE = 0"
definition TSA_RESP_BUF_SIZE :: u8 where "TSA_RESP_BUF_SIZE = 0"
definition RECEIVE_TRANS_COUNT :: nat where "RECEIVE_TRANS_COUNT = 16"

definition tsa_reset_in :: "nat \<Rightarrow> tsa_memory \<Rightarrow> stack \<Rightarrow> reset_result" where
  "tsa_reset_in sizeofIn mem s =
     and_then (reset_decode (DecodeBufferSize TSA_IN_BUF_SIZE)
                 (\<lambda>n. s\<lparr>tsaInBufSize := max (n + 4) 10\<rparr>) s) (\<lambda>s.
     and_then (reset_decode (DecodeBufferCnt (IZOT_READONLY_INBUF_CNT (readOnlyData s)))
                 (\<lambda>n. s\<lparr>tsaInQCnt := n\<rparr>) s) (\<lambda>s.
     reset_queue (QueueInit (tsaInQ s) (Some ''transaction services input'')
                    (tsaInBufSize s + sizeofIn) (tsaInQCnt s) (memTsaIn mem))
       (\<lambda>q. s\<lparr>tsaInQ := q\<rparr>)))"

definition tsa_reset_out :: "nat \<Rightarrow> tsa_memory \<Rightarrow> stack \<Rightarrow> reset_result" where
  "tsa_reset_out sizeofOut mem s =
     and_then (reset_decode (DecodeBufferSize TSA_OUT_BUF_SIZE)
                 (\<lambda>n. s\<lparr>tsaOutBufSize := max (n + 4) 10\<rparr>) s) (\<lambda>s.
     and_then (reset_decode (DecodeBufferCnt (IZOT_READONLY_OUTBUF_CNT (readOnlyData s)))
                 (\<lambda>n. s\<lparr>tsaOutQCnt := n\<rparr>) s) (\<lambda>s.
     reset_queue (QueueInit (tsaOutQ s) (Some ''transaction services output'')
                    (tsaOutBufSize s + sizeofOut) (tsaOutQCnt s) (memTsaOut mem))
       (\<lambda>q. s\<lparr>tsaOutQ := q\<rparr>)))"

definition tsa_reset_out_pri :: "nat \<Rightarrow> tsa_memory \<Rightarrow> stack \<Rightarrow> reset_result" where
  "tsa_reset_out_pri sizeofOut mem s =
     (let s = s\<lparr>tsaOutPriBufSize := tsaOutBufSize s\<rparr>
      in and_then (reset_decode (DecodeBufferCnt (IZOT_READONLY_OUT_PRICNT (readOnlyData s)))
                     (\<lambda>n. s\<lparr>tsaOutPriQCnt := n\<rparr>) s) (\<lambda>s.
         reset_queue (QueueInit (tsaOutPriQ s) (Some ''transaction services priority output'')
                        (tsaOutPriBufSize s + sizeofOut) (tsaOutPriQCnt s) (memTsaOutPri mem))
           (\<lambda>q. s\<lparr>tsaOutPriQ := q\<rparr>)))"

definition tsa_reset_resp :: "nat \<Rightarrow> tsa_memory \<Rightarrow> stack \<Rightarrow> reset_result" where
  "tsa_reset_resp sizeofOut mem s =
     and_then (reset_decode (DecodeBufferSize TSA_RESP_BUF_SIZE)
                 (\<lambda>n. s\<lparr>tsaRespBufSize := n\<rparr>) s) (\<lambda>s.
     let s = s\<lparr>tsaRespQCnt := tsaOutQCnt s\<rparr>
     in reset_queue (QueueInit (tsaRespQ s) (Some ''transaction services response'')
                       (tsaRespBufSize s + sizeofOut) (tsaRespQCnt s) (memTsaResp mem))
          (\<lambda>q. s\<lparr>tsaRespQ := q\<rparr>))"

text \<open>
  The loop over the receive records. A failed allocation returns the status as it is, which
  is \<open>LonStatusNoError\<close> by then.
\<close>

fun tsa_reset_rr_loop :: "(bytes \<times> bytes) option list \<Rightarrow> nat \<Rightarrow> stack \<Rightarrow> reset_result" where
  "tsa_reset_rr_loop [] i s = Inr s"
| "tsa_reset_rr_loop (m # ms) i s =
     and_then (reset_decode (DecodeBufferSize LCS_BUF_SIZE) (\<lambda>_. s) s) (\<lambda>s.
     and_then (reset_decode (DecodeBufferSize LCS_BUF_SIZE) (\<lambda>_. s) s) (\<lambda>s.
     case m of
       None \<Rightarrow> Inl (LonStatusNoError, s\<lparr>resetOk := False\<rparr>)
     | Some (response, apdu) \<Rightarrow>
         tsa_reset_rr_loop ms (i + 1)
           (update_rr i (\<lambda>r. r\<lparr>rrResponse := response, rrApdu := apdu, rrStatus := UNUSED_RR\<rparr>) s)))"

definition tsa_reset_records :: "tsa_memory \<Rightarrow> stack \<Rightarrow> reset_result" where
  "tsa_reset_records mem s =
     (let s = update_xmitRec False (\<lambda>x. x\<lparr>txStatus := UNUSED_TX\<rparr>)
                (update_xmitRec True (\<lambda>x. x\<lparr>txStatus := UNUSED_TX\<rparr>) s)
      in case memRecvRec mem of
           None \<Rightarrow> Inl (LonStatusNoError, s\<lparr>resetOk := False\<rparr>)
         | Some rrs \<Rightarrow>
             tsa_reset_rr_loop (take RECEIVE_TRANS_COUNT (memBuffers mem)) 0 (s\<lparr>recvRec := rrs\<rparr>))"

definition TransactionServicesSublayerReset ::
    "nat \<Rightarrow> nat \<Rightarrow> tsa_memory \<Rightarrow> stack \<Rightarrow> LonStatusCode \<times> stack" where
  "TransactionServicesSublayerReset sizeofIn sizeofOut mem s =
     (case and_then (tsa_reset_in sizeofIn mem s) (\<lambda>s.
           and_then (tsa_reset_out sizeofOut mem s) (\<lambda>s.
           and_then (tsa_reset_out_pri sizeofOut mem s) (\<lambda>s.
           and_then (tsa_reset_resp sizeofOut mem s)
             (tsa_reset_records mem)))) of
        Inl r \<Rightarrow> r
      | Inr s \<Rightarrow> (LonStatusNoError, s\<lparr>reqId := 0\<rparr>))"

lemma and_then_simps [simp]:
  "and_then (Inl e) f = Inl e" "and_then (Inr a) f = f a"
  by (simp_all add: and_then_def)

lemma and_then_if_Inr [simp]: "and_then (if P then Inr a else Inl e) f = (if P then f a else Inl e)"
  by simp

lemma reset_decode_Inr [simp]: "reset_decode (Inr n) f s = Inr (f n)"
  by (simp add: reset_decode_def)

lemma reset_queue_ok [simp]: "reset_queue (LonStatusNoError, q) f = Inr (f q)"
  by (simp add: reset_queue_def)

lemma decode_size_constants [simp]:
  "DecodeBufferSize TSA_IN_BUF_SIZE = Inr 255" "DecodeBufferSize TSA_OUT_BUF_SIZE = Inr 255"
  "DecodeBufferSize TSA_RESP_BUF_SIZE = Inr 255" "DecodeBufferSize LCS_BUF_SIZE = Inr 82"
  by (simp_all add: DecodeBufferSize_def bufSizeCodeLGbl_def TSA_IN_BUF_SIZE_def
      TSA_OUT_BUF_SIZE_def TSA_RESP_BUF_SIZE_def LCS_BUF_SIZE_def)

definition newQueue :: "string option \<Rightarrow> nat \<Rightarrow> nat \<Rightarrow> 'a list \<Rightarrow> 'a Queue" where
  "newQueue name esz cap d = snd (QueueInit undefined name esz cap (Some d))"

lemma QueueInit_Some: "QueueInit q name esz cap (Some d) = (LonStatusNoError, newQueue name esz cap d)"
  by (simp add: newQueue_def QueueInit_def)

lemma newQueue_wf:
  "0 < cap \<Longrightarrow> cap < 2 ^ 16 \<Longrightarrow> length d = cap \<Longrightarrow> 0 < esz \<Longrightarrow> esz < 2 ^ 16 \<Longrightarrow>
     queue_wf (newQueue name esz cap d)"
  by (simp add: newQueue_def QueueInit_def queue_wf_def)

lemma newQueue_empty [simp]: "queue_list (newQueue name esz cap d) = []"
  by (simp add: newQueue_def QueueInit_def queue_list_def)

lemma reset_rr_loop_ok:
  assumes "None \<notin> set ms" and "i + length ms \<le> length (recvRec s)"
  shows "\<exists>s'. tsa_reset_rr_loop ms i s = Inr s' \<and> (\<forall>j. i \<le> j \<and> j < i + length ms \<longrightarrow>
           rrStatus (recvRec s' ! j) = UNUSED_RR) \<and>
         (\<forall>j. j < i \<longrightarrow> recvRec s' ! j = recvRec s ! j) \<and>
         s' = s\<lparr>recvRec := recvRec s'\<rparr> \<and> length (recvRec s') = length (recvRec s)"
  using assms
proof (induction ms arbitrary: i s)
  case Nil
  then show ?case by auto
next
  case (Cons m ms)
  then obtain resp ap where m: "m = Some (resp, ap)" by (cases m) auto
  let ?s = "update_rr i (\<lambda>r. r\<lparr>rrResponse := resp, rrApdu := ap, rrStatus := UNUSED_RR\<rparr>) s"
  have len: "length (recvRec ?s) = length (recvRec s)" by simp
  have IH: "\<exists>s'. tsa_reset_rr_loop ms (Suc i) ?s = Inr s' \<and>
      (\<forall>j. Suc i \<le> j \<and> j < Suc i + length ms \<longrightarrow> rrStatus (recvRec s' ! j) = UNUSED_RR) \<and>
      (\<forall>j. j < Suc i \<longrightarrow> recvRec s' ! j = recvRec ?s ! j) \<and>
      s' = ?s\<lparr>recvRec := recvRec s'\<rparr> \<and> length (recvRec s') = length (recvRec ?s)"
    using Cons.IH [of "Suc i" ?s] Cons.prems m len by auto
  then obtain s' where s': "tsa_reset_rr_loop ms (Suc i) ?s = Inr s'"
      "\<And>j. Suc i \<le> j \<Longrightarrow> j < Suc i + length ms \<Longrightarrow> rrStatus (recvRec s' ! j) = UNUSED_RR"
      "\<And>j. j < Suc i \<Longrightarrow> recvRec s' ! j = recvRec ?s ! j"
      "s' = ?s\<lparr>recvRec := recvRec s'\<rparr>" "length (recvRec s') = length (recvRec s)"
    using len by auto
  have "rrStatus (recvRec s' ! j) = UNUSED_RR" if "i \<le> j" "j < i + length (m # ms)" for j
    using that s'(2) [of j] s'(3) [of i] Cons.prems(2) by (cases "j = i") auto
  moreover have "recvRec s' ! j = recvRec s ! j" if "j < i" for j
    using that s'(3) [of j] by simp
  moreover have "s' = s\<lparr>recvRec := recvRec s'\<rparr>"
    by (subst s'(4)) (simp add: update_rr_def)
  ultimately show ?case using m s'(1,5) by simp
qed

text \<open>What a reset needs to succeed: counts that decode to at least one, and the memory for them.\<close>

definition tsa_memory_fits :: "nat \<Rightarrow> nat \<Rightarrow> tsa_memory \<Rightarrow> stack \<Rightarrow> bool" where
  "tsa_memory_fits sizeofIn sizeofOut mem s \<longleftrightarrow>
     sizeofIn < 60000 \<and> sizeofOut < 60000 \<and>
     (case (DecodeBufferCnt (IZOT_READONLY_INBUF_CNT (readOnlyData s)),
            DecodeBufferCnt (IZOT_READONLY_OUTBUF_CNT (readOnlyData s)),
            DecodeBufferCnt (IZOT_READONLY_OUT_PRICNT (readOnlyData s))) of
        (Inr nIn, Inr nOut, Inr nPri) \<Rightarrow>
          0 < nIn \<and> 0 < nOut \<and> 0 < nPri \<and>
          map_option length (memTsaIn mem) = Some nIn \<and>
          map_option length (memTsaOut mem) = Some nOut \<and>
          map_option length (memTsaOutPri mem) = Some nPri \<and>
          map_option length (memTsaResp mem) = Some nOut
      | _ \<Rightarrow> False)"

definition tsa_fresh :: "stack \<Rightarrow> bool" where
  "tsa_fresh s \<longleftrightarrow>
     queue_wf (tsaInQ s) \<and> queue_wf (tsaOutQ s) \<and> queue_wf (tsaOutPriQ s) \<and> queue_wf (tsaRespQ s) \<and>
     queue_list (tsaInQ s) = [] \<and> queue_list (tsaOutQ s) = [] \<and> queue_list (tsaOutPriQ s) = [] \<and>
     queue_list (tsaRespQ s) = [] \<and>
     txStatus (xmitRec s) = UNUSED_TX \<and> txStatus (priXmitRec s) = UNUSED_TX"

lemma DecodeBufferCnt_bound: "DecodeBufferCnt c = Inr n \<Longrightarrow> n < 2 ^ 16"
proof -
  assume "DecodeBufferCnt c = Inr n"
  then have c: "c \<le> 15" "n = bufCntCodeLGbl ! unat c"
    by (auto simp: DecodeBufferCnt_def split: if_splits)
  then have "unat c < length bufCntCodeLGbl"
    by (simp add: word_le_nat_alt bufCntCodeLGbl_def)
  then have "n \<in> set bufCntCodeLGbl" using c by simp
  then show ?thesis by (auto simp: bufCntCodeLGbl_def)
qed

lemma tsa_reset_queues:
  assumes "tsa_memory_fits sizeofIn sizeofOut mem s"
  obtains s' where
    "\<And>f :: stack \<Rightarrow> reset_result. and_then (tsa_reset_in sizeofIn mem s) (\<lambda>s. and_then (tsa_reset_out sizeofOut mem s)
       (\<lambda>s. and_then (tsa_reset_out_pri sizeofOut mem s)
       (\<lambda>s. and_then (tsa_reset_resp sizeofOut mem s) f))) = f s'"
    "queue_wf (tsaInQ s')" "queue_wf (tsaOutQ s')" "queue_wf (tsaOutPriQ s')" "queue_wf (tsaRespQ s')"
    "queue_list (tsaInQ s') = []" "queue_list (tsaOutQ s') = []" "queue_list (tsaOutPriQ s') = []"
    "queue_list (tsaRespQ s') = []" "resetOk s' = resetOk s"
proof -
  obtain nIn nOut nPri where cnt:
      "DecodeBufferCnt (IZOT_READONLY_INBUF_CNT (readOnlyData s)) = Inr nIn"
      "DecodeBufferCnt (IZOT_READONLY_OUTBUF_CNT (readOnlyData s)) = Inr nOut"
      "DecodeBufferCnt (IZOT_READONLY_OUT_PRICNT (readOnlyData s)) = Inr nPri"
    and pos: "0 < nIn" "0 < nOut" "0 < nPri" and sz: "sizeofIn < 60000" "sizeofOut < 60000"
    and len: "map_option length (memTsaIn mem) = Some nIn"
      "map_option length (memTsaOut mem) = Some nOut"
      "map_option length (memTsaOutPri mem) = Some nPri"
      "map_option length (memTsaResp mem) = Some nOut"
    using assms by (auto simp: tsa_memory_fits_def split: sum.splits)
  obtain d1 d2 d3 d4 where d: "memTsaIn mem = Some d1" "memTsaOut mem = Some d2"
      "memTsaOutPri mem = Some d3" "memTsaResp mem = Some d4"
      and dl: "length d1 = nIn" "length d2 = nOut" "length d3 = nPri" "length d4 = nOut"
    using len by auto
  note b = cnt(1,2,3) [THEN DecodeBufferCnt_bound]
  define s' where "s' = s\<lparr>tsaInBufSize := 259, tsaInQCnt := nIn,
      tsaInQ := newQueue (Some ''transaction services input'') (259 + sizeofIn) nIn d1,
      tsaOutBufSize := 259, tsaOutQCnt := nOut,
      tsaOutQ := newQueue (Some ''transaction services output'') (259 + sizeofOut) nOut d2,
      tsaOutPriBufSize := 259, tsaOutPriQCnt := nPri,
      tsaOutPriQ := newQueue (Some ''transaction services priority output'') (259 + sizeofOut) nPri d3,
      tsaRespBufSize := 255, tsaRespQCnt := nOut,
      tsaRespQ := newQueue (Some ''transaction services response'') (255 + sizeofOut) nOut d4\<rparr>"
  have "and_then (tsa_reset_in sizeofIn mem s) (\<lambda>s. and_then (tsa_reset_out sizeofOut mem s)
       (\<lambda>s. and_then (tsa_reset_out_pri sizeofOut mem s)
       (\<lambda>s. and_then (tsa_reset_resp sizeofOut mem s) f))) = f s'" for f :: "stack \<Rightarrow> reset_result"
    by (simp add: tsa_reset_in_def tsa_reset_out_def tsa_reset_out_pri_def tsa_reset_resp_def
        Let_def cnt d QueueInit_Some s'_def)
  then show thesis
    by (rule that) (use pos sz b dl in \<open>simp_all add: s'_def newQueue_wf\<close>)
qed

lemma tsa_reset_records_ok:
  assumes "memRecvRec mem = Some rrs" "length rrs = RECEIVE_TRANS_COUNT"
    and "length (memBuffers mem) = RECEIVE_TRANS_COUNT" "None \<notin> set (memBuffers mem)"
  obtains s' where "tsa_reset_records mem s = Inr s'"
    "\<forall>r\<in>set (recvRec s'). rrStatus r = UNUSED_RR" "length (recvRec s') = RECEIVE_TRANS_COUNT"
    "txStatus (xmitRec s') = UNUSED_TX" "txStatus (priXmitRec s') = UNUSED_TX"
    "tsaInQ s' = tsaInQ s" "tsaOutQ s' = tsaOutQ s" "tsaOutPriQ s' = tsaOutPriQ s"
    "tsaRespQ s' = tsaRespQ s" "resetOk s' = resetOk s"
proof -
  let ?s = "(update_xmitRec False (\<lambda>x. x\<lparr>txStatus := UNUSED_TX\<rparr>)
                (update_xmitRec True (\<lambda>x. x\<lparr>txStatus := UNUSED_TX\<rparr>) s))\<lparr>recvRec := rrs\<rparr>"
  obtain s' where s': "tsa_reset_rr_loop (memBuffers mem) 0 ?s = Inr s'"
      "\<And>j. j < RECEIVE_TRANS_COUNT \<Longrightarrow> rrStatus (recvRec s' ! j) = UNUSED_RR"
      "s' = ?s\<lparr>recvRec := recvRec s'\<rparr>" "length (recvRec s') = RECEIVE_TRANS_COUNT"
    using reset_rr_loop_ok [OF assms(4), of 0 ?s] assms(2,3) by auto
  have r: "tsa_reset_records mem s = Inr s'"
    using s'(1) assms by (simp add: tsa_reset_records_def)
  have u: "\<forall>r\<in>set (recvRec s'). rrStatus r = UNUSED_RR"
    using s'(2,4) by (auto simp: in_set_conv_nth)
  obtain R where s3: "s' = ?s\<lparr>recvRec := R\<rparr>" using s'(3) by blast
  have f: "txStatus (xmitRec s') = UNUSED_TX" "txStatus (priXmitRec s') = UNUSED_TX"
    "tsaInQ s' = tsaInQ s" "tsaOutQ s' = tsaOutQ s" "tsaOutPriQ s' = tsaOutPriQ s"
    "tsaRespQ s' = tsaRespQ s" "resetOk s' = resetOk s"
    unfolding s3 by (simp_all add: update_xmitRec_def set_xmitRec_def)
  show thesis by (rule that [OF r u s'(4) f])
qed

text \<open>
  A reset of the transport and session layers: when the buffer counts decode to at
  least one and the memory is there, it reports success and leaves empty well-formed queues,
  no transaction in either transmit record, all sixteen receive records unused and the
  request counter at zero. When the receive records cannot be allocated it still returns
  \<open>LonStatusNoError\<close>; only \<open>resetOk\<close> tells.
\<close>

theorem tsa_reset_ready:
  assumes "tsa_memory_fits sizeofIn sizeofOut mem s" and "resetOk s"
    and "length (memBuffers mem) = RECEIVE_TRANS_COUNT" "None \<notin> set (memBuffers mem)"
  shows "(case TransactionServicesSublayerReset sizeofIn sizeofOut mem s of (st, s') \<Rightarrow>
     (memRecvRec mem = None \<longrightarrow> st = LonStatusNoError \<and> \<not> resetOk s') \<and>
     (\<forall>rrs. memRecvRec mem = Some rrs \<and> length rrs = RECEIVE_TRANS_COUNT \<longrightarrow>
        st = LonStatusNoError \<and> resetOk s' \<and> tsa_fresh s' \<and> reqId s' = 0 \<and>
        length (recvRec s') = RECEIVE_TRANS_COUNT \<and>
        (\<forall>r\<in>set (recvRec s'). rrStatus r = UNUSED_RR)))"
proof -
  obtain s1 where s1: "\<And>f :: stack \<Rightarrow> reset_result. and_then (tsa_reset_in sizeofIn mem s)
       (\<lambda>s. and_then (tsa_reset_out sizeofOut mem s)
       (\<lambda>s. and_then (tsa_reset_out_pri sizeofOut mem s)
       (\<lambda>s. and_then (tsa_reset_resp sizeofOut mem s) f))) = f s1"
    "queue_wf (tsaInQ s1)" "queue_wf (tsaOutQ s1)" "queue_wf (tsaOutPriQ s1)" "queue_wf (tsaRespQ s1)"
    "queue_list (tsaInQ s1) = []" "queue_list (tsaOutQ s1) = []" "queue_list (tsaOutPriQ s1) = []"
    "queue_list (tsaRespQ s1) = []" "resetOk s1 = resetOk s"
    by (rule tsa_reset_queues [OF assms(1)]) (rule that)
  show ?thesis
  proof (cases "memRecvRec mem")
    case None
    then show ?thesis
      by (simp add: TransactionServicesSublayerReset_def s1(1) tsa_reset_records_def)
  next
    case (Some rrs)
    show ?thesis
    proof (cases "length rrs = RECEIVE_TRANS_COUNT")
      case True
      then obtain s2 where s2: "tsa_reset_records mem s1 = Inr s2"
        "\<forall>r\<in>set (recvRec s2). rrStatus r = UNUSED_RR" "length (recvRec s2) = RECEIVE_TRANS_COUNT"
        "txStatus (xmitRec s2) = UNUSED_TX" "txStatus (priXmitRec s2) = UNUSED_TX"
        "tsaInQ s2 = tsaInQ s1" "tsaOutQ s2 = tsaOutQ s1" "tsaOutPriQ s2 = tsaOutPriQ s1"
        "tsaRespQ s2 = tsaRespQ s1" "resetOk s2 = resetOk s1"
        using tsa_reset_records_ok [OF Some _ assms(3,4)] by metis
      then show ?thesis
        using Some assms(2) s1
        by (simp add: TransactionServicesSublayerReset_def tsa_fresh_def)
    qed (use Some in \<open>simp add: TransactionServicesSublayerReset_def s1(1)\<close>)
  qed
qed

definition sampleMemory :: "ReceiveRecord list option \<Rightarrow> tsa_memory" where
  "sampleMemory rrs =
     \<lparr>memTsaIn = Some (replicate 2 sampleTsr), memTsaOut = Some (replicate 2 sampleTss),
      memTsaOutPri = Some [sampleTss], memTsaResp = Some (replicate 2 sampleTss),
      memRecvRec = rrs, memBuffers = replicate 16 (Some (replicate 82 0, replicate 82 0))\<rparr>"

theorem tsa_reset_ready_witness:
  "tsa_fresh (snd (TransactionServicesSublayerReset 60 80 (sampleMemory (Some (replicate 16 sampleRr)))
     sampleStack)) \<and>
   TransactionServicesSublayerReset 60 80 (sampleMemory None) sampleStack =
     (LonStatusNoError, snd (TransactionServicesSublayerReset 60 80 (sampleMemory None) sampleStack)) \<and>
   \<not> resetOk (snd (TransactionServicesSublayerReset 60 80 (sampleMemory None) sampleStack))"
proof -
  have fits: "tsa_memory_fits 60 80 (sampleMemory rrs) sampleStack" for rrs
    by (simp add: tsa_memory_fits_def DecodeBufferCnt_def bufCntCodeLGbl_def get_attribute_def
        sampleMemory_def)
  show ?thesis
    using tsa_reset_ready [OF fits, of None] tsa_reset_ready [OF fits, of "Some (replicate 16 sampleRr)"]
    by (simp add: sampleMemory_def RECEIVE_TRANS_COUNT_def split: prod.splits)
qed

section \<open>Headers\<close>

lemma nibble_mask: "(0x0F :: u8) = mask 4" "(7 :: u8) = mask 3" "(3 :: u8) = mask 2"
  by (simp_all add: mask_eq_exp_minus_1)

lemma bit_small_word:
  assumes "unat (tn :: u16) < 2 ^ k" "bit tn n"
  shows "n < k"
proof -
  have "take_bit k (unat tn) = unat tn" using assms(1) by (rule take_bit_nat_eq_self)
  moreover have "bit (unat tn) n" using assms(2) by (simp add: bit_unsigned_iff)
  ultimately show ?thesis by (metis bit_take_bit_iff)
qed

lemma bit_TSPDU_header:
  "bit (TSPDU_header auth mt tn) n \<longleftrightarrow>
     n = 7 \<and> auth \<or> 4 \<le> n \<and> n < 7 \<and> bit mt (n - 4) \<or> n < 4 \<and> bit tn n"
  unfolding TSPDU_header_def nibble_mask
  by (cases auth) (auto simp: bit_simps simp del: push_bit_of_1 push_bit_numeral)

lemma TSPDU_header_fields [simp]:
  "TSPDU_auth (TSPDU_header auth mt tn) = auth"
  "TSPDU_pduMsgType (TSPDU_header auth mt tn) = mt AND 7"
  "pdu_transNum_field (TSPDU_header auth mt tn) = ucast tn AND 0x0F"
  unfolding TSPDU_auth_def TSPDU_pduMsgType_def pdu_transNum_field_def
  by (simp add: bit_TSPDU_header)
    (rule bit_word_eqI, auto simp: nibble_mask bit_simps bit_TSPDU_header)+

lemma bit_AuthPDU_header:
  "bit (AuthPDU_header fmt mt tn) n \<longleftrightarrow>
     6 \<le> n \<and> n < 8 \<and> bit fmt (n - 6) \<or> 4 \<le> n \<and> n < 6 \<and> bit mt (n - 4) \<or> n < 4 \<and> bit tn n"
  unfolding AuthPDU_header_def nibble_mask by (auto simp: bit_simps)

lemma AuthPDU_header_fields [simp]:
  "AuthPDU_fmt (AuthPDU_header fmt mt tn) = fmt AND 3"
  "AuthPDU_pduMsgType (AuthPDU_header fmt mt tn) = mt AND 3"
  "pdu_transNum_field (AuthPDU_header fmt mt tn) = ucast tn AND 0x0F"
  unfolding AuthPDU_fmt_def AuthPDU_pduMsgType_def pdu_transNum_field_def
  by (rule bit_word_eqI, auto simp: nibble_mask bit_simps bit_AuthPDU_header)+

lemma small_transNum:
  "tn < 16 \<Longrightarrow> ucast (ucast tn AND (0x0F :: u8)) = (tn :: u16)"
  by (rule bit_word_eqI) (auto simp: nibble_mask bit_simps word_less_nat_alt dest: bit_small_word [of tn 4, simplified])

lemma wide_transNum:
  "tn < 4096 \<Longrightarrow>
     push_bit 8 (ucast (ucast (drop_bit 8 tn) AND (0x0F :: u8))) OR ucast (ucast tn :: u8) = (tn :: u16)"
  by (rule bit_word_eqI) (auto simp: nibble_mask bit_simps word_less_nat_alt dest: bit_small_word [of tn 12, simplified])

text \<open>The transaction numbers that a header can carry.\<close>

definition transNum_fits :: "LsProtocolMode \<Rightarrow> u16 \<Rightarrow> bool" where
  "transNum_fits version tn \<longleftrightarrow> tn < (if version = LsProtocolModeLegacy then 16 else 4096)"

lemma tspdu_roundtrip:
  assumes "transNum_fits version tn"
  shows "TSPDU_auth (byte_at (tspdu version auth mt tn data) 0) = auth"
    and "TSPDU_pduMsgType (byte_at (tspdu version auth mt tn data) 0) = mt AND 7"
    and "pdu_transNum (sent_version version) (tspdu version auth mt tn data) = tn"
    and "bytes_from (tspdu version auth mt tn data) (1 + dataIndexOf (sent_version version))
           (length data) = data"
  using assms
  by (auto simp: tspdu_def pdu_transNum_def sent_version_def dataIndexOf_def
      transNum_fits_def small_transNum wide_transNum)

lemma authpdu_roundtrip:
  assumes "transNum_fits version tn"
  shows "AuthPDU_fmt (byte_at (authpdu version fmt mt tn data) 0) = fmt AND 3"
    and "AuthPDU_pduMsgType (byte_at (authpdu version fmt mt tn data) 0) = mt AND 3"
    and "pdu_transNum (sent_version version) (authpdu version fmt mt tn data) = tn"
    and "bytes_from (authpdu version fmt mt tn data) (1 + dataIndexOf (sent_version version))
           (length data) = data"
  using assms
  by (auto simp: authpdu_def pdu_transNum_def sent_version_def dataIndexOf_def
      transNum_fits_def small_transNum wide_transNum)

text \<open>
  Encoding and decoding of the transport, session and authentication headers: what the
  sender writes into the bit fields of a PDU is what the receiver reads out, in the legacy
  and in the enhanced mode, for every transaction number that fits, and the data follow at
  the index both sides compute.
\<close>

theorem pdu_header_roundtrip:
  assumes "transNum_fits version tn"
  shows "(let p = tspdu version auth mt tn data
      in TSPDU_auth (byte_at p 0) = auth \<and> TSPDU_pduMsgType (byte_at p 0) = mt AND 7 \<and>
         pdu_transNum (sent_version version) p = tn \<and>
         bytes_from p (1 + dataIndexOf (sent_version version)) (length data) = data) \<and>
    (let p = authpdu version fmt mt tn data
      in AuthPDU_fmt (byte_at p 0) = fmt AND 3 \<and> AuthPDU_pduMsgType (byte_at p 0) = mt AND 3 \<and>
         pdu_transNum (sent_version version) p = tn \<and>
         bytes_from p (1 + dataIndexOf (sent_version version)) (length data) = data)"
  using tspdu_roundtrip [OF assms] authpdu_roundtrip [OF assms] by (simp add: Let_def)

theorem pdu_header_roundtrip_witness:
  "pdu_transNum LsProtocolModeEnhanced (tspdu LsProtocolModeEnhanced True REMINDER_MSG 0xABC [7]) = 0xABC"
  using pdu_header_roundtrip [of LsProtocolModeEnhanced "0xABC" True REMINDER_MSG "[7]"]
  by (simp add: Let_def transNum_fits_def sent_version_def)

end
