(* ===== verification/Lcs_Tsa_Send.thy ===== *)
theory Lcs_Tsa_Send
  imports Lcs_Tsa
begin

text \<open>
  \<^verbatim>\<open>lcs/lcs_tsa.c\<close>, the sending side of the transport and session layers: a new message
  (\<open>SendNewMsg\<close>), its retries and its end (\<open>XmitTimerExpiration\<close>), and the choice of the next
  event (\<open>TransportLayerSend\<close> and the transaction part of \<open>SessionLayerSend\<close>). A PDU is
  formed in the slot at the tail of the network layer's queue; a slot that is filled but not
  written to the queue is not observable and is left as it was. The alternate key part of
  \<open>IZOT_PROXY\<close> is kept, the longer transmit timer of that build option is not compiled in.
\<close>

definition ALT_PATH_COUNT :: u8 where "ALT_PATH_COUNT = 1"

definition NV_LAST_TAG :: "u16 \<Rightarrow> bool" where
  "NV_LAST_TAG tag \<longleftrightarrow> tag AND 0xA000 = 0xA000"

section \<open>What the two senders share\<close>

definition layer_pduType :: "Layer \<Rightarrow> PDUType" where
  "layer_pduType layerIn = (case layerIn of TRANSPORT \<Rightarrow> TPDU_TYPE | SESSION \<Rightarrow> SPDU_TYPE)"

definition layer_tx :: "Layer \<Rightarrow> TXStatus" where
  "layer_tx layerIn = (case layerIn of TRANSPORT \<Rightarrow> TRANSPORT_TX | SESSION \<Rightarrow> SESSION_TX)"

definition broadcast_backlog :: "IzotSendAddress \<Rightarrow> u8" where
  "broadcast_backlog a =
     (if IZOT_SENDBCAST_BACKLOG a \<noteq> 0 then IZOT_SENDBCAST_BACKLOG a else 15)"

definition tsa_altPath :: "TSASendParam \<Rightarrow> bool \<Rightarrow> u8" where
  "tsa_altPath p useAlt =
     (if tssAltPathOverride p then tssAltPath p
      else if tssService p \<noteq> IzotServiceRepeated \<and> useAlt
      then (tssAltPath p AND NOT ALT_PATH) OR ALT_PATH
      else tssAltPath p AND NOT ALT_PATH)"

definition xmit_apdu :: "TransmitRecord \<Rightarrow> bytes" where
  "xmit_apdu x = bytes_from (txApdu x) 0 (txApduSize x)"

section \<open>Retries\<close>

text \<open>The search for the highest group member that has answered, downwards from \<open>i\<close>.\<close>

fun ack_search :: "bool list \<Rightarrow> nat \<Rightarrow> nat option" where
  "ack_search ack 0 = (if ack ! 0 then Some 0 else None)"
| "ack_search ack (Suc i) = (if ack ! Suc i then Some (Suc i) else ack_search ack i)"

text \<open>\<open>length\<close> of the \<open>M_LIST\<close>; \<open>None\<close> when the record counts an answer but holds none.\<close>

definition mlist_length :: "TransmitRecord \<Rightarrow> nat option" where
  "mlist_length x =
     (if txAckCount x = 0 then Some 0
      else map_option (\<lambda>i. i div 8 + 1) (ack_search (txAckReceived x) MAX_GROUP_NUMBER))"

text \<open>The bytes of the \<open>M_LIST\<close>, set bit by bit.\<close>

definition mlist_bytes :: "bool list \<Rightarrow> nat \<Rightarrow> bytes" where
  "mlist_bytes ack len =
     fold (\<lambda>i m. m[i div 8 := m ! (i div 8) OR push_bit (i mod 8) (if ack ! i then 1 else 0)])
       [0..<8 * len] (replicate len 0)"

text \<open>
  What is sent again: the message, the message with an \<open>M_LIST\<close>, a reminder and the message
  as a pair, or nothing.
\<close>

datatype retry = RetryNone | RetryMsg u8 | RetryRemMsg nat | RetryPair nat

definition retry_form :: "Layer \<Rightarrow> TSASendParam \<Rightarrow> TransmitRecord \<Rightarrow> retry" where
  "retry_form layerIn p x =
     (if tssService p = IzotServiceRepeated then RetryMsg UNACK_RPT_MSG
      else if dstMode (txNwDestAddr x) \<noteq> AM_MULTICAST then
        (if layerIn = TRANSPORT then RetryMsg ACKD_MSG
         else if tssService p = IzotServiceRequest then RetryMsg REQUEST_MSG
         else RetryNone)
      else (case mlist_length x of
              None \<Rightarrow> RetryNone
            | Some len \<Rightarrow> (if len \<le> 2 then RetryRemMsg len else RetryPair len)))"

definition retry_deltaBL :: "TSASendParam \<Rightarrow> TransmitRecord \<Rightarrow> u8" where
  "retry_deltaBL p x =
     (if tssService p = IzotServiceRepeated then 0
      else if dstMode (txNwDestAddr x) = AM_BROADCAST then broadcast_backlog (tssDestAddr p)
      else if dstMode (txNwDestAddr x) = AM_MULTICAST then txDestCount x - txAckCount x
      else 1)"

definition retry_altPath :: "TSASendParam \<Rightarrow> TransmitRecord \<Rightarrow> u8" where
  "retry_altPath p x = tsa_altPath p (txRetriesLeft x \<le> ALT_PATH_COUNT + 1) OR ALT_RETRY"

text \<open>A retry that is lost for lack of space still counts.\<close>

definition xmit_lose_retry :: "u32 \<Rightarrow> bool \<Rightarrow> stack \<Rightarrow> stack" where
  "xmit_lose_retry now pri s =
     update_xmitRec pri (\<lambda>x. x\<lparr>txRetriesLeft := txRetriesLeft x - 1,
       txXmitTimer := SetLonTimer now (txXmitTimer x) (ucast (txXmitTimerValue x))\<rparr>) s"

text \<open>
  The common end of a retry: \<open>fill\<close> has put the PDU and its size without the extra byte of
  the enhanced mode into the slot.
\<close>

definition xmit_resend ::
    "u32 \<Rightarrow> Layer \<Rightarrow> bool \<Rightarrow> TSASendParam \<Rightarrow> (NWSendParam \<Rightarrow> NWSendParam) \<Rightarrow> stack \<Rightarrow> stack" where
  "xmit_resend now layerIn pri p fill s =
     (let x = xmitRecOf pri s;
          s1 = (if tssService p \<noteq> IzotServiceRepeated then IncrementStat LcsRetry s else s);
          s2 = nw_emit pri (\<lambda>n. (fill n)\<lparr>nwsVersion := sent_version (txVersion x),
                 nwsDestAddr := txNwDestAddr x, nwsPduType := layer_pduType layerIn,
                 nwsDeltaBL := retry_deltaBL p x, nwsAltPath := retry_altPath p x,
                 nwsPduSize := (nwsPduSize (fill n) + dataIndexOf (txVersion x)) mod 2 ^ 16\<rparr>) s1;
          retriesLeft = txRetriesLeft x - 1;
          value = (if retriesLeft = 0 then txXmitTimerValue x + txTimerDeltaLast x
                   else txXmitTimerValue x)
      in update_xmitRec pri (\<lambda>x. x\<lparr>txRetriesLeft := retriesLeft, txXmitTimerValue := value,
           txXmitTimer := SetLonTimer now (txXmitTimer x) (ucast value)\<rparr>) s2)"

definition fill_msg :: "TSASendParam \<Rightarrow> TransmitRecord \<Rightarrow> u8 \<Rightarrow> NWSendParam \<Rightarrow> NWSendParam" where
  "fill_msg p x mt n =
     n\<lparr>nwsPdu := tspdu (txVersion x) (tssAuth p) mt (txTransNum x) (xmit_apdu x),
       nwsPduSize := (txApduSize x + 1) mod 2 ^ 16\<rparr>"

text \<open>
  A message with an \<open>M_LIST\<close>. The code clears the first two bytes of the list before it
  writes it, whatever its length; both lie in any buffer of five bytes or more.
\<close>

definition fill_rem_msg :: "TSASendParam \<Rightarrow> TransmitRecord \<Rightarrow> nat \<Rightarrow> NWSendParam \<Rightarrow> NWSendParam" where
  "fill_rem_msg p x len n =
     n\<lparr>nwsPdu := tspdu (txVersion x) (tssAuth p) REM_MSG_MSG (txTransNum x)
          (of_nat len # mlist_bytes (txAckReceived x) len @ xmit_apdu x),
       nwsPduSize := (txApduSize x + 2 + len) mod 2 ^ 16\<rparr>"

text \<open>
  The second message of a pair. In the enhanced mode the low byte of the transaction number
  is written to \<open>data[1]\<close>, because \<open>dataIndex\<close> is one by then, and the APDU over it;
  \<open>data[0]\<close> keeps the byte that the last use of the slot left there.
\<close>

definition fill_pair_msg :: "TSASendParam \<Rightarrow> TransmitRecord \<Rightarrow> NWSendParam \<Rightarrow> NWSendParam" where
  "fill_pair_msg p x n =
     (let mt = (if tssService p = IzotServiceAcknowledged then ACKD_MSG else REQUEST_MSG);
          pdu = (if txVersion x = LsProtocolModeLegacy
                 then TSPDU_header (tssAuth p) mt (txTransNum x) # xmit_apdu x
                 else TSPDU_header (tssAuth p) mt (drop_bit 8 (txTransNum x)) #
                        byte_at (nwsPdu n) 1 # xmit_apdu x)
      in n\<lparr>nwsDropIfUnconfigured := True, nwsPdu := pdu,
           nwsPduSize := (txApduSize x + 1) mod 2 ^ 16\<rparr>)"

definition xmit_reminder :: "Layer \<Rightarrow> bool \<Rightarrow> TSASendParam \<Rightarrow> nat \<Rightarrow> stack \<Rightarrow> stack" where
  "xmit_reminder layerIn pri p len s =
     (let x = xmitRecOf pri s
      in nw_emit pri (\<lambda>n. n\<lparr>nwsDropIfUnconfigured := True,
           nwsPdu := tspdu (txVersion x) (tssAuth p) REMINDER_MSG (txTransNum x)
             (of_nat len # mlist_bytes (txAckReceived x) len),
           nwsVersion := sent_version (txVersion x), nwsDestAddr := txNwDestAddr x,
           nwsPduType := layer_pduType layerIn, nwsDeltaBL := 0,
           nwsPduSize := 2 + len + dataIndexOf (txVersion x),
           nwsAltPath := retry_altPath p x\<rparr>) s)"

definition xmit_pair :: "u32 \<Rightarrow> Layer \<Rightarrow> bool \<Rightarrow> TSASendParam \<Rightarrow> nat \<Rightarrow> stack \<Rightarrow> stack" where
  "xmit_pair now layerIn pri p len s =
     (if QueueCapacity (nwQ pri s) - QueueEntries (nwQ pri s) < 2 then xmit_lose_retry now pri s
      else
        (let s1 = (if tssService p = IzotServiceAcknowledged \<or> tssService p = IzotServiceRequest
                   then xmit_reminder layerIn pri p len s else s)
         in xmit_resend now layerIn pri p (fill_pair_msg p (xmitRecOf pri s)) s1))"

definition XmitTimerExpiration :: "u32 \<Rightarrow> Layer \<Rightarrow> bool \<Rightarrow> stack \<Rightarrow> stack" where
  "XmitTimerExpiration now layerIn pri s =
     (let x = xmitRecOf pri s
      in if txRetriesLeft x = 0 \<or> txDestCount x = txAckCount x \<or>
            (dstMode (txNwDestAddr x) = AM_BROADCAST \<and> txAckCount x \<ge> 1)
         then TerminateTrans pri s
         else if QueueFull (nwQ pri s) then xmit_lose_retry now pri s
         else (case QueueHead (tsaQ pri s) of
                 None \<Rightarrow> null_pointer s
               | Some p \<Rightarrow>
                   (case retry_form layerIn p x of
                      RetryNone \<Rightarrow> update_xmitRec pri (\<lambda>x. x\<lparr>txRetriesLeft := 0\<rparr>) s
                    | RetryMsg mt \<Rightarrow> xmit_resend now layerIn pri p (fill_msg p x mt) s
                    | RetryRemMsg len \<Rightarrow> xmit_resend now layerIn pri p (fill_rem_msg p x len) s
                    | RetryPair len \<Rightarrow> xmit_pair now layerIn pri p len s)))"

section \<open>A new message\<close>

text \<open>The tests that end in a failure completion before a transaction is begun.\<close>

definition new_msg_rejected :: "TSASendParam \<Rightarrow> nat \<Rightarrow> bool" where
  "new_msg_rejected p bufSize \<longleftrightarrow>
     (IZOT_SENDGROUP_TYPE (tssDestAddr p) \<noteq> 0 \<and> IZOT_SENDGROUP_TYPE (tssDestAddr p) = 0 \<and>
        tssService p \<noteq> IzotServiceRepeated) \<or>
     (IZOT_SENDGROUP_TYPE (tssDestAddr p) \<noteq> 0 \<and>
        (IZOT_SENDGROUP_SIZE (tssDestAddr p) = 1 \<or>
         unat (IZOT_SENDGROUP_SIZE (tssDestAddr p)) > MAX_GROUP_NUMBER + 1)) \<or>
     tssApduSize p + 1 > bufSize"

text \<open>The destination of a new message, or \<open>None\<close> when its address does not convert.\<close>

definition new_msg_dest :: "TSASendParam \<Rightarrow> DestinationAddress option" where
  "new_msg_dest p =
     (case TSA_AddressConversion (tssDestAddr p) \<lparr>dstDmn = tssDmn p, dstAddr = DA_Unbound\<rparr> of
        (st, d) \<Rightarrow>
          (if st \<noteq> LonStatusNoError then None
           else if domainIndex (tssDmn p) = COMPUTE_DOMAIN_INDEX
           then Some (d\<lparr>dstDmn := (dstDmn d)\<lparr>domainIndex := IZOT_SENDSN_DOMAIN (tssDestAddr p)\<rparr>\<rparr>)
           else Some d))"

definition new_msg_destCount :: "TSASendParam \<Rightarrow> DestinationAddress \<Rightarrow> u8" where
  "new_msg_destCount p d =
     (if dstMode d = AM_MULTICAST then
        (let n = IZOT_SENDGROUP_SIZE (tssDestAddr p) - 1 in if n = 0 then 1 else n)
      else 1)"

definition new_msg_deltaBL :: "TSASendParam \<Rightarrow> DestinationAddress \<Rightarrow> u8" where
  "new_msg_deltaBL p d =
     (if tssService p = IzotServiceRepeated then IZOT_SENDSN_RETRY (tssDestAddr p)
      else if dstMode d = AM_BROADCAST then broadcast_backlog (tssDestAddr p)
      else if dstMode d = AM_MULTICAST then new_msg_destCount p d
      else 1)"

definition new_msg_type :: "Layer \<Rightarrow> TSASendParam \<Rightarrow> u8" where
  "new_msg_type layerIn p =
     (if tssService p = IzotServiceRepeated then UNACK_RPT_MSG
      else if layerIn = TRANSPORT then ACKD_MSG else REQUEST_MSG)"

text \<open>
  The transaction number: a proxy message may inherit the one of the request that it
  repeats, which its tag names.
\<close>

definition new_msg_inherit :: "bool \<Rightarrow> TSASendParam \<Rightarrow> u16 \<Rightarrow> stack \<Rightarrow> u16 \<times> stack" where
  "new_msg_inherit pri p tn s =
     (case (if tssProxy p \<and> tssTxInherit p then FindRR (tssTag p) s else None) of
        None \<Rightarrow> (tn, s)
      | Some i \<Rightarrow> (rrTransNum (recvRec s ! i), OverrideTrans pri (rrTransNum (recvRec s ! i)) s))"

definition new_xmitRec ::
    "u32 \<Rightarrow> Layer \<Rightarrow> TSASendParam \<Rightarrow> DestinationAddress \<Rightarrow> u16 \<Rightarrow> u16 \<Rightarrow> u16 \<Rightarrow> TransmitRecord \<Rightarrow>
     TransmitRecord" where
  "new_xmitRec now layerIn p d tn rptTimer txTimer x =
     (let value = (if tssService p = IzotServiceRepeated then rptTimer else txTimer)
      in x\<lparr>txTransNum := tn, txStatus := layer_tx layerIn, txNwDestAddr := d,
           txAckReceived := replicate (MAX_GROUP_NUMBER + 1) False,
           txTimerDeltaLast := (if tssProxy p then tssTxTimerDeltaLast p else 0),
           txAltKey := (if tssProxy p then tssAltKey p else (txAltKey x)\<lparr>altKey := False\<rparr>),
           txDestCount := new_msg_destCount p d,
           txRetriesLeft := IZOT_SENDSN_RETRY (tssDestAddr p), txAckCount := 0,
           txApdu := tssApdu p, txApduSize := tssApduSize p, txXmitTimerValue := value,
           txAuth := tssAuth p, txXmitTimer := SetLonTimer now (txXmitTimer x) (ucast value)\<rparr>)"

definition new_msg_emit ::
    "Layer \<Rightarrow> bool \<Rightarrow> TSASendParam \<Rightarrow> DestinationAddress \<Rightarrow> stack \<Rightarrow> stack" where
  "new_msg_emit layerIn pri p d s =
     (let x = xmitRecOf pri s
      in nw_emit pri (\<lambda>n. n\<lparr>
           nwsPdu := tspdu (txVersion x) (tssAuth p) (new_msg_type layerIn p) (txTransNum x) (xmit_apdu x),
           nwsVersion := sent_version (txVersion x),
           nwsDropIfUnconfigured := True, nwsDestAddr := d,
           nwsAltPath := tsa_altPath p (IZOT_SENDSN_RETRY (tssDestAddr p) \<le> ALT_PATH_COUNT),
           nwsPduType := layer_pduType layerIn, nwsDeltaBL := new_msg_deltaBL p d,
           nwsPduSize := (txApduSize x + dataIndexOf (txVersion x) + 1) mod 2 ^ 16\<rparr>) s)"

definition new_msg_begin ::
    "u32 \<Rightarrow> Layer \<Rightarrow> bool \<Rightarrow> TSASendParam \<Rightarrow> DestinationAddress \<Rightarrow> u16 \<Rightarrow> stack \<Rightarrow> stack" where
  "new_msg_begin now layerIn pri p d rptTimer s =
     (let s1 = (if dstMode d = AM_BROADCAST
                then set_tsaQ pri (QueuePokeHead (\<lambda>p. p\<lparr>tssDestAddr := (tssDestAddr p)\<lparr>saTransmit :=
                       set_attribute 0xF0 4 1 (saTransmit (tssDestAddr p))\<rparr>\<rparr>) (tsaQ pri s)) s
                else s)
      in case NewTrans now pri d s1 of
           (st, None, s2) \<Rightarrow> s2
         | (st, Some tn, s2) \<Rightarrow>
             (case new_msg_inherit pri p tn s2 of
                (tn', s3) \<Rightarrow>
                  new_msg_emit layerIn pri p d
                    (update_xmitRec pri (new_xmitRec now layerIn p d tn' rptTimer
                       (DecodeTxTimer (IZOT_SENDSN_TRANSMIT_TIMER (tssDestAddr p)))) s3)))"

definition SendNewMsg :: "u32 \<Rightarrow> Layer \<Rightarrow> bool \<Rightarrow> stack \<Rightarrow> stack" where
  "SendNewMsg now layerIn pri s =
     (case QueueHead (tsaQ pri s) of
        None \<Rightarrow> null_pointer s
      | Some p \<Rightarrow>
          (if layerIn = TRANSPORT \<and> tssService p \<noteq> IzotServiceAcknowledged \<and>
              tssService p \<noteq> IzotServiceRepeated then s
           else if layerIn = TRANSPORT \<and> \<not> tssProxy p \<and> NV_LAST_TAG (tssTag p) then
             SendCompletion p True s
           else if layerIn = SESSION \<and> tssService p \<noteq> IzotServiceRequest then s
           else if new_msg_rejected p (nwBufSize pri s) then SendCompletion p False s
           else (case DecodeRptTimer (IZOT_SENDSN_REPEAT_TIMER (tssDestAddr p)) of
                   Inl _ \<Rightarrow> SendCompletion p False s
                 | Inr rptTimer \<Rightarrow>
                     (case new_msg_dest p of
                        None \<Rightarrow> SendCompletion p False s
                      | Some d \<Rightarrow> new_msg_begin now layerIn pri p d rptTimer s))))"

section \<open>The next event\<close>

definition tx_timer_expired :: "u32 \<Rightarrow> TXStatus \<Rightarrow> bool \<Rightarrow> stack \<Rightarrow> bool" where
  "tx_timer_expired now status pri s \<longleftrightarrow>
     txStatus (xmitRecOf pri s) = status \<and> \<not> LonTimerRunning now (txXmitTimer (xmitRecOf pri s))"

definition tx_can_start :: "bool \<Rightarrow> stack \<Rightarrow> bool" where
  "tx_can_start pri s \<longleftrightarrow>
     txStatus (xmitRecOf pri s) = UNUSED_TX \<and> \<not> QueueEmpty (tsaQ pri s) \<and> \<not> QueueFull (nwQ pri s)"

definition layer_send :: "u32 \<Rightarrow> Layer \<Rightarrow> stack \<Rightarrow> stack" where
  "layer_send now layerIn s =
     (if tx_timer_expired now (layer_tx layerIn) True s then XmitTimerExpiration now layerIn True s
      else if tx_can_start True s then SendNewMsg now layerIn True s
      else if tx_timer_expired now (layer_tx layerIn) False s
      then XmitTimerExpiration now layerIn False s
      else if tx_can_start False s then SendNewMsg now layerIn False s
      else s)"

definition TransportLayerSend :: "u32 \<Rightarrow> stack \<Rightarrow> stack" where
  "TransportLayerSend now s = (if SendBlocked now s then s else layer_send now TRANSPORT s)"

section \<open>The M_LIST\<close>

lemma mlist_loop_bits:
  assumes "n \<le> 8 * len"
  shows "length (fold (\<lambda>i m. m[i div 8 := m ! (i div 8) OR push_bit (i mod 8) (if ack ! i then 1 else 0)])
      [0..<n] (replicate len (0 :: u8))) = len \<and>
    (\<forall>j k. j < len \<and> k < 8 \<longrightarrow>
       bit (fold (\<lambda>i m. m[i div 8 := m ! (i div 8) OR push_bit (i mod 8) (if ack ! i then 1 else 0)])
         [0..<n] (replicate len (0 :: u8)) ! j) k = (8 * j + k < n \<and> ack ! (8 * j + k)))"
  using assms
proof (induction n)
  case 0
  then show ?case by simp
next
  case (Suc n)
  let ?m = "fold (\<lambda>i m. m[i div 8 := m ! (i div 8) OR push_bit (i mod 8) (if ack ! i then 1 else 0)])
      [0..<n] (replicate len (0 :: u8))"
  have IH: "length ?m = len"
    "\<And>j k. j < len \<Longrightarrow> k < 8 \<Longrightarrow> bit (?m ! j) k = (8 * j + k < n \<and> ack ! (8 * j + k))"
    using Suc by auto
  have n: "n div 8 < len" "8 * (n div 8) + n mod 8 = n" using Suc.prems by auto
  have bits: "bit (?m ! (n div 8) OR push_bit (n mod 8) (if ack ! n then 1 else 0)) k \<longleftrightarrow>
      8 * (n div 8) + k < Suc n \<and> ack ! (8 * (n div 8) + k)" if "k < 8" for k
  proof (cases "k = n mod 8")
    case True
    then show ?thesis using IH(2) [OF n(1) that] n that by (simp add: bit_simps)
  next
    case False
    then have "8 * (n div 8) + k < n \<longleftrightarrow> 8 * (n div 8) + k < Suc n" using n(2) that by linarith
    moreover have "\<not> bit (push_bit (n mod 8) (if ack ! n then 1 else 0 :: u8)) k"
      using False by (auto simp: bit_simps)
    ultimately show ?thesis using IH(2) [OF n(1) that] by (simp add: bit_or_iff)
  qed
  have other: "8 * j + k < n \<longleftrightarrow> 8 * j + k < Suc n" if "j \<noteq> n div 8" "k < 8" for j k
    using that by (auto simp: less_Suc_eq)
  have "bit (?m[n div 8 := ?m ! (n div 8) OR push_bit (n mod 8) (if ack ! n then 1 else 0)] ! j) k =
      (8 * j + k < Suc n \<and> ack ! (8 * j + k))" if "j < len" "k < 8" for j k
    using bits [OF that(2)] IH that n(1) other [of j k] by (cases "j = n div 8") auto
  with IH(1) show ?case by simp
qed

lemma length_mlist_bytes [simp]: "length (mlist_bytes ack len) = len"
  using mlist_loop_bits [of "8 * len" len ack] by (simp add: mlist_bytes_def)

lemma bit_mlist_bytes:
  "j < len \<Longrightarrow> k < 8 \<Longrightarrow> bit (mlist_bytes ack len ! j) k = ack ! (8 * j + k)"
  using mlist_loop_bits [of "8 * len" len ack] by (simp add: mlist_bytes_def)

lemma ack_search_Some:
  "ack_search ack i = Some h \<Longrightarrow> h \<le> i \<and> ack ! h \<and> (\<forall>j. h < j \<and> j \<le> i \<longrightarrow> \<not> ack ! j)"
  by (induction ack i rule: ack_search.induct) (auto split: if_splits simp: le_Suc_eq)

lemma ack_search_None: "ack_search ack i = None \<longleftrightarrow> (\<forall>j\<le>i. \<not> ack ! j)"
  by (induction ack i rule: ack_search.induct) (auto simp: le_Suc_eq)

section \<open>The invariant of a priority\<close>

text \<open>
  What holds of the queues, the transmit record and the transaction control record of one
  priority between any two operations. A transaction is in progress exactly when the
  transmit record is in use, for the number in the record, and its message is still at the
  head of the output queue.
\<close>

definition tx_inv :: "bool \<Rightarrow> stack \<Rightarrow> bool" where
  "tx_inv pri s \<longleftrightarrow>
     queue_wf (tsaQ pri s) \<and> queue_wf (nwQ pri s) \<and>
     (\<forall>p\<in>set (queue_list (tsaQ pri s)). tssPriority p = pri) \<and>
     length (txAckReceived (xmitRecOf pri s)) = MAX_GROUP_NUMBER + 1 \<and>
     (txStatus (xmitRecOf pri s) \<noteq> UNUSED_TX \<longrightarrow> queue_list (tsaQ pri s) \<noteq> []) \<and>
     (tcInProgress (transRec pri s) \<longleftrightarrow> txStatus (xmitRecOf pri s) \<noteq> UNUSED_TX) \<and>
     (tcInProgress (transRec pri s) \<longrightarrow>
        tcTransNum (transRec pri s) = txTransNum (xmitRecOf pri s))"

definition tsa_inv :: "stack \<Rightarrow> bool" where
  "tsa_inv s \<longleftrightarrow> tx_inv True s \<and> tx_inv False s \<and> queue_wf (tsaInQ s) \<and> queue_wf (tsaRespQ s) \<and>
     queue_wf (appInQ s) \<and> queue_wf (appCeRspInQ s) \<and> length (recvRec s) = RECEIVE_TRANS_COUNT"

lemma tsa_inv_tx: "tsa_inv s \<Longrightarrow> tx_inv pri s"
  by (cases pri) (simp_all add: tsa_inv_def)

lemma tsa_invI:
  "(\<And>pri. tx_inv pri s) \<Longrightarrow> queue_wf (tsaInQ s) \<Longrightarrow> queue_wf (tsaRespQ s) \<Longrightarrow> queue_wf (appInQ s) \<Longrightarrow>
   queue_wf (appCeRspInQ s) \<Longrightarrow> length (recvRec s) = RECEIVE_TRANS_COUNT \<Longrightarrow> tsa_inv s"
  by (simp add: tsa_inv_def)

lemma tsa_inv_queues:
  assumes "tsa_inv s"
  shows "queue_wf (tsaInQ s)" "queue_wf (tsaRespQ s)" "queue_wf (appInQ s)"
    "queue_wf (appCeRspInQ s)" "queue_wf (tsaQ pri s)" "queue_wf (nwQ pri s)"
    "length (recvRec s) = RECEIVE_TRANS_COUNT"
  using assms tsa_inv_tx [OF assms, of pri] by (auto simp: tsa_inv_def tx_inv_def)

lemma tx_inv_cong:
  assumes "tsaQ pri s' = tsaQ pri s" "nwQ pri s' = nwQ pri s" "xmitRecOf pri s' = xmitRecOf pri s"
    "transRec pri s' = transRec pri s"
  shows "tx_inv pri s' \<longleftrightarrow> tx_inv pri s"
  using assms by (simp add: tx_inv_def)

lemma tx_inv_frames [simp]:
  "tx_inv pri (update_rr i f s) = tx_inv pri s" "tx_inv pri (drop_tsaIn s) = tx_inv pri s"
  "tx_inv pri (null_pointer s) = tx_inv pri s" "tx_inv pri (IncrementStat st s) = tx_inv pri s"
  "tx_inv pri (LCS_LogRxStat s a ty) = tx_inv pri s"
  "tx_inv pri (s\<lparr>appCeRspInQ := qa\<rparr>) = tx_inv pri s" "tx_inv pri (s\<lparr>appInQ := qa\<rparr>) = tx_inv pri s"
  "tx_inv pri (s\<lparr>tsaRespQ := qr\<rparr>) = tx_inv pri s" "tx_inv pri (s\<lparr>reqId := r\<rparr>) = tx_inv pri s"
  "tx_inv pri (s\<lparr>memFault := b\<rparr>) = tx_inv pri s"
  "tx_inv pri (s\<lparr>prevChallenge := bs\<rparr>) = tx_inv pri s"
  by (rule tx_inv_cong; simp)+

lemma tx_inv_nw_emit [simp]: "tx_inv p s \<Longrightarrow> tx_inv p (nw_emit pri f s)"
  by (cases "p = pri") (simp_all add: tx_inv_def)

lemma tx_inv_update_xmitRec:
  assumes "tx_inv p s"
    and "p = pri \<Longrightarrow> txStatus (f (xmitRecOf p s)) = txStatus (xmitRecOf p s)"
    and "p = pri \<Longrightarrow> txTransNum (f (xmitRecOf p s)) = txTransNum (xmitRecOf p s)"
    and "p = pri \<Longrightarrow> length (txAckReceived (f (xmitRecOf p s))) = length (txAckReceived (xmitRecOf p s))"
  shows "tx_inv p (update_xmitRec pri f s)"
  using assms by (auto simp: tx_inv_def)

lemma tsa_inv_frames [simp]:
  "tsa_inv (update_rr i f s) = tsa_inv s" "tsa_inv (null_pointer s) = tsa_inv s"
  "tsa_inv (IncrementStat st s) = tsa_inv s" "tsa_inv (LCS_LogRxStat s a ty) = tsa_inv s"
  "tsa_inv (s\<lparr>reqId := r\<rparr>) = tsa_inv s" "tsa_inv (s\<lparr>memFault := b\<rparr>) = tsa_inv s"
  "tsa_inv (s\<lparr>prevChallenge := bs\<rparr>) = tsa_inv s"
  by (simp_all add: tsa_inv_def)

lemma tsa_inv_drop [simp]: "tsa_inv s \<Longrightarrow> tsa_inv (drop_tsaIn s)"
  by (simp add: tsa_inv_def)

lemma tsa_inv_nw_emit [simp]: "tsa_inv s \<Longrightarrow> tsa_inv (nw_emit pri f s)"
  by (simp add: tsa_inv_def)

lemma tsa_inv_appIn [simp]: "tsa_inv s \<Longrightarrow> queue_wf q \<Longrightarrow> tsa_inv (s\<lparr>appInQ := q\<rparr>)"
  and tsa_inv_appCe [simp]: "tsa_inv s \<Longrightarrow> queue_wf q' \<Longrightarrow> tsa_inv (s\<lparr>appCeRspInQ := q'\<rparr>)"
  and tsa_inv_resp [simp]: "tsa_inv s \<Longrightarrow> queue_wf q'' \<Longrightarrow> tsa_inv (s\<lparr>tsaRespQ := q''\<rparr>)"
  by (simp_all add: tsa_inv_def)

lemma tsa_inv_update_xmitRec:
  assumes "tsa_inv s"
    and "txStatus (f (xmitRecOf pri s)) = txStatus (xmitRecOf pri s)"
    and "txTransNum (f (xmitRecOf pri s)) = txTransNum (xmitRecOf pri s)"
    and "length (txAckReceived (f (xmitRecOf pri s))) = length (txAckReceived (xmitRecOf pri s))"
  shows "tsa_inv (update_xmitRec pri f s)"
  using assms by (auto intro!: tsa_invI tx_inv_update_xmitRec simp: tsa_inv_tx tsa_inv_queues)

lemma tsa_head:
  assumes "tsa_inv s" and "txStatus (xmitRecOf pri s) \<noteq> UNUSED_TX"
  obtains p ps where "queue_list (tsaQ pri s) = p # ps" "QueueHead (tsaQ pri s) = Some p"
    "tssPriority p = pri"
proof -
  have inv: "tx_inv pri s" using assms(1) by (rule tsa_inv_tx)
  then obtain p ps where p: "queue_list (tsaQ pri s) = p # ps"
    using assms(2) by (cases "queue_list (tsaQ pri s)") (auto simp: tx_inv_def)
  then show thesis
    using that [OF p] inv by (simp add: tx_inv_def QueueHead_eq)
qed

section \<open>The end of a transaction\<close>

definition tx_succeeded :: "TSASendParam \<Rightarrow> TransmitRecord \<Rightarrow> bool" where
  "tx_succeeded p x \<longleftrightarrow> tssService p = IzotServiceRepeated \<or> txDestCount x = txAckCount x \<or>
     (dstMode (txNwDestAddr x) = AM_BROADCAST \<and> txAckCount x \<ge> 1)"

definition completion_of :: "TSASendParam \<Rightarrow> bool \<Rightarrow> APPReceiveParam \<Rightarrow> bool" where
  "completion_of p success c \<longleftrightarrow> aprIndication c = COMPLETION \<and> aprSuccess c = success \<and>
     aprTag c = tssTag p \<and> aprProxy c = tssProxy p \<and> aprProxyCount c = tssProxyCount p \<and>
     aprProxyDone c = tssProxyDone p"

text \<open>A queue has room for one more entry when \<open>QueueWrite\<close> will not lose it.\<close>

definition has_room :: "'a Queue \<Rightarrow> bool" where
  "has_room q \<longleftrightarrow> queueEntries q < queueCapacity q - 1"

lemma SendCompletion_effect:
  assumes inv: "tsa_inv s" and q: "queue_list (tsaQ pri s) = p # ps" "tssPriority p = pri"
    and idle: "txStatus (xmitRecOf pri s) = UNUSED_TX"
  shows "tsa_inv (SendCompletion p ok s)" (is ?inv)
    and "queue_list (tsaQ pri (SendCompletion p ok s)) = ps" (is ?tsa)
    and "\<exists>c. completion_of p ok c \<and> queue_list (appCeRspInQ (SendCompletion p ok s)) =
           (if has_room (appCeRspInQ s) then queue_list (appCeRspInQ s) @ [c]
            else queue_list (appCeRspInQ s))" (is ?ce)
proof -
  note wf = tsa_inv_queues [OF inv]
  let ?f = "\<lambda>r. r\<lparr>aprIndication := COMPLETION, aprSuccess := ok, aprTag := tssTag p,
     aprProxy := tssProxy p, aprProxyCount := tssProxyCount p, aprProxyDone := tssProxyDone p\<rparr>"
  have eq: "SendCompletion p ok s =
      set_tsaQ pri (QueueDropHead (QueuePokeHead (\<lambda>r. r\<lparr>tssProxy := False\<rparr>) (tsaQ pri s)))
        (s\<lparr>appCeRspInQ := QueueEmit ?f (appCeRspInQ s)\<rparr>)"
    using wf(4) q(2) by (simp add: SendCompletion_def Let_def)
  have l: "queue_list (QueueDropHead (QueuePokeHead (\<lambda>r. r\<lparr>tssProxy := False\<rparr>) (tsaQ pri s))) = ps"
    using wf(5) [of pri] q(1) by (simp add: queue_list_PokeHead)
  have tx: "tx_inv p' (SendCompletion p ok s)" for p'
    using tsa_inv_tx [OF inv, of p'] idle l q
    unfolding eq by (cases "p' = pri") (simp_all add: tx_inv_def)
  show ?inv
    by (rule tsa_invI) (simp_all add: tx, simp_all add: eq wf)
  show ?tsa using l by (simp add: eq)
  show ?ce
    using wf(4) by (auto simp: eq queue_list_Emit has_room_def completion_of_def
        intro!: exI [of _ "?f (QueueDeref (appCeRspInQ s) (qtail (appCeRspInQ s)))"])
qed

lemma SendCompletion_frame:
  "xmitRecOf pri' (SendCompletion p ok s) = xmitRecOf pri' s"
  "transRec pri' (SendCompletion p ok s) = transRec pri' s"
  "transID pri' (SendCompletion p ok s) = transID pri' s"
  "nwQ pri' (SendCompletion p ok s) = nwQ pri' s"
  "tsaInQ (SendCompletion p ok s) = tsaInQ s" "appInQ (SendCompletion p ok s) = appInQ s"
  "recvRec (SendCompletion p ok s) = recvRec s" "memFault (SendCompletion p ok s) = memFault s"
  "tssPriority p \<noteq> pri' \<Longrightarrow> tsaQ pri' (SendCompletion p ok s) = tsaQ pri' s"
  by (auto simp: SendCompletion_def Let_def)

definition tx_released :: "bool \<Rightarrow> bool \<Rightarrow> stack \<Rightarrow> stack" where
  "tx_released pri ok s =
     update_xmitRec pri (\<lambda>x. x\<lparr>txStatus := UNUSED_TX\<rparr>)
       (TransDone pri (if ok then s else IncrementStat LcsTxFailure s))"

lemma TerminateTrans_eq:
  assumes "tsa_inv s" and "QueueHead (tsaQ pri s) = Some p"
  shows "TerminateTrans pri s =
    SendCompletion p (tx_succeeded p (xmitRecOf pri s))
      (tx_released pri (tx_succeeded p (xmitRecOf pri s)) s)"
  using assms by (simp add: TerminateTrans_def tx_released_def Let_def tx_succeeded_def tsa_inv_queues)

lemma tx_released_frame [simp]:
  "tsaQ p (tx_released pri ok s) = tsaQ p s" "nwQ p (tx_released pri ok s) = nwQ p s"
  "tsaInQ (tx_released pri ok s) = tsaInQ s" "tsaRespQ (tx_released pri ok s) = tsaRespQ s"
  "appInQ (tx_released pri ok s) = appInQ s" "appCeRspInQ (tx_released pri ok s) = appCeRspInQ s"
  "recvRec (tx_released pri ok s) = recvRec s" "memFault (tx_released pri ok s) = memFault s"
  "txStatus (xmitRecOf pri (tx_released pri ok s)) = UNUSED_TX"
  "tcInProgress (transRec p (tx_released pri ok s)) \<longleftrightarrow> p \<noteq> pri \<and> tcInProgress (transRec p s)"
  "tcTransNum (transRec p (tx_released pri ok s)) = tcTransNum (transRec p s)"
  "txTransNum (xmitRecOf p (tx_released pri ok s)) = txTransNum (xmitRecOf p s)"
  "txAckReceived (xmitRecOf p (tx_released pri ok s)) = txAckReceived (xmitRecOf p s)"
  "p \<noteq> pri \<Longrightarrow> xmitRecOf p (tx_released pri ok s) = xmitRecOf p s"
  by (auto simp: tx_released_def)

lemma tx_released_inv:
  assumes "tsa_inv s" shows "tsa_inv (tx_released pri ok s)"
proof (rule tsa_invI)
  fix p
  show "tx_inv p (tx_released pri ok s)"
    using tsa_inv_tx [OF assms, of p] by (cases "p = pri") (auto simp: tx_inv_def)
qed (use assms in \<open>simp_all add: tsa_inv_queues\<close>)

lemma TerminateTrans_effect:
  assumes inv: "tsa_inv s" and q: "queue_list (tsaQ pri s) = p # ps"
  defines "s' \<equiv> TerminateTrans pri s"
  shows "tsa_inv s'" and "queue_list (tsaQ pri s') = ps" and "txStatus (xmitRecOf pri s') = UNUSED_TX"
    and "\<exists>c. completion_of p (tx_succeeded p (xmitRecOf pri s)) c \<and>
           queue_list (appCeRspInQ s') =
             (if has_room (appCeRspInQ s) then queue_list (appCeRspInQ s) @ [c]
              else queue_list (appCeRspInQ s))"
    and "\<not> tcInProgress (transRec pri s')" and "nwQ b s' = nwQ b s" and "memFault s' = memFault s"
    and "tsaInQ s' = tsaInQ s" and "recvRec s' = recvRec s" and "appInQ s' = appInQ s"
    and "b \<noteq> pri \<Longrightarrow> xmitRecOf b s' = xmitRecOf b s \<and> tsaQ b s' = tsaQ b s"
proof -
  have pri: "tssPriority p = pri" using tsa_inv_tx [OF inv, of pri] q by (auto simp: tx_inv_def)
  have head: "QueueHead (tsaQ pri s) = Some p"
    using q inv by (simp add: QueueHead_eq tsa_inv_queues)
  let ?ok = "tx_succeeded p (xmitRecOf pri s)"
  let ?s = "tx_released pri ?ok s"
  have eq: "s' = SendCompletion p ?ok ?s"
    unfolding s'_def using inv head by (rule TerminateTrans_eq)
  note eff = SendCompletion_effect [of ?s pri p ps ?ok, OF tx_released_inv [OF inv] _ pri, simplified, OF q]
  show "tsa_inv s'" "queue_list (tsaQ pri s') = ps" using eff(1,2) by (simp_all add: eq)
  show "\<exists>c. completion_of p ?ok c \<and> queue_list (appCeRspInQ s') =
             (if has_room (appCeRspInQ s) then queue_list (appCeRspInQ s) @ [c]
              else queue_list (appCeRspInQ s))"
    using eff(3) unfolding eq tx_released_frame .
  show "txStatus (xmitRecOf pri s') = UNUSED_TX" "\<not> tcInProgress (transRec pri s')" "nwQ b s' = nwQ b s"
    "memFault s' = memFault s" "tsaInQ s' = tsaInQ s" "recvRec s' = recvRec s" "appInQ s' = appInQ s"
    "b \<noteq> pri \<Longrightarrow> xmitRecOf b s' = xmitRecOf b s \<and> tsaQ b s' = tsaQ b s"
    using pri by (auto simp: eq SendCompletion_frame)
qed

section \<open>Examples\<close>

text \<open>A node with one acknowledged message to send, and the same node after sending it.\<close>

definition loadedStack :: stack where
  "loadedStack = sampleStack\<lparr>tsaOutQ := QueuePut sampleTss (emptyQueue 4 sampleTss)\<rparr>"

definition activeStack :: "DestAddr \<Rightarrow> stack" where
  "activeStack a = loadedStack\<lparr>
     nonpriTransCtrlRec := \<lparr>tcTransNum = 5, tcInProgress = True\<rparr>,
     xmitRec := sampleTx\<lparr>txStatus := TRANSPORT_TX, txTransNum := 5, txRetriesLeft := 1,
       txDestCount := 2, txNwDestAddr := sampleDst\<lparr>dstAddr := a\<rparr>\<rparr>\<rparr>"

lemma emptyQueue_list [simp]: "queue_list (emptyQueue n x) = []"
  by (simp add: emptyQueue_def queue_list_def)

lemma emptyQueue_fields [simp]:
  "queueCapacity (emptyQueue n x) = n" "queueEntries (emptyQueue n x) = 0"
  by (simp_all add: emptyQueue_def)

lemma loadedStack_queue [simp]: "queue_list (tsaQ False loadedStack) = [sampleTss]"
  by (simp add: tsaQ_def loadedStack_def queue_list_Put)

lemma sampleStack_tsa_inv [simp]: "tsa_inv sampleStack"
  by (simp add: tsa_inv_def tx_inv_def tsa_select_defs tcs_select_defs sampleTx_def
      MAX_GROUP_NUMBER_def RECEIVE_TRANS_COUNT_def)

lemma loadedStack_tsa_inv [simp]: "tsa_inv loadedStack"
  by (simp add: tsa_inv_def tx_inv_def tsa_select_defs tcs_select_defs sampleTx_def loadedStack_def
      MAX_GROUP_NUMBER_def RECEIVE_TRANS_COUNT_def queue_list_Put sampleTss_def)

lemma activeStack_queue [simp]: "queue_list (tsaQ False (activeStack a)) = [sampleTss]"
  using loadedStack_queue by (simp add: tsaQ_def activeStack_def)

lemma activeStack_tsa_inv [simp]: "tsa_inv (activeStack a)"
  by (simp add: tsa_inv_def tx_inv_def tsa_select_defs tcs_select_defs sampleTx_def loadedStack_def
      activeStack_def MAX_GROUP_NUMBER_def RECEIVE_TRANS_COUNT_def queue_list_Put sampleTss_def)

section \<open>Retries end\<close>

lemma nwBufSize_counters [simp]:
  "nwBufSize p (IncrementStat st s) = nwBufSize p s" "nwBufSize p (LCS_LogRxStat s a ty) = nwBufSize p s"
  "nwBufSize p (null_pointer s) = nwBufSize p s"
  by (rule nwBufSize_cong; simp)+

text \<open>
  The bytes that a retry writes into a slot of the network layer's queue, at most. The size
  was compared once, when the message was new, and without the extra byte of the enhanced mode
  and the \<open>M_LIST\<close>; \<open>retry_overflows\<close> says that it does not fit.
\<close>

definition retry_bytes :: "Layer \<Rightarrow> TSASendParam \<Rightarrow> TransmitRecord \<Rightarrow> nat" where
  "retry_bytes layerIn p x =
     (let h = 1 + dataIndexOf (txVersion x)
      in case retry_form layerIn p x of
           RetryNone \<Rightarrow> 0
         | RetryMsg mt \<Rightarrow> h + txApduSize x
         | RetryRemMsg len \<Rightarrow> h + 1 + len + txApduSize x
         | RetryPair len \<Rightarrow> max (h + 1 + len) (h + txApduSize x))"

definition retry_overflows :: "Layer \<Rightarrow> bool \<Rightarrow> TSASendParam \<Rightarrow> stack \<Rightarrow> bool" where
  "retry_overflows layerIn pri p s \<longleftrightarrow> nwBufSize pri s < retry_bytes layerIn p (xmitRecOf pri s)"

lemma length_tspdu [simp]: "length (tspdu v auth mt tn data) = 1 + dataIndexOf v + length data"
  by (simp add: tspdu_def dataIndexOf_def)

lemma length_xmit_apdu [simp]: "length (xmit_apdu x) = txApduSize x"
  by (simp add: xmit_apdu_def)

lemma length_fill [simp]:
  "length (nwsPdu (fill_msg p x mt n)) = 1 + dataIndexOf (txVersion x) + txApduSize x"
  "length (nwsPdu (fill_rem_msg p x len n)) = 2 + dataIndexOf (txVersion x) + len + txApduSize x"
  "length (nwsPdu (fill_pair_msg p x n)) = 1 + dataIndexOf (txVersion x) + txApduSize x"
  by (simp_all add: fill_msg_def fill_rem_msg_def fill_pair_msg_def Let_def dataIndexOf_def)

lemma retry_bytes_cong:
  assumes "txVersion y = txVersion x" "txApduSize y = txApduSize x" "txNwDestAddr y = txNwDestAddr x"
    and "txAckCount y = txAckCount x" "txAckReceived y = txAckReceived x"
  shows "retry_bytes layerIn p y = retry_bytes layerIn p x"
  unfolding retry_bytes_def retry_form_def mlist_length_def assms by (rule refl)

lemma xmit_resend_effect:
  fixes now layerIn pri p fill s b layer q
  assumes "tsa_inv s"
  defines "s' \<equiv> xmit_resend now layerIn pri p fill s"
  shows "tsa_inv s'" and "txRetriesLeft (xmitRecOf pri s') = txRetriesLeft (xmitRecOf pri s) - 1"
    and "txStatus (xmitRecOf pri s') = txStatus (xmitRecOf pri s)"
    and "tsaQ b s' = tsaQ b s" and "appCeRspInQ s' = appCeRspInQ s"
    and "memFault s' \<longleftrightarrow> memFault s \<or> nwBufSize pri s < length (nwsPdu (fill (nw_slot pri s)))"
    and "txNwDestAddr (xmitRecOf pri s') = txNwDestAddr (xmitRecOf pri s)"
    and "txAckCount (xmitRecOf pri s') = txAckCount (xmitRecOf pri s)"
    and "txDestCount (xmitRecOf pri s') = txDestCount (xmitRecOf pri s)"
    and "nwBufSize b s' = nwBufSize b s"
    and "retry_bytes layer q (xmitRecOf pri s') = retry_bytes layer q (xmitRecOf pri s)"
  using assms(1)
  by (auto simp: s'_def xmit_resend_def Let_def nw_overflow_def nw_slot_def
      intro!: tsa_inv_update_xmitRec retry_bytes_cong)

lemma xmit_lose_retry_effect:
  fixes now pri s b layer q
  assumes "tsa_inv s"
  defines "s' \<equiv> xmit_lose_retry now pri s"
  shows "tsa_inv s'" and "txRetriesLeft (xmitRecOf pri s') = txRetriesLeft (xmitRecOf pri s) - 1"
    and "txStatus (xmitRecOf pri s') = txStatus (xmitRecOf pri s)"
    and "tsaQ b s' = tsaQ b s" and "appCeRspInQ s' = appCeRspInQ s" and "memFault s' = memFault s"
    and "nwBufSize b s' = nwBufSize b s"
    and "retry_bytes layer q (xmitRecOf pri s') = retry_bytes layer q (xmitRecOf pri s)"
  using assms(1)
  by (auto simp: s'_def xmit_lose_retry_def Let_def intro!: tsa_inv_update_xmitRec retry_bytes_cong)

text \<open>
  An expiration either ends the transaction or uses up a retry and leaves it as it is. What
  is left of a retry is retried with the same bytes, or not at all.
\<close>

definition retried :: "Layer \<Rightarrow> bool \<Rightarrow> TSASendParam \<Rightarrow> stack \<Rightarrow> stack \<Rightarrow> bool" where
  "retried layerIn pri p s s' \<longleftrightarrow> tsa_inv s' \<and>
     txRetriesLeft (xmitRecOf pri s') < txRetriesLeft (xmitRecOf pri s) \<and>
     txStatus (xmitRecOf pri s') = txStatus (xmitRecOf pri s) \<and>
     tsaQ pri s' = tsaQ pri s \<and> appCeRspInQ s' = appCeRspInQ s \<and>
     nwBufSize pri s' = nwBufSize pri s \<and>
     retry_bytes layerIn p (xmitRecOf pri s') = retry_bytes layerIn p (xmitRecOf pri s) \<and>
     (memFault s' \<longrightarrow> memFault s \<or> retry_overflows layerIn pri p s)"

lemma word_pred_less: "(n :: u8) \<noteq> 0 \<Longrightarrow> n - 1 < n"
  by (simp add: word_less_nat_alt unat_minus_one unat_gt_0)

lemma xmit_resend_retried:
  assumes "tsa_inv s" "txRetriesLeft (xmitRecOf pri s) \<noteq> 0"
    and "length (nwsPdu (fill (nw_slot pri s))) \<le> retry_bytes layerIn p (xmitRecOf pri s)"
  shows "retried layerIn pri p s (xmit_resend now layerIn pri p fill s)"
  using xmit_resend_effect [OF assms(1), where pri = pri and fill = fill] word_pred_less [OF assms(2)] assms(3)
  by (auto simp: retried_def retry_overflows_def)

lemma xmit_lose_retried:
  assumes "tsa_inv s" "txRetriesLeft (xmitRecOf pri s) \<noteq> 0"
  shows "retried layerIn pri p s (xmit_lose_retry now pri s)"
  using xmit_lose_retry_effect [OF assms(1), where pri = pri] word_pred_less [OF assms(2)]
  by (auto simp: retried_def)

lemma xmit_pair_retried:
  assumes "tsa_inv s" "txRetriesLeft (xmitRecOf pri s) \<noteq> 0"
    and "retry_form layerIn p (xmitRecOf pri s) = RetryPair len"
  shows "retried layerIn pri p s (xmit_pair now layerIn pri p len s)"
proof -
  let ?x = "xmitRecOf pri s" and ?r = "xmit_reminder layerIn pri p len s"
  have n: "retry_bytes layerIn p ?x =
      max (2 + dataIndexOf (txVersion ?x) + len) (1 + dataIndexOf (txVersion ?x) + txApduSize ?x)"
    using assms(3) by (simp add: retry_bytes_def Let_def)
  have r: "tsa_inv ?r" "xmitRecOf pri ?r = ?x" "tsaQ pri ?r = tsaQ pri s" "nwBufSize pri ?r = nwBufSize pri s"
    "appCeRspInQ ?r = appCeRspInQ s" "memFault ?r \<Longrightarrow> memFault s \<or> retry_overflows layerIn pri p s"
    using assms(1) n by (auto simp: xmit_reminder_def Let_def nw_overflow_def retry_overflows_def)
  have fits: "length (nwsPdu (fill_pair_msg p ?x (nw_slot pri u))) \<le> retry_bytes layerIn p ?x" for u
    using n by simp
  have one: "retried layerIn pri p s (xmit_resend now layerIn pri p (fill_pair_msg p ?x) s)"
    using fits by (rule xmit_resend_retried [OF assms(1,2)])
  have "retried layerIn pri p ?r (xmit_resend now layerIn pri p (fill_pair_msg p ?x) ?r)"
    using fits assms(2) r(2) by (intro xmit_resend_retried [OF r(1)]) simp_all
  then have "retried layerIn pri p s (xmit_resend now layerIn pri p (fill_pair_msg p ?x) ?r)"
    using r by (auto simp: retried_def retry_overflows_def)
  then show ?thesis
    using one xmit_lose_retried [OF assms(1,2)] by (simp add: xmit_pair_def Let_def)
qed

lemma XmitTimerExpiration_retried:
  assumes inv: "tsa_inv s" and h: "QueueHead (tsaQ pri s) = Some p"
  shows "XmitTimerExpiration now layerIn pri s = TerminateTrans pri s \<or>
    retried layerIn pri p s (XmitTimerExpiration now layerIn pri s)"
proof (cases "txRetriesLeft (xmitRecOf pri s) = 0")
  case True
  then show ?thesis by (simp add: XmitTimerExpiration_def Let_def)
next
  case False
  note bytes = retry_bytes_def [of layerIn p "xmitRecOf pri s", unfolded Let_def]
  have "retried layerIn pri p s (update_xmitRec pri (\<lambda>x. x\<lparr>txRetriesLeft := 0\<rparr>) s)"
    using inv False by (auto simp: retried_def word_gt_0 intro!: tsa_inv_update_xmitRec retry_bytes_cong)
  moreover have "retried layerIn pri p s (xmit_resend now layerIn pri p (fill_msg p (xmitRecOf pri s) mt) s)"
    if "retry_form layerIn p (xmitRecOf pri s) = RetryMsg mt" for mt
    using that bytes by (intro xmit_resend_retried [OF inv False]) simp
  moreover have "retried layerIn pri p s (xmit_resend now layerIn pri p (fill_rem_msg p (xmitRecOf pri s) len) s)"
    if "retry_form layerIn p (xmitRecOf pri s) = RetryRemMsg len" for len
    using that bytes by (intro xmit_resend_retried [OF inv False]) simp
  ultimately show ?thesis
    using h xmit_lose_retried [OF inv False] xmit_pair_retried [OF inv False]
    by (auto simp: XmitTimerExpiration_def Let_def split: retry.splits)
qed

definition expire :: "Layer \<Rightarrow> bool \<Rightarrow> u32 \<Rightarrow> stack \<Rightarrow> stack" where
  "expire layerIn pri now s =
     (if txStatus (xmitRecOf pri s) = layer_tx layerIn then XmitTimerExpiration now layerIn pri s else s)"

lemma layer_tx_used [simp]: "layer_tx layerIn \<noteq> UNUSED_TX" "UNUSED_TX \<noteq> layer_tx layerIn"
  by (cases layerIn; simp add: layer_tx_def)+

lemma fold_expire_unused:
  "txStatus (xmitRecOf pri s) = UNUSED_TX \<Longrightarrow> fold (expire layerIn pri) nows s = s"
  by (induction nows) (simp_all add: expire_def)

lemma fold_expire_ends:
  assumes "tsa_inv s" "txStatus (xmitRecOf pri s) = layer_tx layerIn" "queue_list (tsaQ pri s) = p # ps"
    and "unat (txRetriesLeft (xmitRecOf pri s)) < length nows"
  shows "\<exists>s1. tsa_inv s1 \<and> queue_list (tsaQ pri s1) = p # ps \<and> appCeRspInQ s1 = appCeRspInQ s \<and>
    (memFault s1 \<longrightarrow> memFault s \<or> retry_overflows layerIn pri p s) \<and>
    fold (expire layerIn pri) nows s = TerminateTrans pri s1"
  using assms
proof (induction nows arbitrary: s)
  case Nil
  then show ?case by simp
next
  case (Cons now nows)
  have e: "expire layerIn pri now s = XmitTimerExpiration now layerIn pri s"
    using Cons.prems(2) by (simp add: expire_def)
  have h: "QueueHead (tsaQ pri s) = Some p"
    using Cons.prems(1,3) by (simp add: QueueHead_eq tsa_inv_queues)
  consider "XmitTimerExpiration now layerIn pri s = TerminateTrans pri s"
    | "retried layerIn pri p s (XmitTimerExpiration now layerIn pri s)"
    using XmitTimerExpiration_retried [OF Cons.prems(1) h, of now layerIn] by blast
  then show ?case
  proof cases
    case 1
    then show ?thesis
      using Cons.prems e TerminateTrans_effect(3) [OF Cons.prems(1,3)]
      by (auto simp: fold_expire_unused intro!: exI [of _ s])
  next
    case 2
    let ?s = "XmitTimerExpiration now layerIn pri s"
    have "unat (txRetriesLeft (xmitRecOf pri ?s)) < length nows"
      using 2 Cons.prems(4) by (auto simp: retried_def word_less_nat_alt)
    then show ?thesis
      using Cons.IH [of ?s] 2 Cons.prems e by (auto simp: retried_def retry_overflows_def)
  qed
qed



section \<open>A new message\<close>

lemma NewTrans_frame:
  assumes "NewTrans now pri a s = (st, out, s')"
  shows "tsaQ p s' = tsaQ p s" "nwQ p s' = nwQ p s" "xmitRecOf p s' = xmitRecOf p s"
    "tsaInQ s' = tsaInQ s" "tsaRespQ s' = tsaRespQ s" "appInQ s' = appInQ s"
    "appCeRspInQ s' = appCeRspInQ s" "recvRec s' = recvRec s" "memFault s' = memFault s"
    "nwBufSize p s' = nwBufSize p s" "p \<noteq> pri \<Longrightarrow> transRec p s' = transRec p s"
  using assms
  by (auto simp: NewTrans_def Let_def nwBufSize_def tsa_select_defs tcs_select_defs
      split: if_splits option.splits prod.splits)

definition poke_broadcast :: "bool \<Rightarrow> DestinationAddress \<Rightarrow> stack \<Rightarrow> stack" where
  "poke_broadcast pri d s =
     (if dstMode d = AM_BROADCAST
      then set_tsaQ pri (QueuePokeHead (\<lambda>p. p\<lparr>tssDestAddr := (tssDestAddr p)\<lparr>saTransmit :=
             set_attribute 0xF0 4 1 (saTransmit (tssDestAddr p))\<rparr>\<rparr>) (tsaQ pri s)) s
      else s)"

lemma poke_broadcast_frame [simp]:
  "nwQ p (poke_broadcast pri d s) = nwQ p s" "xmitRecOf p (poke_broadcast pri d s) = xmitRecOf p s"
  "transRec p (poke_broadcast pri d s) = transRec p s" "memFault (poke_broadcast pri d s) = memFault s"
  "recvRec (poke_broadcast pri d s) = recvRec s" "tsaInQ (poke_broadcast pri d s) = tsaInQ s"
  "tsaRespQ (poke_broadcast pri d s) = tsaRespQ s" "appInQ (poke_broadcast pri d s) = appInQ s"
  "appCeRspInQ (poke_broadcast pri d s) = appCeRspInQ s" "nwBufSize p (poke_broadcast pri d s) = nwBufSize p s"
  "p \<noteq> pri \<Longrightarrow> tsaQ p (poke_broadcast pri d s) = tsaQ p s"
  by (auto simp: poke_broadcast_def)

lemma poke_broadcast_inv:
  assumes "tsa_inv s" shows "tsa_inv (poke_broadcast pri d s)"
proof (rule tsa_invI)
  fix p
  show "tx_inv p (poke_broadcast pri d s)"
    using tsa_inv_tx [OF assms, of p]
    by (cases "p = pri")
      (auto simp: tx_inv_def poke_broadcast_def queue_list_PokeHead split: list.splits)
qed (use assms in \<open>simp_all add: tsa_inv_queues\<close>)

lemma new_msg_inherit_frame:
  assumes "new_msg_inherit pri p tn s = (tn', s')"
  shows "tsaQ b s' = tsaQ b s" "nwQ b s' = nwQ b s" "xmitRecOf b s' = xmitRecOf b s"
    "tsaInQ s' = tsaInQ s" "tsaRespQ s' = tsaRespQ s" "appInQ s' = appInQ s"
    "appCeRspInQ s' = appCeRspInQ s" "recvRec s' = recvRec s" "memFault s' = memFault s"
    "tcInProgress (transRec b s') = tcInProgress (transRec b s)"
    "b \<noteq> pri \<Longrightarrow> transRec b s' = transRec b s"
    "tcTransNum (transRec pri s) = tn \<Longrightarrow> tcTransNum (transRec pri s') = tn'"
    "\<not> tssProxy p \<Longrightarrow> tn' = tn \<and> s' = s" "nwBufSize b s' = nwBufSize b s"
  using assms
  by (auto simp: new_msg_inherit_def OverrideTrans_def nwBufSize_def tsa_select_defs tcs_select_defs
      split: option.splits if_splits)

lemma new_xmitRec_fields [simp]:
  "txTransNum (new_xmitRec now layerIn p d tn r t x) = tn"
  "txStatus (new_xmitRec now layerIn p d tn r t x) = layer_tx layerIn"
  "txAckReceived (new_xmitRec now layerIn p d tn r t x) = replicate (MAX_GROUP_NUMBER + 1) False"
  "txVersion (new_xmitRec now layerIn p d tn r t x) = txVersion x"
  "txApdu (new_xmitRec now layerIn p d tn r t x) = tssApdu p"
  "txApduSize (new_xmitRec now layerIn p d tn r t x) = tssApduSize p"
  "txNwDestAddr (new_xmitRec now layerIn p d tn r t x) = d"
  "txAckCount (new_xmitRec now layerIn p d tn r t x) = 0"
  "txRetriesLeft (new_xmitRec now layerIn p d tn r t x) = IZOT_SENDSN_RETRY (tssDestAddr p)"
  "txAuth (new_xmitRec now layerIn p d tn r t x) = tssAuth p"
  by (simp_all add: new_xmitRec_def Let_def)

text \<open>What a granted transaction leaves, up to the PDU.\<close>

lemma new_msg_begin_granted:
  assumes inv: "tsa_inv s" and idle: "txStatus (xmitRecOf pri s) = UNUSED_TX"
    and q: "queue_list (tsaQ pri s) \<noteq> []"
    and new: "NewTrans now pri d (poke_broadcast pri d s) = (st, Some tn, s2)"
  obtains tn' s4 where "new_msg_begin now layerIn pri p d r s = new_msg_emit layerIn pri p d s4"
    "tsa_inv s4" "transRec pri s4 = \<lparr>tcTransNum = tn', tcInProgress = True\<rparr>"
    "xmitRecOf pri s4 = new_xmitRec now layerIn p d tn' r
        (DecodeTxTimer (IZOT_SENDSN_TRANSMIT_TIMER (tssDestAddr p))) (xmitRecOf pri s)"
    "nwQ pri s4 = nwQ pri s" "memFault s4 = memFault s" "nwBufSize pri s4 = nwBufSize pri s"
    "\<not> tssProxy p \<Longrightarrow> tn' = tn"
    "length (queue_list (tsaQ pri s4)) = length (queue_list (tsaQ pri s))"
proof -
  let ?s1 = "poke_broadcast pri d s"
  obtain tn' s3 where inh: "new_msg_inherit pri p tn s2 = (tn', s3)" by force
  note f2 = NewTrans_frame [OF new] and f3 = new_msg_inherit_frame [OF inh]
  have inv1: "tsa_inv ?s1" using inv by (rule poke_broadcast_inv)
  have t2: "transRec pri s2 = \<lparr>tcTransNum = tn, tcInProgress = True\<rparr>"
    using NewTrans_cases [OF new] by auto
  define s4 where "s4 = update_xmitRec pri (new_xmitRec now layerIn p d tn' r
      (DecodeTxTimer (IZOT_SENDSN_TRANSMIT_TIMER (tssDestAddr p)))) s3"
  have t3: "transRec pri s3 = \<lparr>tcTransNum = tn', tcInProgress = True\<rparr>"
    using t2 f3(10) [of pri] f3(12) by (cases "transRec pri s3") simp
  have len: "queue_wf (tsaQ pri s)" using inv by (rule tsa_inv_queues)
  then have l1: "length (queue_list (tsaQ pri ?s1)) = length (queue_list (tsaQ pri s))"
    by (auto simp: poke_broadcast_def queue_list_PokeHead split: list.splits)
  have q1: "queue_list (tsaQ pri ?s1) \<noteq> []" using l1 q by (metis length_0_conv)
  have "tx_inv b s4" for b
  proof (cases "b = pri")
    case True
    then show ?thesis
      using tsa_inv_tx [OF inv1, of pri] t3 q1
      by (auto simp: s4_def tx_inv_def f2 f3)
  next
    case False
    then show ?thesis
      using tsa_inv_tx [OF inv1, of b] by (simp add: s4_def tx_inv_def f2 f3)
  qed
  then have inv4: "tsa_inv s4"
    by (rule tsa_invI) (simp_all add: s4_def f2 f3 tsa_inv_queues [OF inv])
  show thesis
  proof (rule that [of s4 tn', OF _ inv4])
    show "new_msg_begin now layerIn pri p d r s = new_msg_emit layerIn pri p d s4"
      using new inh by (simp add: new_msg_begin_def poke_broadcast_def s4_def Let_def split: if_splits)
  qed (use t3 l1 f3(13) in \<open>auto simp: s4_def f2 f3\<close>)
qed

text \<open>The PDU of a new message does not fit when its header byte and its second one have no room.\<close>

definition new_msg_bytes :: "bool \<Rightarrow> TSASendParam \<Rightarrow> stack \<Rightarrow> nat" where
  "new_msg_bytes pri p s = 1 + dataIndexOf (txVersion (xmitRecOf pri s)) + tssApduSize p"

lemma new_msg_emit_fault:
  assumes "xmitRecOf pri s4 = new_xmitRec now layerIn p d tn r t (xmitRecOf pri s)"
    and "nwBufSize pri s4 = nwBufSize pri s"
  shows "memFault (new_msg_emit layerIn pri p d s4) \<longleftrightarrow>
    memFault s4 \<or> nwBufSize pri s < new_msg_bytes pri p s"
  using assms by (simp add: new_msg_emit_def Let_def nw_overflow_def new_msg_bytes_def)

lemma new_msg_begin_inv:
  assumes inv: "tsa_inv s" and idle: "txStatus (xmitRecOf pri s) = UNUSED_TX"
    and q: "queue_list (tsaQ pri s) \<noteq> []"
  shows "tsa_inv (new_msg_begin now layerIn pri p d r s)"
    and "memFault (new_msg_begin now layerIn pri p d r s) \<Longrightarrow>
      memFault s \<or> nwBufSize pri s < new_msg_bytes pri p s"
proof -
  obtain st out s2 where new: "NewTrans now pri d (poke_broadcast pri d s) = (st, out, s2)"
    by (metis prod_cases3)
  have "tsa_inv (new_msg_begin now layerIn pri p d r s) \<and>
      (memFault (new_msg_begin now layerIn pri p d r s) \<longrightarrow>
        memFault s \<or> nwBufSize pri s < new_msg_bytes pri p s)"
  proof (cases out)
    case None
    then have eq: "new_msg_begin now layerIn pri p d r s = s2"
      using new by (simp add: new_msg_begin_def poke_broadcast_def Let_def split: if_splits)
    note f2 = NewTrans_frame [OF new]
    have idle1: "\<not> tcInProgress (transRec pri (poke_broadcast pri d s))"
      using tsa_inv_tx [OF inv, of pri] idle by (simp add: tx_inv_def)
    then have "\<not> tcInProgress (transRec pri s2)" using NewTrans_cases [OF new] None by auto
    then have "tx_inv b s2" for b
      using tsa_inv_tx [OF poke_broadcast_inv [OF inv], of b pri d] idle
      by (cases "b = pri") (auto simp: tx_inv_def f2)
    then show ?thesis
      using tsa_inv_queues [OF inv] by (auto simp: eq f2 intro!: tsa_invI)
  next
    case (Some tn)
    obtain tn' s4 where s4: "new_msg_begin now layerIn pri p d r s = new_msg_emit layerIn pri p d s4"
      "tsa_inv s4" "memFault s4 = memFault s" "nwBufSize pri s4 = nwBufSize pri s"
      "xmitRecOf pri s4 = new_xmitRec now layerIn p d tn' r
        (DecodeTxTimer (IZOT_SENDSN_TRANSMIT_TIMER (tssDestAddr p))) (xmitRecOf pri s)"
      by (rule new_msg_begin_granted [OF inv idle q new [unfolded Some], of layerIn p r])
    have "tsa_inv (new_msg_emit layerIn pri p d s4)" using s4(2) by (simp add: new_msg_emit_def Let_def)
    then show ?thesis using s4(1,3) new_msg_emit_fault [OF s4(5,4)] by simp
  qed
  then show "tsa_inv (new_msg_begin now layerIn pri p d r s)"
    "memFault (new_msg_begin now layerIn pri p d r s) \<Longrightarrow>
      memFault s \<or> nwBufSize pri s < new_msg_bytes pri p s" by auto
qed

text \<open>When \<open>SendNewMsg\<close> gets as far as asking for a transaction.\<close>

definition new_msg_accepted :: "Layer \<Rightarrow> bool \<Rightarrow> TSASendParam \<Rightarrow> stack \<Rightarrow> bool" where
  "new_msg_accepted layerIn pri p s \<longleftrightarrow>
     (if layerIn = TRANSPORT
      then tssService p \<in> {IzotServiceAcknowledged, IzotServiceRepeated} \<and>
           (tssProxy p \<or> \<not> NV_LAST_TAG (tssTag p))
      else tssService p = IzotServiceRequest) \<and>
     \<not> new_msg_rejected p (nwBufSize pri s)"

lemma attribute_nibble: "get_attribute 0xF0 4 b \<le> 15"
proof -
  have "get_attribute 0xF0 4 b = take_bit 4 (drop_bit 4 b)"
    by (rule bit_word_eqI) (auto simp: get_attribute_def bit_simps nibble_mask)
  then have "unat (get_attribute 0xF0 4 b) < 2 ^ 4"
    by (simp only: unsigned_take_bit_eq) (rule take_bit_nat_less_exp)
  then show ?thesis by (simp add: word_le_nat_alt)
qed

lemma DecodeRptTimer_total: "\<exists>t. DecodeRptTimer (IZOT_SENDSN_REPEAT_TIMER a) = Inr t"
  using attribute_nibble [of "saRepeatRetry a"] by (simp add: DecodeRptTimer_def)

lemma SendNewMsg_accepted:
  assumes "QueueHead (tsaQ pri s) = Some p" and "new_msg_accepted layerIn pri p s"
    and "new_msg_dest p = Some d"
  obtains r where "SendNewMsg now layerIn pri s = new_msg_begin now layerIn pri p d r s"
proof -
  obtain r where r: "DecodeRptTimer (IZOT_SENDSN_REPEAT_TIMER (tssDestAddr p)) = Inr r"
    using DecodeRptTimer_total by blast
  have "SendNewMsg now layerIn pri s = new_msg_begin now layerIn pri p d r s"
    using assms r by (cases layerIn) (auto simp: SendNewMsg_def new_msg_accepted_def)
  then show thesis by (rule that)
qed

text \<open>
  The test that a new message fits leaves one byte out: in the enhanced mode the header has
  two bytes, so an APDU that fills the buffer but for one byte is written over its end.
\<close>

definition header_overflows :: "bool \<Rightarrow> TSASendParam \<Rightarrow> stack \<Rightarrow> bool" where
  "header_overflows pri p s \<longleftrightarrow>
     txVersion (xmitRecOf pri s) \<noteq> LsProtocolModeLegacy \<and> tssApduSize p + 1 = nwBufSize pri s"

lemma accepted_overflow:
  "\<not> new_msg_rejected p (nwBufSize pri s) \<Longrightarrow>
     nwBufSize pri s < new_msg_bytes pri p s \<longleftrightarrow> header_overflows pri p s"
  by (auto simp: new_msg_rejected_def new_msg_bytes_def header_overflows_def dataIndexOf_def)

lemma SendNewMsg_inv:
  assumes inv: "tsa_inv s" and idle: "txStatus (xmitRecOf pri s) = UNUSED_TX"
    and p: "queue_list (tsaQ pri s) = p # ps"
  shows "tsa_inv (SendNewMsg now layerIn pri s)"
    and "memFault (SendNewMsg now layerIn pri s) \<Longrightarrow> memFault s \<or> header_overflows pri p s"
proof -
  have q: "queue_list (tsaQ pri s) \<noteq> []" using p by simp
  have h: "QueueHead (tsaQ pri s) = Some p" "tssPriority p = pri"
    using p inv tsa_inv_tx [OF inv, of pri] by (simp_all add: QueueHead_eq tsa_inv_queues tx_inv_def)
  have c: "tsa_inv (SendCompletion p ok s)" "memFault (SendCompletion p ok s) = memFault s" for ok
    using SendCompletion_effect(1) [OF inv p h(2) idle] by (simp_all add: SendCompletion_frame)
  note b = new_msg_begin_inv [OF inv idle q]
  show "tsa_inv (SendNewMsg now layerIn pri s)"
    using inv c b(1) by (auto simp: SendNewMsg_def h(1) split: sum.splits option.splits)
  show "memFault (SendNewMsg now layerIn pri s) \<Longrightarrow> memFault s \<or> header_overflows pri p s"
    using c(2) b(2) [of now layerIn p] accepted_overflow [of p pri s]
    by (auto simp: SendNewMsg_def h(1) split: sum.splits option.splits if_splits)
qed

lemma XmitTimerExpiration_inv:
  assumes "tsa_inv s" and p: "queue_list (tsaQ pri s) = p # ps"
  shows "tsa_inv (XmitTimerExpiration now layerIn pri s)"
    and "memFault (XmitTimerExpiration now layerIn pri s) \<Longrightarrow> memFault s \<or> retry_overflows layerIn pri p s"
proof -
  have h: "QueueHead (tsaQ pri s) = Some p"
    using p assms(1) by (simp add: QueueHead_eq tsa_inv_queues)
  show "tsa_inv (XmitTimerExpiration now layerIn pri s)"
    "memFault (XmitTimerExpiration now layerIn pri s) \<Longrightarrow> memFault s \<or> retry_overflows layerIn pri p s"
    using XmitTimerExpiration_retried [OF assms(1) h, of now layerIn]
      TerminateTrans_effect(1,7) [OF assms(1) p]
    by (auto simp: retried_def)
qed

text \<open>
  When a round of sending writes past a slot of the network layer's queue: for a message in
  transit the bytes of its retry, for a new one the second byte of its header.
\<close>

definition layer_send_overflows :: "Layer \<Rightarrow> stack \<Rightarrow> bool" where
  "layer_send_overflows layerIn s \<longleftrightarrow>
     (\<exists>pri p. QueueHead (tsaQ pri s) = Some p \<and>
        (if txStatus (xmitRecOf pri s) = layer_tx layerIn then retry_overflows layerIn pri p s
         else txStatus (xmitRecOf pri s) = UNUSED_TX \<and> header_overflows pri p s))"

lemma layer_send_inv:
  assumes "tsa_inv s"
  shows "tsa_inv (layer_send now layerIn s)"
    and "memFault (layer_send now layerIn s) \<Longrightarrow> memFault s \<or> layer_send_overflows layerIn s"
proof -
  have head: "QueueHead (tsaQ pri s) = Some p" if "queue_list (tsaQ pri s) = p # ps" for pri p ps
    using that assms by (simp add: QueueHead_eq tsa_inv_queues)
  have x: "tsa_inv (XmitTimerExpiration now layerIn pri s) \<and>
      (memFault (XmitTimerExpiration now layerIn pri s) \<longrightarrow> memFault s \<or> layer_send_overflows layerIn s)"
    if "tx_timer_expired now (layer_tx layerIn) pri s" for pri
  proof -
    have st: "txStatus (xmitRecOf pri s) = layer_tx layerIn" using that by (simp add: tx_timer_expired_def)
    then have used: "txStatus (xmitRecOf pri s) \<noteq> UNUSED_TX" by simp
    obtain p ps where p: "queue_list (tsaQ pri s) = p # ps" using assms used by (rule tsa_head)
    from XmitTimerExpiration_inv [OF assms p, of now layerIn] head [OF p] st show ?thesis
      unfolding layer_send_overflows_def by metis
  qed
  have n: "tsa_inv (SendNewMsg now layerIn pri s) \<and>
      (memFault (SendNewMsg now layerIn pri s) \<longrightarrow> memFault s \<or> layer_send_overflows layerIn s)"
    if "tx_can_start pri s" for pri
  proof -
    have st: "txStatus (xmitRecOf pri s) = UNUSED_TX" "queue_list (tsaQ pri s) \<noteq> []"
      using that assms by (simp_all add: tx_can_start_def tsa_inv_queues)
    then obtain p ps where p: "queue_list (tsaQ pri s) = p # ps" by (cases "queue_list (tsaQ pri s)") auto
    from SendNewMsg_inv [OF assms st(1) p, of now layerIn] head [OF p] st(1) show ?thesis
      unfolding layer_send_overflows_def by (metis layer_tx_used(2))
  qed
  show "tsa_inv (layer_send now layerIn s)"
    "memFault (layer_send now layerIn s) \<Longrightarrow> memFault s \<or> layer_send_overflows layerIn s"
    using x n assms by (auto simp: layer_send_def split: if_splits)
qed

lemma TransportLayerSend_inv:
  assumes "tsa_inv s"
  shows "tsa_inv (TransportLayerSend now s)"
    and "memFault (TransportLayerSend now s) \<Longrightarrow> memFault s \<or> layer_send_overflows TRANSPORT s"
  using layer_send_inv [OF assms] assms by (auto simp: TransportLayerSend_def split: if_splits)

text \<open>
  Starting a transaction: for a message that passes the tests, when the transaction
  sublayer grants a number, exactly one NPDU parameter block goes to the network layer (when
  its queue has room). Its PDU decodes to the message's authentication flag, the service's
  message type and the number for which \<open>ValidateTrans\<close> will accept answers, and carries the
  APDU unchanged; the transmit record is active with the retries of the address, no answer
  counted, and the invariant holds.
\<close>

theorem new_message_starts_transaction:
  assumes "tsa_inv s" "txStatus (xmitRecOf pri s) = UNUSED_TX" "queue_list (tsaQ pri s) = p # ps"
    and "new_msg_accepted layerIn pri p s" "new_msg_dest p = Some d"
    and "NewTrans now pri d (poke_broadcast pri d s) = (st, Some tn, s2)"
    and "tssApduSize p = length (tssApdu p)" "length (tssApdu p) < 60000" "\<not> tssProxy p"
    and "transNum_fits (txVersion (xmitRecOf pri s)) tn" "has_room (nwQ pri s)"
  shows "(let s' = SendNewMsg now layerIn pri s; x = xmitRecOf pri s'
     in tsa_inv s' \<and> (memFault s' \<longleftrightarrow> memFault s \<or> header_overflows pri p s) \<and>
        ValidateTrans pri tn s' = TRANS_CURRENT \<and>
        txStatus x = layer_tx layerIn \<and> txTransNum x = tn \<and> txAckCount x = 0 \<and>
        txRetriesLeft x = IZOT_SENDSN_RETRY (tssDestAddr p) \<and>
        (\<exists>n. queue_list (nwQ pri s') = queue_list (nwQ pri s) @ [n] \<and> nwsDestAddr n = d \<and>
           nwsPduType n = layer_pduType layerIn \<and> nwsPduSize n = length (nwsPdu n) \<and>
           TSPDU_auth (byte_at (nwsPdu n) 0) = tssAuth p \<and>
           TSPDU_pduMsgType (byte_at (nwsPdu n) 0) = new_msg_type layerIn p AND 7 \<and>
           pdu_transNum (nwsVersion n) (nwsPdu n) = tn \<and>
           bytes_from (nwsPdu n) (1 + dataIndexOf (nwsVersion n)) (tssApduSize p) = tssApdu p))"
proof -
  have h: "QueueHead (tsaQ pri s) = Some p"
    using assms(1,3) by (simp add: QueueHead_eq tsa_inv_queues)
  obtain r where r: "SendNewMsg now layerIn pri s = new_msg_begin now layerIn pri p d r s"
    using SendNewMsg_accepted [OF h assms(4,5)] by blast
  have ne: "queue_list (tsaQ pri s) \<noteq> []" using assms(3) by simp
  obtain s4 where s4: "new_msg_begin now layerIn pri p d r s = new_msg_emit layerIn pri p d s4"
    "tsa_inv s4" "transRec pri s4 = \<lparr>tcTransNum = tn, tcInProgress = True\<rparr>"
    "xmitRecOf pri s4 = new_xmitRec now layerIn p d tn r
        (DecodeTxTimer (IZOT_SENDSN_TRANSMIT_TIMER (tssDestAddr p))) (xmitRecOf pri s)"
    "nwQ pri s4 = nwQ pri s" "memFault s4 = memFault s" "nwBufSize pri s4 = nwBufSize pri s"
    using new_msg_begin_granted [OF assms(1,2) ne assms(6), of layerIn p r] assms(9) by metis
  have "memFault (new_msg_emit layerIn pri p d s4) \<longleftrightarrow> memFault s \<or> header_overflows pri p s"
    using new_msg_emit_fault [OF s4(4,7)] s4(6) assms(4) accepted_overflow [of p pri s]
    by (simp add: new_msg_accepted_def)
  let ?v = "txVersion (xmitRecOf pri s)"
  let ?pdu = "tspdu ?v (tssAuth p) (new_msg_type layerIn p) tn (tssApdu p)"
  have a: "xmit_apdu (new_xmitRec now layerIn p d tn r t x) = tssApdu p" for t x
    by (simp add: xmit_apdu_def assms(7))
  have len: "length ?pdu = length (tssApdu p) + dataIndexOf ?v + 1"
    by (simp add: tspdu_def dataIndexOf_def)
  have small: "length (tssApdu p) + dataIndexOf ?v + 1 < 2 ^ 16"
    using assms(8) by (simp add: dataIndexOf_def)
  have wf: "queue_wf (nwQ pri s)" using assms(1) by (rule tsa_inv_queues)
  obtain f where emit: "new_msg_emit layerIn pri p d s4 = nw_emit pri f s4"
    and f: "\<And>n. nwsPdu (f n) = ?pdu \<and> nwsVersion (f n) = sent_version ?v \<and> nwsDestAddr (f n) = d \<and>
      nwsPduType (f n) = layer_pduType layerIn \<and> nwsPduSize (f n) = length ?pdu"
    by (rule that [OF new_msg_emit_def [unfolded Let_def]])
      (use small in \<open>simp add: a len s4(4) assms(7)\<close>)
  have q: "queue_list (nwQ pri (nw_emit pri f s4)) =
      queue_list (nwQ pri s) @ [f (QueueDeref (nwQ pri s) (qtail (nwQ pri s)))]"
    using wf assms(11) by (simp add: s4(5) queue_list_Emit has_room_def)
  note rt = tspdu_roundtrip [OF assms(10), of "tssAuth p" "new_msg_type layerIn p" "tssApdu p"]
  note fault = \<open>memFault (new_msg_emit layerIn pri p d s4) \<longleftrightarrow> _\<close> [unfolded emit]
  show ?thesis
    unfolding r s4(1) emit Let_def fault
    using s4(2,3,4) q f rt assms(7) by (auto simp: ValidateTrans_def)
qed

lemma sample_new_dest: "new_msg_dest sampleTss = Some (sampleDst\<lparr>dstAddr :=
    DA_SubnetNode \<lparr>snSubnet = 1, snNode = 0x94\<rparr>\<rparr>)"
  by (simp add: new_msg_dest_def TSA_AddressConversion_def sampleTss_def sampleSendAddress_def
      sampleDst_def sampleDmn_def get_attribute_def COMPUTE_DOMAIN_INDEX_def)

lemma sample_accepted: "new_msg_accepted TRANSPORT False sampleTss loadedStack"
  by (simp add: new_msg_accepted_def new_msg_rejected_def sampleTss_def sampleSendAddress_def
      NV_LAST_TAG_def get_attribute_def nwBufSize_def loadedStack_def)

theorem new_message_starts_transaction_witness:
  "ValidateTrans False 0 (SendNewMsg 0 TRANSPORT False loadedStack) = TRANS_CURRENT \<and>
   queueEntries (nwOutQ (SendNewMsg 0 TRANSPORT False loadedStack)) = 1"
proof -
  let ?d = "sampleDst\<lparr>dstAddr := DA_SubnetNode \<lparr>snSubnet = 1, snNode = 0x94\<rparr>\<rparr>"
  have d: "dest_valid [sampleDomain, sampleDomain1] ?d"
    using sampleDst_valid by (simp add: dest_valid_def sampleDst_def sampleSn_def)
  have "tcs_idle False [sampleDomain, sampleDomain1] loadedStack"
    "last_tids False loadedStack = Map.empty"
    using sampleStack_tcs_idle [of False] sample_last_tids [of False]
    by (simp_all add: tcs_idle_def tcs_inv_def loadedStack_def tcs_select_defs tid_entries_def
        last_tids_def)
  then obtain t s2 where n: "NewTrans 0 False ?d loadedStack = (LonStatusNoError, Some t, s2)"
    "t = transID False loadedStack"
    using NewTrans_granted [OF _ d, of False loadedStack 0]
    by (auto simp: TID_TABLE_SIZE_def tcs_granted_def)
  have t: "t = 0" using n(2) by (simp add: loadedStack_def transID_def)
  have facts: "txStatus (xmitRecOf False loadedStack) = UNUSED_TX"
    "poke_broadcast False ?d loadedStack = loadedStack" "\<not> tssProxy sampleTss"
    "tssApduSize sampleTss = length (tssApdu sampleTss)" "length (tssApdu sampleTss) < 60000"
    "transNum_fits (txVersion (xmitRecOf False loadedStack)) 0" "has_room (nwQ False loadedStack)"
    by (simp_all add: loadedStack_def tsa_select_defs sampleTx_def poke_broadcast_def sampleTss_def
        transNum_fits_def has_room_def)
  have "queue_list (nwQ False loadedStack) = []" by (simp add: loadedStack_def nwQ_def)
  moreover have "nwOutQ s = nwQ False s" for s by (simp add: nwQ_def)
  ultimately show ?thesis
    using new_message_starts_transaction [OF loadedStack_tsa_inv facts(1) loadedStack_queue
        sample_accepted sample_new_dest, of 0 LonStatusNoError t s2] facts n(1) t
    by (auto simp: Let_def simp flip: length_queue_list simp del: length_queue_list)
qed

section \<open>Destinations and retries\<close>

lemma attribute_top_bit: "unat (get_attribute 0x80 7 b) < 2"
proof -
  have "unat (get_attribute 0x80 7 b) = unat (b AND 0x80) div 2 ^ 7"
    by (simp add: get_attribute_def drop_bit_eq_div unat_div_distrib)
  then show ?thesis using unat_u8 [of "b AND 0x80"] by simp
qed

text \<open>
  The flex domain never reaches the network layer: whatever domain index the sender
  asked for (\<open>FLEX_DOMAIN\<close> is 2, \<open>COMPUTE_DOMAIN_INDEX\<close> is 3), the destination of a new
  message has the one-bit domain index of its address, so it is 0 or 1.
\<close>

theorem flex_domain_is_lost:
  assumes "new_msg_dest p = Some d"
  shows "domainIndex (dstDmn d) = IZOT_SENDSN_DOMAIN (tssDestAddr p) \<and>
    domainIndex (dstDmn d) \<noteq> FLEX_DOMAIN \<and> unat (domainIndex (dstDmn d)) < 2"
proof -
  have "domainIndex (dstDmn d) = IZOT_SENDSN_DOMAIN (tssDestAddr p)"
    using assms
    by (auto simp: new_msg_dest_def TSA_AddressConversion_def Let_def split: if_splits prod.splits)
  moreover have "unat FLEX_DOMAIN = 2" by (simp add: FLEX_DOMAIN_def)
  ultimately show ?thesis using attribute_top_bit [of "saDomain (tssDestAddr p)"] by auto
qed

definition flexTss :: TSASendParam where
  "flexTss = sampleTss\<lparr>tssDmn := (tssDmn sampleTss)\<lparr>domainIndex := FLEX_DOMAIN\<rparr>\<rparr>"

theorem flex_domain_is_lost_witness:
  "domainIndex (tssDmn flexTss) = FLEX_DOMAIN \<and> domainIndex (dstDmn (the (new_msg_dest flexTss))) = 0"
proof -
  obtain d where d: "new_msg_dest flexTss = Some d"
    by (simp add: new_msg_dest_def TSA_AddressConversion_def flexTss_def sampleTss_def
        sampleSendAddress_def get_attribute_def COMPUTE_DOMAIN_INDEX_def FLEX_DOMAIN_def)
  moreover have "IZOT_SENDSN_DOMAIN (tssDestAddr flexTss) = 0"
    by (simp add: flexTss_def sampleTss_def sampleSendAddress_def get_attribute_def)
  ultimately show ?thesis using flex_domain_is_lost [OF d] by (simp add: flexTss_def)
qed

lemma altPath_bits:
  "bit (retry_altPath p x) 1"
  "\<not> tssAltPathOverride p \<Longrightarrow> bit (retry_altPath p x) 0 \<longleftrightarrow>
     tssService p \<noteq> IzotServiceRepeated \<and> txRetriesLeft x \<le> 2"
proof -
  have m: "bit ALT_RETRY n \<longleftrightarrow> n = 1" "bit ALT_PATH n \<longleftrightarrow> n = 0" for n
    using bit_exp_iff [where 'a = "8 word", of 1 n] bit_1_iff [where 'a = "8 word", of n]
    by (auto simp: ALT_RETRY_def ALT_PATH_def)
  show "bit (retry_altPath p x) 1" by (simp add: retry_altPath_def bit_or_iff m)
  show "\<not> tssAltPathOverride p \<Longrightarrow> bit (retry_altPath p x) 0 \<longleftrightarrow>
     tssService p \<noteq> IzotServiceRepeated \<and> txRetriesLeft x \<le> 2"
    by (simp add: retry_altPath_def tsa_altPath_def bit_or_iff bit_and_iff bit_not_iff m ALT_PATH_COUNT_def)
qed

text \<open>
  A retry repeats the message: while retries are left and the message to one node or to
  a subnet is unanswered, an expiration of the transmit timer sends the same APDU to the same
  destination with the same transaction number, marked as a retry; it takes the alternate
  path exactly for the last two retries of a service other than repeated. One retry is used
  up, and the timer is restarted, with the extra time of the last retry added to it.
\<close>

theorem retry_repeats_message:
  assumes "tsa_inv s" "txStatus (xmitRecOf pri s) = layer_tx layerIn" "queue_list (tsaQ pri s) = p # ps"
    and "x = xmitRecOf pri s"
    and "txRetriesLeft x \<noteq> 0" "txDestCount x \<noteq> txAckCount x" "txAckCount x = 0"
    and "dstMode (txNwDestAddr x) \<noteq> AM_MULTICAST"
    and "layerIn = SESSION \<longrightarrow> tssService p = IzotServiceRequest"
    and "txApduSize x = length (txApdu x)" "length (txApdu x) < 60000"
    and "transNum_fits (txVersion x) (txTransNum x)" "has_room (nwQ pri s)"
  shows "(let s' = XmitTimerExpiration now layerIn pri s; x' = xmitRecOf pri s'
     in txRetriesLeft x' = txRetriesLeft x - 1 \<and>
        txXmitTimerValue x' = (if txRetriesLeft x = 1 then txXmitTimerValue x + txTimerDeltaLast x
                               else txXmitTimerValue x) \<and>
        txXmitTimer x' = SetLonTimer now (txXmitTimer x) (ucast (txXmitTimerValue x')) \<and>
        (\<exists>n. queue_list (nwQ pri s') = queue_list (nwQ pri s) @ [n] \<and>
           nwsDestAddr n = txNwDestAddr x \<and> nwsPduSize n = length (nwsPdu n) \<and>
           bit (nwsAltPath n) 1 \<and>
           (\<not> tssAltPathOverride p \<longrightarrow> (bit (nwsAltPath n) 0 \<longleftrightarrow>
              tssService p \<noteq> IzotServiceRepeated \<and> txRetriesLeft x \<le> 2)) \<and>
           pdu_transNum (nwsVersion n) (nwsPdu n) = txTransNum x \<and>
           bytes_from (nwsPdu n) (1 + dataIndexOf (nwsVersion n)) (length (txApdu x)) = txApdu x))"
proof -
  have h: "QueueHead (tsaQ pri s) = Some p" and wf: "queue_wf (nwQ pri s)"
    using assms(1,3) by (simp_all add: QueueHead_eq tsa_inv_queues)
  define mt where "mt = (if tssService p = IzotServiceRepeated then UNACK_RPT_MSG
      else if layerIn = TRANSPORT then ACKD_MSG else REQUEST_MSG)"
  have form: "retry_form layerIn p x = RetryMsg mt"
    using assms(8,9) by (cases layerIn) (auto simp: retry_form_def mt_def)
  have e: "XmitTimerExpiration now layerIn pri s = xmit_resend now layerIn pri p (fill_msg p x mt) s"
    using assms(5-7) h form wf assms(4) by (auto simp: XmitTimerExpiration_def Let_def)
  let ?pdu = "tspdu (txVersion x) (tssAuth p) mt (txTransNum x) (txApdu x)"
  have a: "xmit_apdu x = txApdu x" using assms(10) by (simp add: xmit_apdu_def)
  have len: "length ?pdu = length (txApdu x) + 1 + dataIndexOf (txVersion x)"
    by (simp add: tspdu_def dataIndexOf_def)
  have small: "length (txApdu x) + 1 + dataIndexOf (txVersion x) < 2 ^ 16"
    using assms(11) by (simp add: dataIndexOf_def)
  let ?n = "QueueDeref (nwQ pri s) (qtail (nwQ pri s))"
  have one: "txRetriesLeft x - 1 = 0 \<longleftrightarrow> txRetriesLeft x = 1" by simp
  have q: "\<exists>n. queue_list (nwQ pri (xmit_resend now layerIn pri p (fill_msg p x mt) s)) =
      queue_list (nwQ pri s) @ [n] \<and> nwsDestAddr n = txNwDestAddr x \<and> nwsPduSize n = length ?pdu \<and>
      nwsPdu n = ?pdu \<and> nwsVersion n = sent_version (txVersion x) \<and> nwsAltPath n = retry_altPath p x"
    using wf assms(13) small
    by (simp add: xmit_resend_def Let_def queue_list_Emit has_room_def fill_msg_def a len assms(10)
        flip: assms(4))
  note rt = tspdu_roundtrip [OF assms(12), of "tssAuth p" mt "txApdu x"]
  show ?thesis
    unfolding e Let_def
  proof (intro conjI)
    show "\<exists>n. queue_list (nwQ pri (xmit_resend now layerIn pri p (fill_msg p x mt) s)) =
            queue_list (nwQ pri s) @ [n] \<and>
           nwsDestAddr n = txNwDestAddr x \<and> nwsPduSize n = length (nwsPdu n) \<and>
           bit (nwsAltPath n) 1 \<and>
           (\<not> tssAltPathOverride p \<longrightarrow> (bit (nwsAltPath n) 0 \<longleftrightarrow>
              tssService p \<noteq> IzotServiceRepeated \<and> txRetriesLeft x \<le> 2)) \<and>
           pdu_transNum (nwsVersion n) (nwsPdu n) = txTransNum x \<and>
           bytes_from (nwsPdu n) (1 + dataIndexOf (nwsVersion n)) (length (txApdu x)) = txApdu x"
      using q rt altPath_bits [of p x] by metis
  qed (simp_all add: xmit_resend_def Let_def one flip: assms(4))
qed

theorem retry_repeats_message_witness:
  "txRetriesLeft (xmitRec (XmitTimerExpiration 100 TRANSPORT False (activeStack (DA_Broadcast 1)))) = 0"
proof -
  let ?s = "activeStack (DA_Broadcast 1)"
  have f: "txStatus (xmitRecOf False ?s) = layer_tx TRANSPORT" "txRetriesLeft (xmitRecOf False ?s) = 1"
    "txDestCount (xmitRecOf False ?s) = 2" "txAckCount (xmitRecOf False ?s) = 0"
    "dstMode (txNwDestAddr (xmitRecOf False ?s)) = AM_BROADCAST"
    "txApdu (xmitRecOf False ?s) = []" "txApduSize (xmitRecOf False ?s) = 0"
    "transNum_fits (txVersion (xmitRecOf False ?s)) (txTransNum (xmitRecOf False ?s))"
    "has_room (nwQ False ?s)"
    by (simp_all add: activeStack_def loadedStack_def xmitRecOf_def nwQ_def layer_tx_def sampleTx_def
        transNum_fits_def has_room_def)
  show ?thesis
    using retry_repeats_message [OF activeStack_tsa_inv f(1) activeStack_queue refl, of 100] f
    by (simp add: Let_def xmitRecOf_def)
qed


text \<open>The sample message, of two bytes, as a group message in a network buffer of three.\<close>

definition tightStack :: stack where
  "tightStack = (activeStack (DA_Multicast 3))\<lparr>nwOutBufSize := tssApduSize sampleTss + 1,
     xmitRec := (xmitRec (activeStack (DA_Multicast 3)))\<lparr>txApdu := tssApdu sampleTss,
       txApduSize := tssApduSize sampleTss\<rparr>\<rparr>"


end
