(* ===== verification/Lcs_Tsa_Answer.thy ===== *)
theory Lcs_Tsa_Answer
  imports Lcs_Tsa_Send
begin

text \<open>
  \<^verbatim>\<open>lcs/lcs_tsa.c\<close>, what a received message leads to: its delivery to the application
  (\<open>Deliver\<close>), and the PDUs that go back to its sender: acknowledgement (\<open>TPSendAck\<close>),
  response (\<open>SNSendResponse\<close>) and challenge (\<open>InitiateChallenge\<close>). The receive record is named
  by its index. \<open>rnd i j\<close> is the value of \<open>rand() % 256 + OsalGetTickCount() % 256\<close> for byte
  \<open>j\<close> of a challenge for record \<open>i\<close>.
\<close>

abbreviation rr :: "nat \<Rightarrow> stack \<Rightarrow> ReceiveRecord" where
  "rr i s \<equiv> recvRec s ! i"

section \<open>Delivery\<close>

definition Deliver :: "nat \<Rightarrow> stack \<Rightarrow> stack" where
  "Deliver i s =
     (if rrNeedAuth (rr i s) \<and> rrTransState (rr i s) \<noteq> AUTHENTICATED then
        update_rr i (\<lambda>r. r\<lparr>rrTransState := DONE\<rparr>) s
      else if QueueFull (appInQ s) then IncrementStat LcsLost s
      else if appInBufSize s < rrApduSize (rr i s) then s
      else
        (let r = rr i s
         in update_rr i (\<lambda>r. r\<lparr>rrTransState := DELIVERED\<rparr>)
              (fault_if (appInBufSize s < rrApduSize r)
                (s\<lparr>appInQ := QueueEmit (\<lambda>a. a\<lparr>aprIndication := MESSAGE, aprSrcAddr := rrSrcAddr r,
                    aprService := rrServiceType r, aprPriority := rrPriority r,
                    aprAltPath := rrAltPath r, aprAuth := rrAuth r, aprPduSize := rrApduSize r,
                    aprReqId := rrReqId r, aprXcvrParams := rrXcvrParams r, aprProxy := False,
                    aprApdu := bytes_from (rrApdu r) 0 (rrApduSize r)\<rparr>) (appInQ s)\<rparr>))))"

section \<open>Answers\<close>

text \<open>
  Where an answer goes: to the sender's subnet and node, with the group and the member
  number of this node when the message was multicast; \<open>None\<close> when it is no member.
\<close>

definition answer_dest :: "ReceiveRecord \<Rightarrow> stack \<Rightarrow> DestinationAddress option" where
  "answer_dest r s =
     (let src = rrSrcAddr r
      in if srcMode src = AM_MULTICAST then
           (case IsGroupMember s (domainIndex (srcDmn src)) (srcGroup src) of
              None \<Rightarrow> None
            | Some member \<Rightarrow>
                Some \<lparr>dstDmn = srcDmn src, dstAddr = DA_MulticastAck
                  \<lparr>mcaSubnetAddr = srcSubnetAddr src, mcaGroup = srcGroup src, mcaMember = member\<rparr>\<rparr>)
         else Some \<lparr>dstDmn = srcDmn src, dstAddr = DA_SubnetNode (srcSubnetAddr src)\<rparr>)"

definition TPSendAck :: "nat \<Rightarrow> stack \<Rightarrow> stack" where
  "TPSendAck i s =
     (let r = rr i s
      in if QueueFull (nwQ (rrPriority r) s) then s
         else (case answer_dest r s of
                 None \<Rightarrow> s
               | Some d \<Rightarrow>
                   nw_emit (rrPriority r) (\<lambda>n. n\<lparr>
                     nwsPdu := tspdu (rrVersion r) False ACK_MSG (rrTransNum r) [],
                     nwsVersion := sent_version (rrVersion r), nwsDropIfUnconfigured := False,
                     nwsDestAddr := d, nwsPduType := TPDU_TYPE, nwsDeltaBL := 0,
                     nwsAltPath := rrAltPath r OR ALT_CHANNEL_LOCK,
                     nwsPduSize := 1 + dataIndexOf (rrVersion r)\<rparr>) s))"

text \<open>
  The size test uses \<open>nwOutBufSize\<close> for both priorities, and leaves out the extra header
  byte of the enhanced mode, as the code does.
\<close>

definition SNSendResponse :: "nat \<Rightarrow> bool \<Rightarrow> bool \<Rightarrow> stack \<Rightarrow> stack" where
  "SNSendResponse i nullResponse flexResponse s =
     (let r = rr i s
      in if QueueFull (nwQ (rrPriority r) s) \<and> \<not> nullResponse then s
         else if rrTransState r \<noteq> RESPONDED \<and> rrTransState r \<noteq> DONE then s
         else if nullResponse then update_rr i (\<lambda>r. r\<lparr>rrTransState := DONE\<rparr>) s
         else if nwOutBufSize s < rrRspSize r + 1 then s
         else (case DecodeBufferSize TSA_RESP_BUF_SIZE of
                 Inl _ \<Rightarrow> s
               | Inr responseSize \<Rightarrow>
                   (if rrRspSize r > responseSize then s
                    else
                      (let r' = (if flexResponse
                                 then r\<lparr>rrSrcAddr := (rrSrcAddr r)\<lparr>srcDmn :=
                                        (srcDmn (rrSrcAddr r))\<lparr>domainIndex := FLEX_DOMAIN\<rparr>\<rparr>\<rparr>
                                 else r)
                       in case answer_dest r' s of
                            None \<Rightarrow> s
                          | Some d \<Rightarrow>
                              nw_emit (rrPriority r) (\<lambda>n. n\<lparr>
                                nwsPdu := tspdu (rrVersion r) False RESPONSE_MSG (rrTransNum r)
                                  (bytes_from (rrResponse r) 0 (rrRspSize r)),
                                nwsVersion := sent_version (rrVersion r),
                                nwsDropIfUnconfigured := False, nwsDestAddr := d,
                                nwsPduType := SPDU_TYPE, nwsDeltaBL := 0,
                                nwsAltPath := rrAltPath r OR ALT_CHANNEL_LOCK,
                                nwsPduSize := rrRspSize r + dataIndexOf (rrVersion r) + 1\<rparr>) s))))"

section \<open>Challenges\<close>

fun addrModeToFmt :: "AddrMode \<Rightarrow> u8" where
  "addrModeToFmt UNBOUND = 0"
| "addrModeToFmt AM_SUBNET_NODE = 2"
| "addrModeToFmt AM_UNIQUE_NODE_ID = 3"
| "addrModeToFmt AM_BROADCAST = 0"
| "addrModeToFmt AM_MULTICAST = 1"
| "addrModeToFmt AM_MULTICAST_ACK = 2"

definition addrFmtToMode :: "u8 \<Rightarrow> AddrMode" where
  "addrFmtToMode fmt = [AM_BROADCAST, AM_MULTICAST, AM_SUBNET_NODE, AM_UNIQUE_NODE_ID] ! unat fmt"

text \<open>The random bytes are drawn once per message; a repeated challenge uses them again.\<close>

definition draw_challenge :: "(nat \<Rightarrow> nat \<Rightarrow> u8) \<Rightarrow> nat \<Rightarrow> stack \<Rightarrow> stack" where
  "draw_challenge rnd i s =
     (if rrTransState (rr i s) \<noteq> AUTHENTICATING then
        (let v = map (\<lambda>j. prevChallenge s ! j + rnd i j) [0..<8]
         in update_rr i (\<lambda>r. r\<lparr>rrRand := v\<rparr>) (s\<lparr>prevChallenge := v\<rparr>))
      else s)"

definition challenge_pdu :: "ReceiveRecord \<Rightarrow> stack \<Rightarrow> bytes" where
  "challenge_pdu r s =
     authpdu (rrVersion r) (addrModeToFmt (srcMode (rrSrcAddr r)))
       (if AuthOma s then CHALLENGE_OMA_MSG else CHALLENGE_MSG) (rrTransNum r)
       (bytes_from (rrRand r) 0 8 @
        (if srcMode (rrSrcAddr r) = AM_MULTICAST then [srcGroup (rrSrcAddr r)] else []))"

definition InitiateChallenge :: "(nat \<Rightarrow> nat \<Rightarrow> u8) \<Rightarrow> nat \<Rightarrow> stack \<Rightarrow> stack" where
  "InitiateChallenge rnd i s =
     (if QueueFull (nwQ (rrPriority (rr i s)) s) then s
      else
        (let s1 = draw_challenge rnd i s; r = rr i s1
         in case answer_dest r s1 of
              None \<Rightarrow> s1
            | Some d \<Rightarrow>
                update_rr i (\<lambda>r. r\<lparr>rrTransState := AUTHENTICATING\<rparr>)
                  (nw_emit (rrPriority r) (\<lambda>n. n\<lparr>
                     nwsVersion := sent_version (rrVersion r), nwsPdu := challenge_pdu r s1,
                     nwsPduSize := (if srcMode (rrSrcAddr r) = AM_MULTICAST then 10 else 9) +
                       dataIndexOf (rrVersion r),
                     nwsDropIfUnconfigured := False, nwsDestAddr := d, nwsPduType := AUTHPDU_TYPE,
                     nwsDeltaBL := 0, nwsAltPath := rrAltPath r OR ALT_CHANNEL_LOCK\<rparr>) s1)))"

section \<open>What the answers keep\<close>

lemma tsa_inv_fault_if [simp]: "tsa_inv (fault_if b s) = tsa_inv s"
  by (simp add: fault_if_def)

lemma Deliver_inv [simp]: "tsa_inv s \<Longrightarrow> tsa_inv (Deliver i s)"
  by (simp add: Deliver_def Let_def tsa_inv_queues)

text \<open>
  Acknowledgements have at most two bytes, challenges and the answers to them at most eleven;
  neither is compared with the size of the network buffer. A response is, but with the size
  for messages without priority and without the second header byte of the enhanced mode.
\<close>

definition answers_fit :: "stack \<Rightarrow> bool" where
  "answers_fit s \<longleftrightarrow> (\<forall>pri. 11 \<le> nwBufSize pri s)"

definition response_too_long :: "ReceiveRecord \<Rightarrow> stack \<Rightarrow> bool" where
  "response_too_long r s \<longleftrightarrow>
     rrRspSize r + 1 \<le> nwOutBufSize s \<and>
     nwBufSize (rrPriority r) s < 1 + dataIndexOf (rrVersion r) + rrRspSize r"

lemma answers_fit_cong: "(\<And>p. nwBufSize p s' = nwBufSize p s) \<Longrightarrow> answers_fit s' = answers_fit s"
  by (simp add: answers_fit_def)

lemma answers_fit_frames [simp]:
  "answers_fit (update_rr i h s) = answers_fit s" "answers_fit (drop_tsaIn s) = answers_fit s"
  "answers_fit (IncrementStat st s) = answers_fit s" "answers_fit (LCS_LogRxStat s a ty) = answers_fit s"
  "answers_fit (fault_if b s) = answers_fit s"
  by (rule answers_fit_cong; simp)+

lemma answers_fitD: "answers_fit s \<Longrightarrow> n \<le> 11 \<Longrightarrow> \<not> nwBufSize p s < n"
  by (meson answers_fit_def le_trans not_less)

lemma Deliver_sizes [simp]:
  "nwBufSize p (Deliver i s) = nwBufSize p s" "nwOutBufSize (Deliver i s) = nwOutBufSize s"
  "answers_fit (Deliver i s) = answers_fit s"
proof -
  show n: "nwBufSize p (Deliver i s) = nwBufSize p s" for p by (simp add: Deliver_def Let_def)
  show "nwOutBufSize (Deliver i s) = nwOutBufSize s" by (simp add: Deliver_def Let_def)
  show "answers_fit (Deliver i s) = answers_fit s" by (rule answers_fit_cong) (rule n)
qed

lemma Deliver_frame [simp]:
  "memFault (Deliver i s) = memFault s" "tsaInQ (Deliver i s) = tsaInQ s"
  "nwQ p (Deliver i s) = nwQ p s" "xmitRecOf p (Deliver i s) = xmitRecOf p s"
  "transRec p (Deliver i s) = transRec p s" "tsaQ p (Deliver i s) = tsaQ p s"
  "addrTable (Deliver i s) = addrTable s" "length (recvRec (Deliver i s)) = length (recvRec s)"
  by (simp_all add: Deliver_def Let_def)

lemma TPSendAck_inv [simp]: "tsa_inv s \<Longrightarrow> tsa_inv (TPSendAck i s)"
  by (simp add: TPSendAck_def Let_def split: option.splits)

lemma TPSendAck_frame [simp]:
  "answers_fit s \<Longrightarrow> memFault (TPSendAck i s) = memFault s" "tsaInQ (TPSendAck i s) = tsaInQ s"
  "recvRec (TPSendAck i s) = recvRec s" "appInQ (TPSendAck i s) = appInQ s"
  "xmitRecOf p (TPSendAck i s) = xmitRecOf p s" "nwBufSize p (TPSendAck i s) = nwBufSize p s"
  by (simp_all add: TPSendAck_def Let_def nw_overflow_def answers_fitD dataIndexOf_def split: option.splits)

lemma SNSendResponse_inv [simp]: "tsa_inv s \<Longrightarrow> tsa_inv (SNSendResponse i b f s)"
  by (simp add: SNSendResponse_def Let_def split: option.splits)

lemma SNSendResponse_fault:
  "memFault (SNSendResponse i b f s) \<Longrightarrow> memFault s \<or> response_too_long (rr i s) s"
  by (auto simp: SNSendResponse_def Let_def nw_overflow_def response_too_long_def
      split: option.splits sum.splits if_splits)

lemma SNSendResponse_frame [simp]:
  "nwBufSize p (SNSendResponse i b f s) = nwBufSize p s" "tsaInQ (SNSendResponse i b f s) = tsaInQ s"
  "tsaRespQ (SNSendResponse i b f s) = tsaRespQ s" "appInQ (SNSendResponse i b f s) = appInQ s"
  "length (recvRec (SNSendResponse i b f s)) = length (recvRec s)"
  by (simp_all add: SNSendResponse_def Let_def split: option.splits)

lemma draw_challenge_inv [simp]: "tsa_inv (draw_challenge rnd i s) = tsa_inv s"
  by (simp add: draw_challenge_def Let_def)

lemma draw_challenge_frame [simp]:
  "memFault (draw_challenge rnd i s) = memFault s" "tsaInQ (draw_challenge rnd i s) = tsaInQ s"
  "appInQ (draw_challenge rnd i s) = appInQ s" "nwQ p (draw_challenge rnd i s) = nwQ p s"
  "length (recvRec (draw_challenge rnd i s)) = length (recvRec s)"
  "nwBufSize p (draw_challenge rnd i s) = nwBufSize p s"
  by (simp_all add: draw_challenge_def Let_def)

lemma InitiateChallenge_inv [simp]: "tsa_inv s \<Longrightarrow> tsa_inv (InitiateChallenge rnd i s)"
  by (simp add: InitiateChallenge_def Let_def split: option.splits)

lemma length_authpdu [simp]: "length (authpdu v fmt mt tn data) = 1 + dataIndexOf v + length data"
  by (simp add: authpdu_def dataIndexOf_def)

lemma length_challenge_pdu: "length (challenge_pdu r s) \<le> 11"
  by (simp add: challenge_pdu_def dataIndexOf_def)

lemma answers_fit_draw [simp]: "answers_fit (draw_challenge rnd i s) = answers_fit s"
  by (rule answers_fit_cong) simp

lemma InitiateChallenge_frame [simp]:
  "answers_fit s \<Longrightarrow> memFault (InitiateChallenge rnd i s) = memFault s"
  "nwBufSize p (InitiateChallenge rnd i s) = nwBufSize p s"
  "tsaInQ (InitiateChallenge rnd i s) = tsaInQ s" "appInQ (InitiateChallenge rnd i s) = appInQ s"
  "length (recvRec (InitiateChallenge rnd i s)) = length (recvRec s)"
  using answers_fitD [OF _ length_challenge_pdu, of "draw_challenge rnd i s"]
  by (simp_all add: InitiateChallenge_def Let_def nw_overflow_def split: option.splits)

text \<open>\<open>Deliver\<close> in one place: what reaches the application, and when.\<close>

lemma Deliver_delivers:
  assumes "queue_wf (appInQ s)" "i < length (recvRec s)"
    and "rrNeedAuth (rr i s) \<longrightarrow> rrTransState (rr i s) = AUTHENTICATED"
    and "rrApduSize (rr i s) \<le> appInBufSize s"
  shows "rrTransState (rr i (Deliver i s)) = DELIVERED"
    and "\<exists>a. aprApdu a = bytes_from (rrApdu (rr i s)) 0 (rrApduSize (rr i s)) \<and>
           aprIndication a = MESSAGE \<and> aprReqId a = rrReqId (rr i s) \<and> aprAuth a = rrAuth (rr i s) \<and>
           queue_list (appInQ (Deliver i s)) =
             (if has_room (appInQ s) then queue_list (appInQ s) @ [a] else queue_list (appInQ s))"
proof -
  have nf: "\<not> (rrNeedAuth (rr i s) \<and> rrTransState (rr i s) \<noteq> AUTHENTICATED)"
    "\<not> QueueFull (appInQ s)" "\<not> appInBufSize s < rrApduSize (rr i s)"
    using assms by auto
  show "rrTransState (rr i (Deliver i s)) = DELIVERED"
    unfolding Deliver_def using nf assms(2) by (simp add: Let_def)
  obtain f where f: "appInQ (Deliver i s) = QueueEmit f (appInQ s)"
    "\<And>a. aprApdu (f a) = bytes_from (rrApdu (rr i s)) 0 (rrApduSize (rr i s)) \<and>
       aprIndication (f a) = MESSAGE \<and> aprReqId (f a) = rrReqId (rr i s) \<and>
       aprAuth (f a) = rrAuth (rr i s)"
    unfolding Deliver_def using nf by (simp add: Let_def)
  show "\<exists>a. aprApdu a = bytes_from (rrApdu (rr i s)) 0 (rrApduSize (rr i s)) \<and>
           aprIndication a = MESSAGE \<and> aprReqId a = rrReqId (rr i s) \<and> aprAuth a = rrAuth (rr i s) \<and>
           queue_list (appInQ (Deliver i s)) =
             (if has_room (appInQ s) then queue_list (appInQ s) @ [a] else queue_list (appInQ s))"
    using f(2) assms(1) unfolding f(1)
    by (auto simp: queue_list_Emit has_room_def
        intro!: exI [of _ "f (QueueDeref (appInQ s) (qtail (appInQ s)))"])
qed

end
