(* ===== verification/Lcs_Tsa_Receive.thy ===== *)
theory Lcs_Tsa_Receive
  imports Lcs_Tsa_Answer
begin

text \<open>
  \<^verbatim>\<open>lcs/lcs_tsa.c\<close>, the receiving side of the transport and session layers: acknowledgements
  and responses for the transaction in progress (\<open>TPReceiveAck\<close>, \<open>SNReceiveResponse\<close>), new
  messages (\<open>ReceiveNewMsg\<close>), reminders (\<open>ReceiveRem\<close>), the dispatch on the PDU type, and
  \<open>SessionLayerSend\<close>. A copy that does not fit its buffer (a record, the entry of a
  queue of the application, a slot of the network layer) sets \<open>memFault\<close>; what it would
  overwrite is not modelled. The blocks for the security module (\<open>SECURITY_IS(V2)\<close>) are not
  compiled in.
\<close>

section \<open>Answers to our own transactions\<close>

text \<open>
  An answer that has a current transaction number is still refused when it does not fit the
  transmit record: the layer, the domain index, the node, or the group.
\<close>

definition answer_mismatch :: "TXStatus \<Rightarrow> TSAReceiveParam \<Rightarrow> TransmitRecord \<Rightarrow> bool" where
  "answer_mismatch status t x \<longleftrightarrow>
     (let src = tsrSrcAddr t
      in txStatus x \<noteq> status \<or>
         domainIndex (dstDmn (txNwDestAddr x)) \<noteq> domainIndex (srcDmn src) \<or>
         (case dstAddr (txNwDestAddr x) of
            DA_SubnetNode a \<Rightarrow>
              snSubnet a \<noteq> snSubnet (srcSubnetAddr src) \<or>
              IZOT_RECEIVESN_NODE (snNode a) \<noteq> IZOT_RECEIVESN_NODE (snNode (srcSubnetAddr src))
          | DA_Multicast g \<Rightarrow> srcMode src \<noteq> AM_MULTICAST_ACK \<or> g \<noteq> mcaGroup (srcAckNode src)
          | _ \<Rightarrow> False))"

definition ack_wrong_subnet :: "TSAReceiveParam \<Rightarrow> TransmitRecord \<Rightarrow> bool" where
  "ack_wrong_subnet t x \<longleftrightarrow>
     (case dstAddr (txNwDestAddr x) of
        DA_Broadcast sn \<Rightarrow> snSubnet (srcSubnetAddr (tsrSrcAddr t)) \<noteq> 0 \<and> sn \<noteq> 0 \<and>
          sn \<noteq> snSubnet (srcSubnetAddr (tsrSrcAddr t))
      | _ \<Rightarrow> False)"

definition discard_late :: "stack \<Rightarrow> stack" where
  "discard_late s = IncrementStat LcsLateAck (drop_tsaIn s)"

definition answer_member :: "TSAReceiveParam \<Rightarrow> nat" where
  "answer_member t = unat (mcaMember (srcAckNode (tsrSrcAddr t)))"

definition count_answer :: "TransmitRecord \<Rightarrow> TransmitRecord" where
  "count_answer x = x\<lparr>txAckCount := txAckCount x + 1\<rparr>"

definition count_member :: "nat \<Rightarrow> TransmitRecord \<Rightarrow> TransmitRecord" where
  "count_member m x =
     (if \<not> txAckReceived x ! m
      then x\<lparr>txAckReceived := (txAckReceived x)[m := True], txAckCount := txAckCount x + 1\<rparr>
      else x)"

definition terminate_if_all :: "bool \<Rightarrow> stack \<Rightarrow> stack" where
  "terminate_if_all pri s =
     (if txDestCount (xmitRecOf pri s) = txAckCount (xmitRecOf pri s) then TerminateTrans pri s else s)"

text \<open>The end of an accepted answer: the PDU is dropped, and a live transmit timer restarts.\<close>

definition answer_done :: "u32 \<Rightarrow> bool \<Rightarrow> stack \<Rightarrow> stack" where
  "answer_done now pri s =
     (let s1 = drop_tsaIn s
      in if txStatus (xmitRecOf pri s1) \<noteq> UNUSED_TX then
           update_xmitRec pri (\<lambda>x. x\<lparr>txXmitTimer :=
             SetLonTimer now (txXmitTimer x) (ucast (txXmitTimerValue x))\<rparr>) s1
         else s1)"

definition ack_count :: "bool \<Rightarrow> TSAReceiveParam \<Rightarrow> stack \<Rightarrow> stack" where
  "ack_count pri t s =
     (case dstMode (txNwDestAddr (xmitRecOf pri s)) of
        AM_BROADCAST \<Rightarrow> TerminateTrans pri (update_xmitRec pri count_answer s)
      | AM_SUBNET_NODE \<Rightarrow> TerminateTrans pri (update_xmitRec pri count_answer s)
      | AM_UNIQUE_NODE_ID \<Rightarrow> TerminateTrans pri (update_xmitRec pri count_answer s)
      | AM_MULTICAST \<Rightarrow>
          (if answer_member t > MAX_GROUP_NUMBER then s
           else terminate_if_all pri (update_xmitRec pri (count_member (answer_member t)) s))
      | _ \<Rightarrow> s)"

definition TPReceiveAck :: "u32 \<Rightarrow> stack \<Rightarrow> stack" where
  "TPReceiveAck now s =
     (case QueueHead (tsaInQ s) of
        None \<Rightarrow> null_pointer s
      | Some t \<Rightarrow>
          (let pri = tsrPriority t; x = xmitRecOf pri s
           in if ValidateTrans pri (pdu_transNum (tsrVersion t) (tsrPdu t)) s = TRANS_NOT_CURRENT \<or>
                 answer_mismatch TRANSPORT_TX t x \<or> ack_wrong_subnet t x
              then discard_late s
              else answer_done now pri (ack_count pri t s)))"

definition ND_QUERY_XCVR_BIDIR_code :: u8 where "ND_QUERY_XCVR_BIDIR_code = 0x57"
definition IZOT_COMMUNICATIONS_PARAMETER_LENGTH :: nat where
  "IZOT_COMMUNICATIONS_PARAMETER_LENGTH = 7"

text \<open>
  The entry that a response makes for the application. \<open>pduSize\<close> is the size of the PDU less
  one; in the enhanced mode that is one more than the bytes copied, and the last byte is
  what the last use of the slot left.
\<close>

definition response_apdu :: "TSAReceiveParam \<Rightarrow> bytes \<Rightarrow> bytes" where
  "response_apdu t old =
     (let di = dataIndexOf (tsrVersion t); n = tsrPduSize t - di - 1
      in bytes_from (tsrPdu t) (1 + di) n @ bytes_from old n di)"

definition response_entry ::
    "TSAReceiveParam \<Rightarrow> TSASendParam \<Rightarrow> TransmitRecord \<Rightarrow> APPReceiveParam \<Rightarrow> APPReceiveParam" where
  "response_entry t p x a =
     (let size = tsrPduSize t - 1; apdu = response_apdu t (aprApdu a);
          bidir = (byte_at (txApdu x) 0 = ND_QUERY_XCVR_BIDIR_code \<and>
                   size = 1 + IZOT_COMMUNICATIONS_PARAMETER_LENGTH)
      in a\<lparr>aprIndication := MESSAGE, aprSrcAddr := tsrSrcAddr t,
           aprService := IzotServiceResponse, aprPriority := tsrPriority t,
           aprPduSize := (if bidir then size + IZOT_COMMUNICATIONS_PARAMETER_LENGTH else size),
           aprAuth := False, aprTag := tssTag p, aprProxy := tssProxy p,
           aprProxyCount := tssProxyCount p, aprProxyDone := tssProxyDone p,
           aprXcvrParams := tsrXcvrParams t,
           aprApdu := (if bidir
             then apdu @ bytes_from (tsrXcvrParams t) 0 IZOT_COMMUNICATIONS_PARAMETER_LENGTH
             else apdu)\<rparr>)"

definition response_overflows :: "TSAReceiveParam \<Rightarrow> stack \<Rightarrow> bool" where
  "response_overflows t s \<longleftrightarrow>
     tsrPduSize t < 1 + dataIndexOf (tsrVersion t) \<or>
     tsrPduSize t - dataIndexOf (tsrVersion t) - 1 > appInBufSize s"

definition emit_response ::
    "TSAReceiveParam \<Rightarrow> TSASendParam \<Rightarrow> TransmitRecord \<Rightarrow> stack \<Rightarrow> stack" where
  "emit_response t p x s =
     s\<lparr>appCeRspInQ := QueueEmit (response_entry t p x) (appCeRspInQ s)\<rparr>"

text \<open>
  \<open>p\<close> is the request as it was when the entry was filled in; \<open>proxyDone\<close> of the request is
  set afterwards.
\<close>

definition response_count :: "bool \<Rightarrow> TSAReceiveParam \<Rightarrow> TSASendParam \<Rightarrow> stack \<Rightarrow> stack" where
  "response_count pri t p s =
     (let x = xmitRecOf pri s
      in case dstMode (txNwDestAddr x) of
           AM_BROADCAST \<Rightarrow>
             (if txAckCount x < IZOT_SENDBCAST_RSVD1 (tssDestAddr p) then
                (let s1 = update_xmitRec pri count_answer (emit_response t p x s)
                 in if txAckCount (xmitRecOf pri s1) = IZOT_SENDBCAST_RSVD1 (tssDestAddr p)
                    then TerminateTrans pri s1 else s1)
              else s)
         | AM_SUBNET_NODE \<Rightarrow>
             (if txAckCount x = 0
              then TerminateTrans pri (update_xmitRec pri count_answer (emit_response t p x s)) else s)
         | AM_UNIQUE_NODE_ID \<Rightarrow>
             (if txAckCount x = 0
              then TerminateTrans pri (update_xmitRec pri count_answer (emit_response t p x s)) else s)
         | AM_MULTICAST \<Rightarrow>
             (if srcMode (tsrSrcAddr t) \<noteq> AM_MULTICAST_ACK then s
              else if answer_member t > MAX_GROUP_NUMBER then s
              else terminate_if_all pri
                     (update_xmitRec pri (count_member (answer_member t))
                        (if \<not> txAckReceived x ! answer_member t then emit_response t p x s else s)))
         | _ \<Rightarrow> s)"

definition SNReceiveResponse :: "u32 \<Rightarrow> stack \<Rightarrow> stack" where
  "SNReceiveResponse now s =
     (case QueueHead (tsaInQ s) of
        None \<Rightarrow> null_pointer s
      | Some t \<Rightarrow>
          (let pri = tsrPriority t; x = xmitRecOf pri s
           in if ValidateTrans pri (pdu_transNum (tsrVersion t) (tsrPdu t)) s = TRANS_NOT_CURRENT \<or>
                 answer_mismatch SESSION_TX t x
              then discard_late s
              else if QueueFull (appCeRspInQ s) then s
              else (case QueueHead (tsaQ pri s) of
                      None \<Rightarrow> null_pointer s
                    | Some p \<Rightarrow>
                        (let s1 = (if response_overflows t s then s\<lparr>memFault := True\<rparr> else s);
                             s2 = set_tsaQ pri (QueuePokeHead (\<lambda>p. p\<lparr>tssProxyDone := True\<rparr>)
                                    (tsaQ pri s1)) s1
                         in answer_done now pri (response_count pri t p s2)))))"

section \<open>New messages\<close>

text \<open>\<open>memcpy\<close> to the start of a buffer of \<open>length dst\<close> bytes.\<close>

definition memcpy_to :: "bytes \<Rightarrow> bytes \<Rightarrow> bytes" where
  "memcpy_to dst src = take (length dst) (src @ drop (length src) dst)"

definition layer_rr :: "Layer \<Rightarrow> RRStatus" where
  "layer_rr layerIn = (case layerIn of TRANSPORT \<Rightarrow> TRANSPORT_RR | SESSION \<Rightarrow> SESSION_RR)"

text \<open>The next request ID; 0 is never given out.\<close>

definition next_reqId :: "stack \<Rightarrow> u16 \<times> stack" where
  "next_reqId s =
     (let q = (if reqId s = 0 then 1 else reqId s) in (q, s\<lparr>reqId := q + 1\<rparr>))"

text \<open>
  A receive record is set up for a message with APDU \<open>apdu\<close>. \<open>reqIdInit\<close> is the value that
  the record's request ID has for a transport message.
\<close>

definition setup_rr ::
    "u32 \<Rightarrow> Layer \<Rightarrow> nat \<Rightarrow> TSAReceiveParam \<Rightarrow> u16 \<Rightarrow> IzotServiceType \<Rightarrow> u16 \<Rightarrow> bytes \<Rightarrow> stack \<Rightarrow> stack" where
  "setup_rr now layerIn i t transNum service reqIdInit apdu s =
     (let (rid, s1) = (if layerIn = TRANSPORT then (reqIdInit, s) else next_reqId s);
          s2 = (if length apdu > length (rrApdu (rr i s1)) then s1\<lparr>memFault := True\<rparr> else s1);
          value = ComputeRecvTimerValue (srcMode (tsrSrcAddr t)) (srcGroup (tsrSrcAddr t)) s
      in update_rr i (\<lambda>r. r\<lparr>rrStatus := layer_rr layerIn, rrSrcAddr := tsrSrcAddr t,
           rrTransNum := transNum, rrTransState := JUST_RECEIVED, rrPriority := tsrPriority t,
           rrAltPath := tsrAltPath t, rrVersion := tsrVersion t, rrAuth := False, rrReqId := rid,
           rrServiceType := service, rrApduSize := length apdu,
           rrApdu := memcpy_to (rrApdu r) apdu,
           rrRecvTimer := SetLonTimer now (rrRecvTimer r) (ucast value)\<rparr>) s2)"

text \<open>The size of the APDU, an \<open>IzotUbits16\<close> computed by subtraction.\<close>

definition sub16 :: "nat \<Rightarrow> nat \<Rightarrow> nat" where
  "sub16 a b = (a + (2 ^ 16 - b)) mod 2 ^ 16"

definition new_msg_service :: "Layer \<Rightarrow> TSAReceiveParam \<Rightarrow> IzotServiceType" where
  "new_msg_service layerIn t =
     (if layerIn = SESSION then IzotServiceRequest
      else if TSPDU_pduMsgType (byte_at (tsrPdu t) 0) = ACKD_MSG then IzotServiceAcknowledged
      else IzotServiceRepeated)"

text \<open>
  The duplicate test: \<open>pduSize - 1\<close> is compared with the stored size, which is
  \<open>pduSize - 1 - dataIndex\<close>.
\<close>

definition rr_is_duplicate :: "Layer \<Rightarrow> TSAReceiveParam \<Rightarrow> ReceiveRecord \<Rightarrow> bool" where
  "rr_is_duplicate layerIn t r \<longleftrightarrow>
     rrTransNum r = pdu_transNum (tsrVersion t) (tsrPdu t) \<and> rrStatus r = layer_rr layerIn \<and>
     tsrPduSize t - 1 = rrApduSize r \<and>
     bytes_from (tsrPdu t) (1 + dataIndexOf (tsrVersion t)) (rrApduSize r) =
       bytes_from (rrApdu r) 0 (rrApduSize r)"

definition new_msg_setup :: "u32 \<Rightarrow> Layer \<Rightarrow> nat \<Rightarrow> TSAReceiveParam \<Rightarrow> stack \<Rightarrow> stack" where
  "new_msg_setup now layerIn i t s =
     (let di = dataIndexOf (tsrVersion t)
      in setup_rr now layerIn i t (pdu_transNum (tsrVersion t) (tsrPdu t))
           (new_msg_service layerIn t) 0
           (bytes_from (tsrPdu t) (1 + di) (sub16 (tsrPduSize t) (1 + di))) s)"

text \<open>The record for the message: a fresh one, a reused one, or the one of the original.\<close>

definition new_msg_record ::
    "u32 \<Rightarrow> Layer \<Rightarrow> TSAReceiveParam \<Rightarrow> stack \<Rightarrow> nat option \<times> stack" where
  "new_msg_record now layerIn t s =
     (case RetrieveRR (tsrSrcAddr t) (tsrPriority t) s of
        None \<Rightarrow>
          (case AllocateRR s of
             None \<Rightarrow> (None, drop_tsaIn (IncrementStat LcsRxTxFull s))
           | Some i \<Rightarrow> (Some i, new_msg_setup now layerIn i t s))
      | Some i \<Rightarrow>
          (if \<not> rr_is_duplicate layerIn t (rr i s) then
             (Some i, new_msg_setup now layerIn i t
                (if rrTransState (rr i s) \<noteq> DELIVERED \<and> rrTransState (rr i s) \<noteq> DONE \<and>
                    rrTransState (rr i s) \<noteq> RESPONDED
                 then IncrementStat LcsLost s else s))
           else (Some i, update_rr i (\<lambda>r. r\<lparr>rrAltPath := rrAltPath r OR tsrAltPath t\<rparr>) s)))"

definition rr_open :: "ReceiveRecord \<Rightarrow> bool" where
  "rr_open r \<longleftrightarrow>
     rrTransState r \<noteq> DELIVERED \<and> rrTransState r \<noteq> RESPONDED \<and> rrTransState r \<noteq> DONE"

text \<open>What is done with a message that has its record.\<close>

definition new_msg_process :: "(nat \<Rightarrow> nat \<Rightarrow> u8) \<Rightarrow> Layer \<Rightarrow> nat \<Rightarrow> stack \<Rightarrow> stack" where
  "new_msg_process rnd layerIn i s =
     (if (rrTransState (rr i s) = JUST_RECEIVED \<or> rrTransState (rr i s) = AUTHENTICATING) \<and>
         rrNeedAuth (rr i s)
      then InitiateChallenge rnd i s
      else
        (let s1 = (if rr_open (rr i s) then Deliver i s else s)
         in if layerIn = TRANSPORT then
              (if rrTransState (rr i s1) = DELIVERED \<and>
                  rrServiceType (rr i s1) = IzotServiceAcknowledged
               then TPSendAck i s1 else s1)
            else if rrTransState (rr i s1) = RESPONDED then SNSendResponse i False False s1
            else s1))"

definition ReceiveNewMsg :: "u32 \<Rightarrow> (nat \<Rightarrow> nat \<Rightarrow> u8) \<Rightarrow> Layer \<Rightarrow> stack \<Rightarrow> stack" where
  "ReceiveNewMsg now rnd layerIn s =
     (case QueueHead (tsaInQ s) of
        None \<Rightarrow> null_pointer s
      | Some t \<Rightarrow>
          (case new_msg_record now layerIn t s of
             (None, s1) \<Rightarrow> s1
           | (Some i, s1) \<Rightarrow>
               new_msg_process rnd layerIn i
                 (update_rr i (\<lambda>r. r\<lparr>rrNeedAuth :=
                    NodeConfigured s1 \<and> TSPDU_auth (byte_at (tsrPdu t) 0)\<rparr>) (drop_tsaIn s1))))"

section \<open>Reminders\<close>

definition is_reminder :: "TSAReceiveParam \<Rightarrow> bool" where
  "is_reminder t \<longleftrightarrow> TSPDU_pduMsgType (byte_at (tsrPdu t) 0) = REMINDER_MSG"

text \<open>The length of the \<open>M_LIST\<close>, and the APDU behind it, whose size may wrap.\<close>

definition rem_length :: "TSAReceiveParam \<Rightarrow> nat" where
  "rem_length t = unat (byte_at (tsrPdu t) (1 + dataIndexOf (tsrVersion t)))"

definition rem_apdu :: "TSAReceiveParam \<Rightarrow> bytes" where
  "rem_apdu t =
     (let di = dataIndexOf (tsrVersion t); len = rem_length t
      in bytes_from (tsrPdu t) (2 + di + len) (sub16 (tsrPduSize t) (2 + len + di)))"

definition rem_mismatch :: "Layer \<Rightarrow> TSAReceiveParam \<Rightarrow> ReceiveRecord \<Rightarrow> bool" where
  "rem_mismatch layerIn t r \<longleftrightarrow>
     srcMode (rrSrcAddr r) \<noteq> AM_MULTICAST \<or>
     rrTransNum r \<noteq> pdu_transNum (tsrVersion t) (tsrPdu t) \<or> rrStatus r \<noteq> layer_rr layerIn \<or>
     (\<not> is_reminder t \<and>
        (length (rem_apdu t) \<noteq> rrApduSize r \<or>
         rem_apdu t \<noteq> bytes_from (rrApdu r) 0 (length (rem_apdu t))))"

text \<open>Whether the \<open>M_LIST\<close> asks a member to answer: its bit is missing or not set.\<close>

definition mlist_asks :: "LsProtocolMode \<Rightarrow> bytes \<Rightarrow> u8 \<Rightarrow> bool" where
  "mlist_asks version pdu member \<longleftrightarrow>
     (let di = dataIndexOf version; len = unat (byte_at pdu (1 + di));
          mlistIndex = unat member div 8; mlistOffset = unat member mod 8
      in len = 0 \<or> mlistIndex \<ge> len \<or> \<not> bit (byte_at pdu (2 + di + mlistIndex)) mlistOffset)"

definition rem_answer :: "(nat \<Rightarrow> nat \<Rightarrow> u8) \<Rightarrow> Layer \<Rightarrow> nat \<Rightarrow> TSAReceiveParam \<Rightarrow> stack \<Rightarrow> stack" where
  "rem_answer rnd layerIn i t s =
     (if is_reminder t then drop_tsaIn s
      else if rrNeedAuth (rr i s) \<and>
              (rrTransState (rr i s) = JUST_RECEIVED \<or> rrTransState (rr i s) = AUTHENTICATING)
      then drop_tsaIn (InitiateChallenge rnd i s)
      else
        (let s1 = (if rr_open (rr i s) then Deliver i s else s); s2 = drop_tsaIn s1
         in if rrTransState (rr i s1) = DELIVERED \<or> rrTransState (rr i s1) = RESPONDED then
              (if layerIn = TRANSPORT then TPSendAck i s2
               else if rrTransState (rr i s2) = RESPONDED then SNSendResponse i False False s2
               else s2)
            else s2))"

definition rem_existing :: "(nat \<Rightarrow> nat \<Rightarrow> u8) \<Rightarrow> Layer \<Rightarrow> nat \<Rightarrow> TSAReceiveParam \<Rightarrow> stack \<Rightarrow> stack" where
  "rem_existing rnd layerIn i t s =
     (let src = rrSrcAddr (rr i s)
      in case IsGroupMember s (domainIndex (srcDmn src)) (srcGroup src) of
           None \<Rightarrow> drop_tsaIn s
         | Some member \<Rightarrow>
             (if mlist_asks (tsrVersion t) (tsrPdu t) member then rem_answer rnd layerIn i t s
              else drop_tsaIn
                     (if rrTransState (rr i s) = DELIVERED \<or> rrTransState (rr i s) = RESPONDED
                      then update_rr i (\<lambda>r. r\<lparr>rrTransState := DONE\<rparr>) s else s)))"

text \<open>No record is left for the message: the PDU stays at the head of the queue.\<close>

definition rem_new :: "u32 \<Rightarrow> (nat \<Rightarrow> nat \<Rightarrow> u8) \<Rightarrow> Layer \<Rightarrow> TSAReceiveParam \<Rightarrow> stack \<Rightarrow> stack" where
  "rem_new now rnd layerIn t s =
     (case AllocateRR s of
        None \<Rightarrow> s
      | Some i \<Rightarrow>
          (let s1 = setup_rr now layerIn i t (pdu_transNum (tsrVersion t) (tsrPdu t))
                      (if layerIn = TRANSPORT then IzotServiceAcknowledged else IzotServiceRequest)
                      (rrReqId (rr i s)) (rem_apdu t) s;
               s2 = update_rr i (\<lambda>r. r\<lparr>rrNeedAuth := TSPDU_auth (byte_at (tsrPdu t) 0)\<rparr>)
                      (drop_tsaIn s1)
           in if rrNeedAuth (rr i s2) then InitiateChallenge rnd i s2
              else
                (let s3 = Deliver i s2
                 in if layerIn = TRANSPORT \<and> rrTransState (rr i s3) = DELIVERED
                    then TPSendAck i s3 else s3)))"

definition ReceiveRem :: "u32 \<Rightarrow> (nat \<Rightarrow> nat \<Rightarrow> u8) \<Rightarrow> Layer \<Rightarrow> stack \<Rightarrow> stack" where
  "ReceiveRem now rnd layerIn s =
     (case QueueHead (tsaInQ s) of
        None \<Rightarrow> null_pointer s
      | Some t \<Rightarrow>
          (case RetrieveRR (tsrSrcAddr t) (tsrPriority t) s of
             None \<Rightarrow> (if is_reminder t then drop_tsaIn s else rem_new now rnd layerIn t s)
           | Some i \<Rightarrow>
               (if rem_mismatch layerIn t (rr i s) then
                  (if is_reminder t then drop_tsaIn s
                   else rem_new now rnd layerIn t
                          (if rrTransState (rr i s) = DELIVERED \<or> rrTransState (rr i s) = DONE
                           then update_rr i (\<lambda>r. r\<lparr>rrStatus := UNUSED_RR\<rparr>) s else s))
                else if rrServiceType (rr i s) = IzotServiceRepeated then
                  (if is_reminder t then drop_tsaIn s else rem_new now rnd layerIn t s)
                else rem_existing rnd layerIn i t s)))"

section \<open>The receive functions of the two layers\<close>

definition expire_rr :: "u32 \<Rightarrow> RRStatus \<Rightarrow> ReceiveRecord \<Rightarrow> ReceiveRecord" where
  "expire_rr now status r =
     (if rrStatus r = status then
        (case LonTimerExpired now (rrRecvTimer r) of
           (expired, timer) \<Rightarrow>
             r\<lparr>rrRecvTimer := timer, rrStatus := (if expired then UNUSED_RR else rrStatus r)\<rparr>)
      else r)"

definition expire_records :: "u32 \<Rightarrow> RRStatus \<Rightarrow> stack \<Rightarrow> stack" where
  "expire_records now status s = s\<lparr>recvRec := map (expire_rr now status) (recvRec s)\<rparr>"

definition transport_dispatch :: "u32 \<Rightarrow> (nat \<Rightarrow> nat \<Rightarrow> u8) \<Rightarrow> u8 \<Rightarrow> stack \<Rightarrow> stack" where
  "transport_dispatch now rnd mt s =
     (if mt = ACK_MSG then TPReceiveAck now s
      else if mt = ACKD_MSG \<or> mt = UNACK_RPT_MSG then ReceiveNewMsg now rnd TRANSPORT s
      else if mt = REMINDER_MSG \<or> mt = REM_MSG_MSG then ReceiveRem now rnd TRANSPORT s
      else drop_tsaIn s)"

definition session_dispatch :: "u32 \<Rightarrow> (nat \<Rightarrow> nat \<Rightarrow> u8) \<Rightarrow> u8 \<Rightarrow> stack \<Rightarrow> stack" where
  "session_dispatch now rnd mt s =
     (if mt = RESPONSE_MSG then SNReceiveResponse now s
      else if mt = REQUEST_MSG then ReceiveNewMsg now rnd SESSION s
      else if mt = REMINDER_MSG \<or> mt = REM_MSG_MSG then ReceiveRem now rnd SESSION s
      else drop_tsaIn s)"

definition layer_receive ::
    "PDUType \<Rightarrow> u8 \<Rightarrow> (u8 \<Rightarrow> stack \<Rightarrow> stack) \<Rightarrow> stack \<Rightarrow> stack" where
  "layer_receive pduType solicited dispatch s =
     (if QueueEmpty (tsaInQ s) then s
      else (case QueueHead (tsaInQ s) of
              None \<Rightarrow> null_pointer s
            | Some t \<Rightarrow>
                (let mt = TSPDU_pduMsgType (byte_at (tsrPdu t) 0)
                 in if tsrPduType t \<noteq> pduType then s
                    else if tsrPduSize t < 1 then drop_tsaIn s
                    else dispatch mt (LCS_LogRxStat s (tsrAltPath t)
                           (if mt = solicited then RX_SOLICITED else RX_UNSOLICITED)))))"

definition TransportLayerReceive :: "u32 \<Rightarrow> (nat \<Rightarrow> nat \<Rightarrow> u8) \<Rightarrow> stack \<Rightarrow> stack" where
  "TransportLayerReceive now rnd s =
     layer_receive TPDU_TYPE ACK_MSG (transport_dispatch now rnd) (expire_records now TRANSPORT_RR s)"

definition SessionLayerReceive :: "u32 \<Rightarrow> (nat \<Rightarrow> nat \<Rightarrow> u8) \<Rightarrow> stack \<Rightarrow> stack" where
  "SessionLayerReceive now rnd s =
     layer_receive SPDU_TYPE RESPONSE_MSG (session_dispatch now rnd) (expire_records now SESSION_RR s)"

section \<open>Responses of the application\<close>

definition send_response :: "stack \<Rightarrow> stack" where
  "send_response s =
     (case QueueHead (tsaRespQ s) of
        None \<Rightarrow> null_pointer s
      | Some p \<Rightarrow>
          (let dropResp = (\<lambda>s. s\<lparr>tsaRespQ := QueueDropHead (tsaRespQ s)\<rparr>)
           in if tssService p \<noteq> IzotServiceResponse then dropResp s
              else (case FindRR (tssReqId p) s of
                      None \<Rightarrow> IncrementStat LcsLateAck (dropResp s)
                    | Some i \<Rightarrow>
                        (let s1 = (if tssApduSize p > length (rrResponse (rr i s))
                                   then s\<lparr>memFault := True\<rparr> else s);
                             s2 = update_rr i (\<lambda>r. r\<lparr>rrRspSize := tssApduSize p,
                                    rrResponse := memcpy_to (rrResponse r)
                                      (bytes_from (tssApdu p) 0 (tssApduSize p)),
                                    rrTransState := RESPONDED\<rparr>) s1
                         in dropResp (SNSendResponse i (tssNullResponse p) (tssFlexResponse p) s2)))))"

definition SessionLayerSend :: "u32 \<Rightarrow> stack \<Rightarrow> stack" where
  "SessionLayerSend now s =
     (if SendBlocked now s then s
      else if \<not> QueueEmpty (tsaRespQ s) \<and> \<not> QueueFull (nwOutQ s) then send_response s
      else layer_send now SESSION s)"

section \<open>What the receiving side keeps\<close>

lemma tsa_inv_poke_tsaQ:
  assumes "tsa_inv s" and "\<And>p. tssPriority (f p) = tssPriority p"
  shows "tsa_inv (set_tsaQ pri (QueuePokeHead f (tsaQ pri s)) s)"
proof (rule tsa_invI)
  fix p
  show "tx_inv p (set_tsaQ pri (QueuePokeHead f (tsaQ pri s)) s)"
    using tsa_inv_tx [OF assms(1), of p] assms(2)
    by (cases "p = pri") (auto simp: tx_inv_def queue_list_PokeHead split: list.splits)
qed (use assms in \<open>simp_all add: tsa_inv_queues\<close>)

lemma count_fields [simp]:
  "txStatus (count_answer x) = txStatus x" "txTransNum (count_answer x) = txTransNum x"
  "txAckReceived (count_answer x) = txAckReceived x"
  "txStatus (count_member m x) = txStatus x" "txTransNum (count_member m x) = txTransNum x"
  "length (txAckReceived (count_member m x)) = length (txAckReceived x)"
  "txNwDestAddr (count_member m x) = txNwDestAddr x"
  "txDestCount (count_member m x) = txDestCount x"
  by (simp_all add: count_answer_def count_member_def)

lemma tsa_inv_count [simp]:
  "tsa_inv s \<Longrightarrow> tsa_inv (update_xmitRec pri count_answer s)"
  "tsa_inv s \<Longrightarrow> tsa_inv (update_xmitRec pri (count_member m) s)"
  by (simp_all add: tsa_inv_update_xmitRec)

lemma TerminateTrans_keeps:
  assumes "tsa_inv s" and "txStatus (xmitRecOf pri s) \<noteq> UNUSED_TX"
  shows "tsa_inv (TerminateTrans pri s)" and "memFault (TerminateTrans pri s) = memFault s"
    and "tsaInQ (TerminateTrans pri s) = tsaInQ s" and "recvRec (TerminateTrans pri s) = recvRec s"
proof -
  obtain p ps where "queue_list (tsaQ pri s) = p # ps" using assms by (rule tsa_head)
  note eff = TerminateTrans_effect [OF assms(1) this]
  show "tsa_inv (TerminateTrans pri s)" "memFault (TerminateTrans pri s) = memFault s"
    "tsaInQ (TerminateTrans pri s) = tsaInQ s" "recvRec (TerminateTrans pri s) = recvRec s"
    using eff by auto
qed

lemma terminate_if_all_keeps:
  assumes "tsa_inv s" and "txStatus (xmitRecOf pri s) \<noteq> UNUSED_TX"
  shows "tsa_inv (terminate_if_all pri s)" and "memFault (terminate_if_all pri s) = memFault s"
    and "tsaInQ (terminate_if_all pri s) = tsaInQ s"
    and "recvRec (terminate_if_all pri s) = recvRec s"
  using TerminateTrans_keeps [OF assms] assms(1) by (simp_all add: terminate_if_all_def)

lemma ack_count_keeps:
  assumes "tsa_inv s" and "txStatus (xmitRecOf pri s) \<noteq> UNUSED_TX"
  shows "tsa_inv (ack_count pri t s)" and "memFault (ack_count pri t s) = memFault s"
    and "tsaInQ (ack_count pri t s) = tsaInQ s" and "recvRec (ack_count pri t s) = recvRec s"
  using TerminateTrans_keeps [of "update_xmitRec pri count_answer s" pri]
    terminate_if_all_keeps [of "update_xmitRec pri (count_member (answer_member t)) s" pri] assms
  by (auto simp: ack_count_def split: AddrMode.splits)

lemma answer_done_keeps [simp]:
  "tsa_inv s \<Longrightarrow> tsa_inv (answer_done now pri s)" "memFault (answer_done now pri s) = memFault s"
  "tsaInQ (answer_done now pri s) = QueueDropHead (tsaInQ s)"
  "recvRec (answer_done now pri s) = recvRec s"
  by (auto simp: answer_done_def Let_def intro!: tsa_inv_update_xmitRec)

lemma discard_late_keeps [simp]:
  "tsa_inv s \<Longrightarrow> tsa_inv (discard_late s)" "memFault (discard_late s) = memFault s"
  "tsaInQ (discard_late s) = QueueDropHead (tsaInQ s)" "recvRec (discard_late s) = recvRec s"
  by (simp_all add: discard_late_def)

lemma TPReceiveAck_keeps:
  assumes "tsa_inv s" and "QueueHead (tsaInQ s) = Some t"
  shows "tsa_inv (TPReceiveAck now s)" and "memFault (TPReceiveAck now s) = memFault s"
    and "recvRec (TPReceiveAck now s) = recvRec s"
    and "tsaInQ (TPReceiveAck now s) = QueueDropHead (tsaInQ s)"
proof -
  have "txStatus (xmitRecOf (tsrPriority t) s) \<noteq> UNUSED_TX"
    if "\<not> answer_mismatch TRANSPORT_TX t (xmitRecOf (tsrPriority t) s)"
    using that by (auto simp: answer_mismatch_def Let_def)
  note k = ack_count_keeps [OF assms(1) this]
  show "tsa_inv (TPReceiveAck now s)" "memFault (TPReceiveAck now s) = memFault s"
    "recvRec (TPReceiveAck now s) = recvRec s"
    "tsaInQ (TPReceiveAck now s) = QueueDropHead (tsaInQ s)"
    using k assms by (auto simp: TPReceiveAck_def Let_def)
qed

lemma emit_response_keeps [simp]:
  "tsa_inv s \<Longrightarrow> tsa_inv (emit_response t p x s)" "memFault (emit_response t p x s) = memFault s"
  "tsaInQ (emit_response t p x s) = tsaInQ s" "xmitRecOf b (emit_response t p x s) = xmitRecOf b s"
  "recvRec (emit_response t p x s) = recvRec s" "tsaQ b (emit_response t p x s) = tsaQ b s"
  by (simp_all add: emit_response_def tsa_inv_queues)

lemma response_count_keeps:
  assumes "tsa_inv s" and "txStatus (xmitRecOf pri s) \<noteq> UNUSED_TX"
  shows "tsa_inv (response_count pri t p s)" and "memFault (response_count pri t p s) = memFault s"
    and "tsaInQ (response_count pri t p s) = tsaInQ s"
proof -
  have e: "tsa_inv (emit_response t p x s)" for x using assms(1) by simp
  note one = TerminateTrans_keeps [of "update_xmitRec pri count_answer (emit_response t p x s)" pri for x]
  note all = terminate_if_all_keeps [of "update_xmitRec pri (count_member (answer_member t)) s'" pri for s']
  show "tsa_inv (response_count pri t p s)" "memFault (response_count pri t p s) = memFault s"
    "tsaInQ (response_count pri t p s) = tsaInQ s"
    using one all [of s] all [of "emit_response t p (xmitRecOf pri s) s"] e assms
    by (auto simp: response_count_def Let_def split: AddrMode.splits)
qed

lemma SNReceiveResponse_keeps:
  assumes "tsa_inv s" and "QueueHead (tsaInQ s) = Some t"
  shows "tsa_inv (SNReceiveResponse now s)"
    and "memFault (SNReceiveResponse now s) \<Longrightarrow> memFault s \<or> response_overflows t s"
proof -
  let ?pri = "tsrPriority t"
  let ?s1 = "if response_overflows t s then s\<lparr>memFault := True\<rparr> else s"
  let ?s2 = "set_tsaQ ?pri (QueuePokeHead (\<lambda>p. p\<lparr>tssProxyDone := True\<rparr>) (tsaQ ?pri ?s1)) ?s1"
  have inv: "tsa_inv ?s2" by (rule tsa_inv_poke_tsaQ) (use assms(1) in auto)
  have used: "txStatus (xmitRecOf ?pri s) \<noteq> UNUSED_TX"
    if "\<not> answer_mismatch SESSION_TX t (xmitRecOf ?pri s)"
    using that by (auto simp: answer_mismatch_def Let_def)
  have "tsa_inv (SNReceiveResponse now s) \<and>
      (memFault (SNReceiveResponse now s) \<longrightarrow> memFault s \<or> response_overflows t s)"
  proof (cases "answer_mismatch SESSION_TX t (xmitRecOf ?pri s)")
    case True
    then show ?thesis using assms by (simp add: SNReceiveResponse_def Let_def)
  next
    case False
    obtain p ps where p: "QueueHead (tsaQ ?pri s) = Some p"
      using assms(1) used [OF False] by (rule tsa_head)
    have st: "txStatus (xmitRecOf ?pri ?s2) \<noteq> UNUSED_TX" using used [OF False] by simp
    show ?thesis
      using response_count_keeps [OF inv st, of t p] p assms
      by (auto simp: SNReceiveResponse_def Let_def)
  qed
  then show "tsa_inv (SNReceiveResponse now s)"
    "memFault (SNReceiveResponse now s) \<Longrightarrow> memFault s \<or> response_overflows t s" by auto
qed

section \<open>The buffers of the receive records\<close>

definition RECV_REC_BUF :: nat where "RECV_REC_BUF = 82"

definition rr_inv :: "stack \<Rightarrow> bool" where
  "rr_inv s \<longleftrightarrow>
     (\<forall>r\<in>set (recvRec s). length (rrApdu r) = RECV_REC_BUF \<and> length (rrResponse r) = RECV_REC_BUF)"

lemma rr_inv_cong: "recvRec s' = recvRec s \<Longrightarrow> rr_inv s' = rr_inv s"
  by (simp add: rr_inv_def)

lemma rr_inv_frames [simp]:
  "rr_inv (drop_tsaIn s) = rr_inv s" "rr_inv (null_pointer s) = rr_inv s"
  "rr_inv (IncrementStat st s) = rr_inv s" "rr_inv (LCS_LogRxStat s a ty) = rr_inv s"
  "rr_inv (s\<lparr>memFault := b\<rparr>) = rr_inv s" "rr_inv (s\<lparr>reqId := q\<rparr>) = rr_inv s"
  "rr_inv (s\<lparr>prevChallenge := v\<rparr>) = rr_inv s" "rr_inv (s\<lparr>appInQ := qa\<rparr>) = rr_inv s"
  "rr_inv (s\<lparr>tsaRespQ := qr\<rparr>) = rr_inv s" "rr_inv (nw_emit pri f s) = rr_inv s"
  "rr_inv (fault_if b s) = rr_inv s"
  by (rule rr_inv_cong; simp)+

lemma rr_inv_update:
  assumes "rr_inv s"
    and "\<And>r. length (rrApdu (f r)) = length (rrApdu r) \<and> length (rrResponse (f r)) = length (rrResponse r)"
  shows "rr_inv (update_rr i f s)"
proof (cases "i < length (recvRec s)")
  case True
  have "length (rrApdu (f (rr i s))) = RECV_REC_BUF \<and> length (rrResponse (f (rr i s))) = RECV_REC_BUF"
    using assms True by (simp add: rr_inv_def)
  then show ?thesis
    using assms(1) set_update_subset_insert [of "recvRec s" i "f (rr i s)"]
    by (auto simp: rr_inv_def)
next
  case False
  then show ?thesis using assms(1) by (simp add: rr_inv_def list_update_beyond not_less)
qed

lemma length_memcpy_to [simp]: "length (memcpy_to dst src) = length dst"
  by (simp add: memcpy_to_def)

lemma rr_inv_answers [simp]:
  "rr_inv s \<Longrightarrow> rr_inv (Deliver i s)" "rr_inv s \<Longrightarrow> rr_inv (TPSendAck i s)"
  "rr_inv s \<Longrightarrow> rr_inv (SNSendResponse i b f s)" "rr_inv s \<Longrightarrow> rr_inv (InitiateChallenge rnd i s)"
proof -
  assume a: "rr_inv s"
  show "rr_inv (Deliver i s)" using a by (simp add: Deliver_def Let_def rr_inv_update)
  show "rr_inv (TPSendAck i s)" using a rr_inv_cong [of "TPSendAck i s" s] by simp
  show "rr_inv (SNSendResponse i b f s)"
    using a by (simp add: SNSendResponse_def Let_def rr_inv_update split: option.splits)
  have "rr_inv (draw_challenge rnd i s)" using a by (simp add: draw_challenge_def Let_def rr_inv_update)
  then show "rr_inv (InitiateChallenge rnd i s)"
    using a by (simp add: InitiateChallenge_def Let_def rr_inv_update split: option.splits)
qed

lemma next_reqId_frame:
  assumes "next_reqId s = (q, s')"
  shows "q \<noteq> 0" and "s' = s\<lparr>reqId := q + 1\<rparr>"
  using assms by (auto simp: next_reqId_def Let_def split: if_splits)

lemma setup_rr_keeps:
  shows "tsa_inv s \<Longrightarrow> tsa_inv (setup_rr now layerIn i t tn sv q apdu s)"
    and "rr_inv s \<Longrightarrow> rr_inv (setup_rr now layerIn i t tn sv q apdu s)"
    and "rr_inv s \<Longrightarrow> i < length (recvRec s) \<Longrightarrow>
           memFault (setup_rr now layerIn i t tn sv q apdu s) =
             (memFault s \<or> RECV_REC_BUF < length apdu)"
    and "tsaInQ (setup_rr now layerIn i t tn sv q apdu s) = tsaInQ s"
    and "length (recvRec (setup_rr now layerIn i t tn sv q apdu s)) = length (recvRec s)"
    and "nwBufSize b (setup_rr now layerIn i t tn sv q apdu s) = nwBufSize b s"
    and "i < length (recvRec s) \<Longrightarrow> rrTransState (rr i (setup_rr now layerIn i t tn sv q apdu s)) = JUST_RECEIVED"
proof -
  obtain rid s1 where n: "next_reqId s = (rid, s1)" by force
  have s1: "s1 = s\<lparr>reqId := rid + 1\<rparr>" using next_reqId_frame(2) [OF n] .
  have len: "length (rrApdu (rr i s)) = RECV_REC_BUF" if "rr_inv s" "i < length (recvRec s)"
    using that by (simp add: rr_inv_def)
  show "tsa_inv s \<Longrightarrow> tsa_inv (setup_rr now layerIn i t tn sv q apdu s)"
    "tsaInQ (setup_rr now layerIn i t tn sv q apdu s) = tsaInQ s"
    "length (recvRec (setup_rr now layerIn i t tn sv q apdu s)) = length (recvRec s)"
    "nwBufSize b (setup_rr now layerIn i t tn sv q apdu s) = nwBufSize b s"
    "i < length (recvRec s) \<Longrightarrow> rrTransState (rr i (setup_rr now layerIn i t tn sv q apdu s)) = JUST_RECEIVED"
    by (simp_all add: setup_rr_def Let_def n s1)
  show "rr_inv s \<Longrightarrow> rr_inv (setup_rr now layerIn i t tn sv q apdu s)"
    by (auto simp: setup_rr_def Let_def n s1 intro!: rr_inv_update)
  show "rr_inv s \<Longrightarrow> i < length (recvRec s) \<Longrightarrow>
           memFault (setup_rr now layerIn i t tn sv q apdu s) = (memFault s \<or> RECV_REC_BUF < length apdu)"
    using len by (auto simp: setup_rr_def Let_def n s1)
qed

lemma rr_find_Some:
  "rr_find p rs k = Some i \<Longrightarrow> k \<le> i \<and> i < k + length rs \<and> p (rs ! (i - k)) \<and>
     (\<forall>j. k \<le> j \<and> j < i \<longrightarrow> \<not> p (rs ! (j - k)))"
proof (induction p rs k rule: rr_find.induct)
  case (2 p r rs k)
  show ?case
  proof (cases "p r")
    case True
    then show ?thesis using 2(2) by auto
  next
    case False
    then have IH: "Suc k \<le> i" "i < Suc k + length rs" "p (rs ! (i - Suc k))"
      "\<And>j. Suc k \<le> j \<Longrightarrow> j < i \<Longrightarrow> \<not> p (rs ! (j - Suc k))"
      using 2 by auto
    have nth: "(r # rs) ! (i - k) = rs ! (i - Suc k)"
      using IH(1) by (simp add: nth_Cons')
    have "\<not> p ((r # rs) ! (j - k))" if "k \<le> j" "j < i" for j
      using False IH(4) [of j] that by (cases "j = k") (auto simp: nth_Cons')
    then show ?thesis using IH(1-3) unfolding nth by auto
  qed
qed simp

lemma rr_find_None: "rr_find p rs k = None \<longleftrightarrow> (\<forall>r\<in>set rs. \<not> p r)"
  by (induction p rs k rule: rr_find.induct) auto

lemma rr_lookup_bounds:
  "RetrieveRR src pri s = Some i \<Longrightarrow> i < length (recvRec s) \<and> rr_matches src pri (rr i s)"
  "AllocateRR s = Some i \<Longrightarrow> i < length (recvRec s) \<and> rrStatus (rr i s) = UNUSED_RR"
  "FindRR rid s = Some i \<Longrightarrow> i < length (recvRec s) \<and> rrStatus (rr i s) = SESSION_RR \<and>
     rrReqId (rr i s) = rid \<and> rrServiceType (rr i s) = IzotServiceRequest \<and>
     rrTransState (rr i s) = DELIVERED"
  by (auto simp: RetrieveRR_def AllocateRR_def FindRR_def dest!: rr_find_Some
      split: option.splits if_splits)

text \<open>
  A response that is kept for a request, and is sent again for a duplicate of it, when it was
  given for a slot it does not fit.
\<close>

definition kept_response_too_long :: "stack \<Rightarrow> bool" where
  "kept_response_too_long s \<longleftrightarrow>
     (\<exists>i<length (recvRec s). rrTransState (rr i s) = RESPONDED \<and> response_too_long (rr i s) s)"

lemma Deliver_not_responded:
  "rr_open (rr i s) \<Longrightarrow> rrTransState (rr i (Deliver i s)) \<noteq> RESPONDED"
  by (cases "i < length (recvRec s)")
    (auto simp: rr_open_def Deliver_def Let_def list_update_beyond not_less)

lemma new_msg_process_keeps:
  shows "tsa_inv s \<Longrightarrow> tsa_inv (new_msg_process rnd layerIn i s)"
    and "rr_inv s \<Longrightarrow> rr_inv (new_msg_process rnd layerIn i s)"
    and "answers_fit s \<Longrightarrow> memFault (new_msg_process rnd layerIn i s) \<Longrightarrow>
           memFault s \<or> layerIn = SESSION \<and> rrTransState (rr i s) = RESPONDED \<and> response_too_long (rr i s) s"
    and "tsaInQ (new_msg_process rnd layerIn i s) = tsaInQ s"
proof -
  show "memFault s \<or> layerIn = SESSION \<and> rrTransState (rr i s) = RESPONDED \<and> response_too_long (rr i s) s"
    if "answers_fit s" "memFault (new_msg_process rnd layerIn i s)"
    using that Deliver_not_responded [of s i] SNSendResponse_fault [of i False False s]
    by (cases layerIn) (auto simp: new_msg_process_def Let_def split: if_splits)
qed (simp_all add: new_msg_process_def Let_def)

lemma update_flags [simp]:
  "rr_inv s \<Longrightarrow> rr_inv (update_rr i (\<lambda>r. r\<lparr>rrNeedAuth := b\<rparr>) s)"
  "rr_inv s \<Longrightarrow> rr_inv (update_rr i (\<lambda>r. r\<lparr>rrAltPath := g r\<rparr>) s)"
  "rr_inv s \<Longrightarrow> rr_inv (update_rr i (\<lambda>r. r\<lparr>rrTransState := ts\<rparr>) s)"
  "rr_inv s \<Longrightarrow> rr_inv (update_rr i (\<lambda>r. r\<lparr>rrStatus := st\<rparr>) s)"
  by (simp_all add: rr_inv_update)

text \<open>The size of the APDU in a message, and in a message with an \<open>M_LIST\<close>.\<close>

definition apdu_size :: "TSAReceiveParam \<Rightarrow> nat" where
  "apdu_size t = sub16 (tsrPduSize t) (1 + dataIndexOf (tsrVersion t))"

definition rem_apdu_size :: "TSAReceiveParam \<Rightarrow> nat" where
  "rem_apdu_size t = sub16 (tsrPduSize t) (2 + rem_length t + dataIndexOf (tsrVersion t))"

lemma length_rem_apdu [simp]: "length (rem_apdu t) = rem_apdu_size t"
  by (simp add: rem_apdu_def rem_apdu_size_def Let_def)

lemma new_msg_setup_keeps:
  shows "tsa_inv s \<Longrightarrow> tsa_inv (new_msg_setup now layerIn i t s)"
    and "rr_inv s \<Longrightarrow> rr_inv (new_msg_setup now layerIn i t s)"
    and "rr_inv s \<Longrightarrow> i < length (recvRec s) \<Longrightarrow>
           memFault (new_msg_setup now layerIn i t s) = (memFault s \<or> RECV_REC_BUF < apdu_size t)"
    and "tsaInQ (new_msg_setup now layerIn i t s) = tsaInQ s"
    and "length (recvRec (new_msg_setup now layerIn i t s)) = length (recvRec s)"
    and "nwBufSize b (new_msg_setup now layerIn i t s) = nwBufSize b s"
    and "i < length (recvRec s) \<Longrightarrow> rrTransState (rr i (new_msg_setup now layerIn i t s)) = JUST_RECEIVED"
  by (simp_all add: new_msg_setup_def Let_def setup_rr_keeps apdu_size_def)

lemma response_too_long_cong:
  assumes "rrRspSize r' = rrRspSize r" "rrPriority r' = rrPriority r" "rrVersion r' = rrVersion r"
    and "\<And>p. nwBufSize p s' = nwBufSize p s"
  shows "response_too_long r' s' = response_too_long r s"
  using assms(1-3) assms(4) [of "rrPriority r"] assms(4) [of False]
  by (simp add: response_too_long_def) (simp add: nwBufSize_def)

lemma new_msg_record_keeps:
  assumes "new_msg_record now layerIn t s = (oi, s')" and "tsa_inv s" "rr_inv s"
  shows "tsa_inv s'" and "rr_inv s'"
    and "memFault s' \<Longrightarrow> memFault s \<or> RECV_REC_BUF < apdu_size t"
  using assms
  by (auto simp: new_msg_record_def new_msg_setup_keeps dest: rr_lookup_bounds rr_lookup_bounds [OF sym]
      split: option.splits if_splits)

lemma new_msg_record_sizes:
  assumes "new_msg_record now layerIn t s = (oi, s')"
  shows "nwBufSize b s' = nwBufSize b s"
  using assms
  by (auto simp: new_msg_record_def new_msg_setup_keeps split: option.splits if_splits)

lemma new_msg_record_responded:
  assumes "new_msg_record now layerIn t s = (Some i, s')" "rrTransState (rr i s') = RESPONDED"
    and "response_too_long (rr i s') s'"
  shows "kept_response_too_long s"
proof -
  have "i < length (recvRec s) \<and> rr i s' = (rr i s)\<lparr>rrAltPath := rrAltPath (rr i s) OR tsrAltPath t\<rparr>"
    using assms(1,2) rr_lookup_bounds(1) [of "tsrSrcAddr t" "tsrPriority t" s]
      rr_lookup_bounds(2) [of s] new_msg_setup_keeps(7) [of i s]
      new_msg_setup_keeps(7) [of i "IncrementStat LcsLost s"]
    by (auto simp: new_msg_record_def split: option.splits if_splits)
  moreover from this have "response_too_long (rr i s') s' = response_too_long (rr i s) s"
    using new_msg_record_sizes [OF assms(1)] by (intro response_too_long_cong) simp_all
  ultimately show ?thesis
    using assms(2,3) by (auto simp: kept_response_too_long_def)
qed

lemma ReceiveNewMsg_keeps:
  assumes "tsa_inv s" "rr_inv s" and "QueueHead (tsaInQ s) = Some t"
  shows "tsa_inv (ReceiveNewMsg now rnd layerIn s)" and "rr_inv (ReceiveNewMsg now rnd layerIn s)"
    and "answers_fit s \<Longrightarrow> memFault (ReceiveNewMsg now rnd layerIn s) \<Longrightarrow>
      memFault s \<or> RECV_REC_BUF < apdu_size t \<or> layerIn = SESSION \<and> kept_response_too_long s"
proof -
  obtain oi s1 where r: "new_msg_record now layerIn t s = (oi, s1)" by force
  note k = new_msg_record_keeps [OF r assms(1,2)]
  show "tsa_inv (ReceiveNewMsg now rnd layerIn s)" "rr_inv (ReceiveNewMsg now rnd layerIn s)"
    using k assms(3) r
    by (simp_all add: ReceiveNewMsg_def new_msg_process_keeps split: option.splits)
  assume fit: "answers_fit s" and fault: "memFault (ReceiveNewMsg now rnd layerIn s)"
  show "memFault s \<or> RECV_REC_BUF < apdu_size t \<or> layerIn = SESSION \<and> kept_response_too_long s"
  proof (cases oi)
    case None
    then show ?thesis using k(3) assms(3) r fault by (auto simp: ReceiveNewMsg_def)
  next
    case (Some i)
    define u where "u = update_rr i (\<lambda>r. r\<lparr>rrNeedAuth :=
        NodeConfigured s1 \<and> TSPDU_auth (byte_at (tsrPdu t) 0)\<rparr>) (drop_tsaIn s1)"
    have sz: "nwBufSize b u = nwBufSize b s1" for b by (simp add: u_def)
    have fit_u: "answers_fit u" using fit new_msg_record_sizes [OF r] sz by (simp add: answers_fit_def)
    have f: "rrTransState (rr i u) = rrTransState (rr i s1)" "rrRspSize (rr i u) = rrRspSize (rr i s1)"
      "rrPriority (rr i u) = rrPriority (rr i s1)" "rrVersion (rr i u) = rrVersion (rr i s1)"
      by (cases "i < length (recvRec s1)"; simp add: u_def list_update_beyond not_less)+
    have same: "response_too_long (rr i u) u = response_too_long (rr i s1) s1"
      by (rule response_too_long_cong) (use f sz in simp_all)
    have "memFault u = memFault s1" by (simp add: u_def)
    moreover have "memFault (new_msg_process rnd layerIn i u)"
      using fault assms(3) r Some by (simp add: ReceiveNewMsg_def u_def)
    ultimately have "memFault s1 \<or> layerIn = SESSION \<and> rrTransState (rr i s1) = RESPONDED \<and> response_too_long (rr i s1) s1"
      using new_msg_process_keeps(3) [OF fit_u, of rnd layerIn i] same f(1) by simp
    then show ?thesis
      using k(3) new_msg_record_responded [OF r [unfolded Some]] by auto
  qed
qed

lemma rem_answer_keeps:
  shows "tsa_inv s \<Longrightarrow> tsa_inv (rem_answer rnd layerIn i t s)"
    and "rr_inv s \<Longrightarrow> rr_inv (rem_answer rnd layerIn i t s)"
    and "answers_fit s \<Longrightarrow> memFault (rem_answer rnd layerIn i t s) \<Longrightarrow>
      memFault s \<or> layerIn = SESSION \<and> rrTransState (rr i s) = RESPONDED \<and> response_too_long (rr i s) s"
proof -
  have drop: "response_too_long (rr i s) (drop_tsaIn s) = response_too_long (rr i s) s"
    by (rule response_too_long_cong) simp_all
  show "memFault s \<or> layerIn = SESSION \<and> rrTransState (rr i s) = RESPONDED \<and> response_too_long (rr i s) s"
    if "answers_fit s" "memFault (rem_answer rnd layerIn i t s)"
    using that Deliver_not_responded [of s i] SNSendResponse_fault [of i False False "drop_tsaIn s"] drop
    by (cases layerIn) (auto simp: rem_answer_def Let_def split: if_splits)
qed (simp_all add: rem_answer_def Let_def)

lemma rem_existing_keeps:
  shows "tsa_inv s \<Longrightarrow> tsa_inv (rem_existing rnd layerIn i t s)"
    and "rr_inv s \<Longrightarrow> rr_inv (rem_existing rnd layerIn i t s)"
    and "answers_fit s \<Longrightarrow> memFault (rem_existing rnd layerIn i t s) \<Longrightarrow>
      memFault s \<or> layerIn = SESSION \<and> rrTransState (rr i s) = RESPONDED \<and> response_too_long (rr i s) s"
proof -
  show "memFault s \<or> layerIn = SESSION \<and> rrTransState (rr i s) = RESPONDED \<and> response_too_long (rr i s) s"
    if "answers_fit s" "memFault (rem_existing rnd layerIn i t s)"
    using that rem_answer_keeps(3) [of s rnd layerIn i t]
    by (auto simp: rem_existing_def Let_def split: option.splits if_splits)
qed (simp_all add: rem_existing_def Let_def rem_answer_keeps split: option.splits)

lemma rem_new_keeps:
  assumes "tsa_inv s" "rr_inv s"
  shows "tsa_inv (rem_new now rnd layerIn t s)" and "rr_inv (rem_new now rnd layerIn t s)"
    and "answers_fit s \<Longrightarrow> memFault (rem_new now rnd layerIn t s) \<Longrightarrow>
      memFault s \<or> RECV_REC_BUF < rem_apdu_size t"
proof -
  show "tsa_inv (rem_new now rnd layerIn t s)" "rr_inv (rem_new now rnd layerIn t s)"
    using assms by (auto simp: rem_new_def Let_def setup_rr_keeps split: option.splits)
  have fit: "answers_fit (setup_rr now layer i t tn sv q apdu s) = answers_fit s" for layer i tn sv q apdu
    by (rule answers_fit_cong) (rule setup_rr_keeps)
  show "memFault s \<or> RECV_REC_BUF < rem_apdu_size t"
    if "answers_fit s" "memFault (rem_new now rnd layerIn t s)"
    using that assms
    by (auto simp: rem_new_def Let_def setup_rr_keeps fit dest: rr_lookup_bounds rr_lookup_bounds [OF sym]
      split: option.splits if_splits)
qed

lemma ReceiveRem_keeps:
  assumes "tsa_inv s" "rr_inv s" and "QueueHead (tsaInQ s) = Some t"
  shows "tsa_inv (ReceiveRem now rnd layerIn s)" and "rr_inv (ReceiveRem now rnd layerIn s)"
    and "answers_fit s \<Longrightarrow> memFault (ReceiveRem now rnd layerIn s) \<Longrightarrow>
           memFault s \<or> (\<not> is_reminder t \<and> RECV_REC_BUF < rem_apdu_size t) \<or>
           layerIn = SESSION \<and> kept_response_too_long s"
proof -
  have r: "tsa_inv (rem_new now rnd layerIn t s')" "rr_inv (rem_new now rnd layerIn t s')"
    "answers_fit s' \<Longrightarrow> memFault (rem_new now rnd layerIn t s') \<Longrightarrow> memFault s' \<or> RECV_REC_BUF < rem_apdu_size t"
    if "tsa_inv s'" "rr_inv s'" for s'
    using rem_new_keeps [OF that] by auto
  show "tsa_inv (ReceiveRem now rnd layerIn s)" "rr_inv (ReceiveRem now rnd layerIn s)"
    using assms r by (simp_all add: ReceiveRem_def rem_existing_keeps split: option.splits)
  have kept: "memFault s \<or> layerIn = SESSION \<and> kept_response_too_long s"
    if "answers_fit s" "RetrieveRR src pri s = Some i" "memFault (rem_existing rnd layerIn i t s)" for src pri i
    using rem_existing_keeps(3) [OF that(1,3)] rr_lookup_bounds(1) [OF that(2)]
    by (auto simp: kept_response_too_long_def)
  show "memFault s \<or> (\<not> is_reminder t \<and> RECV_REC_BUF < rem_apdu_size t) \<or>
      layerIn = SESSION \<and> kept_response_too_long s"
    if "answers_fit s" "memFault (ReceiveRem now rnd layerIn s)"
    using that assms r(3) [of s] r(3) [of "update_rr i (\<lambda>r. r\<lparr>rrStatus := UNUSED_RR\<rparr>) s" for i]
      kept [OF that(1), of "tsrSrcAddr t" "tsrPriority t"]
    by (auto simp: ReceiveRem_def split: option.splits if_splits)
qed

lemma kept_response_cong:
  assumes "length (recvRec s') = length (recvRec s)" "\<And>p. nwBufSize p s' = nwBufSize p s"
    and "\<And>i. i < length (recvRec s) \<Longrightarrow> rrTransState (rr i s') = rrTransState (rr i s) \<and>
      rrRspSize (rr i s') = rrRspSize (rr i s) \<and> rrPriority (rr i s') = rrPriority (rr i s) \<and>
      rrVersion (rr i s') = rrVersion (rr i s)"
  shows "kept_response_too_long s' = kept_response_too_long s"
proof -
  have "response_too_long (rr i s') s' = response_too_long (rr i s) s" if "i < length (recvRec s)" for i
    using assms(3) [OF that] assms(2) by (intro response_too_long_cong) simp_all
  then show ?thesis using assms(1,3) by (auto simp: kept_response_too_long_def)
qed

lemma expire_rr_fields [simp]:
  "rrTransState (expire_rr now st r) = rrTransState r" "rrRspSize (expire_rr now st r) = rrRspSize r"
  "rrPriority (expire_rr now st r) = rrPriority r" "rrVersion (expire_rr now st r) = rrVersion r"
  "rrAuth (expire_rr now st r) = rrAuth r"
  by (simp_all add: expire_rr_def split: prod.splits)

lemma expire_records_sizes [simp]:
  "nwBufSize p (expire_records now st s) = nwBufSize p s"
  "answers_fit (expire_records now st s) = answers_fit s"
  "kept_response_too_long (expire_records now st s) = kept_response_too_long s"
proof -
  show n: "nwBufSize p (expire_records now st s) = nwBufSize p s" for p
    by (simp add: expire_records_def)
  show "answers_fit (expire_records now st s) = answers_fit s" by (rule answers_fit_cong) (rule n)
  show "kept_response_too_long (expire_records now st s) = kept_response_too_long s"
    by (rule kept_response_cong) (simp_all add: n, simp_all add: expire_records_def)
qed

lemma kept_response_LogRx [simp]:
  "kept_response_too_long (LCS_LogRxStat s a ty) = kept_response_too_long s"
  by (rule kept_response_cong) simp_all

lemma expire_records_keeps [simp]:
  "tsa_inv s \<Longrightarrow> tsa_inv (expire_records now st s)" "rr_inv s \<Longrightarrow> rr_inv (expire_records now st s)"
  "memFault (expire_records now st s) = memFault s" "tsaInQ (expire_records now st s) = tsaInQ s"
  "tsaRespQ (expire_records now st s) = tsaRespQ s" "appInBufSize (expire_records now st s) = appInBufSize s"
proof -
  assume inv: "tsa_inv s"
  have "tx_inv p (expire_records now st s) = tx_inv p s" for p
    by (rule tx_inv_cong) (simp_all add: expire_records_def tsa_select_defs tcs_select_defs)
  then show "tsa_inv (expire_records now st s)"
    using inv by (auto simp: tsa_inv_def expire_records_def)
next
  assume "rr_inv s"
  moreover have "length (rrApdu (expire_rr now st r)) = length (rrApdu r) \<and>
      length (rrResponse (expire_rr now st r)) = length (rrResponse r)" for r
    by (simp add: expire_rr_def split: prod.splits)
  ultimately show "rr_inv (expire_records now st s)"
    by (simp add: rr_inv_def expire_records_def)
qed (simp_all add: expire_records_def)

text \<open>When the PDU at the head of the queue makes a copy run past its buffer.\<close>

definition tpdu_overflows :: "TSAReceiveParam \<Rightarrow> bool" where
  "tpdu_overflows t \<longleftrightarrow>
     (let mt = TSPDU_pduMsgType (byte_at (tsrPdu t) 0)
      in (mt = ACKD_MSG \<or> mt = UNACK_RPT_MSG) \<and> RECV_REC_BUF < apdu_size t \<or>
         mt = REM_MSG_MSG \<and> RECV_REC_BUF < rem_apdu_size t)"

definition spdu_overflows :: "stack \<Rightarrow> TSAReceiveParam \<Rightarrow> bool" where
  "spdu_overflows s t \<longleftrightarrow>
     (let mt = TSPDU_pduMsgType (byte_at (tsrPdu t) 0)
      in mt = REQUEST_MSG \<and> RECV_REC_BUF < apdu_size t \<or>
         mt = REM_MSG_MSG \<and> RECV_REC_BUF < rem_apdu_size t \<or>
         mt \<in> {REQUEST_MSG, REMINDER_MSG, REM_MSG_MSG} \<and> kept_response_too_long s \<or>
         mt = RESPONSE_MSG \<and> response_overflows t s)"

lemma rr_inv_from_ack: "tsa_inv s \<Longrightarrow> QueueHead (tsaInQ s) = Some t \<Longrightarrow> rr_inv s \<Longrightarrow> rr_inv (TPReceiveAck now s)"
  using TPReceiveAck_keeps(3) [of s t now] by (simp add: rr_inv_def)

lemma response_count_recvRec:
  assumes "tsa_inv s" and "txStatus (xmitRecOf pri s) \<noteq> UNUSED_TX"
  shows "recvRec (response_count pri t p s) = recvRec s"
proof -
  have e: "tsa_inv (emit_response t p x s)" for x using assms(1) by simp
  note one = TerminateTrans_keeps(4) [of "update_xmitRec pri count_answer (emit_response t p x s)" pri for x]
  note all = terminate_if_all_keeps(4) [of "update_xmitRec pri (count_member (answer_member t)) s'" pri for s']
  show ?thesis
    using one all [of s] all [of "emit_response t p (xmitRecOf pri s) s"] e assms
    by (auto simp: response_count_def Let_def split: AddrMode.splits)
qed

lemma rr_inv_from_response:
  assumes "tsa_inv s" "QueueHead (tsaInQ s) = Some t" "rr_inv s"
  shows "rr_inv (SNReceiveResponse now s)"
proof -
  let ?pri = "tsrPriority t"
  let ?s1 = "if response_overflows t s then s\<lparr>memFault := True\<rparr> else s"
  let ?s2 = "set_tsaQ ?pri (QueuePokeHead (\<lambda>p. p\<lparr>tssProxyDone := True\<rparr>) (tsaQ ?pri ?s1)) ?s1"
  have inv: "tsa_inv ?s2" by (rule tsa_inv_poke_tsaQ) (use assms(1) in auto)
  have used: "txStatus (xmitRecOf ?pri ?s2) \<noteq> UNUSED_TX"
    if "\<not> answer_mismatch SESSION_TX t (xmitRecOf ?pri s)"
    using that by (auto simp: answer_mismatch_def Let_def)
  have "recvRec (SNReceiveResponse now s) = recvRec s"
    using response_count_recvRec [OF inv used] assms
    by (auto simp: SNReceiveResponse_def Let_def null_pointer_frame split: option.splits)
  then show ?thesis using assms(3) by (simp add: rr_inv_def)
qed

lemma transport_dispatch_keeps:
  assumes "tsa_inv s" "rr_inv s" and "QueueHead (tsaInQ s) = Some t"
    and "mt = TSPDU_pduMsgType (byte_at (tsrPdu t) 0)"
  shows "tsa_inv (transport_dispatch now rnd mt s)" and "rr_inv (transport_dispatch now rnd mt s)"
    and "answers_fit s \<Longrightarrow> memFault (transport_dispatch now rnd mt s) \<Longrightarrow> memFault s \<or> tpdu_overflows t"
  using assms TPReceiveAck_keeps [OF assms(1,3), of now] rr_inv_from_ack [OF assms(1,3,2), of now]
    ReceiveNewMsg_keeps [OF assms(1-3), of now rnd TRANSPORT] ReceiveRem_keeps [OF assms(1-3), of now rnd TRANSPORT]
  by (auto simp: transport_dispatch_def tpdu_overflows_def is_reminder_def Let_def split: if_splits)

lemma transport_dispatch_safe:
  "tsa_inv s \<Longrightarrow> rr_inv s \<Longrightarrow> QueueHead (tsaInQ s) = Some t \<Longrightarrow>
     mt = TSPDU_pduMsgType (byte_at (tsrPdu t) 0) \<Longrightarrow>
     answers_fit s \<Longrightarrow>
     tsa_inv (transport_dispatch now rnd mt s) \<and> rr_inv (transport_dispatch now rnd mt s) \<and>
     (memFault (transport_dispatch now rnd mt s) \<longrightarrow> memFault s \<or> tpdu_overflows t)"
  by (intro conjI impI) (rule transport_dispatch_keeps; assumption)+

lemma session_dispatch_keeps:
  assumes "tsa_inv s" "rr_inv s" and "QueueHead (tsaInQ s) = Some t"
    and "mt = TSPDU_pduMsgType (byte_at (tsrPdu t) 0)"
  shows "tsa_inv (session_dispatch now rnd mt s)" and "rr_inv (session_dispatch now rnd mt s)"
    and "answers_fit s \<Longrightarrow> memFault (session_dispatch now rnd mt s) \<Longrightarrow> memFault s \<or> spdu_overflows s t"
  using assms SNReceiveResponse_keeps [OF assms(1,3), of now] rr_inv_from_response [OF assms(1,3,2), of now]
    ReceiveNewMsg_keeps [OF assms(1-3), of now rnd SESSION] ReceiveRem_keeps [OF assms(1-3), of now rnd SESSION]
  by (auto simp: session_dispatch_def spdu_overflows_def is_reminder_def Let_def split: if_splits)

lemma session_dispatch_safe:
  "tsa_inv s \<Longrightarrow> rr_inv s \<Longrightarrow> QueueHead (tsaInQ s) = Some t \<Longrightarrow>
     mt = TSPDU_pduMsgType (byte_at (tsrPdu t) 0) \<Longrightarrow>
     answers_fit s \<Longrightarrow>
     tsa_inv (session_dispatch now rnd mt s) \<and> rr_inv (session_dispatch now rnd mt s) \<and>
     (memFault (session_dispatch now rnd mt s) \<longrightarrow> memFault s \<or> spdu_overflows s t)"
  by (intro conjI impI) (rule session_dispatch_keeps; assumption)+

lemma layer_receive_keeps:
  assumes "tsa_inv s" "rr_inv s" "answers_fit s"
    and "\<And>mt s' t. tsa_inv s' \<Longrightarrow> rr_inv s' \<Longrightarrow> QueueHead (tsaInQ s') = Some t \<Longrightarrow>
           mt = TSPDU_pduMsgType (byte_at (tsrPdu t) 0) \<Longrightarrow> answers_fit s' \<Longrightarrow>
           tsa_inv (dispatch mt s') \<and> rr_inv (dispatch mt s') \<and>
           (memFault (dispatch mt s') \<longrightarrow> memFault s' \<or> over s' t)"
    and "\<And>s' t. appInBufSize s' = appInBufSize s \<Longrightarrow>
           kept_response_too_long s' = kept_response_too_long s \<Longrightarrow> over s' t = over s t"
  shows "tsa_inv (layer_receive ty sol dispatch s) \<and> rr_inv (layer_receive ty sol dispatch s) \<and>
    (memFault (layer_receive ty sol dispatch s) \<longrightarrow> memFault s \<or>
       (\<exists>t. QueueHead (tsaInQ s) = Some t \<and> tsrPduType t = ty \<and> 1 \<le> tsrPduSize t \<and> over s t))"
proof (cases "QueueHead (tsaInQ s)")
  case None
  then have "queue_list (tsaInQ s) = []" using assms(1) by (simp add: QueueHead_eq tsa_inv_queues split: if_splits)
  then show ?thesis using assms(1,2) by (simp add: layer_receive_def tsa_inv_queues)
next
  case (Some t)
  let ?s = "LCS_LogRxStat s (tsrAltPath t)
      (if TSPDU_pduMsgType (byte_at (tsrPdu t) 0) = sol then RX_SOLICITED else RX_UNSOLICITED)"
  have k: "tsa_inv ?s" "rr_inv ?s" "QueueHead (tsaInQ ?s) = Some t" "answers_fit ?s"
    using assms(1-3) Some by simp_all
  have "over ?s t = over s t" by (rule assms(5)) simp_all
  with assms(4) [OF k(1-3) refl k(4)] show ?thesis
    using assms(1,2) Some by (auto simp: layer_receive_def Let_def not_less)
qed

text \<open>
  When a response of the application is copied past a buffer: the record's, or the slot of
  the network layer's queue.
\<close>

definition answer_overflows :: "stack \<Rightarrow> bool" where
  "answer_overflows s \<longleftrightarrow>
     (\<exists>p i. QueueHead (tsaRespQ s) = Some p \<and> FindRR (tssReqId p) s = Some i \<and>
        (RECV_REC_BUF < tssApduSize p \<or> response_too_long ((rr i s)\<lparr>rrRspSize := tssApduSize p\<rparr>) s))"

lemma send_response_keeps:
  assumes "tsa_inv s" "rr_inv s" and "QueueHead (tsaRespQ s) = Some p"
  shows "tsa_inv (send_response s)" and "rr_inv (send_response s)"
    and "memFault (send_response s) \<Longrightarrow> memFault s \<or> answer_overflows s"
proof -
  have inv: "tsa_inv (if b then s\<lparr>memFault := True\<rparr> else s)"
    "rr_inv (if b then s\<lparr>memFault := True\<rparr> else s)" for b
    using assms by auto
  have rinv: "rr_inv (update_rr i (\<lambda>r. r\<lparr>rrRspSize := n, rrResponse := memcpy_to (rrResponse r) bs,
      rrTransState := RESPONDED\<rparr>) s')" if "rr_inv s'" for i n bs s'
    using that by (simp add: rr_inv_update)
  show "tsa_inv (send_response s)" "rr_inv (send_response s)"
    using assms inv rinv
    by (auto simp: send_response_def Let_def tsa_inv_queues intro!: tsa_inv_resp split: option.splits)
  assume fault: "memFault (send_response s)"
  show "memFault s \<or> answer_overflows s"
  proof (cases "FindRR (tssReqId p) s")
    case None
    then show ?thesis using fault assms(3) by (simp add: send_response_def Let_def split: if_splits)
  next
    case (Some i)
    have i: "i < length (recvRec s)" "length (rrResponse (rr i s)) = RECV_REC_BUF"
      using rr_lookup_bounds(3) [OF Some] assms(2) by (simp_all add: rr_inv_def)
    let ?s1 = "if tssApduSize p > length (rrResponse (rr i s)) then s\<lparr>memFault := True\<rparr> else s"
    let ?s2 = "update_rr i (\<lambda>r. r\<lparr>rrRspSize := tssApduSize p, rrResponse := memcpy_to (rrResponse r)
        (bytes_from (tssApdu p) 0 (tssApduSize p)), rrTransState := RESPONDED\<rparr>) ?s1"
    have "response_too_long (rr i ?s2) ?s2 = response_too_long ((rr i s)\<lparr>rrRspSize := tssApduSize p\<rparr>) s"
      by (rule response_too_long_cong) (use i in simp_all)
    moreover have "memFault s \<or> RECV_REC_BUF < tssApduSize p \<or> response_too_long (rr i ?s2) ?s2"
      using fault assms(3) Some i(2) SNSendResponse_fault [of i "tssNullResponse p" "tssFlexResponse p" ?s2]
      by (auto simp: send_response_def Let_def split: if_splits)
    ultimately show ?thesis using assms(3) Some by (auto simp: answer_overflows_def)
  qed
qed

lemma SessionLayerSend_keeps:
  assumes "tsa_inv s" "rr_inv s"
  shows "tsa_inv (SessionLayerSend now s)"
    and "memFault (SessionLayerSend now s) \<Longrightarrow> memFault s \<or> answer_overflows s \<or> layer_send_overflows SESSION s"
proof -
  have "tsa_inv (SessionLayerSend now s) \<and> (memFault (SessionLayerSend now s) \<longrightarrow>
      memFault s \<or> answer_overflows s \<or> layer_send_overflows SESSION s)"
  proof (cases "QueueHead (tsaRespQ s)")
    case None
    then have "queue_list (tsaRespQ s) = []"
      using assms(1) by (simp add: QueueHead_eq tsa_inv_queues split: if_splits)
    then show ?thesis
      using layer_send_inv [OF assms(1), of now SESSION] assms(1)
      by (auto simp: SessionLayerSend_def tsa_inv_queues)
  next
    case (Some p)
    then show ?thesis
      using layer_send_inv [OF assms(1), of now SESSION] send_response_keeps [OF assms Some] assms(1)
      by (auto simp: SessionLayerSend_def)
  qed
  then show "tsa_inv (SessionLayerSend now s)"
    "memFault (SessionLayerSend now s) \<Longrightarrow> memFault s \<or> answer_overflows s \<or> layer_send_overflows SESSION s" by auto
qed

lemma TransportLayerReceive_keeps:
  assumes "tsa_inv s" "rr_inv s" "answers_fit s"
  shows "tsa_inv (TransportLayerReceive now rnd s) \<and> rr_inv (TransportLayerReceive now rnd s) \<and>
    (memFault (TransportLayerReceive now rnd s) \<longrightarrow> memFault s \<or>
       (\<exists>t. QueueHead (tsaInQ s) = Some t \<and> tpdu_overflows t))"
proof -
  let ?s = "expire_records now TRANSPORT_RR s"
  have k: "tsa_inv ?s" "rr_inv ?s" "answers_fit ?s" "memFault ?s = memFault s" "tsaInQ ?s = tsaInQ s"
    using assms by simp_all
  have "tsa_inv (TransportLayerReceive now rnd s) \<and> rr_inv (TransportLayerReceive now rnd s) \<and>
    (memFault (TransportLayerReceive now rnd s) \<longrightarrow> memFault ?s \<or>
       (\<exists>t. QueueHead (tsaInQ ?s) = Some t \<and> tsrPduType t = TPDU_TYPE \<and> 1 \<le> tsrPduSize t \<and>
          tpdu_overflows t))"
    unfolding TransportLayerReceive_def
    by (rule layer_receive_keeps [OF k(1-3), where over = "\<lambda>_. tpdu_overflows"])
      ((rule transport_dispatch_safe; assumption), rule refl)
  then show ?thesis unfolding k by blast
qed

lemma SessionLayerReceive_keeps:
  assumes "tsa_inv s" "rr_inv s" "answers_fit s"
  shows "tsa_inv (SessionLayerReceive now rnd s) \<and> rr_inv (SessionLayerReceive now rnd s) \<and>
    (memFault (SessionLayerReceive now rnd s) \<longrightarrow> memFault s \<or>
       (\<exists>t. QueueHead (tsaInQ s) = Some t \<and> spdu_overflows s t))"
proof -
  let ?s = "expire_records now SESSION_RR s"
  have k: "tsa_inv ?s" "rr_inv ?s" "answers_fit ?s" "memFault ?s = memFault s" "tsaInQ ?s = tsaInQ s"
    using assms by simp_all
  have over: "spdu_overflows s' t = spdu_overflows s'' t"
    if "appInBufSize s' = appInBufSize s''" "kept_response_too_long s' = kept_response_too_long s''" for s' s'' t
    using that by (simp add: spdu_overflows_def response_overflows_def)
  have "tsa_inv (SessionLayerReceive now rnd s) \<and> rr_inv (SessionLayerReceive now rnd s) \<and>
    (memFault (SessionLayerReceive now rnd s) \<longrightarrow> memFault ?s \<or>
       (\<exists>t. QueueHead (tsaInQ ?s) = Some t \<and> tsrPduType t = SPDU_TYPE \<and> 1 \<le> tsrPduSize t \<and>
          spdu_overflows ?s t))"
    unfolding SessionLayerReceive_def
    by (rule layer_receive_keeps [OF k(1-3), where over = spdu_overflows])
      ((rule session_dispatch_safe; assumption), (rule over; assumption))
  moreover have "spdu_overflows ?s t = spdu_overflows s t" for t by (rule over) simp_all
  ultimately show ?thesis unfolding k by blast
qed


lemma sampleStack_rr_inv [simp]: "rr_inv sampleStack"
  by (simp add: rr_inv_def sampleRr_def RECV_REC_BUF_def)

lemma sampleStack_answers_fit [simp]: "answers_fit sampleStack"
  by (simp add: answers_fit_def nwBufSize_def)


end
