(* ===== verification/Lcs_Tsa_Exchange.thy ===== *)
theory Lcs_Tsa_Exchange
  imports Lcs_Tsa_Receive
begin

text \<open>
  What the transport and session layers achieve between two nodes: acknowledgements end the
  transaction they belong to and no other, group answers are counted as a set, the \<open>M_LIST\<close>
  of a retry asks exactly the members that have not answered, a duplicate is not delivered
  twice, and a response goes back under its request's number; and where they fail to.
\<close>

section \<open>Acknowledgements\<close>

text \<open>The members whose answer a transmit record holds, and the count that goes with them.\<close>

definition acked :: "TransmitRecord \<Rightarrow> nat set" where
  "acked x = {m. m < length (txAckReceived x) \<and> txAckReceived x ! m}"

definition ack_counted :: "TransmitRecord \<Rightarrow> bool" where
  "ack_counted x \<longleftrightarrow> length (txAckReceived x) = MAX_GROUP_NUMBER + 1 \<and>
     unat (txAckCount x) = card (acked x)"

lemma acked_finite [simp]: "finite (acked x)"
  by (simp add: acked_def)

lemma card_acked: "ack_counted x \<Longrightarrow> card (acked x) \<le> 64"
  using card_mono [of "{..<64}" "acked x"]
  by (auto simp: ack_counted_def acked_def MAX_GROUP_NUMBER_def)

lemma unat_u8_Suc: "unat (n :: u8) < 255 \<Longrightarrow> unat (n + 1) = Suc (unat n)"
  by (simp add: unat_word_ariths)

lemma acked_count_member:
  assumes "ack_counted x" and "m \<le> MAX_GROUP_NUMBER"
  shows "acked (count_member m x) = insert m (acked x)" and "ack_counted (count_member m x)"
proof -
  have len: "length (txAckReceived x) = 64"
    using assms(1) by (simp add: ack_counted_def MAX_GROUP_NUMBER_def)
  have m: "m < 64" using assms(2) by (simp add: MAX_GROUP_NUMBER_def)
  show a: "acked (count_member m x) = insert m (acked x)"
    using len m by (auto simp: acked_def count_member_def nth_list_update split: if_splits)
  have "unat (txAckCount (count_member m x)) = card (acked (count_member m x))"
  proof (cases "txAckReceived x ! m")
    case True
    then show ?thesis using assms(1) by (simp add: count_member_def ack_counted_def)
  next
    case False
    then have "card (insert m (acked x)) = Suc (card (acked x))" by (simp add: acked_def)
    moreover have "unat (txAckCount x + 1) = Suc (unat (txAckCount x))"
      using card_acked [OF assms(1)] assms(1)
      by (intro unat_u8_Suc) (simp add: ack_counted_def)
    ultimately show ?thesis
      using False assms(1) unfolding a by (simp add: count_member_def ack_counted_def)
  qed
  then show "ack_counted (count_member m x)"
    using len by (simp add: ack_counted_def MAX_GROUP_NUMBER_def)
qed

text \<open>A PDU that \<open>TPReceiveAck\<close> takes for an acknowledgement of the transaction in progress.\<close>

definition ack_matches :: "TSAReceiveParam \<Rightarrow> stack \<Rightarrow> bool" where
  "ack_matches t s \<longleftrightarrow>
     ValidateTrans (tsrPriority t) (pdu_transNum (tsrVersion t) (tsrPdu t)) s = TRANS_CURRENT \<and>
     \<not> answer_mismatch TRANSPORT_TX t (xmitRecOf (tsrPriority t) s) \<and>
     \<not> ack_wrong_subnet t (xmitRecOf (tsrPriority t) s)"

lemma ValidateTrans_cases: "ValidateTrans pri n s \<noteq> TRANS_NOT_CURRENT \<longleftrightarrow> ValidateTrans pri n s = TRANS_CURRENT"
  by (simp add: ValidateTrans_def)

lemma TPReceiveAck_match:
  assumes "QueueHead (tsaInQ s) = Some t"
  shows "TPReceiveAck now s =
    (if ack_matches t s then answer_done now (tsrPriority t) (ack_count (tsrPriority t) t s)
     else discard_late s)"
  using assms ValidateTrans_cases [of "tsrPriority t" _ s]
  by (auto simp: TPReceiveAck_def ack_matches_def Let_def)

text \<open>
  C21. An acknowledgement ends exactly the transaction it belongs to. One whose number is not
  current, or which comes from another node, domain, subnet or group, is dropped and counted
  as late, and changes nothing else. One that matches a transaction with a single
  destination ends it at once: the transmit record is free, the message has left the output
  queue, and the application is told that it succeeded (when its event queue had room).
\<close>

theorem acknowledgement_ends_its_transaction:
  assumes "tsa_inv s" "QueueHead (tsaInQ s) = Some t" "pri = tsrPriority t" "x = xmitRecOf pri s"
  shows "(\<not> ack_matches t s \<longrightarrow> TPReceiveAck now s = discard_late s) \<and>
    (ack_matches t s \<and> dstMode (txNwDestAddr x) \<in> {AM_SUBNET_NODE, AM_UNIQUE_NODE_ID, AM_BROADCAST} \<and>
       txDestCount x = 1 \<and> txAckCount x = 0 \<longrightarrow>
     (let s' = TPReceiveAck now s
      in tsa_inv s' \<and> txStatus (xmitRecOf pri s') = UNUSED_TX \<and>
         queue_list (tsaQ pri s') = tl (queue_list (tsaQ pri s)) \<and>
         queue_list (tsaInQ s') = tl (queue_list (tsaInQ s)) \<and>
         (has_room (appCeRspInQ s) \<longrightarrow> (\<exists>c. completion_of (hd (queue_list (tsaQ pri s))) True c \<and>
            queue_list (appCeRspInQ s') = queue_list (appCeRspInQ s) @ [c]))))"
proof -
  have "let s' = TPReceiveAck now s
      in tsa_inv s' \<and> txStatus (xmitRecOf pri s') = UNUSED_TX \<and>
         queue_list (tsaQ pri s') = tl (queue_list (tsaQ pri s)) \<and>
         queue_list (tsaInQ s') = tl (queue_list (tsaInQ s)) \<and>
         (has_room (appCeRspInQ s) \<longrightarrow> (\<exists>c. completion_of (hd (queue_list (tsaQ pri s))) True c \<and>
            queue_list (appCeRspInQ s') = queue_list (appCeRspInQ s) @ [c]))"
    if m: "ack_matches t s" and d: "dstMode (txNwDestAddr x) \<in> {AM_SUBNET_NODE, AM_UNIQUE_NODE_ID, AM_BROADCAST}"
      and c: "txDestCount x = 1" "txAckCount x = 0"
  proof -
    have used: "txStatus (xmitRecOf pri s) \<noteq> UNUSED_TX"
      using m assms(3) by (auto simp: ack_matches_def answer_mismatch_def Let_def)
    obtain p ps where p: "queue_list (tsaQ pri s) = p # ps" using assms(1) used by (rule tsa_head)
    let ?s = "update_xmitRec pri count_answer s"
    have inv: "tsa_inv ?s" using assms(1) by simp
    have q: "queue_list (tsaQ pri ?s) = p # ps" using p by simp
    have ok: "tx_succeeded p (xmitRecOf pri ?s)"
      using c assms(4) by (simp add: tx_succeeded_def count_answer_def)
    have e: "TPReceiveAck now s = answer_done now pri (TerminateTrans pri ?s)"
      using m d assms(3,4) by (auto simp: TPReceiveAck_match [OF assms(2)] ack_count_def)
    note eff = TerminateTrans_effect [OF inv q]
    have frame: "answer_done now pri (TerminateTrans pri ?s) = drop_tsaIn (TerminateTrans pri ?s)"
      using eff(3) by (simp add: answer_done_def)
    show ?thesis
      unfolding e frame Let_def
      using eff(1-4,8) ok p assms(1) by (auto simp: tsa_inv_queues)
  qed
  then show ?thesis by (auto simp: TPReceiveAck_match [OF assms(2)])
qed

definition sampleAck :: "u8 \<Rightarrow> TSAReceiveParam" where
  "sampleAck tn = sampleTsr\<lparr>tsrPduSize := 1, tsrPdu := [TSPDU_header False ACK_MSG (ucast tn)]\<rparr>"

definition withPdu :: "TSAReceiveParam \<Rightarrow> stack \<Rightarrow> stack" where
  "withPdu t s = s\<lparr>tsaInQ := QueuePut t (emptyQueue 4 sampleTsr)\<rparr>"

lemma withPdu_frame [simp]:
  "xmitRecOf p (withPdu t s) = xmitRecOf p s" "tsaQ p (withPdu t s) = tsaQ p s"
  "nwQ p (withPdu t s) = nwQ p s" "transRec p (withPdu t s) = transRec p s"
  "recvRec (withPdu t s) = recvRec s" "appCeRspInQ (withPdu t s) = appCeRspInQ s"
  "appInQ (withPdu t s) = appInQ s" "memFault (withPdu t s) = memFault s"
  "addrTable (withPdu t s) = addrTable s" "readOnlyData (withPdu t s) = readOnlyData s"
  "appInBufSize (withPdu t s) = appInBufSize s" "tsaRespQ (withPdu t s) = tsaRespQ s"
  by (simp_all add: withPdu_def tsa_select_defs tcs_select_defs)

lemma withPdu_queue [simp]:
  "queue_list (tsaInQ (withPdu t s)) = [t]" "QueueHead (tsaInQ (withPdu t s)) = Some t"
  "queue_wf (tsaInQ (withPdu t s))"
  by (simp_all add: withPdu_def queue_list_Put QueueHead_eq)

lemma withPdu_inv [simp]: "tsa_inv s \<Longrightarrow> tsa_inv (withPdu t s)"
proof -
  assume a: "tsa_inv s"
  have "tx_inv p (withPdu t s) = tx_inv p s" for p by (rule tx_inv_cong) simp_all
  then show "tsa_inv (withPdu t s)" using a by (simp add: tsa_inv_def)
qed

lemma withPdu_rr_inv [simp]: "rr_inv (withPdu t s) = rr_inv s"
  by (rule rr_inv_cong) simp

definition unicastStack :: stack where
  "unicastStack = update_xmitRec False (\<lambda>x. x\<lparr>txDestCount := 1\<rparr>) (activeStack (DA_SubnetNode sampleSn))"

lemma unicastStack_inv [simp]: "tsa_inv unicastStack"
  unfolding unicastStack_def by (rule tsa_inv_update_xmitRec) simp_all

lemma activeStack_fields:
  "xmitRecOf False (activeStack a) = sampleTx\<lparr>txStatus := TRANSPORT_TX, txTransNum := 5,
     txRetriesLeft := 1, txDestCount := 2, txNwDestAddr := sampleDst\<lparr>dstAddr := a\<rparr>\<rparr>"
  "transRec False (activeStack a) = \<lparr>tcTransNum = 5, tcInProgress = True\<rparr>"
  "memFault (activeStack a) = False" "appCeRspInQ (activeStack a) = emptyQueue 4 sampleApr"
  by (simp_all add: activeStack_def loadedStack_def xmitRecOf_def transRec_def)

lemma unicastStack_fields [simp]:
  "queue_list (tsaQ False unicastStack) = [sampleTss]"
  "transRec False unicastStack = \<lparr>tcTransNum = 5, tcInProgress = True\<rparr>"
  "txStatus (xmitRecOf False unicastStack) = TRANSPORT_TX"
  "txNwDestAddr (xmitRecOf False unicastStack) = sampleDst" "txDestCount (xmitRecOf False unicastStack) = 1"
  "txAckCount (xmitRecOf False unicastStack) = 0" "memFault unicastStack = False"
  by (simp_all add: unicastStack_def activeStack_fields) (simp_all add: sampleDst_def sampleTx_def)

theorem acknowledgement_ends_its_transaction_witness:
  "txStatus (xmitRecOf False (TPReceiveAck 7 (withPdu (sampleAck 5) unicastStack))) = UNUSED_TX \<and>
   TPReceiveAck 7 (withPdu (sampleAck 6) unicastStack) = discard_late (withPdu (sampleAck 6) unicastStack)"
proof -
  have v: "pdu_transNum (tsrVersion (sampleAck 5)) (tsrPdu (sampleAck 5)) = 5"
    "pdu_transNum (tsrVersion (sampleAck 6)) (tsrPdu (sampleAck 6)) = 6"
    "tsrPriority (sampleAck n) = False" "tsrSrcAddr (sampleAck n) = sampleSrc" for n
    by (simp_all add: sampleAck_def sampleTsr_def pdu_transNum_def)
  have "ack_matches (sampleAck 5) (withPdu (sampleAck 5) unicastStack)"
    by (simp add: ack_matches_def v ValidateTrans_def answer_mismatch_def ack_wrong_subnet_def Let_def
        sampleDst_def sampleSrc_def)
  moreover have "\<not> ack_matches (sampleAck 6) (withPdu (sampleAck 6) unicastStack)"
    by (simp add: ack_matches_def v ValidateTrans_def)
  ultimately show ?thesis
    using acknowledgement_ends_its_transaction [of "withPdu (sampleAck 5) unicastStack" "sampleAck 5" False _ 7]
      acknowledgement_ends_its_transaction [of "withPdu (sampleAck 6) unicastStack" "sampleAck 6" False _ 7]
    by (simp add: v Let_def sampleDst_def)
qed

text \<open>
  C35. Group acknowledgements are counted as a set. Under the counting invariant (the count
  is the number of members that have answered) a matching acknowledgement of member \<open>m\<close>
  adds \<open>m\<close> to the set, so an answer that comes twice counts once; the transaction ends, with
  success, exactly when the set has reached the number of destinations, and until then the
  record stays active, keeps the invariant and has its timer restarted.
\<close>

theorem group_acknowledgements_form_a_set:
  assumes "tsa_inv s" "QueueHead (tsaInQ s) = Some t" "pri = tsrPriority t" "x = xmitRecOf pri s"
    and "ack_matches t s" "dstMode (txNwDestAddr x) = AM_MULTICAST" "ack_counted x"
    and "answer_member t \<le> MAX_GROUP_NUMBER"
  shows "(let s' = TPReceiveAck now s; x' = xmitRecOf pri s'; done = insert (answer_member t) (acked x)
     in if card done = unat (txDestCount x)
        then txStatus x' = UNUSED_TX \<and> queue_list (tsaQ pri s') = tl (queue_list (tsaQ pri s)) \<and>
             (has_room (appCeRspInQ s) \<longrightarrow> (\<exists>c. completion_of (hd (queue_list (tsaQ pri s))) True c \<and>
                queue_list (appCeRspInQ s') = queue_list (appCeRspInQ s) @ [c]))
        else txStatus x' = TRANSPORT_TX \<and> acked x' = done \<and> ack_counted x' \<and>
             txXmitTimer x' = SetLonTimer now (txXmitTimer x) (ucast (txXmitTimerValue x)))"
proof -
  let ?m = "answer_member t"
  let ?s = "update_xmitRec pri (count_member ?m) s"
  let ?x = "count_member ?m x"
  have used: "txStatus (xmitRecOf pri s) = TRANSPORT_TX"
    using assms(3,5) by (auto simp: ack_matches_def answer_mismatch_def Let_def)
  then have used': "txStatus (xmitRecOf pri s) \<noteq> UNUSED_TX" by simp
  obtain p ps where p: "queue_list (tsaQ pri s) = p # ps" using assms(1) used' by (rule tsa_head)
  have x: "xmitRecOf pri ?s = ?x" using assms(4) by simp
  note a = acked_count_member [OF assms(7,8)]
  have all: "txDestCount ?x = txAckCount ?x \<longleftrightarrow> card (insert ?m (acked x)) = unat (txDestCount x)"
    using a by (auto simp: ack_counted_def word_unat_eq_iff)
  have e: "TPReceiveAck now s = answer_done now pri (terminate_if_all pri ?s)"
    using assms(3-6,8) by (auto simp: TPReceiveAck_match [OF assms(2)] ack_count_def)
  show ?thesis
  proof (cases "card (insert ?m (acked x)) = unat (txDestCount x)")
    case True
    have inv: "tsa_inv ?s" using assms(1) by simp
    have q: "queue_list (tsaQ pri ?s) = p # ps" using p by simp
    note eff = TerminateTrans_effect [OF inv q]
    have t: "terminate_if_all pri ?s = TerminateTrans pri ?s"
      using True all x by (simp add: terminate_if_all_def)
    have ok: "tx_succeeded p (xmitRecOf pri ?s)" using True all x by (simp add: tx_succeeded_def)
    have frame: "answer_done now pri (TerminateTrans pri ?s) = drop_tsaIn (TerminateTrans pri ?s)"
      using eff(3) by (simp add: answer_done_def)
    show ?thesis
      unfolding e t frame Let_def using True eff(2-4) ok p by auto
  next
    case False
    have t: "terminate_if_all pri ?s = ?s" using False all x by (simp add: terminate_if_all_def)
    have f: "txXmitTimer ?x = txXmitTimer x" "txXmitTimerValue ?x = txXmitTimerValue x"
      by (simp_all add: count_member_def)
    have st: "txStatus ?x = TRANSPORT_TX" using used assms(4) by simp
    have ac: "acked (r\<lparr>txXmitTimer := tm\<rparr>) = acked r" "ack_counted (r\<lparr>txXmitTimer := tm\<rparr>) = ack_counted r" for r tm
      by (simp_all add: acked_def ack_counted_def)
    show ?thesis
      unfolding e t Let_def using False a st f x ac by (simp add: answer_done_def)
  qed
qed

definition groupAck :: "u8 \<Rightarrow> TSAReceiveParam" where
  "groupAck m = (sampleAck 5)\<lparr>tsrSrcAddr := sampleSrc\<lparr>srcMode := AM_MULTICAST_ACK,
     srcAckNode := \<lparr>mcaSubnetAddr = sampleSn, mcaGroup = 7, mcaMember = m\<rparr>\<rparr>\<rparr>"

lemma acked_replicate [simp]: "txAckReceived x = replicate n False \<Longrightarrow> acked x = {}"
  by (auto simp: acked_def)

theorem group_acknowledgements_form_a_set_witness:
  "let s' = TPReceiveAck 7 (withPdu (groupAck 3) (activeStack (DA_Multicast 7)))
   in acked (xmitRecOf False s') = {3} \<and> ack_counted (xmitRecOf False s') \<and>
      txStatus (xmitRecOf False s') = TRANSPORT_TX"
proof -
  let ?s = "activeStack (DA_Multicast 7)"
  have t: "tsrPriority (groupAck 3) = False" "answer_member (groupAck 3) = 3"
    "pdu_transNum (tsrVersion (groupAck 3)) (tsrPdu (groupAck 3)) = 5"
    by (simp_all add: groupAck_def sampleAck_def sampleTsr_def answer_member_def pdu_transNum_def)
  have "ack_matches (groupAck 3) (withPdu (groupAck 3) ?s)"
    by (simp add: ack_matches_def t ValidateTrans_def answer_mismatch_def ack_wrong_subnet_def Let_def
        activeStack_fields) (simp add: groupAck_def sampleAck_def sampleSrc_def sampleDst_def)
  moreover have "tsa_inv ?s" by simp
  moreover have x: "acked (xmitRecOf False ?s) = {}" "ack_counted (xmitRecOf False ?s)"
    "unat (txDestCount (xmitRecOf False ?s)) = 2" "dstMode (txNwDestAddr (xmitRecOf False ?s)) = AM_MULTICAST"
    by (auto simp: activeStack_fields sampleTx_def sampleDst_def ack_counted_def MAX_GROUP_NUMBER_def
        acked_def)
  ultimately show ?thesis
    using group_acknowledgements_form_a_set [of "withPdu (groupAck 3) ?s" "groupAck 3" False _ 7]
    by (simp add: t Let_def MAX_GROUP_NUMBER_def)
qed

section \<open>Reminders\<close>

text \<open>A PDU that the network carries unchanged from the sender's queue to the receiver's.\<close>

definition carried :: "NWSendParam \<Rightarrow> TSAReceiveParam \<Rightarrow> bool" where
  "carried n t \<longleftrightarrow> tsrVersion t = nwsVersion n \<and> tsrPduSize t = nwsPduSize n \<and>
     bytes_from (tsrPdu t) 0 (tsrPduSize t) = nwsPdu n"

lemma carried_byte:
  assumes "carried n t" "i < length (nwsPdu n)"
  shows "byte_at (tsrPdu t) i = nwsPdu n ! i"
proof -
  have "length (nwsPdu n) = tsrPduSize t"
    using assms(1) unfolding carried_def by (metis length_bytes_from)
  then have "bytes_from (tsrPdu t) 0 (tsrPduSize t) ! i = byte_at (tsrPdu t) i" using assms(2) by simp
  then show ?thesis using assms(1) unfolding carried_def by metis
qed

lemma carried_bytes:
  assumes "carried n t" "i + k \<le> length (nwsPdu n)"
  shows "bytes_from (tsrPdu t) i k = take k (drop i (nwsPdu n))"
proof (rule nth_equalityI)
  fix j assume "j < length (bytes_from (tsrPdu t) i k)"
  then have "j < k" by simp
  then show "bytes_from (tsrPdu t) i k ! j = take k (drop i (nwsPdu n)) ! j"
    using assms carried_byte [OF assms(1), of "i + j"] by simp
qed (use assms(2) in simp)

lemma dataIndexOf_sent [simp]: "dataIndexOf (sent_version v) = dataIndexOf v"
  by (simp add: sent_version_def dataIndexOf_def)

lemma mlist_length_Some:
  assumes "ack_counted x"
  obtains len where "mlist_length x = Some len" "len \<le> 8"
    "\<And>m. m \<le> MAX_GROUP_NUMBER \<Longrightarrow> txAckReceived x ! m \<Longrightarrow> m div 8 < len"
proof (cases "txAckCount x = 0")
  case True
  then have "acked x = {}" using assms by (simp add: ack_counted_def card_eq_0_iff)
  then show ?thesis
    using that [of 0] True assms
    by (auto simp: mlist_length_def acked_def ack_counted_def MAX_GROUP_NUMBER_def)
next
  case False
  then have "acked x \<noteq> {}" using assms by (auto simp: ack_counted_def word_unat_eq_iff)
  then have "ack_search (txAckReceived x) MAX_GROUP_NUMBER \<noteq> None"
    using assms unfolding ack_search_None by (auto simp: acked_def ack_counted_def less_Suc_eq_le)
  then obtain h where h: "ack_search (txAckReceived x) MAX_GROUP_NUMBER = Some h" by auto
  have "m div 8 < h div 8 + 1" if "m \<le> MAX_GROUP_NUMBER" "txAckReceived x ! m" for m
    using ack_search_Some [OF h] that by (metis div_le_mono le_imp_less_Suc not_le Suc_eq_plus1)
  moreover have "h div 8 + 1 \<le> 8"
    using ack_search_Some [OF h] by (simp add: MAX_GROUP_NUMBER_def) arith
  ultimately show ?thesis
    using that [of "h div 8 + 1"] h False by (simp add: mlist_length_def)
qed

lemma mlist_asks_iff:
  assumes "ack_counted x" "mlist_length x = Some len" "unat m \<le> MAX_GROUP_NUMBER"
    and pdu: "byte_at pdu (1 + di) = of_nat len"
      "\<And>j. j < len \<Longrightarrow> byte_at pdu (2 + di + j) = mlist_bytes (txAckReceived x) len ! j"
    and di: "dataIndexOf v = di"
  shows "mlist_asks v pdu m \<longleftrightarrow> unat m \<notin> acked x"
proof -
  obtain len' where l: "mlist_length x = Some len'" "len' \<le> 8"
    "\<And>m. m \<le> MAX_GROUP_NUMBER \<Longrightarrow> txAckReceived x ! m \<Longrightarrow> m div 8 < len'"
    using mlist_length_Some [OF assms(1)] by blast
  have len: "len \<le> 8" "unat (of_nat len :: u8) = len"
    "\<And>m. m \<le> MAX_GROUP_NUMBER \<Longrightarrow> txAckReceived x ! m \<Longrightarrow> m div 8 < len"
    using l assms(2) by (auto simp: unat_of_nat)
  have a: "unat m \<in> acked x \<longleftrightarrow> txAckReceived x ! unat m"
    using assms(1,3) by (auto simp: acked_def ack_counted_def)
  have b: "bit (mlist_bytes (txAckReceived x) len ! (unat m div 8)) (unat m mod 8) = txAckReceived x ! unat m"
    if "unat m div 8 < len" using bit_mlist_bytes [OF that, of "unat m mod 8" "txAckReceived x"] by simp
  show ?thesis
    using len(3) [OF assms(3)] b pdu unfolding a mlist_asks_def di Let_def
    by (auto simp: len(2) not_le [symmetric])
qed

text \<open>
  C30. A retry to a group asks exactly the members that have not answered. When up to two
  bytes of \<open>M_LIST\<close> suffice, the expiration of the transmit timer queues one message, and a
  member that gets its bytes unchanged answers again if and only if its answer is not among
  those that the sender's record holds; the APDU behind the list is the one of the message.
\<close>

theorem reminder_asks_the_missing:
  assumes "tsa_inv s" "txStatus (xmitRecOf pri s) = layer_tx layerIn" "queue_list (tsaQ pri s) = p # ps"
    and "x = xmitRecOf pri s" "txRetriesLeft x \<noteq> 0" "txDestCount x \<noteq> txAckCount x"
    and "dstMode (txNwDestAddr x) = AM_MULTICAST" "ack_counted x"
    and "retry_form layerIn p x = RetryRemMsg len"
    and "txApduSize x = length (txApdu x)" "length (txApdu x) < 60000" "has_room (nwQ pri s)"
  shows "\<exists>n. queue_list (nwQ pri (XmitTimerExpiration now layerIn pri s)) = queue_list (nwQ pri s) @ [n] \<and>
    nwsPduSize n = length (nwsPdu n) \<and>
    (\<forall>t m. carried n t \<and> unat m \<le> MAX_GROUP_NUMBER \<longrightarrow>
       (mlist_asks (tsrVersion t) (tsrPdu t) m \<longleftrightarrow> unat m \<notin> acked x) \<and>
       rem_length t = len \<and> rem_apdu t = txApdu x)"
proof -
  have h: "QueueHead (tsaQ pri s) = Some p" and wf: "queue_wf (nwQ pri s)"
    using assms(1,3) by (simp_all add: QueueHead_eq tsa_inv_queues)
  have l: "mlist_length x = Some len" "len \<le> 2"
    using assms(7,9) by (auto simp: retry_form_def split: option.splits if_splits)
  let ?v = "txVersion x" and ?ml = "mlist_bytes (txAckReceived x) len"
  let ?pdu = "tspdu ?v (tssAuth p) REM_MSG_MSG (txTransNum x) (of_nat len # ?ml @ txApdu x)"
  have e: "XmitTimerExpiration now layerIn pri s = xmit_resend now layerIn pri p (fill_rem_msg p x len) s"
    using assms(4-7,9) h wf by (auto simp: XmitTimerExpiration_def Let_def)
  have a: "xmit_apdu x = txApdu x" using assms(10) by (simp add: xmit_apdu_def)
  define n where "n = (fill_rem_msg p x len (QueueDeref (nwQ pri s) (qtail (nwQ pri s))))
    \<lparr>nwsVersion := sent_version ?v, nwsDestAddr := txNwDestAddr x, nwsPduType := layer_pduType layerIn,
     nwsDeltaBL := retry_deltaBL p x, nwsAltPath := retry_altPath p x,
     nwsPduSize := (txApduSize x + 2 + len + dataIndexOf ?v) mod 2 ^ 16\<rparr>"
  have q: "queue_list (nwQ pri (XmitTimerExpiration now layerIn pri s)) = queue_list (nwQ pri s) @ [n]"
    unfolding e using wf assms(12)
    by (simp add: xmit_resend_def Let_def queue_list_Emit has_room_def n_def fill_rem_msg_def mod_simps
        flip: assms(4))
  have n: "nwsPdu n = ?pdu" "nwsVersion n = sent_version ?v"
    by (simp_all add: n_def fill_rem_msg_def a)
  have size: "nwsPduSize n = length (txApdu x) + 2 + len + dataIndexOf ?v"
    using assms(10,11) l(2) by (simp add: n_def dataIndexOf_def)
  have di: "dataIndexOf ?v = length ?pdu - (2 + len + length (txApdu x))"
    "drop (1 + dataIndexOf ?v) ?pdu = of_nat len # ?ml @ txApdu x"
    "length ?pdu = length (txApdu x) + 2 + len + dataIndexOf ?v"
    by (simp_all add: tspdu_def dataIndexOf_def)
  have nth: "?pdu ! (1 + dataIndexOf ?v) = of_nat len" "j < len \<Longrightarrow> ?pdu ! (2 + dataIndexOf ?v + j) = ?ml ! j" for j
    by (simp_all add: tspdu_def dataIndexOf_def nth_append)
  have "(mlist_asks (tsrVersion t) (tsrPdu t) m \<longleftrightarrow> unat m \<notin> acked x) \<and> rem_length t = len \<and>
      rem_apdu t = txApdu x" if c: "carried n t" and m: "unat m \<le> MAX_GROUP_NUMBER" for t m
  proof -
    have v: "dataIndexOf (tsrVersion t) = dataIndexOf ?v" "tsrPduSize t = nwsPduSize n"
      using c n(2) by (simp_all add: carried_def)
    have b0: "byte_at (tsrPdu t) (1 + dataIndexOf ?v) = of_nat len"
      using carried_byte [OF c, of "1 + dataIndexOf ?v"] nth(1) di(3) n(1) by simp
    have b1: "byte_at (tsrPdu t) (2 + dataIndexOf ?v + j) = ?ml ! j" if "j < len" for j
      using carried_byte [OF c, of "2 + dataIndexOf ?v + j"] nth(2) [OF that] di(3) n(1) that by simp
    have rl: "rem_length t = len"
      using b0 v(1) l(2) by (simp add: rem_length_def unat_of_nat)
    have sub: "sub16 (nwsPduSize n) (2 + len + dataIndexOf ?v) = length (txApdu x)"
      using assms(11) l(2) by (simp add: sub16_def size dataIndexOf_def)
    have "rem_apdu t = bytes_from (tsrPdu t) (2 + dataIndexOf ?v + len) (length (txApdu x))"
      by (simp only: rem_apdu_def Let_def v rl sub)
    also have "\<dots> = take (length (txApdu x)) (drop (2 + dataIndexOf ?v + len) ?pdu)"
      using carried_bytes [OF c] di(3) n(1) by simp
    also have "\<dots> = txApdu x" by (simp add: tspdu_def dataIndexOf_def)
    finally show ?thesis
      using mlist_asks_iff [OF assms(8) l(1) m b0 b1 v(1)] rl by simp
  qed
  moreover have "nwsPduSize n = length (nwsPdu n)" using size di(3) n(1) by simp
  ultimately show ?thesis using q by blast
qed

definition halfAckedStack :: stack where
  "halfAckedStack = update_xmitRec False (count_member 3) (activeStack (DA_Multicast 7))"

theorem reminder_asks_the_missing_witness:
  "\<exists>n. queue_list (nwQ False (XmitTimerExpiration 100 TRANSPORT False halfAckedStack)) = [n] \<and>
     \<not> mlist_asks (nwsVersion n) (nwsPdu n) 3 \<and> mlist_asks (nwsVersion n) (nwsPdu n) 4"
proof -
  let ?s = halfAckedStack
  have x0: "ack_counted (xmitRecOf False (activeStack (DA_Multicast 7)))"
    "acked (xmitRecOf False (activeStack (DA_Multicast 7))) = {}"
    by (auto simp: activeStack_fields sampleTx_def ack_counted_def MAX_GROUP_NUMBER_def acked_def)
  note a = acked_count_member [OF x0(1), of 3]
  have inv: "tsa_inv ?s" by (simp add: halfAckedStack_def)
  have x: "acked (xmitRecOf False ?s) = {3}" "ack_counted (xmitRecOf False ?s)"
    using a x0 by (simp_all add: halfAckedStack_def MAX_GROUP_NUMBER_def)
  have rec: "xmitRecOf False ?s = count_member 3 (xmitRecOf False (activeStack (DA_Multicast 7)))"
    by (simp add: halfAckedStack_def)
  have f: "txStatus (xmitRecOf False ?s) = layer_tx TRANSPORT" "txRetriesLeft (xmitRecOf False ?s) = 1"
    "txDestCount (xmitRecOf False ?s) = 2" "txAckCount (xmitRecOf False ?s) = 1"
    "dstMode (txNwDestAddr (xmitRecOf False ?s)) = AM_MULTICAST"
    "txApdu (xmitRecOf False ?s) = []" "txApduSize (xmitRecOf False ?s) = 0"
    unfolding rec by (simp_all add: activeStack_fields count_member_def layer_tx_def sampleTx_def sampleDst_def)
  have "nwQ False ?s = emptyQueue 4 sampleNws"
    unfolding halfAckedStack_def by simp (simp add: activeStack_def loadedStack_def nwQ_def)
  then have nw: "has_room (nwQ False ?s)" "queue_list (nwQ False ?s) = []"
    by (simp_all add: has_room_def)
  have q: "queue_list (tsaQ False ?s) = sampleTss # []" by (simp add: halfAckedStack_def)
  have "ack_search (txAckReceived (xmitRecOf False ?s)) MAX_GROUP_NUMBER = Some 3"
  proof -
    have "txAckReceived (xmitRecOf False ?s) = (replicate 64 False)[3 := True]"
      unfolding rec by (simp add: activeStack_fields count_member_def sampleTx_def)
    then show ?thesis by (simp add: MAX_GROUP_NUMBER_def eval_nat_numeral)
  qed
  then have form: "retry_form TRANSPORT sampleTss (xmitRecOf False ?s) = RetryRemMsg 1"
    using f by (simp add: retry_form_def mlist_length_def sampleTss_def)
  obtain n where n: "queue_list (nwQ False (XmitTimerExpiration 100 TRANSPORT False ?s)) = [n]"
    "nwsPduSize n = length (nwsPdu n)"
    "\<And>t m. carried n t \<Longrightarrow> unat m \<le> MAX_GROUP_NUMBER \<Longrightarrow>
       mlist_asks (tsrVersion t) (tsrPdu t) m \<longleftrightarrow> unat m \<notin> acked (xmitRecOf False ?s)"
    using reminder_asks_the_missing [OF inv f(1) q refl, of 1 100] f x nw form by auto
  have "carried n (sampleTsr\<lparr>tsrVersion := nwsVersion n, tsrPduSize := nwsPduSize n, tsrPdu := nwsPdu n\<rparr>)"
    by (simp add: carried_def n(2))
  note n(3) [OF this, of 3] n(3) [OF this, of 4]
  then show ?thesis using n(1) x(1) by (simp add: MAX_GROUP_NUMBER_def)
qed

section \<open>Messages and their duplicates\<close>

lemma rr_find_update:
  "rr_find p rs k = None \<Longrightarrow> i < length rs \<Longrightarrow> p r \<Longrightarrow> rr_find p (rs[i := r]) k = Some (k + i)"
proof (induction p rs k arbitrary: i rule: rr_find.induct)
  case (2 p r0 rs k)
  then show ?case by (cases i) (auto split: if_splits)
qed simp

lemma bytes_from_memcpy [simp]:
  "length src \<le> length dst \<Longrightarrow> bytes_from (memcpy_to dst src) 0 (length src) = src"
  by (subst bytes_from_eq_take) (simp_all add: memcpy_to_def)

text \<open>An acknowledged message without authentication that a receive record can hold.\<close>

definition plain_message :: "TSAReceiveParam \<Rightarrow> bool" where
  "plain_message t \<longleftrightarrow> TSPDU_pduMsgType (byte_at (tsrPdu t) 0) = ACKD_MSG \<and>
     \<not> TSPDU_auth (byte_at (tsrPdu t) 0) \<and> 1 + dataIndexOf (tsrVersion t) \<le> tsrPduSize t \<and>
     tsrPduSize t - (1 + dataIndexOf (tsrVersion t)) \<le> RECV_REC_BUF"

definition message_apdu :: "TSAReceiveParam \<Rightarrow> bytes" where
  "message_apdu t = bytes_from (tsrPdu t) (1 + dataIndexOf (tsrVersion t)) (apdu_size t)"

lemma sub16_le: "b \<le> a \<Longrightarrow> a < 2 ^ 16 \<Longrightarrow> sub16 a b = a - b"
proof -
  assume a: "b \<le> a" "a < 2 ^ 16"
  obtain c where c: "a = b + c" using a(1) by (metis le_Suc_ex)
  then have "a + (2 ^ 16 - b) = c + 2 ^ 16" using a(2) by simp
  then show "sub16 a b = a - b" using a(2) c by (simp add: sub16_def)
qed

lemma plain_size:
  "plain_message t \<Longrightarrow> apdu_size t = tsrPduSize t - (1 + dataIndexOf (tsrVersion t)) \<and>
     apdu_size t \<le> RECV_REC_BUF \<and> length (message_apdu t) = apdu_size t"
proof -
  assume p: "plain_message t"
  let ?k = "1 + dataIndexOf (tsrVersion t)"
  have b: "?k \<le> tsrPduSize t" "tsrPduSize t - ?k \<le> 82" "?k \<le> 2"
    using p by (auto simp: plain_message_def RECV_REC_BUF_def dataIndexOf_def)
  have "sub16 (tsrPduSize t) ?k = tsrPduSize t - ?k" using b by (intro sub16_le) simp_all
  then show ?thesis using b by (simp add: apdu_size_def RECV_REC_BUF_def message_apdu_def)
qed

text \<open>The record of a message that has been set up and delivered.\<close>

definition delivered_record :: "TSAReceiveParam \<Rightarrow> ReceiveRecord \<Rightarrow> bool" where
  "delivered_record t r \<longleftrightarrow>
     rrStatus r = TRANSPORT_RR \<and> rrSrcAddr r = tsrSrcAddr t \<and> rrPriority r = tsrPriority t \<and>
     rrTransNum r = pdu_transNum (tsrVersion t) (tsrPdu t) \<and> rrVersion r = tsrVersion t \<and>
     rrTransState r = DELIVERED \<and> rrServiceType r = IzotServiceAcknowledged \<and>
     rrApduSize r = apdu_size t \<and> bytes_from (rrApdu r) 0 (apdu_size t) = message_apdu t"

lemma new_msg_setup_record:
  assumes "rr_inv s" "i < length (recvRec s)" "plain_message t"
    and "r = rr i (update_rr i (\<lambda>r. r\<lparr>rrNeedAuth := False\<rparr>) (drop_tsaIn (new_msg_setup now TRANSPORT i t s)))"
  shows "delivered_record t (r\<lparr>rrTransState := DELIVERED\<rparr>)" and "rrTransState r = JUST_RECEIVED"
    and "\<not> rrNeedAuth r"
proof -
  have len: "length (rrApdu (rr i s)) = RECV_REC_BUF" using assms(1,2) by (simp add: rr_inv_def)
  note size = plain_size [OF assms(3)]
  have svc: "new_msg_service TRANSPORT t = IzotServiceAcknowledged"
    using assms(3) by (simp add: new_msg_service_def plain_message_def)
  show "delivered_record t (r\<lparr>rrTransState := DELIVERED\<rparr>)" "rrTransState r = JUST_RECEIVED" "\<not> rrNeedAuth r"
    using assms(2) size len bytes_from_memcpy [of "message_apdu t" "rrApdu (rr i s)"] svc unfolding assms(4)
    by (simp_all add: new_msg_setup_def setup_rr_def Let_def delivered_record_def layer_rr_def
        apdu_size_def message_apdu_def)
qed

lemma new_msg_setup_frame [simp]:
  "appInQ (new_msg_setup now TRANSPORT i t s) = appInQ s"
  "appInBufSize (new_msg_setup now TRANSPORT i t s) = appInBufSize s"
  "nwQ p (new_msg_setup now TRANSPORT i t s) = nwQ p s"
  "addrTable (new_msg_setup now TRANSPORT i t s) = addrTable s"
  by (simp_all add: new_msg_setup_def setup_rr_def Let_def)

lemma Deliver_recvRec:
  assumes "queue_wf (appInQ s)" "\<not> rrNeedAuth (rr i s)" "rrApduSize (rr i s) \<le> appInBufSize s"
  shows "recvRec (Deliver i s) = (recvRec s)[i := (rr i s)\<lparr>rrTransState := DELIVERED\<rparr>]"
    and "appInBufSize (Deliver i s) = appInBufSize s"
  using assms by (simp_all add: Deliver_def Let_def)

lemma TPSendAck_emits:
  assumes "answer_dest (rr i s) s = Some d" "queue_wf (nwQ (rrPriority (rr i s)) s)"
    and "has_room (nwQ (rrPriority (rr i s)) s)"
  shows "\<exists>n. queue_list (nwQ (rrPriority (rr i s)) (TPSendAck i s)) =
      queue_list (nwQ (rrPriority (rr i s)) s) @ [n] \<and> nwsDestAddr n = d \<and> nwsPduType n = TPDU_TYPE \<and>
      nwsPduSize n = length (nwsPdu n) \<and> nwsVersion n = sent_version (rrVersion (rr i s)) \<and>
      nwsPdu n = tspdu (rrVersion (rr i s)) False ACK_MSG (rrTransNum (rr i s)) []"
  using assms by (simp add: TPSendAck_def Let_def queue_list_Emit has_room_def)

lemma answer_dest_cong:
  "addrTable s' = addrTable s \<Longrightarrow> domainTable s' = domainTable s \<Longrightarrow> rrSrcAddr r' = rrSrcAddr r \<Longrightarrow>
     answer_dest r' s' = answer_dest r s"
  by (simp add: answer_dest_def IsGroupMember_def AddrTableIndex_def Let_def cong: option.case_cong)

lemma unat_less_if_take_bit: "take_bit n w = w \<Longrightarrow> unat w < 2 ^ n"
  by (metis take_bit_nat_less_exp unsigned_take_bit_eq)

lemma pdu_transNum_fits: "transNum_fits v (pdu_transNum v pdu)"
proof -
  have "take_bit 4 (ucast (b AND 0x0F) :: u16) = ucast (b AND 0x0F)" for b :: u8
    by (rule bit_word_eqI) (auto simp: nibble_mask bit_simps)
  then have a: "ucast (b AND 0x0F) < (16 :: u16)" for b :: u8
    using unat_less_if_take_bit [of 4 "ucast (b AND 0x0F) :: u16"] by (simp add: word_less_nat_alt)
  have "take_bit 12 (push_bit 8 (ucast (b AND 0x0F)) OR ucast c) = (push_bit 8 (ucast (b AND 0x0F)) OR ucast c :: u16)"
    for b c :: u8
    by (rule bit_word_eqI) (auto simp: nibble_mask bit_simps dest: bit_imp_le_length)
  then have "push_bit 8 (ucast (b AND 0x0F)) OR ucast c < (4096 :: u16)" for b c :: u8
    using unat_less_if_take_bit [of 12 "push_bit 8 (ucast (b AND 0x0F)) OR ucast c :: u16"]
    by (simp add: word_less_nat_alt)
  then show ?thesis using a by (simp add: transNum_fits_def pdu_transNum_def pdu_transNum_field_def)
qed

lemma new_msg_process_open:
  assumes "i < length (recvRec s)" "queue_wf (appInQ s)" "\<not> rrNeedAuth (rr i s)"
    and "rrTransState (rr i s) = JUST_RECEIVED" "rrServiceType (rr i s) = IzotServiceAcknowledged"
    and "rrApduSize (rr i s) \<le> appInBufSize s"
  shows "new_msg_process rnd TRANSPORT i s = TPSendAck i (Deliver i s)"
    and "recvRec (new_msg_process rnd TRANSPORT i s) = (recvRec s)[i := (rr i s)\<lparr>rrTransState := DELIVERED\<rparr>]"
    and "appInQ (new_msg_process rnd TRANSPORT i s) = appInQ (Deliver i s)"
    and "\<exists>a. aprApdu a = bytes_from (rrApdu (rr i s)) 0 (rrApduSize (rr i s)) \<and>
           aprIndication a = MESSAGE \<and> aprReqId a = rrReqId (rr i s) \<and> aprAuth a = rrAuth (rr i s) \<and>
           queue_list (appInQ (new_msg_process rnd TRANSPORT i s)) =
             (if has_room (appInQ s) then queue_list (appInQ s) @ [a] else queue_list (appInQ s))"
proof -
  note d = Deliver_recvRec [OF assms(2,3,6)]
  show e: "new_msg_process rnd TRANSPORT i s = TPSendAck i (Deliver i s)"
    using assms d(1) by (simp add: new_msg_process_def rr_open_def)
  show "recvRec (new_msg_process rnd TRANSPORT i s) = (recvRec s)[i := (rr i s)\<lparr>rrTransState := DELIVERED\<rparr>]"
    unfolding e by (simp add: d)
  show "appInQ (new_msg_process rnd TRANSPORT i s) = appInQ (Deliver i s)" unfolding e by simp
  show "\<exists>a. aprApdu a = bytes_from (rrApdu (rr i s)) 0 (rrApduSize (rr i s)) \<and>
           aprIndication a = MESSAGE \<and> aprReqId a = rrReqId (rr i s) \<and> aprAuth a = rrAuth (rr i s) \<and>
           queue_list (appInQ (new_msg_process rnd TRANSPORT i s)) =
             (if has_room (appInQ s) then queue_list (appInQ s) @ [a] else queue_list (appInQ s))"
    unfolding e using Deliver_delivers(2) [OF assms(2,1) _ assms(6)] assms(3) by simp
qed

text \<open>A message for which a record is set up: what the receiver does with it.\<close>

lemma message_set_up:
  fixes rnd :: "nat \<Rightarrow> nat \<Rightarrow> u8"
  assumes "rr_inv s" "i < length (recvRec s)" "plain_message t" "queue_wf (appInQ s)"
    and "apdu_size t \<le> appInBufSize s" "QueueHead (tsaInQ s) = Some t"
    and "new_msg_record now TRANSPORT t s = (Some i, new_msg_setup now TRANSPORT i t s)"
  defines "s' \<equiv> ReceiveNewMsg now rnd TRANSPORT s"
  shows "\<exists>r. delivered_record t r \<and> rr i s' = r \<and> length (recvRec s') = length (recvRec s)"
    and "\<forall>j. j \<noteq> i \<longrightarrow> rr j s' = rr j s"
    and "\<exists>a. aprApdu a = message_apdu t \<and> queue_list (appInQ s') =
           (if has_room (appInQ s) then queue_list (appInQ s) @ [a] else queue_list (appInQ s))"
    and "tsaInQ s' = QueueDropHead (tsaInQ s)"
    and "addrTable s' = addrTable s" "appInBufSize s' = appInBufSize s"
    and "\<exists>u. s' = TPSendAck i u \<and> rr i u = rr i s' \<and> nwQ (tsrPriority t) u = nwQ (tsrPriority t) s \<and>
           addrTable u = addrTable s"
    and "queueCapacity (appInQ s') = queueCapacity (appInQ s)"
proof -
  let ?u = "update_rr i (\<lambda>r. r\<lparr>rrNeedAuth := False\<rparr>) (drop_tsaIn (new_msg_setup now TRANSPORT i t s))"
  note r = new_msg_setup_record [OF assms(1-3) refl, of now]
  have na: "\<not> TSPDU_auth (byte_at (tsrPdu t) 0)" using assms(3) by (simp add: plain_message_def)
  have e: "s' = new_msg_process rnd TRANSPORT i ?u"
    unfolding s'_def ReceiveNewMsg_def using assms(6,7) na by simp
  have len: "i < length (recvRec ?u)" using assms(2) by (simp add: new_msg_setup_keeps)
  have ap: "appInQ ?u = appInQ s" "appInBufSize ?u = appInBufSize s" "addrTable ?u = addrTable s"
    "nwQ p ?u = nwQ p s" "tsaInQ ?u = QueueDropHead (tsaInQ s)" for p
    by (simp_all add: new_msg_setup_keeps)
  have fit: "rrApduSize (rr i ?u) \<le> appInBufSize ?u" "rrServiceType (rr i ?u) = IzotServiceAcknowledged"
    using r(1) assms(5) ap by (simp_all add: delivered_record_def)
  note pr = new_msg_process_open [OF len _ r(3) r(2) fit(2) fit(1), of rnd, unfolded ap, OF assms(4), folded e]
  have rec: "rr i s' = (rr i ?u)\<lparr>rrTransState := DELIVERED\<rparr>" unfolding pr(2) using len by simp
  show "\<exists>r. delivered_record t r \<and> rr i s' = r \<and> length (recvRec s') = length (recvRec s)"
    unfolding rec using r(1) pr(2) by (simp add: new_msg_setup_keeps)
  show "\<forall>j. j \<noteq> i \<longrightarrow> rr j s' = rr j s"
    unfolding pr(2) by (simp add: new_msg_setup_def setup_rr_def Let_def)
  have b: "bytes_from (rrApdu (rr i ?u)) 0 (rrApduSize (rr i ?u)) = message_apdu t"
    using r(1) by (simp add: delivered_record_def)
  show "\<exists>a. aprApdu a = message_apdu t \<and> queue_list (appInQ s') =
           (if has_room (appInQ s) then queue_list (appInQ s) @ [a] else queue_list (appInQ s))"
    using pr(4) unfolding b by blast
  have d: "Deliver_is = Deliver i ?u \<Longrightarrow> nwQ p Deliver_is = nwQ p s" for Deliver_is p using ap by simp
  show "tsaInQ s' = QueueDropHead (tsaInQ s)"
    unfolding pr(1) by (simp add: new_msg_setup_keeps)
  have tables: "addrTable (TPSendAck i v) = addrTable v" "appInBufSize (TPSendAck i v) = appInBufSize v" for v
    by (simp_all add: TPSendAck_def Let_def split: option.splits)
  have "appInBufSize (Deliver i ?u) = appInBufSize s" using ap by (simp add: Deliver_def Let_def)
  then show "addrTable s' = addrTable s" "appInBufSize s' = appInBufSize s"
    unfolding pr(1) by (simp_all add: ap tables)
  show "\<exists>u. s' = TPSendAck i u \<and> rr i u = rr i s' \<and> nwQ (tsrPriority t) u = nwQ (tsrPriority t) s \<and>
           addrTable u = addrTable s"
    using pr(1) d ap by (intro exI [of _ "Deliver i ?u"]) simp
  show "queueCapacity (appInQ s') = queueCapacity (appInQ s)"
    unfolding pr(3) using ap(1) by (simp add: Deliver_def Let_def)
qed

text \<open>
  A message that finds no receive record of its sender is acknowledged to the sender under
  its own number, whether or not the application gets it. The application does get it, once
  and unchanged, exactly when its queue has room for an entry; the queue reports itself
  full only later (see \<open>queue_full_test_loses_entry\<close>), so a message for which there is no
  room is acknowledged and lost.
\<close>

theorem new_message_is_acknowledged:
  assumes "rr_inv s" "plain_message t" "queue_wf (appInQ s)" "apdu_size t \<le> appInBufSize s"
    and "QueueHead (tsaInQ s) = Some t" "RetrieveRR (tsrSrcAddr t) (tsrPriority t) s = None"
    and "AllocateRR s = Some i" "queue_wf (nwQ (tsrPriority t) s)" "has_room (nwQ (tsrPriority t) s)"
    and "srcMode (tsrSrcAddr t) \<noteq> AM_MULTICAST"
  shows "(let s' = ReceiveNewMsg now rnd TRANSPORT s
     in (\<exists>n. queue_list (nwQ (tsrPriority t) s') = queue_list (nwQ (tsrPriority t) s) @ [n] \<and>
          nwsDestAddr n = \<lparr>dstDmn = srcDmn (tsrSrcAddr t), dstAddr = DA_SubnetNode (srcSubnetAddr (tsrSrcAddr t))\<rparr> \<and>
          TSPDU_pduMsgType (byte_at (nwsPdu n) 0) = ACK_MSG \<and>
          pdu_transNum (nwsVersion n) (nwsPdu n) = pdu_transNum (tsrVersion t) (tsrPdu t)) \<and>
        rrTransState (rr i s') = DELIVERED \<and>
        (\<exists>a. aprApdu a = message_apdu t \<and> queue_list (appInQ s') =
          (if has_room (appInQ s) then queue_list (appInQ s) @ [a] else queue_list (appInQ s))))"
proof -
  have i: "i < length (recvRec s)" using rr_lookup_bounds(2) [OF assms(7)] by simp
  have rec: "new_msg_record now TRANSPORT t s = (Some i, new_msg_setup now TRANSPORT i t s)"
    using assms(6,7) by (simp add: new_msg_record_def)
  note m = message_set_up [OF assms(1) i assms(2-5) rec, of rnd]
  obtain u where u: "ReceiveNewMsg now rnd TRANSPORT s = TPSendAck i u"
    "rr i u = rr i (ReceiveNewMsg now rnd TRANSPORT s)" "nwQ (tsrPriority t) u = nwQ (tsrPriority t) s"
    using m(7) by blast
  have d: "delivered_record t (rr i u)" using m(1) u(2) by auto
  then have f: "rrPriority (rr i u) = tsrPriority t" "rrVersion (rr i u) = tsrVersion t"
    "rrTransNum (rr i u) = pdu_transNum (tsrVersion t) (tsrPdu t)" "rrTransState (rr i u) = DELIVERED"
    by (simp_all add: delivered_record_def)
  have "answer_dest (rr i u) u = Some \<lparr>dstDmn = srcDmn (tsrSrcAddr t), dstAddr = DA_SubnetNode (srcSubnetAddr (tsrSrcAddr t))\<rparr>"
    using d assms(10) by (simp add: answer_dest_def delivered_record_def Let_def)
  note ack = TPSendAck_emits [OF this, unfolded f u(3), OF assms(8,9)]
  have h: "TSPDU_pduMsgType (byte_at (tspdu v False ACK_MSG (pdu_transNum v p) []) 0) = ACK_MSG"
    "pdu_transNum (sent_version v) (tspdu v False ACK_MSG (pdu_transNum v p) []) = pdu_transNum v p" for v and p :: bytes
    using tspdu_roundtrip(2,3) [OF pdu_transNum_fits [of v p], of False ACK_MSG "[]"] by (simp_all add: ACK_MSG_def)
  have "rrTransState (rr i (ReceiveNewMsg now rnd TRANSPORT s)) = DELIVERED" using u(2) f(4) by simp
  then show ?thesis using ack h m(3) unfolding Let_def u(1) by metis
qed

definition otherTsr :: TSAReceiveParam where
  "otherTsr = sampleTsr\<lparr>tsrSrcAddr := sampleSrc\<lparr>srcSubnetAddr := \<lparr>snSubnet = 2, snNode = 0x85\<rparr>\<rparr>\<rparr>"

definition tinyAppStack :: stack where
  "tinyAppStack = sampleStack\<lparr>appInQ := emptyQueue 1 sampleApr\<rparr>"

lemma otherTsr_plain [simp]:
  "plain_message otherTsr" "apdu_size otherTsr = 2" "message_apdu otherTsr = [0x21, 0x22]"
  "tsrPriority otherTsr = False" "srcMode (tsrSrcAddr otherTsr) \<noteq> AM_MULTICAST"
  "pdu_transNum (tsrVersion otherTsr) (tsrPdu otherTsr) = 5" "tsrVersion otherTsr = LsProtocolModeLegacy"
  by (simp_all add: plain_message_def otherTsr_def sampleTsr_def TSPDU_pduMsgType_def TSPDU_auth_def
      dataIndexOf_def RECV_REC_BUF_def ACKD_MSG_def apdu_size_def sub16_def message_apdu_def
      bytes_from_def upt_conv_Cons pdu_transNum_def pdu_transNum_field_def sampleSrc_def)

lemma otherTsr_no_record [simp]:
  "recvRec s = replicate 16 sampleRr \<Longrightarrow> RetrieveRR (tsrSrcAddr otherTsr) False s = None"
  "recvRec s = replicate 16 sampleRr \<Longrightarrow> AllocateRR s = Some 0"
  by (simp_all add: RetrieveRR_def AllocateRR_def rr_find_None rr_matches_def sampleRr_def otherTsr_def
      sampleSrc_def sampleSn_def eval_nat_numeral)

theorem new_message_is_acknowledged_witness:
  "(let s' = ReceiveNewMsg 7 (\<lambda>_ _. 0) TRANSPORT (withPdu otherTsr sampleStack)
    in queueEntries (nwOutQ s') = 1 \<and> map aprApdu (queue_list (appInQ s')) = [[0x21, 0x22]]) \<and>
   (let s' = ReceiveNewMsg 7 (\<lambda>_ _. 0) TRANSPORT (withPdu otherTsr tinyAppStack)
    in queueEntries (nwOutQ s') = 1 \<and> queue_list (appInQ s') = [])"
proof -
  have inv: "rr_inv sampleStack" "rr_inv tinyAppStack"
    by (simp_all add: rr_inv_def tinyAppStack_def sampleRr_def RECV_REC_BUF_def)
  have rr: "recvRec sampleStack = replicate 16 sampleRr" "recvRec tinyAppStack = replicate 16 sampleRr"
    by (simp_all add: tinyAppStack_def)
  have q: "appInQ sampleStack = emptyQueue 4 sampleApr" "appInQ tinyAppStack = emptyQueue 1 sampleApr"
    "appInBufSize tinyAppStack = 255" "nwQ False tinyAppStack = emptyQueue 4 sampleNws"
    "nwQ False sampleStack = emptyQueue 4 sampleNws"
    by (simp_all add: tinyAppStack_def nwQ_def)
  have e: "queue_list (emptyQueue n x) = []" "has_room (emptyQueue n x) \<longleftrightarrow> n > 1" for n and x :: 'a
    by (auto simp: has_room_def emptyQueue_def queue_list_def)
  have n: "nwOutQ s = nwQ False s" for s by (simp add: nwQ_def)
  have room: "has_room (nwQ (tsrPriority otherTsr) (withPdu otherTsr sampleStack))"
    "has_room (nwQ (tsrPriority otherTsr) (withPdu otherTsr tinyAppStack))"
    by (simp_all add: q e)
  have a: "\<exists>n. queue_list (nwQ False (ReceiveNewMsg 7 (\<lambda>_ _. 0) TRANSPORT (withPdu otherTsr sampleStack))) = [n]"
    "\<exists>a. aprApdu a = [0x21, 0x22] \<and>
       queue_list (appInQ (ReceiveNewMsg 7 (\<lambda>_ _. 0) TRANSPORT (withPdu otherTsr sampleStack))) = [a]"
    using new_message_is_acknowledged [OF _ otherTsr_plain(1) _ _ withPdu_queue(2) _ _ _ room(1) otherTsr_plain(5),
        of 0 7 "\<lambda>_ _. 0"]
    by (auto simp: inv rr q e Let_def)
  have b: "\<exists>n. queue_list (nwQ False (ReceiveNewMsg 7 (\<lambda>_ _. 0) TRANSPORT (withPdu otherTsr tinyAppStack))) = [n]"
    "queue_list (appInQ (ReceiveNewMsg 7 (\<lambda>_ _. 0) TRANSPORT (withPdu otherTsr tinyAppStack))) = []"
    using new_message_is_acknowledged [OF _ otherTsr_plain(1) _ _ withPdu_queue(2) _ _ _ room(2) otherTsr_plain(5),
        of 0 7 "\<lambda>_ _. 0"]
    by (auto simp: inv rr q e Let_def)
  show ?thesis unfolding Let_def length_queue_list [symmetric] n using a b by (auto simp del: length_queue_list)
qed

text \<open>
  Duplicate detection, and where it fails. When the same message arrives twice in the
  legacy mode, the second copy finds the record of the first one and is not delivered again.
  In the enhanced mode it is delivered again: the test compares the size of the PDU less one
  with the stored size of the APDU, from which the extra header byte was subtracted too, so
  no message is ever taken for a duplicate.
\<close>

theorem duplicates_are_detected_in_legacy_mode_only:
  assumes "tsa_inv s" "rr_inv s" "plain_message t" "apdu_size t \<le> appInBufSize s"
    and "queue_list (tsaInQ s) = t # t # ts"
    and "RetrieveRR (tsrSrcAddr t) (tsrPriority t) s = None" "AllocateRR s = Some i"
    and "queueEntries (appInQ s) + 2 < queueCapacity (appInQ s)"
    and "s1 = ReceiveNewMsg now rnd TRANSPORT s" "s2 = ReceiveNewMsg now' rnd TRANSPORT s1"
  shows "(\<exists>a. aprApdu a = message_apdu t \<and> queue_list (appInQ s1) = queue_list (appInQ s) @ [a]) \<and>
    (if tsrVersion t = LsProtocolModeLegacy then queue_list (appInQ s2) = queue_list (appInQ s1)
     else \<exists>b. aprApdu b = message_apdu t \<and> queue_list (appInQ s2) = queue_list (appInQ s1) @ [b])"
proof -
  have i: "i < length (recvRec s)" using rr_lookup_bounds(2) [OF assms(7)] by simp
  have q: "queue_wf (appInQ s)" "queue_wf (tsaInQ s)" using assms(1) by (simp_all add: tsa_inv_queues)
  have h: "QueueHead (tsaInQ s) = Some t" using q assms(5) by (simp add: QueueHead_eq)
  have rec: "new_msg_record now TRANSPORT t s = (Some i, new_msg_setup now TRANSPORT i t s)"
    using assms(6,7) by (simp add: new_msg_record_def)
  note m = message_set_up [OF assms(2) i assms(3) q(1) assms(4) h rec, of rnd, folded assms(9)]
  note keep = ReceiveNewMsg_keeps [OF assms(1,2) h, of now rnd TRANSPORT, folded assms(9)]
  have room: "has_room (appInQ s)" using assms(8) by (simp add: has_room_def)
  obtain a where a: "aprApdu a = message_apdu t" "queue_list (appInQ s1) = queue_list (appInQ s) @ [a]"
    using m(3) room by auto
  have q1: "queue_wf (appInQ s1)" "queue_wf (tsaInQ s1)" using keep(1) by (simp_all add: tsa_inv_queues)
  have h1: "QueueHead (tsaInQ s1) = Some t" using q1 q assms(5) by (simp add: QueueHead_eq m(4))
  have d: "delivered_record t (rr i s1)" and len: "length (recvRec s1) = length (recvRec s)"
    using m(1) by auto
  have "recvRec s1 = (recvRec s)[i := rr i s1]"
    using m(2) len by (intro nth_equalityI) (simp, metis nth_list_update_eq nth_list_update_neq)
  moreover have "rr_matches (tsrSrcAddr t) (tsrPriority t) (rr i s1)"
    using d by (simp add: rr_matches_def delivered_record_def)
  ultimately have found: "RetrieveRR (tsrSrcAddr t) (tsrPriority t) s1 = Some i"
    using rr_find_update [OF assms(6) [unfolded RetrieveRR_def] i] unfolding RetrieveRR_def
    by (metis add_0)
  note size = plain_size [OF assms(3)]
  have "1 + dataIndexOf (tsrVersion t) \<le> tsrPduSize t" using assms(3) by (simp add: plain_message_def)
  then have dup: "rr_is_duplicate TRANSPORT t (rr i s1) \<longleftrightarrow> tsrVersion t = LsProtocolModeLegacy"
    using d size
    by (auto simp: rr_is_duplicate_def delivered_record_def layer_rr_def message_apdu_def dataIndexOf_def)
  show ?thesis
  proof (cases "tsrVersion t = LsProtocolModeLegacy")
    case True
    have "rrTransState (rr i s1) = DELIVERED" using d by (simp add: delivered_record_def)
    then have "appInQ s2 = appInQ s1"
      using len i unfolding assms(10)
      by (simp add: ReceiveNewMsg_def h1 new_msg_record_def found dup True new_msg_process_def
          rr_open_def Let_def)
    then show ?thesis using a True by metis
  next
    case False
    have st: "rrTransState (rr i s1) = DELIVERED" using d by (simp add: delivered_record_def)
    have rec': "new_msg_record now' TRANSPORT t s1 = (Some i, new_msg_setup now' TRANSPORT i t s1)"
      using st by (simp add: new_msg_record_def found dup False)
    have i1: "i < length (recvRec s1)" using i len by simp
    have sz: "apdu_size t \<le> appInBufSize s1" using assms(4) m(6) by simp
    have cap: "queueCapacity (appInQ s1) = queueCapacity (appInQ s)" by (rule m(8))
    have "queueEntries (appInQ s1) = Suc (queueEntries (appInQ s))"
      using arg_cong [OF a(2), of length] by simp
    then have "has_room (appInQ s1)" using assms(8) cap by (simp add: has_room_def)
    then obtain b where "aprApdu b = message_apdu t" "queue_list (appInQ s2) = queue_list (appInQ s1) @ [b]"
      using message_set_up(3) [OF keep(2) i1 assms(3) q1(1) sz h1 rec', of rnd, folded assms(10)] by auto
    then show ?thesis using a False by metis
  qed
qed

definition twice :: "TSAReceiveParam \<Rightarrow> stack" where
  "twice t = sampleStack\<lparr>tsaInQ := QueuePut t (QueuePut t (emptyQueue 4 sampleTsr))\<rparr>"

definition enhancedTsr :: TSAReceiveParam where
  "enhancedTsr = otherTsr\<lparr>tsrVersion := LsProtocolModeEnhanced, tsrPduSize := 4,
     tsrPdu := [0, 5, 0x21, 0x22]\<rparr>"

lemma enhancedTsr_plain [simp]:
  "plain_message enhancedTsr" "apdu_size enhancedTsr = 2" "message_apdu enhancedTsr = [0x21, 0x22]"
  "tsrPriority enhancedTsr = False" "tsrSrcAddr enhancedTsr = tsrSrcAddr otherTsr"
  "tsrVersion enhancedTsr = LsProtocolModeEnhanced"
  by (simp_all add: plain_message_def enhancedTsr_def otherTsr_def sampleTsr_def TSPDU_pduMsgType_def
      TSPDU_auth_def dataIndexOf_def RECV_REC_BUF_def ACKD_MSG_def apdu_size_def sub16_def
      message_apdu_def bytes_from_def upt_conv_Cons)

lemma twice_facts:
  "tsa_inv (twice t)" "rr_inv (twice t)" "queue_list (tsaInQ (twice t)) = [t, t]"
  "recvRec (twice t) = replicate 16 sampleRr" "appInBufSize (twice t) = 255"
  "queueEntries (appInQ (twice t)) = 0" "queueCapacity (appInQ (twice t)) = 4"
  "queue_list (appInQ (twice t)) = []"
proof -
  have q: "queue_wf (QueuePut t (QueuePut t (emptyQueue 4 sampleTsr)))" by simp
  have "tx_inv p (twice t) = tx_inv p sampleStack" for p
    by (rule tx_inv_cong) (simp_all add: twice_def tsa_select_defs tcs_select_defs)
  then show "tsa_inv (twice t)" using sampleStack_tsa_inv q by (simp add: tsa_inv_def) (simp add: twice_def)
  show "queue_list (tsaInQ (twice t)) = [t, t]"
    by (simp add: twice_def queue_list_Put queueEntries_Put queue_room_def)
qed (simp_all add: twice_def rr_inv_def sampleRr_def RECV_REC_BUF_def emptyQueue_def queue_list_def)

theorem duplicates_are_detected_in_legacy_mode_only_witness:
  "(let s1 = ReceiveNewMsg 7 (\<lambda>_ _. 0) TRANSPORT (twice otherTsr)
    in map aprApdu (queue_list (appInQ (ReceiveNewMsg 8 (\<lambda>_ _. 0) TRANSPORT s1))) = [[0x21, 0x22]]) \<and>
   (let s1 = ReceiveNewMsg 7 (\<lambda>_ _. 0) TRANSPORT (twice enhancedTsr)
    in map aprApdu (queue_list (appInQ (ReceiveNewMsg 8 (\<lambda>_ _. 0) TRANSPORT s1))) =
         [[0x21, 0x22], [0x21, 0x22]])"
proof -
  let ?d = "\<lambda>t. ReceiveNewMsg 8 (\<lambda>_ _. 0) TRANSPORT (ReceiveNewMsg 7 (\<lambda>_ _. 0) TRANSPORT (twice t))"
  have f: "apdu_size otherTsr \<le> appInBufSize (twice otherTsr)"
    "apdu_size enhancedTsr \<le> appInBufSize (twice enhancedTsr)"
    "RetrieveRR (tsrSrcAddr t') (tsrPriority t') (twice t) = None \<longleftrightarrow>
       RetrieveRR (tsrSrcAddr t') (tsrPriority t') sampleStack = None"
    "AllocateRR (twice t) = Some 0" "queueEntries (appInQ (twice t)) + 2 < queueCapacity (appInQ (twice t))" for t t'
    by (simp_all add: twice_facts RetrieveRR_def)
  have "RetrieveRR (tsrSrcAddr otherTsr) (tsrPriority otherTsr) sampleStack = None"
    "RetrieveRR (tsrSrcAddr enhancedTsr) (tsrPriority enhancedTsr) sampleStack = None"
    by simp_all
  note n = this [folded f(3) [where t = otherTsr]] this [folded f(3) [where t = enhancedTsr]]
  have "map aprApdu (queue_list (appInQ (?d otherTsr))) = [[0x21, 0x22]]"
    using duplicates_are_detected_in_legacy_mode_only [OF twice_facts(1,2) otherTsr_plain(1) f(1)
        twice_facts(3) n(1) f(4,5) refl refl, of 7 "\<lambda>_ _. 0" 8] by (auto simp: twice_facts(8))
  moreover have "map aprApdu (queue_list (appInQ (?d enhancedTsr))) = [[0x21, 0x22], [0x21, 0x22]]"
    using duplicates_are_detected_in_legacy_mode_only [OF twice_facts(1,2) enhancedTsr_plain(1) f(2)
        twice_facts(3) n(4) f(4,5) refl refl, of 7 "\<lambda>_ _. 0" 8] by (auto simp: twice_facts(8))
  ultimately show ?thesis by (simp only: Let_def)
qed

section \<open>Responses\<close>

lemma rr_find_same: "p r = p (rs ! i) \<Longrightarrow> rr_find p (rs[i := r]) k = rr_find p rs k"
proof (induction p rs k arbitrary: i rule: rr_find.induct)
  case (2 p r0 rs k)
  then show ?case by (cases i) auto
qed simp

text \<open>The request that a response of the application answers, as the session layer finds it.\<close>

definition response_data :: "TSASendParam \<Rightarrow> bytes" where
  "response_data p = bytes_from (tssApdu p) 0 (tssApduSize p)"

definition response_sendable :: "TSASendParam \<Rightarrow> ReceiveRecord \<Rightarrow> stack \<Rightarrow> bool" where
  "response_sendable p r s \<longleftrightarrow>
     tssService p = IzotServiceResponse \<and> \<not> tssNullResponse p \<and> \<not> tssFlexResponse p \<and>
     tssApduSize p \<le> RECV_REC_BUF \<and> tssApduSize p < nwOutBufSize s \<and>
     srcMode (rrSrcAddr r) \<noteq> AM_MULTICAST \<and> transNum_fits (rrVersion r) (rrTransNum r) \<and>
     has_room (nwQ (rrPriority r) s)"

lemma SNSendResponse_emits:
  assumes "rrTransState (rr i s) = RESPONDED" "rrRspSize (rr i s) < nwOutBufSize s"
    and "rrRspSize (rr i s) \<le> RECV_REC_BUF" "srcMode (rrSrcAddr (rr i s)) \<noteq> AM_MULTICAST"
    and "queue_wf (nwQ (rrPriority (rr i s)) s)" "has_room (nwQ (rrPriority (rr i s)) s)"
  shows "\<exists>n. queue_list (nwQ (rrPriority (rr i s)) (SNSendResponse i False False s)) =
      queue_list (nwQ (rrPriority (rr i s)) s) @ [n] \<and> nwsPduType n = SPDU_TYPE \<and>
      nwsDestAddr n = \<lparr>dstDmn = srcDmn (rrSrcAddr (rr i s)),
        dstAddr = DA_SubnetNode (srcSubnetAddr (rrSrcAddr (rr i s)))\<rparr> \<and>
      nwsPduSize n = length (nwsPdu n) \<and> nwsVersion n = sent_version (rrVersion (rr i s)) \<and>
      nwsPdu n = tspdu (rrVersion (rr i s)) False RESPONSE_MSG (rrTransNum (rr i s))
        (bytes_from (rrResponse (rr i s)) 0 (rrRspSize (rr i s)))"
    and "recvRec (SNSendResponse i False False s) = recvRec s"
proof -
  have d: "DecodeBufferSize TSA_RESP_BUF_SIZE = Inr 255"
    by (simp add: DecodeBufferSize_def bufSizeCodeLGbl_def TSA_RESP_BUF_SIZE_def)
  show "\<exists>n. queue_list (nwQ (rrPriority (rr i s)) (SNSendResponse i False False s)) =
      queue_list (nwQ (rrPriority (rr i s)) s) @ [n] \<and> nwsPduType n = SPDU_TYPE \<and>
      nwsDestAddr n = \<lparr>dstDmn = srcDmn (rrSrcAddr (rr i s)),
        dstAddr = DA_SubnetNode (srcSubnetAddr (rrSrcAddr (rr i s)))\<rparr> \<and>
      nwsPduSize n = length (nwsPdu n) \<and> nwsVersion n = sent_version (rrVersion (rr i s)) \<and>
      nwsPdu n = tspdu (rrVersion (rr i s)) False RESPONSE_MSG (rrTransNum (rr i s))
        (bytes_from (rrResponse (rr i s)) 0 (rrRspSize (rr i s)))"
    "recvRec (SNSendResponse i False False s) = recvRec s"
    using assms d
    by (simp_all add: SNSendResponse_def Let_def answer_dest_def queue_list_Emit has_room_def
        RECV_REC_BUF_def tspdu_def dataIndexOf_def)
qed

text \<open>
  A response goes back once, to the node that asked, under the number of its request.
  The response that heads the application's queue is matched by its request ID with a session
  record whose request was delivered; it leaves with that record's transaction number, the
  requester's address and the application's bytes. A second response with the same ID, or
  one for a request that is no longer known, is dropped and counted as late.
\<close>

theorem response_answers_its_request:
  assumes "tsa_inv s" "rr_inv s" "QueueHead (tsaRespQ s) = Some p" "FindRR (tssReqId p) s = oi"
    and "s' = send_response s" "tssService p = IzotServiceResponse"
  shows "queue_list (tsaRespQ s') = tl (queue_list (tsaRespQ s)) \<and>
    (case oi of
       None \<Rightarrow> s' = IncrementStat LcsLateAck (s\<lparr>tsaRespQ := QueueDropHead (tsaRespQ s)\<rparr>)
     | Some i \<Rightarrow> response_sendable p (rr i s) s \<longrightarrow>
         FindRR (tssReqId p) s' = None \<and>
         (\<exists>n. queue_list (nwQ (rrPriority (rr i s)) s') = queue_list (nwQ (rrPriority (rr i s)) s) @ [n] \<and>
            nwsPduType n = SPDU_TYPE \<and> nwsDestAddr n = \<lparr>dstDmn = srcDmn (rrSrcAddr (rr i s)),
              dstAddr = DA_SubnetNode (srcSubnetAddr (rrSrcAddr (rr i s)))\<rparr> \<and>
            TSPDU_pduMsgType (byte_at (nwsPdu n) 0) = RESPONSE_MSG \<and>
            pdu_transNum (nwsVersion n) (nwsPdu n) = rrTransNum (rr i s) \<and>
            bytes_from (nwsPdu n) (1 + dataIndexOf (nwsVersion n)) (tssApduSize p) = response_data p))"
proof -
  have wf: "queue_wf (tsaRespQ s)" using assms(1) by (simp add: tsa_inv_queues)
  have q: "queue_list (tsaRespQ s') = tl (queue_list (tsaRespQ s))"
    using assms(3,5,6) wf by (auto simp: send_response_def Let_def split: option.splits)
  show ?thesis
  proof (cases oi)
    case None
    then show ?thesis using assms q by (simp add: send_response_def)
  next
    case (Some i)
    note b = rr_lookup_bounds(3) [OF assms(4) [unfolded Some]]
    have wq: "queue_wf (nwQ (rrPriority (rr i s)) s)" using assms(1) by (simp add: tsa_inv_queues)
    have len: "length (rrResponse (rr i s)) = RECV_REC_BUF" using b assms(2) by (simp add: rr_inv_def)
    have "FindRR (tssReqId p) s' = None \<and>
         (\<exists>n. queue_list (nwQ (rrPriority (rr i s)) s') = queue_list (nwQ (rrPriority (rr i s)) s) @ [n] \<and>
            nwsPduType n = SPDU_TYPE \<and> nwsDestAddr n = \<lparr>dstDmn = srcDmn (rrSrcAddr (rr i s)),
              dstAddr = DA_SubnetNode (srcSubnetAddr (rrSrcAddr (rr i s)))\<rparr> \<and>
            TSPDU_pduMsgType (byte_at (nwsPdu n) 0) = RESPONSE_MSG \<and>
            pdu_transNum (nwsVersion n) (nwsPdu n) = rrTransNum (rr i s) \<and>
            bytes_from (nwsPdu n) (1 + dataIndexOf (nwsVersion n)) (tssApduSize p) = response_data p)"
      if r: "response_sendable p (rr i s) s"
    proof -
      let ?f = "\<lambda>r. r\<lparr>rrRspSize := tssApduSize p, rrResponse := memcpy_to (rrResponse r) (response_data p),
                 rrTransState := RESPONDED\<rparr>"
      let ?u = "update_rr i ?f s" and ?pri = "rrPriority (rr i s)"
      have e: "s' = (SNSendResponse i False False ?u)\<lparr>tsaRespQ := QueueDropHead (tsaRespQ s)\<rparr>"
        using assms(3-6) Some r len
        by (simp add: send_response_def response_sendable_def response_data_def Let_def)
      have ui: "rr i ?u = ?f (rr i s)" using b by simp
      have rd: "bytes_from (rrResponse (rr i ?u)) 0 (tssApduSize p) = response_data p"
        using bytes_from_memcpy [of "response_data p" "rrResponse (rr i s)"] r len
        unfolding ui by (simp add: response_sendable_def response_data_def)
      have c: "rrTransState (rr i ?u) = RESPONDED" "rrRspSize (rr i ?u) = tssApduSize p"
        "rrSrcAddr (rr i ?u) = rrSrcAddr (rr i s)" "rrPriority (rr i ?u) = ?pri"
        "rrVersion (rr i ?u) = rrVersion (rr i s)" "rrTransNum (rr i ?u) = rrTransNum (rr i s)"
        unfolding ui by simp_all
      have pre: "tssApduSize p < nwOutBufSize ?u" "tssApduSize p \<le> RECV_REC_BUF"
        "srcMode (rrSrcAddr (rr i s)) \<noteq> AM_MULTICAST" "queue_wf (nwQ ?pri ?u)" "has_room (nwQ ?pri ?u)"
        "transNum_fits (rrVersion (rr i s)) (rrTransNum (rr i s))"
        using r wq by (simp_all add: response_sendable_def)
      note em = SNSendResponse_emits [where i = i and s = ?u, unfolded c rd, OF refl pre(1-5)]
      have rec: "recvRec s' = (recvRec s)[i := ?f (rr i s)]" unfolding e using em(2) by simp
      have "rr_find (\<lambda>r. rrStatus r = SESSION_RR \<and> rrReqId r = tssReqId p) (recvRec s') 0 = Some i"
        unfolding rec using assms(4) Some
        by (subst rr_find_same) (auto simp: FindRR_def split: option.splits if_splits)
      then have "FindRR (tssReqId p) s' = None" using b by (simp add: FindRR_def rec)
      moreover have "nwQ ?pri s' = nwQ ?pri (SNSendResponse i False False ?u)"
        unfolding e by (simp add: nwQ_def)
      moreover note tspdu_roundtrip [OF pre(6), of False RESPONSE_MSG "response_data p"]
      ultimately show ?thesis
        using em(1) by (auto simp: RESPONSE_MSG_def response_data_def)
    qed
    then show ?thesis using q Some by simp
  qed
qed

definition sampleResponse :: "u16 \<Rightarrow> TSASendParam" where
  "sampleResponse q = sampleTss\<lparr>tssService := IzotServiceResponse, tssReqId := q\<rparr>"

definition requestStack :: "u16 \<Rightarrow> stack" where
  "requestStack q = (update_rr 0 (\<lambda>r. r\<lparr>rrStatus := SESSION_RR, rrReqId := 9, rrTransNum := 4,
     rrServiceType := IzotServiceRequest, rrTransState := DELIVERED\<rparr>) sampleStack)
     \<lparr>tsaRespQ := QueuePut (sampleResponse q) (emptyQueue 4 sampleTss)\<rparr>"

lemma requestStack_facts:
  "tsa_inv (requestStack q)" "rr_inv (requestStack q)"
  "QueueHead (tsaRespQ (requestStack q)) = Some (sampleResponse q)"
  "FindRR 9 (requestStack q) = Some 0" "FindRR 8 (requestStack q) = None"
  "response_sendable (sampleResponse q) (rr 0 (requestStack q)) (requestStack q)"
  "nwQ False (requestStack q) = emptyQueue 4 sampleNws" "rrPriority (rr 0 (requestStack q)) = False"
  "rrTransNum (rr 0 (requestStack q)) = 4"
proof -
  have w: "queue_wf (QueuePut (sampleResponse q) (emptyQueue 4 sampleTss))" by simp
  have "tx_inv p (requestStack q) = tx_inv p sampleStack" for p
    by (rule tx_inv_cong) (simp_all add: requestStack_def update_rr_def tsa_select_defs tcs_select_defs)
  then show "tsa_inv (requestStack q)" using sampleStack_tsa_inv w
    by (simp add: tsa_inv_def) (simp add: requestStack_def update_rr_def)
  show n: "nwQ False (requestStack q) = emptyQueue 4 sampleNws"
    by (simp add: requestStack_def nwQ_def update_rr_def)
  show "rr_inv (requestStack q)"
    by (simp add: requestStack_def rr_inv_def update_rr_def eval_nat_numeral)
      (simp add: sampleRr_def RECV_REC_BUF_def eval_nat_numeral)
  show "FindRR 9 (requestStack q) = Some 0" "FindRR 8 (requestStack q) = None"
    "rrPriority (rr 0 (requestStack q)) = False" "rrTransNum (rr 0 (requestStack q)) = 4"
    by (simp_all add: requestStack_def FindRR_def sampleRr_def eval_nat_numeral update_rr_def)
  have r: "rr 0 (requestStack q) = sampleRr\<lparr>rrStatus := SESSION_RR, rrReqId := 9, rrTransNum := 4,
     rrServiceType := IzotServiceRequest, rrTransState := DELIVERED\<rparr>"
    by (simp add: requestStack_def update_rr_def)
  have b: "nwOutBufSize (requestStack q) = 255" by (simp add: requestStack_def update_rr_def)
  show "response_sendable (sampleResponse q) (rr 0 (requestStack q)) (requestStack q)"
    unfolding r by (simp add: response_sendable_def sampleResponse_def sampleTss_def sampleRr_def n b
        sampleSrc_def RECV_REC_BUF_def transNum_fits_def has_room_def emptyQueue_def)
qed (simp add: requestStack_def queue_list_Put QueueHead_eq)

theorem response_answers_its_request_witness:
  "FindRR 9 (send_response (requestStack 9)) = None \<and>
   (\<exists>n. queue_list (nwOutQ (send_response (requestStack 9))) = [n] \<and>
      pdu_transNum (nwsVersion n) (nwsPdu n) = 4) \<and>
   queue_list (tsaRespQ (send_response (requestStack 8))) = []"
proof -
  have f: "tssReqId (sampleResponse q) = q" "tssService (sampleResponse q) = IzotServiceResponse"
    "queue_list (tsaRespQ (requestStack q)) = [sampleResponse q]" for q
    by (simp_all add: sampleResponse_def requestStack_def queue_list_Put)
  have n: "nwOutQ s = nwQ False s" for s by (simp add: nwQ_def)
  note r = response_answers_its_request [OF requestStack_facts(1-3) _ refl f(2)]
  have "FindRR (tssReqId (sampleResponse 9)) (requestStack 9) = Some 0"
    "FindRR (tssReqId (sampleResponse 8)) (requestStack 8) = None"
    by (simp_all only: f requestStack_facts)
  note r [OF this(1)] r [OF this(2)]
  then show ?thesis
    unfolding n by (auto simp: requestStack_facts f)
qed

end
