(* ===== verification/Lcs_Tsa_Auth.thy ===== *)
theory Lcs_Tsa_Auth
  imports Lcs_Encrypt Lcs_Tsa_Exchange
begin

text \<open>
  \<^verbatim>\<open>lcs/lcs_tsa.c\<close>, the authentication layer: challenges that are still to be sent
  (\<open>AuthSend\<close>), the answer to a challenge (\<open>SendReplyToChallenge\<close>), the check of an answer
  (\<open>ProcessReply\<close>) and their dispatch (\<open>AuthReceive\<close>). \<open>InitiateChallenge\<close> is in
  \<open>Lcs_Tsa_Answer\<close>, the computation of the codes in \<open>Lcs_Encrypt\<close>.
\<close>

section \<open>The domain table and what follows it\<close>

text \<open>
  The structure \<open>EEPROM\<close> is packed: the address table begins where the domain table ends.
  The code reads past a domain's key, and it indexes the domain table with the index of the
  flex domain, 2; both reach the bytes of the address table.
\<close>

definition address_bytes :: "IzotAddress \<Rightarrow> bytes" where
  "address_bytes a = [adTypeSize a, adDomainMember a, adRepeatRetry a, adReceiveTransmit a, adGroup a]"

definition IZOT_DOMAIN_SIZE :: nat where "IZOT_DOMAIN_SIZE = 15"

definition eeprom_domain :: "stack \<Rightarrow> u8 \<Rightarrow> IzotDomain" where
  "eeprom_domain s d =
     (if unat d < length (domainTable s) then domainTable s ! unat d
      else
        (let bs = concat (map address_bytes (addrTable s));
             off = (unat d - length (domainTable s)) * IZOT_DOMAIN_SIZE
         in \<lparr>domId = bytes_from bs off 6, domSubnet = byte_at bs (off + 6),
             domNodeClone = byte_at bs (off + 7), domInvalidIdLength = byte_at bs (off + 8),
             domKey = bytes_from bs (off + 9) 6\<rparr>))"

lemma eeprom_domain_cong:
  "domainTable s' = domainTable s \<Longrightarrow> addrTable s' = addrTable s \<Longrightarrow> eeprom_domain s' d = eeprom_domain s d"
  by (simp add: eeprom_domain_def)

section \<open>Destinations in open media authentication\<close>

text \<open>
  The nine bytes of the union \<open>OmaAddress\<close>: the unique ID, or the domain ID, its length and
  an address of two bytes; what is not used is all ones.
\<close>

definition oma_physical :: "bytes \<Rightarrow> bytes" where
  "oma_physical uid = bytes_from uid 0 IZOT_UNIQUE_ID_LENGTH @ [0xFF, 0xFF, 0xFF]"

definition oma_logical :: "IzotDomain \<Rightarrow> u8 \<Rightarrow> u8 \<Rightarrow> bytes" where
  "oma_logical pDom a b =
     bytes_from (domId pDom) 0 IZOT_DOMAIN_ID_MAX_LENGTH @ [IZOT_DOMAIN_ID_LENGTH pDom, a, b]"

text \<open>\<open>grp\<close> is \<open>data[8]\<close> of the reply; the formats are those of \<open>AddressFormat\<close>.\<close>

definition AF_MULTICAST :: u8 where "AF_MULTICAST = 1"
definition AF_SUBNETNODE :: u8 where "AF_SUBNETNODE = 2"
definition AF_UNIQUE_ID :: u8 where "AF_UNIQUE_ID = 3"

definition ReplyOmaDestAddr :: "stack \<Rightarrow> SourceAddress \<Rightarrow> u8 \<Rightarrow> u8 \<Rightarrow> bytes" where
  "ReplyOmaDestAddr s src fmt grp =
     (let pDom = eeprom_domain s (domainIndex (srcDmn src))
      in if fmt = AF_UNIQUE_ID then oma_physical (roUniqueNodeId (readOnlyData s))
         else if fmt = AF_SUBNETNODE then
           oma_logical pDom (domSubnet pDom)
             (set_attribute 0x7F 0 (IZOT_DOMAIN_NODE pDom) (set_attribute 0x80 7 0 0xFF))
         else if fmt = AF_MULTICAST then oma_logical pDom grp 0xFF
         else oma_logical pDom 0xFF 0xFF)"

definition ChallengeOmaDestAddr :: "stack \<Rightarrow> DestinationAddress \<Rightarrow> bytes" where
  "ChallengeOmaDestAddr s d =
     (let pDom = eeprom_domain s (domainIndex (dstDmn d))
      in case dstAddr d of
           DA_UniqueId _ uid \<Rightarrow> oma_physical uid
         | DA_SubnetNode a \<Rightarrow> oma_logical pDom (snSubnet a) (set_attribute 0x80 7 0 (snNode a))
         | DA_Multicast g \<Rightarrow> oma_logical pDom g 0xFF
         | _ \<Rightarrow> oma_logical pDom 0xFF 0xFF)"

section \<open>Answering a challenge\<close>

text \<open>
  The key is loaded in two steps of twelve bytes each (\<open>sizeof\<close> of the whole array), the
  second six bytes behind the first. From domain 0 both steps are made: the second leaves
  the key of domain 1 in place, and writes the six bytes that follow the domain table past
  the array, the first of them over the bit field \<open>version\<close> of the record (a value of 3 is
  only ever compared with the legacy mode; what the other five bytes overwrite is not
  modelled). From domain 1 one step is made.
\<close>

definition load_domain_key :: "bool \<Rightarrow> bool \<Rightarrow> u8 \<Rightarrow> stack \<Rightarrow> stack" where
  "load_domain_key pri useOma domIn s =
     (let domIdx = (if useOma then 0 else domIn); behind = eeprom_domain s 2
      in if altKey (txAltKey (xmitRecOf pri s)) then s
         else if domIdx = 0 then
           update_xmitRec pri (\<lambda>x. x\<lparr>
             txAltKey := (txAltKey x)\<lparr>altKeyValue :=
               [bytes_from (domKey (eeprom_domain s 0)) 0 6, bytes_from (domKey (eeprom_domain s 1)) 0 6]\<rparr>,
             txVersion := version_of_bits (byte_at (domId behind) 0)\<rparr>) (s\<lparr>memFault := True\<rparr>)
         else if domIdx = 1 then
           update_xmitRec pri (\<lambda>x. x\<lparr>
             txAltKey := (txAltKey x)\<lparr>altKeyValue :=
               [bytes_from (domKey (eeprom_domain s 1)) 0 6, bytes_from (domId behind) 0 6]\<rparr>\<rparr>) s
         else s)"

text \<open>A challenge that is not for the transaction in progress is refused.\<close>

definition auth_data :: "TSAReceiveParam \<Rightarrow> bytes" where
  "auth_data t = bytes_from (tsrPdu t) (1 + dataIndexOf (tsrVersion t)) 8"

definition auth_group :: "TSAReceiveParam \<Rightarrow> u8" where
  "auth_group t = byte_at (tsrPdu t) (9 + dataIndexOf (tsrVersion t))"

definition auth_fmt :: "TSAReceiveParam \<Rightarrow> u8" where
  "auth_fmt t = AuthPDU_fmt (byte_at (tsrPdu t) 0)"

definition challenge_refused :: "TSAReceiveParam \<Rightarrow> TransmitRecord \<Rightarrow> bool" where
  "challenge_refused t x \<longleftrightarrow>
     txStatus x = UNUSED_TX \<or> \<not> txAuth x \<or> pdu_transNum (tsrVersion t) (tsrPdu t) \<noteq> txTransNum x \<or>
     addrFmtToMode (auth_fmt t) \<noteq> dstMode (txNwDestAddr x) \<or>
     (auth_fmt t = 1 \<and> dstAddr (txNwDestAddr x) \<noteq> DA_Multicast (auth_group t))"

text \<open>\<open>Encrypt\<close> copies the APDU behind the address when it computes an answer for open media.\<close>

definition MAX_DATA_SIZE :: nat where "MAX_DATA_SIZE = 255"

definition oma_overflow :: "bool \<Rightarrow> nat \<Rightarrow> stack \<Rightarrow> stack" where
  "oma_overflow useOma apduSize s =
     (if useOma \<and> MAX_DATA_SIZE < apduSize then s\<lparr>memFault := True\<rparr> else s)"

definition reply_code :: "bool \<Rightarrow> TSAReceiveParam \<Rightarrow> TransmitRecord \<Rightarrow> stack \<Rightarrow> bytes" where
  "reply_code useOma t x s =
     Encrypt (auth_data t) (bytes_from (txApdu x) 0 (txApduSize x)) (concat (altKeyValue (txAltKey x)))
       useOma (ChallengeOmaDestAddr s (txNwDestAddr x))"

text \<open>
  The answer goes to the sender of the challenge, or the way the message went when the
  challenger has no node number yet.
\<close>

definition reply_dest :: "TSAReceiveParam \<Rightarrow> TransmitRecord \<Rightarrow> DestinationAddress \<Rightarrow> DestinationAddress" where
  "reply_dest t x d =
     (let src = tsrSrcAddr t;
          d' = (if IZOT_RECEIVESN_NODE (snNode (srcSubnetAddr src)) = 0 \<and> auth_fmt t = 3
                then txNwDestAddr x else d\<lparr>dstAddr := DA_SubnetNode (srcSubnetAddr src)\<rparr>)
      in d'\<lparr>dstDmn := (dstDmn d')\<lparr>domainIndex := domainIndex (srcDmn src)\<rparr>\<rparr>)"

definition reply_pdu :: "bool \<Rightarrow> TSAReceiveParam \<Rightarrow> TransmitRecord \<Rightarrow> bytes \<Rightarrow> bytes" where
  "reply_pdu useOma t x code =
     authpdu (tsrVersion t) (auth_fmt t) (if useOma then REPLY_OMA_MSG else REPLY_MSG) (txTransNum x)
       (code @ (if auth_fmt t = 1 then [auth_group t] else []))"

definition fill_reply ::
    "bool \<Rightarrow> TSAReceiveParam \<Rightarrow> TransmitRecord \<Rightarrow> bytes \<Rightarrow> NWSendParam \<Rightarrow> NWSendParam" where
  "fill_reply useOma t x code n =
     n\<lparr>nwsPdu := reply_pdu useOma t x code,
       nwsPduSize := (if auth_fmt t = 1 then 10 else 9) + dataIndexOf (tsrVersion t),
       nwsVersion := sent_version (tsrVersion t), nwsDropIfUnconfigured := False,
       nwsDestAddr := reply_dest t x (nwsDestAddr n), nwsPduType := AUTHPDU_TYPE, nwsDeltaBL := 0,
       nwsAltPath := tsrAltPath t OR ALT_CHANNEL_LOCK\<rparr>"

definition SendReplyToChallenge :: "u32 \<Rightarrow> bool \<Rightarrow> stack \<Rightarrow> stack" where
  "SendReplyToChallenge now useOma s =
     (case QueueHead (tsaInQ s) of
        None \<Rightarrow> null_pointer s
      | Some t \<Rightarrow>
          (let pri = tsrPriority t
           in if domainIndex (srcDmn (tsrSrcAddr t)) = FLEX_DOMAIN then drop_tsaIn s
              else if challenge_refused t (xmitRecOf pri s) then discard_late s
              else if QueueFull (nwQ pri s) then s
              else
                (let s1 = load_domain_key pri useOma (domainIndex (srcDmn (tsrSrcAddr t))) s;
                     x = xmitRecOf pri s1;
                     s2 = oma_overflow useOma (txApduSize x) s1;
                     s3 = drop_tsaIn (nw_emit pri (fill_reply useOma t x (reply_code useOma t x s1)) s2)
                 in update_xmitRec pri (\<lambda>x. x\<lparr>txXmitTimer :=
                      SetLonTimer now (txXmitTimer x) (ucast (txXmitTimerValue x))\<rparr>) s3)))"

section \<open>Checking the answer\<close>

text \<open>The keys: both domains for open media, else the record's domain or, for the flex domain, a valid one.\<close>

definition reply_key :: "bool \<Rightarrow> u8 \<Rightarrow> stack \<Rightarrow> bytes" where
  "reply_key useOma domIn s =
     (if useOma then
        bytes_from (domKey (eeprom_domain s 0)) 0 6 @ bytes_from (domKey (eeprom_domain s 1)) 0 6
      else
        (let domIdx = (if domIn = FLEX_DOMAIN
                       then if IZOT_DOMAIN_INVALID (eeprom_domain s 0) \<noteq> 0 then 1 else 0 else domIn)
         in bytes_from (domKey (eeprom_domain s domIdx)) 0 6))"

definition expected_code :: "bool \<Rightarrow> TSAReceiveParam \<Rightarrow> ReceiveRecord \<Rightarrow> stack \<Rightarrow> bytes" where
  "expected_code useOma t r s =
     Encrypt (rrRand r) (bytes_from (rrApdu r) 0 (rrApduSize r))
       (reply_key useOma (domainIndex (srcDmn (rrSrcAddr r))) s) useOma
       (ReplyOmaDestAddr s (rrSrcAddr r) (auth_fmt t) (auth_group t))"

text \<open>The source address of the answer with the group and the mode of the original message.\<close>

definition reply_source :: "TSAReceiveParam \<Rightarrow> SourceAddress" where
  "reply_source t = (tsrSrcAddr t)\<lparr>srcGroup := auth_group t, srcMode := addrFmtToMode (auth_fmt t)\<rparr>"

definition reply_checked :: "bool \<Rightarrow> TSAReceiveParam \<Rightarrow> nat \<Rightarrow> stack \<Rightarrow> stack" where
  "reply_checked useOma t i s =
     update_rr i (\<lambda>r. r\<lparr>rrAuth := (expected_code useOma t r s = auth_data t),
       rrTransState := AUTHENTICATED\<rparr>) (oma_overflow useOma (rrApduSize (rr i s)) s)"

definition ProcessReply :: "bool \<Rightarrow> stack \<Rightarrow> stack" where
  "ProcessReply useOma s =
     (case QueueHead (tsaInQ s) of
        None \<Rightarrow> null_pointer s
      | Some t \<Rightarrow>
          (case RetrieveRR (reply_source t) (tsrPriority t) s of
             None \<Rightarrow> discard_late s
           | Some i \<Rightarrow>
               (let r = rr i s
                in if rrTransState r \<noteq> AUTHENTICATING then drop_tsaIn s
                   else if auth_fmt t = 1 \<and> auth_group t \<noteq> srcGroup (rrSrcAddr r) then drop_tsaIn s
                   else if pdu_transNum (tsrVersion t) (tsrPdu t) \<noteq> rrTransNum r then drop_tsaIn s
                   else
                     (let s1 = Deliver i (reply_checked useOma t i s)
                      in drop_tsaIn
                           (if rrStatus (rr i s1) = TRANSPORT_RR \<and>
                               rrServiceType (rr i s1) = IzotServiceAcknowledged \<and>
                               rrTransState (rr i s1) = DELIVERED
                            then TPSendAck i s1 else s1)))))"

section \<open>The two functions of the layer\<close>

definition challenge_pending :: "ReceiveRecord \<Rightarrow> bool" where
  "challenge_pending r \<longleftrightarrow> rrStatus r \<noteq> UNUSED_RR \<and> rrNeedAuth r \<and> rrTransState r = JUST_RECEIVED"

definition AuthSend :: "(nat \<Rightarrow> nat \<Rightarrow> u8) \<Rightarrow> stack \<Rightarrow> stack" where
  "AuthSend rnd s =
     fold (\<lambda>i s. if challenge_pending (rr i s) then InitiateChallenge rnd i s else s)
       [0..<length (recvRec s)] s"

definition AuthReceive :: "u32 \<Rightarrow> stack \<Rightarrow> stack" where
  "AuthReceive now s =
     (if QueueEmpty (tsaInQ s) then s
      else (case QueueHead (tsaInQ s) of
              None \<Rightarrow> null_pointer s
            | Some t \<Rightarrow>
                (let mt = AuthPDU_pduMsgType (byte_at (tsrPdu t) 0)
                 in if tsrPduType t \<noteq> AUTHPDU_TYPE then s
                    else if mt = CHALLENGE_MSG \<or> mt = CHALLENGE_OMA_MSG then
                      SendReplyToChallenge now (mt = CHALLENGE_OMA_MSG)
                        (LCS_LogRxStat s (tsrAltPath t) RX_SOLICITED)
                    else if mt = REPLY_MSG \<or> mt = REPLY_OMA_MSG then
                      ProcessReply (mt = REPLY_OMA_MSG)
                        (LCS_LogRxStat s (tsrAltPath t) RX_UNSOLICITED)
                    else drop_tsaIn s)))"

section \<open>What the layer keeps\<close>

lemma load_domain_key_frame [simp]:
  "tsaInQ (load_domain_key pri oma d s) = tsaInQ s" "nwQ p (load_domain_key pri oma d s) = nwQ p s"
  "recvRec (load_domain_key pri oma d s) = recvRec s" "tsaQ p (load_domain_key pri oma d s) = tsaQ p s"
  "transRec p (load_domain_key pri oma d s) = transRec p s"
  "domainTable (load_domain_key pri oma d s) = domainTable s"
  "addrTable (load_domain_key pri oma d s) = addrTable s"
  by (simp_all add: load_domain_key_def Let_def)

lemma load_domain_key_record:
  "p \<noteq> pri \<Longrightarrow> xmitRecOf p (load_domain_key pri oma d s) = xmitRecOf p s"
  "txStatus (xmitRecOf pri (load_domain_key pri oma d s)) = txStatus (xmitRecOf pri s)"
  "txNwDestAddr (xmitRecOf pri (load_domain_key pri oma d s)) = txNwDestAddr (xmitRecOf pri s)"
  "txTransNum (xmitRecOf pri (load_domain_key pri oma d s)) = txTransNum (xmitRecOf pri s)"
  "txApdu (xmitRecOf pri (load_domain_key pri oma d s)) = txApdu (xmitRecOf pri s)"
  "txApduSize (xmitRecOf pri (load_domain_key pri oma d s)) = txApduSize (xmitRecOf pri s)"
  "txXmitTimer (xmitRecOf pri (load_domain_key pri oma d s)) = txXmitTimer (xmitRecOf pri s)"
  "txXmitTimerValue (xmitRecOf pri (load_domain_key pri oma d s)) = txXmitTimerValue (xmitRecOf pri s)"
  "txRetriesLeft (xmitRecOf pri (load_domain_key pri oma d s)) = txRetriesLeft (xmitRecOf pri s)"
  by (simp_all add: load_domain_key_def Let_def)

lemma load_domain_key_memFault:
  "memFault (load_domain_key pri oma d s) \<longleftrightarrow>
     memFault s \<or> \<not> altKey (txAltKey (xmitRecOf pri s)) \<and> (oma \<or> d = 0)"
  by (auto simp: load_domain_key_def Let_def)

lemma load_domain_key_inv [simp]: "tsa_inv s \<Longrightarrow> tsa_inv (load_domain_key pri oma d s)"
  by (simp add: load_domain_key_def Let_def tsa_inv_update_xmitRec)

lemma oma_overflow_frame [simp]:
  "tsa_inv (oma_overflow oma n s) = tsa_inv s" "rr_inv (oma_overflow oma n s) = rr_inv s"
  "recvRec (oma_overflow oma n s) = recvRec s" "tsaInQ (oma_overflow oma n s) = tsaInQ s"
  "appInQ (oma_overflow oma n s) = appInQ s" "nwQ p (oma_overflow oma n s) = nwQ p s"
  "xmitRecOf p (oma_overflow oma n s) = xmitRecOf p s" "addrTable (oma_overflow oma n s) = addrTable s"
  "domainTable (oma_overflow oma n s) = domainTable s"
  "appInBufSize (oma_overflow oma n s) = appInBufSize s"
  "memFault (oma_overflow oma n s) = (memFault s \<or> oma \<and> MAX_DATA_SIZE < n)"
  by (auto simp: oma_overflow_def)

text \<open>When an authentication PDU makes a copy run past its buffer.\<close>

definition challenge_overflows :: "bool \<Rightarrow> TSAReceiveParam \<Rightarrow> stack \<Rightarrow> bool" where
  "challenge_overflows useOma t s \<longleftrightarrow>
     (let x = xmitRecOf (tsrPriority t) s
      in \<not> challenge_refused t x \<and>
         (\<not> altKey (txAltKey x) \<and> (useOma \<or> domainIndex (srcDmn (tsrSrcAddr t)) = 0) \<or>
          useOma \<and> MAX_DATA_SIZE < txApduSize x))"

lemma length_reply_pdu: "length (reply_pdu useOma t x (reply_code oma t y s)) \<le> 11"
  by (simp add: reply_pdu_def reply_code_def dataIndexOf_def)

lemma load_domain_key_sizes [simp]:
  "nwBufSize p (load_domain_key pri oma d s) = nwBufSize p s"
  "nwBufSize p (oma_overflow oma n s) = nwBufSize p s"
  "nwBufSize p (reply_checked oma t i s) = nwBufSize p s"
  "answers_fit (reply_checked oma t i s) = answers_fit s"
proof -
  show "nwBufSize p (load_domain_key pri oma d s) = nwBufSize p s"
    "nwBufSize p (oma_overflow oma n s) = nwBufSize p s" for p
    by (simp_all add: load_domain_key_def oma_overflow_def Let_def)
  show r: "nwBufSize p (reply_checked oma t i s) = nwBufSize p s" for p
    by (simp add: reply_checked_def oma_overflow_def)
  show "answers_fit (reply_checked oma t i s) = answers_fit s" by (rule answers_fit_cong) (rule r)
qed

lemma SendReplyToChallenge_keeps:
  assumes "tsa_inv s" "QueueHead (tsaInQ s) = Some t"
  shows "tsa_inv (SendReplyToChallenge now useOma s)"
    and "recvRec (SendReplyToChallenge now useOma s) = recvRec s"
    and "answers_fit s \<Longrightarrow> memFault (SendReplyToChallenge now useOma s) \<Longrightarrow>
      memFault s \<or> challenge_overflows useOma t s"
  using assms answers_fitD [OF _ length_reply_pdu, of s]
  by (auto simp: SendReplyToChallenge_def Let_def load_domain_key_record discard_late_def nw_overflow_def
      fill_reply_def challenge_overflows_def load_domain_key_memFault tsa_inv_update_xmitRec split: if_splits)

lemma reply_checked_keeps [simp]:
  "tsa_inv s \<Longrightarrow> tsa_inv (reply_checked useOma t i s)"
  "rr_inv s \<Longrightarrow> rr_inv (reply_checked useOma t i s)"
  "memFault (reply_checked useOma t i s) = (memFault s \<or> useOma \<and> MAX_DATA_SIZE < rrApduSize (rr i s))"
  "tsaInQ (reply_checked useOma t i s) = tsaInQ s" "appInQ (reply_checked useOma t i s) = appInQ s"
  "nwQ p (reply_checked useOma t i s) = nwQ p s" "appInBufSize (reply_checked useOma t i s) = appInBufSize s"
  "addrTable (reply_checked useOma t i s) = addrTable s"
  "domainTable (reply_checked useOma t i s) = domainTable s"
  "length (recvRec (reply_checked useOma t i s)) = length (recvRec s)"
  by (simp_all add: reply_checked_def rr_inv_update)

definition reply_overflows :: "bool \<Rightarrow> TSAReceiveParam \<Rightarrow> stack \<Rightarrow> bool" where
  "reply_overflows useOma t s \<longleftrightarrow>
     useOma \<and> (case RetrieveRR (reply_source t) (tsrPriority t) s of
                  None \<Rightarrow> False | Some i \<Rightarrow> MAX_DATA_SIZE < rrApduSize (rr i s))"

lemma ProcessReply_keeps:
  assumes "tsa_inv s" "rr_inv s" "QueueHead (tsaInQ s) = Some t"
  shows "tsa_inv (ProcessReply useOma s)" and "rr_inv (ProcessReply useOma s)"
    and "answers_fit s \<Longrightarrow> memFault (ProcessReply useOma s) \<Longrightarrow> memFault s \<or> reply_overflows useOma t s"
  using assms
  by (auto simp: ProcessReply_def Let_def discard_late_def reply_overflows_def split: option.splits if_splits)

lemma AuthSend_induct:
  assumes "P s" and "\<And>i s. P s \<Longrightarrow> P (InitiateChallenge rnd i s)"
  shows "P (AuthSend rnd s)"
  unfolding AuthSend_def
  by (rule fold_invariant [where Q = "\<lambda>_. True"]) (use assms in auto)

lemma AuthSend_keeps:
  "tsa_inv s \<Longrightarrow> tsa_inv (AuthSend rnd s)" "rr_inv s \<Longrightarrow> rr_inv (AuthSend rnd s)"
  "answers_fit s \<Longrightarrow> memFault (AuthSend rnd s) = memFault s" "tsaInQ (AuthSend rnd s) = tsaInQ s"
  "appInQ (AuthSend rnd s) = appInQ s"
proof -
  have fit: "answers_fit (InitiateChallenge rnd i u) = answers_fit u" for i u
    by (rule answers_fit_cong) simp
  show "memFault (AuthSend rnd s) = memFault s" if "answers_fit s"
    using AuthSend_induct [of "\<lambda>u. answers_fit u \<and> memFault u = memFault s" s rnd] that fit by simp
qed (rule AuthSend_induct; simp)+

definition authpdu_overflows :: "TSAReceiveParam \<Rightarrow> stack \<Rightarrow> bool" where
  "authpdu_overflows t s \<longleftrightarrow>
     (let mt = AuthPDU_pduMsgType (byte_at (tsrPdu t) 0)
      in (mt = CHALLENGE_MSG \<or> mt = CHALLENGE_OMA_MSG) \<and> challenge_overflows (mt = CHALLENGE_OMA_MSG) t s \<or>
         (mt = REPLY_MSG \<or> mt = REPLY_OMA_MSG) \<and> reply_overflows (mt = REPLY_OMA_MSG) t s)"

lemma overflows_LogRxStat [simp]:
  "challenge_overflows oma t (LCS_LogRxStat s a ty) = challenge_overflows oma t s"
  "reply_overflows oma t (LCS_LogRxStat s a ty) = reply_overflows oma t s"
  by (simp_all add: challenge_overflows_def reply_overflows_def RetrieveRR_def cong: option.case_cong)

lemma AuthReceive_keeps:
  assumes "tsa_inv s" "rr_inv s"
  shows "tsa_inv (AuthReceive now s)" and "rr_inv (AuthReceive now s)"
    and "answers_fit s \<Longrightarrow> memFault (AuthReceive now s) \<Longrightarrow> memFault s \<or>
      (\<exists>t. QueueHead (tsaInQ s) = Some t \<and> authpdu_overflows t s)"
proof -
  have "tsa_inv (AuthReceive now s) \<and> rr_inv (AuthReceive now s) \<and>
    (answers_fit s \<longrightarrow> memFault (AuthReceive now s) \<longrightarrow> memFault s \<or>
      (\<exists>t. QueueHead (tsaInQ s) = Some t \<and> authpdu_overflows t s))"
  proof (cases "QueueHead (tsaInQ s)")
    case None
    then have "queue_list (tsaInQ s) = []"
      using assms(1) by (simp add: QueueHead_eq tsa_inv_queues split: if_splits)
    then show ?thesis using assms by (simp add: AuthReceive_def tsa_inv_queues)
  next
    case (Some t)
    let ?s = "\<lambda>ty. LCS_LogRxStat s (tsrAltPath t) ty"
    have inv: "tsa_inv (?s ty)" "rr_inv (?s ty)" "QueueHead (tsaInQ (?s ty)) = Some t" for ty
      using assms Some by simp_all
    have chal: "rr_inv (SendReplyToChallenge now oma (?s ty))" for oma ty
      using SendReplyToChallenge_keeps(2) [OF inv(1,3)] inv(2) rr_inv_cong by blast
    show ?thesis
      using SendReplyToChallenge_keeps(1,3) [OF inv(1,3)] chal ProcessReply_keeps [OF inv] assms Some
      by (auto simp: AuthReceive_def authpdu_overflows_def Let_def)
  qed
  then show "tsa_inv (AuthReceive now s)" "rr_inv (AuthReceive now s)"
    "answers_fit s \<Longrightarrow> memFault (AuthReceive now s) \<Longrightarrow> memFault s \<or>
      (\<exists>t. QueueHead (tsaInQ s) = Some t \<and> authpdu_overflows t s)" by auto
qed

section \<open>Properties\<close>

text \<open>
  Safety of the authentication layer on any state and any input: both entry points keep
  the invariants, when the network buffers hold the eleven bytes of a challenge. Copies past a
  buffer happen only for the inputs named: a challenge for the transaction in progress that makes the key be loaded from domain 0 (see
  \<open>challenge_switches_the_mode\<close>), and codes for open media over an APDU of more than 255 bytes.
\<close>

theorem auth_layer_is_safe:
  assumes "tsa_inv s" "rr_inv s" "answers_fit s"
  shows "(let s' = AuthSend rnd s in tsa_inv s' \<and> rr_inv s' \<and> memFault s' = memFault s) \<and>
    (let s' = AuthReceive now s in tsa_inv s' \<and> rr_inv s' \<and> (memFault s' \<longrightarrow> memFault s \<or>
       (\<exists>t. QueueHead (tsaInQ s) = Some t \<and> authpdu_overflows t s)))"
  using AuthSend_keeps [where s = s and rnd = rnd] AuthReceive_keeps [OF assms(1,2)] assms by (auto simp: Let_def)

theorem auth_layer_is_safe_witness:
  "tsa_inv (AuthReceive 5 (withPdu (sampleAck 5) unicastStack)) \<and> \<not> memFault (AuthSend (\<lambda>_ _. 0) unicastStack)"
proof -
  have r: "rr_inv unicastStack"
    using sampleStack_rr_inv
    by (simp add: unicastStack_def activeStack_def loadedStack_def rr_inv_def)
  have fit: "answers_fit unicastStack" "answers_fit (withPdu t unicastStack)" for t
    by (simp_all add: answers_fit_def nwBufSize_def withPdu_def unicastStack_def activeStack_def loadedStack_def)
  show ?thesis
    using auth_layer_is_safe [of "withPdu (sampleAck 5) unicastStack" "\<lambda>_ _. 0" 5]
      auth_layer_is_safe [OF unicastStack_inv r, of "\<lambda>_ _. 0" 5] r fit by (simp add: Let_def)
qed

lemma reply_group:
  assumes "RetrieveRR (reply_source t) pri s = Some i" "auth_fmt t = 1"
  shows "auth_group t = srcGroup (rrSrcAddr (rr i s))"
  using rr_lookup_bounds(1) [OF assms(1)] assms(2)
  by (auto simp: rr_matches_def reply_source_def addrFmtToMode_def)

lemma ProcessReply_awaited:
  assumes "QueueHead (tsaInQ s) = Some t" "RetrieveRR (reply_source t) (tsrPriority t) s = Some i"
    and "rrTransState (rr i s) = AUTHENTICATING"
    and "pdu_transNum (tsrVersion t) (tsrPdu t) = rrTransNum (rr i s)"
  shows "\<exists>u. ProcessReply useOma s = drop_tsaIn u \<and> recvRec u = recvRec (Deliver i (reply_checked useOma t i s)) \<and>
    appInQ u = appInQ (Deliver i (reply_checked useOma t i s)) \<and>
    tsaInQ u = tsaInQ (Deliver i (reply_checked useOma t i s))"
  using assms reply_group [OF assms(2)] by (auto simp: ProcessReply_def Let_def)

lemma reply_decided:
  assumes "tsa_inv s" "QueueHead (tsaInQ s) = Some t"
    and "RetrieveRR (reply_source t) (tsrPriority t) s = Some i"
    and "rrTransState (rr i s) = AUTHENTICATING"
    and "pdu_transNum (tsrVersion t) (tsrPdu t) = rrTransNum (rr i s)"
    and "rrApduSize (rr i s) \<le> appInBufSize s"
  shows "(let s' = ProcessReply useOma s; ok = (expected_code useOma t (rr i s) s = auth_data t)
     in rrAuth (rr i s') = ok \<and> rrTransState (rr i s') = DELIVERED \<and>
        (auth_fmt t = 1 \<longrightarrow> auth_group t = srcGroup (rrSrcAddr (rr i s))) \<and>
        queue_list (tsaInQ s') = tl (queue_list (tsaInQ s)) \<and>
        (\<exists>a. aprApdu a = bytes_from (rrApdu (rr i s)) 0 (rrApduSize (rr i s)) \<and> aprAuth a = ok \<and>
           queue_list (appInQ s') =
             (if has_room (appInQ s) then queue_list (appInQ s) @ [a] else queue_list (appInQ s))))"
proof -
  let ?c = "reply_checked useOma t i s"
  have i: "i < length (recvRec s)" using rr_lookup_bounds(1) [OF assms(3)] by simp
  have c: "rr i ?c = (rr i s)\<lparr>rrAuth := (expected_code useOma t (rr i s) s = auth_data t),
       rrTransState := AUTHENTICATED\<rparr>"
    using i by (simp add: reply_checked_def update_rr_def)
  have q: "queue_wf (appInQ ?c)" "i < length (recvRec ?c)"
    "rrNeedAuth (rr i ?c) \<longrightarrow> rrTransState (rr i ?c) = AUTHENTICATED"
    "rrApduSize (rr i ?c) \<le> appInBufSize ?c"
    using assms(1,6) i c by (simp_all add: tsa_inv_queues)
  note d = Deliver_delivers [OF q]
  have auth: "rrAuth (rr i (Deliver i ?c)) = rrAuth (rr i ?c)"
    using i by (simp add: Deliver_def Let_def)
  obtain u where u: "ProcessReply useOma s = drop_tsaIn u" "recvRec u = recvRec (Deliver i ?c)"
    "appInQ u = appInQ (Deliver i ?c)" "tsaInQ u = tsaInQ (Deliver i ?c)"
    using ProcessReply_awaited [OF assms(2-5)] by blast
  show ?thesis
    using d auth u c assms(1) reply_group [OF assms(3)]
    by (auto simp: Let_def tsa_inv_queues drop_tsaIn_def)
qed


text \<open>
  The answer to an awaited challenge decides. The message is delivered once, whether or
  not the code is right, and it is marked as authenticated exactly when the eight bytes of
  the answer are the code computed from the challenge, the message and the key; the comparison
  of the groups that the code makes before can never fail.
\<close>

theorem reply_decides_authentication:
  assumes "tsa_inv s" "QueueHead (tsaInQ s) = Some t"
    and "RetrieveRR (reply_source t) (tsrPriority t) s = Some i"
    and "rrTransState (rr i s) = AUTHENTICATING"
    and "pdu_transNum (tsrVersion t) (tsrPdu t) = rrTransNum (rr i s)"
    and "rrApduSize (rr i s) \<le> appInBufSize s"
  shows "(let s' = ProcessReply useOma s; ok = (expected_code useOma t (rr i s) s = auth_data t)
     in rrAuth (rr i s') = ok \<and> rrTransState (rr i s') = DELIVERED \<and>
        (auth_fmt t = 1 \<longrightarrow> auth_group t = srcGroup (rrSrcAddr (rr i s))) \<and>
        queue_list (tsaInQ s') = tl (queue_list (tsaInQ s)) \<and>
        (\<exists>a. aprApdu a = bytes_from (rrApdu (rr i s)) 0 (rrApduSize (rr i s)) \<and> aprAuth a = ok \<and>
           queue_list (appInQ s') =
             (if has_room (appInQ s) then queue_list (appInQ s) @ [a] else queue_list (appInQ s))))"
  by (rule reply_decided [OF assms])

text \<open>
  The two ends of an authenticated exchange: a node that waits for the answer to its
  challenge in receive record 0, and a node whose message with number 5 is in transit.
\<close>

definition waitingStack :: stack where
  "waitingStack = update_rr 0 (\<lambda>r. r\<lparr>rrStatus := TRANSPORT_RR, rrTransNum := 5,
     rrTransState := AUTHENTICATING, rrNeedAuth := True, rrRand := [1, 2, 3, 4, 5, 6, 7, 8],
     rrApdu := 0x21 # 0x22 # replicate 80 0, rrApduSize := 2\<rparr>) sampleStack"

lemma waitingStack_fields [simp]:
  "tsa_inv waitingStack" "rr_inv waitingStack" "appInQ waitingStack = emptyQueue 4 sampleApr"
  "appInBufSize waitingStack = 255" "rrTransState (rr 0 waitingStack) = AUTHENTICATING"
  "rrTransNum (rr 0 waitingStack) = 5" "rrRand (rr 0 waitingStack) = [1, 2, 3, 4, 5, 6, 7, 8]"
  "rrSrcAddr (rr 0 waitingStack) = sampleSrc" "rrVersion (rr 0 waitingStack) = LsProtocolModeLegacy"
  "rrApduSize (rr 0 waitingStack) = 2" "rrPriority (rr 0 waitingStack) = False"
  "rrApdu (rr 0 waitingStack) = 0x21 # 0x22 # replicate 80 0" "rrAuth (rr 0 waitingStack) = False"
  "domainTable waitingStack = [sampleDomain, sampleDomain1]" "length (recvRec waitingStack) = 16"
proof -
  show "rr_inv waitingStack"
    by (auto simp: waitingStack_def rr_inv_def sampleRr_def RECV_REC_BUF_def nth_list_update
        dest!: set_update_subset_insert [THEN subsetD])
qed (simp_all add: waitingStack_def, simp_all add: sampleRr_def)

definition sampleReply :: "bytes \<Rightarrow> TSAReceiveParam" where
  "sampleReply code = sampleTsr\<lparr>tsrPduType := AUTHPDU_TYPE, tsrPduSize := 9,
     tsrPdu := authpdu LsProtocolModeLegacy 2 REPLY_MSG 5 code\<rparr>"

lemma sampleReply_fields [simp]:
  "tsrPriority (sampleReply code) = False" "tsrVersion (sampleReply code) = LsProtocolModeLegacy"
  "tsrPduType (sampleReply code) = AUTHPDU_TYPE" "tsrSrcAddr (sampleReply code) = sampleSrc"
  "auth_fmt (sampleReply code) = 2" "pdu_transNum LsProtocolModeLegacy (tsrPdu (sampleReply code)) = 5"
  "length code = 8 \<Longrightarrow> auth_data (sampleReply code) = code"
  "AuthPDU_pduMsgType (byte_at (tsrPdu (sampleReply code)) 0) = REPLY_MSG"
  "recvRec s = recvRec waitingStack \<Longrightarrow> RetrieveRR (reply_source (sampleReply code)) False s = Some 0"
proof -
  have rt: "transNum_fits LsProtocolModeLegacy 5" by (simp add: transNum_fits_def)
  note r = authpdu_roundtrip [OF rt, where data = code and fmt = 2 and mt = REPLY_MSG]
  show f: "auth_fmt (sampleReply code) = 2"
    using r(1) by (simp add: auth_fmt_def sampleReply_def)
  show "pdu_transNum LsProtocolModeLegacy (tsrPdu (sampleReply code)) = 5"
    using r(3) by (simp add: sampleReply_def sent_version_def)
  show "length code = 8 \<Longrightarrow> auth_data (sampleReply code) = code"
    using r(4) by (simp add: auth_data_def sampleReply_def sent_version_def sampleTsr_def)
  show "AuthPDU_pduMsgType (byte_at (tsrPdu (sampleReply code)) 0) = REPLY_MSG"
    using r(2) by (simp add: sampleReply_def REPLY_MSG_def)
  show "RetrieveRR (reply_source (sampleReply code)) False s = Some 0"
    if "recvRec s = recvRec waitingStack"
    using that f by (simp add: RetrieveRR_def reply_source_def rr_matches_def waitingStack_def
        update_rr_def eval_nat_numeral) (simp add: sampleReply_def sampleTsr_def sampleRr_def sampleSrc_def
        addrFmtToMode_def)
qed (simp_all add: sampleReply_def, simp_all add: sampleTsr_def)

theorem reply_decides_authentication_witness:
  "\<not> rrAuth (rr 0 (ProcessReply False (withPdu (sampleReply (replicate 8 0)) waitingStack))) \<or>
   \<not> rrAuth (rr 0 (ProcessReply False (withPdu (sampleReply (replicate 8 1)) waitingStack)))"
proof -
  have d: "rrAuth (rr 0 (ProcessReply False (withPdu (sampleReply code) waitingStack))) =
      (expected_code False (sampleReply code) (rr 0 waitingStack) (withPdu (sampleReply code) waitingStack) = code)"
    if "length code = 8" for code
    using reply_decides_authentication [of "withPdu (sampleReply code) waitingStack" "sampleReply code" 0 False] that
    by (simp add: Let_def)
  have "expected_code False (sampleReply c) (rr 0 waitingStack) (withPdu (sampleReply c) waitingStack) =
      expected_code False (sampleReply c') (rr 0 waitingStack) (withPdu (sampleReply c') waitingStack)" for c c'
    unfolding expected_code_def
    by (rule Encrypt_cong) (simp_all add: reply_key_def eeprom_domain_def withPdu_def Let_def)
  then have e: "expected_code False (sampleReply (replicate 8 0)) (rr 0 waitingStack) (withPdu (sampleReply (replicate 8 0)) waitingStack) =
      expected_code False (sampleReply (replicate 8 1)) (rr 0 waitingStack) (withPdu (sampleReply (replicate 8 1)) waitingStack)" .
  have "replicate 8 (0 :: u8) \<noteq> replicate 8 1" by simp
  then show ?thesis using d [of "replicate 8 0"] d [of "replicate 8 1"] e by (metis length_replicate)
qed

lemma rrAuth_Deliver [simp]: "rrAuth (rr j (Deliver i s)) = rrAuth (rr j s)"
  by (cases "i < length (recvRec s)"; cases "i = j")
    (simp_all add: Deliver_def Let_def list_update_beyond not_less)

lemma reply_marks:
  assumes "tsa_inv s" "rrAuth (rr j (AuthReceive now s))" "\<not> rrAuth (rr j s)"
  shows "\<exists>t useOma. QueueHead (tsaInQ s) = Some t \<and> tsrPduType t = AUTHPDU_TYPE \<and>
    AuthPDU_pduMsgType (byte_at (tsrPdu t) 0) = (if useOma then REPLY_OMA_MSG else REPLY_MSG) \<and>
    rr_matches (reply_source t) (tsrPriority t) (rr j s) \<and> rrTransState (rr j s) = AUTHENTICATING \<and>
    pdu_transNum (tsrVersion t) (tsrPdu t) = rrTransNum (rr j s) \<and>
    auth_data t = expected_code useOma t (rr j s) s"
proof (cases "QueueHead (tsaInQ s)")
  case None
  then have "queue_list (tsaInQ s) = []"
    using assms(1) by (simp add: QueueHead_eq tsa_inv_queues split: if_splits)
  then show ?thesis using assms by (simp add: AuthReceive_def tsa_inv_queues)
next
  case (Some t)
  let ?mt = "AuthPDU_pduMsgType (byte_at (tsrPdu t) 0)" and ?s = "\<lambda>ty. LCS_LogRxStat s (tsrAltPath t) ty"
  have inv: "tsa_inv (?s ty)" "QueueHead (tsaInQ (?s ty)) = Some t" "rr k (?s ty) = rr k s" for ty k
    using assms(1) Some by simp_all
  have chal: "rr j (SendReplyToChallenge now oma (?s ty)) = rr j s" for oma ty
    using SendReplyToChallenge_keeps(2) [OF inv(1,2)] by simp
  have code: "expected_code oma t r (?s ty) = expected_code oma t r s" for oma r ty
    by (simp add: expected_code_def reply_key_def eeprom_domain_def ReplyOmaDestAddr_def Let_def)
  have reply: "rr_matches (reply_source t) (tsrPriority t) (rr j s) \<and> rrTransState (rr j s) = AUTHENTICATING \<and>
      pdu_transNum (tsrVersion t) (tsrPdu t) = rrTransNum (rr j s) \<and> auth_data t = expected_code oma t (rr j s) s"
    if a: "rrAuth (rr j (ProcessReply oma (?s ty)))" for oma ty
  proof (cases "RetrieveRR (reply_source t) (tsrPriority t) (?s ty)")
    case None
    then show ?thesis using a assms(3) by (simp add: ProcessReply_def Some discard_late_def)
  next
    case r: (Some i)
    note i = rr_lookup_bounds(1) [OF r]
    show ?thesis
    proof (cases "rrTransState (rr i s) = AUTHENTICATING \<and>
        pdu_transNum (tsrVersion t) (tsrPdu t) = rrTransNum (rr i s)")
      case False
      then have "rrAuth (rr j s)"
        using a r inv(3) reply_group [OF r] by (auto simp: ProcessReply_def Let_def Some split: if_splits)
      then show ?thesis using assms(3) by contradiction
    next
      case True
      have "rrAuth (rr j (reply_checked oma t i (?s ty)))"
        using ProcessReply_awaited [OF inv(2) r, of oma] True a inv(3) by (auto simp: drop_tsaIn_def)
      then have "j = i \<and> expected_code oma t (rr i s) s = auth_data t"
        using i assms(3) code by (cases "j = i") (simp_all add: reply_checked_def update_rr_def)
      then show ?thesis using True i inv(3) by simp
    qed
  qed
  have other: "rr j (drop_tsaIn s) = rr j s" by simp
  show ?thesis
    using assms Some chal reply [of False] reply [of True] other
    by (auto simp: AuthReceive_def Let_def split: if_splits)
qed

subsection \<open>Nothing else marks a record\<close>

text \<open>A step that sets no mark: a record that is marked after it was marked before it.\<close>

definition no_new_mark :: "stack \<Rightarrow> stack \<Rightarrow> bool" where
  "no_new_mark s s' \<longleftrightarrow> length (recvRec s') = length (recvRec s) \<and>
     (\<forall>j<length (recvRec s). rrAuth (rr j s') \<longrightarrow> rrAuth (rr j s))"

lemma no_new_mark_same: "recvRec s' = recvRec s \<Longrightarrow> no_new_mark s s'"
  by (simp add: no_new_mark_def)

lemma no_new_mark_refl [simp]: "no_new_mark s s"
  by (simp add: no_new_mark_def)

lemma no_new_mark_trans: "no_new_mark s t \<Longrightarrow> no_new_mark t u \<Longrightarrow> no_new_mark s u"
  by (simp add: no_new_mark_def)

text \<open>Steps after which the records are as before, in front or behind.\<close>

lemma no_new_mark_cong:
  "recvRec t' = recvRec t \<Longrightarrow> no_new_mark s t' = no_new_mark s t"
  by (simp add: no_new_mark_def)

lemma no_new_mark_frames [simp]:
  "no_new_mark s (drop_tsaIn t) = no_new_mark s t" "no_new_mark s (IncrementStat st t) = no_new_mark s t"
  "no_new_mark s (null_pointer t) = no_new_mark s t" "no_new_mark s (nw_emit pri f t) = no_new_mark s t"
  "no_new_mark s (t\<lparr>memFault := b\<rparr>) = no_new_mark s t" "no_new_mark s (t\<lparr>tsaRespQ := qr\<rparr>) = no_new_mark s t"
  "no_new_mark s (t\<lparr>prevChallenge := v\<rparr>) = no_new_mark s t" "no_new_mark s (fault_if b t) = no_new_mark s t"
  "no_new_mark s (t\<lparr>appInQ := qa\<rparr>) = no_new_mark s t" "no_new_mark s (LCS_LogRxStat t a ty) = no_new_mark s t"
  "no_new_mark s (TPSendAck i t) = no_new_mark s t" "no_new_mark s (t\<lparr>reqId := q\<rparr>) = no_new_mark s t"
  by (rule no_new_mark_cong; simp)+

lemma no_new_mark_update:
  assumes "no_new_mark s t" "\<And>r. rrAuth (f r) \<longrightarrow> rrAuth r"
  shows "no_new_mark s (update_rr i f t)"
proof -
  have "rrAuth ((recvRec t)[i := f (rr i t)] ! j) \<longrightarrow> rrAuth (rr j t)" if "j < length (recvRec t)" for j
    using that assms(2) [of "rr j t"] by (cases "i = j") simp_all
  then show ?thesis using assms(1) by (auto simp: no_new_mark_def)
qed

lemma no_new_mark_answers [simp]:
  "no_new_mark s t \<Longrightarrow> no_new_mark s (Deliver i t)"
  "no_new_mark s t \<Longrightarrow> no_new_mark s (SNSendResponse i b f t)"
  "no_new_mark s t \<Longrightarrow> no_new_mark s (InitiateChallenge rnd i t)"
  "no_new_mark s t \<Longrightarrow> no_new_mark s (setup_rr now layerIn i p tn sv q apdu t)"
  "no_new_mark s t \<Longrightarrow> no_new_mark s (new_msg_setup now layerIn i p t)"
proof -
  assume a: "no_new_mark s t"
  show "no_new_mark s (Deliver i t)" using a by (simp add: Deliver_def Let_def no_new_mark_update)
  show "no_new_mark s (SNSendResponse i b f t)"
    using a by (simp add: SNSendResponse_def Let_def no_new_mark_update split: option.splits sum.splits)
  have "no_new_mark s (draw_challenge rnd i t)" using a by (simp add: draw_challenge_def Let_def no_new_mark_update)
  then show "no_new_mark s (InitiateChallenge rnd i t)"
    using a by (simp add: InitiateChallenge_def Let_def no_new_mark_update split: option.splits)
  show fresh: "no_new_mark s (setup_rr now layerIn i p tn sv q apdu t)" for tn sv q apdu
  proof -
    obtain rid t1 where n: "next_reqId t = (rid, t1)" by force
    have "no_new_mark s t1" using a next_reqId_frame(2) [OF n] by simp
    then show ?thesis using a by (simp add: setup_rr_def Let_def n no_new_mark_update)
  qed
  show "no_new_mark s (new_msg_setup now layerIn i p t)" by (simp add: new_msg_setup_def Let_def fresh)
qed

lemma no_new_mark_flags [simp]:
  "no_new_mark s t \<Longrightarrow> no_new_mark s (update_rr i (\<lambda>r. r\<lparr>rrNeedAuth := b\<rparr>) t)"
  "no_new_mark s t \<Longrightarrow> no_new_mark s (update_rr i (\<lambda>r. r\<lparr>rrAltPath := g r\<rparr>) t)"
  "no_new_mark s t \<Longrightarrow> no_new_mark s (update_rr i (\<lambda>r. r\<lparr>rrTransState := ts\<rparr>) t)"
  "no_new_mark s t \<Longrightarrow> no_new_mark s (update_rr i (\<lambda>r. r\<lparr>rrStatus := st\<rparr>) t)"
  by (rule no_new_mark_update; simp)+

lemma new_msg_record_no_mark:
  "no_new_mark s t \<Longrightarrow> no_new_mark s (snd (new_msg_record now layerIn p t))"
  by (simp add: new_msg_record_def split: option.splits)

lemma new_msg_process_no_mark:
  "no_new_mark s t \<Longrightarrow> no_new_mark s (new_msg_process rnd layerIn i t)"
  by (simp add: new_msg_process_def Let_def)

lemma ReceiveNewMsg_no_mark:
  assumes "no_new_mark s t" shows "no_new_mark s (ReceiveNewMsg now rnd layerIn t)"
proof (cases "QueueHead (tsaInQ t)")
  case None
  then show ?thesis using assms by (simp add: ReceiveNewMsg_def)
next
  case (Some p)
  obtain oi u where u: "new_msg_record now layerIn p t = (oi, u)" by force
  have "no_new_mark s u" using new_msg_record_no_mark [OF assms, of now layerIn p] u by simp
  then show ?thesis
    using Some u by (simp add: ReceiveNewMsg_def new_msg_process_no_mark split: option.splits)
qed

lemma rem_new_no_mark: "no_new_mark s t \<Longrightarrow> no_new_mark s (rem_new now rnd layerIn p t)"
  by (simp add: rem_new_def Let_def split: option.splits)

lemma rem_existing_no_mark: "no_new_mark s t \<Longrightarrow> no_new_mark s (rem_existing rnd layerIn i p t)"
  by (simp add: rem_existing_def rem_answer_def Let_def split: option.splits)

lemma ReceiveRem_no_mark: "no_new_mark s t \<Longrightarrow> no_new_mark s (ReceiveRem now rnd layerIn t)"
  by (simp add: ReceiveRem_def rem_new_no_mark rem_existing_no_mark split: option.splits)

lemma expire_records_no_mark: "no_new_mark s (expire_records now st s)"
  by (simp add: no_new_mark_def expire_records_def)

lemma layer_receive_no_mark:
  assumes "tsa_inv s"
    and "\<And>mt s' t. tsa_inv s' \<Longrightarrow> QueueHead (tsaInQ s') = Some t \<Longrightarrow> no_new_mark s' (dispatch mt s')"
  shows "no_new_mark s (layer_receive ty sol dispatch s)"
proof (cases "QueueHead (tsaInQ s)")
  case None
  then show ?thesis by (simp add: layer_receive_def)
next
  case (Some t)
  let ?s = "\<lambda>ty. LCS_LogRxStat s (tsrAltPath t) ty"
  have "no_new_mark s (dispatch mt (?s ty))" for mt ty
    using no_new_mark_trans [OF _ assms(2) [of "?s ty" t mt]] assms(1) Some by simp
  then show ?thesis using Some by (simp add: layer_receive_def Let_def)
qed

lemma SNReceiveResponse_recvRec:
  assumes "tsa_inv s" "QueueHead (tsaInQ s) = Some t"
  shows "recvRec (SNReceiveResponse now s) = recvRec s"
proof -
  let ?pri = "tsrPriority t"
  let ?s1 = "if response_overflows t s then s\<lparr>memFault := True\<rparr> else s"
  let ?s2 = "set_tsaQ ?pri (QueuePokeHead (\<lambda>p. p\<lparr>tssProxyDone := True\<rparr>) (tsaQ ?pri ?s1)) ?s1"
  have inv: "tsa_inv ?s2" by (rule tsa_inv_poke_tsaQ) (use assms(1) in auto)
  have used: "txStatus (xmitRecOf ?pri ?s2) \<noteq> UNUSED_TX"
    if "\<not> answer_mismatch SESSION_TX t (xmitRecOf ?pri s)"
    using that by (auto simp: answer_mismatch_def Let_def)
  show ?thesis
    using response_count_recvRec [OF inv used] assms
    by (auto simp: SNReceiveResponse_def Let_def null_pointer_frame split: option.splits)
qed

lemma receive_no_mark:
  assumes "tsa_inv s"
  shows "no_new_mark s (TransportLayerReceive now rnd s)" "no_new_mark s (SessionLayerReceive now rnd s)"
proof -
  have t: "no_new_mark s' (transport_dispatch now rnd mt s')" "no_new_mark s' (session_dispatch now rnd mt s')"
    if "tsa_inv s'" "QueueHead (tsaInQ s') = Some t" for mt s' t
    using TPReceiveAck_keeps(3) [OF that] SNReceiveResponse_recvRec [OF that]
    by (simp_all add: transport_dispatch_def session_dispatch_def ReceiveNewMsg_no_mark ReceiveRem_no_mark
        no_new_mark_same)
  show "no_new_mark s (TransportLayerReceive now rnd s)" "no_new_mark s (SessionLayerReceive now rnd s)"
    unfolding TransportLayerReceive_def SessionLayerReceive_def
    by (rule no_new_mark_trans [OF expire_records_no_mark layer_receive_no_mark],
        simp add: assms, rule t, assumption+)+
qed

lemma layer_send_recvRec:
  assumes "tsa_inv s" shows "recvRec (layer_send now layerIn s) = recvRec s"
proof -
  have c: "recvRec (SendCompletion p ok u) = recvRec u" for p ok u by (rule SendCompletion_frame)
  have "recvRec (TerminateTrans pri s) = recvRec s" if "txStatus (xmitRecOf pri s) \<noteq> UNUSED_TX" for pri
    using TerminateTrans_keeps(4) [OF assms that] .
  then have x: "recvRec (XmitTimerExpiration now layerIn pri s) = recvRec s"
    if "tx_timer_expired now (layer_tx layerIn) pri s" for pri
    using that by (simp add: XmitTimerExpiration_def xmit_resend_def xmit_pair_def xmit_reminder_def
        xmit_lose_retry_def tx_timer_expired_def Let_def split: option.splits retry.splits)
  have b: "recvRec (new_msg_begin now layerIn pri p d r s) = recvRec s" for pri p d r
    using NewTrans_frame(8) new_msg_inherit_frame(8)
    by (auto simp: new_msg_begin_def new_msg_emit_def Let_def split: prod.splits option.splits)
  have "recvRec (SendNewMsg now layerIn pri s) = recvRec s" for pri
    by (simp add: SendNewMsg_def c b split: option.splits sum.splits)
  with x show ?thesis by (simp add: layer_send_def)
qed

lemma send_no_mark:
  assumes "tsa_inv s"
  shows "no_new_mark s (TransportLayerSend now s)" "no_new_mark s (SessionLayerSend now s)"
    "no_new_mark s (AuthSend rnd s)"
proof -
  have r: "no_new_mark s (send_response s)"
    by (simp add: send_response_def Let_def no_new_mark_update split: option.splits)
  show "no_new_mark s (TransportLayerSend now s)" "no_new_mark s (SessionLayerSend now s)"
    using r layer_send_recvRec [OF assms]
    by (simp_all add: TransportLayerSend_def SessionLayerSend_def no_new_mark_same)
  show "no_new_mark s (AuthSend rnd s)" by (rule AuthSend_induct) simp_all
qed

text \<open>
  C2. Nothing but a right answer marks a receive record as authenticated. Of the six entry
  points of the transport, session and authentication layers, the five that are not for
  received authentication PDUs set no mark, the allocation of a record for a new message
  included; and when \<open>AuthReceive\<close> sets the mark of a record, then the record was waiting for
  the answer to its challenge, and the PDU comes from the sender of its message, has its
  number, and carries the code for its challenge, its message and its key. (Unacknowledged
  messages have no receive record; the network layer hands them up with a mark of its own.)
\<close>

theorem authentication_is_sound:
  assumes "tsa_inv s" "j < length (recvRec s)" "\<not> rrAuth (rr j s)"
  shows "\<not> rrAuth (rr j (TransportLayerSend now s)) \<and> \<not> rrAuth (rr j (SessionLayerSend now s)) \<and>
    \<not> rrAuth (rr j (AuthSend rnd s)) \<and>
    \<not> rrAuth (rr j (TransportLayerReceive now rnd s)) \<and> \<not> rrAuth (rr j (SessionLayerReceive now rnd s)) \<and>
    (rrAuth (rr j (AuthReceive now s)) \<longrightarrow>
      (\<exists>t useOma. QueueHead (tsaInQ s) = Some t \<and> tsrPduType t = AUTHPDU_TYPE \<and>
        AuthPDU_pduMsgType (byte_at (tsrPdu t) 0) = (if useOma then REPLY_OMA_MSG else REPLY_MSG) \<and>
        rr_matches (reply_source t) (tsrPriority t) (rr j s) \<and> rrTransState (rr j s) = AUTHENTICATING \<and>
        pdu_transNum (tsrVersion t) (tsrPdu t) = rrTransNum (rr j s) \<and>
        auth_data t = expected_code useOma t (rr j s) s))"
proof (intro conjI impI)
  show "\<exists>t useOma. QueueHead (tsaInQ s) = Some t \<and> tsrPduType t = AUTHPDU_TYPE \<and>
        AuthPDU_pduMsgType (byte_at (tsrPdu t) 0) = (if useOma then REPLY_OMA_MSG else REPLY_MSG) \<and>
        rr_matches (reply_source t) (tsrPriority t) (rr j s) \<and> rrTransState (rr j s) = AUTHENTICATING \<and>
        pdu_transNum (tsrVersion t) (tsrPdu t) = rrTransNum (rr j s) \<and>
        auth_data t = expected_code useOma t (rr j s) s" if "rrAuth (rr j (AuthReceive now s))"
    using assms(1) that assms(3) by (rule reply_marks)
qed (use assms(2,3) send_no_mark [OF assms(1)] receive_no_mark [OF assms(1)] in \<open>auto simp: no_new_mark_def\<close>)

theorem authentication_is_sound_witness:
  "\<exists>code t. rrTransState (rr 0 waitingStack) = AUTHENTICATING \<and>
     rrAuth (rr 0 (AuthReceive 7 (withPdu (sampleReply code) waitingStack))) \<and>
     QueueHead (tsaInQ (withPdu (sampleReply code) waitingStack)) = Some t \<and> auth_data t = code"
proof -
  let ?code = "expected_code False (sampleReply []) (rr 0 waitingStack) waitingStack"
  let ?t = "sampleReply ?code" and ?log = "\<lambda>s. LCS_LogRxStat s (tsrAltPath (sampleReply [])) RX_UNSOLICITED"
  let ?s = "withPdu ?t waitingStack"
  have alt: "tsrAltPath ?t = tsrAltPath (sampleReply [])" by (simp add: sampleReply_def)
  have len: "length ?code = 8" by (simp add: expected_code_def)
  have e: "expected_code False ?t (rr 0 waitingStack) (?log ?s) = ?code"
    unfolding expected_code_def
    by (rule Encrypt_cong) (simp_all add: reply_key_def eeprom_domain_def withPdu_def Let_def)
  have "rrAuth (rr 0 (ProcessReply False (?log ?s)))"
    using reply_decided [of "?log ?s" ?t 0 False] e len by (simp add: Let_def)
  moreover have "AuthReceive 7 ?s = ProcessReply False (?log ?s)"
    by (simp add: AuthReceive_def alt) (simp add: CHALLENGE_MSG_def CHALLENGE_OMA_MSG_def REPLY_MSG_def REPLY_OMA_MSG_def)
  ultimately have a: "rrAuth (rr 0 (AuthReceive 7 ?s))" by simp
  then show ?thesis using authentication_is_sound [of ?s 0 7 "\<lambda>_ _. 0"] len by auto
qed

lemma challenge_reply:
  assumes "tsa_inv s" "QueueHead (tsaInQ s) = Some t" "domainIndex (srcDmn (tsrSrcAddr t)) \<noteq> FLEX_DOMAIN"
    and "pri = tsrPriority t" "s' = SendReplyToChallenge now useOma s"
    and "x = xmitRecOf pri (load_domain_key pri useOma (domainIndex (srcDmn (tsrSrcAddr t))) s)"
  shows "if challenge_refused t (xmitRecOf pri s) then s' = IncrementStat LcsLateAck (drop_tsaIn s)
    else (\<exists>n. queue_list (nwQ pri s') =
              (if has_room (nwQ pri s) then queue_list (nwQ pri s) @ [n] else queue_list (nwQ pri s)) \<and>
            nwsPdu n = reply_pdu useOma t x (reply_code useOma t x s) \<and>
            nwsPduSize n = length (nwsPdu n) \<and> nwsVersion n = sent_version (tsrVersion t) \<and>
            domainIndex (dstDmn (nwsDestAddr n)) = domainIndex (srcDmn (tsrSrcAddr t)) \<and>
            (IZOT_RECEIVESN_NODE (snNode (srcSubnetAddr (tsrSrcAddr t))) \<noteq> 0 \<longrightarrow>
               dstAddr (nwsDestAddr n) = DA_SubnetNode (srcSubnetAddr (tsrSrcAddr t)))) \<and>
         queue_list (tsaInQ s') = tl (queue_list (tsaInQ s)) \<and>
         txStatus (xmitRecOf pri s') = txStatus (xmitRecOf pri s) \<and>
         txRetriesLeft (xmitRecOf pri s') = txRetriesLeft (xmitRecOf pri s) \<and>
         txXmitTimer (xmitRecOf pri s') =
           SetLonTimer now (txXmitTimer (xmitRecOf pri s)) (ucast (txXmitTimerValue (xmitRecOf pri s)))"
proof -
  let ?l = "load_domain_key pri useOma (domainIndex (srcDmn (tsrSrcAddr t))) s"
  have q: "queue_wf (nwQ pri s)" "queue_wf (tsaInQ s)" using assms(1) by (simp_all add: tsa_inv_queues)
  have "eeprom_domain ?l d = eeprom_domain s d" for d by (rule eeprom_domain_cong) simp_all
  then have code: "reply_code useOma t x ?l = reply_code useOma t x s"
    by (simp add: reply_code_def ChallengeOmaDestAddr_def)
  have len: "length (reply_pdu useOma t x (reply_code useOma t x s)) =
      (if auth_fmt t = 1 then 10 else 9) + dataIndexOf (tsrVersion t)"
    by (simp add: reply_pdu_def reply_code_def authpdu_def dataIndexOf_def)
  let ?f = "fill_reply useOma t x (reply_code useOma t x s)"
  let ?n = "?f (QueueDeref (nwQ pri s) (qtail (nwQ pri s)))"
  show ?thesis
  proof (cases "challenge_refused t (xmitRecOf pri s)")
    case True
    then show ?thesis
      using assms(2,3) by (simp add: assms(4,5) SendReplyToChallenge_def Let_def discard_late_def)
  next
    case False
    have s': "s' = update_xmitRec pri (\<lambda>x. x\<lparr>txXmitTimer :=
        SetLonTimer now (txXmitTimer x) (ucast (txXmitTimerValue x))\<rparr>)
        (drop_tsaIn (nw_emit pri ?f (oma_overflow useOma (txApduSize x) ?l)))"
      using assms(2,3) False q code unfolding assms(5)
      by (simp add: SendReplyToChallenge_def Let_def assms(4) [symmetric] assms(6) [symmetric])
    have "queue_list (nwQ pri s') =
        (if has_room (nwQ pri s) then queue_list (nwQ pri s) @ [?n] else queue_list (nwQ pri s))"
      using q by (simp add: s' queue_list_Emit has_room_def)
    moreover have "nwsPdu ?n = reply_pdu useOma t x (reply_code useOma t x s) \<and>
        nwsPduSize ?n = length (nwsPdu ?n) \<and> nwsVersion ?n = sent_version (tsrVersion t) \<and>
        domainIndex (dstDmn (nwsDestAddr ?n)) = domainIndex (srcDmn (tsrSrcAddr t)) \<and>
        (IZOT_RECEIVESN_NODE (snNode (srcSubnetAddr (tsrSrcAddr t))) \<noteq> 0 \<longrightarrow>
           dstAddr (nwsDestAddr ?n) = DA_SubnetNode (srcSubnetAddr (tsrSrcAddr t)))"
      using len by (simp add: fill_reply_def reply_dest_def Let_def)
    ultimately show ?thesis
      using False q by (simp add: s' load_domain_key_record) blast
  qed
qed

text \<open>
  A challenge for the transaction in progress, of a message that asked for authentication,
  is answered once, to the challenger and under the same number, with the code computed from
  the challenge, the message in transit and the key; the transmit timer restarts and the
  transaction goes on. Any other challenge is dropped and counted, and changes nothing else.
\<close>

theorem challenge_is_answered:
  assumes "tsa_inv s" "QueueHead (tsaInQ s) = Some t" "domainIndex (srcDmn (tsrSrcAddr t)) \<noteq> FLEX_DOMAIN"
    and "pri = tsrPriority t" "s' = SendReplyToChallenge now useOma s"
    and "x = xmitRecOf pri (load_domain_key pri useOma (domainIndex (srcDmn (tsrSrcAddr t))) s)"
  shows "if challenge_refused t (xmitRecOf pri s) then s' = IncrementStat LcsLateAck (drop_tsaIn s)
    else (\<exists>n. queue_list (nwQ pri s') =
              (if has_room (nwQ pri s) then queue_list (nwQ pri s) @ [n] else queue_list (nwQ pri s)) \<and>
            nwsPdu n = reply_pdu useOma t x (reply_code useOma t x s) \<and>
            nwsPduSize n = length (nwsPdu n) \<and> nwsVersion n = sent_version (tsrVersion t) \<and>
            domainIndex (dstDmn (nwsDestAddr n)) = domainIndex (srcDmn (tsrSrcAddr t)) \<and>
            (IZOT_RECEIVESN_NODE (snNode (srcSubnetAddr (tsrSrcAddr t))) \<noteq> 0 \<longrightarrow>
               dstAddr (nwsDestAddr n) = DA_SubnetNode (srcSubnetAddr (tsrSrcAddr t)))) \<and>
         queue_list (tsaInQ s') = tl (queue_list (tsaInQ s)) \<and>
         txStatus (xmitRecOf pri s') = txStatus (xmitRecOf pri s) \<and>
         txRetriesLeft (xmitRecOf pri s') = txRetriesLeft (xmitRecOf pri s) \<and>
         txXmitTimer (xmitRecOf pri s') =
           SetLonTimer now (txXmitTimer (xmitRecOf pri s)) (ucast (txXmitTimerValue (xmitRecOf pri s)))"
  by (rule challenge_reply [OF assms])

definition authStack :: stack where
  "authStack = update_xmitRec False (\<lambda>x. x\<lparr>txAuth := True, txApdu := [0x21, 0x22], txApduSize := 2\<rparr>)
     unicastStack"

definition sampleChallenge :: TSAReceiveParam where
  "sampleChallenge = sampleTsr\<lparr>tsrPduType := AUTHPDU_TYPE, tsrPduSize := 9,
     tsrPdu := challenge_pdu (rr 0 waitingStack) waitingStack\<rparr>"

lemma authStack_fields [simp]:
  "tsa_inv authStack" "nwQ False authStack = emptyQueue 4 sampleNws"
  "txStatus (xmitRecOf False authStack) = TRANSPORT_TX" "txAuth (xmitRecOf False authStack)"
  "txTransNum (xmitRecOf False authStack) = 5" "txNwDestAddr (xmitRecOf False authStack) = sampleDst"
  "txApdu (xmitRecOf False authStack) = [0x21, 0x22]" "txApduSize (xmitRecOf False authStack) = 2"
  "altKey (txAltKey (xmitRecOf False authStack)) = False"
  "domainTable authStack = [sampleDomain, sampleDomain1]" "addrTable authStack = sampleAddrTable"
  "txVersion (xmitRecOf False authStack) = LsProtocolModeLegacy"
proof -
  show "tsa_inv authStack" unfolding authStack_def by (rule tsa_inv_update_xmitRec) simp_all
  show "nwQ False authStack = emptyQueue 4 sampleNws"
    by (simp add: authStack_def unicastStack_def) (simp add: activeStack_def loadedStack_def nwQ_def)
qed (simp_all add: authStack_def unicastStack_def activeStack_fields,
    simp_all add: sampleTx_def sampleAltKey_def sampleDst_def,
    simp_all add: activeStack_def loadedStack_def)

lemma sampleChallenge_fields [simp]:
  "tsrPriority sampleChallenge = False" "tsrVersion sampleChallenge = LsProtocolModeLegacy"
  "tsrSrcAddr sampleChallenge = sampleSrc" "auth_fmt sampleChallenge = 2"
  "pdu_transNum LsProtocolModeLegacy (tsrPdu sampleChallenge) = 5"
  "auth_data sampleChallenge = [1, 2, 3, 4, 5, 6, 7, 8]"
proof -
  have rt: "transNum_fits LsProtocolModeLegacy 5" by (simp add: transNum_fits_def)
  have oma: "\<not> AuthOma waitingStack" by (simp add: AuthOma_def sampleDomain_def get_attribute_def)
  then have c: "challenge_pdu (rr 0 waitingStack) waitingStack =
      authpdu LsProtocolModeLegacy 2 CHALLENGE_MSG 5 [1, 2, 3, 4, 5, 6, 7, 8]"
    by (simp add: challenge_pdu_def sampleSrc_def) (simp add: bytes_from_eq_take)
  note r = authpdu_roundtrip [OF rt, where data = "[1, 2, 3, 4, 5, 6, 7, 8]" and fmt = 2 and mt = CHALLENGE_MSG]
  show "auth_fmt sampleChallenge = 2"
    using r(1) by (simp add: auth_fmt_def sampleChallenge_def c)
  show "pdu_transNum LsProtocolModeLegacy (tsrPdu sampleChallenge) = 5"
    using r(3) by (simp add: sampleChallenge_def c sent_version_def)
  show "auth_data sampleChallenge = [1, 2, 3, 4, 5, 6, 7, 8]"
    using r(4) by (simp add: auth_data_def sampleChallenge_def c sent_version_def sampleTsr_def eval_nat_numeral)
qed (simp_all add: sampleChallenge_def, simp_all add: sampleTsr_def)

lemma sampleChallenge_accepted: "\<not> challenge_refused sampleChallenge (xmitRecOf False authStack)"
  by (simp add: challenge_refused_def addrFmtToMode_def sampleDst_def)

theorem challenge_is_answered_witness:
  "\<exists>n. queue_list (nwQ False (SendReplyToChallenge 7 False (withPdu sampleChallenge authStack))) = [n]"
proof -
  have "has_room (nwQ False (withPdu sampleChallenge authStack))"
    by (simp add: has_room_def emptyQueue_def)
  then show ?thesis
    using challenge_is_answered [OF withPdu_inv [OF authStack_fields(1)] withPdu_queue(2), of sampleChallenge
        False _ 7 False, OF _ _ refl refl] sampleChallenge_accepted
    by (auto simp: sampleSrc_def sampleDmn_def FLEX_DOMAIN_def)
qed

text \<open>
  Loading the key of domain 0 for an answer changes the protocol mode of the transaction:
  \<open>sizeof\<close> of the whole array is copied into each of its two rows, and the byte behind the
  array is the mode. It becomes the two low bits of the first byte of the address table, so
  the retries of a message that was sent in the legacy mode are sent in the enhanced mode
  when that entry is an address of type 1 to 3, or a group whose size is no multiple of 4.
\<close>

theorem challenge_switches_the_mode:
  assumes "\<not> altKey (txAltKey (xmitRecOf pri s))" "length (domainTable s) = 2" "addrTable s \<noteq> []"
    and "s' = load_domain_key pri useOma 0 s"
  shows "memFault s' \<and>
    (txVersion (xmitRecOf pri s') = LsProtocolModeLegacy \<longleftrightarrow> adTypeSize (addrTable s ! 0) AND 3 = 0)"
proof -
  obtain a as where as: "addrTable s = a # as" using assms(3) by (cases "addrTable s") auto
  have "domId (eeprom_domain s 2) = bytes_from (concat (map address_bytes (addrTable s))) 0 6"
    using assms(2) by (simp add: eeprom_domain_def Let_def)
  then have "byte_at (domId (eeprom_domain s 2)) 0 = adTypeSize (addrTable s ! 0)"
    by (simp add: as address_bytes_def)
  then show ?thesis
    using assms(1) by (simp add: assms(4) load_domain_key_def Let_def version_of_bits_def)
qed

theorem challenge_switches_the_mode_witness:
  "txVersion (xmitRecOf False authStack) = LsProtocolModeLegacy \<and>
   txVersion (xmitRecOf False (load_domain_key False False 0 authStack)) \<noteq> LsProtocolModeLegacy"
  using challenge_switches_the_mode [of False authStack _ False, OF _ _ _ refl]
  by (simp add: sampleAddrTable_def)

section \<open>An honest exchange\<close>

lemma transNum_fits_sent [simp]: "transNum_fits (sent_version v) n = transNum_fits v n"
  by (simp add: transNum_fits_def sent_version_def)

lemma sent_version_idem [simp]: "sent_version (sent_version v) = sent_version v"
  by (simp add: sent_version_def)

text \<open>What is read out of an authentication PDU that was carried over the network.\<close>

lemma carried_authpdu:
  assumes "carried n t" "transNum_fits v tn" "nwsVersion n = sent_version v"
    and "nwsPdu n = authpdu v fmt mt tn (code @ grp)" "length code = 8" "fmt AND 3 = fmt"
  shows "auth_fmt t = fmt" and "auth_data t = code" and "pdu_transNum (tsrVersion t) (tsrPdu t) = tn"
    and "grp = [g] \<Longrightarrow> auth_group t = g" and "tsrVersion t = sent_version v"
proof -
  have v: "tsrVersion t = sent_version v" using assms(1,3) by (simp add: carried_def)
  then show "tsrVersion t = sent_version v" .
  have len: "length (nwsPdu n) = 9 + dataIndexOf v + length grp"
    using assms(5) by (simp add: assms(4) authpdu_def dataIndexOf_def)
  have b: "byte_at (tsrPdu t) i = nwsPdu n ! i" if "i < 9 + dataIndexOf v" for i
    using carried_byte [OF assms(1)] that len by simp
  note r = authpdu_roundtrip [OF assms(2), of fmt mt "code @ grp", folded assms(4)]
  have first: "byte_at (tsrPdu t) 0 = byte_at (nwsPdu n) 0"
    using b [of 0] len by (simp add: byte_at_def)
  then show "auth_fmt t = fmt" using r(1) assms(6) by (simp add: auth_fmt_def)
  show "auth_data t = code"
    using carried_bytes [OF assms(1), of "1 + dataIndexOf v" 8] len assms(5)
    by (simp add: auth_data_def v) (simp add: assms(4) authpdu_def dataIndexOf_def)
  show "pdu_transNum (tsrVersion t) (tsrPdu t) = tn"
    using r(3) b [of 1] first len unfolding pdu_transNum_def v
    by (auto simp: dataIndexOf_def byte_at_def sent_version_def split: if_splits)
  show "auth_group t = g" if "grp = [g]"
    using carried_byte [OF assms(1), of "9 + dataIndexOf v"] len assms(5) that
    by (simp add: auth_group_def v) (simp add: assms(4) authpdu_def dataIndexOf_def nth_append)
qed

lemma addrModeToFmt_small [simp]: "addrModeToFmt m AND 3 = addrModeToFmt m"
  by (cases m) simp_all

lemma carried_challenge:
  assumes "carried c t" "transNum_fits (rrVersion r) (rrTransNum r)" "nwsPdu c = challenge_pdu r b"
    and "nwsVersion c = sent_version (rrVersion r)"
  shows "auth_fmt t = addrModeToFmt (srcMode (rrSrcAddr r))" "auth_data t = bytes_from (rrRand r) 0 8"
    "pdu_transNum (tsrVersion t) (tsrPdu t) = rrTransNum r" "tsrVersion t = sent_version (rrVersion r)"
    "srcMode (rrSrcAddr r) = AM_MULTICAST \<Longrightarrow> auth_group t = srcGroup (rrSrcAddr r)"
  using carried_authpdu [OF assms(1,2,4) assms(3) [unfolded challenge_pdu_def]] by simp_all

lemma bytes_from_twice [simp]: "bytes_from (bytes_from bs off n) 0 n = bytes_from bs off n"
  by (metis bytes_from_all length_bytes_from)

text \<open>Both ends have the same key for the exchange, and name its destination alike.\<close>

definition same_key :: "bool \<Rightarrow> stack \<Rightarrow> u8 \<Rightarrow> TransmitRecord \<Rightarrow> stack \<Rightarrow> ReceiveRecord \<Rightarrow> bool" where
  "same_key useOma a d x b r \<longleftrightarrow>
     \<not> altKey (txAltKey x) \<and>
     (if useOma then
        reply_key True d a = reply_key True d b \<and>
        ChallengeOmaDestAddr a (txNwDestAddr x) =
          ReplyOmaDestAddr b (rrSrcAddr r) (addrModeToFmt (srcMode (rrSrcAddr r))) (srcGroup (rrSrcAddr r))
      else reply_key False d a = reply_key False (domainIndex (srcDmn (rrSrcAddr r))) b)"

lemma loaded_key:
  assumes "\<not> altKey (txAltKey (xmitRecOf pri a))" "d = 0 \<or> d = 1"
  shows "key_bytes useOma (concat (altKeyValue (txAltKey (xmitRecOf pri (load_domain_key pri useOma d a))))) =
    key_bytes useOma (reply_key useOma d a)"
  using assms by (auto simp: load_domain_key_def Let_def reply_key_def FLEX_DOMAIN_def
      key_bytes_classic key_bytes_classic [where k' = "[]", simplified])

text \<open>
  C27. Completeness of authentication, through both nodes: node \<open>b\<close> sent the challenge \<open>c\<close> for a
  message, node \<open>a\<close> has that message in transit and receives the challenge. Then the answer
  that \<open>a\<close> puts out, when it reaches \<open>b\<close>, makes \<open>b\<close> deliver the message as authenticated, for
  classic and for open media keys, in both protocol modes.
\<close>

theorem honest_reply_authenticates:
  assumes "tsa_inv a" "QueueHead (tsaInQ a) = Some tA" "pri = tsrPriority tA"
    and "domainIndex (srcDmn (tsrSrcAddr tA)) = 0 \<or> domainIndex (srcDmn (tsrSrcAddr tA)) = 1"
    and "nwsPdu c = challenge_pdu r b" "nwsVersion c = sent_version (rrVersion r)" "carried c tA"
    and "\<not> challenge_refused tA (xmitRecOf pri a)"
    and "queue_list (nwQ pri (SendReplyToChallenge now (AuthOma b) a)) = queue_list (nwQ pri a) @ [n]"
    and "tsa_inv b" "QueueHead (tsaInQ b) = Some tB" "carried n tB"
    and "RetrieveRR (reply_source tB) (tsrPriority tB) b = Some i" "r = rr i b"
    and "rrTransState r = AUTHENTICATING" "rrApduSize r \<le> appInBufSize b"
    and "transNum_fits (rrVersion r) (rrTransNum r)"
    and "bytes_from (txApdu (xmitRecOf pri a)) 0 (txApduSize (xmitRecOf pri a)) =
         bytes_from (rrApdu r) 0 (rrApduSize r)"
    and "same_key (AuthOma b) a (domainIndex (srcDmn (tsrSrcAddr tA))) (xmitRecOf pri a) b r"
  shows "rrAuth (rr i (ProcessReply (AuthOma b) b)) \<and>
         rrTransState (rr i (ProcessReply (AuthOma b) b)) = DELIVERED"
proof -
  let ?oma = "AuthOma b" and ?d = "domainIndex (srcDmn (tsrSrcAddr tA))"
  let ?x = "xmitRecOf pri (load_domain_key pri ?oma ?d a)"
  let ?code = "reply_code ?oma tA ?x a" and ?fmt = "addrModeToFmt (srcMode (rrSrcAddr r))"
  note chal = carried_challenge [OF assms(7,17,5,6)]
  have flex: "?d \<noteq> FLEX_DOMAIN" using assms(4) by (auto simp: FLEX_DOMAIN_def)
  obtain n' where n': "queue_list (nwQ pri (SendReplyToChallenge now ?oma a)) =
      (if has_room (nwQ pri a) then queue_list (nwQ pri a) @ [n'] else queue_list (nwQ pri a))"
    "nwsPdu n' = reply_pdu ?oma tA ?x ?code" "nwsVersion n' = sent_version (tsrVersion tA)"
    using challenge_reply [OF assms(1,2) flex assms(3) refl refl] assms(8) by auto
  then have n: "n = n'" using assms(9) by (simp split: if_splits)
  have tn: "txTransNum ?x = rrTransNum r"
    using assms(8) chal(3) by (simp add: challenge_refused_def load_domain_key_record)
  have pdu: "nwsPdu n = authpdu (rrVersion r) ?fmt (if ?oma then REPLY_OMA_MSG else REPLY_MSG) (rrTransNum r)
      (?code @ (if ?fmt = 1 then [auth_group tA] else []))"
    using n'(2) n chal(1,4) tn by (simp add: reply_pdu_def authpdu_def sent_version_def)
  have "nwsVersion n = sent_version (rrVersion r)" using n n'(3) chal(4) by simp
  note rcv = carried_authpdu [OF assms(12,17) this pdu _ addrModeToFmt_small]
  have grp: "auth_group tB = srcGroup (rrSrcAddr r)" if "?fmt = 1"
    using that rcv(4) chal(5) by (cases "srcMode (rrSrcAddr r)") (simp_all add: reply_code_def)
  have apdu: "bytes_from (txApdu ?x) 0 (txApduSize ?x) = bytes_from (rrApdu r) 0 (rrApduSize r)"
    using assms(18) by (simp add: load_domain_key_record)
  have "expected_code ?oma tB r b = ?code"
    unfolding expected_code_def reply_code_def apdu
  proof (rule Encrypt_cong)
    show "bytes_from (rrRand r) 0 8 = bytes_from (auth_data tA) 0 8" using chal(2) by simp
    show "key_bytes ?oma (reply_key ?oma (domainIndex (srcDmn (rrSrcAddr r))) b) =
        key_bytes ?oma (concat (altKeyValue (txAltKey ?x)))"
      using loaded_key [of pri a ?d ?oma] assms(4,19)
      by (cases ?oma) (simp_all add: same_key_def, simp add: reply_key_def)
    show "ReplyOmaDestAddr b (rrSrcAddr r) (auth_fmt tB) (auth_group tB) = ChallengeOmaDestAddr a (txNwDestAddr ?x)"
      if ?oma
      using assms(19) that grp rcv(1)
      by (auto simp: same_key_def reply_code_def ReplyOmaDestAddr_def AF_MULTICAST_def AF_SUBNETNODE_def
          AF_UNIQUE_ID_def Let_def load_domain_key_record)
  qed
  then have "expected_code ?oma tB (rr i b) b = auth_data tB"
    using rcv(2) assms(14) by (simp add: reply_code_def)
  moreover have "pdu_transNum (tsrVersion tB) (tsrPdu tB) = rrTransNum (rr i b)"
    using rcv(3) assms(14) by (simp add: reply_code_def)
  ultimately show ?thesis
    using reply_decided [OF assms(10,11,13), of ?oma] assms(14-16) by (simp add: Let_def)
qed

theorem honest_reply_authenticates_witness:
  "\<exists>code. rrAuth (rr 0 (ProcessReply False (withPdu (sampleReply code) waitingStack)))"
proof -
  let ?a = "withPdu sampleChallenge authStack" and ?tA = sampleChallenge and ?r = "rr 0 waitingStack"
  let ?x = "xmitRecOf False (load_domain_key False False 0 ?a)"
  let ?code = "reply_code False ?tA ?x ?a"
  let ?tB = "sampleReply ?code"
  let ?b = "withPdu ?tB waitingStack"
  have d: "domainIndex (srcDmn sampleSrc) = 0" by (simp add: sampleSrc_def sampleDmn_def)
  have oma: "AuthOma ?b = False" "AuthOma waitingStack = False"
    by (simp_all add: AuthOma_def withPdu_def sampleDomain_def get_attribute_def)
  have c: "challenge_pdu ?r ?b = challenge_pdu ?r waitingStack" by (simp add: challenge_pdu_def oma)
  let ?c = "sampleNws\<lparr>nwsPdu := challenge_pdu ?r ?b, nwsVersion := LsProtocolModeLegacy, nwsPduSize := 9\<rparr>"
  have cA: "carried ?c ?tA"
    unfolding carried_def c by (simp add: sampleChallenge_def challenge_pdu_def authpdu_def bytes_from_eq_take sampleSrc_def sampleTsr_def)
  have "has_room (nwQ False ?a)" by (simp add: has_room_def emptyQueue_def)
  then obtain n where n: "queue_list (nwQ False (SendReplyToChallenge 7 False ?a)) = queue_list (nwQ False ?a) @ [n]"
    "nwsPdu n = reply_pdu False ?tA ?x ?code" "nwsVersion n = sent_version (tsrVersion ?tA)"
    "nwsPduSize n = length (nwsPdu n)"
    using challenge_reply [OF withPdu_inv [OF authStack_fields(1)] withPdu_queue(2), of sampleChallenge
        False _ 7 False, OF _ _ refl refl] sampleChallenge_accepted
    by (auto simp: d FLEX_DOMAIN_def)
  have pdu: "nwsPdu n = authpdu LsProtocolModeLegacy 2 REPLY_MSG 5 ?code"
    using n(2) by (simp add: reply_pdu_def load_domain_key_record)
  have len: "length ?code = 8" by (simp add: reply_code_def)
  have "nwsPduSize n = 9" using n(4) len by (simp add: pdu authpdu_def)
  then have cB: "carried n ?tB"
    using n(3) len unfolding carried_def pdu
    by (simp add: sampleReply_def sampleTsr_def sent_version_def) (simp add: authpdu_def bytes_from_eq_take)
  have "same_key False ?a 0 (xmitRecOf False ?a) ?b ?r"
    by (simp add: same_key_def reply_key_def eeprom_domain_def sampleSrc_def sampleDmn_def)
      (simp add: withPdu_def FLEX_DOMAIN_def)
  then have k: "same_key (AuthOma ?b) ?a (domainIndex (srcDmn (tsrSrcAddr ?tA))) (xmitRecOf False ?a) ?b (rr 0 ?b)"
    by (simp add: oma d)
  have "rrAuth (rr 0 (ProcessReply (AuthOma ?b) ?b)) \<and> rrTransState (rr 0 (ProcessReply (AuthOma ?b) ?b)) = DELIVERED"
  proof (rule honest_reply_authenticates [OF _ _ _ _ _ _ cA _ _ _ _ cB _ _ _ _ _ _ k])
    show "queue_list (nwQ False (SendReplyToChallenge 7 (AuthOma ?b) ?a)) = queue_list (nwQ False ?a) @ [n]"
      using n(1) by (simp add: oma)
    show "\<not> challenge_refused ?tA (xmitRecOf False ?a)" using sampleChallenge_accepted by simp
    show "bytes_from (txApdu (xmitRecOf False ?a)) 0 (txApduSize (xmitRecOf False ?a)) =
        bytes_from (rrApdu (rr 0 ?b)) 0 (rrApduSize (rr 0 ?b))" by (simp add: bytes_from_eq_take)
  qed (simp_all add: d sent_version_def transNum_fits_def)
  then show ?thesis unfolding oma by blast
qed

end
