(* ===== verification/Lcs_Network.thy ===== *)
theory Lcs_Network
  imports Lcs_Tsa_Exchange
begin

text \<open>
  \<^verbatim>\<open>lcs/lcs_network.c\<close>: the network layer. \<open>NetworkLayerSend\<close> wraps the PDU at the head of
  an output queue into an NPDU for the link layer; \<open>NetworkLayerReceive\<close> takes an NPDU
  apart, decides whether it is for this node, and hands the PDU to the transport and session
  layers or to the application. The blocks for the security module are not compiled in.
\<close>

section \<open>The header of an NPDU\<close>

text \<open>The first byte: version in bits 7 and 6, PDU type in 5 and 4, address format in 3 and 2, domain length in 1 and 0.\<close>

fun pduType_bits :: "PDUType \<Rightarrow> u8" where
  "pduType_bits TPDU_TYPE = 0"
| "pduType_bits SPDU_TYPE = 1"
| "pduType_bits AUTHPDU_TYPE = 2"
| "pduType_bits APDU_TYPE = 3"

definition pduType_of_bits :: "u8 \<Rightarrow> PDUType" where
  "pduType_of_bits b = [TPDU_TYPE, SPDU_TYPE, AUTHPDU_TYPE, APDU_TYPE] ! unat (b AND 3)"

definition NPDU_header :: "LsProtocolMode \<Rightarrow> PDUType \<Rightarrow> u8 \<Rightarrow> u8 \<Rightarrow> u8" where
  "NPDU_header version pduType addrFmt domainLength =
     push_bit 6 (version_bits version) OR push_bit 4 (pduType_bits pduType) OR
     push_bit 2 (addrFmt AND 3) OR (domainLength AND 3)"

definition NPDU_version :: "u8 \<Rightarrow> LsProtocolMode" where
  "NPDU_version b = version_of_bits (drop_bit 6 b)"

definition NPDU_pduType :: "u8 \<Rightarrow> PDUType" where
  "NPDU_pduType b = pduType_of_bits (drop_bit 4 b)"

definition NPDU_addrFmt :: "u8 \<Rightarrow> u8" where
  "NPDU_addrFmt b = drop_bit 2 b AND 3"

definition NPDU_domainLength :: "u8 \<Rightarrow> u8" where
  "NPDU_domainLength b = b AND 3"

definition DecodeDomainLength :: "u8 \<Rightarrow> u8" where
  "DecodeDomainLength lengthCodeIn =
     (if lengthCodeIn = 0 then 0 else if lengthCodeIn = 1 then 1 else if lengthCodeIn = 2 then 3
      else if lengthCodeIn = 3 then 6 else 0)"

definition EncodeDomainLength :: "u8 \<Rightarrow> LonStatusCode + u8" where
  "EncodeDomainLength lengthIn =
     (if lengthIn = 0 then Inr 0 else if lengthIn = 1 then Inr 1 else if lengthIn = 3 then Inr 2
      else if lengthIn = 6 then Inr 3 else Inl LonStatusInvalidDomain)"

section \<open>Sending\<close>

definition lkQ :: "bool \<Rightarrow> stack \<Rightarrow> LKSendParam Queue" where
  "lkQ pri s = (if pri then lkOutPriQ s else lkOutQ s)"

definition set_lkQ :: "bool \<Rightarrow> LKSendParam Queue \<Rightarrow> stack \<Rightarrow> stack" where
  "set_lkQ pri q s = (if pri then s\<lparr>lkOutPriQ := q\<rparr> else s\<lparr>lkOutQ := q\<rparr>)"

definition lkBufSize :: "bool \<Rightarrow> stack \<Rightarrow> nat" where
  "lkBufSize pri s = (if pri then lkOutPriBufSize s else lkOutBufSize s)"

definition nw_completion :: "bool \<Rightarrow> NWSendParam \<Rightarrow> stack \<Rightarrow> stack" where
  "nw_completion success n s =
     (if nwsPduType n = APDU_TYPE then
        s\<lparr>appCeRspInQ := QueueEmit (\<lambda>a. a\<lparr>aprIndication := COMPLETION, aprSuccess := success,
            aprTag := nwsTag n, aprProxy := nwsProxy n, aprProxyCount := 0, aprProxyDone := False\<rparr>)
            (appCeRspInQ s)\<rparr>
      else s)"

definition nw_drop :: "bool \<Rightarrow> stack \<Rightarrow> stack" where
  "nw_drop pri s = set_nwQ pri (QueueDropHead (nwQ pri s)) s"

definition NWSendTerminate :: "bool \<Rightarrow> NWSendParam \<Rightarrow> stack \<Rightarrow> stack" where
  "NWSendTerminate pri n s = nw_drop pri (nw_completion False n s)"

fun dest_fmt :: "AddrMode \<Rightarrow> u8 option" where
  "dest_fmt AM_BROADCAST = Some 0"
| "dest_fmt AM_MULTICAST = Some 1"
| "dest_fmt AM_SUBNET_NODE = Some 2"
| "dest_fmt AM_MULTICAST_ACK = Some 2"
| "dest_fmt AM_UNIQUE_NODE_ID = Some 3"
| "dest_fmt UNBOUND = None"

definition set_selField :: "u8 \<Rightarrow> u8" where
  "set_selField b = set_attribute 0x80 7 1 b"

fun dest_bytes :: "DestAddr \<Rightarrow> bytes" where
  "dest_bytes DA_Unbound = []"
| "dest_bytes (DA_Broadcast sn) = [sn]"
| "dest_bytes (DA_Multicast g) = [g]"
| "dest_bytes (DA_SubnetNode a) = [snSubnet a, set_selField (snNode a)]"
| "dest_bytes (DA_MulticastAck m) =
     [snSubnet (mcaSubnetAddr m), set_selField (snNode (mcaSubnetAddr m)), mcaGroup m, mcaMember m]"
| "dest_bytes (DA_UniqueId sn uid) = sn # bytes_from uid 0 IZOT_UNIQUE_ID_LENGTH"

definition numDomains :: "stack \<Rightarrow> nat" where
  "numDomains s = (if IZOT_READONLY_TWO_DOMAINS (readOnlyData s) = 1 then 2 else 1)"

definition own_domain :: "stack \<Rightarrow> u8 \<Rightarrow> IzotDomain option" where
  "own_domain s d = (if unat d < numDomains s then Some (domainTable s ! unat d) else None)"

text \<open>Why a message is given up before its domain is written.\<close>

definition send_refused :: "NWSendParam \<Rightarrow> stack \<Rightarrow> bool" where
  "send_refused n s \<longleftrightarrow>
     (let d = domainIndex (dstDmn (nwsDestAddr n))
      in dest_fmt (dstMode (nwsDestAddr n)) = None \<or>
         (nwsDropIfUnconfigured n \<and> d \<noteq> FLEX_DOMAIN \<and> NodeUnConfigured s) \<or>
         (case own_domain s d of None \<Rightarrow> False | Some e \<Rightarrow> IZOT_DOMAIN_INVALID e \<noteq> 0))"

text \<open>The domain, its length, and the source address: the node's own, or 0 in the flex domain.\<close>

definition send_domain :: "NWSendParam \<Rightarrow> stack \<Rightarrow> u8 \<times> bytes" where
  "send_domain n s =
     (let dmn = dstDmn (nwsDestAddr n)
      in case own_domain s (domainIndex dmn) of
           Some e \<Rightarrow> (IZOT_DOMAIN_ID_LENGTH e, domId e)
         | None \<Rightarrow> (domainLen dmn, domainId dmn))"

definition send_source :: "NWSendParam \<Rightarrow> stack \<Rightarrow> bytes" where
  "send_source n s =
     (case own_domain s (domainIndex (dstDmn (nwsDestAddr n))) of
        Some e \<Rightarrow> [domSubnet e,
          push_bit 7 (if dstMode (nwsDestAddr n) \<noteq> AM_MULTICAST_ACK then 1 else 0) OR IZOT_DOMAIN_NODE e]
      | None \<Rightarrow> [0, push_bit 7 1])"

definition npdu_header :: "NWSendParam \<Rightarrow> u8 \<Rightarrow> stack \<Rightarrow> bytes" where
  "npdu_header n code s =
     NPDU_header (nwsVersion n) (nwsPduType n) (the (dest_fmt (dstMode (nwsDestAddr n)))) code #
     send_source n s @ dest_bytes (dstAddr (nwsDestAddr n)) @
     bytes_from (snd (send_domain n s)) 0 (unat (fst (send_domain n s)))"

definition npdu_of :: "NWSendParam \<Rightarrow> u8 \<Rightarrow> stack \<Rightarrow> bytes" where
  "npdu_of n code s = npdu_header n code s @ bytes_from (nwsPdu n) 0 (nwsPduSize n)"

text \<open>
  A domain of seven bytes is copied over the six of the entry before it is refused. The size
  is compared with the network buffer; the copy is made into the link layer's buffer.
\<close>

definition network_send :: "bool \<Rightarrow> NWSendParam \<Rightarrow> stack \<Rightarrow> stack" where
  "network_send pri n s =
     (if send_refused n s then NWSendTerminate pri n s
      else
        (let d = domainIndex (dstDmn (nwsDestAddr n)); len = fst (send_domain n s);
             s1 = fault_if (own_domain s d \<noteq> None \<and> unat len > IZOT_DOMAIN_ID_MAX_LENGTH) s
         in case EncodeDomainLength len of
              Inl _ \<Rightarrow> NWSendTerminate pri n s1
            | Inr code \<Rightarrow>
                (let hdr = npdu_header n code s; npdu = npdu_of n code s;
                     s2 = fault_if (length hdr > lkBufSize pri s) s1
                 in if length hdr + nwsPduSize n > nwOutBufSize s then NWSendTerminate pri n s2
                    else
                      (let s3 = nw_drop pri (fault_if (length npdu > lkBufSize pri s) s2)
                       in nw_completion True n (IncrementStat LcsL3Tx
                            (set_lkQ pri (QueueEmit (\<lambda>k. k\<lparr>lksDeltaBL := nwsDeltaBL n,
                               lksAltPath := nwsAltPath n, lksPduSize := length npdu,
                               lksDomainIndex := d, lksNpdu := npdu\<rparr>) (lkQ pri s3)) s3))))))"

definition send_head :: "bool \<Rightarrow> stack \<Rightarrow> stack" where
  "send_head pri s =
     (case QueueHead (nwQ pri s) of
        None \<Rightarrow> null_pointer s
      | Some n \<Rightarrow> (if nwsPduType n = APDU_TYPE \<and> QueueFull (appCeRspInQ s) then s else network_send pri n s))"

definition NetworkLayerSend :: "stack \<Rightarrow> stack" where
  "NetworkLayerSend s =
     (if \<not> QueueEmpty (nwOutPriQ s) \<and> \<not> QueueFull (lkOutPriQ s) then send_head True s
      else if \<not> QueueEmpty (nwOutQ s) \<and> \<not> QueueFull (lkOutQ s) then send_head False s
      else s)"

section \<open>Receiving\<close>

text \<open>
  \<open>d i\<close> is \<open>data[i]\<close> of the NPDU. \<open>junk\<close> is what the uninitialised local variable \<open>srcAddr\<close>
  holds: the fields that the address mode does not use are handed on as they are.
\<close>

definition npdu_data :: "bytes \<Rightarrow> nat \<Rightarrow> u8" where
  "npdu_data npdu i = byte_at npdu (Suc i)"

definition npdu_mode :: "bytes \<Rightarrow> AddrMode" where
  "npdu_mode npdu =
     (let fmt = NPDU_addrFmt (byte_at npdu 0)
      in if fmt = 0 then AM_BROADCAST else if fmt = 1 then AM_MULTICAST
         else if fmt = 2 then
           (if IZOT_RECEIVESN_SELFIELD (npdu_data npdu 1) = 1 then AM_SUBNET_NODE else AM_MULTICAST_ACK)
         else AM_UNIQUE_NODE_ID)"

text \<open>Where the domain begins.\<close>

definition domain_start :: "AddrMode \<Rightarrow> nat" where
  "domain_start mode =
     (case mode of AM_SUBNET_NODE \<Rightarrow> 4 | AM_MULTICAST_ACK \<Rightarrow> 6
      | AM_UNIQUE_NODE_ID \<Rightarrow> 3 + IZOT_UNIQUE_ID_LENGTH | _ \<Rightarrow> 3)"

definition npdu_dest :: "bytes \<Rightarrow> IzotReceiveSubnetNode" where
  "npdu_dest npdu = \<lparr>snSubnet = npdu_data npdu 2, snNode = npdu_data npdu 3\<rparr>"

definition npdu_domainLen :: "bytes \<Rightarrow> u8" where
  "npdu_domainLen npdu = DecodeDomainLength (NPDU_domainLength (byte_at npdu 0))"

definition npdu_domainId :: "bytes \<Rightarrow> bytes" where
  "npdu_domainId npdu = bytes_from npdu (1 + domain_start (npdu_mode npdu)) (unat (npdu_domainLen npdu))"

text \<open>The index of the PDU in the data (\<open>j\<close> after the domain).\<close>

definition pdu_start :: "bytes \<Rightarrow> nat" where
  "pdu_start npdu = domain_start (npdu_mode npdu) + unat (npdu_domainLen npdu)"

definition in_domain :: "bytes \<Rightarrow> IzotDomain \<Rightarrow> bool" where
  "in_domain npdu e \<longleftrightarrow>
     IZOT_DOMAIN_INVALID e = 0 \<and> npdu_domainLen npdu = IZOT_DOMAIN_ID_LENGTH e \<and>
     npdu_domainId npdu = bytes_from (domId e) 0 (unat (npdu_domainLen npdu))"

definition received_domain :: "bytes \<Rightarrow> stack \<Rightarrow> u8" where
  "received_domain npdu s =
     (if NodeConfigured s \<and> in_domain npdu (domainTable s ! 0) then 0
      else if NodeConfigured s \<and> numDomains s = 2 \<and> in_domain npdu (domainTable s ! 1) then 1
      else FLEX_DOMAIN)"

definition received_source :: "SourceAddress \<Rightarrow> bytes \<Rightarrow> stack \<Rightarrow> SourceAddress" where
  "received_source junk npdu s =
     (let mode = npdu_mode npdu; len = npdu_domainLen npdu;
          src = junk\<lparr>srcSubnetAddr := \<lparr>snSubnet = npdu_data npdu 0, snNode = npdu_data npdu 1\<rparr>,
            srcMode := mode,
            srcDmn := \<lparr>domainIndex = received_domain npdu s, domainLen = len,
              domainId = memcpy_to (domainId (srcDmn junk)) (npdu_domainId npdu)\<rparr>\<rparr>
      in case mode of
           AM_BROADCAST \<Rightarrow> src\<lparr>srcBroadcastSubnet := snSubnet (npdu_dest npdu)\<rparr>
         | AM_MULTICAST \<Rightarrow> src\<lparr>srcGroup := npdu_data npdu 2\<rparr>
         | AM_MULTICAST_ACK \<Rightarrow> src\<lparr>srcAckNode := \<lparr>mcaSubnetAddr = npdu_dest npdu,
             mcaGroup = npdu_data npdu 4, mcaMember = npdu_data npdu 5\<rparr>\<rparr>
         | _ \<Rightarrow> src)"

text \<open>The two bytes \<open>Subnet\<close> and \<open>NodeClone\<close> of a domain table entry, as an address.\<close>

definition own_address :: "IzotDomain \<Rightarrow> IzotReceiveSubnetNode" where
  "own_address e = \<lparr>snSubnet = domSubnet e, snNode = domNodeClone e\<rparr>"

definition from_myself :: "SourceAddress \<Rightarrow> stack \<Rightarrow> bool" where
  "from_myself src s \<longleftrightarrow>
     (let d = domainIndex (srcDmn src)
      in d \<noteq> FLEX_DOMAIN \<and> srcSubnetAddr src = own_address (domainTable s ! unat d) \<and> d \<noteq> 1)"

definition not_for_us :: "SourceAddress \<Rightarrow> bytes \<Rightarrow> stack \<Rightarrow> bool" where
  "not_for_us src npdu s \<longleftrightarrow>
     (let d = domainIndex (srcDmn src); e = domainTable s ! unat d; flexDomain = (d = FLEX_DOMAIN);
          dst = npdu_dest npdu
      in case srcMode src of
           AM_BROADCAST \<Rightarrow> \<not> flexDomain \<and> snSubnet dst \<noteq> 0 \<and> snSubnet dst \<noteq> domSubnet e
         | AM_MULTICAST \<Rightarrow> \<not> flexDomain \<and> IsGroupMember s d (srcGroup src) = None
         | AM_SUBNET_NODE \<Rightarrow> \<not> flexDomain \<and> dst \<noteq> own_address e
         | AM_MULTICAST_ACK \<Rightarrow> \<not> flexDomain \<and> dst \<noteq> own_address e \<or>
             \<not> flexDomain \<and> IsGroupMember s d (mcaGroup (srcAckNode src)) = None
         | AM_UNIQUE_NODE_ID \<Rightarrow>
             bytes_from npdu 4 IZOT_UNIQUE_ID_LENGTH \<noteq>
               bytes_from (roUniqueNodeId (readOnlyData s)) 0 IZOT_UNIQUE_ID_LENGTH
         | UNBOUND \<Rightarrow> True)"

definition wrong_state :: "SourceAddress \<Rightarrow> stack \<Rightarrow> bool" where
  "wrong_state src s \<longleftrightarrow>
     \<not> NodeConfigured s \<and> srcMode src \<noteq> AM_BROADCAST \<and> srcMode src \<noteq> AM_UNIQUE_NODE_ID \<or>
     domainIndex (srcDmn src) = FLEX_DOMAIN \<and> NodeConfigured s \<and> srcMode src \<noteq> AM_UNIQUE_NODE_ID"

definition nw_discard :: "stack \<Rightarrow> stack" where
  "nw_discard s = s\<lparr>nwInQ := QueueDropHead (nwInQ s)\<rparr>"

definition bad_domain_length :: "bytes \<Rightarrow> bool" where
  "bad_domain_length npdu \<longleftrightarrow>
     npdu_domainLen npdu \<noteq> 0 \<and> npdu_domainLen npdu \<noteq> 1 \<and> npdu_domainLen npdu \<noteq> 3"

text \<open>
  Handing the PDU on; \<open>nmAuth\<close> is the global \<open>NmAuth\<close> of the application layer. The copy of a PDU
  that does not fit its entry would be a fault; so would be the copy of a domain ID of more than
  six bytes in \<open>NetworkLayerReceive\<close>.
\<close>

definition nw_deliver ::
    "bool \<Rightarrow> SourceAddress \<Rightarrow> NWReceiveParam \<Rightarrow> nat \<Rightarrow> stack \<Rightarrow> stack" where
  "nw_deliver nmAuth src r pduSize s =
     (let npdu = nwrPdu r; ty = NPDU_pduType (byte_at npdu 0);
          pdu = bytes_from npdu (1 + pdu_start npdu) pduSize
      in if ty = APDU_TYPE then
           (if QueueFull (appInQ s) \<or> pduSize > appInBufSize s then nw_discard (IncrementStat LcsLost s)
            else nw_discard
              ((LCS_LogRxStat (fault_if (appInBufSize s < length pdu) s) (nwrAltPath r) RX_UNSOLICITED)
               \<lparr>appInQ := QueueEmit (\<lambda>a. a\<lparr>aprIndication := MESSAGE, aprSrcAddr := src,
                  aprPriority := nwrPriority r, aprAltPath := nwrAltPath r, aprPduSize := pduSize,
                  aprAuth := nmAuth, aprService := IzotServiceUnacknowledged, aprApdu := pdu\<rparr>)
                  (appInQ s)\<rparr>))
         else
           (if QueueFull (tsaInQ s) \<or> pduSize > tsaInBufSize s then nw_discard (IncrementStat LcsLost s)
            else nw_discard
              ((fault_if (tsaInBufSize s < length pdu) s)\<lparr>tsaInQ := QueueEmit (\<lambda>t. t\<lparr>tsrPduType := ty, tsrSrcAddr := src,
                  tsrPriority := nwrPriority r, tsrAltPath := nwrAltPath r, tsrPduSize := pduSize,
                  tsrVersion := NPDU_version (byte_at npdu 0), tsrPdu := pdu\<rparr>) (tsaInQ s)\<rparr>)))"

definition NetworkLayerReceive :: "SourceAddress \<Rightarrow> bool \<Rightarrow> stack \<Rightarrow> stack" where
  "NetworkLayerReceive junk nmAuth s =
     (if QueueEmpty (nwInQ s) then s
      else (case QueueHead (nwInQ s) of
              None \<Rightarrow> null_pointer s
            | Some r \<Rightarrow>
                (let npdu = nwrPdu r; src = received_source junk npdu s; j = pdu_start npdu;
                     s0 = fault_if (IZOT_DOMAIN_ID_MAX_LENGTH < unat (npdu_domainLen npdu)) s
                 in if bad_domain_length npdu then nw_discard s
                    else if from_myself src s \<or> not_for_us src npdu s \<or> wrong_state src s
                    then nw_discard s0
                    else
                      (let s1 = IncrementStat LcsL3Rx s0
                       in if nwrPduSize r \<le> j + 1 then nw_discard s1
                          else nw_deliver nmAuth src r (nwrPduSize r - j - 1) s1))))"

section \<open>What the layer keeps\<close>

lemmas lk_select_defs = lkQ_def set_lkQ_def lkBufSize_def

definition net_inv :: "stack \<Rightarrow> bool" where
  "net_inv s \<longleftrightarrow> tsa_inv s \<and> rr_inv s \<and> queue_wf (nwInQ s) \<and> (\<forall>pri. queue_wf (lkQ pri s))"

lemma tsa_inv_cong:
  assumes "\<And>p. tsaQ p s' = tsaQ p s" "\<And>p. queue_wf (nwQ p s) \<Longrightarrow> queue_wf (nwQ p s')"
    "\<And>p. xmitRecOf p s' = xmitRecOf p s" "\<And>p. transRec p s' = transRec p s"
    "queue_wf (tsaInQ s) \<Longrightarrow> queue_wf (tsaInQ s')" "tsaRespQ s' = tsaRespQ s"
    "queue_wf (appInQ s) \<Longrightarrow> queue_wf (appInQ s')" "queue_wf (appCeRspInQ s) \<Longrightarrow> queue_wf (appCeRspInQ s')"
    "recvRec s' = recvRec s" "tsa_inv s"
  shows "tsa_inv s'"
  using assms by (simp add: tsa_inv_def tx_inv_def)

lemma fault_if_frame [simp]:
  "nwQ p (fault_if b s) = nwQ p s" "lkQ p (fault_if b s) = lkQ p s" "tsaQ p (fault_if b s) = tsaQ p s"
  "xmitRecOf p (fault_if b s) = xmitRecOf p s" "transRec p (fault_if b s) = transRec p s"
  "tsaInQ (fault_if b s) = tsaInQ s" "tsaRespQ (fault_if b s) = tsaRespQ s"
  "appInQ (fault_if b s) = appInQ s" "appCeRspInQ (fault_if b s) = appCeRspInQ s"
  "recvRec (fault_if b s) = recvRec s" "nwInQ (fault_if b s) = nwInQ s"
  "memFault (fault_if b s) = (memFault s \<or> b)"
  by (auto simp: fault_if_def lk_select_defs)

lemma nw_completion_frame [simp]:
  "nwQ p (nw_completion b n s) = nwQ p s" "lkQ p (nw_completion b n s) = lkQ p s"
  "tsaQ p (nw_completion b n s) = tsaQ p s" "xmitRecOf p (nw_completion b n s) = xmitRecOf p s"
  "transRec p (nw_completion b n s) = transRec p s" "tsaInQ (nw_completion b n s) = tsaInQ s"
  "tsaRespQ (nw_completion b n s) = tsaRespQ s" "appInQ (nw_completion b n s) = appInQ s"
  "recvRec (nw_completion b n s) = recvRec s" "nwInQ (nw_completion b n s) = nwInQ s"
  "memFault (nw_completion b n s) = memFault s"
  "queue_wf (appCeRspInQ s) \<Longrightarrow> queue_wf (appCeRspInQ (nw_completion b n s))"
  by (simp_all add: nw_completion_def lk_select_defs)

lemma set_nwQ_lk [simp]:
  "lkQ p (set_nwQ pri q s) = lkQ p s" "nwInQ (set_nwQ pri q s) = nwInQ s"
  by (simp_all add: lk_select_defs set_nwQ_def)

lemma nw_drop_frame [simp]:
  "nwQ p (nw_drop pri s) = (if p = pri then QueueDropHead (nwQ p s) else nwQ p s)"
  "lkQ p (nw_drop pri s) = lkQ p s" "tsaQ p (nw_drop pri s) = tsaQ p s"
  "xmitRecOf p (nw_drop pri s) = xmitRecOf p s" "transRec p (nw_drop pri s) = transRec p s"
  "tsaInQ (nw_drop pri s) = tsaInQ s" "tsaRespQ (nw_drop pri s) = tsaRespQ s"
  "appInQ (nw_drop pri s) = appInQ s" "appCeRspInQ (nw_drop pri s) = appCeRspInQ s"
  "recvRec (nw_drop pri s) = recvRec s" "nwInQ (nw_drop pri s) = nwInQ s"
  "memFault (nw_drop pri s) = memFault s"
  by (simp_all add: nw_drop_def)

lemma IncrementStat_lk [simp]:
  "lkQ p (IncrementStat st s) = lkQ p s" "lkQ p (LCS_LogRxStat s a ty) = lkQ p s"
  by (simp_all add: lk_select_defs IncrementStat_def LCS_LogRxStat_def Let_def)

lemma lkQ_updates [simp]:
  "lkQ p (s\<lparr>appInQ := qa\<rparr>) = lkQ p s" "lkQ p (s\<lparr>tsaInQ := qt\<rparr>) = lkQ p s"
  by (simp_all add: lkQ_def)

lemma set_lkQ_frame [simp]:
  "lkQ p (set_lkQ pri q s) = (if p = pri then q else lkQ p s)" "nwQ p (set_lkQ pri q s) = nwQ p s"
  "tsaQ p (set_lkQ pri q s) = tsaQ p s" "xmitRecOf p (set_lkQ pri q s) = xmitRecOf p s"
  "transRec p (set_lkQ pri q s) = transRec p s" "tsaInQ (set_lkQ pri q s) = tsaInQ s"
  "tsaRespQ (set_lkQ pri q s) = tsaRespQ s" "appInQ (set_lkQ pri q s) = appInQ s"
  "appCeRspInQ (set_lkQ pri q s) = appCeRspInQ s" "recvRec (set_lkQ pri q s) = recvRec s"
  "nwInQ (set_lkQ pri q s) = nwInQ s" "memFault (set_lkQ pri q s) = memFault s"
  by (auto simp: lk_select_defs tsa_select_defs tcs_select_defs)

text \<open>A message that has been handled leaves the queue in every case.\<close>

lemma network_send_frame [simp]:
  "tsaQ p (network_send pri n s) = tsaQ p s" "xmitRecOf p (network_send pri n s) = xmitRecOf p s"
  "transRec p (network_send pri n s) = transRec p s" "tsaInQ (network_send pri n s) = tsaInQ s"
  "tsaRespQ (network_send pri n s) = tsaRespQ s" "appInQ (network_send pri n s) = appInQ s"
  "recvRec (network_send pri n s) = recvRec s" "nwInQ (network_send pri n s) = nwInQ s"
  "nwQ p (network_send pri n s) = (if p = pri then QueueDropHead (nwQ p s) else nwQ p s)"
  by (simp_all add: network_send_def NWSendTerminate_def Let_def split: sum.splits)

lemma network_send_wf [simp]:
  "queue_wf (appCeRspInQ s) \<Longrightarrow> queue_wf (appCeRspInQ (network_send pri n s))"
  "queue_wf (lkQ p s) \<Longrightarrow> queue_wf (lkQ p (network_send pri n s))"
  by (auto simp: network_send_def NWSendTerminate_def Let_def split: sum.splits)

lemma network_send_inv: "net_inv s \<Longrightarrow> net_inv (network_send pri n s)"
proof -
  assume inv: "net_inv s"
  have "tsa_inv (network_send pri n s)"
    by (rule tsa_inv_cong [of _ s]) (use inv in \<open>auto simp: net_inv_def\<close>)
  then show "net_inv (network_send pri n s)"
    using inv rr_inv_cong [of "network_send pri n s" s] by (simp add: net_inv_def)
qed

text \<open>When a copy runs past its buffer: a domain of seven bytes, or a link buffer that is too small.\<close>

definition send_overflows :: "bool \<Rightarrow> NWSendParam \<Rightarrow> stack \<Rightarrow> bool" where
  "send_overflows pri n s \<longleftrightarrow>
     (let d = domainIndex (dstDmn (nwsDestAddr n))
      in own_domain s d \<noteq> None \<and> unat (fst (send_domain n s)) > IZOT_DOMAIN_ID_MAX_LENGTH) \<or>
     (\<exists>code. EncodeDomainLength (fst (send_domain n s)) = Inr code \<and>
        lkBufSize pri s < max (length (npdu_header n code s))
          (min (nwOutBufSize s) (length (npdu_header n code s) + nwsPduSize n)))"

lemma network_send_memFault:
  "memFault (network_send pri n s) \<Longrightarrow> memFault s \<or> send_overflows pri n s"
  by (auto simp: network_send_def NWSendTerminate_def Let_def send_overflows_def npdu_of_def
      split: sum.splits if_splits)

lemma send_head_keeps:
  assumes "net_inv s" "\<not> QueueEmpty (nwQ pri s)"
  shows "net_inv (send_head pri s)"
    and "memFault (send_head pri s) \<Longrightarrow> memFault s \<or>
      (\<exists>n. QueueHead (nwQ pri s) = Some n \<and> send_overflows pri n s)"
proof -
  have q: "queue_wf (nwQ pri s)" using assms(1) by (simp add: net_inv_def tsa_inv_queues)
  then obtain n where n: "QueueHead (nwQ pri s) = Some n" using assms(2) by (auto simp: QueueHead_eq)
  show "net_inv (send_head pri s)" using assms(1) network_send_inv by (simp add: send_head_def n)
  show "memFault (send_head pri s) \<Longrightarrow> memFault s \<or>
      (\<exists>n. QueueHead (nwQ pri s) = Some n \<and> send_overflows pri n s)"
    using network_send_memFault n by (auto simp: send_head_def split: if_splits)
qed

lemma nw_discard_frame [simp]:
  "tsa_inv (nw_discard s) = tsa_inv s" "rr_inv (nw_discard s) = rr_inv s"
  "lkQ p (nw_discard s) = lkQ p s" "memFault (nw_discard s) = memFault s"
  "nwInQ (nw_discard s) = QueueDropHead (nwInQ s)" "tsaInQ (nw_discard s) = tsaInQ s"
  "appInQ (nw_discard s) = appInQ s"
proof -
  have "tx_inv p (nw_discard s) = tx_inv p s" for p
    by (rule tx_inv_cong) (simp_all add: nw_discard_def tsa_select_defs tcs_select_defs)
  then show "tsa_inv (nw_discard s) = tsa_inv s" by (simp add: tsa_inv_def nw_discard_def)
  show "rr_inv (nw_discard s) = rr_inv s" by (rule rr_inv_cong) (simp add: nw_discard_def)
qed (simp_all add: nw_discard_def lk_select_defs)

lemma tsa_inv_tsaIn [simp]: "tsa_inv s \<Longrightarrow> queue_wf q \<Longrightarrow> tsa_inv (s\<lparr>tsaInQ := q\<rparr>)"
  by (rule tsa_inv_cong [of _ s]) (auto simp: tsa_select_defs tcs_select_defs)

lemma good_domain_fits:
  "\<not> bad_domain_length npdu \<Longrightarrow>
     fault_if (IZOT_DOMAIN_ID_MAX_LENGTH < unat (npdu_domainLen npdu)) s = s"
  by (auto simp: bad_domain_length_def fault_if_def IZOT_DOMAIN_ID_MAX_LENGTH_def)

lemma net_inv_discard [simp]: "net_inv s \<Longrightarrow> net_inv (nw_discard s)"
  by (simp add: net_inv_def)

lemma net_inv_stat [simp]:
  "net_inv (IncrementStat st s) = net_inv s" "net_inv (LCS_LogRxStat s a ty) = net_inv s"
  by (simp_all add: net_inv_def)

lemma nw_deliver_keeps:
  assumes "net_inv s"
  shows "net_inv (nw_deliver nmAuth src r n s)" "memFault (nw_deliver nmAuth src r n s) = memFault s"
proof -
  have q: "queue_wf (appInQ s)" "queue_wf (tsaInQ s)" using assms by (simp_all add: net_inv_def tsa_inv_queues)
  have fault: "net_inv (fault_if b s)" for b using assms by (simp add: net_inv_def)
  have app: "net_inv (s'\<lparr>appInQ := qa\<rparr>)" if "net_inv s'" "queue_wf qa" for s' qa
    using that by (simp add: net_inv_def)
  have tsa: "net_inv (s'\<lparr>tsaInQ := qt\<rparr>)" if "net_inv s'" "queue_wf qt" for s' qt
    using that by (simp add: net_inv_def rr_inv_def)
  show "net_inv (nw_deliver nmAuth src r n s)"
    using assms q by (simp add: nw_deliver_def Let_def app tsa fault)
  show "memFault (nw_deliver nmAuth src r n s) = memFault s"
    by (simp add: nw_deliver_def Let_def)
qed

lemma NetworkLayerReceive_keeps:
  assumes "net_inv s"
  shows "net_inv (NetworkLayerReceive junk nmAuth s)"
    and "memFault (NetworkLayerReceive junk nmAuth s) = memFault s"
proof -
  have q: "queue_wf (nwInQ s)" using assms by (simp add: net_inv_def)
  show "net_inv (NetworkLayerReceive junk nmAuth s)"
    "memFault (NetworkLayerReceive junk nmAuth s) = memFault s"
    using assms q
    by (auto simp: NetworkLayerReceive_def Let_def good_domain_fits nw_deliver_keeps QueueHead_eq
        split: option.splits)
qed

section \<open>Reading back what was sent\<close>

lemma bit_NPDU_header:
  "bit (NPDU_header v ty fmt code) i \<longleftrightarrow> i < 8 \<and>
     (6 \<le> i \<and> bit (version_bits v) (i - 6) \<or> 4 \<le> i \<and> bit (pduType_bits ty) (i - 4) \<or>
      2 \<le> i \<and> i < 4 \<and> bit fmt (i - 2) \<or> i < 2 \<and> bit code i)"
  by (auto simp: NPDU_header_def nibble_mask bit_simps not_le dest: bit_imp_le_length)

lemma small_bits:
  "bit (version_bits v) i \<Longrightarrow> i < 2" "bit (pduType_bits ty) i \<Longrightarrow> i < 2"
proof -
  have "version_bits v = version_bits v AND mask 2" by (cases v) (simp_all add: mask_eq_exp_minus_1)
  then show "bit (version_bits v) i \<Longrightarrow> i < 2" by (metis bit_and_iff bit_mask_iff)
  have "pduType_bits ty = pduType_bits ty AND mask 2" by (cases ty) (simp_all add: mask_eq_exp_minus_1)
  then show "bit (pduType_bits ty) i \<Longrightarrow> i < 2" by (metis bit_and_iff bit_mask_iff)
qed

lemma NPDU_header_fields:
  "NPDU_version (NPDU_header v ty fmt code) = v" "NPDU_pduType (NPDU_header v ty fmt code) = ty"
  "NPDU_addrFmt (NPDU_header v ty fmt code) = fmt AND 3"
  "NPDU_domainLength (NPDU_header v ty fmt code) = code AND 3"
proof -
  have "drop_bit 6 (NPDU_header v ty fmt code) AND 3 = version_bits v"
    by (rule bit_word_eqI) (auto simp: nibble_mask bit_simps bit_NPDU_header dest: small_bits)
  then show "NPDU_version (NPDU_header v ty fmt code) = v"
    by (cases v) (simp_all add: NPDU_version_def version_of_bits_def)
  have "drop_bit 4 (NPDU_header v ty fmt code) AND 3 = pduType_bits ty"
    by (rule bit_word_eqI) (auto simp: nibble_mask bit_simps bit_NPDU_header dest: small_bits)
  then show "NPDU_pduType (NPDU_header v ty fmt code) = ty"
    by (cases ty) (simp_all add: NPDU_pduType_def pduType_of_bits_def)
  show "NPDU_addrFmt (NPDU_header v ty fmt code) = fmt AND 3"
    by (rule bit_word_eqI) (auto simp: NPDU_addrFmt_def nibble_mask bit_simps bit_NPDU_header dest: small_bits)
  show "NPDU_domainLength (NPDU_header v ty fmt code) = code AND 3"
    by (rule bit_word_eqI) (auto simp: NPDU_domainLength_def nibble_mask bit_simps bit_NPDU_header dest: small_bits)
qed

lemma EncodeDomainLength_Inr:
  assumes "EncodeDomainLength len = Inr code"
  shows "DecodeDomainLength code = len" "code AND 3 = code" "unat len \<in> {0, 1, 3, 6}"
  using assms by (auto simp: EncodeDomainLength_def DecodeDomainLength_def split: if_splits)

lemma selField:
  "get_attribute 0x80 7 (push_bit 7 1 OR get_attribute 0x7F 0 b) = 1"
  "get_attribute 0x80 7 (push_bit 7 0 OR get_attribute 0x7F 0 b) = 0"
proof -
  have m: "(0x80 :: u8) = push_bit 7 1" "(0x7F :: u8) = mask 7" by (simp_all add: mask_eq_exp_minus_1)
  show "get_attribute 0x80 7 (push_bit 7 1 OR get_attribute 0x7F 0 b) = 1"
    unfolding get_attribute_def m by (rule bit_word_eqI) (auto simp only: bit_simps o_def, auto simp: bit_1_iff)
  show "get_attribute 0x80 7 (push_bit 7 0 OR get_attribute 0x7F 0 b) = 0"
    unfolding get_attribute_def m by (rule bit_word_eqI) (auto simp only: bit_simps o_def, auto simp: bit_1_iff)
qed

lemma length_send_source [simp]: "length (send_source n s) = 2"
  by (simp add: send_source_def split: option.splits)

lemma length_dest_bytes:
  "dest_fmt (addressModeOf d) \<noteq> None \<Longrightarrow> 2 + length (dest_bytes d) = domain_start (addressModeOf d)"
  by (cases d) (simp_all add: domain_start_def IZOT_UNIQUE_ID_LENGTH_def)

text \<open>
  \<open>raw\<close> is the receiver's buffer, which holds the NPDU that node \<open>s\<close> made of the message \<open>n\<close>.
\<close>

lemma parse_npdu:
  assumes raw: "bytes_from raw 0 (length (npdu_of n code s)) = npdu_of n code s"
    and fmt: "dest_fmt (dstMode (nwsDestAddr n)) = Some fmt"
    and code: "EncodeDomainLength (fst (send_domain n s)) = Inr code"
    and ack: "dstMode (nwsDestAddr n) = AM_MULTICAST_ACK \<Longrightarrow>
      own_domain s (domainIndex (dstDmn (nwsDestAddr n))) \<noteq> None"
  shows "NPDU_version (byte_at raw 0) = nwsVersion n" "NPDU_pduType (byte_at raw 0) = nwsPduType n"
    and "npdu_mode raw = dstMode (nwsDestAddr n)" "npdu_domainLen raw = fst (send_domain n s)"
    and "npdu_domainId raw = bytes_from (snd (send_domain n s)) 0 (unat (fst (send_domain n s)))"
    and "[npdu_data raw 0, npdu_data raw 1] = send_source n s"
    and "i < length (dest_bytes (dstAddr (nwsDestAddr n))) \<Longrightarrow>
           npdu_data raw (2 + i) = dest_bytes (dstAddr (nwsDestAddr n)) ! i"
    and "pdu_start raw + 1 + nwsPduSize n = length (npdu_of n code s)"
    and "bytes_from raw (1 + pdu_start raw) (nwsPduSize n) = bytes_from (nwsPdu n) 0 (nwsPduSize n)"
proof -
  let ?d = "dest_bytes (dstAddr (nwsDestAddr n))" and ?len = "unat (fst (send_domain n s))"
  let ?hdr = "NPDU_header (nwsVersion n) (nwsPduType n) fmt code"
  let ?did = "bytes_from (snd (send_domain n s)) 0 ?len" and ?pdu = "bytes_from (nwsPdu n) 0 (nwsPduSize n)"
  have npdu: "npdu_of n code s = ?hdr # send_source n s @ ?d @ ?did @ ?pdu"
    by (simp add: npdu_of_def npdu_header_def fmt)
  have byte: "byte_at raw i = npdu_of n code s ! i" if "i < length (npdu_of n code s)" for i
    using arg_cong [OF raw, of "\<lambda>l. l ! i"] that by simp
  have slice: "bytes_from raw i k = take k (drop i (npdu_of n code s))" if "i + k \<le> length (npdu_of n code s)" for i k
    by (rule nth_equalityI) (use that byte in auto)
  have h: "byte_at raw 0 = ?hdr" using byte [of 0] by (simp add: npdu)
  show "NPDU_version (byte_at raw 0) = nwsVersion n" "NPDU_pduType (byte_at raw 0) = nwsPduType n"
    by (simp_all add: h NPDU_header_fields)
  have data: "npdu_data raw i = (send_source n s @ ?d @ ?did @ ?pdu) ! i"
    if "i < 2 + length ?d" for i
    using byte [of "Suc i"] that by (simp add: npdu_data_def npdu)
  show src: "[npdu_data raw 0, npdu_data raw 1] = send_source n s"
  proof (rule nth_equalityI)
    fix i assume "i < length [npdu_data raw 0, npdu_data raw 1]"
    then have i: "i = 0 \<or> i = 1" by auto
    then have "npdu_data raw i = send_source n s ! i"
      by (subst data) (auto simp: nth_append)
    then show "[npdu_data raw 0, npdu_data raw 1] ! i = send_source n s ! i" using i by auto
  qed simp
  show "npdu_data raw (2 + i) = ?d ! i" if "i < length ?d"
    using data [of "2 + i"] that by (simp add: nth_append)
  have f: "NPDU_addrFmt (byte_at raw 0) = fmt"
    using fmt by (cases "dstAddr (nwsDestAddr n)") (auto simp: h NPDU_header_fields)
  have "npdu_data raw 1 = send_source n s ! 1" using src by (metis nth_Cons_0 nth_Cons_Suc One_nat_def)
  then show mode: "npdu_mode raw = dstMode (nwsDestAddr n)"
    using fmt selField ack by (cases "dstAddr (nwsDestAddr n)")
      (auto simp: npdu_mode_def f Let_def send_source_def get_attribute_def [of _ _ 128] split: option.splits)
  show len: "npdu_domainLen raw = fst (send_domain n s)"
    using EncodeDomainLength_Inr [OF code] by (simp add: npdu_domainLen_def h NPDU_header_fields)
  have start: "domain_start (npdu_mode raw) = 2 + length ?d"
    using length_dest_bytes [of "dstAddr (nwsDestAddr n)"] fmt mode by simp
  show "npdu_domainId raw = ?did"
    unfolding npdu_domainId_def start len by (subst slice) (simp_all add: npdu)
  show "pdu_start raw + 1 + nwsPduSize n = length (npdu_of n code s)"
    by (simp add: pdu_start_def start len npdu)
  show "bytes_from raw (1 + pdu_start raw) (nwsPduSize n) = ?pdu"
    unfolding pdu_start_def start len by (subst slice) (simp_all add: npdu)
qed

section \<open>Properties\<close>

text \<open>
  C38. Safety of the network layer on any state that satisfies its invariants, and any input. Both
  functions keep them; receiving never copies past a buffer, whatever the NPDU holds; sending does
  only for a domain of seven bytes in the domain table, or when the link layer's buffer is
  smaller than an NPDU that fits the network buffer.
\<close>

theorem network_layer_is_safe:
  assumes "net_inv s"
  shows "(let s' = NetworkLayerSend s in net_inv s' \<and> (memFault s' \<longrightarrow> memFault s \<or>
       (\<exists>pri n. QueueHead (nwQ pri s) = Some n \<and> send_overflows pri n s))) \<and>
    (let s' = NetworkLayerReceive junk nmAuth s in net_inv s' \<and> memFault s' = memFault s)"
proof -
  have q: "nwQ True s = nwOutPriQ s" "nwQ False s = nwOutQ s" by (simp_all add: nwQ_def)
  show ?thesis
    using NetworkLayerReceive_keeps [OF assms, of junk nmAuth] send_head_keeps [OF assms, of True]
      send_head_keeps [OF assms, of False] assms q
    by (auto simp: NetworkLayerSend_def Let_def)
qed

lemma sampleStack_net_inv [simp]: "net_inv sampleStack"
  by (simp add: net_inv_def lk_select_defs)

theorem network_layer_is_safe_witness: "net_inv (NetworkLayerSend sampleStack)"
  using network_layer_is_safe [OF sampleStack_net_inv, of sampleSrc False] by (simp add: Let_def)

definition sendable :: "NWSendParam \<Rightarrow> stack \<Rightarrow> u8 option" where
  "sendable n s =
     (case EncodeDomainLength (fst (send_domain n s)) of
        Inl _ \<Rightarrow> None
      | Inr code \<Rightarrow>
          (if \<not> send_refused n s \<and> length (npdu_header n code s) + nwsPduSize n \<le> nwOutBufSize s
           then Some code else None))"

lemma nw_completion_appCe:
  assumes "queue_wf (appCeRspInQ s)" "nwsPduType n = APDU_TYPE"
  shows "\<exists>a. aprIndication a = COMPLETION \<and> aprSuccess a = ok \<and> aprTag a = nwsTag n \<and>
    queue_list (appCeRspInQ (nw_completion ok n s)) =
      (if has_room (appCeRspInQ s) then queue_list (appCeRspInQ s) @ [a] else queue_list (appCeRspInQ s))"
  using assms by (auto simp: nw_completion_def queue_list_Emit has_room_def
    intro!: exI [of _ "_\<lparr>aprIndication := _, aprSuccess := _, aprTag := _, aprProxy := _, aprProxyCount := _, aprProxyDone := _\<rparr>"])

lemma nw_completion_other: "nwsPduType n \<noteq> APDU_TYPE \<Longrightarrow> nw_completion ok n s = s"
  by (simp add: nw_completion_def)

lemma nw_completion_cong:
  "appCeRspInQ s' = appCeRspInQ s \<Longrightarrow> appCeRspInQ (nw_completion ok n s') = appCeRspInQ (nw_completion ok n s)"
  by (simp add: nw_completion_def)

lemma fault_if_fault_if [simp]: "fault_if b (fault_if c s) = fault_if (b \<or> c) s"
  by (simp add: fault_if_def)

lemma network_send_given_up:
  assumes "sendable n s = None"
  shows "\<exists>b. network_send pri n s = NWSendTerminate pri n (fault_if b s)"
proof -
  have f: "fault_if False s = s" by (simp add: fault_if_def)
  show ?thesis
    using assms f by (auto simp: network_send_def sendable_def Let_def split: sum.splits if_splits) metis+
qed

definition fill_npdu :: "NWSendParam \<Rightarrow> u8 \<Rightarrow> stack \<Rightarrow> LKSendParam \<Rightarrow> LKSendParam" where
  "fill_npdu n code s k =
     k\<lparr>lksDeltaBL := nwsDeltaBL n, lksAltPath := nwsAltPath n, lksPduSize := length (npdu_of n code s),
       lksDomainIndex := domainIndex (dstDmn (nwsDestAddr n)), lksNpdu := npdu_of n code s\<rparr>"

lemma network_send_sent:
  assumes "sendable n s = Some code"
  shows "\<exists>b. network_send pri n s = nw_completion True n (IncrementStat LcsL3Tx
    (set_lkQ pri (QueueEmit (fill_npdu n code s) (lkQ pri s)) (nw_drop pri (fault_if b s))))"
  using assms by (auto simp: network_send_def sendable_def Let_def fill_npdu_def [abs_def] split: sum.splits if_splits)

text \<open>
  What becomes of the message at the head of an output queue, priority messages first. It
  leaves the queue. If its domain and size allow, its NPDU is given to the link layer (when
  that queue has room for an entry); otherwise nothing is. For a message of the application
  the completion event says which of the two happened; PDUs of the other layers are given up
  silently, and their own timers have to notice.
\<close>

theorem message_is_sent_or_given_up:
  assumes "net_inv s" "QueueHead (nwQ pri s) = Some n" "pri \<or> queue_list (nwOutPriQ s) = []"
    and "s' = NetworkLayerSend s"
  shows "queue_list (nwQ pri s') = tl (queue_list (nwQ pri s)) \<and>
    (case sendable n s of
       None \<Rightarrow> lkQ pri s' = lkQ pri s
     | Some code \<Rightarrow> \<exists>k. lksNpdu k = npdu_of n code s \<and> lksPduSize k = length (lksNpdu k) \<and>
         lksDeltaBL k = nwsDeltaBL n \<and> lksAltPath k = nwsAltPath n \<and>
         queue_list (lkQ pri s') =
           (if has_room (lkQ pri s) then queue_list (lkQ pri s) @ [k] else queue_list (lkQ pri s))) \<and>
    (if nwsPduType n = APDU_TYPE
     then \<exists>a. aprIndication a = COMPLETION \<and> aprSuccess a = (sendable n s \<noteq> None) \<and> aprTag a = nwsTag n \<and>
       queue_list (appCeRspInQ s') =
         (if has_room (appCeRspInQ s) then queue_list (appCeRspInQ s) @ [a] else queue_list (appCeRspInQ s))
     else appCeRspInQ s' = appCeRspInQ s)"
proof -
  have i: "tsa_inv s" "queue_wf (lkQ p s)" for p using assms(1) by (simp_all add: net_inv_def)
  have q: "queue_wf (nwQ p s)" "queue_wf (lkQ p s)" "queue_wf (appCeRspInQ s)" for p
    using i by (simp_all add: tsa_inv_queues)
  have sel: "nwQ True s = nwOutPriQ s" "nwQ False s = nwOutQ s" "lkQ True s = lkOutPriQ s" "lkQ False s = lkOutQ s"
    by (simp_all add: nwQ_def lkQ_def)
  have "queue_list (nwQ pri s) \<noteq> []" using assms(2) q by (auto simp: QueueHead_eq)
  then have "NetworkLayerSend s = send_head pri s"
    using assms(3) q(1,2) [of True] q(1,2) [of False] unfolding sel by (cases pri) (auto simp: NetworkLayerSend_def sel)
  then have s': "s' = network_send pri n s" using assms(2,4) q by (simp add: send_head_def)
  show ?thesis
  proof (cases "sendable n s")
    case None
    then obtain b where b: "s' = nw_drop pri (nw_completion False n (fault_if b s))"
      using network_send_given_up [of n s pri] s' by (auto simp: NWSendTerminate_def)
    have "appCeRspInQ s' = appCeRspInQ (nw_completion False n s)"
      unfolding b by (simp add: nw_completion_cong [of "fault_if b s" s])
    then show ?thesis
      using None q nw_completion_appCe [of s n False] by (auto simp: b nw_completion_other)
  next
    case (Some code)
    then obtain b where b: "s' = nw_completion True n (IncrementStat LcsL3Tx
        (set_lkQ pri (QueueEmit (fill_npdu n code s) (lkQ pri s)) (nw_drop pri (fault_if b s))))"
      using network_send_sent [OF Some, of pri] s' by auto
    have "appCeRspInQ s' = appCeRspInQ (nw_completion True n s)"
      unfolding b by (rule nw_completion_cong) simp
    then show ?thesis
      using Some q nw_completion_appCe [of s n True]
      by (auto simp: b nw_completion_other queue_list_Emit has_room_def fill_npdu_def
          intro!: exI [of _ "fill_npdu n code s (QueueDeref (lkQ pri s) (qtail (lkQ pri s)))"])
  qed
qed

text \<open>An NPDU that the link carries unchanged from one node's output queue to another's input queue.\<close>

definition lk_carried :: "LKSendParam \<Rightarrow> NWReceiveParam \<Rightarrow> bool" where
  "lk_carried k r \<longleftrightarrow> nwrPduSize r = lksPduSize k \<and> bytes_from (nwrPdu r) 0 (lksPduSize k) = lksNpdu k"

text \<open>Whether a destination in domain 0 of node \<open>b\<close> names that node.\<close>

definition addressed_to :: "DestAddr \<Rightarrow> stack \<Rightarrow> bool" where
  "addressed_to d b \<longleftrightarrow>
     (let e = domainTable b ! 0
      in case d of
           DA_Unbound \<Rightarrow> False
         | DA_Broadcast sn \<Rightarrow> sn = 0 \<or> sn = domSubnet e
         | DA_Multicast g \<Rightarrow> IsGroupMember b 0 g \<noteq> None
         | DA_SubnetNode a \<Rightarrow> own_address e = \<lparr>snSubnet = snSubnet a, snNode = set_selField (snNode a)\<rparr>
         | DA_MulticastAck m \<Rightarrow> IsGroupMember b 0 (mcaGroup m) \<noteq> None \<and>
             own_address e = \<lparr>snSubnet = snSubnet (mcaSubnetAddr m),
               snNode = set_selField (snNode (mcaSubnetAddr m))\<rparr>
         | DA_UniqueId sn uid \<Rightarrow> bytes_from uid 0 IZOT_UNIQUE_ID_LENGTH =
             bytes_from (roUniqueNodeId (readOnlyData b)) 0 IZOT_UNIQUE_ID_LENGTH)"

definition same_domain :: "IzotDomain \<Rightarrow> IzotDomain \<Rightarrow> bool" where
  "same_domain e e' \<longleftrightarrow> IZOT_DOMAIN_ID_LENGTH e = IZOT_DOMAIN_ID_LENGTH e' \<and>
     bytes_from (domId e) 0 (unat (IZOT_DOMAIN_ID_LENGTH e)) =
     bytes_from (domId e') 0 (unat (IZOT_DOMAIN_ID_LENGTH e))"

lemma sendable_Some:
  assumes "sendable n s = Some code"
  shows "EncodeDomainLength (fst (send_domain n s)) = Inr code" "\<not> send_refused n s"
    "\<exists>fmt. dest_fmt (dstMode (nwsDestAddr n)) = Some fmt"
  using assms by (auto simp: sendable_def send_refused_def Let_def split: sum.splits if_splits)

lemma npdu_data_dest:
  assumes "\<And>i. i < length ds \<Longrightarrow> npdu_data raw (2 + i) = ds ! i"
  shows "bytes_from raw 3 (length ds) = ds"
  using assms by (intro nth_equalityI) (auto simp: npdu_data_def eval_nat_numeral)

lemma received_source_fields [simp]:
  "srcMode (received_source junk npdu s) = npdu_mode npdu"
  "domainIndex (srcDmn (received_source junk npdu s)) = received_domain npdu s"
  "srcSubnetAddr (received_source junk npdu s) = \<lparr>snSubnet = npdu_data npdu 0, snNode = npdu_data npdu 1\<rparr>"
  "npdu_mode npdu = AM_MULTICAST \<Longrightarrow> srcGroup (received_source junk npdu s) = npdu_data npdu 2"
  "npdu_mode npdu = AM_MULTICAST_ACK \<Longrightarrow> srcAckNode (received_source junk npdu s) =
     \<lparr>mcaSubnetAddr = npdu_dest npdu, mcaGroup = npdu_data npdu 4, mcaMember = npdu_data npdu 5\<rparr>"
  by (auto simp: received_source_def Let_def split: AddrMode.splits)

lemma sent_npdu_is_for_us:
  assumes "sendable n a = Some code" "own_domain a (domainIndex (dstDmn (nwsDestAddr n))) = Some e"
    and "bytes_from raw 0 (length (npdu_of n code a)) = npdu_of n code a"
    and "NodeConfigured b" "IZOT_DOMAIN_INVALID (domainTable b ! 0) = 0" "same_domain e (domainTable b ! 0)"
    and "addressed_to (dstAddr (nwsDestAddr n)) b"
  shows "received_domain raw b = 0" "\<not> not_for_us (received_source junk raw b) raw b"
    "\<not> wrong_state (received_source junk raw b) b"
proof -
  obtain fmt where fmt: "dest_fmt (dstMode (nwsDestAddr n)) = Some fmt" using sendable_Some(3) [OF assms(1)] by blast
  have own: "own_domain a (domainIndex (dstDmn (nwsDestAddr n))) \<noteq> None" using assms(2) by simp
  note p = parse_npdu [OF assms(3) fmt sendable_Some(1) [OF assms(1)] own]
  have d: "fst (send_domain n a) = IZOT_DOMAIN_ID_LENGTH e" "snd (send_domain n a) = domId e"
    using assms(2) by (simp_all add: send_domain_def)
  have "in_domain raw (domainTable b ! 0)"
    using assms(5,6) p(4,5) by (auto simp: in_domain_def same_domain_def d)
  then show dom: "received_domain raw b = 0"
    using assms(4) by (simp add: received_domain_def)
  show "\<not> wrong_state (received_source junk raw b) b"
    using assms(4) dom by (simp add: wrong_state_def FLEX_DOMAIN_def)
  note ds = p(7)
  show "\<not> not_for_us (received_source junk raw b) raw b"
  proof (cases "dstAddr (nwsDestAddr n)")
    case (DA_UniqueId sn uid)
    have "bytes_from raw 3 7 = sn # bytes_from uid 0 6"
      using npdu_data_dest [of "sn # bytes_from uid 0 6" raw] ds by (simp add: DA_UniqueId IZOT_UNIQUE_ID_LENGTH_def)
    moreover have "bytes_from raw 4 6 = tl (bytes_from raw 3 7)"
      by (rule nth_equalityI) (simp_all add: nth_tl)
    ultimately show ?thesis
      using assms(7) p(3) dom DA_UniqueId
      by (simp add: not_for_us_def addressed_to_def IZOT_UNIQUE_ID_LENGTH_def Let_def)
  qed (use assms(7) p(3) dom ds [of 0] ds [of 1] ds [of 2] in
      \<open>simp_all add: not_for_us_def addressed_to_def Let_def npdu_dest_def FLEX_DOMAIN_def eval_nat_numeral\<close>)
qed

lemma NetworkLayerReceive_tsa:
  assumes "net_inv b" "QueueHead (nwInQ b) = Some r" "NPDU_pduType (byte_at (nwrPdu r) 0) \<noteq> APDU_TYPE"
    and "\<not> bad_domain_length (nwrPdu r)" "\<not> from_myself (received_source junk (nwrPdu r) b) b"
    and "\<not> not_for_us (received_source junk (nwrPdu r) b) (nwrPdu r) b"
    and "\<not> wrong_state (received_source junk (nwrPdu r) b) b"
    and "pdu_start (nwrPdu r) + 1 + m = nwrPduSize r" "0 < m" "m \<le> tsaInBufSize b" "has_room (tsaInQ b)"
  shows "\<exists>t. queue_list (tsaInQ (NetworkLayerReceive junk nmAuth b)) = queue_list (tsaInQ b) @ [t] \<and>
    tsrPduType t = NPDU_pduType (byte_at (nwrPdu r) 0) \<and> tsrPduSize t = m \<and>
    tsrSrcAddr t = received_source junk (nwrPdu r) b \<and> tsrPriority t = nwrPriority r \<and>
    tsrVersion t = NPDU_version (byte_at (nwrPdu r) 0) \<and>
    tsrPdu t = bytes_from (nwrPdu r) (1 + pdu_start (nwrPdu r)) m"
proof -
  have q: "queue_wf (nwInQ b)" "queue_wf (tsaInQ b)" using assms(1) by (simp_all add: net_inv_def tsa_inv_queues)
  then have ne: "queue_list (nwInQ b) \<noteq> []" using assms(2) by (auto simp: QueueHead_eq)
  have size: "\<not> nwrPduSize r \<le> pdu_start (nwrPdu r) + 1" "nwrPduSize r - pdu_start (nwrPdu r) - 1 = m"
    using assms(8,9) by linarith+
  have "NetworkLayerReceive junk nmAuth b =
      nw_deliver nmAuth (received_source junk (nwrPdu r) b) r m (IncrementStat LcsL3Rx b)"
    using assms(2,4-7) q ne size by (simp add: NetworkLayerReceive_def Let_def good_domain_fits)
  then show ?thesis
    using assms(3,10,11) q
    by (auto simp: nw_deliver_def Let_def queue_list_Emit has_room_def intro!: exI [of _ "_\<lparr>tsrPduType := _\<rparr>"])
qed

lemma npdu_received:
  assumes "sendable n a = Some code" "own_domain a (domainIndex (dstDmn (nwsDestAddr n))) = Some e"
    and "lksNpdu k = npdu_of n code a" "lksPduSize k = length (lksNpdu k)" "lk_carried k r"
    and "net_inv b" "QueueHead (nwInQ b) = Some r" "NodeConfigured b"
    and "IZOT_DOMAIN_INVALID (domainTable b ! 0) = 0" "same_domain e (domainTable b ! 0)"
    and "IZOT_DOMAIN_ID_LENGTH e \<noteq> 6" "addressed_to (dstAddr (nwsDestAddr n)) b"
    and "send_source n a \<noteq> [domSubnet (domainTable b ! 0), domNodeClone (domainTable b ! 0)]"
    and "nwsPduType n \<noteq> APDU_TYPE" "0 < nwsPduSize n" "nwsPduSize n = length (nwsPdu n)"
    and "nwsPduSize n \<le> tsaInBufSize b" "has_room (tsaInQ b)"
  shows "\<exists>t. queue_list (tsaInQ (NetworkLayerReceive junk nmAuth b)) = queue_list (tsaInQ b) @ [t] \<and>
    carried n t \<and> tsrPduType t = nwsPduType n \<and> tsrPriority t = nwrPriority r \<and>
    [snSubnet (srcSubnetAddr (tsrSrcAddr t)), snNode (srcSubnetAddr (tsrSrcAddr t))] = send_source n a \<and>
    srcMode (tsrSrcAddr t) = dstMode (nwsDestAddr n) \<and> domainIndex (srcDmn (tsrSrcAddr t)) = 0 \<and>
    (\<forall>g. dstAddr (nwsDestAddr n) = DA_Multicast g \<longrightarrow> srcGroup (tsrSrcAddr t) = g) \<and>
    (\<forall>m. dstAddr (nwsDestAddr n) = DA_MulticastAck m \<longrightarrow>
       mcaGroup (srcAckNode (tsrSrcAddr t)) = mcaGroup m \<and> mcaMember (srcAckNode (tsrSrcAddr t)) = mcaMember m)"
proof -
  let ?raw = "nwrPdu r" and ?src = "received_source junk (nwrPdu r) b"
  have raw: "bytes_from ?raw 0 (length (npdu_of n code a)) = npdu_of n code a"
    "nwrPduSize r = length (npdu_of n code a)"
    using assms(3-5) by (simp_all add: lk_carried_def)
  obtain fmt where fmt: "dest_fmt (dstMode (nwsDestAddr n)) = Some fmt" using sendable_Some(3) [OF assms(1)] by blast
  have own: "own_domain a (domainIndex (dstDmn (nwsDestAddr n))) \<noteq> None" using assms(2) by simp
  note p = parse_npdu [OF raw(1) fmt sendable_Some(1) [OF assms(1)] own]
  note us = sent_npdu_is_for_us [OF assms(1,2) raw(1) assms(8-10,12)]
  have "fst (send_domain n a) = IZOT_DOMAIN_ID_LENGTH e" using assms(2) by (simp add: send_domain_def)
  then have good: "\<not> bad_domain_length ?raw"
    using p(4) assms(11) sendable_Some(1) [OF assms(1)]
    by (auto simp: bad_domain_length_def EncodeDomainLength_def split: if_splits)
  have "\<not> from_myself ?src b"
    using assms(13) p(6) us(1) by (auto simp: from_myself_def own_address_def Let_def)
  from NetworkLayerReceive_tsa [OF assms(6,7) _ good this us(2,3) _ assms(15,17,18), of nmAuth]
  obtain t where t: "queue_list (tsaInQ (NetworkLayerReceive junk nmAuth b)) = queue_list (tsaInQ b) @ [t]"
    "tsrPduType t = nwsPduType n" "tsrPduSize t = nwsPduSize n" "tsrSrcAddr t = ?src"
    "tsrPriority t = nwrPriority r" "tsrVersion t = nwsVersion n" "tsrPdu t = bytes_from (nwsPdu n) 0 (nwsPduSize n)"
    using p(1,2,8,9) raw(2) assms(14) by auto
  have "carried n t" using t assms(16) by (simp add: carried_def)
  moreover have "mcaGroup (srcAckNode ?src) = mcaGroup m \<and> mcaMember (srcAckNode ?src) = mcaMember m"
    if "dstAddr (nwsDestAddr n) = DA_MulticastAck m" for m
    using that p(3) p(7) [of 2] p(7) [of 3] by (simp add: numeral_eq_Suc)
  moreover have "srcGroup ?src = g" if "dstAddr (nwsDestAddr n) = DA_Multicast g" for g
    using that p(3) p(7) [of 0] by simp
  ultimately show ?thesis using t p(3,6) us(1) by auto
qed

text \<open>
  C3. End to end through two network layers. When node \<open>a\<close> has sent a PDU in a domain whose
  identifier has 0, 1 or 3 bytes, and the NPDU arrives at a configured node \<open>b\<close> that has this
  domain first in its table and that the destination names, then \<open>b\<close> hands the same PDU to
  its transport and session layers, in the same protocol mode, with \<open>a\<close>'s subnet and node as
  its source and the address mode (and the group, or the member that answers) of the
  original. This holds for all five kinds of destinations.
\<close>

theorem npdu_reaches_its_destination:
  assumes "sendable n a = Some code" "own_domain a (domainIndex (dstDmn (nwsDestAddr n))) = Some e"
    and "lksNpdu k = npdu_of n code a" "lksPduSize k = length (lksNpdu k)" "lk_carried k r"
    and "net_inv b" "QueueHead (nwInQ b) = Some r" "NodeConfigured b"
    and "IZOT_DOMAIN_INVALID (domainTable b ! 0) = 0" "same_domain e (domainTable b ! 0)"
    and "IZOT_DOMAIN_ID_LENGTH e \<noteq> 6" "addressed_to (dstAddr (nwsDestAddr n)) b"
    and "send_source n a \<noteq> [domSubnet (domainTable b ! 0), domNodeClone (domainTable b ! 0)]"
    and "nwsPduType n \<noteq> APDU_TYPE" "0 < nwsPduSize n" "nwsPduSize n = length (nwsPdu n)"
    and "nwsPduSize n \<le> tsaInBufSize b" "has_room (tsaInQ b)"
  shows "\<exists>t. queue_list (tsaInQ (NetworkLayerReceive junk nmAuth b)) = queue_list (tsaInQ b) @ [t] \<and>
    carried n t \<and> tsrPduType t = nwsPduType n \<and> tsrPriority t = nwrPriority r \<and>
    [snSubnet (srcSubnetAddr (tsrSrcAddr t)), snNode (srcSubnetAddr (tsrSrcAddr t))] = send_source n a \<and>
    srcMode (tsrSrcAddr t) = dstMode (nwsDestAddr n) \<and> domainIndex (srcDmn (tsrSrcAddr t)) = 0 \<and>
    (\<forall>g. dstAddr (nwsDestAddr n) = DA_Multicast g \<longrightarrow> srcGroup (tsrSrcAddr t) = g) \<and>
    (\<forall>m. dstAddr (nwsDestAddr n) = DA_MulticastAck m \<longrightarrow>
       mcaGroup (srcAckNode (tsrSrcAddr t)) = mcaGroup m \<and> mcaMember (srcAckNode (tsrSrcAddr t)) = mcaMember m)"
  by (rule npdu_received [OF assms])

text \<open>
  C29. The filter. An NPDU that leads to an entry for the application or for the transport and
  session layers has a domain of 0, 1 or 3 bytes and a PDU that is not empty; it names this
  node: its own address or one of its groups in a domain of its table, its subnet, or its
  unique ID. Outside the node's domains only messages to its unique ID are taken, and
  broadcasts while it is not configured.
\<close>

theorem only_matching_npdus_are_received:
  assumes "net_inv s" "QueueHead (nwInQ s) = Some r" "s' = NetworkLayerReceive junk nmAuth s"
    and "queue_list (tsaInQ s') \<noteq> queue_list (tsaInQ s) \<or> queue_list (appInQ s') \<noteq> queue_list (appInQ s)"
  shows "(let npdu = nwrPdu r; d = received_domain npdu s; e = domainTable s ! unat d
     in npdu_domainLen npdu \<in> {0, 1, 3} \<and> pdu_start npdu + 1 < nwrPduSize r \<and>
        (d = FLEX_DOMAIN \<or> NodeConfigured s \<and> in_domain npdu e) \<and>
        (case npdu_mode npdu of
           AM_SUBNET_NODE \<Rightarrow> d \<noteq> FLEX_DOMAIN \<and> npdu_dest npdu = own_address e
         | AM_MULTICAST_ACK \<Rightarrow> d \<noteq> FLEX_DOMAIN \<and> npdu_dest npdu = own_address e \<and>
             IsGroupMember s d (npdu_data npdu 4) \<noteq> None
         | AM_MULTICAST \<Rightarrow> d \<noteq> FLEX_DOMAIN \<and> IsGroupMember s d (npdu_data npdu 2) \<noteq> None
         | AM_BROADCAST \<Rightarrow> (if d = FLEX_DOMAIN then \<not> NodeConfigured s
             else npdu_data npdu 2 = 0 \<or> npdu_data npdu 2 = domSubnet e)
         | AM_UNIQUE_NODE_ID \<Rightarrow> bytes_from npdu 4 IZOT_UNIQUE_ID_LENGTH =
             bytes_from (roUniqueNodeId (readOnlyData s)) 0 IZOT_UNIQUE_ID_LENGTH
         | UNBOUND \<Rightarrow> False))"
proof -
  let ?npdu = "nwrPdu r" and ?src = "received_source junk (nwrPdu r) s"
  have q: "queue_wf (nwInQ s)" using assms(1) by (simp add: net_inv_def)
  then have ne: "queue_list (nwInQ s) \<noteq> []" using assms(2) by (auto simp: QueueHead_eq)
  have "\<not> bad_domain_length ?npdu \<and> \<not> from_myself ?src s \<and> \<not> not_for_us ?src ?npdu s \<and> \<not> wrong_state ?src s \<and>
      \<not> nwrPduSize r \<le> pdu_start ?npdu + 1"
    using assms q ne by (auto simp: NetworkLayerReceive_def Let_def split: if_splits)
  then have a: "\<not> bad_domain_length ?npdu" "\<not> not_for_us ?src ?npdu s" "\<not> wrong_state ?src s"
    "\<not> nwrPduSize r \<le> pdu_start ?npdu + 1" by auto
  have dom: "received_domain ?npdu s = FLEX_DOMAIN \<or>
      NodeConfigured s \<and> in_domain ?npdu (domainTable s ! unat (received_domain ?npdu s))"
    by (simp add: received_domain_def)
  then show ?thesis
    using a by (cases "npdu_mode ?npdu") (auto simp: bad_domain_length_def not_for_us_def wrong_state_def Let_def npdu_dest_def)
qed

text \<open>
  Domains with identifiers of six bytes can be sent in but not received in: the code
  encodes and decodes the length, but \<open>NetworkLayerReceive\<close> takes it for an error. Whatever
  a node sends in such a domain, every node drops.
\<close>

theorem six_byte_domains_are_never_heard:
  assumes "sendable n a = Some code" "own_domain a (domainIndex (dstDmn (nwsDestAddr n))) = Some e"
    and "IZOT_DOMAIN_ID_LENGTH e = 6"
    and "lksNpdu k = npdu_of n code a" "lksPduSize k = length (lksNpdu k)" "lk_carried k r"
    and "net_inv b" "QueueHead (nwInQ b) = Some r"
  shows "NetworkLayerReceive junk nmAuth b = nw_discard b"
proof -
  have raw: "bytes_from (nwrPdu r) 0 (length (npdu_of n code a)) = npdu_of n code a"
    using assms(4-6) by (simp add: lk_carried_def)
  obtain fmt where fmt: "dest_fmt (dstMode (nwsDestAddr n)) = Some fmt" using sendable_Some(3) [OF assms(1)] by blast
  have own: "own_domain a (domainIndex (dstDmn (nwsDestAddr n))) \<noteq> None" using assms(2) by simp
  have "npdu_domainLen (nwrPdu r) = 6"
    using parse_npdu(4) [OF raw fmt sendable_Some(1) [OF assms(1)] own] assms(2,3) by (simp add: send_domain_def)
  moreover have "\<not> QueueEmpty (nwInQ b)" using assms(7,8) by (auto simp: net_inv_def QueueHead_eq)
  ultimately show ?thesis
    using assms(8) by (simp add: NetworkLayerReceive_def Let_def bad_domain_length_def)
qed

lemma nonclone_byte:
  assumes "get_attribute 0x80 7 b = 1" shows "push_bit 7 1 OR get_attribute 0x7F 0 b = b"
proof -
  have m: "(0x80 :: u8) = push_bit 7 1" "(0x7F :: u8) = mask 7" by (simp_all add: mask_eq_exp_minus_1)
  have "bit (get_attribute 0x80 7 b) 0" using assms by simp
  then have "bit b 7" unfolding get_attribute_def m by (simp only: bit_simps o_def) simp
  then have "bit b i" if "7 \<le> i" "i < 8" for i using that by (cases "i = 7") auto
  then show ?thesis
    unfolding get_attribute_def m
    by (intro bit_word_eqI) (auto simp only: bit_simps o_def, auto simp: bit_1_iff)
qed

text \<open>
  A node that hears its own packet again, as it does behind a repeater, drops it: in domain
  0, for every kind of message but group acknowledgements, unless the domain is marked as
  cloned. (In domain 1 the code makes an exception and does not look at the source.)
\<close>

theorem own_packets_are_discarded:
  assumes "sendable n a = Some code" "domainIndex (dstDmn (nwsDestAddr n)) = 0"
    and "lksNpdu k = npdu_of n code a" "lksPduSize k = length (lksNpdu k)" "lk_carried k r"
    and "net_inv b" "QueueHead (nwInQ b) = Some r" "NodeConfigured b"
    and "domainTable b = domainTable a" "dstMode (nwsDestAddr n) \<noteq> AM_MULTICAST_ACK"
    and "IZOT_DOMAIN_NONCLONE (domainTable a ! 0) = 1" "IZOT_DOMAIN_INVALID (domainTable a ! 0) = 0"
  shows "NetworkLayerReceive junk nmAuth b = nw_discard b"
proof -
  let ?raw = "nwrPdu r" and ?e = "domainTable a ! 0"
  have raw: "bytes_from ?raw 0 (length (npdu_of n code a)) = npdu_of n code a"
    using assms(3-5) by (simp add: lk_carried_def)
  obtain fmt where fmt: "dest_fmt (dstMode (nwsDestAddr n)) = Some fmt" using sendable_Some(3) [OF assms(1)] by blast
  have own: "own_domain a (domainIndex (dstDmn (nwsDestAddr n))) = Some ?e"
    using assms(2) by (simp add: own_domain_def numDomains_def)
  then have own': "own_domain a (domainIndex (dstDmn (nwsDestAddr n))) \<noteq> None" by simp
  note p = parse_npdu [OF raw fmt sendable_Some(1) [OF assms(1)] own']
  have "in_domain ?raw ?e"
    using assms(12) p(4,5) own by (simp add: in_domain_def send_domain_def)
  then have d: "received_domain ?raw b = 0" using assms(8,9) by (simp add: received_domain_def)
  have "send_source n a = [domSubnet ?e, domNodeClone ?e]"
    using own assms(10) nonclone_byte [OF assms(11)] by (simp add: send_source_def)
  then have "from_myself (received_source junk ?raw b) b"
    using p(6) d assms(9) by (simp add: from_myself_def own_address_def FLEX_DOMAIN_def)
  moreover have "\<not> QueueEmpty (nwInQ b)" using assms(6,7) by (auto simp: net_inv_def QueueHead_eq)
  ultimately show ?thesis
    using assms(7) by (simp add: NetworkLayerReceive_def Let_def good_domain_fits)
qed

section \<open>Two nodes\<close>

definition sampleOut :: "DestAddr \<Rightarrow> NWSendParam" where
  "sampleOut d = sampleNws\<lparr>nwsDestAddr := sampleDst\<lparr>dstAddr := d\<rparr>, nwsPduSize := 3, nwsPdu := [0x05, 0x21, 0x22]\<rparr>"

definition sampleLk :: "NWSendParam \<Rightarrow> u8 \<Rightarrow> stack \<Rightarrow> LKSendParam" where
  "sampleLk n code s = fill_npdu n code s sampleLks"

definition sampleIn :: "LKSendParam \<Rightarrow> NWReceiveParam" where
  "sampleIn k = sampleNwr\<lparr>nwrPduSize := lksPduSize k, nwrPdu := lksNpdu k\<rparr>"

definition hearing :: "IzotDomain \<Rightarrow> LKSendParam \<Rightarrow> stack" where
  "hearing e k = sampleStack\<lparr>domainTable := [e, sampleDomain1], nwInQ := QueuePut (sampleIn k) (emptyQueue 4 sampleNwr)\<rparr>"

lemma hearing_fields [simp]:
  "net_inv (hearing e k)" "QueueHead (nwInQ (hearing e k)) = Some (sampleIn k)" "NodeConfigured (hearing e k)"
  "domainTable (hearing e k) = [e, sampleDomain1]" "tsaInQ (hearing e k) = emptyQueue 4 sampleTsr"
  "tsaInBufSize (hearing e k) = 259" "addrTable (hearing e k) = sampleAddrTable"
proof -
  have "tsa_inv (hearing e k)"
    by (rule tsa_inv_cong [OF _ _ _ _ _ _ _ _ _ sampleStack_tsa_inv])
      (simp_all add: hearing_def tsa_select_defs tcs_select_defs)
  moreover have "rr_inv (hearing e k)"
    using sampleStack_rr_inv by (simp add: hearing_def rr_inv_def)
  ultimately show "net_inv (hearing e k)" by (simp add: net_inv_def hearing_def lk_select_defs)
  show "NodeConfigured (hearing e k)"
    by (simp add: NodeConfigured_def hearing_def get_attribute_def IS_CONFIGURED_def)
qed (simp_all add: hearing_def queue_list_Put QueueHead_eq)

lemma sampleLk_fields [simp]:
  "lksNpdu (sampleLk n code s) = npdu_of n code s"
  "lksPduSize (sampleLk n code s) = length (lksNpdu (sampleLk n code s))"
  "lk_carried (sampleLk n code s) (sampleIn (sampleLk n code s))"
  by (simp_all add: sampleLk_def fill_npdu_def lk_carried_def sampleIn_def)

text \<open>The sample domain with another length of its identifier, and another node in it.\<close>

definition domainOf :: "u8 \<Rightarrow> u8 \<Rightarrow> IzotDomain" where
  "domainOf len node = sampleDomain\<lparr>domInvalidIdLength := len, domNodeClone := node\<rparr>"

definition senderStack :: "u8 \<Rightarrow> stack" where
  "senderStack len = sampleStack\<lparr>domainTable := [domainOf len 0x8A, sampleDomain1]\<rparr>"

lemma sampleOut_fields [simp]:
  "dstAddr (nwsDestAddr (sampleOut d)) = d" "domainIndex (dstDmn (nwsDestAddr (sampleOut d))) = 0"
  "nwsPduType (sampleOut d) = TPDU_TYPE" "nwsPduSize (sampleOut d) = 3"
  "nwsPdu (sampleOut d) = [0x05, 0x21, 0x22]" "nwsDropIfUnconfigured (sampleOut d) = False"
  by (simp_all add: sampleOut_def) (simp_all add: sampleNws_def sampleDst_def sampleDmn_def)

lemma senderStack_fields [simp]:
  "own_domain (senderStack len) 0 = Some (domainOf len 0x8A)" "nwOutBufSize (senderStack len) = 255"
  "domainTable (senderStack len) = [domainOf len 0x8A, sampleDomain1]"
  by (simp_all add: senderStack_def own_domain_def numDomains_def)

lemma sampleOut_sendable:
  "dest_fmt (addressModeOf d) = Some fmt \<Longrightarrow> sendable (sampleOut d) (senderStack 1) = Some 1"
  "dest_fmt (addressModeOf d) = Some fmt \<Longrightarrow> sendable (sampleOut d) (senderStack 6) = Some 3"
proof -
  assume f: "dest_fmt (addressModeOf d) = Some fmt"
  have "length (dest_bytes d) \<le> 7" by (cases d) (simp_all add: IZOT_UNIQUE_ID_LENGTH_def)
  then show "sendable (sampleOut d) (senderStack 1) = Some 1" "sendable (sampleOut d) (senderStack 6) = Some 3"
    using f by (simp_all add: sendable_def send_domain_def domainOf_def EncodeDomainLength_def
        send_refused_def npdu_header_def get_attribute_def)
qed

lemma sample_exchange:
  "same_domain (domainOf 1 0x8A) (domainOf 1 0x94)"
  "addressed_to (DA_SubnetNode sampleSn) (hearing (domainOf 1 0x94) k)"
  "send_source (sampleOut (DA_SubnetNode sampleSn)) (senderStack 1) \<noteq>
     [domSubnet (domainOf 1 0x94), domNodeClone (domainOf 1 0x94)]"
  "IZOT_DOMAIN_ID_LENGTH (domainOf 1 0x8A) \<noteq> 6" "IZOT_DOMAIN_INVALID (domainOf 1 n) = 0"
  "IZOT_DOMAIN_NONCLONE (domainOf 1 0x8A) = 1" "has_room (emptyQueue 4 x)"
  "IZOT_DOMAIN_ID_LENGTH (domainOf 6 0x8A) = 6"
  by (simp_all add: same_domain_def domainOf_def addressed_to_def own_address_def sampleDomain_def sampleSn_def
      set_selField_def set_attribute_def send_source_def get_attribute_def has_room_def emptyQueue_def)

theorem npdu_reaches_its_destination_witness:
  "\<exists>t. queue_list (tsaInQ (NetworkLayerReceive sampleSrc False
       (hearing (domainOf 1 0x94) (sampleLk (sampleOut (DA_SubnetNode sampleSn)) 1 (senderStack 1))))) = [t] \<and>
     carried (sampleOut (DA_SubnetNode sampleSn)) t"
  using npdu_reaches_its_destination [OF sampleOut_sendable(1) _ sampleLk_fields hearing_fields(1-3),
      of "DA_SubnetNode sampleSn" 2 "domainOf 1 0x8A" "domainOf 1 0x94" sampleSrc False]
  by (simp add: sample_exchange) blast

lemma sample_npdu_received:
  "\<exists>t. queue_list (tsaInQ (NetworkLayerReceive sampleSrc False
       (hearing (domainOf 1 0x94) (sampleLk (sampleOut (DA_SubnetNode sampleSn)) 1 (senderStack 1))))) = [t]"
  using npdu_received [OF sampleOut_sendable(1) _ sampleLk_fields hearing_fields(1-3),
      of "DA_SubnetNode sampleSn" 2 "domainOf 1 0x8A" "domainOf 1 0x94" sampleSrc False]
  by (simp add: sample_exchange) blast

theorem own_packets_are_discarded_witness:
  "NetworkLayerReceive sampleSrc False (hearing (domainOf 1 0x8A) (sampleLk (sampleOut (DA_Broadcast 0)) 1 (senderStack 1))) =
   nw_discard (hearing (domainOf 1 0x8A) (sampleLk (sampleOut (DA_Broadcast 0)) 1 (senderStack 1)))"
  using own_packets_are_discarded [OF sampleOut_sendable(1) _ sampleLk_fields hearing_fields(1-3),
      of "DA_Broadcast 0" 0 "domainOf 1 0x8A" sampleSrc False]
  by (simp add: sample_exchange)

theorem six_byte_domains_are_never_heard_witness:
  "NetworkLayerReceive sampleSrc False (hearing (domainOf 6 0x94) (sampleLk (sampleOut (DA_Broadcast 0)) 3 (senderStack 6))) =
   nw_discard (hearing (domainOf 6 0x94) (sampleLk (sampleOut (DA_Broadcast 0)) 3 (senderStack 6)))"
  by (rule six_byte_domains_are_never_heard [OF sampleOut_sendable(2) [of "DA_Broadcast 0" 0] _ _
      sampleLk_fields hearing_fields(1-2)]) (simp_all add: sample_exchange(8), simp add: domainOf_def get_attribute_def)

theorem only_matching_npdus_are_received_witness:
  "npdu_domainLen (npdu_of (sampleOut (DA_SubnetNode sampleSn)) 1 (senderStack 1)) \<in> {0, 1, 3}"
proof -
  let ?k = "sampleLk (sampleOut (DA_SubnetNode sampleSn)) 1 (senderStack 1)"
  let ?b = "hearing (domainOf 1 0x94) ?k"
  obtain t where "queue_list (tsaInQ (NetworkLayerReceive sampleSrc False ?b)) = [t]"
    using sample_npdu_received by blast
  then have "queue_list (tsaInQ (NetworkLayerReceive sampleSrc False ?b)) \<noteq> queue_list (tsaInQ ?b)" by simp
  then show ?thesis
    using only_matching_npdus_are_received [OF hearing_fields(1,2) refl, of sampleSrc False "domainOf 1 0x94" ?k]
    by (simp add: Let_def sampleIn_def)
qed

definition outStack :: stack where
  "outStack = sampleStack\<lparr>nwOutQ := QueuePut (sampleOut (DA_Broadcast 0)) (emptyQueue 4 sampleNws)\<rparr>"

lemma outStack_facts:
  "net_inv outStack" "QueueHead (nwQ False outStack) = Some (sampleOut (DA_Broadcast 0))"
  "queue_list (nwOutPriQ outStack) = []" "lkQ False outStack = emptyQueue 4 sampleLks"
  "sendable (sampleOut (DA_Broadcast 0)) outStack = Some 1"
proof -
  have "tsa_inv outStack"
    by (rule tsa_inv_cong [OF _ _ _ _ _ _ _ _ _ sampleStack_tsa_inv])
      (auto simp: outStack_def tsa_select_defs tcs_select_defs)
  moreover have "rr_inv outStack" using sampleStack_rr_inv by (simp add: outStack_def rr_inv_def)
  ultimately show "net_inv outStack" by (simp add: net_inv_def outStack_def lk_select_defs)
  show "sendable (sampleOut (DA_Broadcast 0)) outStack = Some 1"
    by (simp add: sendable_def send_domain_def own_domain_def numDomains_def outStack_def sampleDomain_def
        EncodeDomainLength_def send_refused_def npdu_header_def get_attribute_def)
qed (simp_all add: outStack_def nwQ_def lkQ_def queue_list_Put QueueHead_eq)

theorem message_is_sent_or_given_up_witness: "\<exists>k. queue_list (lkQ False (NetworkLayerSend outStack)) = [k]"
  using message_is_sent_or_given_up [OF outStack_facts(1,2) _ refl] outStack_facts(3-5)
  by (auto simp: has_room_def emptyQueue_def queue_list_def)

section \<open>Reset\<close>

text \<open>
  The memory that the allocator returns for the three queues, and the sizes of the two
  structures that precede the PDU in an entry, are arguments.
\<close>

record nw_memory =
  memNwIn :: "NWReceiveParam list option"
  memNwOut :: "NWSendParam list option"
  memNwOutPri :: "NWSendParam list option"

definition NW_IN_BUF_SIZE :: u8 where "NW_IN_BUF_SIZE = 0"

definition nw_reset_in :: "nat \<Rightarrow> nw_memory \<Rightarrow> stack \<Rightarrow> reset_result" where
  "nw_reset_in sizeofIn mem s =
     and_then (reset_decode (DecodeBufferSize NW_IN_BUF_SIZE) (\<lambda>n. s\<lparr>nwInBufSize := n\<rparr>) s) (\<lambda>s.
     and_then (reset_decode (DecodeBufferCnt (IZOT_READONLY_NW_INBUF_CNT (readOnlyData s)))
                 (\<lambda>n. s\<lparr>nwInQCnt := n\<rparr>) s) (\<lambda>s.
     reset_queue (QueueInit (nwInQ s) (Some ''network layer input'')
                    (nwInBufSize s + sizeofIn) (nwInQCnt s) (memNwIn mem))
       (\<lambda>q. s\<lparr>nwInQ := q\<rparr>)))"

text \<open>The entries of the output queue get the size computed for the input queue.\<close>

definition nw_reset_out :: "nat \<Rightarrow> nw_memory \<Rightarrow> stack \<Rightarrow> reset_result" where
  "nw_reset_out sizeofIn mem s =
     and_then (reset_decode (DecodeBufferSize (IZOT_READONLY_NW_OUTBUF_SIZE (readOnlyData s)))
                 (\<lambda>n. s\<lparr>nwOutBufSize := n\<rparr>) s) (\<lambda>s.
     and_then (reset_decode (DecodeBufferCnt (IZOT_READONLY_NW_OUTBUF_CNT (readOnlyData s)))
                 (\<lambda>n. s\<lparr>nwOutQCnt := n\<rparr>) s) (\<lambda>s.
     reset_queue (QueueInit (nwOutQ s) (Some ''network layer output'')
                    (nwInBufSize s + sizeofIn) (nwOutQCnt s) (memNwOut mem))
       (\<lambda>q. s\<lparr>nwOutQ := q\<rparr>)))"

definition nw_reset_out_pri :: "nat \<Rightarrow> nw_memory \<Rightarrow> stack \<Rightarrow> reset_result" where
  "nw_reset_out_pri sizeofOut mem s =
     (let s = s\<lparr>nwOutPriBufSize := nwOutBufSize s\<rparr>
      in and_then (reset_decode (DecodeBufferCnt (IZOT_READONLY_NW_OUT_PRICNT (readOnlyData s)))
                     (\<lambda>n. s\<lparr>nwOutPriQCnt := n\<rparr>) s) (\<lambda>s.
         if nwOutPriQCnt s < 1 then Inl (LonStatusNoError, s\<lparr>resetOk := False\<rparr>)
         else reset_queue (QueueInit (nwOutPriQ s) (Some ''network layer priority output'')
                        (nwOutPriBufSize s + sizeofOut) (nwOutPriQCnt s) (memNwOutPri mem))
           (\<lambda>q. s\<lparr>nwOutPriQ := q\<rparr>)))"

definition NetworkLayerReset :: "nat \<Rightarrow> nat \<Rightarrow> nw_memory \<Rightarrow> stack \<Rightarrow> LonStatusCode \<times> stack" where
  "NetworkLayerReset sizeofIn sizeofOut mem s =
     (case and_then (nw_reset_in sizeofIn mem s) (\<lambda>s.
           and_then (nw_reset_out sizeofIn mem s) (nw_reset_out_pri sizeofOut mem)) of
        Inl r \<Rightarrow> r
      | Inr s \<Rightarrow> (LonStatusNoError, s))"

definition nw_memory_fits :: "nat \<Rightarrow> nat \<Rightarrow> nw_memory \<Rightarrow> stack \<Rightarrow> bool" where
  "nw_memory_fits sizeofIn sizeofOut mem s \<longleftrightarrow>
     0 < sizeofIn \<and> sizeofIn < 60000 \<and> 0 < sizeofOut \<and> sizeofOut < 60000 \<and>
     (case (DecodeBufferCnt (IZOT_READONLY_NW_INBUF_CNT (readOnlyData s)),
            DecodeBufferCnt (IZOT_READONLY_NW_OUTBUF_CNT (readOnlyData s)),
            DecodeBufferCnt (IZOT_READONLY_NW_OUT_PRICNT (readOnlyData s)),
            DecodeBufferSize (IZOT_READONLY_NW_OUTBUF_SIZE (readOnlyData s))) of
        (Inr nIn, Inr nOut, Inr nPri, Inr outSize) \<Rightarrow>
          0 < nIn \<and> 0 < nOut \<and> outSize < 1000 \<and>
          map_option length (memNwIn mem) = Some nIn \<and>
          map_option length (memNwOut mem) = Some nOut \<and>
          map_option length (memNwOutPri mem) = Some nPri
      | _ \<Rightarrow> False)"

text \<open>
  A reset of the network layer: with usable counts and the memory for them it leaves three
  empty well-formed queues and reports success. When the priority count decodes to 0 it
  still returns \<open>LonStatusNoError\<close>, and only \<open>resetOk\<close> tells. The entries of the priority output
  queue hold the parameters of a packet to send and a PDU of the configured size; those of
  the output queue have the size of a received packet's parameters and of the input buffer
  instead.
\<close>

theorem network_reset_ready:
  assumes "nw_memory_fits sizeofIn sizeofOut mem s" "resetOk s"
  shows "(case NetworkLayerReset sizeofIn sizeofOut mem s of (st, s') \<Rightarrow>
    st = LonStatusNoError \<and>
    resetOk s' = (DecodeBufferCnt (IZOT_READONLY_NW_OUT_PRICNT (readOnlyData s)) \<noteq> Inr 0) \<and>
    (resetOk s' \<longrightarrow>
       queue_wf (nwInQ s') \<and> queue_list (nwInQ s') = [] \<and>
       (\<forall>pri. queue_wf (nwQ pri s') \<and> queue_list (nwQ pri s') = []) \<and>
       DecodeBufferSize (IZOT_READONLY_NW_OUTBUF_SIZE (readOnlyData s)) = Inr (nwOutBufSize s') \<and>
       nwOutPriBufSize s' = nwOutBufSize s' \<and>
       entrySize (nwOutPriQ s') = sizeofOut + nwOutBufSize s' \<and>
       entrySize (nwOutQ s') = sizeofIn + 255))"
proof -
  obtain nIn nOut nPri outSize where cnt:
      "DecodeBufferCnt (IZOT_READONLY_NW_INBUF_CNT (readOnlyData s)) = Inr nIn"
      "DecodeBufferCnt (IZOT_READONLY_NW_OUTBUF_CNT (readOnlyData s)) = Inr nOut"
      "DecodeBufferCnt (IZOT_READONLY_NW_OUT_PRICNT (readOnlyData s)) = Inr nPri"
      "DecodeBufferSize (IZOT_READONLY_NW_OUTBUF_SIZE (readOnlyData s)) = Inr outSize"
    and pos: "0 < nIn" "0 < nOut" "outSize < 1000"
    and sz: "0 < sizeofIn" "sizeofIn < 60000" "0 < sizeofOut" "sizeofOut < 60000"
    and len: "map_option length (memNwIn mem) = Some nIn" "map_option length (memNwOut mem) = Some nOut"
      "map_option length (memNwOutPri mem) = Some nPri"
    using assms(1) by (auto simp: nw_memory_fits_def split: sum.splits)
  obtain d1 d2 d3 where d: "memNwIn mem = Some d1" "memNwOut mem = Some d2" "memNwOutPri mem = Some d3"
      and dl: "length d1 = nIn" "length d2 = nOut" "length d3 = nPri"
    using len by auto
  note b = cnt(1,2,3) [THEN DecodeBufferCnt_bound]
  have in255: "DecodeBufferSize NW_IN_BUF_SIZE = Inr 255"
    by (simp add: DecodeBufferSize_def bufSizeCodeLGbl_def NW_IN_BUF_SIZE_def)
  have esz: "entrySize (newQueue nm e c dd) = e mod 2 ^ 16" for nm e c and dd :: "NWSendParam list"
    by (simp add: newQueue_def QueueInit_def)
  show ?thesis
    using assms(2) pos sz b dl
    by (auto simp: NetworkLayerReset_def nw_reset_in_def nw_reset_out_def nw_reset_out_pri_def Let_def
        in255 cnt d QueueInit_Some newQueue_wf nwQ_def esz)
qed

theorem network_reset_ready_witness:
  "(case NetworkLayerReset 4 40 \<lparr>memNwIn = Some (replicate 2 sampleNwr), memNwOut = Some (replicate 2 sampleNws),
       memNwOutPri = Some [sampleNws]\<rparr> sampleStack of (st, s') \<Rightarrow>
     st = LonStatusNoError \<and> resetOk s' \<and> entrySize (nwOutQ s') < 40 + nwOutBufSize s')"
proof -
  have fits: "nw_memory_fits 4 40 \<lparr>memNwIn = Some (replicate 2 sampleNwr),
      memNwOut = Some (replicate 2 sampleNws), memNwOutPri = Some [sampleNws]\<rparr> sampleStack"
    by (simp add: nw_memory_fits_def DecodeBufferCnt_def bufCntCodeLGbl_def DecodeBufferSize_def
        bufSizeCodeLGbl_def get_attribute_def)
  show ?thesis
    using network_reset_ready [OF fits]
    by (auto simp: DecodeBufferCnt_def bufCntCodeLGbl_def DecodeBufferSize_def bufSizeCodeLGbl_def
        get_attribute_def)
qed

end
