(* ===== verification/Lon_Usb_Link.thy ===== *)
theory Lon_Usb_Link
  imports Lcs_Ring Lcs_Timer
begin

text \<open>
  \<^verbatim>\<open>lon_usb/lon_usb_link.c\<close>, what its two directions share, and the downlink: frame headers
  and checksums, byte stuffing, the message queues, the writing of messages and code packets
  to the USB device. The configuration is the default one of the build: a single interface
  (\<open>LINK_IS(USB_MIP)\<close>) that is polled; the interface type is a field, so both the MIP/U50 and the
  MIP/U61 protocol are covered. The startup of the link is in the theory \<open>Lon_Usb_Startup\<close>, the
  uplink in \<open>Lon_Usb_Uplink\<close>.

  Mutexes are left out: every function runs to its end on the state. \<open>now\<close> is the value of
  \<open>OsalGetTickCount\<close> during a call. \<open>hal k buf\<close> is what the \<open>k\<close>-th call of \<open>HalWriteUsb\<close> returns for
  the buffer: its status and the number of bytes that went out. The bytes that went out are
  the ghost field \<open>usbOut\<close>.
\<close>

section \<open>Frames\<close>

definition FRAME_SYNC :: u8 where "FRAME_SYNC = 0x7E"

definition EXT_LENGTH :: u8 where "EXT_LENGTH = 0xFF"

definition MAX_LON_MSG_EX_LEN :: nat where "MAX_LON_MSG_EX_LEN = 1280"

definition MAX_EXP_LON_MSG_EX_LEN :: nat where
  "MAX_EXP_LON_MSG_EX_LEN = 2 * MAX_LON_MSG_EX_LEN + 4"

text \<open>\<open>LonUsbFrameCommand\<close>; the field has four bits, so any value below 16 can arrive.\<close>

definition NULL_FRAME_CMD :: u8 where "NULL_FRAME_CMD = 0"
definition FAIL_FRAME_CMD :: u8 where "FAIL_FRAME_CMD = 1"
definition MSG_FRAME_CMD :: u8 where "MSG_FRAME_CMD = 2"
definition MSG_REJECT_FRAME_CMD :: u8 where "MSG_REJECT_FRAME_CMD = 5"
definition SHORT_NI_CMD_FRAME_CMD :: u8 where "SHORT_NI_CMD_FRAME_CMD = 6"
definition NI_RESYNC_FRAME_CMD :: u8 where "NI_RESYNC_FRAME_CMD = 7"

text \<open>\<open>LonNiCommand\<close>: the commands that the driver knows.\<close>

definition LonNiClearCmd :: u8 where "LonNiClearCmd = 0x00"
definition LonNiNetworkMgmtCmd :: u8 where "LonNiNetworkMgmtCmd = 0x12"
definition LonNiPriorityMsgCmd :: u8 where "LonNiPriorityMsgCmd = 0x10 OR 0x03"
definition LonNiResponseCmd :: u8 where "LonNiResponseCmd = 0x16"
definition LonNiLocalNetMgmtCmd :: u8 where "LonNiLocalNetMgmtCmd = 0x22"
definition LonNiError :: u8 where "LonNiError = 0x30"
definition LonNiCrcError :: u8 where "LonNiCrcError = 0x31"
definition LonNiResetDeviceCmd :: u8 where "LonNiResetDeviceCmd = 0x50"
definition LonNiInitiateCmd :: u8 where "LonNiInitiateCmd = 0x51"
definition LonNiChallengeResponse :: u8 where "LonNiChallengeResponse = 0x52"
definition LonNiAckCmd :: u8 where "LonNiAckCmd = 0xC0"
definition LonNiNackCmd :: u8 where "LonNiNackCmd = 0xC1"
definition LonNiDriverCmdMask :: u8 where "LonNiDriverCmdMask = 0xD0"
definition LonNiSetL5ModeCmd :: u8 where "LonNiSetL5ModeCmd = 0xD0"
definition LonNiSetL2ModeCmd :: u8 where "LonNiSetL2ModeCmd = 0xD1"
definition LonNiStatusCmd :: u8 where "LonNiStatusCmd = 0xE0"
definition LonNiLayerModeCmd :: u8 where "LonNiLayerModeCmd = 0xE5"

lemmas ni_commands =
  LonNiClearCmd_def LonNiNetworkMgmtCmd_def LonNiPriorityMsgCmd_def LonNiResponseCmd_def
  LonNiLocalNetMgmtCmd_def LonNiError_def LonNiCrcError_def LonNiResetDeviceCmd_def
  LonNiInitiateCmd_def LonNiChallengeResponse_def LonNiAckCmd_def LonNiNackCmd_def
  LonNiDriverCmdMask_def LonNiSetL5ModeCmd_def LonNiSetL2ModeCmd_def LonNiStatusCmd_def
  LonNiLayerModeCmd_def

lemmas frame_commands =
  NULL_FRAME_CMD_def FAIL_FRAME_CMD_def MSG_FRAME_CMD_def MSG_REJECT_FRAME_CMD_def
  SHORT_NI_CMD_FRAME_CMD_def NI_RESYNC_FRAME_CMD_def

record LonFrameHeader =
  frameSync :: u8
  frameCode :: u8
  frameParameter :: u8
  frameChecksum :: u8

abbreviation FRAME_CODE_CMD :: "LonFrameHeader \<Rightarrow> u8" where
  "FRAME_CODE_CMD h \<equiv> get_attribute 0x0F 0 (frameCode h)"

abbreviation FRAME_CODE_ACK :: "LonFrameHeader \<Rightarrow> u8" where
  "FRAME_CODE_ACK h \<equiv> get_attribute 0x10 4 (frameCode h)"

abbreviation FRAME_CODE_SEQ :: "LonFrameHeader \<Rightarrow> u8" where
  "FRAME_CODE_SEQ h \<equiv> get_attribute 0xE0 5 (frameCode h)"

definition set_frame_cmd :: "u8 \<Rightarrow> LonFrameHeader \<Rightarrow> LonFrameHeader" where
  "set_frame_cmd v h = h\<lparr>frameCode := set_attribute 0x0F 0 v (frameCode h)\<rparr>"

definition set_frame_ack :: "u8 \<Rightarrow> LonFrameHeader \<Rightarrow> LonFrameHeader" where
  "set_frame_ack v h = h\<lparr>frameCode := set_attribute 0x10 4 v (frameCode h)\<rparr>"

definition set_frame_seq :: "u8 \<Rightarrow> LonFrameHeader \<Rightarrow> LonFrameHeader" where
  "set_frame_seq v h = h\<lparr>frameCode := set_attribute 0xE0 5 v (frameCode h)\<rparr>"

definition header_bytes :: "LonFrameHeader \<Rightarrow> bytes" where
  "header_bytes h = [frameSync h, frameCode h, frameParameter h, frameChecksum h]"

definition ComputeChecksum :: "bytes \<Rightarrow> nat \<Rightarrow> u8" where
  "ComputeChecksum pkt len = sum_list (bytes_from pkt 0 len)"

definition CreateFrameHeader :: "u8 \<Rightarrow> u8 \<Rightarrow> u8 \<Rightarrow> bool \<Rightarrow> LonFrameHeader \<Rightarrow> LonFrameHeader" where
  "CreateFrameHeader cmd parameter seqNum ack h =
     (let h1 = set_frame_ack (if ack then 1 else 0)
                 (set_frame_seq seqNum (set_frame_cmd cmd (h\<lparr>frameSync := FRAME_SYNC\<rparr>)));
          h2 = h1\<lparr>frameParameter := parameter\<rparr>
      in h2\<lparr>frameChecksum := - ComputeChecksum (header_bytes h2) 3\<rparr>)"

text \<open>
  The stuffing loop of \<open>WriteDownlinkMessage\<close>: the bytes written so far and the length that is
  expected at the end; \<open>None\<close> is the return with \<open>LonStatusInvalidBufferLength\<close>.
\<close>

fun expand_loop :: "bytes \<Rightarrow> bytes \<Rightarrow> nat \<Rightarrow> (bytes \<times> nat) option" where
  "expand_loop [] dest n = Some (dest, n)"
| "expand_loop (b # src) dest n =
     (let (dest', n') = (if b = FRAME_SYNC then (dest @ [b, FRAME_SYNC], n + 1) else (dest @ [b], n))
      in if n' \<ge> MAX_EXP_LON_MSG_EX_LEN - 2 then None else expand_loop src dest' n')"

definition expand_message :: "bytes \<Rightarrow> nat \<Rightarrow> (bytes \<times> nat) option" where
  "expand_message src len =
     (let checksum = - ComputeChecksum src len
      in case expand_loop (bytes_from src 0 len) [] len of
           None \<Rightarrow> None
         | Some (dest, n) \<Rightarrow>
             (if checksum = FRAME_SYNC then Some (dest @ [checksum, FRAME_SYNC], n + 2)
              else Some (dest @ [checksum], n + 1)))"

definition GetExpectedResponse :: "u8 \<Rightarrow> u8" where
  "GetExpectedResponse cmd =
     (if cmd = LonNiStatusCmd \<or> cmd = LonNiSetL5ModeCmd \<or> cmd = LonNiSetL2ModeCmd then cmd
      else if cmd = LonNiInitiateCmd then LonNiChallengeResponse
      else LonNiClearCmd)"

section \<open>The state of the link\<close>

datatype MessagePriorityLevel = NORMAL_PRIORITY | HIGH_PRIORITY | ALL_PRIORITIES

datatype LonUsbIfaceType = LON_USB_INTERFACE_U50 | LON_USB_INTERFACE_U61

text \<open>
  A frame is kept as its bytes: a \<open>LonNiFrame\<close> is the length, the command and the PDU, 1282
  bytes in all; a \<open>LonNiExtendedFrame\<close> is the same bytes, the third and fourth of them the
  length.
\<close>

definition LON_NI_FRAME_SIZE :: nat where "LON_NI_FRAME_SIZE = MAX_LON_MSG_EX_LEN + 2"

record LonUsbQueueBuffer =
  bufSize :: nat
  dataFrameSize :: nat
  bufPriority :: MessagePriorityLevel
  bufHeader :: LonFrameHeader
  bufFrame :: bytes

abbreviation frame_length :: "LonUsbQueueBuffer \<Rightarrow> u8" where
  "frame_length b \<equiv> byte_at (bufFrame b) 0"

abbreviation frame_command :: "LonUsbQueueBuffer \<Rightarrow> u8" where
  "frame_command b \<equiv> byte_at (bufFrame b) 1"

abbreviation frame_pdu :: "LonUsbQueueBuffer \<Rightarrow> nat \<Rightarrow> u8" where
  "frame_pdu b i \<equiv> byte_at (bufFrame b) (2 + i)"

text \<open>\<open>LonDataFrame\<close>, the frame as the stack passes it.\<close>

record LonDataFrame =
  dfCommand :: u8
  dfLength :: u8
  dfPdu :: bytes

datatype DownlinkState =
    DOWNLINK_START
  | DOWNLINK_WAIT_STARTUP_RESET
  | DOWNLINK_WAIT_STARTUP_RESYNC_ACK
  | DOWNLINK_WAIT_RESYNC_RESET
  | DOWNLINK_LAYER_5_REQUEST
  | DOWNLINK_WAIT_LAYER_5_ACK
  | DOWNLINK_WAIT_L5_RESYNC_ACK
  | DOWNLINK_WAIT_L5_RESET
  | DOWNLINK_NI_UNIQUE_ID_REQUEST
  | DOWNLINK_WAIT_NI_UNIQUE_ID
  | DOWNLINK_LAYER_2_REQUEST
  | DOWNLINK_WAIT_LAYER_2_ACK
  | DOWNLINK_WAIT_L2_RESYNC_ACK
  | DOWNLINK_WAIT_L2_RESET
  | DOWNLINK_MIP_STATUS_REQUEST
  | DOWNLINK_WAIT_MIP_STATUS
  | DOWNLINK_IDLE_START
  | DOWNLINK_IDLE
  | DOWNLINK_WAIT_CP_ACK
  | DOWNLINK_WAIT_MSG_ACK
  | DOWNLINK_WAIT_CP_MSG_REQ_ACK
  | DOWNLINK_WAIT_CP_RESPONSE
  | DOWNLINK_INVALID

text \<open>The code compares the states by their numbers in two places.\<close>

definition downlink_running :: "DownlinkState \<Rightarrow> bool" where
  "downlink_running d \<longleftrightarrow> d \<in> {DOWNLINK_IDLE_START, DOWNLINK_IDLE, DOWNLINK_WAIT_CP_ACK,
     DOWNLINK_WAIT_MSG_ACK, DOWNLINK_WAIT_CP_MSG_REQ_ACK, DOWNLINK_WAIT_CP_RESPONSE, DOWNLINK_INVALID}"

definition downlink_waiting :: "DownlinkState \<Rightarrow> bool" where
  "downlink_waiting d \<longleftrightarrow> d \<in> {DOWNLINK_WAIT_CP_ACK, DOWNLINK_WAIT_MSG_ACK,
     DOWNLINK_WAIT_CP_MSG_REQ_ACK, DOWNLINK_WAIT_CP_RESPONSE, DOWNLINK_INVALID}"

datatype UplinkState =
    UPLINK_IDLE
  | UPLINK_FRAME_CODE
  | UPLINK_FRAME_PARAMETER
  | UPLINK_CODE_PACKET_CHECKSUM
  | UPLINK_MESSAGE
  | UPLINK_ESCAPED_DATA
  | UPLINK_INVALID

text \<open>\<open>LonUsbInterfaceMode\<close>; a status response can put any byte into the field.\<close>

definition LON_IFACE_MODE_LAYER5 :: int where "LON_IFACE_MODE_LAYER5 = 0"
definition LON_IFACE_MODE_LAYER2 :: int where "LON_IFACE_MODE_LAYER2 = 1"
definition LON_IFACE_MODE_UNKNOWN :: int where "LON_IFACE_MODE_UNKNOWN = - 1"

record LonUsbStats =
  stPacketsReceived :: nat
  stBytesReceived :: u32
  stRxChecksumErrors :: nat
  stRxCodePacketFailures :: nat
  stRxCrcErrors :: nat
  stRxFrameErrors :: nat
  stRxTimeoutErrors :: nat
  stRxAckTimeoutErrors :: nat
  stRxDuplicates :: nat
  stPacketsSent :: nat
  stBytesSent :: u32
  stTxAbortedErrors :: nat
  stTxRejects :: nat
  stBytesFed :: nat
  stBytesRead :: nat
  stBytesDropped :: nat
  stMaxOccupancy :: nat
  stRxCapacity :: nat
  stChannelTypeId :: int
  stL2L5Mode :: int
  stNiModelId :: u8
  stNiFwVersion :: u8
  stNiStatus :: int
  stStartupTime :: u32
  stRuntime :: LonWatch

record usb_link =
  usbShutdown :: bool
  wait_for_reset :: bool
  have_reset :: bool
  wait_for_null :: bool
  have_null :: bool
  wait_for_uid :: bool
  uid_retries :: int
  have_uid :: bool
  wait_for_status :: bool
  status_retries :: int
  have_status :: bool
  usbReady :: bool
  iface_type :: LonUsbIfaceType
  usbUid :: bytes
  configured_iface_mode :: int
  current_iface_mode :: int
  lon_stats :: LonUsbStats
  llp_timeout :: u32
  start_time :: u32
  last_timeout :: u32
  uplink_state :: UplinkState
  reset_wait_timer :: u32
  null_wait_timer :: u32
  uid_wait_timer :: u32
  status_wait_timer :: u32
  uplink_msg_timer :: u32
  uplink_frame_error :: bool
  uplink_duplicate :: bool
  uplink_buffer :: LonUsbQueueBuffer
  uplink_msg_index :: nat
  uplink_msg_length :: nat
  uplink_seq_number :: int
  uplink_ack_timer :: u32
  uplink_ack_timeout :: u32
  uplink_ack_timeouts :: int
  uplink_ack_timeout_phase :: int
  uplink_expected_rsp :: u8
  downlink_state :: DownlinkState
  downlink_reject_timer :: u32
  downlink_buffer_staging :: LonUsbQueueBuffer
  downlink_buffer :: LonUsbQueueBuffer
  downlink_seq_number :: nat
  downlink_ack_seq_number :: int
  downlink_normal_queue :: "LonUsbQueueBuffer Queue"
  downlink_priority_queue :: "LonUsbQueueBuffer Queue"
  uplink_normal_queue :: "LonUsbQueueBuffer Queue"
  uplink_priority_queue :: "LonUsbQueueBuffer Queue"
  uplink_ring_buffer :: RingBuffer
  usbOut :: "bytes list"
  usbFault :: bool

text \<open>
  \<open>Increment32\<close> and \<open>Add32\<close>. The first is applied to \<open>size_t\<close> counters, the second computes in
  32 bits.
\<close>

definition Increment32 :: "nat \<Rightarrow> nat" where
  "Increment32 x = (if x \<noteq> 0xFFFFFFFF then x + 1 else x)"

definition Add32 :: "u32 \<Rightarrow> nat \<Rightarrow> u32" where
  "Add32 x inc = (let res = x + of_nat inc in if res < x then 0xFFFFFFFF else res)"

definition NO_ACK_REQUIRED :: int where "NO_ACK_REQUIRED = - 2"
definition ACK_WITH_NEXT_SEQ_NUM :: int where "ACK_WITH_NEXT_SEQ_NUM = - 1"

definition ACK_WAIT_TIME :: u32 where "ACK_WAIT_TIME = 500"

definition set_stats :: "(LonUsbStats \<Rightarrow> LonUsbStats) \<Rightarrow> usb_link \<Rightarrow> usb_link" where
  "set_stats f s = s\<lparr>lon_stats := f (lon_stats s)\<rparr>"

section \<open>Queues of messages\<close>

text \<open>
  \<open>memcpy(dst, src, n)\<close> of a \<open>LonUsbQueueBuffer\<close>, whose fields are at the offsets 0, 8, 16, 20 and
  24 (on a 64-bit processor). The code copies as many bytes as the field \<open>buf_size\<close> says, and
  keeps the rest of the destination.
\<close>

definition BUF_FRAME_OFFSET :: nat where "BUF_FRAME_OFFSET = 24"
definition SIZEOF_QUEUE_BUFFER :: nat where "SIZEOF_QUEUE_BUFFER = 1312"

definition copy_header :: "nat \<Rightarrow> LonFrameHeader \<Rightarrow> LonFrameHeader \<Rightarrow> LonFrameHeader" where
  "copy_header n src dst =
     \<lparr>frameSync = frameSync (if 1 \<le> n then src else dst),
      frameCode = frameCode (if 2 \<le> n then src else dst),
      frameParameter = frameParameter (if 3 \<le> n then src else dst),
      frameChecksum = frameChecksum (if 4 \<le> n then src else dst)\<rparr>"

definition copy_buffer :: "nat \<Rightarrow> LonUsbQueueBuffer \<Rightarrow> LonUsbQueueBuffer \<Rightarrow> LonUsbQueueBuffer" where
  "copy_buffer n src dst =
     \<lparr>bufSize = bufSize (if 8 \<le> n then src else dst),
      dataFrameSize = dataFrameSize (if 16 \<le> n then src else dst),
      bufPriority = bufPriority (if 20 \<le> n then src else dst),
      bufHeader = copy_header (n - 20) (bufHeader src) (bufHeader dst),
      bufFrame = take (n - BUF_FRAME_OFFSET) (bufFrame src) @ drop (n - BUF_FRAME_OFFSET) (bufFrame dst)\<rparr>"

definition MAX_LON_DOWNLINK_BUFFERS :: nat where "MAX_LON_DOWNLINK_BUFFERS = 16"
definition MAX_LON_UPLINK_BUFFERS :: nat where "MAX_LON_UPLINK_BUFFERS = 16"

definition downlink_queue :: "bool \<Rightarrow> usb_link \<Rightarrow> LonUsbQueueBuffer Queue" where
  "downlink_queue pri s = (if pri then downlink_priority_queue s else downlink_normal_queue s)"

definition set_downlink_queue :: "bool \<Rightarrow> LonUsbQueueBuffer Queue \<Rightarrow> usb_link \<Rightarrow> usb_link" where
  "set_downlink_queue pri q s =
     (if pri then s\<lparr>downlink_priority_queue := q\<rparr> else s\<lparr>downlink_normal_queue := q\<rparr>)"

definition uplink_queue :: "bool \<Rightarrow> usb_link \<Rightarrow> LonUsbQueueBuffer Queue" where
  "uplink_queue pri s = (if pri then uplink_priority_queue s else uplink_normal_queue s)"

definition set_uplink_queue :: "bool \<Rightarrow> LonUsbQueueBuffer Queue \<Rightarrow> usb_link \<Rightarrow> usb_link" where
  "set_uplink_queue pri q s =
     (if pri then s\<lparr>uplink_priority_queue := q\<rparr> else s\<lparr>uplink_normal_queue := q\<rparr>)"

text \<open>The destination of \<open>ReadDownlinkBuffer\<close> is always \<open>downlink_buffer\<close>.\<close>

definition ReadDownlinkBuffer :: "usb_link \<Rightarrow> LonStatusCode \<times> usb_link" where
  "ReadDownlinkBuffer s =
     (let pri = (\<not> QueueEmpty (downlink_priority_queue s)); q = downlink_queue pri s
      in case QueueHead q of
           None \<Rightarrow> (LonStatusNoBufferAvailable, s)
         | Some b \<Rightarrow>
             (LonStatusNoError,
              set_downlink_queue pri (QueueDropHead q)
                (s\<lparr>downlink_buffer := copy_buffer (bufSize b) b (downlink_buffer s)\<rparr>)))"

definition FlushDownlinkQueue :: "MessagePriorityLevel \<Rightarrow> usb_link \<Rightarrow> usb_link" where
  "FlushDownlinkQueue p s =
     (let s1 = (if p = HIGH_PRIORITY \<or> p = ALL_PRIORITIES
                then set_downlink_queue True (QueueFlush (downlink_priority_queue s)) s else s)
      in if p = NORMAL_PRIORITY \<or> p = ALL_PRIORITIES
         then set_downlink_queue False (QueueFlush (downlink_normal_queue s1)) s1 else s1)"

definition QueueDownlinkBuffer :: "LonUsbQueueBuffer \<Rightarrow> usb_link \<Rightarrow> LonStatusCode \<times> usb_link" where
  "QueueDownlinkBuffer src s =
     (let pri = (bufPriority src = HIGH_PRIORITY); q = downlink_queue pri s
      in if QueueTail q = None then (LonStatusInvalidParameter, s)
         else (LonStatusNoError,
               set_downlink_queue pri (QueueEmit (copy_buffer (bufSize src) src) q) s))"

definition GetDownlinkBufferCount :: "usb_link \<Rightarrow> nat" where
  "GetDownlinkBufferCount s =
     QueueEntries (downlink_priority_queue s) + QueueEntries (downlink_normal_queue s)"

definition GetUplinkBufferCount :: "usb_link \<Rightarrow> nat" where
  "GetUplinkBufferCount s =
     QueueEntries (uplink_priority_queue s) + QueueEntries (uplink_normal_queue s)"

section \<open>Resets and timers\<close>

definition zeroHeader :: LonFrameHeader where
  "zeroHeader = \<lparr>frameSync = 0, frameCode = 0, frameParameter = 0, frameChecksum = 0\<rparr>"

definition zeroBuffer :: LonUsbQueueBuffer where
  "zeroBuffer = \<lparr>bufSize = 0, dataFrameSize = 0, bufPriority = NORMAL_PRIORITY,
     bufHeader = zeroHeader, bufFrame = replicate LON_NI_FRAME_SIZE 0\<rparr>"

definition StopAckTimer :: "usb_link \<Rightarrow> LonStatusCode \<times> usb_link" where
  "StopAckTimer s =
     (if usbShutdown s then (LonStatusInvalidInterfaceId, s)
      else (LonStatusNoError,
        s\<lparr>downlink_state := (if downlink_waiting (downlink_state s) then DOWNLINK_IDLE else downlink_state s),
          uplink_ack_timer := 0, uplink_ack_timeout := ACK_WAIT_TIME,
          uplink_ack_timeout_phase := 0, uplink_ack_timeouts := 0\<rparr>))"

definition ResetDownlinkState :: "usb_link \<Rightarrow> LonStatusCode \<times> usb_link" where
  "ResetDownlinkState s =
     (if usbShutdown s then (LonStatusInvalidInterfaceId, s)
      else StopAckTimer
        (s\<lparr>downlink_buffer := (if bufSize (downlink_buffer s) > 0 then zeroBuffer else downlink_buffer s),
           downlink_reject_timer := 0\<rparr>))"

definition StartAckTimer :: "u32 \<Rightarrow> DownlinkState \<Rightarrow> usb_link \<Rightarrow> LonStatusCode \<times> usb_link" where
  "StartAckTimer now next s =
     (if usbShutdown s then (LonStatusInvalidInterfaceId, s)
      else (LonStatusNoError,
        s\<lparr>uplink_ack_timer := now, uplink_ack_timeouts := 0, downlink_state := next\<rparr>))"

definition ResetUplinkState :: "usb_link \<Rightarrow> usb_link" where
  "ResetUplinkState s =
     s\<lparr>uplink_ack_timer := 0, uplink_ack_timeout := ACK_WAIT_TIME, uplink_ack_timeouts := 0,
       uplink_ack_timeout_phase := 0, uplink_duplicate := False, uplink_frame_error := False,
       uplink_msg_index := 0, uplink_msg_length := 0, uplink_msg_timer := 0,
       uplink_state := UPLINK_IDLE\<rparr>"

text \<open>Sequence numbers go round from 1 to 7; 0 is used after a reset only.\<close>

definition next_seq :: "nat \<Rightarrow> nat" where
  "next_seq n = (let m = (n + 1) mod 8 in if m = 0 then 1 else m)"

definition IncrementDownlinkSequence :: "usb_link \<Rightarrow> LonStatusCode \<times> usb_link" where
  "IncrementDownlinkSequence s =
     (if usbShutdown s then (LonStatusInvalidInterfaceId, s)
      else (LonStatusNoError, s\<lparr>downlink_seq_number := next_seq (downlink_seq_number s)\<rparr>))"

section \<open>Writing to the device\<close>

type_synonym hal_write = "nat \<Rightarrow> bytes \<Rightarrow> LonStatusCode \<times> nat"

definition usb_write :: "hal_write \<Rightarrow> bytes \<Rightarrow> usb_link \<Rightarrow> LonStatusCode \<times> nat \<times> usb_link" where
  "usb_write hal buf s =
     (case hal (length (usbOut s)) buf of
        (st, n) \<Rightarrow> (st, n, s\<lparr>usbOut := usbOut s @ [take n buf]\<rparr>))"

text \<open>
  The header of a code packet. The acknowledgement of a received message rides on whatever
  is sent next: its number takes the place of the packet's own.
\<close>

definition code_packet :: "u8 \<Rightarrow> u8 \<Rightarrow> usb_link \<Rightarrow> LonFrameHeader" where
  "code_packet cmd parameter s =
     (let ack = downlink_ack_seq_number s;
          h = set_frame_cmd cmd (zeroHeader\<lparr>frameSync := FRAME_SYNC\<rparr>);
          h1 = (if ack \<ge> 0 then set_frame_seq (word_of_int ack) h
                else if cmd = MSG_FRAME_CMD \<or> ack = ACK_WITH_NEXT_SEQ_NUM
                then set_frame_seq (of_nat (downlink_seq_number s)) h else h);
          h2 = (if ack > NO_ACK_REQUIRED \<and> cmd \<noteq> FAIL_FRAME_CMD then set_frame_ack 1 h1 else h1);
          h3 = h2\<lparr>frameParameter := parameter\<rparr>
      in h3\<lparr>frameChecksum := - ComputeChecksum (header_bytes h3) 3\<rparr>)"

definition WriteDownlinkCodePacket ::
    "hal_write \<Rightarrow> u8 \<Rightarrow> u8 \<Rightarrow> usb_link \<Rightarrow> LonStatusCode \<times> usb_link" where
  "WriteDownlinkCodePacket hal cmd parameter s =
     (if usbShutdown s then (LonStatusInvalidInterfaceId, s)
      else
        (let s1 = (if downlink_ack_seq_number s > NO_ACK_REQUIRED
                   then s\<lparr>downlink_ack_seq_number := NO_ACK_REQUIRED\<rparr> else s)
         in case usb_write hal (header_bytes (code_packet cmd parameter s)) s1 of
              (st, n, s2) \<Rightarrow>
                if st \<noteq> LonStatusNoError then (st, s2)
                else if n \<noteq> 4 then (LonStatusLniWriteFailure, s2)
                else (LonStatusNoError,
                      if cmd = NI_RESYNC_FRAME_CMD
                      then s2\<lparr>downlink_seq_number := 0, uplink_seq_number := 0\<rparr> else s2)))"

text \<open>The command is taken from the staging buffer, not from the buffer that was read.\<close>

definition WriteDownlinkLocalNiCmd :: "hal_write \<Rightarrow> u32 \<Rightarrow> usb_link \<Rightarrow> LonStatusCode \<times> usb_link" where
  "WriteDownlinkLocalNiCmd hal now s =
     (if usbShutdown s then (LonStatusInvalidInterfaceId, s)
      else
        (let cmd = frame_command (downlink_buffer_staging s);
             rsp = GetExpectedResponse cmd;
             s1 = s\<lparr>uplink_expected_rsp := rsp\<rparr>;
             next = (if downlink_state s = DOWNLINK_WAIT_STARTUP_RESET then DOWNLINK_WAIT_STARTUP_RESET
                     else if rsp \<noteq> 0 then DOWNLINK_WAIT_CP_RESPONSE else DOWNLINK_WAIT_CP_ACK)
         in case WriteDownlinkCodePacket hal SHORT_NI_CMD_FRAME_CMD cmd s1 of
              (st, s2) \<Rightarrow>
                if st \<noteq> LonStatusNoError then (st, s2)
                else if downlink_running (downlink_state s2) then StartAckTimer now next s2
                else (LonStatusNoError, s2)))"

definition WriteDownlinkMessage :: "hal_write \<Rightarrow> u32 \<Rightarrow> usb_link \<Rightarrow> LonStatusCode \<times> usb_link" where
  "WriteDownlinkMessage hal now s =
     (if usbShutdown s then (LonStatusInvalidInterfaceId, s)
      else
        (let s1 = snd (WriteDownlinkCodePacket hal MSG_FRAME_CMD 1
                         (s\<lparr>downlink_ack_seq_number := ACK_WITH_NEXT_SEQ_NUM\<rparr>));
             b = downlink_buffer s1
         in case expand_message (bufFrame b) (dataFrameSize b) of
              None \<Rightarrow> (LonStatusInvalidBufferLength, s1)
            | Some (out, n) \<Rightarrow>
                (let s2 = (if downlink_running (downlink_state s1)
                           then snd (StartAckTimer now DOWNLINK_WAIT_MSG_ACK s1) else s1)
                 in case usb_write hal (take n out) s2 of
                      (st, w, s3) \<Rightarrow>
                        if st \<noteq> LonStatusNoError \<or> w \<noteq> n then
                          (if st \<noteq> LonStatusNoError then LonStatusWriteFailed else st,
                           set_stats (\<lambda>t. t\<lparr>stTxAbortedErrors := Increment32 (stTxAbortedErrors t)\<rparr>) s3)
                        else
                          (LonStatusNoError,
                           set_stats (\<lambda>t. t\<lparr>stPacketsSent := Increment32 (stPacketsSent t),
                             stBytesSent := Add32 (stBytesSent t) w\<rparr>) s3))))"

definition ProcessNextDownlinkMessage :: "hal_write \<Rightarrow> u32 \<Rightarrow> usb_link \<Rightarrow> LonStatusCode \<times> usb_link" where
  "ProcessNextDownlinkMessage hal now s =
     (if usbShutdown s then (LonStatusInvalidInterfaceId, s)
      else
        (case (if downlink_ack_seq_number s \<ge> 0 then
                 (case WriteDownlinkCodePacket hal NULL_FRAME_CMD 0 s of
                    (st, s1) \<Rightarrow> if st \<noteq> LonStatusNoError then (st, s1) else IncrementDownlinkSequence s1)
               else (LonStatusNoError, s)) of
           (st, s1) \<Rightarrow>
             if st \<noteq> LonStatusNoError then (st, s1)
             else
               (case ReadDownlinkBuffer s1 of
                  (st, s2) \<Rightarrow>
                    if st = LonStatusNoBufferAvailable then (LonStatusNoError, s2)
                    else
                      (let b = downlink_buffer s2
                       in if iface_type s2 = LON_USB_INTERFACE_U50 \<and> frame_length b = 1 \<and>
                             frame_command b \<noteq> LonNiSetL5ModeCmd \<and> frame_command b \<noteq> LonNiSetL2ModeCmd
                          then (LonStatusNoError,
                                snd (WriteDownlinkLocalNiCmd hal now (snd (ResetDownlinkState s2))))
                          else WriteDownlinkMessage hal now s2))))"

section \<open>Queueing a message for the device\<close>

definition ext_length :: "LonDataFrame \<Rightarrow> nat" where
  "ext_length m = unat (byte_at (dfPdu m) 0) * 256 + unat (byte_at (dfPdu m) 1)"

definition stage_extended :: "LonDataFrame \<Rightarrow> LonUsbQueueBuffer \<Rightarrow> LonUsbQueueBuffer" where
  "stage_extended m b =
     (let n = ext_length m
      in b\<lparr>bufFrame := copy_into (copy_into (bufFrame b) 0
               [EXT_LENGTH, dfCommand m, of_nat ((n + 1) div 256), of_nat (n + 1)])
             4 (bytes_from (dfPdu m) 2 (n - 3)),
           bufSize := 8 + n, dataFrameSize := 4 + n\<rparr>)"

definition layer_mode_message :: "LonDataFrame \<Rightarrow> usb_link \<Rightarrow> bool" where
  "layer_mode_message m s \<longleftrightarrow>
     iface_type s = LON_USB_INTERFACE_U50 \<and> dfCommand m = LonNiLayerModeCmd \<and> dfLength m \<noteq> 0"

definition stage_message :: "LonDataFrame \<Rightarrow> usb_link \<Rightarrow> LonUsbQueueBuffer \<Rightarrow> LonUsbQueueBuffer" where
  "stage_message m s b =
     (if layer_mode_message m s then
        b\<lparr>bufFrame := copy_into (bufFrame b) 0
            [1, if byte_at (dfPdu m) 0 = 0 then LonNiSetL5ModeCmd else LonNiSetL2ModeCmd],
          bufSize := SIZEOF_QUEUE_BUFFER - MAX_LON_MSG_EX_LEN, dataFrameSize := 2\<rparr>
      else
        (let n = unat (dfLength m)
         in b\<lparr>bufFrame := copy_into (copy_into (bufFrame b) 0 [dfLength m + 1, dfCommand m])
                2 (bytes_from (dfPdu m) 0 n),
              bufSize := SIZEOF_QUEUE_BUFFER - (MAX_LON_MSG_EX_LEN - n), dataFrameSize := 2 + n\<rparr>))"

definition WriteLonUsbMsg :: "LonDataFrame \<Rightarrow> usb_link \<Rightarrow> LonStatusCode \<times> usb_link" where
  "WriteLonUsbMsg m s =
     (if usbShutdown s then (LonStatusInvalidInterfaceId, s)
      else if GetDownlinkBufferCount s < MAX_LON_DOWNLINK_BUFFERS then
        (let b = downlink_buffer_staging s;
             b1 = b\<lparr>bufHeader := CreateFrameHeader MSG_FRAME_CMD 0 0 True (bufHeader b),
                    bufPriority := (if dfCommand m = LonNiPriorityMsgCmd then HIGH_PRIORITY
                                    else NORMAL_PRIORITY)\<rparr>
         in if dfLength m = EXT_LENGTH then
              (if ext_length m \<le> MAX_LON_MSG_EX_LEN then
                 (let b2 = stage_extended m b1
                  in QueueDownlinkBuffer b2
                       (s\<lparr>downlink_buffer_staging := b2, usbFault := (usbFault s \<or> ext_length m < 3)\<rparr>))
               else (LonStatusInvalidBufferLength, s\<lparr>downlink_buffer_staging := b1\<rparr>))
            else
              (let b2 = stage_message m s b1
               in QueueDownlinkBuffer b2
                    (s\<lparr>downlink_buffer_staging := b2,
                       configured_iface_mode :=
                         (if layer_mode_message m s
                          then (if byte_at (dfPdu m) 0 = 0 then LON_IFACE_MODE_LAYER5
                                else LON_IFACE_MODE_LAYER2)
                          else configured_iface_mode s)\<rparr>)))
      else (LonStatusNoBufferAvailable, s))"

section \<open>The initial state\<close>

definition NI_RESET_WAIT_TIME :: u32 where "NI_RESET_WAIT_TIME = 800"
definition NI_NULL_WAIT_TIME :: u32 where "NI_NULL_WAIT_TIME = 700"
definition NI_UID_WAIT_TIME :: u32 where "NI_UID_WAIT_TIME = 350"
definition NI_STATUS_WAIT_TIME :: u32 where "NI_STATUS_WAIT_TIME = 350"
definition STARTUP_ACK_WAIT_TIME :: u32 where "STARTUP_ACK_WAIT_TIME = 1000"
definition STARTUP_DELAY :: u32 where "STARTUP_DELAY = 60000"
definition MAX_UID_RETRIES :: int where "MAX_UID_RETRIES = 4"
definition MAX_STATUS_RETRIES :: int where "MAX_STATUS_RETRIES = 4"
definition DEFAULT_LLP_TIMEOUT :: u32 where "DEFAULT_LLP_TIMEOUT = 1000"
definition LON_NI_STATUS_UNKNOWN :: int where "LON_NI_STATUS_UNKNOWN = - 1"

definition zeroStats :: LonUsbStats where
  "zeroStats = \<lparr>stPacketsReceived = 0, stBytesReceived = 0, stRxChecksumErrors = 0,
     stRxCodePacketFailures = 0, stRxCrcErrors = 0, stRxFrameErrors = 0, stRxTimeoutErrors = 0,
     stRxAckTimeoutErrors = 0, stRxDuplicates = 0, stPacketsSent = 0, stBytesSent = 0,
     stTxAbortedErrors = 0, stTxRejects = 0, stBytesFed = 0, stBytesRead = 0, stBytesDropped = 0,
     stMaxOccupancy = 0, stRxCapacity = 0, stChannelTypeId = 0, stL2L5Mode = 0, stNiModelId = 0,
     stNiFwVersion = 0, stNiStatus = 0, stStartupTime = 0, stRuntime = \<lparr>start = 0\<rparr>\<rparr>"

text \<open>
  \<open>InitIfaceStates\<close>: the fields it assigns, then the four queues and the ring buffer up to the
  first failure. \<open>mem k\<close> is the memory of the \<open>k\<close>-th queue, \<open>None\<close> when it is not available.
\<close>

definition init_fields :: "usb_link \<Rightarrow> usb_link" where
  "init_fields s =
     s\<lparr>usbShutdown := True, wait_for_reset := False, have_reset := False, wait_for_null := False,
       have_null := False, wait_for_uid := False, have_uid := False, wait_for_status := False,
       have_status := False, usbReady := False, llp_timeout := DEFAULT_LLP_TIMEOUT,
       usbUid := replicate 6 0, configured_iface_mode := LON_IFACE_MODE_LAYER2,
       current_iface_mode := LON_IFACE_MODE_UNKNOWN, start_time := 0, last_timeout := 0,
       downlink_state := DOWNLINK_INVALID, downlink_reject_timer := 0,
       downlink_ack_seq_number := NO_ACK_REQUIRED, downlink_seq_number := 0,
       downlink_buffer_staging := zeroBuffer, downlink_buffer := zeroBuffer,
       uplink_state := UPLINK_IDLE, uplink_ack_timer := 0, uplink_ack_timeout := STARTUP_ACK_WAIT_TIME,
       uplink_ack_timeouts := 0, uplink_ack_timeout_phase := 0, uplink_duplicate := False,
       uplink_frame_error := False, uplink_msg_index := 0, uplink_msg_length := 0, uplink_msg_timer := 0,
       uid_wait_timer := 0, status_wait_timer := 0, uplink_seq_number := NOT 0xE0\<rparr>"

definition init_queue :: "string \<Rightarrow> LonUsbQueueBuffer Queue \<Rightarrow> nat \<Rightarrow> LonUsbQueueBuffer list option \<Rightarrow>
    LonStatusCode \<times> LonUsbQueueBuffer Queue" where
  "init_queue name q capacity d = QueueInit q (Some name) SIZEOF_QUEUE_BUFFER capacity d"

definition init_queues ::
    "(nat \<Rightarrow> LonUsbQueueBuffer list option) \<Rightarrow> usb_link \<Rightarrow> LonStatusCode \<times> usb_link" where
  "init_queues mem s0 =
     (case init_queue ''link layer downlink'' (downlink_normal_queue s0) MAX_LON_DOWNLINK_BUFFERS (mem 0) of
        (st, q) \<Rightarrow>
     (let s1 = s0\<lparr>downlink_normal_queue := q\<rparr>
      in if st \<noteq> LonStatusNoError then (st, s1)
      else (case init_queue ''link layer priority downlink'' (downlink_priority_queue s1)
                   MAX_LON_DOWNLINK_BUFFERS (mem 1) of
        (st, q) \<Rightarrow>
     (let s2 = s1\<lparr>downlink_priority_queue := q\<rparr>
      in if st \<noteq> LonStatusNoError then (st, s2)
      else (case init_queue ''link layer uplink'' (uplink_normal_queue s2) MAX_LON_UPLINK_BUFFERS (mem 2) of
        (st, q) \<Rightarrow>
     (let s3 = s2\<lparr>uplink_normal_queue := q\<rparr>
      in if st \<noteq> LonStatusNoError then (st, s3)
      else (case init_queue ''link layer priority uplink'' (uplink_priority_queue s3)
                   MAX_LON_UPLINK_BUFFERS (mem 3) of
        (st, q) \<Rightarrow> (st, s3\<lparr>uplink_priority_queue := q\<rparr>))))))))"

definition InitIfaceStates ::
    "(nat \<Rightarrow> LonUsbQueueBuffer list option) \<Rightarrow> usb_link \<Rightarrow> LonStatusCode \<times> usb_link" where
  "InitIfaceStates mem s =
     (case init_queues mem (init_fields s) of
        (st, s1) \<Rightarrow>
          if st \<noteq> LonStatusNoError then (st, s1)
          else
            (case RingBufferInit (uplink_ring_buffer s1) RING_BUFFER_MAX_CAPACITY of
               (st, rb) \<Rightarrow>
                 if st \<noteq> LonStatusNoError then (st, s1\<lparr>uplink_ring_buffer := rb\<rparr>)
                 else (st, s1\<lparr>uplink_ring_buffer := RingBufferClear rb,
                   lon_stats := zeroStats\<lparr>stL2L5Mode := LON_IFACE_MODE_UNKNOWN,
                     stNiStatus := LON_NI_STATUS_UNKNOWN\<rparr>\<rparr>)))"

text \<open>A link before the first call: the memory of a C program that starts.\<close>

definition zeroQueue :: "'a Queue" where
  "zeroQueue = \<lparr>queueName = None, queueCapacity = 0, queueEntries = 0, entrySize = 0, emptyCountReports = 0,
     qhead = 0, headIndex = 0, qtail = 0, tailIndex = 0, qdata = None\<rparr>"

definition zeroLink :: "LonUsbIfaceType \<Rightarrow> usb_link" where
  "zeroLink ty = \<lparr>usbShutdown = False, wait_for_reset = False, have_reset = False, wait_for_null = False,
     have_null = False, wait_for_uid = False, uid_retries = 0, have_uid = False, wait_for_status = False,
     status_retries = 0, have_status = False, usbReady = False, iface_type = ty, usbUid = replicate 6 0,
     configured_iface_mode = 0, current_iface_mode = 0, lon_stats = zeroStats, llp_timeout = 0,
     start_time = 0, last_timeout = 0, uplink_state = UPLINK_IDLE, reset_wait_timer = 0, null_wait_timer = 0,
     uid_wait_timer = 0, status_wait_timer = 0, uplink_msg_timer = 0, uplink_frame_error = False,
     uplink_duplicate = False, uplink_buffer = zeroBuffer, uplink_msg_index = 0, uplink_msg_length = 0,
     uplink_seq_number = 0, uplink_ack_timer = 0, uplink_ack_timeout = 0, uplink_ack_timeouts = 0,
     uplink_ack_timeout_phase = 0, uplink_expected_rsp = 0, downlink_state = DOWNLINK_START,
     downlink_reject_timer = 0, downlink_buffer_staging = zeroBuffer, downlink_buffer = zeroBuffer,
     downlink_seq_number = 0, downlink_ack_seq_number = 0, downlink_normal_queue = zeroQueue,
     downlink_priority_queue = zeroQueue, uplink_normal_queue = zeroQueue, uplink_priority_queue = zeroQueue,
     uplink_ring_buffer = \<lparr>rb_size = 0, rb_head = 0, rb_tail = 0, rb_count = 0,
       rb_data = replicate RING_BUFFER_MAX_CAPACITY 0\<rparr>,
     usbOut = [], usbFault = False\<rparr>"

text \<open>What the first call makes of it, with memory for every queue, once it is open.\<close>

definition openLink :: "LonUsbIfaceType \<Rightarrow> usb_link" where
  "openLink ty = (snd (InitIfaceStates (\<lambda>_. Some (replicate 16 zeroBuffer)) (zeroLink ty)))
     \<lparr>usbShutdown := False, downlink_state := DOWNLINK_START\<rparr>"

lemma init_queue_Some:
  "init_queue name q n (Some d) =
     (LonStatusNoError, \<lparr>queueName = Some name, queueCapacity = n mod 2 ^ 16, queueEntries = 0,
        entrySize = SIZEOF_QUEUE_BUFFER mod 2 ^ 16, emptyCountReports = 0, qhead = 0, headIndex = 0,
        qtail = 0, tailIndex = 0, qdata = Some d\<rparr>)"
  by (simp add: init_queue_def QueueInit_def)

lemma openLink_fields [simp]:
  "usbShutdown (openLink ty) = False" "uplink_state (openLink ty) = UPLINK_IDLE"
  "downlink_state (openLink ty) = DOWNLINK_START" "iface_type (openLink ty) = ty"
  "uplink_buffer (openLink ty) = zeroBuffer" "downlink_buffer (openLink ty) = zeroBuffer"
  "downlink_buffer_staging (openLink ty) = zeroBuffer"
  "uplink_msg_index (openLink ty) = 0" "uplink_msg_length (openLink ty) = 0"
  "usbFault (openLink ty) = False" "usbOut (openLink ty) = []" "usbReady (openLink ty) = False"
  "wait_for_uid (openLink ty) = False" "wait_for_status (openLink ty) = False"
  "have_null (openLink ty) = False" "have_uid (openLink ty) = False"
  "downlink_seq_number (openLink ty) = 0" "downlink_ack_seq_number (openLink ty) = NO_ACK_REQUIRED"
  "llp_timeout (openLink ty) = 1000" "uplink_msg_timer (openLink ty) = 0"
  "downlink_normal_queue (openLink ty) = \<lparr>queueName = Some ''link layer downlink'', queueCapacity = 16,
     queueEntries = 0, entrySize = 1312, emptyCountReports = 0, qhead = 0, headIndex = 0, qtail = 0, tailIndex = 0,
     qdata = Some (replicate 16 zeroBuffer)\<rparr>"
  "downlink_priority_queue (openLink ty) = \<lparr>queueName = Some ''link layer priority downlink'', queueCapacity = 16,
     queueEntries = 0, entrySize = 1312, emptyCountReports = 0, qhead = 0, headIndex = 0, qtail = 0, tailIndex = 0,
     qdata = Some (replicate 16 zeroBuffer)\<rparr>"
  "uplink_normal_queue (openLink ty) = \<lparr>queueName = Some ''link layer uplink'', queueCapacity = 16,
     queueEntries = 0, entrySize = 1312, emptyCountReports = 0, qhead = 0, headIndex = 0, qtail = 0, tailIndex = 0,
     qdata = Some (replicate 16 zeroBuffer)\<rparr>"
  "uplink_priority_queue (openLink ty) = \<lparr>queueName = Some ''link layer priority uplink'', queueCapacity = 16,
     queueEntries = 0, entrySize = 1312, emptyCountReports = 0, qhead = 0, headIndex = 0, qtail = 0, tailIndex = 0,
     qdata = Some (replicate 16 zeroBuffer)\<rparr>"
  "uplink_ring_buffer (openLink ty) = \<lparr>rb_size = 2048, rb_head = 0, rb_tail = 0, rb_count = 0,
     rb_data = replicate 2048 0\<rparr>"
  by (simp_all add: openLink_def InitIfaceStates_def init_queues_def init_fields_def zeroLink_def
      init_queue_Some Let_def RingBufferInit_def RingBufferClear_def RING_BUFFER_MAX_CAPACITY_def
      MAX_LON_DOWNLINK_BUFFERS_def MAX_LON_UPLINK_BUFFERS_def SIZEOF_QUEUE_BUFFER_def DEFAULT_LLP_TIMEOUT_def)

lemma length_zeroBuffer [simp]: "length (bufFrame zeroBuffer) = LON_NI_FRAME_SIZE"
  by (simp add: zeroBuffer_def)

end
