(* ===== verification/Lon_Usb_Uplink.thy ===== *)
theory Lon_Usb_Uplink
  imports Lon_Usb_Link
begin

text \<open>
  \<^verbatim>\<open>lon_usb/lon_usb_link.c\<close>, the uplink: from the bytes of the device to the messages of the
  stack. \<open>ProcessUplinkBytes\<close> is a state machine over the bytes; it handles code packets
  (\<open>ProcessUplinkCodePacket\<close>) and collects messages (\<open>CheckUplinkCompleted\<close>), which end in the
  uplink queue (\<open>ProcessUplinkMessage\<close>). \<open>ReadLonUsbMsg\<close> feeds it from the ring buffer. A write
  past the frame buffer would change the fields behind it, the parser's own index among them: its
  behaviour is undefined from there on. The model stops at the write: it sets \<open>usbFault\<close>, and the
  parser is stuck in the state before the write, whatever it is given.
\<close>

section \<open>Messages\<close>

definition QueueUplinkBuffer :: "usb_link \<Rightarrow> LonStatusCode \<times> usb_link" where
  "QueueUplinkBuffer s =
     (let pri = (bufPriority (uplink_buffer s) = HIGH_PRIORITY); q = uplink_queue pri s
      in if QueueTail q = None then (LonStatusInvalidParameter, s)
         else (LonStatusNoError, set_uplink_queue pri (QueueEmit (\<lambda>_. uplink_buffer s) q) s))"

definition TotalMessageLength :: "bytes \<Rightarrow> nat" where
  "TotalMessageLength f =
     (if byte_at f 0 < EXT_LENGTH then unat (byte_at f 0) + 1
      else unat (byte_at f 2) * 256 + unat (byte_at f 3) + 1 + 2)"

definition READ_MEMORY_RESPONSE :: u8 where "READ_MEMORY_RESPONSE = 0x6D AND (0x1F OR 0x20)"

definition ProcessUplinkMessage :: "usb_link \<Rightarrow> LonStatusCode \<times> usb_link" where
  "ProcessUplinkMessage s =
     (if usbShutdown s then (LonStatusInvalidInterfaceId, s)
      else
        (let b = uplink_buffer s; copy_length = TotalMessageLength (bufFrame b) + 1
         in if wait_for_uid s then
              (LonStatusNoError,
               if copy_length \<ge> 23 \<and> frame_command b = LonNiResponseCmd \<and>
                  frame_pdu b 14 = READ_MEMORY_RESPONSE
               then s\<lparr>usbUid := bytes_from (bufFrame b) (2 + 15) 6, wait_for_uid := False, have_uid := True\<rparr>
               else s)
            else if wait_for_status s then
              (LonStatusNoError,
               if copy_length \<ge> 6 \<and> frame_command b = 0xE0 \<and> frame_length b = 5
               then set_stats (\<lambda>t. t\<lparr>stL2L5Mode := uint (frame_pdu b 2), stNiModelId := frame_pdu b 0,
                        stNiFwVersion := frame_pdu b 1, stNiStatus := uint (frame_pdu b 3)\<rparr>)
                      (s\<lparr>wait_for_status := False, have_status := True,
                         current_iface_mode := uint (frame_pdu b 2)\<rparr>)
               else s)
            else QueueUplinkBuffer
              (set_stats (\<lambda>t. t\<lparr>stPacketsReceived := Increment32 (stPacketsReceived t),
                 stBytesReceived := Add32 (stBytesReceived t) copy_length\<rparr>) s)))"

text \<open>The handling of a reset message: its data is taken and removed.\<close>

definition poke_frame :: "nat \<Rightarrow> u8 \<Rightarrow> usb_link \<Rightarrow> usb_link" where
  "poke_frame i v s =
     s\<lparr>uplink_buffer := (uplink_buffer s)\<lparr>bufFrame := (bufFrame (uplink_buffer s))[i := v]\<rparr>\<rparr>"

definition uplink_reset_message :: "usb_link \<Rightarrow> usb_link" where
  "uplink_reset_message s =
     (let b = uplink_buffer s;
          s1 = (if frame_length b \<noteq> 0 then
                  set_stats (\<lambda>t. t\<lparr>stChannelTypeId := uint (frame_pdu b 1), stL2L5Mode := uint (frame_pdu b 0)\<rparr>)
                    (s\<lparr>current_iface_mode := uint (frame_pdu b 0)\<rparr>)
                else s);
          s2 = (poke_frame 0 0 s1)\<lparr>uplink_msg_length := 1\<rparr>
      in if wait_for_reset s2 then s2\<lparr>wait_for_reset := False, have_reset := True\<rparr> else s2)"

definition uplink_message_complete :: "usb_link \<Rightarrow> LonStatusCode \<times> usb_link" where
  "uplink_message_complete s =
     (let cmd = frame_command (uplink_buffer s)
      in if cmd AND 0xF0 = LonNiDriverCmdMask \<or> cmd = LonNiLayerModeCmd then (LonStatusNoError, s)
         else
           (let s1 = (if cmd = LonNiResetDeviceCmd then uplink_reset_message s
                      else if cmd = LonNiCrcError
                      then set_stats (\<lambda>t. t\<lparr>stRxCrcErrors := Increment32 (stRxCrcErrors t)\<rparr>) s
                      else s)
            in if uplink_msg_length s1 + 2 > LON_NI_FRAME_SIZE + 2 then (LonStatusNoError, s1)
               else ProcessUplinkMessage s1))"

definition CheckUplinkCompleted :: "usb_link \<Rightarrow> LonStatusCode \<times> bool \<times> usb_link" where
  "CheckUplinkCompleted s =
     (if usbShutdown s then (LonStatusInvalidInterfaceId, False, s)
      else
        (let i = uplink_msg_index s; n = uplink_msg_length s; f = bufFrame (uplink_buffer s)
         in if i = 1 then (LonStatusNoError, False, s\<lparr>uplink_msg_length := unat (byte_at f 0)\<rparr>)
            else if n = 255 \<and> i = 3 then
              (LonStatusNoError, False,
               s\<lparr>uplink_msg_length := unat (byte_at f 2) * 256 + unat (byte_at f 3)\<rparr>)
            else if i \<noteq> 0 \<and> i > n + 1 then
              (case uplink_message_complete s of (st, s1) \<Rightarrow> (st, True, ResetUplinkState s1))
            else (LonStatusNoError, False, s)))"

section \<open>Code packets\<close>

definition ClearUplinkTransaction :: "usb_link \<Rightarrow> LonStatusCode \<times> usb_link" where
  "ClearUplinkTransaction s =
     (if usbShutdown s then (LonStatusInvalidInterfaceId, s)
      else
        (case (if downlink_state s = DOWNLINK_WAIT_CP_ACK \<or> downlink_state s = DOWNLINK_WAIT_CP_RESPONSE
               then StopAckTimer
                 (s\<lparr>downlink_buffer := (downlink_buffer s)\<lparr>bufFrame := (bufFrame (downlink_buffer s))[1 := 0]\<rparr>\<rparr>)
               else if downlink_state s = DOWNLINK_WAIT_MSG_ACK then ResetDownlinkState s
               else (LonStatusNoError, s)) of
           (st, s1) \<Rightarrow>
             if st \<noteq> LonStatusNoError then (st, s1)
             else
               (case IncrementDownlinkSequence s1 of
                  (st, s2) \<Rightarrow> (st, s2\<lparr>uplink_expected_rsp := LonNiClearCmd, uplink_ack_timeout_phase := 0\<rparr>))))"

text \<open>A code packet that carries a local command; the two acknowledgement commands leave the switch.\<close>

definition short_command :: "u8 \<Rightarrow> usb_link \<Rightarrow> LonStatusCode \<times> usb_link" where
  "short_command parameter s =
     (if uplink_duplicate s then (LonStatusNoError, ResetUplinkState s)
      else if parameter = LonNiAckCmd \<or> parameter = LonNiNackCmd then (LonStatusNoError, s)
      else
        (let s1 = (if parameter = LonNiResetDeviceCmd
                   then s\<lparr>downlink_seq_number := 0, downlink_state := DOWNLINK_START\<rparr> else s);
             s2 = poke_frame 1 parameter s1;
             s3 = (if parameter AND 0xF0 = LonNiError
                   then (poke_frame 5 0 (poke_frame 4 0 (poke_frame 3 0 (poke_frame 2 0 (poke_frame 0 5 s2)))))
                   else poke_frame 0 1 s2)
         in case ProcessUplinkMessage s3 of
              (st, s4) \<Rightarrow> if st \<noteq> LonStatusNoError then (st, s4) else (LonStatusNoError, ResetUplinkState s4)))"

definition message_reject :: "hal_write \<Rightarrow> u32 \<Rightarrow> usb_link \<Rightarrow> LonStatusCode \<times> usb_link" where
  "message_reject hal now s =
     (let s1 = set_stats (\<lambda>t. t\<lparr>stTxRejects := Increment32 (stTxRejects t)\<rparr>) s
      in if downlink_state s1 = DOWNLINK_WAIT_MSG_ACK \<or> downlink_state s1 = DOWNLINK_WAIT_CP_ACK then
           (case StopAckTimer s1 of
              (st, s2) \<Rightarrow>
                if downlink_reject_timer s2 = 0 then (st, s2\<lparr>downlink_reject_timer := now\<rparr>)
                else if now - downlink_reject_timer s2 > 10000 then
                  (LonStatusLniWriteFailure,
                   snd (WriteDownlinkCodePacket hal SHORT_NI_CMD_FRAME_CMD LonNiResetDeviceCmd
                     (s2\<lparr>downlink_reject_timer := 0\<rparr>)))
                else (st, s2))
         else (LonStatusNoError, s1))"

definition note_sequence :: "u8 \<Rightarrow> u8 \<Rightarrow> bool \<Rightarrow> usb_link \<Rightarrow> usb_link" where
  "note_sequence cmd seqNum cp_fail s =
     (if cmd \<noteq> 0 then
        (let s1 = (if uplink_seq_number s = uint seqNum \<and> \<not> cp_fail
                   then set_stats (\<lambda>t. t\<lparr>stRxDuplicates := Increment32 (stRxDuplicates t)\<rparr>)
                          (s\<lparr>uplink_duplicate := True\<rparr>)
                   else s)
         in s1\<lparr>uplink_seq_number := uint seqNum\<rparr>)
      else s)"

definition ProcessUplinkCodePacket :: "hal_write \<Rightarrow> u32 \<Rightarrow> usb_link \<Rightarrow> LonStatusCode \<times> usb_link" where
  "ProcessUplinkCodePacket hal now s =
     (if usbShutdown s then (LonStatusInvalidInterfaceId, s)
      else
        (let h = bufHeader (uplink_buffer s);
             cmd = FRAME_CODE_CMD h; parameter = frameParameter h;
             ack_flag = (FRAME_CODE_ACK h \<noteq> 0); seqNum = FRAME_CODE_SEQ h;
             cp_fail = (cmd = FAIL_FRAME_CMD \<or> cmd = MSG_REJECT_FRAME_CMD);
             s1 = note_sequence cmd seqNum cp_fail s;
             s2 = (if ack_flag \<and> \<not> cp_fail \<and> downlink_state s1 \<noteq> DOWNLINK_WAIT_CP_RESPONSE
                   then snd (ClearUplinkTransaction s1) else s1)
         in if cmd = MSG_FRAME_CMD then
              (LonStatusNoError, s2\<lparr>downlink_ack_seq_number := uint seqNum, uplink_state := UPLINK_MESSAGE\<rparr>)
            else if cmd = SHORT_NI_CMD_FRAME_CMD then
              short_command parameter (s2\<lparr>downlink_ack_seq_number := uint seqNum\<rparr>)
            else if cmd = MSG_REJECT_FRAME_CMD then message_reject hal now s2
            else if cmd = FAIL_FRAME_CMD then
              (LonStatusFrameError,
               set_stats (\<lambda>t. t\<lparr>stRxCodePacketFailures := Increment32 (stRxCodePacketFailures t)\<rparr>)
                 (snd (StopAckTimer (snd (ClearUplinkTransaction s2)))))
            else if cmd = NULL_FRAME_CMD then
              (LonStatusNoError,
               if wait_for_null s2 then s2\<lparr>wait_for_null := False, have_null := True\<rparr> else s2)
            else
              (LonStatusFrameError,
               set_stats (\<lambda>t. t\<lparr>stRxFrameErrors := Increment32 (stRxFrameErrors t)\<rparr>) s2)))"

section \<open>The bytes\<close>

definition frame_error :: "usb_link \<Rightarrow> usb_link" where
  "frame_error s = set_stats (\<lambda>t. t\<lparr>stRxFrameErrors := Increment32 (stRxFrameErrors t)\<rparr>) s"

definition poke_header :: "(LonFrameHeader \<Rightarrow> LonFrameHeader) \<Rightarrow> usb_link \<Rightarrow> usb_link" where
  "poke_header f s = s\<lparr>uplink_buffer := (uplink_buffer s)\<lparr>bufHeader := f (bufHeader (uplink_buffer s))\<rparr>\<rparr>"

definition idle_byte :: "u8 \<Rightarrow> usb_link \<Rightarrow> usb_link" where
  "idle_byte b s =
     (if b = FRAME_SYNC then
        (poke_header (\<lambda>h. h\<lparr>frameSync := b\<rparr>) s)\<lparr>uplink_state := UPLINK_FRAME_CODE, uplink_frame_error := False\<rparr>
      else if \<not> uplink_frame_error s then (frame_error s)\<lparr>uplink_frame_error := True\<rparr>
      else s)"

definition frame_code_byte :: "u8 \<Rightarrow> usb_link \<Rightarrow> usb_link" where
  "frame_code_byte b s =
     (poke_header (\<lambda>h. set_frame_cmd (b AND 0x0F) (set_frame_seq (drop_bit 5 b AND 7)
        (set_frame_ack (if b AND 0x10 \<noteq> 0 then 1 else 0) h))) s)\<lparr>uplink_state := UPLINK_FRAME_PARAMETER\<rparr>"

definition ValidateChecksum :: "bytes \<Rightarrow> nat \<Rightarrow> usb_link \<Rightarrow> bool \<times> usb_link" where
  "ValidateChecksum pkt len s =
     (if ComputeChecksum pkt len = 0 then (True, s)
      else (False, set_stats (\<lambda>t. t\<lparr>stRxChecksumErrors := Increment32 (stRxChecksumErrors t)\<rparr>) s))"

text \<open>The last byte of a code packet. On an error the function returns and the state stays as it is.\<close>

definition checksum_byte :: "hal_write \<Rightarrow> u32 \<Rightarrow> u8 \<Rightarrow> usb_link \<Rightarrow> LonStatusCode \<times> usb_link" where
  "checksum_byte hal now b s =
     (let s1 = poke_header (\<lambda>h. h\<lparr>frameChecksum := b\<rparr>) s
      in case ValidateChecksum (header_bytes (bufHeader (uplink_buffer s1))) 4 s1 of
           (is_valid, s2) \<Rightarrow>
             if \<not> is_valid then
               (LonStatusNoError, s2\<lparr>uplink_frame_error := True, downlink_ack_seq_number := NO_ACK_REQUIRED,
                  uplink_state := UPLINK_IDLE\<rparr>)
             else
             (case ProcessUplinkCodePacket hal now s2 of
                (st, s3) \<Rightarrow>
                  if st \<noteq> LonStatusNoError then (st, s3)
                  else
                    (LonStatusNoError,
                     if FRAME_CODE_CMD (bufHeader (uplink_buffer s3)) = MSG_FRAME_CMD
                     then s3\<lparr>uplink_msg_timer := now, uplink_state := UPLINK_MESSAGE\<rparr>
                     else s3\<lparr>uplink_state := UPLINK_IDLE\<rparr>)))"

text \<open>A byte is stored in the frame; \<open>frame_full\<close> says that the write goes past the buffer.\<close>

definition frame_full :: "usb_link \<Rightarrow> bool" where
  "frame_full s \<longleftrightarrow> LON_NI_FRAME_SIZE \<le> uplink_msg_index s"

definition store_byte :: "u8 \<Rightarrow> usb_link \<Rightarrow> usb_link" where
  "store_byte b s =
     (if frame_full s then s\<lparr>usbFault := True\<rparr>
      else (poke_frame (uplink_msg_index s) b s)\<lparr>uplink_msg_index := uplink_msg_index s + 1\<rparr>)"

text \<open>
  The inner loop over the bytes of a message; the flag says that the function returns, or
  that it is stuck at a write past the buffer.
\<close>

fun message_loop :: "usb_link \<Rightarrow> bytes \<Rightarrow> LonStatusCode \<times> bool \<times> usb_link \<times> bytes" where
  "message_loop s [] = (LonStatusNoError, False, s, [])"
| "message_loop s (b # rest) =
     (let s1 = store_byte b s
      in if frame_full s then (LonStatusNoError, True, s1, rest)
         else if b = FRAME_SYNC then (LonStatusNoError, False, s1\<lparr>uplink_state := UPLINK_ESCAPED_DATA\<rparr>, rest)
         else
           (case CheckUplinkCompleted s1 of
              (st, completed, s2) \<Rightarrow>
                if st \<noteq> LonStatusNoError then (st, True, s2, rest)
                else if completed then (LonStatusNoError, False, s2, rest)
                else message_loop s2 rest))"

definition message_timeout :: "u32 \<Rightarrow> usb_link \<Rightarrow> usb_link" where
  "message_timeout now s =
     (if uplink_state s \<noteq> UPLINK_IDLE \<and> now - uplink_msg_timer s > llp_timeout s
      then ResetUplinkState (set_stats (\<lambda>t. t\<lparr>stRxTimeoutErrors := Increment32 (stRxTimeoutErrors t)\<rparr>) s)
      else s)"

definition escaped_byte :: "u8 \<Rightarrow> usb_link \<Rightarrow> LonStatusCode \<times> usb_link" where
  "escaped_byte b s =
     (let s1 = s\<lparr>uplink_state := UPLINK_MESSAGE\<rparr>;
          s2 = (if b \<noteq> FRAME_SYNC then
                  (let e = (frame_error s1)\<lparr>downlink_ack_seq_number := NO_ACK_REQUIRED\<rparr>
                   in if b = 0 then e\<lparr>uplink_msg_index := 0\<rparr> else ResetUplinkState e)
                else s1)
      in case CheckUplinkCompleted s2 of (st, _, s3) \<Rightarrow> (st, s3))"

text \<open>
  One round of the loop over a chunk that is not empty: the status, whether the function
  returns at once, the state and what is left of the chunk.
\<close>

definition uplink_round ::
    "hal_write \<Rightarrow> u32 \<Rightarrow> usb_link \<Rightarrow> bytes \<Rightarrow> LonStatusCode \<times> bool \<times> usb_link \<times> bytes" where
  "uplink_round hal now s chunk =
     (let b = hd chunk; rest = tl chunk
      in case uplink_state s of
           UPLINK_IDLE \<Rightarrow> (LonStatusNoError, False, idle_byte b s, rest)
         | UPLINK_FRAME_CODE \<Rightarrow>
             (if iface_type s = LON_USB_INTERFACE_U50 then (LonStatusNoError, False, frame_code_byte b s, rest)
              else if b = 0 then
                (LonStatusNoError, False, s\<lparr>uplink_msg_timer := now, uplink_state := UPLINK_MESSAGE\<rparr>, rest)
              else (LonStatusNoError, False,
                    (frame_error s)\<lparr>uplink_state := UPLINK_IDLE, uplink_frame_error := True\<rparr>, chunk))
         | UPLINK_FRAME_PARAMETER \<Rightarrow>
             (LonStatusNoError, False,
              (poke_header (\<lambda>h. h\<lparr>frameParameter := b\<rparr>) s)\<lparr>uplink_state := UPLINK_CODE_PACKET_CHECKSUM\<rparr>, rest)
         | UPLINK_CODE_PACKET_CHECKSUM \<Rightarrow>
             (case checksum_byte hal now b s of (st, s1) \<Rightarrow> (st, st \<noteq> LonStatusNoError, s1, rest))
         | UPLINK_MESSAGE \<Rightarrow>
             (case message_loop s chunk of
                (st, ret, s1, rest1) \<Rightarrow>
                  if ret then (st, True, s1, rest1)
                  else (LonStatusNoError, False, message_timeout now s1, rest1))
         | UPLINK_ESCAPED_DATA \<Rightarrow>
             (case escaped_byte b s of (st, s1) \<Rightarrow> (st, False, s1, rest))
         | UPLINK_INVALID \<Rightarrow> (LonStatusNoError, False, s, chunk))"

partial_function (option) uplink_loop ::
    "hal_write \<Rightarrow> u32 \<Rightarrow> usb_link \<Rightarrow> bytes \<Rightarrow> (LonStatusCode \<times> usb_link) option" where
  "uplink_loop hal now s chunk =
     (if chunk = [] \<or> usbShutdown s then Some (LonStatusNoError, s)
      else
        (let (st, ret, s1, rest) = uplink_round hal now s chunk
         in if ret \<or> st \<noteq> LonStatusNoError then Some (st, s1) else uplink_loop hal now s1 rest))"

definition ProcessUplinkBytes ::
    "hal_write \<Rightarrow> u32 \<Rightarrow> bytes \<Rightarrow> usb_link \<Rightarrow> (LonStatusCode \<times> usb_link) option" where
  "ProcessUplinkBytes hal now chunk s =
     (if usbShutdown s then Some (LonStatusInvalidInterfaceId, s) else uplink_loop hal now s chunk)"

section \<open>Reading a message\<close>

text \<open>The buffer that is read is a static variable of \<open>ReadLonUsbMsg\<close>, overwritten as a whole.\<close>

definition ReadUplinkBuffer :: "usb_link \<Rightarrow> LonStatusCode \<times> LonUsbQueueBuffer option \<times> usb_link" where
  "ReadUplinkBuffer s =
     (let pri = (\<not> QueueEmpty (uplink_priority_queue s)); q = uplink_queue pri s
      in case QueueHead q of
           None \<Rightarrow> (LonStatusNoBufferAvailable, None, s)
         | Some b \<Rightarrow> (LonStatusNoError, Some b, set_uplink_queue pri (QueueDropHead q) s))"

definition MAX_BYTES_PER_USB_READ :: nat where "MAX_BYTES_PER_USB_READ = 512"
definition MAX_BYTES_PER_USB_PARSE_CHUNK :: nat where "MAX_BYTES_PER_USB_PARSE_CHUNK = 128"
definition MAX_BYTES_PER_USB_PARSE_WINDOW :: nat where "MAX_BYTES_PER_USB_PARSE_WINDOW = 512"

text \<open>
  The first stage: what \<open>HalReadUsb\<close> returns, a status and the bytes, goes into the ring
  buffer. The status is kept; an error other than \<open>LonStatusNoMessageAvailable\<close> ends the call.
\<close>

definition feed_ring :: "int \<Rightarrow> LonStatusCode \<times> bytes \<Rightarrow> usb_link \<Rightarrow> (LonStatusCode \<times> usb_link) option" where
  "feed_ring usb_fd got s =
     (if usb_fd \<ge> 0 \<and> RingBufferAvail (uplink_ring_buffer s) > MAX_BYTES_PER_USB_READ then
        (case got of
           (st, bs) \<Rightarrow>
             if st = LonStatusNoError \<and> bs \<noteq> [] then
               (case RingBufferWrite (uplink_ring_buffer s) bs (length bs) of
                  None \<Rightarrow> None
                | Some (written, rb) \<Rightarrow>
                    Some (LonStatusNoError,
                      set_stats (\<lambda>t. t\<lparr>stBytesFed := stBytesFed t + written,
                          stMaxOccupancy := max (RingBufferSize rb) (stMaxOccupancy t),
                          stBytesDropped := stBytesDropped t + (length bs - written)\<rparr>)
                        (s\<lparr>uplink_ring_buffer := rb\<rparr>)))
             else if st \<noteq> LonStatusNoError \<and> st \<noteq> LonStatusNoMessageAvailable then Some (st, s)
             else Some (LonStatusNoError, s))
      else Some (LonStatusNoError, s))"

text \<open>The second stage: the loop that parses the bytes of the ring buffer, chunk by chunk.\<close>

partial_function (option) drain_ring :: "hal_write \<Rightarrow> u32 \<Rightarrow> nat \<Rightarrow> usb_link \<Rightarrow> usb_link option" where
  "drain_ring hal now processed s =
     (if RingBufferSize (uplink_ring_buffer s) = 0 then Some s
      else
        (case RingBufferRead (uplink_ring_buffer s) MAX_BYTES_PER_USB_PARSE_CHUNK of
           None \<Rightarrow> None
         | Some (chunk, rb) \<Rightarrow>
             if chunk = [] then Some (s\<lparr>uplink_ring_buffer := rb\<rparr>)
             else
               (case ProcessUplinkBytes hal now chunk (s\<lparr>uplink_ring_buffer := rb\<rparr>) of
                  None \<Rightarrow> None
                | Some (_, s1) \<Rightarrow>
                    let s2 = set_stats (\<lambda>t. t\<lparr>stBytesRead := stBytesRead t + length chunk\<rparr>) s1
                    in if GetUplinkBufferCount s2 > 0 \<or>
                          processed + length chunk > MAX_BYTES_PER_USB_PARSE_WINDOW then Some s2
                       else drain_ring hal now (processed + length chunk) s2)))"

text \<open>The third stage: the message as the stack gets it.\<close>

definition out_message :: "LonUsbQueueBuffer \<Rightarrow> LonDataFrame" where
  "out_message b =
     (let n = frame_length b - 1
      in \<lparr>dfCommand = frame_command b, dfLength = n,
          dfPdu = copy_into (replicate MAX_LON_MSG_EX_LEN 0) 0 (bytes_from (bufFrame b) 2 (unat n))\<rparr>)"

definition ReadLonUsbMsg :: "hal_write \<Rightarrow> u32 \<Rightarrow> int \<Rightarrow> LonStatusCode \<times> bytes \<Rightarrow> usb_link \<Rightarrow>
    (LonStatusCode \<times> LonDataFrame option \<times> usb_link) option" where
  "ReadLonUsbMsg hal now usb_fd got s =
     (if usbShutdown s then Some (LonStatusInvalidInterfaceId, None, s)
      else
        (case feed_ring usb_fd got s of
           None \<Rightarrow> None
         | Some (st, s1) \<Rightarrow>
             if st \<noteq> LonStatusNoError then Some (st, None, s1)
             else
               (case (if RingBufferSize (uplink_ring_buffer s1) > 0 \<and>
                         GetUplinkBufferCount s1 < MAX_LON_UPLINK_BUFFERS
                      then drain_ring hal now 0 s1 else Some s1) of
                  None \<Rightarrow> None
                | Some s2 \<Rightarrow>
                    (case ReadUplinkBuffer s2 of
                       (st, b, s3) \<Rightarrow>
                         if st \<noteq> LonStatusNoError \<and> st \<noteq> LonStatusNoBufferAvailable then Some (st, None, s3)
                         else (case b of
                                 Some b \<Rightarrow> Some (LonStatusNoError, Some (out_message b), s3)
                               | None \<Rightarrow> Some (LonStatusNoBufferAvailable, None, s3))))))"

section \<open>What the parser keeps\<close>

text \<open>Fields that no byte changes, and the condition that a frame is collected in \<open>UPLINK_MESSAGE\<close> only.\<close>

definition kept :: "usb_link \<Rightarrow> usb_link \<Rightarrow> bool" where
  "kept s s' \<longleftrightarrow> usbShutdown s' = usbShutdown s \<and> llp_timeout s' = llp_timeout s \<and>
     iface_type s' = iface_type s \<and> uplink_ring_buffer s' = uplink_ring_buffer s \<and>
     (uplink_state s \<noteq> UPLINK_INVALID \<longrightarrow> uplink_state s' \<noteq> UPLINK_INVALID)"

lemma kept_refl [simp]: "kept s s" by (simp add: kept_def)

lemma kept_trans: "kept s t \<Longrightarrow> kept t u \<Longrightarrow> kept s u" by (auto simp: kept_def)

lemma kept_set_stats [simp]: "kept s (set_stats f t) = kept s t"
  by (simp add: kept_def set_stats_def)

lemma kept_poke_frame [simp]: "kept s (poke_frame i v t) = kept s t"
  by (simp add: kept_def poke_frame_def)

lemma kept_poke_header [simp]: "kept s (poke_header f t) = kept s t"
  by (simp add: kept_def poke_header_def)

lemma kept_queue [simp]:
  "kept s (set_uplink_queue pri q t) = kept s t" "kept s (set_downlink_queue pri q t) = kept s t"
  by (simp_all add: kept_def set_uplink_queue_def set_downlink_queue_def)

lemma kept_update [simp]:
  "kept s (t\<lparr>wait_for_uid := a\<rparr>) = kept s t" "kept s (t\<lparr>have_uid := a\<rparr>) = kept s t"
  "kept s (t\<lparr>usbUid := u\<rparr>) = kept s t" "kept s (t\<lparr>wait_for_status := a\<rparr>) = kept s t"
  "kept s (t\<lparr>have_status := a\<rparr>) = kept s t" "kept s (t\<lparr>current_iface_mode := m\<rparr>) = kept s t"
  "kept s (t\<lparr>wait_for_reset := a\<rparr>) = kept s t" "kept s (t\<lparr>have_reset := a\<rparr>) = kept s t"
  "kept s (t\<lparr>wait_for_null := a\<rparr>) = kept s t" "kept s (t\<lparr>have_null := a\<rparr>) = kept s t"
  "kept s (t\<lparr>uplink_msg_length := n\<rparr>) = kept s t" "kept s (t\<lparr>uplink_msg_index := n\<rparr>) = kept s t"
  "kept s (t\<lparr>downlink_state := d\<rparr>) = kept s t" "kept s (t\<lparr>downlink_seq_number := n\<rparr>) = kept s t"
  "kept s (t\<lparr>downlink_ack_seq_number := i\<rparr>) = kept s t" "kept s (t\<lparr>downlink_reject_timer := v\<rparr>) = kept s t"
  "kept s (t\<lparr>downlink_buffer := b\<rparr>) = kept s t" "kept s (t\<lparr>uplink_expected_rsp := c\<rparr>) = kept s t"
  "kept s (t\<lparr>uplink_ack_timeout_phase := i\<rparr>) = kept s t" "kept s (t\<lparr>uplink_ack_timeouts := i\<rparr>) = kept s t"
  "kept s (t\<lparr>uplink_ack_timer := v\<rparr>) = kept s t" "kept s (t\<lparr>uplink_ack_timeout := v\<rparr>) = kept s t"
  "kept s (t\<lparr>uplink_duplicate := a\<rparr>) = kept s t" "kept s (t\<lparr>uplink_seq_number := i\<rparr>) = kept s t"
  "kept s (t\<lparr>uplink_frame_error := a\<rparr>) = kept s t" "kept s (t\<lparr>uplink_msg_timer := v\<rparr>) = kept s t"
  "kept s (t\<lparr>usbOut := out\<rparr>) = kept s t" "kept s (t\<lparr>usbFault := a\<rparr>) = kept s t"
  by (simp_all add: kept_def)

lemma kept_state: "x \<noteq> UPLINK_INVALID \<Longrightarrow> kept s t \<Longrightarrow> kept s (t\<lparr>uplink_state := x\<rparr>)"
  by (simp add: kept_def)

lemma kept_ResetUplinkState: "kept s t \<Longrightarrow> kept s (ResetUplinkState t)"
  by (simp add: ResetUplinkState_def kept_state)

lemma kept_StopAckTimer [simp]: "kept s (snd (StopAckTimer t)) = kept s t"
  by (simp add: StopAckTimer_def)

lemma kept_ResetDownlinkState [simp]: "kept s (snd (ResetDownlinkState t)) = kept s t"
  by (simp add: ResetDownlinkState_def)

lemma kept_IncrementDownlinkSequence [simp]: "kept s (snd (IncrementDownlinkSequence t)) = kept s t"
  by (simp add: IncrementDownlinkSequence_def)

lemma kept_ClearUplinkTransaction [simp]: "kept s (snd (ClearUplinkTransaction t)) = kept s t"
  by (simp add: ClearUplinkTransaction_def split_beta)

lemma kept_QueueUplinkBuffer [simp]: "kept s (snd (QueueUplinkBuffer t)) = kept s t"
  by (simp add: QueueUplinkBuffer_def Let_def)

lemma kept_ProcessUplinkMessage [simp]: "kept s (snd (ProcessUplinkMessage t)) = kept s t"
  by (simp add: ProcessUplinkMessage_def Let_def)

lemma kept_uplink_message_complete [simp]: "kept s (snd (uplink_message_complete t)) = kept s t"
  by (simp add: uplink_message_complete_def uplink_reset_message_def Let_def)

lemma kept_CheckUplinkCompleted: "kept s t \<Longrightarrow> kept s (snd (snd (CheckUplinkCompleted t)))"
  by (simp add: CheckUplinkCompleted_def Let_def split_beta kept_ResetUplinkState)

lemma kept_WriteDownlinkCodePacket [simp]: "kept s (snd (WriteDownlinkCodePacket hal cmd p t)) = kept s t"
  by (simp add: WriteDownlinkCodePacket_def usb_write_def Let_def split_beta)

lemma kept_message_reject [simp]: "kept s (snd (message_reject hal now t)) = kept s t"
  by (simp add: message_reject_def Let_def split_beta)

lemma kept_short_command: "kept s t \<Longrightarrow> kept s (snd (short_command p t))"
  by (simp add: short_command_def Let_def split_beta kept_ResetUplinkState)

lemma kept_note_sequence [simp]: "kept s (note_sequence c n f t) = kept s t"
  by (simp add: note_sequence_def Let_def)

lemma kept_ProcessUplinkCodePacket: "kept s t \<Longrightarrow> kept s (snd (ProcessUplinkCodePacket hal now t))"
  by (simp add: ProcessUplinkCodePacket_def Let_def kept_state kept_short_command)

lemma kept_checksum_byte: "kept s t \<Longrightarrow> kept s (snd (checksum_byte hal now b t))"
  by (simp add: checksum_byte_def ValidateChecksum_def Let_def split_beta kept_state
      kept_ProcessUplinkCodePacket)

lemma kept_store_byte [simp]: "kept s (store_byte b t) = kept s t"
  by (simp add: store_byte_def Let_def)

lemma kept_frame_error [simp]: "kept s (frame_error t) = kept s t"
  by (simp add: frame_error_def)

lemma kept_idle_byte: "kept s t \<Longrightarrow> kept s (idle_byte b t)"
  by (simp add: idle_byte_def kept_state)

lemma kept_frame_code_byte: "kept s t \<Longrightarrow> kept s (frame_code_byte b t)"
  by (simp add: frame_code_byte_def kept_state)

lemma kept_escaped_byte: "kept s t \<Longrightarrow> kept s (snd (escaped_byte b t))"
  by (simp add: escaped_byte_def Let_def split_beta kept_CheckUplinkCompleted kept_ResetUplinkState kept_state)

lemma kept_message_loop: "kept s t \<Longrightarrow> kept s (fst (snd (snd (message_loop t chunk))))"
proof (induction t chunk rule: message_loop.induct)
  case (2 t b rest)
  obtain st c t1 where t1: "CheckUplinkCompleted (store_byte b t) = (st, c, t1)" by (metis prod_cases3)
  have "kept s (snd (snd (CheckUplinkCompleted (store_byte b t))))"
    using 2(2) by (simp add: kept_CheckUplinkCompleted)
  then show ?case using 2 by (simp add: Let_def t1 kept_state)
qed simp

lemma kept_message_timeout: "kept s t \<Longrightarrow> kept s (message_timeout now t)"
  by (simp add: message_timeout_def kept_ResetUplinkState)

lemma kept_uplink_round: "kept s (fst (snd (snd (uplink_round hal now s chunk))))"
  by (simp add: uplink_round_def Let_def split_beta kept_idle_byte kept_frame_code_byte kept_state
      kept_checksum_byte kept_message_loop kept_message_timeout kept_escaped_byte split: UplinkState.split)


section \<open>Byte by byte\<close>

text \<open>
  What the parser computes, without its loops: a function of one byte, and its iteration up
  to the first error.
\<close>

definition byte_step :: "hal_write \<Rightarrow> u32 \<Rightarrow> u8 \<Rightarrow> usb_link \<Rightarrow> LonStatusCode \<times> usb_link" where
  "byte_step hal now b s =
     (case uplink_state s of
        UPLINK_IDLE \<Rightarrow> (LonStatusNoError, idle_byte b s)
      | UPLINK_FRAME_CODE \<Rightarrow>
          (LonStatusNoError,
           if iface_type s = LON_USB_INTERFACE_U50 then frame_code_byte b s
           else if b = 0 then s\<lparr>uplink_msg_timer := now, uplink_state := UPLINK_MESSAGE\<rparr>
           else idle_byte b ((frame_error s)\<lparr>uplink_state := UPLINK_IDLE, uplink_frame_error := True\<rparr>))
      | UPLINK_FRAME_PARAMETER \<Rightarrow>
          (LonStatusNoError,
           (poke_header (\<lambda>h. h\<lparr>frameParameter := b\<rparr>) s)\<lparr>uplink_state := UPLINK_CODE_PACKET_CHECKSUM\<rparr>)
      | UPLINK_CODE_PACKET_CHECKSUM \<Rightarrow> checksum_byte hal now b s
      | UPLINK_MESSAGE \<Rightarrow>
          (let s1 = store_byte b s
           in if frame_full s then (LonStatusNoError, s1)
              else if b = FRAME_SYNC then (LonStatusNoError, s1\<lparr>uplink_state := UPLINK_ESCAPED_DATA\<rparr>)
              else (case CheckUplinkCompleted s1 of (st, _, s2) \<Rightarrow> (st, s2)))
      | UPLINK_ESCAPED_DATA \<Rightarrow> escaped_byte b s
      | UPLINK_INVALID \<Rightarrow> (LonStatusNoError, s))"

fun feed :: "hal_write \<Rightarrow> u32 \<Rightarrow> bytes \<Rightarrow> usb_link \<Rightarrow> LonStatusCode \<times> usb_link" where
  "feed hal now [] s = (LonStatusNoError, s)"
| "feed hal now (b # bs) s =
     (case byte_step hal now b s of
        (st, s1) \<Rightarrow> if st \<noteq> LonStatusNoError then (st, s1) else feed hal now bs s1)"

lemma feed_append:
  "feed hal now (xs @ ys) s =
     (case feed hal now xs s of
        (st, s1) \<Rightarrow> if st \<noteq> LonStatusNoError then (st, s1) else feed hal now ys s1)"
  by (induction xs arbitrary: s) (auto split: prod.split)

text \<open>The message that is being received has begun less than the timeout ago.\<close>

definition in_time :: "u32 \<Rightarrow> usb_link \<Rightarrow> bool" where
  "in_time now s \<longleftrightarrow> uplink_state s \<noteq> UPLINK_INVALID \<and> \<not> usbShutdown s \<and>
     (uplink_state s \<in> {UPLINK_MESSAGE, UPLINK_ESCAPED_DATA} \<longrightarrow> now - uplink_msg_timer s \<le> llp_timeout s)"

lemma in_time_kept:
  assumes "in_time now s" "kept s s'"
    and "uplink_state s' \<in> {UPLINK_MESSAGE, UPLINK_ESCAPED_DATA} \<Longrightarrow>
      uplink_msg_timer s' = now \<or> uplink_state s \<in> {UPLINK_MESSAGE, UPLINK_ESCAPED_DATA} \<and>
      uplink_msg_timer s' = uplink_msg_timer s"
  shows "in_time now s'"
  using assms by (auto simp: in_time_def kept_def)

lemma CheckUplinkCompleted_state:
  "uplink_state (snd (snd (CheckUplinkCompleted s))) = (if fst (snd (CheckUplinkCompleted s)) then UPLINK_IDLE else uplink_state s)"
  "\<not> fst (snd (CheckUplinkCompleted s)) \<Longrightarrow> uplink_msg_timer (snd (snd (CheckUplinkCompleted s))) = uplink_msg_timer s"
  "\<not> fst (snd (CheckUplinkCompleted s)) \<Longrightarrow> \<not> usbShutdown s \<Longrightarrow> fst (CheckUplinkCompleted s) = LonStatusNoError"
  by (auto simp: CheckUplinkCompleted_def Let_def split_beta ResetUplinkState_def split: if_splits)

lemma store_byte_fields [simp]:
  "uplink_state (store_byte b s) = uplink_state s" "uplink_msg_timer (store_byte b s) = uplink_msg_timer s"
  "usbShutdown (store_byte b s) = usbShutdown s" "llp_timeout (store_byte b s) = llp_timeout s"
  by (simp_all add: store_byte_def Let_def poke_frame_def)

lemma message_timeout_in_time: "in_time now s \<Longrightarrow> uplink_state s \<in> {UPLINK_IDLE, UPLINK_MESSAGE, UPLINK_ESCAPED_DATA} \<Longrightarrow>
  message_timeout now s = s"
  by (auto simp: message_timeout_def in_time_def)


text \<open>A parser that has reached the end of the buffer is stuck.\<close>

lemma frame_full_fault [simp]: "frame_full (s\<lparr>usbFault := x\<rparr>) = frame_full s"
  by (simp add: frame_full_def)

lemma uplink_loop_stuck:
  assumes "uplink_state s = UPLINK_MESSAGE" "frame_full s" "\<not> usbShutdown s"
  shows "uplink_loop hal now s chunk =
    Some (LonStatusNoError, if chunk = [] then s else s\<lparr>usbFault := True\<rparr>)"
  using assms by (cases chunk) (simp_all add: uplink_loop.simps uplink_round_def store_byte_def)

lemma uplink_round_message:
  assumes "in_time now s" "uplink_state s = UPLINK_MESSAGE"
  shows "uplink_loop hal now s (b # rest) =
    (case byte_step hal now b s of
       (st, s1) \<Rightarrow> if st \<noteq> LonStatusNoError then Some (st, s1) else uplink_loop hal now s1 rest)"
proof -
  let ?s1 = "store_byte b s"
  have sd: "\<not> usbShutdown s" using assms(1) by (simp add: in_time_def)
  obtain st c s2 where c: "CheckUplinkCompleted ?s1 = (st, c, s2)" by (metis prod_cases3)
  note cs = CheckUplinkCompleted_state [of ?s1, unfolded c, simplified]
  have k: "kept s s2" using kept_CheckUplinkCompleted [of s ?s1] c by simp
  have t2: "in_time now s2" if "\<not> c \<or> st = LonStatusNoError"
    by (rule in_time_kept [OF assms(1) k]) (use cs assms(2) in \<open>auto split: if_splits\<close>)
  have te: "in_time now (?s1\<lparr>uplink_state := UPLINK_ESCAPED_DATA\<rparr>)"
    using assms by (simp add: in_time_def)
  consider "frame_full s" | "\<not> frame_full s" "b = FRAME_SYNC"
    | "\<not> frame_full s" "b \<noteq> FRAME_SYNC" "c \<or> st \<noteq> LonStatusNoError"
    | "\<not> frame_full s" "b \<noteq> FRAME_SYNC" "\<not> c" "st = LonStatusNoError" by blast
  then show ?thesis
  proof cases
    case 1
    then show ?thesis
      using uplink_loop_stuck [OF assms(2) 1 sd, of hal now "b # rest"]
        uplink_loop_stuck [of ?s1 hal now rest] assms(2) sd
      by (simp add: byte_step_def store_byte_def)
  next
    case 2
    then show ?thesis
      using te sd assms(2)
      by (subst uplink_loop.simps) (simp add: uplink_round_def message_timeout_in_time byte_step_def Let_def)
  next
    case 3
    then show ?thesis
      using t2 sd assms(2) cs
      by (subst uplink_loop.simps)
        (auto simp: uplink_round_def message_timeout_in_time byte_step_def Let_def c)
  next
    case 4
    have s2: "uplink_state s2 = UPLINK_MESSAGE" "\<not> usbShutdown s2"
      using cs(1) 4 assms(2) k sd by (auto simp: kept_def)
    show ?thesis
    proof (cases rest)
      case Nil
      then show ?thesis
        using 4 t2 sd assms(2) s2
        by (subst uplink_loop.simps)
          (simp add: uplink_round_def message_timeout_in_time byte_step_def Let_def c)
    next
      case (Cons b' rest')
      then show ?thesis
        using 4 sd assms(2) s2
        by (subst (1 2) uplink_loop.simps)
          (simp add: uplink_round_def byte_step_def Let_def c)
    qed
  qed
qed


lemma frame_error_fields [simp]:
  "uplink_state (frame_error s) = uplink_state s" "uplink_msg_timer (frame_error s) = uplink_msg_timer s"
  "usbShutdown (frame_error s) = usbShutdown s" "uplink_msg_index (frame_error s) = uplink_msg_index s"
  "uplink_msg_length (frame_error s) = uplink_msg_length s" "uplink_frame_error (frame_error s) = uplink_frame_error s"
  "llp_timeout (frame_error s) = llp_timeout s" "iface_type (frame_error s) = iface_type s"
  by (simp_all add: frame_error_def set_stats_def)

lemma idle_byte_state: "uplink_state (idle_byte b s) = (if b = FRAME_SYNC then UPLINK_FRAME_CODE else uplink_state s)"
  by (simp add: idle_byte_def)

lemma frame_code_byte_state [simp]: "uplink_state (frame_code_byte b s) = UPLINK_FRAME_PARAMETER"
  by (simp add: frame_code_byte_def)

lemma checksum_byte_state:
  "fst (checksum_byte hal now b s) = LonStatusNoError \<Longrightarrow>
     (uplink_state (snd (checksum_byte hal now b s)) = UPLINK_MESSAGE \<and>
        uplink_msg_timer (snd (checksum_byte hal now b s)) = now) \<or>
     uplink_state (snd (checksum_byte hal now b s)) = UPLINK_IDLE"
  by (auto simp: checksum_byte_def Let_def split_beta split: if_splits)

lemma escaped_byte_state:
  "uplink_state (snd (escaped_byte b s)) = UPLINK_IDLE \<or>
   uplink_state (snd (escaped_byte b s)) = UPLINK_MESSAGE \<and> uplink_msg_timer (snd (escaped_byte b s)) = uplink_msg_timer s"
  by (auto simp: escaped_byte_def Let_def split_beta CheckUplinkCompleted_state ResetUplinkState_def)

lemma kept_byte_step: "kept s (snd (byte_step hal now b s))"
  by (simp add: byte_step_def Let_def split_beta kept_idle_byte kept_frame_code_byte kept_state
      kept_checksum_byte kept_escaped_byte kept_CheckUplinkCompleted split: UplinkState.split)

lemma byte_step_in_time:
  assumes "in_time now s" "fst (byte_step hal now b s) = LonStatusNoError"
  shows "in_time now (snd (byte_step hal now b s))"
proof (rule in_time_kept [OF assms(1) kept_byte_step])
  assume r: "uplink_state (snd (byte_step hal now b s)) \<in> {UPLINK_MESSAGE, UPLINK_ESCAPED_DATA}"
  show "uplink_msg_timer (snd (byte_step hal now b s)) = now \<or>
      uplink_state s \<in> {UPLINK_MESSAGE, UPLINK_ESCAPED_DATA} \<and>
      uplink_msg_timer (snd (byte_step hal now b s)) = uplink_msg_timer s"
  proof (cases "uplink_state s")
    case UPLINK_CODE_PACKET_CHECKSUM
    then show ?thesis using r assms(2) checksum_byte_state [of hal now b s] by (auto simp: byte_step_def)
  next
    case UPLINK_MESSAGE
    then show ?thesis using r by (auto simp: byte_step_def Let_def split_beta CheckUplinkCompleted_state split: if_splits)
  next
    case UPLINK_ESCAPED_DATA
    then show ?thesis using r escaped_byte_state [of b s] by (auto simp: byte_step_def)
  qed (use r in \<open>auto simp: byte_step_def idle_byte_state split: if_splits\<close>)
qed

lemma uplink_loop_Cons:
  assumes "in_time now s"
  shows "uplink_loop hal now s (b # rest) =
    (case byte_step hal now b s of
       (st, s1) \<Rightarrow> if st \<noteq> LonStatusNoError then Some (st, s1) else uplink_loop hal now s1 rest)"
proof (cases "uplink_state s")
  case UPLINK_MESSAGE
  then show ?thesis by (rule uplink_round_message [OF assms])
next
  case UPLINK_FRAME_CODE
  show ?thesis
  proof (cases "iface_type s = LON_USB_INTERFACE_U50 \<or> b = 0")
    case True
    then show ?thesis
      using assms UPLINK_FRAME_CODE
      by (subst uplink_loop.simps) (auto simp: in_time_def uplink_round_def byte_step_def)
  next
    case False
    then show ?thesis
      using assms UPLINK_FRAME_CODE
      by (subst uplink_loop.simps, simp add: in_time_def uplink_round_def byte_step_def)
        (subst uplink_loop.simps, simp add: uplink_round_def)
  qed
qed (use assms in \<open>auto simp: uplink_loop.simps [of hal now s "b # rest"] in_time_def uplink_round_def
  byte_step_def split: prod.split\<close>)

lemma uplink_loop_feed: "in_time now s \<Longrightarrow> uplink_loop hal now s chunk = Some (feed hal now chunk s)"
proof (induction chunk arbitrary: s)
  case Nil
  then show ?case by (subst uplink_loop.simps) simp
next
  case (Cons b chunk)
  then show ?case
    using byte_step_in_time [OF Cons.prems, of hal b]
    by (simp add: uplink_loop_Cons split_beta)
qed

lemma ProcessUplinkBytes_feed:
  assumes "in_time now s" shows "ProcessUplinkBytes hal now chunk s = Some (feed hal now chunk s)"
  using assms uplink_loop_feed [OF assms] by (simp add: ProcessUplinkBytes_def in_time_def)

lemma feed_in_time:
  "in_time now s \<Longrightarrow> fst (feed hal now chunk s) = LonStatusNoError \<Longrightarrow> in_time now (snd (feed hal now chunk s))"
proof (induction chunk arbitrary: s)
  case (Cons b chunk)
  then show ?case using byte_step_in_time [OF Cons.prems(1), of hal b] by (auto simp: split_beta split: if_splits)
qed simp

end
