(* ===== verification/Lon_Usb_Parser.thy ===== *)
theory Lon_Usb_Parser
  imports Lon_Usb_Uplink
begin

text \<open>
  \<^verbatim>\<open>lon_usb/lon_usb_link.c\<close>: what the parser of the uplink guarantees whatever the device sends.
  \<open>ProcessUplinkBytes\<close> returns on every chunk, it keeps the state of the link well formed, and
  it stays inside the frame buffer unless a frame announces an extended length, where it is stuck
  at the first write past the buffer; up to the first error, how the bytes are cut into chunks
  does not matter.
\<close>

section \<open>Termination and safety\<close>

text \<open>
  Outside of a message the parser holds no bytes; inside, the bytes collected are those that
  the announced length allows, up to the three that are needed to know it.
\<close>

definition in_message :: "usb_link \<Rightarrow> bool" where
  "in_message s \<longleftrightarrow> uplink_state s \<in> {UPLINK_MESSAGE, UPLINK_ESCAPED_DATA}"

definition up_inv :: "usb_link \<Rightarrow> bool" where
  "up_inv s \<longleftrightarrow> uplink_state s \<noteq> UPLINK_INVALID \<and> \<not> usbShutdown s \<and>
     length (bufFrame (uplink_buffer s)) = LON_NI_FRAME_SIZE \<and>
     queue_wf (uplink_normal_queue s) \<and> queue_wf (uplink_priority_queue s) \<and>
     queue_wf (downlink_normal_queue s) \<and> queue_wf (downlink_priority_queue s) \<and>
     (\<not> in_message s \<longrightarrow> uplink_msg_index s = 0 \<and> uplink_msg_length s = 0) \<and>
     uplink_msg_index s \<le> max (uplink_msg_length s + 1) 3 + (if uplink_state s = UPLINK_ESCAPED_DATA then 1 else 0)"

lemma length_message_loop: "length (snd (snd (snd (message_loop s chunk)))) \<le> length chunk - 1"
proof (induction s chunk rule: message_loop.induct)
  case (2 s b rest)
  obtain st c s2 where c: "CheckUplinkCompleted (store_byte b s) = (st, c, s2)" by (metis prod_cases3)
  show ?case using 2 by (auto simp: Let_def c intro: le_trans [OF _ diff_le_self])
qed simp

lemma uplink_round_shrinks:
  assumes "chunk \<noteq> []" "uplink_state s \<noteq> UPLINK_INVALID"
  shows "length (snd (snd (snd (uplink_round hal now s chunk)))) < length chunk \<or>
    snd (snd (snd (uplink_round hal now s chunk))) = chunk \<and> uplink_state s = UPLINK_FRAME_CODE \<and>
    uplink_state (fst (snd (snd (uplink_round hal now s chunk)))) = UPLINK_IDLE"
  using assms length_message_loop [of s chunk]
  by (cases chunk) (auto simp: uplink_round_def Let_def split_beta split: UplinkState.splits)

text \<open>An invariant of the rounds is an invariant of the loop, which returns.\<close>

lemma uplink_loop_returns:
  assumes "I s" "uplink_state s \<noteq> UPLINK_INVALID" "set chunk \<subseteq> B"
    and step: "\<And>s chunk. I s \<Longrightarrow> uplink_state s \<noteq> UPLINK_INVALID \<Longrightarrow> chunk \<noteq> [] \<Longrightarrow> set chunk \<subseteq> B \<Longrightarrow>
      I (fst (snd (snd (uplink_round hal now s chunk)))) \<and>
      set (snd (snd (snd (uplink_round hal now s chunk)))) \<subseteq> B"
  shows "\<exists>st s'. uplink_loop hal now s chunk = Some (st, s') \<and> I s' \<and> uplink_state s' \<noteq> UPLINK_INVALID"
  using assms(1-3)
proof (induction "2 * length chunk + (if uplink_state s = UPLINK_FRAME_CODE then 1 else 0)"
    arbitrary: s chunk rule: less_induct)
  case less
  obtain st ret s1 rest where r: "uplink_round hal now s chunk = (st, ret, s1, rest)" by (metis prod_cases4)
  show ?case
  proof (cases "chunk = [] \<or> usbShutdown s")
    case True
    then show ?thesis using less.prems by (subst uplink_loop.simps) auto
  next
    case False
    then have inv: "I s1" "set rest \<subseteq> B" "uplink_state s1 \<noteq> UPLINK_INVALID"
      using step [OF less.prems(1,2) _ less.prems(3)] kept_uplink_round [of s hal now chunk] less.prems(2) r
      by (auto simp: kept_def)
    have "2 * length rest + (if uplink_state s1 = UPLINK_FRAME_CODE then 1 else 0)
        < 2 * length chunk + (if uplink_state s = UPLINK_FRAME_CODE then 1 else 0)"
      using uplink_round_shrinks [of chunk s hal now] False less.prems(2) r by auto
    from less.hyps [OF this inv(1,3,2)] show ?thesis
      using False r inv by (subst uplink_loop.simps) auto
  qed
qed


text \<open>The code packets leave the collection of messages alone.\<close>

definition up_same :: "usb_link \<Rightarrow> usb_link \<Rightarrow> bool" where
  "up_same s t \<longleftrightarrow> uplink_state t = uplink_state s \<and> uplink_msg_index t = uplink_msg_index s \<and>
     uplink_msg_length t = uplink_msg_length s \<and> uplink_buffer t = uplink_buffer s \<and>
     uplink_normal_queue t = uplink_normal_queue s \<and> uplink_priority_queue t = uplink_priority_queue s \<and>
     downlink_normal_queue t = downlink_normal_queue s \<and> downlink_priority_queue t = downlink_priority_queue s \<and>
     wait_for_uid t = wait_for_uid s \<and> wait_for_status t = wait_for_status s \<and> usbFault t = usbFault s \<and>
     usbShutdown t = usbShutdown s"

lemma up_same_refl [simp]: "up_same s s" by (simp add: up_same_def)

lemma up_same_update [simp]:
  "up_same s (t\<lparr>wait_for_null := a\<rparr>) = up_same s t" "up_same s (t\<lparr>have_null := a\<rparr>) = up_same s t"
  "up_same s (t\<lparr>downlink_state := d\<rparr>) = up_same s t" "up_same s (t\<lparr>downlink_seq_number := n\<rparr>) = up_same s t"
  "up_same s (t\<lparr>downlink_ack_seq_number := i\<rparr>) = up_same s t" "up_same s (t\<lparr>downlink_reject_timer := v\<rparr>) = up_same s t"
  "up_same s (t\<lparr>downlink_buffer := b\<rparr>) = up_same s t" "up_same s (t\<lparr>uplink_expected_rsp := c\<rparr>) = up_same s t"
  "up_same s (t\<lparr>uplink_ack_timeout_phase := i\<rparr>) = up_same s t" "up_same s (t\<lparr>uplink_ack_timeouts := i\<rparr>) = up_same s t"
  "up_same s (t\<lparr>uplink_ack_timer := v\<rparr>) = up_same s t" "up_same s (t\<lparr>uplink_ack_timeout := v\<rparr>) = up_same s t"
  "up_same s (t\<lparr>uplink_duplicate := a\<rparr>) = up_same s t" "up_same s (t\<lparr>uplink_seq_number := i\<rparr>) = up_same s t"
  "up_same s (t\<lparr>usbOut := out\<rparr>) = up_same s t"
  by (simp_all add: up_same_def)

lemma up_same_stats [simp]: "up_same s (set_stats f t) = up_same s t"
  by (simp add: up_same_def set_stats_def)

lemma up_same_ops [simp]:
  "up_same s (snd (StopAckTimer t)) = up_same s t"
  "up_same s (snd (ResetDownlinkState t)) = up_same s t"
  "up_same s (snd (IncrementDownlinkSequence t)) = up_same s t"
  "up_same s (snd (WriteDownlinkCodePacket hal cmd p t)) = up_same s t"
  by (simp_all add: StopAckTimer_def ResetDownlinkState_def IncrementDownlinkSequence_def
      WriteDownlinkCodePacket_def usb_write_def Let_def split_beta)

lemma up_same_packets [simp]:
  "up_same s (snd (ClearUplinkTransaction t)) = up_same s t"
  "up_same s (snd (message_reject hal now t)) = up_same s t"
  "up_same s (note_sequence c n f t) = up_same s t"
  by (simp_all add: ClearUplinkTransaction_def message_reject_def note_sequence_def Let_def split_beta)

text \<open>What holds when the parser is between messages.\<close>

definition up_base :: "usb_link \<Rightarrow> bool" where
  "up_base s \<longleftrightarrow> length (bufFrame (uplink_buffer s)) = LON_NI_FRAME_SIZE \<and>
     queue_wf (uplink_normal_queue s) \<and> queue_wf (uplink_priority_queue s) \<and>
     queue_wf (downlink_normal_queue s) \<and> queue_wf (downlink_priority_queue s)"

lemma up_base_update [simp]:
  "up_base (poke_frame j w t) = up_base t" "up_base (poke_header f t) = up_base t"
  "up_base (set_stats g t) = up_base t" "up_base (ResetUplinkState t) = up_base t"
  "up_base (t\<lparr>wait_for_uid := a\<rparr>) = up_base t" "up_base (t\<lparr>have_uid := a\<rparr>) = up_base t"
  "up_base (t\<lparr>usbUid := u\<rparr>) = up_base t" "up_base (t\<lparr>wait_for_status := a\<rparr>) = up_base t"
  "up_base (t\<lparr>have_status := a\<rparr>) = up_base t" "up_base (t\<lparr>current_iface_mode := m\<rparr>) = up_base t"
  "up_base (t\<lparr>wait_for_reset := a\<rparr>) = up_base t" "up_base (t\<lparr>have_reset := a\<rparr>) = up_base t"
  "up_base (t\<lparr>uplink_msg_length := n\<rparr>) = up_base t" "up_base (t\<lparr>uplink_msg_index := n\<rparr>) = up_base t"
  "up_base (t\<lparr>downlink_state := d\<rparr>) = up_base t" "up_base (t\<lparr>downlink_seq_number := n\<rparr>) = up_base t"
  "up_base (t\<lparr>downlink_ack_seq_number := k\<rparr>) = up_base t" "up_base (t\<lparr>uplink_state := x\<rparr>) = up_base t"
  "up_base (t\<lparr>uplink_frame_error := a\<rparr>) = up_base t" "up_base (t\<lparr>uplink_msg_timer := v\<rparr>) = up_base t"
  "up_base (t\<lparr>usbFault := a\<rparr>) = up_base t" "up_base (frame_error t) = up_base t"
  by (simp_all add: up_base_def poke_frame_def poke_header_def set_stats_def ResetUplinkState_def frame_error_def)

lemma up_base_same: "up_same s t \<Longrightarrow> up_base t = up_base s" by (simp add: up_base_def up_same_def)

lemma up_base_queue: "up_base t \<Longrightarrow> up_base (snd (QueueUplinkBuffer t))"
  by (simp add: up_base_def QueueUplinkBuffer_def uplink_queue_def set_uplink_queue_def Let_def)

lemma up_base_message: "up_base t \<Longrightarrow> up_base (snd (ProcessUplinkMessage t))"
  by (simp add: ProcessUplinkMessage_def Let_def up_base_queue)

lemma up_base_complete: "up_base t \<Longrightarrow> up_base (snd (uplink_message_complete t))"
  by (simp add: uplink_message_complete_def uplink_reset_message_def Let_def up_base_message)

lemma up_base_short: "up_base t \<Longrightarrow> up_base (snd (short_command p t))"
  by (simp add: short_command_def Let_def split_beta up_base_message)

lemma usbFault_update [simp]:
  "usbFault (poke_frame i v t) = usbFault t" "usbFault (poke_header f t) = usbFault t"
  "usbFault (set_stats g t) = usbFault t" "usbFault (ResetUplinkState t) = usbFault t"
  "usbFault (frame_error t) = usbFault t"
  by (simp_all add: poke_frame_def poke_header_def set_stats_def ResetUplinkState_def frame_error_def)

lemma usbFault_message [simp]: "usbFault (snd (ProcessUplinkMessage t)) = usbFault t"
  by (simp add: ProcessUplinkMessage_def QueueUplinkBuffer_def set_uplink_queue_def Let_def)

lemma usbFault_complete [simp]: "usbFault (snd (uplink_message_complete t)) = usbFault t"
  by (simp add: uplink_message_complete_def uplink_reset_message_def Let_def)

lemma usbFault_short [simp]: "usbFault (snd (short_command p t)) = usbFault t"
  by (simp add: short_command_def Let_def split_beta)


subsection \<open>One byte\<close>

text \<open>
  The invariant with the frame buffer's bound: while no announced length reaches 255, which a
  byte \<open>0xFF\<close> at the start of a frame announces, no byte is stored past the buffer.
\<close>

definition up_short :: "usb_link \<Rightarrow> bool" where
  "up_short s \<longleftrightarrow> uplink_msg_length s < 255 \<and>
     (in_message s \<and> uplink_msg_index s = 1 \<longrightarrow> byte_at (bufFrame (uplink_buffer s)) 0 \<noteq> EXT_LENGTH)"

definition up_ok :: "bool \<Rightarrow> bool \<Rightarrow> usb_link \<Rightarrow> bool" where
  "up_ok no_ext fault s \<longleftrightarrow> up_inv s \<and> (no_ext \<longrightarrow> up_short s \<and> usbFault s = fault)"

lemma up_inv_base: "up_inv s \<longleftrightarrow> up_base s \<and> uplink_state s \<noteq> UPLINK_INVALID \<and> \<not> usbShutdown s \<and>
     (\<not> in_message s \<longrightarrow> uplink_msg_index s = 0 \<and> uplink_msg_length s = 0) \<and>
     uplink_msg_index s \<le> max (uplink_msg_length s + 1) 3 + (if uplink_state s = UPLINK_ESCAPED_DATA then 1 else 0)"
  by (auto simp: up_inv_def up_base_def)

lemma up_ok_idle:
  assumes "up_base s" "uplink_state s \<notin> {UPLINK_MESSAGE, UPLINK_ESCAPED_DATA, UPLINK_INVALID}" "\<not> usbShutdown s"
    and "uplink_msg_index s = 0" "uplink_msg_length s = 0" "no_ext \<longrightarrow> usbFault s = fault"
  shows "up_ok no_ext fault s"
  using assms by (auto simp: up_ok_def up_inv_base up_short_def in_message_def)

lemma up_ok_reset:
  assumes "up_base s" "\<not> usbShutdown s" "no_ext \<longrightarrow> usbFault s = fault"
  shows "up_ok no_ext fault (ResetUplinkState s)"
  by (rule up_ok_idle) (use assms in \<open>simp_all add: up_base_def ResetUplinkState_def\<close>)

lemma unat_u8_short: "(b :: u8) \<noteq> EXT_LENGTH \<Longrightarrow> unat b < 255"
proof -
  assume "b \<noteq> EXT_LENGTH"
  then have "unat b \<noteq> unat EXT_LENGTH" by (simp add: word_unat_eq_iff)
  then show "unat b < 255" using unat_u8 [of b] by (simp add: EXT_LENGTH_def)
qed

text \<open>The state between a stored byte and the test for completeness.\<close>

lemma up_ok_Check:
  assumes "up_base s" "\<not> usbShutdown s" "uplink_state s = UPLINK_MESSAGE"
    and "no_ext \<longrightarrow> up_short s \<and> usbFault s = fault"
    and "uplink_msg_index s \<le> max (uplink_msg_length s + 1) 3 + 1"
  shows "up_ok no_ext fault (snd (snd (CheckUplinkCompleted s)))"
proof -
  obtain st s1 where c: "uplink_message_complete s = (st, s1)" by force
  have "kept s s1" using c kept_uplink_message_complete [of s s] by simp
  then have s1: "up_base s1" "usbFault s1 = usbFault s" "\<not> usbShutdown s1"
    using up_base_complete [OF assms(1)] usbFault_complete [of s] c assms(2) by (simp_all add: kept_def)
  have "unat (byte_at (bufFrame (uplink_buffer s)) 0) < 255" if "no_ext" "uplink_msg_index s = 1"
    using that assms(3,4) by (intro unat_u8_short) (simp add: up_short_def in_message_def)
  then show ?thesis
    using assms s1 up_ok_reset [OF s1(1,3), of no_ext fault]
    by (auto simp: CheckUplinkCompleted_def Let_def c up_ok_def up_inv_base up_short_def in_message_def)
qed


lemma store_byte_buffer:
  "uplink_msg_index (store_byte b s) = (if frame_full s then uplink_msg_index s else uplink_msg_index s + 1)"
  "uplink_msg_length (store_byte b s) = uplink_msg_length s"
  "bufFrame (uplink_buffer (store_byte b s)) =
     (if uplink_msg_index s < LON_NI_FRAME_SIZE
      then (bufFrame (uplink_buffer s))[uplink_msg_index s := b] else bufFrame (uplink_buffer s))"
  "usbFault (store_byte b s) \<longleftrightarrow> usbFault s \<or> LON_NI_FRAME_SIZE \<le> uplink_msg_index s"
  "up_base (store_byte b s) = up_base s"
  by (auto simp: store_byte_def frame_full_def poke_frame_def up_base_def)

lemma LON_NI_FRAME_SIZE_eq: "LON_NI_FRAME_SIZE = 1282"
  by (simp add: LON_NI_FRAME_SIZE_def MAX_LON_MSG_EX_LEN_def)

lemma up_ok_store:
  assumes "up_ok no_ext fault s" "uplink_state s = UPLINK_MESSAGE" "no_ext \<longrightarrow> b \<noteq> EXT_LENGTH"
  shows "up_base (store_byte b s)" "\<not> usbShutdown (store_byte b s)" "uplink_state (store_byte b s) = UPLINK_MESSAGE"
    and "no_ext \<longrightarrow> up_short (store_byte b s) \<and> usbFault (store_byte b s) = fault"
    and "uplink_msg_index (store_byte b s) \<le> max (uplink_msg_length (store_byte b s) + 1) 3 + 1"
proof -
  have len: "length (bufFrame (uplink_buffer s)) = 1282"
    using assms(1) by (simp add: up_ok_def up_inv_base up_base_def LON_NI_FRAME_SIZE_eq)
  show "up_base (store_byte b s)" "\<not> usbShutdown (store_byte b s)" "uplink_state (store_byte b s) = UPLINK_MESSAGE"
    and "no_ext \<longrightarrow> up_short (store_byte b s) \<and> usbFault (store_byte b s) = fault"
    and "uplink_msg_index (store_byte b s) \<le> max (uplink_msg_length (store_byte b s) + 1) 3 + 1"
    using assms len
    by (auto simp: up_ok_def up_inv_base up_short_def in_message_def store_byte_buffer frame_full_def
        LON_NI_FRAME_SIZE_eq byte_at_def)
qed

lemma up_ok_escape:
  assumes "up_ok no_ext fault s" "uplink_state s = UPLINK_MESSAGE"
  shows "up_ok no_ext fault ((store_byte FRAME_SYNC s)\<lparr>uplink_state := UPLINK_ESCAPED_DATA\<rparr>)"
proof -
  have "FRAME_SYNC \<noteq> EXT_LENGTH" by (simp add: FRAME_SYNC_def EXT_LENGTH_def)
  then show ?thesis
    using up_ok_store [OF assms, of FRAME_SYNC] by (simp add: up_ok_def up_inv_base up_short_def in_message_def)
qed

text \<open>At a write past the buffer the parser stays where it is; a short frame does not get there.\<close>

lemma up_ok_stuck:
  assumes "up_ok no_ext fault s" "frame_full s" shows "up_ok no_ext fault (store_byte b s)"
  using assms
  by (auto simp: store_byte_def up_ok_def up_inv_base up_short_def frame_full_def in_message_def LON_NI_FRAME_SIZE_eq
      split: if_splits)

lemma up_ok_message_loop:
  assumes "up_ok no_ext fault s" "uplink_state s = UPLINK_MESSAGE" "no_ext \<longrightarrow> EXT_LENGTH \<notin> set chunk"
  shows "up_ok no_ext fault (fst (snd (snd (message_loop s chunk))))"
  using assms
proof (induction s chunk rule: message_loop.induct)
  case (2 s b rest)
  obtain st c s2 where c: "CheckUplinkCompleted (store_byte b s) = (st, c, s2)" by (metis prod_cases3)
  have "no_ext \<longrightarrow> b \<noteq> EXT_LENGTH" using 2(4) by auto
  from up_ok_Check [OF up_ok_store [OF 2(2,3) this]] have "up_ok no_ext fault s2" using c by simp
  moreover have "\<not> c \<longrightarrow> uplink_state s2 = UPLINK_MESSAGE"
    using CheckUplinkCompleted_state(1) [of "store_byte b s"] c 2(3) by simp
  ultimately show ?case
    using 2 up_ok_escape [OF 2(2,3)] up_ok_stuck [OF 2(2)] by (auto simp: Let_def c)
qed simp

lemma up_ok_timeout:
  assumes "up_ok no_ext fault s" shows "up_ok no_ext fault (message_timeout now s)"
proof -
  have "up_ok no_ext fault
      (ResetUplinkState (set_stats (\<lambda>t. t\<lparr>stRxTimeoutErrors := Increment32 (stRxTimeoutErrors t)\<rparr>) s))"
    by (rule up_ok_reset) (use assms in \<open>auto simp: up_ok_def up_inv_base set_stats_def up_base_def\<close>)
  then show ?thesis using assms by (simp add: message_timeout_def)
qed

lemma up_ok_escaped_byte:
  assumes "up_ok no_ext fault s" "uplink_state s = UPLINK_ESCAPED_DATA"
  shows "up_ok no_ext fault (snd (escaped_byte b s))"
proof -
  let ?s1 = "s\<lparr>uplink_state := UPLINK_MESSAGE\<rparr>"
  let ?e = "(frame_error ?s1)\<lparr>downlink_ack_seq_number := NO_ACK_REQUIRED\<rparr>"
  have s1: "up_ok no_ext fault (snd (snd (CheckUplinkCompleted ?s1)))"
    by (rule up_ok_Check) (use assms in \<open>auto simp: up_ok_def up_inv_base up_short_def in_message_def\<close>)
  have e: "up_ok no_ext fault (snd (snd (CheckUplinkCompleted (?e\<lparr>uplink_msg_index := 0\<rparr>))))"
    by (rule up_ok_Check) (use assms in \<open>auto simp: up_ok_def up_inv_base up_short_def in_message_def\<close>)
  have "up_ok no_ext fault (ResetUplinkState ?e)"
    by (rule up_ok_reset) (use assms in \<open>auto simp: up_ok_def up_inv_base\<close>)
  moreover have "snd (snd (CheckUplinkCompleted (ResetUplinkState ?e))) = ResetUplinkState ?e"
    by (simp add: CheckUplinkCompleted_def ResetUplinkState_def)
  ultimately show ?thesis using s1 e by (simp add: escaped_byte_def Let_def split_beta)
qed

text \<open>A code packet ends between messages, or begins one.\<close>

definition up_rest :: "bool \<Rightarrow> usb_link \<Rightarrow> bool" where
  "up_rest fault s \<longleftrightarrow> up_base s \<and> \<not> usbShutdown s \<and> uplink_msg_index s = 0 \<and> uplink_msg_length s = 0 \<and>
     usbFault s = fault"

lemma up_rest_same: "up_same s t \<Longrightarrow> up_rest f t = up_rest f s"
  by (simp add: up_rest_def up_base_same) (simp add: up_same_def)

lemma up_rest_update [simp]:
  "up_rest f (poke_header g t) = up_rest f t" "up_rest f (set_stats h t) = up_rest f t"
  "up_rest f (t\<lparr>uplink_frame_error := a\<rparr>) = up_rest f t" "up_rest f (t\<lparr>downlink_ack_seq_number := k\<rparr>) = up_rest f t"
  "up_rest f (t\<lparr>uplink_state := x\<rparr>) = up_rest f t" "up_rest f (t\<lparr>uplink_msg_timer := v\<rparr>) = up_rest f t"
  by (simp_all add: up_rest_def) (simp_all add: poke_header_def set_stats_def)

lemma message_index [simp]:
  "uplink_msg_index (snd (ProcessUplinkMessage t)) = uplink_msg_index t"
  "uplink_msg_length (snd (ProcessUplinkMessage t)) = uplink_msg_length t"
  "uplink_state (snd (ProcessUplinkMessage t)) = uplink_state t"
  "uplink_msg_index (poke_frame i v t) = uplink_msg_index t" "uplink_msg_length (poke_frame i v t) = uplink_msg_length t"
  "uplink_state (poke_frame i v t) = uplink_state t" "usbShutdown (poke_frame i v t) = usbShutdown t"
  by (simp_all add: ProcessUplinkMessage_def QueueUplinkBuffer_def set_uplink_queue_def set_stats_def Let_def
      poke_frame_def)

lemma usbShutdown_message [simp]: "usbShutdown (snd (ProcessUplinkMessage t)) = usbShutdown t"
  using kept_ProcessUplinkMessage [of t t] unfolding kept_refl by (simp add: kept_def)

lemma up_rest_ops:
  "up_rest f s \<Longrightarrow> up_rest f (poke_frame i v s)"
  "up_rest f s \<Longrightarrow> up_rest f (snd (ProcessUplinkMessage s))"
  "up_rest f s \<Longrightarrow> up_rest f (ResetUplinkState s)"
  by (simp_all add: up_rest_def up_base_message) (simp add: ResetUplinkState_def)

lemma up_rest_downlink [simp]: "up_rest f (s\<lparr>downlink_seq_number := n, downlink_state := d\<rparr>) = up_rest f s"
  by (rule up_rest_same) simp

lemma ResetUplinkState_state [simp]: "uplink_state (ResetUplinkState s) = UPLINK_IDLE"
  by (simp add: ResetUplinkState_def)

lemma short_command_rest:
  assumes "up_rest f s"
  shows "up_rest f (snd (short_command p s))"
    and "uplink_state (snd (short_command p s)) \<in> {uplink_state s, UPLINK_IDLE}"
  using assms by (simp_all add: short_command_def Let_def split_beta up_rest_ops)


text \<open>What a code packet does, apart from sequence numbers and the state of the downlink.\<close>

lemma code_packet_eq:
  assumes "\<not> usbShutdown s"
  shows "\<exists>t. up_same s t \<and> ProcessUplinkCodePacket hal now s =
    (let h = bufHeader (uplink_buffer s); cmd = FRAME_CODE_CMD h
     in if cmd = MSG_FRAME_CMD then
          (LonStatusNoError, t\<lparr>downlink_ack_seq_number := uint (FRAME_CODE_SEQ h), uplink_state := UPLINK_MESSAGE\<rparr>)
        else if cmd = SHORT_NI_CMD_FRAME_CMD then
          short_command (frameParameter h) (t\<lparr>downlink_ack_seq_number := uint (FRAME_CODE_SEQ h)\<rparr>)
        else if cmd = MSG_REJECT_FRAME_CMD then message_reject hal now t
        else if cmd = FAIL_FRAME_CMD then
          (LonStatusFrameError,
           set_stats (\<lambda>t. t\<lparr>stRxCodePacketFailures := Increment32 (stRxCodePacketFailures t)\<rparr>)
             (snd (StopAckTimer (snd (ClearUplinkTransaction t)))))
        else if cmd = NULL_FRAME_CMD then
          (LonStatusNoError,
           if wait_for_null t then t\<lparr>wait_for_null := False, have_null := True\<rparr> else t)
        else
          (LonStatusFrameError,
           set_stats (\<lambda>t. t\<lparr>stRxFrameErrors := Increment32 (stRxFrameErrors t)\<rparr>) t))"
proof -
  define h where "h = bufHeader (uplink_buffer s)"
  define fail where "fail = (FRAME_CODE_CMD h = FAIL_FRAME_CMD \<or> FRAME_CODE_CMD h = MSG_REJECT_FRAME_CMD)"
  define s1 where "s1 = note_sequence (FRAME_CODE_CMD h) (FRAME_CODE_SEQ h) fail s"
  define s2 where "s2 = (if FRAME_CODE_ACK h \<noteq> 0 \<and> \<not> fail \<and> downlink_state s1 \<noteq> DOWNLINK_WAIT_CP_RESPONSE
    then snd (ClearUplinkTransaction s1) else s1)"
  have "up_same s s2" by (simp add: s2_def s1_def)
  then show ?thesis
    using assms
    by (intro exI [of _ s2] conjI)
      (simp, unfold ProcessUplinkCodePacket_def Let_def h_def [symmetric] fail_def [symmetric]
        s1_def [symmetric] s2_def [symmetric], simp only: if_False)
qed

lemma code_packet_split:
  assumes "\<not> usbShutdown s"
    and "\<And>t q. up_same s t \<Longrightarrow>
      P (LonStatusNoError, t\<lparr>downlink_ack_seq_number := q, uplink_state := UPLINK_MESSAGE\<rparr>)"
    and "\<And>t p. up_same s t \<Longrightarrow> P (short_command p t)"
    and "\<And>st t. up_same s t \<Longrightarrow> P (st, t)"
  shows "P (ProcessUplinkCodePacket hal now s)"
proof -
  obtain t where t: "up_same s t" and p: "ProcessUplinkCodePacket hal now s =
    (let h = bufHeader (uplink_buffer s); cmd = FRAME_CODE_CMD h
     in if cmd = MSG_FRAME_CMD then
          (LonStatusNoError, t\<lparr>downlink_ack_seq_number := uint (FRAME_CODE_SEQ h), uplink_state := UPLINK_MESSAGE\<rparr>)
        else if cmd = SHORT_NI_CMD_FRAME_CMD then
          short_command (frameParameter h) (t\<lparr>downlink_ack_seq_number := uint (FRAME_CODE_SEQ h)\<rparr>)
        else if cmd = MSG_REJECT_FRAME_CMD then message_reject hal now t
        else if cmd = FAIL_FRAME_CMD then
          (LonStatusFrameError,
           set_stats (\<lambda>t. t\<lparr>stRxCodePacketFailures := Increment32 (stRxCodePacketFailures t)\<rparr>)
             (snd (StopAckTimer (snd (ClearUplinkTransaction t)))))
        else if cmd = NULL_FRAME_CMD then
          (LonStatusNoError,
           if wait_for_null t then t\<lparr>wait_for_null := False, have_null := True\<rparr> else t)
        else
          (LonStatusFrameError,
           set_stats (\<lambda>t. t\<lparr>stRxFrameErrors := Increment32 (stRxFrameErrors t)\<rparr>) t))"
    using code_packet_eq [OF assms(1), of hal now] by blast
  have rej: "P (message_reject hal now t)"
    using assms(4) [of "snd (message_reject hal now t)" "fst (message_reject hal now t)"] t by simp
  have shrt: "P (short_command q (t\<lparr>downlink_ack_seq_number := i\<rparr>))" for q i using assms(3) t by simp
  have "up_same s (set_stats g (snd (StopAckTimer (snd (ClearUplinkTransaction t)))))"
    "up_same s (t\<lparr>wait_for_null := False, have_null := True\<rparr>)" "up_same s (set_stats g t)" for g
    using t by simp_all
  note other = this [THEN assms(4)]
  show ?thesis
    unfolding p Let_def by (simp add: rej shrt other assms(2) [OF t] assms(4) [OF t])
qed

lemma code_packet_rest:
  assumes "up_rest f s"
  shows "up_rest f (snd (ProcessUplinkCodePacket hal now s)) \<and>
    (fst (ProcessUplinkCodePacket hal now s) \<noteq> LonStatusNoError \<longrightarrow>
      uplink_state (snd (ProcessUplinkCodePacket hal now s)) \<in> {uplink_state s, UPLINK_IDLE})"
proof (rule code_packet_split)
  show "\<not> usbShutdown s" using assms by (simp add: up_rest_def)
next
  fix t q assume "up_same s t"
  from up_rest_same [OF this] show "up_rest f (snd (LonStatusNoError, t\<lparr>downlink_ack_seq_number := q, uplink_state := UPLINK_MESSAGE\<rparr>)) \<and>
    (fst (LonStatusNoError, t\<lparr>downlink_ack_seq_number := q, uplink_state := UPLINK_MESSAGE\<rparr>) \<noteq> LonStatusNoError \<longrightarrow>
      uplink_state (snd (LonStatusNoError, t\<lparr>downlink_ack_seq_number := q, uplink_state := UPLINK_MESSAGE\<rparr>)) \<in> {uplink_state s, UPLINK_IDLE})"
    using assms by simp
next
  fix t p assume t: "up_same s t"
  then have "up_rest f t" using up_rest_same [OF t] assms by simp
  from short_command_rest [OF this, of p] show "up_rest f (snd (short_command p t)) \<and>
    (fst (short_command p t) \<noteq> LonStatusNoError \<longrightarrow> uplink_state (snd (short_command p t)) \<in> {uplink_state s, UPLINK_IDLE})"
    using t by (simp add: up_same_def)
next
  fix st t assume t: "up_same s t"
  then show "up_rest f (snd (st, t)) \<and> (fst (st, t) \<noteq> LonStatusNoError \<longrightarrow> uplink_state (snd (st, t)) \<in> {uplink_state s, UPLINK_IDLE})"
    using up_rest_same [OF t] assms by (simp add: up_same_def)
qed


lemma up_ok_of_rest:
  assumes "up_rest f s" "uplink_state s \<noteq> UPLINK_INVALID" "no_ext \<longrightarrow> f = fault" "uplink_state s \<noteq> UPLINK_ESCAPED_DATA"
  shows "up_ok no_ext fault s"
  using assms by (auto simp: up_rest_def up_ok_def up_inv_base up_short_def)

lemma up_ok_of_idle:
  assumes "up_ok no_ext fault s" "uplink_state s \<notin> {UPLINK_MESSAGE, UPLINK_ESCAPED_DATA}"
  shows "up_rest (usbFault s) s" "no_ext \<longrightarrow> usbFault s = fault"
  using assms by (simp_all add: up_rest_def up_ok_def up_inv_base in_message_def)

lemma up_ok_checksum_byte:
  assumes "up_ok no_ext fault s" "uplink_state s = UPLINK_CODE_PACKET_CHECKSUM"
  shows "up_ok no_ext fault (snd (checksum_byte hal now b s))"
proof -
  define s1 where "s1 = poke_header (\<lambda>h. h\<lparr>frameChecksum := b\<rparr>) s"
  have st1: "uplink_state s1 = UPLINK_CODE_PACKET_CHECKSUM" using assms(2) by (simp add: s1_def poke_header_def)
  have r: "up_rest (usbFault s) s1"
    using up_ok_of_idle(1) [OF assms(1)] assms(2) by (simp add: s1_def)
  have f: "no_ext \<longrightarrow> usbFault s = fault" using assms(1) by (simp add: up_ok_def)
  obtain st s3 where p: "ProcessUplinkCodePacket hal now s1 = (st, s3)" by force
  have s3: "up_rest (usbFault s) s3"
      "st \<noteq> LonStatusNoError \<longrightarrow> uplink_state s3 \<in> {UPLINK_CODE_PACKET_CHECKSUM, UPLINK_IDLE}"
    using code_packet_rest [OF r, of hal now] p st1 by simp_all
  show ?thesis
  proof (cases "ComputeChecksum (header_bytes (bufHeader (uplink_buffer s1))) 4 = 0")
    case True
    then have "snd (checksum_byte hal now b s) =
      (if st \<noteq> LonStatusNoError then s3
       else if FRAME_CODE_CMD (bufHeader (uplink_buffer s3)) = MSG_FRAME_CMD
       then s3\<lparr>uplink_msg_timer := now, uplink_state := UPLINK_MESSAGE\<rparr>
       else s3\<lparr>uplink_state := UPLINK_IDLE\<rparr>)"
      unfolding checksum_byte_def Let_def s1_def [symmetric] by (simp add: ValidateChecksum_def p)
    then show ?thesis
      using s3 by (auto intro!: up_ok_of_rest [OF _ _ f] split: if_splits)
  next
    case False
    then have "snd (checksum_byte hal now b s) =
      (set_stats (\<lambda>t. t\<lparr>stRxChecksumErrors := Increment32 (stRxChecksumErrors t)\<rparr>) s1)
        \<lparr>uplink_frame_error := True, downlink_ack_seq_number := NO_ACK_REQUIRED, uplink_state := UPLINK_IDLE\<rparr>"
      unfolding checksum_byte_def Let_def s1_def [symmetric] by (simp add: ValidateChecksum_def)
    then show ?thesis using r by (auto intro!: up_ok_of_rest [OF _ _ f])
  qed
qed

lemma up_rest_frame_error [simp]: "up_rest f (frame_error s) = up_rest f s"
  by (simp add: frame_error_def)

lemma set_message_loop: "set (snd (snd (snd (message_loop s chunk)))) \<subseteq> set chunk"
proof (induction s chunk rule: message_loop.induct)
  case (2 s b rest)
  obtain st c s2 where c: "CheckUplinkCompleted (store_byte b s) = (st, c, s2)" by (metis prod_cases3)
  show ?case using 2 by (auto simp: Let_def c)
qed simp

lemma set_uplink_round:
  assumes "chunk \<noteq> []" shows "set (snd (snd (snd (uplink_round hal now s chunk)))) \<subseteq> set chunk"
  using assms set_message_loop [of s chunk]
  by (cases chunk) (auto simp: uplink_round_def Let_def split_beta split: UplinkState.splits)

lemma up_ok_round:
  assumes "up_ok no_ext fault s" "chunk \<noteq> []" "no_ext \<longrightarrow> EXT_LENGTH \<notin> set chunk"
  shows "up_ok no_ext fault (fst (snd (snd (uplink_round hal now s chunk))))"
proof (cases "uplink_state s")
  case UPLINK_IDLE
  note r = up_ok_of_idle [OF assms(1), unfolded UPLINK_IDLE, simplified]
  show ?thesis
    using r(1) UPLINK_IDLE by (auto simp: uplink_round_def Let_def idle_byte_def intro!: up_ok_of_rest [OF _ _ r(2)])
next
  case UPLINK_FRAME_CODE
  note r = up_ok_of_idle [OF assms(1), unfolded UPLINK_FRAME_CODE, simplified]
  show ?thesis
    using r(1) UPLINK_FRAME_CODE
    by (auto simp: uplink_round_def Let_def frame_code_byte_def intro!: up_ok_of_rest [OF _ _ r(2)])
next
  case UPLINK_FRAME_PARAMETER
  note r = up_ok_of_idle [OF assms(1), unfolded UPLINK_FRAME_PARAMETER, simplified]
  show ?thesis
    using r(1) UPLINK_FRAME_PARAMETER
    by (auto simp: uplink_round_def Let_def intro!: up_ok_of_rest [OF _ _ r(2)])
next
  case UPLINK_CODE_PACKET_CHECKSUM
  show ?thesis
    using up_ok_checksum_byte [OF assms(1) UPLINK_CODE_PACKET_CHECKSUM] UPLINK_CODE_PACKET_CHECKSUM
    by (simp add: uplink_round_def Let_def split_beta)
next
  case UPLINK_MESSAGE
  show ?thesis
    using up_ok_message_loop [OF assms(1) UPLINK_MESSAGE assms(3)] UPLINK_MESSAGE
    by (simp add: uplink_round_def Let_def split_beta up_ok_timeout)
next
  case UPLINK_ESCAPED_DATA
  show ?thesis
    using up_ok_escaped_byte [OF assms(1) UPLINK_ESCAPED_DATA] UPLINK_ESCAPED_DATA
    by (simp add: uplink_round_def Let_def split_beta)
next
  case UPLINK_INVALID
  then show ?thesis using assms(1) by (simp add: up_ok_def up_inv_def)
qed

lemma ProcessUplinkBytes_ok:
  assumes "up_ok no_ext fault s" "no_ext \<longrightarrow> EXT_LENGTH \<notin> set chunk"
  shows "\<exists>st s'. ProcessUplinkBytes hal now chunk s = Some (st, s') \<and> up_ok no_ext fault s' \<and> kept s s'"
proof -
  let ?B = "if no_ext then - {EXT_LENGTH} else UNIV"
  have "uplink_state s \<noteq> UPLINK_INVALID" "\<not> usbShutdown s" using assms(1) by (auto simp: up_ok_def up_inv_def)
  moreover have "set chunk \<subseteq> ?B" using assms(2) by auto
  moreover have "(up_ok no_ext fault (fst (snd (snd (uplink_round hal now t c)))) \<and>
      kept s (fst (snd (snd (uplink_round hal now t c))))) \<and> set (snd (snd (snd (uplink_round hal now t c)))) \<subseteq> ?B"
    if "up_ok no_ext fault t \<and> kept s t" "c \<noteq> []" "set c \<subseteq> ?B" for t c
    using up_ok_round [of no_ext fault t c hal now] set_uplink_round [OF that(2), of hal now t] that
      kept_trans [OF _ kept_uplink_round, of s t hal now c]
    by (auto split: if_splits)
  ultimately show ?thesis
    using uplink_loop_returns [of "\<lambda>t. up_ok no_ext fault t \<and> kept s t" s chunk ?B hal now] assms(1)
    by (auto simp: ProcessUplinkBytes_def)
qed

text \<open>
  A parser that has come to a write past the buffer does not leave it; no other step sets the fault.
\<close>

definition parser_stuck :: "usb_link \<Rightarrow> bool" where
  "parser_stuck s \<longleftrightarrow> uplink_state s = UPLINK_MESSAGE \<and> frame_full s"

lemma usbFault_Check [simp]: "usbFault (snd (snd (CheckUplinkCompleted s))) = usbFault s"
  by (simp add: CheckUplinkCompleted_def Let_def split_beta)

lemma message_loop_fault:
  assumes "uplink_state s = UPLINK_MESSAGE" "message_loop s chunk = (st, ret, s1, rest)"
  shows "usbFault s1 = usbFault s \<or> ret \<and> parser_stuck s1"
  using assms
proof (induction s chunk rule: message_loop.induct)
  case (2 s b rest')
  obtain st' c s2 where c: "CheckUplinkCompleted (store_byte b s) = (st', c, s2)" by (metis prod_cases3)
  have "usbFault s2 = usbFault (store_byte b s)" "\<not> c \<longrightarrow> uplink_state s2 = UPLINK_MESSAGE"
    using usbFault_Check [of "store_byte b s"] CheckUplinkCompleted_state(1) [of "store_byte b s"] c 2(2)
    by simp_all
  moreover have "usbFault (store_byte b s) = usbFault s" if "\<not> frame_full s"
    using that by (simp add: store_byte_buffer frame_full_def)
  ultimately show ?case
    using 2 c by (auto simp: Let_def parser_stuck_def store_byte_def split: if_splits)
qed simp

lemma uplink_round_fault:
  assumes "up_inv s" "chunk \<noteq> []" "uplink_round hal now s chunk = (st, ret, s1, rest)"
  shows "usbFault s1 = usbFault s \<or> parser_stuck s1"
proof (cases "uplink_state s")
  case UPLINK_CODE_PACKET_CHECKSUM
  then have "up_ok True (usbFault s) s"
    using assms(1) by (auto simp: up_ok_def up_inv_base up_short_def in_message_def)
  from up_ok_checksum_byte [OF this UPLINK_CODE_PACKET_CHECKSUM, of hal now "hd chunk"]
  show ?thesis
    using assms(3) UPLINK_CODE_PACKET_CHECKSUM by (auto simp: uplink_round_def Let_def split_beta up_ok_def)
next
  case UPLINK_MESSAGE
  then show ?thesis
    using assms(3) message_loop_fault [OF UPLINK_MESSAGE, of chunk]
    by (auto simp: uplink_round_def Let_def message_timeout_def split: prod.splits if_splits)
qed (use assms in \<open>auto simp: uplink_round_def Let_def idle_byte_def frame_code_byte_def escaped_byte_def
  split_beta up_inv_def split: if_splits\<close>)

lemma uplink_round_stuck:
  assumes "parser_stuck s" "chunk \<noteq> []" "uplink_round hal now s chunk = (st, ret, s1, rest)"
  shows "parser_stuck s1"
  using assms by (cases chunk) (auto simp: parser_stuck_def uplink_round_def store_byte_def)

section \<open>Properties of the parser\<close>

text \<open>
  C12. From every state that satisfies the invariant of the link the parser returns on every chunk,
  whatever the device sends, and keeps the invariant: it is between messages, or collects one with
  an index that the announced length allows; the queues stay well formed. Otherwise it is stuck at a
  write past the frame buffer (the only step that sets the fault flag), which it reaches only when
  the announced length exceeds the buffer.
\<close>

theorem uplink_parser_returns:
  assumes "up_inv s"
  shows "\<exists>st s'. ProcessUplinkBytes hal now chunk s = Some (st, s') \<and> up_inv s' \<and>
    (usbFault s' \<longrightarrow> usbFault s \<or>
      uplink_state s' = UPLINK_MESSAGE \<and> LON_NI_FRAME_SIZE \<le> uplink_msg_index s' \<and>
      LON_NI_FRAME_SIZE \<le> uplink_msg_length s' + 1)"
proof -
  define I where "I t \<longleftrightarrow> up_inv t \<and> (usbFault t \<longrightarrow> usbFault s \<or> parser_stuck t)" for t
  have "I (fst (snd (snd (uplink_round hal now t c)))) \<and> set (snd (snd (snd (uplink_round hal now t c)))) \<subseteq> UNIV"
    if "I t" "c \<noteq> []" for t c
  proof -
    obtain st ret t1 rest where r: "uplink_round hal now t c = (st, ret, t1, rest)" by (metis prod_cases4)
    have "up_inv t1" using up_ok_round [of False undefined t c hal now] that r by (auto simp: I_def up_ok_def)
    then show ?thesis
      using that uplink_round_fault [OF _ that(2) r] uplink_round_stuck [OF _ that(2) r] r by (auto simp: I_def)
  qed
  from uplink_loop_returns [of I s chunk UNIV hal now, OF _ _ _ this]
  obtain st s' where s': "ProcessUplinkBytes hal now chunk s = Some (st, s')" "I s'"
    using assms by (auto simp: I_def up_inv_def ProcessUplinkBytes_def)
  then have "LON_NI_FRAME_SIZE \<le> uplink_msg_length s' + 1" if "parser_stuck s'"
    using that by (auto simp: I_def up_inv_def parser_stuck_def frame_full_def LON_NI_FRAME_SIZE_eq)
  with s' show ?thesis by (auto simp: I_def parser_stuck_def frame_full_def)
qed

lemma openLink_up_inv: "up_inv (openLink ty)"
  by (simp add: up_inv_def in_message_def queue_wf_def)

theorem uplink_parser_returns_witness:
  "\<exists>st s'. ProcessUplinkBytes (\<lambda>_ buf. (LonStatusNoError, length buf)) 0 [0x7E, 0x12, 1, 0xFF]
     (openLink LON_USB_INTERFACE_U50) = Some (st, s') \<and> up_inv s' \<and>
     (usbFault s' \<longrightarrow> usbFault (openLink LON_USB_INTERFACE_U50) \<or>
      uplink_state s' = UPLINK_MESSAGE \<and> LON_NI_FRAME_SIZE \<le> uplink_msg_index s' \<and>
      LON_NI_FRAME_SIZE \<le> uplink_msg_length s' + 1)"
  by (rule uplink_parser_returns [OF openLink_up_inv])

text \<open>
  While no byte \<open>0xFF\<close> arrives, no byte is stored past the frame buffer, whatever else the
  device sends and wherever in a frame the parser is.
\<close>

theorem short_frames_stay_in_the_buffer:
  assumes "up_inv s" "up_short s" "EXT_LENGTH \<notin> set chunk"
  shows "\<exists>st s'. ProcessUplinkBytes hal now chunk s = Some (st, s') \<and> up_inv s' \<and> up_short s' \<and>
    usbFault s' = usbFault s"
  using ProcessUplinkBytes_ok [of True "usbFault s" s chunk hal now] assms by (auto simp: up_ok_def)

theorem short_frames_stay_in_the_buffer_witness:
  "\<exists>st s'. ProcessUplinkBytes (\<lambda>_ buf. (LonStatusNoError, length buf)) 0 [0x7E, 0x12, 1, 0x6F, 3, 0x30]
     (openLink LON_USB_INTERFACE_U50) = Some (st, s') \<and> up_inv s' \<and> up_short s' \<and> \<not> usbFault s'"
  using short_frames_stay_in_the_buffer [of "openLink LON_USB_INTERFACE_U50" "[0x7E, 0x12, 1, 0x6F, 3, 0x30]"
      "\<lambda>_ buf. (LonStatusNoError, length buf)" 0] openLink_up_inv
  by (simp add: up_short_def EXT_LENGTH_def in_message_def)


lemma openLink_in_time: "in_time now (openLink ty)" by (simp add: in_time_def)


section \<open>Stuffed bytes\<close>

text \<open>The escaping of \<open>FRAME_SYNC\<close> in the bytes of a message.\<close>

definition stuff :: "bytes \<Rightarrow> bytes" where
  "stuff bs = concat (map (\<lambda>b. if b = FRAME_SYNC then [b, b] else [b]) bs)"

lemma stuff_simps [simp]: "stuff [] = []"
  "stuff (b # bs) = (if b = FRAME_SYNC then [b, b] else [b]) @ stuff bs"
  by (simp_all add: stuff_def)

lemma stuff_append [simp]: "stuff (xs @ ys) = stuff xs @ stuff ys"
  by (simp add: stuff_def)

lemma stuff_plain: "FRAME_SYNC \<notin> set bs \<Longrightarrow> stuff bs = bs"
  by (induction bs) auto

text \<open>A stuffed byte of a message is stored, and the message is examined.\<close>

lemma feed_stuffed_byte:
  assumes "uplink_state s = UPLINK_MESSAGE" "\<not> frame_full s"
  shows "feed hal now (stuff [b] @ rest) s =
    (case CheckUplinkCompleted (store_byte b s) of
       (st, _, s1) \<Rightarrow> if st \<noteq> LonStatusNoError then (st, s1) else feed hal now rest s1)"
proof -
  have "(store_byte x s)\<lparr>uplink_state := UPLINK_MESSAGE\<rparr> = store_byte x s" for x
    using assms by (simp add: store_byte_def poke_frame_def)
  note same = this
  show ?thesis
    using assms by (simp add: byte_step_def Let_def escaped_byte_def split_beta same)
qed

lemma CheckUplinkCompleted_goes_on:
  assumes "\<not> usbShutdown s" "uplink_msg_index s \<ge> 2" "uplink_msg_length s \<noteq> 255 \<or> uplink_msg_index s \<noteq> 3"
    and "uplink_msg_index s \<le> uplink_msg_length s + 1"
  shows "CheckUplinkCompleted s = (LonStatusNoError, False, s)"
  using assms by (auto simp: CheckUplinkCompleted_def Let_def)

text \<open>A byte that does not fit leaves the parser stuck, which swallows the rest.\<close>

lemma store_byte_full: "frame_full s \<Longrightarrow> store_byte b s = s\<lparr>usbFault := True\<rparr>"
  by (simp add: store_byte_def)

lemma frame_full_store [simp]: "frame_full s \<Longrightarrow> frame_full (store_byte b s)"
  by (simp add: store_byte_def)

lemma fold_store_full: "frame_full s \<Longrightarrow> fold store_byte body s = (if body = [] then s else s\<lparr>usbFault := True\<rparr>)"
  by (induction body arbitrary: s) (auto simp: store_byte_full)

lemma feed_stuck:
  assumes "uplink_state s = UPLINK_MESSAGE" "frame_full s"
  shows "feed hal now chunk s = (LonStatusNoError, if chunk = [] then s else s\<lparr>usbFault := True\<rparr>)"
  using assms by (induction chunk arbitrary: s) (auto simp: byte_step_def store_byte_full)

lemma feed_stuff:
  assumes "uplink_state s = UPLINK_MESSAGE" "\<not> usbShutdown s" "uplink_msg_index s \<ge> 1"
    and "uplink_msg_length s \<noteq> 255 \<or> uplink_msg_index s \<ge> 3"
    and "uplink_msg_index s + length body \<le> uplink_msg_length s + 1"
  shows "feed hal now (stuff body @ rest) s = feed hal now rest (fold store_byte body s)"
  using assms
proof (induction body arbitrary: s)
  case (Cons b body)
  show ?case
  proof (cases "frame_full s")
    case True
    then show ?thesis
      using Cons.prems(1) feed_stuck [of "s\<lparr>usbFault := True\<rparr>" hal now rest]
      by (simp add: feed_stuck fold_store_full store_byte_full del: feed.simps)
  next
    case False
    have c: "CheckUplinkCompleted (store_byte b s) = (LonStatusNoError, False, store_byte b s)"
      by (rule CheckUplinkCompleted_goes_on) (use Cons.prems False in \<open>auto simp: store_byte_buffer\<close>)
    have "feed hal now (stuff [b] @ stuff body @ rest) s = feed hal now (stuff body @ rest) (store_byte b s)"
      using feed_stuffed_byte [OF Cons.prems(1) False, of hal now b "stuff body @ rest"] c by simp
    also have "\<dots> = feed hal now rest (fold store_byte body (store_byte b s))"
      by (rule Cons.IH) (use Cons.prems False in \<open>auto simp: store_byte_buffer\<close>)
    finally show ?thesis by simp
  qed
qed simp


lemma set_frame_code:
  fixes b c :: u8
  shows "set_attribute 0x0F 0 (b AND 0x0F) (set_attribute 0xE0 5 (drop_bit 5 b AND 7)
      (set_attribute 0x10 4 (if b AND 0x10 \<noteq> 0 then 1 else 0) c)) = b"
proof -
  have m: "(0x0F :: u8) = mask 4" "(0xE0 :: u8) = push_bit 5 (mask 3)" "(7 :: u8) = mask 3"
     "(0x10 :: u8) = push_bit 4 1"
    by (simp_all add: mask_eq_exp_minus_1)
  have p: "b AND push_bit 4 1 \<noteq> 0 \<longleftrightarrow> bit b 4"
    using and_exp_eq_0_iff_not_bit [of b 4] by (simp add: push_bit_eq_mult)
  have sixteen: "bit (16 :: u8) n \<longleftrightarrow> n = 4" for n
    using bit_exp_iff [of 4 n, where ?'a = u8] by (auto simp: bit_simps)
  show ?thesis
    unfolding m p
  proof (rule bit_word_eqI)
    fix n assume "n < LENGTH(8)"
    moreover have "n < 4 \<or> n = 4 \<or> 5 \<le> n" by arith
    ultimately show "bit (set_attribute (mask 4) 0 (b AND mask 4) (set_attribute (push_bit 5 (mask 3)) 5
        (drop_bit 5 b AND mask 3) (set_attribute (push_bit 4 1) 4 (if bit b 4 then 1 else 0) c))) n = bit b n"
      by (elim disjE) (auto simp: set_attribute_def bit_simps sixteen)
  qed
qed

text \<open>The four bytes of a code packet, in an idle U50 link.\<close>

definition packet_received :: "LonFrameHeader \<Rightarrow> usb_link \<Rightarrow> usb_link" where
  "packet_received h s =
     s\<lparr>uplink_frame_error := False, uplink_state := UPLINK_CODE_PACKET_CHECKSUM,
       uplink_buffer := (uplink_buffer s)\<lparr>bufHeader := h\<rparr>\<rparr>"

lemma header_all_fields:
  "(h :: LonFrameHeader)\<lparr>frameSync := a, frameCode := c, frameParameter := p, frameChecksum := k\<rparr> =
     \<lparr>frameSync = a, frameCode = c, frameParameter = p, frameChecksum = k\<rparr>"
  by (cases h) simp

lemma feed_code_packet:
  assumes "uplink_state s = UPLINK_IDLE" "iface_type s = LON_USB_INTERFACE_U50"
    and "ComputeChecksum [FRAME_SYNC, c, p, k] 4 = 0"
  shows "feed hal now ([FRAME_SYNC, c, p, k] @ rest) s =
    (let s1 = packet_received \<lparr>frameSync = FRAME_SYNC, frameCode = c, frameParameter = p, frameChecksum = k\<rparr> s
     in case ProcessUplinkCodePacket hal now s1 of
          (st, s2) \<Rightarrow>
            if st \<noteq> LonStatusNoError then (st, s2)
            else feed hal now rest
              (if FRAME_CODE_CMD (bufHeader (uplink_buffer s2)) = MSG_FRAME_CMD
               then s2\<lparr>uplink_msg_timer := now, uplink_state := UPLINK_MESSAGE\<rparr>
               else s2\<lparr>uplink_state := UPLINK_IDLE\<rparr>))"
  using assms
  by (simp add: byte_step_def idle_byte_def frame_code_byte_def checksum_byte_def ValidateChecksum_def
      packet_received_def poke_header_def set_frame_cmd_def set_frame_seq_def set_frame_ack_def
      set_frame_code header_bytes_def header_all_fields Let_def split_beta)

end
