(* ===== verification/Lon_Usb_Exchange.thy ===== *)
theory Lon_Usb_Exchange
  imports Lon_Usb_Parser
begin

text \<open>
  \<^verbatim>\<open>lon_usb/lon_usb_link.c\<close>: what goes over the USB line and comes back. The stuffing of
  \<open>WriteDownlinkMessage\<close> in closed form, the reception of a code packet and of the frame behind it,
  the queues on both sides, and with them the way of a message from \<open>WriteLonUsbMsg\<close> of one link
  to \<open>ReadLonUsbMsg\<close> of another.
\<close>

section \<open>The stuffing of messages\<close>

abbreviation syncs :: "bytes \<Rightarrow> nat" where
  "syncs bs \<equiv> count_list bs FRAME_SYNC"

lemma length_stuff: "length (stuff bs) = length bs + syncs bs"
  by (induction bs) auto

lemma syncs_le: "syncs bs \<le> length bs"
  by (rule count_le_length)

lemma expand_loop_eq:
  "expand_loop src dest n =
     (if src = [] \<or> n + syncs src < MAX_EXP_LON_MSG_EX_LEN - 2
      then Some (dest @ stuff src, n + syncs src) else None)"
proof (induction src arbitrary: dest n)
  case (Cons b src)
  show ?case using Cons [of "dest @ (if b = FRAME_SYNC then [b, b] else [b])" "if b = FRAME_SYNC then n + 1 else n"]
    by (cases "src = []") (auto simp: Let_def)
qed simp

lemma expand_message_eq:
  "expand_message src len =
     (if len = 0 \<or> len + syncs (bytes_from src 0 len) < MAX_EXP_LON_MSG_EX_LEN - 2
      then let wire = stuff (bytes_from src 0 len @ [- ComputeChecksum src len])
           in Some (wire, if len = 0 then len + length wire else length wire)
      else None)"
proof -
  have "bytes_from src 0 len = [] \<longleftrightarrow> len = 0" by (metis length_0_conv length_bytes_from)
  then show ?thesis
    by (auto simp: expand_message_def expand_loop_eq Let_def length_stuff)
qed


section \<open>The reception of a frame\<close>

text \<open>The code packet that announces a message, at an idle link.\<close>

lemma message_packet:
  assumes "uplink_state s = UPLINK_IDLE" "iface_type s = LON_USB_INTERFACE_U50" "\<not> usbShutdown s"
    and "ComputeChecksum [FRAME_SYNC, c, p, k] 4 = 0" "get_attribute 0x0F 0 c = MSG_FRAME_CMD"
  shows "\<exists>t. up_same (packet_received \<lparr>frameSync = FRAME_SYNC, frameCode = c, frameParameter = p, frameChecksum = k\<rparr> s) t \<and>
    (\<forall>rest. feed hal now ([FRAME_SYNC, c, p, k] @ rest) s =
       feed hal now rest (t\<lparr>downlink_ack_seq_number := uint (get_attribute 0xE0 5 c),
         uplink_msg_timer := now, uplink_state := UPLINK_MESSAGE\<rparr>))"
proof -
  define s1 where "s1 = packet_received \<lparr>frameSync = FRAME_SYNC, frameCode = c, frameParameter = p, frameChecksum = k\<rparr> s"
  have h: "bufHeader (uplink_buffer s1) = \<lparr>frameSync = FRAME_SYNC, frameCode = c, frameParameter = p, frameChecksum = k\<rparr>"
    and sd: "\<not> usbShutdown s1" using assms(3) by (simp_all add: s1_def packet_received_def)
  obtain t where t: "up_same s1 t" and p: "ProcessUplinkCodePacket hal now s1 =
      (LonStatusNoError, t\<lparr>downlink_ack_seq_number := uint (get_attribute 0xE0 5 c), uplink_state := UPLINK_MESSAGE\<rparr>)"
    using code_packet_eq [OF sd, of hal now] assms(5) unfolding h Let_def by auto
  have b: "uplink_buffer t = uplink_buffer s1" using t by (simp add: up_same_def)
  have "feed hal now ([FRAME_SYNC, c, p, k] @ rest) s =
       feed hal now rest (t\<lparr>downlink_ack_seq_number := uint (get_attribute 0xE0 5 c),
         uplink_msg_timer := now, uplink_state := UPLINK_MESSAGE\<rparr>)" for rest
    unfolding feed_code_packet [OF assms(1,2,4), folded s1_def] Let_def p
    by (simp add: b h assms(5))
  then show ?thesis using t unfolding s1_def by blast
qed

text \<open>Bytes that are stored one after the other.\<close>

lemma fold_store_byte:
  assumes "uplink_msg_index s + length bs \<le> length (bufFrame (uplink_buffer s))"
    and "length (bufFrame (uplink_buffer s)) = LON_NI_FRAME_SIZE"
  shows "fold store_byte bs s =
    s\<lparr>uplink_buffer := (uplink_buffer s)\<lparr>bufFrame := copy_into (bufFrame (uplink_buffer s)) (uplink_msg_index s) bs\<rparr>,
      uplink_msg_index := uplink_msg_index s + length bs\<rparr>"
  using assms
proof (induction bs arbitrary: s)
  case Nil
  then show ?case by (simp add: copy_into_def)
next
  case (Cons b bs)
  let ?f = "bufFrame (uplink_buffer s)" and ?i = "uplink_msg_index s"
  have s1: "store_byte b s = s\<lparr>uplink_buffer := (uplink_buffer s)\<lparr>bufFrame := ?f[?i := b]\<rparr>, uplink_msg_index := ?i + 1\<rparr>"
    using Cons.prems by (simp add: store_byte_def frame_full_def poke_frame_def)
  have "copy_into (?f[?i := b]) (?i + 1) bs = copy_into ?f ?i (b # bs)"
    using Cons.prems by (simp add: copy_into_def take_Suc_conv_app_nth list_update_append upd_conv_take_nth_drop ac_simps)
  then show ?case using Cons.IH [of "store_byte b s"] Cons.prems by (simp add: s1)
qed


lemma copy_into_0: "copy_into dst 0 src = src @ drop (length src) dst"
  by (simp add: copy_into_def)

text \<open>The commands whose messages go to the stack as they are.\<close>

definition plain_command :: "u8 \<Rightarrow> bool" where
  "plain_command cmd \<longleftrightarrow> cmd AND 0xF0 \<noteq> LonNiDriverCmdMask \<and> cmd \<noteq> LonNiLayerModeCmd \<and>
     cmd \<noteq> LonNiResetDeviceCmd \<and> cmd \<noteq> LonNiCrcError"

text \<open>A link that is open, between two frames, and delivers its messages to the stack.\<close>

definition link_idle :: "usb_link \<Rightarrow> bool" where
  "link_idle s \<longleftrightarrow> up_inv s \<and> uplink_state s = UPLINK_IDLE \<and> iface_type s = LON_USB_INTERFACE_U50 \<and>
     \<not> wait_for_uid s \<and> \<not> wait_for_status s \<and> bufPriority (uplink_buffer s) = NORMAL_PRIORITY"

definition received_frame :: "bytes \<Rightarrow> u8 \<Rightarrow> usb_link \<Rightarrow> LonFrameHeader \<Rightarrow> LonUsbQueueBuffer" where
  "received_frame frame x s h = (uplink_buffer s)\<lparr>bufHeader := h,
     bufFrame := frame @ [x] @ drop (length frame + 1) (bufFrame (uplink_buffer s))\<rparr>"

lemma feed_frame:
  assumes "uplink_state s = UPLINK_MESSAGE" "\<not> usbShutdown s" "uplink_msg_index s = 0"
    and "length (bufFrame (uplink_buffer s)) = LON_NI_FRAME_SIZE"
    and "frame = L # cmd # pdu" "unat L = length pdu + 1" "L \<noteq> EXT_LENGTH"
  shows "feed hal now (stuff (frame @ [x]) @ rest) s =
    (let s1 = s\<lparr>uplink_buffer := (uplink_buffer s)\<lparr>bufFrame := frame @ [x] @ drop (length frame + 1) (bufFrame (uplink_buffer s))\<rparr>,
                uplink_msg_length := unat L, uplink_msg_index := length frame + 1\<rparr>
     in case uplink_message_complete s1 of
          (st, s2) \<Rightarrow>
            if st \<noteq> LonStatusNoError then (st, ResetUplinkState s2) else feed hal now rest (ResetUplinkState s2))"
proof -
  let ?f = "bufFrame (uplink_buffer s)"
  have L: "unat L < 255" using assms(7) by (rule unat_u8_short)
  define s1 where "s1 = (store_byte L s)\<lparr>uplink_msg_length := unat L\<rparr>"
  have f1: "bufFrame (uplink_buffer (store_byte L s)) = ?f[0 := L]" "uplink_msg_index (store_byte L s) = 1"
    using assms(3,4) by (simp_all add: store_byte_buffer frame_full_def LON_NI_FRAME_SIZE_eq)
  have c1: "CheckUplinkCompleted (store_byte L s) = (LonStatusNoError, False, s1)"
    using assms(2,4) f1 by (simp add: CheckUplinkCompleted_def s1_def LON_NI_FRAME_SIZE_eq)
  have len: "length (bufFrame (uplink_buffer s1)) = LON_NI_FRAME_SIZE" "uplink_msg_index s1 = 1"
    "uplink_msg_length s1 = unat L" "uplink_state s1 = UPLINK_MESSAGE" "\<not> usbShutdown s1"
    using assms(1,2,4) f1 by (simp_all add: s1_def)
  have pdu: "length pdu < 254" using L assms(6) by simp
  define s2 where "s2 = fold store_byte (cmd # pdu) s1"
  have s2x: "store_byte x s2 = s\<lparr>uplink_buffer := (uplink_buffer s)\<lparr>bufFrame := frame @ [x] @ drop (length frame + 1) ?f\<rparr>,
      uplink_msg_length := unat L, uplink_msg_index := length frame + 1\<rparr>"
  proof -
    have "store_byte x s2 = fold store_byte ((cmd # pdu) @ [x]) s1"
      unfolding s2_def by (simp only: fold_append fold_simps comp_apply)
    also have "\<dots> = s1\<lparr>uplink_buffer := (uplink_buffer s1)\<lparr>bufFrame :=
        copy_into (bufFrame (uplink_buffer s1)) (uplink_msg_index s1) ((cmd # pdu) @ [x])\<rparr>,
        uplink_msg_index := uplink_msg_index s1 + length ((cmd # pdu) @ [x])\<rparr>"
      by (rule fold_store_byte) (use len pdu in \<open>simp_all add: LON_NI_FRAME_SIZE_eq\<close>)
    also have "\<dots> = s\<lparr>uplink_buffer := (uplink_buffer s)\<lparr>bufFrame := frame @ [x] @ drop (length frame + 1) ?f\<rparr>,
      uplink_msg_length := unat L, uplink_msg_index := length frame + 1\<rparr>"
    proof -
      have "copy_into (?f[0 := L]) 1 (cmd # pdu @ [x]) = frame @ [x] @ drop (length frame + 1) ?f"
        using assms(4) pdu by (cases ?f) (simp_all add: copy_into_def assms(5) LON_NI_FRAME_SIZE_eq)
      then show ?thesis
        using assms(3,4) by (simp add: s1_def store_byte_def frame_full_def poke_frame_def LON_NI_FRAME_SIZE_eq assms(5))
    qed
    finally show ?thesis .
  qed
  have st2: "uplink_state s2 = UPLINK_MESSAGE" "\<not> frame_full s2"
    unfolding s2_def
    by (subst fold_store_byte; use len pdu in \<open>simp add: frame_full_def LON_NI_FRAME_SIZE_eq\<close>)+
  have full: "\<not> frame_full s" using assms(3) by (simp add: frame_full_def LON_NI_FRAME_SIZE_eq)
  have "feed hal now (stuff (frame @ [x]) @ rest) s = feed hal now (stuff [L] @ stuff (cmd # pdu) @ stuff [x] @ rest) s"
    by (simp add: assms(5))
  also have "\<dots> = feed hal now (stuff (cmd # pdu) @ stuff [x] @ rest) s1"
    by (subst feed_stuffed_byte [OF assms(1) full]) (simp add: c1)
  also have "\<dots> = feed hal now (stuff [x] @ rest) s2"
    unfolding s2_def
    by (rule feed_stuff) (use len L assms(6) in simp_all)
  finally show ?thesis
    using assms(2,5,6) L
    by (subst (asm) feed_stuffed_byte [OF st2(1,2)])
      (simp add: s2x CheckUplinkCompleted_def Let_def split_beta)
qed


definition push :: "'a \<Rightarrow> 'a Queue \<Rightarrow> 'a list" where
  "push x q = queue_list q @ (if queueEntries q < queueCapacity q - 1 then [x] else [])"

lemma up_inv_idle:
  "uplink_state s = UPLINK_IDLE \<Longrightarrow> up_inv s \<longleftrightarrow> up_base s \<and> \<not> usbShutdown s \<and>
     uplink_msg_index s = 0 \<and> uplink_msg_length s = 0"
  by (auto simp: up_inv_base in_message_def)

lemma received_message:
  assumes "link_idle s" "up_same (packet_received h s) t"
    and "frame = L # cmd # pdu" "unat L = length pdu + 1" "L \<noteq> EXT_LENGTH" "plain_command cmd"
    and s1: "s1 = t\<lparr>downlink_ack_seq_number := q, uplink_msg_timer := now, uplink_state := UPLINK_MESSAGE\<rparr>"
  shows "\<exists>s'. feed hal now (stuff (frame @ [x])) s1 = (LonStatusNoError, s') \<and>
    queue_list (uplink_normal_queue s') = push (received_frame frame x s h) (uplink_normal_queue s) \<and>
    uplink_priority_queue s' = uplink_priority_queue s \<and> downlink_ack_seq_number s' = q \<and>
    usbFault s' = usbFault s \<and> uplink_state s' = UPLINK_IDLE \<and> up_inv s' \<and>
    wait_for_uid s' = wait_for_uid s \<and> wait_for_status s' = wait_for_status s \<and>
    bufPriority (uplink_buffer s') = bufPriority (uplink_buffer s)"
proof -
  have i: "up_base s" "\<not> usbShutdown s" "uplink_msg_index s = 0" "uplink_msg_length s = 0"
    "uplink_state s = UPLINK_IDLE" "\<not> wait_for_uid s" "\<not> wait_for_status s"
    "bufPriority (uplink_buffer s) = NORMAL_PRIORITY"
    using assms(1) up_inv_idle by (auto simp: link_idle_def)
  have t: "uplink_buffer t = (uplink_buffer s)\<lparr>bufHeader := h\<rparr>" "uplink_msg_index t = 0" "\<not> usbShutdown t"
    "uplink_normal_queue t = uplink_normal_queue s" "uplink_priority_queue t = uplink_priority_queue s"
    "downlink_normal_queue t = downlink_normal_queue s" "downlink_priority_queue t = downlink_priority_queue s"
    "\<not> wait_for_uid t" "\<not> wait_for_status t" "usbFault t = usbFault s"
    using assms(2) i by (simp_all add: up_same_def packet_received_def)
  have len: "length (bufFrame (uplink_buffer s)) = LON_NI_FRAME_SIZE" using i(1) by (simp add: up_base_def)
  have L: "unat L < 255" using assms(5) by (rule unat_u8_short)
  define s2 where "s2 = s1\<lparr>uplink_buffer := received_frame frame x s h, uplink_msg_length := unat L,
      uplink_msg_index := length frame + 1\<rparr>"
  have cmd: "frame_command (received_frame frame x s h) = cmd"
    by (simp add: received_frame_def assms(3))
  have c: "uplink_message_complete s2 = ProcessUplinkMessage s2"
    using L assms(6) cmd unfolding uplink_message_complete_def plain_command_def
    by (simp add: s2_def Let_def LON_NI_FRAME_SIZE_eq)
  define s3 where "s3 = set_stats (\<lambda>st. st\<lparr>stPacketsReceived := Increment32 (stPacketsReceived st),
      stBytesReceived := Add32 (stBytesReceived st) (TotalMessageLength (bufFrame (uplink_buffer s2)) + 1)\<rparr>) s2"
  have f3: "uplink_normal_queue s3 = uplink_normal_queue s" "uplink_priority_queue s3 = uplink_priority_queue s"
     "downlink_normal_queue s3 = downlink_normal_queue s" "downlink_priority_queue s3 = downlink_priority_queue s"
     "uplink_buffer s3 = received_frame frame x s h" "usbFault s3 = usbFault s" "\<not> usbShutdown s3"
     "downlink_ack_seq_number s3 = q" "\<not> wait_for_uid s3" "\<not> wait_for_status s3"
    using t by (simp_all add: s3_def s2_def s1 set_stats_def)
  have np: "bufPriority (received_frame frame x s h) = NORMAL_PRIORITY" using i(8) by (simp add: received_frame_def)
  have wf: "queue_wf (uplink_normal_queue s)" using i(1) by (simp add: up_base_def)
  have tail: "QueueTail (uplink_normal_queue s) \<noteq> None"
    using queue_wf_valid [OF wf] wf by (auto simp: QueueTail_def queue_wf_def)
  have p: "ProcessUplinkMessage s2 = (LonStatusNoError,
      s3\<lparr>uplink_normal_queue := QueueEmit (\<lambda>_. received_frame frame x s h) (uplink_normal_queue s)\<rparr>)"
    using t np tail f3
    unfolding ProcessUplinkMessage_def Let_def s3_def [symmetric]
    by (simp add: s2_def s1 QueueUplinkBuffer_def uplink_queue_def set_uplink_queue_def Let_def)
  define s' where "s' = ResetUplinkState
      (s3\<lparr>uplink_normal_queue := QueueEmit (\<lambda>_. received_frame frame x s h) (uplink_normal_queue s)\<rparr>)"
  have e: "s1\<lparr>uplink_buffer := (uplink_buffer s1)\<lparr>bufFrame := frame @ [x] @ drop (length frame + 1) (bufFrame (uplink_buffer s1))\<rparr>,
      uplink_msg_length := unat L, uplink_msg_index := length frame + 1\<rparr> = s2"
    using t by (simp add: s1 s2_def received_frame_def)
  have m: "uplink_state s1 = UPLINK_MESSAGE" "\<not> usbShutdown s1" "uplink_msg_index s1 = 0"
    "length (bufFrame (uplink_buffer s1)) = LON_NI_FRAME_SIZE"
    using t len by (simp_all add: s1)
  have fr: "feed hal now (stuff (frame @ [x])) s1 = (LonStatusNoError, s')"
    using feed_frame [OF m assms(3-5), of hal now x "[]", unfolded Let_def e c p] by (simp add: s'_def)
  have len': "length (bufFrame (received_frame frame x s h)) = LON_NI_FRAME_SIZE"
    using len L assms(3,4) by (simp add: received_frame_def LON_NI_FRAME_SIZE_eq)
  have fs: "uplink_normal_queue s' = QueueEmit (\<lambda>_. received_frame frame x s h) (uplink_normal_queue s)"
    "uplink_priority_queue s' = uplink_priority_queue s" "downlink_normal_queue s' = downlink_normal_queue s"
    "downlink_priority_queue s' = downlink_priority_queue s" "uplink_buffer s' = received_frame frame x s h"
    "usbFault s' = usbFault s" "\<not> usbShutdown s'" "downlink_ack_seq_number s' = q" "\<not> wait_for_uid s'"
    "\<not> wait_for_status s'" "uplink_state s' = UPLINK_IDLE" "uplink_msg_index s' = 0" "uplink_msg_length s' = 0"
    using f3 by (simp_all add: s'_def ResetUplinkState_def)
  have "up_base s'" using i(1) wf len' fs by (simp add: up_base_def)
  then have "up_inv s'" using fs up_inv_idle by blast
  moreover have "queue_list (uplink_normal_queue s') = push (received_frame frame x s h) (uplink_normal_queue s)"
    using wf fs by (simp add: push_def queue_list_Emit)
  ultimately show ?thesis
    using fr fs np i by (intro exI [of _ s']) simp
qed

lemma link_idle_in_time: "link_idle s \<Longrightarrow> in_time now s"
  by (simp add: link_idle_def in_time_def up_inv_def)

lemma kept_feed: "kept s (snd (feed hal now zs s))"
proof (induction zs arbitrary: s)
  case (Cons b zs)
  then show ?case using kept_byte_step [of s hal now b] by (auto simp: split_beta intro: kept_trans)
qed simp

lemma message_queued:
  assumes "link_idle s" and "ComputeChecksum [FRAME_SYNC, c, p, k] 4 = 0" and "get_attribute 0x0F 0 c = MSG_FRAME_CMD"
    and "unat L = length pdu + 1" and "L \<noteq> EXT_LENGTH" and "plain_command cmd"
  shows "\<exists>s'. ProcessUplinkBytes hal now ([FRAME_SYNC, c, p, k] @ stuff (L # cmd # pdu @ [x])) s =
      Some (LonStatusNoError, s') \<and> link_idle s' \<and>
    queue_list (uplink_normal_queue s') = push (received_frame (L # cmd # pdu) x s
      \<lparr>frameSync = FRAME_SYNC, frameCode = c, frameParameter = p, frameChecksum = k\<rparr>) (uplink_normal_queue s) \<and>
    uplink_priority_queue s' = uplink_priority_queue s \<and> usbFault s' = usbFault s \<and>
    uplink_ring_buffer s' = uplink_ring_buffer s"
proof -
  let ?h = "\<lparr>frameSync = FRAME_SYNC, frameCode = c, frameParameter = p, frameChecksum = k\<rparr>"
  have i: "uplink_state s = UPLINK_IDLE" "iface_type s = LON_USB_INTERFACE_U50" "\<not> usbShutdown s"
    using assms(1) by (simp_all add: link_idle_def up_inv_def)
  obtain t where t: "up_same (packet_received ?h s) t"
    and f: "\<And>rest. feed hal now ([FRAME_SYNC, c, p, k] @ rest) s =
       feed hal now rest (t\<lparr>downlink_ack_seq_number := uint (get_attribute 0xE0 5 c),
         uplink_msg_timer := now, uplink_state := UPLINK_MESSAGE\<rparr>)"
    using message_packet [OF i assms(2,3), of hal now] by blast
  obtain s' where s': "feed hal now (stuff ((L # cmd # pdu) @ [x])) (t\<lparr>downlink_ack_seq_number := uint (get_attribute 0xE0 5 c),
         uplink_msg_timer := now, uplink_state := UPLINK_MESSAGE\<rparr>) = (LonStatusNoError, s')"
    and q: "queue_list (uplink_normal_queue s') = push (received_frame (L # cmd # pdu) x s ?h) (uplink_normal_queue s)"
      "uplink_priority_queue s' = uplink_priority_queue s" "usbFault s' = usbFault s" "uplink_state s' = UPLINK_IDLE"
      "up_inv s'" "wait_for_uid s' = wait_for_uid s" "wait_for_status s' = wait_for_status s"
      "bufPriority (uplink_buffer s') = bufPriority (uplink_buffer s)"
    using received_message [OF assms(1) t refl assms(4-6) refl, of hal now x] by blast
  have fd: "feed hal now ([FRAME_SYNC, c, p, k] @ stuff (L # cmd # pdu @ [x])) s = (LonStatusNoError, s')"
    using s' unfolding f by simp
  have k: "iface_type s' = iface_type s" "uplink_ring_buffer s' = uplink_ring_buffer s"
    using kept_feed [of s hal now "[FRAME_SYNC, c, p, k] @ stuff (L # cmd # pdu @ [x])"] unfolding fd by (simp_all add: kept_def)
  have "link_idle s'" using k(1) assms(1) q by (simp add: link_idle_def)
  moreover have "ProcessUplinkBytes hal now ([FRAME_SYNC, c, p, k] @ stuff (L # cmd # pdu @ [x])) s = Some (LonStatusNoError, s')"
    using ProcessUplinkBytes_feed [OF link_idle_in_time [OF assms(1)]] fd by simp
  ultimately show ?thesis using q k(2) by blast
qed


text \<open>
  A message that arrives at an idle link is queued for the stack, and the link is idle again.
  The last byte of the message, its checksum, is not examined, and neither is the sequence
  number of the code packet: a damaged message is delivered, and a repeated one is delivered
  again. A message for which the queue has no room is lost without an error.
\<close>

theorem message_is_queued_unverified:
  assumes "link_idle s" and "ComputeChecksum [FRAME_SYNC, c, p, k] 4 = 0" and "get_attribute 0x0F 0 c = MSG_FRAME_CMD"
    and "unat L = length pdu + 1" and "L \<noteq> EXT_LENGTH" and "plain_command cmd"
  shows "\<exists>s'. ProcessUplinkBytes hal now ([FRAME_SYNC, c, p, k] @ stuff (L # cmd # pdu @ [x])) s =
      Some (LonStatusNoError, s') \<and> link_idle s' \<and>
    queue_list (uplink_normal_queue s') = push (received_frame (L # cmd # pdu) x s
      \<lparr>frameSync = FRAME_SYNC, frameCode = c, frameParameter = p, frameChecksum = k\<rparr>) (uplink_normal_queue s) \<and>
    uplink_priority_queue s' = uplink_priority_queue s \<and> usbFault s' = usbFault s"
  using message_queued [OF assms] by blast

section \<open>The transmission of a frame\<close>

definition hal_writes_all :: "hal_write \<Rightarrow> bool" where
  "hal_writes_all hal \<longleftrightarrow> (\<forall>k buf. hal k buf = (LonStatusNoError, length buf))"

lemma ComputeChecksum_4: "ComputeChecksum [a, b, c, d] 4 = a + b + c + d"
  by (simp add: ComputeChecksum_def bytes_from_eq_take ac_simps)

lemma ComputeChecksum_3: "ComputeChecksum [a, b, c, d] 3 = a + b + c"
  by (simp add: ComputeChecksum_def bytes_from_eq_take ac_simps)

lemma header_checksum: "ComputeChecksum [a, b, c, - ComputeChecksum [a, b, c, d] 3] 4 = 0"
  by (simp add: ComputeChecksum_4 ComputeChecksum_3)

lemma code_packet_bytes:
  assumes "cmd AND 0x0F = cmd"
  shows "\<exists>c k. header_bytes (code_packet cmd p s) = [FRAME_SYNC, c, p, k] \<and>
    ComputeChecksum [FRAME_SYNC, c, p, k] 4 = 0 \<and> get_attribute 0x0F 0 c = cmd"
proof -
  have g: "get_attribute 0x0F 0 (set_attribute 0x0F 0 cmd c) = cmd" for c
    by (rule get_set_attribute) (use assms in simp_all)
  have o: "get_attribute 0x0F 0 (set_attribute 0xE0 n v c) = get_attribute 0x0F 0 c"
    "get_attribute 0x0F 0 (set_attribute 0x10 n v c) = get_attribute 0x0F 0 c" for n v c
    by (simp_all add: get_set_attribute_other)
  show ?thesis
    by (simp add: code_packet_def Let_def header_bytes_def set_frame_cmd_def set_frame_seq_def set_frame_ack_def
        zeroHeader_def ComputeChecksum_4 ComputeChecksum_3 g o)
qed

lemma write_message_wire:
  assumes "\<not> usbShutdown s" "hal_writes_all hal" "dataFrameSize (downlink_buffer s) = len" "0 < len" "len < 1280"
    and body: "body = bytes_from (bufFrame (downlink_buffer s)) 0 len"
  shows "\<exists>c k s'. WriteDownlinkMessage hal now s = (LonStatusNoError, s') \<and>
    usbOut s' = usbOut s @ [[FRAME_SYNC, c, 1, k], stuff (body @ [- sum_list body])] \<and>
    ComputeChecksum [FRAME_SYNC, c, 1, k] 4 = 0 \<and> get_attribute 0x0F 0 c = MSG_FRAME_CMD"
proof -
  let ?a = "s\<lparr>downlink_ack_seq_number := ACK_WITH_NEXT_SEQ_NUM\<rparr>"
  obtain c k where ck: "header_bytes (code_packet MSG_FRAME_CMD 1 ?a) = [FRAME_SYNC, c, 1, k]"
      "ComputeChecksum [FRAME_SYNC, c, 1, k] 4 = 0" "get_attribute 0x0F 0 c = MSG_FRAME_CMD"
    using code_packet_bytes [of MSG_FRAME_CMD 1 ?a] by (auto simp: MSG_FRAME_CMD_def)
  have hal: "hal n buf = (LonStatusNoError, length buf)" for n buf using assms(2) by (simp add: hal_writes_all_def)
  define s1 where "s1 = snd (WriteDownlinkCodePacket hal MSG_FRAME_CMD 1 ?a)"
  have s1: "\<not> usbShutdown s1" "usbOut s1 = usbOut s @ [[FRAME_SYNC, c, 1, k]]" "downlink_buffer s1 = downlink_buffer s"
    using assms(1) by (simp_all add: s1_def WriteDownlinkCodePacket_def usb_write_def hal ck(1) Let_def)
  have len: "length body = len" by (simp add: body)
  have "len + syncs body < 2562" using syncs_le [of body] len assms(5) by simp
  then have ex: "expand_message (bufFrame (downlink_buffer s)) len =
      Some (stuff (body @ [- sum_list body]), length (stuff (body @ [- sum_list body])))"
    using assms(4) by (simp add: expand_message_eq body [symmetric] ComputeChecksum_def Let_def
        MAX_EXP_LON_MSG_EX_LEN_def MAX_LON_MSG_EX_LEN_def)
  have t: "usbOut (if downlink_running (downlink_state s1) then snd (StartAckTimer now DOWNLINK_WAIT_MSG_ACK s1) else s1)
      = usbOut s1"
    by (simp add: StartAckTimer_def)
  have "\<exists>s'. WriteDownlinkMessage hal now s = (LonStatusNoError, s') \<and>
      usbOut s' = usbOut s1 @ [stuff (body @ [- sum_list body])]"
    using assms(1,3) t unfolding WriteDownlinkMessage_def s1_def [symmetric] Let_def
    by (simp add: s1 ex usb_write_def hal set_stats_def del: stuff_append stuff_simps)
  then show ?thesis using ck s1 by auto
qed

section \<open>Reading\<close>

lemma GetUplinkBufferCount_wf:
  "up_inv s \<Longrightarrow> GetUplinkBufferCount s =
     length (queue_list (uplink_priority_queue s)) + length (queue_list (uplink_normal_queue s))"
  using queue_wf_valid [of "uplink_priority_queue s"] queue_wf_valid [of "uplink_normal_queue s"]
  by (simp add: up_inv_def GetUplinkBufferCount_def QueueEntries_def)

lemma up_inv_ring [simp]:
  "up_inv (s\<lparr>uplink_ring_buffer := rb\<rparr>) = up_inv s" "up_inv (set_stats f s) = up_inv s"
  by (simp_all add: up_inv_def set_stats_def in_message_def)

lemma drain_ring_returns:
  assumes "up_inv s" "rb_wf (uplink_ring_buffer s)"
  shows "\<exists>s' parsed. drain_ring hal now processed s = Some s' \<and> up_inv s' \<and> rb_wf (uplink_ring_buffer s') \<and>
    rb_list (uplink_ring_buffer s) = parsed @ rb_list (uplink_ring_buffer s') \<and>
    (rb_list (uplink_ring_buffer s) \<noteq> [] \<longrightarrow> parsed \<noteq> [])"
  using assms
proof (induction "length (rb_list (uplink_ring_buffer s))" arbitrary: s processed rule: less_induct)
  case less
  let ?rb = "uplink_ring_buffer s"
  show ?case
  proof (cases "rb_list ?rb = []")
    case True
    then have "rb_count ?rb = 0" by (metis length_rb_list list.size(3))
    then show ?thesis
      using less.prems True by (intro exI [of _ s] exI [of _ "[]"]) (simp add: drain_ring.simps [of hal now processed s] RingBufferSize_def)
  next
    case False
    obtain rb where rb: "RingBufferRead ?rb 128 = Some (take 128 (rb_list ?rb), rb)" "rb_wf rb"
        "rb_list rb = drop 128 (rb_list ?rb)"
      using RingBufferRead_Some [OF less.prems(2), of 128] by blast
    obtain st s1 where s1: "ProcessUplinkBytes hal now (take 128 (rb_list ?rb)) (s\<lparr>uplink_ring_buffer := rb\<rparr>) = Some (st, s1)"
        "up_inv s1" "kept (s\<lparr>uplink_ring_buffer := rb\<rparr>) s1"
      using ProcessUplinkBytes_ok [of False undefined "s\<lparr>uplink_ring_buffer := rb\<rparr>" "take 128 (rb_list ?rb)" hal now] less.prems
      by (auto simp: up_ok_def)
    define s2 where "s2 = set_stats (\<lambda>t. t\<lparr>stBytesRead := stBytesRead t + length (take 128 (rb_list ?rb))\<rparr>) s1"
    have s2: "up_inv s2" "uplink_ring_buffer s2 = rb"
      using s1 by (simp_all add: s2_def kept_def) (simp add: set_stats_def)
    have count: "rb_count ?rb \<noteq> 0" using False by (metis length_0_conv length_rb_list)
    have chunk: "take 128 (rb_list ?rb) \<noteq> []" using False by simp
    have unfold: "drain_ring hal now processed s =
       (if GetUplinkBufferCount s2 > 0 \<or> processed + length (take 128 (rb_list ?rb)) > 512 then Some s2
        else drain_ring hal now (processed + length (take 128 (rb_list ?rb))) s2)"
      using count chunk rb(1) s1(1) unfolding drain_ring.simps [of hal now processed s] s2_def
      by (simp add: RingBufferSize_def MAX_BYTES_PER_USB_PARSE_CHUNK_def MAX_BYTES_PER_USB_PARSE_WINDOW_def Let_def)
    have split: "rb_list ?rb = take 128 (rb_list ?rb) @ rb_list (uplink_ring_buffer s2)"
      using s2(2) rb(3) by simp
    show ?thesis
    proof (cases "GetUplinkBufferCount s2 > 0 \<or> processed + length (take 128 (rb_list ?rb)) > 512")
      case True
      then show ?thesis using unfold s2 rb(2) split chunk by auto
    next
      case more: False
      have "length (rb_list (uplink_ring_buffer s2)) < length (rb_list ?rb)"
        using s2(2) rb(3) False by (cases "rb_list ?rb") simp_all
      then obtain s' parsed where "drain_ring hal now (processed + length (take 128 (rb_list ?rb))) s2 = Some s'"
          "up_inv s'" "rb_wf (uplink_ring_buffer s')" "rb_list (uplink_ring_buffer s2) = parsed @ rb_list (uplink_ring_buffer s')"
        using less.hyps [of s2] s2 rb(2) by blast
      then show ?thesis
        using unfold more split chunk by (intro exI [of _ s'] exI [of _ "take 128 (rb_list ?rb) @ parsed"]) auto
    qed
  qed
qed

lemma ReadUplinkBuffer_ok:
  assumes "up_inv s"
  shows "(case ReadUplinkBuffer s of (st, b, s') \<Rightarrow> up_inv s' \<and> uplink_ring_buffer s' = uplink_ring_buffer s \<and>
    (st = LonStatusNoError \<and> b \<noteq> None \<or> st = LonStatusNoBufferAvailable \<and> b = None \<and> s' = s \<and>
      GetUplinkBufferCount s = 0))"
proof -
  have w: "queue_wf (uplink_queue p s)" for p using assms by (simp add: up_inv_def uplink_queue_def)
  have "up_inv (set_uplink_queue p (QueueDropHead (uplink_queue p s)) s)" for p
    using assms w [of p] by (simp add: up_inv_def set_uplink_queue_def in_message_def uplink_queue_def)
  moreover have "uplink_ring_buffer (set_uplink_queue p q s) = uplink_ring_buffer s" for p q
    by (simp add: set_uplink_queue_def)
  moreover have "GetUplinkBufferCount s = 0" if "QueueHead (uplink_queue (\<not> QueueEmpty (uplink_priority_queue s)) s) = None"
    using that w [of True] w [of False] QueueHead_eq [OF w] assms
    by (auto simp: GetUplinkBufferCount_wf uplink_queue_def queue_list_Nil_iff split: if_splits)
  ultimately show ?thesis
    using assms by (auto simp: ReadUplinkBuffer_def Let_def split: option.split)
qed


text \<open>
  A read returns, keeps the invariants and loses no byte: what was in the ring buffer and what
  the device hands over are, in this order, what is parsed and what stays in the ring buffer.
  The device is asked only when the ring buffer has room for all it may return.
\<close>

theorem read_loses_no_byte:
  assumes "up_inv s" "rb_wf (uplink_ring_buffer s)" "length bs \<le> MAX_BYTES_PER_USB_READ"
  shows "\<exists>res m s' parsed. ReadLonUsbMsg hal now usb_fd (st, bs) s = Some (res, m, s') \<and> up_inv s' \<and>
    rb_wf (uplink_ring_buffer s') \<and>
    rb_list (uplink_ring_buffer s) @
      (if usb_fd \<ge> 0 \<and> RingBufferAvail (uplink_ring_buffer s) > MAX_BYTES_PER_USB_READ \<and> st = LonStatusNoError
       then bs else []) = parsed @ rb_list (uplink_ring_buffer s') \<and>
    (res = LonStatusNoError \<longleftrightarrow> m \<noteq> None)"
proof -
  let ?rb = "uplink_ring_buffer s"
  let ?took = "if usb_fd \<ge> 0 \<and> RingBufferAvail ?rb > MAX_BYTES_PER_USB_READ \<and> st = LonStatusNoError then bs else []"
  have sd: "\<not> usbShutdown s" using assms(1) by (simp add: up_inv_def)
  obtain st1 s1 where f: "feed_ring usb_fd (st, bs) s = Some (st1, s1)" "up_inv s1" "rb_wf (uplink_ring_buffer s1)"
      "rb_list (uplink_ring_buffer s1) = rb_list ?rb @ ?took"
  proof (cases "usb_fd \<ge> 0 \<and> RingBufferAvail ?rb > MAX_BYTES_PER_USB_READ \<and> st = LonStatusNoError \<and> bs \<noteq> []")
    case True
    then have "min (length bs) (rb_size ?rb - rb_count ?rb) = length bs"
      using assms(3) by (simp add: RingBufferAvail_def)
    then obtain rb where rb: "RingBufferWrite ?rb bs (length bs) = Some (length bs, rb)" "rb_wf rb"
        "rb_list rb = rb_list ?rb @ bs"
      using RingBufferWrite_Some [OF assms(2), of bs "length bs"] by auto
    define s1 where "s1 = set_stats (\<lambda>t. t\<lparr>stBytesFed := stBytesFed t + length bs,
          stMaxOccupancy := max (RingBufferSize rb) (stMaxOccupancy t),
          stBytesDropped := stBytesDropped t + (length bs - length bs)\<rparr>) (s\<lparr>uplink_ring_buffer := rb\<rparr>)"
    have fr: "feed_ring usb_fd (st, bs) s = Some (LonStatusNoError, s1)"
      using True rb by (simp add: feed_ring_def s1_def)
    have "up_inv s1" using assms(1) by (simp add: s1_def)
    moreover have "uplink_ring_buffer s1 = rb" by (simp add: s1_def set_stats_def)
    ultimately show ?thesis using fr rb True by (intro that [of LonStatusNoError s1]) simp_all
  next
    case False
    then have "\<exists>st1. feed_ring usb_fd (st, bs) s = Some (st1, s)" "?took = []"
      by (auto simp: feed_ring_def)
    then show ?thesis using that assms by fastforce
  qed
  show ?thesis
  proof (cases "st1 = LonStatusNoError")
    case False
    then show ?thesis
      using f sd by (intro exI [of _ st1] exI [of _ None] exI [of _ s1] exI [of _ "[]"]) (simp add: ReadLonUsbMsg_def)
  next
    case True
    define d where "d = (if RingBufferSize (uplink_ring_buffer s1) > 0 \<and> GetUplinkBufferCount s1 < MAX_LON_UPLINK_BUFFERS
        then drain_ring hal now 0 s1 else Some s1)"
    obtain s2 parsed where s2: "d = Some s2" "up_inv s2" "rb_wf (uplink_ring_buffer s2)"
        "rb_list (uplink_ring_buffer s1) = parsed @ rb_list (uplink_ring_buffer s2)"
      using drain_ring_returns [OF f(2,3), of hal now 0] f(2,3) unfolding d_def
      by (cases "RingBufferSize (uplink_ring_buffer s1) > 0 \<and> GetUplinkBufferCount s1 < MAX_LON_UPLINK_BUFFERS") auto
    obtain st3 b s3 where r: "ReadUplinkBuffer s2 = (st3, b, s3)" by (metis prod_cases3)
    note ok = ReadUplinkBuffer_ok [OF s2(2), unfolded r, simplified]
    have "ReadLonUsbMsg hal now usb_fd (st, bs) s = (case b of
        Some b \<Rightarrow> Some (LonStatusNoError, Some (out_message b), s3) | None \<Rightarrow> Some (LonStatusNoBufferAvailable, None, s3))"
      using sd f(1) True s2(1) ok by (auto simp: ReadLonUsbMsg_def d_def [symmetric] r)
    then show ?thesis
      using ok s2 f(4) by (cases b) (auto intro!: exI [of _ parsed])
  qed
qed

section \<open>From one stack to the other\<close>

text \<open>A message that is sent as a frame of its own: it carries data, fits a short frame and is no change of the layer mode.\<close>

definition short_message :: "LonDataFrame \<Rightarrow> bool" where
  "short_message m \<longleftrightarrow> 0 < unat (dfLength m) \<and> unat (dfLength m) < 254 \<and> plain_command (dfCommand m)"

definition sender_idle :: "usb_link \<Rightarrow> bool" where
  "sender_idle s \<longleftrightarrow> \<not> usbShutdown s \<and> iface_type s = LON_USB_INTERFACE_U50 \<and>
     queue_wf (downlink_normal_queue s) \<and> queue_wf (downlink_priority_queue s) \<and>
     queue_list (downlink_normal_queue s) = [] \<and> queue_list (downlink_priority_queue s) = [] \<and>
     1 < queueCapacity (downlink_normal_queue s) \<and> 1 < queueCapacity (downlink_priority_queue s) \<and>
     downlink_ack_seq_number s < 0 \<and> length (bufFrame (downlink_buffer_staging s)) = LON_NI_FRAME_SIZE"

definition message_body :: "LonDataFrame \<Rightarrow> bytes" where
  "message_body m = [dfLength m + 1, dfCommand m] @ bytes_from (dfPdu m) 0 (unat (dfLength m))"

lemma unat_add_1: "unat (n :: u8) < 255 \<Longrightarrow> unat (n + 1) = unat n + 1"
  by (simp add: unat_word_ariths)

lemma GetDownlinkBufferCount_empty:
  assumes "sender_idle s" shows "GetDownlinkBufferCount s = 0"
proof -
  have "queueEntries (downlink_normal_queue s) = 0" "queueEntries (downlink_priority_queue s) = 0"
    using assms by (simp_all add: sender_idle_def queue_list_Nil_iff)
  then show ?thesis by (simp add: GetDownlinkBufferCount_def QueueEntries_def)
qed

text \<open>The message in the staging buffer.\<close>

lemma staged_message:
  assumes "short_message m" "length (bufFrame b) = LON_NI_FRAME_SIZE"
  shows "take (unat (dfLength m) + 2) (bufFrame (stage_message m s b)) = message_body m"
    "dataFrameSize (stage_message m s b) = unat (dfLength m) + 2"
    "bufSize (stage_message m s b) = unat (dfLength m) + 32"
    "bufPriority (stage_message m s b) = bufPriority b"
proof -
  have l: "\<not> layer_mode_message m s" using assms(1) by (auto simp: layer_mode_message_def short_message_def plain_command_def)
  show "take (unat (dfLength m) + 2) (bufFrame (stage_message m s b)) = message_body m"
    using assms l by (simp add: stage_message_def Let_def message_body_def short_message_def copy_into_def
      LON_NI_FRAME_SIZE_eq min_def)
  show "dataFrameSize (stage_message m s b) = unat (dfLength m) + 2"
    "bufSize (stage_message m s b) = unat (dfLength m) + 32"
    "bufPriority (stage_message m s b) = bufPriority b"
    using assms(1) l by (simp_all add: stage_message_def Let_def short_message_def SIZEOF_QUEUE_BUFFER_def MAX_LON_MSG_EX_LEN_def)
qed

lemma copied_message:
  assumes "take (n + 2) (bufFrame b) = body" "length body = n + 2" "dataFrameSize b = n + 2" "bufSize b = n + 32"
  shows "take (n + 2) (bufFrame (copy_buffer (bufSize b) b c)) = body"
    "dataFrameSize (copy_buffer (bufSize b) b c) = n + 2" "bufSize (copy_buffer (bufSize b) b c) = n + 32"
    "bufPriority (copy_buffer (bufSize b) b c) = bufPriority b"
proof -
  have "take (n + 2) (take (8 + n) (bufFrame b) @ xs) = body" for xs
    using arg_cong [OF assms(1), of length] assms(1,2) by simp
  then show "take (n + 2) (bufFrame (copy_buffer (bufSize b) b c)) = body"
    using assms(4) by (simp add: copy_buffer_def BUF_FRAME_OFFSET_def add.commute [of n])
  show "dataFrameSize (copy_buffer (bufSize b) b c) = n + 2" "bufSize (copy_buffer (bufSize b) b c) = n + 32"
    "bufPriority (copy_buffer (bufSize b) b c) = bufPriority b"
    using assms(3,4) by (simp_all add: copy_buffer_def)
qed


lemma queue_one:
  assumes "queue_wf q" "queue_list q = []" "1 < queueCapacity q"
  shows "\<exists>x. queue_list (QueueEmit f q) = [f x]" "QueueTail q \<noteq> None"
  using assms queue_wf_valid [OF assms(1)]
  by (auto simp: queue_list_Emit queue_list_Nil_iff QueueTail_def queue_wf_def)

text \<open>What is written is read next, and is on its way to the device.\<close>

lemma written_message:
  assumes "sender_idle s" "short_message m" "hal_writes_all hal"
  shows "\<exists>s1 s2 c k. WriteLonUsbMsg m s = (LonStatusNoError, s1) \<and>
    ProcessNextDownlinkMessage hal now s1 = (LonStatusNoError, s2) \<and>
    usbOut s2 = usbOut s @ [[FRAME_SYNC, c, 1, k], stuff (message_body m @ [- sum_list (message_body m)])] \<and>
    ComputeChecksum [FRAME_SYNC, c, 1, k] 4 = 0 \<and> get_attribute 0x0F 0 c = MSG_FRAME_CMD"
proof -
  let ?n = "unat (dfLength m)"
  let ?pri = "dfCommand m = LonNiPriorityMsgCmd"
  define b1 where "b1 = (downlink_buffer_staging s)\<lparr>bufHeader := CreateFrameHeader MSG_FRAME_CMD 0 0 True
      (bufHeader (downlink_buffer_staging s)), bufPriority := (if ?pri then HIGH_PRIORITY else NORMAL_PRIORITY)\<rparr>"
  define b2 where "b2 = stage_message m s b1"
  have len: "length (message_body m) = ?n + 2" "length (bufFrame b1) = LON_NI_FRAME_SIZE"
    using assms(1) by (simp_all add: message_body_def b1_def sender_idle_def)
  have b2: "take (?n + 2) (bufFrame b2) = message_body m" "dataFrameSize b2 = ?n + 2" "bufSize b2 = ?n + 32"
      "bufPriority b2 = (if ?pri then HIGH_PRIORITY else NORMAL_PRIORITY)"
    using staged_message [OF assms(2) len(2), of s] unfolding b2_def by (simp_all add: b1_def)
  have no: "\<not> layer_mode_message m s" "dfLength m \<noteq> EXT_LENGTH"
    using assms(2) by (auto simp: layer_mode_message_def short_message_def plain_command_def EXT_LENGTH_def)
  define q where "q = downlink_queue ?pri s"
  have q: "queue_wf q" "queue_list q = []" "1 < queueCapacity q"
    using assms(1) by (simp_all add: q_def downlink_queue_def sender_idle_def)
  obtain x where x: "queue_list (QueueEmit (copy_buffer (bufSize b2) b2) q) = [copy_buffer (bufSize b2) b2 x]"
    using queue_one(1) [OF q] by blast
  define e where "e = copy_buffer (bufSize b2) b2 x"
  have e: "take (?n + 2) (bufFrame e) = message_body m" "dataFrameSize e = ?n + 2" "bufSize e = ?n + 32"
    using copied_message [OF b2(1) len(1) b2(2,3), of x] unfolding e_def by simp_all
  define s1 where "s1 = set_downlink_queue ?pri (QueueEmit (copy_buffer (bufSize b2) b2) q) (s\<lparr>downlink_buffer_staging := b2\<rparr>)"
  have w: "WriteLonUsbMsg m s = (LonStatusNoError, s1)"
    using assms(1) no queue_one(2) [OF q] b2(4) GetDownlinkBufferCount_empty [OF assms(1)]
    unfolding WriteLonUsbMsg_def b1_def [symmetric] Let_def
    by (auto simp: b2_def [symmetric] sender_idle_def MAX_LON_DOWNLINK_BUFFERS_def QueueDownlinkBuffer_def
        q_def s1_def downlink_queue_def Let_def)
  define d where "d = copy_buffer (bufSize e) e (downlink_buffer s)"
  have d: "take (?n + 2) (bufFrame d) = message_body m" "dataFrameSize d = ?n + 2"
    using copied_message [OF e(1) len(1) e(2,3), of "downlink_buffer s"] unfolding d_def by simp_all
  have q1: "queue_wf (QueueEmit (copy_buffer (bufSize b2) b2) q)" using q(1) by simp
  define s2 where "s2 = set_downlink_queue ?pri (QueueDropHead (QueueEmit (copy_buffer (bufSize b2) b2) q))
      (s1\<lparr>downlink_buffer := d\<rparr>)"
  have r: "ReadDownlinkBuffer s1 = (LonStatusNoError, s2)"
    using assms(1) q1 x QueueHead_eq [OF q1]
    by (auto simp: ReadDownlinkBuffer_def Let_def s1_def s2_def set_downlink_queue_def downlink_queue_def sender_idle_def
        d_def e_def)
  have s2: "downlink_buffer s2 = d" "\<not> usbShutdown s2" "usbOut s2 = usbOut s" "iface_type s2 = LON_USB_INTERFACE_U50"
      "\<not> usbShutdown s1" "downlink_ack_seq_number s1 < 0"
    using assms(1) by (simp_all add: s2_def s1_def set_downlink_queue_def sender_idle_def)
  have n: "0 < ?n" "?n < 254" using assms(2) by (simp_all add: short_message_def)
  have dl: "?n + 2 \<le> length (bufFrame d)" using arg_cong [OF d(1), of length] len(1) by simp
  have body: "bytes_from (bufFrame d) 0 (?n + 2) = message_body m"
    using d(1) dl by (simp add: bytes_from_eq_take)
  have dl0: "0 < length (bufFrame d)" using dl by linarith
  have "byte_at (bufFrame d) 0 = message_body m ! 0"
    using dl arg_cong [OF d(1), of "\<lambda>xs. xs ! 0"] byte_at_nth [OF dl0] by simp
  then have "frame_length d \<noteq> 1"
    using n unat_add_1 [of "dfLength m"] by (auto simp: message_body_def)
  then have p: "ProcessNextDownlinkMessage hal now s1 = WriteDownlinkMessage hal now s2"
    using s2 by (simp add: ProcessNextDownlinkMessage_def r Let_def)
  show ?thesis
    using w p write_message_wire [OF s2(2) assms(3), of "?n + 2" "message_body m" now] n s2(1,3) d(2) body by auto
qed

text \<open>
  C15. What one stack sends over a link reaches the other stack: a message written by
  \<open>WriteLonUsbMsg\<close> goes to the device, and the link at the other end of the line returns it from
  \<open>ReadLonUsbMsg\<close> with the same command, the same length and the same data.
\<close>

theorem message_goes_from_stack_to_stack:
  assumes "sender_idle s" "short_message m" "hal_writes_all hal"
    and "link_idle r" "queue_list (uplink_priority_queue r) = []" "queue_list (uplink_normal_queue r) = []"
    and "1 < queueCapacity (uplink_normal_queue r)" "RingBufferSize (uplink_ring_buffer r) = 0"
  shows "\<exists>s1 s2 out r1 m' r2. WriteLonUsbMsg m s = (LonStatusNoError, s1) \<and>
    ProcessNextDownlinkMessage hal now s1 = (LonStatusNoError, s2) \<and> usbOut s2 = usbOut s @ out \<and>
    ProcessUplinkBytes hal' now' (concat out) r = Some (LonStatusNoError, r1) \<and>
    ReadLonUsbMsg hal' now' usb_fd (LonStatusNoMessageAvailable, []) r1 = Some (LonStatusNoError, Some m', r2) \<and>
    dfCommand m' = dfCommand m \<and> dfLength m' = dfLength m \<and>
    take (unat (dfLength m)) (dfPdu m') = bytes_from (dfPdu m) 0 (unat (dfLength m))"
proof -
  let ?n = "unat (dfLength m)" and ?pdu = "bytes_from (dfPdu m) 0 (unat (dfLength m))"
  obtain s1 s2 c k where w: "WriteLonUsbMsg m s = (LonStatusNoError, s1)"
      "ProcessNextDownlinkMessage hal now s1 = (LonStatusNoError, s2)"
      "usbOut s2 = usbOut s @ [[FRAME_SYNC, c, 1, k], stuff (message_body m @ [- sum_list (message_body m)])]"
      "ComputeChecksum [FRAME_SYNC, c, 1, k] 4 = 0" "get_attribute 0x0F 0 c = MSG_FRAME_CMD"
    using written_message [OF assms(1-3)] by blast
  have n: "0 < ?n" "?n < 254" and cmd: "plain_command (dfCommand m)" using assms(2) by (simp_all add: short_message_def)
  have L: "unat (dfLength m + 1) = length ?pdu + 1" "dfLength m + 1 \<noteq> EXT_LENGTH"
    using n unat_add_1 [of "dfLength m"] by (auto simp: EXT_LENGTH_def)
  let ?x = "- sum_list (message_body m)" and ?h = "\<lparr>frameSync = FRAME_SYNC, frameCode = c, frameParameter = 1, frameChecksum = k\<rparr>"
  obtain r1 where r1: "ProcessUplinkBytes hal' now' ([FRAME_SYNC, c, 1, k] @ stuff ((dfLength m + 1) # dfCommand m # ?pdu @ [?x])) r
      = Some (LonStatusNoError, r1)" "link_idle r1"
      "queue_list (uplink_normal_queue r1) = push (received_frame ((dfLength m + 1) # dfCommand m # ?pdu) ?x r ?h) (uplink_normal_queue r)"
      "uplink_priority_queue r1 = uplink_priority_queue r" "uplink_ring_buffer r1 = uplink_ring_buffer r"
    using message_queued [OF assms(4) w(4,5) L cmd, of hal' now' ?x] by blast
  define b where "b = received_frame ((dfLength m + 1) # dfCommand m # ?pdu) ?x r ?h"
  have q: "queue_list (uplink_normal_queue r1) = [b]"
    using r1(3) assms(6,7) by (simp add: push_def b_def queue_list_Nil_iff)
  have wf: "queue_wf (uplink_normal_queue r1)" "queue_wf (uplink_priority_queue r1)" "\<not> usbShutdown r1"
    using r1(2) by (simp_all add: link_idle_def up_inv_def)
  define r2 where "r2 = r1\<lparr>uplink_normal_queue := QueueDropHead (uplink_normal_queue r1)\<rparr>"
  have rd: "ReadUplinkBuffer r1 = (LonStatusNoError, Some b, r2)"
    using wf q QueueHead_eq [OF wf(1)] assms(5) r1(4)
    by (simp add: ReadUplinkBuffer_def uplink_queue_def set_uplink_queue_def r2_def)
  have "ReadLonUsbMsg hal' now' usb_fd (LonStatusNoMessageAvailable, []) r1 = Some (LonStatusNoError, Some (out_message b), r2)"
    using wf(3) assms(8) r1(5) by (simp add: ReadLonUsbMsg_def feed_ring_def rd)
  moreover have "dfCommand (out_message b) = dfCommand m" "dfLength (out_message b) = dfLength m"
    by (simp_all add: out_message_def b_def received_frame_def Let_def)
  moreover have "take ?n (dfPdu (out_message b)) = ?pdu"
  proof -
    have "bytes_from (bufFrame b) 2 ?n = ?pdu"
      by (simp add: b_def received_frame_def numeral_2_eq_2 bytes_from_eq_take)
    then show ?thesis
      by (simp add: out_message_def Let_def b_def received_frame_def copy_into_0)
  qed
  moreover have "concat [[FRAME_SYNC, c, 1, k], stuff (message_body m @ [?x])] =
      [FRAME_SYNC, c, 1, k] @ stuff ((dfLength m + 1) # dfCommand m # ?pdu @ [?x])"
    by (simp add: message_body_def)
  ultimately show ?thesis using w(1-3) r1(1) by metis
qed


lemma openLink_idle: "link_idle (openLink LON_USB_INTERFACE_U50)" "sender_idle (openLink LON_USB_INTERFACE_U50)"
  using openLink_up_inv [of LON_USB_INTERFACE_U50]
  by (simp_all add: link_idle_def sender_idle_def zeroBuffer_def queue_wf_def queue_list_def NO_ACK_REQUIRED_def)

theorem message_goes_from_stack_to_stack_witness:
  "\<exists>s1 s2 out r1 m' r2. WriteLonUsbMsg \<lparr>dfCommand = 0x12, dfLength = 3, dfPdu = [0x7E, 0xFF, 1]\<rparr> (openLink LON_USB_INTERFACE_U50)
       = (LonStatusNoError, s1) \<and>
    ProcessNextDownlinkMessage (\<lambda>_ buf. (LonStatusNoError, length buf)) 0 s1 = (LonStatusNoError, s2) \<and>
    usbOut s2 = usbOut (openLink LON_USB_INTERFACE_U50) @ out \<and>
    ProcessUplinkBytes (\<lambda>_ buf. (LonStatusNoError, length buf)) 5 (concat out) (openLink LON_USB_INTERFACE_U50) =
      Some (LonStatusNoError, r1) \<and>
    ReadLonUsbMsg (\<lambda>_ buf. (LonStatusNoError, length buf)) 5 3 (LonStatusNoMessageAvailable, []) r1 =
      Some (LonStatusNoError, Some m', r2) \<and>
    dfCommand m' = 0x12 \<and> dfLength m' = 3 \<and> take 3 (dfPdu m') = [0x7E, 0xFF, 1]"
proof -
  let ?m = "\<lparr>dfCommand = 0x12, dfLength = 3, dfPdu = [0x7E, 0xFF, 1]\<rparr>"
  have "short_message ?m" by (simp add: short_message_def plain_command_def ni_commands)
  moreover have "hal_writes_all (\<lambda>_ buf. (LonStatusNoError, length buf))" by (simp add: hal_writes_all_def)
  moreover have "bytes_from [0x7E, 0xFF, 1] 0 3 = [0x7E, 0xFF, 1 :: u8]" by (simp add: bytes_from_eq_take)
  ultimately show ?thesis
    using message_goes_from_stack_to_stack [of "openLink LON_USB_INTERFACE_U50" ?m "\<lambda>_ buf. (LonStatusNoError, length buf)"
        "openLink LON_USB_INTERFACE_U50" 0 "\<lambda>_ buf. (LonStatusNoError, length buf)" 5 3] openLink_idle
    by (simp add: queue_list_def RingBufferSize_def)
qed

section \<open>What goes wrong\<close>

lemma fold_store_fault:
  "usbFault (fold store_byte bs s) \<longleftrightarrow>
     usbFault s \<or> bs \<noteq> [] \<and> LON_NI_FRAME_SIZE < uplink_msg_index s + length bs"
proof (induction bs arbitrary: s)
  case (Cons b bs)
  show ?case by (simp add: Cons.IH store_byte_buffer) (cases bs; auto simp: frame_full_def)
qed simp

text \<open>
  C40. A message with an extended length is not bounded by the frame buffer. The length is read
  when its second byte has not yet arrived, and it is not compared with the size of the
  buffer: a device that announces \<open>0x0600\<close> bytes or more and sends 1283 makes the parser write
  past the buffer.
\<close>

theorem extended_frame_overruns_the_buffer:
  assumes "link_idle s" "ComputeChecksum [FRAME_SYNC, c, p, k] 4 = 0" "get_attribute 0x0F 0 c = MSG_FRAME_CMD"
    and "6 \<le> unat hi" "FRAME_SYNC \<notin> set ([cmd, hi] @ body)" "length body = 1280"
  shows "\<exists>s'. ProcessUplinkBytes hal now ([FRAME_SYNC, c, p, k] @ [EXT_LENGTH, cmd, hi] @ body) s =
    Some (LonStatusNoError, s') \<and> usbFault s'"
proof -
  have i: "uplink_state s = UPLINK_IDLE" "iface_type s = LON_USB_INTERFACE_U50" "\<not> usbShutdown s"
      "length (bufFrame (uplink_buffer s)) = LON_NI_FRAME_SIZE" "uplink_msg_index s = 0"
    using assms(1) up_inv_idle [of s] by (auto simp: link_idle_def up_base_def)
  obtain t where t: "up_same (packet_received \<lparr>frameSync = FRAME_SYNC, frameCode = c, frameParameter = p, frameChecksum = k\<rparr> s) t"
    and f: "\<And>rest. feed hal now ([FRAME_SYNC, c, p, k] @ rest) s =
       feed hal now rest (t\<lparr>downlink_ack_seq_number := uint (get_attribute 0xE0 5 c),
         uplink_msg_timer := now, uplink_state := UPLINK_MESSAGE\<rparr>)"
    using message_packet [OF i(1-3) assms(2,3), of hal now] by blast
  define s1 where "s1 = t\<lparr>downlink_ack_seq_number := uint (get_attribute 0xE0 5 c),
         uplink_msg_timer := now, uplink_state := UPLINK_MESSAGE\<rparr>"
  have s1: "uplink_state s1 = UPLINK_MESSAGE" "\<not> usbShutdown s1" "uplink_msg_index s1 = 0"
      "length (bufFrame (uplink_buffer s1)) = LON_NI_FRAME_SIZE"
    using t i by (simp_all add: s1_def up_same_def packet_received_def)
  have room: "\<not> frame_full u" if "uplink_msg_index u \<le> 2" for u
    using that by (simp add: frame_full_def LON_NI_FRAME_SIZE_eq)
  have ne: "EXT_LENGTH \<noteq> FRAME_SYNC" by (simp add: EXT_LENGTH_def FRAME_SYNC_def)
  define s2 where "s2 = (store_byte EXT_LENGTH s1)\<lparr>uplink_msg_length := 255\<rparr>"
  have c2: "CheckUplinkCompleted (store_byte EXT_LENGTH s1) = (LonStatusNoError, False, s2)"
    using s1 by (simp add: CheckUplinkCompleted_def s2_def store_byte_buffer room LON_NI_FRAME_SIZE_eq) (simp add: EXT_LENGTH_def)
  have s2: "uplink_state s2 = UPLINK_MESSAGE" "\<not> usbShutdown s2" "uplink_msg_index s2 = 1" "uplink_msg_length s2 = 255"
      "length (bufFrame (uplink_buffer s2)) = LON_NI_FRAME_SIZE"
    using s1 by (simp_all add: s2_def store_byte_buffer room)
  define s3 where "s3 = store_byte cmd s2"
  have s3: "uplink_state s3 = UPLINK_MESSAGE" "\<not> usbShutdown s3" "uplink_msg_index s3 = 2" "uplink_msg_length s3 = 255"
      "length (bufFrame (uplink_buffer s3)) = LON_NI_FRAME_SIZE"
    using s2 by (simp_all add: s3_def store_byte_buffer room)
  have c3: "CheckUplinkCompleted s3 = (LonStatusNoError, False, s3)"
    by (rule CheckUplinkCompleted_goes_on) (use s3 in simp_all)
  define n where "n = unat hi * 256 + unat (byte_at (bufFrame (uplink_buffer (store_byte hi s3))) 3)"
  define s4 where "s4 = (store_byte hi s3)\<lparr>uplink_msg_length := n\<rparr>"
  have c4: "CheckUplinkCompleted (store_byte hi s3) = (LonStatusNoError, False, s4)"
    using s3 by (simp add: CheckUplinkCompleted_def s4_def n_def store_byte_buffer room LON_NI_FRAME_SIZE_eq)
  have s4: "uplink_state s4 = UPLINK_MESSAGE" "\<not> usbShutdown s4" "uplink_msg_index s4 = 3" "uplink_msg_length s4 = n"
    using s3 by (simp_all add: s4_def store_byte_buffer room)
  have n: "1536 \<le> n" using assms(4) by (simp add: n_def)
  have plain: "stuff [EXT_LENGTH] = [EXT_LENGTH]" "stuff [cmd] = [cmd]" "stuff [hi] = [hi]" "stuff body = body"
    using assms(5) ne by (auto simp: stuff_plain)
  have "feed hal now ([EXT_LENGTH, cmd, hi] @ body) s1 = feed hal now ([cmd, hi] @ body) s2"
    using feed_stuffed_byte [OF s1(1) room, of hal now EXT_LENGTH "[cmd, hi] @ body"] c2 plain(1) s1 by simp
  also have "\<dots> = feed hal now ([hi] @ body) s3"
    using feed_stuffed_byte [OF s2(1) room, of hal now cmd "[hi] @ body"] c3 plain(2) s2 by (simp add: s3_def)
  also have "\<dots> = feed hal now body s4"
    using feed_stuffed_byte [OF s3(1) room, of hal now hi body] c4 plain(3) s3 by simp
  also have "\<dots> = (LonStatusNoError, fold store_byte body s4)"
    using feed_stuff [of s4 body hal now "[]"] s4 n assms(6) plain(4) by simp
  finally have "feed hal now ([FRAME_SYNC, c, p, k] @ [EXT_LENGTH, cmd, hi] @ body) s =
      (LonStatusNoError, fold store_byte body s4)"
    unfolding f s1_def .
  moreover have "usbFault (fold store_byte body s4)"
    using assms(6) s4(3) by (auto simp: fold_store_fault LON_NI_FRAME_SIZE_eq)
  ultimately show ?thesis
    using ProcessUplinkBytes_feed [OF link_idle_in_time [OF assms(1)]] by simp
qed

theorem extended_frame_overruns_the_buffer_witness:
  "\<exists>s'. ProcessUplinkBytes (\<lambda>_ buf. (LonStatusNoError, length buf)) 0
     ([FRAME_SYNC, 0x02, 1, 0x7F] @ [EXT_LENGTH, 0x12, 0x06] @ replicate 1280 0) (openLink LON_USB_INTERFACE_U50) =
     Some (LonStatusNoError, s') \<and> usbFault s'"
  by (rule extended_frame_overruns_the_buffer)
    (simp_all add: openLink_idle ComputeChecksum_4 FRAME_SYNC_def get_attribute_def MSG_FRAME_CMD_def)

text \<open>
  After a code packet with the command \<open>FAIL\<close>, or with a command that is not known, the parser
  stops: what follows in the chunk is not looked at, and the state stays where the checksum
  byte was awaited, so the first byte of the next chunk is taken for a checksum.
\<close>

theorem failed_packet_stops_the_parser:
  assumes "link_idle s" "ComputeChecksum [FRAME_SYNC, c, p, k] 4 = 0"
    and "get_attribute 0x0F 0 c \<notin> {MSG_FRAME_CMD, SHORT_NI_CMD_FRAME_CMD, MSG_REJECT_FRAME_CMD, NULL_FRAME_CMD}"
  shows "\<exists>s'. uplink_state s' = UPLINK_CODE_PACKET_CHECKSUM \<and>
    (\<forall>rest. ProcessUplinkBytes hal now ([FRAME_SYNC, c, p, k] @ rest) s = Some (LonStatusFrameError, s'))"
proof -
  let ?h = "\<lparr>frameSync = FRAME_SYNC, frameCode = c, frameParameter = p, frameChecksum = k\<rparr>"
  have i: "uplink_state s = UPLINK_IDLE" "iface_type s = LON_USB_INTERFACE_U50" "\<not> usbShutdown s"
    using assms(1) by (simp_all add: link_idle_def up_inv_def)
  define s1 where "s1 = packet_received ?h s"
  have h: "bufHeader (uplink_buffer s1) = ?h" "\<not> usbShutdown s1" "uplink_state s1 = UPLINK_CODE_PACKET_CHECKSUM"
    using i(3) by (simp_all add: s1_def packet_received_def)
  obtain st s2 where p: "ProcessUplinkCodePacket hal now s1 = (st, s2)" by force
  have s2: "st = LonStatusFrameError \<and> uplink_state s2 = UPLINK_CODE_PACKET_CHECKSUM"
  proof -
    obtain t where t: "up_same s1 t" and e: "(st, s2) =
       (if get_attribute 0x0F 0 c = FAIL_FRAME_CMD then (LonStatusFrameError,
          set_stats (\<lambda>t. t\<lparr>stRxCodePacketFailures := Increment32 (stRxCodePacketFailures t)\<rparr>)
            (snd (StopAckTimer (snd (ClearUplinkTransaction t)))))
        else (LonStatusFrameError, set_stats (\<lambda>t. t\<lparr>stRxFrameErrors := Increment32 (stRxFrameErrors t)\<rparr>) t))"
      using code_packet_eq [OF h(2), of hal now] assms(3) unfolding p Let_def h(1) by auto
    have "up_same s1 (set_stats g (snd (StopAckTimer (snd (ClearUplinkTransaction t)))))" "up_same s1 (set_stats g t)" for g
      using t by simp_all
    then show ?thesis using e h(3) by (auto simp: up_same_def split: if_splits)
  qed
  have "feed hal now ([FRAME_SYNC, c, p, k] @ rest) s = (LonStatusFrameError, s2)" for rest
    unfolding feed_code_packet [OF i(1,2) assms(2)] using s2 p by (simp add: s1_def [symmetric])
  then show ?thesis
    using s2 ProcessUplinkBytes_feed [OF link_idle_in_time [OF assms(1)], of hal now] by auto
qed


theorem failed_packet_stops_the_parser_witness:
  "\<exists>s'. uplink_state s' = UPLINK_CODE_PACKET_CHECKSUM \<and>
    (\<forall>rest. ProcessUplinkBytes (\<lambda>_ buf. (LonStatusNoError, length buf)) 0
       ([FRAME_SYNC, 0x01, 0, 0x81] @ rest) (openLink LON_USB_INTERFACE_U50) = Some (LonStatusFrameError, s'))"
  by (rule failed_packet_stops_the_parser)
    (simp_all add: openLink_idle ComputeChecksum_4 FRAME_SYNC_def get_attribute_def frame_commands)

text \<open>
  The queue of messages to the device reports a success it has not had: while fewer than 16
  messages wait, \<open>WriteLonUsbMsg\<close> returns without an error, but a queue of 16 entries holds 15, and
  the next message is lost. When the message is not lost it is the last one of its queue.
\<close>

definition message_priority :: "LonDataFrame \<Rightarrow> bool" where
  "message_priority m \<longleftrightarrow> dfCommand m = LonNiPriorityMsgCmd"

theorem sixteenth_message_is_lost:
  assumes "\<not> usbShutdown s" "queue_wf (downlink_normal_queue s)" "queue_wf (downlink_priority_queue s)"
    and "dfLength m \<noteq> EXT_LENGTH" "GetDownlinkBufferCount s < MAX_LON_DOWNLINK_BUFFERS"
  shows "\<exists>s' x. WriteLonUsbMsg m s = (LonStatusNoError, s') \<and>
    queue_list (downlink_queue (message_priority m) s') = push x (downlink_queue (message_priority m) s) \<and>
    downlink_queue (\<not> message_priority m) s' = downlink_queue (\<not> message_priority m) s \<and>
    (queueEntries (downlink_queue (message_priority m) s) = queueCapacity (downlink_queue (message_priority m) s) - 1 \<longrightarrow>
      queue_list (downlink_queue (message_priority m) s') = queue_list (downlink_queue (message_priority m) s))"
proof -
  let ?pri = "message_priority m"
  define b1 where "b1 = (downlink_buffer_staging s)\<lparr>bufHeader := CreateFrameHeader MSG_FRAME_CMD 0 0 True
      (bufHeader (downlink_buffer_staging s)), bufPriority := (if dfCommand m = LonNiPriorityMsgCmd then HIGH_PRIORITY else NORMAL_PRIORITY)\<rparr>"
  define b2 where "b2 = stage_message m s b1"
  have pri: "(bufPriority b2 = HIGH_PRIORITY) = ?pri"
    by (simp add: b2_def b1_def stage_message_def Let_def message_priority_def)
  define s1 where "s1 = s\<lparr>downlink_buffer_staging := b2, configured_iface_mode :=
     (if layer_mode_message m s then (if byte_at (dfPdu m) 0 = 0 then LON_IFACE_MODE_LAYER5 else LON_IFACE_MODE_LAYER2)
      else configured_iface_mode s)\<rparr>"
  have q1: "downlink_queue p s1 = downlink_queue p s" for p by (simp add: downlink_queue_def s1_def)
  define q where "q = downlink_queue ?pri s"
  have wf: "queue_wf q" using assms(2,3) by (simp add: q_def downlink_queue_def)
  have tail: "QueueTail q \<noteq> None" using wf queue_wf_valid [OF wf] by (auto simp: QueueTail_def queue_wf_def)
  have w: "WriteLonUsbMsg m s = (LonStatusNoError, set_downlink_queue ?pri (QueueEmit (copy_buffer (bufSize b2) b2) q) s1)"
    using assms(1,4,5) tail pri unfolding WriteLonUsbMsg_def b1_def [symmetric] Let_def b2_def [symmetric] s1_def [symmetric]
    by (simp add: QueueDownlinkBuffer_def Let_def q1 q_def)
  have s: "downlink_queue p (set_downlink_queue p' q' s1) = (if p = p' then q' else downlink_queue p s)" for p p' q'
    by (simp add: downlink_queue_def set_downlink_queue_def s1_def)
  show ?thesis
    using wf unfolding w by (auto simp: s push_def queue_list_Emit q_def [symmetric])
qed

theorem sixteenth_message_is_lost_witness:
  "let m = \<lparr>dfCommand = 0x12, dfLength = 1, dfPdu = [5]\<rparr>;
       s = (openLink LON_USB_INTERFACE_U50)\<lparr>downlink_normal_queue :=
         (downlink_normal_queue (openLink LON_USB_INTERFACE_U50))\<lparr>queueEntries := 15, tailIndex := 15, qtail := 19680\<rparr>\<rparr>
   in \<exists>s'. WriteLonUsbMsg m s = (LonStatusNoError, s') \<and>
        queue_list (downlink_normal_queue s') = queue_list (downlink_normal_queue s)"
proof -
  let ?m = "\<lparr>dfCommand = 0x12, dfLength = 1, dfPdu = [5]\<rparr>"
  let ?s = "(openLink LON_USB_INTERFACE_U50)\<lparr>downlink_normal_queue :=
         (downlink_normal_queue (openLink LON_USB_INTERFACE_U50))\<lparr>queueEntries := 15, tailIndex := 15, qtail := 19680\<rparr>\<rparr>"
  have w: "queue_wf (downlink_normal_queue ?s)" "queue_wf (downlink_priority_queue ?s)" by (simp_all add: queue_wf_def)
  have "GetDownlinkBufferCount ?s < MAX_LON_DOWNLINK_BUFFERS"
    using queue_wf_valid [OF w(1)] queue_wf_valid [OF w(2)]
    by (simp add: GetDownlinkBufferCount_def QueueEntries_def MAX_LON_DOWNLINK_BUFFERS_def)
  then obtain s' where "WriteLonUsbMsg ?m ?s = (LonStatusNoError, s')"
      "queueEntries (downlink_queue (message_priority ?m) ?s) = queueCapacity (downlink_queue (message_priority ?m) ?s) - 1 \<longrightarrow>
        queue_list (downlink_queue (message_priority ?m) s') = queue_list (downlink_queue (message_priority ?m) ?s)"
    using sixteenth_message_is_lost [of ?s ?m] w by (auto simp: EXT_LENGTH_def)
  then show ?thesis
    by (auto simp: Let_def message_priority_def downlink_queue_def LonNiPriorityMsgCmd_def)
qed

text \<open>
  A message without data goes out as a code packet with a local command. The command is taken
  from the staging buffer, where the last message that was written has left it, and not from the
  message whose turn it is: of two local commands that wait, the second one is sent in place of
  the first.
\<close>

theorem local_command_comes_from_the_staging_buffer:
  assumes "\<not> usbShutdown s" "iface_type s = LON_USB_INTERFACE_U50" "downlink_ack_seq_number s < 0"
    and "QueueHead (downlink_queue (\<not> QueueEmpty (downlink_priority_queue s)) s) = Some e"
    and "26 \<le> bufSize e" "2 \<le> length (bufFrame e)" "frame_length e = 1"
    and "frame_command e \<notin> {LonNiSetL5ModeCmd, LonNiSetL2ModeCmd}" "hal_writes_all hal"
  shows "\<exists>c k s'. ProcessNextDownlinkMessage hal now s = (LonStatusNoError, s') \<and>
    usbOut s' = usbOut s @ [[FRAME_SYNC, c, frame_command (downlink_buffer_staging s), k]]"
proof -
  define s1 where "s1 = set_downlink_queue (\<not> QueueEmpty (downlink_priority_queue s))
     (QueueDropHead (downlink_queue (\<not> QueueEmpty (downlink_priority_queue s)) s))
     (s\<lparr>downlink_buffer := copy_buffer (bufSize e) e (downlink_buffer s)\<rparr>)"
  have r: "ReadDownlinkBuffer s = (LonStatusNoError, s1)"
    using assms(4) by (simp add: ReadDownlinkBuffer_def Let_def s1_def)
  have f: "downlink_buffer s1 = copy_buffer (bufSize e) e (downlink_buffer s)" "\<not> usbShutdown s1"
      "iface_type s1 = LON_USB_INTERFACE_U50" "usbOut s1 = usbOut s" "downlink_buffer_staging s1 = downlink_buffer_staging s"
    using assms(1,2) by (simp_all add: s1_def set_downlink_queue_def)
  have bytes: "byte_at (bufFrame (copy_buffer (bufSize e) e d)) i = byte_at (bufFrame e) i" if "i < 2" for i d
  proof -
    have "i < min (length (bufFrame e)) (bufSize e - 24)" using that assms(5,6) by auto
    then have "i < length (take (bufSize e - 24) (bufFrame e))" by simp
    then show ?thesis
      using that assms(6) by (simp only: copy_buffer_def BUF_FRAME_OFFSET_def byte_at_def nth_append length_append
          LonUsbQueueBuffer.select_convs) auto
  qed
  have local: "frame_length (downlink_buffer s1) = 1" "frame_command (downlink_buffer s1) \<notin> {LonNiSetL5ModeCmd, LonNiSetL2ModeCmd}"
    using assms(7,8) bytes [of 0] bytes [of 1] f(1) by simp_all
  define s2 where "s2 = snd (ResetDownlinkState s1)"
  have s2: "\<not> usbShutdown s2" "usbOut s2 = usbOut s" "downlink_buffer_staging s2 = downlink_buffer_staging s"
    using f by (simp_all add: s2_def ResetDownlinkState_def StopAckTimer_def)
  have p: "ProcessNextDownlinkMessage hal now s = (LonStatusNoError, snd (WriteDownlinkLocalNiCmd hal now s2))"
    using assms(1,3) f(3) local by (simp add: ProcessNextDownlinkMessage_def r Let_def s2_def)
  have hal: "hal n buf = (LonStatusNoError, length buf)" for n buf using assms(9) by (simp add: hal_writes_all_def)
  have wp: "\<exists>c k. usbOut (snd (WriteDownlinkCodePacket hal SHORT_NI_CMD_FRAME_CMD v t)) =
      usbOut t @ [[FRAME_SYNC, c, v, k]] \<and> fst (WriteDownlinkCodePacket hal SHORT_NI_CMD_FRAME_CMD v t) = LonStatusNoError"
    if "\<not> usbShutdown t" for t v
    using that code_packet_bytes [of SHORT_NI_CMD_FRAME_CMD v t]
    by (auto simp: WriteDownlinkCodePacket_def usb_write_def hal Let_def frame_commands)
  have "usbOut (snd (StartAckTimer now n t)) = usbOut t" for n t by (simp add: StartAckTimer_def)
  then have "\<exists>c k. usbOut (snd (WriteDownlinkLocalNiCmd hal now s2)) =
      usbOut s2 @ [[FRAME_SYNC, c, frame_command (downlink_buffer_staging s2), k]]"
    using s2(1) wp [of "s2\<lparr>uplink_expected_rsp := GetExpectedResponse (frame_command (downlink_buffer_staging s2))\<rparr>"
        "frame_command (downlink_buffer_staging s2)"]
    by (auto simp: WriteDownlinkLocalNiCmd_def Let_def split_beta)
  then show ?thesis using p s2 by auto
qed


theorem local_command_comes_from_the_staging_buffer_witness:
  "let s = (openLink LON_USB_INTERFACE_U50)
        \<lparr>downlink_normal_queue := (downlink_normal_queue (openLink LON_USB_INTERFACE_U50))
           \<lparr>queueEntries := 1, tailIndex := 1, qtail := 1312,
            qdata := Some (zeroBuffer\<lparr>bufSize := 32, dataFrameSize := 2, bufFrame := [1, LonNiResetDeviceCmd]\<rparr> # replicate 15 zeroBuffer)\<rparr>,
         downlink_buffer_staging := zeroBuffer\<lparr>bufFrame := [1, LonNiStatusCmd]\<rparr>\<rparr>
   in \<exists>c k s'. ProcessNextDownlinkMessage (\<lambda>_ buf. (LonStatusNoError, length buf)) 0 s = (LonStatusNoError, s') \<and>
        usbOut s' = [[FRAME_SYNC, c, LonNiStatusCmd, k]]"
proof -
  let ?e = "zeroBuffer\<lparr>bufSize := 32, dataFrameSize := 2, bufFrame := [1, LonNiResetDeviceCmd]\<rparr>"
  let ?s = "(openLink LON_USB_INTERFACE_U50)
        \<lparr>downlink_normal_queue := (downlink_normal_queue (openLink LON_USB_INTERFACE_U50))
           \<lparr>queueEntries := 1, tailIndex := 1, qtail := 1312, qdata := Some (?e # replicate 15 zeroBuffer)\<rparr>,
         downlink_buffer_staging := zeroBuffer\<lparr>bufFrame := [1, LonNiStatusCmd]\<rparr>\<rparr>"
  have wf: "queue_wf (downlink_normal_queue ?s)" "queue_wf (downlink_priority_queue ?s)" by (simp_all add: queue_wf_def)
  have "QueueHead (downlink_queue (\<not> QueueEmpty (downlink_priority_queue ?s)) ?s) = Some ?e"
    using wf QueueHead_eq [OF wf(1)] by (simp add: downlink_queue_def queue_list_def)
  then show ?thesis
    using local_command_comes_from_the_staging_buffer [of ?s ?e "\<lambda>_ buf. (LonStatusNoError, length buf)" 0]
    by (simp add: Let_def NO_ACK_REQUIRED_def hal_writes_all_def ni_commands)
qed

theorem message_is_queued_unverified_witness:
  "\<exists>s'. ProcessUplinkBytes (\<lambda>_ buf. (LonStatusNoError, length buf)) 0
      ([FRAME_SYNC, 0x42, 1, 0x3F] @ stuff [2, 0x12, 5, 99]) (openLink LON_USB_INTERFACE_U50) =
      Some (LonStatusNoError, s') \<and> length (queue_list (uplink_normal_queue s')) = 1"
proof -
  have c: "ComputeChecksum [FRAME_SYNC, 0x42, 1, 0x3F] 4 = 0" "get_attribute 0x0F 0 0x42 = MSG_FRAME_CMD"
    "unat (2 :: u8) = length [5 :: u8] + 1" "2 \<noteq> EXT_LENGTH" "plain_command 0x12"
    by (simp_all add: ComputeChecksum_4 FRAME_SYNC_def get_attribute_def MSG_FRAME_CMD_def EXT_LENGTH_def
        plain_command_def ni_commands)
  obtain s' where "ProcessUplinkBytes (\<lambda>_ buf. (LonStatusNoError, length buf)) 0
      ([FRAME_SYNC, 0x42, 1, 0x3F] @ stuff (2 # 0x12 # [5] @ [99])) (openLink LON_USB_INTERFACE_U50) =
      Some (LonStatusNoError, s')"
    and q: "queue_list (uplink_normal_queue s') = push (received_frame (2 # 0x12 # [5]) 99 (openLink LON_USB_INTERFACE_U50)
      \<lparr>frameSync = FRAME_SYNC, frameCode = 0x42, frameParameter = 1, frameChecksum = 0x3F\<rparr>)
      (uplink_normal_queue (openLink LON_USB_INTERFACE_U50))"
    using message_is_queued_unverified [OF openLink_idle(1) c, of "\<lambda>_ buf. (LonStatusNoError, length buf)" 0 99] by blast
  moreover have "length (queue_list (uplink_normal_queue s')) = 1"
    unfolding q by (simp add: push_def)
  ultimately show ?thesis by (intro exI [of _ s'] conjI) (simp_all only: append.simps)
qed

theorem read_loses_no_byte_witness:
  "\<exists>res m s' parsed. ReadLonUsbMsg (\<lambda>_ buf. (LonStatusNoError, length buf)) 0 3 (LonStatusNoError, [0x7E, 0x42])
      (openLink LON_USB_INTERFACE_U50) = Some (res, m, s') \<and> [0x7E, 0x42] = parsed @ rb_list (uplink_ring_buffer s')"
proof -
  have "rb_wf (uplink_ring_buffer (openLink LON_USB_INTERFACE_U50))" "rb_list (uplink_ring_buffer (openLink LON_USB_INTERFACE_U50)) = []"
    by (simp_all add: rb_wf_def rb_list_def RING_BUFFER_MAX_CAPACITY_def)
  then show ?thesis
    using read_loses_no_byte [OF openLink_up_inv, of LON_USB_INTERFACE_U50 "[0x7E, 0x42]" "\<lambda>_ buf. (LonStatusNoError, length buf)" 0 3
        LonStatusNoError]
    by (simp add: MAX_BYTES_PER_USB_READ_def RingBufferAvail_def) blast
qed

end
