(* ===== verification/Lon_Usb_Startup.thy ===== *)
theory Lon_Usb_Startup
  imports Lon_Usb_Exchange
begin

text \<open>
  \<^verbatim>\<open>lon_usb/lon_usb_link.c\<close>: opening the link, and the state machine of \<open>ProcessDownlinkRequests\<close>
  that brings it up: a reset of the device, the resynchronisation, the request for the device's
  unique identifier in layer 5 mode, the change to layer 2 mode, the request for its status, and
  then the normal operation with its wait for acknowledgements.

  \<open>OsalGetTickCount\<close> is \<open>now\<close> during one call. What \<open>HalOpenUsb\<close> returns is an argument.
\<close>

section \<open>The messages of the driver\<close>

definition IzotNdQueryStatus :: u8 where "IzotNdQueryStatus = 0x51"
definition UNICAST_MSG_CODE_OFFSET :: u8 where "UNICAST_MSG_CODE_OFFSET = 14"

text \<open>The members of an initializer that are not given are zero.\<close>

definition data_frame :: "u8 \<Rightarrow> u8 \<Rightarrow> bytes \<Rightarrow> LonDataFrame" where
  "data_frame cmd len pdu = \<lparr>dfCommand = cmd, dfLength = len,
     dfPdu = pdu @ replicate (MAX_LON_MSG_EX_LEN - length pdu) 0\<rparr>"

definition MsgReportStatus :: LonDataFrame where
  "MsgReportStatus = data_frame LonNiLocalNetMgmtCmd (UNICAST_MSG_CODE_OFFSET + 1)
     ([0x6F, 0x08, 1] @ replicate 11 0 @ [IzotNdQueryStatus])"

definition MsgModeL2 :: LonDataFrame where "MsgModeL2 = data_frame LonNiLayerModeCmd 1 [1]"
definition MsgModeL5 :: LonDataFrame where "MsgModeL5 = data_frame LonNiLayerModeCmd 1 [0]"
definition MsgStatus :: LonDataFrame where "MsgStatus = data_frame LonNiStatusCmd 0 []"

definition MsgUniqueId :: LonDataFrame where
  "MsgUniqueId = data_frame LonNiLocalNetMgmtCmd (UNICAST_MSG_CODE_OFFSET + 5)
     ([0x70, 0x00, 5] @ replicate 11 0 @ [0x6d, 0x01, 0x00, 0x00, 0x06])"

section \<open>Opening\<close>

definition StartLonUsbLink :: "u32 \<Rightarrow> int \<Rightarrow> usb_link \<Rightarrow> LonStatusCode \<times> usb_link" where
  "StartLonUsbLink now mode s =
     (case ResetDownlinkState (FlushDownlinkQueue NORMAL_PRIORITY s) of
        (st, s1) \<Rightarrow>
          if st \<noteq> LonStatusNoError then (st, s1)
          else
            (LonStatusNoError,
             (ResetUplinkState s1)\<lparr>configured_iface_mode := mode, usbShutdown := False, start_time := now,
                last_timeout := now, downlink_state := DOWNLINK_START\<rparr>))"

text \<open>\<open>linkInitialized\<close> is the first component of the state that is passed.\<close>

definition OpenLonUsbLink :: "(nat \<Rightarrow> LonUsbQueueBuffer list option) \<Rightarrow> LonStatusCode \<Rightarrow> u32 \<Rightarrow> LonUsbIfaceType \<Rightarrow>
    bool \<times> usb_link \<Rightarrow> LonStatusCode \<times> bool \<times> usb_link" where
  "OpenLonUsbLink mem hal_open now ty = (\<lambda>(linkInitialized, s).
     (case (if linkInitialized then (LonStatusNoError, s) else InitIfaceStates mem s) of
        (st, s1) \<Rightarrow>
          if st \<noteq> LonStatusNoError then (st, linkInitialized, s1)
          else
            (let s2 = set_stats (\<lambda>t. t\<lparr>stRuntime := StartLonWatch now (stRuntime t)\<rparr>)
                        (s1\<lparr>usbReady := False, iface_type := ty\<rparr>)
             in if hal_open \<noteq> LonStatusNoError then (LonStatusOpenFailed, True, ResetUplinkState s2)
                else
                  (case StartLonUsbLink now LON_IFACE_MODE_LAYER2 (s2\<lparr>usbShutdown := False\<rparr>) of
                     (st, s3) \<Rightarrow>
                       if st \<noteq> LonStatusNoError then (st, True, ResetUplinkState s3)
                       else (LonStatusNoError, True, s3)))))"

section \<open>Requests to the device\<close>

definition SendResync :: "hal_write \<Rightarrow> u32 \<Rightarrow> usb_link \<Rightarrow> LonStatusCode \<times> usb_link" where
  "SendResync hal now s =
     (if usbShutdown s then (LonStatusInvalidInterfaceId, s)
      else if iface_type s = LON_USB_INTERFACE_U50 then
        (case WriteDownlinkCodePacket hal NI_RESYNC_FRAME_CMD 0 s of
           (st, s1) \<Rightarrow>
             if st \<noteq> LonStatusNoError then (st, s1)
             else (st, s1\<lparr>null_wait_timer := now, downlink_state := DOWNLINK_WAIT_STARTUP_RESYNC_ACK\<rparr>))
      else (LonStatusNoError, s))"

definition RequestUsbNiUid :: "u32 \<Rightarrow> usb_link \<Rightarrow> LonStatusCode \<times> usb_link" where
  "RequestUsbNiUid now s =
     (if usbShutdown s then (LonStatusInvalidInterfaceId, s)
      else if have_uid s then (LonStatusNoError, s)
      else if uid_retries s \<le> 0 then (LonStatusNoError, s\<lparr>uid_retries := 0, wait_for_uid := False\<rparr>)
      else
        (case WriteLonUsbMsg MsgUniqueId s of
           (st, s1) \<Rightarrow>
             if st \<noteq> LonStatusNoError then (st, s1)
             else (st, s1\<lparr>uid_retries := uid_retries s1 - 1, wait_for_uid := True, uid_wait_timer := now,
                           downlink_state := DOWNLINK_WAIT_NI_UNIQUE_ID\<rparr>)))"

definition ReadUsbNiUid :: "usb_link \<Rightarrow> LonStatusCode \<times> bytes option" where
  "ReadUsbNiUid s =
     (if usbShutdown s then (LonStatusInvalidInterfaceId, None)
      else if \<not> have_uid s then (LonStatusLniUniqueIdNotAvailable, None)
      else (LonStatusNoError, Some (bytes_from (usbUid s) 0 6)))"

definition RequestUsbNiStatus :: "u32 \<Rightarrow> usb_link \<Rightarrow> LonStatusCode \<times> usb_link" where
  "RequestUsbNiStatus now s =
     (if usbShutdown s then (LonStatusInvalidInterfaceId, s)
      else if have_status s then (LonStatusNoError, s)
      else if status_retries s \<le> 0 then (LonStatusNoError, s\<lparr>status_retries := 0, wait_for_status := False\<rparr>)
      else
        (case WriteLonUsbMsg MsgStatus s of
           (st, s1) \<Rightarrow>
             if st \<noteq> LonStatusNoError then (st, s1)
             else (st, s1\<lparr>status_retries := status_retries s1 - 1, wait_for_status := True, status_wait_timer := now,
                           downlink_state := DOWNLINK_WAIT_MIP_STATUS\<rparr>)))"

definition SetNiLayerMode :: "int \<Rightarrow> usb_link \<Rightarrow> LonStatusCode \<times> usb_link" where
  "SetNiLayerMode mode s =
     (if usbShutdown s then (LonStatusInvalidInterfaceId, s)
      else WriteLonUsbMsg (if mode = LON_IFACE_MODE_LAYER5 then MsgModeL5 else MsgModeL2)
             (set_stats (\<lambda>t. t\<lparr>stL2L5Mode := LON_IFACE_MODE_UNKNOWN\<rparr>) (s\<lparr>current_iface_mode := mode\<rparr>)))"

definition LonUsbLinkReady :: "usb_link \<Rightarrow> bool" where
  "LonUsbLinkReady s = usbReady s"

section \<open>The downlink state machine\<close>

text \<open>
  One call of \<open>ProcessDownlinkRequests\<close>. Most states do something and then let
  \<open>ProcessNextDownlinkMessage\<close> send what waits; \<open>Inl\<close> is a return before that.
\<close>

type_synonym downlink_step = "(LonStatusCode \<times> usb_link) + usb_link"

definition reset_due :: "u32 \<Rightarrow> usb_link \<Rightarrow> bool" where
  "reset_due now s \<longleftrightarrow> have_reset s \<or> now - reset_wait_timer s > NI_RESET_WAIT_TIME"

definition null_late :: "u32 \<Rightarrow> usb_link \<Rightarrow> bool" where
  "null_late now s \<longleftrightarrow> now - null_wait_timer s > NI_NULL_WAIT_TIME"

definition await_null :: "u32 \<Rightarrow> usb_link \<Rightarrow> usb_link" where
  "await_null now s = s\<lparr>wait_for_null := True, null_wait_timer := now\<rparr>"

definition downlink_start :: "u32 \<Rightarrow> usb_link \<Rightarrow> usb_link" where
  "downlink_start now s =
     (snd (StartLonUsbLink now (configured_iface_mode s) s))
       \<lparr>wait_for_reset := True, reset_wait_timer := now, downlink_state := DOWNLINK_WAIT_STARTUP_RESET\<rparr>"

definition wait_startup_reset :: "hal_write \<Rightarrow> u32 \<Rightarrow> usb_link \<Rightarrow> downlink_step" where
  "wait_startup_reset hal now s =
     (if reset_due now s then
        (case SendResync hal now (s\<lparr>have_reset := False\<rparr>) of
           (st, s1) \<Rightarrow>
             if st \<noteq> LonStatusNoError then Inl (st, s1)
             else Inr ((await_null now s1)\<lparr>downlink_state := DOWNLINK_WAIT_STARTUP_RESYNC_ACK\<rparr>))
      else Inr s)"

definition wait_resync_ack :: "hal_write \<Rightarrow> u32 \<Rightarrow> usb_link \<Rightarrow> downlink_step" where
  "wait_resync_ack hal now s =
     (if have_null s then
        Inr (s\<lparr>have_null := False, wait_for_reset := True, reset_wait_timer := now,
               downlink_state := DOWNLINK_WAIT_RESYNC_RESET\<rparr>)
      else if null_late now s then
        (case SendResync hal now s of
           (st, s1) \<Rightarrow> if st \<noteq> LonStatusNoError then Inl (st, s1) else Inr (await_null now s1))
      else Inr s)"

definition wait_resync_reset :: "u32 \<Rightarrow> usb_link \<Rightarrow> usb_link" where
  "wait_resync_reset now s =
     (if reset_due now s then
        (let s1 = s\<lparr>have_reset := False\<rparr>
         in if \<not> have_uid s1 then s1\<lparr>uid_retries := MAX_UID_RETRIES, downlink_state := DOWNLINK_NI_UNIQUE_ID_REQUEST\<rparr>
            else if \<not> have_status s1 then s1\<lparr>downlink_state := DOWNLINK_MIP_STATUS_REQUEST\<rparr>
            else if stL2L5Mode (lon_stats s1) \<noteq> LON_IFACE_MODE_LAYER2 then s1\<lparr>downlink_state := DOWNLINK_LAYER_2_REQUEST\<rparr>
            else s1\<lparr>downlink_state := DOWNLINK_IDLE_START\<rparr>)
      else s)"

definition layer_request :: "u32 \<Rightarrow> int \<Rightarrow> DownlinkState \<Rightarrow> usb_link \<Rightarrow> downlink_step" where
  "layer_request now mode next s =
     (case SetNiLayerMode mode s of
        (st, s1) \<Rightarrow>
          if st \<noteq> LonStatusNoError then Inl (st, s1)
          else Inr ((await_null now s1)\<lparr>downlink_state := next\<rparr>))"

definition wait_layer_5_ack :: "u32 \<Rightarrow> usb_link \<Rightarrow> usb_link" where
  "wait_layer_5_ack now s =
     (if have_null s then s\<lparr>have_null := False, downlink_state := DOWNLINK_NI_UNIQUE_ID_REQUEST\<rparr>
      else if null_late now s then s\<lparr>downlink_state := DOWNLINK_WAIT_STARTUP_RESYNC_ACK\<rparr>
      else s)"

definition wait_layer_2_ack :: "u32 \<Rightarrow> usb_link \<Rightarrow> usb_link" where
  "wait_layer_2_ack now s =
     (if have_null s then
        s\<lparr>have_null := False, status_retries := MAX_STATUS_RETRIES, downlink_state := DOWNLINK_MIP_STATUS_REQUEST\<rparr>
      else if null_late now s then s\<lparr>downlink_state := DOWNLINK_WAIT_STARTUP_RESYNC_ACK\<rparr>
      else s)"

definition uid_request :: "u32 \<Rightarrow> usb_link \<Rightarrow> downlink_step" where
  "uid_request now s =
     (if current_iface_mode s \<noteq> LON_IFACE_MODE_LAYER5 then Inr (s\<lparr>downlink_state := DOWNLINK_LAYER_5_REQUEST\<rparr>)
      else
        (case RequestUsbNiUid now s of
           (st, s1) \<Rightarrow>
             if st \<noteq> LonStatusNoError then Inl (st, s1)
             else Inr (s1\<lparr>uid_wait_timer := now, downlink_state := DOWNLINK_WAIT_NI_UNIQUE_ID\<rparr>)))"

definition wait_uid :: "u32 \<Rightarrow> usb_link \<Rightarrow> usb_link" where
  "wait_uid now s =
     (if have_uid s then s\<lparr>downlink_state := DOWNLINK_LAYER_2_REQUEST\<rparr>
      else if now - uid_wait_timer s > NI_UID_WAIT_TIME then
        (if wait_for_uid s then s\<lparr>downlink_state := DOWNLINK_NI_UNIQUE_ID_REQUEST\<rparr>
         else s\<lparr>downlink_state := DOWNLINK_MIP_STATUS_REQUEST\<rparr>)
      else s)"

definition status_request :: "u32 \<Rightarrow> usb_link \<Rightarrow> downlink_step" where
  "status_request now s =
     (if current_iface_mode s \<noteq> LON_IFACE_MODE_LAYER2 then Inr (s\<lparr>downlink_state := DOWNLINK_LAYER_2_REQUEST\<rparr>)
      else
        (case RequestUsbNiStatus now s of
           (st, s1) \<Rightarrow>
             if st \<noteq> LonStatusNoError then Inl (st, s1)
             else Inr (s1\<lparr>status_wait_timer := now, downlink_state := DOWNLINK_WAIT_MIP_STATUS\<rparr>)))"

definition wait_status :: "u32 \<Rightarrow> usb_link \<Rightarrow> usb_link" where
  "wait_status now s =
     (if have_status s then s\<lparr>downlink_state := DOWNLINK_IDLE_START\<rparr>
      else if now - status_wait_timer s > NI_STATUS_WAIT_TIME then
        (if wait_for_status s then s\<lparr>downlink_state := DOWNLINK_MIP_STATUS_REQUEST\<rparr>
         else s\<lparr>downlink_state := DOWNLINK_IDLE_START\<rparr>)
      else s)"

text \<open>
  The message sent when acknowledgements stay away replaces the frame in the downlink buffer,
  as the bytes of a \<open>LonDataFrame\<close>, command first; the size of the frame stays what it was.
\<close>

definition request_report :: "hal_write \<Rightarrow> u32 \<Rightarrow> usb_link \<Rightarrow> usb_link" where
  "request_report hal now s =
     (let s1 = snd (IncrementDownlinkSequence s);
          s2 = s1\<lparr>downlink_buffer := (downlink_buffer s1)
                 \<lparr>bufFrame := [dfCommand MsgReportStatus, dfLength MsgReportStatus] @ dfPdu MsgReportStatus\<rparr>\<rparr>;
          s3 = snd (WriteDownlinkMessage hal now s2);
          phase = uplink_ack_timeout_phase s3 + 1
      in s3\<lparr>uplink_ack_timeout_phase := (if phase = 0 then - 1 else phase)\<rparr>)"

definition ack_timeout :: "hal_write \<Rightarrow> u32 \<Rightarrow> usb_link \<Rightarrow> downlink_step" where
  "ack_timeout hal now s =
     (if now - uplink_ack_timer s < uplink_ack_timeout s then Inl (LonStatusNoError, s)
      else
        (let s1 = set_stats (\<lambda>t. t\<lparr>stRxAckTimeoutErrors := Increment32 (stRxAckTimeoutErrors t)\<rparr>)
                    (s\<lparr>downlink_state := DOWNLINK_IDLE\<rparr>);
             s2 = (if uplink_state s1 = UPLINK_IDLE \<and> uplink_msg_index s1 \<noteq> 0 then ResetUplinkState s1 else s1);
             s3 = s2\<lparr>uplink_ack_timeouts := uplink_ack_timeouts s2 + 1\<rparr>
         in Inr
              (if uplink_ack_timeouts s3 \<ge> 2 then
                 (if uplink_ack_timeout_phase s3 < 5 then request_report hal now s3
                  else if \<not> wait_for_uid s3 \<and> now - last_timeout s3 > STARTUP_DELAY then s3\<lparr>last_timeout := now\<rparr>
                  else s3\<lparr>uplink_ack_timeout_phase := 0\<rparr>)\<lparr>uplink_ack_timeouts := 0\<rparr>
               else s3)))"

definition idle_start :: "hal_write \<Rightarrow> u32 \<Rightarrow> usb_link \<Rightarrow> LonStatusCode \<times> usb_link" where
  "idle_start hal now s =
     (if current_iface_mode s \<noteq> LON_IFACE_MODE_LAYER2
      then ProcessNextDownlinkMessage hal now (s\<lparr>downlink_state := DOWNLINK_LAYER_2_REQUEST\<rparr>)
      else
        (case WriteDownlinkCodePacket hal NULL_FRAME_CMD 0 s of
           (st, s1) \<Rightarrow>
             if st \<noteq> LonStatusNoError then (st, s1)
             else
               (case ProcessNextDownlinkMessage hal now (s1\<lparr>usbReady := True, downlink_state := DOWNLINK_IDLE\<rparr>) of
                  (st, s2) \<Rightarrow> (st, set_stats (\<lambda>t. t\<lparr>stStartupTime := LonWatchElapsed now (stRuntime t)\<rparr>) s2))))"

definition and_next :: "hal_write \<Rightarrow> u32 \<Rightarrow> downlink_step \<Rightarrow> LonStatusCode \<times> usb_link" where
  "and_next hal now r = (case r of Inl x \<Rightarrow> x | Inr s \<Rightarrow> ProcessNextDownlinkMessage hal now s)"

definition ProcessDownlinkRequests :: "hal_write \<Rightarrow> u32 \<Rightarrow> usb_link \<Rightarrow> LonStatusCode \<times> usb_link" where
  "ProcessDownlinkRequests hal now s =
     (if usbShutdown s then (LonStatusInvalidInterfaceId, s)
      else
        (case downlink_state s of
           DOWNLINK_START \<Rightarrow> (LonStatusNoError, downlink_start now s)
         | DOWNLINK_WAIT_STARTUP_RESET \<Rightarrow> and_next hal now (wait_startup_reset hal now s)
         | DOWNLINK_WAIT_STARTUP_RESYNC_ACK \<Rightarrow> and_next hal now (wait_resync_ack hal now s)
         | DOWNLINK_WAIT_RESYNC_RESET \<Rightarrow> and_next hal now (Inr (wait_resync_reset now s))
         | DOWNLINK_LAYER_5_REQUEST \<Rightarrow>
             and_next hal now (layer_request now LON_IFACE_MODE_LAYER5 DOWNLINK_WAIT_LAYER_5_ACK s)
         | DOWNLINK_WAIT_LAYER_5_ACK \<Rightarrow> and_next hal now (Inr (wait_layer_5_ack now s))
         | DOWNLINK_NI_UNIQUE_ID_REQUEST \<Rightarrow> and_next hal now (uid_request now s)
         | DOWNLINK_WAIT_NI_UNIQUE_ID \<Rightarrow> and_next hal now (Inr (wait_uid now s))
         | DOWNLINK_LAYER_2_REQUEST \<Rightarrow>
             and_next hal now (layer_request now LON_IFACE_MODE_LAYER2 DOWNLINK_WAIT_LAYER_2_ACK s)
         | DOWNLINK_WAIT_LAYER_2_ACK \<Rightarrow> and_next hal now (Inr (wait_layer_2_ack now s))
         | DOWNLINK_MIP_STATUS_REQUEST \<Rightarrow> and_next hal now (status_request now s)
         | DOWNLINK_WAIT_MIP_STATUS \<Rightarrow> and_next hal now (Inr (wait_status now s))
         | DOWNLINK_IDLE_START \<Rightarrow> idle_start hal now s
         | DOWNLINK_IDLE \<Rightarrow> and_next hal now (Inr s)
         | DOWNLINK_WAIT_CP_RESPONSE \<Rightarrow> and_next hal now (ack_timeout hal now s)
         | DOWNLINK_WAIT_CP_ACK \<Rightarrow> and_next hal now (ack_timeout hal now s)
         | DOWNLINK_WAIT_MSG_ACK \<Rightarrow> and_next hal now (ack_timeout hal now s)
         | _ \<Rightarrow> (LonStatusNoError, s\<lparr>downlink_state := DOWNLINK_START\<rparr>)))"

definition LonUsbDownlinkSend :: "hal_write \<Rightarrow> u32 \<Rightarrow> usb_link \<Rightarrow> usb_link" where
  "LonUsbDownlinkSend hal now s = snd (ProcessDownlinkRequests hal now s)"

section \<open>What sending leaves alone\<close>

definition dl_same :: "usb_link \<Rightarrow> usb_link \<Rightarrow> bool" where
  "dl_same s t \<longleftrightarrow> wait_for_reset t = wait_for_reset s \<and> have_reset t = have_reset s \<and>
     wait_for_null t = wait_for_null s \<and> have_null t = have_null s \<and> wait_for_uid t = wait_for_uid s \<and>
     uid_retries t = uid_retries s \<and> have_uid t = have_uid s \<and> wait_for_status t = wait_for_status s \<and>
     status_retries t = status_retries s \<and> have_status t = have_status s \<and> usbReady t = usbReady s \<and>
     iface_type t = iface_type s \<and> current_iface_mode t = current_iface_mode s \<and>
     uid_wait_timer t = uid_wait_timer s \<and> usbShutdown t = usbShutdown s \<and> uplink_state t = uplink_state s"

text \<open>The states of the normal operation that sending moves between.\<close>

definition downlink_live :: "DownlinkState \<Rightarrow> bool" where
  "downlink_live d \<longleftrightarrow> d \<in> {DOWNLINK_IDLE, DOWNLINK_WAIT_CP_ACK, DOWNLINK_WAIT_MSG_ACK, DOWNLINK_WAIT_CP_RESPONSE}"

definition dl_next :: "usb_link \<Rightarrow> usb_link \<Rightarrow> bool" where
  "dl_next s t \<longleftrightarrow> dl_same s t \<and>
     (downlink_state t = downlink_state s \<or> downlink_running (downlink_state s) \<and> downlink_live (downlink_state t))"

lemma dl_same_refl [simp]: "dl_same s s" by (simp add: dl_same_def)

lemma dl_next_refl [simp]: "dl_next s s" by (simp add: dl_next_def)

lemma running_states [simp]:
  "downlink_live DOWNLINK_IDLE" "downlink_live DOWNLINK_WAIT_CP_ACK" "downlink_live DOWNLINK_WAIT_MSG_ACK"
  "downlink_live DOWNLINK_WAIT_CP_RESPONSE"
  and live_running: "downlink_live d \<Longrightarrow> downlink_running d"
  and waiting_running: "downlink_waiting d \<Longrightarrow> downlink_running d"
  by (auto simp: downlink_running_def downlink_waiting_def downlink_live_def)

lemma dl_same_trans: "dl_same s t \<Longrightarrow> dl_same t u \<Longrightarrow> dl_same s u"
  by (simp add: dl_same_def)

lemma dl_next_trans: "dl_next s t \<Longrightarrow> dl_next t u \<Longrightarrow> dl_next s u"
  unfolding dl_next_def using dl_same_trans live_running by metis

lemma dl_same_update [simp]:
  "dl_same s (t\<lparr>downlink_seq_number := n\<rparr>) = dl_same s t" "dl_same s (t\<lparr>downlink_ack_seq_number := i\<rparr>) = dl_same s t"
  "dl_same s (t\<lparr>downlink_reject_timer := v\<rparr>) = dl_same s t" "dl_same s (t\<lparr>downlink_buffer := b\<rparr>) = dl_same s t"
  "dl_same s (t\<lparr>downlink_buffer_staging := b\<rparr>) = dl_same s t" "dl_same s (t\<lparr>uplink_expected_rsp := c\<rparr>) = dl_same s t"
  "dl_same s (t\<lparr>uplink_ack_timeout_phase := i\<rparr>) = dl_same s t" "dl_same s (t\<lparr>uplink_ack_timeouts := i\<rparr>) = dl_same s t"
  "dl_same s (t\<lparr>uplink_ack_timer := v\<rparr>) = dl_same s t" "dl_same s (t\<lparr>uplink_ack_timeout := v\<rparr>) = dl_same s t"
  "dl_same s (t\<lparr>uplink_seq_number := i\<rparr>) = dl_same s t" "dl_same s (t\<lparr>usbOut := out\<rparr>) = dl_same s t"
  "dl_same s (t\<lparr>configured_iface_mode := i\<rparr>) = dl_same s t" "dl_same s (t\<lparr>usbFault := a\<rparr>) = dl_same s t"
  "dl_same s (set_stats f t) = dl_same s t" "dl_same s (set_downlink_queue p q t) = dl_same s t"
  "dl_same s (t\<lparr>downlink_state := d\<rparr>) = dl_same s t"
  by (simp_all add: dl_same_def set_stats_def set_downlink_queue_def)

lemma dl_next_update [simp]:
  "dl_next s (t\<lparr>downlink_seq_number := n\<rparr>) = dl_next s t" "dl_next s (t\<lparr>downlink_ack_seq_number := i\<rparr>) = dl_next s t"
  "dl_next s (t\<lparr>downlink_reject_timer := v\<rparr>) = dl_next s t" "dl_next s (t\<lparr>downlink_buffer := b\<rparr>) = dl_next s t"
  "dl_next s (t\<lparr>downlink_buffer_staging := b\<rparr>) = dl_next s t" "dl_next s (t\<lparr>uplink_expected_rsp := c\<rparr>) = dl_next s t"
  "dl_next s (t\<lparr>uplink_ack_timeout_phase := i\<rparr>) = dl_next s t" "dl_next s (t\<lparr>uplink_ack_timeouts := i\<rparr>) = dl_next s t"
  "dl_next s (t\<lparr>uplink_ack_timer := v\<rparr>) = dl_next s t" "dl_next s (t\<lparr>uplink_ack_timeout := v\<rparr>) = dl_next s t"
  "dl_next s (t\<lparr>uplink_seq_number := i\<rparr>) = dl_next s t" "dl_next s (t\<lparr>usbOut := out\<rparr>) = dl_next s t"
  "dl_next s (t\<lparr>configured_iface_mode := i\<rparr>) = dl_next s t" "dl_next s (t\<lparr>usbFault := a\<rparr>) = dl_next s t"
  "dl_next s (set_stats f t) = dl_next s t" "dl_next s (set_downlink_queue p q t) = dl_next s t"
  by (simp_all only: dl_next_def dl_same_update) (simp_all add: set_stats_def set_downlink_queue_def)

lemma dl_next_StopAckTimer: "dl_next s t \<Longrightarrow> dl_next s (snd (StopAckTimer t))"
  by (auto simp: StopAckTimer_def dl_next_def live_running waiting_running)

lemma dl_next_ResetDownlinkState: "dl_next s t \<Longrightarrow> dl_next s (snd (ResetDownlinkState t))"
  by (simp add: ResetDownlinkState_def dl_next_StopAckTimer)

lemma dl_next_StartAckTimer:
  "dl_next s t \<Longrightarrow> downlink_running (downlink_state t) \<Longrightarrow> downlink_live n \<Longrightarrow> dl_next s (snd (StartAckTimer now n t))"
  by (auto simp: StartAckTimer_def dl_next_def live_running)

lemma dl_next_IncrementDownlinkSequence [simp]: "dl_next s (snd (IncrementDownlinkSequence t)) = dl_next s t"
  by (simp add: IncrementDownlinkSequence_def)

lemma dl_next_WriteDownlinkCodePacket [simp]: "dl_next s (snd (WriteDownlinkCodePacket hal cmd p t)) = dl_next s t"
  by (simp add: WriteDownlinkCodePacket_def usb_write_def Let_def split_beta)

lemma dl_next_usb_write [simp]: "dl_next s (snd (snd (usb_write hal buf t))) = dl_next s t"
  by (simp add: usb_write_def split_beta)

lemma dl_next_WriteDownlinkLocalNiCmd: "dl_next s t \<Longrightarrow> dl_next s (snd (WriteDownlinkLocalNiCmd hal now t))"
proof -
  assume t: "dl_next s t"
  let ?cmd = "frame_command (downlink_buffer_staging t)"
  let ?t1 = "snd (WriteDownlinkCodePacket hal SHORT_NI_CMD_FRAME_CMD ?cmd (t\<lparr>uplink_expected_rsp := GetExpectedResponse ?cmd\<rparr>))"
  have t1: "dl_next s ?t1" using t by simp
  have "downlink_state ?t1 = downlink_state t"
    by (simp add: WriteDownlinkCodePacket_def usb_write_def Let_def split_beta)
  then have "downlink_state t \<noteq> DOWNLINK_WAIT_STARTUP_RESET" if "downlink_running (downlink_state ?t1)"
    using that by (auto simp: downlink_running_def)
  then show ?thesis
    using t t1 dl_next_StartAckTimer [OF t1] unfolding WriteDownlinkLocalNiCmd_def Let_def split_beta by auto
qed

lemma dl_next_WriteDownlinkMessage: "dl_next s t \<Longrightarrow> dl_next s (snd (WriteDownlinkMessage hal now t))"
  by (auto simp: WriteDownlinkMessage_def Let_def split_beta intro!: dl_next_StartAckTimer split: option.split)

lemma dl_next_ReadDownlinkBuffer [simp]: "dl_next s (snd (ReadDownlinkBuffer t)) = dl_next s t"
  by (simp add: ReadDownlinkBuffer_def Let_def split: option.split)

lemma dl_next_ProcessNextDownlinkMessage: "dl_next s t \<Longrightarrow> dl_next s (snd (ProcessNextDownlinkMessage hal now t))"
  by (auto simp: ProcessNextDownlinkMessage_def Let_def split_beta
      intro!: dl_next_WriteDownlinkLocalNiCmd dl_next_WriteDownlinkMessage dl_next_ResetDownlinkState)

lemma dl_next_WriteLonUsbMsg: "dl_next s t \<Longrightarrow> dl_next s (snd (WriteLonUsbMsg m t))"
  by (simp add: WriteLonUsbMsg_def QueueDownlinkBuffer_def Let_def)


section \<open>The diagram of the startup\<close>

text \<open>
  The edges between the states of the downlink. A message that waits when the startup is over
  is sent at once: it takes the link past \<open>DOWNLINK_IDLE_START\<close>, the state that sends a null packet
  and marks the link as ready.
\<close>

inductive downlink_edge :: "DownlinkState \<Rightarrow> DownlinkState \<Rightarrow> bool" where
  restart: "downlink_edge DOWNLINK_START DOWNLINK_WAIT_STARTUP_RESET"
| stay: "d \<noteq> DOWNLINK_START \<Longrightarrow> downlink_edge d d"
| resync: "downlink_edge DOWNLINK_WAIT_STARTUP_RESET DOWNLINK_WAIT_STARTUP_RESYNC_ACK"
| resynced: "downlink_edge DOWNLINK_WAIT_STARTUP_RESYNC_ACK DOWNLINK_WAIT_RESYNC_RESET"
| identify: "d \<in> {DOWNLINK_WAIT_RESYNC_RESET, DOWNLINK_WAIT_LAYER_5_ACK, DOWNLINK_WAIT_NI_UNIQUE_ID} \<Longrightarrow>
    downlink_edge d DOWNLINK_NI_UNIQUE_ID_REQUEST"
| layer_5: "downlink_edge DOWNLINK_NI_UNIQUE_ID_REQUEST DOWNLINK_LAYER_5_REQUEST"
| layer_5_asked: "downlink_edge DOWNLINK_LAYER_5_REQUEST DOWNLINK_WAIT_LAYER_5_ACK"
| asked: "downlink_edge DOWNLINK_NI_UNIQUE_ID_REQUEST DOWNLINK_WAIT_NI_UNIQUE_ID"
| layer_2: "d \<in> {DOWNLINK_WAIT_RESYNC_RESET, DOWNLINK_WAIT_NI_UNIQUE_ID, DOWNLINK_MIP_STATUS_REQUEST, DOWNLINK_IDLE_START} \<Longrightarrow>
    downlink_edge d DOWNLINK_LAYER_2_REQUEST"
| layer_2_asked: "downlink_edge DOWNLINK_LAYER_2_REQUEST DOWNLINK_WAIT_LAYER_2_ACK"
| lost: "d \<in> {DOWNLINK_WAIT_LAYER_5_ACK, DOWNLINK_WAIT_LAYER_2_ACK} \<Longrightarrow> downlink_edge d DOWNLINK_WAIT_STARTUP_RESYNC_ACK"
| status: "d \<in> {DOWNLINK_WAIT_RESYNC_RESET, DOWNLINK_WAIT_NI_UNIQUE_ID, DOWNLINK_WAIT_LAYER_2_ACK, DOWNLINK_WAIT_MIP_STATUS} \<Longrightarrow>
    downlink_edge d DOWNLINK_MIP_STATUS_REQUEST"
| status_asked: "downlink_edge DOWNLINK_MIP_STATUS_REQUEST DOWNLINK_WAIT_MIP_STATUS"
| up: "d \<in> {DOWNLINK_WAIT_RESYNC_RESET, DOWNLINK_WAIT_MIP_STATUS} \<Longrightarrow> downlink_edge d DOWNLINK_IDLE_START"
| run: "d \<in> {DOWNLINK_WAIT_RESYNC_RESET, DOWNLINK_WAIT_MIP_STATUS, DOWNLINK_IDLE_START} \<or> downlink_live d \<Longrightarrow> downlink_live d' \<Longrightarrow> downlink_edge d d'"
| invalid: "d \<in> {DOWNLINK_WAIT_L5_RESYNC_ACK, DOWNLINK_WAIT_L5_RESET, DOWNLINK_WAIT_L2_RESYNC_ACK, DOWNLINK_WAIT_L2_RESET,
      DOWNLINK_WAIT_CP_MSG_REQ_ACK, DOWNLINK_INVALID} \<Longrightarrow> downlink_edge d DOWNLINK_START"

lemma next_state:
  "downlink_state (snd (ProcessNextDownlinkMessage hal now t)) = downlink_state t \<or>
   downlink_running (downlink_state t) \<and> downlink_live (downlink_state (snd (ProcessNextDownlinkMessage hal now t)))"
  using dl_next_ProcessNextDownlinkMessage [of t t hal now] by (simp add: dl_next_def)

lemma next_same: "dl_same t (snd (ProcessNextDownlinkMessage hal now t))"
  using dl_next_ProcessNextDownlinkMessage [of t t hal now] by (simp add: dl_next_def)

lemma edge_and_next:
  assumes "downlink_edge d (downlink_state t)"
    and "downlink_running (downlink_state t) \<Longrightarrow>
      d \<in> {DOWNLINK_WAIT_RESYNC_RESET, DOWNLINK_WAIT_MIP_STATUS, DOWNLINK_IDLE_START} \<or> downlink_live d"
  shows "downlink_edge d (downlink_state (snd (and_next hal now (Inr t))))"
  using assms next_state [of hal now t] downlink_edge.run [of d] by (auto simp: and_next_def)

lemma not_running [simp]:
  "\<not> downlink_running DOWNLINK_WAIT_STARTUP_RESET" "\<not> downlink_running DOWNLINK_WAIT_STARTUP_RESYNC_ACK"
  "\<not> downlink_running DOWNLINK_WAIT_RESYNC_RESET" "\<not> downlink_running DOWNLINK_NI_UNIQUE_ID_REQUEST"
  "\<not> downlink_running DOWNLINK_LAYER_5_REQUEST" "\<not> downlink_running DOWNLINK_WAIT_LAYER_5_ACK"
  "\<not> downlink_running DOWNLINK_WAIT_NI_UNIQUE_ID" "\<not> downlink_running DOWNLINK_LAYER_2_REQUEST"
  "\<not> downlink_running DOWNLINK_WAIT_LAYER_2_ACK" "\<not> downlink_running DOWNLINK_MIP_STATUS_REQUEST"
  "\<not> downlink_running DOWNLINK_WAIT_MIP_STATUS" "\<not> downlink_running DOWNLINK_START"
  by (simp_all add: downlink_running_def)

lemma WriteLonUsbMsg_keeps:
  "dl_same t (snd (WriteLonUsbMsg m t))" "downlink_state (snd (WriteLonUsbMsg m t)) = downlink_state t"
  by (simp_all add: WriteLonUsbMsg_def QueueDownlinkBuffer_def Let_def) (simp_all add: set_downlink_queue_def)

lemma CodePacket_keeps:
  "downlink_state (snd (WriteDownlinkCodePacket hal c p t)) = downlink_state t"
  "dl_same s (snd (WriteDownlinkCodePacket hal c p t)) = dl_same s t"
  by (simp_all add: WriteDownlinkCodePacket_def usb_write_def Let_def split_beta)

lemma set_stats_state [simp]: "downlink_state (set_stats f t) = downlink_state t" by (simp add: set_stats_def)

lemma await_null_state [simp]: "downlink_state (await_null now t) = downlink_state t" by (simp add: await_null_def)

lemma SendResync_state:
  "downlink_state (snd (SendResync hal now t)) \<in> {downlink_state t, DOWNLINK_WAIT_STARTUP_RESYNC_ACK}"
  by (auto simp: SendResync_def split_beta CodePacket_keeps)

lemma request_states:
  "downlink_state (snd (RequestUsbNiUid now t)) \<in> {downlink_state t, DOWNLINK_WAIT_NI_UNIQUE_ID}"
  "downlink_state (snd (RequestUsbNiStatus now t)) \<in> {downlink_state t, DOWNLINK_WAIT_MIP_STATUS}"
  "downlink_state (snd (SetNiLayerMode mode t)) = downlink_state t"
  by (auto simp: RequestUsbNiUid_def RequestUsbNiStatus_def SetNiLayerMode_def split_beta WriteLonUsbMsg_keeps)

lemma request_errors:
  "fst (SendResync hal now t) \<noteq> LonStatusNoError \<Longrightarrow> downlink_state (snd (SendResync hal now t)) = downlink_state t"
  "fst (RequestUsbNiUid now t) \<noteq> LonStatusNoError \<Longrightarrow> downlink_state (snd (RequestUsbNiUid now t)) = downlink_state t"
  "fst (RequestUsbNiStatus now t) \<noteq> LonStatusNoError \<Longrightarrow> downlink_state (snd (RequestUsbNiStatus now t)) = downlink_state t"
  by (auto simp: SendResync_def RequestUsbNiUid_def RequestUsbNiStatus_def split_beta WriteLonUsbMsg_keeps CodePacket_keeps
      split: if_splits)

lemma and_next_Inl [simp]: "and_next hal now (Inl x) = x" by (simp add: and_next_def)

lemmas edge_intros = downlink_edge.intros

lemma ack_timeout_edge:
  assumes "downlink_live d" "downlink_state s = d"
  shows "downlink_edge d (downlink_state (snd (and_next hal now (ack_timeout hal now s))))"
proof (cases "now - uplink_ack_timer s < uplink_ack_timeout s")
  case True
  then show ?thesis using assms by (auto simp: ack_timeout_def downlink_live_def intro: edge_intros)
next
  case False
  have live: "downlink_live (downlink_state (snd (ProcessNextDownlinkMessage hal now t)))"
    if "downlink_live (downlink_state t)" for t
    using that next_state [of hal now t] by auto
  have rep: "downlink_live (downlink_state (request_report hal now t))" if "downlink_live (downlink_state t)" for t
  proof -
    define u where "u = (snd (IncrementDownlinkSequence t))\<lparr>downlink_buffer := (downlink_buffer (snd (IncrementDownlinkSequence t)))
       \<lparr>bufFrame := [dfCommand MsgReportStatus, dfLength MsgReportStatus] @ dfPdu MsgReportStatus\<rparr>\<rparr>"
    have "downlink_live (downlink_state u)" using that by (simp add: u_def IncrementDownlinkSequence_def)
    moreover have "dl_next u (snd (WriteDownlinkMessage hal now u))" by (rule dl_next_WriteDownlinkMessage) simp
    ultimately have "downlink_live (downlink_state (snd (WriteDownlinkMessage hal now u)))" by (auto simp: dl_next_def)
    then show ?thesis by (simp add: request_report_def Let_def u_def)
  qed
  have "\<exists>t. ack_timeout hal now s = Inr t \<and> downlink_live (downlink_state t)"
    using False by (simp add: ack_timeout_def Let_def rep ResetUplinkState_def)
  then show ?thesis
    using live assms by (auto simp: and_next_def intro: edge_intros)
qed

lemma startup_edge:
  assumes "\<not> usbShutdown s"
  shows "downlink_edge (downlink_state s) (downlink_state (snd (ProcessDownlinkRequests hal now s)))"
proof (cases "downlink_state s")
  case DOWNLINK_START
  then show ?thesis using assms by (simp add: ProcessDownlinkRequests_def downlink_start_def edge_intros)
next
  case st: DOWNLINK_WAIT_STARTUP_RESET
  obtain e t where r: "SendResync hal now (s\<lparr>have_reset := False\<rparr>) = (e, t)" by force
  have t: "downlink_state t \<in> {DOWNLINK_WAIT_STARTUP_RESET, DOWNLINK_WAIT_STARTUP_RESYNC_ACK}"
    using SendResync_state [of hal now "s\<lparr>have_reset := False\<rparr>"] st r by simp
  show ?thesis
  proof (cases "reset_due now s \<and> e \<noteq> LonStatusNoError")
    case True
    then show ?thesis using assms st r t by (auto simp: ProcessDownlinkRequests_def wait_startup_reset_def intro: edge_intros)
  next
    case False
    then show ?thesis
      using assms st r
      by (auto simp: ProcessDownlinkRequests_def wait_startup_reset_def intro!: edge_and_next intro: edge_intros)
  qed
next
  case st: DOWNLINK_WAIT_STARTUP_RESYNC_ACK
  obtain e t where r: "SendResync hal now s = (e, t)" by force
  have t: "downlink_state t = DOWNLINK_WAIT_STARTUP_RESYNC_ACK"
    using SendResync_state [of hal now s] st r by simp
  show ?thesis
    using assms st r t
    by (auto simp: ProcessDownlinkRequests_def wait_resync_ack_def intro!: edge_and_next intro: edge_intros)
next
  case st: DOWNLINK_WAIT_RESYNC_RESET
  show ?thesis
    using assms st
    by (auto simp: ProcessDownlinkRequests_def wait_resync_reset_def Let_def intro!: edge_and_next intro: edge_intros)
next
  case st: DOWNLINK_LAYER_5_REQUEST
  obtain e t where r: "SetNiLayerMode LON_IFACE_MODE_LAYER5 s = (e, t)" by force
  have t: "downlink_state t = DOWNLINK_LAYER_5_REQUEST" using request_states(3) [of LON_IFACE_MODE_LAYER5 s] st r by simp
  show ?thesis
    using assms st r t
    by (cases "e = LonStatusNoError")
      (auto simp: ProcessDownlinkRequests_def layer_request_def intro!: edge_and_next intro: edge_intros)
next
  case st: DOWNLINK_WAIT_LAYER_5_ACK
  show ?thesis
    using assms st
    by (auto simp: ProcessDownlinkRequests_def wait_layer_5_ack_def intro!: edge_and_next intro: edge_intros)
next
  case st: DOWNLINK_NI_UNIQUE_ID_REQUEST
  obtain e t where r: "RequestUsbNiUid now s = (e, t)" by force
  have t: "e \<noteq> LonStatusNoError \<longrightarrow> downlink_state t = DOWNLINK_NI_UNIQUE_ID_REQUEST"
    using request_errors(2) [of now s] st r by simp
  show ?thesis
    using assms st r t
    by (cases "e = LonStatusNoError")
      (auto simp: ProcessDownlinkRequests_def uid_request_def intro!: edge_and_next intro: edge_intros)
next
  case st: DOWNLINK_WAIT_NI_UNIQUE_ID
  show ?thesis
    using assms st
    by (auto simp: ProcessDownlinkRequests_def wait_uid_def intro!: edge_and_next intro: edge_intros)
next
  case st: DOWNLINK_LAYER_2_REQUEST
  obtain e t where r: "SetNiLayerMode LON_IFACE_MODE_LAYER2 s = (e, t)" by force
  have t: "downlink_state t = DOWNLINK_LAYER_2_REQUEST" using request_states(3) [of LON_IFACE_MODE_LAYER2 s] st r by simp
  show ?thesis
    using assms st r t
    by (cases "e = LonStatusNoError")
      (auto simp: ProcessDownlinkRequests_def layer_request_def intro!: edge_and_next intro: edge_intros)
next
  case st: DOWNLINK_WAIT_LAYER_2_ACK
  show ?thesis
    using assms st
    by (auto simp: ProcessDownlinkRequests_def wait_layer_2_ack_def intro!: edge_and_next intro: edge_intros)
next
  case st: DOWNLINK_MIP_STATUS_REQUEST
  obtain e t where r: "RequestUsbNiStatus now s = (e, t)" by force
  have t: "e \<noteq> LonStatusNoError \<longrightarrow> downlink_state t = DOWNLINK_MIP_STATUS_REQUEST"
    using request_errors(3) [of now s] st r by simp
  show ?thesis
    using assms st r t
    by (cases "e = LonStatusNoError")
      (auto simp: ProcessDownlinkRequests_def status_request_def intro!: edge_and_next intro: edge_intros)
next
  case st: DOWNLINK_WAIT_MIP_STATUS
  show ?thesis
    using assms st
    by (auto simp: ProcessDownlinkRequests_def wait_status_def intro!: edge_and_next intro: edge_intros)
next
  case st: DOWNLINK_IDLE_START
  define t where "t = snd (WriteDownlinkCodePacket hal NULL_FRAME_CMD 0 s)"
  have t: "downlink_state t = DOWNLINK_IDLE_START" using st by (simp add: t_def CodePacket_keeps)
  show ?thesis
    using assms st t next_state [of hal now "t\<lparr>usbReady := True, downlink_state := DOWNLINK_IDLE\<rparr>"]
      next_state [of hal now "s\<lparr>downlink_state := DOWNLINK_LAYER_2_REQUEST\<rparr>"]
    by (auto simp: ProcessDownlinkRequests_def idle_start_def split_beta t_def [symmetric] intro: edge_intros)
next
  case st: DOWNLINK_IDLE
  show ?thesis
    using assms st by (auto simp: ProcessDownlinkRequests_def intro!: edge_and_next intro: edge_intros)
next
  case st: DOWNLINK_WAIT_CP_RESPONSE
  then show ?thesis using assms ack_timeout_edge [of DOWNLINK_WAIT_CP_RESPONSE s hal now] by (simp add: ProcessDownlinkRequests_def)
next
  case st: DOWNLINK_WAIT_CP_ACK
  then show ?thesis using assms ack_timeout_edge [of DOWNLINK_WAIT_CP_ACK s hal now] by (simp add: ProcessDownlinkRequests_def)
next
  case st: DOWNLINK_WAIT_MSG_ACK
  then show ?thesis using assms ack_timeout_edge [of DOWNLINK_WAIT_MSG_ACK s hal now] by (simp add: ProcessDownlinkRequests_def)
qed (use assms in \<open>auto simp: ProcessDownlinkRequests_def intro: edge_intros\<close>)

section \<open>What the uplink changes in the startup\<close>

text \<open>
  Messages change neither the state of the downlink nor the flags that its startup waits for,
  except that the device's identifier can arrive. Code packets can also restart the downlink
  or end a wait for an acknowledgement.
\<close>

definition msg_keeps :: "usb_link \<Rightarrow> usb_link \<Rightarrow> bool" where
  "msg_keeps s t \<longleftrightarrow> iface_type t = iface_type s \<and> usbReady t = usbReady s \<and> have_null t = have_null s \<and>
     downlink_state t = downlink_state s \<and> uid_retries t = uid_retries s \<and> (have_uid s \<longrightarrow> have_uid t) \<and>
     (wait_for_uid s \<longrightarrow> wait_for_uid t \<or> have_uid t)"

definition packet_keeps :: "usb_link \<Rightarrow> usb_link \<Rightarrow> bool" where
  "packet_keeps s t \<longleftrightarrow> iface_type t = iface_type s \<and> usbReady t = usbReady s \<and>
     uid_retries t = uid_retries s \<and> (have_uid s \<longrightarrow> have_uid t) \<and> (wait_for_uid s \<longrightarrow> wait_for_uid t \<or> have_uid t) \<and>
     (downlink_state t = downlink_state s \<or> downlink_state t = DOWNLINK_START \<or>
      downlink_running (downlink_state s) \<and> downlink_live (downlink_state t))"

lemma msg_keeps_refl [simp]: "msg_keeps s s" by (simp add: msg_keeps_def)

lemma packet_keeps_refl [simp]: "packet_keeps s s" by (simp add: packet_keeps_def)

lemma msg_keeps_trans: "msg_keeps s t \<Longrightarrow> msg_keeps t u \<Longrightarrow> msg_keeps s u" by (auto simp: msg_keeps_def)

lemma packet_keeps_trans: "packet_keeps s t \<Longrightarrow> packet_keeps t u \<Longrightarrow> packet_keeps s u"
  unfolding packet_keeps_def by (metis live_running not_running(12))

lemma msg_packet: "msg_keeps s t \<Longrightarrow> packet_keeps s t" by (simp add: msg_keeps_def packet_keeps_def)

lemma msg_keeps_update [simp]:
  "msg_keeps s (t\<lparr>wait_for_status := a\<rparr>) = msg_keeps s t" "msg_keeps s (t\<lparr>have_status := a\<rparr>) = msg_keeps s t"
  "msg_keeps s (t\<lparr>current_iface_mode := m\<rparr>) = msg_keeps s t" "msg_keeps s (t\<lparr>wait_for_reset := a\<rparr>) = msg_keeps s t" "msg_keeps s (t\<lparr>have_reset := a\<rparr>) = msg_keeps s t"
  "msg_keeps s (t\<lparr>uplink_msg_length := n\<rparr>) = msg_keeps s t" "msg_keeps s (t\<lparr>uplink_msg_index := n\<rparr>) = msg_keeps s t"
  "msg_keeps s (t\<lparr>uplink_state := x\<rparr>) = msg_keeps s t" "msg_keeps s (t\<lparr>uplink_frame_error := a\<rparr>) = msg_keeps s t"
  "msg_keeps s (t\<lparr>uplink_msg_timer := v\<rparr>) = msg_keeps s t" "msg_keeps s (t\<lparr>usbFault := a\<rparr>) = msg_keeps s t"
  "msg_keeps s (t\<lparr>downlink_ack_seq_number := k\<rparr>) = msg_keeps s t" "msg_keeps s (t\<lparr>wait_for_null := a\<rparr>) = msg_keeps s t"
  "msg_keeps s (t\<lparr>uplink_duplicate := a\<rparr>) = msg_keeps s t" "msg_keeps s (t\<lparr>uplink_seq_number := k\<rparr>) = msg_keeps s t"
  "msg_keeps s (t\<lparr>downlink_reject_timer := v\<rparr>) = msg_keeps s t" "msg_keeps s (t\<lparr>downlink_buffer := b\<rparr>) = msg_keeps s t"
  "msg_keeps s (t\<lparr>uplink_expected_rsp := c\<rparr>) = msg_keeps s t" "msg_keeps s (t\<lparr>uplink_ack_timeout_phase := k\<rparr>) = msg_keeps s t"
  "msg_keeps s (t\<lparr>downlink_seq_number := n\<rparr>) = msg_keeps s t" "msg_keeps s (t\<lparr>usbOut := out\<rparr>) = msg_keeps s t"
  "msg_keeps s (t\<lparr>uplink_ring_buffer := rb\<rparr>) = msg_keeps s t"
  "msg_keeps s (set_stats f t) = msg_keeps s t" "msg_keeps s (poke_frame i w t) = msg_keeps s t" "msg_keeps s (poke_header g t) = msg_keeps s t"
  "msg_keeps s (ResetUplinkState t) = msg_keeps s t" "msg_keeps s (frame_error t) = msg_keeps s t" "msg_keeps s (store_byte w t) = msg_keeps s t"
  "msg_keeps s (set_uplink_queue p q t) = msg_keeps s t"
  by (simp_all add: msg_keeps_def)
    (simp_all add: set_stats_def poke_frame_def poke_header_def ResetUplinkState_def frame_error_def store_byte_def
      set_uplink_queue_def Let_def)

lemma msg_keeps_QueueUplinkBuffer [simp]: "msg_keeps s (snd (QueueUplinkBuffer t)) = msg_keeps s t"
  by (simp add: QueueUplinkBuffer_def Let_def)

lemma msg_keeps_ProcessUplinkMessage: "msg_keeps s t \<Longrightarrow> msg_keeps s (snd (ProcessUplinkMessage t))"
  by (simp add: ProcessUplinkMessage_def Let_def) (auto simp: msg_keeps_def)

lemma msg_keeps_complete: "msg_keeps s t \<Longrightarrow> msg_keeps s (snd (uplink_message_complete t))"
  by (simp add: uplink_message_complete_def uplink_reset_message_def Let_def msg_keeps_ProcessUplinkMessage)

lemma msg_keeps_Check: "msg_keeps s t \<Longrightarrow> msg_keeps s (snd (snd (CheckUplinkCompleted t)))"
  by (simp add: CheckUplinkCompleted_def Let_def split_beta msg_keeps_complete)

lemma msg_keeps_message_loop: "msg_keeps s t \<Longrightarrow> msg_keeps s (fst (snd (snd (message_loop t chunk))))"
proof (induction t chunk rule: message_loop.induct)
  case (2 t b rest)
  obtain st c t1 where t1: "CheckUplinkCompleted (store_byte b t) = (st, c, t1)" by (metis prod_cases3)
  have "msg_keeps s t1" using 2(2) msg_keeps_Check [of s "store_byte b t"] t1 by simp
  then show ?case using 2 by (simp add: Let_def t1)
qed simp

lemma msg_keeps_bytes [simp]:
  "msg_keeps s (idle_byte b t) = msg_keeps s t" "msg_keeps s (frame_code_byte b t) = msg_keeps s t"
  "msg_keeps s (message_timeout now t) = msg_keeps s t"
  by (simp_all add: idle_byte_def frame_code_byte_def message_timeout_def)

lemma msg_keeps_escaped_byte: "msg_keeps s t \<Longrightarrow> msg_keeps s (snd (escaped_byte b t))"
  by (simp add: escaped_byte_def Let_def split_beta msg_keeps_Check)

lemma packet_keeps_eq:
  assumes "downlink_state u = downlink_state t" "iface_type u = iface_type t" "usbReady u = usbReady t"
    "uid_retries u = uid_retries t" "have_uid u = have_uid t" "wait_for_uid u = wait_for_uid t"
  shows "packet_keeps s u = packet_keeps s t"
  using assms by (simp add: packet_keeps_def)

lemma packet_keeps_update [simp]:
  "packet_keeps s (t\<lparr>wait_for_status := a\<rparr>) = packet_keeps s t" "packet_keeps s (t\<lparr>have_status := a\<rparr>) = packet_keeps s t"
  "packet_keeps s (t\<lparr>current_iface_mode := m\<rparr>) = packet_keeps s t" "packet_keeps s (t\<lparr>wait_for_reset := a\<rparr>) = packet_keeps s t" "packet_keeps s (t\<lparr>have_reset := a\<rparr>) = packet_keeps s t"
  "packet_keeps s (t\<lparr>uplink_msg_length := n\<rparr>) = packet_keeps s t" "packet_keeps s (t\<lparr>uplink_msg_index := n\<rparr>) = packet_keeps s t"
  "packet_keeps s (t\<lparr>uplink_state := x\<rparr>) = packet_keeps s t" "packet_keeps s (t\<lparr>uplink_frame_error := a\<rparr>) = packet_keeps s t"
  "packet_keeps s (t\<lparr>uplink_msg_timer := v\<rparr>) = packet_keeps s t" "packet_keeps s (t\<lparr>usbFault := a\<rparr>) = packet_keeps s t"
  "packet_keeps s (t\<lparr>downlink_ack_seq_number := k\<rparr>) = packet_keeps s t" "packet_keeps s (t\<lparr>wait_for_null := a\<rparr>) = packet_keeps s t"
  "packet_keeps s (t\<lparr>uplink_duplicate := a\<rparr>) = packet_keeps s t" "packet_keeps s (t\<lparr>uplink_seq_number := k\<rparr>) = packet_keeps s t"
  "packet_keeps s (t\<lparr>downlink_reject_timer := v\<rparr>) = packet_keeps s t" "packet_keeps s (t\<lparr>downlink_buffer := b\<rparr>) = packet_keeps s t"
  "packet_keeps s (t\<lparr>uplink_expected_rsp := c\<rparr>) = packet_keeps s t" "packet_keeps s (t\<lparr>uplink_ack_timeout_phase := k\<rparr>) = packet_keeps s t"
  "packet_keeps s (t\<lparr>downlink_seq_number := n\<rparr>) = packet_keeps s t" "packet_keeps s (t\<lparr>usbOut := out\<rparr>) = packet_keeps s t"
  "packet_keeps s (t\<lparr>uplink_ring_buffer := rb\<rparr>) = packet_keeps s t"
  "packet_keeps s (set_stats f t) = packet_keeps s t" "packet_keeps s (poke_frame i w t) = packet_keeps s t" "packet_keeps s (poke_header g t) = packet_keeps s t"
  "packet_keeps s (ResetUplinkState t) = packet_keeps s t" "packet_keeps s (frame_error t) = packet_keeps s t" "packet_keeps s (store_byte w t) = packet_keeps s t"
  "packet_keeps s (set_uplink_queue p q t) = packet_keeps s t"
  "packet_keeps s (t\<lparr>have_null := a\<rparr>) = packet_keeps s t"
  by (rule packet_keeps_eq; simp add: set_stats_def poke_frame_def poke_header_def ResetUplinkState_def frame_error_def
      store_byte_def set_uplink_queue_def Let_def)+

lemma packet_keeps_START: "packet_keeps s t \<Longrightarrow> packet_keeps s (t\<lparr>downlink_state := DOWNLINK_START\<rparr>)"
  by (simp add: packet_keeps_def)

lemma packet_keeps_StopAckTimer: "packet_keeps s t \<Longrightarrow> packet_keeps s (snd (StopAckTimer t))"
proof -
  assume "packet_keeps s t"
  moreover have "packet_keeps t (snd (StopAckTimer t))"
    by (auto simp: StopAckTimer_def packet_keeps_def waiting_running)
  ultimately show ?thesis by (rule packet_keeps_trans)
qed

lemma packet_keeps_ResetDownlinkState: "packet_keeps s t \<Longrightarrow> packet_keeps s (snd (ResetDownlinkState t))"
  by (simp add: ResetDownlinkState_def packet_keeps_StopAckTimer)

lemma packet_keeps_Increment [simp]: "packet_keeps s (snd (IncrementDownlinkSequence t)) = packet_keeps s t"
  by (simp add: IncrementDownlinkSequence_def)

lemma packet_keeps_Clear: "packet_keeps s t \<Longrightarrow> packet_keeps s (snd (ClearUplinkTransaction t))"
  by (simp add: ClearUplinkTransaction_def split_beta packet_keeps_StopAckTimer packet_keeps_ResetDownlinkState)

lemma packet_keeps_CodePacket [simp]: "packet_keeps s (snd (WriteDownlinkCodePacket hal c p t)) = packet_keeps s t"
  by (simp add: WriteDownlinkCodePacket_def usb_write_def Let_def split_beta)

lemma packet_keeps_reject: "packet_keeps s t \<Longrightarrow> packet_keeps s (snd (message_reject hal now t))"
  by (simp add: message_reject_def Let_def split_beta packet_keeps_StopAckTimer)

lemma packet_keeps_message: "packet_keeps s t \<Longrightarrow> packet_keeps s (snd (ProcessUplinkMessage t))"
  using msg_keeps_ProcessUplinkMessage [of t t] by (auto intro: packet_keeps_trans msg_packet)

lemma packet_keeps_short: "packet_keeps s t \<Longrightarrow> packet_keeps s (snd (short_command p t))"
  by (simp add: short_command_def Let_def split_beta packet_keeps_message packet_keeps_START)

lemma packet_keeps_note [simp]: "packet_keeps s (note_sequence c n f t) = packet_keeps s t"
  by (simp add: note_sequence_def Let_def)

lemma packet_keeps_packet: "packet_keeps s t \<Longrightarrow> packet_keeps s (snd (ProcessUplinkCodePacket hal now t))"
  by (simp add: ProcessUplinkCodePacket_def Let_def packet_keeps_Clear packet_keeps_short packet_keeps_reject
      packet_keeps_StopAckTimer)

lemma packet_keeps_checksum: "packet_keeps s t \<Longrightarrow> packet_keeps s (snd (checksum_byte hal now b t))"
  by (simp add: checksum_byte_def ValidateChecksum_def Let_def split_beta packet_keeps_packet)

lemma packet_keeps_round:
  "packet_keeps s t \<Longrightarrow> packet_keeps s (fst (snd (snd (uplink_round hal now t chunk))))"
  using msg_packet [OF msg_keeps_message_loop [OF msg_keeps_refl [of t], of chunk]]
    msg_packet [OF msg_keeps_escaped_byte [OF msg_keeps_refl [of t], of "hd chunk"]]
    msg_packet [of t "idle_byte (hd chunk) t"] msg_packet [of t "frame_code_byte (hd chunk) t"]
    msg_packet [of t "message_timeout now t"]
  by (auto simp: uplink_round_def Let_def split_beta message_timeout_def packet_keeps_checksum
      intro: packet_keeps_trans split: UplinkState.split)

end
