(* ===== verification/Lon_Usb_Ready.thy ===== *)
theory Lon_Usb_Ready
  imports Lon_Usb_Startup
begin

text \<open>
  \<^verbatim>\<open>lon_usb/lon_usb_link.c\<close>: what holds of a link whatever its device does. The calls of the stack are a
  step relation; the locale \<open>link_invariant\<close> reduces an invariant of all reachable states to the rounds
  of the uplink parser, the two downlink calls and a few updates. Its interpretations show that a
  MIP/U61 interface is never ready, and that a running link was identified. The last section shows
  that a link whose device answers comes up.
\<close>

section \<open>The link as a transition system\<close>

text \<open>
  What the stack does with an open link: it lets the downlink work, writes a message, or reads
  one, at any time and with any answer of the device. The states that can be reached satisfy
  every invariant of these calls.
\<close>

inductive usb_step :: "usb_link \<Rightarrow> usb_link \<Rightarrow> bool" where
  sends: "usb_step s (snd (ProcessDownlinkRequests hal now s))"
| writes: "usb_step s (snd (WriteLonUsbMsg m s))"
| reads: "ReadLonUsbMsg hal now usb_fd got s = Some (st, m, s') \<Longrightarrow> usb_step s s'"

inductive usb_reach :: "usb_link \<Rightarrow> usb_link \<Rightarrow> bool" where
  here: "usb_reach s s"
| there: "usb_reach s t \<Longrightarrow> usb_step t u \<Longrightarrow> usb_reach s u"

locale link_invariant =
  fixes I :: "usb_link \<Rightarrow> bool"
  assumes state: "I t \<Longrightarrow> uplink_state t \<noteq> UPLINK_INVALID"
    and round: "I t \<Longrightarrow> chunk \<noteq> [] \<Longrightarrow> I (fst (snd (snd (uplink_round hal now t chunk))))"
    and ring: "I t \<Longrightarrow> I (t\<lparr>uplink_ring_buffer := rb\<rparr>)"
    and stats: "I t \<Longrightarrow> I (set_stats f t)"
    and queue: "I t \<Longrightarrow> I (set_uplink_queue p q t)"
    and writing: "I t \<Longrightarrow> I (snd (WriteLonUsbMsg m t))"
    and requests: "I t \<Longrightarrow> I (snd (ProcessDownlinkRequests hal now t))"
begin

lemma bytes:
  assumes "I t" "ProcessUplinkBytes hal now chunk t = Some (st, u)"
  shows "I u"
proof (cases "usbShutdown t")
  case False
  then have "uplink_loop hal now t chunk = Some (st, u)" using assms(2) by (simp add: ProcessUplinkBytes_def)
  then show ?thesis
    using uplink_loop_returns [of I t chunk UNIV hal now] assms(1) state round by auto
qed (use assms in \<open>simp add: ProcessUplinkBytes_def\<close>)

lemma drain:
  assumes "drain_ring hal now processed t = Some u"
  shows "I t \<longrightarrow> I u"
proof (rule drain_ring.raw_induct [OF _ assms, of "\<lambda>_ _ _ t u. I t \<longrightarrow> I u"], rule impI)
  fix drain hal now processed t u
  assume ih: "\<And>hal now processed t u. drain hal now processed t = Some u \<Longrightarrow> I t \<longrightarrow> I u"
    and eq: "(if RingBufferSize (uplink_ring_buffer t) = 0 then Some t
      else (case RingBufferRead (uplink_ring_buffer t) MAX_BYTES_PER_USB_PARSE_CHUNK of
           None \<Rightarrow> None
         | Some (chunk, rb) \<Rightarrow>
             if chunk = [] then Some (t\<lparr>uplink_ring_buffer := rb\<rparr>)
             else
               (case ProcessUplinkBytes hal now chunk (t\<lparr>uplink_ring_buffer := rb\<rparr>) of
                  None \<Rightarrow> None
                | Some (_, s1) \<Rightarrow>
                    let s2 = set_stats (\<lambda>t. t\<lparr>stBytesRead := stBytesRead t + length chunk\<rparr>) s1
                    in if GetUplinkBufferCount s2 > 0 \<or>
                          processed + length chunk > MAX_BYTES_PER_USB_PARSE_WINDOW then Some s2
                       else drain hal now (processed + length chunk) s2))) = Some u"
    and inv: "I t"
  show "I u"
  proof (cases "RingBufferSize (uplink_ring_buffer t) = 0")
    case False
    then obtain chunk rb where rb: "RingBufferRead (uplink_ring_buffer t) MAX_BYTES_PER_USB_PARSE_CHUNK = Some (chunk, rb)"
      using eq by (auto split: option.splits)
    show ?thesis
    proof (cases "chunk = []")
      case True
      then show ?thesis using eq inv False rb ring by auto
    next
      case c: False
      then obtain st t1 where t1: "ProcessUplinkBytes hal now chunk (t\<lparr>uplink_ring_buffer := rb\<rparr>) = Some (st, t1)"
        using eq False rb c by (auto split: option.splits)
      then have "I (set_stats (\<lambda>t. t\<lparr>stBytesRead := stBytesRead t + length chunk\<rparr>) t1)"
        using bytes ring inv stats by blast
      then show ?thesis
        using ih eq False rb c t1 by (auto simp: Let_def split: if_splits)
    qed
  qed (use eq inv in simp)
qed

lemma feed:
  assumes "I t" "feed_ring usb_fd got t = Some (st, u)" shows "I u"
  using assms ring stats by (auto simp: feed_ring_def split: if_splits prod.splits option.splits)

lemma read:
  assumes "I t" "ReadLonUsbMsg hal now usb_fd got t = Some (st, m, u)"
  shows "I u"
proof -
  have rb: "I (snd (snd (ReadUplinkBuffer v)))" if "I v" for v
    using that queue by (simp add: ReadUplinkBuffer_def Let_def split: option.split)
  show ?thesis
  proof (cases "usbShutdown t")
    case False
    then obtain st1 t1 where t1: "feed_ring usb_fd got t = Some (st1, t1)"
      using assms(2) by (auto simp: ReadLonUsbMsg_def split: option.splits)
    show ?thesis
    proof (cases "st1 = LonStatusNoError")
      case True
      let ?d = "if RingBufferSize (uplink_ring_buffer t1) > 0 \<and> GetUplinkBufferCount t1 < MAX_LON_UPLINK_BUFFERS
          then drain_ring hal now 0 t1 else Some t1"
      obtain t2 where t2: "?d = Some t2" using assms(2) False t1 True by (auto simp: ReadLonUsbMsg_def split: option.splits)
      have "I t2" using t2 drain feed [OF assms(1) t1] by (auto split: if_splits)
      moreover have "u = snd (snd (ReadUplinkBuffer t2))"
        using assms(2) False t1 True t2 unfolding ReadLonUsbMsg_def
        by (auto simp: split_beta split: if_splits option.splits)
      ultimately show ?thesis using rb by simp
    qed (use assms False t1 feed in \<open>auto simp: ReadLonUsbMsg_def\<close>)
  qed (use assms in \<open>simp add: ReadLonUsbMsg_def\<close>)
qed

lemma step: "usb_step t u \<Longrightarrow> I t \<Longrightarrow> I u"
  by (induction rule: usb_step.induct) (auto intro: requests writing read)

lemma reach: "usb_reach t u \<Longrightarrow> I t \<Longrightarrow> I u"
  by (induction rule: usb_reach.induct) (auto intro: step)

end


subsection \<open>A MIP/U61 interface is never ready\<close>

lemma dl_same_Flush [simp]: "dl_same s (FlushDownlinkQueue p t) = dl_same s t"
  by (simp add: FlushDownlinkQueue_def Let_def)

lemma StartLonUsbLink_keeps:
  assumes "\<not> usbShutdown s"
  shows "fst (StartLonUsbLink now mode s) = LonStatusNoError"
    "iface_type (snd (StartLonUsbLink now mode s)) = iface_type s" "have_null (snd (StartLonUsbLink now mode s)) = have_null s"
    "usbReady (snd (StartLonUsbLink now mode s)) = usbReady s" "have_uid (snd (StartLonUsbLink now mode s)) = have_uid s"
    "uid_retries (snd (StartLonUsbLink now mode s)) = uid_retries s"
    "wait_for_uid (snd (StartLonUsbLink now mode s)) = wait_for_uid s"
    "uplink_state (snd (StartLonUsbLink now mode s)) = UPLINK_IDLE"
    "downlink_state (snd (StartLonUsbLink now mode s)) = DOWNLINK_START"
    "usbShutdown (snd (StartLonUsbLink now mode s)) = False"
proof -
  obtain st t where t: "ResetDownlinkState (FlushDownlinkQueue NORMAL_PRIORITY s) = (st, t)" by force
  have "dl_same s t"
    using dl_next_ResetDownlinkState [of "FlushDownlinkQueue NORMAL_PRIORITY s" "FlushDownlinkQueue NORMAL_PRIORITY s"] t
      dl_same_trans [of s "FlushDownlinkQueue NORMAL_PRIORITY s" t] by (simp add: dl_next_def)
  moreover have "\<not> usbShutdown (FlushDownlinkQueue NORMAL_PRIORITY s)"
    using assms dl_same_Flush [of s NORMAL_PRIORITY s] by (simp add: dl_same_def)
  then have "st = LonStatusNoError" using t by (auto simp: ResetDownlinkState_def StopAckTimer_def)
  ultimately show "fst (StartLonUsbLink now mode s) = LonStatusNoError"
    "iface_type (snd (StartLonUsbLink now mode s)) = iface_type s" "have_null (snd (StartLonUsbLink now mode s)) = have_null s"
    "usbReady (snd (StartLonUsbLink now mode s)) = usbReady s" "have_uid (snd (StartLonUsbLink now mode s)) = have_uid s"
    "uid_retries (snd (StartLonUsbLink now mode s)) = uid_retries s"
    "wait_for_uid (snd (StartLonUsbLink now mode s)) = wait_for_uid s"
    "uplink_state (snd (StartLonUsbLink now mode s)) = UPLINK_IDLE"
    "downlink_state (snd (StartLonUsbLink now mode s)) = DOWNLINK_START"
    "usbShutdown (snd (StartLonUsbLink now mode s)) = False"
    by (simp_all add: StartLonUsbLink_def t dl_same_def ResetUplinkState_def)
qed

text \<open>
  A null packet ends the resynchronisation, but only the code packets of a MIP/U50 carry one,
  and only they are asked for: a link to a MIP/U61 waits for it for ever.
\<close>

definition u61_stuck :: "usb_link \<Rightarrow> bool" where
  "u61_stuck s \<longleftrightarrow> iface_type s = LON_USB_INTERFACE_U61 \<and> \<not> have_null s \<and> \<not> usbReady s \<and>
     uplink_state s \<notin> {UPLINK_INVALID, UPLINK_FRAME_PARAMETER, UPLINK_CODE_PACKET_CHECKSUM} \<and>
     downlink_state s \<in> {DOWNLINK_START, DOWNLINK_WAIT_STARTUP_RESET, DOWNLINK_WAIT_STARTUP_RESYNC_ACK}"

lemma u61_stuck_msg:
  assumes "u61_stuck s" "msg_keeps s t" "uplink_state t \<notin> {UPLINK_INVALID, UPLINK_FRAME_PARAMETER, UPLINK_CODE_PACKET_CHECKSUM}"
  shows "u61_stuck t"
  using assms by (simp add: u61_stuck_def msg_keeps_def)

lemma message_loop_state:
  "uplink_state s = UPLINK_MESSAGE \<Longrightarrow>
   uplink_state (fst (snd (snd (message_loop s chunk)))) \<in> {UPLINK_IDLE, UPLINK_MESSAGE, UPLINK_ESCAPED_DATA}"
proof (induction s chunk rule: message_loop.induct)
  case (2 s b rest)
  obtain st c s2 where c: "CheckUplinkCompleted (store_byte b s) = (st, c, s2)" by (metis prod_cases3)
  have "uplink_state s2 = (if c then UPLINK_IDLE else UPLINK_MESSAGE)"
    using CheckUplinkCompleted_state(1) [of "store_byte b s"] c 2(2) by simp
  then show ?case using 2 by (auto simp: Let_def c)
qed simp

lemma message_timeout_state:
  "uplink_state (message_timeout now s) \<in> {uplink_state s, UPLINK_IDLE}"
  by (simp add: message_timeout_def ResetUplinkState_def)

lemma u61_round:
  assumes "u61_stuck t" "chunk \<noteq> []"
  shows "u61_stuck (fst (snd (snd (uplink_round hal now t chunk))))"
proof -
  have ty: "iface_type t = LON_USB_INTERFACE_U61" using assms(1) by (simp add: u61_stuck_def)
  show ?thesis
  proof (cases "uplink_state t")
    case UPLINK_IDLE
    then show ?thesis
      using assms u61_stuck_msg [OF assms(1), of "idle_byte (hd chunk) t"]
      by (auto simp: uplink_round_def Let_def idle_byte_state)
  next
    case UPLINK_FRAME_CODE
    then show ?thesis
      using assms ty u61_stuck_msg [OF assms(1)] by (auto simp: uplink_round_def Let_def)
  next
    case UPLINK_MESSAGE
    let ?u = "fst (snd (snd (message_loop t chunk)))"
    have "u61_stuck ?u"
      by (rule u61_stuck_msg [OF assms(1) msg_keeps_message_loop [OF msg_keeps_refl]])
        (use message_loop_state [OF UPLINK_MESSAGE, of chunk] in auto)
    moreover have "u61_stuck (message_timeout now ?u)"
      using u61_stuck_msg [OF calculation, of "message_timeout now ?u"] calculation message_timeout_state [of now ?u]
      by (auto simp: u61_stuck_def)
    ultimately show ?thesis using UPLINK_MESSAGE by (simp add: uplink_round_def Let_def split_beta)
  next
    case UPLINK_ESCAPED_DATA
    then show ?thesis
      using u61_stuck_msg [OF assms(1) msg_keeps_escaped_byte [OF msg_keeps_refl]] escaped_byte_state [of "hd chunk" t]
      by (auto simp: uplink_round_def Let_def split_beta)
  qed (use assms in \<open>auto simp: u61_stuck_def\<close>)
qed

lemma u61_next:
  assumes "u61_stuck t" shows "u61_stuck (snd (ProcessNextDownlinkMessage hal now t))"
proof -
  have "\<not> downlink_running (downlink_state t)" using assms not_running by (auto simp: u61_stuck_def)
  then have "downlink_state (snd (ProcessNextDownlinkMessage hal now t)) = downlink_state t"
    using next_state [of hal now t] by blast
  then show ?thesis using assms next_same [of t hal now] by (simp add: u61_stuck_def dl_same_def)
qed

lemma u61_requests:
  assumes "u61_stuck t" shows "u61_stuck (snd (ProcessDownlinkRequests hal now t))"
proof (cases "usbShutdown t")
  case False
  have sr: "SendResync hal now u = (LonStatusNoError, u)" if "\<not> usbShutdown u" "iface_type u = LON_USB_INTERFACE_U61" for u
    using that by (simp add: SendResync_def)
  have start: "u61_stuck (downlink_start now t)"
    using assms StartLonUsbLink_keeps [OF False, of now "configured_iface_mode t"]
    by (simp add: downlink_start_def u61_stuck_def)
  consider "downlink_state t = DOWNLINK_START" | "downlink_state t = DOWNLINK_WAIT_STARTUP_RESET"
    | "downlink_state t = DOWNLINK_WAIT_STARTUP_RESYNC_ACK" using assms by (auto simp: u61_stuck_def)
  then show ?thesis
  proof cases
    case 1
    then show ?thesis using start False by (simp add: ProcessDownlinkRequests_def)
  next
    case 2
    have ty: "iface_type t = LON_USB_INTERFACE_U61" using assms by (simp add: u61_stuck_def)
    have "u61_stuck ((await_null now (t\<lparr>have_reset := False\<rparr>))\<lparr>downlink_state := DOWNLINK_WAIT_STARTUP_RESYNC_ACK\<rparr>)"
      using assms by (simp add: u61_stuck_def await_null_def)
    from u61_next [OF this] u61_next [OF assms] show ?thesis
      using 2 False ty by (simp add: ProcessDownlinkRequests_def wait_startup_reset_def sr and_next_def)
  next
    case 3
    have ty: "iface_type t = LON_USB_INTERFACE_U61" "\<not> have_null t" using assms by (simp_all add: u61_stuck_def)
    have "u61_stuck (await_null now t)" using assms by (simp add: u61_stuck_def await_null_def)
    from u61_next [OF this] u61_next [OF assms] show ?thesis
      using 3 False ty by (simp add: ProcessDownlinkRequests_def wait_resync_ack_def sr and_next_def)
  qed
qed (use assms in \<open>simp add: ProcessDownlinkRequests_def\<close>)

interpretation u61: link_invariant u61_stuck
proof
  fix t f p q m hal now rb chunk
  assume t: "u61_stuck t"
  then show "uplink_state t \<noteq> UPLINK_INVALID" "u61_stuck (t\<lparr>uplink_ring_buffer := rb\<rparr>)"
    by (simp_all add: u61_stuck_def)
  show "u61_stuck (set_stats f t)" using t by (simp add: u61_stuck_def set_stats_def)
  show "u61_stuck (set_uplink_queue p q t)" using t by (simp add: u61_stuck_def set_uplink_queue_def)
  show "u61_stuck (snd (WriteLonUsbMsg m t))"
    using t WriteLonUsbMsg_keeps [where m = m and t = t] by (simp add: u61_stuck_def dl_same_def)
  show "u61_stuck (snd (ProcessDownlinkRequests hal now t))" using t by (rule u61_requests)
  show "u61_stuck (fst (snd (snd (uplink_round hal now t chunk))))" if "chunk \<noteq> []" using t that by (rule u61_round)
qed

lemma init_queues_null: "have_null (snd (init_queues mem s)) = have_null s"
  by (simp add: init_queues_def Let_def split_beta)

lemma InitIfaceStates_null: "\<not> have_null (snd (InitIfaceStates mem s))"
  using init_queues_null [of mem "init_fields s"]
  by (simp add: InitIfaceStates_def split_beta) (simp add: init_fields_def)

lemma OpenLonUsbLink_ok:
  assumes "OpenLonUsbLink mem hal_open now ty (False, s) = (LonStatusNoError, opened, t)"
  shows "\<exists>u. \<not> usbShutdown u \<and> iface_type u = ty \<and> \<not> usbReady u \<and> \<not> have_null u \<and>
    t = snd (StartLonUsbLink now LON_IFACE_MODE_LAYER2 u)"
proof -
  obtain st s1 where i: "InitIfaceStates mem s = (st, s1)" by force
  let ?u = "(set_stats (\<lambda>t. t\<lparr>stRuntime := StartLonWatch now (stRuntime t)\<rparr>) (s1\<lparr>usbReady := False, iface_type := ty\<rparr>))
     \<lparr>usbShutdown := False\<rparr>"
  have u: "\<not> usbShutdown ?u" "iface_type ?u = ty" "\<not> usbReady ?u" "\<not> have_null ?u"
    using InitIfaceStates_null [of mem s] i by (simp_all add: set_stats_def)
  have "t = snd (StartLonUsbLink now LON_IFACE_MODE_LAYER2 ?u)"
    using assms i StartLonUsbLink_keeps(1) [OF u(1), of now LON_IFACE_MODE_LAYER2]
    by (auto simp: OpenLonUsbLink_def Let_def split_beta split: if_splits)
  then show ?thesis using u by blast
qed

lemma u61_open:
  assumes "OpenLonUsbLink mem hal_open now LON_USB_INTERFACE_U61 (False, s) = (LonStatusNoError, opened, t)"
  shows "u61_stuck t"
proof -
  obtain u where u: "\<not> usbShutdown u" "iface_type u = LON_USB_INTERFACE_U61" "\<not> usbReady u" "\<not> have_null u"
    "t = snd (StartLonUsbLink now LON_IFACE_MODE_LAYER2 u)" using OpenLonUsbLink_ok [OF assms] by blast
  show ?thesis
    using u StartLonUsbLink_keeps [OF u(1), of now LON_IFACE_MODE_LAYER2] by (simp add: u61_stuck_def)
qed

lemma u61_never_ready:
  assumes "OpenLonUsbLink mem hal_open now LON_USB_INTERFACE_U61 (False, s) = (LonStatusNoError, opened, t)" "usb_reach t u"
  shows "\<not> usbReady u"
proof -
  have "u61_stuck u" by (rule u61.reach [OF assms(2) u61_open [OF assms(1)]])
  then show ?thesis by (simp add: u61_stuck_def)
qed

text \<open>
  A link to a MIP/U61 interface never becomes ready, whatever its device sends and however
  often the stack calls it: the startup waits for a null packet, which is asked for in a code
  packet that is only sent to a MIP/U50, and which the parser only accepts from one.
\<close>
theorem u61_link_is_never_ready:
  assumes "OpenLonUsbLink mem hal_open now LON_USB_INTERFACE_U61 (False, s) = (LonStatusNoError, opened, t)" "usb_reach t u"
  shows "\<not> LonUsbLinkReady u"
  unfolding LonUsbLinkReady_def by (rule u61_never_ready [OF assms])

subsection \<open>A running link was identified\<close>

text \<open>
  When the identifier was not received, all the requests for it were made: the only way past the
  identification without it is that no request is left.
\<close>

definition uid_settled :: "usb_link \<Rightarrow> bool" where
  "uid_settled s \<longleftrightarrow> have_uid s \<or> uid_retries s \<le> 0"

definition past_identification :: "DownlinkState \<Rightarrow> bool" where
  "past_identification d \<longleftrightarrow> d \<in> {DOWNLINK_LAYER_2_REQUEST, DOWNLINK_WAIT_LAYER_2_ACK, DOWNLINK_MIP_STATUS_REQUEST,
     DOWNLINK_WAIT_MIP_STATUS} \<or> downlink_running d"

definition identified :: "usb_link \<Rightarrow> bool" where
  "identified s \<longleftrightarrow> uplink_state s \<noteq> UPLINK_INVALID \<and>
     (downlink_state s = DOWNLINK_WAIT_NI_UNIQUE_ID \<longrightarrow> wait_for_uid s \<or> uid_settled s) \<and>
     (past_identification (downlink_state s) \<longrightarrow> uid_settled s)"

lemma past_states [simp]:
  "past_identification DOWNLINK_LAYER_2_REQUEST" "past_identification DOWNLINK_WAIT_LAYER_2_ACK"
  "past_identification DOWNLINK_MIP_STATUS_REQUEST" "past_identification DOWNLINK_WAIT_MIP_STATUS"
  "past_identification DOWNLINK_IDLE_START" "past_identification DOWNLINK_IDLE"
  "\<not> past_identification DOWNLINK_START" "\<not> past_identification DOWNLINK_WAIT_STARTUP_RESET"
  "\<not> past_identification DOWNLINK_WAIT_STARTUP_RESYNC_ACK" "\<not> past_identification DOWNLINK_WAIT_RESYNC_RESET"
  "\<not> past_identification DOWNLINK_NI_UNIQUE_ID_REQUEST" "\<not> past_identification DOWNLINK_LAYER_5_REQUEST"
  "\<not> past_identification DOWNLINK_WAIT_LAYER_5_ACK" "\<not> past_identification DOWNLINK_WAIT_NI_UNIQUE_ID"
  by (simp_all add: past_identification_def downlink_running_def)

lemma running_past: "downlink_running d \<Longrightarrow> past_identification d" by (simp add: past_identification_def)

lemma identified_packet:
  assumes "identified s" "packet_keeps s t" "uplink_state t \<noteq> UPLINK_INVALID"
  shows "identified t"
proof -
  have settled: "uid_settled s \<Longrightarrow> uid_settled t" using assms(2) by (auto simp: uid_settled_def packet_keeps_def)
  consider "downlink_state t = downlink_state s" | "downlink_state t = DOWNLINK_START"
    | "downlink_running (downlink_state s)" "downlink_live (downlink_state t)"
    using assms(2) by (auto simp: packet_keeps_def)
  then show ?thesis
  proof cases
    case 1
    then show ?thesis using assms settled by (auto simp: identified_def packet_keeps_def uid_settled_def)
  next
    case 2
    then show ?thesis using assms(3) by (simp add: identified_def)
  next
    case 3
    then have "uid_settled t" using settled assms(1) running_past by (simp add: identified_def)
    then show ?thesis using assms(3) by (simp add: identified_def)
  qed
qed

lemma identified_same:
  assumes "identified s" "dl_same s t" "downlink_state t = downlink_state s \<or>
    downlink_running (downlink_state s) \<and> downlink_live (downlink_state t)"
  shows "identified t"
proof (rule identified_packet [OF assms(1)])
  show "packet_keeps s t" using assms(2,3) by (auto simp: packet_keeps_def dl_same_def)
  show "uplink_state t \<noteq> UPLINK_INVALID" using assms(1,2) by (simp add: identified_def dl_same_def)
qed

lemma identified_next: "identified t \<Longrightarrow> identified (snd (ProcessNextDownlinkMessage hal now t))"
  using identified_same [OF _ next_same next_state] .

lemma identified_and_next:
  assumes "\<And>st t. r = Inl (st, t) \<Longrightarrow> identified t" "\<And>t. r = Inr t \<Longrightarrow> identified t"
  shows "identified (snd (and_next hal now r))"
  using assms identified_next by (cases r) (auto simp: and_next_def)

definition uid_same :: "usb_link \<Rightarrow> usb_link \<Rightarrow> bool" where
  "uid_same s t \<longleftrightarrow> have_uid t = have_uid s \<and> uid_retries t = uid_retries s \<and> wait_for_uid t = wait_for_uid s \<and>
     (uplink_state s \<noteq> UPLINK_INVALID \<longrightarrow> uplink_state t \<noteq> UPLINK_INVALID)"

lemma uid_same_trans: "uid_same s t \<Longrightarrow> uid_same t u \<Longrightarrow> uid_same s u" by (simp add: uid_same_def)

lemma uid_same_dl: "dl_same s t \<Longrightarrow> uid_same s t" by (simp add: uid_same_def dl_same_def)

lemma identified_state:
  assumes "identified s" "uid_same s t" "past_identification (downlink_state s) \<or> \<not> past_identification (downlink_state t)"
    "downlink_state t \<noteq> DOWNLINK_WAIT_NI_UNIQUE_ID"
  shows "identified t"
  using assms by (auto simp: identified_def uid_same_def uid_settled_def)

lemma uid_same_report: "uid_same s (request_report hal now s)"
proof -
  define u where "u = (snd (IncrementDownlinkSequence s))\<lparr>downlink_buffer := (downlink_buffer (snd (IncrementDownlinkSequence s)))
     \<lparr>bufFrame := [dfCommand MsgReportStatus, dfLength MsgReportStatus] @ dfPdu MsgReportStatus\<rparr>\<rparr>"
  have "dl_next s u" by (simp add: u_def)
  then have "dl_next s (snd (WriteDownlinkMessage hal now u))" by (rule dl_next_WriteDownlinkMessage)
  then have "uid_same s (snd (WriteDownlinkMessage hal now u))" by (simp add: dl_next_def uid_same_dl)
  then show ?thesis by (simp add: request_report_def Let_def uid_same_def u_def)
qed

lemma uid_same_ack_timeout:
  "uid_same s (snd (and_next hal now (ack_timeout hal now s)))"
proof (cases "now - uplink_ack_timer s < uplink_ack_timeout s")
  case False
  have n: "uid_same u (snd (ProcessNextDownlinkMessage hal now u))" for u by (rule uid_same_dl [OF next_same])
  define s1 where "s1 = set_stats (\<lambda>t. t\<lparr>stRxAckTimeoutErrors := Increment32 (stRxAckTimeoutErrors t)\<rparr>)
     (s\<lparr>downlink_state := DOWNLINK_IDLE\<rparr>)"
  define s2 where "s2 = (if uplink_state s1 = UPLINK_IDLE \<and> uplink_msg_index s1 \<noteq> 0 then ResetUplinkState s1 else s1)"
  define s3 where "s3 = s2\<lparr>uplink_ack_timeouts := uplink_ack_timeouts s2 + 1\<rparr>"
  have s3: "uid_same s s3" by (simp add: s3_def s2_def s1_def uid_same_def ResetUplinkState_def set_stats_def)
  have ack: "uid_same s (u\<lparr>uplink_ack_timeouts := 0\<rparr>)" if "uid_same s u" for u using that by (simp add: uid_same_def)
  let ?t = "if uplink_ack_timeouts s3 \<ge> 2 then
       (if uplink_ack_timeout_phase s3 < 5 then request_report hal now s3
        else if \<not> wait_for_uid s3 \<and> now - last_timeout s3 > STARTUP_DELAY then s3\<lparr>last_timeout := now\<rparr>
        else s3\<lparr>uplink_ack_timeout_phase := 0\<rparr>)\<lparr>uplink_ack_timeouts := 0\<rparr>
     else s3"
  have eq: "ack_timeout hal now s = Inr ?t"
    unfolding ack_timeout_def Let_def s3_def s2_def s1_def using False by (rule if_not_P)
  have "uid_same s (s3\<lparr>last_timeout := now\<rparr>)" "uid_same s (s3\<lparr>uplink_ack_timeout_phase := 0\<rparr>)"
    using s3 by (simp_all add: uid_same_def)
  then have "uid_same s ?t" using s3 ack uid_same_trans [OF s3 uid_same_report] by (simp only: split: if_split) simp
  then show ?thesis using n uid_same_trans unfolding eq and_next_def by (simp only: sum.case)
qed (simp add: ack_timeout_def uid_same_def)

lemma identified_ack_timeout:
  assumes "identified s" "downlink_live (downlink_state s)"
  shows "identified (snd (and_next hal now (ack_timeout hal now s)))"
proof (rule identified_state [OF assms(1) uid_same_ack_timeout])
  show "past_identification (downlink_state s) \<or>
      \<not> past_identification (downlink_state (snd (and_next hal now (ack_timeout hal now s))))"
    using assms(2) running_past live_running by blast
  show "downlink_state (snd (and_next hal now (ack_timeout hal now s))) \<noteq> DOWNLINK_WAIT_NI_UNIQUE_ID"
    using ack_timeout_edge [OF assms(2) refl, of hal now] assms(2)
    by (auto simp: downlink_live_def elim!: downlink_edge.cases)
qed

lemma uid_same_simps [simp]:
  "uid_same s (t\<lparr>downlink_state := d\<rparr>) = uid_same s t" "uid_same s (t\<lparr>have_reset := a\<rparr>) = uid_same s t"
  "uid_same s (t\<lparr>have_null := a\<rparr>) = uid_same s t" "uid_same s (t\<lparr>wait_for_reset := a\<rparr>) = uid_same s t"
  "uid_same s (t\<lparr>reset_wait_timer := v\<rparr>) = uid_same s t" "uid_same s (t\<lparr>status_retries := n\<rparr>) = uid_same s t"
  "uid_same s (t\<lparr>uid_wait_timer := v\<rparr>) = uid_same s t" "uid_same s (t\<lparr>status_wait_timer := v\<rparr>) = uid_same s t"
  "uid_same s (t\<lparr>usbReady := a\<rparr>) = uid_same s t" "uid_same s (await_null now t) = uid_same s t" "uid_same s (set_stats f t) = uid_same s t"
  "uid_same s s"
  by (simp_all add: uid_same_def await_null_def set_stats_def)

lemma uid_same_requests:
  "uid_same s (snd (SendResync hal now s))" "uid_same s (snd (SetNiLayerMode mode s))" "uid_same s (snd (RequestUsbNiStatus now s))"
proof -
  have w: "uid_same t (snd (WriteLonUsbMsg m t))" for m t by (rule uid_same_dl [OF WriteLonUsbMsg_keeps(1)])
  have c: "uid_same t (snd (WriteDownlinkCodePacket hal k p t))" for k p t by (rule uid_same_dl) (simp add: CodePacket_keeps)
  have up: "uid_same s (t\<lparr>null_wait_timer := now\<rparr>) = uid_same s t" "uid_same s (t\<lparr>wait_for_status := a\<rparr>) = uid_same s t" for s t a
    by (simp_all add: uid_same_def)
  show "uid_same s (snd (SendResync hal now s))" using c by (simp add: SendResync_def split_beta up)
  have "uid_same s (set_stats (\<lambda>t. t\<lparr>stL2L5Mode := LON_IFACE_MODE_UNKNOWN\<rparr>) (s\<lparr>current_iface_mode := mode\<rparr>))"
    by (simp add: uid_same_def set_stats_def)
  from uid_same_trans [OF this w] show "uid_same s (snd (SetNiLayerMode mode s))" by (simp add: SetNiLayerMode_def)
  show "uid_same s (snd (RequestUsbNiStatus now s))" using w by (simp add: RequestUsbNiStatus_def split_beta up)
qed

lemma identified_uid_request:
  assumes "identified s" "downlink_state s = DOWNLINK_NI_UNIQUE_ID_REQUEST"
  shows "identified (snd (and_next hal now (uid_request now s)))"
proof (rule identified_and_next)
  have up: "uplink_state s \<noteq> UPLINK_INVALID" using assms(1) by (simp add: identified_def)
  have w: "dl_same s (snd (WriteLonUsbMsg MsgUniqueId s))" by (rule WriteLonUsbMsg_keeps)
  have ws: "downlink_state (snd (WriteLonUsbMsg MsgUniqueId s)) = DOWNLINK_NI_UNIQUE_ID_REQUEST"
    using assms(2) WriteLonUsbMsg_keeps(2) by simp
  fix t
  show "identified t" if "uid_request now s = Inl (st, t)" for st
  proof -
    have "t = s \<or> t = snd (WriteLonUsbMsg MsgUniqueId s)"
      using that by (auto simp: uid_request_def RequestUsbNiUid_def split_beta split: if_splits)
    then show ?thesis using assms(1) identified_same [OF assms(1) w] ws assms(2) by auto
  qed
  show "identified t" if r: "uid_request now s = Inr t"
  proof (cases "current_iface_mode s = LON_IFACE_MODE_LAYER5")
    case True
    define v where "v = snd (RequestUsbNiUid now s)"
    have t: "t = v\<lparr>uid_wait_timer := now, downlink_state := DOWNLINK_WAIT_NI_UNIQUE_ID\<rparr>" "fst (RequestUsbNiUid now s) = LonStatusNoError"
      using r True by (auto simp: uid_request_def split_beta v_def split: if_splits)
    have "wait_for_uid v \<or> uid_settled v"
      using t(2) by (auto simp: v_def RequestUsbNiUid_def uid_settled_def split_beta split: if_splits)
    moreover have "uplink_state v = uplink_state s"
      using w by (simp add: v_def RequestUsbNiUid_def split_beta dl_same_def)
    ultimately show ?thesis using up by (simp add: t(1) identified_def uid_settled_def)
  qed (use r assms up in \<open>auto simp: uid_request_def identified_def\<close>)
qed

lemma identified_resync:
  assumes "identified s" "downlink_state s = DOWNLINK_WAIT_STARTUP_RESET \<or> downlink_state s = DOWNLINK_WAIT_STARTUP_RESYNC_ACK"
    "SendResync hal now (s\<lparr>have_reset := a\<rparr>) = (st, t)"
  shows "identified t"
proof (rule identified_state [OF assms(1)])
  have "uid_same (s\<lparr>have_reset := a\<rparr>) t" using uid_same_requests(1) [of "s\<lparr>have_reset := a\<rparr>" hal now] assms(3) by simp
  then show "uid_same s t" by (simp add: uid_same_def)
  have "downlink_state t \<in> {downlink_state s, DOWNLINK_WAIT_STARTUP_RESYNC_ACK}"
    using SendResync_state [of hal now "s\<lparr>have_reset := a\<rparr>"] assms(3) by simp
  then show "past_identification (downlink_state s) \<or> \<not> past_identification (downlink_state t)"
    "downlink_state t \<noteq> DOWNLINK_WAIT_NI_UNIQUE_ID" using assms(2) by auto
qed

lemma identified_early [simp]:
  "identified s \<Longrightarrow> \<not> past_identification d \<Longrightarrow> d \<noteq> DOWNLINK_WAIT_NI_UNIQUE_ID \<Longrightarrow> identified (s\<lparr>downlink_state := d\<rparr>)"
  "identified (await_null now s) = identified s" "identified (s\<lparr>have_null := a\<rparr>) = identified s"
  "identified (s\<lparr>wait_for_reset := a\<rparr>) = identified s" "identified (s\<lparr>reset_wait_timer := v\<rparr>) = identified s"
  "identified (s\<lparr>have_reset := a\<rparr>) = identified s" "identified (s\<lparr>status_retries := n\<rparr>) = identified s"
  by (simp_all add: identified_def await_null_def uid_settled_def)

lemma identified_requests:
  assumes "identified s" shows "identified (snd (ProcessDownlinkRequests hal now s))"
proof (cases "usbShutdown s")
  case open_link: False
  note [simp] = ProcessDownlinkRequests_def open_link
  have up: "uplink_state s \<noteq> UPLINK_INVALID" using assms by (simp add: identified_def)
  have lr: "identified (snd (and_next hal now (layer_request now mode d s)))"
    if "past_identification (downlink_state s) \<or> \<not> past_identification d" "d \<noteq> DOWNLINK_WAIT_NI_UNIQUE_ID"
      "downlink_state s \<noteq> DOWNLINK_WAIT_NI_UNIQUE_ID" for mode d
  proof (rule identified_and_next)
    have m: "uid_same s (snd (SetNiLayerMode mode s))" "downlink_state (snd (SetNiLayerMode mode s)) = downlink_state s"
      using uid_same_requests(2) request_states(3) by auto
    show "identified t" if "layer_request now mode d s = Inl (st, t)" for st t
      using that m identified_state [OF assms m(1)] \<open>downlink_state s \<noteq> DOWNLINK_WAIT_NI_UNIQUE_ID\<close>
      by (auto simp: layer_request_def split_beta split: if_splits)
    show "identified t" if "layer_request now mode d s = Inr t" for t
      using that m that(1) identified_state [OF assms, of t] \<open>d \<noteq> DOWNLINK_WAIT_NI_UNIQUE_ID\<close>
        \<open>past_identification (downlink_state s) \<or> \<not> past_identification d\<close>
      by (auto simp: layer_request_def split_beta split: if_splits)
  qed
  show ?thesis
  proof (cases "downlink_state s")
    case DOWNLINK_START
    then show ?thesis using StartLonUsbLink_keeps(8) [OF open_link, of now "configured_iface_mode s"]
      by (simp add: downlink_start_def identified_def)
  next
    case d: DOWNLINK_WAIT_STARTUP_RESET
    then show ?thesis
      using assms identified_resync [OF assms, of hal now False]
      by (auto simp: wait_startup_reset_def intro!: identified_and_next split: if_splits prod.splits)
  next
    case d: DOWNLINK_WAIT_STARTUP_RESYNC_ACK
    have "s = s\<lparr>have_reset := have_reset s\<rparr>" by simp
    then have "identified t" if "SendResync hal now s = (st, t)" for st t
      using identified_resync [OF assms, of hal now "have_reset s"] d that by simp
    then show ?thesis
      using d assms by (auto simp: wait_resync_ack_def intro!: identified_and_next split: if_splits prod.splits)
  next
    case d: DOWNLINK_WAIT_RESYNC_RESET
    then have "identified (wait_resync_reset now s)"
      using assms up by (auto simp: wait_resync_reset_def identified_def uid_settled_def Let_def)
    then show ?thesis using d identified_next by (simp add: and_next_def)
  next
    case d: DOWNLINK_LAYER_5_REQUEST
    then show ?thesis using lr [of DOWNLINK_WAIT_LAYER_5_ACK] by simp
  next
    case d: DOWNLINK_LAYER_2_REQUEST
    then show ?thesis using lr [of DOWNLINK_WAIT_LAYER_2_ACK] by simp
  next
    case d: DOWNLINK_WAIT_LAYER_5_ACK
    then show ?thesis using assms identified_next by (simp add: and_next_def wait_layer_5_ack_def)
  next
    case d: DOWNLINK_WAIT_LAYER_2_ACK
    then have "identified (wait_layer_2_ack now s)"
      using assms by (auto simp: wait_layer_2_ack_def identified_def uid_settled_def)
    then show ?thesis using d identified_next by (simp add: and_next_def)
  next
    case d: DOWNLINK_NI_UNIQUE_ID_REQUEST
    then show ?thesis using identified_uid_request [OF assms] by simp
  next
    case d: DOWNLINK_WAIT_NI_UNIQUE_ID
    then have "identified (wait_uid now s)"
      using assms by (auto simp: wait_uid_def identified_def uid_settled_def)
    then show ?thesis using d identified_next by (simp add: and_next_def)
  next
    case d: DOWNLINK_MIP_STATUS_REQUEST
    have st: "identified (snd (RequestUsbNiStatus now s))"
      by (rule identified_state [OF assms uid_same_requests(3)]) (use d request_states(2) [of now s] in auto)
    have "uid_same s (snd (RequestUsbNiStatus now s)\<lparr>status_wait_timer := now, downlink_state := DOWNLINK_WAIT_MIP_STATUS\<rparr>)"
      using uid_same_requests(3) by simp
    then have "identified (snd (RequestUsbNiStatus now s)\<lparr>status_wait_timer := now, downlink_state := DOWNLINK_WAIT_MIP_STATUS\<rparr>)"
      using identified_state [OF assms] d by simp
    moreover have "identified (s\<lparr>downlink_state := DOWNLINK_LAYER_2_REQUEST\<rparr>)"
      using d assms by (simp add: identified_def uid_settled_def)
    ultimately show ?thesis
      using d st by (auto simp: status_request_def split_beta intro!: identified_and_next split: if_splits)
  next
    case d: DOWNLINK_WAIT_MIP_STATUS
    then have "identified (wait_status now s)"
      using assms by (auto simp: wait_status_def identified_def uid_settled_def)
    then show ?thesis using d identified_next by (simp add: and_next_def)
  next
    case d: DOWNLINK_IDLE_START
    define t where "t = snd (WriteDownlinkCodePacket hal NULL_FRAME_CMD 0 s)"
    have t: "identified t"
      by (rule identified_same [OF assms]) (simp_all add: t_def CodePacket_keeps)
    moreover have "downlink_state t = DOWNLINK_IDLE_START" by (simp add: t_def CodePacket_keeps d)
    ultimately have "identified (t\<lparr>usbReady := True, downlink_state := DOWNLINK_IDLE\<rparr>)"
      by (simp add: identified_def uid_settled_def)
    moreover have "identified (s\<lparr>downlink_state := DOWNLINK_LAYER_2_REQUEST\<rparr>)"
      using d assms by (simp add: identified_def uid_settled_def)
    moreover have "identified (set_stats f u) = identified u" for f u
      by (simp add: identified_def set_stats_def uid_settled_def)
    ultimately show ?thesis
      using d t identified_next by (simp add: idle_start_def split_beta t_def [symmetric])
  next
    case d: DOWNLINK_IDLE
    then show ?thesis using assms identified_next by (simp add: and_next_def)
  next
    case d: DOWNLINK_WAIT_CP_ACK
    then show ?thesis using identified_ack_timeout [OF assms] by simp
  next
    case d: DOWNLINK_WAIT_CP_RESPONSE
    then show ?thesis using identified_ack_timeout [OF assms] by simp
  next
    case d: DOWNLINK_WAIT_MSG_ACK
    then show ?thesis using identified_ack_timeout [OF assms] by simp
  qed (use assms in simp_all)
qed (use assms in \<open>simp add: ProcessDownlinkRequests_def\<close>)

interpretation identification: link_invariant identified
proof
  fix t f p q m hal now rb chunk
  assume t: "identified t"
  then show "uplink_state t \<noteq> UPLINK_INVALID" "identified (t\<lparr>uplink_ring_buffer := rb\<rparr>)"
    by (simp_all add: identified_def uid_settled_def)
  show "identified (set_stats f t)" using t by (simp add: identified_def set_stats_def uid_settled_def)
  show "identified (set_uplink_queue p q t)" using t by (simp add: identified_def set_uplink_queue_def uid_settled_def)
  show "identified (snd (WriteLonUsbMsg m t))"
    by (rule identified_same [OF t WriteLonUsbMsg_keeps(1)]) (simp add: WriteLonUsbMsg_keeps(2))
  show "identified (snd (ProcessDownlinkRequests hal now t))" using t by (rule identified_requests)
  show "identified (fst (snd (snd (uplink_round hal now t chunk))))" if "chunk \<noteq> []"
  proof (rule identified_packet [OF t])
    show "packet_keeps t (fst (snd (snd (uplink_round hal now t chunk))))" by (rule packet_keeps_round) simp
    show "uplink_state (fst (snd (snd (uplink_round hal now t chunk)))) \<noteq> UPLINK_INVALID"
      using kept_uplink_round [of t hal now chunk] t by (simp add: kept_def identified_def)
  qed
qed

lemma identified_open:
  assumes "OpenLonUsbLink mem hal_open now ty (False, s) = (LonStatusNoError, opened, t)"
  shows "identified t"
proof -
  obtain u where u: "\<not> usbShutdown u" "t = snd (StartLonUsbLink now LON_IFACE_MODE_LAYER2 u)"
    using OpenLonUsbLink_ok [OF assms] by blast
  show ?thesis
    using u StartLonUsbLink_keeps [OF u(1), of now LON_IFACE_MODE_LAYER2] by (simp add: identified_def)
qed

section \<open>The startup as a whole\<close>

lemma and_next_ready:
  "usbReady (snd (and_next hal now r)) = usbReady (case r of Inl x \<Rightarrow> snd x | Inr t \<Rightarrow> t)"
  using next_same by (cases r) (auto simp: and_next_def dl_same_def)

lemma dl_same_ready: "dl_same s t \<Longrightarrow> usbReady t = usbReady s" by (simp add: dl_same_def)

lemma requests_ready [simp]:
  "usbReady (snd (WriteLonUsbMsg m s)) = usbReady s" "usbReady (snd (WriteDownlinkCodePacket hal k p s)) = usbReady s"
  "usbReady (snd (SendResync hal now s)) = usbReady s" "usbReady (snd (RequestUsbNiUid now s)) = usbReady s"
  "usbReady (snd (RequestUsbNiStatus now s)) = usbReady s" "usbReady (snd (SetNiLayerMode mode s)) = usbReady s"
  "usbReady (await_null now s) = usbReady s" "usbReady (set_stats f s) = usbReady s"
  "usbReady (snd (ProcessNextDownlinkMessage hal now s)) = usbReady s"
proof -
  show w: "usbReady (snd (WriteLonUsbMsg m s)) = usbReady s" for m s by (rule dl_same_ready [OF WriteLonUsbMsg_keeps(1)])
  show c: "usbReady (snd (WriteDownlinkCodePacket hal k p s)) = usbReady s"
    by (rule dl_same_ready) (simp add: CodePacket_keeps)
  show n: "usbReady (snd (ProcessNextDownlinkMessage hal now s)) = usbReady s" by (rule dl_same_ready [OF next_same])
  show st: "usbReady (set_stats f s) = usbReady s" for f s by (simp add: set_stats_def)
  have c': "usbReady (snd (WriteDownlinkCodePacket hal k p s)) = usbReady s" for k p
    by (rule dl_same_ready) (simp add: CodePacket_keeps)
  show "usbReady (snd (SendResync hal now s)) = usbReady s" by (simp add: SendResync_def split_beta c')
  show "usbReady (snd (RequestUsbNiUid now s)) = usbReady s" by (simp add: RequestUsbNiUid_def split_beta w)
  show "usbReady (snd (RequestUsbNiStatus now s)) = usbReady s" by (simp add: RequestUsbNiStatus_def split_beta w)
  show "usbReady (snd (SetNiLayerMode mode s)) = usbReady s" by (simp add: SetNiLayerMode_def w st)
  show "usbReady (await_null now s) = usbReady s" by (simp add: await_null_def)
qed

lemma ack_timeout_ready: "usbReady (case ack_timeout hal now s of Inl x \<Rightarrow> snd x | Inr t \<Rightarrow> t) = usbReady s"
proof -
  define b where "b u = (snd (IncrementDownlinkSequence u))\<lparr>downlink_buffer := (downlink_buffer (snd (IncrementDownlinkSequence u)))
     \<lparr>bufFrame := [dfCommand MsgReportStatus, dfLength MsgReportStatus] @ dfPdu MsgReportStatus\<rparr>\<rparr>" for u
  have "dl_next u (b u)" for u by (simp add: b_def)
  then have "dl_next u (snd (WriteDownlinkMessage hal now (b u)))" for u by (rule dl_next_WriteDownlinkMessage)
  then have "usbReady (snd (WriteDownlinkMessage hal now (b u))) = usbReady u" for u by (simp add: dl_next_def dl_same_ready)
  then have r: "usbReady (request_report hal now u) = usbReady u" for u
    by (simp add: request_report_def Let_def b_def)
  have u: "usbReady (ResetUplinkState u) = usbReady u" for u by (simp add: ResetUplinkState_def)
  show ?thesis by (simp add: ack_timeout_def Let_def r u)
qed

lemma startup_ready:
  "usbReady (snd (ProcessDownlinkRequests hal now s)) \<longleftrightarrow> usbReady s \<or> \<not> usbShutdown s \<and> downlink_state s = DOWNLINK_IDLE_START \<and>
     current_iface_mode s = LON_IFACE_MODE_LAYER2 \<and> fst (WriteDownlinkCodePacket hal NULL_FRAME_CMD 0 s) = LonStatusNoError"
proof (cases "usbShutdown s")
  case False
  have "usbReady (downlink_start now s) = usbReady s"
    using StartLonUsbLink_keeps(4) [OF False, of now "configured_iface_mode s"] by (simp add: downlink_start_def)
  then show ?thesis
    using False
    by (cases "downlink_state s")
      (auto simp: ProcessDownlinkRequests_def and_next_ready ack_timeout_ready wait_startup_reset_def wait_resync_ack_def
        wait_resync_reset_def layer_request_def wait_layer_5_ack_def wait_layer_2_ack_def uid_request_def wait_uid_def
        status_request_def wait_status_def idle_start_def split_beta Let_def)
qed (simp add: ProcessDownlinkRequests_def)

text \<open>
  C39. Every call of \<open>ProcessDownlinkRequests\<close> on an open link follows an edge of the startup
  diagram; the link becomes ready in exactly one place, when the null packet that ends the
  startup has been written in layer 2 mode, and nothing takes the mark away.
\<close>
theorem startup_follows_the_diagram:
  assumes "\<not> usbShutdown s" "ProcessDownlinkRequests hal now s = (st, s')"
  shows "downlink_edge (downlink_state s) (downlink_state s') \<and>
    (LonUsbLinkReady s' \<longleftrightarrow> LonUsbLinkReady s \<or> downlink_state s = DOWNLINK_IDLE_START \<and>
       current_iface_mode s = LON_IFACE_MODE_LAYER2 \<and>
       fst (WriteDownlinkCodePacket hal NULL_FRAME_CMD 0 s) = LonStatusNoError)"
  using startup_edge [OF assms(1), of hal now] startup_ready [of hal now s] assms by (simp add: LonUsbLinkReady_def)

text \<open>
  From the opening on, whatever the device sends and whatever the stack writes, a link that
  has left the identification behind (it asks for layer 2 mode or the status, or is running) knows
  the identifier of its device, or has used up all its requests for it.
\<close>
theorem running_link_was_identified:
  assumes "OpenLonUsbLink mem hal_open now ty (False, s) = (LonStatusNoError, opened, t)" "usb_reach t u"
  shows "identified u"
  by (rule identification.reach [OF assms(2) identified_open [OF assms(1)]])

subsection \<open>An answered link comes up\<close>

definition LonUsbRoom :: "usb_link \<Rightarrow> bool" where
  "LonUsbRoom s \<longleftrightarrow> GetDownlinkBufferCount s < MAX_LON_DOWNLINK_BUFFERS \<and> QueueTail (downlink_normal_queue s) \<noteq> None"

text \<open>What the state of the startup waits for has come.\<close>

definition served :: "u32 \<Rightarrow> usb_link \<Rightarrow> bool" where
  "served now s \<longleftrightarrow>
     (case downlink_state s of
        DOWNLINK_WAIT_STARTUP_RESET \<Rightarrow> reset_due now s
      | DOWNLINK_WAIT_STARTUP_RESYNC_ACK \<Rightarrow> have_null s
      | DOWNLINK_WAIT_RESYNC_RESET \<Rightarrow> reset_due now s
      | DOWNLINK_LAYER_5_REQUEST \<Rightarrow> LonUsbRoom s
      | DOWNLINK_WAIT_LAYER_5_ACK \<Rightarrow> have_null s
      | DOWNLINK_NI_UNIQUE_ID_REQUEST \<Rightarrow> LonUsbRoom s
      | DOWNLINK_WAIT_NI_UNIQUE_ID \<Rightarrow> have_uid s
      | DOWNLINK_LAYER_2_REQUEST \<Rightarrow> LonUsbRoom s
      | DOWNLINK_WAIT_LAYER_2_ACK \<Rightarrow> have_null s
      | DOWNLINK_MIP_STATUS_REQUEST \<Rightarrow> LonUsbRoom s
      | DOWNLINK_WAIT_MIP_STATUS \<Rightarrow> have_status s
      | _ \<Rightarrow> True)"

text \<open>While the link waits for the change of its mode, its mode is the one it has asked for.\<close>

definition mode_known :: "usb_link \<Rightarrow> bool" where
  "mode_known s \<longleftrightarrow>
     (downlink_state s = DOWNLINK_WAIT_LAYER_5_ACK \<longrightarrow> current_iface_mode s = LON_IFACE_MODE_LAYER5) \<and>
     (downlink_state s = DOWNLINK_WAIT_LAYER_2_ACK \<longrightarrow> current_iface_mode s = LON_IFACE_MODE_LAYER2)"

definition startup_rank :: "usb_link \<Rightarrow> nat" where
  "startup_rank s =
     (let l2 = (current_iface_mode s = LON_IFACE_MODE_LAYER2); l5 = (current_iface_mode s = LON_IFACE_MODE_LAYER5)
      in case downlink_state s of
           DOWNLINK_START \<Rightarrow> 20
         | DOWNLINK_WAIT_STARTUP_RESET \<Rightarrow> 19
         | DOWNLINK_WAIT_STARTUP_RESYNC_ACK \<Rightarrow> 18
         | DOWNLINK_WAIT_RESYNC_RESET \<Rightarrow> 17
         | DOWNLINK_NI_UNIQUE_ID_REQUEST \<Rightarrow> if l5 then 13 else 16
         | DOWNLINK_LAYER_5_REQUEST \<Rightarrow> 15
         | DOWNLINK_WAIT_LAYER_5_ACK \<Rightarrow> 14
         | DOWNLINK_WAIT_NI_UNIQUE_ID \<Rightarrow> 12
         | DOWNLINK_WAIT_MIP_STATUS \<Rightarrow> if l2 then 5 else 11
         | DOWNLINK_IDLE_START \<Rightarrow> if l2 then 4 else 10
         | DOWNLINK_MIP_STATUS_REQUEST \<Rightarrow> if l2 then 6 else 9
         | DOWNLINK_LAYER_2_REQUEST \<Rightarrow> 8
         | DOWNLINK_WAIT_LAYER_2_ACK \<Rightarrow> 7
         | DOWNLINK_IDLE \<Rightarrow> 0
         | DOWNLINK_WAIT_CP_ACK \<Rightarrow> 0
         | DOWNLINK_WAIT_MSG_ACK \<Rightarrow> 0
         | DOWNLINK_WAIT_CP_RESPONSE \<Rightarrow> 0
         | _ \<Rightarrow> 21)"

lemma live_rank: "downlink_live (downlink_state s) \<longleftrightarrow> startup_rank s = 0"
  by (cases "downlink_state s") (auto simp: downlink_live_def startup_rank_def Let_def)

lemma rank_next: "startup_rank (snd (ProcessNextDownlinkMessage hal now t)) \<le> startup_rank t"
proof -
  let ?u = "snd (ProcessNextDownlinkMessage hal now t)"
  have m: "current_iface_mode ?u = current_iface_mode t"
    using next_same [of t hal now] by (simp add: dl_same_def)
  consider "downlink_state ?u = downlink_state t" | "downlink_live (downlink_state ?u)"
    using next_state [of hal now t] by blast
  then show ?thesis
  proof cases
    case 1
    then have "startup_rank ?u = startup_rank t" by (simp only: startup_rank_def m)
    then show ?thesis by simp
  qed (simp add: live_rank)
qed

lemma WriteLonUsbMsg_room:
  assumes "\<not> usbShutdown s" "LonUsbRoom s" "dfLength m \<noteq> EXT_LENGTH" "dfCommand m \<noteq> LonNiPriorityMsgCmd"
  shows "fst (WriteLonUsbMsg m s) = LonStatusNoError"
proof -
  have "bufPriority (stage_message m s b) = bufPriority b" for b by (simp add: stage_message_def Let_def)
  then show ?thesis
    using assms by (simp add: WriteLonUsbMsg_def QueueDownlinkBuffer_def LonUsbRoom_def downlink_queue_def
        Let_def split: if_splits)
qed

lemma rank_and_next: "startup_rank t < n \<Longrightarrow> startup_rank (snd (and_next hal now (Inr t))) < n"
  using le_less_trans [OF rank_next] by (simp add: and_next_def)

lemma code_packet_written:
  "\<not> usbShutdown s \<Longrightarrow> hal_writes_all hal \<Longrightarrow> fst (WriteDownlinkCodePacket hal k p s) = LonStatusNoError"
  by (simp add: WriteDownlinkCodePacket_def usb_write_def hal_writes_all_def header_bytes_def Let_def)

lemma mode_request:
  assumes "\<not> usbShutdown s" "LonUsbRoom s"
  shows "\<exists>t. layer_request now mode d s = Inr t \<and> downlink_state t = d \<and> current_iface_mode t = mode"
proof -
  let ?u = "set_stats (\<lambda>t. t\<lparr>stL2L5Mode := LON_IFACE_MODE_UNKNOWN\<rparr>) (s\<lparr>current_iface_mode := mode\<rparr>)"
  let ?m = "if mode = LON_IFACE_MODE_LAYER5 then MsgModeL5 else MsgModeL2"
  have m: "dfLength ?m \<noteq> EXT_LENGTH" "dfCommand ?m \<noteq> LonNiPriorityMsgCmd"
    by (auto simp: MsgModeL5_def MsgModeL2_def data_frame_def EXT_LENGTH_def LonNiLayerModeCmd_def LonNiPriorityMsgCmd_def)
  have room: "LonUsbRoom ?u" using assms(2) by (simp add: LonUsbRoom_def GetDownlinkBufferCount_def set_stats_def)
  have "\<not> usbShutdown ?u" using assms(1) by (simp add: set_stats_def)
  then have "fst (WriteLonUsbMsg ?m ?u) = LonStatusNoError" by (rule WriteLonUsbMsg_room [OF _ room m])
  moreover have "current_iface_mode (snd (WriteLonUsbMsg ?m ?u)) = mode"
    using WriteLonUsbMsg_keeps(1) [of ?u ?m] by (simp add: dl_same_def) (simp add: set_stats_def)
  ultimately show ?thesis
    using assms(1) by (simp add: layer_request_def SetNiLayerMode_def split_beta await_null_def)
qed

lemma uid_requested:
  assumes "\<not> usbShutdown s" "LonUsbRoom s"
  shows "fst (RequestUsbNiUid now s) = LonStatusNoError"
proof -
  have "fst (WriteLonUsbMsg MsgUniqueId s) = LonStatusNoError"
    by (rule WriteLonUsbMsg_room [OF assms])
      (simp_all add: MsgUniqueId_def data_frame_def EXT_LENGTH_def UNICAST_MSG_CODE_OFFSET_def LonNiLocalNetMgmtCmd_def LonNiPriorityMsgCmd_def)
  then show ?thesis using assms(1) by (simp add: RequestUsbNiUid_def split_beta)
qed

lemma status_requested:
  assumes "\<not> usbShutdown s" "LonUsbRoom s"
  shows "fst (RequestUsbNiStatus now s) = LonStatusNoError"
    "current_iface_mode (snd (RequestUsbNiStatus now s)) = current_iface_mode s"
proof -
  have "fst (WriteLonUsbMsg MsgStatus s) = LonStatusNoError"
    by (rule WriteLonUsbMsg_room [OF assms])
      (simp_all add: MsgStatus_def data_frame_def EXT_LENGTH_def LonNiStatusCmd_def LonNiPriorityMsgCmd_def)
  then show "fst (RequestUsbNiStatus now s) = LonStatusNoError"
    using assms(1) by (simp add: RequestUsbNiStatus_def split_beta)
  show "current_iface_mode (snd (RequestUsbNiStatus now s)) = current_iface_mode s"
    using WriteLonUsbMsg_keeps(1) [of s MsgStatus] by (simp add: RequestUsbNiStatus_def split_beta dl_same_def)
qed

lemma served_advances:
  assumes "\<not> usbShutdown s" "hal_writes_all hal" "served now s" "startup_rank s \<noteq> 0" "mode_known s"
  shows "startup_rank (snd (ProcessDownlinkRequests hal now s)) < startup_rank s"
proof -
  note [simp] = ProcessDownlinkRequests_def assms(1)
  note rank = startup_rank_def LON_IFACE_MODE_LAYER5_def LON_IFACE_MODE_LAYER2_def
  show ?thesis
  proof (cases "downlink_state s")
    case d: DOWNLINK_START
    then show ?thesis by (simp add: downlink_start_def startup_rank_def)
  next
    case d: DOWNLINK_WAIT_STARTUP_RESET
    have "fst (SendResync hal now (s\<lparr>have_reset := False\<rparr>)) = LonStatusNoError"
      using code_packet_written [OF _ assms(2), of "s\<lparr>have_reset := False\<rparr>"] by (simp add: SendResync_def split_beta)
    then obtain t where t: "wait_startup_reset hal now s = Inr (t\<lparr>downlink_state := DOWNLINK_WAIT_STARTUP_RESYNC_ACK\<rparr>)"
      using assms(3) d by (auto simp: wait_startup_reset_def served_def split_beta)
    have "startup_rank (t\<lparr>downlink_state := DOWNLINK_WAIT_STARTUP_RESYNC_ACK\<rparr>) < startup_rank s"
      using d by (simp add: startup_rank_def)
    then show ?thesis using d t by (simp add: rank_and_next)
  next
    case d: DOWNLINK_WAIT_STARTUP_RESYNC_ACK
    then obtain t where t: "wait_resync_ack hal now s = Inr (t\<lparr>downlink_state := DOWNLINK_WAIT_RESYNC_RESET\<rparr>)"
      using assms(3) by (auto simp: wait_resync_ack_def served_def)
    have "startup_rank (t\<lparr>downlink_state := DOWNLINK_WAIT_RESYNC_RESET\<rparr>) < startup_rank s"
      using d by (simp add: startup_rank_def)
    then show ?thesis using d t by (simp add: rank_and_next)
  next
    case d: DOWNLINK_WAIT_RESYNC_RESET
    have "startup_rank (wait_resync_reset now s) < startup_rank s"
      using assms(3) d by (simp add: wait_resync_reset_def served_def Let_def rank)
    then show ?thesis using d by (simp add: rank_and_next)
  next
    case d: DOWNLINK_LAYER_5_REQUEST
    have "LonUsbRoom s" using assms(3) d by (simp add: served_def)
    then obtain t where t: "layer_request now LON_IFACE_MODE_LAYER5 DOWNLINK_WAIT_LAYER_5_ACK s = Inr t"
      "downlink_state t = DOWNLINK_WAIT_LAYER_5_ACK"
      using mode_request [OF assms(1)] by blast
    then have "startup_rank t < startup_rank s" using d by (simp add: startup_rank_def)
    then show ?thesis using d t by (simp add: rank_and_next)
  next
    case d: DOWNLINK_WAIT_LAYER_5_ACK
    then have "startup_rank (wait_layer_5_ack now s) < startup_rank s"
      using assms(3,5) by (simp add: wait_layer_5_ack_def served_def mode_known_def rank)
    then show ?thesis using d by (simp add: rank_and_next)
  next
    case d: DOWNLINK_NI_UNIQUE_ID_REQUEST
    have "\<exists>t. uid_request now s = Inr t \<and> startup_rank t < startup_rank s"
      using uid_requested [OF assms(1)] assms(3) d by (auto simp: uid_request_def served_def split_beta startup_rank_def)
    then show ?thesis using d rank_and_next by auto
  next
    case d: DOWNLINK_WAIT_NI_UNIQUE_ID
    then have "startup_rank (wait_uid now s) < startup_rank s"
      using assms(3) by (simp add: wait_uid_def served_def rank)
    then show ?thesis using d by (simp add: rank_and_next)
  next
    case d: DOWNLINK_LAYER_2_REQUEST
    have "LonUsbRoom s" using assms(3) d by (simp add: served_def)
    then obtain t where t: "layer_request now LON_IFACE_MODE_LAYER2 DOWNLINK_WAIT_LAYER_2_ACK s = Inr t"
      "downlink_state t = DOWNLINK_WAIT_LAYER_2_ACK"
      using mode_request [OF assms(1)] by blast
    then have "startup_rank t < startup_rank s" using d by (simp add: startup_rank_def)
    then show ?thesis using d t by (simp add: rank_and_next)
  next
    case d: DOWNLINK_WAIT_LAYER_2_ACK
    then have "startup_rank (wait_layer_2_ack now s) < startup_rank s"
      using assms(3,5) by (simp add: wait_layer_2_ack_def served_def mode_known_def rank)
    then show ?thesis using d by (simp add: rank_and_next)
  next
    case d: DOWNLINK_MIP_STATUS_REQUEST
    have "\<exists>t. status_request now s = Inr t \<and> startup_rank t < startup_rank s"
      using status_requested [OF assms(1)] assms(3) d
      by (auto simp: status_request_def served_def split_beta startup_rank_def)
    then show ?thesis using d rank_and_next by auto
  next
    case d: DOWNLINK_WAIT_MIP_STATUS
    then have "startup_rank (wait_status now s) < startup_rank s"
      using assms(3) by (simp add: wait_status_def served_def rank)
    then show ?thesis using d by (simp add: rank_and_next)
  next
    case d: DOWNLINK_IDLE_START
    have n: "fst (WriteDownlinkCodePacket hal NULL_FRAME_CMD 0 s) = LonStatusNoError"
      using code_packet_written [OF assms(1,2)] .
    have st: "startup_rank (set_stats f t) = startup_rank t" for f t by (simp add: startup_rank_def set_stats_def)
    have "startup_rank (s\<lparr>downlink_state := DOWNLINK_LAYER_2_REQUEST\<rparr>) < startup_rank s" if "current_iface_mode s \<noteq> LON_IFACE_MODE_LAYER2"
      using that d by (simp add: startup_rank_def)
    moreover have "startup_rank (u\<lparr>usbReady := True, downlink_state := DOWNLINK_IDLE\<rparr>) < startup_rank s" for u
      using d by (simp add: startup_rank_def Let_def)
    ultimately show ?thesis
      using d n le_less_trans [OF rank_next] by (simp add: idle_start_def split_beta st)
  qed (use assms(4) in \<open>simp_all add: startup_rank_def Let_def\<close>)
qed

lemma next_mode: "current_iface_mode (snd (ProcessNextDownlinkMessage hal now t)) = current_iface_mode t"
  using next_same [of t hal now] by (simp add: dl_same_def)

lemma layer_request_mode:
  assumes "layer_request now mode d s = r" "downlink_state s \<noteq> d" "\<not> downlink_running d"
  shows "downlink_state (snd (and_next hal now r)) = d \<longrightarrow> current_iface_mode (snd (and_next hal now r)) = mode"
proof -
  have "current_iface_mode (snd (SetNiLayerMode mode s)) = mode" if "\<not> usbShutdown s"
    using WriteLonUsbMsg_keeps(1) [where t = "set_stats (\<lambda>t. t\<lparr>stL2L5Mode := LON_IFACE_MODE_UNKNOWN\<rparr>) (s\<lparr>current_iface_mode := mode\<rparr>)"]
      that by (simp add: SetNiLayerMode_def dl_same_def) (simp add: set_stats_def)
  moreover have "fst (SetNiLayerMode mode s) = LonStatusInvalidInterfaceId" if "usbShutdown s"
    using that by (simp add: SetNiLayerMode_def)
  moreover have "downlink_state (snd (SetNiLayerMode mode s)) = downlink_state s" by (rule request_states)
  ultimately show ?thesis
    using assms by (cases "usbShutdown s") (auto simp: layer_request_def split_beta and_next_def next_mode await_null_def)
qed

inductive_cases to_wait_layer_5: "downlink_edge d DOWNLINK_WAIT_LAYER_5_ACK"
inductive_cases to_wait_layer_2: "downlink_edge d DOWNLINK_WAIT_LAYER_2_ACK"

lemma mode_known_step:
  assumes "mode_known s" "\<not> usbShutdown s"
  shows "mode_known (snd (ProcessDownlinkRequests hal now s))"
proof -
  let ?t = "snd (ProcessDownlinkRequests hal now s)"
  note edge = startup_edge [OF assms(2), of hal now]
  note [simp] = ProcessDownlinkRequests_def assms(2)
  have "current_iface_mode ?t = LON_IFACE_MODE_LAYER5" if "downlink_state ?t = DOWNLINK_WAIT_LAYER_5_ACK"
  proof -
    have "downlink_state s = DOWNLINK_WAIT_LAYER_5_ACK \<or> downlink_state s = DOWNLINK_LAYER_5_REQUEST"
      using edge unfolding that by (rule to_wait_layer_5) (auto simp: downlink_live_def)
    then show ?thesis
      using that assms(1) layer_request_mode [OF refl, where s = s and hal = hal and now = now]
      by (auto simp: and_next_def wait_layer_5_ack_def next_mode mode_known_def)
  qed
  moreover have "current_iface_mode ?t = LON_IFACE_MODE_LAYER2" if "downlink_state ?t = DOWNLINK_WAIT_LAYER_2_ACK"
  proof -
    have "downlink_state s = DOWNLINK_WAIT_LAYER_2_ACK \<or> downlink_state s = DOWNLINK_LAYER_2_REQUEST"
      using edge unfolding that by (rule to_wait_layer_2) (auto simp: downlink_live_def)
    then show ?thesis
      using that assms(1) layer_request_mode [OF refl, where s = s and hal = hal and now = now]
      by (auto simp: and_next_def wait_layer_2_ack_def next_mode mode_known_def)
  qed
  ultimately show ?thesis by (simp add: mode_known_def)
qed

text \<open>
  The calls of \<open>ProcessDownlinkRequests\<close>, with what comes from the device in between: \<open>dev k\<close> is the
  effect of what is received before call \<open>k\<close>, and \<open>now k\<close> the tick count of that call.
\<close>

fun startup_run :: "hal_write \<Rightarrow> (nat \<Rightarrow> usb_link \<Rightarrow> usb_link) \<Rightarrow> (nat \<Rightarrow> u32) \<Rightarrow> nat \<Rightarrow> usb_link \<Rightarrow> usb_link" where
  "startup_run hal dev now 0 s = s"
| "startup_run hal dev now (Suc k) s = snd (ProcessDownlinkRequests hal (now k) (dev k (startup_run hal dev now k s)))"

lemma startup_rank_le: "startup_rank s \<le> 21"
  by (cases "downlink_state s") (simp_all add: startup_rank_def Let_def)

lemma startup_run_rank:
  assumes "hal_writes_all hal" "mode_known s"
    and dev: "\<And>k t. downlink_state (dev k t) = downlink_state t" "\<And>k t. current_iface_mode (dev k t) = current_iface_mode t"
    and served: "\<And>k. \<not> usbShutdown (dev k (startup_run hal dev now k s)) \<and> served (now k) (dev k (startup_run hal dev now k s))"
  shows "mode_known (startup_run hal dev now k s) \<and> ((\<exists>j\<le>k. startup_rank (startup_run hal dev now j s) = 0) \<or>
    startup_rank (startup_run hal dev now k s) + k \<le> startup_rank s)"
proof (induction k)
  case (Suc k)
  let ?t = "startup_run hal dev now k s"
  have eq: "startup_rank (dev k ?t) = startup_rank ?t" "mode_known (dev k ?t) = mode_known ?t"
    by (simp_all only: startup_rank_def mode_known_def dev)
  then have m: "mode_known (startup_run hal dev now (Suc k) s)"
    using mode_known_step [of "dev k ?t" hal "now k"] Suc served [of k] by simp
  show ?case
  proof (cases "startup_rank ?t = 0")
    case True
    then show ?thesis using m le_SucI by blast
  next
    case False
    then have "startup_rank (startup_run hal dev now (Suc k) s) < startup_rank ?t"
      using served_advances [of "dev k ?t" hal "now k"] served [of k] assms(1) eq Suc by simp
    then show ?thesis using m Suc le_SucI by fastforce
  qed
qed (simp add: assms(2))

text \<open>
  The startup ends: when the device accepts what is written and what the state waits for
  has come before each call, at most twenty-one calls of \<open>ProcessDownlinkRequests\<close> bring the link from
  any state of the startup into its normal operation.
\<close>
theorem answered_link_comes_up:
  assumes "hal_writes_all hal" "mode_known s"
    and "\<And>k t. downlink_state (dev k t) = downlink_state t" "\<And>k t. current_iface_mode (dev k t) = current_iface_mode t"
    and "\<And>k. \<not> usbShutdown (dev k (startup_run hal dev now k s)) \<and> served (now k) (dev k (startup_run hal dev now k s))"
  shows "\<exists>k\<le>21. downlink_live (downlink_state (startup_run hal dev now k s))"
proof -
  have "\<exists>j\<le>21. startup_rank (startup_run hal dev now j s) = 0"
    using startup_run_rank [OF assms, of 21] startup_rank_le [of s] by auto
  then show ?thesis using live_rank by blast
qed

section \<open>The properties on concrete links\<close>

lemma open_zero:
  "\<exists>opened t. OpenLonUsbLink (\<lambda>_. Some (replicate 16 zeroBuffer)) LonStatusNoError 3 ty (False, zeroLink ty) =
     (LonStatusNoError, opened, t)"
proof -
  let ?i = "InitIfaceStates (\<lambda>_. Some (replicate 16 zeroBuffer)) (zeroLink ty)"
  have i: "fst ?i = LonStatusNoError" by (simp add: InitIfaceStates_def init_queues_def Let_def split_beta init_queue_Some RingBufferInit_def
      RING_BUFFER_MAX_CAPACITY_def)
  let ?u = "(set_stats (\<lambda>t. t\<lparr>stRuntime := StartLonWatch 3 (stRuntime t)\<rparr>) ((snd ?i)\<lparr>usbReady := False, iface_type := ty\<rparr>))
     \<lparr>usbShutdown := False\<rparr>"
  have "fst (StartLonUsbLink 3 LON_IFACE_MODE_LAYER2 ?u) = LonStatusNoError"
    by (rule StartLonUsbLink_keeps) simp
  then show ?thesis using i by (auto simp: OpenLonUsbLink_def split_beta Let_def)
qed

theorem u61_link_is_never_ready_witness:
  "\<exists>opened t. OpenLonUsbLink (\<lambda>_. Some (replicate 16 zeroBuffer)) LonStatusNoError 3 LON_USB_INTERFACE_U61
     (False, zeroLink LON_USB_INTERFACE_U61) = (LonStatusNoError, opened, t) \<and>
     usb_step t (snd (ProcessDownlinkRequests (\<lambda>_ b. (LonStatusNoError, length b)) 4 t)) \<and>
     \<not> LonUsbLinkReady (snd (ProcessDownlinkRequests (\<lambda>_ b. (LonStatusNoError, length b)) 4 t))"
proof -
  obtain opened t where o: "OpenLonUsbLink (\<lambda>_. Some (replicate 16 zeroBuffer)) LonStatusNoError 3 LON_USB_INTERFACE_U61
     (False, zeroLink LON_USB_INTERFACE_U61) = (LonStatusNoError, opened, t)" using open_zero by blast
  have "usb_step t (snd (ProcessDownlinkRequests (\<lambda>_ b. (LonStatusNoError, length b)) 4 t))" by (rule sends)
  moreover from this have "usb_reach t (snd (ProcessDownlinkRequests (\<lambda>_ b. (LonStatusNoError, length b)) 4 t))"
    by (rule there [OF here])
  ultimately show ?thesis using o u61_link_is_never_ready by blast
qed

theorem running_link_was_identified_witness:
  "\<exists>opened t. OpenLonUsbLink (\<lambda>_. Some (replicate 16 zeroBuffer)) LonStatusNoError 3 LON_USB_INTERFACE_U50
     (False, zeroLink LON_USB_INTERFACE_U50) = (LonStatusNoError, opened, t) \<and>
     identified (snd (ProcessDownlinkRequests (\<lambda>_ b. (LonStatusNoError, length b)) 4 t))"
proof -
  obtain opened t where o: "OpenLonUsbLink (\<lambda>_. Some (replicate 16 zeroBuffer)) LonStatusNoError 3 LON_USB_INTERFACE_U50
     (False, zeroLink LON_USB_INTERFACE_U50) = (LonStatusNoError, opened, t)" using open_zero by blast
  have "usb_reach t (snd (ProcessDownlinkRequests (\<lambda>_ b. (LonStatusNoError, length b)) 4 t))"
    by (rule there [OF here sends])
  then show ?thesis using o running_link_was_identified by blast
qed

theorem startup_follows_the_diagram_witness:
  "\<exists>st s'. ProcessDownlinkRequests (\<lambda>_ b. (LonStatusNoError, length b)) 9 (openLink LON_USB_INTERFACE_U50) = (st, s') \<and>
     downlink_edge DOWNLINK_START (downlink_state s') \<and> \<not> LonUsbLinkReady s'"
proof -
  obtain st s' where r: "ProcessDownlinkRequests (\<lambda>_ b. (LonStatusNoError, length b)) 9 (openLink LON_USB_INTERFACE_U50) = (st, s')"
    by force
  then show ?thesis
    using startup_follows_the_diagram [of "openLink LON_USB_INTERFACE_U50", OF _ r] by (simp add: LonUsbLinkReady_def)
qed

definition answering_device :: "nat \<Rightarrow> usb_link \<Rightarrow> usb_link" where
  "answering_device k t = t\<lparr>usbShutdown := False, have_reset := True, have_null := True, have_uid := True, have_status := True,
     downlink_normal_queue := downlink_normal_queue (openLink LON_USB_INTERFACE_U50),
     downlink_priority_queue := downlink_priority_queue (openLink LON_USB_INTERFACE_U50)\<rparr>"

theorem answered_link_comes_up_witness:
  "\<exists>k\<le>21. downlink_live (downlink_state
     (startup_run (\<lambda>_ b. (LonStatusNoError, length b)) answering_device (\<lambda>k. 1000 * of_nat k) k (openLink LON_USB_INTERFACE_U50)))"
proof (rule answered_link_comes_up)
  have "served now (answering_device k t)" for now k t
    by (cases "downlink_state t")
      (simp_all add: served_def answering_device_def reset_due_def LonUsbRoom_def GetDownlinkBufferCount_def
        MAX_LON_DOWNLINK_BUFFERS_def QueueEntries_def QueueTail_def QueueInvalid_def)
  then show "\<not> usbShutdown (answering_device k t) \<and> served now (answering_device k t)" for now k t
    by (simp add: answering_device_def)
qed (simp_all add: answering_device_def hal_writes_all_def mode_known_def)

end
