(* ===== verification/Lcs_Link.thy ===== *)
theory Lcs_Link
  imports Lcs_Network Lon_Usb_Ready
begin

text \<open>
  \<^verbatim>\<open>lcs/lcs_link.c\<close>: the link layer of the default build, with one USB interface. \<open>LinkLayerUsbSend\<close>
  turns the NPDU at the head of an output queue into a message of the USB link;
  \<open>LinkLayerUsbReceive\<close> reads a message of the link and makes an entry for the network layer.

  The state is the stack's and the link's. What an uninitialized variable holds is an argument:
  \<open>stale\<close> is the message structure on the stack of \<open>LinkLayerUsbSend\<close>, and \<open>lpdu\<close> and \<open>lpduSize\<close> are what
  the pointer and the size in \<open>LinkLayerUsbReceive\<close> happen to be.
\<close>

section \<open>State\<close>

text \<open>The input queue of the link layer is an array of items of which only the flags are written.\<close>

record link_layer =
  lkInQ :: "bytes option"
  lkInBufSize :: nat
  lkInQCnt :: nat
  lkInQHead :: nat
  lkOutQCnt :: nat
  lkOutPriQCnt :: nat
  linkInitialized :: bool
  lkUsb :: usb_link

section \<open>The header of an LPDU\<close>

definition LPDU_header :: "bool \<Rightarrow> u8 \<Rightarrow> u8 \<Rightarrow> u8" where
  "LPDU_header pri altPath deltaBL =
     push_bit 7 (if pri then 1 else 0) OR push_bit 6 (altPath AND 1) OR (deltaBL AND 0x3F)"

definition LPDU_priority :: "u8 \<Rightarrow> bool" where
  "LPDU_priority b = bit b 7"

definition LPDU_altPath :: "u8 \<Rightarrow> u8" where
  "LPDU_altPath b = drop_bit 6 b AND 1"

section \<open>Reset\<close>

record lk_memory =
  memLkIn :: "bytes option"
  memLkOut :: "LKSendParam list option"
  memLkOutPri :: "LKSendParam list option"
  memUsb :: "nat \<Rightarrow> LonUsbQueueBuffer list option"

definition LK_OUT_BUF_SIZE :: u8 where "LK_OUT_BUF_SIZE = LCS_BUF_SIZE"
definition LK_IN_BUF_SIZE :: u8 where "LK_IN_BUF_SIZE = 0"
definition LK_IN_Q_CNT :: u8 where "LK_IN_Q_CNT = 3"
definition LK_OUT_PRI_Q_CNT :: u8 where "LK_OUT_PRI_Q_CNT = 2"
definition LK_OUT_Q_CNT :: u8 where "LK_OUT_Q_CNT = 3"

type_synonym lk_state = "stack \<times> link_layer"
type_synonym lk_result = "(LonStatusCode \<times> lk_state) + lk_state"

definition lk_fail :: "LonStatusCode \<Rightarrow> lk_state \<Rightarrow> lk_result" where
  "lk_fail st x = Inl (st, (fst x)\<lparr>resetOk := False\<rparr>, snd x)"

definition lk_decode :: "LonStatusCode + nat \<Rightarrow> (nat \<Rightarrow> lk_state) \<Rightarrow> lk_state \<Rightarrow> lk_result" where
  "lk_decode d f x = (case d of Inl e \<Rightarrow> lk_fail e x | Inr n \<Rightarrow> Inr (f n))"

text \<open>The flag at the start of every item of the input queue is cleared.\<close>

fun clear_flags :: "nat \<Rightarrow> nat \<Rightarrow> nat \<Rightarrow> bytes \<Rightarrow> bytes" where
  "clear_flags 0 off step d = d"
| "clear_flags (Suc n) off step d = clear_flags n (off + step) step (d[off := 0])"

definition lk_reset_in :: "lk_memory \<Rightarrow> lk_state \<Rightarrow> lk_result" where
  "lk_reset_in mem x =
     and_then (lk_decode (DecodeBufferSize LK_IN_BUF_SIZE) (\<lambda>n. (fst x, (snd x)\<lparr>lkInBufSize := n + 6\<rparr>)) x) (\<lambda>x.
     and_then (lk_decode (DecodeBufferCnt LK_IN_Q_CNT) (\<lambda>n. (fst x, (snd x)\<lparr>lkInQCnt := n\<rparr>)) x) (\<lambda>(s, l).
       case memLkIn mem of
         None \<Rightarrow> lk_fail LonStatusNoError (s, l\<lparr>lkInQ := None\<rparr>)
       | Some d \<Rightarrow> Inr (s, l\<lparr>lkInQ := Some (clear_flags (lkInQCnt l) 0 (lkInBufSize l) d), lkInQHead := 0\<rparr>)))"

definition lk_queue :: "LonStatusCode \<times> LKSendParam Queue \<Rightarrow> (LKSendParam Queue \<Rightarrow> lk_state) \<Rightarrow> lk_result" where
  "lk_queue r store = (if fst r = LonStatusNoError then Inr (store (snd r)) else lk_fail (fst r) (store (snd r)))"

definition lk_reset_out :: "nat \<Rightarrow> lk_memory \<Rightarrow> lk_state \<Rightarrow> lk_result" where
  "lk_reset_out sizeofSend mem x =
     and_then (lk_decode (DecodeBufferSize LK_OUT_BUF_SIZE) (\<lambda>n. ((fst x)\<lparr>lkOutBufSize := n\<rparr>, snd x)) x) (\<lambda>x.
     and_then (lk_decode (DecodeBufferCnt LK_OUT_Q_CNT) (\<lambda>n. (fst x, (snd x)\<lparr>lkOutQCnt := n\<rparr>)) x) (\<lambda>(s, l).
     lk_queue (QueueInit (lkOutQ s) (Some ''link layer output'') ((lkOutBufSize s + sizeofSend) mod 2 ^ 16)
                 (lkOutQCnt l) (memLkOut mem)) (\<lambda>q. (s\<lparr>lkOutQ := q\<rparr>, l))))"

definition lk_reset_out_pri :: "nat \<Rightarrow> lk_memory \<Rightarrow> lk_state \<Rightarrow> lk_result" where
  "lk_reset_out_pri sizeofSend mem x =
     (let x = ((fst x)\<lparr>lkOutPriBufSize := lkOutBufSize (fst x)\<rparr>, snd x)
      in and_then (lk_decode (DecodeBufferCnt LK_OUT_PRI_Q_CNT) (\<lambda>n. (fst x, (snd x)\<lparr>lkOutPriQCnt := n\<rparr>)) x) (\<lambda>(s, l).
         lk_queue (QueueInit (lkOutPriQ s) (Some ''link layer priority output'')
                     ((lkOutPriBufSize s + sizeofSend) mod 2 ^ 16) (lkOutPriQCnt l) (memLkOutPri mem))
           (\<lambda>q. (s\<lparr>lkOutPriQ := q\<rparr>, l))))"

definition lk_open :: "LonStatusCode \<Rightarrow> u32 \<Rightarrow> LonUsbIfaceType \<Rightarrow> lk_memory \<Rightarrow> lk_state \<Rightarrow> LonStatusCode \<times> lk_state" where
  "lk_open hal_open now ty mem = (\<lambda>(s, l).
     (case OpenLonUsbLink (memUsb mem) hal_open now ty (linkInitialized l, lkUsb l) of
        (st, opened, u) \<Rightarrow>
          (st, s\<lparr>resetOk := (st = LonStatusNoError)\<rparr>, l\<lparr>linkInitialized := opened, lkUsb := u\<rparr>)))"

definition LinkLayerReset :: "nat \<Rightarrow> LonStatusCode \<Rightarrow> u32 \<Rightarrow> LonUsbIfaceType \<Rightarrow> lk_memory \<Rightarrow> lk_state \<Rightarrow>
    LonStatusCode \<times> lk_state" where
  "LinkLayerReset sizeofSend hal_open now ty mem x =
     (case and_then (lk_reset_in mem x) (\<lambda>x.
           and_then (lk_reset_out sizeofSend mem x) (lk_reset_out_pri sizeofSend mem)) of
        Inl r \<Rightarrow> r
      | Inr x \<Rightarrow> lk_open hal_open now ty mem x)"

section \<open>Sending\<close>

text \<open>
  The length byte of the message counts the header and the NPDU modulo 256. The NPDU is copied
  behind the header when it is not longer than the PDU of the message, header not counted.
\<close>

definition link_frame :: "bytes \<Rightarrow> bool \<Rightarrow> LKSendParam \<Rightarrow> LonDataFrame" where
  "link_frame stale pri p =
     (let pdu = copy_into stale 0 [LPDU_header pri (lksAltPath p) (lksDeltaBL p)]
      in \<lparr>dfCommand = LonNiNetworkMgmtCmd, dfLength = of_nat (lksPduSize p + 1),
          dfPdu = (if lksPduSize p \<le> MAX_LON_MSG_EX_LEN
                   then copy_into pdu 1 (bytes_from (lksNpdu p) 0 (lksPduSize p)) else pdu)\<rparr>)"

definition link_send :: "bytes \<Rightarrow> bool \<Rightarrow> lk_state \<Rightarrow> lk_state" where
  "link_send stale pri = (\<lambda>(s, l).
     (case QueueHead (lkQ pri s) of
        None \<Rightarrow> (null_pointer s, l)
      | Some p \<Rightarrow>
          (set_lkQ pri (QueueDropHead (lkQ pri s)) s,
           if LonUsbLinkReady (lkUsb l)
           then l\<lparr>lkUsb := snd (WriteLonUsbMsg (link_frame stale pri p) (lkUsb l))\<rparr> else l)))"

definition LinkLayerUsbSend :: "bytes \<Rightarrow> lk_state \<Rightarrow> lk_state" where
  "LinkLayerUsbSend stale x =
     (if \<not> QueueEmpty (lkOutPriQ (fst x)) then link_send stale True x
      else if \<not> QueueEmpty (lkOutQ (fst x)) then link_send stale False x
      else x)"

section \<open>Receiving\<close>

text \<open>
  In this build nothing sets the pointer to the LPDU and its size: the entry for the network
  layer is made of whatever they are.
\<close>

definition link_receive :: "bytes \<Rightarrow> u16 \<Rightarrow> stack \<Rightarrow> stack" where
  "link_receive lpdu lpduSize s =
     (let s1 = IncrementStat LcsL2Rx s; n = unat (lpduSize - 3)
      in if QueueFull (nwInQ s1) then IncrementStat LcsMissed s1
         else s1\<lparr>nwInQ := QueueEmit (\<lambda>r. r\<lparr>nwrPriority := LPDU_priority (byte_at lpdu 0),
               nwrAltPath := LPDU_altPath (byte_at lpdu 0), nwrPduSize := n,
               nwrPdu := (if n \<le> nwInBufSize s1 then bytes_from lpdu 1 n else nwrPdu r)\<rparr>) (nwInQ s1)\<rparr>)"

definition advance_head :: "link_layer \<Rightarrow> link_layer" where
  "advance_head l =
     (let head = lkInQHead l + lkInBufSize l
      in l\<lparr>lkInQ := map_option (\<lambda>d. d[lkInQHead l := 0]) (lkInQ l),
           lkInQHead := (if head = lkInBufSize l * lkInQCnt l then 0 else head)\<rparr>)"

definition LinkLayerUsbReceive ::
    "hal_write \<Rightarrow> u32 \<Rightarrow> int \<Rightarrow> LonStatusCode \<times> bytes \<Rightarrow> bytes \<Rightarrow> u16 \<Rightarrow> lk_state \<Rightarrow> lk_state option" where
  "LinkLayerUsbReceive hal now fd got lpdu lpduSize = (\<lambda>(s, l).
     (case ReadLonUsbMsg hal now fd got (lkUsb l) of
        None \<Rightarrow> None
      | Some (st, m, u) \<Rightarrow>
          Some (if st \<noteq> LonStatusNoError then (s, l\<lparr>lkUsb := u\<rparr>)
                else (link_receive lpdu lpduSize s, advance_head (l\<lparr>lkUsb := u\<rparr>)))))"

definition LinkLayerReadUsbUid :: "link_layer \<Rightarrow> LonStatusCode \<times> bytes option" where
  "LinkLayerReadUsbUid l = ReadUsbNiUid (lkUsb l)"

section \<open>What is sent\<close>

lemma LPDU_header_fields:
  "LPDU_priority (LPDU_header pri altPath deltaBL) = pri"
  "altPath \<le> 1 \<Longrightarrow> LPDU_altPath (LPDU_header pri altPath deltaBL) = altPath"
proof -
  show "LPDU_priority (LPDU_header pri altPath deltaBL) = pri"
    by (simp add: LPDU_priority_def LPDU_header_def bit_simps)
  show "LPDU_altPath (LPDU_header pri altPath deltaBL) = altPath" if "altPath \<le> 1"
  proof (rule bit_eqI)
    fix n assume "possible_bit TYPE(8 word) n"
    have "bit altPath n \<Longrightarrow> n = 0"
    proof -
      have "altPath = 0 \<or> altPath = 1" using that by (auto simp: word_le_nat_alt word_unat_eq_iff le_Suc_eq)
      then show "bit altPath n \<Longrightarrow> n = 0" by (auto simp: bit_1_iff)
    qed
    then show "bit (LPDU_altPath (LPDU_header pri altPath deltaBL)) n = bit altPath n"
      by (cases n) (auto simp: LPDU_altPath_def LPDU_header_def bit_simps)
  qed
qed

text \<open>The LPDU of an NPDU that fits a short message: its header and its bytes.\<close>

definition lpdu_of :: "bool \<Rightarrow> LKSendParam \<Rightarrow> bytes" where
  "lpdu_of pri p = LPDU_header pri (lksAltPath p) (lksDeltaBL p) # bytes_from (lksNpdu p) 0 (lksPduSize p)"

lemma link_frame_short:
  assumes "lksPduSize p < 253" "length stale = MAX_LON_MSG_EX_LEN"
  shows "short_message (link_frame stale pri p)"
    "message_body (link_frame stale pri p) = [of_nat (lksPduSize p + 2), LonNiNetworkMgmtCmd] @ lpdu_of pri p"
proof -
  let ?m = "link_frame stale pri p" and ?n = "lksPduSize p"
  have len: "unat (dfLength ?m) = ?n + 1"
    using assms(1) by (simp add: link_frame_def Let_def unsigned_of_nat take_bit_nat_eq_self del: of_nat_add of_nat_Suc)
  have cmd: "dfCommand ?m = LonNiNetworkMgmtCmd" by (simp add: link_frame_def Let_def)
  show "short_message ?m"
    using assms(1) len cmd by (simp add: short_message_def plain_command_def LonNiNetworkMgmtCmd_def
        LonNiDriverCmdMask_def LonNiLayerModeCmd_def LonNiResetDeviceCmd_def LonNiCrcError_def)
  have "bytes_from (dfPdu ?m) 0 (?n + 1) = take (?n + 1) (dfPdu ?m)"
    using bytes_from_eq_take [of 0 "?n + 1" "dfPdu ?m"] assms
    by (simp add: link_frame_def Let_def copy_into_def MAX_LON_MSG_EX_LEN_def)
  also have "\<dots> = lpdu_of pri p"
    using assms by (cases stale) (simp_all add: link_frame_def Let_def copy_into_def lpdu_of_def MAX_LON_MSG_EX_LEN_def)
  finally show "message_body ?m = [of_nat (?n + 2), LonNiNetworkMgmtCmd] @ lpdu_of pri p"
    using len cmd by (simp add: message_body_def) (simp add: link_frame_def Let_def)
qed

lemma lkQ_set [simp]: "lkQ pri (set_lkQ pri q s) = q" by (simp add: lkQ_def set_lkQ_def)

text \<open>
  C20. An NPDU reaches the wire. When the link is ready and idle and its device accepts what is
  written, one turn of the link layer and of the downlink takes the NPDU at the head of an output
  queue, priority first, and sends it as a message of the link: a code packet, then the length,
  the command, the header byte with the priority, path and backlog of the packet, the NPDU's own
  bytes and the checksum, with the frame bytes in them doubled.
\<close>

theorem npdu_reaches_the_wire:
  assumes "sender_idle (lkUsb l)" "LonUsbLinkReady (lkUsb l)" "hal_writes_all hal"
    and "queue_wf (lkOutPriQ s)" "queue_wf (lkOutQ s)" "pri = (queue_list (lkOutPriQ s) \<noteq> [])"
    and "queue_list (lkQ pri s) = p # ps" "lksPduSize p < 253" "length stale = MAX_LON_MSG_EX_LEN"
  shows "\<exists>s' l' u c k. LinkLayerUsbSend stale (s, l) = (s', l') \<and> queue_list (lkQ pri s') = ps \<and>
    ProcessNextDownlinkMessage hal now (lkUsb l') = (LonStatusNoError, u) \<and>
    usbOut u = usbOut (lkUsb l) @ [[FRAME_SYNC, c, 1, k],
      (let body = [of_nat (lksPduSize p + 2), LonNiNetworkMgmtCmd] @ lpdu_of pri p in stuff (body @ [- sum_list body]))]"
proof -
  have q: "queue_wf (lkQ pri s)" using assms(4,5) by (simp add: lkQ_def)
  then have h: "QueueHead (lkQ pri s) = Some p" using assms(7) by (simp add: QueueHead_eq)
  have send: "LinkLayerUsbSend stale (s, l) = link_send stale pri (s, l)"
    using assms(4-7) QueueEmpty_iff by (auto simp: LinkLayerUsbSend_def lkQ_def)
  note m = link_frame_short [OF assms(8,9), of pri]
  obtain u1 u2 c k where w: "WriteLonUsbMsg (link_frame stale pri p) (lkUsb l) = (LonStatusNoError, u1)"
    "ProcessNextDownlinkMessage hal now u1 = (LonStatusNoError, u2)"
    "usbOut u2 = usbOut (lkUsb l) @ [[FRAME_SYNC, c, 1, k], stuff (message_body (link_frame stale pri p) @
       [- sum_list (message_body (link_frame stale pri p))])]"
    using written_message [OF assms(1) m(1) assms(3), of now] by blast
  have "queue_list (lkQ pri (set_lkQ pri (QueueDropHead (lkQ pri s)) s)) = ps"
    using queue_list_DropHead [OF q] assms(7) by simp
  then show ?thesis
    using w assms(2) unfolding send by (simp add: link_send_def h m(2) Let_def)
qed

text \<open>
  While the link is not ready, the link layer takes the packets out of its output queues and
  drops them: the network layer has told the layers above that they were sent.
\<close>

theorem packets_are_dropped_until_the_link_is_ready:
  assumes "\<not> LonUsbLinkReady (lkUsb l)" "queue_wf (lkOutPriQ s)" "queue_wf (lkOutQ s)"
    and "pri = (queue_list (lkOutPriQ s) \<noteq> [])" "queue_list (lkQ pri s) = p # ps"
  shows "\<exists>s'. LinkLayerUsbSend stale (s, l) = (s', l) \<and> queue_list (lkQ pri s') = ps"
proof -
  have q: "queue_wf (lkQ pri s)" using assms(2,3) by (simp add: lkQ_def)
  then have h: "QueueHead (lkQ pri s) = Some p" using assms(5) by (simp add: QueueHead_eq)
  have send: "LinkLayerUsbSend stale (s, l) = link_send stale pri (s, l)"
    using assms(2-5) QueueEmpty_iff by (auto simp: LinkLayerUsbSend_def lkQ_def)
  have "queue_list (lkQ pri (set_lkQ pri (QueueDropHead (lkQ pri s)) s)) = ps"
    using queue_list_DropHead [OF q] assms(5) by simp
  then show ?thesis using assms(1) unfolding send by (simp add: link_send_def h)
qed

text \<open>
  What is handed to the network layer does not depend on the message that was received: two
  links that read different messages in the same state of the stack leave the same stack.
\<close>

theorem received_messages_are_not_handed_up:
  assumes "ReadLonUsbMsg hal now fd got (lkUsb l) = Some (LonStatusNoError, m, u)"
    and "ReadLonUsbMsg hal' now' fd' got' (lkUsb l') = Some (LonStatusNoError, m', u')"
  shows "\<exists>t. map_option fst (LinkLayerUsbReceive hal now fd got lpdu lpduSize (s, l)) = Some t \<and>
    map_option fst (LinkLayerUsbReceive hal' now' fd' got' lpdu lpduSize (s, l')) = Some t"
  using assms by (simp add: LinkLayerUsbReceive_def)

section \<open>The properties on concrete links\<close>

definition readyLayer :: "bool \<Rightarrow> link_layer" where
  "readyLayer rdy = \<lparr>lkInQ = Some (replicate 783 0), lkInBufSize = 261, lkInQCnt = 3, lkInQHead = 0, lkOutQCnt = 3,
     lkOutPriQCnt = 2, linkInitialized = True, lkUsb = (openLink LON_USB_INTERFACE_U50)\<lparr>usbReady := rdy\<rparr>\<rparr>"

definition samplePacket :: LKSendParam where
  "samplePacket = \<lparr>lksDeltaBL = 1, lksAltPath = 0, lksPduSize = 3, lksDomainIndex = 0, lksNpdu = [0x0A, 0x7E, 0x12]\<rparr>"

definition sendingStack :: stack where
  "sendingStack = sampleStack\<lparr>lkOutPriQ := emptyQueue 4 samplePacket, lkOutQ := QueuePut samplePacket (emptyQueue 4 samplePacket)\<rparr>"

lemma sendingStack_queues:
  "queue_wf (lkOutPriQ sendingStack)" "queue_wf (lkOutQ sendingStack)" "queue_list (lkOutPriQ sendingStack) = []"
  "queue_list (lkOutQ sendingStack) = [samplePacket]"
  by (simp_all add: sendingStack_def emptyQueue_wf QueuePut_wf queue_list_Put emptyQueue_list)

theorem npdu_reaches_the_wire_witness:
  "\<exists>s' l' u c k. LinkLayerUsbSend (replicate MAX_LON_MSG_EX_LEN 0) (sendingStack, readyLayer True) = (s', l') \<and>
     queue_list (lkOutQ s') = [] \<and>
     ProcessNextDownlinkMessage (\<lambda>_ b. (LonStatusNoError, length b)) 5 (lkUsb l') = (LonStatusNoError, u) \<and>
     usbOut u = [[0x7E, c, 1, k], [5, 0x12, 1, 0x0A, 0x7E, 0x7E, 0x12, - 178]]"
proof -
  have i: "sender_idle (lkUsb (readyLayer True))"
    using openLink_idle(2) by (simp add: readyLayer_def sender_idle_def)
  have "bytes_from (lksNpdu samplePacket) 0 (lksPduSize samplePacket) = [0x0A, 0x7E, 0x12]"
    by (simp add: samplePacket_def bytes_from_def upt_rec byte_at_def)
  then have lpdu: "lpdu_of False samplePacket = [1, 0x0A, 0x7E, 0x12]"
    by (simp add: lpdu_of_def LPDU_header_def) (simp add: samplePacket_def)
  have lk: "lkQ False s = lkOutQ s" for s by (simp add: lkQ_def)
  have fits: "lksPduSize samplePacket = 3" by (simp add: samplePacket_def)
  show ?thesis
    using npdu_reaches_the_wire [OF i, of "\<lambda>_ b. (LonStatusNoError, length b)" sendingStack False samplePacket "[]"
        "replicate MAX_LON_MSG_EX_LEN 0" 5] sendingStack_queues
    by (simp add: readyLayer_def LonUsbLinkReady_def hal_writes_all_def lk lpdu fits LonNiNetworkMgmtCmd_def FRAME_SYNC_def Let_def)
qed

theorem packets_are_dropped_until_the_link_is_ready_witness:
  "\<exists>s'. LinkLayerUsbSend [] (sendingStack, readyLayer False) = (s', readyLayer False) \<and> queue_list (lkOutQ s') = []"
proof -
  have lk: "lkQ False s = lkOutQ s" for s by (simp add: lkQ_def)
  show ?thesis
    using packets_are_dropped_until_the_link_is_ready [of "readyLayer False" sendingStack False samplePacket "[]" "[]"]
      sendingStack_queues by (simp add: readyLayer_def LonUsbLinkReady_def lk)
qed

definition readingLayer :: "u8 \<Rightarrow> link_layer" where
  "readingLayer b = (readyLayer True)\<lparr>lkUsb := (openLink LON_USB_INTERFACE_U50)\<lparr>uplink_normal_queue :=
     QueuePut (zeroBuffer\<lparr>bufFrame := copy_into (bufFrame zeroBuffer) 0 [4, 0x1A, b, b, b]\<rparr>)
       (uplink_normal_queue (openLink LON_USB_INTERFACE_U50))\<rparr>\<rparr>"

lemma readingLayer_reads:
  "\<exists>m u. ReadLonUsbMsg hal now (- 1) got (lkUsb (readingLayer b)) = Some (LonStatusNoError, m, u)"
proof -
  let ?b = "zeroBuffer\<lparr>bufFrame := copy_into (bufFrame zeroBuffer) 0 [4, 0x1A, b, b, b]\<rparr>"
  let ?q = "uplink_normal_queue (openLink LON_USB_INTERFACE_U50)" and ?u = "lkUsb (readingLayer b)"
  have wf: "queue_wf ?q" "queue_list ?q = []" "queueEntries ?q = 0" "queueCapacity ?q = 16"
    using openLink_idle(1) [unfolded link_idle_def] openLink_up_inv [of LON_USB_INTERFACE_U50]
    by (simp_all add: queue_list_def up_inv_def queue_wf_def)
  have "queue_list (QueuePut ?b ?q) = [?b]" using wf by (simp only: queue_list_Put) simp
  moreover have "queue_wf (QueuePut ?b ?q)" using wf(1) by (rule QueuePut_wf)
  ultimately have "QueueHead (QueuePut ?b ?q) = Some ?b" by (simp add: QueueHead_eq)
  moreover have "QueueEmpty (uplink_priority_queue ?u)"
    by (simp add: readingLayer_def QueueEmpty_def QueueInvalid_def)
  moreover have "uplink_normal_queue ?u = QueuePut ?b ?q" by (simp add: readingLayer_def)
  moreover have "RingBufferSize (uplink_ring_buffer ?u) = 0" "\<not> usbShutdown ?u"
    by (simp_all add: readingLayer_def RingBufferSize_def)
  ultimately show ?thesis
    by (simp add: ReadLonUsbMsg_def feed_ring_def ReadUplinkBuffer_def uplink_queue_def)
qed

theorem received_messages_are_not_handed_up_witness:
  "\<exists>t. map_option fst (LinkLayerUsbReceive (\<lambda>_ b. (LonStatusNoError, length b)) 0 (- 1) (LonStatusNoError, []) [0x80, 7] 4
       (sampleStack, readingLayer 0x55)) = Some t \<and>
     map_option fst (LinkLayerUsbReceive (\<lambda>_ b. (LonStatusNoError, length b)) 0 (- 1) (LonStatusNoError, []) [0x80, 7] 4
       (sampleStack, readingLayer 0xAA)) = Some t"
proof -
  obtain m u m' u' where
    "ReadLonUsbMsg (\<lambda>_ b. (LonStatusNoError, length b)) 0 (- 1) (LonStatusNoError, []) (lkUsb (readingLayer 0x55)) = Some (LonStatusNoError, m, u)"
    "ReadLonUsbMsg (\<lambda>_ b. (LonStatusNoError, length b)) 0 (- 1) (LonStatusNoError, []) (lkUsb (readingLayer 0xAA)) = Some (LonStatusNoError, m', u')"
    using readingLayer_reads by metis
  then show ?thesis by (rule received_messages_are_not_handed_up)
qed

end
