(* ===== verification/Lcs_Eeprom.thy ===== *)
theory Lcs_Eeprom
  imports Lcs_Node
begin

text \<open>
  The node as network management sees it: the stack instance together with the rest of the
  structure \<open>EEPROM\<close> of \<^verbatim>\<open>include/lcs/lcs_node.h\<close>, its layout in bytes, the configuration
  checksum of \<^verbatim>\<open>lcs/lcs_node.c\<close>, the commit flags that \<^verbatim>\<open>lcs/lcs_eeprom.c\<close> sets, and the error
  log that \<open>OsalPrintLog\<close> of \<^verbatim>\<open>abstraction/IzotOsal.c\<close> keeps. \<open>EEPROM\<close> is packed, so its image
  is the concatenation of its members; \<open>eep_store\<close> reads the members back from an image, and
  the two are inverse to each other on well-formed nodes.
\<close>

section \<open>State\<close>

text \<open>
  The members of \<open>readOnlyData\<close> that the layers below do not read are kept as the byte runs
  between those they do: \<open>ArchNum\<close> to \<open>DatapointFixed\<close>, \<open>SnvtStruct\<close>, \<open>ProgramId\<close>,
  \<open>ReadOnly_3\<close> with \<open>ReadOnly_4\<close>, and \<open>Reserved0\<close> to \<open>ReadOnly_8\<close>. \<open>cfgHead\<close> is
  \<open>configData\<close> up to \<open>Config_1\<close>, whose receive timer is \<open>configNonGrpRcv\<close> of the stack and
  whose low half is \<open>cfgLow\<close>. \<open>errorLog\<close> is an \<open>int\<close>, its low byte first. A network
  variable of \<open>nvFixedTable\<close> is its length and the bytes at its address. \<open>snvtHeader\<close> and
  \<open>snvtData\<close> are the first six bytes of \<open>snvt\<close> and the buffer that its \<open>sb\<close> points to;
  \<open>siInfo\<close> is the alias field, the header extension and the capability information one
  behind the other, as \<open>HandleNMWink\<close> assembles them. Calls of the
  application's event handlers are collected in \<open>events\<close>.
\<close>

datatype node_event =
    WinkEvent
  | OfflineEvent
  | OnlineEvent
  | ClearStatsEvent
  | DatapointUpdateEvent nat u8 IzotReceiveSubnetNode u8

record IzotReceiveAddress =
  raDomainFormat :: u8
  raSource :: IzotReceiveSubnetNode
  raDestination :: u8

record NVFixedStruct =
  nvLength :: u8
  nvValue :: bytes

record IzotDpProperty =
  ibolSeq :: "bytes option"
  dpAttribute :: u8

record node =
  stk :: stack
  \<comment> \<open>\<open>EEPROM\<close>\<close>
  roArchitecture :: bytes
  roSnvtStruct :: bytes
  roProgramId :: bytes
  roReadOnly34 :: bytes
  roReserved :: bytes
  cfgHead :: bytes
  cfgLow :: u8
  configCheckSum :: u8
  errorLog :: bytes
  dimensions :: bytes
  nvInitCount :: u8
  eepNodeState :: u8
  appSignature :: bytes
  \<comment> \<open>\<open>NmMap\<close>\<close>
  snvtHeader :: bytes
  snvtData :: bytes
  siInfo :: bytes
  nvFixedTable :: "NVFixedStruct list"
  dpProp :: "IzotDpProperty list"
  \<comment> \<open>\<open>ProtocolStackData\<close>\<close>
  selectQueryFlag :: u8
  manualServiceRequest :: bool
  nvInAddr :: IzotReceiveAddress
  switchoverFailure :: bool
  \<comment> \<open>elsewhere\<close>
  physicalReset :: bool
  commitNetworkImage :: bool
  commitAppData :: bool
  events :: "node_event list"

definition on_stack :: "(stack \<Rightarrow> stack) \<Rightarrow> node \<Rightarrow> node" where
  "on_stack f n = n\<lparr>stk := f (stk n)\<rparr>"

abbreviation node_fault :: "node \<Rightarrow> node" where
  "node_fault \<equiv> on_stack (\<lambda>s. s\<lparr>memFault := True\<rparr>)"

section \<open>Structures as bytes\<close>

definition domain_bytes :: "IzotDomain \<Rightarrow> bytes" where
  "domain_bytes d = domId d @ [domSubnet d, domNodeClone d, domInvalidIdLength d] @ domKey d"

definition domain_of :: "bytes \<Rightarrow> IzotDomain" where
  "domain_of b =
     \<lparr>domId = bytes_from b 0 6, domSubnet = byte_at b 6, domNodeClone = byte_at b 7,
      domInvalidIdLength = byte_at b 8, domKey = bytes_from b 9 6\<rparr>"

definition address_bytes :: "IzotAddress \<Rightarrow> bytes" where
  "address_bytes a =
     [adTypeSize a, adDomainMember a, adRepeatRetry a, adReceiveTransmit a, adGroup a]"

definition address_of :: "bytes \<Rightarrow> IzotAddress" where
  "address_of b =
     \<lparr>adTypeSize = byte_at b 0, adDomainMember = byte_at b 1, adRepeatRetry = byte_at b 2,
      adReceiveTransmit = byte_at b 3, adGroup = byte_at b 4\<rparr>"

definition datapoint_bytes :: "IzotDatapointConfig \<Rightarrow> bytes" where
  "datapoint_bytes c = [dpSelhiDirPrio c, dpSelectorLow c, dpAttribute1 c, dpAttribute2 c]"

definition datapoint_of :: "bytes \<Rightarrow> IzotDatapointConfig" where
  "datapoint_of b =
     \<lparr>dpSelhiDirPrio = byte_at b 0, dpSelectorLow = byte_at b 1, dpAttribute1 = byte_at b 2,
      dpAttribute2 = byte_at b 3\<rparr>"

definition alias_bytes :: "IzotAliasConfig \<Rightarrow> bytes" where
  "alias_bytes c = datapoint_bytes (aliasConfig c) @ [aliasPrimary c]"

definition alias_of :: "bytes \<Rightarrow> IzotAliasConfig" where
  "alias_of b = \<lparr>aliasConfig = datapoint_of b, aliasPrimary = byte_at b 4\<rparr>"

section \<open>Layout of \<open>EEPROM\<close>\<close>

definition sizeof_IzotDomain :: nat where "sizeof_IzotDomain = 15"
definition sizeof_IzotAddress :: nat where "sizeof_IzotAddress = 5"
definition sizeof_IzotDatapointConfig :: nat where "sizeof_IzotDatapointConfig = 4"

definition off_configData :: nat where "off_configData = 47"
definition off_Config_1 :: nat where "off_Config_1 = 71"
definition off_domainTable :: nat where "off_domainTable = 72"
definition off_addrTable :: nat where "off_addrTable = 102"
definition off_nvConfigTable :: nat where "off_nvConfigTable = 1372"
definition off_nvAliasTable :: nat where "off_nvAliasTable = 2388"
definition off_configCheckSum :: nat where "off_configCheckSum = 3658"
definition off_errorLog :: nat where "off_errorLog = 3659"
definition sizeof_EEPROM :: nat where "sizeof_EEPROM = 3673"

definition NV_TABLE_SIZE :: nat where "NV_TABLE_SIZE = 254"

definition Config_1 :: "node \<Rightarrow> u8" where
  "Config_1 n = push_bit 4 (configNonGrpRcv (stk n)) OR cfgLow n"

definition readOnly_bytes :: "node \<Rightarrow> bytes" where
  "readOnly_bytes n =
     (let r = readOnlyData (stk n)
      in roUniqueNodeId r @ roArchitecture n @ roReadOnly1 r # roSnvtStruct n @ roProgramId n @
         roReadOnly2 r # roReadOnly34 n @
         [roAppBufSize r, roNwBufSize r, roPriCnt r, roAppBufCnt r, roNwBufCnt r] @
         roReserved n @ [roExtended r])"

definition config_bytes :: "node \<Rightarrow> bytes" where
  "config_bytes n =
     (let s = stk n
      in cfgHead n @ Config_1 n # concat (map domain_bytes (domainTable s)) @
         concat (map address_bytes (addrTable s)) @
         concat (map datapoint_bytes (nvConfigTable s)) @
         concat (map alias_bytes (nvAliasTable s)))"

definition tail_bytes :: "node \<Rightarrow> bytes" where
  "tail_bytes n =
     configCheckSum n # errorLog n @ dimensions n @ [nvInitCount n, eepNodeState n] @ appSignature n"

definition eep_image :: "node \<Rightarrow> bytes" where
  "eep_image n = readOnly_bytes n @ config_bytes n @ tail_bytes n"

definition readOnly_of :: "bytes \<Rightarrow> IzotReadOnlyData" where
  "readOnly_of b =
     \<lparr>roUniqueNodeId = bytes_from b 0 6, roReadOnly1 = byte_at b 10, roReadOnly2 = byte_at b 21,
      roAppBufSize = byte_at b 24, roNwBufSize = byte_at b 25, roPriCnt = byte_at b 26,
      roAppBufCnt = byte_at b 27, roNwBufCnt = byte_at b 28, roExtended = byte_at b 46\<rparr>"

definition table_of :: "(bytes \<Rightarrow> 'a) \<Rightarrow> bytes \<Rightarrow> nat \<Rightarrow> nat \<Rightarrow> nat \<Rightarrow> 'a list" where
  "table_of f b off k m = map (\<lambda>i. f (bytes_from b (off + k * i) k)) [0..<m]"

definition eep_store :: "bytes \<Rightarrow> node \<Rightarrow> node" where
  "eep_store b n =
     n\<lparr>stk := (stk n)\<lparr>readOnlyData := readOnly_of b,
          configNonGrpRcv := get_attribute 0xF0 4 (byte_at b off_Config_1),
          domainTable := table_of domain_of b off_domainTable sizeof_IzotDomain MAX_DOMAINS,
          addrTable := table_of address_of b off_addrTable sizeof_IzotAddress NUM_ADDR_TBL_ENTRIES,
          nvConfigTable :=
            table_of datapoint_of b off_nvConfigTable sizeof_IzotDatapointConfig NV_TABLE_SIZE,
          nvAliasTable :=
            table_of alias_of b off_nvAliasTable sizeof_IzotAliasConfig NV_ALIAS_TABLE_SIZE\<rparr>,
       roArchitecture := bytes_from b 6 4, roSnvtStruct := bytes_from b 11 2,
       roProgramId := bytes_from b 13 8, roReadOnly34 := bytes_from b 22 2,
       roReserved := bytes_from b 29 17,
       cfgHead := bytes_from b off_configData 24, cfgLow := byte_at b off_Config_1 AND 0x0F,
       configCheckSum := byte_at b off_configCheckSum, errorLog := bytes_from b off_errorLog 4,
       dimensions := bytes_from b 3663 4, nvInitCount := byte_at b 3667,
       eepNodeState := byte_at b 3668, appSignature := bytes_from b 3669 4\<rparr>"

abbreviation IZOT_CONFIG_INPUT_CLOCK :: "node \<Rightarrow> u8" where
  "IZOT_CONFIG_INPUT_CLOCK n \<equiv> get_attribute 0x07 0 (byte_at (cfgHead n) 8)"

abbreviation IZOT_CONFIG_COMM_TYPE :: "node \<Rightarrow> u8" where
  "IZOT_CONFIG_COMM_TYPE n \<equiv> get_attribute 0xE0 5 (byte_at (cfgHead n) 9)"

abbreviation IZOT_CONFIG_NMAUTH :: "node \<Rightarrow> u8" where
  "IZOT_CONFIG_NMAUTH n \<equiv> get_attribute 0x08 3 (Config_1 n)"

abbreviation IZOT_READONLY_RW_PROTECT :: "node \<Rightarrow> u8" where
  "IZOT_READONLY_RW_PROTECT n \<equiv> get_attribute 0x80 7 (roReadOnly1 (readOnlyData (stk n)))"

section \<open>Checksum, persistence and error log\<close>

definition ComputeConfigCheckSum :: "node \<Rightarrow> u8" where
  "ComputeConfigCheckSum n =
     CheckSum8 (bytes_from (eep_image n) off_configData (off_configCheckSum - off_configData))"

definition RecomputeChecksum :: "node \<Rightarrow> node" where
  "RecomputeChecksum n = n\<lparr>configCheckSum := ComputeConfigCheckSum n\<rparr>"

definition LCS_WritePersistentNetworkImage :: "node \<Rightarrow> node" where
  "LCS_WritePersistentNetworkImage n =
     n\<lparr>eepNodeState := IZOT_READONLY_NODE_STATE (readOnlyData (stk n)), commitNetworkImage := True\<rparr>"

definition LCS_WritePersistentAppData :: "node \<Rightarrow> node" where
  "LCS_WritePersistentAppData n = n\<lparr>commitAppData := True\<rparr>"

text \<open>The values of the status codes.\<close>

fun status_value :: "LonStatusCode \<Rightarrow> nat" where
  "status_value LonStatusNoError = 0"
| "status_value LonStatusNoMemoryAvailable = 49"
| "status_value LonStatusInvalidParameter = 27"
| "status_value LonStatusInvalidBufferSize = 166"
| "status_value LonStatusInvalidBufferCount = 42"
| "status_value LonStatusInvalidTimer = 173"
| "status_value LonStatusInvalidDomain = 138"
| "status_value LonStatusInvalidAddrTableIndex = 141"
| "status_value LonStatusInvalidBufferLength = 9"
| "status_value LonStatusTransactionInProgress = 59"
| "status_value LonStatusTransactionNotAvailable = 60"
| "status_value LonStatusDestinationAddressMissing = 80"
| "status_value LonStatusBadAddressType = 133"
| "status_value LonStatusPersistentDataFailure = 111"
| "status_value LonStatusInvalidInterfaceId = 5"
| "status_value LonStatusNoBufferAvailable = 7"
| "status_value LonStatusNoMessageAvailable = 6"
| "status_value LonStatusFrameError = 35"
| "status_value LonStatusTimeout = 48"
| "status_value LonStatusWriteFailed = 15"
| "status_value LonStatusLniWriteFailure = 92"
| "status_value LonStatusLniUniqueIdNotAvailable = 91"
| "status_value LonStatusOpenFailed = 12"
| "status_value LonStatusInvalidMessageLength = 82"
| "status_value LonStatusInvalidMessageAddress = 86"
| "status_value LonStatusInvalidMessageCommand = 87"
| "status_value LonStatusInvalidMessageMode = 88"
| "status_value LonStatusInvalidOperation = 56"
| "status_value LonStatusInvalidDatapointIndex = 147"
| "status_value LonStatusBufferSizeTooSmall = 44"
| "status_value LonStatusUnknownPdu = 146"
| "status_value LonStatusTransactionFailure = 61"
| "status_value LonStatusAuthenticationMismatch = 160"
| "status_value LonStatusWritePastEndOfApplBuffer = 156"
| "status_value LonStatusWritePastEndOfNetBuffer = 151"
| "status_value LonStatusDatapointMsgTooShort = 131"
| "status_value LonStatusStackInitializationFailure = 99"
| "status_value LonStatusReadFailed = 14"
| "status_value LonStatusCallbackNotRegistered = 105"
| "status_value LonStatusDataIntegrityError = 52"
| "status_value LonStatusInternalError = 30"
| "status_value LonStatusNotOpen = 3"
| "status_value LonStatusInvalidMessageService = 83"
| "status_value LonStatusInvalidMessageCode = 84"
| "status_value LonStatusModeChangeFailure = 62"
| "status_value LonStatusDpIndexInvalid = 70"
| "status_value LonStatusDatapointLengthMismatch = 130"
| "status_value LonStatusDatapointUpdateOnOutput = 143"
| "status_value LonStatusTxBufferFull = 93"
| "status_value LonStatusCnfgChecksumError = 153"
| "status_value LonStatusInvalidSegmentType = 110"
| "status_value LonStatusPersistentDataDirError = 113"
| "status_value LonStatusPersistentDataAccessError = 114"
| "status_value LonStatusEepromWriteFail = 132"
| "status_value LonStatusIncompleteMsg = 142"
| "status_value LonStatusIndexInvalid = 102"
| "status_value LonStatusInitializationFailed = 11"
| "status_value LonStatusInvalidMessageTag = 81"
| "status_value LonStatusInvalidNvLength = 169"
| "status_value LonStatusInvalidNvName = 79"
| "status_value LonStatusInvalidSelector = 171"
| "status_value LonStatusInvalidSelfDocumentation = 172"
| "status_value LonStatusNoSelectorsAvailable = 174"
| "status_value LonStatusNoSpaceInNvTable = 78"
| "status_value LonStatusNotConfiguredOnline = 63"
| "status_value LonStatusOutputDpPropagateFailure = 77"
| "status_value LonStatusProxyFailure = 108"
| "status_value LonStatusStackNotInitialized = 98"

definition int_bytes :: "nat \<Rightarrow> bytes" where
  "int_bytes v = map (\<lambda>i. of_nat (v div 256 ^ i mod 256)) [0..<4]"

definition OsalPrintLog :: "LonStatusCode \<Rightarrow> node \<Rightarrow> node" where
  "OsalPrintLog status_code n =
     (if status_code \<noteq> LonStatusNoError \<and> errorLog n \<noteq> int_bytes (status_value status_code)
      then LCS_WritePersistentNetworkImage (n\<lparr>errorLog := int_bytes (status_value status_code)\<rparr>)
      else n)"

section \<open>Well-formed nodes\<close>

definition domain_wf :: "IzotDomain \<Rightarrow> bool" where
  "domain_wf d \<longleftrightarrow> length (domId d) = 6 \<and> length (domKey d) = 6"

definition node_wf :: "node \<Rightarrow> bool" where
  "node_wf n \<longleftrightarrow>
     length (roUniqueNodeId (readOnlyData (stk n))) = 6 \<and> length (roArchitecture n) = 4 \<and>
     length (roSnvtStruct n) = 2 \<and> length (roProgramId n) = 8 \<and> length (roReadOnly34 n) = 2 \<and>
     length (roReserved n) = 17 \<and> length (cfgHead n) = 24 \<and> cfgLow n AND 0x0F = cfgLow n \<and>
     configNonGrpRcv (stk n) AND 0x0F = configNonGrpRcv (stk n) \<and>
     length (domainTable (stk n)) = MAX_DOMAINS \<and> list_all domain_wf (domainTable (stk n)) \<and>
     length (addrTable (stk n)) = NUM_ADDR_TBL_ENTRIES \<and>
     length (nvConfigTable (stk n)) = NV_TABLE_SIZE \<and>
     length (nvAliasTable (stk n)) = NV_ALIAS_TABLE_SIZE \<and>
     length (errorLog n) = 4 \<and> length (dimensions n) = 4 \<and> length (appSignature n) = 4"

lemmas eep_offsets =
  off_configData_def off_Config_1_def off_domainTable_def off_addrTable_def off_nvConfigTable_def
  off_nvAliasTable_def off_configCheckSum_def off_errorLog_def sizeof_EEPROM_def

lemmas eep_sizes =
  sizeof_IzotDomain_def sizeof_IzotAddress_def sizeof_IzotDatapointConfig_def
  sizeof_IzotAliasConfig_def MAX_DOMAINS_def NUM_ADDR_TBL_ENTRIES_def NV_TABLE_SIZE_def
  NV_ALIAS_TABLE_SIZE_def

subsection \<open>Pieces of an image\<close>

lemma bytes_from_join:
  "j = i + m \<Longrightarrow> bytes_from b i m @ bytes_from b j k = bytes_from b i (m + k)"
  by (rule nth_equalityI) (auto simp: nth_append intro!: arg_cong [of _ _ "byte_at b"])

lemma bytes_from_cons:
  "j = Suc i \<Longrightarrow> byte_at b i # bytes_from b j k = bytes_from b i (Suc k)"
  by (rule nth_equalityI) (auto simp: nth_Cons split: nat.split)

lemma bytes_from_single: "[byte_at b i] = bytes_from b i 1"
  by (simp add: bytes_from_def)

lemma bytes_from_skip:
  "length xs \<le> off \<Longrightarrow> bytes_from (xs @ ys) off k = bytes_from ys (off - length xs) k"
  using bytes_from_append [of xs ys "off - length xs" k] by simp

lemma bytes_from_prefix: "length xs = k \<Longrightarrow> bytes_from (xs @ ys) 0 k = xs"
  by (rule nth_equalityI) (auto simp: byte_at_def nth_append)

lemma byte_at_skip: "length xs \<le> i \<Longrightarrow> byte_at (xs @ ys) i = byte_at ys (i - length xs)"
  by (auto simp: byte_at_def nth_append)

lemma byte_at_Cons_numeral [simp]: "byte_at (x # xs) (numeral k) = byte_at xs (pred_numeral k)"
  by (simp add: numeral_eq_Suc)

lemma bytes_from_Cons_numeral [simp]:
  "bytes_from (x # xs) (numeral k) m = bytes_from xs (pred_numeral k) m"
  by (simp add: numeral_eq_Suc)

lemma bytes_from_bytes_from:
  "i + k \<le> m \<Longrightarrow> bytes_from (bytes_from b off m) i k = bytes_from b (off + i) k"
  by (rule nth_equalityI) (auto simp: byte_at_def add.assoc)

lemma bytes_from_full: "length xs = k \<Longrightarrow> bytes_from xs 0 k = xs"
  using bytes_from_all [of xs] by simp

lemma length_concat_map:
  "\<forall>x\<in>set xs. length (g x) = k \<Longrightarrow> length (concat (map g xs)) = k * length xs"
  by (induction xs) auto

lemma table_of_concat:
  "\<forall>x\<in>set xs. length (g x) = k \<and> f (g x) = x \<Longrightarrow>
     table_of f (concat (map g xs) @ ys) 0 k (length xs) = xs"
proof (induction xs)
  case Nil
  then show ?case by (simp add: table_of_def)
next
  case (Cons x xs)
  have "[0..<length (x # xs)] = 0 # map Suc [0..<length xs]"
    by (simp add: map_Suc_upt upt_conv_Cons del: upt_Suc)
  then show ?case
    using Cons by (simp add: table_of_def o_def bytes_from_skip bytes_from_prefix del: upt_Suc)
qed

lemma table_of_skip:
  "length xs \<le> off \<Longrightarrow> table_of f (xs @ ys) off k m = table_of f ys (off - length xs) k m"
  unfolding table_of_def by (auto simp: bytes_from_skip)

lemma table_of_Cons: "0 < off \<Longrightarrow> table_of f (x # ys) off k m = table_of f ys (off - 1) k m"
  using table_of_skip [of "[x]" off f ys k m] by simp

lemma concat_table_of:
  assumes "\<And>c. length c = k \<Longrightarrow> g (f c) = c"
  shows "concat (map g (table_of f b off k m)) = bytes_from b off (k * m)"
proof (induction m)
  case 0
  then show ?case by (simp add: table_of_def bytes_from_def)
next
  case (Suc m)
  then show ?case
    using assms by (simp add: table_of_def bytes_from_join add.commute)
qed

lemma length_structs [simp]:
  "length (address_bytes a) = 5" "length (datapoint_bytes c) = 4" "length (alias_bytes l) = 5"
  "domain_wf d \<Longrightarrow> length (domain_bytes d) = 15"
  by (simp_all add: address_bytes_def datapoint_bytes_def alias_bytes_def domain_bytes_def
      domain_wf_def)

lemma structs_of_bytes:
  "address_of (address_bytes a) = a" "datapoint_of (datapoint_bytes c) = c"
  "alias_of (alias_bytes l) = l" "domain_wf d \<Longrightarrow> domain_of (domain_bytes d) = d"
  by (simp_all add: address_of_def address_bytes_def datapoint_of_def datapoint_bytes_def
      alias_of_def alias_bytes_def domain_of_def domain_bytes_def domain_wf_def
      bytes_from_prefix bytes_from_full bytes_from_skip byte_at_def nth_append
      eval_nat_numeral)

lemma list_of_length:
  "length b = 4 \<longleftrightarrow> (\<exists>p q r s. b = [p, q, r, s])" "length b = 5 \<longleftrightarrow> (\<exists>p q r s t. b = [p, q, r, s, t])"
  by (auto simp: length_Suc_conv numeral_eq_Suc)

lemma bytes_of_structs:
  "length b = 5 \<Longrightarrow> address_bytes (address_of b) = b"
  "length b = 4 \<Longrightarrow> datapoint_bytes (datapoint_of b) = b"
  "length b = 5 \<Longrightarrow> alias_bytes (alias_of b) = b"
  by (auto simp: list_of_length address_of_def address_bytes_def datapoint_of_def
      datapoint_bytes_def alias_of_def alias_bytes_def byte_at_def)

lemma domain_bytes_of: "length b = 15 \<Longrightarrow> domain_bytes (domain_of b) = b"
  using bytes_from_all [of b]
  by (simp add: domain_bytes_def domain_of_def bytes_from_cons bytes_from_join
      del: byte_at_nth)

lemma domain_wf_domain_of [simp]: "domain_wf (domain_of b)"
  by (simp add: domain_wf_def domain_of_def)

subsection \<open>Image and members\<close>

lemma node_wf_lengths:
  assumes "node_wf n"
  shows "length (readOnly_bytes n) = 47" "length (config_bytes n) = 3611" "length (tail_bytes n) = 15"
proof -
  show "length (readOnly_bytes n) = 47" "length (tail_bytes n) = 15"
    using assms by (simp_all add: node_wf_def readOnly_bytes_def tail_bytes_def Let_def)
  show "length (config_bytes n) = 3611"
    using assms length_concat_map [of "domainTable (stk n)" domain_bytes 15]
      length_concat_map [of "addrTable (stk n)" address_bytes 5]
      length_concat_map [of "nvConfigTable (stk n)" datapoint_bytes 4]
      length_concat_map [of "nvAliasTable (stk n)" alias_bytes 5]
    by (simp add: node_wf_def config_bytes_def list_all_iff eep_sizes Let_def)
qed

lemma length_eep_image: "node_wf n \<Longrightarrow> length (eep_image n) = sizeof_EEPROM"
  by (simp add: eep_image_def node_wf_lengths sizeof_EEPROM_def)

lemma ComputeConfigCheckSum_eq:
  "node_wf n \<Longrightarrow> ComputeConfigCheckSum n = CheckSum8 (config_bytes n)"
  by (simp add: ComputeConfigCheckSum_def eep_image_def eep_offsets node_wf_lengths
      bytes_from_skip bytes_from_prefix)

lemma nibble_masks: "(0x0F :: u8) = mask 4" "(0xF0 :: u8) = NOT (mask 4)"
  by (simp_all add: mask_eq_exp_minus_1)

lemma Config_1_split:
  "push_bit 4 (get_attribute 0xF0 4 b) OR (b AND 0x0F) = b"
  unfolding nibble_masks by (rule bit_word_eqI) (auto simp: get_attribute_def bit_simps)

lemma Config_1_join:
  assumes "r AND 0x0F = r" "l AND 0x0F = (l :: u8)"
  shows "get_attribute 0xF0 4 (push_bit 4 r OR l) = r" "(push_bit 4 r OR l) AND 0x0F = l"
proof -
  have low: "\<not> bit x k" if "x AND 0x0F = x" "4 \<le> k" for x :: u8 and k
    using that unfolding nibble_masks by (metis bit_and_iff bit_mask_iff not_less)
  show "get_attribute 0xF0 4 (push_bit 4 r OR l) = r"
    unfolding nibble_masks using low [OF assms(1)] low [OF assms(2)]
    by (intro bit_word_eqI) (auto simp: get_attribute_def bit_simps not_le [symmetric])
  show "(push_bit 4 r OR l) AND 0x0F = l"
    unfolding nibble_masks using low [OF assms(2)]
    by (intro bit_word_eqI) (auto simp: bit_simps not_le [symmetric])
qed

lemma get_attribute_low: "get_attribute 0xF0 4 b AND 0x0F = b' \<longleftrightarrow> get_attribute 0xF0 4 b = b'"
proof -
  have "get_attribute 0xF0 4 b AND 0x0F = get_attribute 0xF0 4 b"
    unfolding nibble_masks by (rule bit_word_eqI) (auto simp: get_attribute_def bit_simps)
  then show ?thesis by simp
qed

lemma node_wf_eep_store [simp]: "node_wf (eep_store b n)"
  by (simp add: node_wf_def eep_store_def readOnly_of_def table_of_def list_all_iff
      get_attribute_low and.assoc)

lemma image_of_store:
  assumes "length b = sizeof_EEPROM"
  shows "eep_image (eep_store b n) = b"
proof -
  let ?n = "eep_store b n"
  have r: "readOnly_bytes ?n = bytes_from b 0 47"
    by (simp add: readOnly_bytes_def eep_store_def readOnly_of_def bytes_from_cons
        bytes_from_join bytes_from_single del: byte_at_nth)
  have t: "tail_bytes ?n = bytes_from b 3658 15"
    by (simp add: tail_bytes_def eep_store_def eep_offsets bytes_from_cons bytes_from_join
        del: byte_at_nth)
  have "Config_1 ?n = byte_at b 71"
    by (simp add: Config_1_def eep_store_def eep_offsets Config_1_split del: byte_at_nth)
  then have c: "config_bytes ?n = bytes_from b 47 3611"
    by (simp add: config_bytes_def eep_store_def eep_offsets eep_sizes
        concat_table_of domain_bytes_of bytes_of_structs bytes_from_cons bytes_from_join
        del: byte_at_nth)
  show ?thesis
    using assms by (simp add: eep_image_def r c t bytes_from_join bytes_from_full sizeof_EEPROM_def)
qed

lemma store_of_image:
  assumes "node_wf n"
  shows "eep_store (eep_image n) n = n"
proof -
  let ?b = "eep_image n" and ?s = "stk n"
  note l = node_wf_lengths [OF assms]
  note w = assms [unfolded node_wf_def]
  have ro: "readOnly_of ?b = readOnlyData ?s" "bytes_from ?b 6 4 = roArchitecture n"
    "bytes_from ?b 11 2 = roSnvtStruct n" "bytes_from ?b 13 8 = roProgramId n"
    "bytes_from ?b 22 2 = roReadOnly34 n" "bytes_from ?b 29 17 = roReserved n"
    using w by (simp_all add: readOnly_of_def eep_image_def readOnly_bytes_def Let_def
        bytes_from_skip bytes_from_prefix byte_at_skip del: byte_at_nth)
  have wf: "\<forall>d\<in>set (domainTable ?s). length (domain_bytes d) = 15 \<and> domain_of (domain_bytes d) = d"
    "\<forall>a\<in>set (addrTable ?s). length (address_bytes a) = 5 \<and> address_of (address_bytes a) = a"
    "\<forall>c\<in>set (nvConfigTable ?s). length (datapoint_bytes c) = 4 \<and> datapoint_of (datapoint_bytes c) = c"
    "\<forall>c\<in>set (nvAliasTable ?s). length (alias_bytes c) = 5 \<and> alias_of (alias_bytes c) = c"
    using w by (auto simp: structs_of_bytes list_all_iff)
  have len: "length (concat (map domain_bytes (domainTable ?s))) = 30"
    "length (concat (map address_bytes (addrTable ?s))) = 1270"
    "length (concat (map datapoint_bytes (nvConfigTable ?s))) = 1016"
    "length (concat (map alias_bytes (nvAliasTable ?s))) = 1270"
    using w length_concat_map [of _ domain_bytes 15] length_concat_map [of _ address_bytes 5]
      length_concat_map [of _ datapoint_bytes 4] length_concat_map [of _ alias_bytes 5] wf
    by (simp_all add: eep_sizes)
  have len_cfg: "length (cfgHead n) = 24" using w by simp
  note skip = eep_image_def config_bytes_def Let_def eep_offsets table_of_skip table_of_Cons
  have "table_of domain_of ?b off_domainTable 15 (length (domainTable ?s)) = domainTable ?s"
    "table_of address_of ?b off_addrTable 5 (length (addrTable ?s)) = addrTable ?s"
    "table_of datapoint_of ?b off_nvConfigTable 4 (length (nvConfigTable ?s)) = nvConfigTable ?s"
    "table_of alias_of ?b off_nvAliasTable 5 (length (nvAliasTable ?s)) = nvAliasTable ?s"
    using l len len_cfg by (simp_all add: skip table_of_concat [OF wf(1)] table_of_concat [OF wf(2)]
        table_of_concat [OF wf(3)] table_of_concat [OF wf(4)])
  then have tables: "table_of domain_of ?b off_domainTable 15 MAX_DOMAINS = domainTable ?s"
    "table_of address_of ?b off_addrTable 5 NUM_ADDR_TBL_ENTRIES = addrTable ?s"
    "table_of datapoint_of ?b off_nvConfigTable 4 NV_TABLE_SIZE = nvConfigTable ?s"
    "table_of alias_of ?b off_nvAliasTable 5 NV_ALIAS_TABLE_SIZE = nvAliasTable ?s"
    using w by simp_all
  have cfg: "bytes_from ?b off_configData 24 = cfgHead n" "byte_at ?b off_Config_1 = Config_1 n"
    using w l by (simp_all add: eep_image_def config_bytes_def Let_def eep_offsets
        bytes_from_skip bytes_from_prefix byte_at_skip del: byte_at_nth)
  have tail: "byte_at ?b off_configCheckSum = configCheckSum n" "bytes_from ?b off_errorLog 4 = errorLog n"
    "bytes_from ?b 3663 4 = dimensions n" "byte_at ?b 3667 = nvInitCount n"
    "byte_at ?b 3668 = eepNodeState n" "bytes_from ?b 3669 4 = appSignature n"
    using w l by (simp_all add: eep_image_def tail_bytes_def Let_def eep_offsets bytes_from_full
        bytes_from_skip bytes_from_prefix byte_at_skip del: byte_at_nth)
  show ?thesis
    unfolding eep_store_def ro cfg tail sizeof_IzotDomain_def sizeof_IzotAddress_def
      sizeof_IzotDatapointConfig_def sizeof_IzotAliasConfig_def tables
    using w by (simp add: Config_1_def Config_1_join)
qed

end
