(* ===== verification/Lcs_Nm.thy ===== *)
theory Lcs_Nm
  imports Lcs_Eeprom
begin

text \<open>
  The responses of the application layer (\<^verbatim>\<open>lcs/lcs_app.c\<close>) and the handlers of
  \<^verbatim>\<open>lcs/lcs_netmgmt.c\<close> that read and write the tables of the node: domains, keys, addresses
  and the configuration of network variables and aliases. A handler takes the entry at the
  head of the input queue, \<open>appReceiveParamPtr\<close> with the APDU behind it.
\<close>

section \<open>Messages\<close>

datatype NtwkMgmtMsgType = ND_MESSAGE | NM_MESSAGE

abbreviation apdu_code :: "APPReceiveParam \<Rightarrow> u8" where
  "apdu_code a \<equiv> byte_at (aprApdu a) 0"

definition apdu_data :: "APPReceiveParam \<Rightarrow> nat \<Rightarrow> u8" where
  "apdu_data a i = byte_at (aprApdu a) (Suc i)"

definition apdu_bytes :: "APPReceiveParam \<Rightarrow> nat \<Rightarrow> nat \<Rightarrow> bytes" where
  "apdu_bytes a i k = bytes_from (aprApdu a) (Suc i) k"

definition apdu_word :: "APPReceiveParam \<Rightarrow> nat \<Rightarrow> u16" where
  "apdu_word a i = push_bit 8 (ucast (apdu_data a i)) OR ucast (apdu_data a (i + 1))"

abbreviation nmCode :: "APPReceiveParam \<Rightarrow> u8" where "nmCode a \<equiv> apdu_code a AND 0x1F"
abbreviation ndCode :: "APPReceiveParam \<Rightarrow> u8" where "ndCode a \<equiv> apdu_code a AND 0x0F"

definition NM_resp_success :: u8 where "NM_resp_success = 0x20"
definition NM_resp_failure :: u8 where "NM_resp_failure = 0x00"
definition ND_resp_success :: u8 where "ND_resp_success = 0x30"
definition ND_resp_failure :: u8 where "ND_resp_failure = 0x10"

definition NM_EXPANDED :: u8 where "NM_EXPANDED = 0x00"
definition NM_QUERY_ID :: u8 where "NM_QUERY_ID = 0x01"
definition NM_RESPOND_TO_QUERY :: u8 where "NM_RESPOND_TO_QUERY = 0x02"
definition NM_UPDATE_DOMAIN :: u8 where "NM_UPDATE_DOMAIN = 0x03"
definition NM_LEAVE_DOMAIN :: u8 where "NM_LEAVE_DOMAIN = 0x04"
definition NM_UPDATE_KEY :: u8 where "NM_UPDATE_KEY = 0x05"
definition NM_UPDATE_ADDR :: u8 where "NM_UPDATE_ADDR = 0x06"
definition NM_QUERY_ADDR :: u8 where "NM_QUERY_ADDR = 0x07"
definition NM_QUERY_NV_CNFG :: u8 where "NM_QUERY_NV_CNFG = 0x08"
definition NM_UPDATE_GROUP_ADDR :: u8 where "NM_UPDATE_GROUP_ADDR = 0x09"
definition NM_QUERY_DOMAIN :: u8 where "NM_QUERY_DOMAIN = 0x0A"
definition NM_UPDATE_NV_CNFG :: u8 where "NM_UPDATE_NV_CNFG = 0x0B"
definition NM_SET_NODE_MODE :: u8 where "NM_SET_NODE_MODE = 0x0C"
definition NM_READ_MEMORY :: u8 where "NM_READ_MEMORY = 0x0D"
definition NM_WRITE_MEMORY :: u8 where "NM_WRITE_MEMORY = 0x0E"
definition NM_CHECKSUM_RECALC :: u8 where "NM_CHECKSUM_RECALC = 0x0F"
definition NM_WINK :: u8 where "NM_WINK = 0x10"
definition NM_MEMORY_REFRESH :: u8 where "NM_MEMORY_REFRESH = 0x11"
definition NM_QUERY_SNVT :: u8 where "NM_QUERY_SNVT = 0x12"
definition NM_NV_FETCH :: u8 where "NM_NV_FETCH = 0x13"
definition NM_MANUAL_SERVICE_REQUEST :: u8 where "NM_MANUAL_SERVICE_REQUEST = 0x1F"

definition ND_QUERY_STATUS :: u8 where "ND_QUERY_STATUS = 0x01"
definition ND_PROXY_COMMAND :: u8 where "ND_PROXY_COMMAND = 0x02"
definition ND_CLEAR_STATUS :: u8 where "ND_CLEAR_STATUS = 0x03"
definition ND_QUERY_XCVR :: u8 where "ND_QUERY_XCVR = 0x04"
definition ND_QUERY_STATUS_FLEX :: u8 where "ND_QUERY_STATUS_FLEX = 0x06"
definition ND_QUERY_XCVR_BIDIR :: u8 where "ND_QUERY_XCVR_BIDIR = 0x07"
definition ND_GET_FULL_VERSION :: u8 where "ND_GET_FULL_VERSION = 0x09"

section \<open>Responses\<close>

text \<open>
  A response fills the entry at the tail of the response queue; the fields that it does not
  set, and after a response that does not fit all of the entry, stay in the free slot.
\<close>

definition response :: "u16 \<Rightarrow> bool \<Rightarrow> bool \<Rightarrow> bytes \<Rightarrow> TSASendParam \<Rightarrow> TSASendParam" where
  "response req nullResponse flexResponse apdu p =
     p\<lparr>tssAltPathOverride := False, tssService := IzotServiceResponse, tssReqId := req,
       tssApduSize := length apdu, tssNullResponse := nullResponse,
       tssFlexResponse := flexResponse, tssApdu := apdu\<rparr>"

definition QueueTouch :: "('a \<Rightarrow> 'a) \<Rightarrow> 'a Queue \<Rightarrow> 'a Queue" where
  "QueueTouch f q =
     (case QueueTail q of None \<Rightarrow> q | Some off \<Rightarrow> QueueStore q off (f (QueueDeref q off)))"

abbreviation update_respQ :: "(TSASendParam Queue \<Rightarrow> TSASendParam Queue) \<Rightarrow> node \<Rightarrow> node" where
  "update_respQ f \<equiv> on_stack (\<lambda>s. s\<lparr>tsaRespQ := f (tsaRespQ s)\<rparr>)"

definition AllocSendResponse ::
    "u16 \<Rightarrow> bool \<Rightarrow> u8 \<Rightarrow> bytes \<Rightarrow> node \<Rightarrow> LonStatusCode \<times> node" where
  "AllocSendResponse req nullResponse code dat n =
     (if \<not> QueueFull (tsaRespQ (stk n)) then
        (if length dat + 1 \<le> tsaRespBufSize (stk n) then
           (LonStatusNoError,
            update_respQ (QueueEmit (response req nullResponse False (code # dat))) n)
         else
           (LonStatusNoError,
            update_respQ (QueueTouch (\<lambda>p. (response req nullResponse False [code] p)
                                            \<lparr>tssApduSize := length dat + 1\<rparr>)) n))
      else (LonStatusInvalidOperation, n))"

definition SendResponse :: "u16 \<Rightarrow> u8 \<Rightarrow> bytes \<Rightarrow> node \<Rightarrow> LonStatusCode \<times> node" where
  "SendResponse req code dat n = AllocSendResponse req False code dat n"

definition SendNullResponse :: "u16 \<Rightarrow> node \<Rightarrow> LonStatusCode \<times> node" where
  "SendNullResponse req n = AllocSendResponse req True 0 [] n"

abbreviation answer :: "APPReceiveParam \<Rightarrow> u8 \<Rightarrow> bytes \<Rightarrow> node \<Rightarrow> node" where
  "answer a code dat n \<equiv> snd (SendResponse (aprReqId a) code dat n)"

text \<open>
  Some handlers fill the entry at the tail themselves, without a test for a full queue: a
  null tail pointer is written through.
\<close>

definition respond_at_tail :: "APPReceiveParam \<Rightarrow> bool \<Rightarrow> bool \<Rightarrow> bytes \<Rightarrow> node \<Rightarrow> node" where
  "respond_at_tail a nullResponse flexResponse apdu n =
     (case QueueTail (tsaRespQ (stk n)) of
        None \<Rightarrow> node_fault n
      | Some _ \<Rightarrow> update_respQ (QueueEmit (response (aprReqId a) nullResponse flexResponse apdu)) n)"

definition NMNDRespond ::
    "NtwkMgmtMsgType \<Rightarrow> LonStatusCode \<Rightarrow> APPReceiveParam \<Rightarrow> node \<Rightarrow> node" where
  "NMNDRespond msgType success a n =
     (if aprService a \<noteq> IzotServiceRequest then n
      else
        (let subCode = (case msgType of NM_MESSAGE \<Rightarrow> nmCode a | ND_MESSAGE \<Rightarrow> ndCode a);
             code = (case msgType of
                       NM_MESSAGE \<Rightarrow>
                         (if success \<noteq> LonStatusNoError then NM_resp_success else NM_resp_failure)
                     | ND_MESSAGE \<Rightarrow>
                         (if success \<noteq> LonStatusNoError then ND_resp_success else ND_resp_failure))
                    OR subCode;
             dat = (if subCode = 0 then [apdu_data a 0] else [])
         in answer a code dat n))"

text \<open>Many handlers log the error that they respond with.\<close>

abbreviation log_respond :: "LonStatusCode \<Rightarrow> APPReceiveParam \<Rightarrow> node \<Rightarrow> node" where
  "log_respond sts a n \<equiv> NMNDRespond NM_MESSAGE sts a (OsalPrintLog sts n)"

definition id_bytes :: "node \<Rightarrow> bytes" where
  "id_bytes n = bytes_from (roUniqueNodeId (readOnlyData (stk n))) 0 6 @ bytes_from (roProgramId n) 0 8"

section \<open>Domains and keys\<close>

definition HandleNMUpdateDomain :: "APPReceiveParam \<Rightarrow> node \<Rightarrow> node" where
  "HandleNMUpdateDomain a n =
     (if aprPduSize a \<ge> 2 + sizeof_IzotDomain then
        (let (sts, s) = UpdateDomain (stk n) (domain_of (apdu_bytes a 1 sizeof_IzotDomain))
                          (apdu_data a 0) True
         in NMNDRespond NM_MESSAGE sts a (RecomputeChecksum (n\<lparr>stk := s\<rparr>)))
      else NMNDRespond NM_MESSAGE LonStatusInvalidOperation a n)"

text \<open>The entry that a node leaves in the table: all ones, the name \<open>gmrdwf\<close>, no address.\<close>

definition left_domain :: IzotDomain where
  "left_domain =
     \<lparr>domId = [0x67, 0x6D, 0x72, 0x64, 0x77, 0x66], domSubnet = 0,
      domNodeClone = set_attribute 0x7F 0 0 0xFF, domInvalidIdLength = 0xFF,
      domKey = replicate 6 0xFF\<rparr>"

definition set_node_state :: "u8 \<Rightarrow> stack \<Rightarrow> stack" where
  "set_node_state v s =
     s\<lparr>readOnlyData := (readOnlyData s)
        \<lparr>roReadOnly2 := set_attribute 0x07 0 v (roReadOnly2 (readOnlyData s))\<rparr>\<rparr>"

definition no_domain_left :: "stack \<Rightarrow> bool" where
  "no_domain_left s \<longleftrightarrow>
     (IZOT_READONLY_TWO_DOMAINS (readOnlyData s) = 0 \<and> IZOT_DOMAIN_INVALID (domainTable s ! 0) \<noteq> 0) \<or>
     (IZOT_READONLY_TWO_DOMAINS (readOnlyData s) \<noteq> 0 \<and> IZOT_DOMAIN_INVALID (domainTable s ! 0) \<noteq> 0 \<and>
      IZOT_DOMAIN_INVALID (domainTable s ! 1) \<noteq> 0)"

definition HandleNMLeaveDomain :: "APPReceiveParam \<Rightarrow> node \<Rightarrow> node" where
  "HandleNMLeaveDomain a n =
     (if aprPduSize a \<noteq> 2 then NMNDRespond NM_MESSAGE LonStatusInvalidMessageLength a n
      else if apdu_data a 0 \<noteq> 0 \<and> apdu_data a 0 \<noteq> 1 then log_respond LonStatusInvalidDomain a n
      else
        (let n = on_stack (\<lambda>s. s\<lparr>domainTable := (domainTable s)[unat (apdu_data a 0) := left_domain]\<rparr>) n;
             n = RecomputeChecksum n;
             n = (if apdu_data a 0 \<noteq> domainIndex (srcDmn (aprSrcAddr a))
                  then NMNDRespond NM_MESSAGE LonStatusNoError a n else n)
         in if no_domain_left (stk n)
            then on_stack (\<lambda>s. izot_device_reset (set_node_state IzotApplicationUnconfig s)) n
            else n))"

definition HandleNMUpdateKey :: "APPReceiveParam \<Rightarrow> node \<Rightarrow> node" where
  "HandleNMUpdateKey a n =
     (if aprPduSize a \<noteq> 2 + IZOT_AUTHENTICATION_KEY_LENGTH then
        NMNDRespond NM_MESSAGE LonStatusInvalidMessageLength a n
      else if apdu_data a 0 \<noteq> 0 \<and> apdu_data a 0 \<noteq> 1 then log_respond LonStatusInvalidDomain a n
      else
        (let i = unat (apdu_data a 0); d = domainTable (stk n) ! i;
             d = d\<lparr>domKey := map2 (+) (domKey d) (apdu_bytes a 1 IZOT_AUTHENTICATION_KEY_LENGTH)\<rparr>;
             n = on_stack (\<lambda>s. s\<lparr>domainTable := (domainTable s)[i := d]\<rparr>) n
         in NMNDRespond NM_MESSAGE LonStatusNoError a (RecomputeChecksum n)))"

definition HandleNMQueryDomain :: "APPReceiveParam \<Rightarrow> node \<Rightarrow> node" where
  "HandleNMQueryDomain a n =
     (if aprPduSize a \<noteq> 2 then NMNDRespond NM_MESSAGE LonStatusInvalidMessageLength a n
      else (case AccessDomain (stk n) (apdu_data a 0) of
              None \<Rightarrow> log_respond LonStatusInvalidDomain a n
            | Some i \<Rightarrow> answer a (NM_resp_success OR NM_QUERY_DOMAIN)
                          (domain_bytes (domainTable (stk n) ! i)) n))"

definition HandleNmeUpdateDomain :: "APPReceiveParam \<Rightarrow> node \<Rightarrow> node" where
  "HandleNmeUpdateDomain a n =
     (if aprPduSize a \<ge> 3 + sizeof_IzotDomain - IZOT_AUTHENTICATION_KEY_LENGTH then
        (let (sts, s) = UpdateDomain (stk n) (domain_of (apdu_bytes a 2 sizeof_IzotDomain))
                          (apdu_data a 1) False
         in NMNDRespond NM_MESSAGE sts a (RecomputeChecksum (n\<lparr>stk := s\<rparr>)))
      else NMNDRespond NM_MESSAGE LonStatusInvalidOperation a n)"

definition HandleNmeReportDomain :: "APPReceiveParam \<Rightarrow> node \<Rightarrow> node" where
  "HandleNmeReportDomain a n =
     (if aprPduSize a < 3 then NMNDRespond NM_MESSAGE LonStatusInvalidMessageLength a n
      else (case AccessDomain (stk n) (apdu_data a 1) of
              None \<Rightarrow> log_respond LonStatusInvalidDomain a n
            | Some i \<Rightarrow> answer a (NM_resp_success OR NM_EXPANDED)
                          (apdu_data a 0 # take 9 (domain_bytes (domainTable (stk n) ! i))) n))"

definition HandleNmeReportKey :: "APPReceiveParam \<Rightarrow> node \<Rightarrow> node" where
  "HandleNmeReportKey a n =
     (case (AccessDomain (stk n) 0, AccessDomain (stk n) 1) of
        (Some i, Some j) \<Rightarrow>
          answer a (NM_resp_success OR NM_EXPANDED)
            (apdu_data a 0 # domKey (domainTable (stk n) ! i) @ domKey (domainTable (stk n) ! j)) n
      | _ \<Rightarrow> NMNDRespond NM_MESSAGE LonStatusInvalidDomain a n)"

text \<open>One round of the loop over the two domains; an error would end it.\<close>

definition nme_update_key ::
    "APPReceiveParam \<Rightarrow> u8 \<Rightarrow> LonStatusCode \<times> node \<Rightarrow> LonStatusCode \<times> node" where
  "nme_update_key a i r =
     (let (sts, n) = r
      in if sts \<noteq> LonStatusNoError then (sts, n)
         else
           (let d = domainTable (stk n) ! unat i;
                old = (if apdu_data a 1 = 1 then domKey d
                       else replicate IZOT_AUTHENTICATION_KEY_LENGTH 0);
                d = d\<lparr>domKey := map2 (+) old (apdu_bytes a (2 + 6 * unat i) 6)\<rparr>;
                n = on_stack (\<lambda>s. s\<lparr>domainTable := (domainTable s)[unat i := d]\<rparr>) n;
                (sts, s) = UpdateDomain (stk n) d i True
            in (sts, n\<lparr>stk := s\<rparr>)))"

definition HandleNmeUpdateKey :: "APPReceiveParam \<Rightarrow> node \<Rightarrow> node" where
  "HandleNmeUpdateKey a n =
     (if aprPduSize a \<ge> 3 + 12 \<and> AccessDomain (stk n) 1 \<noteq> None then
        (let (sts, n) = nme_update_key a 1 (nme_update_key a 0 (LonStatusNoError, n))
         in NMNDRespond NM_MESSAGE sts a (RecomputeChecksum n))
      else NMNDRespond NM_MESSAGE LonStatusInvalidOperation a n)"

section \<open>Addresses\<close>

text \<open>
  The multicast memberships of the UDP link are not part of this build. The test of the old
  entry reads the address table before the index is checked; the value is not used.
\<close>

definition HandleNMUpdateAddr :: "APPReceiveParam \<Rightarrow> node \<Rightarrow> node" where
  "HandleNMUpdateAddr a n =
     (if aprPduSize a \<ge> (if apdu_data a 1 = 0 then 6 else 7) then
        (let (sts, s) = UpdateAddress (stk n) (address_of (apdu_bytes a 1 sizeof_IzotAddress))
                          (unat (apdu_data a 0))
         in NMNDRespond NM_MESSAGE sts a (RecomputeChecksum (n\<lparr>stk := s\<rparr>)))
      else NMNDRespond NM_MESSAGE LonStatusInvalidOperation a n)"

definition HandleNMQueryAddr :: "APPReceiveParam \<Rightarrow> node \<Rightarrow> node" where
  "HandleNMQueryAddr a n =
     (if aprPduSize a < 2 then NMNDRespond NM_MESSAGE LonStatusInvalidMessageLength a n
      else if apdu_data a 0 \<ge> roExtended (readOnlyData (stk n)) then
        log_respond LonStatusInvalidAddrTableIndex a n
      else answer a (NM_resp_success OR NM_QUERY_ADDR)
             (address_bytes (addrTable (stk n) ! unat (apdu_data a 0))) n)"

definition update_group :: "IzotAddress \<Rightarrow> IzotAddress \<Rightarrow> IzotAddress" where
  "update_group new ap =
     ap\<lparr>adTypeSize := set_attribute 0x7F 0 (get_attribute 0x7F 0 (adTypeSize new)) (adTypeSize ap),
        adRepeatRetry :=
          set_attribute 0x0F 0 (get_attribute 0x0F 0 (adRepeatRetry new))
            (set_attribute 0xF0 4 (get_attribute 0xF0 4 (adRepeatRetry new)) (adRepeatRetry ap)),
        adReceiveTransmit :=
          set_attribute 0x0F 0 (get_attribute 0x0F 0 (adReceiveTransmit new))
            (set_attribute 0xF0 4 (get_attribute 0xF0 4 (adReceiveTransmit new))
               (adReceiveTransmit ap))\<rparr>"

definition HandleNMUpdateGroupAddr :: "APPReceiveParam \<Rightarrow> node \<Rightarrow> node" where
  "HandleNMUpdateGroupAddr a n =
     (let src = aprSrcAddr a; new = address_of (apdu_bytes a 0 sizeof_IzotAddress);
          addrIndex = (if IZOT_ADDRESS_GROUP_TYPE new = 1
                       then AddrTableIndex (stk n) (domainIndex (srcDmn src)) (srcGroup src) else 0)
      in if srcMode src \<noteq> AM_MULTICAST \<or> domainIndex (srcDmn src) = FLEX_DOMAIN then
           NMNDRespond NM_MESSAGE LonStatusInvalidMessageService a n
         else if aprPduSize a \<noteq> 1 + sizeof_IzotAddress then
           NMNDRespond NM_MESSAGE LonStatusInvalidMessageLength a n
         else if IZOT_ADDRESS_GROUP_TYPE new \<noteq> 1 \<or> addrIndex = 0xFF then
           NMNDRespond NM_MESSAGE LonStatusInvalidMessageAddress a n
         else
           (case AccessAddress (stk n) addrIndex of
              None \<Rightarrow> node_fault n
            | Some i \<Rightarrow>
                NMNDRespond NM_MESSAGE LonStatusNoError a (RecomputeChecksum
                  (on_stack (\<lambda>s. s\<lparr>addrTable := (addrTable s)[i := update_group new (addrTable s ! i)]\<rparr>) n))))"

section \<open>Configuration of network variables and aliases\<close>

definition sizeof_NVStruct :: nat where "sizeof_NVStruct = 3"
definition sizeof_AliasStruct :: nat where "sizeof_AliasStruct = 6"

text \<open>The index of a datapoint: one byte, or the escape 255 and two bytes.\<close>

definition nv_index :: "APPReceiveParam \<Rightarrow> nat" where
  "nv_index a = (if apdu_data a 0 = 255 then unat (apdu_word a 1) else unat (apdu_data a 0))"

definition HandleNMQueryNvCnfg :: "APPReceiveParam \<Rightarrow> node \<Rightarrow> node" where
  "HandleNMQueryNvCnfg a n =
     (if aprPduSize a \<noteq> 2 \<and> aprPduSize a \<noteq> 4 then
        NMNDRespond NM_MESSAGE LonStatusInvalidMessageLength a n
      else if apdu_data a 0 = 255 \<and> aprPduSize a \<noteq> 4 then
        NMNDRespond NM_MESSAGE LonStatusInvalidMessageLength a n
      else
        (let s = stk n; i = nv_index a
         in if (i < nvTableSize s \<and> 1 + sizeof_NVStruct > tsaRespBufSize s) \<or>
               (i \<ge> nvTableSize s \<and> i < nvTableSize s + NV_ALIAS_TABLE_SIZE \<and>
                1 + sizeof_AliasStruct > tsaRespBufSize s) then
              NMNDRespond NM_MESSAGE LonStatusBufferSizeTooSmall a n
            else if i < nvTableSize s then
              respond_at_tail a False False
                ((NM_resp_success OR NM_QUERY_NV_CNFG) # take 3 (datapoint_bytes (nvConfigTable s ! i))) n
            else if i < nvTableSize s + NV_ALIAS_TABLE_SIZE then
              (let al = nvAliasTable s ! (i - nvTableSize s)
               in respond_at_tail a False False
                    ((NM_resp_success OR NM_QUERY_NV_CNFG) #
                     take 3 (datapoint_bytes (aliasConfig al)) @ [aliasPrimary al, 0xFF, 0xFF]) n)
            else
              respond_at_tail a False False [NM_resp_failure OR NM_QUERY_NV_CNFG]
                (OsalPrintLog LonStatusInvalidDatapointIndex n)))"

text \<open>A short configuration keeps \<open>Attribute2\<close> except its address and encryption fields.\<close>

definition short_config :: "bytes \<Rightarrow> IzotDatapointConfig \<Rightarrow> IzotDatapointConfig" where
  "short_config b c =
     \<lparr>dpSelhiDirPrio = byte_at b 0, dpSelectorLow = byte_at b 1, dpAttribute1 = byte_at b 2,
      dpAttribute2 = set_attribute 0x08 3 0 (set_attribute 0xF0 4 0 (dpAttribute2 c))\<rparr>"

definition HandleNMUpdateNvConfig :: "APPReceiveParam \<Rightarrow> node \<Rightarrow> node" where
  "HandleNMUpdateNvConfig a n =
     (if aprPduSize a < 5 then NMNDRespond NM_MESSAGE LonStatusInvalidMessageLength a n
      else
        (let s = stk n; i = nv_index a; esc = apdu_data a 0 = 255;
             np = apdu_bytes a (if esc then 3 else 1) sizeof_AliasStruct;
             needed = (if i < nvTableSize s then sizeof_NVStruct + (if esc then 4 else 2)
                       else (sizeof_AliasStruct - 2) + (if esc then 4 else 2))
         in if i < nvTableSize s then
              (if aprPduSize a \<ge> needed then
                 NMNDRespond NM_MESSAGE LonStatusNoError a (RecomputeChecksum
                   (on_stack (\<lambda>s. s\<lparr>nvConfigTable := (nvConfigTable s)
                      [i := short_config np (nvConfigTable s ! i)]\<rparr>) n))
               else NMNDRespond NM_MESSAGE LonStatusInvalidMessageLength a n)
            else if i < nvTableSize s + NV_ALIAS_TABLE_SIZE then
              (let j = i - nvTableSize s;
                   needed = (if byte_at np 3 = 0xFF \<and> aprPduSize a \<noteq> needed then needed + 2
                             else needed)
               in if aprPduSize a \<ge> needed then
                    NMNDRespond NM_MESSAGE LonStatusNoError a (RecomputeChecksum
                      (on_stack (\<lambda>s. s\<lparr>nvAliasTable := (nvAliasTable s)
                         [j := \<lparr>aliasConfig = short_config np (aliasConfig (nvAliasTable s ! j)),
                                aliasPrimary = byte_at np 3\<rparr>]\<rparr>) n))
                  else NMNDRespond NM_MESSAGE LonStatusInvalidMessageLength a n)
            else
              NMNDRespond NM_MESSAGE LonStatusInvalidMessageAddress a
                (OsalPrintLog LonStatusInvalidDatapointIndex n)))"

text \<open>
  \<open>LCS_InitAlias\<close> on the image: it clears and sets the bytes from the alias table on.
  The loop of \<open>HandleNmeInitConfig\<close> gives the variables consecutive unbound selectors and
  the authentication bit of the message, the last one for those that it does not name.
\<close>

definition init_alias :: "node \<Rightarrow> node" where
  "init_alias n =
     (let b = eep_image n
      in eep_store (take off_nvAliasTable b @ LCS_InitAlias (drop off_nvAliasTable b)) n)"

fun init_nv_loop ::
    "APPReceiveParam \<Rightarrow> nat \<Rightarrow> u16 \<Rightarrow> bool \<Rightarrow> IzotDatapointConfig list \<Rightarrow> IzotDatapointConfig list" where
  "init_nv_loop a i selectorVal nvAuth [] = []"
| "init_nv_loop a i selectorVal nvAuth (p # ps) =
     (let nvAuth = (if i div 8 < unat (apdu_data a 1)
                    then bit (apdu_data a (2 + i div 8)) (i mod 8) else nvAuth)
      in p\<lparr>dpSelhiDirPrio := set_attribute 0x3F 0 (ucast (drop_bit 8 selectorVal)) (dpSelhiDirPrio p),
           dpSelectorLow := ucast selectorVal,
           dpAttribute1 := set_attribute 0x10 4 (if nvAuth then 1 else 0) (dpAttribute1 p)\<rparr> #
         init_nv_loop a (i + 1) (selectorVal - 1) nvAuth ps)"

definition HandleNmeInitConfig :: "APPReceiveParam \<Rightarrow> node \<Rightarrow> node" where
  "HandleNmeInitConfig a n =
     (if aprPduSize a \<le> 2 then NMNDRespond NM_MESSAGE LonStatusInvalidBufferLength a n
      else
        (let n = init_alias (on_stack LCS_InitAddress n);
             n = on_stack (\<lambda>s. s\<lparr>nvConfigTable :=
                   init_nv_loop a 0 0x3FFF False (take (nvTableSize s) (nvConfigTable s)) @
                   drop (nvTableSize s) (nvConfigTable s)\<rparr>) n
         in NMNDRespond NM_MESSAGE LonStatusNoError a (RecomputeChecksum n)))"

definition HandleNmeUpdateNvCnfg :: "APPReceiveParam \<Rightarrow> node \<Rightarrow> node" where
  "HandleNmeUpdateNvCnfg a n =
     (if aprPduSize a < 6 then NMNDRespond NM_MESSAGE LonStatusInvalidMessageLength a n
      else
        (let i = unat (apdu_word a 1)
         in if i < nvTableSize (stk n) then
              (if aprPduSize a \<ge> sizeof_IzotDatapointConfig + 2 then
                 NMNDRespond NM_MESSAGE LonStatusNoError a (RecomputeChecksum
                   (on_stack (\<lambda>s. s\<lparr>nvConfigTable := (nvConfigTable s)
                      [i := datapoint_of (apdu_bytes a 3 sizeof_IzotDatapointConfig)]\<rparr>) n))
               else NMNDRespond NM_MESSAGE LonStatusInvalidMessageLength a n)
            else log_respond LonStatusInvalidDatapointIndex a n))"

definition HandleNmeQueryNvCnfg :: "APPReceiveParam \<Rightarrow> node \<Rightarrow> node" where
  "HandleNmeQueryNvCnfg a n =
     (if aprPduSize a \<noteq> 4 then NMNDRespond NM_MESSAGE LonStatusInvalidMessageLength a n
      else
        (let i = unat (apdu_word a 1)
         in if i < nvTableSize (stk n) \<and> 1 + sizeof_IzotDatapointConfig > tsaRespBufSize (stk n) then
              NMNDRespond NM_MESSAGE LonStatusBufferSizeTooSmall a n
            else if i < nvTableSize (stk n) then
              answer a (NM_resp_success OR NM_EXPANDED)
                (apdu_data a 0 # datapoint_bytes (nvConfigTable (stk n) ! i)) n
            else log_respond LonStatusInvalidDatapointIndex a n))"

text \<open>
  The two expanded alias commands index the alias table with the number that counts from
  the start of the variable table, so they are stated on the image of \<open>EEPROM\<close>.
\<close>

definition store_alias :: "nat \<Rightarrow> bytes \<Rightarrow> node \<Rightarrow> node" where
  "store_alias i b n =
     (let off = off_nvAliasTable + sizeof_IzotAliasConfig * i;
          n' = eep_store (take sizeof_EEPROM (copy_into (eep_image n) off b)) n
      in if off + length b \<le> sizeof_EEPROM then n' else node_fault n')"

definition HandleNmeUpdateNvAliasCnfg :: "APPReceiveParam \<Rightarrow> node \<Rightarrow> node" where
  "HandleNmeUpdateNvAliasCnfg a n =
     (if aprPduSize a < 10 then NMNDRespond NM_MESSAGE LonStatusInvalidMessageLength a n
      else
        (let i = unat (apdu_word a 1)
         in if i < nvTableSize (stk n) + NV_ALIAS_TABLE_SIZE then
              (if aprPduSize a \<ge> sizeof_IzotAliasConfig + 4 then
                 NMNDRespond NM_MESSAGE LonStatusNoError a (RecomputeChecksum
                   (store_alias i (apdu_bytes a 3 sizeof_IzotAliasConfig) n))
               else NMNDRespond NM_MESSAGE LonStatusInvalidMessageLength a n)
            else log_respond LonStatusInvalidDatapointIndex a n))"

definition HandleNmeQueryNvAliasCnfg :: "APPReceiveParam \<Rightarrow> node \<Rightarrow> node" where
  "HandleNmeQueryNvAliasCnfg a n =
     (if aprPduSize a \<noteq> 4 then NMNDRespond NM_MESSAGE LonStatusInvalidMessageLength a n
      else
        (let s = stk n; i = unat (apdu_word a 1)
         in if i \<ge> nvTableSize s \<and> i < nvTableSize s + NV_ALIAS_TABLE_SIZE \<and>
               1 + sizeof_IzotAliasConfig > tsaRespBufSize s then
              NMNDRespond NM_MESSAGE LonStatusBufferSizeTooSmall a n
            else if i < nvTableSize s + NV_ALIAS_TABLE_SIZE then
              answer a (NM_resp_success OR NM_EXPANDED)
                (apdu_data a 0 #
                 bytes_from (eep_image n) (off_nvAliasTable + sizeof_IzotAliasConfig * i)
                   sizeof_IzotAliasConfig) n
            else log_respond LonStatusInvalidDatapointIndex a n))"

end
