(* ===== verification/Lcs_Nm_Memory.thy ===== *)
theory Lcs_Nm_Memory
  imports Lcs_Nm
begin

text \<open>
  The handlers of \<^verbatim>\<open>lcs/lcs_netmgmt.c\<close> that read and write memory, tell the identity, the
  self-identification data and the status of the node, and set its mode. Memory is flat: the
  addresses of \<open>*eep\<close>, \<open>*nmp\<close> and the variable \<open>nmp\<close>, the compiler's layout of \<open>NmMap\<close> (which
  holds pointers and is not packed), what lies elsewhere and what an uninitialised variable
  holds are a parameter of the model, together with the numbers of the version that the build
  configures.
\<close>

section \<open>The platform\<close>

record platform =
  firmwareVersion :: u8
  firmwareMinor :: u8
  firmwareBuild :: u8
  architectureNumber :: u8
  eepBase :: int
  nmBase :: int
  nmpVar :: int
  nmImage :: "node \<Rightarrow> bytes"
  nmStore :: "bytes \<Rightarrow> node \<Rightarrow> node"
  elsewhere :: "int \<Rightarrow> u8"
  uninitialised :: u8

definition peek :: "platform \<Rightarrow> node \<Rightarrow> int \<Rightarrow> u8" where
  "peek P n p =
     (if eepBase P \<le> p \<and> p < eepBase P + int sizeof_EEPROM then
        byte_at (eep_image n) (nat (p - eepBase P))
      else if nmBase P \<le> p \<and> p < nmBase P + int (length (nmImage P n)) then
        byte_at (nmImage P n) (nat (p - nmBase P))
      else elsewhere P p)"

definition mem_read :: "platform \<Rightarrow> node \<Rightarrow> int \<Rightarrow> nat \<Rightarrow> bytes" where
  "mem_read P n p k = map (\<lambda>i. peek P n (p + int i)) [0..<k]"

text \<open>Whether \<open>k\<close> bytes from an address on lie in \<open>*nmp\<close> or in \<open>*eep\<close>.\<close>

definition in_nm :: "platform \<Rightarrow> node \<Rightarrow> int \<Rightarrow> nat \<Rightarrow> bool" where
  "in_nm P n p k \<longleftrightarrow> nmBase P \<le> p \<and> p + int k \<le> nmBase P + int (length (nmImage P n))"

definition in_eep :: "platform \<Rightarrow> int \<Rightarrow> nat \<Rightarrow> bool" where
  "in_eep P p k \<longleftrightarrow> eepBase P \<le> p \<and> p + int k \<le> eepBase P + int sizeof_EEPROM"

definition mem_write :: "platform \<Rightarrow> int \<Rightarrow> bytes \<Rightarrow> node \<Rightarrow> node" where
  "mem_write P p b n =
     (if in_eep P p (length b) then
        eep_store (copy_into (eep_image n) (nat (p - eepBase P)) b) n
      else nmStore P (copy_into (nmImage P n) (nat (p - nmBase P)) b) n)"

definition ABSOLUTE_MEM_ADDR :: u8 where "ABSOLUTE_MEM_ADDR = 0"
definition READ_ONLY_RELATIVE :: u8 where "READ_ONLY_RELATIVE = 1"
definition CONFIG_RELATIVE :: u8 where "CONFIG_RELATIVE = 2"
definition STAT_RELATIVE :: u8 where "STAT_RELATIVE = 3"
definition MFG_RELATIVE :: u8 where "MFG_RELATIVE = 255"

definition absolute_address :: "platform \<Rightarrow> u16 \<Rightarrow> int" where
  "absolute_address P offset =
     (if offset \<ge> 0xF000 then eepBase P - 0xF000 + int (unat offset) else nmBase P + int (unat offset))"

section \<open>Query ID\<close>

definition NM_SEL_UNCONFIGURED :: u8 where "NM_SEL_UNCONFIGURED = 0"
definition NM_SEL_SELECTED :: u8 where "NM_SEL_SELECTED = 1"
definition NM_SEL_SELECTED_UNCFG :: u8 where "NM_SEL_SELECTED_UNCFG = 2"

definition query_address :: "platform \<Rightarrow> APPReceiveParam \<Rightarrow> int option" where
  "query_address P a =
     (let offset = apdu_word a 2
      in if apdu_data a 1 = ABSOLUTE_MEM_ADDR then Some (absolute_address P offset)
         else if apdu_data a 1 = CONFIG_RELATIVE then
           Some (eepBase P + int off_configData + int (unat offset))
         else if apdu_data a 1 = READ_ONLY_RELATIVE then Some (eepBase P + int (unat offset))
         else None)"

definition query_allowed :: "platform \<Rightarrow> APPReceiveParam \<Rightarrow> int \<Rightarrow> bool" where
  "query_allowed P a memp \<longleftrightarrow>
     memp \<ge> eepBase P \<and> memp + int (unat (apdu_data a 3)) < eepBase P + int off_domainTable"

definition query_id_answer :: "APPReceiveParam \<Rightarrow> node \<Rightarrow> node" where
  "query_id_answer a n =
     (if 1 + IZOT_UNIQUE_ID_LENGTH + 8 \<le> tsaRespBufSize (stk n)
      then respond_at_tail a False False ((NM_resp_success OR NM_QUERY_ID) # id_bytes n) n
      else respond_at_tail a False False [NM_resp_failure OR NM_QUERY_ID] n)"

definition HandleNMQueryId :: "platform \<Rightarrow> APPReceiveParam \<Rightarrow> node \<Rightarrow> node" where
  "HandleNMQueryId P a n =
     (let count = unat (apdu_data a 4); sel = apdu_data a 0;
          failed = respond_at_tail a False False [NM_resp_failure OR NM_QUERY_ID] n;
          silent = respond_at_tail a True False [NM_resp_failure OR NM_QUERY_ID] n
      in if aprPduSize a \<noteq> 2 \<and> aprPduSize a < 6 then
           NMNDRespond NM_MESSAGE LonStatusInvalidMessageLength a n
         else if QueueTail (tsaRespQ (stk n)) = None then node_fault n
         else if aprPduSize a > 2 \<and> aprPduSize a \<noteq> 6 + count then
           NMNDRespond NM_MESSAGE LonStatusInvalidMessageLength a
             (update_respQ (QueueTouch (response (aprReqId a) False False
                [NM_resp_failure OR NM_QUERY_ID])) n)
         else if sel \<noteq> NM_SEL_UNCONFIGURED \<and> sel \<noteq> NM_SEL_SELECTED \<and> sel \<noteq> NM_SEL_SELECTED_UNCFG then
           failed
         else if sel \<noteq> NM_SEL_UNCONFIGURED \<and> selectQueryFlag n = 0 then silent
         else if sel \<noteq> NM_SEL_SELECTED \<and> \<not> NodeUnConfigured (stk n) then silent
         else if aprPduSize a > 2 then
           (case query_address P a of
              None \<Rightarrow> failed
            | Some memp \<Rightarrow>
                if \<not> query_allowed P a memp then failed
                else if apdu_bytes a 5 count \<noteq> mem_read P n memp count then silent
                else query_id_answer a n)
         else query_id_answer a n)"

section \<open>Reading and writing memory\<close>

definition set_input_clock :: "u8 \<Rightarrow> node \<Rightarrow> node" where
  "set_input_clock v n =
     n\<lparr>cfgHead := (cfgHead n)[8 := set_attribute 0x07 0 v (cfgHead n ! 8)]\<rparr>"

definition read_address :: "platform \<Rightarrow> APPReceiveParam \<Rightarrow> int" where
  "read_address P a =
     (let offset = apdu_word a 1; mode = apdu_data a 0
      in if mode = ABSOLUTE_MEM_ADDR then absolute_address P offset
         else if mode = CONFIG_RELATIVE then eepBase P + int off_configData + int (unat offset)
         else if mode = STAT_RELATIVE then nmBase P + int (unat offset)
         else if mode = MFG_RELATIVE then int (unat offset)
         else eepBase P + int (unat offset))"

definition read_allowed :: "platform \<Rightarrow> APPReceiveParam \<Rightarrow> int \<Rightarrow> bool" where
  "read_allowed P a memp \<longleftrightarrow>
     (memp \<ge> eepBase P \<and> memp + int (unat (apdu_data a 3)) < eepBase P + int off_domainTable) \<or>
     (memp = nmpVar P \<and> apdu_data a 3 = 1)"

text \<open>
  The byte behind the response buffer that a read of \<open>tsaRespBufSize\<close> bytes writes, and a
  read through the null pointer of the manufacturer mode, set the fault flag.
\<close>

definition HandleNMReadMemory :: "platform \<Rightarrow> APPReceiveParam \<Rightarrow> node \<Rightarrow> node" where
  "HandleNMReadMemory P a n =
     (let count = unat (apdu_data a 3); memp = read_address P a;
          clockSave = IZOT_CONFIG_INPUT_CLOCK n;
          code = (if apdu_data a 0 = MFG_RELATIVE then NM_resp_failure OR NM_READ_MEMORY
                  else NM_resp_success OR NM_READ_MEMORY)
      in if aprPduSize a < 5 \<or> count > tsaRespBufSize (stk n) then
           NMNDRespond NM_MESSAGE LonStatusInvalidMessageLength a n
         else if IZOT_READONLY_RW_PROTECT n = 1 \<and> \<not> read_allowed P a memp then
           respond_at_tail a False False [NM_resp_failure OR NM_READ_MEMORY] n
         else
           (let n1 = set_input_clock 0 n;
                dat = mem_read P n1 memp count;
                n2 = set_input_clock clockSave n1;
                dat = (if memp = nmBase P \<and> count = 1 then [firmwareVersion P] else dat);
                n3 = (if 1 + count > tsaRespBufSize (stk n) \<or> (apdu_data a 0 = MFG_RELATIVE \<and> count \<noteq> 0)
                      then node_fault n2 else n2)
            in respond_at_tail a False False (code # dat) n3))"

definition write_address :: "platform \<Rightarrow> APPReceiveParam \<Rightarrow> int option" where
  "write_address P a =
     (let offset = apdu_word a 1; mode = apdu_data a 0
      in if mode = ABSOLUTE_MEM_ADDR then Some (absolute_address P offset)
         else if mode = CONFIG_RELATIVE then Some (eepBase P + int off_configData + int (unat offset))
         else if mode = STAT_RELATIVE then Some (nmBase P + int (unat offset))
         else if mode = READ_ONLY_RELATIVE then Some (eepBase P + int (unat offset))
         else None)"

definition HandleNMWriteMemory :: "platform \<Rightarrow> APPReceiveParam \<Rightarrow> node \<Rightarrow> node" where
  "HandleNMWriteMemory P a n =
     (let count = unat (apdu_data a 3); form = apdu_data a 4
      in if aprPduSize a < 6 then NMNDRespond NM_MESSAGE LonStatusInvalidMessageLength a n
         else if aprPduSize a \<noteq> 6 + count \<and> aprPduSize a \<noteq> 17 then
           NMNDRespond NM_MESSAGE LonStatusInvalidMessageLength a n
         else
           (case write_address P a of
              None \<Rightarrow> NMNDRespond NM_MESSAGE LonStatusInvalidMessageMode a n
            | Some memp \<Rightarrow>
                if \<not> in_nm P n memp count \<and> \<not> in_eep P memp count then
                  NMNDRespond NM_MESSAGE LonStatusInvalidMessageCommand a n
                else if IZOT_READONLY_RW_PROTECT n = 1 \<and>
                   \<not> (memp \<ge> eepBase P + int off_configData \<and>
                      memp + int count < eepBase P + int off_domainTable) then
                  NMNDRespond NM_MESSAGE LonStatusInvalidMessageCommand a n
                else
                  (let n = mem_write P memp (apdu_bytes a 5 count) n;
                       n = (if form AND 4 \<noteq> 0 then RecomputeChecksum n else n);
                       n = (if form AND 8 \<noteq> 0 then on_stack izot_device_reset n else n)
                   in NMNDRespond NM_MESSAGE LonStatusNoError a n)))"

section \<open>Checksum, mode and refresh\<close>

definition HandleNMChecksumRecalc :: "APPReceiveParam \<Rightarrow> node \<Rightarrow> node" where
  "HandleNMChecksumRecalc a n = NMNDRespond NM_MESSAGE LonStatusNoError a (RecomputeChecksum n)"

definition IS_APPLESS :: u8 where "IS_APPLESS = 0x01"
definition IzotNoApplicationUnconfig :: u8 where "IzotNoApplicationUnconfig = 3"
definition IzotStateInvalid_7 :: u8 where "IzotStateInvalid_7 = 7"
definition IzotSoftOffLine :: u8 where "IzotSoftOffLine = 12"

definition change_state :: "APPReceiveParam \<Rightarrow> node \<Rightarrow> node" where
  "change_state a n =
     (let state = IZOT_READONLY_NODE_STATE (readOnlyData (stk n))
      in if aprPduSize a \<noteq> 3 then NMNDRespond NM_MESSAGE LonStatusInvalidMessageLength a n
         else if state AND IS_APPLESS \<noteq> 0 \<and> apdu_data a 1 AND IS_APPLESS = 0 \<and> switchoverFailure n then
           NMNDRespond NM_MESSAGE LonStatusModeChangeFailure a n
         else
           (let n = on_stack (set_node_state (apdu_data a 1)) n;
                state = IZOT_READONLY_NODE_STATE (readOnlyData (stk n));
                n = (if state = IzotNoApplicationUnconfig \<or> state = IzotStateInvalid_7
                     then on_stack (\<lambda>s. s\<lparr>appPgmMode := NOT_RUNNING\<rparr>) n else n)
            in NMNDRespond NM_MESSAGE LonStatusNoError a (RecomputeChecksum n)))"

definition HandleNMSetNodeMode :: "APPReceiveParam \<Rightarrow> node \<Rightarrow> node" where
  "HandleNMSetNodeMode a n =
     (let mode = apdu_data a 0
      in if aprPduSize a < 2 \<or> (mode = 3 \<and> aprPduSize a < 3) then
           NMNDRespond NM_MESSAGE LonStatusInvalidMessageLength a n
         else if mode = 0 then
           (let n = (if AppPgmRuns (stk n) then n\<lparr>events := events n @ [OfflineEvent]\<rparr> else n)
            in on_stack (\<lambda>s. s\<lparr>appPgmMode := OFF_LINE\<rparr>) n)
         else if mode = 1 then
           on_stack (\<lambda>s. s\<lparr>appPgmMode := ON_LINE\<rparr>) (n\<lparr>events := events n @ [OnlineEvent]\<rparr>)
         else if mode = 2 then on_stack izot_device_reset n
         else if mode = 3 then change_state a n
         else if mode = 6 then n\<lparr>physicalReset := True\<rparr>
         else on_stack izot_device_reset n)"

definition HandleNMRefresh :: "APPReceiveParam \<Rightarrow> node \<Rightarrow> node" where
  "HandleNMRefresh a n =
     (let offset = unat (apdu_word a 0); offchip = apdu_data a 3;
          result = (if offchip = 0 \<and> offset * 16 < 4096 then NM_resp_success else NM_resp_failure)
      in answer a (result OR NM_MEMORY_REFRESH) [] n)"

section \<open>Self-identification and wink\<close>

definition HandleNMQuerySIData :: "APPReceiveParam \<Rightarrow> node \<Rightarrow> node" where
  "HandleNMQuerySIData a n =
     (let offset = unat (apdu_word a 0); count = unat (apdu_data a 2)
      in if aprPduSize a \<noteq> 4 then NMNDRespond NM_MESSAGE LonStatusInvalidMessageLength a n
         else if count + 1 > tsaRespBufSize (stk n) then
           NMNDRespond NM_MESSAGE LonStatusBufferSizeTooSmall a n
         else
           respond_at_tail a False False
             ((NM_resp_success OR NM_QUERY_SNVT) #
              (if offset + count < 6 then bytes_from (snvtHeader n) offset count
               else if offset < 6 then
                 bytes_from (snvtHeader n) offset (6 - offset) @
                 bytes_from (snvtData n) 0 (count - (6 - offset))
               else bytes_from (snvtData n) (offset - 6) count)) n)"

definition HandleNMWink :: "APPReceiveParam \<Rightarrow> node \<Rightarrow> node" where
  "HandleNMWink a n =
     (let subcmd = (if aprPduSize a > 1 then apdu_data a 0 else 0);
          niIndex = (if aprPduSize a > 2 then apdu_data a 1 else 0);
          offset = unat (apdu_word a 1); count = unat (apdu_data a 3);
          bufSize = tsaRespBufSize (stk n)
      in if aprPduSize a > 5 then NMNDRespond NM_MESSAGE LonStatusInvalidMessageLength a n
         else if aprPduSize a \<le> 1 \<or> subcmd = 0 then
           (if aprService a \<noteq> IzotServiceRequest then n\<lparr>events := events n @ [WinkEvent]\<rparr>
            else NMNDRespond NM_MESSAGE LonStatusInvalidMessageService a n)
         else if aprPduSize a = 5 \<or> subcmd = 7 then
           (if aprService a \<noteq> IzotServiceRequest then
              NMNDRespond NM_MESSAGE LonStatusInvalidMessageService a n
            else if count + 1 \<le> bufSize then
              respond_at_tail a False False
                ((NM_resp_success OR NM_WINK) # bytes_from (siInfo n) offset count) n
            else respond_at_tail a False False [NM_resp_failure OR NM_WINK] n)
         else if aprService a \<noteq> IzotServiceRequest then n
         else if niIndex = 0 \<and> IZOT_UNIQUE_ID_LENGTH + 8 + 2 \<le> bufSize then
           respond_at_tail a False False ((NM_resp_success OR NM_WINK) # 0 # id_bytes n) n
         else respond_at_tail a False False [NM_resp_failure OR NM_WINK] n)"

definition HandleNmeQueryVersion :: "APPReceiveParam \<Rightarrow> node \<Rightarrow> node" where
  "HandleNmeQueryVersion a n =
     answer a (NM_resp_success OR NM_EXPANDED)
       [apdu_data a 0, 2, 0x02, 0x01 OR 0x10 OR 0x40] n"

definition HandleNmeQueryIpAddress :: "APPReceiveParam \<Rightarrow> node \<Rightarrow> node" where
  "HandleNmeQueryIpAddress a n = NMNDRespond NM_MESSAGE LonStatusInvalidOperation a n"

section \<open>Diagnostics\<close>

definition HandleNDQueryUnconfig :: "APPReceiveParam \<Rightarrow> node \<Rightarrow> node" where
  "HandleNDQueryUnconfig a n =
     (if aprPduSize a \<noteq> 2 then NMNDRespond ND_MESSAGE LonStatusInvalidMessageLength a n
      else if \<not> NodeUnConfigured (stk n) then snd (SendNullResponse (aprReqId a) n)
      else answer a (ND_resp_success OR ndCode a) (id_bytes n) n)"

definition SPECIAL_PURPOSE :: u8 where "SPECIAL_PURPOSE = 2"

definition HandleNDTransceiverStatus :: "APPReceiveParam \<Rightarrow> node \<Rightarrow> node" where
  "HandleNDTransceiverStatus a n =
     (if aprPduSize a > 2 \<or>
         (aprPduSize a = 2 \<and>
          \<not> (drop_bit 4 (apdu_code a) = 0x5 \<and> ndCode a = ND_PROXY_COMMAND \<and> apdu_data a 0 = 2)) then
        NMNDRespond ND_MESSAGE LonStatusInvalidMessageLength a n
      else if IZOT_CONFIG_COMM_TYPE n = SPECIAL_PURPOSE then
        answer a (ND_resp_success OR ndCode a) (bytes_from (aprXcvrParams a) 0 7) n
      else answer a (ND_resp_failure OR ndCode a) [] n)"

fun reset_cause_byte :: "IzotResetCause \<Rightarrow> u8" where
  "reset_cause_byte IzotResetCleared = 0x00"
| "reset_cause_byte IzotPowerUpReset = 0x01"
| "reset_cause_byte IzotExternalReset = 0x02"
| "reset_cause_byte IzotWatchdogReset = 0x0C"
| "reset_cause_byte IzotSoftwareReset = 0x14"

definition status_bytes :: "platform \<Rightarrow> node \<Rightarrow> bytes" where
  "status_bytes P n =
     (let s = stk n; state = IZOT_READONLY_NODE_STATE (readOnlyData s)
      in bytes_from (stats s) 0 10 @
         [reset_cause_byte (resetCause s),
          (if state = IzotConfigOnLine \<and> appPgmMode s = OFF_LINE then IzotSoftOffLine else state),
          firmwareVersion P, byte_at (errorLog n) 0, architectureNumber P])"

definition HandleNDQueryStatus :: "platform \<Rightarrow> bool \<Rightarrow> APPReceiveParam \<Rightarrow> node \<Rightarrow> node" where
  "HandleNDQueryStatus P useFlexDomain a n =
     (if ndCode a = ND_QUERY_STATUS \<and> aprPduSize a \<noteq> 1 then
        NMNDRespond ND_MESSAGE LonStatusInvalidMessageLength a n
      else if ndCode a = ND_PROXY_COMMAND \<and> aprPduSize a \<noteq> 2 then
        NMNDRespond ND_MESSAGE LonStatusInvalidMessageLength a n
      else if 1 + 15 \<le> tsaRespBufSize (stk n) then
        respond_at_tail a False useFlexDomain ((ND_resp_success OR ndCode a) # status_bytes P n) n
      else respond_at_tail a False useFlexDomain [ND_resp_failure OR ndCode a] n)"

definition HandleNDClearStatus :: "APPReceiveParam \<Rightarrow> node \<Rightarrow> node" where
  "HandleNDClearStatus a n =
     (let n = on_stack (\<lambda>s. s\<lparr>stats := replicate (2 * LcsNumStats) 0, resetCause := IzotResetCleared\<rparr>) n;
          n = n\<lparr>errorLog := int_bytes 0, events := events n @ [ClearStatsEvent]\<rparr>
      in NMNDRespond ND_MESSAGE LonStatusNoError a n)"

definition HandleNDQueryXcvrBidir :: "APPReceiveParam \<Rightarrow> node \<Rightarrow> node" where
  "HandleNDQueryXcvrBidir a n =
     answer a (ND_resp_success OR ND_QUERY_XCVR_BIDIR) (bytes_from (aprXcvrParams a) 0 7) n"

definition HandleNDGetFullVersion :: "platform \<Rightarrow> APPReceiveParam \<Rightarrow> node \<Rightarrow> node" where
  "HandleNDGetFullVersion P a n =
     answer a (ND_resp_success OR ND_GET_FULL_VERSION)
       [firmwareVersion P, 0, 0, firmwareMinor P, firmwareBuild P, 0] n"

end
