(* ===== verification/Lcs_Nm_Dispatch.thy ===== *)
theory Lcs_Nm_Dispatch
  imports Lcs_Nm_Memory
begin

text \<open>
  The rest of \<^verbatim>\<open>lcs/lcs_netmgmt.c\<close>: the values of network variables, with the byte order
  conversions of \<^verbatim>\<open>lcs/lcs_app.c\<close>, the proxy commands, the manual service request, and the
  two entry points \<open>HandleNM\<close> and \<open>HandleND\<close> with their authentication tests.
\<close>

section \<open>Byte order of datapoints\<close>

text \<open>
  An interchange byte order list holds an offset of one byte, or of two when the first has its
  top bit set, the size and the number of the elements, and ends with \<open>0xFF\<close>; the list ends
  at its last byte here when no such mark follows. One step reads the offset, size and number
  and gives the index behind them.
\<close>

definition IBOL_FINISH :: u8 where "IBOL_FINISH = 0xFF"

definition ibol_step :: "bytes \<Rightarrow> nat \<Rightarrow> nat \<times> nat \<times> nat \<times> nat" where
  "ibol_step ibol i =
     (let b = byte_at ibol i;
          (ndo, i) =
            (if b AND 0x80 \<noteq> 0 then (unat (b AND 0x7F) * 256 + unat (byte_at ibol (i + 1)), i + 2)
             else (unat b, i + 1))
      in (ndo, unat (byte_at ibol i), unat (byte_at ibol (i + 1)), i + 2))"

lemma ibol_step_advances: "ibol_step ibol i = (ndo, sz, elements, j) \<Longrightarrow> i < j"
  by (auto simp: ibol_step_def Let_def split: if_splits)

definition SwapByte :: "bytes \<Rightarrow> nat \<Rightarrow> nat \<Rightarrow> bytes" where
  "SwapByte src off srcSize = rev (bytes_from src off srcSize)"

fun swap_elements :: "bytes \<Rightarrow> nat \<Rightarrow> nat \<Rightarrow> nat \<Rightarrow> bytes" where
  "swap_elements src off sz 0 = []"
| "swap_elements src off sz (Suc elements) =
     SwapByte src off sz @ swap_elements src (off + sz) sz elements"

text \<open>The host data is written from its start on without gaps: the result is what is written.\<close>

function ndi_to_hdi :: "bytes \<Rightarrow> bytes \<Rightarrow> nat \<Rightarrow> bytes" where
  "ndi_to_hdi ndi ibol i =
     (if i < length ibol \<and> byte_at ibol i \<noteq> IBOL_FINISH then
        (case ibol_step ibol i of
           (ndo, sz, elements, j) \<Rightarrow>
             (if sz = 1 then bytes_from ndi ndo (sz * elements)
              else swap_elements ndi ndo sz elements) @ ndi_to_hdi ndi ibol j)
      else [])"
  by pat_completeness auto
termination
  by (relation "measure (\<lambda>(ndi, ibol, i). length ibol - i)")
    (auto dest!: ibol_step_advances [OF sym])

declare ndi_to_hdi.simps [simp del]

definition IzotNdiToHdi :: "bytes \<Rightarrow> bytes \<Rightarrow> bytes" where
  "IzotNdiToHdi ndi ibol = ndi_to_hdi ndi ibol 0"

text \<open>
  The network data is written at the offsets of the list; \<open>None\<close> is a write past its end.
\<close>

definition put_bytes :: "bytes option \<Rightarrow> nat \<Rightarrow> bytes \<Rightarrow> bytes option" where
  "put_bytes dst off b =
     (case dst of
        None \<Rightarrow> None
      | Some d \<Rightarrow> if off + length b \<le> length d then Some (copy_into d off b) else None)"

function hdi_to_ndi :: "bytes \<Rightarrow> bytes \<Rightarrow> bytes option \<Rightarrow> nat \<Rightarrow> nat \<Rightarrow> nat \<Rightarrow> bytes option" where
  "hdi_to_ndi ibol src dst stop i hdo =
     (if i < length ibol \<and> byte_at ibol i \<noteq> IBOL_FINISH then
        (case ibol_step ibol i of
           (ndo, sz, elements, j) \<Rightarrow>
             (let b = (if sz = 1 then bytes_from src hdo (sz * elements)
                       else swap_elements src hdo sz elements);
                  dst = put_bytes dst ndo b; hdo = hdo + sz * elements
              in if hdo \<ge> stop then dst else hdi_to_ndi ibol src dst stop j hdo))
      else dst)"
  by pat_completeness auto
termination
  by (relation "measure (\<lambda>(ibol, src, dst, stop, i, hdo). length ibol - i)")
    (auto dest!: ibol_step_advances [OF sym])

declare hdi_to_ndi.simps [simp del]

definition MAX_STOP_OFFSET :: nat where "MAX_STOP_OFFSET = 0xFFFF"

definition IzotPrepareNetworkData :: "IzotDpProperty \<Rightarrow> nat \<Rightarrow> bytes \<Rightarrow> bytes option" where
  "IzotPrepareNetworkData prop dpLen hdi =
     (let ndi = bytes_from hdi 0 dpLen
      in case ibolSeq prop of
           None \<Rightarrow> Some ndi
         | Some ibol \<Rightarrow> hdi_to_ndi ibol hdi (Some ndi) MAX_STOP_OFFSET 0 0)"

section \<open>Values of network variables\<close>

definition HandleNMNVFetch :: "APPReceiveParam \<Rightarrow> node \<Rightarrow> node" where
  "HandleNMNVFetch a n =
     (if aprPduSize a \<noteq> 2 \<and> aprPduSize a \<noteq> 4 then
        NMNDRespond NM_MESSAGE LonStatusInvalidMessageLength a n
      else if apdu_data a 0 = 255 \<and> aprPduSize a \<noteq> 4 then
        NMNDRespond NM_MESSAGE LonStatusInvalidMessageLength a n
      else if QueueTail (tsaRespQ (stk n)) = None then node_fault n
      else
        (let i = nv_index a; esc = apdu_data a 0 = 255;
             index = (if esc then apdu_bytes a 0 3 else [apdu_data a 0]);
             n' = update_respQ (QueueTouch (\<lambda>p. (response (aprReqId a) False False
                    (byte_at (tssApdu p) 0 # index) p)\<lparr>tssApduSize := tssApduSize p\<rparr>)) n
         in if i < nvTableSize (stk n) then
              (let nv = nvFixedTable n ! i; len = unat (nvLength nv)
               in if len + length index + 1 > tsaRespBufSize (stk n) then
                    NMNDRespond NM_MESSAGE LonStatusBufferSizeTooSmall a n'
                  else
                    (case IzotPrepareNetworkData (dpProp n ! i) len (nvValue nv) of
                       None \<Rightarrow> node_fault n
                     | Some ndi \<Rightarrow>
                         respond_at_tail a False False
                           ((NM_resp_success OR NM_NV_FETCH) # index @ ndi) n))
            else NMNDRespond NM_MESSAGE LonStatusDpIndexInvalid a n'))"

definition MAX_NV_LENGTH :: nat where "MAX_NV_LENGTH = 228"
definition NME_UPDATE_NV_BY_INDEX :: u8 where "NME_UPDATE_NV_BY_INDEX = 0x02"

text \<open>The source address that the application is told, with the format of its union.\<close>

definition receive_address :: "SourceAddress \<Rightarrow> IzotReceiveAddress \<Rightarrow> IzotReceiveAddress" where
  "receive_address src old =
     (let f = set_attribute 0x80 7 (domainIndex (srcDmn src)) (raDomainFormat old);
          f = set_attribute 0x40 6 (if domainIndex (srcDmn src) = FLEX_DOMAIN then 1 else 0) f;
          fmt = (case srcMode src of
                   AM_BROADCAST \<Rightarrow> 0 | AM_MULTICAST \<Rightarrow> 1 | AM_SUBNET_NODE \<Rightarrow> 2
                 | AM_UNIQUE_NODE_ID \<Rightarrow> 3 | _ \<Rightarrow> 5)
      in \<lparr>raDomainFormat = set_attribute 0x3F 0 fmt f, raSource = srcSubnetAddr src,
          raDestination = (if srcMode src = AM_MULTICAST then srcGroup src else raDestination old)\<rparr>)"

definition notify_update :: "APPReceiveParam \<Rightarrow> nat \<Rightarrow> node \<Rightarrow> node" where
  "notify_update a i n =
     (if AppPgmRuns (stk n) then
        (let ra = receive_address (aprSrcAddr a) (nvInAddr n);
             n = n\<lparr>nvInAddr := ra,
                   events := events n @
                     [DatapointUpdateEvent i (raDomainFormat ra) (raSource ra) (raDestination ra)]\<rparr>
         in if get_attribute 0x01 0 (dpAttribute (dpProp n ! i)) \<noteq> 0
            then LCS_WritePersistentAppData n else n)
      else n)"

text \<open>The value goes to the variable; the host form of a converted value is as long as its list says.\<close>

definition store_value :: "APPReceiveParam \<Rightarrow> nat \<Rightarrow> nat \<Rightarrow> node \<Rightarrow> node" where
  "store_value a i dataLength n =
     (let host = (case ibolSeq (dpProp n ! i) of
                    None \<Rightarrow> apdu_bytes a 3 dataLength
                  | Some ibol \<Rightarrow> IzotNdiToHdi (drop 4 (aprApdu a)) ibol);
          nv = nvFixedTable n ! i
      in if length host \<le> length (nvValue nv) \<and> length host \<le> MAX_NV_LENGTH
         then n\<lparr>nvFixedTable := (nvFixedTable n)
                  [i := nv\<lparr>nvValue := copy_into (nvValue nv) 0 host\<rparr>]\<rparr>
         else node_fault n)"

text \<open>
  The primary index of a bad index is \<open>-1\<close>: the length is then read at entry 65535 of the
  table, far outside of it (it is taken not to match), and the authentication bit through a
  null pointer, unless the message was authenticated. The first byte of the response is
  never assigned.
\<close>

definition HandleNmeUpdateNvByIndex :: "platform \<Rightarrow> APPReceiveParam \<Rightarrow> node \<Rightarrow> node" where
  "HandleNmeUpdateNvByIndex P a n =
     (let failed = answer a (NM_resp_failure OR NM_EXPANDED);
          err0 = IZOT_READONLY_NODE_STATE (readOnlyData (stk n)) = IzotNoApplicationUnconfig;
          dataLength = aprPduSize a - 4;
          code = [uninitialised P, NME_UPDATE_NV_BY_INDEX]
      in if aprPduSize a < 5 then log_respond LonStatusDatapointMsgTooShort a n
         else
           (case GetNVStructPtr (stk n) (GetPrimaryIndex (stk n) (sint (apdu_word a 1))) of
              None \<Rightarrow>
                (let n = OsalPrintLog LonStatusDatapointLengthMismatch (node_fault n)
                 in if aprAuth a then failed code n else n)
            | Some cfg \<Rightarrow>
                (let i = nat (GetPrimaryIndex (stk n) (sint (apdu_word a 1)));
                     mismatch = dataLength \<noteq> unat (nvLength (nvFixedTable n ! i));
                     n = (if mismatch then OsalPrintLog LonStatusDatapointLengthMismatch n else n);
                     output = \<not> err0 \<and> \<not> mismatch \<and> get_attribute 0x40 6 (dpSelhiDirPrio cfg) = 1;
                     n = (if output then OsalPrintLog LonStatusDatapointUpdateOnOutput n else n);
                     authOK = aprAuth a \<or> get_attribute 0x10 4 (dpAttribute1 cfg) = 0;
                     n = (if authOK then n else OsalPrintLog LonStatusAuthenticationMismatch n)
                 in if err0 \<or> mismatch \<or> output \<or> \<not> authOK then failed code n
                    else answer a (NM_resp_success OR NM_EXPANDED) code
                           (notify_update a i (store_value a i dataLength n)))))"

section \<open>Proxy commands and service messages\<close>

definition HandleProxyResponse :: "APPReceiveParam \<Rightarrow> node \<Rightarrow> node" where
  "HandleProxyResponse a n =
     (let drop_head = on_stack (\<lambda>s. s\<lparr>appCeRspInQ := QueueDropHead (appCeRspInQ s)\<rparr>)
      in if aprProxyDone a then drop_head n
         else
           (case SendResponse (aprTag a) (apdu_code a) (apdu_bytes a 0 (aprPduSize a - 1)) n of
              (sts, n) \<Rightarrow> if sts = LonStatusNoError then drop_head n else n))"

text \<open>
  The address of a forwarded proxy is copied over \<open>destAddr\<close>, eleven bytes, and the six
  bytes behind it: \<open>domainIndex\<close>, which is set again, \<open>domainLen\<close> and four of \<open>domainId\<close>.
\<close>

definition send_address_of :: "bytes \<Rightarrow> IzotSendAddress" where
  "send_address_of b =
     \<lparr>saTypeSize = byte_at b 0, saDomain = byte_at b 1, saRepeatRetry = byte_at b 2,
      saTransmit = byte_at b 3, saSubnetGroup = byte_at b 4, saNeuronId = bytes_from b 5 6\<rparr>"

definition proxy_request :: "APPReceiveParam \<Rightarrow> TSASendParam \<Rightarrow> TSASendParam" where
  "proxy_request a p =
     p\<lparr>tssDestAddr := send_address_of (apdu_bytes a 1 11),
       tssDmn := \<lparr>domainIndex = domainIndex (srcDmn (aprSrcAddr a)), domainLen = apdu_data a 13,
                  domainId = copy_into (domainId (tssDmn p)) 0 (apdu_bytes a 14 4)\<rparr>,
       tssService := IzotServiceRequest, tssAuth := False, tssTag := aprReqId a,
       tssAltPathOverride := True, tssAltPath := aprAltPath a, tssApduSize := 2,
       tssPriority := aprPriority a, tssProxy := True, tssProxyDone := False, tssProxyCount := 0,
       tssTxInherit := False, tssTxTimerDeltaLast := 0, tssApdu := [apdu_code a, apdu_data a 0]\<rparr>"

definition proxy_target :: "platform \<Rightarrow> APPReceiveParam \<Rightarrow> node \<Rightarrow> node" where
  "proxy_target P a n =
     (if apdu_data a 0 = 0 then HandleNDQueryUnconfig a n
      else if apdu_data a 0 = 1 then HandleNDQueryStatus P False a n
      else if apdu_data a 0 = 2 then HandleNDTransceiverStatus a n
      else NMNDRespond ND_MESSAGE LonStatusInvalidMessageCommand a n)"

definition HandleNDProxyCommand ::
    "platform \<Rightarrow> APPReceiveParam \<Rightarrow> node \<Rightarrow> LonStatusCode \<times> node" where
  "HandleNDProxyCommand P a n =
     (if aprPduSize a = 2 then (LonStatusNoError, proxy_target P a n)
      else if domainIndex (srcDmn (aprSrcAddr a)) = FLEX_DOMAIN \<or>
              (apdu_data a 1 = 2 \<and>
               aprPduSize a \<noteq> 2 + sizeof_IzotAddress + IZOT_UNIQUE_ID_LENGTH) \<or>
              (apdu_data a 1 \<noteq> 2 \<and> aprPduSize a \<noteq> 2 + sizeof_IzotAddress) then
        (LonStatusNoError, NMNDRespond ND_MESSAGE LonStatusInvalidMessageLength a n)
      else if aprPriority a then
        (if QueueFull (tsaOutPriQ (stk n)) then (LonStatusTxBufferFull, n)
         else (LonStatusNoError,
               on_stack (\<lambda>s. s\<lparr>tsaOutPriQ := QueueEmit (proxy_request a) (tsaOutPriQ s)\<rparr>) n))
      else
        (if QueueFull (tsaOutQ (stk n)) then (LonStatusTxBufferFull, n)
         else (LonStatusNoError,
               on_stack (\<lambda>s. s\<lparr>tsaOutQ := QueueEmit (proxy_request a) (tsaOutQ s)\<rparr>) n)))"

definition service_message :: "node \<Rightarrow> NWSendParam \<Rightarrow> NWSendParam" where
  "service_message n p =
     p\<lparr>nwsPduSize := 15,
       nwsDestAddr := \<lparr>dstDmn = (dstDmn (nwsDestAddr p))\<lparr>domainIndex := FLEX_DOMAIN, domainLen := 0\<rparr>,
                       dstAddr = DA_Broadcast 0\<rparr>,
       nwsPduType := APDU_TYPE, nwsDeltaBL := 0, nwsAltPath := 0, nwsTag := 0xFFFF,
       nwsVersion := LsProtocolModeLegacy, nwsPdu := 0x7F # id_bytes n\<rparr>"

definition ManualServiceRequestMessage :: "node \<Rightarrow> LonStatusCode \<times> node" where
  "ManualServiceRequestMessage n =
     (if QueueFull (nwOutQ (stk n)) then
        (LonStatusNoBufferAvailable, OsalPrintLog LonStatusNoBufferAvailable n)
      else if 15 > nwOutBufSize (stk n) then
        (LonStatusInvalidBufferLength,
         OsalPrintLog LonStatusInvalidBufferLength (on_stack (\<lambda>s. s\<lparr>nwOutQ :=
           QueueTouch (\<lambda>p. p\<lparr>nwsPduSize := 15\<rparr>) (nwOutQ s)\<rparr>) n))
      else
        (LonStatusNoError,
         (on_stack (\<lambda>s. s\<lparr>nwOutQ := QueueEmit (service_message n) (nwOutQ s)\<rparr>) n)
           \<lparr>manualServiceRequest := False\<rparr>))"

section \<open>Entry points\<close>

definition NME_QUERY_VERSION :: u8 where "NME_QUERY_VERSION = 0x01"
definition NME_UPDATE_DOMAIN_NO_KEY :: u8 where "NME_UPDATE_DOMAIN_NO_KEY = 0x07"
definition NME_REPORT_DOMAIN_NO_KEY :: u8 where "NME_REPORT_DOMAIN_NO_KEY = 0x08"
definition NME_REPORT_KEY :: u8 where "NME_REPORT_KEY = 0x09"
definition NME_UPDATE_KEY :: u8 where "NME_UPDATE_KEY = 0x0A"
definition NME_INIT_CONFIG :: u8 where "NME_INIT_CONFIG = 0x0F"
definition NME_UPDATE_NV_CONFIG :: u8 where "NME_UPDATE_NV_CONFIG = 0x11"
definition NME_QUERY_NV_CONFIG :: u8 where "NME_QUERY_NV_CONFIG = 0x12"
definition NME_UPDATE_NV_ALIAS_CONFIG :: u8 where "NME_UPDATE_NV_ALIAS_CONFIG = 0x13"
definition NME_QUERY_NV_ALIAS_CONFIG :: u8 where "NME_QUERY_NV_ALIAS_CONFIG = 0x14"
definition NME_QUERY_IP_ADDRESS :: u8 where "NME_QUERY_IP_ADDRESS = 0x19"

definition HandleNMExpanded :: "platform \<Rightarrow> APPReceiveParam \<Rightarrow> node \<Rightarrow> node" where
  "HandleNMExpanded P a n =
     (let c = apdu_data a 0
      in if aprPduSize a < 2 then NMNDRespond NM_MESSAGE LonStatusInvalidMessageLength a n
         else if c = NME_QUERY_VERSION then HandleNmeQueryVersion a n
         else if c = NME_UPDATE_NV_BY_INDEX then HandleNmeUpdateNvByIndex P a n
         else if c = NME_UPDATE_DOMAIN_NO_KEY then HandleNmeUpdateDomain a n
         else if c = NME_REPORT_DOMAIN_NO_KEY then HandleNmeReportDomain a n
         else if c = NME_REPORT_KEY then HandleNmeReportKey a n
         else if c = NME_UPDATE_KEY then HandleNmeUpdateKey a n
         else if c = NME_INIT_CONFIG then HandleNmeInitConfig a n
         else if c = NME_UPDATE_NV_CONFIG then HandleNmeUpdateNvCnfg a n
         else if c = NME_QUERY_NV_CONFIG then HandleNmeQueryNvCnfg a n
         else if c = NME_UPDATE_NV_ALIAS_CONFIG then HandleNmeUpdateNvAliasCnfg a n
         else if c = NME_QUERY_NV_ALIAS_CONFIG then HandleNmeQueryNvAliasCnfg a n
         else if c = NME_QUERY_IP_ADDRESS then HandleNmeQueryIpAddress a n
         else NMNDRespond NM_MESSAGE LonStatusInvalidMessageCommand a n)"

definition respond_to_query :: "APPReceiveParam \<Rightarrow> node \<Rightarrow> node" where
  "respond_to_query a n =
     (if aprPduSize a \<noteq> 2 \<or> (apdu_data a 0 \<noteq> 0 \<and> apdu_data a 0 \<noteq> 1) then
        NMNDRespond NM_MESSAGE LonStatusInvalidMessageLength a n
      else NMNDRespond NM_MESSAGE LonStatusNoError a (n\<lparr>selectQueryFlag := apdu_data a 0\<rparr>))"

definition nm_dispatch :: "platform \<Rightarrow> APPReceiveParam \<Rightarrow> node \<Rightarrow> node" where
  "nm_dispatch P a n =
     (let c = nmCode a
      in if c = NM_EXPANDED then HandleNMExpanded P a n
         else if c = NM_QUERY_ID then HandleNMQueryId P a n
         else if c = NM_RESPOND_TO_QUERY then respond_to_query a n
         else if c = NM_UPDATE_DOMAIN then HandleNMUpdateDomain a n
         else if c = NM_LEAVE_DOMAIN then HandleNMLeaveDomain a n
         else if c = NM_UPDATE_KEY then HandleNMUpdateKey a n
         else if c = NM_UPDATE_ADDR then HandleNMUpdateAddr a n
         else if c = NM_QUERY_ADDR then HandleNMQueryAddr a n
         else if c = NM_QUERY_NV_CNFG then HandleNMQueryNvCnfg a n
         else if c = NM_UPDATE_GROUP_ADDR then HandleNMUpdateGroupAddr a n
         else if c = NM_QUERY_DOMAIN then HandleNMQueryDomain a n
         else if c = NM_UPDATE_NV_CNFG then HandleNMUpdateNvConfig a n
         else if c = NM_SET_NODE_MODE then HandleNMSetNodeMode a n
         else if c = NM_READ_MEMORY then HandleNMReadMemory P a n
         else if c = NM_WRITE_MEMORY then HandleNMWriteMemory P a n
         else if c = NM_CHECKSUM_RECALC then HandleNMChecksumRecalc a n
         else if c = NM_WINK then HandleNMWink a n
         else if c = NM_MEMORY_REFRESH then HandleNMRefresh a n
         else if c = NM_QUERY_SNVT then HandleNMQuerySIData a n
         else if c = NM_NV_FETCH then HandleNMNVFetch a n
         else if c = NM_MANUAL_SERVICE_REQUEST then n
         else NMNDRespond NM_MESSAGE LonStatusInvalidMessageCommand a n)"

text \<open>The test for a changed image, and the release of the message.\<close>

definition persist_changes :: "node \<Rightarrow> node \<Rightarrow> node" where
  "persist_changes save n =
     (if eep_image save \<noteq> eep_image n then LCS_WritePersistentNetworkImage n else n)"

abbreviation drop_message :: "node \<Rightarrow> node" where
  "drop_message \<equiv> on_stack (\<lambda>s. s\<lparr>appInQ := QueueDropHead (appInQ s)\<rparr>)"

definition auth_missing :: "APPReceiveParam \<Rightarrow> node \<Rightarrow> bool" where
  "auth_missing a n \<longleftrightarrow> NodeConfigured (stk n) \<and> IZOT_CONFIG_NMAUTH n \<noteq> 0 \<and> \<not> aprAuth a"

definition nm_needs_auth :: "APPReceiveParam \<Rightarrow> bool" where
  "nm_needs_auth a \<longleftrightarrow>
     nmCode a \<noteq> NM_QUERY_ID \<and> nmCode a \<noteq> NM_RESPOND_TO_QUERY \<and>
     (nmCode a \<noteq> NM_EXPANDED \<or>
      (apdu_data a 0 \<noteq> NME_QUERY_VERSION \<and> apdu_data a 0 \<noteq> NME_QUERY_IP_ADDRESS))"

definition HandleNM :: "platform \<Rightarrow> APPReceiveParam \<Rightarrow> node \<Rightarrow> node" where
  "HandleNM P a n =
     (if auth_missing a n \<and> nm_needs_auth a then
        drop_message (log_respond LonStatusInvalidOperation a n)
      else drop_message (persist_changes n (nm_dispatch P a n)))"

definition nd_needs_auth :: "APPReceiveParam \<Rightarrow> bool" where
  "nd_needs_auth a \<longleftrightarrow>
     ndCode a \<noteq> ND_QUERY_STATUS \<and> ndCode a \<noteq> ND_PROXY_COMMAND \<and> ndCode a \<noteq> ND_QUERY_STATUS_FLEX \<and>
     ndCode a \<noteq> ND_QUERY_XCVR_BIDIR \<and> ndCode a \<noteq> ND_GET_FULL_VERSION"

definition nd_dispatch :: "platform \<Rightarrow> APPReceiveParam \<Rightarrow> node \<Rightarrow> LonStatusCode \<times> node" where
  "nd_dispatch P a n =
     (let c = ndCode a
      in if c = ND_QUERY_STATUS then (LonStatusNoError, HandleNDQueryStatus P False a n)
         else if c = ND_PROXY_COMMAND then HandleNDProxyCommand P a n
         else if c = ND_CLEAR_STATUS then (LonStatusNoError, HandleNDClearStatus a n)
         else if c = ND_QUERY_XCVR then (LonStatusNoError, HandleNDTransceiverStatus a n)
         else if c = ND_QUERY_STATUS_FLEX then (LonStatusNoError, HandleNDQueryStatus P True a n)
         else if c = ND_QUERY_XCVR_BIDIR then (LonStatusNoError, HandleNDQueryXcvrBidir a n)
         else if c = ND_GET_FULL_VERSION then (LonStatusNoError, HandleNDGetFullVersion P a n)
         else (LonStatusNoError, NMNDRespond ND_MESSAGE LonStatusInvalidMessageCommand a n))"

definition HandleND :: "platform \<Rightarrow> APPReceiveParam \<Rightarrow> node \<Rightarrow> node" where
  "HandleND P a n =
     (let (sts, n') =
            (if aprService a = IzotServiceResponse then (LonStatusNoError, n)
             else if auth_missing a n \<and> nd_needs_auth a then
               (LonStatusNoError,
                NMNDRespond ND_MESSAGE LonStatusAuthenticationMismatch a
                  (OsalPrintLog LonStatusAuthenticationMismatch n))
             else nd_dispatch P a n);
          n' = persist_changes n n'
      in if sts = LonStatusNoError then drop_message n' else n')"

end
