(* ===== verification/Lcs_Nm_Safety.thy ===== *)
theory Lcs_Nm_Safety
  imports Lcs_Nm_Dispatch
begin

text \<open>
  What every handler of network management keeps: the well-formedness of the tables, the
  configuration checksum and the entries of the queues, apart from the one response that it
  may add. The contract is the locale \<open>management\<close>; the dispatchers of \<open>HandleNM\<close> and
  \<open>HandleND\<close> fulfil it, and the properties of the two entry points rest on it.
\<close>

section \<open>Intact nodes\<close>

definition checksum_ok :: "node \<Rightarrow> bool" where
  "checksum_ok n \<longleftrightarrow> configCheckSum n = ComputeConfigCheckSum n"

definition intact :: "node \<Rightarrow> bool" where
  "intact n \<longleftrightarrow> node_wf n \<and> checksum_ok n"

text \<open>
  The parameter \<open>platform\<close>: a store into the image of \<open>*nmp\<close> changes members of \<open>NmMap\<close> only.
\<close>

definition platform_ok :: "platform \<Rightarrow> bool" where
  "platform_ok P \<longleftrightarrow>
     (\<forall>b n. \<exists>st rc mt nt rx sh nf.
        nmStore P b n = n\<lparr>stk := (stk n)\<lparr>stats := st, resetCause := rc, mtagCount := mt,
                                      nvTableSize := nt, rxStat := rx\<rparr>,
                          snvtHeader := sh, nvFixedTable := nf\<rparr>)"

lemma node_wf_cong:
  assumes "length (roUniqueNodeId (readOnlyData (stk m))) = length (roUniqueNodeId (readOnlyData (stk n)))"
    "configNonGrpRcv (stk m) = configNonGrpRcv (stk n)" "domainTable (stk m) = domainTable (stk n)"
    "addrTable (stk m) = addrTable (stk n)" "nvConfigTable (stk m) = nvConfigTable (stk n)"
    "nvAliasTable (stk m) = nvAliasTable (stk n)" "roArchitecture m = roArchitecture n"
    "roSnvtStruct m = roSnvtStruct n" "roProgramId m = roProgramId n"
    "roReadOnly34 m = roReadOnly34 n" "roReserved m = roReserved n" "cfgHead m = cfgHead n"
    "cfgLow m = cfgLow n" "length (errorLog m) = length (errorLog n)"
    "dimensions m = dimensions n" "appSignature m = appSignature n"
  shows "node_wf m = node_wf n"
  unfolding node_wf_def assms ..

lemma intact_cong:
  assumes "length (roUniqueNodeId (readOnlyData (stk m))) = length (roUniqueNodeId (readOnlyData (stk n)))"
    "configNonGrpRcv (stk m) = configNonGrpRcv (stk n)" "domainTable (stk m) = domainTable (stk n)"
    "addrTable (stk m) = addrTable (stk n)" "nvConfigTable (stk m) = nvConfigTable (stk n)"
    "nvAliasTable (stk m) = nvAliasTable (stk n)" "roArchitecture m = roArchitecture n"
    "roSnvtStruct m = roSnvtStruct n" "roProgramId m = roProgramId n"
    "roReadOnly34 m = roReadOnly34 n" "roReserved m = roReserved n" "cfgHead m = cfgHead n"
    "cfgLow m = cfgLow n" "length (errorLog m) = length (errorLog n)"
    "dimensions m = dimensions n" "appSignature m = appSignature n"
    "configCheckSum m = configCheckSum n"
  shows "intact m = intact n"
proof -
  have wf: "node_wf m = node_wf n" using assms by (intro node_wf_cong)
  have "config_bytes m = config_bytes n"
    unfolding config_bytes_def Config_1_def Let_def assms ..
  then show ?thesis
    using wf assms(17) unfolding intact_def checksum_ok_def by (auto simp: ComputeConfigCheckSum_eq)
qed

lemma length_int_bytes [simp]: "length (int_bytes v) = 4"
  by (simp add: int_bytes_def)

lemma intact_simps [simp]:
  "intact (update_respQ f n) = intact n" "intact (node_fault n) = intact n"
  "intact (on_stack (\<lambda>s. s\<lparr>appInQ := g (appInQ s)\<rparr>) n) = intact n"
  "intact (on_stack (\<lambda>s. s\<lparr>tsaOutQ := k (tsaOutQ s)\<rparr>) n) = intact n"
  "intact (on_stack (\<lambda>s. s\<lparr>tsaOutPriQ := k (tsaOutPriQ s)\<rparr>) n) = intact n"
  "intact (on_stack (\<lambda>s. s\<lparr>appPgmMode := m\<rparr>) n) = intact n"
  "intact (on_stack (set_node_state v) n) = intact n"
  "intact (on_stack izot_device_reset n) = intact n"
  "intact (on_stack (\<lambda>s. izot_device_reset (set_node_state v s)) n) = intact n"
  "intact (on_stack (\<lambda>s. s\<lparr>stats := st, resetCause := rc\<rparr>) n) = intact n"
  "intact (LCS_WritePersistentNetworkImage n) = intact n"
  "intact (LCS_WritePersistentAppData n) = intact n"
  "intact (n\<lparr>events := e\<rparr>) = intact n" "intact (n\<lparr>physicalReset := b\<rparr>) = intact n"
  "intact (n\<lparr>selectQueryFlag := q\<rparr>) = intact n"
  "intact (n\<lparr>nvInAddr := ra\<rparr>) = intact n"
  "intact (n\<lparr>nvFixedTable := nf\<rparr>) = intact n"
  by (rule intact_cong;
      simp add: on_stack_def set_node_state_def izot_device_reset_def
        LCS_WritePersistentNetworkImage_def LCS_WritePersistentAppData_def)+

lemma intact_errorLog:
  "length e = 4 \<Longrightarrow> intact n \<Longrightarrow> intact (n\<lparr>errorLog := e\<rparr>)"
  "length e = 4 \<Longrightarrow> intact n \<Longrightarrow> intact (n\<lparr>errorLog := e, events := ev\<rparr>)"
  by (subst intact_cong [of _ n]; simp add: intact_def node_wf_def)+

lemma intact_OsalPrintLog [simp]: "intact n \<Longrightarrow> intact (OsalPrintLog st n)"
  by (simp add: OsalPrintLog_def intact_errorLog)

lemma node_wf_RecomputeChecksum [simp]: "node_wf (RecomputeChecksum n) = node_wf n"
  by (simp add: RecomputeChecksum_def node_wf_def)

lemma intact_RecomputeChecksum [simp]: "intact (RecomputeChecksum n) = node_wf n"
proof -
  have "ComputeConfigCheckSum (RecomputeChecksum n) = ComputeConfigCheckSum n" if "node_wf n"
    using that ComputeConfigCheckSum_eq [of n] ComputeConfigCheckSum_eq [of "RecomputeChecksum n"]
    by (simp add: RecomputeChecksum_def config_bytes_def Config_1_def Let_def node_wf_def)
  then show ?thesis
    by (auto simp: intact_def checksum_ok_def) (simp add: RecomputeChecksum_def)
qed

lemma intact_wf: "intact n \<Longrightarrow> node_wf n"
  by (simp add: intact_def)

lemma intact_responses [simp]:
  "intact (snd (AllocSendResponse r nr c d n)) = intact n"
  "intact (snd (SendResponse r c d n)) = intact n"
  "intact (snd (SendNullResponse r n)) = intact n"
  "intact (respond_at_tail a nr fr ap n) = intact n"
  "intact (NMNDRespond t st a n) = intact n"
  by (simp_all add: AllocSendResponse_def SendResponse_def SendNullResponse_def
      respond_at_tail_def NMNDRespond_def Let_def split: option.splits)

section \<open>Updates of the tables\<close>

lemma list_all_update: "list_all p xs \<Longrightarrow> p x \<Longrightarrow> list_all p (xs[i := x])"
  by (auto simp: list_all_iff dest!: set_update_subset_insert [THEN subsetD])

lemma node_wf_tables:
  "node_wf n \<Longrightarrow> list_all domain_wf d \<Longrightarrow> length d = MAX_DOMAINS \<Longrightarrow>
     node_wf (on_stack (\<lambda>s. s\<lparr>domainTable := d\<rparr>) n)"
  "node_wf n \<Longrightarrow> length ad = NUM_ADDR_TBL_ENTRIES \<Longrightarrow>
     node_wf (on_stack (\<lambda>s. s\<lparr>addrTable := ad\<rparr>) n)"
  "node_wf n \<Longrightarrow> length nv = NV_TABLE_SIZE \<Longrightarrow>
     node_wf (on_stack (\<lambda>s. s\<lparr>nvConfigTable := nv\<rparr>) n)"
  "node_wf n \<Longrightarrow> length al = NV_ALIAS_TABLE_SIZE \<Longrightarrow>
     node_wf (on_stack (\<lambda>s. s\<lparr>nvAliasTable := al\<rparr>) n)"
  by (simp_all add: node_wf_def on_stack_def)

lemma on_stack_tables:
  "on_stack (\<lambda>s. s\<lparr>domainTable := f s\<rparr>) n = on_stack (\<lambda>s. s\<lparr>domainTable := f (stk n)\<rparr>) n"
  "on_stack (\<lambda>s. s\<lparr>addrTable := g s\<rparr>) n = on_stack (\<lambda>s. s\<lparr>addrTable := g (stk n)\<rparr>) n"
  "on_stack (\<lambda>s. s\<lparr>nvConfigTable := h s\<rparr>) n = on_stack (\<lambda>s. s\<lparr>nvConfigTable := h (stk n)\<rparr>) n"
  "on_stack (\<lambda>s. s\<lparr>nvAliasTable := k s\<rparr>) n = on_stack (\<lambda>s. s\<lparr>nvAliasTable := k (stk n)\<rparr>) n"
  by (simp_all add: on_stack_def)

lemma node_wf_parts:
  assumes "node_wf n"
  shows "list_all domain_wf (domainTable (stk n))" "length (domainTable (stk n)) = MAX_DOMAINS"
    "length (addrTable (stk n)) = NUM_ADDR_TBL_ENTRIES" "length (nvConfigTable (stk n)) = NV_TABLE_SIZE"
    "length (nvAliasTable (stk n)) = NV_ALIAS_TABLE_SIZE"
  using assms by (simp_all add: node_wf_def)

lemma node_wf_table_updates [simp]:
  "node_wf n \<Longrightarrow> domain_wf d \<Longrightarrow>
     node_wf (on_stack (\<lambda>s. s\<lparr>domainTable := (domainTable s)[i := d]\<rparr>) n)"
  "node_wf n \<Longrightarrow> node_wf (on_stack (\<lambda>s. s\<lparr>addrTable := (addrTable s)[i := g s]\<rparr>) n)"
  "node_wf n \<Longrightarrow> node_wf (on_stack (\<lambda>s. s\<lparr>nvConfigTable := (nvConfigTable s)[i := h s]\<rparr>) n)"
  "node_wf n \<Longrightarrow> node_wf (on_stack (\<lambda>s. s\<lparr>nvAliasTable := (nvAliasTable s)[i := k s]\<rparr>) n)"
  by (subst on_stack_tables, rule node_wf_tables; simp add: node_wf_parts list_all_update)+

lemma node_wf_UpdateDomain:
  assumes "UpdateDomain (stk n) d i includeKey = (st, s)" "node_wf n" "domain_wf d"
  shows "node_wf (n\<lparr>stk := s\<rparr>)"
proof -
  let ?new = "if includeKey then d else d\<lparr>domKey := domKey (domainTable (stk n) ! unat i)\<rparr>"
  have "domain_wf ?new" if "unat i < MAX_DOMAINS"
    using that assms(3) node_wf_parts(1,2) [OF assms(2)]
    by (auto simp: domain_wf_def list_all_length)
  then have "node_wf (on_stack (\<lambda>s. s\<lparr>domainTable := (domainTable s)[unat i := ?new]\<rparr>) n)"
    if "unat i < MAX_DOMAINS" using that assms(2) by simp
  then show ?thesis
    using assms(1,2) by (auto simp: UpdateDomain_def Let_def on_stack_def MAX_DOMAINS_def split: if_splits)
qed

lemma node_wf_UpdateAddress:
  assumes "UpdateAddress (stk n) d i = (st, s)" "node_wf n"
  shows "node_wf (n\<lparr>stk := s\<rparr>)"
  using assms node_wf_table_updates(2) [OF assms(2), of i "\<lambda>_. d"]
  by (auto simp: UpdateAddress_def on_stack_def split: if_splits)

lemma domain_wf_left [simp]: "domain_wf left_domain"
  by (simp add: left_domain_def domain_wf_def)

lemma domain_lengths:
  assumes "node_wf n" "i < MAX_DOMAINS"
  shows "length (domId (domainTable (stk n) ! i)) = 6" "length (domKey (domainTable (stk n) ! i)) = 6"
  using assms node_wf_parts(1,2) [OF assms(1)] by (auto simp: list_all_length domain_wf_def)

lemma domain_wf_key: "domain_wf (d\<lparr>domKey := k\<rparr>) \<longleftrightarrow> length (domId d) = 6 \<and> length k = 6"
  by (simp add: domain_wf_def)

lemma node_wf_fault [simp]: "node_wf (node_fault n) = node_wf n"
  by (rule node_wf_cong) (simp_all add: on_stack_def)

lemma length_apdu_bytes [simp]: "length (apdu_bytes a i k) = k"
  by (simp add: apdu_bytes_def)

lemma byte_is_0_or_1: "(b :: u8) = 0 \<or> b = 1 \<Longrightarrow> unat b < 2"
  by auto

section \<open>Every handler keeps the node intact\<close>

named_theorems intact_handlers

lemma intact_UpdateDomain [intact_handlers]:
  "intact n \<Longrightarrow> intact (HandleNMUpdateDomain a n)" "intact n \<Longrightarrow> intact (HandleNmeUpdateDomain a n)"
  by (auto simp: HandleNMUpdateDomain_def HandleNmeUpdateDomain_def
      dest: node_wf_UpdateDomain intact_wf split: prod.splits)

lemma intact_LeaveDomain [intact_handlers]: "intact n \<Longrightarrow> intact (HandleNMLeaveDomain a n)"
  by (simp add: HandleNMLeaveDomain_def Let_def intact_wf)

lemma intact_UpdateKey [intact_handlers]: "intact n \<Longrightarrow> intact (HandleNMUpdateKey a n)"
  by (auto simp: HandleNMUpdateKey_def Let_def intact_wf IZOT_AUTHENTICATION_KEY_LENGTH_def
      MAX_DOMAINS_def domain_wf_key domain_lengths intro!: node_wf_table_updates)

lemma node_wf_nme_update_key:
  assumes "node_wf (snd r)" "unat i < MAX_DOMAINS"
  shows "node_wf (snd (nme_update_key a i r))"
proof -
  obtain sts m where r: "r = (sts, m)" by (cases r)
  have w: "node_wf m" using assms(1) r by simp
  let ?d = "domainTable (stk m) ! unat i"
  let ?old = "if apdu_data a 1 = 1 then domKey ?d else replicate IZOT_AUTHENTICATION_KEY_LENGTH 0"
  let ?new = "?d\<lparr>domKey := map2 (+) ?old (apdu_bytes a (2 + 6 * unat i) 6)\<rparr>"
  let ?m = "on_stack (\<lambda>s. s\<lparr>domainTable := (domainTable s)[unat i := ?new]\<rparr>) m"
  have "length ?old = 6"
    using domain_lengths [OF w assms(2)] by (simp add: IZOT_AUTHENTICATION_KEY_LENGTH_def)
  then have d: "domain_wf ?new"
    using domain_lengths [OF w assms(2)] unfolding domain_wf_key by simp
  then have "node_wf ?m" using w by simp
  then have "node_wf (?m\<lparr>stk := snd (UpdateDomain (stk ?m) ?new i True)\<rparr>)"
    by (rule node_wf_UpdateDomain [OF prod.collapse [symmetric]]) (rule d)
  then show ?thesis
    using w unfolding r nme_update_key_def Let_def split_beta fst_conv snd_conv by (simp split: if_splits)
qed

lemma intact_NmeUpdateKey [intact_handlers]: "intact n \<Longrightarrow> intact (HandleNmeUpdateKey a n)"
  using node_wf_nme_update_key [of "nme_update_key a 0 (LonStatusNoError, n)" 1 a]
    node_wf_nme_update_key [of "(LonStatusNoError, n)" 0 a]
  by (auto simp: HandleNmeUpdateKey_def MAX_DOMAINS_def intact_wf split: prod.splits)

lemma intact_reports [intact_handlers]:
  "intact n \<Longrightarrow> intact (HandleNMQueryDomain a n)" "intact n \<Longrightarrow> intact (HandleNmeReportDomain a n)"
  "intact n \<Longrightarrow> intact (HandleNmeReportKey a n)" "intact n \<Longrightarrow> intact (HandleNMQueryAddr a n)"
  by (simp_all add: HandleNMQueryDomain_def HandleNmeReportDomain_def HandleNmeReportKey_def
      HandleNMQueryAddr_def split: option.splits)

lemma intact_addresses [intact_handlers]:
  "intact n \<Longrightarrow> intact (HandleNMUpdateAddr a n)" "intact n \<Longrightarrow> intact (HandleNMUpdateGroupAddr a n)"
  by (auto simp: HandleNMUpdateAddr_def HandleNMUpdateGroupAddr_def Let_def intact_wf
      dest: node_wf_UpdateAddress intact_wf split: prod.splits option.splits)

lemma intact_nv_queries [intact_handlers]:
  "intact n \<Longrightarrow> intact (HandleNMQueryNvCnfg a n)" "intact n \<Longrightarrow> intact (HandleNmeQueryNvCnfg a n)"
  "intact n \<Longrightarrow> intact (HandleNmeQueryNvAliasCnfg a n)"
  by (simp_all add: HandleNMQueryNvCnfg_def HandleNmeQueryNvCnfg_def HandleNmeQueryNvAliasCnfg_def
      Let_def)

lemma node_wf_store_alias [simp]: "node_wf (store_alias i b n)"
  by (simp add: store_alias_def Let_def)

lemma intact_nv_updates [intact_handlers]:
  "intact n \<Longrightarrow> intact (HandleNMUpdateNvConfig a n)" "intact n \<Longrightarrow> intact (HandleNmeUpdateNvCnfg a n)"
  "intact n \<Longrightarrow> intact (HandleNmeUpdateNvAliasCnfg a n)"
  by (simp_all add: HandleNMUpdateNvConfig_def HandleNmeUpdateNvCnfg_def
      HandleNmeUpdateNvAliasCnfg_def Let_def intact_wf)

lemma length_init_nv_loop [simp]: "length (init_nv_loop a i sel auth ps) = length ps"
  by (induction ps arbitrary: i sel auth) (simp_all add: Let_def)

lemma intact_InitConfig [intact_handlers]: "intact n \<Longrightarrow> intact (HandleNmeInitConfig a n)"
proof -
  let ?n = "init_alias (on_stack LCS_InitAddress n)"
  have "node_wf ?n" by (simp add: init_alias_def Let_def)
  then have "node_wf (on_stack (\<lambda>s. s\<lparr>nvConfigTable :=
      init_nv_loop a 0 0x3FFF False (take (nvTableSize s) (nvConfigTable s)) @
      drop (nvTableSize s) (nvConfigTable s)\<rparr>) ?n)"
    by (subst on_stack_tables, intro node_wf_tables) (simp_all add: node_wf_parts)
  then show "intact n \<Longrightarrow> intact (HandleNmeInitConfig a n)"
    by (simp add: HandleNmeInitConfig_def Let_def)
qed

lemma set_input_clock_restore: "set_input_clock (IZOT_CONFIG_INPUT_CLOCK n) (set_input_clock 0 n) = n"
proof -
  have b: "set_attribute 0x07 0 (get_attribute 0x07 0 b) (set_attribute 0x07 0 0 b) = b" for b :: u8
    by (rule bit_word_eqI) (auto simp: set_attribute_def get_attribute_def bit_simps)
  show ?thesis
  proof (cases "8 < length (cfgHead n)")
    case True
    then show ?thesis using b [of "cfgHead n ! 8"] by (simp add: set_input_clock_def list_update_same_conv)
  next
    case False
    then show ?thesis by (simp add: set_input_clock_def list_update_beyond not_less)
  qed
qed

lemma intact_QueryId [intact_handlers]: "intact n \<Longrightarrow> intact (HandleNMQueryId P a n)"
  by (simp add: HandleNMQueryId_def query_id_answer_def Let_def split: option.splits)

lemma intact_ReadMemory [intact_handlers]: "intact n \<Longrightarrow> intact (HandleNMReadMemory P a n)"
  by (simp add: HandleNMReadMemory_def Let_def set_input_clock_restore)

lemma node_wf_nmStore: "platform_ok P \<Longrightarrow> node_wf (nmStore P b n) = node_wf n"
  by (rule node_wf_cong) (auto simp: platform_ok_def dest!: spec [of _ b] spec [of _ n])

lemma node_wf_mem_write: "platform_ok P \<Longrightarrow> node_wf n \<Longrightarrow> node_wf (mem_write P p b n)"
  by (simp add: mem_write_def node_wf_nmStore)

text \<open>A write keeps the checksum when its message asks for the new one.\<close>

definition write_recalculates :: "APPReceiveParam \<Rightarrow> bool" where
  "write_recalculates a \<longleftrightarrow> apdu_data a 4 AND 4 \<noteq> 0"

lemma intact_WriteMemory [intact_handlers]:
  "intact n \<Longrightarrow> platform_ok P \<Longrightarrow> write_recalculates a \<Longrightarrow> intact (HandleNMWriteMemory P a n)"
  by (auto simp: HandleNMWriteMemory_def Let_def write_recalculates_def intact_wf node_wf_mem_write
      split: option.splits)

lemma intact_modes [intact_handlers]:
  "intact n \<Longrightarrow> intact (HandleNMChecksumRecalc a n)" "intact n \<Longrightarrow> intact (HandleNMSetNodeMode a n)"
  "intact n \<Longrightarrow> intact (HandleNMRefresh a n)" "intact n \<Longrightarrow> intact (respond_to_query a n)"
  by (simp_all add: HandleNMChecksumRecalc_def HandleNMSetNodeMode_def change_state_def
      HandleNMRefresh_def respond_to_query_def Let_def intact_wf)

lemma intact_identity [intact_handlers]:
  "intact n \<Longrightarrow> intact (HandleNMQuerySIData a n)" "intact n \<Longrightarrow> intact (HandleNMWink a n)"
  "intact n \<Longrightarrow> intact (HandleNmeQueryVersion a n)" "intact n \<Longrightarrow> intact (HandleNmeQueryIpAddress a n)"
  by (simp_all add: HandleNMQuerySIData_def HandleNMWink_def HandleNmeQueryVersion_def
      HandleNmeQueryIpAddress_def Let_def)

lemma intact_NVFetch [intact_handlers]: "intact n \<Longrightarrow> intact (HandleNMNVFetch a n)"
  by (simp add: HandleNMNVFetch_def Let_def split: option.splits)

lemma intact_store_value [simp]: "intact (store_value a i len n) = intact n"
  by (simp add: store_value_def Let_def)

lemma intact_notify_update [simp]: "intact (notify_update a i n) = intact n"
  by (simp add: notify_update_def Let_def)

lemma intact_UpdateNvByIndex [intact_handlers]:
  "intact n \<Longrightarrow> intact (HandleNmeUpdateNvByIndex P a n)"
  by (simp add: HandleNmeUpdateNvByIndex_def Let_def split: option.splits)

lemma intact_diagnostics [intact_handlers]:
  "intact n \<Longrightarrow> intact (HandleNDQueryStatus P flex a n)" "intact n \<Longrightarrow> intact (HandleNDQueryUnconfig a n)"
  "intact n \<Longrightarrow> intact (HandleNDTransceiverStatus a n)" "intact n \<Longrightarrow> intact (HandleNDClearStatus a n)"
  "intact n \<Longrightarrow> intact (HandleNDQueryXcvrBidir a n)" "intact n \<Longrightarrow> intact (HandleNDGetFullVersion P a n)"
  by (simp_all add: HandleNDQueryStatus_def HandleNDQueryUnconfig_def HandleNDTransceiverStatus_def
      HandleNDClearStatus_def HandleNDQueryXcvrBidir_def HandleNDGetFullVersion_def Let_def
      intact_errorLog)

lemma intact_ProxyCommand [intact_handlers]: "intact n \<Longrightarrow> intact (snd (HandleNDProxyCommand P a n))"
  by (simp add: HandleNDProxyCommand_def proxy_target_def intact_handlers)

lemma intact_Expanded [intact_handlers]: "intact n \<Longrightarrow> intact (HandleNMExpanded P a n)"
  by (simp add: HandleNMExpanded_def Let_def intact_handlers)

lemma intact_nm_dispatch [intact_handlers]:
  "intact n \<Longrightarrow> platform_ok P \<Longrightarrow> (nmCode a = NM_WRITE_MEMORY \<Longrightarrow> write_recalculates a) \<Longrightarrow>
     intact (nm_dispatch P a n)"
  by (simp add: nm_dispatch_def Let_def intact_handlers)

lemma intact_nd_dispatch [intact_handlers]: "intact n \<Longrightarrow> intact (snd (nd_dispatch P a n))"
  by (simp add: nd_dispatch_def Let_def intact_handlers)

section \<open>At most one response\<close>

text \<open>
  What a handler leaves of the queues: the input queues are as before, and the response
  queue has at most one more entry, a response under the number of the request.
\<close>

definition same_queues :: "node \<Rightarrow> node \<Rightarrow> bool" where
  "same_queues m n \<longleftrightarrow> tsaRespQ (stk m) = tsaRespQ (stk n) \<and> appInQ (stk m) = appInQ (stk n) \<and>
     appCeRspInQ (stk m) = appCeRspInQ (stk n)"

definition answered :: "APPReceiveParam \<Rightarrow> node \<Rightarrow> node \<Rightarrow> bool" where
  "answered a n n' \<longleftrightarrow>
     appInQ (stk n') = appInQ (stk n) \<and> appCeRspInQ (stk n') = appCeRspInQ (stk n) \<and>
     queue_wf (tsaRespQ (stk n')) \<and>
     (\<exists>rs. queue_list (tsaRespQ (stk n')) = queue_list (tsaRespQ (stk n)) @ rs \<and> length rs \<le> 1 \<and>
        (\<forall>r\<in>set rs. tssReqId r = aprReqId a \<and> tssService r = IzotServiceResponse))"

lemma QueueTouch_wf:
  assumes "queue_wf q"
  shows "queue_wf (QueueTouch f q)" and "queue_list (QueueTouch f q) = queue_list q"
proof -
  obtain off where off: "QueueTail q = Some off"
    using assms queue_wf_valid [OF assms] by (auto simp: QueueTail_def queue_wf_def)
  then have t: "QueueTouch f q = QueueFill (f (QueueDeref q off)) q"
    by (simp add: QueueTouch_def QueueFill_def)
  show "queue_wf (QueueTouch f q)" and "queue_list (QueueTouch f q) = queue_list q"
    unfolding t using assms by simp_all
qed

lemma response_fields [simp]:
  "tssReqId (response req nr fr ap p) = req" "tssService (response req nr fr ap p) = IzotServiceResponse"
  "tssApdu (response req nr fr ap p) = ap" "tssNullResponse (response req nr fr ap p) = nr"
  "tssApduSize (response req nr fr ap p) = length ap"
  by (simp_all add: response_def)

lemma same_queues_simps [simp]:
  "same_queues n n" "same_queues (RecomputeChecksum m) n = same_queues m n"
  "same_queues (node_fault m) n = same_queues m n"
  "same_queues (LCS_WritePersistentNetworkImage m) n = same_queues m n"
  "same_queues (LCS_WritePersistentAppData m) n = same_queues m n"
  "same_queues (OsalPrintLog st m) n = same_queues m n"
  "same_queues (eep_store b m) n = same_queues m n"
  "same_queues (on_stack (\<lambda>s. s\<lparr>appPgmMode := md\<rparr>) m) n = same_queues m n"
  "same_queues (on_stack (set_node_state v) m) n = same_queues m n"
  "same_queues (on_stack izot_device_reset m) n = same_queues m n"
  "same_queues (on_stack LCS_InitAddress m) n = same_queues m n"
  "same_queues (on_stack (\<lambda>s. s\<lparr>stats := st', resetCause := rc\<rparr>) m) n = same_queues m n"
  "same_queues (on_stack (\<lambda>s. s\<lparr>domainTable := f1 s\<rparr>) m) n = same_queues m n"
  "same_queues (on_stack (\<lambda>s. s\<lparr>addrTable := f2 s\<rparr>) m) n = same_queues m n"
  "same_queues (on_stack (\<lambda>s. s\<lparr>nvConfigTable := f3 s\<rparr>) m) n = same_queues m n"
  "same_queues (on_stack (\<lambda>s. s\<lparr>nvAliasTable := f4 s\<rparr>) m) n = same_queues m n"
  "same_queues (m\<lparr>events := e\<rparr>) n = same_queues m n"
  "same_queues (m\<lparr>errorLog := el\<rparr>) n = same_queues m n"
  "same_queues (m\<lparr>physicalReset := b'\<rparr>) n = same_queues m n"
  "same_queues (m\<lparr>selectQueryFlag := q\<rparr>) n = same_queues m n"
  "same_queues (m\<lparr>nvInAddr := ra\<rparr>) n = same_queues m n"
  "same_queues (m\<lparr>nvFixedTable := nf\<rparr>) n = same_queues m n"
  "same_queues (m\<lparr>configCheckSum := cs\<rparr>) n = same_queues m n"
  by (auto simp: same_queues_def on_stack_def set_node_state_def izot_device_reset_def
      RecomputeChecksum_def LCS_WritePersistentNetworkImage_def LCS_WritePersistentAppData_def
      OsalPrintLog_def eep_store_def LCS_InitAddress_def)

lemma same_queues_UpdateDomain [simp]:
  "same_queues (n\<lparr>stk := snd (UpdateDomain (stk n) d i k)\<rparr>) n"
  "same_queues (n\<lparr>stk := snd (UpdateAddress (stk n) ad j)\<rparr>) n"
  by (simp_all add: same_queues_def UpdateDomain_def UpdateAddress_def Let_def)

lemma answered_none: "queue_wf (tsaRespQ (stk n)) \<Longrightarrow> same_queues m n \<Longrightarrow> answered a n m"
  by (auto simp: answered_def same_queues_def)

lemma answered_emit:
  assumes "queue_wf (tsaRespQ (stk n))" "same_queues m n"
  shows "answered a n (update_respQ (QueueEmit (response (aprReqId a) nr fr ap)) m)"
  using assms by (auto simp: answered_def same_queues_def on_stack_def queue_list_Emit)

lemma answered_touch:
  assumes "queue_wf (tsaRespQ (stk n))" "same_queues m n"
  shows "answered a n (update_respQ (QueueTouch f) m)"
  using assms by (auto simp: answered_def same_queues_def on_stack_def QueueTouch_wf)

lemma answered_responses:
  assumes "queue_wf (tsaRespQ (stk n))" "same_queues m n"
  shows "answered a n (snd (SendResponse (aprReqId a) c d m))"
    "answered a n (snd (SendNullResponse (aprReqId a) m))"
    "answered a n (respond_at_tail a nr fr ap m)"
    "answered a n (NMNDRespond t st a m)"
  using assms
  by (auto simp: SendResponse_def SendNullResponse_def AllocSendResponse_def respond_at_tail_def
      NMNDRespond_def Let_def answered_none answered_emit answered_touch split: option.splits)

lemma answered_touched:
  assumes "queue_wf (tsaRespQ (stk n))"
  shows "answered a n (NMNDRespond t st a (update_respQ (QueueTouch f) n))"
proof -
  let ?m = "update_respQ (QueueTouch f) n"
  have "answered a ?m (NMNDRespond t st a ?m)"
    using assms by (intro answered_responses) (simp_all add: on_stack_def QueueTouch_wf)
  then show ?thesis
    using assms by (simp add: answered_def on_stack_def QueueTouch_wf)
qed

named_theorems answered_handlers

lemma answered_if:
  "answered a n x \<Longrightarrow> answered a n y \<Longrightarrow> answered a n (if c then x else y)"
  by simp

lemmas answered_basics = answered_none answered_responses answered_touched answered_touch

lemma answered_directly [answered_handlers]:
  "queue_wf (tsaRespQ (stk n)) \<Longrightarrow> answered a n n"
  "queue_wf (tsaRespQ (stk n)) \<Longrightarrow> answered a n (NMNDRespond t st a n)"
  by (simp_all add: answered_basics)

lemma answered_domains [answered_handlers]:
  assumes "queue_wf (tsaRespQ (stk n))"
  shows "answered a n (HandleNMUpdateDomain a n)" "answered a n (HandleNmeUpdateDomain a n)"
    "answered a n (HandleNMUpdateKey a n)" "answered a n (HandleNMQueryDomain a n)"
    "answered a n (HandleNmeReportDomain a n)" "answered a n (HandleNmeReportKey a n)"
  using assms
  by (simp_all add: HandleNMUpdateDomain_def HandleNmeUpdateDomain_def HandleNMUpdateKey_def
      HandleNMQueryDomain_def HandleNmeReportDomain_def HandleNmeReportKey_def Let_def split_beta
      answered_basics split: option.splits)

lemma answered_state:
  "answered a n m \<Longrightarrow> answered a n (on_stack (\<lambda>s. izot_device_reset (set_node_state v s)) m)"
  by (simp add: answered_def on_stack_def izot_device_reset_def set_node_state_def)

lemma answered_LeaveDomain [answered_handlers]:
  "queue_wf (tsaRespQ (stk n)) \<Longrightarrow> answered a n (HandleNMLeaveDomain a n)"
  by (simp add: HandleNMLeaveDomain_def Let_def answered_basics answered_state)

lemma same_queues_nme_update_key: "same_queues (snd (nme_update_key a i r)) n = same_queues (snd r) n"
proof (cases r)
  case (Pair sts m)
  let ?u = "\<lambda>d. on_stack (\<lambda>s. s\<lparr>domainTable := (domainTable s)[unat i := d]\<rparr>) m"
  have "same_queues (?u d\<lparr>stk := snd (UpdateDomain (stk (?u d)) d' i True)\<rparr>) n = same_queues m n" for d d'
    by (simp add: same_queues_def UpdateDomain_def on_stack_def Let_def)
  then show ?thesis
    unfolding Pair nme_update_key_def Let_def split_beta fst_conv snd_conv by (simp split: if_splits)
qed

lemma answered_NmeUpdateKey [answered_handlers]:
  "queue_wf (tsaRespQ (stk n)) \<Longrightarrow> answered a n (HandleNmeUpdateKey a n)"
  by (simp add: HandleNmeUpdateKey_def split_beta answered_basics same_queues_nme_update_key)

lemma answered_addresses [answered_handlers]:
  assumes "queue_wf (tsaRespQ (stk n))"
  shows "answered a n (HandleNMUpdateAddr a n)" "answered a n (HandleNMQueryAddr a n)"
    "answered a n (HandleNMUpdateGroupAddr a n)"
  using assms
  by (simp_all add: HandleNMUpdateAddr_def HandleNMQueryAddr_def HandleNMUpdateGroupAddr_def Let_def
      split_beta answered_basics split: option.splits)

lemma same_queues_store [simp]:
  "same_queues (store_alias i b m) n = same_queues m n" "same_queues (init_alias m) n = same_queues m n"
  by (simp_all add: store_alias_def init_alias_def Let_def)

lemma answered_nv [answered_handlers]:
  assumes "queue_wf (tsaRespQ (stk n))"
  shows "answered a n (HandleNMQueryNvCnfg a n)" "answered a n (HandleNMUpdateNvConfig a n)"
    "answered a n (HandleNmeInitConfig a n)" "answered a n (HandleNmeUpdateNvCnfg a n)"
    "answered a n (HandleNmeQueryNvCnfg a n)" "answered a n (HandleNmeUpdateNvAliasCnfg a n)"
    "answered a n (HandleNmeQueryNvAliasCnfg a n)"
  using assms
  by (simp_all add: HandleNMQueryNvCnfg_def HandleNMUpdateNvConfig_def HandleNmeInitConfig_def
      HandleNmeUpdateNvCnfg_def HandleNmeQueryNvCnfg_def HandleNmeUpdateNvAliasCnfg_def
      HandleNmeQueryNvAliasCnfg_def Let_def answered_basics)

lemma answered_QueryId [answered_handlers]:
  "queue_wf (tsaRespQ (stk n)) \<Longrightarrow> answered a n (HandleNMQueryId P a n)"
  unfolding HandleNMQueryId_def query_id_answer_def Let_def
  by (cases "query_address P a"; simp only: option.case)
    (intro answered_if answered_responses answered_touched answered_none; simp)+

lemma answered_ReadMemory [answered_handlers]:
  "queue_wf (tsaRespQ (stk n)) \<Longrightarrow> answered a n (HandleNMReadMemory P a n)"
  by (simp add: HandleNMReadMemory_def Let_def set_input_clock_restore answered_basics)

lemma same_queues_nmStore: "platform_ok P \<Longrightarrow> same_queues (nmStore P b m) n = same_queues m n"
  by (auto simp: platform_ok_def same_queues_def dest!: spec [of _ b] spec [of _ m])

lemma answered_WriteMemory [answered_handlers]:
  "queue_wf (tsaRespQ (stk n)) \<Longrightarrow> platform_ok P \<Longrightarrow> answered a n (HandleNMWriteMemory P a n)"
  by (simp add: HandleNMWriteMemory_def mem_write_def Let_def same_queues_nmStore answered_basics
      split: option.splits)

lemma answered_modes [answered_handlers]:
  assumes "queue_wf (tsaRespQ (stk n))"
  shows "answered a n (HandleNMChecksumRecalc a n)" "answered a n (HandleNMSetNodeMode a n)"
    "answered a n (HandleNMRefresh a n)" "answered a n (respond_to_query a n)"
    "answered a n (HandleNMQuerySIData a n)" "answered a n (HandleNMWink a n)"
    "answered a n (HandleNmeQueryVersion a n)" "answered a n (HandleNmeQueryIpAddress a n)"
  using assms
  by (simp_all add: HandleNMChecksumRecalc_def HandleNMSetNodeMode_def change_state_def
      HandleNMRefresh_def respond_to_query_def HandleNMQuerySIData_def HandleNMWink_def
      HandleNmeQueryVersion_def HandleNmeQueryIpAddress_def Let_def answered_basics)

lemma answered_NVFetch [answered_handlers]:
  "queue_wf (tsaRespQ (stk n)) \<Longrightarrow> answered a n (HandleNMNVFetch a n)"
  by (simp add: HandleNMNVFetch_def Let_def answered_basics split: option.splits)

lemma same_queues_value [simp]:
  "same_queues (store_value a i len m) n = same_queues m n"
  "same_queues (notify_update a i m) n = same_queues m n"
  by (simp_all add: store_value_def notify_update_def Let_def)

lemma answered_UpdateNvByIndex [answered_handlers]:
  "queue_wf (tsaRespQ (stk n)) \<Longrightarrow> answered a n (HandleNmeUpdateNvByIndex P a n)"
  by (simp add: HandleNmeUpdateNvByIndex_def Let_def answered_basics split: option.splits)

lemma answered_diagnostics [answered_handlers]:
  assumes "queue_wf (tsaRespQ (stk n))"
  shows "answered a n (HandleNDQueryStatus P flex a n)" "answered a n (HandleNDQueryUnconfig a n)"
    "answered a n (HandleNDTransceiverStatus a n)" "answered a n (HandleNDClearStatus a n)"
    "answered a n (HandleNDQueryXcvrBidir a n)" "answered a n (HandleNDGetFullVersion P a n)"
  using assms
  by (simp_all add: HandleNDQueryStatus_def HandleNDQueryUnconfig_def HandleNDTransceiverStatus_def
      HandleNDClearStatus_def HandleNDQueryXcvrBidir_def HandleNDGetFullVersion_def Let_def
      answered_basics)

lemma same_queues_proxy [simp]:
  "same_queues (on_stack (\<lambda>s. s\<lparr>tsaOutQ := k (tsaOutQ s)\<rparr>) m) n = same_queues m n"
  "same_queues (on_stack (\<lambda>s. s\<lparr>tsaOutPriQ := k (tsaOutPriQ s)\<rparr>) m) n = same_queues m n"
  by (simp_all add: same_queues_def on_stack_def)

lemma answered_ProxyCommand [answered_handlers]:
  "queue_wf (tsaRespQ (stk n)) \<Longrightarrow> answered a n (snd (HandleNDProxyCommand P a n))"
  by (simp add: HandleNDProxyCommand_def proxy_target_def answered_handlers answered_none)

lemma answered_Expanded [answered_handlers]:
  "queue_wf (tsaRespQ (stk n)) \<Longrightarrow> answered a n (HandleNMExpanded P a n)"
  by (simp add: HandleNMExpanded_def Let_def answered_handlers)

lemma answered_nm_dispatch:
  "queue_wf (tsaRespQ (stk n)) \<Longrightarrow> platform_ok P \<Longrightarrow> answered a n (nm_dispatch P a n)"
  unfolding nm_dispatch_def Let_def by (simp only: answered_if answered_handlers)

lemma answered_nd_dispatch:
  "queue_wf (tsaRespQ (stk n)) \<Longrightarrow> answered a n (snd (nd_dispatch P a n))"
  by (simp add: nd_dispatch_def Let_def answered_handlers)

section \<open>The contract of a dispatcher\<close>

text \<open>
  \<open>HandleNM\<close> and \<open>HandleND\<close> save \<open>EEPROM\<close>, run a dispatcher, and request the write of the
  image when it has changed. What they promise follows from two laws of the dispatcher.
\<close>

locale management =
  fixes accepts :: "APPReceiveParam \<Rightarrow> bool"
    and handle :: "platform \<Rightarrow> APPReceiveParam \<Rightarrow> node \<Rightarrow> node"
  assumes keeps_intact:
      "platform_ok P \<Longrightarrow> accepts a \<Longrightarrow> intact n \<Longrightarrow> intact (handle P a n)"
    and answers:
      "platform_ok P \<Longrightarrow> queue_wf (tsaRespQ (stk n)) \<Longrightarrow> answered a n (handle P a n)"
begin

lemma persisted_intact:
  "platform_ok P \<Longrightarrow> accepts a \<Longrightarrow> intact n \<Longrightarrow> intact (persist_changes n (handle P a n))"
  by (simp add: persist_changes_def keeps_intact)

lemma persisted_answered:
  "platform_ok P \<Longrightarrow> queue_wf (tsaRespQ (stk n)) \<Longrightarrow>
     answered a n (persist_changes n (handle P a n))"
  using answers [of P n a]
  by (simp add: persist_changes_def answered_def LCS_WritePersistentNetworkImage_def)

lemma persisted_committed:
  "eep_image (persist_changes n (handle P a n)) \<noteq> eep_image n \<Longrightarrow>
     commitNetworkImage (persist_changes n (handle P a n)) \<and>
     eepNodeState (persist_changes n (handle P a n)) =
       IZOT_READONLY_NODE_STATE (readOnlyData (stk (persist_changes n (handle P a n))))"
  by (auto simp: persist_changes_def LCS_WritePersistentNetworkImage_def)

end

definition checksum_safe :: "APPReceiveParam \<Rightarrow> bool" where
  "checksum_safe a \<longleftrightarrow> (nmCode a = NM_WRITE_MEMORY \<longrightarrow> write_recalculates a)"

interpretation nm: management checksum_safe nm_dispatch
  by unfold_locales (auto simp: checksum_safe_def intro: intact_nm_dispatch answered_nm_dispatch)

interpretation nd: management "\<lambda>_. True" "\<lambda>P a n. snd (nd_dispatch P a n)"
  by unfold_locales (auto intro: intact_nd_dispatch answered_nd_dispatch)

end
