(* ===== verification/Lcs_Nm_Properties.thy ===== *)
theory Lcs_Nm_Properties
  imports Lcs_Nm_Safety
begin

text \<open>
  The properties of network management and network diagnostics, stated of the two entry
  points \<open>HandleNM\<close> and \<open>HandleND\<close> of \<^verbatim>\<open>lcs/lcs_netmgmt.c\<close> on any node and any message, with
  the periodic test of the configuration checksum in \<^verbatim>\<open>lcs/lcs.c\<close>.
\<close>

section \<open>The periodic checksum test\<close>

definition check_configuration :: "node \<Rightarrow> node" where
  "check_configuration n =
     (if \<not> NodeUnConfigured (stk n) \<and> configCheckSum n \<noteq> ComputeConfigCheckSum n then
        (let n = on_stack (\<lambda>s. (set_node_state IzotApplicationUnconfig s)\<lparr>appPgmMode := ON_LINE\<rparr>) n;
             n = n\<lparr>events := events n @ [OfflineEvent]\<rparr>
         in OsalPrintLog LonStatusCnfgChecksumError (on_stack izot_device_reset n))
      else n)"

section \<open>A sample node\<close>

definition zeroDatapoint :: IzotDatapointConfig where
  "zeroDatapoint = \<lparr>dpSelhiDirPrio = 0, dpSelectorLow = 0, dpAttribute1 = 0, dpAttribute2 = 0\<rparr>"

definition sampleNode0 :: node where
  "sampleNode0 =
     \<lparr>stk = sampleStack
        \<lparr>nvConfigTable := replicate NV_TABLE_SIZE zeroDatapoint,
         nvAliasTable := replicate NV_ALIAS_TABLE_SIZE
           \<lparr>aliasConfig = zeroDatapoint, aliasPrimary = 0xFF\<rparr>,
         nvTableSize := 1, appPgmMode := ON_LINE\<rparr>,
      roArchitecture = replicate 4 0, roSnvtStruct = [0xFF, 0xFF], roProgramId = replicate 8 0x41,
      roReadOnly34 = [0, 0], roReserved = replicate 17 0, cfgHead = replicate 24 0, cfgLow = 0,
      configCheckSum = 0, errorLog = replicate 4 0, dimensions = replicate 4 0, nvInitCount = 0,
      eepNodeState = 4, appSignature = replicate 4 0, snvtHeader = replicate 6 0,
      snvtData = replicate 32 0, siInfo = replicate 40 0,
      nvFixedTable = [\<lparr>nvLength = 2, nvValue = [0, 0]\<rparr>],
      dpProp = [\<lparr>ibolSeq = None, dpAttribute = 0\<rparr>], selectQueryFlag = 0,
      manualServiceRequest = False,
      nvInAddr = \<lparr>raDomainFormat = 0, raSource = sampleSn, raDestination = 0\<rparr>,
      switchoverFailure = False, physicalReset = False, commitNetworkImage = False,
      commitAppData = False, events = []\<rparr>"

definition sampleNode :: node where "sampleNode = RecomputeChecksum sampleNode0"

definition samplePlatform :: platform where
  "samplePlatform =
     \<lparr>firmwareVersion = 1, firmwareMinor = 2, firmwareBuild = 3, architectureNumber = 0xA8,
      eepBase = 0x20000, nmBase = 0x40000, nmpVar = 0x100,
      nmImage = (\<lambda>n. stats (stk n)), nmStore = (\<lambda>b n. on_stack (\<lambda>s. s\<lparr>stats := b\<rparr>) n),
      elsewhere = (\<lambda>_. 0), uninitialised = 0\<rparr>"

lemma sampleStack_buffer: "tsaRespBufSize sampleStack = 255"
  by (simp add: sampleStack_def)

lemma samplePlatform_ok: "platform_ok samplePlatform"
proof -
  have "nmStore samplePlatform b n =
      n\<lparr>stk := (stk n)\<lparr>stats := b, resetCause := resetCause (stk n), mtagCount := mtagCount (stk n),
                     nvTableSize := nvTableSize (stk n), rxStat := rxStat (stk n)\<rparr>,
        snvtHeader := snvtHeader n, nvFixedTable := nvFixedTable n\<rparr>" for b n
    by (simp add: samplePlatform_def on_stack_def)
  then show ?thesis unfolding platform_ok_def by blast
qed

lemma sampleNode0_wf: "node_wf sampleNode0"
  by (simp add: node_wf_def sampleNode0_def sampleDomain_def sampleDomain1_def domain_wf_def
      eep_sizes sampleAddrTable_def)

lemma sampleNode_fields [simp]:
  "stk sampleNode = stk sampleNode0" "cfgLow sampleNode = 0" "cfgHead sampleNode = replicate 24 0"
  "selectQueryFlag sampleNode = 0"
  by (simp_all add: sampleNode_def RecomputeChecksum_def sampleNode0_def)

lemma sampleNode_intact: "intact sampleNode" "queue_wf (tsaRespQ (stk sampleNode))"
  by (simp_all add: sampleNode_def sampleNode0_wf) (simp add: RecomputeChecksum_def sampleNode0_def)

definition nmMessage :: "bytes \<Rightarrow> APPReceiveParam" where
  "nmMessage b =
     sampleApr\<lparr>aprService := IzotServiceRequest, aprReqId := 7, aprPduSize := length b, aprApdu := b\<rparr>"

section \<open>The configuration checksum\<close>

lemma intact_HandleNM:
  assumes "platform_ok P" "checksum_safe a" "intact n"
  shows "intact (HandleNM P a n)"
  using nm.persisted_intact [OF assms] assms(3) by (simp add: HandleNM_def)

lemma intact_HandleND:
  assumes "platform_ok P" "intact n"
  shows "intact (HandleND P a n)"
proof -
  have "intact (persist_changes n (NMNDRespond ND_MESSAGE st a (OsalPrintLog st' n)))" for st st'
    using assms(2) by (simp add: persist_changes_def)
  moreover have "intact (persist_changes n n)" using assms(2) by (simp add: persist_changes_def)
  ultimately show ?thesis
    using nd.persisted_intact [OF assms(1) TrueI assms(2), of a] assms(2)
    by (simp add: HandleND_def Let_def split_beta)
qed

text \<open>
  C6. Network management and network diagnostics keep the configuration intact: the tables
  stay well-formed and the stored checksum stays the one of the configuration, on every
  branch of every command, so that the periodic test of \<open>LCS_Service\<close> never takes a node
  out of service because of a command. A memory write that does not ask for the checksum
  is left out, for the layout too; with the flag set, it keeps the checksum as well.
\<close>

theorem configuration_stays_intact:
  assumes "platform_ok P" and "intact n"
    and "nmCode a = NM_WRITE_MEMORY \<Longrightarrow> write_recalculates a"
  shows "intact (HandleNM P a n) \<and> intact (HandleND P b n) \<and>
    check_configuration (HandleNM P a n) = HandleNM P a n \<and>
    check_configuration (HandleND P b n) = HandleND P b n"
proof -
  have c: "check_configuration m = m" if "intact m" for m
    using that by (simp add: check_configuration_def intact_def checksum_ok_def)
  have "checksum_safe a" using assms(3) by (simp add: checksum_safe_def)
  then show ?thesis
    using c intact_HandleNM intact_HandleND assms(1,2) by blast
qed

theorem configuration_stays_intact_witness:
  "intact (HandleNM samplePlatform (nmMessage (0x63 # 0 # replicate 15 1)) sampleNode)"
proof -
  have "nmCode (nmMessage (0x63 # 0 # replicate 15 1)) \<noteq> NM_WRITE_MEMORY"
    by (simp add: nmMessage_def NM_WRITE_MEMORY_def)
  then show ?thesis
    using configuration_stays_intact [OF samplePlatform_ok sampleNode_intact(1)] by blast
qed

section \<open>Responses in the queue\<close>

abbreviation responses :: "node \<Rightarrow> TSASendParam list" where
  "responses n \<equiv> queue_list (tsaRespQ (stk n))"

definition resp_room :: "node \<Rightarrow> bool" where
  "resp_room n \<longleftrightarrow> queue_wf (tsaRespQ (stk n)) \<and>
     queueEntries (tsaRespQ (stk n)) < queueCapacity (tsaRespQ (stk n)) - 1"

lemma QueueTail_wf: "queue_wf q \<Longrightarrow> QueueTail q \<noteq> None"
  using queue_wf_valid [of q] by (auto simp: QueueTail_def queue_wf_def)

lemma emitted:
  assumes "resp_room n"
  shows "\<exists>r. responses (update_respQ (QueueEmit (response req nr fr ap)) n) = responses n @ [r] \<and>
    tssApdu r = ap \<and> tssReqId r = req \<and> tssNullResponse r = nr"
  using assms by (simp add: resp_room_def on_stack_def queue_list_Emit)

lemma answer_list:
  assumes "resp_room n" "length dat + 1 \<le> tsaRespBufSize (stk n)"
  shows "\<exists>r. responses (answer a code dat n) = responses n @ [r] \<and> tssApdu r = code # dat \<and>
    tssReqId r = aprReqId a"
  using emitted [OF assms(1), of "aprReqId a" False False "code # dat"] assms
  by (auto simp: SendResponse_def AllocSendResponse_def resp_room_def)

lemma respond_at_tail_list:
  assumes "resp_room n"
  shows "\<exists>r. responses (respond_at_tail a nr fr ap n) = responses n @ [r] \<and> tssApdu r = ap \<and>
    tssReqId r = aprReqId a \<and> tssNullResponse r = nr"
  using emitted [OF assms, of "aprReqId a" nr fr ap] assms QueueTail_wf [of "tsaRespQ (stk n)"]
  by (auto simp: respond_at_tail_def resp_room_def split: option.splits)

lemma NMNDRespond_list:
  assumes "resp_room n" "1 \<le> tsaRespBufSize (stk n)" "aprService a = IzotServiceRequest"
    "nmCode a \<noteq> 0"
  shows "\<exists>r. responses (NMNDRespond NM_MESSAGE st a n) = responses n @ [r] \<and>
    tssApdu r = [(if st \<noteq> LonStatusNoError then NM_resp_success else NM_resp_failure) OR nmCode a] \<and>
    tssReqId r = aprReqId a"
  using answer_list [OF assms(1), of "[]" a] assms(2-) by (simp add: NMNDRespond_def Let_def)

lemma resp_room_same: "same_queues m n \<Longrightarrow> resp_room n \<Longrightarrow> resp_room m"
  by (simp add: resp_room_def same_queues_def)

lemma responses_finish [simp]:
  "responses (drop_message m) = responses m" "responses (persist_changes k m) = responses m"
  by (simp_all add: on_stack_def persist_changes_def LCS_WritePersistentNetworkImage_def)

lemma tables_after_responses [simp]:
  "domainTable (stk (NMNDRespond t st a n)) = domainTable (stk n)"
  "addrTable (stk (NMNDRespond t st a n)) = addrTable (stk n)"
  "nvConfigTable (stk (NMNDRespond t st a n)) = nvConfigTable (stk n)"
  "nvTableSize (stk (NMNDRespond t st a n)) = nvTableSize (stk n)"
  "readOnlyData (stk (NMNDRespond t st a n)) = readOnlyData (stk n)"
  "tsaRespBufSize (stk (NMNDRespond t st a n)) = tsaRespBufSize (stk n)"
  "cfgLow (NMNDRespond t st a n) = cfgLow n" "errorLog (NMNDRespond t st a n) = errorLog n"
  by (simp_all add: NMNDRespond_def SendResponse_def AllocSendResponse_def on_stack_def Let_def)

lemma tables_after_finish [simp]:
  "domainTable (stk (drop_message m)) = domainTable (stk m)"
  "domainTable (stk (persist_changes k m)) = domainTable (stk m)"
  "addrTable (stk (drop_message m)) = addrTable (stk m)"
  "addrTable (stk (persist_changes k m)) = addrTable (stk m)"
  "nvConfigTable (stk (drop_message m)) = nvConfigTable (stk m)"
  "nvConfigTable (stk (persist_changes k m)) = nvConfigTable (stk m)"
  "nvTableSize (stk (drop_message m)) = nvTableSize (stk m)"
  "nvTableSize (stk (persist_changes k m)) = nvTableSize (stk m)"
  "readOnlyData (stk (drop_message m)) = readOnlyData (stk m)"
  "readOnlyData (stk (persist_changes k m)) = readOnlyData (stk m)"
  "tsaRespBufSize (stk (drop_message m)) = tsaRespBufSize (stk m)"
  "tsaRespBufSize (stk (persist_changes k m)) = tsaRespBufSize (stk m)"
  by (simp_all add: on_stack_def persist_changes_def LCS_WritePersistentNetworkImage_def)

lemma stk_RecomputeChecksum [simp]: "stk (RecomputeChecksum n) = stk n"
  by (simp add: RecomputeChecksum_def)

lemma stk_OsalPrintLog [simp]: "stk (OsalPrintLog st n) = stk n"
  by (simp add: OsalPrintLog_def LCS_WritePersistentNetworkImage_def)

text \<open>The codes of the commands are told apart by their numbers.\<close>

lemmas nm_codes =
  NM_EXPANDED_def NM_QUERY_ID_def NM_RESPOND_TO_QUERY_def NM_UPDATE_DOMAIN_def NM_LEAVE_DOMAIN_def
  NM_UPDATE_KEY_def NM_UPDATE_ADDR_def NM_QUERY_ADDR_def NM_QUERY_NV_CNFG_def
  NM_UPDATE_GROUP_ADDR_def NM_QUERY_DOMAIN_def NM_UPDATE_NV_CNFG_def NM_SET_NODE_MODE_def
  NM_READ_MEMORY_def NM_WRITE_MEMORY_def NM_CHECKSUM_RECALC_def NM_WINK_def NM_MEMORY_REFRESH_def
  NM_QUERY_SNVT_def NM_NV_FETCH_def NM_MANUAL_SERVICE_REQUEST_def

lemma nm_dispatch_codes:
  "nmCode a = NM_UPDATE_DOMAIN \<Longrightarrow> nm_dispatch P a n = HandleNMUpdateDomain a n"
  "nmCode a = NM_QUERY_DOMAIN \<Longrightarrow> nm_dispatch P a n = HandleNMQueryDomain a n"
  "nmCode a = NM_UPDATE_ADDR \<Longrightarrow> nm_dispatch P a n = HandleNMUpdateAddr a n"
  "nmCode a = NM_QUERY_ADDR \<Longrightarrow> nm_dispatch P a n = HandleNMQueryAddr a n"
  "nmCode a = NM_READ_MEMORY \<Longrightarrow> nm_dispatch P a n = HandleNMReadMemory P a n"
  "nmCode a = NM_WRITE_MEMORY \<Longrightarrow> nm_dispatch P a n = HandleNMWriteMemory P a n"
  "nmCode a = NM_QUERY_ID \<Longrightarrow> nm_dispatch P a n = HandleNMQueryId P a n"
  "nmCode a = NM_EXPANDED \<Longrightarrow> nm_dispatch P a n = HandleNMExpanded P a n"
  by (simp_all add: nm_dispatch_def nm_codes)

section \<open>Authentication\<close>

lemma OsalPrintLog_shape:
  "\<exists>e v c. OsalPrintLog st n = n\<lparr>errorLog := e, eepNodeState := v, commitNetworkImage := c\<rparr>"
proof (cases "st \<noteq> LonStatusNoError \<and> errorLog n \<noteq> int_bytes (status_value st)")
  case True
  then show ?thesis
    unfolding OsalPrintLog_def LCS_WritePersistentNetworkImage_def by (auto intro!: exI)
next
  case False
  then have "OsalPrintLog st n = n\<lparr>errorLog := errorLog n, eepNodeState := eepNodeState n,
      commitNetworkImage := commitNetworkImage n\<rparr>"
    by (auto simp: OsalPrintLog_def)
  then show ?thesis by blast
qed

lemma answer_shape: "\<exists>q. answer a code dat n = n\<lparr>stk := (stk n)\<lparr>tsaRespQ := q\<rparr>\<rparr>"
proof (cases "QueueFull (tsaRespQ (stk n))")
  case True
  then have "answer a code dat n = n\<lparr>stk := (stk n)\<lparr>tsaRespQ := tsaRespQ (stk n)\<rparr>\<rparr>"
    by (simp add: SendResponse_def AllocSendResponse_def)
  then show ?thesis by blast
next
  case False
  then show ?thesis
    by (cases "length dat + 1 \<le> tsaRespBufSize (stk n)")
      (auto simp: SendResponse_def AllocSendResponse_def on_stack_def)
qed

lemma NMNDRespond_shape: "\<exists>q. NMNDRespond t st a n = n\<lparr>stk := (stk n)\<lparr>tsaRespQ := q\<rparr>\<rparr>"
proof (cases "aprService a = IzotServiceRequest")
  case True
  then show ?thesis by (simp add: NMNDRespond_def Let_def answer_shape del: not_None_eq)
next
  case False
  then have "NMNDRespond t st a n = n\<lparr>stk := (stk n)\<lparr>tsaRespQ := tsaRespQ (stk n)\<rparr>\<rparr>"
    by (simp add: NMNDRespond_def)
  then show ?thesis by blast
qed

lemma refused_shape:
  "\<exists>q e v c. drop_message (NMNDRespond t st a (OsalPrintLog st' n)) =
     n\<lparr>stk := (stk n)\<lparr>appInQ := QueueDropHead (appInQ (stk n)), tsaRespQ := q\<rparr>,
       errorLog := e, eepNodeState := v, commitNetworkImage := c\<rparr>"
proof -
  obtain e v c where l: "OsalPrintLog st' n =
      n\<lparr>errorLog := e, eepNodeState := v, commitNetworkImage := c\<rparr>"
    using OsalPrintLog_shape by blast
  obtain q where q: "NMNDRespond t st a (OsalPrintLog st' n) =
      (OsalPrintLog st' n)\<lparr>stk := (stk (OsalPrintLog st' n))\<lparr>tsaRespQ := q\<rparr>\<rparr>"
    using NMNDRespond_shape by blast
  have "drop_message (NMNDRespond t st a (OsalPrintLog st' n)) =
     n\<lparr>stk := (stk n)\<lparr>appInQ := QueueDropHead (appInQ (stk n)), tsaRespQ := q\<rparr>,
       errorLog := e, eepNodeState := v, commitNetworkImage := c\<rparr>"
    unfolding q unfolding l by (simp add: on_stack_def)
  then show ?thesis by blast
qed

text \<open>
  C7. On a configured node that asks for authentication, a management command without it,
  outside the exceptions of the two tests, is taken from the queue and changes nothing else
  but the response queue, the error log and what \<open>LCS_WritePersistentNetworkImage\<close> sets: no
  table, no key, no mode and no memory.
\<close>

theorem unauthenticated_commands_change_nothing:
  assumes "auth_missing a n" and "nm_needs_auth a"
  shows "\<exists>q e v c. HandleNM P a n =
     n\<lparr>stk := (stk n)\<lparr>appInQ := QueueDropHead (appInQ (stk n)), tsaRespQ := q\<rparr>,
       errorLog := e, eepNodeState := v, commitNetworkImage := c\<rparr>"
  using refused_shape assms by (simp add: HandleNM_def)

definition authNode :: node where "authNode = RecomputeChecksum (sampleNode0\<lparr>cfgLow := 0x08\<rparr>)"

lemma authNode_auth: "auth_missing (nmMessage b) authNode"
  by (simp add: auth_missing_def authNode_def RecomputeChecksum_def sampleNode0_def NodeConfigured_def
      get_attribute_def IS_CONFIGURED_def Config_1_def nmMessage_def sampleApr_def)

theorem unauthenticated_commands_change_nothing_witness:
  "domainTable (stk (HandleNM samplePlatform (nmMessage (0x63 # 0 # replicate 15 1)) authNode)) =
     [sampleDomain, sampleDomain1]"
proof -
  let ?a = "nmMessage (0x63 # 0 # replicate 15 1)"
  have "nm_needs_auth ?a" by (simp add: nm_needs_auth_def nmMessage_def nm_codes)
  then obtain q e v c where "HandleNM samplePlatform ?a authNode =
      authNode\<lparr>stk := (stk authNode)\<lparr>appInQ := QueueDropHead (appInQ (stk authNode)), tsaRespQ := q\<rparr>,
        errorLog := e, eepNodeState := v, commitNetworkImage := c\<rparr>"
    using unauthenticated_commands_change_nothing [OF authNode_auth, of "0x63 # 0 # replicate 15 1"] by blast
  then show ?thesis by (simp add: authNode_def RecomputeChecksum_def sampleNode0_def)
qed

text \<open>
  C26. The outcome in a response is inverted. A domain update that a node refuses for want of
  authentication is answered with the success code, and one that it carries out with the
  failure code: \<open>NMNDRespond\<close> selects the success code for a status that is an error.
\<close>

theorem outcome_is_inverted:
  assumes "resp_room n" and "1 \<le> tsaRespBufSize (stk n)" and "aprService a = IzotServiceRequest"
    and "nmCode a = NM_UPDATE_DOMAIN" and "2 + sizeof_IzotDomain \<le> aprPduSize a"
    and "AccessDomain (stk n) (apdu_data a 0) \<noteq> None"
  shows "\<exists>r. responses (HandleNM P a n) = responses n @ [r] \<and>
    tssApdu r = [(if auth_missing a n then NM_resp_success else NM_resp_failure) OR NM_UPDATE_DOMAIN] \<and>
    domainTable (stk (HandleNM P a n)) =
      (if auth_missing a n then domainTable (stk n)
       else (domainTable (stk n))[unat (apdu_data a 0) := domain_of (apdu_bytes a 1 sizeof_IzotDomain)])"
proof (cases "auth_missing a n")
  case True
  have "nm_needs_auth a" using assms(4) by (simp add: nm_needs_auth_def nm_codes)
  then have h: "HandleNM P a n = drop_message (log_respond LonStatusInvalidOperation a n)"
    using True by (simp add: HandleNM_def)
  have "resp_room (OsalPrintLog LonStatusInvalidOperation n)"
    using assms(1) by (simp add: resp_room_def)
  from NMNDRespond_list [OF this, of a LonStatusInvalidOperation] show ?thesis
    using assms(2-4) True unfolding h by (auto simp: nm_codes)
next
  case False
  obtain st s where u: "UpdateDomain (stk n) (domain_of (apdu_bytes a 1 sizeof_IzotDomain)) (apdu_data a 0) True
      = (st, s)" by (metis surj_pair)
  have i: "unat (apdu_data a 0) < (if IZOT_READONLY_TWO_DOMAINS (readOnlyData (stk n)) \<noteq> 0 then MAX_DOMAINS else 1)"
    using assms(6) two_domains_0_1 [of "readOnlyData (stk n)"]
    by (auto simp: AccessDomain_def MAX_DOMAINS_def word_le_nat_alt split: if_splits)
  then have s: "st = LonStatusNoError" "s = (stk n)\<lparr>domainTable :=
      (domainTable (stk n))[unat (apdu_data a 0) := domain_of (apdu_bytes a 1 sizeof_IzotDomain)]\<rparr>"
    using u by (auto simp: UpdateDomain_def Let_def split: if_splits)
  have h: "HandleNM P a n = drop_message (persist_changes n
      (NMNDRespond NM_MESSAGE LonStatusNoError a (RecomputeChecksum (n\<lparr>stk := s\<rparr>))))"
    using False assms(4,5) u s(1) by (simp add: HandleNM_def nm_dispatch_codes HandleNMUpdateDomain_def)
  have "resp_room (RecomputeChecksum (n\<lparr>stk := s\<rparr>))"
    using assms(1) s(2) by (simp add: resp_room_def)
  from NMNDRespond_list [OF this, of a LonStatusNoError] show ?thesis
    using assms(2-4) False s(2) unfolding h by (auto simp: nm_codes)
qed

theorem outcome_is_inverted_witness:
  "\<exists>r. responses (HandleNM samplePlatform (nmMessage (0x63 # 0 # replicate 15 1)) sampleNode) = [r] \<and>
     tssApdu r = [0x03]"
proof -
  let ?a = "nmMessage (0x63 # 0 # replicate 15 1)"
  have "resp_room sampleNode" by (simp add: resp_room_def sampleNode0_def emptyQueue_def queue_wf_def)
  moreover have "\<not> auth_missing ?a sampleNode"
    by (simp add: auth_missing_def Config_1_def get_attribute_def sampleNode0_def)
  moreover have "responses sampleNode = []"
    by (simp add: sampleNode0_def emptyQueue_def queue_list_def)
  ultimately show ?thesis
    using outcome_is_inverted [of sampleNode ?a samplePlatform]
    by (simp add: nmMessage_def sampleNode0_def nm_codes sizeof_IzotDomain_def AccessDomain_def
        apdu_data_def NM_resp_failure_def sampleStack_buffer) blast
qed

section \<open>One message, one response, one commit\<close>

lemma answered_HandleNM:
  assumes "platform_ok P" "queue_wf (tsaRespQ (stk n))"
  shows "\<exists>m. answered a n m \<and> HandleNM P a n = drop_message m"
proof (cases "auth_missing a n \<and> nm_needs_auth a")
  case True
  have "answered a n (log_respond LonStatusInvalidOperation a n)"
    using assms(2) by (intro answered_responses) simp_all
  then show ?thesis unfolding HandleNM_def using True by fastforce
next
  case False
  then show ?thesis
    unfolding HandleNM_def using nm.persisted_answered [OF assms, of a] by fastforce
qed

lemma command_sets_commit:
  "eep_image (HandleNM P a n) \<noteq> eep_image n \<longrightarrow>
     commitNetworkImage (HandleNM P a n) \<and>
     eepNodeState (HandleNM P a n) = IZOT_READONLY_NODE_STATE (readOnlyData (stk (HandleNM P a n)))"
proof -
  have image: "eep_image (drop_message k) = eep_image k" "eep_image (NMNDRespond t st a k) = eep_image k"
    for k t st
    by (simp_all add: eep_image_def readOnly_bytes_def config_bytes_def tail_bytes_def Config_1_def
        on_stack_def NMNDRespond_def SendResponse_def AllocSendResponse_def Let_def)
  have "eep_image (log_respond st a n) \<noteq> eep_image n \<Longrightarrow>
      commitNetworkImage (log_respond st a n) \<and>
      eepNodeState (log_respond st a n) = IZOT_READONLY_NODE_STATE (readOnlyData (stk n))" for st
    using NMNDRespond_shape [of NM_MESSAGE st a "OsalPrintLog st n"]
    by (auto simp: image OsalPrintLog_def LCS_WritePersistentNetworkImage_def split: if_splits)
  then show ?thesis
    using nm.persisted_committed [of n P a]
    by (simp add: HandleNM_def image) (simp add: on_stack_def)
qed

text \<open>
  C28. Every management message takes exactly itself from the input queue and adds at most one
  entry to the response queue: a response under the number of the request. When the command
  has changed the image of \<open>EEPROM\<close>, its commit to persistent memory has been requested, and
  the node state that will be restored from it is the current one.
\<close>

theorem command_is_answered_once_and_committed:
  assumes "platform_ok P" and "queue_wf (tsaRespQ (stk n))"
  shows "appInQ (stk (HandleNM P a n)) = QueueDropHead (appInQ (stk n)) \<and>
    (\<exists>rs. responses (HandleNM P a n) = responses n @ rs \<and> length rs \<le> 1 \<and>
       (\<forall>r\<in>set rs. tssReqId r = aprReqId a \<and> tssService r = IzotServiceResponse)) \<and>
    (eep_image (HandleNM P a n) \<noteq> eep_image n \<longrightarrow>
       commitNetworkImage (HandleNM P a n) \<and>
       eepNodeState (HandleNM P a n) =
         IZOT_READONLY_NODE_STATE (readOnlyData (stk (HandleNM P a n))))"
proof -
  obtain m where m: "answered a n m" "HandleNM P a n = drop_message m"
    using answered_HandleNM [OF assms] by blast
  then show ?thesis
    using m command_sets_commit [of P a n] by (auto simp: answered_def on_stack_def)
qed

theorem command_is_answered_once_and_committed_witness:
  "length (responses (HandleNM samplePlatform (nmMessage [0x6A, 0]) sampleNode)) \<le> 1"
proof -
  have "responses sampleNode = []"
    by (simp add: sampleNode0_def emptyQueue_def queue_list_def)
  then show ?thesis
    using command_is_answered_once_and_committed
      [OF samplePlatform_ok sampleNode_intact(2), of "nmMessage [0x6A, 0]"] by auto
qed

section \<open>Reading back what was written\<close>

lemma no_auth: "aprAuth a \<Longrightarrow> \<not> auth_missing a n"
  by (simp add: auth_missing_def)

lemma HandleNM_authentic:
  "aprAuth a \<Longrightarrow> HandleNM P a n = drop_message (persist_changes n (nm_dispatch P a n))"
  by (simp add: HandleNM_def no_auth)

lemma AccessDomain_bound:
  "AccessDomain s i = Some k \<Longrightarrow>
     k = unat i \<and> k < MAX_DOMAINS \<and> UpdateDomain s d i True = (LonStatusNoError, s\<lparr>domainTable := (domainTable s)[k := d]\<rparr>)"
  using two_domains_0_1 [of "readOnlyData s"]
  by (auto simp: AccessDomain_def UpdateDomain_def Let_def MAX_DOMAINS_def word_le_nat_alt split: if_splits)

lemma query_domain_answer:
  assumes "resp_room n" "16 \<le> tsaRespBufSize (stk n)" "node_wf n" "aprAuth q"
    "nmCode q = NM_QUERY_DOMAIN" "aprPduSize q = 2" "AccessDomain (stk n) (apdu_data q 0) = Some i"
  shows "\<exists>r. responses (HandleNM P q n) = responses n @ [r] \<and> tssReqId r = aprReqId q \<and>
    tssApdu r = 0x2A # domain_bytes (domainTable (stk n) ! i)"
proof -
  have "i < MAX_DOMAINS" using AccessDomain_bound assms(7) by blast
  then have "length (domain_bytes (domainTable (stk n) ! i)) = 15"
    using node_wf_parts(1,2) [OF assms(3)] by (simp add: list_all_length)
  then show ?thesis
    using answer_list [OF assms(1), of "domain_bytes (domainTable (stk n) ! i)" q "0x2A"] assms(2,4-)
    by (auto simp: HandleNM_authentic nm_dispatch_codes HandleNMQueryDomain_def NM_resp_success_def
        NM_QUERY_DOMAIN_def)
qed

lemma query_addr_answer:
  assumes "resp_room n" "6 \<le> tsaRespBufSize (stk n)" "aprAuth q"
    "nmCode q = NM_QUERY_ADDR" "aprPduSize q = 2" "apdu_data q 0 < roExtended (readOnlyData (stk n))"
  shows "\<exists>r. responses (HandleNM P q n) = responses n @ [r] \<and> tssReqId r = aprReqId q \<and>
    tssApdu r = 0x27 # address_bytes (addrTable (stk n) ! unat (apdu_data q 0))"
  using answer_list [OF assms(1), of "address_bytes (addrTable (stk n) ! unat (apdu_data q 0))" q "0x27"]
    assms(2-)
  by (auto simp: HandleNM_authentic nm_dispatch_codes HandleNMQueryAddr_def NM_resp_success_def
      NM_QUERY_ADDR_def)

text \<open>
  C16. What an authenticated update writes into the domain table or the address table, a
  later query of the same entry answers byte by byte, after the success code of the query,
  whatever other commands leave that table alone in between: the query is answered from any
  node whose table is the one after the update.
\<close>

theorem configuration_reads_back:
  assumes "node_wf n" and "aprAuth u" and "aprAuth q"
    and "resp_room m" and "16 \<le> tsaRespBufSize (stk m)" and "node_wf m"
    and "readOnlyData (stk m) = readOnlyData (stk n)" and "apdu_data q 0 = apdu_data u 0"
    and "aprPduSize q = 2"
  shows
    "(nmCode u = NM_UPDATE_DOMAIN \<and> nmCode q = NM_QUERY_DOMAIN \<and> 17 \<le> aprPduSize u \<and>
      AccessDomain (stk n) (apdu_data u 0) \<noteq> None \<and>
      domainTable (stk m) = domainTable (stk (HandleNM P u n)) \<longrightarrow>
        (\<exists>r. responses (HandleNM P q m) = responses m @ [r] \<and> tssApdu r = 0x2A # apdu_bytes u 1 15)) \<and>
     (nmCode u = NM_UPDATE_ADDR \<and> nmCode q = NM_QUERY_ADDR \<and> 7 \<le> aprPduSize u \<and>
      apdu_data u 0 < roExtended (readOnlyData (stk n)) \<and> unat (apdu_data u 0) < NUM_ADDR_TBL_ENTRIES \<and>
      addrTable (stk m) = addrTable (stk (HandleNM P u n)) \<longrightarrow>
        (\<exists>r. responses (HandleNM P q m) = responses m @ [r] \<and> tssApdu r = 0x27 # apdu_bytes u 1 5))"
proof (intro conjI impI; elim conjE)
  assume u: "nmCode u = NM_UPDATE_DOMAIN" "nmCode q = NM_QUERY_DOMAIN" "17 \<le> aprPduSize u"
    "AccessDomain (stk n) (apdu_data u 0) \<noteq> None"
    "domainTable (stk m) = domainTable (stk (HandleNM P u n))"
  then obtain i where i: "AccessDomain (stk n) (apdu_data u 0) = Some i" by blast
  let ?d = "domain_of (apdu_bytes u 1 15)"
  have "domainTable (stk (HandleNM P u n)) = (domainTable (stk n))[i := ?d]"
    using AccessDomain_bound [OF i, of ?d] u assms(2)
    by (simp add: HandleNM_authentic nm_dispatch_codes HandleNMUpdateDomain_def sizeof_IzotDomain_def)
  moreover have "i < MAX_DOMAINS" using AccessDomain_bound [OF i] by blast
  ultimately have "domainTable (stk m) ! i = ?d"
    using u(5) node_wf_parts(2) [OF assms(1)] by simp
  moreover have "AccessDomain (stk m) (apdu_data q 0) = Some i"
    using i assms(7,8) by (simp add: AccessDomain_def)
  ultimately show "\<exists>r. responses (HandleNM P q m) = responses m @ [r] \<and> tssApdu r = 0x2A # apdu_bytes u 1 15"
    using query_domain_answer [OF assms(4,5,6,3) u(2) assms(9), of i P]
    by (auto simp: domain_bytes_of)
next
  assume u: "nmCode u = NM_UPDATE_ADDR" "nmCode q = NM_QUERY_ADDR" "7 \<le> aprPduSize u"
    "apdu_data u 0 < roExtended (readOnlyData (stk n))" "unat (apdu_data u 0) < NUM_ADDR_TBL_ENTRIES"
    "addrTable (stk m) = addrTable (stk (HandleNM P u n))"
  let ?i = "unat (apdu_data u 0)" and ?d = "address_of (apdu_bytes u 1 5)"
  have "addrTable (stk (HandleNM P u n)) = (addrTable (stk n))[?i := ?d]"
    using u assms(2) by (simp add: HandleNM_authentic nm_dispatch_codes HandleNMUpdateAddr_def
        UpdateAddress_def sizeof_IzotAddress_def word_less_nat_alt)
  then have "addrTable (stk m) ! ?i = ?d"
    using u(5,6) node_wf_parts(3) [OF assms(1)] by simp
  then show "\<exists>r. responses (HandleNM P q m) = responses m @ [r] \<and> tssApdu r = 0x27 # apdu_bytes u 1 5"
    using query_addr_answer [OF assms(4) _ assms(3) u(2) assms(9), of P] assms(5,7,8) u(4)
    by (auto simp: bytes_of_structs)
qed

definition authentic :: "APPReceiveParam \<Rightarrow> APPReceiveParam" where
  "authentic a = a\<lparr>aprAuth := True\<rparr>"

theorem configuration_reads_back_witness:
  "let u = authentic (nmMessage (0x63 # 0 # replicate 15 1));
       m = on_stack (\<lambda>s. s\<lparr>domainTable := domainTable (stk (HandleNM samplePlatform u sampleNode))\<rparr>)
             sampleNode
   in \<exists>r. responses (HandleNM samplePlatform (authentic (nmMessage [0x6A, 0])) m) = [r] \<and>
        tssApdu r = 0x2A # replicate 15 1"
proof -
  let ?u = "authentic (nmMessage (0x63 # 0 # replicate 15 1))"
    and ?q = "authentic (nmMessage [0x6A, 0])"
  let ?n = "HandleNM samplePlatform ?u sampleNode"
  let ?m = "on_stack (\<lambda>s. s\<lparr>domainTable := domainTable (stk ?n)\<rparr>) sampleNode"
  have wf: "node_wf sampleNode" "node_wf ?n"
    using sampleNode_intact(1) intact_HandleNM [OF samplePlatform_ok _ sampleNode_intact(1), of ?u]
    by (simp_all add: intact_wf checksum_safe_def nm_codes authentic_def nmMessage_def)
  have m: "node_wf ?m" by (intro node_wf_tables wf(1) node_wf_parts wf(2))
  have b: "apdu_bytes ?u 1 15 = replicate 15 1"
    by (simp add: apdu_bytes_def authentic_def nmMessage_def bytes_from_full)
  have r: "responses ?m = []" "resp_room ?m" "16 \<le> tsaRespBufSize (stk ?m)"
    by (simp_all add: on_stack_def sampleNode0_def resp_room_def emptyQueue_def queue_list_def
        queue_wf_def sampleStack_buffer)
  show ?thesis
    using configuration_reads_back [OF wf(1) _ _ r(2,3) m, of ?u ?q samplePlatform] r(1) b
    by (simp add: Let_def on_stack_def authentic_def nmMessage_def nm_codes AccessDomain_def
        sampleNode0_def apdu_data_def)
qed

section \<open>Read and write protection\<close>

lemma image_after_responses [simp]:
  "eep_image (NMNDRespond t st a n) = eep_image n" "eep_image (drop_message n) = eep_image n"
  "eep_image (on_stack izot_device_reset n) = eep_image n"
  by (simp_all add: eep_image_def readOnly_bytes_def config_bytes_def tail_bytes_def Config_1_def
      on_stack_def izot_device_reset_def NMNDRespond_def SendResponse_def AllocSendResponse_def
      Let_def)

text \<open>The image in front of the checksum.\<close>

lemma image_prefix:
  "node_wf n \<Longrightarrow> i < off_configCheckSum \<Longrightarrow>
     eep_image n ! i = (readOnly_bytes n @ config_bytes n) ! i"
  using node_wf_lengths [of n] unfolding eep_image_def off_configCheckSum_def
  by (metis append_assoc length_append nth_append numeral_plus_numeral add_num_simps)

lemma image_RecomputeChecksum:
  "node_wf n \<Longrightarrow> i < off_configCheckSum \<Longrightarrow> eep_image (RecomputeChecksum n) ! i = eep_image n ! i"
  by (simp add: image_prefix)
    (simp add: RecomputeChecksum_def readOnly_bytes_def config_bytes_def Config_1_def)

lemma image_write_persist:
  "node_wf n \<Longrightarrow> i < off_configCheckSum \<Longrightarrow>
     eep_image (LCS_WritePersistentNetworkImage n) ! i = eep_image n ! i"
proof -
  assume a: "node_wf n" "i < off_configCheckSum"
  have "node_wf (LCS_WritePersistentNetworkImage n)"
    using a(1) by (subst node_wf_cong [of _ n]) (simp_all add: LCS_WritePersistentNetworkImage_def)
  then show ?thesis
    using a by (simp add: image_prefix)
      (simp add: LCS_WritePersistentNetworkImage_def readOnly_bytes_def config_bytes_def Config_1_def)
qed

lemma image_OsalPrintLog:
  assumes "node_wf n" "i < off_configCheckSum"
  shows "eep_image (OsalPrintLog st n) ! i = eep_image n ! i"
proof -
  have "node_wf (n\<lparr>errorLog := int_bytes (status_value st)\<rparr>)"
    using assms(1) by (simp add: node_wf_def)
  then show ?thesis
    using assms by (simp add: OsalPrintLog_def image_write_persist)
      (simp add: image_prefix readOnly_bytes_def config_bytes_def Config_1_def)
qed

lemma image_persist_changes:
  "node_wf n \<Longrightarrow> i < off_configCheckSum \<Longrightarrow> eep_image (persist_changes k n) ! i = eep_image n ! i"
  by (simp add: persist_changes_def image_write_persist)

lemma node_wf_responses [simp]: "node_wf (NMNDRespond t st a n) = node_wf n"
proof -
  obtain q where "NMNDRespond t st a n = n\<lparr>stk := (stk n)\<lparr>tsaRespQ := q\<rparr>\<rparr>"
    using NMNDRespond_shape by blast
  then show ?thesis by (simp only:) (rule node_wf_cong; simp)
qed

lemma node_wf_reset [simp]: "node_wf (on_stack izot_device_reset n) = node_wf n"
  by (rule node_wf_cong) (simp_all add: on_stack_def izot_device_reset_def)

lemma image_mem_write:
  assumes "node_wf n" "eepBase P \<le> p" "p + int (length b) \<le> eepBase P + int sizeof_EEPROM"
  shows "eep_image (mem_write P p b n) = copy_into (eep_image n) (nat (p - eepBase P)) b"
proof -
  have "nat (p - eepBase P) + length b \<le> sizeof_EEPROM" using assms(2,3) by linarith
  then have "length (copy_into (eep_image n) (nat (p - eepBase P)) b) = sizeof_EEPROM"
    using length_eep_image [OF assms(1)] by simp
  moreover have "in_eep P p (length b)" using assms(2,3) by (simp add: in_eep_def)
  ultimately show ?thesis by (simp add: mem_write_def image_of_store)
qed

lemma protected_write:
  assumes "node_wf n" "IZOT_READONLY_RW_PROTECT n = 1" "i < off_configCheckSum"
    "i < off_configData \<or> off_Config_1 \<le> i"
  shows "node_wf (HandleNMWriteMemory P a n) \<and> eep_image (HandleNMWriteMemory P a n) ! i = eep_image n ! i"
proof -
  let ?b = "apdu_bytes a 5 (unat (apdu_data a 3))"
  have w: "node_wf (mem_write P memp ?b n) \<and> eep_image (mem_write P memp ?b n) ! i = eep_image n ! i"
    if p: "eepBase P + int off_configData \<le> memp"
      "memp + int (unat (apdu_data a 3)) < eepBase P + int off_domainTable" for memp
  proof -
    let ?off = "nat (memp - eepBase P)"
    have o: "off_configData \<le> ?off" "?off + length ?b \<le> off_Config_1" "eepBase P \<le> memp"
      "memp + int (length ?b) \<le> eepBase P + int sizeof_EEPROM"
      using p unfolding eep_offsets length_apdu_bytes by linarith+
    have "in_eep P memp (length ?b)" using o(3,4) by (simp add: in_eep_def)
    then have "node_wf (mem_write P memp ?b n)" by (simp add: mem_write_def)
    moreover have "eep_image (mem_write P memp ?b n) ! i = eep_image n ! i"
      unfolding image_mem_write [OF assms(1) o(3,4)]
      using o assms(3,4) length_eep_image [OF assms(1)]
      by (subst nth_copy_into) (auto simp: eep_offsets)
    ultimately show ?thesis by simp
  qed
  show ?thesis
  proof (cases "write_address P a")
    case None
    then show ?thesis using assms(1) by (simp add: HandleNMWriteMemory_def Let_def)
  next
    case (Some memp)
    show ?thesis
    proof (cases "eepBase P + int off_configData \<le> memp \<and>
        memp + int (unat (apdu_data a 3)) < eepBase P + int off_domainTable")
      case True
      then show ?thesis
        using w [of memp] Some assms(1,3)
        by (simp add: HandleNMWriteMemory_def Let_def image_RecomputeChecksum)
    next
      case False
      then show ?thesis
        using Some assms(1,2) by (auto simp: HandleNMWriteMemory_def Let_def)
    qed
  qed
qed

text \<open>
  C17. With read and write protection, a memory write reaches, in the part of the image in front of
  the stored checksum, only the configuration structure, and of that not its last byte: no byte
  of the read-only data, the domain table with the keys, the address table or the tables of
  network variables changes, whatever mode, offset and count the message has. The checksum, and
  the node state and the error log behind it, are not protected: the command changes the
  checksum when it recalculates it.
\<close>

theorem protected_memory_is_not_written:
  assumes "node_wf n" and "IZOT_READONLY_RW_PROTECT n = 1"
    and "nmCode a = NM_WRITE_MEMORY" and "i < off_configCheckSum"
    and "i < off_configData \<or> off_Config_1 \<le> i"
  shows "eep_image (HandleNM P a n) ! i = eep_image n ! i"
proof (cases "auth_missing a n \<and> nm_needs_auth a")
  case True
  then show ?thesis
    using assms(1,4) by (simp add: HandleNM_def image_OsalPrintLog)
next
  case False
  then show ?thesis
    using protected_write [OF assms(1,2,4,5), of P a] assms(3,4)
    by (auto simp: HandleNM_def nm_dispatch_codes image_persist_changes)
qed

definition protectedNode :: node where
  "protectedNode = on_stack (\<lambda>s. s\<lparr>readOnlyData := (readOnlyData s)\<lparr>roReadOnly1 := 0x80\<rparr>\<rparr>) sampleNode0"

theorem protected_memory_is_not_written_witness:
  "eep_image (HandleNM samplePlatform (nmMessage [0x6E, 0, 0xF0, 81, 1, 0, 0x55]) protectedNode) ! 81 =
     eep_image protectedNode ! 81"
proof -
  have "node_wf protectedNode"
    using sampleNode0_wf by (simp add: protectedNode_def node_wf_def on_stack_def)
  moreover have "IZOT_READONLY_RW_PROTECT protectedNode = 1"
    by (simp add: protectedNode_def on_stack_def get_attribute_def sampleNode0_def)
  ultimately show ?thesis
    using protected_memory_is_not_written [of protectedNode
        "nmMessage [0x6E, 0, 0xF0, 81, 1, 0, 0x55]" 81 samplePlatform]
    by (simp add: nmMessage_def nm_codes eep_offsets)
qed

lemma mem_read_eep:
  assumes "eepBase P \<le> p" "p + int k \<le> eepBase P + int sizeof_EEPROM"
  shows "mem_read P n p k = bytes_from (eep_image n) (nat (p - eepBase P)) k"
proof (rule nth_equalityI)
  fix i
  assume "i < length (mem_read P n p k)"
  then have i: "i < k" by (simp add: mem_read_def)
  have "nat (p + int i - eepBase P) = nat (p - eepBase P) + i" using assms(1) by simp
  then show "mem_read P n p k ! i = bytes_from (eep_image n) (nat (p - eepBase P)) k ! i"
    using i assms by (simp add: mem_read_def peek_def)
qed (simp add: mem_read_def)

text \<open>
  C18. With read and write protection, a memory read is refused, or it answers bytes of the
  read-only data and the configuration structure, one byte at the address of the variable
  \<open>nmp\<close>, or the firmware version: no key and no table.
\<close>

theorem protected_memory_is_not_read:
  assumes "resp_room n" and "IZOT_READONLY_RW_PROTECT n = 1" and "nmCode a = NM_READ_MEMORY"
    and "5 \<le> aprPduSize a" and "unat (apdu_data a 3) \<le> tsaRespBufSize (stk n)"
    and "\<not> auth_missing a n"
  shows "\<exists>r. responses (HandleNM P a n) = responses n @ [r] \<and>
    (tssApdu r = [0x0D] \<or>
     (\<exists>off k c. off + k < off_domainTable \<and>
        tssApdu r = c # bytes_from (eep_image (set_input_clock 0 n)) off k) \<or>
     (\<exists>c. tssApdu r = [c, peek P (set_input_clock 0 n) (nmpVar P)] \<or>
        tssApdu r = [c, firmwareVersion P]))"
proof -
  let ?k = "unat (apdu_data a 3)" and ?m = "set_input_clock 0 n" and ?memp = "read_address P a"
  let ?R = "\<lambda>ap n'. \<exists>r. responses (respond_at_tail a False False ap n') = responses n @ [r] \<and> tssApdu r = ap"
  have f: "resp_room (node_fault n)" "responses (node_fault n) = responses n"
    using assms(1) by (simp_all add: resp_room_def on_stack_def)
  have room: "?R ap n" "?R ap (node_fault n)" for ap
    using respond_at_tail_list [OF assms(1), of a False False ap]
      respond_at_tail_list [OF f(1), of a False False ap] unfolding f(2) by blast+
  have eq: "HandleNM P a n = drop_message (persist_changes n (HandleNMReadMemory P a n))"
    using assms(3,6) by (simp add: HandleNM_def nm_dispatch_codes)
  show ?thesis
  proof (cases "read_allowed P a ?memp")
    case False
    then have "HandleNMReadMemory P a n = respond_at_tail a False False [0x0D] n"
      using assms(2,4,5) by (simp add: HandleNMReadMemory_def Let_def nm_codes NM_resp_failure_def)
    then show ?thesis using room(1) [of "[0x0D]"] by (auto simp: eq)
  next
    case True
    let ?d = "if ?memp = nmBase P \<and> ?k = 1 then [firmwareVersion P] else mem_read P ?m ?memp ?k"
    let ?n = "if 1 + ?k > tsaRespBufSize (stk n) \<or> (apdu_data a 0 = MFG_RELATIVE \<and> ?k \<noteq> 0)
      then node_fault n else n"
    let ?c = "if apdu_data a 0 = MFG_RELATIVE then NM_resp_failure OR NM_READ_MEMORY
      else NM_resp_success OR NM_READ_MEMORY"
    have c: "\<not> (aprPduSize a < 5 \<or> ?k > tsaRespBufSize (stk n))"
      "\<not> (IZOT_READONLY_RW_PROTECT n = 1 \<and> \<not> read_allowed P a ?memp)"
      using assms(4,5) True by simp_all
    have "HandleNMReadMemory P a n = respond_at_tail a False False (?c # ?d) ?n"
      by (simp only: HandleNMReadMemory_def Let_def set_input_clock_restore if_not_P [OF c(1)]
          if_not_P [OF c(2)])
    then have h: "HandleNMReadMemory P a n = respond_at_tail a False False (?c # ?d) n \<or>
        HandleNMReadMemory P a n = respond_at_tail a False False (?c # ?d) (node_fault n)"
      by (simp only: split: if_split) blast
    have "\<exists>r. responses (HandleNMReadMemory P a n) = responses n @ [r] \<and> tssApdu r = ?c # ?d"
      using h by (elim disjE) (simp_all only: room)
    then obtain r where r: "responses (HandleNM P a n) = responses n @ [r]" "tssApdu r = ?c # ?d"
      unfolding eq responses_finish by blast
    show ?thesis
    proof (cases "?memp = nmBase P \<and> ?k = 1")
      case True
      then show ?thesis using r by auto
    next
      case plain: False
      show ?thesis
      proof (cases "?memp = nmpVar P \<and> ?k = 1")
        case True
        then have "?d = [peek P ?m (nmpVar P)]" using plain by (simp add: mem_read_def)
        then show ?thesis using r by (simp only:) blast
      next
        case False
        then have b: "eepBase P \<le> ?memp" "?memp + int ?k < eepBase P + int off_domainTable"
          using True by (auto simp: read_allowed_def)
        let ?off = "nat (?memp - eepBase P)"
        have "?off + ?k < off_domainTable" using b by linarith
        moreover have "?d = bytes_from (eep_image ?m) ?off ?k"
          using plain mem_read_eep [OF b(1), of ?k ?m] b(2) unfolding eep_offsets by auto
        ultimately show ?thesis using r by (simp only:) blast
      qed
    qed
  qed
qed

lemma protectedNode_room:
  "resp_room protectedNode" "IZOT_READONLY_RW_PROTECT protectedNode = 1"
  "tsaRespBufSize (stk protectedNode) = 255" "IZOT_CONFIG_NMAUTH protectedNode = 0"
  by (simp_all add: protectedNode_def resp_room_def on_stack_def sampleNode0_def sampleStack_def
      get_attribute_def emptyQueue_def queue_wf_def Config_1_def)

theorem protected_memory_is_not_read_witness:
  "\<exists>r. responses (HandleNM samplePlatform (nmMessage [0x6D, 0, 0xF0, 81, 6]) protectedNode) =
      responses protectedNode @ [r] \<and>
    (tssApdu r = [0x0D] \<or>
     (\<exists>off k c. off + k < off_domainTable \<and>
        tssApdu r = c # bytes_from (eep_image (set_input_clock 0 protectedNode)) off k) \<or>
     (\<exists>c. tssApdu r = [c, peek samplePlatform (set_input_clock 0 protectedNode) (nmpVar samplePlatform)] \<or>
        tssApdu r = [c, firmwareVersion samplePlatform]))"
  by (rule protected_memory_is_not_read)
    (simp_all add: protectedNode_room auth_missing_def nmMessage_def nm_codes apdu_data_def)

section \<open>What the guards let through\<close>

text \<open>The key of the first domain in the image, and the answer of a memory match.\<close>

lemma key_in_image:
  assumes "node_wf n" "m \<le> 6"
  shows "bytes_from (eep_image n) 81 m = take m (domKey (hd (domainTable (stk n))))"
proof -
  obtain d ds where d: "domainTable (stk n) = d # ds" "domain_wf d"
    using assms(1) by (cases "domainTable (stk n)") (auto simp: node_wf_def MAX_DOMAINS_def)
  have k: "length (domId d) = 6" "length (domKey d) = 6" using d(2) by (simp_all add: domain_wf_def)
  have "length (cfgHead n) = 24" using assms(1) by (simp add: node_wf_def)
  then show ?thesis
    using k d assms node_wf_lengths [OF assms(1)]
    by (simp add: eep_image_def config_bytes_def domain_bytes_def Let_def bytes_from_skip)
      (simp add: bytes_from_eq_take)
qed

lemma query_id_answer_list:
  assumes "resp_room n"
  shows "\<exists>r. responses (query_id_answer a n) = responses n @ [r] \<and> \<not> tssNullResponse r"
  using respond_at_tail_list [OF assms] unfolding query_id_answer_def by (auto; blast)

text \<open>
  C19. The test of a memory match against the start of the domain table adds the low byte of
  the offset where it means the count. A selected node, with read and write protection and
  with management authentication, so answers an unauthenticated query at offset 35 whose
  guess agrees with the image up to the first \<open>m\<close> bytes of the key of domain 0, and no
  other: the key can be found byte by byte.
\<close>

theorem query_id_reveals_the_key:
  assumes "resp_room n" and "node_wf n" and "selectQueryFlag n \<noteq> 0"
    and "nmCode a = NM_QUERY_ID" and "apdu_data a 0 = NM_SEL_SELECTED"
    and "apdu_data a 1 = READ_ONLY_RELATIVE" and "apdu_data a 2 = 0" and "apdu_data a 3 = 35"
    and "unat (apdu_data a 4) = 46 + m" and "aprPduSize a = 6 + (46 + m)" and "m \<le> 6"
    and "apdu_bytes a 5 46 = bytes_from (eep_image n) 35 46"
  shows "\<exists>r. responses (HandleNM P a n) = responses n @ [r] \<and>
    (tssNullResponse r \<longleftrightarrow> apdu_bytes a 51 m \<noteq> take m (domKey (hd (domainTable (stk n)))))"
proof -
  let ?memp = "eepBase P + 35"
  have n: "HandleNM P a n = drop_message (persist_changes n (HandleNMQueryId P a n))"
    using assms(4) by (simp add: HandleNM_def nm_needs_auth_def nm_dispatch_codes)
  have memp: "query_address P a = Some ?memp"
    using assms(6-8) by (simp add: query_address_def apdu_word_def READ_ONLY_RELATIVE_def
        CONFIG_RELATIVE_def ABSOLUTE_MEM_ADDR_def)
  have ok: "query_allowed P a ?memp"
    using assms(8) by (simp add: query_allowed_def off_domainTable_def)
  have guess: "apdu_bytes a 5 (46 + m) = apdu_bytes a 5 46 @ apdu_bytes a 51 m"
    by (simp add: apdu_bytes_def bytes_from_join)
  have "mem_read P n ?memp (46 + m) = bytes_from (eep_image n) 35 (46 + m)"
    using assms(11) mem_read_eep [of P ?memp "46 + m" n] by (simp add: sizeof_EEPROM_def)
  also have "\<dots> = bytes_from (eep_image n) 35 46 @ bytes_from (eep_image n) 81 m"
    by (simp add: bytes_from_join)
  finally have there: "apdu_bytes a 5 (46 + m) \<noteq> mem_read P n ?memp (46 + m) \<longleftrightarrow>
      apdu_bytes a 51 m \<noteq> take m (domKey (hd (domainTable (stk n))))"
    unfolding guess using key_in_image [OF assms(2,11)] assms(12) by simp
  have "QueueTail (tsaRespQ (stk n)) \<noteq> None"
    using assms(1) by (intro QueueTail_wf) (simp add: resp_room_def)
  then have "HandleNMQueryId P a n =
      (if apdu_bytes a 5 (46 + m) \<noteq> mem_read P n ?memp (46 + m)
       then respond_at_tail a True False [NM_resp_failure OR NM_QUERY_ID] n
       else query_id_answer a n)"
    using assms(3,5,9,10) memp ok
    by (simp del: not_None_eq add: HandleNMQueryId_def Let_def NM_SEL_SELECTED_def
        NM_SEL_UNCONFIGURED_def)
  then show ?thesis
    unfolding n responses_finish there [symmetric]
    using respond_at_tail_list [OF assms(1), of a True] query_id_answer_list [OF assms(1), of a]
    by (auto split: if_split)
qed

text \<open>
  The probe of the witness: the bytes of the image in front of the key, then a guess of the
  first two bytes of the key.
\<close>

definition selectedNode :: node where
  "selectedNode = (on_stack (\<lambda>s. s\<lparr>readOnlyData := (readOnlyData s)\<lparr>roReadOnly1 := 0x80\<rparr>\<rparr>) authNode)
     \<lparr>selectQueryFlag := 1\<rparr>"

definition keyProbe :: "bytes \<Rightarrow> APPReceiveParam" where
  "keyProbe g = nmMessage ([0x61, 1, 1, 0, 35, of_nat (46 + length g)] @
     bytes_from (eep_image selectedNode) 35 46 @ g)"

lemma selectedNode_fields:
  "node_wf selectedNode" "resp_room selectedNode" "selectQueryFlag selectedNode \<noteq> 0"
  "take 2 (domKey (hd (domainTable (stk selectedNode)))) = [1, 2]"
  using sampleNode0_wf
  by (simp_all add: selectedNode_def authNode_def RecomputeChecksum_def on_stack_def resp_room_def
      sampleNode0_def sampleStack_def node_wf_def emptyQueue_def queue_wf_def sampleDomain_def)

lemma keyProbe_fields:
  assumes "length g = 2"
  shows "nmCode (keyProbe g) = NM_QUERY_ID" "apdu_data (keyProbe g) 0 = NM_SEL_SELECTED"
    "apdu_data (keyProbe g) 1 = READ_ONLY_RELATIVE" "apdu_data (keyProbe g) 2 = 0"
    "apdu_data (keyProbe g) 3 = 35" "unat (apdu_data (keyProbe g) 4) = 46 + 2"
    "aprPduSize (keyProbe g) = 6 + (46 + 2)"
    "apdu_bytes (keyProbe g) 5 46 = bytes_from (eep_image selectedNode) 35 46"
    "apdu_bytes (keyProbe g) 51 2 = g" "auth_missing (keyProbe g) selectedNode"
  using assms
  by (simp_all add: keyProbe_def nmMessage_def apdu_data_def apdu_bytes_def nm_codes
      NM_SEL_SELECTED_def READ_ONLY_RELATIVE_def bytes_from_skip bytes_from_prefix bytes_from_full
      auth_missing_def selectedNode_def authNode_def RecomputeChecksum_def sampleNode0_def
      NodeConfigured_def get_attribute_def IS_CONFIGURED_def Config_1_def sampleApr_def
      on_stack_def sampleStack_def)

theorem query_id_reveals_the_key_witness:
  "auth_missing (keyProbe [1, 2]) selectedNode \<and>
   (\<exists>r. responses (HandleNM samplePlatform (keyProbe [1, 2]) selectedNode) =
      responses selectedNode @ [r] \<and> \<not> tssNullResponse r) \<and>
   (\<exists>r. responses (HandleNM samplePlatform (keyProbe [1, 3]) selectedNode) =
      responses selectedNode @ [r] \<and> tssNullResponse r)"
proof -
  have probe: "\<exists>r. responses (HandleNM samplePlatform (keyProbe g) selectedNode) =
      responses selectedNode @ [r] \<and> (tssNullResponse r \<longleftrightarrow> g \<noteq> [1, 2])" if l: "length g = 2" for g
    using query_id_reveals_the_key [OF selectedNode_fields(2,1,3) keyProbe_fields(1-7) [OF l] _
        keyProbe_fields(8) [OF l], of samplePlatform]
    unfolding keyProbe_fields(9) [OF l] selectedNode_fields(4) by simp
  show ?thesis
    using probe [of "[1, 2]"] probe [of "[1, 3]"] keyProbe_fields(10) [of "[1, 2]"] by auto
qed

lemma config_of_image: "node_wf n \<Longrightarrow> config_bytes n = bytes_from (eep_image n) 47 3611"
  using node_wf_lengths [of n] by (simp add: eep_image_def bytes_from_skip bytes_from_prefix)

text \<open>What an alias record written behind the table reaches.\<close>

lemma store_alias_behind:
  assumes "node_wf n" "NV_ALIAS_TABLE_SIZE \<le> i" "length b = sizeof_IzotAliasConfig"
  shows "config_bytes (store_alias i b n) = config_bytes n"
    and "i = NV_ALIAS_TABLE_SIZE \<Longrightarrow> errorLog (store_alias i b n) = tl b"
    and "i \<ge> NV_ALIAS_TABLE_SIZE + 3 \<Longrightarrow> memFault (stk (store_alias i b n))"
proof -
  let ?off = "off_nvAliasTable + sizeof_IzotAliasConfig * i"
  let ?im = "take sizeof_EEPROM (copy_into (eep_image n) ?off b)"
  have e: "length (eep_image n) = 3673" using length_eep_image [OF assms(1)] by (simp add: sizeof_EEPROM_def)
  have off: "3658 \<le> ?off" using assms(2) by (simp add: eep_offsets eep_sizes)
  have len: "length ?im = sizeof_EEPROM" using e by (simp add: copy_into_def sizeof_EEPROM_def)
  have "take 3658 ?im = take 3658 (eep_image n)"
    using off e by (simp add: copy_into_def sizeof_EEPROM_def min_def)
  then have "bytes_from ?im 47 3611 = bytes_from (eep_image n) 47 3611"
    using len e drop_take [of 47 3658 ?im] drop_take [of 47 3658 "eep_image n"]
    by (simp add: bytes_from_eq_take sizeof_EEPROM_def)
  then show "config_bytes (store_alias i b n) = config_bytes n"
    using config_of_image [OF assms(1)] config_of_image [OF node_wf_eep_store, of ?im n]
      image_of_store [OF len, of n]
    by (simp add: store_alias_def Let_def on_stack_def config_bytes_def Config_1_def)
  show "errorLog (store_alias i b n) = tl b" if "i = NV_ALIAS_TABLE_SIZE"
  proof -
    have o: "?off = 3658" using that by (simp add: eep_offsets eep_sizes)
    have "bytes_from ?im 3659 4 = tl b"
      using assms(3) e len unfolding o
      by (cases b) (simp_all add: bytes_from_eq_take copy_into_def eep_sizes sizeof_EEPROM_def)
    then show ?thesis by (simp add: store_alias_def Let_def on_stack_def eep_store_def off_errorLog_def)
  qed
  show "memFault (stk (store_alias i b n))" if "i \<ge> NV_ALIAS_TABLE_SIZE + 3"
    using that assms(3) by (simp add: store_alias_def Let_def eep_offsets eep_sizes on_stack_def)
qed

lemma memFault_answered [simp]:
  "memFault (stk (answer a code dat n)) = memFault (stk n)"
  "memFault (stk (NMNDRespond t st a n)) = memFault (stk n)"
  using answer_shape [of a code dat n] NMNDRespond_shape [of t st a n] by (auto simp del: fold_congs)

lemma config_after_responses [simp]:
  "config_bytes (NMNDRespond t st a n) = config_bytes n"
  "config_bytes (drop_message n) = config_bytes n" "config_bytes (RecomputeChecksum n) = config_bytes n"
  "errorLog (RecomputeChecksum n) = errorLog n"
  using NMNDRespond_shape [of t st a n]
  by (auto simp: config_bytes_def Config_1_def on_stack_def RecomputeChecksum_def Let_def)

lemma after_drop [simp]:
  "memFault (stk (drop_message n)) = memFault (stk n)" "errorLog (drop_message n) = errorLog n"
  by (simp_all add: on_stack_def)

lemma sampleNode0_open: "\<not> auth_missing a sampleNode0"
  by (simp add: auth_missing_def sampleNode0_def Config_1_def get_attribute_def sampleStack_def)

lemmas nme_codes =
  NME_QUERY_VERSION_def NME_UPDATE_NV_BY_INDEX_def NME_UPDATE_DOMAIN_NO_KEY_def
  NME_REPORT_DOMAIN_NO_KEY_def NME_REPORT_KEY_def NME_UPDATE_KEY_def NME_INIT_CONFIG_def
  NME_UPDATE_NV_CONFIG_def NME_QUERY_NV_CONFIG_def NME_UPDATE_NV_ALIAS_CONFIG_def
  NME_QUERY_NV_ALIAS_CONFIG_def NME_QUERY_IP_ADDRESS_def

lemma GetNVStructPtr_None:
  "index < 0 \<or> int (nvTableSize s + NV_ALIAS_TABLE_SIZE) \<le> index \<Longrightarrow>
     GetNVStructPtr s (GetPrimaryIndex s index) = None"
  by (auto simp: GetPrimaryIndex_def GetNVStructPtr_def)

lemma no_auth_expanded:
  "\<not> auth_missing a n \<Longrightarrow> nmCode a = NM_EXPANDED \<Longrightarrow>
     HandleNM P a n = drop_message (persist_changes n (HandleNMExpanded P a n))"
  by (simp add: HandleNM_def nm_dispatch_codes)

lemma after_persist [simp]:
  "config_bytes (persist_changes k n) = config_bytes n"
  "errorLog (persist_changes k n) = errorLog n"
  "stk (persist_changes k n) = stk n"
  by (simp_all add: persist_changes_def LCS_WritePersistentNetworkImage_def config_bytes_def
      Config_1_def)

text \<open>
  C37. An update of the alias table by a network index that the code accepts writes behind the
  table, because the bound is that of all datapoints and the index is used without
  subtracting the static ones. The configuration bytes stay as they were, yet the command is
  carried out: the first such index replaces the error log, and from the fourth on the write
  leaves the structure in memory.
\<close>

theorem alias_update_overruns_the_table:
  assumes "node_wf n" and "\<not> auth_missing a n" and "nmCode a = NM_EXPANDED"
    and "apdu_data a 0 = NME_UPDATE_NV_ALIAS_CONFIG" and "10 \<le> aprPduSize a"
    and "NV_ALIAS_TABLE_SIZE \<le> unat (apdu_word a 1)"
    and "unat (apdu_word a 1) < nvTableSize (stk n) + NV_ALIAS_TABLE_SIZE"
  shows "config_bytes (HandleNM P a n) = config_bytes n \<and>
    (unat (apdu_word a 1) = NV_ALIAS_TABLE_SIZE \<longrightarrow> errorLog (HandleNM P a n) = apdu_bytes a 4 4) \<and>
    (unat (apdu_word a 1) \<ge> NV_ALIAS_TABLE_SIZE + 3 \<longrightarrow> memFault (stk (HandleNM P a n)))"
proof -
  let ?b = "apdu_bytes a 3 sizeof_IzotAliasConfig" and ?i = "unat (apdu_word a 1)"
  have h: "HandleNMExpanded P a n = NMNDRespond NM_MESSAGE LonStatusNoError a
      (RecomputeChecksum (store_alias ?i ?b n))"
    using assms(4,5,7) by (simp add: HandleNMExpanded_def HandleNmeUpdateNvAliasCnfg_def Let_def
        nme_codes sizeof_IzotAliasConfig_def)
  have "tl ?b = apdu_bytes a 4 4"
    by (simp add: apdu_bytes_def bytes_from_def sizeof_IzotAliasConfig_def upt_rec)
  then show ?thesis
    using store_alias_behind [OF assms(1,6), of ?b]
    unfolding no_auth_expanded [OF assms(2,3)] h by auto
qed

theorem alias_update_overruns_the_table_witness:
  "errorLog (HandleNM samplePlatform (nmMessage [0x60, 0x13, 0, 254, 9, 1, 2, 3, 4, 0]) sampleNode0) =
     [1, 2, 3, 4]"
proof -
  let ?a = "nmMessage [0x60, 0x13, 0, 254, 9, 1, 2, 3, 4, 0]"
  have a: "nmCode ?a = NM_EXPANDED" "apdu_data ?a 0 = NME_UPDATE_NV_ALIAS_CONFIG"
    "unat (apdu_word ?a 1) = 254" "apdu_bytes ?a 4 4 = [1, 2, 3, 4]"
    by (simp_all add: nmMessage_def nm_codes nme_codes apdu_data_def apdu_word_def apdu_bytes_def
        bytes_from_def upt_rec byte_at_def)
  show ?thesis
    using alias_update_overruns_the_table [OF sampleNode0_wf sampleNode0_open a(1,2), of samplePlatform] a(3,4)
    by (simp add: nmMessage_def eep_sizes sampleNode0_def)
qed

text \<open>
  An update of a datapoint by an index outside of both tables reads the length of entry
  65535 of the table of datapoints, outside of it, and without authentication then also
  the attribute of a datapoint through a null pointer.
\<close>

theorem nv_update_reads_outside_the_table:
  assumes "\<not> auth_missing a n" and "nmCode a = NM_EXPANDED"
    and "apdu_data a 0 = NME_UPDATE_NV_BY_INDEX" and "5 \<le> aprPduSize a"
    and "sint (apdu_word a 1) < 0 \<or>
      int (nvTableSize (stk n) + NV_ALIAS_TABLE_SIZE) \<le> sint (apdu_word a 1)"
  shows "memFault (stk (HandleNM P a n))"
proof -
  have "memFault (stk (HandleNMExpanded P a n))"
    using assms(3,4) GetNVStructPtr_None [OF assms(5)]
    by (simp add: HandleNMExpanded_def HandleNmeUpdateNvByIndex_def Let_def nme_codes on_stack_def)
  then show ?thesis by (simp add: no_auth_expanded [OF assms(1,2)] on_stack_def)
qed

theorem nv_update_reads_outside_the_table_witness:
  "memFault (stk (HandleNM samplePlatform (nmMessage [0x60, 2, 0x7F, 0xFF, 1]) sampleNode0))"
proof -
  let ?a = "nmMessage [0x60, 2, 0x7F, 0xFF, 1]"
  have a: "nmCode ?a = NM_EXPANDED" "apdu_data ?a 0 = NME_UPDATE_NV_BY_INDEX"
    "sint (apdu_word ?a 1) = 0x7FFF"
    by (simp_all add: nmMessage_def nm_codes nme_codes apdu_data_def apdu_word_def byte_at_def)
  show ?thesis
    using nv_update_reads_outside_the_table [OF sampleNode0_open a(1,2), of samplePlatform] a(3)
    by (simp add: nmMessage_def eep_sizes sampleNode0_def)
qed

end
