(* ===== verification/Lon_Storage.thy ===== *)
theory Lon_Storage
  imports Lcs_Eeprom
begin

text \<open>
  The storage of persistent segments: the Linux side of \<^verbatim>\<open>abstraction/IzotHal.c\<close>, where a
  segment is a file, and \<^verbatim>\<open>persistence/storage_persistence.c\<close>, which maps segments to
  offsets and brackets an update with a transaction record. The state holds what survives a
  restart (the files) and what does not (the static variables of both files). Two fields stand
  for the environment: \<open>power\<close> is the number of bytes that still reach the files before the
  power fails (\<open>None\<close> for a run without a failure), and \<open>outcomes\<close> tells of every operation that
  calls the system whether it succeeds (\<open>None\<close>, also when the list is used up) or fails after
  that many bytes. Log messages with an error code change the node and schedule a commit, as in
  \<open>OsalPrintLog\<close>.
\<close>

section \<open>Segments and state\<close>

definition IzotPersistentSegNetworkImage :: nat where "IzotPersistentSegNetworkImage = 0"
definition IzotPersistentSegNodeDefinition :: nat where "IzotPersistentSegNodeDefinition = 2"
definition IzotPersistentSegApplicationData :: nat where "IzotPersistentSegApplicationData = 3"
definition IzotPersistentSegUniqueId :: nat where "IzotPersistentSegUniqueId = 4"
definition IzotPersistentSegNumSegmentTypes :: nat where "IzotPersistentSegNumSegmentTypes = 7"
definition IzotPersistentSegUnassigned :: nat where "IzotPersistentSegUnassigned = 0xFF"

lemmas seg_defs =
  IzotPersistentSegNetworkImage_def IzotPersistentSegNodeDefinition_def
  IzotPersistentSegApplicationData_def IzotPersistentSegUniqueId_def
  IzotPersistentSegNumSegmentTypes_def IzotPersistentSegUnassigned_def

definition TX_SIGNATURE :: nat where "TX_SIGNATURE = 0x89ABCDEF"
definition TX_DATA_VALID :: nat where "TX_DATA_VALID = 0xFFFFFFFF"
definition TX_DATA_INVALID :: nat where "TX_DATA_INVALID = 0"

record SegmentMap =
  segment_start :: nat
  tx_offset :: nat
  data_offset :: nat
  max_data_size :: nat
  erase_required :: bool
  erase_value :: u8

text \<open>
  A file descriptor of a segment: closed (\<open>-1\<close>), the file of the segment, or descriptor 0.
  The table is initialised with \<open>{-1}\<close>, which sets its first element only: all others are 0,
  the standard input.
\<close>

datatype fd = Closed | StandardInput | SegmentFile

record storage =
  pnode :: node
  tick :: u32
  persistentMemError :: LonStatusCode
  persistentMemInitialized :: bool
  storageFd :: "fd list"
  files :: "bytes option list"
  stdinFile :: bytes
  stdinSeekable :: bool
  power :: "nat option"
  outcomes :: "nat option list"
  segment_map :: "SegmentMap list"
  storage_block_size :: nat
  lowest_used_storage_data_offset :: nat
  data_segment_size :: "nat list"
  app_signature :: nat
  guard_band_duration :: nat
  last_update :: u32
  commit_flag :: bool
  scheduled :: bool
  persistence_list :: "bool list"
  stFault :: bool

text \<open>
  What the application and the compiler contribute: the size of the application's segment, its
  two handlers, the allocator, and the values of the two variables that \<open>InitSegmentMap\<close> reads
  without having assigned them.
\<close>

record persist_env =
  appSegmentSize :: nat
  serializeHandler :: "(node \<Rightarrow> nat \<Rightarrow> LonStatusCode \<times> bytes) option"
  deserializeHandler :: "(bytes \<Rightarrow> node \<Rightarrow> LonStatusCode \<times> node) option"
  allocates :: "nat \<Rightarrow> bool"
  eraseJunk :: "bool \<times> u8"

definition StartCommitTimer :: "storage \<Rightarrow> storage" where
  "StartCommitTimer st = st\<lparr>last_update := (if scheduled st then last_update st else tick st), scheduled := True\<rparr>"

definition SetCommitFlag :: "nat \<Rightarrow> storage \<Rightarrow> storage" where
  "SetCommitFlag seg st = st\<lparr>persistence_list := (persistence_list st)[seg := True]\<rparr>"

definition print_log :: "LonStatusCode \<Rightarrow> storage \<Rightarrow> storage" where
  "print_log status st =
     (if status \<noteq> LonStatusNoError \<and> errorLog (pnode st) \<noteq> int_bytes (status_value status)
      then StartCommitTimer (SetCommitFlag IzotPersistentSegNetworkImage
             (st\<lparr>pnode := OsalPrintLog status (pnode st)\<rparr>))
      else st)"

type_synonym step = "LonStatusCode \<times> storage"

text \<open>Going on after success, or returning the error.\<close>

definition on_success :: "step \<Rightarrow> (storage \<Rightarrow> step) \<Rightarrow> step" where
  "on_success r f = (if fst r = LonStatusNoError then f (snd r) else r)"

definition or_log :: "step \<Rightarrow> step" where
  "or_log r = (if fst r = LonStatusNoError then r else (fst r, print_log (fst r) (snd r)))"

section \<open>The hardware abstraction\<close>

definition set_error :: "LonStatusCode \<Rightarrow> storage \<Rightarrow> step" where
  "set_error e st = (e, st\<lparr>persistentMemError := e\<rparr>)"

definition access_error :: "storage \<Rightarrow> step" where
  "access_error st = set_error LonStatusPersistentDataAccessError (print_log LonStatusPersistentDataAccessError st)"

definition unless_error :: "(storage \<Rightarrow> step) \<Rightarrow> storage \<Rightarrow> step" where
  "unless_error f st =
     (if persistentMemError st \<noteq> LonStatusNoError then (persistentMemError st, st) else f st)"

definition next_outcome :: "storage \<Rightarrow> nat option \<times> storage" where
  "next_outcome st =
     (case outcomes st of [] \<Rightarrow> (None, st) | r # rs \<Rightarrow> (r, st\<lparr>outcomes := rs\<rparr>))"

definition HalInitStorage :: "storage \<Rightarrow> step" where
  "HalInitStorage = unless_error (\<lambda>st.
     if persistentMemInitialized st then (LonStatusNoError, st)
     else
       (let st = st\<lparr>persistentMemInitialized := True\<rparr>
        in case next_outcome st of
             (None, st) \<Rightarrow> set_error LonStatusNoError st
           | (Some _, st) \<Rightarrow> set_error LonStatusPersistentDataDirError st))"

definition FLASH_REGION_SIZE :: nat where "FLASH_REGION_SIZE = 0x6000"
definition BLOCK_SIZE :: nat where "BLOCK_SIZE = 0x1000"
definition LINUX_FLASH_OFFSET :: nat where "LINUX_FLASH_OFFSET = 0"

text \<open>The content behind the descriptor of a segment.\<close>

definition file_content :: "nat \<Rightarrow> storage \<Rightarrow> bytes" where
  "file_content seg st =
     (case storageFd st ! seg of
        StandardInput \<Rightarrow> stdinFile st
      | _ \<Rightarrow> (case files st ! seg of None \<Rightarrow> [] | Some b \<Rightarrow> b))"

definition set_content :: "nat \<Rightarrow> bytes \<Rightarrow> storage \<Rightarrow> storage" where
  "set_content seg b st =
     (case storageFd st ! seg of
        StandardInput \<Rightarrow> st\<lparr>stdinFile := b\<rparr>
      | _ \<Rightarrow> st\<lparr>files := (files st)[seg := Some b]\<rparr>)"

definition seekable :: "nat \<Rightarrow> storage \<Rightarrow> bool" where
  "seekable seg st \<longleftrightarrow> storageFd st ! seg \<noteq> StandardInput \<or> stdinSeekable st"

text \<open>Writing at an offset within the file or at its end, as far as the power lasts.\<close>

definition file_write :: "nat \<Rightarrow> nat \<Rightarrow> bytes \<Rightarrow> storage \<Rightarrow> storage" where
  "file_write seg off b st =
     (let b' = (case power st of None \<Rightarrow> b | Some k \<Rightarrow> take k b)
      in set_content seg (copy_into (file_content seg st) off b')
           (st\<lparr>power := map_option (\<lambda>k. k - length b) (power st)\<rparr>))"

definition resize :: "nat \<Rightarrow> bytes \<Rightarrow> bytes" where
  "resize k b = take k b @ replicate (k - length b) 0"

definition HalOpenStorageSegment :: "nat \<Rightarrow> nat \<Rightarrow> storage \<Rightarrow> step" where
  "HalOpenStorageSegment seg sz = unless_error (\<lambda>st.
     if storageFd st ! seg \<noteq> Closed then set_error LonStatusNoError st
     else
       (case next_outcome st of
          (Some _, st) \<Rightarrow> access_error st
        | (None, st) \<Rightarrow>
            (LonStatusNoError,
             (if power st = Some 0 then st
              else st\<lparr>files := (files st)[seg := Some (resize sz (file_content seg st))]\<rparr>)
             \<lparr>storageFd := (storageFd st)[seg := SegmentFile]\<rparr>)))"

definition HalCloseStorageSegment :: "nat \<Rightarrow> storage \<Rightarrow> step" where
  "HalCloseStorageSegment seg = unless_error (\<lambda>st.
     set_error LonStatusNoError (st\<lparr>storageFd := (storageFd st)[seg := Closed]\<rparr>))"

text \<open>
  Both writing operations extend a file that ends before the offset by a single zero byte at
  the offset before it. An offset is the difference of two unsigned numbers and wraps around;
  \<open>lseek\<close> refuses what is negative as a signed one.
\<close>

definition size_diff :: "nat \<Rightarrow> nat \<Rightarrow> nat" where
  "size_diff p q = nat ((int p - int q) mod 2 ^ 64)"

definition hal_put :: "nat \<Rightarrow> nat \<Rightarrow> bytes \<Rightarrow> storage \<Rightarrow> step" where
  "hal_put seg off b st =
     (if storageFd st ! seg = Closed \<or> off \<ge> 2 ^ 63 \<or> \<not> seekable seg st then access_error st
      else
        (let len = length (file_content seg st);
             st = (if len < off then file_write seg len (replicate (off - len) 0) st else st)
         in case next_outcome st of
              (Some k, st) \<Rightarrow> access_error (file_write seg off (take k b) st)
            | (None, st) \<Rightarrow> set_error LonStatusNoError (file_write seg off b st)))"

definition HalPrepareStorageSegment :: "nat \<Rightarrow> nat \<Rightarrow> nat \<Rightarrow> nat \<Rightarrow> u8 \<Rightarrow> storage \<Rightarrow> step" where
  "HalPrepareStorageSegment seg seg_start from_pos sz v =
     unless_error (hal_put seg (size_diff seg_start from_pos) (replicate sz v))"

definition HalWriteStorageSegment :: "nat \<Rightarrow> bytes \<Rightarrow> nat \<Rightarrow> nat \<Rightarrow> storage \<Rightarrow> step" where
  "HalWriteStorageSegment seg b seg_start from_pos =
     unless_error (hal_put seg (size_diff from_pos seg_start) b)"

definition HalReadStorageSegment :: "nat \<Rightarrow> nat \<Rightarrow> nat \<Rightarrow> nat \<Rightarrow> storage \<Rightarrow> step \<times> bytes" where
  "HalReadStorageSegment seg seg_start from_pos sz st =
     (if persistentMemError st \<noteq> LonStatusNoError then ((persistentMemError st, st), [])
      else
        (let off = size_diff from_pos seg_start; b = file_content seg st
         in if storageFd st ! seg = Closed \<or> length b < off + sz \<or> \<not> seekable seg st
            then (access_error st, [])
            else
              (case next_outcome st of
                 (Some _, st) \<Rightarrow> (access_error st, [])
               | (None, st) \<Rightarrow> (set_error LonStatusNoError st, bytes_from b off sz))))"

section \<open>The segment map\<close>

definition sizeof_TransactionRecord :: nat where "sizeof_TransactionRecord = 8"
definition sizeof_PersistenceHeader :: nat where "sizeof_PersistenceHeader = 16"

definition IzotPersistentSegGetMaxSize :: "persist_env \<Rightarrow> nat \<Rightarrow> nat" where
  "IzotPersistentSegGetMaxSize E seg =
     (if seg = IzotPersistentSegNetworkImage then sizeof_EEPROM - off_configData
      else if seg = IzotPersistentSegApplicationData then appSegmentSize E else 0)"

text \<open>
  The flags \<open>erase_required\<close> and \<open>erase_value\<close> are assigned by \<open>HalStorageInfo\<close>, which is
  called for the first segment only: every later one gets what is on the stack.
\<close>

definition segment_entry :: "persist_env \<Rightarrow> nat \<Rightarrow> bool \<times> u8 \<Rightarrow> storage \<Rightarrow> storage" where
  "segment_entry E seg erase st =
     (let sz = IzotPersistentSegGetMaxSize E seg + sizeof_PersistenceHeader;
          v = signed_take_bit 31
                (int (lowest_used_storage_data_offset st) - int (sizeof_TransactionRecord + sz));
          from_pos = nat ((v - v mod int (storage_block_size st)) mod 2 ^ 64)
      in st\<lparr>data_segment_size := (data_segment_size st)[seg := sz],
            segment_map := (segment_map st)[seg :=
              \<lparr>segment_start = from_pos, tx_offset = from_pos,
               data_offset = from_pos + sizeof_TransactionRecord, max_data_size = sz,
               erase_required = fst erase, erase_value = snd erase\<rparr>],
            lowest_used_storage_data_offset := from_pos\<rparr>)"

definition InitSegmentMap :: "persist_env \<Rightarrow> nat \<Rightarrow> storage \<Rightarrow> step" where
  "InitSegmentMap E seg st =
     (if storage_block_size st = 0 \<and> persistentMemError st \<noteq> LonStatusNoError then
        or_log (persistentMemError st, st)
      else
        (let erase = (if storage_block_size st = 0 then (False, 0) else eraseJunk E);
             st = (if storage_block_size st = 0
                   then st\<lparr>lowest_used_storage_data_offset := LINUX_FLASH_OFFSET + FLASH_REGION_SIZE,
                           storage_block_size := BLOCK_SIZE\<rparr>
                   else st)
         in (LonStatusNoError,
             if data_segment_size st ! seg = 0 \<and> seg \<noteq> IzotPersistentSegNodeDefinition \<and>
                seg \<noteq> IzotPersistentSegUniqueId
             then segment_entry E seg erase st else st)))"

abbreviation seg_map :: "storage \<Rightarrow> nat \<Rightarrow> SegmentMap" where
  "seg_map st seg \<equiv> segment_map st ! seg"

text \<open>The test lets the number of segment types through, one past the end of the tables.\<close>

definition OpenStorageSegment :: "persist_env \<Rightarrow> nat \<Rightarrow> storage \<Rightarrow> step" where
  "OpenStorageSegment E seg st =
     (if seg > IzotPersistentSegNumSegmentTypes then
        or_log (LonStatusPersistentDataAccessError, st)
      else if seg = IzotPersistentSegNumSegmentTypes then
        (LonStatusPersistentDataAccessError, st\<lparr>stFault := True\<rparr>)
      else
        on_success (or_log (HalInitStorage st)) (\<lambda>st.
        on_success (or_log (InitSegmentMap E seg st)) (\<lambda>st.
          or_log (HalOpenStorageSegment seg
            (max_data_size (seg_map st seg) + sizeof_TransactionRecord) st))))"

section \<open>Preparing, reading and writing a segment\<close>

primrec prepare_blocks :: "nat \<Rightarrow> nat \<Rightarrow> nat \<Rightarrow> nat \<Rightarrow> storage \<Rightarrow> step" where
  "prepare_blocks 0 seg offset sz st = (LonStatusNoError, st)"
| "prepare_blocks (Suc n) seg offset sz st =
     on_success (or_log (HalPrepareStorageSegment seg (segment_start (seg_map st seg)) offset sz
         (erase_value (seg_map st seg)) st))
       (prepare_blocks n seg (offset + storage_block_size st) sz)"

text \<open>
  The loop counts in blocks. While no segment has been opened the block size is 0 and the
  loop has no end, but then its first step fails, since the segment is not open either.
\<close>

definition PrepareStorageSegment :: "nat \<Rightarrow> nat \<Rightarrow> storage \<Rightarrow> step" where
  "PrepareStorageSegment seg sz st =
     (let from_pos = segment_start (seg_map st seg); block = storage_block_size st;
          (sz, chunk) = (if erase_required (seg_map st seg) then (sz, block)
                           else (sizeof_TransactionRecord, sizeof_TransactionRecord))
      in prepare_blocks (if block = 0 then sz else (sz + block - 1) div block) seg from_pos chunk st)"

text \<open>Opening for writing keeps no error of the preparation and skips it for too much data.\<close>

definition IzotStorageOpenSegForWrite :: "persist_env \<Rightarrow> nat \<Rightarrow> nat \<Rightarrow> storage \<Rightarrow> nat \<times> storage" where
  "IzotStorageOpenSegForWrite E seg data_size st =
     (case or_log (OpenStorageSegment E seg st) of (status, st) \<Rightarrow>
        if status \<noteq> LonStatusNoError then (IzotPersistentSegUnassigned, st)
        else
          (let st = (if data_size \<le> max_data_size (seg_map st seg)
                     then snd (PrepareStorageSegment seg (data_size + sizeof_TransactionRecord) st)
                     else st)
           in case or_log (HalCloseStorageSegment seg st) of (status, st) \<Rightarrow>
                (if status = LonStatusNoError then seg else IzotPersistentSegUnassigned, st)))"

definition IzotStorageOpenSegForRead :: "persist_env \<Rightarrow> nat \<Rightarrow> storage \<Rightarrow> nat \<times> storage" where
  "IzotStorageOpenSegForRead E seg st =
     (case or_log (OpenStorageSegment E seg st) of (status, st) \<Rightarrow>
        (if status = LonStatusNoError then seg else IzotPersistentSegUnassigned, st))"

definition IzotStorageReadSeg :: "persist_env \<Rightarrow> nat \<Rightarrow> nat \<Rightarrow> nat \<Rightarrow> storage \<Rightarrow> step \<times> bytes" where
  "IzotStorageReadSeg E seg offset sz st =
     (case or_log (OpenStorageSegment E seg st) of (status, st) \<Rightarrow>
        if status \<noteq> LonStatusNoError then ((status, st), [])
        else
          (case HalReadStorageSegment seg (segment_start (seg_map st seg))
                  (segment_start (seg_map st seg) + offset) sz st of
             (r, b) \<Rightarrow> (on_success (or_log r) (\<lambda>st. or_log (HalCloseStorageSegment seg st)), b)))"

text \<open>One block at a time.\<close>

function write_blocks :: "nat \<Rightarrow> nat \<Rightarrow> bytes \<Rightarrow> storage \<Rightarrow> step" where
  "write_blocks seg off b st =
     (if b = [] then (LonStatusNoError, st)
      else if storage_block_size st = 0 then (LonStatusNoError, st\<lparr>stFault := True\<rparr>)
      else
        (let k = min (storage_block_size st - off mod storage_block_size st) (length b)
         in on_success (or_log (HalWriteStorageSegment seg (take k b)
                (segment_start (seg_map st seg)) off st))
              (write_blocks seg (off + k) (drop k b))))"
  by pat_completeness auto
termination by (relation "measure (\<lambda>(seg, off, b, st). length b)") (auto simp: min_def)

declare write_blocks.simps [simp del]

definition IzotStorageWriteSeg :: "persist_env \<Rightarrow> nat \<Rightarrow> nat \<Rightarrow> bytes \<Rightarrow> storage \<Rightarrow> step" where
  "IzotStorageWriteSeg E seg offset b st =
     on_success (or_log (OpenStorageSegment E seg st)) (\<lambda>st.
     on_success (write_blocks seg (offset + segment_start (seg_map st seg)) b st) (\<lambda>st.
       or_log (HalCloseStorageSegment seg st)))"

section \<open>Transactions\<close>

definition transaction_record :: "nat \<Rightarrow> bytes" where
  "transaction_record state = int_bytes TX_SIGNATURE @ int_bytes state"

fun le_nat :: "bytes \<Rightarrow> nat" where
  "le_nat [] = 0"
| "le_nat (b # bs) = unat b + 256 * le_nat bs"

definition record_valid :: "bytes \<Rightarrow> bool" where
  "record_valid b \<longleftrightarrow>
     le_nat (bytes_from b 0 4) = TX_SIGNATURE \<and> le_nat (bytes_from b 4 4) = TX_DATA_VALID"

definition IzotStorageSegIsInvalid :: "persist_env \<Rightarrow> nat \<Rightarrow> storage \<Rightarrow> bool \<times> storage" where
  "IzotStorageSegIsInvalid E seg st =
     (case or_log (OpenStorageSegment E seg st) of (status, st) \<Rightarrow>
        if status \<noteq> LonStatusNoError then (True, st)
        else
          (case HalReadStorageSegment seg (segment_start (seg_map st seg)) (tx_offset (seg_map st seg))
                  sizeof_TransactionRecord st of
             (r, b) \<Rightarrow>
               (case or_log r of (status, st) \<Rightarrow>
                  if status \<noteq> LonStatusNoError then (True, st)
                  else
                    (case or_log (HalCloseStorageSegment seg st) of (status, st) \<Rightarrow>
                       (status \<noteq> LonStatusNoError \<or> \<not> record_valid b, st)))))"

text \<open>Starting and finishing an update write the record; a failure is reported by closing.\<close>

definition write_record :: "persist_env \<Rightarrow> nat \<Rightarrow> nat \<Rightarrow> storage \<Rightarrow> step" where
  "write_record E seg state st =
     on_success (or_log (OpenStorageSegment E seg st)) (\<lambda>st.
       or_log (HalCloseStorageSegment seg (snd (or_log (HalWriteStorageSegment seg
         (transaction_record state) (segment_start (seg_map st seg)) (tx_offset (seg_map st seg)) st)))))"

definition IzotStorageStartSegUpdate :: "persist_env \<Rightarrow> nat \<Rightarrow> storage \<Rightarrow> step" where
  "IzotStorageStartSegUpdate E seg = write_record E seg TX_DATA_INVALID"

definition IzotStorageFinishSegUpdate :: "persist_env \<Rightarrow> nat \<Rightarrow> storage \<Rightarrow> step" where
  "IzotStorageFinishSegUpdate E seg = write_record E seg TX_DATA_VALID"

definition ErasePersistentAppData :: "storage \<Rightarrow> step" where
  "ErasePersistentAppData st =
     PrepareStorageSegment IzotPersistentSegApplicationData
       (max_data_size (seg_map st IzotPersistentSegApplicationData)) st"

definition ErasePersistentNetworkConfig :: "storage \<Rightarrow> step" where
  "ErasePersistentNetworkConfig st =
     PrepareStorageSegment IzotPersistentSegNetworkImage
       (max_data_size (seg_map st IzotPersistentSegNetworkImage)) st"

end
