(* ===== verification/Lon_Persistence.thy ===== *)
theory Lon_Persistence
  imports Lon_Storage
begin

text \<open>
  \<^verbatim>\<open>persistence/lon_persistence.c\<close> over the storage: the header and checksum of a stored
  segment, storing and restoring the network image and the application's data, and the commit
  of flagged segments after a guard time; with the parts of \<^verbatim>\<open>lcs/lcs_eeprom.c\<close> and
  \<^verbatim>\<open>IzotApi.c\<close> that call them.
\<close>

section \<open>Header and checksum\<close>

definition ISI_IMAGE_SIGNATURE0 :: nat where "ISI_IMAGE_SIGNATURE0 = 0xCF82"
definition CURRENT_VERSION :: nat where "CURRENT_VERSION = 1"

record IzotPersistenceHeader =
  hdrLength :: nat
  isiSignature :: nat
  appSignature :: nat
  hdrVersion :: nat
  hdrChecksum :: nat

definition short_bytes :: "nat \<Rightarrow> bytes" where
  "short_bytes v = [of_nat (v mod 256), of_nat (v div 256 mod 256)]"

definition header_bytes :: "IzotPersistenceHeader \<Rightarrow> bytes" where
  "header_bytes h =
     int_bytes (hdrLength h) @ int_bytes (isiSignature h) @ int_bytes (appSignature h) @
     short_bytes (hdrVersion h) @ short_bytes (hdrChecksum h)"

definition header_of :: "bytes \<Rightarrow> IzotPersistenceHeader" where
  "header_of b =
     \<lparr>hdrLength = le_nat (bytes_from b 0 4), isiSignature = le_nat (bytes_from b 4 4),
      appSignature = le_nat (bytes_from b 8 4), hdrVersion = le_nat (bytes_from b 12 2),
      hdrChecksum = le_nat (bytes_from b 14 2)\<rparr>"

text \<open>
  The sum leaves the last byte out. For an image without bytes the bound \<open>length - 1\<close> is the
  largest number there is, and the loop reads all of the memory.
\<close>

definition ComputePersistenceChecksum :: "bytes \<Rightarrow> nat \<Rightarrow> u8" where
  "ComputePersistenceChecksum b len = sum_list (map (byte_at b) [0..<len - 1]) + of_nat len"

definition checksum_overrun :: "nat \<Rightarrow> storage \<Rightarrow> storage" where
  "checksum_overrun len st = (if len = 0 then st\<lparr>stFault := True\<rparr> else st)"

definition ValidatePersistenceChecksum :: "IzotPersistenceHeader \<Rightarrow> bytes \<Rightarrow> storage \<Rightarrow> bool" where
  "ValidatePersistenceChecksum h b st \<longleftrightarrow>
     appSignature h = app_signature st \<or>
     unat (ComputePersistenceChecksum b (hdrLength h)) = hdrChecksum h"

section \<open>Storing a segment\<close>

definition IzotPersistentSegSerializeNetworkImage :: "storage \<Rightarrow> LonStatusCode \<times> bytes" where
  "IzotPersistentSegSerializeNetworkImage st =
     (LonStatusNoError, drop off_configData (eep_image (pnode st)))"

definition IzotPersistentSegSerializeAppDataImage :: "persist_env \<Rightarrow> storage \<Rightarrow> LonStatusCode \<times> bytes" where
  "IzotPersistentSegSerializeAppDataImage E st =
     (case serializeHandler E of
        None \<Rightarrow> (LonStatusStackNotInitialized, [])
      | Some h \<Rightarrow> h (pnode st) (appSegmentSize E))"

definition serialize :: "persist_env \<Rightarrow> nat \<Rightarrow> storage \<Rightarrow> LonStatusCode \<times> bytes" where
  "serialize E seg st =
     (if seg = IzotPersistentSegNetworkImage then IzotPersistentSegSerializeNetworkImage st
      else if seg = IzotPersistentSegApplicationData then IzotPersistentSegSerializeAppDataImage E st
      else (LonStatusInvalidParameter, []))"

lemmas serialize_defs = serialize_def IzotPersistentSegSerializeNetworkImage_def
  IzotPersistentSegSerializeAppDataImage_def

definition segment_header :: "bytes \<Rightarrow> storage \<Rightarrow> IzotPersistenceHeader" where
  "segment_header b st =
     \<lparr>hdrLength = length b, isiSignature = ISI_IMAGE_SIGNATURE0, appSignature = app_signature st,
      hdrVersion = CURRENT_VERSION,
      hdrChecksum = unat (ComputePersistenceChecksum b (length b))\<rparr>"

text \<open>
  The two writes stop at the first failure, and closing does nothing. A segment that cannot be
  opened is no failure: the update is then finished without any data.
\<close>

definition write_segment :: "persist_env \<Rightarrow> nat \<Rightarrow> bytes \<Rightarrow> storage \<Rightarrow> step" where
  "write_segment E seg b st =
     (let h = header_bytes (segment_header b st)
      in case IzotStorageOpenSegForWrite E seg (sizeof_PersistenceHeader + length b) st of
           (opened, st) \<Rightarrow>
             if opened = IzotPersistentSegUnassigned then (LonStatusNoError, st)
             else
               (case on_success (IzotStorageWriteSeg E seg sizeof_TransactionRecord h st)
                       (IzotStorageWriteSeg E seg (sizeof_TransactionRecord + sizeof_PersistenceHeader) b) of
                  (status, st) \<Rightarrow>
                    if status = LonStatusNoError then (LonStatusNoError, st)
                    else (LonStatusPersistentDataFailure, print_log LonStatusPersistentDataFailure st)))"

definition IzotPersistentSegStore :: "persist_env \<Rightarrow> nat \<Rightarrow> storage \<Rightarrow> step" where
  "IzotPersistentSegStore E seg st =
     (let st = snd (IzotStorageStartSegUpdate E seg st)
      in case serialize E seg st of (status, b) \<Rightarrow>
           if status \<noteq> LonStatusNoError then
             (status, if status = LonStatusInvalidParameter then print_log status st else st)
           else
             (case write_segment E seg b (checksum_overrun (length b) st) of (status, st) \<Rightarrow>
                if status \<noteq> LonStatusNoError then (status, print_log LonStatusEepromWriteFail st)
                else (status, snd (IzotStorageFinishSegUpdate E seg st))))"

section \<open>Committing\<close>

definition GuardBandRemaining :: "storage \<Rightarrow> nat" where
  "GuardBandRemaining st =
     (let elapsed = unat (tick st - last_update st)
      in if elapsed \<le> guard_band_duration st then (guard_band_duration st - elapsed) mod 2 ^ 32 else 0)"

definition commit_segment :: "persist_env \<Rightarrow> nat \<Rightarrow> storage \<Rightarrow> storage" where
  "commit_segment E seg st =
     (if persistence_list st ! seg then
        (case IzotPersistentSegStore E seg st of (status, st) \<Rightarrow>
           if status = LonStatusNoError
           then st\<lparr>persistence_list := (persistence_list st)[seg := False], commit_flag := False\<rparr>
           else st)
      else st)"

definition IzotPersistentMemCommit :: "persist_env \<Rightarrow> storage \<Rightarrow> storage" where
  "IzotPersistentMemCommit E st =
     (fold (commit_segment E) [0..<IzotPersistentSegNumSegmentTypes] st)\<lparr>scheduled := False\<rparr>"

definition IzotPersistentMemCommitCheck :: "persist_env \<Rightarrow> storage \<Rightarrow> storage" where
  "IzotPersistentMemCommitCheck E st =
     (if scheduled st \<and> (GuardBandRemaining st = 0 \<or> commit_flag st)
      then IzotPersistentMemCommit E st else st)"

definition IzotPersistentMemSetCommitFlag :: "storage \<Rightarrow> storage" where
  "IzotPersistentMemSetCommitFlag st = st\<lparr>commit_flag := True\<rparr>"

definition IzotPersistentSegCommitScheduled :: "storage \<Rightarrow> bool \<times> storage" where
  "IzotPersistentSegCommitScheduled st =
     (if True \<in> set (persistence_list st) then (True, IzotPersistentMemSetCommitFlag st)
      else (False, st))"

definition SetPeristenceGuardBand :: "int \<Rightarrow> storage \<Rightarrow> storage" where
  "SetPeristenceGuardBand nTime st =
     (let ticks = signed_take_bit 31 ((nTime * 1000 mod 2 ^ 32) div 1000)
      in st\<lparr>guard_band_duration := nat ((if ticks = 0 then 1 else ticks) mod 2 ^ 64)\<rparr>)"

definition SetAppSignature :: "nat \<Rightarrow> storage \<Rightarrow> storage" where
  "SetAppSignature v st = st\<lparr>app_signature := v mod 2 ^ 32\<rparr>"

section \<open>Restoring a segment\<close>

definition failed :: "storage \<Rightarrow> step \<times> bytes" where
  "failed st = ((LonStatusPersistentDataFailure, print_log LonStatusPersistentDataFailure st), [])"

definition read_image :: "persist_env \<Rightarrow> nat \<Rightarrow> IzotPersistenceHeader \<Rightarrow> storage \<Rightarrow> step \<times> bytes" where
  "read_image E seg h st =
     (if \<not> allocates E (hdrLength h) then failed st
      else
        (case IzotStorageReadSeg E seg (sizeof_TransactionRecord + sizeof_PersistenceHeader)
                (hdrLength h) st of
           ((status, st), b) \<Rightarrow>
             if status \<noteq> LonStatusNoError \<or> \<not> ValidatePersistenceChecksum h b st then failed st
             else ((LonStatusNoError, st), b)))"

definition read_segment :: "persist_env \<Rightarrow> nat \<Rightarrow> storage \<Rightarrow> step \<times> bytes" where
  "read_segment E seg st =
     (case IzotStorageReadSeg E seg sizeof_TransactionRecord sizeof_PersistenceHeader st of
        ((status, st), b) \<Rightarrow>
          (let h = header_of b
           in if status \<noteq> LonStatusNoError \<or> isiSignature h \<noteq> ISI_IMAGE_SIGNATURE0 \<or>
                 appSignature h \<noteq> app_signature st \<or> hdrVersion h > CURRENT_VERSION
              then failed st else read_image E seg h st))"

definition IzotPersistentSegDeserializeNetworkImage :: "persist_env \<Rightarrow> bytes \<Rightarrow> storage \<Rightarrow> step" where
  "IzotPersistentSegDeserializeNetworkImage E b st =
     (let len = IzotPersistentSegGetMaxSize E IzotPersistentSegNetworkImage
      in if length b \<ge> len
         then (LonStatusNoError, st\<lparr>pnode :=
                eep_store (take off_configData (eep_image (pnode st)) @ take len b) (pnode st)\<rparr>)
         else fst (failed st))"

definition IzotPersistentSegDeserializeAppDataImage :: "persist_env \<Rightarrow> bytes \<Rightarrow> storage \<Rightarrow> step" where
  "IzotPersistentSegDeserializeAppDataImage E b st =
     (let len = IzotPersistentSegGetMaxSize E IzotPersistentSegApplicationData
      in case deserializeHandler E of
           None \<Rightarrow> (LonStatusStackNotInitialized, st)
         | Some f \<Rightarrow>
             if length b \<ge> len then
               (case f (take len b) (pnode st) of (status, n) \<Rightarrow> (status, st\<lparr>pnode := n\<rparr>))
             else fst (failed st))"

definition deserialize :: "persist_env \<Rightarrow> nat \<Rightarrow> bytes \<Rightarrow> storage \<Rightarrow> step" where
  "deserialize E seg b st =
     (if seg = IzotPersistentSegNetworkImage then IzotPersistentSegDeserializeNetworkImage E b st
      else if seg = IzotPersistentSegApplicationData then IzotPersistentSegDeserializeAppDataImage E b st
      else fst (failed st))"

lemmas deserialize_defs = deserialize_def IzotPersistentSegDeserializeNetworkImage_def
  IzotPersistentSegDeserializeAppDataImage_def

definition IzotPersistentSegRestore :: "persist_env \<Rightarrow> nat \<Rightarrow> storage \<Rightarrow> step" where
  "IzotPersistentSegRestore E seg st =
     (case IzotStorageSegIsInvalid E seg st of (invalid, st) \<Rightarrow>
        if invalid then (LonStatusPersistentDataFailure, st)
        else
          (case read_segment E seg (snd (IzotStorageOpenSegForRead E seg st)) of
             ((status, st), b) \<Rightarrow>
               if status = LonStatusNoError then deserialize E seg b st else (status, st)))"

section \<open>The callers\<close>

definition IzotPersistentDataHasBeenUpdated :: "storage \<Rightarrow> storage" where
  "IzotPersistentDataHasBeenUpdated = StartCommitTimer"

definition IzotPersistentFlushData :: "storage \<Rightarrow> storage" where
  "IzotPersistentFlushData = IzotPersistentMemSetCommitFlag"

definition LCS_ReadPersistentNetworkImage :: "persist_env \<Rightarrow> storage \<Rightarrow> step" where
  "LCS_ReadPersistentNetworkImage E st =
     (case IzotPersistentSegRestore E IzotPersistentSegNetworkImage st of (status, st) \<Rightarrow>
        (status, if status = LonStatusNoError \<or> status = LonStatusPersistentDataFailure then st
                 else print_log status st))"

definition LCS_ReadPersistentAppData :: "persist_env \<Rightarrow> storage \<Rightarrow> step" where
  "LCS_ReadPersistentAppData E st =
     or_log (IzotPersistentSegRestore E IzotPersistentSegApplicationData st)"

text \<open>
  What the stack has changed in a node is flagged in the node itself (\<open>commitNetworkImage\<close> and
  \<open>commitAppData\<close>, set by \<open>LCS_WritePersistentNetworkImage\<close> and \<open>LCS_WritePersistentAppData\<close>);
  here the flags become those of the list, and the timer starts.
\<close>

definition take_over :: "node \<Rightarrow> storage \<Rightarrow> storage" where
  "take_over n st =
     (let st = st\<lparr>pnode := n\<lparr>commitNetworkImage := False, commitAppData := False\<rparr>\<rparr>;
          st = (if commitNetworkImage n
                then StartCommitTimer (SetCommitFlag IzotPersistentSegNetworkImage st) else st)
      in if commitAppData n
         then StartCommitTimer (SetCommitFlag IzotPersistentSegApplicationData st) else st)"

text \<open>
  The start of the stack without application data: the erasing of both segments, which are not
  open, and the commit of the application's. The change of the node state that follows, by
  \<open>IzotSetNodeMode\<close>, is a parameter.
\<close>

definition IzotStartStack :: "persist_env \<Rightarrow> (node \<Rightarrow> node) \<Rightarrow> storage \<Rightarrow> storage" where
  "IzotStartStack E go_unconfigured st =
     (if appSegmentSize E = 0 then st
      else
        (case LCS_ReadPersistentAppData E st of (status, st) \<Rightarrow>
           if status = LonStatusNoError then st
           else
             (let st = snd (ErasePersistentAppData st);
                  st = snd (ErasePersistentNetworkConfig st);
                  st = StartCommitTimer (SetCommitFlag IzotPersistentSegApplicationData st)
              in take_over (go_unconfigured (pnode st)) st)))"

text \<open>A restart of the process: the files stay, every static variable has its initial value.\<close>

definition restart :: "node \<Rightarrow> storage \<Rightarrow> storage" where
  "restart n st = st
     \<lparr>pnode := n, persistentMemError := LonStatusNoError, persistentMemInitialized := False,
      storageFd := Closed # replicate 6 StandardInput, power := None, outcomes := [],
      segment_map := replicate 7 \<lparr>segment_start = 0, tx_offset = 0, data_offset = 0,
        max_data_size = 0, erase_required = False, erase_value = 0\<rparr>,
      storage_block_size := 0, lowest_used_storage_data_offset := 0,
      data_segment_size := replicate 7 0, commit_flag := False, scheduled := False,
      persistence_list := replicate 7 False\<rparr>"

end
