(* ===== verification/Lon_Persistence_Properties.thy ===== *)
theory Lon_Persistence_Properties
  imports Lon_Persistence Lcs_Nm_Properties
begin

text \<open>
  What the storage of the network image promises: a stored image comes back after a restart,
  and a power failure at any byte of an update leaves the old image, the new one or an invalid
  segment; and where the code breaks such promises.
\<close>

section \<open>The disk of the network image\<close>

definition sizeof_NetworkSegment :: nat where "sizeof_NetworkSegment = 3650"

definition netMap :: SegmentMap where
  "netMap = \<lparr>segment_start = 0x5000, tx_offset = 0x5000, data_offset = 0x5008,
     max_data_size = 3642, erase_required = False, erase_value = 0\<rparr>"

definition disk_file :: "storage \<Rightarrow> bytes" where
  "disk_file st = (case files st ! 0 of None \<Rightarrow> [] | Some b \<Rightarrow> b)"

definition disk :: "storage \<Rightarrow> bytes" where
  "disk st = resize sizeof_NetworkSegment (disk_file st)"

text \<open>All the rest of a state that an access to the network image leaves alone.\<close>

definition frame :: "storage \<Rightarrow> storage \<Rightarrow> bool" where
  "frame st' st \<longleftrightarrow>
     pnode st' = pnode st \<and> tick st' = tick st \<and> app_signature st' = app_signature st \<and>
     persistence_list st' = persistence_list st \<and> scheduled st' = scheduled st \<and>
     last_update st' = last_update st \<and> commit_flag st' = commit_flag st \<and>
     guard_band_duration st' = guard_band_duration st \<and> stFault st' = stFault st \<and>
     stdinFile st' = stdinFile st \<and> stdinSeekable st' = stdinSeekable st \<and>
     (files st')[0 := None] = (files st)[0 := None] \<and>
     (storageFd st')[0 := Closed] = (storageFd st)[0 := Closed] \<and>
     (data_segment_size st')[0 := 0] = (data_segment_size st)[0 := 0]"

lemma frame_refl [simp]: "frame st st"
  by (simp add: frame_def)

lemma frame_trans: "frame st'' st' \<Longrightarrow> frame st' st \<Longrightarrow> frame st'' st"
  by (simp add: frame_def)

definition sound :: "storage \<Rightarrow> bool" where
  "sound st \<longleftrightarrow> persistentMemError st = LonStatusNoError \<and> outcomes st = [] \<and>
     length (storageFd st) = 7 \<and> length (files st) = 7 \<and> length (segment_map st) = 7 \<and>
     length (data_segment_size st) = 7"

definition mapped :: "storage \<Rightarrow> bool" where
  "mapped st \<longleftrightarrow> persistentMemInitialized st \<and> storage_block_size st = BLOCK_SIZE \<and>
     data_segment_size st ! 0 = 3642 \<and> segment_map st ! 0 = netMap"

text \<open>Between two accesses, and within one.\<close>

definition idle :: "storage \<Rightarrow> bool" where
  "idle st \<longleftrightarrow> sound st \<and> storageFd st ! 0 = Closed \<and>
     (mapped st \<or> storage_block_size st = 0 \<and> data_segment_size st ! 0 = 0)"

definition opened :: "storage \<Rightarrow> bool" where
  "opened st \<longleftrightarrow> sound st \<and> mapped st \<and> storageFd st ! 0 = SegmentFile \<and>
     (length (disk_file st) = sizeof_NetworkSegment \<or> power st = Some 0)"

definition cut :: "nat option \<Rightarrow> bytes \<Rightarrow> bytes" where
  "cut p b = (case p of None \<Rightarrow> b | Some k \<Rightarrow> take k b)"

definition less_power :: "nat option \<Rightarrow> bytes \<Rightarrow> nat option" where
  "less_power p b = map_option (\<lambda>k. k - length b) p"

text \<open>One write to the disk.\<close>

definition put :: "nat \<Rightarrow> bytes \<Rightarrow> nat option \<times> bytes \<Rightarrow> nat option \<times> bytes" where
  "put off b = (\<lambda>(p, d). (less_power p b, copy_into d off (cut p b)))"

abbreviation disk_of :: "storage \<Rightarrow> nat option \<times> bytes" where
  "disk_of st \<equiv> (power st, disk st)"

lemma resize_length [simp]: "length (resize k b) = k"
  by (simp add: resize_def)

lemma resize_same [simp]: "length b = k \<Longrightarrow> resize k b = b"
  by (simp add: resize_def)

lemma copy_into_nothing [simp]: "copy_into d off [] = d"
  by (simp add: copy_into_def)

lemma length_disk [simp]: "length (disk st) = 3650"
  by (simp add: disk_def sizeof_NetworkSegment_def)

lemma zero_seg [simp]: "IzotPersistentSegNetworkImage = 0" by (simp add: seg_defs)

lemma init_storage:
  assumes "sound st"
  shows "HalInitStorage st = (LonStatusNoError, st\<lparr>persistentMemInitialized := True\<rparr>)"
  using assms by (cases st)
    (auto simp: HalInitStorage_def unless_error_def sound_def next_outcome_def set_error_def)

lemma entry_of_network_image:
  assumes "storage_block_size st = BLOCK_SIZE" "lowest_used_storage_data_offset st = FLASH_REGION_SIZE"
  shows "segment_entry E 0 (False, 0) st =
    st\<lparr>data_segment_size := (data_segment_size st)[0 := 3642], segment_map := (segment_map st)[0 := netMap],
       lowest_used_storage_data_offset := 0x5000\<rparr>"
proof -
  have "signed_take_bit 31 20926 = (20926 :: int)" by (rule signed_take_bit_int_eq_self) simp_all
  then show ?thesis
    using assms by (simp add: segment_entry_def Let_def IzotPersistentSegGetMaxSize_def eep_offsets
        sizeof_PersistenceHeader_def sizeof_TransactionRecord_def netMap_def BLOCK_SIZE_def
        FLASH_REGION_SIZE_def)
qed

lemma map_network_image:
  assumes "idle st"
  shows "\<exists>st'. InitSegmentMap E 0 (st\<lparr>persistentMemInitialized := True\<rparr>) = (LonStatusNoError, st') \<and>
    idle st' \<and> mapped st' \<and> frame st' st \<and> power st' = power st \<and> files st' = files st"
proof (cases "mapped st")
  case True
  have "InitSegmentMap E 0 (st\<lparr>persistentMemInitialized := True\<rparr>) =
      (LonStatusNoError, st\<lparr>persistentMemInitialized := True\<rparr>)"
    using True by (simp add: InitSegmentMap_def mapped_def BLOCK_SIZE_def Let_def)
  moreover have "idle (st\<lparr>persistentMemInitialized := True\<rparr>)" "mapped (st\<lparr>persistentMemInitialized := True\<rparr>)"
    using assms True by (simp_all add: idle_def mapped_def sound_def)
  ultimately show ?thesis by (simp add: frame_def)
next
  case False
  then have z: "storage_block_size st = 0" "data_segment_size st ! 0 = 0" "sound st"
    "storageFd st ! 0 = Closed"
    using assms by (simp_all add: idle_def)
  let ?st = "st\<lparr>persistentMemInitialized := True, lowest_used_storage_data_offset := FLASH_REGION_SIZE,
      storage_block_size := BLOCK_SIZE\<rparr>"
  have "InitSegmentMap E 0 (st\<lparr>persistentMemInitialized := True\<rparr>) =
      (LonStatusNoError, segment_entry E 0 (False, 0) ?st)"
    using z by (simp add: InitSegmentMap_def Let_def sound_def LINUX_FLASH_OFFSET_def seg_defs)
  moreover have "segment_entry E 0 (False, 0) ?st = ?st\<lparr>data_segment_size := (data_segment_size st)[0 := 3642],
      segment_map := (segment_map st)[0 := netMap], lowest_used_storage_data_offset := 0x5000\<rparr>"
    by (simp add: entry_of_network_image)
  ultimately show ?thesis
    using z by (auto simp: idle_def mapped_def sound_def frame_def)
qed

lemma open_file:
  assumes "idle st" "mapped st"
  shows "\<exists>st'. HalOpenStorageSegment 0 3650 st = (LonStatusNoError, st') \<and> opened st' \<and>
    frame st' st \<and> disk_of st' = disk_of st"
proof -
  have h: "storageFd st ! 0 = Closed" "persistentMemError st = LonStatusNoError" "outcomes st = []"
    "0 < length (storageFd st)" "0 < length (files st)" "sound st"
    using assms by (auto simp: idle_def sound_def)
  let ?st = "(if power st = Some 0 then st else st\<lparr>files := (files st)[0 := Some (disk st)]\<rparr>)
    \<lparr>storageFd := (storageFd st)[0 := SegmentFile]\<rparr>"
  have "file_content 0 st = disk_file st" using h by (simp add: file_content_def disk_file_def)
  then have "HalOpenStorageSegment 0 3650 st = (LonStatusNoError, ?st)"
    using h by (simp add: HalOpenStorageSegment_def unless_error_def next_outcome_def disk_def
        sizeof_NetworkSegment_def)
  moreover have "opened ?st" "frame ?st st" "disk_of ?st = disk_of st"
    using h assms(2) by (auto simp: opened_def sound_def mapped_def frame_def disk_file_def
        disk_def sizeof_NetworkSegment_def)
  ultimately show ?thesis by blast
qed

lemma open_idle:
  assumes "idle st"
  shows "\<exists>st'. OpenStorageSegment E 0 st = (LonStatusNoError, st') \<and> opened st' \<and>
    frame st' st \<and> disk_of st' = disk_of st"
proof -
  obtain st1 where 1: "InitSegmentMap E 0 (st\<lparr>persistentMemInitialized := True\<rparr>) = (LonStatusNoError, st1)"
    "idle st1" "mapped st1" "frame st1 st" "power st1 = power st" "files st1 = files st"
    using map_network_image [OF assms] by blast
  obtain st2 where 2: "HalOpenStorageSegment 0 3650 st1 = (LonStatusNoError, st2)" "opened st2"
    "frame st2 st1" "disk_of st2 = disk_of st1"
    using open_file [OF 1(2,3)] by blast
  have "OpenStorageSegment E 0 st = (LonStatusNoError, st2)"
    using assms 1 2 by (simp add: OpenStorageSegment_def init_storage idle_def or_log_def on_success_def
        mapped_def netMap_def sizeof_TransactionRecord_def seg_defs)
  moreover have "disk_of st2 = disk_of st" using 1 2 by (simp add: disk_def disk_file_def)
  ultimately show ?thesis using 1(4) 2(2,3) frame_trans by blast
qed

lemma close_opened:
  assumes "opened st"
  shows "\<exists>st'. HalCloseStorageSegment 0 st = (LonStatusNoError, st') \<and> idle st' \<and>
    frame st' st \<and> disk_of st' = disk_of st"
  using assms
  by (simp add: HalCloseStorageSegment_def unless_error_def opened_def sound_def set_error_def
      idle_def mapped_def frame_def disk_def disk_file_def)

lemma cut_length [simp]: "length (cut p b) \<le> length b"
  by (simp add: cut_def split: option.split)

lemma write_opened:
  assumes "opened st"
  shows "file_write 0 off b st = st\<lparr>power := less_power (power st) b,
    files := (files st)[0 := Some (copy_into (disk_file st) off (cut (power st) b))]\<rparr>"
  using assms by (simp add: file_write_def Let_def set_content_def file_content_def disk_file_def
      opened_def cut_def less_power_def)

lemma opened_write:
  assumes "opened st" "off + length b \<le> 3650"
  shows "opened (file_write 0 off b st)" "frame (file_write 0 off b st) st"
    "disk_of (file_write 0 off b st) = put off b (disk_of st)"
proof -
  let ?c = "copy_into (disk_file st) off (cut (power st) b)"
  have len: "off + length (cut (power st) b) \<le> 3650" using assms(2) cut_length [of "power st" b] by linarith
  have files: "0 < length (files st)" using assms(1) by (auto simp: opened_def sound_def)
  then have content: "disk_file (file_write 0 off b st) = ?c"
    by (simp add: write_opened [OF assms(1)] disk_file_def)
  show "frame (file_write 0 off b st) st"
    by (simp add: write_opened [OF assms(1)] frame_def)
  have "length ?c = 3650 \<or> less_power (power st) b = Some 0" "disk (file_write 0 off b st) =
      copy_into (disk st) off (cut (power st) b)"
    using assms(1) len unfolding disk_def content
    by (auto simp: opened_def sizeof_NetworkSegment_def less_power_def cut_def)
  then show "opened (file_write 0 off b st)" "disk_of (file_write 0 off b st) = put off b (disk_of st)"
    using assms(1) content files unfolding write_opened [OF assms(1)]
    by (auto simp: opened_def sound_def mapped_def put_def sizeof_NetworkSegment_def disk_file_def)
qed

lemma put_opened:
  assumes "opened st" "off + length b \<le> 3650"
  shows "\<exists>st'. unless_error (hal_put 0 off b) st = (LonStatusNoError, st') \<and> opened st' \<and>
    frame st' st \<and> disk_of st' = put off b (disk_of st)"
proof -
  have h: "persistentMemError st = LonStatusNoError" "outcomes st = []" "storageFd st ! 0 = SegmentFile"
    using assms(1) by (simp_all add: opened_def sound_def)
  have c: "file_content 0 st = disk_file st" using h by (simp add: file_content_def disk_file_def)
  let ?len = "length (disk_file st)"
  define st1 where "st1 = (if ?len < off then file_write 0 ?len (replicate (off - ?len) 0) st else st)"
  have 1: "opened st1" "frame st1 st" "disk_of st1 = disk_of st"
  proof -
    have "opened st1 \<and> frame st1 st \<and> disk_of st1 = disk_of st"
    proof (cases "?len < off")
      case True
      then have "power st = Some 0" using assms by (auto simp: opened_def sizeof_NetworkSegment_def)
      then have "put ?len (replicate (off - ?len) 0) (disk_of st) = disk_of st"
        by (simp add: put_def less_power_def cut_def)
      then show ?thesis
        using True opened_write [OF assms(1), of ?len "replicate (off - ?len) 0"] assms(2)
        by (simp add: st1_def)
    qed (simp add: st1_def assms(1))
    then show "opened st1" "frame st1 st" "disk_of st1 = disk_of st" by auto
  qed
  let ?st = "file_write 0 off b st1"
  have 2: "opened ?st" "frame ?st st1" "disk_of ?st = put off b (disk_of st)"
    using opened_write [OF 1(1) assms(2)] 1(3) by auto
  have o: "outcomes st1 = []" using 1(1) by (simp add: opened_def sound_def)
  have "hal_put 0 off b st = set_error LonStatusNoError ?st"
    using h o assms(2)
    by (simp add: hal_put_def Let_def c seekable_def next_outcome_def flip: st1_def)
  also have "\<dots> = (LonStatusNoError, ?st)"
    using 2(1) by (cases ?st) (simp add: set_error_def opened_def sound_def)
  finally have "unless_error (hal_put 0 off b) st = (LonStatusNoError, ?st)"
    using h by (simp add: unless_error_def)
  then show ?thesis using 2 frame_trans [OF 2(2) 1(2)] by blast
qed

lemma read_opened:
  assumes "opened st" "power st \<noteq> Some 0" "off + k \<le> 3650"
  shows "HalReadStorageSegment 0 s0 (s0 + off) k st = ((LonStatusNoError, st), bytes_from (disk st) off k)"
proof -
  have "size_diff (s0 + off) s0 = off"
    using assms(3) by (simp add: size_diff_def)
  moreover have "set_error LonStatusNoError st = (LonStatusNoError, st)"
    using assms(1) by (cases st) (simp add: set_error_def opened_def sound_def)
  ultimately show ?thesis
    using assms by (simp add: HalReadStorageSegment_def opened_def sound_def file_content_def
        seekable_def next_outcome_def disk_def sizeof_NetworkSegment_def flip: disk_file_def)
qed

lemma step_simps [simp]:
  "on_success (LonStatusNoError, st) f = f st" "or_log (LonStatusNoError, st) = (LonStatusNoError, st)"
  by (simp_all add: on_success_def or_log_def)

lemma size_diff_simps [simp]: "size_diff p p = 0" "off < 2 ^ 64 \<Longrightarrow> size_diff (p + off) p = off"
  "off < 2 ^ 64 \<Longrightarrow> size_diff (off + p) p = off"
  by (simp_all add: size_diff_def)

lemma opened_map: "opened st \<Longrightarrow> segment_map st ! 0 = netMap" "opened st \<Longrightarrow> storage_block_size st = 4096"
  by (simp_all add: opened_def mapped_def BLOCK_SIZE_def)

lemma length_record [simp]: "length (transaction_record s) = 8"
  by (simp add: transaction_record_def int_bytes_def)

lemma length_header [simp]: "length (header_bytes h) = 16"
  by (simp add: header_bytes_def int_bytes_def short_bytes_def)

lemma header_not_empty [simp]: "header_bytes h \<noteq> []"
  by (simp add: header_bytes_def short_bytes_def)

text \<open>The operations between an opening and a closing, on the disk.\<close>

lemma write_record_idle:
  assumes "idle st"
  shows "\<exists>st'. write_record E 0 s st = (LonStatusNoError, st') \<and> idle st' \<and> frame st' st \<and>
    disk_of st' = put 0 (transaction_record s) (disk_of st)"
proof -
  obtain s1 where 1: "OpenStorageSegment E 0 st = (LonStatusNoError, s1)" "opened s1" "frame s1 st"
    "disk_of s1 = disk_of st" using open_idle [OF assms] by blast
  obtain s2 where 2: "unless_error (hal_put 0 0 (transaction_record s)) s1 = (LonStatusNoError, s2)"
    "opened s2" "frame s2 s1" "disk_of s2 = put 0 (transaction_record s) (disk_of s1)"
    using put_opened [OF 1(2), of 0 "transaction_record s"] by auto
  obtain s3 where 3: "HalCloseStorageSegment 0 s2 = (LonStatusNoError, s3)" "idle s3" "frame s3 s2"
    "disk_of s3 = disk_of s2" using close_opened [OF 2(2)] by blast
  have "write_record E 0 s st = (LonStatusNoError, s3)"
    using 1(1) 2(1) 3(1) opened_map [OF 1(2)]
    by (simp add: write_record_def HalWriteStorageSegment_def netMap_def)
  moreover have "disk_of s3 = put 0 (transaction_record s) (disk_of st)" by (simp only: 3(4) 2(4) 1(4))
  ultimately show ?thesis using 3(2) frame_trans [OF 3(3) frame_trans [OF 2(3) 1(3)]] by blast
qed

lemma open_for_write_idle:
  assumes "idle st" "n \<le> 3642"
  shows "\<exists>st'. IzotStorageOpenSegForWrite E 0 n st = (0, st') \<and> idle st' \<and> frame st' st \<and>
    disk_of st' = put 0 (replicate 8 0) (disk_of st)"
proof -
  obtain s1 where 1: "OpenStorageSegment E 0 st = (LonStatusNoError, s1)" "opened s1" "frame s1 st"
    "disk_of s1 = disk_of st" using open_idle [OF assms(1)] by blast
  obtain s2 where 2: "unless_error (hal_put 0 0 (replicate 8 0)) s1 = (LonStatusNoError, s2)"
    "opened s2" "frame s2 s1" "disk_of s2 = put 0 (replicate 8 0) (disk_of s1)"
    using put_opened [OF 1(2), of 0 "replicate 8 0"] by auto
  obtain s3 where 3: "HalCloseStorageSegment 0 s2 = (LonStatusNoError, s3)" "idle s3" "frame s3 s2"
    "disk_of s3 = disk_of s2" using close_opened [OF 2(2)] by blast
  have "PrepareStorageSegment 0 (n + 8) s1 = (LonStatusNoError, s2)"
    using 2(1) opened_map [OF 1(2)]
    by (simp add: PrepareStorageSegment_def netMap_def sizeof_TransactionRecord_def
        HalPrepareStorageSegment_def)
  then have "IzotStorageOpenSegForWrite E 0 n st = (0, s3)"
    using 1(1) 3(1) opened_map [OF 1(2)] assms(2)
    by (simp add: IzotStorageOpenSegForWrite_def netMap_def sizeof_TransactionRecord_def)
  moreover have "disk_of s3 = put 0 (replicate 8 0) (disk_of st)" by (simp only: 3(4) 2(4) 1(4))
  ultimately show ?thesis using 3(2) frame_trans [OF 3(3) frame_trans [OF 2(3) 1(3)]] by blast
qed

lemma write_seg_idle:
  assumes "idle st" "off + length b \<le> 3650" "b \<noteq> []"
  shows "\<exists>st'. IzotStorageWriteSeg E 0 off b st = (LonStatusNoError, st') \<and> idle st' \<and> frame st' st \<and>
    disk_of st' = put off b (disk_of st)"
proof -
  obtain s1 where 1: "OpenStorageSegment E 0 st = (LonStatusNoError, s1)" "opened s1" "frame s1 st"
    "disk_of s1 = disk_of st" using open_idle [OF assms(1)] by blast
  obtain s2 where 2: "unless_error (hal_put 0 off b) s1 = (LonStatusNoError, s2)"
    "opened s2" "frame s2 s1" "disk_of s2 = put off b (disk_of s1)"
    using put_opened [OF 1(2) assms(2)] by auto
  obtain s3 where 3: "HalCloseStorageSegment 0 s2 = (LonStatusNoError, s3)" "idle s3" "frame s3 s2"
    "disk_of s3 = disk_of s2" using close_opened [OF 2(2)] by blast
  have "(off + 0x5000) mod 4096 = off" using assms(2) mod_mult_self1 [of off 5 4096] by simp
  then have "write_blocks 0 (off + 0x5000) b s1 = (LonStatusNoError, s2)"
    using 2(1) opened_map [OF 1(2)] assms(2,3)
    by (simp add: write_blocks.simps [of 0 "off + 0x5000"] write_blocks.simps [of _ _ "[]"]
        HalWriteStorageSegment_def netMap_def min_def)
  then have "IzotStorageWriteSeg E 0 off b st = (LonStatusNoError, s3)"
    using 1(1) 3(1) opened_map [OF 1(2)] by (simp add: IzotStorageWriteSeg_def netMap_def)
  moreover have "disk_of s3 = put off b (disk_of st)" by (simp only: 3(4) 2(4) 1(4))
  ultimately show ?thesis using 3(2) frame_trans [OF 3(3) frame_trans [OF 2(3) 1(3)]] by blast
qed

section \<open>What a store does to the disk\<close>

definition network_image :: "node \<Rightarrow> bytes" where
  "network_image n = drop off_configData (eep_image n)"

lemma length_network_image: "node_wf n \<Longrightarrow> length (network_image n) = 3626"
  by (simp add: network_image_def length_eep_image eep_offsets)

lemma network_image_cong: "frame st' st \<Longrightarrow> network_image (pnode st') = network_image (pnode st)"
  by (simp add: frame_def)

definition image_header :: "node \<Rightarrow> storage \<Rightarrow> bytes" where
  "image_header n st = header_bytes (segment_header (network_image n) st)"

definition store_disk :: "bytes \<Rightarrow> bytes \<Rightarrow> nat option \<times> bytes \<Rightarrow> nat option \<times> bytes" where
  "store_disk h b =
     put 0 (transaction_record TX_DATA_VALID) \<circ> put 24 b \<circ> put 8 h \<circ> put 0 (replicate 8 0) \<circ>
     put 0 (transaction_record TX_DATA_INVALID)"

lemma header_cong: "frame st' st \<Longrightarrow> segment_header b st' = segment_header b st"
  by (simp add: segment_header_def frame_def)

lemma store_idle:
  assumes "idle st" "node_wf (pnode st)"
  shows "\<exists>st'. IzotPersistentSegStore E 0 st = (LonStatusNoError, st') \<and> idle st' \<and> frame st' st \<and>
    disk_of st' = store_disk (image_header (pnode st) st) (network_image (pnode st)) (disk_of st)"
proof -
  let ?b = "network_image (pnode st)"
  let ?h = "header_bytes (segment_header ?b st)"
  have b: "length ?b = 3626" "?b \<noteq> []" using length_network_image [OF assms(2)] by auto
  have h: "8 + length ?h \<le> 3650" "?h \<noteq> []" by simp_all
  have b': "24 + length ?b \<le> 3650" using b(1) by simp
  obtain s1 where 1: "write_record E 0 TX_DATA_INVALID st = (LonStatusNoError, s1)" "idle s1" "frame s1 st"
    "disk_of s1 = put 0 (transaction_record TX_DATA_INVALID) (disk_of st)"
    using write_record_idle [OF assms(1)] by blast
  obtain s2 where 2: "IzotStorageOpenSegForWrite E 0 3642 s1 = (0, s2)" "idle s2" "frame s2 s1"
    "disk_of s2 = put 0 (replicate 8 0) (disk_of s1)"
    using open_for_write_idle [OF 1(2) order_refl] by blast
  obtain s3 where 3: "IzotStorageWriteSeg E 0 8 ?h s2 = (LonStatusNoError, s3)" "idle s3" "frame s3 s2"
    "disk_of s3 = put 8 ?h (disk_of s2)"
    using write_seg_idle [OF 2(2) h] by blast
  obtain s4 where 4: "IzotStorageWriteSeg E 0 24 ?b s3 = (LonStatusNoError, s4)" "idle s4" "frame s4 s3"
    "disk_of s4 = put 24 ?b (disk_of s3)"
    using write_seg_idle [OF 3(2) b' b(2)] by blast
  obtain s5 where 5: "write_record E 0 TX_DATA_VALID s4 = (LonStatusNoError, s5)" "idle s5" "frame s5 s4"
    "disk_of s5 = put 0 (transaction_record TX_DATA_VALID) (disk_of s4)"
    using write_record_idle [OF 4(2)] by blast
  have p: "pnode s1 = pnode st" "segment_header ?b s1 = segment_header ?b st"
    using 1(3) header_cong [OF 1(3)] by (simp_all add: frame_def)
  have w: "write_segment E 0 ?b s1 = (LonStatusNoError, s4)"
    using 2(1) 3(1) 4(1) b(1) p(2)
    by (simp add: write_segment_def Let_def sizeof_PersistenceHeader_def sizeof_TransactionRecord_def
        IzotPersistentSegUnassigned_def)
  have "serialize E 0 s1 = (LonStatusNoError, ?b)"
    using p(1) by (simp add: serialize_defs network_image_def)
  moreover have "checksum_overrun (length ?b) s1 = s1" using b by (simp add: checksum_overrun_def)
  ultimately have "IzotPersistentSegStore E 0 st = (LonStatusNoError, s5)"
    using 1(1) 5(1) w by (simp add: IzotPersistentSegStore_def Let_def IzotStorageStartSegUpdate_def
        IzotStorageFinishSegUpdate_def)
  moreover have "disk_of s5 = store_disk ?h ?b (disk_of st)"
    by (simp only: store_disk_def 5(4) 4(4) 3(4) 2(4) 1(4) o_apply)
  moreover have "frame s5 st"
    using frame_trans [OF 5(3) frame_trans [OF 4(3) frame_trans [OF 3(3) frame_trans [OF 2(3) 1(3)]]]] .
  ultimately show ?thesis using 5(2) unfolding image_header_def by blast
qed

subsection \<open>Its bytes\<close>

lemma record_bytes:
  "transaction_record TX_DATA_VALID = [0xEF, 0xCD, 0xAB, 0x89, 0xFF, 0xFF, 0xFF, 0xFF]"
  "transaction_record TX_DATA_INVALID = [0xEF, 0xCD, 0xAB, 0x89, 0, 0, 0, 0]"
  by (simp_all add: transaction_record_def int_bytes_def upt_rec TX_SIGNATURE_def TX_DATA_VALID_def
      TX_DATA_INVALID_def)

lemma le_nat_int_bytes: "v < 2 ^ 32 \<Longrightarrow> le_nat (int_bytes v) = v"
proof -
  assume v: "v < 2 ^ 32"
  have m: "x mod (256 * c) = x mod 256 + 256 * (x div 256 mod c)" for x c :: nat
    by (simp add: mod_mult2_eq)
  have "le_nat (int_bytes v) = v mod 256 + 256 * (v div 256 mod 256 + 256 * (v div 256 div 256 mod 256 +
      256 * (v div 256 div 256 div 256 mod 256)))"
    by (simp add: int_bytes_def upt_rec unat_of_nat div_mult2_eq [symmetric])
  also have "\<dots> = v mod (256 * (256 * (256 * 256)))" by (simp only: m)
  finally show ?thesis using v by simp
qed

lemma le_nat_inj: "length a = length b \<Longrightarrow> le_nat a = le_nat b \<Longrightarrow> a = b"
proof (induction a arbitrary: b)
  case (Cons x a)
  then obtain y c where b: "b = y # c" by (cases b) auto
  have 1: "unat x = le_nat (x # a) mod 256" "le_nat a = le_nat (x # a) div 256"
    using unat_u8 [of x] by simp_all
  have 2: "unat y = le_nat (y # c) mod 256" "le_nat c = le_nat (y # c) div 256"
    using unat_u8 [of y] by simp_all
  have e: "le_nat (x # a) = le_nat (y # c)" "length a = length c" using Cons.prems b by (simp_all del: le_nat.simps)
  then have "unat x = unat y" "a = c" using 1 2 Cons.IH [OF e(2)] by (simp_all only: )
  then show ?case using b by (simp add: unsigned_word_eqI [of x y])
qed simp

lemma record_valid_iff:
  assumes "length r = 8"
  shows "record_valid r \<longleftrightarrow> r = transaction_record TX_DATA_VALID"
proof
  assume v: "record_valid r"
  have "le_nat (int_bytes TX_SIGNATURE) = TX_SIGNATURE" "le_nat (int_bytes TX_DATA_VALID) = TX_DATA_VALID"
    by (simp_all add: le_nat_int_bytes TX_SIGNATURE_def TX_DATA_VALID_def)
  then have "bytes_from r 0 4 = int_bytes TX_SIGNATURE" "bytes_from r 4 4 = int_bytes TX_DATA_VALID"
    using v le_nat_inj by (auto simp: record_valid_def int_bytes_def)
  moreover have "r = bytes_from r 0 4 @ bytes_from r 4 4"
    using assms by (simp add: bytes_from_join bytes_from_full)
  ultimately show "r = transaction_record TX_DATA_VALID" by (simp add: transaction_record_def)
next
  assume "r = transaction_record TX_DATA_VALID"
  then show "record_valid r" unfolding record_bytes
    by (simp add: record_valid_def bytes_from_def upt_rec TX_SIGNATURE_def TX_DATA_VALID_def)
qed

lemma header_roundtrip:
  assumes "hdrLength h < 2 ^ 32" "isiSignature h < 2 ^ 32" "appSignature h < 2 ^ 32"
    "hdrVersion h < 2 ^ 16" "hdrChecksum h < 2 ^ 16"
  shows "header_of (header_bytes h) = h"
proof -
  have s: "le_nat (short_bytes v) = v" if "v < 2 ^ 16" for v
    using that mod_mult2_eq [of v 256 256] by (simp add: short_bytes_def unat_of_nat)
  have l: "length (int_bytes v) = 4" "length (short_bytes v) = 2" for v
    by (simp_all add: int_bytes_def short_bytes_def)
  show ?thesis
    using assms by (simp add: header_of_def header_bytes_def bytes_from_skip bytes_from_prefix
        bytes_from_full l le_nat_int_bytes s)
qed

text \<open>
  An uninterrupted store leaves record, header and image. An interrupted one leaves a record
  that is not valid, or has not yet changed anything, provided that the valid state is never
  on the disk without the signature.
\<close>

definition clean :: "bytes \<Rightarrow> bool" where
  "clean d \<longleftrightarrow> (bytes_from d 4 4 = replicate 4 0xFF \<longrightarrow> record_valid (bytes_from d 0 8))"

abbreviation stored_disk :: "bytes \<Rightarrow> bytes \<Rightarrow> bytes" where
  "stored_disk h b \<equiv> transaction_record TX_DATA_VALID @ h @ b"

lemma store_disk_complete:
  assumes "length d = 3650" "length h = 16" "length b = 3626" "\<forall>k. p = Some k \<longrightarrow> k \<ge> 3666"
  shows "snd (store_disk h b (p, d)) = stored_disk h b"
proof -
  have "store_disk h b (p, d) = (less_power (less_power (less_power (less_power (less_power p
      (replicate 8 0)) (replicate 8 0)) h) b) (replicate 8 0), stored_disk h b)"
    using assms by (cases p)
      (auto simp: store_disk_def put_def cut_def less_power_def copy_into_def record_bytes)
  then show ?thesis by simp
qed

lemma put_behind:
  "8 \<le> off \<Longrightarrow> off \<le> length d \<Longrightarrow> take 8 (snd (put off b (p, d))) = take 8 d"
  by (simp add: put_def copy_into_def min_def)

lemma no_power: "put off b (Some 0, d) = (Some 0, d)"
  by (simp add: put_def cut_def less_power_def)

lemma take_less_8: "k < 8 \<Longrightarrow> k = 0 \<or> k = 1 \<or> k = 2 \<or> k = 3 \<or> k = 4 \<or> k = 5 \<or> k = 6 \<or> k = (7 :: nat)"
  by linarith

lemma length_put: "off + length b \<le> length d \<Longrightarrow> length (snd (put off b (p, d))) = length d"
  using cut_length [of p b] by (simp add: put_def del: cut_length)

text \<open>The power fails within the first write, the second, or later.\<close>

abbreviation state_valid :: "bytes \<Rightarrow> bool" where
  "state_valid d \<equiv> bytes_from d 4 4 = replicate 4 0xFF"

lemma crash_at_start:
  assumes "clean d" "length d = 3650" "k < 8"
    "d' = copy_into d 0 (take k (transaction_record TX_DATA_INVALID))" "state_valid d'"
  shows "d' = d"
proof -
  let ?R0 = "transaction_record TX_DATA_INVALID" and ?RV = "transaction_record TX_DATA_VALID"
  have d': "d' = take k ?R0 @ drop k d" using assms(3,4) by (simp add: copy_into_def)
  have l: "length d' = 3650" using assms(2,3) by (simp add: d')
  have k: "k \<le> 4"
  proof (rule ccontr)
    assume "\<not> k \<le> 4"
    then have "d' ! 4 = ?R0 ! 4" using assms(2,3) by (simp add: d' nth_append)
    moreover have "d' ! 4 = bytes_from d' 4 4 ! 0" using l by simp
    ultimately show False using assms(5) by (simp add: record_bytes)
  qed
  have "drop 4 d' = drop 4 d" using k assms(2) by (simp add: d')
  then have "state_valid d" using assms(2,5) l by (simp add: bytes_from_eq_take)
  then have "take 8 d = ?RV"
    using assms(1,2) by (simp add: clean_def bytes_from_eq_take record_valid_iff)
  then have "take k (take 8 d) = take k ?RV" by simp
  then have "take k d = take k ?R0"
    using take_less_8 [OF assms(3)] k by (auto simp: record_bytes min_def)
  then show ?thesis using d' append_take_drop_id [of k d] by simp
qed

lemma crash_in_record:
  assumes "k < 8" "8 \<le> length d"
    "take 8 d = transaction_record TX_DATA_INVALID \<and> b = replicate 8 0 \<or>
     take 8 d = replicate 8 0 \<and> b = transaction_record TX_DATA_VALID"
  shows "\<not> state_valid (copy_into d 0 (take k b))"
proof
  assume v: "state_valid (copy_into d 0 (take k b))"
  have b: "length b = 8" "take 8 d ! 7 = 0"
    using assms(3) by (auto simp del: nth_take simp: record_bytes)
  have "bytes_from (copy_into d 0 (take k b)) 4 4 ! 3 = copy_into d 0 (take k b) ! 7"
    using assms(1,2) b(1) by simp
  also have "\<dots> = d ! 7" using assms(1,2) b(1) by (simp add: copy_into_def nth_append)
  also have "\<dots> = 0" using b(2) by simp
  finally show False using v by simp
qed

lemma store_disk_atomic:
  assumes "clean d" "length d = 3650" "length h = 16" "length b = 3626"
    and "state_valid (snd (store_disk h b (p, d)))"
  shows "snd (store_disk h b (p, d)) = d \<or> snd (store_disk h b (p, d)) = stored_disk h b"
proof (cases "\<forall>k. p = Some k \<longrightarrow> k \<ge> 3666")
  case True
  then show ?thesis using store_disk_complete assms(2-4) by blast
next
  case False
  then obtain k where k: "p = Some k" "k < 3666" by auto
  let ?RV = "transaction_record TX_DATA_VALID" and ?R0 = "transaction_record TX_DATA_INVALID"
  let ?d1 = "copy_into d 0 (take k ?R0)"
  let ?d2 = "copy_into ?d1 0 (take (k - 8) (replicate 8 0))"
  define x3 where "x3 = put 8 h (Some (k - 16), ?d2)"
  define x4 where "x4 = put 24 b x3"
  have l: "length ?d1 = 3650" "length ?d2 = 3650" using assms(2) by simp_all
  have p4: "x4 = (Some (k - 3658), snd x4)" "x3 = (Some (k - 32), snd x3)"
    using assms(3,4) by (simp_all add: x3_def x4_def put_def less_power_def)
  have eq: "store_disk h b (p, d) = put 0 ?RV x4"
    by (simp add: store_disk_def x4_def x3_def k(1) put_def cut_def less_power_def)
  have t4: "take 8 (snd x4) = take 8 ?d2" "length (snd x4) = 3650"
  proof -
    have "length (snd x3) = 3650" "take 8 (snd x3) = take 8 ?d2"
      using l(2) assms(3) put_behind [of 8 ?d2 h] length_put [of 8 h ?d2] unfolding x3_def by simp_all
    moreover have "take 8 (snd x4) = take 8 (snd x3)" "length (snd x4) = length (snd x3)"
      using calculation(1) assms(4) put_behind [of 24 "snd x3" b "Some (k - 32)"]
        length_put [of 24 b "snd x3" "Some (k - 32)"] p4(2) unfolding x4_def by simp_all
    ultimately show "take 8 (snd x4) = take 8 ?d2" "length (snd x4) = 3650" by simp_all
  qed
  have final: "snd (store_disk h b (p, d)) = copy_into (snd x4) 0 (take (k - 3658) ?RV)"
    unfolding eq by (subst p4(1)) (simp add: put_def cut_def)
  show ?thesis
  proof (cases "k < 8")
    case True
    then have "store_disk h b (p, d) = (Some 0, ?d1)"
      by (simp add: store_disk_def k(1) put_def cut_def less_power_def)
    then show ?thesis using crash_at_start [OF assms(1,2) True, of ?d1] assms(5) by simp
  next
    case ge8: False
    then have d1: "take 8 ?d1 = ?R0" by (simp add: copy_into_def)
    show ?thesis
    proof (cases "k < 16")
      case True
      then have "snd (store_disk h b (p, d)) = ?d2"
        by (simp add: store_disk_def k(1) put_def cut_def less_power_def)
      then show ?thesis
        using crash_in_record [of "k - 8" ?d1 "replicate 8 0"] True l d1 assms(5) by auto
    next
      case False
      then have "take 8 (snd x4) = replicate 8 0" using t4(1) by (simp add: copy_into_def)
      then show ?thesis
        using crash_in_record [of "k - 3658" "snd x4" ?RV] k(2) t4(2) final assms(5) by auto
    qed
  qed
qed

section \<open>Restoring\<close>

lemma restart_idle:
  assumes "length (files st) = 7"
  shows "idle (restart n st)" "power (restart n st) = None" "disk (restart n st) = disk st"
    "pnode (restart n st) = n" "app_signature (restart n st) = app_signature st"
  using assms by (simp_all add: idle_def sound_def restart_def disk_def disk_file_def)

lemma invalid_idle:
  assumes "idle st" "power st = None"
  shows "\<exists>st'. IzotStorageSegIsInvalid E 0 st = (\<not> record_valid (bytes_from (disk st) 0 8), st') \<and>
    idle st' \<and> frame st' st \<and> disk_of st' = disk_of st"
proof -
  obtain s1 where 1: "OpenStorageSegment E 0 st = (LonStatusNoError, s1)" "opened s1" "frame s1 st"
    "disk_of s1 = disk_of st" using open_idle [OF assms(1)] by blast
  obtain s2 where 2: "HalCloseStorageSegment 0 s1 = (LonStatusNoError, s2)" "idle s2" "frame s2 s1"
    "disk_of s2 = disk_of s1" using close_opened [OF 1(2)] by blast
  have "HalReadStorageSegment 0 0x5000 0x5000 8 s1 = ((LonStatusNoError, s1), bytes_from (disk st) 0 8)"
    using read_opened [OF 1(2), of 0 8 "0x5000"] 1(4) assms(2) by simp
  then have "IzotStorageSegIsInvalid E 0 st = (\<not> record_valid (bytes_from (disk st) 0 8), s2)"
    using 1(1) 2(1) opened_map [OF 1(2)]
    by (simp add: IzotStorageSegIsInvalid_def netMap_def sizeof_TransactionRecord_def)
  moreover have "disk_of s2 = disk_of st" by (simp only: 2(4) 1(4))
  ultimately show ?thesis using 2(2) frame_trans [OF 2(3) 1(3)] by blast
qed

lemma open_opened:
  assumes "opened st"
  shows "OpenStorageSegment E 0 st = (LonStatusNoError, st)"
proof -
  have i: "st\<lparr>persistentMemInitialized := True\<rparr> = st" "set_error LonStatusNoError st = (LonStatusNoError, st)"
    using assms by (cases st; simp add: opened_def mapped_def sound_def set_error_def)+
  have "HalInitStorage st = (LonStatusNoError, st)"
    using init_storage [of st] assms i(1) by (simp add: opened_def)
  moreover have "InitSegmentMap E 0 st = (LonStatusNoError, st)"
    using assms by (simp add: InitSegmentMap_def opened_def mapped_def BLOCK_SIZE_def Let_def)
  moreover have "HalOpenStorageSegment 0 m st = (LonStatusNoError, st)" for m
    using assms i(2) by (simp add: HalOpenStorageSegment_def unless_error_def opened_def sound_def)
  ultimately show ?thesis by (simp add: OpenStorageSegment_def seg_defs)
qed

lemma read_seg_idle:
  assumes "idle st \<or> opened st" "power st = None" "off + k \<le> 3650"
  shows "\<exists>st'. IzotStorageReadSeg E 0 off k st = ((LonStatusNoError, st'), bytes_from (disk st) off k) \<and>
    idle st' \<and> frame st' st \<and> disk_of st' = disk_of st"
proof -
  obtain s1 where 1: "OpenStorageSegment E 0 st = (LonStatusNoError, s1)" "opened s1" "frame s1 st"
    "disk_of s1 = disk_of st" using open_idle open_opened assms(1) frame_refl by metis
  obtain s2 where 2: "HalCloseStorageSegment 0 s1 = (LonStatusNoError, s2)" "idle s2" "frame s2 s1"
    "disk_of s2 = disk_of s1" using close_opened [OF 1(2)] by blast
  have "HalReadStorageSegment 0 0x5000 (0x5000 + off) k s1 = ((LonStatusNoError, s1), bytes_from (disk st) off k)"
    using read_opened [OF 1(2) _ assms(3), of "0x5000"] 1(4) assms(2) by simp
  then have "IzotStorageReadSeg E 0 off k st = ((LonStatusNoError, s2), bytes_from (disk st) off k)"
    using 1(1) 2(1) opened_map [OF 1(2)] by (simp add: IzotStorageReadSeg_def netMap_def add.commute)
  moreover have "disk_of s2 = disk_of st" by (simp only: 2(4) 1(4))
  ultimately show ?thesis using 2(2) frame_trans [OF 2(3) 1(3)] by blast
qed

lemma restore_invalid:
  assumes "idle st" "power st = None" "\<not> record_valid (bytes_from (disk st) 0 8)"
  shows "fst (IzotPersistentSegRestore E 0 st) = LonStatusPersistentDataFailure"
    "pnode (snd (IzotPersistentSegRestore E 0 st)) = pnode st"
    "idle (snd (IzotPersistentSegRestore E 0 st))" "frame (snd (IzotPersistentSegRestore E 0 st)) st"
proof -
  obtain s1 where "IzotStorageSegIsInvalid E 0 st = (True, s1)" "idle s1" "frame s1 st"
    using invalid_idle [OF assms(1,2)] assms(3) by auto
  then show "fst (IzotPersistentSegRestore E 0 st) = LonStatusPersistentDataFailure"
    "pnode (snd (IzotPersistentSegRestore E 0 st)) = pnode st"
    "idle (snd (IzotPersistentSegRestore E 0 st))" "frame (snd (IzotPersistentSegRestore E 0 st)) st"
    by (simp_all add: IzotPersistentSegRestore_def) (simp add: frame_def)
qed

text \<open>The node with the image of another behind its read-only data.\<close>

definition with_image :: "bytes \<Rightarrow> node \<Rightarrow> node" where
  "with_image b n = eep_store (take off_configData (eep_image n) @ b) n"

lemma open_for_read_idle:
  assumes "idle st"
  shows "\<exists>st'. IzotStorageOpenSegForRead E 0 st = (0, st') \<and> opened st' \<and> frame st' st \<and> disk_of st' = disk_of st"
proof -
  obtain s1 where 1: "OpenStorageSegment E 0 st = (LonStatusNoError, s1)" "opened s1" "frame s1 st"
    "disk_of s1 = disk_of st" using open_idle [OF assms] by blast
  then have "IzotStorageOpenSegForRead E 0 st = (0, s1)" by (simp add: IzotStorageOpenSegForRead_def)
  then show ?thesis using 1(2-4) by blast
qed

lemma restore_valid:
  assumes "idle st" "power st = None" "record_valid (bytes_from (disk st) 0 8)"
    and h: "isiSignature (header_of (bytes_from (disk st) 8 16)) = ISI_IMAGE_SIGNATURE0"
      "appSignature (header_of (bytes_from (disk st) 8 16)) = app_signature st"
      "hdrVersion (header_of (bytes_from (disk st) 8 16)) \<le> CURRENT_VERSION"
      "hdrLength (header_of (bytes_from (disk st) 8 16)) = 3626"
    and "allocates E 3626"
  shows "fst (IzotPersistentSegRestore E 0 st) = LonStatusNoError"
    "pnode (snd (IzotPersistentSegRestore E 0 st)) =
       with_image (bytes_from (disk st) 24 3626) (pnode st)"
proof -
  obtain s1 where 1: "IzotStorageSegIsInvalid E 0 st = (False, s1)" "idle s1" "frame s1 st"
    "disk_of s1 = disk_of st" using invalid_idle [OF assms(1,2)] assms(3) by auto
  obtain s2 where 2: "IzotStorageOpenSegForRead E 0 s1 = (0, s2)" "opened s2" "frame s2 s1"
    "disk_of s2 = disk_of s1" using open_for_read_idle [OF 1(2)] by blast
  have p2: "power s2 = None" "disk s2 = disk st" using 1(4) 2(4) assms(2) by simp_all
  obtain s3 where 3: "IzotStorageReadSeg E 0 8 16 s2 = ((LonStatusNoError, s3), bytes_from (disk st) 8 16)"
    "idle s3" "frame s3 s2" "disk_of s3 = disk_of s2"
    using read_seg_idle [of s2 8 16 E] 2(2) p2 by auto
  have p3: "power s3 = None" "disk s3 = disk st" using 3(4) p2 by simp_all
  obtain s4 where 4: "IzotStorageReadSeg E 0 24 3626 s3 = ((LonStatusNoError, s4), bytes_from (disk st) 24 3626)"
    "idle s4" "frame s4 s3" "disk_of s4 = disk_of s3"
    using read_seg_idle [of s3 24 3626 E] 3(2) p3 by auto
  have f: "frame s3 st" "frame s4 st"
    using frame_trans [OF 3(3) frame_trans [OF 2(3) 1(3)]] frame_trans [OF 4(3)] by blast+
  then have same: "app_signature s3 = app_signature st" "app_signature s4 = app_signature st" "pnode s4 = pnode st"
    by (simp_all add: frame_def)
  have "read_image E 0 (header_of (bytes_from (disk st) 8 16)) s3 =
      ((LonStatusNoError, s4), bytes_from (disk st) 24 3626)"
    using 4(1) h assms(8) same
    by (simp add: read_image_def ValidatePersistenceChecksum_def sizeof_TransactionRecord_def
        sizeof_PersistenceHeader_def)
  then have "read_segment E 0 s2 = ((LonStatusNoError, s4), bytes_from (disk st) 24 3626)"
    using 3(1) h same
    by (simp add: read_segment_def Let_def sizeof_TransactionRecord_def sizeof_PersistenceHeader_def)
  then have r: "IzotPersistentSegRestore E 0 st = deserialize E 0 (bytes_from (disk st) 24 3626) s4"
    using 1(1) 2(1) by (simp add: IzotPersistentSegRestore_def)
  have "deserialize E 0 (bytes_from (disk st) 24 3626) s4 =
      (LonStatusNoError, s4\<lparr>pnode := with_image (bytes_from (disk st) 24 3626) (pnode st)\<rparr>)"
    using same(3) by (simp add: deserialize_defs with_image_def Let_def IzotPersistentSegGetMaxSize_def
        eep_offsets)
  then show "fst (IzotPersistentSegRestore E 0 st) = LonStatusNoError"
    "pnode (snd (IzotPersistentSegRestore E 0 st)) =
       with_image (bytes_from (disk st) 24 3626) (pnode st)"
    using r by simp_all
qed

section \<open>A store and a restart\<close>

lemma image_with_image:
  assumes "node_wf n" "length b = 3626"
  shows "eep_image (with_image b n) = take off_configData (eep_image n) @ b"
    "network_image (with_image b n) = b"
proof -
  have "length (take off_configData (eep_image n) @ b) = sizeof_EEPROM"
    using assms length_eep_image [OF assms(1)] by (simp add: eep_offsets)
  then show "eep_image (with_image b n) = take off_configData (eep_image n) @ b"
    by (simp add: with_image_def image_of_store)
  then show "network_image (with_image b n) = b"
    using length_eep_image [OF assms(1)] by (simp add: network_image_def eep_offsets)
qed

text \<open>What a restart finds of a complete store.\<close>

lemma restore_stored:
  assumes "length (files st') = 7" "node_wf m" "app_signature st < 2 ^ 32"
    "app_signature st' = app_signature st"
    "disk st' = stored_disk (image_header m st) (network_image m)" "allocates E 3626"
  shows "fst (IzotPersistentSegRestore E 0 (restart n st')) = LonStatusNoError"
    "pnode (snd (IzotPersistentSegRestore E 0 (restart n st'))) = with_image (network_image m) n"
proof -
  let ?h = "segment_header (network_image m) st" and ?s = "restart n st'"
  have b: "length (network_image m) = 3626" by (rule length_network_image [OF assms(2)])
  have h: "header_of (header_bytes ?h) = ?h"
    using assms(3) b by (intro header_roundtrip) (auto simp: segment_header_def ISI_IMAGE_SIGNATURE0_def
        CURRENT_VERSION_def intro: less_trans [OF unat_u8])
  have d: "disk ?s = transaction_record TX_DATA_VALID @ header_bytes ?h @ network_image m"
    using restart_idle(3) [OF assms(1)] assms(5) by (simp add: image_header_def)
  have parts: "bytes_from (disk ?s) 0 8 = transaction_record TX_DATA_VALID"
    "bytes_from (disk ?s) 8 16 = header_bytes ?h" "bytes_from (disk ?s) 24 3626 = network_image m"
    using b by (simp_all add: d bytes_from_skip bytes_from_prefix bytes_from_full)
  have v: "record_valid (bytes_from (disk ?s) 0 8)" by (simp add: parts(1) record_valid_iff)
  note r = restore_valid [OF restart_idle(1,2) [OF assms(1)] v, unfolded parts h]
  show "fst (IzotPersistentSegRestore E 0 ?s) = LonStatusNoError"
    "pnode (snd (IzotPersistentSegRestore E 0 ?s)) = with_image (network_image m) n"
    using r assms b by (simp_all add: segment_header_def restart_idle)
qed

lemma idle_files: "idle st \<Longrightarrow> length (files st) = 7"
  by (simp add: idle_def sound_def)

text \<open>
  C13. The network image survives a restart: what a store wrote without a power failure, the
  restore after the restart copies behind the read-only data of the new node, byte by byte,
  and reports success.
\<close>

theorem stored_image_comes_back:
  assumes "idle st" and "power st = None" and "node_wf (pnode st)" and "node_wf n"
    and "app_signature st < 2 ^ 32" and "allocates E 3626"
  shows "case IzotPersistentSegStore E IzotPersistentSegNetworkImage st of (status, st') \<Rightarrow>
     case IzotPersistentSegRestore E IzotPersistentSegNetworkImage (restart n st') of (restored, st'') \<Rightarrow>
       status = LonStatusNoError \<and> restored = LonStatusNoError \<and>
       network_image (pnode st'') = network_image (pnode st) \<and>
       take off_configData (eep_image (pnode st'')) = take off_configData (eep_image n)"
proof -
  obtain s1 where 1: "IzotPersistentSegStore E 0 st = (LonStatusNoError, s1)" "idle s1" "frame s1 st"
    "disk_of s1 = store_disk (image_header (pnode st) st) (network_image (pnode st)) (disk_of st)"
    using store_idle [OF assms(1,3)] by blast
  have "disk s1 = stored_disk (image_header (pnode st) st) (network_image (pnode st))"
    using 1(4) store_disk_complete [of "disk st" "image_header (pnode st) st" "network_image (pnode st)" None]
      assms(2) length_network_image [OF assms(3)] by (metis image_header_def length_disk length_header
        option.distinct(1) snd_conv)
  then show ?thesis
    using restore_stored [OF idle_files [OF 1(2)] assms(3,5) _ _ assms(6), of n] 1(1,3)
      image_with_image [OF assms(4) length_network_image [OF assms(3)]]
      length_eep_image [OF assms(4)] by (simp add: frame_def split_beta eep_offsets)
qed

text \<open>A restart depends on nothing but the disk.\<close>

lemma open_restarted:
  assumes "length (files st) = 7"
  shows "OpenStorageSegment E 0 (restart n st) = (LonStatusNoError, (restart n st)
    \<lparr>persistentMemInitialized := True, lowest_used_storage_data_offset := 0x5000,
     storage_block_size := BLOCK_SIZE, data_segment_size := 3642 # replicate 6 0,
     segment_map := (segment_map (restart n st))[0 := netMap],
     files := (files st)[0 := Some (disk st)], storageFd := SegmentFile # replicate 6 StandardInput\<rparr>)"
proof -
  let ?s = "(restart n st)\<lparr>persistentMemInitialized := True,
      lowest_used_storage_data_offset := FLASH_REGION_SIZE, storage_block_size := BLOCK_SIZE\<rparr>"
  have i: "HalInitStorage (restart n st) = (LonStatusNoError, (restart n st)\<lparr>persistentMemInitialized := True\<rparr>)"
    using restart_idle(1) [OF assms, of n] by (simp add: init_storage idle_def)
  have "InitSegmentMap E 0 ((restart n st)\<lparr>persistentMemInitialized := True\<rparr>) =
      (LonStatusNoError, segment_entry E 0 (False, 0) ?s)"
    by (simp add: InitSegmentMap_def Let_def restart_def LINUX_FLASH_OFFSET_def seg_defs)
  also have "segment_entry E 0 (False, 0) ?s = ?s\<lparr>data_segment_size := (data_segment_size ?s)[0 := 3642],
      segment_map := (segment_map ?s)[0 := netMap], lowest_used_storage_data_offset := 0x5000\<rparr>"
    by (rule entry_of_network_image) simp_all
  finally have m: "InitSegmentMap E 0 ((restart n st)\<lparr>persistentMemInitialized := True\<rparr>) =
      (LonStatusNoError, ?s\<lparr>data_segment_size := 3642 # replicate 6 0,
        segment_map := (segment_map (restart n st))[0 := netMap], lowest_used_storage_data_offset := 0x5000\<rparr>)"
    by (simp add: restart_def numeral_eq_Suc)
  define t where "t = ?s\<lparr>data_segment_size := 3642 # replicate 6 0,
        segment_map := (segment_map (restart n st))[0 := netMap], lowest_used_storage_data_offset := 0x5000\<rparr>"
  have t: "storageFd t = Closed # replicate 6 StandardInput" "persistentMemError t = LonStatusNoError"
    "outcomes t = []" "power t = None" "files t = files st" "segment_map t ! 0 = netMap"
    by (simp_all add: t_def restart_def)
  have "file_content 0 t = disk_file st" by (simp add: file_content_def t disk_file_def)
  then have "HalOpenStorageSegment 0 3650 t = (LonStatusNoError,
      t\<lparr>files := (files st)[0 := Some (disk st)], storageFd := SegmentFile # replicate 6 StandardInput\<rparr>)"
    using t(1-5) by (simp add: HalOpenStorageSegment_def unless_error_def next_outcome_def disk_def
        sizeof_NetworkSegment_def)
  then have "OpenStorageSegment E 0 (restart n st) = (LonStatusNoError,
      t\<lparr>files := (files st)[0 := Some (disk st)], storageFd := SegmentFile # replicate 6 StandardInput\<rparr>)"
    using t(6) i m [folded t_def]
    by (simp add: OpenStorageSegment_def seg_defs netMap_def sizeof_TransactionRecord_def)
  then show ?thesis by (simp add: t_def)
qed

lemma same_restart:
  assumes "idle s1" "idle s2" "frame s1 s2" "disk s1 = disk s2"
  shows "IzotPersistentSegRestore E 0 (restart n s1) = IzotPersistentSegRestore E 0 (restart n s2)"
proof -
  have f: "(files s1)[0 := Some d] = (files s2)[0 := Some d]" for d
    using assms(3) unfolding frame_def by (metis list_update_overwrite)
  have r: "restart n s1 = (restart n s2)\<lparr>files := files s1\<rparr>"
    using assms(3) by (cases s1; cases s2) (simp add: restart_def frame_def)
  have "OpenStorageSegment E 0 (restart n s1) = OpenStorageSegment E 0 (restart n s2)"
    unfolding open_restarted [OF idle_files [OF assms(1)]] open_restarted [OF idle_files [OF assms(2)]]
    unfolding r assms(4) f by simp
  then show ?thesis by (simp only: IzotPersistentSegRestore_def IzotStorageSegIsInvalid_def)
qed

text \<open>
  C5. A store is atomic. Wherever the power fails in it, within any write and at any byte, a
  restart finds a segment that is reported as invalid and changes nothing, or the disk as it
  was before the store, or the complete new image; and the disk is again one on which a later
  store is atomic.
\<close>

theorem interrupted_store_is_atomic:
  assumes "idle st" and "clean (disk st)" and "node_wf (pnode st)" and "node_wf n"
    and "app_signature st < 2 ^ 32" and "allocates E 3626"
  shows "case IzotPersistentSegStore E IzotPersistentSegNetworkImage st of (_, st') \<Rightarrow>
     case IzotPersistentSegRestore E IzotPersistentSegNetworkImage (restart n st') of (restored, st'') \<Rightarrow>
       clean (disk st') \<and>
       (restored = LonStatusPersistentDataFailure \<and> pnode st'' = n \<or>
        (restored, st'') = IzotPersistentSegRestore E IzotPersistentSegNetworkImage (restart n st) \<or>
        restored = LonStatusNoError \<and> network_image (pnode st'') = network_image (pnode st))"
proof -
  let ?h = "image_header (pnode st) st" and ?b = "network_image (pnode st)"
  have l: "length ?h = 16" "length ?b = 3626"
    using length_network_image [OF assms(3)] by (simp_all add: image_header_def)
  obtain s1 where 1: "IzotPersistentSegStore E 0 st = (LonStatusNoError, s1)" "idle s1" "frame s1 st"
    "disk_of s1 = store_disk ?h ?b (disk_of st)"
    using store_idle [OF assms(1,3)] by blast
  have d: "disk s1 = snd (store_disk ?h ?b (disk_of st))" using 1(4) by (metis snd_conv)
  have atomic: "disk s1 = disk st \<or> disk s1 = stored_disk ?h ?b" if "state_valid (disk s1)"
    using store_disk_atomic [OF assms(2) length_disk l, of "power st"] that d by simp
  have new: "record_valid (bytes_from (stored_disk ?h ?b) 0 8)"
    by (simp add: bytes_from_prefix record_valid_iff)
  have "clean (disk s1)"
    using atomic assms(2) new unfolding clean_def by auto
  moreover have "fst (IzotPersistentSegRestore E 0 (restart n s1)) = LonStatusPersistentDataFailure \<and>
      pnode (snd (IzotPersistentSegRestore E 0 (restart n s1))) = n"
    if "\<not> record_valid (bytes_from (disk s1) 0 8)"
    using restore_invalid [of "restart n s1" E] that restart_idle [OF idle_files [OF 1(2)], of n] by simp
  moreover have "IzotPersistentSegRestore E 0 (restart n s1) = IzotPersistentSegRestore E 0 (restart n st)"
    if "disk s1 = disk st"
    using same_restart [OF 1(2) assms(1) 1(3) that] .
  moreover have "fst (IzotPersistentSegRestore E 0 (restart n s1)) = LonStatusNoError \<and>
      network_image (pnode (snd (IzotPersistentSegRestore E 0 (restart n s1)))) = ?b"
    if "disk s1 = stored_disk ?h ?b"
    using restore_stored [OF idle_files [OF 1(2)] assms(3,5) _ that assms(6), of n] 1(3)
      image_with_image(2) [OF assms(4) l(2)] by (simp add: frame_def)
  moreover have "state_valid (disk s1)" if "record_valid (bytes_from (disk s1) 0 8)"
  proof -
    have "bytes_from (bytes_from (disk s1) 0 8) 4 4 = bytes_from (disk s1) 4 4"
      using bytes_from_bytes_from [of 4 4 8 "disk s1" 0] by simp
    moreover have "bytes_from (disk s1) 0 8 = transaction_record TX_DATA_VALID"
      using that by (simp add: record_valid_iff)
    ultimately show ?thesis by (simp add: record_bytes bytes_from_def upt_rec numeral_eq_Suc)
  qed
  ultimately show ?thesis using 1(1) atomic by (auto simp: split_beta)
qed

section \<open>The checksum\<close>

text \<open>
  The checksum of a stored image is never verified. It is compared only when the
  signature of the application differs, and such a segment has been refused before; so any
  bytes behind a valid record and header are restored as the configuration, whatever the
  checksum in the header says.
\<close>

theorem damaged_image_is_restored:
  assumes "length (files st) = 7" and "node_wf n" and "length b = 3626" and "allocates E 3626"
    and "files st ! 0 = Some (transaction_record TX_DATA_VALID @ header_bytes h @ b)"
    and "isiSignature h = ISI_IMAGE_SIGNATURE0" and "hdrVersion h \<le> CURRENT_VERSION"
    and "appSignature h = app_signature st" and "app_signature st < 2 ^ 32"
    and "hdrLength h = 3626" and "hdrChecksum h < 2 ^ 16"
  shows "case IzotPersistentSegRestore E IzotPersistentSegNetworkImage (restart n st) of (status, st') \<Rightarrow>
    status = LonStatusNoError \<and> network_image (pnode st') = b"
proof -
  let ?s = "restart n st"
  have h: "header_of (header_bytes h) = h"
    using assms by (intro header_roundtrip) (simp_all add: ISI_IMAGE_SIGNATURE0_def CURRENT_VERSION_def)
  have d: "disk ?s = transaction_record TX_DATA_VALID @ header_bytes h @ b"
    using restart_idle(3) [OF assms(1)] assms(3,5)
    by (simp add: disk_def disk_file_def sizeof_NetworkSegment_def)
  have parts: "bytes_from (disk ?s) 0 8 = transaction_record TX_DATA_VALID"
    "bytes_from (disk ?s) 8 16 = header_bytes h" "bytes_from (disk ?s) 24 3626 = b"
    using assms(3) by (simp_all add: d bytes_from_skip bytes_from_prefix bytes_from_full)
  have v: "record_valid (bytes_from (disk ?s) 0 8)" by (simp add: parts(1) record_valid_iff)
  note r = restore_valid [OF restart_idle(1,2) [OF assms(1)] v, unfolded parts h]
  show ?thesis
    using r assms image_with_image(2) [OF assms(2,3)] by (simp add: restart_idle split_beta)
qed

section \<open>After a failure\<close>

text \<open>The error of the first failure stays, and nothing reaches a file any more.\<close>

definition dead :: "storage \<Rightarrow> bool" where
  "dead st \<longleftrightarrow> persistentMemError st \<noteq> LonStatusNoError"

definition untouched :: "storage \<Rightarrow> storage \<Rightarrow> bool" where
  "untouched st' st \<longleftrightarrow> dead st' \<and> files st' = files st \<and> stdinFile st' = stdinFile st \<and>
     length (persistence_list st') = length (persistence_list st)"

lemma untouched_trans: "untouched st'' st' \<Longrightarrow> untouched st' st \<Longrightarrow> untouched st'' st"
  by (simp add: untouched_def)

lemma untouched_log [simp]: "untouched (print_log e st') st = untouched st' st"
  by (simp add: untouched_def dead_def print_log_def StartCommitTimer_def SetCommitFlag_def)

lemma untouched_or_log [simp]: "untouched (snd (or_log r)) st = untouched (snd r) st"
  "fst (or_log r) = fst r"
  by (simp_all add: or_log_def)

lemma dead_untouched: "dead st \<Longrightarrow> untouched st st" by (simp add: untouched_def)

lemma open_dead:
  assumes "dead st"
  shows "fst (OpenStorageSegment E seg st) \<noteq> LonStatusNoError \<and> untouched (snd (OpenStorageSegment E seg st)) st"
proof -
  have "HalInitStorage st = (persistentMemError st, st)" "persistentMemError st \<noteq> LonStatusNoError"
    using assms by (simp_all add: HalInitStorage_def unless_error_def dead_def)
  then have "fst (or_log (HalInitStorage st)) \<noteq> LonStatusNoError"
    "untouched (snd (or_log (HalInitStorage st))) st"
    using dead_untouched [OF assms] by simp_all
  moreover have "untouched (st\<lparr>stFault := True\<rparr>) st"
    using assms by (simp add: untouched_def dead_def)
  ultimately show ?thesis
    using dead_untouched [OF assms] by (simp add: OpenStorageSegment_def on_success_def)
qed

lemma record_dead:
  assumes "dead st"
  shows "untouched (snd (write_record E seg v st)) st"
  using open_dead [OF assms, of E seg] by (simp add: write_record_def on_success_def)

lemma write_segment_dead:
  assumes "dead st"
  shows "fst (write_segment E seg b st) = LonStatusNoError \<and> untouched (snd (write_segment E seg b st)) st"
proof -
  obtain e s where "or_log (OpenStorageSegment E seg st) = (e, s)" "e \<noteq> LonStatusNoError" "untouched s st"
    using open_dead [OF assms, of E seg] untouched_or_log [of "OpenStorageSegment E seg st"]
    by (metis prod.collapse)
  then show ?thesis by (simp add: write_segment_def Let_def IzotStorageOpenSegForWrite_def)
qed

lemma store_dead:
  assumes "dead st"
  shows "untouched (snd (IzotPersistentSegStore E seg st)) st"
proof -
  let ?s1 = "snd (IzotStorageStartSegUpdate E seg st)"
  have 1: "untouched ?s1 st" using record_dead [OF assms] by (simp add: IzotStorageStartSegUpdate_def)
  then have d1: "dead ?s1" by (simp add: untouched_def)
  obtain e b where e: "serialize E seg ?s1 = (e, b)" by fastforce
  let ?s2 = "checksum_overrun (length b) ?s1"
  have 2: "untouched ?s2 st" "dead ?s2" using 1 by (simp_all add: checksum_overrun_def untouched_def dead_def)
  obtain s3 where 3: "write_segment E seg b ?s2 = (LonStatusNoError, s3)" "untouched s3 ?s2"
    using write_segment_dead [OF 2(2), of E seg b] by (metis prod.collapse)
  have "untouched (snd (IzotStorageFinishSegUpdate E seg s3)) s3"
    using record_dead 3(2) by (simp add: IzotStorageFinishSegUpdate_def untouched_def)
  then have "untouched (snd (IzotStorageFinishSegUpdate E seg s3)) st"
    using untouched_trans 3(2) 2(1) by blast
  then show ?thesis using 1 e 3(1) by (simp add: IzotPersistentSegStore_def Let_def)
qed

lemma commit_dead:
  assumes "dead st"
  shows "untouched (IzotPersistentMemCommitCheck E st) st"
proof -
  have seg: "untouched (commit_segment E i s) st" if "untouched s st" for i s
  proof -
    have "untouched (snd (IzotPersistentSegStore E i s)) st"
      using store_dead untouched_trans that by (metis untouched_def)
    then show ?thesis using that
      by (auto simp: commit_segment_def split_beta untouched_def dead_def)
  qed
  have "untouched (fold (commit_segment E) is s) st" if "untouched s st" for "is" s
    using that by (induction "is" arbitrary: s) (simp_all add: seg)
  then have "untouched (fold (commit_segment E) [0..<IzotPersistentSegNumSegmentTypes] st) st"
    using dead_untouched [OF assms] by blast
  then show ?thesis
    using dead_untouched [OF assms]
    by (simp add: IzotPersistentMemCommitCheck_def IzotPersistentMemCommit_def untouched_def dead_def)
qed

text \<open>The stack running on: new configurations and times, each followed by a commit check.\<close>

definition run_on :: "persist_env \<Rightarrow> node \<times> u32 \<Rightarrow> storage \<Rightarrow> storage" where
  "run_on E = (\<lambda>(n, t) st. IzotPersistentMemCommitCheck E (take_over n (st\<lparr>tick := t\<rparr>)))"

lemma run_dead:
  "dead st \<Longrightarrow> untouched (fold (run_on E) xs st) st"
proof (induction xs arbitrary: st)
  case (Cons x xs)
  obtain n t where x: "x = (n, t)" by force
  let ?s = "take_over n (st\<lparr>tick := t\<rparr>)"
  have 1: "untouched ?s st"
    using Cons.prems by (simp add: take_over_def Let_def untouched_def dead_def StartCommitTimer_def
        SetCommitFlag_def)
  then have 2: "untouched (run_on E x st) ?s" using commit_dead by (simp add: x run_on_def untouched_def)
  then have "untouched (fold (run_on E) xs (run_on E x st)) (run_on E x st)"
    using Cons.IH by (simp add: untouched_def)
  then show ?case using untouched_trans [OF _ untouched_trans [OF 2 1]] by simp
qed (simp add: untouched_def)

text \<open>
  The first failure of the storage ends persistence: from then on no commit changes a
  file, however long the stack runs on. Yet a store of the network image still reports
  success, and the commit takes the segment off its list as if it had been written.
\<close>

theorem failed_storage_loses_commits:
  assumes "dead st" and "persistence_list st ! IzotPersistentSegNetworkImage"
    and "persistence_list st \<noteq> []"
  shows "files (fold (run_on E) xs st) = files st \<and>
    fst (IzotPersistentSegStore E IzotPersistentSegNetworkImage st) = LonStatusNoError \<and>
    \<not> persistence_list (commit_segment E IzotPersistentSegNetworkImage st) ! IzotPersistentSegNetworkImage"
proof -
  let ?s1 = "snd (IzotStorageStartSegUpdate E 0 st)"
  obtain b where e: "serialize E 0 ?s1 = (LonStatusNoError, b)" by (simp add: serialize_defs)
  have "untouched ?s1 st" using record_dead [OF assms(1)] by (simp add: IzotStorageStartSegUpdate_def)
  then have "dead (checksum_overrun (length b) ?s1)"
    by (simp add: untouched_def dead_def checksum_overrun_def)
  then have "fst (write_segment E 0 b (checksum_overrun (length b) ?s1)) = LonStatusNoError"
    using write_segment_dead by blast
  then have s: "fst (IzotPersistentSegStore E 0 st) = LonStatusNoError"
    using e by (simp add: IzotPersistentSegStore_def Let_def split_beta)
  have "files (fold (run_on E) xs st) = files st"
    using run_dead [OF assms(1), of E xs] by (simp add: untouched_def)
  moreover have "persistence_list (snd (IzotPersistentSegStore E 0 st)) \<noteq> []"
    using store_dead [OF assms(1), of E 0] assms(3) by (metis list.size(3) length_0_conv untouched_def)
  ultimately show ?thesis using s assms(2)
    by (simp add: commit_segment_def split_beta nth_list_update)
qed

section \<open>The first boot\<close>

definition boot :: "persist_env \<Rightarrow> (node \<Rightarrow> node) \<Rightarrow> node \<Rightarrow> storage \<Rightarrow> storage" where
  "boot E go_unconfigured n st =
     IzotStartStack E go_unconfigured (snd (LCS_ReadPersistentNetworkImage E (restart n st)))"

lemma access_error_dead [simp]: "dead (snd (access_error st))" "fst (access_error st) = LonStatusPersistentDataAccessError"
  by (simp_all add: access_error_def set_error_def dead_def)

lemma prepare_closed:
  assumes "storageFd st ! seg = Closed \<or> dead st" "0 < m"
  shows "dead (snd (PrepareStorageSegment seg m st))"
proof -
  have h: "fst (HalPrepareStorageSegment seg p q c v st) \<noteq> LonStatusNoError \<and>
      dead (snd (HalPrepareStorageSegment seg p q c v st))" for p q c v
  proof (cases "dead st")
    case False
    then have "HalPrepareStorageSegment seg p q c v st = access_error st"
      using assms(1) by (simp add: HalPrepareStorageSegment_def unless_error_def hal_put_def dead_def)
    then show ?thesis by simp
  qed (simp add: HalPrepareStorageSegment_def unless_error_def dead_def)
  have log: "dead (snd (or_log r)) = dead (snd r)" for r
    by (simp add: or_log_def print_log_def dead_def StartCommitTimer_def SetCommitFlag_def split_beta)
  have nonzero: "fst (or_log r) = fst r" for r :: step
    by (simp add: or_log_def split_beta)
  have once: "dead (snd (prepare_blocks k seg off c st))" if "0 < k" for k off c
    using that h [of "segment_start (seg_map st seg)" off c "erase_value (seg_map st seg)"]
    by (cases k) (simp_all add: on_success_def log nonzero split_beta)
  have pos: "0 < (if bl = 0 then c else (c + bl - 1) div bl)" if "0 < c" for c bl :: nat
    using that by (auto simp: div_greater_zero_iff)
  show ?thesis
    using pos [OF assms(2), of "storage_block_size st"] pos [of 8 "storage_block_size st"]
    by (cases "erase_required (seg_map st seg)")
      (simp_all only: PrepareStorageSegment_def Let_def split_beta fst_conv snd_conv if_True if_False
        sizeof_TransactionRecord_def once zero_less_numeral simp_thms)
qed

lemma prepare_dead:
  assumes "dead st"
  shows "dead (snd (PrepareStorageSegment seg m st))"
proof -
  have "dead (snd (prepare_blocks k seg off c st))" for k off c
    using assms by (cases k) (simp_all add: on_success_def HalPrepareStorageSegment_def unless_error_def
        or_log_def dead_def print_log_def StartCommitTimer_def SetCommitFlag_def)
  then show ?thesis by (simp add: PrepareStorageSegment_def Let_def)
qed

lemma other_segment:
  assumes "frame st' st"
  shows "storageFd st' ! 3 = storageFd st ! 3" "data_segment_size st' ! 3 = data_segment_size st ! 3"
    "stdinFile st' = stdinFile st"
proof -
  have "(storageFd st')[0 := Closed] ! 3 = (storageFd st)[0 := Closed] ! 3"
    "(data_segment_size st')[0 := 0] ! 3 = (data_segment_size st)[0 := 0] ! 3"
    using assms by (simp_all only: frame_def)
  then show "storageFd st' ! 3 = storageFd st ! 3" "data_segment_size st' ! 3 = data_segment_size st ! 3"
    by simp_all
  show "stdinFile st' = stdinFile st" using assms by (simp add: frame_def)
qed

lemma blank_record: "\<not> record_valid (replicate 8 0)"
proof
  assume "record_valid (replicate 8 0)"
  moreover have "transaction_record TX_DATA_VALID ! 7 \<noteq> 0" by (simp add: record_bytes)
  ultimately show False using record_valid_iff [of "replicate 8 0"] nth_replicate [of 7 8 "0 :: u8"] by simp
qed

text \<open>The first look at the application's segment reads descriptor 0.\<close>

lemma app_segment_invalid:
  assumes "sound st" "storageFd st ! 3 = StandardInput" "data_segment_size st ! 3 = 0"
    "\<not> record_valid (bytes_from (stdinFile st) 0 8)"
  shows "\<exists>s. IzotStorageSegIsInvalid E 3 st = (True, s) \<and>
    (dead s \<or> storageFd s ! 3 = Closed) \<and> 0 < max_data_size (seg_map s 3)"
proof -
  have i: "HalInitStorage st = (LonStatusNoError, st\<lparr>persistentMemInitialized := True\<rparr>)"
    by (rule init_storage [OF assms(1)])
  have entry: "\<exists>s1. s1 = segment_entry E 3 e t \<and> sound s1 \<and> storageFd s1 = storageFd st \<and>
      stdinFile s1 = stdinFile st \<and> 0 < max_data_size (seg_map s1 3) \<and>
      tx_offset (seg_map s1 3) = segment_start (seg_map s1 3)"
    if "sound t" "storageFd t = storageFd st" "stdinFile t = stdinFile st" for e t
    using that by (simp add: segment_entry_def Let_def sound_def sizeof_PersistenceHeader_def)
  obtain s1 where m: "InitSegmentMap E 3 (st\<lparr>persistentMemInitialized := True\<rparr>) = (LonStatusNoError, s1)"
    "sound s1" "storageFd s1 = storageFd st" "stdinFile s1 = stdinFile st"
    "0 < max_data_size (seg_map s1 3)" "tx_offset (seg_map s1 3) = segment_start (seg_map s1 3)"
  proof -
    define t where "t = (if storage_block_size st = 0
      then st\<lparr>persistentMemInitialized := True,
             lowest_used_storage_data_offset := LINUX_FLASH_OFFSET + FLASH_REGION_SIZE, storage_block_size := BLOCK_SIZE\<rparr>
      else st\<lparr>persistentMemInitialized := True\<rparr>)"
    define e where "e = (if storage_block_size st = 0 then (False, 0) else eraseJunk E)"
    have t: "sound t" "storageFd t = storageFd st" "stdinFile t = stdinFile st"
      using assms(1) by (simp_all add: t_def sound_def)
    have "InitSegmentMap E 3 (st\<lparr>persistentMemInitialized := True\<rparr>) = (LonStatusNoError, segment_entry E 3 e t)"
      using assms(1,3) by (cases "storage_block_size st = 0")
        (simp_all add: InitSegmentMap_def Let_def sound_def seg_defs t_def e_def)
    then show thesis using that entry [OF t, of e] by blast
  qed
  have fd: "storageFd s1 ! 3 = StandardInput" "persistentMemError s1 = LonStatusNoError" "outcomes s1 = []"
    "length (storageFd s1) = 7"
    using m(2,3) assms(2) by (simp_all add: sound_def)
  have set: "set_error LonStatusNoError s1 = (LonStatusNoError, s1)"
    using fd(2) by (cases s1) (simp add: set_error_def)
  have "HalOpenStorageSegment 3 k s1 = (LonStatusNoError, s1)" for k
    using fd set by (simp add: HalOpenStorageSegment_def unless_error_def)
  then have o: "OpenStorageSegment E 3 st = (LonStatusNoError, s1)"
    using i m(1) by (simp add: OpenStorageSegment_def seg_defs)
  let ?p = "segment_start (seg_map s1 3)"
  show ?thesis
  proof (cases "length (stdinFile s1) < 8 \<or> \<not> stdinSeekable s1")
    case True
    then have "HalReadStorageSegment 3 ?p ?p 8 s1 = (access_error s1, [])"
      using fd by (simp add: HalReadStorageSegment_def file_content_def seekable_def)
    moreover define s2 where "s2 = snd (or_log (access_error s1))"
    moreover have s2: "or_log (access_error s1) = (LonStatusPersistentDataAccessError, s2)"
      "dead s2" "segment_map s2 = segment_map s1"
      by (simp_all add: s2_def or_log_def access_error_def set_error_def dead_def print_log_def
          StartCommitTimer_def SetCommitFlag_def)
    ultimately have "IzotStorageSegIsInvalid E 3 st = (True, s2)"
      using o m(6) by (simp add: IzotStorageSegIsInvalid_def sizeof_TransactionRecord_def)
    then show ?thesis using s2 m(5) by simp
  next
    case False
    let ?s2 = "s1\<lparr>storageFd := (storageFd s1)[3 := Closed]\<rparr>"
    have r: "HalReadStorageSegment 3 ?p ?p 8 s1 = ((LonStatusNoError, s1), bytes_from (stdinFile st) 0 8)"
      using fd False set m(4) by (simp add: HalReadStorageSegment_def file_content_def seekable_def
          next_outcome_def)
    have "HalCloseStorageSegment 3 s1 = (LonStatusNoError, ?s2)"
      using fd(2) by (cases s1) (simp add: HalCloseStorageSegment_def unless_error_def set_error_def)
    then have "IzotStorageSegIsInvalid E 3 st = (True, ?s2)"
      using o r m(6) assms(4) by (simp add: IzotStorageSegIsInvalid_def sizeof_TransactionRecord_def)
    then show ?thesis using m(5) fd(4) by simp
  qed
qed

lemma dead_cong:
  "dead (StartCommitTimer st) = dead st" "dead (SetCommitFlag k st) = dead st" "dead (take_over n st) = dead st"
  by (simp_all add: dead_def StartCommitTimer_def SetCommitFlag_def take_over_def Let_def)

text \<open>
  C36. The first boot of a device with application data ends persistence for good. The
  application's segment is found invalid (its descriptor is 0, the standard input, because
  the table is initialised in its first element only), the erasing that follows works on a
  segment that is not open, and its error stays: no file changes in any later commit, so the
  next boot is a first boot again.
\<close>

theorem first_boot_ends_persistence:
  assumes "files st = replicate 7 None" and "appSegmentSize E \<noteq> 0"
    and "\<not> record_valid (bytes_from (stdinFile st) 0 8)"
  shows "dead (boot E go_unconfigured n st) \<and>
    files (fold (run_on E) xs (boot E go_unconfigured n st)) = files (boot E go_unconfigured n st)"
proof -
  let ?s0 = "restart n st"
  have l: "length (files st) = 7" using assms(1) by simp
  have "disk ?s0 = replicate 3650 0"
    using assms(1) restart_idle(3) [OF l] by (simp add: disk_def disk_file_def resize_def sizeof_NetworkSegment_def)
  then have "bytes_from (disk ?s0) 0 8 = replicate 8 0" by (simp add: bytes_from_eq_take)
  then have inv: "\<not> record_valid (bytes_from (disk ?s0) 0 8)"
    using blank_record by simp
  obtain s1 where s1: "IzotPersistentSegRestore E 0 ?s0 = (LonStatusPersistentDataFailure, s1)" "idle s1" "frame s1 ?s0"
    using restore_invalid [OF restart_idle(1,2) [OF l] inv, of E] by (metis prod.collapse)
  have n1: "snd (LCS_ReadPersistentNetworkImage E ?s0) = s1"
    using s1(1) by (simp add: LCS_ReadPersistentNetworkImage_def)
  have f: "storageFd s1 ! 3 = StandardInput" "data_segment_size s1 ! 3 = 0" "stdinFile s1 = stdinFile st" "sound s1"
    using other_segment [OF s1(3)] s1(2) by (simp_all add: restart_def idle_def)
  obtain s2 where s2: "IzotStorageSegIsInvalid E 3 s1 = (True, s2)" "dead s2 \<or> storageFd s2 ! 3 = Closed"
    "0 < max_data_size (seg_map s2 3)"
    using app_segment_invalid [OF f(4,1,2)] f(3) assms(3) by metis
  then have "IzotPersistentSegRestore E 3 s1 = (LonStatusPersistentDataFailure, s2)"
    by (simp add: IzotPersistentSegRestore_def)
  then obtain s3 where s3: "LCS_ReadPersistentAppData E s1 = (LonStatusPersistentDataFailure, s3)"
    "dead s3 \<or> storageFd s3 ! 3 = Closed" "0 < max_data_size (seg_map s3 3)"
    using s2(2,3) by (simp add: LCS_ReadPersistentAppData_def seg_defs or_log_def print_log_def dead_def
        StartCommitTimer_def SetCommitFlag_def)
  have "dead (snd (ErasePersistentAppData s3))"
    using prepare_closed [of s3 3] s3(2,3) by (auto simp: ErasePersistentAppData_def seg_defs)
  then have "dead (snd (ErasePersistentNetworkConfig (snd (ErasePersistentAppData s3))))"
    by (simp add: ErasePersistentNetworkConfig_def prepare_dead)
  then have d: "dead (boot E go_unconfigured n st)"
    using assms(2) n1 s3(1) by (simp add: boot_def IzotStartStack_def dead_cong Let_def)
  then show ?thesis using run_dead [OF d, of E xs] by (simp add: untouched_def)
qed

section \<open>From a command to the next boot\<close>

lemma image_part:
  assumes "node_wf x" "off_configData \<le> off"
  shows "bytes_from (eep_image x) off k = bytes_from (network_image x) (off - off_configData) k"
proof -
  have "eep_image x = take off_configData (eep_image x) @ network_image x" by (simp add: network_image_def)
  moreover have "length (take off_configData (eep_image x)) = off_configData"
    using length_eep_image [OF assms(1)] by (simp add: eep_offsets)
  ultimately show ?thesis using assms(2) bytes_from_skip by metis
qed

lemma same_configuration:
  assumes "node_wf x" "node_wf y" "network_image x = network_image y"
  shows "domainTable (stk x) = domainTable (stk y)" "addrTable (stk x) = addrTable (stk y)"
    "nvConfigTable (stk x) = nvConfigTable (stk y)" "nvAliasTable (stk x) = nvAliasTable (stk y)"
    "config_bytes x = config_bytes y" "configCheckSum x = configCheckSum y"
proof -
  have part: "bytes_from (eep_image x) off k = bytes_from (eep_image y) off k" if "off_configData \<le> off" for off k
    by (simp only: image_part [OF assms(1) that] image_part [OF assms(2) that] assms(3))
  have table: "table_of f (eep_image x) off k m = table_of f (eep_image y) off k m" if "off_configData \<le> off" for f off k m
    unfolding table_of_def using that by (simp add: part)
  have stored: "domainTable (stk z) = table_of domain_of (eep_image z) off_domainTable sizeof_IzotDomain MAX_DOMAINS \<and>
      addrTable (stk z) = table_of address_of (eep_image z) off_addrTable sizeof_IzotAddress NUM_ADDR_TBL_ENTRIES \<and>
      nvConfigTable (stk z) =
        table_of datapoint_of (eep_image z) off_nvConfigTable sizeof_IzotDatapointConfig NV_TABLE_SIZE \<and>
      nvAliasTable (stk z) =
        table_of alias_of (eep_image z) off_nvAliasTable sizeof_IzotAliasConfig NV_ALIAS_TABLE_SIZE \<and>
      configCheckSum z = byte_at (eep_image z) off_configCheckSum" if "node_wf z" for z
    by (subst (1 3 5 7 9) store_of_image [OF that, symmetric]) (simp add: eep_store_def)
  note st = stored [OF assms(1)] stored [OF assms(2)]
  show "domainTable (stk x) = domainTable (stk y)" "addrTable (stk x) = addrTable (stk y)"
    "nvConfigTable (stk x) = nvConfigTable (stk y)" "nvAliasTable (stk x) = nvAliasTable (stk y)"
    using st by (simp_all only: table eep_offsets)
  show "config_bytes x = config_bytes y"
    by (simp add: config_of_image assms part eep_offsets)
  have "byte_at (eep_image x) off_configCheckSum = hd (bytes_from (eep_image x) off_configCheckSum 1)"
    "byte_at (eep_image y) off_configCheckSum = hd (bytes_from (eep_image y) off_configCheckSum 1)"
    by (simp_all add: bytes_from_def)
  then show "configCheckSum x = configCheckSum y"
    using st part [of off_configCheckSum 1] by (simp add: eep_offsets del: byte_at_nth)
qed

text \<open>A commit in which the network image alone is flagged.\<close>

lemma commit_only_network:
  assumes "idle st" "node_wf (pnode st)" "persistence_list st = True # replicate 6 False"
  shows "IzotPersistentMemCommit E st =
    (snd (IzotPersistentSegStore E 0 st))\<lparr>persistence_list := replicate 7 False, commit_flag := False,
      scheduled := False\<rparr>"
proof -
  obtain s1 where 1: "IzotPersistentSegStore E 0 st = (LonStatusNoError, s1)" "frame s1 st"
    using store_idle [OF assms(1,2)] by blast
  have l: "persistence_list s1 = True # replicate 6 False" using 1(2) assms(3) by (simp add: frame_def)
  have u: "[0..<IzotPersistentSegNumSegmentTypes] = [0, 1, 2, 3, 4, 5, 6]"
    by (simp add: seg_defs upt_rec)
  show ?thesis
    using 1(1) l assms(3) unfolding u by (simp add: IzotPersistentMemCommit_def u commit_segment_def numeral_eq_Suc)
qed

text \<open>
  C4. A command of the network management that changes the configuration changes it for good,
  unless it is a memory write that does not ask for the checksum. The change is not written while
  the guard time runs; the first check after the guard time commits it; and the restarted device
  restores the same tables, with a correct checksum. The storage is in order (\<open>idle\<close>, without a
  power failure), no other commit is pending, the command did not change application data as
  well, and the image can be allocated.
\<close>

theorem configuration_survives_a_restart:
  assumes "platform_ok P" and "intact (pnode st)" and "nmCode a = NM_WRITE_MEMORY \<Longrightarrow> write_recalculates a"
    and "idle st" and "power st = None" and "app_signature st < 2 ^ 32" and "allocates E 3626"
    and "persistence_list st = replicate 7 False" and "\<not> scheduled st" and "\<not> commit_flag st"
    and "eep_image (HandleNM P a (pnode st)) \<noteq> eep_image (pnode st)"
    and "\<not> commitAppData (HandleNM P a (pnode st))" and "node_wf m" and "guard_band_duration st < 2 ^ 32"
  shows "let st' = (take_over (HandleNM P a (pnode st)) st)\<lparr>tick := t\<rparr> in
    if unat (t - tick st) < guard_band_duration st then IzotPersistentMemCommitCheck E st' = st'
    else case IzotPersistentSegRestore E IzotPersistentSegNetworkImage
           (restart m (IzotPersistentMemCommitCheck E st')) of (status, s) \<Rightarrow>
        status = LonStatusNoError \<and> intact (pnode s) \<and>
        domainTable (stk (pnode s)) = domainTable (stk (HandleNM P a (pnode st))) \<and>
        addrTable (stk (pnode s)) = addrTable (stk (HandleNM P a (pnode st))) \<and>
        nvConfigTable (stk (pnode s)) = nvConfigTable (stk (HandleNM P a (pnode st))) \<and>
        nvAliasTable (stk (pnode s)) = nvAliasTable (stk (HandleNM P a (pnode st)))"
proof -
  let ?n = "HandleNM P a (pnode st)"
  let ?m = "?n\<lparr>commitNetworkImage := False, commitAppData := False\<rparr>"
  define st' where "st' = (take_over ?n st)\<lparr>tick := t\<rparr>"
  have c: "checksum_safe a" using assms(3) by (simp add: checksum_safe_def)
  have intact: "intact ?n" by (rule intact_HandleNM [OF assms(1) c assms(2)])
  have flag: "commitNetworkImage ?n"
    using command_sets_commit [of P a "pnode st"] assms(11) by blast
  have st': "st' = st\<lparr>pnode := ?m, persistence_list := True # replicate 6 False, last_update := tick st,
      scheduled := True, tick := t\<rparr>"
    using flag assms(8,9,12)
    by (simp add: st'_def take_over_def StartCommitTimer_def SetCommitFlag_def numeral_eq_Suc)
  have image: "network_image ?m = network_image ?n" "node_wf ?m"
    using intact by (simp_all add: network_image_def eep_image_def readOnly_bytes_def config_bytes_def
        tail_bytes_def Config_1_def Let_def intact_def node_wf_def)
  have idle: "idle st'" using assms(4) by (simp add: st' idle_def sound_def mapped_def)
  have disk: "disk_of st' = disk_of st" by (simp add: st' disk_def disk_file_def)
  show ?thesis
  proof (cases "unat (t - tick st) < guard_band_duration st")
    case True
    have "GuardBandRemaining st' = guard_band_duration st - unat (t - tick st)"
      using True assms(14) by (simp add: GuardBandRemaining_def st')
    then have "IzotPersistentMemCommitCheck E st' = st'"
      using True assms(10) by (simp add: IzotPersistentMemCommitCheck_def st')
    then show ?thesis using True by (simp add: st'_def)
  next
    case False
    let ?c = "IzotPersistentMemCommitCheck E st'"
    have "GuardBandRemaining st' = 0" using False by (simp add: GuardBandRemaining_def Let_def st')
    then have "?c = IzotPersistentMemCommit E st'" by (simp add: IzotPersistentMemCommitCheck_def st')
    then have c: "?c = (snd (IzotPersistentSegStore E 0 st'))\<lparr>persistence_list := replicate 7 False,
        commit_flag := False, scheduled := False\<rparr>"
      using commit_only_network [OF idle] image(2) by (simp add: st')
    obtain s1 where 1: "IzotPersistentSegStore E 0 st' = (LonStatusNoError, s1)" "idle s1" "frame s1 st'"
      "disk_of s1 = store_disk (image_header ?m st') (network_image ?m) (disk_of st')"
      using store_idle [OF idle] image(2) by (simp add: st') blast
    have "disk s1 = stored_disk (image_header ?m st') (network_image ?m)"
      using 1(4) store_disk_complete [of "disk st'" "image_header ?m st'" "network_image ?m" None]
        disk assms(5) length_network_image [OF image(2)]
      by (metis image_header_def length_disk length_header option.distinct(1) snd_conv Pair_inject)
    then have d: "disk ?c = stored_disk (image_header ?m st') (network_image ?m)" "length (files ?c) = 7"
      "app_signature ?c = app_signature st'"
      using 1 c idle_files [OF 1(2)] by (simp_all add: disk_def disk_file_def frame_def)
    have r: "fst (IzotPersistentSegRestore E 0 (restart m ?c)) = LonStatusNoError"
      "pnode (snd (IzotPersistentSegRestore E 0 (restart m ?c))) = with_image (network_image ?m) m"
      using restore_stored [OF d(2) image(2) _ d(3,1) assms(7)] assms(6) by (simp_all add: st')
    let ?r = "with_image (network_image ?m) m"
    have w: "node_wf ?r" "network_image ?r = network_image ?n"
      using image_with_image(2) [OF assms(13) length_network_image [OF image(2)]] image(1)
      by (simp_all add: with_image_def)
    note s = same_configuration [OF w(1) _ w(2)]
    have n: "node_wf ?n" using intact by (simp add: intact_def)
    have "intact ?r"
      using s(5,6) [OF n] intact w(1) by (simp add: intact_def checksum_ok_def ComputeConfigCheckSum_eq)
    then show ?thesis
      using False r s(1-4) [OF n] by (simp add: st'_def split_beta)
  qed
qed

section \<open>Witnesses\<close>

definition blankMap :: SegmentMap where
  "blankMap = \<lparr>segment_start = 0, tx_offset = 0, data_offset = 0, max_data_size = 0,
     erase_required = False, erase_value = 0\<rparr>"

definition sampleStorage :: storage where
  "sampleStorage =
     \<lparr>pnode = sampleNode0, tick = 0, persistentMemError = LonStatusNoError,
      persistentMemInitialized = False, storageFd = Closed # replicate 6 StandardInput,
      files = replicate 7 None, stdinFile = [], stdinSeekable = False, power = None, outcomes = [],
      segment_map = replicate 7 blankMap, storage_block_size = 0,
      lowest_used_storage_data_offset = 0, data_segment_size = replicate 7 0,
      app_signature = 0x1234, guard_band_duration = 1000, last_update = 0, commit_flag = False,
      scheduled = False, persistence_list = replicate 7 False, stFault = False\<rparr>"

definition sampleEnv :: persist_env where
  "sampleEnv =
     \<lparr>appSegmentSize = 100, serializeHandler = None, deserializeHandler = None,
      allocates = (\<lambda>_. True), eraseJunk = (False, 0)\<rparr>"

lemma sampleStorage_idle:
  "idle sampleStorage" "idle (sampleStorage\<lparr>power := Some 100\<rparr>)"
  by (simp_all add: idle_def sound_def sampleStorage_def)

lemma sampleStorage_clean: "clean (disk (sampleStorage\<lparr>power := Some 100\<rparr>))"
proof -
  have "bytes_from (replicate 3650 0) 4 4 = (replicate 4 0 :: bytes)"
    by (simp add: bytes_from_eq_take)
  moreover have "replicate 4 0 \<noteq> (replicate 4 0xFF :: bytes)" by (simp add: replicate_eq_replicate)
  ultimately show ?thesis
    by (simp add: clean_def disk_def disk_file_def sampleStorage_def resize_def sizeof_NetworkSegment_def)
qed

lemma stored_image_comes_back_witness:
  "case IzotPersistentSegStore sampleEnv IzotPersistentSegNetworkImage sampleStorage of (status, st') \<Rightarrow>
     case IzotPersistentSegRestore sampleEnv IzotPersistentSegNetworkImage (restart sampleNode0 st') of
       (restored, st'') \<Rightarrow>
         status = LonStatusNoError \<and> restored = LonStatusNoError \<and>
         network_image (pnode st'') = network_image (pnode sampleStorage) \<and>
         take off_configData (eep_image (pnode st'')) = take off_configData (eep_image sampleNode0)"
  by (rule stored_image_comes_back)
    (simp_all add: sampleStorage_idle sampleNode0_wf, simp_all add: sampleStorage_def sampleEnv_def sampleNode0_wf)

lemma interrupted_store_is_atomic_witness:
  "case IzotPersistentSegStore sampleEnv IzotPersistentSegNetworkImage (sampleStorage\<lparr>power := Some 100\<rparr>) of
     (_, st') \<Rightarrow> clean (disk st')"
  using interrupted_store_is_atomic [of "sampleStorage\<lparr>power := Some 100\<rparr>" sampleNode0 sampleEnv]
    sampleStorage_idle sampleStorage_clean sampleNode0_wf
  by (simp add: split_beta) (simp add: sampleStorage_def sampleEnv_def sampleNode0_wf)

definition sampleHeader :: IzotPersistenceHeader where
  "sampleHeader = \<lparr>hdrLength = 3626, isiSignature = ISI_IMAGE_SIGNATURE0, appSignature = 0x1234,
     hdrVersion = CURRENT_VERSION, hdrChecksum = 0\<rparr>"

definition damagedStorage :: storage where
  "damagedStorage = sampleStorage\<lparr>files := (replicate 7 None)[0 :=
     Some (transaction_record TX_DATA_VALID @ header_bytes sampleHeader @ replicate 3626 0xAA)]\<rparr>"

lemma damaged_image_is_restored_witness:
  "case IzotPersistentSegRestore sampleEnv IzotPersistentSegNetworkImage (restart sampleNode0 damagedStorage) of
     (status, st') \<Rightarrow> status = LonStatusNoError \<and> network_image (pnode st') = replicate 3626 0xAA"
  by (rule damaged_image_is_restored [where h = sampleHeader])
    (simp_all add: sampleNode0_wf, simp_all add: damagedStorage_def sampleStorage_def sampleEnv_def
      sampleHeader_def)

lemma failed_storage_loses_commits_witness:
  "let st = sampleStorage\<lparr>persistentMemError := LonStatusPersistentDataAccessError,
       persistence_list := (replicate 7 False)[0 := True]\<rparr>
   in files (fold (run_on sampleEnv) [(sampleNode, 1), (sampleNode, 2000)] st) = files st"
  unfolding Let_def
  by (rule failed_storage_loses_commits [THEN conjunct1])
    (simp_all add: dead_def)

lemma first_boot_ends_persistence_witness:
  "dead (boot sampleEnv (\<lambda>n. n) sampleNode0 sampleStorage)"
proof -
  have "\<not> record_valid (bytes_from (stdinFile sampleStorage) 0 8)"
    by (simp add: sampleStorage_def record_valid_def bytes_from_def byte_at_def upt_rec TX_SIGNATURE_def)
  then show ?thesis
    using first_boot_ends_persistence [of sampleStorage sampleEnv "\<lambda>n. n" sampleNode0 "[]"]
    by (simp add: sampleStorage_def sampleEnv_def)
qed


lemma domain_update:
  assumes "aprAuth u" "nmCode u = NM_UPDATE_DOMAIN" "17 \<le> aprPduSize u"
    "AccessDomain (stk n) (apdu_data u 0) = Some i"
  shows "domainTable (stk (HandleNM P u n)) = (domainTable (stk n))[i := domain_of (apdu_bytes u 1 15)]"
    "commitAppData (HandleNM P u n) = commitAppData n"
  using AccessDomain_bound [OF assms(4), of "domain_of (apdu_bytes u 1 15)"] assms(1-3)
  by (simp_all add: HandleNM_authentic nm_dispatch_codes HandleNMUpdateDomain_def sizeof_IzotDomain_def
      NMNDRespond_def SendResponse_def AllocSendResponse_def persist_changes_def
      LCS_WritePersistentNetworkImage_def RecomputeChecksum_def on_stack_def Let_def split_beta)

lemma configuration_survives_a_restart_witness:
  "let u = authentic (nmMessage (0x63 # 0 # replicate 15 1));
       st = sampleStorage\<lparr>pnode := sampleNode\<rparr>;
       st' = (take_over (HandleNM samplePlatform u sampleNode) st)\<lparr>tick := 2000\<rparr>
   in case IzotPersistentSegRestore sampleEnv IzotPersistentSegNetworkImage
        (restart sampleNode0 (IzotPersistentMemCommitCheck sampleEnv st')) of (status, s) \<Rightarrow>
        status = LonStatusNoError \<and> domainTable (stk (pnode s)) ! 0 = domain_of (replicate 15 1)"
proof -
  let ?u = "authentic (nmMessage (0x63 # 0 # replicate 15 1))" and ?st = "sampleStorage\<lparr>pnode := sampleNode\<rparr>"
  let ?n = "HandleNM samplePlatform ?u sampleNode"
  have u: "aprAuth ?u" "nmCode ?u = NM_UPDATE_DOMAIN" "17 \<le> aprPduSize ?u"
    "AccessDomain (stk sampleNode) (apdu_data ?u 0) = Some 0" "apdu_bytes ?u 1 15 = replicate 15 1"
    "nmCode ?u \<noteq> NM_WRITE_MEMORY"
    by (simp_all add: authentic_def nmMessage_def nm_codes AccessDomain_def apdu_data_def apdu_bytes_def
        sampleNode0_def bytes_from_full)
  have d: "domainTable (stk ?n) = [domain_of (replicate 15 1), sampleDomain1]" "\<not> commitAppData ?n"
    using domain_update [OF u(1-4), of samplePlatform] u(5)
    by (simp_all add: sampleNode_def RecomputeChecksum_def sampleNode0_def)
  have "intact ?n" "intact sampleNode"
    using intact_HandleNM [OF samplePlatform_ok _ sampleNode_intact(1), of ?u] sampleNode_intact(1) u(6)
    by (simp_all add: checksum_safe_def)
  then have wf: "node_wf ?n" "node_wf sampleNode" by (simp_all add: intact_wf)
  have "domainTable (stk ?n) \<noteq> domainTable (stk sampleNode)"
    by (simp add: d sampleNode0_def sampleDomain_def domain_of_def)
  then have changed: "eep_image ?n \<noteq> eep_image sampleNode"
    using same_configuration(1) [OF wf] by (auto simp: network_image_def)
  have st: "idle ?st" "pnode ?st = sampleNode" "power ?st = None" "app_signature ?st < 2 ^ 32"
    "persistence_list ?st = replicate 7 False" "\<not> scheduled ?st" "\<not> commit_flag ?st"
    "guard_band_duration ?st = 1000" "tick ?st = 0" "allocates sampleEnv 3626"
    by (simp_all add: sampleStorage_def idle_def sound_def sampleEnv_def)
  show ?thesis
    using configuration_survives_a_restart [of samplePlatform ?st ?u sampleEnv sampleNode0 2000]
      samplePlatform_ok \<open>intact sampleNode\<close> u(6) st changed d sampleNode0_wf
    by (simp add: Let_def split_beta)
qed

end
