(* ===== verification/Lcs_App.thy ===== *)
theory Lcs_App
  imports Lcs_Nm_Dispatch Lcs_Tsa_Send
begin

text \<open>
  The application layer of \<^verbatim>\<open>lcs/lcs_app.c\<close>: its state, the interface for messages and responses
  that the application calls, and the messages on their way between the application and the
  layers below. Network variables follow in \<open>Lcs_App_Nv\<close>.
\<close>

section \<open>State\<close>

text \<open>
  \<open>len\<close> of a message that comes in is the length of its \<open>data\<close> here; that of a message which
  the application forms is a field of its own, since nothing relates it to the buffer. The
  destination in the address of a message is a union, kept as its bytes.
\<close>

record MsgIn =
  miCode :: u8
  miData :: bytes
  miAuthenticated :: bool
  miService :: IzotServiceType
  miReqId :: u16
  miDomainFormat :: u8
  miSource :: IzotReceiveSubnetNode
  miDestination :: bytes

record MsgOut =
  moPriorityOn :: bool
  moTag :: u16
  moLen :: nat
  moCode :: u8
  moData :: bytes
  moAuthenticated :: bool
  moService :: IzotServiceType
  moAddr :: IzotSendAddress

record RespIn =
  riTag :: u16
  riCode :: u8
  riLen :: nat
  riData :: bytes
  riDomain :: u8
  riSource :: IzotReceiveSubnetNode
  riDestination :: bytes

record RespOut =
  roReqId :: u16
  roNullResponse :: bool
  roCode :: u8
  roLen :: nat
  roData :: bytes

record APPSendParam =
  apsTag :: u16
  apsLen :: nat
  apsAuthenticated :: bool
  apsService :: IzotServiceType
  apsReqId :: u16
  apsAddr :: IzotSendAddress
  apsNullResponse :: bool
  apsApdu :: bytes

text \<open>The calls of the application's completion handlers.\<close>

datatype completion =
    MsgCompleted LonStatusCode u16
  | DatapointUpdateCompleted int bool

text \<open>
  The fields of \<open>ProtocolStackData\<close> that belong to the application layer, around the node.
  An entry of the two index queues is an \<open>IzotBits16\<close>: \<open>NV_SYNC\<close> is 0, so no value ever
  follows an index. An entry of \<open>nvArrayTbl\<close> is the base index of an array with its dimension.
\<close>

record app =
  nd :: node
  appOutQ :: "APPSendParam Queue"
  appOutBufSize :: nat
  appOutPriQ :: "APPSendParam Queue"
  appOutPriBufSize :: nat
  nvOutIndexQ :: "int Queue"
  nvOutStatus :: LonStatusCode
  nvOutCanSchedule :: bool
  nvOutIndex :: int
  nvInIndexQ :: "int Queue"
  nvInDataStatus :: LonStatusCode
  nvInTranStatus :: LonStatusCode
  nvInCanSchedule :: bool
  nvInIndex :: int
  nvArrayIndex :: int
  nvArrayTbl :: "(int \<times> nat) list"
  msgReceive :: bool
  respReceive :: bool
  callMsgFree :: bool
  callRespFree :: bool
  msgIn :: MsgIn
  msgOut :: MsgOut
  respIn :: RespIn
  respOut :: RespOut
  nextBindableMsgTag :: nat
  nextNonbindableMsgTag :: nat
  completions :: "completion list"

definition on_node :: "(node \<Rightarrow> node) \<Rightarrow> app \<Rightarrow> app" where
  "on_node f a = a\<lparr>nd := f (nd a)\<rparr>"

abbreviation on_stk :: "(stack \<Rightarrow> stack) \<Rightarrow> app \<Rightarrow> app" where
  "on_stk f \<equiv> on_node (on_stack f)"

abbreviation app_stk :: "app \<Rightarrow> stack" where "app_stk a \<equiv> stk (nd a)"

definition app_log :: "LonStatusCode \<Rightarrow> app \<Rightarrow> app" where
  "app_log st = on_node (OsalPrintLog st)"

text \<open>\<open>IzotFilterMsgCompleted\<close> may take the event from the application; it is recorded either way.\<close>

definition MsgCompletes :: "LonStatusCode \<Rightarrow> u16 \<Rightarrow> app \<Rightarrow> app" where
  "MsgCompletes st tag a = a\<lparr>completions := completions a @ [MsgCompleted st tag]\<rparr>"

definition appQ :: "bool \<Rightarrow> app \<Rightarrow> APPSendParam Queue" where
  "appQ pri a = (if pri then appOutPriQ a else appOutQ a)"

definition set_appQ :: "bool \<Rightarrow> APPSendParam Queue \<Rightarrow> app \<Rightarrow> app" where
  "set_appQ pri q a = (if pri then a\<lparr>appOutPriQ := q\<rparr> else a\<lparr>appOutQ := q\<rparr>)"

section \<open>The application's interface\<close>

definition noAddr :: IzotSendAddress where
  "noAddr = \<lparr>saTypeSize = 0, saDomain = 0, saRepeatRetry = 0, saTransmit = 0, saSubnetGroup = 0,
     saNeuronId = replicate 6 0\<rparr>"

definition MAX_DATA_SIZE :: nat where "MAX_DATA_SIZE = 255"

definition ReinitMsgOut :: "app \<Rightarrow> app" where
  "ReinitMsgOut a = a\<lparr>msgOut :=
     \<lparr>moPriorityOn = False, moTag = 0, moLen = 0, moCode = 0, moData = replicate MAX_DATA_SIZE 0,
      moAuthenticated = False, moService = IzotServiceAcknowledged, moAddr = noAddr\<rparr>\<rparr>"

definition ReinitRespOut :: "app \<Rightarrow> app" where
  "ReinitRespOut a = a\<lparr>respOut :=
     \<lparr>roReqId = 0, roNullResponse = False, roCode = 0, roLen = 0, roData = replicate MAX_DATA_SIZE 0\<rparr>\<rparr>"

definition MsgAlloc :: "app \<Rightarrow> bool" where
  "MsgAlloc a \<longleftrightarrow> \<not> QueueFull (appOutQ a)"

definition MsgAllocPriority :: "app \<Rightarrow> bool" where
  "MsgAllocPriority a \<longleftrightarrow> \<not> QueueFull (appOutPriQ a)"

text \<open>
  The address of a bound tag is copied from the address table with the size of a destination
  address: eleven bytes from the place of an entry of five.
\<close>

definition implicit_addr :: "nat \<Rightarrow> node \<Rightarrow> IzotSendAddress" where
  "implicit_addr i n = send_address_of (bytes_from (eep_image n) (off_addrTable + sizeof_IzotAddress * i) 11)"

definition msg_entry :: "MsgOut \<Rightarrow> APPSendParam \<Rightarrow> APPSendParam" where
  "msg_entry m p =
     p\<lparr>apsTag := moTag m, apsLen := moLen m, apsAuthenticated := moAuthenticated m,
       apsService := moService m, apsAddr := moAddr m,
       apsApdu := (if moCode m = 0x3D then moCode m AND 0x7F else moCode m) # drop 1 (apsApdu p)\<rparr>"

definition MsgSend :: "app \<Rightarrow> app" where
  "MsgSend a =
     (let m = msgOut a; pri = moPriorityOn m; q = appQ pri a; tag = moTag m;
          lost = (\<lambda>st a. ReinitMsgOut (MsgCompletes st tag a))
      in if QueueFull q then lost LonStatusNoMemoryAvailable a
         else if tag <s 0 then lost LonStatusInvalidMessageTag a
         else if moService m = IzotServiceResponse then lost LonStatusInvalidMessageService a
         else
           (let q = QueueTouch (msg_entry m) q
            in if moLen m + 1 > appOutBufSize a then
                 lost LonStatusInvalidMessageLength (set_appQ pri q a)
               else
                 (let q = QueueTouch (\<lambda>p. p\<lparr>apsApdu := hd (apsApdu p) # bytes_from (moData m) 0 (moLen m)\<rparr>) q;
                      bound = unat tag < NUM_ADDR_TBL_ENTRIES \<and> saTypeSize (moAddr m) = 0
                  in if bound \<and> adTypeSize (addrTable (app_stk a) ! unat tag) = 0 then
                       lost LonStatusInvalidMessageAddress (set_appQ pri q a)
                     else
                       (let q = (if bound
                                 then QueueTouch (\<lambda>p. p\<lparr>apsAddr := implicit_addr (unat tag) (nd a)\<rparr>) q
                                 else q)
                        in ReinitMsgOut (set_appQ pri (QueueWrite q) a)))))"

definition MsgFree :: "app \<Rightarrow> app" where
  "MsgFree a = a\<lparr>msgReceive := False, callMsgFree := False\<rparr>"

definition MsgReceive :: "app \<Rightarrow> bool \<times> app" where
  "MsgReceive a = (if msgReceive a then (True, a\<lparr>callMsgFree := True\<rparr>) else (False, a))"

definition RespAlloc :: "app \<Rightarrow> bool" where
  "RespAlloc a \<longleftrightarrow> \<not> QueueFull (tsaRespQ (app_stk a))"

definition RespSend :: "app \<Rightarrow> app" where
  "RespSend a =
     (let r = respOut a; req = (if roReqId r = 0 then miReqId (msgIn a) else roReqId r)
      in ReinitRespOut (on_node (\<lambda>n. snd (AllocSendResponse req (roNullResponse r) (roCode r)
           (bytes_from (roData r) 0 (roLen r)) n)) a))"

definition RespFree :: "app \<Rightarrow> app" where
  "RespFree a = a\<lparr>respReceive := False, callRespFree := False\<rparr>"

definition RespReceive :: "app \<Rightarrow> bool \<times> app" where
  "RespReceive a = (if respReceive a then (True, a\<lparr>callRespFree := True\<rparr>) else (False, a))"

definition NewMsgTag :: "bool \<Rightarrow> app \<Rightarrow> int \<times> app" where
  "NewMsgTag bind a =
     (if bind then
        (if nextBindableMsgTag a < NUM_ADDR_TBL_ENTRIES \<and> mtagCount (app_stk a) < 0xFF
         then (int (nextBindableMsgTag a),
               (on_stk (\<lambda>s. s\<lparr>mtagCount := mtagCount s + 1\<rparr>) a)\<lparr>nextBindableMsgTag := nextBindableMsgTag a + 1\<rparr>)
         else (-1, a))
      else if nextNonbindableMsgTag a < 0xFFFF
      then (signed_take_bit 15 (int (nextNonbindableMsgTag a)),
            a\<lparr>nextNonbindableMsgTag := nextNonbindableMsgTag a + 1\<rparr>)
      else (-1, a))"

section \<open>Sending\<close>

text \<open>
  The conversion of the address writes into the entry at the tail, which is left there when
  it fails.
\<close>

definition unackd_entry :: "u16 \<Rightarrow> u8 \<Rightarrow> bytes \<Rightarrow> DestinationAddress \<Rightarrow> stack \<Rightarrow> NWSendParam \<Rightarrow> NWSendParam" where
  "unackd_entry tag code dat dest s p =
     p\<lparr>nwsDropIfUnconfigured := True, nwsTag := tag, nwsDestAddr := dest, nwsPduType := APDU_TYPE,
       nwsDeltaBL := 0, nwsAltPath := 0, nwsPduSize := length dat + 1, nwsProxy := False,
       nwsVersion := (if get_attribute 0x40 6 (domInvalidIdLength (domainTable s ! 0)) = 0
                      then LsProtocolModeLegacy else LsProtocolModeEnhanced),
       nwsPdu := code # dat\<rparr>"

definition AllocSendUnackd ::
    "bool \<Rightarrow> u16 \<Rightarrow> IzotSendAddress \<Rightarrow> u8 \<Rightarrow> bytes \<Rightarrow> node \<Rightarrow> LonStatusCode \<times> node" where
  "AllocSendUnackd pri tag addr code dat n =
     (let s = stk n; q = nwQ pri s
      in if QueueFull q then (LonStatusNoBufferAvailable, n)
         else if length dat + 1 > nwOutBufSize s then
           (LonStatusInvalidBufferLength, OsalPrintLog LonStatusInvalidBufferLength n)
         else
           (let dest = (\<lambda>p. TSA_AddressConversion addr (nwsDestAddr p));
                sts = fst (TSA_AddressConversion addr (nwsDestAddr (QueueDeref q (qtail q))))
            in if sts = LonStatusNoError then
                 (sts, n\<lparr>stk := set_nwQ pri (QueueEmit (\<lambda>p. unackd_entry tag code dat (snd (dest p)) s p) q) s\<rparr>)
               else
                 (sts, n\<lparr>stk := set_nwQ pri (QueueTouch (\<lambda>p. p\<lparr>nwsDropIfUnconfigured := True, nwsTag := tag,
                                  nwsDestAddr := snd (dest p)\<rparr>) q) s\<rparr>)))"

definition tsa_message :: "bool \<Rightarrow> APPSendParam \<Rightarrow> TSASendParam \<Rightarrow> TSASendParam" where
  "tsa_message pri m p =
     p\<lparr>tssDmn := (tssDmn p)\<lparr>domainIndex := COMPUTE_DOMAIN_INDEX\<rparr>, tssDestAddr := apsAddr m,
       tssService := apsService m, tssAuth := apsAuthenticated m, tssReqId := apsReqId m,
       tssTag := apsTag m, tssApduSize := apsLen m + 1, tssAltPathOverride := False,
       tssPriority := pri\<rparr>"

text \<open>
  A message that is too large for the buffers of the transport layer is completed with an
  error and counts as sent; one for the network layer is completed with an error too, but is
  not. Only the size of the buffers of the non-priority queues is compared.
\<close>

definition TryMsgSend :: "bool \<Rightarrow> APPSendParam \<Rightarrow> app \<Rightarrow> LonStatusCode \<times> app" where
  "TryMsgSend pri m a =
     (let s = app_stk a; q = tsaQ pri s
      in if saTypeSize (apsAddr m) = 0 then (LonStatusNoError, MsgCompletes LonStatusNoError (apsTag m) a)
         else if apsService m = IzotServiceUnacknowledged then
           (if apsLen m + 1 > nwOutBufSize s then
              (LonStatusInvalidMessageLength, MsgCompletes LonStatusInvalidMessageLength (apsTag m) a)
            else
              (case AllocSendUnackd pri (apsTag m) (apsAddr m) (byte_at (apsApdu m) 0)
                      (bytes_from (apsApdu m) 1 (apsLen m)) (nd a) of
                 (st, n) \<Rightarrow> (st, a\<lparr>nd := n\<rparr>)))
         else if QueueFull q then (LonStatusLniWriteFailure, a)
         else if apsLen m + 1 \<le> tsaOutBufSize s then
           (LonStatusNoError,
            on_stk (\<lambda>s. set_tsaQ pri (QueueEmit (\<lambda>p. (tsa_message pri m p)
                          \<lparr>tssApdu := bytes_from (apsApdu m) 0 (apsLen m + 1)\<rparr>) (tsaQ pri s)) s) a)
         else
           (LonStatusNoError,
            MsgCompletes LonStatusLniWriteFailure (apsTag m)
              (on_stk (\<lambda>s. set_tsaQ pri (QueueTouch (tsa_message pri m) (tsaQ pri s)) s) a)))"

text \<open>One message of an output queue, dropped from it when it has been sent.\<close>

definition send_queued :: "bool \<Rightarrow> app \<Rightarrow> app" where
  "send_queued pri a =
     (if QueueEmpty (appQ pri a) then a
      else
        (case QueueHead (appQ pri a) of
           None \<Rightarrow> on_node node_fault a
         | Some m \<Rightarrow>
             (case TryMsgSend pri m a of
                (st, a) \<Rightarrow>
                  if st = LonStatusNoError then set_appQ pri (QueueDropHead (appQ pri a)) a else a)))"

section \<open>Receiving\<close>

definition drop_appIn :: "app \<Rightarrow> app" where
  "drop_appIn = on_stk (\<lambda>s. s\<lparr>appInQ := QueueDropHead (appInQ s)\<rparr>)"

definition drop_appCe :: "app \<Rightarrow> app" where
  "drop_appCe = on_stk (\<lambda>s. s\<lparr>appCeRspInQ := QueueDropHead (appCeRspInQ s)\<rparr>)"

text \<open>The length of the data behind the code, in 16 bits.\<close>

definition data_length :: "APPReceiveParam \<Rightarrow> nat" where
  "data_length r = (aprPduSize r + 0xFFFF) mod 2 ^ 16"

definition APPL_MSG_OFFLINE :: u8 where "APPL_MSG_OFFLINE = 0x3F"
definition FOREIGN_FRAME_OFFLINE :: u8 where "FOREIGN_FRAME_OFFLINE = 0x4F"

text \<open>
  The domain and format of the sender's address as the application gets them. The subnet of
  a unicast is looked up with the one bit that the domain index has in the address.
\<close>

definition domain_format :: "SourceAddress \<Rightarrow> u8 \<Rightarrow> u8" where
  "domain_format src f =
     (let f = set_attribute 0x80 7 (domainIndex (srcDmn src)) f
      in set_attribute 0x40 6 (if domainIndex (srcDmn src) = 2 then 1 else 0) f)"

definition msg_destination :: "SourceAddress \<Rightarrow> node \<Rightarrow> MsgIn \<Rightarrow> MsgIn" where
  "msg_destination src n m =
     (let format = (\<lambda>v m. m\<lparr>miDomainFormat := set_attribute 0x3F 0 v (miDomainFormat m)\<rparr>);
          put = (\<lambda>b m. m\<lparr>miDestination := copy_into (miDestination m) 0 b\<rparr>)
      in case srcMode src of
           AM_BROADCAST \<Rightarrow> put [srcBroadcastSubnet src] (format 0 m)
         | AM_MULTICAST \<Rightarrow> put [srcGroup src] (format 1 m)
         | AM_SUBNET_NODE \<Rightarrow>
             (let m = format 2 m
              in if get_attribute 0x40 6 (miDomainFormat m) \<noteq> 0 then m
                 else
                   (let d = domainTable (stk n) ! unat (get_attribute 0x80 7 (miDomainFormat m))
                    in put [domSubnet d, set_attribute 0x7F 0 (IZOT_DOMAIN_NODE d) (byte_at (miDestination m) 1)] m))
         | AM_UNIQUE_NODE_ID \<Rightarrow> put (0 # roUniqueNodeId (readOnlyData (stk n))) (format 3 m)
         | _ \<Rightarrow> format 5 m)"

definition msg_in :: "APPReceiveParam \<Rightarrow> node \<Rightarrow> MsgIn \<Rightarrow> MsgIn" where
  "msg_in r n m =
     (let src = aprSrcAddr r
      in msg_destination src n
           (m\<lparr>miCode := apdu_code r, miData := apdu_bytes r 0 (data_length r),
              miAuthenticated := aprAuth r, miService := aprService r, miReqId := aprReqId r,
              miDomainFormat := domain_format src (miDomainFormat m), miSource := srcSubnetAddr src\<rparr>))"

definition HandleNormal :: "APPReceiveParam \<Rightarrow> app \<Rightarrow> app" where
  "HandleNormal r a =
     (if \<not> AppPgmRuns (app_stk a) then
        (if aprService r = IzotServiceRequest then
           (case SendResponse (aprReqId r)
                   (if drop_bit 4 (apdu_code r) = 4 then FOREIGN_FRAME_OFFLINE else APPL_MSG_OFFLINE) []
                   (nd a) of
              (st, n) \<Rightarrow> (if st = LonStatusNoError then drop_appIn (a\<lparr>nd := n\<rparr>) else a\<lparr>nd := n\<rparr>))
         else drop_appIn a)
      else if msgReceive a then a
      else if data_length r > appInBufSize (app_stk a) then
        drop_appIn (app_log LonStatusWritePastEndOfApplBuffer
          (a\<lparr>msgIn := (msgIn a)\<lparr>miCode := apdu_code r\<rparr>\<rparr>))
      else drop_appIn (a\<lparr>msgIn := msg_in r (nd a) (msgIn a), msgReceive := True\<rparr>))"

definition resp_address :: "SourceAddress \<Rightarrow> node \<Rightarrow> RespIn \<Rightarrow> RespIn" where
  "resp_address src n r =
     (let unicast = srcMode src \<noteq> AM_MULTICAST_ACK;
          r = r\<lparr>riDomain := domain_format src (riDomain r),
                riSource := (srcSubnetAddr src)
                  \<lparr>snNode := set_attribute 0x80 7 (if unicast then 1 else 0) (snNode (srcSubnetAddr src))\<rparr>\<rparr>;
          put = (\<lambda>b. r\<lparr>riDestination := copy_into (riDestination r) 0 b\<rparr>); g = srcAckNode src
      in if \<not> unicast then
           put [snSubnet (mcaSubnetAddr g), snNode (mcaSubnetAddr g), mcaGroup g, mcaMember g]
         else if get_attribute 0x40 6 (riDomain r) \<noteq> 0 then r
         else
           (let d = domainTable (stk n) ! unat (domainIndex (srcDmn src))
            in put [domSubnet d, set_attribute 0x7F 0 (IZOT_DOMAIN_NODE d) (byte_at (riDestination r) 1)]))"

definition HandleResponse :: "APPReceiveParam \<Rightarrow> app \<Rightarrow> app" where
  "HandleResponse r a =
     (if IZOT_READONLY_NODE_STATE (readOnlyData (app_stk a)) \<noteq> IzotConfigOnLine then
        drop_appCe (app_log LonStatusNotConfiguredOnline a)
      else if respReceive a then a
      else
        (let len = data_length r;
             ri = resp_address (aprSrcAddr r) (nd a)
                    ((respIn a)\<lparr>riTag := aprTag r, riCode := apdu_code r, riLen := len\<rparr>)
         in if len \<le> appInBufSize (app_stk a) then
              drop_appCe (a\<lparr>respIn := ri\<lparr>riData := apdu_bytes r 0 len\<rparr>, respReceive := True\<rparr>)
            else drop_appCe (app_log LonStatusWritePastEndOfApplBuffer (a\<lparr>respIn := ri\<rparr>))))"

end
