(* ===== verification/Lcs_App_Nv.thy ===== *)
theory Lcs_App_Nv
  imports Lcs_App
begin

text \<open>
  Network variables in \<^verbatim>\<open>lcs/lcs_app.c\<close>: the updates and polls that come in, the scheduling of
  those that the application asks for, their sending one at a time, and the completion events;
  with the entry points of the application layer, which the scheduler calls.
\<close>

section \<open>Tables\<close>

abbreviation nv_dir :: "IzotDatapointConfig \<Rightarrow> u8" where
  "nv_dir c \<equiv> get_attribute 0x40 6 (dpSelhiDirPrio c)"

abbreviation nv_priority :: "IzotDatapointConfig \<Rightarrow> bool" where
  "nv_priority c \<equiv> get_attribute 0x80 7 (dpSelhiDirPrio c) \<noteq> 0"

abbreviation nv_selhigh :: "IzotDatapointConfig \<Rightarrow> u8" where
  "nv_selhigh c \<equiv> get_attribute 0x3F 0 (dpSelhiDirPrio c)"

abbreviation nv_turnaround :: "IzotDatapointConfig \<Rightarrow> bool" where
  "nv_turnaround c \<equiv> get_attribute 0x80 7 (dpAttribute1 c) \<noteq> 0"

abbreviation nv_authenticated :: "IzotDatapointConfig \<Rightarrow> bool" where
  "nv_authenticated c \<equiv> get_attribute 0x10 4 (dpAttribute1 c) \<noteq> 0"

definition nv_service :: "IzotDatapointConfig \<Rightarrow> IzotServiceType" where
  "nv_service c =
     (let v = get_attribute 0x60 5 (dpAttribute1 c)
      in if v = 0 then IzotServiceAcknowledged else if v = 1 then IzotServiceRepeated
         else if v = 2 then IzotServiceUnacknowledged else IzotServiceRequest)"

definition selector_of :: "IzotDatapointConfig \<Rightarrow> u16" where
  "selector_of c = push_bit 8 (ucast (nv_selhigh c)) OR ucast (dpSelectorLow c)"

definition addr_index :: "IzotDatapointConfig \<Rightarrow> nat" where
  "addr_index c = unat (push_bit 4 (IZOT_DATAPOINT_ADDRESS_HIGH c) OR IZOT_DATAPOINT_ADDRESS_LOW c)"

definition IzotDatapointDirectionIsInput :: u8 where "IzotDatapointDirectionIsInput = 0"
definition IzotDatapointDirectionIsOutput :: u8 where "IzotDatapointDirectionIsOutput = 1"

text \<open>All entries, those of the aliases behind those of the primaries.\<close>

definition nv_count :: "stack \<Rightarrow> nat" where
  "nv_count s = nvTableSize s + NV_ALIAS_TABLE_SIZE"

definition nv_entry :: "stack \<Rightarrow> nat \<Rightarrow> IzotDatapointConfig" where
  "nv_entry s i = the (GetNVStructPtr s (int i))"

definition nv_matches :: "u8 \<Rightarrow> u16 \<Rightarrow> stack \<Rightarrow> nat list" where
  "nv_matches dir sel s =
     filter (\<lambda>i. nv_dir (nv_entry s i) = dir \<and> selector_of (nv_entry s i) = sel) [0..<nv_count s]"

text \<open>
  Index \<open>254\<close> is one behind the address table, where the variables' configuration starts; the
  entry is read from the image there.
\<close>

definition addr_entry :: "node \<Rightarrow> nat \<Rightarrow> IzotAddress" where
  "addr_entry n i = address_of (bytes_from (eep_image n) (off_addrTable + sizeof_IzotAddress * i) sizeof_IzotAddress)"

definition addr_in_use :: "node \<Rightarrow> IzotDatapointConfig \<Rightarrow> bool" where
  "addr_in_use n c \<longleftrightarrow>
     addr_index c \<noteq> 0xFF \<and>
     (adTypeSize (addr_entry n (addr_index c)) \<noteq> 0 \<or> adDomainMember (addr_entry n (addr_index c)) = 1)"

definition IsNVBound :: "node \<Rightarrow> int \<Rightarrow> bool" where
  "IsNVBound n i \<longleftrightarrow>
     0 \<le> i \<and> i < int (nvTableSize (stk n)) \<and>
     (addr_in_use n (nv_entry (stk n) (nat i)) \<or>
      list_ex (\<lambda>k. GetPrimaryIndex (stk n) (int (k + nvTableSize (stk n))) = i \<and>
                   addr_in_use n (aliasConfig (nvAliasTable (stk n) ! k))) [0..<NV_ALIAS_TABLE_SIZE])"

text \<open>The dimension and the base of an array; a simple variable is its own base.\<close>

definition IsArrayNV :: "int \<Rightarrow> app \<Rightarrow> bool \<times> nat \<times> int" where
  "IsArrayNV i a =
     (if i < 0 \<or> i \<ge> int (nvTableSize (app_stk a)) then (False, 1, i)
      else
        (case find (\<lambda>(b, dim). b \<le> i \<and> i < b + int dim) (nvArrayTbl a) of
           Some (b, dim) \<Rightarrow> (True, dim, b)
         | None \<Rightarrow> (False, 1, i)))"

abbreviation base_index :: "int \<Rightarrow> app \<Rightarrow> int" where
  "base_index i a \<equiv> snd (snd (IsArrayNV i a))"

text \<open>
  The handler is told of success by a flag, and the callers pass a status, which is 0 for
  success.
\<close>

definition IzotDatapointUpdateCompleted :: "int \<Rightarrow> LonStatusCode \<Rightarrow> app \<Rightarrow> app" where
  "IzotDatapointUpdateCompleted i st a =
     a\<lparr>completions := completions a @ [DatapointUpdateCompleted i (st \<noteq> LonStatusNoError)]\<rparr>"

definition report_completed :: "int \<Rightarrow> LonStatusCode \<Rightarrow> app \<Rightarrow> app" where
  "report_completed i st a =
     IzotDatapointUpdateCompleted (base_index i a) st (a\<lparr>nvArrayIndex := i - base_index i a\<rparr>)"

section \<open>Values\<close>

definition nv_length :: "node \<Rightarrow> int \<Rightarrow> nat" where
  "nv_length n i = unat (nvLength (nvFixedTable n ! nat i))"

definition nv_value :: "node \<Rightarrow> int \<Rightarrow> bytes" where
  "nv_value n i = nvValue (nvFixedTable n ! nat i)"

definition set_value :: "int \<Rightarrow> bytes \<Rightarrow> node \<Rightarrow> node" where
  "set_value i b n =
     (let nv = nvFixedTable n ! nat i
      in if length b \<le> length (nvValue nv)
         then n\<lparr>nvFixedTable := (nvFixedTable n)[nat i := nv\<lparr>nvValue := copy_into (nvValue nv) 0 b\<rparr>]\<rparr>
         else node_fault n)"

section \<open>Updates and polls that come in\<close>

abbreviation apdu_selector :: "APPReceiveParam \<Rightarrow> u16" where
  "apdu_selector r \<equiv> push_bit 8 (ucast (apdu_code r AND 0x3F)) OR ucast (apdu_data r 0)"

abbreviation apdu_dir :: "APPReceiveParam \<Rightarrow> u8" where
  "apdu_dir r \<equiv> get_attribute 0x40 6 (apdu_code r)"

text \<open>
  The first match, unless a later one has the same primary: \<open>None\<close>, where the message is
  ignored.
\<close>

definition poll_match :: "u8 \<Rightarrow> u16 \<Rightarrow> stack \<Rightarrow> nat option option" where
  "poll_match dir sel s =
     (if AppPgmRuns s then
        (case nv_matches dir sel s of
           [] \<Rightarrow> Some None
         | m # ms \<Rightarrow>
             if list_ex (\<lambda>i. GetPrimaryIndex s (int m) = GetPrimaryIndex s (int i)) ms then None
             else Some (Some m))
      else Some None)"

text \<open>The value that answers a poll; \<open>Inl\<close> is an access outside of the tables or buffers.\<close>

definition poll_value :: "APPReceiveParam \<Rightarrow> nat option \<Rightarrow> node \<Rightarrow> unit + bytes" where
  "poll_value r m n =
     (case m of
        None \<Rightarrow> Inr []
      | Some i \<Rightarrow>
          (let p = GetPrimaryIndex (stk n) (int i)
           in if \<not> aprAuth r \<and> nv_authenticated (nv_entry (stk n) i) then Inr []
              else if p < 0 then Inl ()
              else if nv_length n p + 2 > tsaRespBufSize (stk n) then Inr []
              else
                (case IzotPrepareNetworkData (dpProp n ! nat p) (nv_length n p) (nv_value n p) of
                   None \<Rightarrow> Inl ()
                 | Some ndi \<Rightarrow> Inr ndi)))"

definition ProcessNVPoll :: "APPReceiveParam \<Rightarrow> app \<Rightarrow> app" where
  "ProcessNVPoll r a =
     (let ignore = drop_appIn (on_node (\<lambda>n. snd (SendNullResponse (aprReqId r) n)) a)
      in if aprPduSize r \<noteq> 2 then drop_appIn (app_log LonStatusDatapointMsgTooShort a)
         else if QueueFull (tsaRespQ (app_stk a)) then a
         else if NodeUnConfigured (app_stk a) then ignore
         else
           (case poll_match (apdu_dir r) (apdu_selector r) (app_stk a) of
              None \<Rightarrow> ignore
            | Some m \<Rightarrow>
                (case poll_value r m (nd a) of
                   Inl _ \<Rightarrow> drop_appIn (on_node node_fault a)
                 | Inr dat \<Rightarrow>
                     drop_appIn (on_node (update_respQ (QueueEmit (response (aprReqId r) False False
                       ((0x80 OR push_bit 6 (1 - apdu_dir r) OR (apdu_code r AND 0x3F)) #
                        apdu_data r 0 # dat)))) a))))"

text \<open>
  A received value in the form of the host. The conversion writes into a buffer of
  \<open>MAX_NV_LENGTH\<close> bytes, and its result is copied over the message.
\<close>

definition host_value :: "APPReceiveParam \<Rightarrow> int \<Rightarrow> node \<Rightarrow> unit + bytes" where
  "host_value r p n =
     (case ibolSeq (dpProp n ! nat p) of
        None \<Rightarrow> Inr (apdu_bytes r 1 (aprPduSize r - 2))
      | Some ibol \<Rightarrow>
          (let b = IzotNdiToHdi (drop 2 (aprApdu r)) ibol
           in if length b > MAX_NV_LENGTH \<or> length b + 2 > appInBufSize (stk n) then Inl () else Inr b))"

definition notify_base :: "APPReceiveParam \<Rightarrow> int \<Rightarrow> app \<Rightarrow> app" where
  "notify_base r p a =
     (if AppPgmRuns (app_stk a)
      then on_node (notify_update r (nat (base_index p a))) (a\<lparr>nvArrayIndex := p - base_index p a\<rparr>)
      else a)"

definition update_variable :: "APPReceiveParam \<Rightarrow> int \<Rightarrow> app \<Rightarrow> app" where
  "update_variable r p a =
     (let a = (if aprService r = IzotServiceResponse then a\<lparr>nvInDataStatus := LonStatusNoError\<rparr> else a)
      in case host_value r p (nd a) of
           Inl _ \<Rightarrow> on_node node_fault a
         | Inr b \<Rightarrow> notify_base r p (on_node (set_value p b) a))"

definition ProcessNVUpdate :: "APPReceiveParam \<Rightarrow> app \<Rightarrow> app" where
  "ProcessNVUpdate r a =
     (let drop_msg = (if aprService r = IzotServiceResponse then drop_appCe else drop_appIn); s = app_stk a
      in if aprPduSize r \<le> 2 then drop_msg (app_log LonStatusDatapointMsgTooShort a)
         else if IZOT_READONLY_NODE_STATE (readOnlyData s) = IzotApplicationUnconfig then drop_msg a
         else if apdu_dir r = IzotDatapointDirectionIsOutput then
           drop_msg (app_log LonStatusDatapointUpdateOnOutput a)
         else
           (case nv_matches IzotDatapointDirectionIsInput (apdu_selector r) s of
              [] \<Rightarrow> drop_msg a
            | i # _ \<Rightarrow>
                (let p = GetPrimaryIndex s (int i)
                 in if p < 0 then drop_msg (on_node node_fault a)
                    else if aprPduSize r - 2 \<noteq> nv_length (nd a) p then
                      drop_msg (app_log LonStatusDatapointLengthMismatch a)
                    else if \<not> aprAuth r \<and> nv_authenticated (nv_entry s (nat p)) then
                      app_log LonStatusAuthenticationMismatch (drop_msg a)
                    else drop_msg (update_variable r p a))))"

definition ProcessNV :: "APPReceiveParam \<Rightarrow> app \<Rightarrow> app" where
  "ProcessNV r a = (if aprService r = IzotServiceRequest then ProcessNVPoll r a else ProcessNVUpdate r a)"

section \<open>Scheduling\<close>

definition PropagateThisIndex :: "int \<Rightarrow> app \<Rightarrow> LonStatusCode \<times> app" where
  "PropagateThisIndex i a =
     (if nv_dir (nv_entry (app_stk a) (nat i)) \<noteq> IzotDatapointDirectionIsOutput then
        (LonStatusInvalidParameter, a)
      else if QueueFull (nvOutIndexQ a) then (LonStatusNoBufferAvailable, a)
      else (LonStatusNoError, a\<lparr>nvOutIndexQ := QueuePut i (nvOutIndexQ a)\<rparr>))"

definition PollThisIndex :: "int \<Rightarrow> app \<Rightarrow> LonStatusCode \<times> app" where
  "PollThisIndex i a =
     (if nv_dir (nv_entry (app_stk a) (nat i)) \<noteq> IzotDatapointDirectionIsInput then
        (LonStatusInvalidParameter, a)
      else if QueueFull (nvInIndexQ a) then (LonStatusNoBufferAvailable, a)
      else (LonStatusNoError, a\<lparr>nvInIndexQ := QueuePut i (nvInIndexQ a)\<rparr>))"

text \<open>
  The primary and its aliases, as long as the queue has room for one more besides the end
  mark; the state is the number of scheduled indices, the room that is left, and the layer.
\<close>

definition schedule_one ::
    "(int \<Rightarrow> app \<Rightarrow> LonStatusCode \<times> app) \<Rightarrow> int \<Rightarrow> nat \<times> nat \<times> app \<Rightarrow> nat \<times> nat \<times> app" where
  "schedule_one this i = (\<lambda>(count, space, a).
     if space > 1 then
       (case this i a of
          (st, a) \<Rightarrow> if st = LonStatusNoError then (count + 1, space - 1, a) else (count, space, a))
     else (count, space, a))"

definition aliases_of :: "int \<Rightarrow> stack \<Rightarrow> int list" where
  "aliases_of i s =
     filter (\<lambda>j. GetPrimaryIndex s j = i) (map int [nvTableSize s..<nv_count s])"

definition schedule_all ::
    "(int \<Rightarrow> app \<Rightarrow> LonStatusCode \<times> app) \<Rightarrow> int \<Rightarrow> nat \<Rightarrow> app \<Rightarrow> nat \<times> app" where
  "schedule_all this i space a =
     (case fold (schedule_one this) (i # aliases_of i (app_stk a)) (0, space, a) of
        (count, _, a) \<Rightarrow> (count, a))"

definition PropagateThisPrimary :: "int \<Rightarrow> app \<Rightarrow> app" where
  "PropagateThisPrimary i a =
     (let space = QueueCapacity (nvOutIndexQ a) - QueueEntries (nvOutIndexQ a)
      in if IsNVBound (nd a) i then
           (case schedule_all PropagateThisIndex i space a of
              (count, a) \<Rightarrow>
                if count = 0 then report_completed i LonStatusOutputDpPropagateFailure a
                else a\<lparr>nvOutIndexQ := QueuePut (-1) (nvOutIndexQ a)\<rparr>)
         else report_completed i LonStatusNoError a)"

definition PollThisPrimary :: "int \<Rightarrow> app \<Rightarrow> app" where
  "PollThisPrimary i a =
     (let space = QueueCapacity (nvInIndexQ a) - QueueEntries (nvInIndexQ a)
      in if IsNVBound (nd a) i then
           (case schedule_all PollThisIndex i space a of
              (count, a) \<Rightarrow>
                if count = 0 then report_completed i LonStatusReadFailed a
                else a\<lparr>nvInIndexQ := QueuePut (-1) (nvInIndexQ a)\<rparr>)
         else report_completed i LonStatusNoError a)"

definition all_primaries :: "app \<Rightarrow> int list" where
  "all_primaries a = map int [0..<nvTableSize (app_stk a)]"

definition Propagate :: "app \<Rightarrow> app" where
  "Propagate a = fold PropagateThisPrimary (all_primaries a) a"

definition Poll :: "app \<Rightarrow> app" where
  "Poll a = fold PollThisPrimary (all_primaries a) a"

text \<open>The elements that an index stands for: the whole array for its first, else itself.\<close>

definition elements_of :: "int \<Rightarrow> app \<Rightarrow> int list" where
  "elements_of i a =
     (case IsArrayNV i a of
        (_, dim, base) \<Rightarrow> map (\<lambda>k. i + int k) [0..<(if i = base then dim else 1)])"

definition PropagateNV :: "int \<Rightarrow> app \<Rightarrow> app" where
  "PropagateNV i a =
     (if i < 0 \<or> i \<ge> int (nvTableSize (app_stk a)) then a
      else fold PropagateThisPrimary (elements_of i a) a)"

definition PollNV :: "int \<Rightarrow> app \<Rightarrow> app" where
  "PollNV i a =
     (if i < 0 \<or> i \<ge> int (nvTableSize (app_stk a)) then a
      else fold PollThisPrimary (elements_of i a) a)"

definition element :: "int \<Rightarrow> int \<Rightarrow> app \<Rightarrow> int option" where
  "element i k a =
     (case IsArrayNV i a of
        (is_array, dim, base) \<Rightarrow>
          (let k = (if \<not> is_array \<or> base \<noteq> i then 0 else k)
           in if k < 0 \<or> k \<ge> int dim then None else Some (i + k)))"

definition PropagateArrayNV :: "int \<Rightarrow> int \<Rightarrow> app \<Rightarrow> app" where
  "PropagateArrayNV i k a =
     (if i < 0 \<or> i \<ge> int (nvTableSize (app_stk a)) then a
      else (case element i k a of None \<Rightarrow> a | Some j \<Rightarrow> PropagateThisPrimary j a))"

definition PollArrayNV :: "int \<Rightarrow> int \<Rightarrow> app \<Rightarrow> app" where
  "PollArrayNV i k a =
     (if i < 0 \<or> i \<ge> int (nvTableSize (app_stk a)) then a
      else (case element i k a of None \<Rightarrow> a | Some j \<Rightarrow> PollThisPrimary j a))"

end
