(* ===== verification/Lcs_App_Layer.thy ===== *)
theory Lcs_App_Layer
  imports Lcs_App_Nv
begin

text \<open>
  The sending of scheduled network variables, the completion events, the reset, and the entry
  points of the application layer in \<^verbatim>\<open>lcs/lcs_app.c\<close> that the scheduler calls.
\<close>

section \<open>Sending scheduled variables\<close>

definition NV_UPDATE_LAST_TAG_VALUE :: u16 where "NV_UPDATE_LAST_TAG_VALUE = 0xE000"
definition NV_POLL_LAST_TAG_VALUE :: u16 where "NV_POLL_LAST_TAG_VALUE = 0xA000"
definition MANUAL_SERVICE_REQ_TAG_VALUE :: u16 where "MANUAL_SERVICE_REQ_TAG_VALUE = 0xFFFF"

definition NV_POLL_TAG :: "u16 \<Rightarrow> bool" where "NV_POLL_TAG tag \<longleftrightarrow> tag AND 0xC000 = 0x8000"
definition NV_INDEX_OF_TAG :: "u16 \<Rightarrow> int" where "NV_INDEX_OF_TAG tag = uint (tag AND 0x1FFF)"
definition GET_NV_UPDATE_TAG :: "int \<Rightarrow> u16" where "GET_NV_UPDATE_TAG i = 0xC000 OR word_of_int i"
definition GET_NV_POLL_TAG :: "int \<Rightarrow> u16" where "GET_NV_POLL_TAG i = 0x8000 OR word_of_int i"

definition TURNAROUND_FORMAT :: u8 where "TURNAROUND_FORMAT = 4"

text \<open>
  An update that stays within the node: the value is copied and the application is told,
  with the format of a turnaround and no source.
\<close>

definition turnaround_address :: "IzotReceiveAddress \<Rightarrow> IzotReceiveAddress" where
  "turnaround_address old =
     old\<lparr>raDomainFormat := set_attribute 0x80 7 0 (set_attribute 0x3F 0 TURNAROUND_FORMAT (raDomainFormat old)),
         raSource := \<lparr>snSubnet = 0, snNode = 0\<rparr>\<rparr>"

definition turnaround_event :: "int \<Rightarrow> app \<Rightarrow> app" where
  "turnaround_event p a =
     (if AppPgmRuns (app_stk a) then
        (let base = base_index p a
         in on_node (\<lambda>n. let ra = turnaround_address (nvInAddr n)
                          in n\<lparr>nvInAddr := ra,
                               events := events n @ [DatapointUpdateEvent (nat base) (raDomainFormat ra)
                                                       (raSource ra) (raDestination ra)]\<rparr>)
              (a\<lparr>nvArrayIndex := p - base\<rparr>))
      else a)"

definition copy_value :: "int \<Rightarrow> int \<Rightarrow> node \<Rightarrow> node" where
  "copy_value p_from p_to n = set_value p_to (bytes_from (nv_value n p_from) 0 (nv_length n p_from)) n"

definition turnaround_update :: "int \<Rightarrow> IzotDatapointConfig \<Rightarrow> app \<Rightarrow> app" where
  "turnaround_update p c a =
     (case nv_matches IzotDatapointDirectionIsInput (selector_of c) (app_stk a) of
        [] \<Rightarrow> a
      | i # _ \<Rightarrow>
          (let pin = GetPrimaryIndex (app_stk a) (int i)
           in if pin < 0 then on_node node_fault a
              else if nv_length (nd a) p \<noteq> nv_length (nd a) pin then a
              else turnaround_event pin (on_node (copy_value p pin) a)))"

definition bound_addr :: "IzotAddress \<Rightarrow> IzotSendAddress \<Rightarrow> IzotSendAddress" where
  "bound_addr ad old =
     old\<lparr>saTypeSize := adTypeSize ad, saDomain := adDomainMember ad, saRepeatRetry := adRepeatRetry ad,
         saTransmit := adReceiveTransmit ad, saSubnetGroup := adGroup ad\<rparr>"

definition end_message :: "u16 \<Rightarrow> TSASendParam \<Rightarrow> TSASendParam" where
  "end_message tag p =
     p\<lparr>tssAltPathOverride := False, tssApduSize := 0, tssTag := tag, tssService := IzotServiceAcknowledged\<rparr>"

definition nv_message ::
    "bool \<Rightarrow> IzotServiceType \<Rightarrow> u16 \<Rightarrow> IzotAddress \<Rightarrow> IzotDatapointConfig \<Rightarrow> bytes \<Rightarrow> TSASendParam \<Rightarrow> TSASendParam" where
  "nv_message pri service tag ad c apdu p =
     p\<lparr>tssAltPathOverride := False, tssDmn := (tssDmn p)\<lparr>domainIndex := COMPUTE_DOMAIN_INDEX\<rparr>,
       tssDestAddr := bound_addr ad (tssDestAddr p), tssService := service,
       tssAuth := nv_authenticated c, tssTag := tag, tssApduSize := length apdu, tssPriority := pri,
       tssApdu := apdu\<rparr>"

definition turnAroundOnly :: "node \<Rightarrow> IzotDatapointConfig \<Rightarrow> bool" where
  "turnAroundOnly n c \<longleftrightarrow> addr_index c = 0xFF \<or> adTypeSize (addr_entry n (addr_index c)) = 0"

definition nv_buf_size :: "bool \<Rightarrow> IzotServiceType \<Rightarrow> stack \<Rightarrow> nat" where
  "nv_buf_size pri service s =
     (if service = IzotServiceUnacknowledged then (if pri then nwOutPriBufSize s else nwOutBufSize s)
      else (if pri then tsaOutPriBufSize s else tsaOutBufSize s))"

text \<open>
  The message for an index. Before it is built the index has been dropped and scheduling has
  been stopped; a variable too large for the buffers ends there.
\<close>

definition send_update :: "int \<Rightarrow> IzotDatapointConfig \<Rightarrow> app \<Rightarrow> app" where
  "send_update p c a =
     (let s = app_stk a; pri = nv_priority c; service = nv_service c; len = nv_length (nd a) p;
          tag = GET_NV_UPDATE_TAG p; ad = addr_entry (nd a) (addr_index c)
      in if 2 + len > nv_buf_size pri service s then a
         else if AccessAddress s (addr_index c) = None then on_node node_fault a
         else
           (case IzotPrepareNetworkData (dpProp (nd a) ! nat p) len (nv_value (nd a) p) of
              None \<Rightarrow> on_node node_fault a
            | Some ndi \<Rightarrow>
                if service \<noteq> IzotServiceUnacknowledged then
                  on_stk (\<lambda>s. set_tsaQ pri (QueueEmit (nv_message pri service tag ad c
                    ((0x80 OR nv_selhigh c) # dpSelectorLow c # ndi)) (tsaQ pri s)) s) a
                else
                  on_node (\<lambda>n. snd (AllocSendUnackd pri tag (implicit_addr (addr_index c) n)
                    (0x80 OR nv_selhigh c) (dpSelectorLow c # ndi) n)) a))"

definition send_blocked :: "IzotDatapointConfig \<Rightarrow> stack \<Rightarrow> bool" where
  "send_blocked c s \<longleftrightarrow>
     (if nv_service c = IzotServiceUnacknowledged then QueueFull (nwQ (nv_priority c) s)
      else QueueFull (tsaQ (nv_priority c) s))"

definition drop_nvOut :: "app \<Rightarrow> app" where
  "drop_nvOut a = a\<lparr>nvOutIndexQ := QueueDropHead (nvOutIndexQ a)\<rparr>"

definition drop_nvIn :: "app \<Rightarrow> app" where
  "drop_nvIn a = a\<lparr>nvInIndexQ := QueueDropHead (nvInIndexQ a)\<rparr>"

definition send_end :: "app \<Rightarrow> app" where
  "send_end a =
     (if QueueFull (tsaOutQ (app_stk a)) then a
      else drop_nvOut ((on_stk (\<lambda>s. s\<lparr>tsaOutQ := QueueEmit (\<lambda>p.
             (end_message NV_UPDATE_LAST_TAG_VALUE p)\<lparr>tssPriority := False\<rparr>) (tsaOutQ s)\<rparr>) a)
               \<lparr>nvOutCanSchedule := False\<rparr>))"

definition send_index :: "int \<Rightarrow> app \<Rightarrow> app" where
  "send_index i a =
     (let c = nv_entry (app_stk a) (nat i); p = GetPrimaryIndex (app_stk a) i; local = turnAroundOnly (nd a) c
      in if p < 0 then on_node node_fault a
         else if \<not> local \<and> send_blocked c (app_stk a) then a
         else
           (let a = (if nv_turnaround c then turnaround_update p c a else a)
            in if local then drop_nvOut (a\<lparr>nvOutIndex := p\<rparr>)
               else send_update p c (drop_nvOut (a\<lparr>nvOutCanSchedule := False\<rparr>))))"

definition SendVar :: "app \<Rightarrow> app" where
  "SendVar a =
     (if \<not> nvOutCanSchedule a \<or> QueueEmpty (nvOutIndexQ a) then a
      else
        (case QueueHead (nvOutIndexQ a) of
           None \<Rightarrow> on_node node_fault a
         | Some i \<Rightarrow>
             if IZOT_READONLY_NODE_STATE (readOnlyData (app_stk a)) = IzotApplicationUnconfig then a
             else if i = -1 then send_end a else send_index i a))"

text \<open>The end of a poll does not set the priority of its message.\<close>

definition poll_end :: "app \<Rightarrow> app" where
  "poll_end a =
     (if QueueFull (tsaOutQ (app_stk a)) then a
      else drop_nvIn ((on_stk (\<lambda>s. s\<lparr>tsaOutQ :=
             QueueEmit (end_message NV_POLL_LAST_TAG_VALUE) (tsaOutQ s)\<rparr>) a)\<lparr>nvInCanSchedule := False\<rparr>))"

definition turnaround_poll :: "int \<Rightarrow> IzotDatapointConfig \<Rightarrow> app \<Rightarrow> app" where
  "turnaround_poll p c a =
     (case nv_matches IzotDatapointDirectionIsOutput (selector_of c) (app_stk a) of
        [] \<Rightarrow> a
      | i # _ \<Rightarrow>
          (let pout = GetPrimaryIndex (app_stk a) (int i)
           in if pout < 0 then on_node node_fault a
              else if nv_length (nd a) p \<noteq> nv_length (nd a) pout then a
              else turnaround_event p (on_node (copy_value pout p) a)))"

definition send_poll :: "int \<Rightarrow> IzotDatapointConfig \<Rightarrow> app \<Rightarrow> app" where
  "send_poll p c a =
     (let pri = nv_priority c; ad = addr_entry (nd a) (addr_index c)
      in if AccessAddress (app_stk a) (addr_index c) = None then on_node node_fault a
         else
           on_stk (\<lambda>s. set_tsaQ pri (QueueEmit (nv_message pri IzotServiceRequest (GET_NV_POLL_TAG p) ad c
             [0xC0 OR nv_selhigh c, dpSelectorLow c]) (tsaQ pri s)) s) a)"

definition poll_index :: "int \<Rightarrow> app \<Rightarrow> app" where
  "poll_index i a =
     (let c = nv_entry (app_stk a) (nat i); p = GetPrimaryIndex (app_stk a) i; local = turnAroundOnly (nd a) c;
          found = nv_matches IzotDatapointDirectionIsOutput (selector_of c) (app_stk a) \<noteq> []
      in if p < 0 then on_node node_fault a
         else if \<not> local \<and> QueueFull (tsaQ (nv_priority c) (app_stk a)) then a
         else
           (let a = (if nv_turnaround c then turnaround_poll p c a else a)
            in if local then
                 drop_nvIn (a\<lparr>nvInIndex := p,
                   nvInDataStatus := (if nv_turnaround c \<and> found then LonStatusNoError else nvInDataStatus a)\<rparr>)
               else send_poll p c (drop_nvIn (a\<lparr>nvInCanSchedule := False\<rparr>))))"

definition PollVar :: "app \<Rightarrow> app" where
  "PollVar a =
     (if \<not> nvInCanSchedule a \<or> QueueEmpty (nvInIndexQ a) then a
      else
        (case QueueHead (nvInIndexQ a) of
           None \<Rightarrow> on_node node_fault a
         | Some i \<Rightarrow>
             if IZOT_READONLY_NODE_STATE (readOnlyData (app_stk a)) = IzotApplicationUnconfig then a
             else if i = -1 then poll_end a else poll_index i a))"

definition AppLayerSend :: "app \<Rightarrow> app" where
  "AppLayerSend a =
     (let a = (if manualServiceRequest (nd a)
               then on_node (\<lambda>n. (snd (ManualServiceRequestMessage n))\<lparr>manualServiceRequest := False\<rparr>) a else a);
          a = (if callMsgFree a then MsgFree a else a);
          a = (if callRespFree a then RespFree a else a)
      in send_queued False (PollVar (SendVar (send_queued True a))))"

section \<open>Completion events\<close>

definition update_completed :: "u16 \<Rightarrow> bool \<Rightarrow> app \<Rightarrow> app" where
  "update_completed tag success a =
     (let a = (if NV_LAST_TAG tag then
                 (let p = nvOutIndex a; base = base_index p a; st = nvOutStatus a;
                      a = a\<lparr>nvArrayIndex := p - base, nvOutStatus := LonStatusNoError\<rparr>
                  in if AppPgmRuns (app_stk a) then IzotDatapointUpdateCompleted base st a else a)
               else a\<lparr>nvOutIndex := NV_INDEX_OF_TAG tag,
                      nvOutStatus := (if success then nvOutStatus a else LonStatusInvalidOperation)\<rparr>)
      in a\<lparr>nvOutCanSchedule := True\<rparr>)"

definition poll_completed :: "u16 \<Rightarrow> bool \<Rightarrow> app \<Rightarrow> app" where
  "poll_completed tag success a =
     (let a = (if NV_LAST_TAG tag then
                 (let p = nvInIndex a; base = base_index p a;
                      st = (if nvInDataStatus a = LonStatusNoError \<and> nvInTranStatus a = LonStatusNoError
                            then LonStatusNoError else LonStatusIncompleteMsg);
                      a = a\<lparr>nvArrayIndex := p - base, nvInDataStatus := LonStatusIncompleteMsg,
                            nvInTranStatus := LonStatusNoError\<rparr>
                  in if AppPgmRuns (app_stk a) then IzotDatapointUpdateCompleted base st a else a)
               else a\<lparr>nvInIndex := NV_INDEX_OF_TAG tag,
                      nvInTranStatus := (if success then nvInTranStatus a else LonStatusTransactionFailure)\<rparr>)
      in a\<lparr>nvInCanSchedule := True\<rparr>)"

definition HandleMsgCompletion :: "APPReceiveParam \<Rightarrow> app \<Rightarrow> app" where
  "HandleMsgCompletion r a =
     drop_appCe
       (if aprTag r <s 0 then
          (if aprTag r = MANUAL_SERVICE_REQ_TAG_VALUE then a
           else if NV_POLL_TAG (aprTag r) then poll_completed (aprTag r) (aprSuccess r) a
           else update_completed (aprTag r) (aprSuccess r) a)
        else MsgCompletes (if aprSuccess r then LonStatusNoError else LonStatusInvalidOperation) (aprTag r) a)"

section \<open>Receiving\<close>

abbreviation nvFlag :: "APPReceiveParam \<Rightarrow> bool" where
  "nvFlag r \<equiv> drop_bit 7 (apdu_code r) = 1"

definition APPRspReceive :: "app \<Rightarrow> app" where
  "APPRspReceive a =
     (if QueueEmpty (appCeRspInQ (app_stk a)) then a
      else
        (case QueueHead (appCeRspInQ (app_stk a)) of
           None \<Rightarrow> on_node node_fault a
         | Some r \<Rightarrow>
             if aprIndication r = COMPLETION then HandleMsgCompletion r a
             else if aprProxy r then on_node (HandleProxyResponse r) a
             else if 0 \<le>s aprTag r then HandleResponse r a
             else if nvFlag r then ProcessNV r a
             else app_log LonStatusDataIntegrityError (drop_appCe a)))"

text \<open>The first two bits, the first four and the first one of the code select the handler in this order.\<close>

definition APPMsgReceive :: "platform \<Rightarrow> app \<Rightarrow> app" where
  "APPMsgReceive P a =
     (if QueueEmpty (appInQ (app_stk a)) then a
      else
        (case QueueHead (appInQ (app_stk a)) of
           None \<Rightarrow> on_node node_fault a
         | Some r \<Rightarrow>
             if aprService r = IzotServiceRequest \<and> QueueFull (tsaRespQ (app_stk a)) then
               app_log LonStatusNoBufferAvailable a
             else if drop_bit 5 (apdu_code r) = 3 then on_node (HandleNM P r) a
             else if drop_bit 4 (apdu_code r) = 5 then on_node (HandleND P r) a
             else if nvFlag r then ProcessNV r a
             else if drop_bit 6 (apdu_code r) = 0 \<or> drop_bit 4 (apdu_code r) = 4 then HandleNormal r a
             else drop_appIn (app_log LonStatusInvalidMessageCode a)))"

definition AppLayerReceive :: "platform \<Rightarrow> app \<Rightarrow> app" where
  "AppLayerReceive P a = APPMsgReceive P (APPRspReceive a)"

section \<open>The state of the application\<close>

definition GoOffline :: "app \<Rightarrow> app" where
  "GoOffline = on_node (\<lambda>n. on_stack (\<lambda>s. s\<lparr>appPgmMode := OFF_LINE\<rparr>) (n\<lparr>events := events n @ [OfflineEvent]\<rparr>))"

definition GoUnconfigured :: "app \<Rightarrow> app" where
  "GoUnconfigured = on_stk (\<lambda>s.
     let s = (set_node_state IzotApplicationUnconfig s)\<lparr>appPgmMode := OFF_LINE\<rparr>;
         k = (if IZOT_READONLY_TWO_DOMAINS (readOnlyData s) \<noteq> 0 then 2 else 1);
         blank = left_domain\<lparr>domNodeClone := set_attribute 0x7F 0 0 (set_attribute 0x80 7 0 0xFF)\<rparr>
     in s\<lparr>domainTable := replicate k blank @ drop k (domainTable s)\<rparr>)"

text \<open>The application runs over the interface; \<open>DoApp\<close> takes at most one message and one response.\<close>

definition DoApp :: "bool \<Rightarrow> app \<Rightarrow> app" where
  "DoApp isOnline a =
     (if isOnline then
        (let a = (if msgReceive a then MsgFree a else a)
         in if respReceive a then RespFree a else a)
      else a)"

section \<open>Reset\<close>

record app_memory =
  memAppIn :: "APPReceiveParam list option"
  memAppCeRsp :: "APPReceiveParam list option"
  memAppOut :: "APPSendParam list option"
  memAppOutPri :: "APPSendParam list option"
  memNvOut :: "int list option"
  memNvIn :: "int list option"

definition MAX_NV_OUT :: nat where "MAX_NV_OUT = 5"
definition MAX_NV_IN :: nat where "MAX_NV_IN = 50"

type_synonym app_result = "(LonStatusCode \<times> app) + app"

definition app_fail :: "LonStatusCode \<Rightarrow> LonStatusCode \<Rightarrow> app \<Rightarrow> app_result" where
  "app_fail logged st a = Inl (st, on_stk (\<lambda>s. s\<lparr>resetOk := False\<rparr>) (app_log logged a))"

definition app_decode :: "LonStatusCode + nat \<Rightarrow> (nat \<Rightarrow> app_result) \<Rightarrow> app \<Rightarrow> app_result" where
  "app_decode d f a = (case d of Inl e \<Rightarrow> app_fail e e a | Inr n \<Rightarrow> f n)"

definition app_queue :: "LonStatusCode \<times> 'a Queue \<Rightarrow> ('a Queue \<Rightarrow> app) \<Rightarrow> app_result" where
  "app_queue r store =
     (if fst r = LonStatusNoError then Inr (store (snd r)) else app_fail (fst r) (fst r) (store (snd r)))"

text \<open>Both input queues are created in one condition, whose error is logged by another code.\<close>

definition app_reset_in :: "nat \<Rightarrow> app_memory \<Rightarrow> app \<Rightarrow> app_result" where
  "app_reset_in sizeofIn mem a =
     app_decode (DecodeBufferSize (get_attribute 0x0F 0 (roAppBufSize (readOnlyData (app_stk a))))) (\<lambda>sz.
       let a = on_stk (\<lambda>s. s\<lparr>appInBufSize := sz\<rparr>) a
       in app_decode (DecodeBufferCnt (IZOT_READONLY_INBUF_CNT (readOnlyData (app_stk a)))) (\<lambda>cnt.
            let (st1, q1) = QueueInit (appInQ (app_stk a)) (Some ''application layer input'') (sz + sizeofIn) cnt
                              (memAppIn mem);
                a = on_stk (\<lambda>s. s\<lparr>appInQ := q1\<rparr>) a
            in if st1 \<noteq> LonStatusNoError then app_fail LonStatusStackInitializationFailure st1 a
               else
                 (let (st2, q2) = QueueInit (appCeRspInQ (app_stk a)) (Some ''application layer CE response input'')
                                    (sz + sizeofIn) cnt (memAppCeRsp mem);
                      a = on_stk (\<lambda>s. s\<lparr>appCeRspInQ := q2\<rparr>) a
                  in if st2 \<noteq> LonStatusNoError then app_fail LonStatusStackInitializationFailure st2 a
                     else Inr a)) a) a"

definition app_reset_out :: "nat \<Rightarrow> app_memory \<Rightarrow> app \<Rightarrow> app_result" where
  "app_reset_out sizeofOut mem a =
     app_decode (DecodeBufferSize (get_attribute 0xF0 4 (roAppBufSize (readOnlyData (app_stk a))))) (\<lambda>sz.
       let a = a\<lparr>appOutBufSize := sz + 1\<rparr>
       in app_decode (DecodeBufferCnt (IZOT_READONLY_OUTBUF_CNT (readOnlyData (app_stk a)))) (\<lambda>cnt.
            app_queue (QueueInit (appOutQ a) (Some ''application layer output'') (appOutBufSize a + sizeofOut) cnt
                (memAppOut mem)) (\<lambda>q. a\<lparr>appOutQ := q\<rparr>)) a) a"

definition app_reset_out_pri :: "nat \<Rightarrow> app_memory \<Rightarrow> app \<Rightarrow> app_result" where
  "app_reset_out_pri sizeofOut mem a =
     (let a = a\<lparr>appOutPriBufSize := appOutBufSize a\<rparr>
      in app_decode (DecodeBufferCnt (IZOT_READONLY_OUT_PRICNT (readOnlyData (app_stk a)))) (\<lambda>cnt.
           app_queue (QueueInit (appOutPriQ a) (Some ''application layer priority output'')
             (appOutPriBufSize a + sizeofOut) cnt (memAppOutPri mem)) (\<lambda>q. a\<lparr>appOutPriQ := q\<rparr>)) a)"

definition app_reset_nv :: "app_memory \<Rightarrow> app \<Rightarrow> app_result" where
  "app_reset_nv mem a =
     and_then (app_queue (QueueInit (nvOutIndexQ a) (Some ''application layer NV output'') (2 + MAX_NV_LENGTH)
         MAX_NV_OUT (memNvOut mem)) (\<lambda>q. a\<lparr>nvOutIndexQ := q\<rparr>)) (\<lambda>a.
     let a = a\<lparr>nvOutStatus := LonStatusNoError, nvOutCanSchedule := True, nvOutIndex := 0\<rparr>
     in and_then (app_queue (QueueInit (nvInIndexQ a) (Some ''application layer NV input'') 2 MAX_NV_IN
            (memNvIn mem)) (\<lambda>q. a\<lparr>nvInIndexQ := q\<rparr>)) (\<lambda>a.
          Inr (a\<lparr>nvInDataStatus := LonStatusInvalidOperation, nvInTranStatus := LonStatusNoError,
                 nvInCanSchedule := True, nvInIndex := 0\<rparr>)))"

definition noMsgIn :: MsgIn where
  "noMsgIn = \<lparr>miCode = 0, miData = [], miAuthenticated = False, miService = IzotServiceAcknowledged, miReqId = 0,
     miDomainFormat = 0, miSource = \<lparr>snSubnet = 0, snNode = 0\<rparr>, miDestination = replicate 7 0\<rparr>"

definition noRespIn :: RespIn where
  "noRespIn = \<lparr>riTag = 0, riCode = 0, riLen = 0, riData = replicate MAX_DATA_SIZE 0, riDomain = 0,
     riSource = \<lparr>snSubnet = 0, snNode = 0\<rparr>, riDestination = replicate 4 0\<rparr>"

definition app_reset_flags :: "app \<Rightarrow> app" where
  "app_reset_flags a =
     on_node (\<lambda>n. n\<lparr>selectQueryFlag := 0,
                     nvInAddr := \<lparr>raDomainFormat = 0, raSource = \<lparr>snSubnet = 0, snNode = 0\<rparr>, raDestination = 0\<rparr>\<rparr>)
       (ReinitRespOut (ReinitMsgOut (a\<lparr>msgReceive := False, respReceive := False, callMsgFree := False,
          callRespFree := False, msgIn := noMsgIn, respIn := noRespIn, nvArrayIndex := 0\<rparr>)))"

definition AppLayerReset :: "nat \<Rightarrow> nat \<Rightarrow> app_memory \<Rightarrow> app \<Rightarrow> LonStatusCode \<times> app" where
  "AppLayerReset sizeofIn sizeofOut mem a =
     (case and_then (app_reset_in sizeofIn mem (on_stk (\<lambda>s. s\<lparr>resetOk := True\<rparr>) a)) (\<lambda>a.
           and_then (app_reset_out sizeofOut mem a) (\<lambda>a.
           and_then (app_reset_out_pri sizeofOut mem a)
             (app_reset_nv mem))) of
        Inl r \<Rightarrow> r
      | Inr a \<Rightarrow> (LonStatusNoError, app_reset_flags a))"

end
