(* ===== verification/Lcs_App_Sample.thy ===== *)
theory Lcs_App_Sample
  imports Lcs_App_Layer Lcs_Nm_Properties
begin

text \<open>
  Concrete application layers, at which the properties of the application layer are evaluated:
  a configured node with one variable of two bytes, bound over the first entry of the address
  table, an input or an output by the first byte of its configuration.
\<close>

lemma addr_entry_table:
  assumes "node_wf n" and "i < NUM_ADDR_TBL_ENTRIES"
  shows "addr_entry n i = addrTable (stk n) ! i"
proof -
  have "addrTable (stk n) = addrTable (stk (eep_store (eep_image n) n))" by (simp add: store_of_image [OF assms(1)])
  also have "\<dots> ! i = addr_entry n i" using assms(2) by (simp add: eep_store_def table_of_def addr_entry_def)
  finally show ?thesis by simp
qed

definition nvNode :: "u8 \<Rightarrow> node" where
  "nvNode dir = sampleNode0
     \<lparr>stk := (stk sampleNode0)
        \<lparr>nvConfigTable := zeroDatapoint\<lparr>dpSelhiDirPrio := dir\<rparr> # replicate 253 zeroDatapoint\<rparr>,
      nvFixedTable := [\<lparr>nvLength = 2, nvValue = [7, 8]\<rparr>]\<rparr>"

definition sampleAps :: APPSendParam where
  "sampleAps = \<lparr>apsTag = 5, apsLen = 300, apsAuthenticated = False, apsService = IzotServiceUnacknowledged,
     apsReqId = 0, apsAddr = sampleSendAddress, apsNullResponse = False, apsApdu = [1]\<rparr>"

definition sampleApp :: "node \<Rightarrow> app" where
  "sampleApp n =
     \<lparr>nd = n, appOutQ = emptyQueue 4 sampleAps, appOutBufSize = 67, appOutPriQ = emptyQueue 4 sampleAps,
      appOutPriBufSize = 67, nvOutIndexQ = emptyQueue 5 0, nvOutStatus = LonStatusNoError,
      nvOutCanSchedule = True, nvOutIndex = 0, nvInIndexQ = emptyQueue 50 0,
      nvInDataStatus = LonStatusInvalidOperation, nvInTranStatus = LonStatusNoError, nvInCanSchedule = True,
      nvInIndex = 0, nvArrayIndex = 0, nvArrayTbl = [], msgReceive = False, respReceive = False,
      callMsgFree = False, callRespFree = False, msgIn = noMsgIn,
      msgOut = \<lparr>moPriorityOn = False, moTag = 5, moLen = 2, moCode = 0x21, moData = [1, 2], moAuthenticated = False,
        moService = IzotServiceAcknowledged, moAddr = sampleSendAddress\<rparr>,
      respIn = noRespIn, respOut = \<lparr>roReqId = 0, roNullResponse = False, roCode = 0, roLen = 0, roData = []\<rparr>,
      nextBindableMsgTag = 0, nextNonbindableMsgTag = 254, completions = []\<rparr>"

definition scheduledApp :: "node \<Rightarrow> int list \<Rightarrow> app" where
  "scheduledApp n is = (sampleApp n)\<lparr>nvOutIndexQ := fold QueuePut is (emptyQueue 5 0),
     nvInIndexQ := fold QueuePut is (emptyQueue 50 0)\<rparr>"

lemma emptyQueue_lists [simp]:
  "queueEntries (emptyQueue k x) = 0" "queueCapacity (emptyQueue k x) = k" "queue_list (emptyQueue k x) = []"
  by (simp_all add: emptyQueue_def queue_list_def)

lemma sampleApp_fields [simp]:
  "nd (sampleApp n) = n" "appOutQ (sampleApp n) = emptyQueue 4 sampleAps" "appOutPriQ (sampleApp n) = emptyQueue 4 sampleAps"
  "appOutBufSize (sampleApp n) = 67" "nvOutIndexQ (sampleApp n) = emptyQueue 5 0" "nvInIndexQ (sampleApp n) = emptyQueue 50 0"
  "nvOutCanSchedule (sampleApp n)" "nvInCanSchedule (sampleApp n)" "nvOutStatus (sampleApp n) = LonStatusNoError"
  "completions (sampleApp n) = []" "nvArrayTbl (sampleApp n) = []"
  by (simp_all add: sampleApp_def)

lemma scheduledApp_fields [simp]:
  "nd (scheduledApp n is) = n" "nvOutIndexQ (scheduledApp n is) = fold QueuePut is (emptyQueue 5 0)"
  "nvInIndexQ (scheduledApp n is) = fold QueuePut is (emptyQueue 50 0)" "nvOutCanSchedule (scheduledApp n is)"
  "nvInCanSchedule (scheduledApp n is)" "nvOutStatus (scheduledApp n is) = LonStatusNoError"
  "completions (scheduledApp n is) = []" "nvArrayTbl (scheduledApp n is) = []"
  by (simp_all add: scheduledApp_def)

lemma nvNode_wf: "node_wf (nvNode dir)"
  using sampleNode0_wf by (simp add: node_wf_def nvNode_def eep_sizes)

lemma nvNode_fields [simp]:
  "nvTableSize (stk (nvNode dir)) = 1" "readOnlyData (stk (nvNode dir)) = readOnlyData sampleStack"
  "addrTable (stk (nvNode dir)) = sampleAddrTable" "AppPgmRuns (stk (nvNode dir))"
  "\<not> NodeUnConfigured (stk (nvNode dir))"
  "tsaOutQ (stk (nvNode dir)) = emptyQueue 4 sampleTss" "tsaOutPriQ (stk (nvNode dir)) = emptyQueue 4 sampleTss"
  "tsaRespQ (stk (nvNode dir)) = emptyQueue 4 sampleTss" "appCeRspInQ (stk (nvNode dir)) = emptyQueue 4 sampleApr"
  "tsaOutBufSize (stk (nvNode dir)) = 259" "tsaOutPriBufSize (stk (nvNode dir)) = 259"
  "tsaRespBufSize (stk (nvNode dir)) = 255" "nwOutBufSize (stk (nvNode dir)) = 255"
  "get_attribute 0x07 0 (0x4C :: u8) \<noteq> IzotApplicationUnconfig"
  by (simp_all add: nvNode_def sampleNode0_def AppPgmRuns_def NodeConfigured_def NodeUnConfigured_def sampleStack_def
      get_attribute_def IzotConfigOnLine_def IzotApplicationUnconfig_def)

lemma nvNode_entry [simp]:
  "nv_entry (stk (nvNode dir)) 0 = zeroDatapoint\<lparr>dpSelhiDirPrio := dir\<rparr>"
  "0 < i \<Longrightarrow> i < nv_count (stk (nvNode dir)) \<Longrightarrow> nv_entry (stk (nvNode dir)) i = zeroDatapoint"
  by (auto simp: nv_entry_def GetNVStructPtr_def nv_count_def nvNode_def sampleNode0_def)

lemma nvNode_primary [simp]:
  "GetPrimaryIndex (stk (nvNode dir)) 0 = 0" "nv_length (nvNode dir) 0 = 2" "nv_value (nvNode dir) 0 = [7, 8]"
  "length (nvFixedTable (nvNode dir)) = 1" "ibolSeq (dpProp (nvNode dir) ! 0) = None"
  "AccessAddress (stk (nvNode dir)) 0 = Some 0" "addr_index (zeroDatapoint\<lparr>dpSelhiDirPrio := dir\<rparr>) = 0"
  "nv_service (zeroDatapoint\<lparr>dpSelhiDirPrio := dir\<rparr>) = IzotServiceAcknowledged"
  by (simp_all add: GetPrimaryIndex_def nv_length_def nv_value_def AccessAddress_def
      addr_index_def nv_service_def get_attribute_def zeroDatapoint_def)
    (simp_all add: nvNode_def sampleNode0_def)

lemma nvNode_bound:
  "\<not> turnAroundOnly (nvNode dir) (zeroDatapoint\<lparr>dpSelhiDirPrio := dir\<rparr>)" "IsNVBound (nvNode dir) 0"
proof -
  have "addr_entry (nvNode dir) 0 = sampleAddrTable ! 0"
    using addr_entry_table [OF nvNode_wf, of 0 dir] by (simp add: eep_sizes)
  then have "adTypeSize (addr_entry (nvNode dir) 0) = 1" by (simp add: sampleAddrTable_def)
  then show "\<not> turnAroundOnly (nvNode dir) (zeroDatapoint\<lparr>dpSelhiDirPrio := dir\<rparr>)" "IsNVBound (nvNode dir) 0"
    by (simp_all add: turnAroundOnly_def IsNVBound_def addr_in_use_def)
qed

lemma nvNode_matches:
  "nv_matches IzotDatapointDirectionIsInput 0 (stk (nvNode 0)) = 0 # tl (nv_matches IzotDatapointDirectionIsInput 0 (stk (nvNode 0)))"
  "nv_matches IzotDatapointDirectionIsOutput 0 (stk (nvNode 0x40)) = [0]"
proof -
  have c: "0 < nv_count (stk (nvNode dir))" for dir by (simp add: nv_count_def)
  have z: "nv_dir zeroDatapoint = 0" "selector_of zeroDatapoint = 0"
    "nv_dir (zeroDatapoint\<lparr>dpSelhiDirPrio := 0x40\<rparr>) = 1" "selector_of (zeroDatapoint\<lparr>dpSelhiDirPrio := 0x40\<rparr>) = 0"
    "nv_dir (zeroDatapoint\<lparr>dpSelhiDirPrio := 0\<rparr>) = 0" "selector_of (zeroDatapoint\<lparr>dpSelhiDirPrio := 0\<rparr>) = 0"
    by (simp_all add: zeroDatapoint_def selector_of_def get_attribute_def)
  show "nv_matches IzotDatapointDirectionIsInput 0 (stk (nvNode 0)) = 0 # tl (nv_matches IzotDatapointDirectionIsInput 0 (stk (nvNode 0)))"
    using c [of 0] z by (simp add: nv_matches_def upt_rec [of 0] IzotDatapointDirectionIsInput_def)
  have "filter (\<lambda>i. nv_dir (nv_entry (stk (nvNode 0x40)) i) = 1 \<and> selector_of (nv_entry (stk (nvNode 0x40)) i) = 0)
      [1..<nv_count (stk (nvNode 0x40))] = []"
    using z by (simp add: filter_empty_conv)
  then show "nv_matches IzotDatapointDirectionIsOutput 0 (stk (nvNode 0x40)) = [0]"
    using c [of "0x40"] z by (simp add: nv_matches_def upt_rec [of 0] IzotDatapointDirectionIsOutput_def)
qed

lemma nvNode_selector [simp]:
  "selector_of (zeroDatapoint\<lparr>dpSelhiDirPrio := 0x40\<rparr>) = 0" "selector_of (zeroDatapoint\<lparr>dpSelhiDirPrio := 0\<rparr>) = 0"
  by (simp_all add: zeroDatapoint_def selector_of_def get_attribute_def)

end
