(* ===== verification/Lcs_App_Properties.thy ===== *)
theory Lcs_App_Properties
  imports Lcs_App_Sample
begin

text \<open>
  What the application layer does with messages and network variables: how they get from the
  application of one node to that of another, how the sending of an update ends, and where
  updates and messages are lost or stop those behind them.
\<close>

section \<open>Fields\<close>

lemma on_node_fields [simp]:
  "nd (on_node f a) = f (nd a)" "nvOutIndexQ (on_node f a) = nvOutIndexQ a"
  "nvOutStatus (on_node f a) = nvOutStatus a" "nvOutCanSchedule (on_node f a) = nvOutCanSchedule a"
  "nvOutIndex (on_node f a) = nvOutIndex a" "nvInIndexQ (on_node f a) = nvInIndexQ a"
  "nvInDataStatus (on_node f a) = nvInDataStatus a" "nvInTranStatus (on_node f a) = nvInTranStatus a"
  "nvInCanSchedule (on_node f a) = nvInCanSchedule a" "nvInIndex (on_node f a) = nvInIndex a"
  "nvArrayTbl (on_node f a) = nvArrayTbl a" "completions (on_node f a) = completions a"
  "appOutQ (on_node f a) = appOutQ a" "appOutPriQ (on_node f a) = appOutPriQ a"
  "appOutBufSize (on_node f a) = appOutBufSize a" "msgReceive (on_node f a) = msgReceive a"
  "msgIn (on_node f a) = msgIn a" "respReceive (on_node f a) = respReceive a"
  "respIn (on_node f a) = respIn a" "msgOut (on_node f a) = msgOut a" "respOut (on_node f a) = respOut a"
  by (simp_all add: on_node_def)

lemma on_stack_stk [simp]: "stk (on_stack f n) = f (stk n)"
  by (simp add: on_stack_def)

lemma appQ_set [simp]: "appQ pri (set_appQ pri' q a) = (if pri = pri' then q else appQ pri a)"
  by (simp add: appQ_def set_appQ_def)

lemma appQ_completed [simp]: "appQ pri (MsgCompletes st tag a) = appQ pri a"
  by (simp add: appQ_def MsgCompletes_def)

section \<open>Messages\<close>

text \<open>
  C24. An unacknowledged message that is too large for the buffers of the network layer stays at
  the head of its queue: every call of \<open>AppLayerSend\<close> completes it once more with an error,
  and no message behind it is ever sent.
\<close>

theorem oversized_message_blocks_its_queue:
  assumes "queue_wf (appQ pri a)" and "queue_list (appQ pri a) = m # ms"
    and "apsService m = IzotServiceUnacknowledged" and "saTypeSize (apsAddr m) \<noteq> 0"
    and "apsLen m + 1 > nwOutBufSize (app_stk a)"
  shows "(send_queued pri ^^ n) a =
    a\<lparr>completions := completions a @ replicate n (MsgCompleted LonStatusInvalidMessageLength (apsTag m))\<rparr>"
proof (induction n)
  case (Suc n)
  let ?b = "a\<lparr>completions := completions a @ replicate n (MsgCompleted LonStatusInvalidMessageLength (apsTag m))\<rparr>"
  have q: "appQ pri ?b = appQ pri a" "app_stk ?b = app_stk a" by (simp_all add: appQ_def)
  have "send_queued pri ?b = MsgCompletes LonStatusInvalidMessageLength (apsTag m) ?b"
    using assms q by (simp add: send_queued_def QueueHead_eq TryMsgSend_def Let_def)
  then show ?case
    using Suc by (simp add: MsgCompletes_def replicate_append_same)
qed simp

theorem oversized_message_blocks_its_queue_witness:
  "completions ((send_queued False ^^ 3) ((sampleApp (nvNode 0))\<lparr>appOutQ := QueuePut sampleAps (emptyQueue 4 sampleAps)\<rparr>)) =
    replicate 3 (MsgCompleted LonStatusInvalidMessageLength 5)"
proof -
  let ?a = "(sampleApp (nvNode 0))\<lparr>appOutQ := QueuePut sampleAps (emptyQueue 4 sampleAps)\<rparr>"
  have "queue_list (appQ False ?a) = [sampleAps]" by (simp add: appQ_def queue_list_Put)
  moreover have "saTypeSize (apsAddr sampleAps) \<noteq> 0" "apsService sampleAps = IzotServiceUnacknowledged"
    "apsLen sampleAps = 300" "apsTag sampleAps = 5"
    by (simp_all add: sampleAps_def sampleSendAddress_def)
  ultimately show ?thesis
    using oversized_message_blocks_its_queue [of False ?a sampleAps "[]" 3] by (simp add: appQ_def)
qed

section \<open>Network variables: the tables\<close>

lemma nv_matches_in:
  "i \<in> set (nv_matches dir sel s) \<longleftrightarrow>
     i < nv_count s \<and> nv_dir (nv_entry s i) = dir \<and> selector_of (nv_entry s i) = sel"
  by (auto simp: nv_matches_def)

lemma report_completed_eq:
  "report_completed i st a = a\<lparr>nvArrayIndex := i - base_index i a,
     completions := completions a @ [DatapointUpdateCompleted (base_index i a) (st \<noteq> LonStatusNoError)]\<rparr>"
  by (simp add: report_completed_def IzotDatapointUpdateCompleted_def IsArrayNV_def)

text \<open>
  The completion handler of the application gets a wrong flag: its parameter is true for
  success, and the layer passes a status that is 0 for success. A propagation of which every
  transaction succeeded is reported as failed, and one of which a transaction failed as
  succeeded; so is the propagation of a variable that is not bound, which by the manual of the
  call succeeds.
\<close>

theorem completion_is_inverted:
  assumes "AppPgmRuns (app_stk a)"
  shows "completions (update_completed NV_UPDATE_LAST_TAG_VALUE success a) =
      completions a @ [DatapointUpdateCompleted (base_index (nvOutIndex a) a) (nvOutStatus a \<noteq> LonStatusNoError)] \<and>
    nvOutStatus (update_completed (GET_NV_UPDATE_TAG 3) False a) \<noteq> LonStatusNoError \<and>
    (\<not> IsNVBound (nd a) i \<longrightarrow>
      completions (PropagateThisPrimary i a) = completions a @ [DatapointUpdateCompleted (base_index i a) False])"
proof -
  have "NV_LAST_TAG NV_UPDATE_LAST_TAG_VALUE" "\<not> NV_LAST_TAG (GET_NV_UPDATE_TAG 3)"
    by (simp_all add: NV_LAST_TAG_def NV_UPDATE_LAST_TAG_VALUE_def GET_NV_UPDATE_TAG_def)
  then show ?thesis
    using assms by (simp add: update_completed_def Let_def IzotDatapointUpdateCompleted_def
        PropagateThisPrimary_def report_completed_eq IsArrayNV_def)
qed

theorem completion_is_inverted_witness:
  "completions (update_completed NV_UPDATE_LAST_TAG_VALUE True (sampleApp (nvNode 0))) = [DatapointUpdateCompleted 0 False]"
  using completion_is_inverted [of "sampleApp (nvNode 0)" True 0]
  by (simp add: IsArrayNV_def) (simp add: sampleApp_def)

section \<open>Scheduling\<close>

lemma schedule_none:
  "fold (schedule_one this) is (count, space, a) = (count, space, a)" if "space \<le> 1"
  using that by (induction "is") (simp_all add: schedule_one_def)

text \<open>
  C25. The mark that ends the indices of a propagated variable is lost when the queue is left
  with two free entries: the index is queued, the mark is not, since a queue holds one entry
  less than its capacity. The completion of the propagation is then never reported, or
  together with that of the next variable.
\<close>

theorem end_mark_is_lost:
  assumes "queue_wf (nvOutIndexQ a)" and "queueEntries (nvOutIndexQ a) + 2 = queueCapacity (nvOutIndexQ a)"
    and "IsNVBound (nd a) i" and "nv_dir (nv_entry (app_stk a) (nat i)) = IzotDatapointDirectionIsOutput"
  shows "queue_list (nvOutIndexQ (PropagateThisPrimary i a)) = queue_list (nvOutIndexQ a) @ [i] \<and>
    completions (PropagateThisPrimary i a) = completions a"
proof -
  let ?q = "nvOutIndexQ a" and ?b = "a\<lparr>nvOutIndexQ := QueuePut i (nvOutIndexQ a)\<rparr>"
  have space: "QueueCapacity ?q - QueueEntries ?q = 2"
    using assms(2) queue_wf_valid [OF assms(1)] by (simp add: QueueCapacity_def QueueEntries_def)
  have "PropagateThisIndex i a = (LonStatusNoError, ?b)"
    using assms(1,4) by (simp add: PropagateThisIndex_def)
  then have "schedule_all PropagateThisIndex i 2 a = (1, ?b)"
    by (simp add: schedule_all_def schedule_one_def schedule_none)
  then have p: "PropagateThisPrimary i a = a\<lparr>nvOutIndexQ := QueuePut (-1) (QueuePut i ?q)\<rparr>"
    using assms(3) space by (simp add: PropagateThisPrimary_def)
  have "queue_list (QueuePut (-1) (QueuePut i ?q)) = queue_list ?q @ [i]"
    using assms(1) by (simp add: queue_list_Put queueEntries_Put assms(2) [symmetric])
  then show ?thesis by (simp add: p)
qed

theorem end_mark_is_lost_witness:
  "queue_list (nvOutIndexQ (PropagateThisPrimary 0 (scheduledApp (nvNode 0x40) [0, -1, 0]))) = [0, -1, 0, 0]"
proof -
  let ?a = "scheduledApp (nvNode 0x40) [0, -1, 0]"
  have "queue_wf (nvOutIndexQ ?a)" "queueEntries (nvOutIndexQ ?a) = 3" "queueCapacity (nvOutIndexQ ?a) = 5"
    "queue_list (nvOutIndexQ ?a) = [0, -1, 0]"
    by (simp_all add: queue_list_Put queueEntries_Put)
  moreover have "nv_dir (nv_entry (app_stk ?a) (nat 0)) = IzotDatapointDirectionIsOutput"
    by (simp add: zeroDatapoint_def get_attribute_def IzotDatapointDirectionIsOutput_def)
  ultimately show ?thesis
    using end_mark_is_lost [of ?a 0] nvNode_bound(2) by simp
qed

section \<open>A full queue\<close>

lemma SendVar_stopped: "\<not> nvOutCanSchedule a \<Longrightarrow> SendVar a = a"
  by (simp add: SendVar_def)

definition out_state :: "app \<Rightarrow> bool \<times> int Queue" where
  "out_state a = (nvOutCanSchedule a, nvOutIndexQ a)"

lemma out_state_node [simp]:
  "out_state (on_node f a) = out_state a" "out_state (a\<lparr>nd := n\<rparr>) = out_state a"
  "out_state (drop_appIn a) = out_state a" "out_state (drop_appCe a) = out_state a"
  "out_state (app_log st a) = out_state a" "out_state (MsgCompletes st tag a) = out_state a"
  "out_state (set_appQ pri q a) = out_state a" "out_state (ReinitMsgOut a) = out_state a"
  "out_state (ReinitRespOut a) = out_state a" "out_state (MsgFree a) = out_state a"
  "out_state (RespFree a) = out_state a" "out_state (drop_nvIn a) = out_state a"
  "out_state (IzotDatapointUpdateCompleted i st a) = out_state a" "out_state (report_completed i st a) = out_state a"
  by (simp_all add: out_state_def on_node_def drop_appIn_def drop_appCe_def app_log_def MsgCompletes_def
      set_appQ_def ReinitMsgOut_def ReinitRespOut_def MsgFree_def RespFree_def drop_nvIn_def
      IzotDatapointUpdateCompleted_def report_completed_eq)

lemma out_state_fields [simp]:
  "out_state (a\<lparr>nvInDataStatus := d\<rparr>) = out_state a" "out_state (a\<lparr>nvInTranStatus := d\<rparr>) = out_state a"
  "out_state (a\<lparr>nvInCanSchedule := b\<rparr>) = out_state a" "out_state (a\<lparr>nvInIndex := i\<rparr>) = out_state a"
  "out_state (a\<lparr>nvArrayIndex := i\<rparr>) = out_state a" "out_state (a\<lparr>msgReceive := b\<rparr>) = out_state a"
  "out_state (a\<lparr>respReceive := b\<rparr>) = out_state a" "out_state (a\<lparr>msgIn := mi\<rparr>) = out_state a"
  "out_state (a\<lparr>respIn := ri\<rparr>) = out_state a" "out_state (a\<lparr>nvInIndexQ := q\<rparr>) = out_state a"
  by (simp_all add: out_state_def)

lemma out_state_receive [simp]:
  "out_state (HandleNormal r a) = out_state a" "out_state (HandleResponse r a) = out_state a"
  "out_state (ProcessNVPoll r a) = out_state a"
  by (simp_all add: HandleNormal_def HandleResponse_def ProcessNVPoll_def Let_def split_beta
      split: option.split sum.split)

lemma out_state_update [simp]: "out_state (ProcessNVUpdate r a) = out_state a"
proof -
  have "out_state (notify_base r p b) = out_state b" for p b
    by (simp add: notify_base_def)
  then have "out_state (update_variable r p b) = out_state b" for p b
    by (simp add: update_variable_def Let_def split: sum.split)
  then show ?thesis by (simp add: ProcessNVUpdate_def Let_def split: list.split)
qed

lemma out_state_processNV [simp]: "out_state (ProcessNV r a) = out_state a"
  by (simp add: ProcessNV_def)

text \<open>What lets the next update go.\<close>

definition update_completion :: "APPReceiveParam \<Rightarrow> bool" where
  "update_completion r \<longleftrightarrow>
     aprIndication r = COMPLETION \<and> aprTag r <s 0 \<and> aprTag r \<noteq> MANUAL_SERVICE_REQ_TAG_VALUE \<and>
     \<not> NV_POLL_TAG (aprTag r)"

lemma out_state_completion:
  assumes "aprIndication r = COMPLETION" "\<not> update_completion r"
  shows "out_state (HandleMsgCompletion r a) = out_state a"
proof -
  have "out_state (poll_completed tag success b) = out_state b" for tag success b
    by (simp add: poll_completed_def Let_def out_state_def IzotDatapointUpdateCompleted_def)
  then show ?thesis using assms by (auto simp: HandleMsgCompletion_def update_completion_def)
qed

lemma out_state_AppLayerReceive:
  assumes "\<And>r. QueueHead (appCeRspInQ (app_stk a)) = Some r \<Longrightarrow> \<not> update_completion r"
  shows "out_state (AppLayerReceive P a) = out_state a"
proof -
  have "out_state (APPRspReceive a) = out_state a"
    using assms out_state_completion by (simp add: APPRspReceive_def split: option.split)
  moreover have "out_state (APPMsgReceive P b) = out_state b" for b
    by (simp add: APPMsgReceive_def split: option.split)
  ultimately show ?thesis by (simp add: AppLayerReceive_def)
qed

lemma out_state_send_queued [simp]: "out_state (send_queued pri a) = out_state a"
proof -
  have "out_state (snd (TryMsgSend pri m b)) = out_state b" for m b
    by (simp add: TryMsgSend_def Let_def split_beta)
  then show ?thesis by (simp add: send_queued_def split_beta split: option.split)
qed

lemma out_state_PollVar [simp]: "out_state (PollVar a) = out_state a"
proof -
  have e: "out_state (turnaround_event p b) = out_state b" for p b
    by (simp add: turnaround_event_def Let_def)
  have t: "out_state (turnaround_poll p c b) = out_state b" for p c b
    by (simp add: turnaround_poll_def Let_def e split: list.split)
  have s: "out_state (send_poll p c b) = out_state b" for p c b
    by (simp add: send_poll_def Let_def)
  have "out_state (poll_index i b) = out_state b" for i b
    by (simp add: poll_index_def Let_def t s)
  moreover have "out_state (poll_end b) = out_state b" for b
    by (simp add: poll_end_def)
  ultimately show ?thesis by (simp add: PollVar_def split: option.split)
qed

lemma out_state_AppLayerSend:
  "\<not> nvOutCanSchedule a \<Longrightarrow> out_state (AppLayerSend a) = out_state a"
proof -
  assume stop: "\<not> nvOutCanSchedule a"
  have "SendVar b = b" if "out_state b = out_state a" for b
    using that stop by (simp add: out_state_def SendVar_stopped)
  then show ?thesis by (simp add: AppLayerSend_def Let_def)
qed

section \<open>Indices that are scheduled\<close>

text \<open>
  Scheduling appends to the queues of indices; \<open>Q\<close> holds of everything it appends.
\<close>

definition appended :: "(int \<Rightarrow> bool) \<Rightarrow> int Queue \<Rightarrow> int Queue \<Rightarrow> bool" where
  "appended Q q r \<longleftrightarrow> (queue_wf q \<longrightarrow> queue_wf r \<and> (\<exists>js. queue_list r = queue_list q @ js \<and> list_all Q js))"

definition scheduled :: "(int \<Rightarrow> bool) \<Rightarrow> app \<Rightarrow> app \<Rightarrow> bool" where
  "scheduled Q a b \<longleftrightarrow>
     nd b = nd a \<and> nvArrayTbl b = nvArrayTbl a \<and> nvOutCanSchedule b = nvOutCanSchedule a \<and>
     appended Q (nvOutIndexQ a) (nvOutIndexQ b) \<and> appended Q (nvInIndexQ a) (nvInIndexQ b)"

lemma appended_refl [simp]: "appended Q q q"
  by (simp add: appended_def)

lemma appended_trans: "appended Q q r \<Longrightarrow> appended Q r t \<Longrightarrow> appended Q q t"
  by (fastforce simp: appended_def)

lemma appended_Put [simp]: "Q i \<Longrightarrow> appended Q q (QueuePut i q)"
  by (simp add: appended_def queue_list_Put)

lemma scheduled_refl [simp]: "scheduled Q a a"
  by (simp add: scheduled_def)

lemma scheduled_trans: "scheduled Q a b \<Longrightarrow> scheduled Q b c \<Longrightarrow> scheduled Q a c"
  by (auto simp: scheduled_def intro: appended_trans)

lemma scheduled_put [simp]:
  "Q i \<Longrightarrow> scheduled Q a (a\<lparr>nvOutIndexQ := QueuePut i (nvOutIndexQ a)\<rparr>)"
  "Q i \<Longrightarrow> scheduled Q a (a\<lparr>nvInIndexQ := QueuePut i (nvInIndexQ a)\<rparr>)"
  "scheduled Q a (report_completed j st a)"
  by (simp_all add: scheduled_def report_completed_eq)

lemma scheduled_this:
  "Q i \<Longrightarrow> scheduled Q a (snd (PropagateThisIndex i a))" "Q i \<Longrightarrow> scheduled Q a (snd (PollThisIndex i a))"
  by (simp_all add: PropagateThisIndex_def PollThisIndex_def)

lemma scheduled_fold:
  assumes "\<And>x b. x \<in> set xs \<Longrightarrow> nd b = nd a \<Longrightarrow> nvArrayTbl b = nvArrayTbl a \<Longrightarrow> scheduled Q b (f x b)"
  shows "scheduled Q a (fold f xs a)"
  using assms
proof (induction xs arbitrary: a)
  case (Cons x xs)
  have "scheduled Q a (f x a)" using Cons.prems by simp
  moreover from this have "scheduled Q (f x a) (fold f xs (f x a))"
    using Cons.prems by (intro Cons.IH) (simp_all add: scheduled_def)
  ultimately show ?case using scheduled_trans by fastforce
qed simp

lemma scheduled_ones:
  assumes "\<And>i a. Q i \<Longrightarrow> scheduled Q a (snd (this i a))" and "list_all Q xs"
  shows "scheduled Q a (snd (snd (fold (schedule_one this) xs (count, space, a))))"
  using assms(2)
proof (induction xs arbitrary: count space a)
  case (Cons x xs)
  obtain c sp b where one: "schedule_one this x (count, space, a) = (c, sp, b)" by (metis prod_cases3)
  then have "scheduled Q a b"
    using assms(1) [of x a] Cons.prems by (auto simp: schedule_one_def split: if_splits prod.splits)
  with Cons.IH [of b c sp] Cons.prems show ?case
    using scheduled_trans by (fastforce simp: one)
qed simp

lemma scheduled_all:
  assumes "\<And>i a. Q i \<Longrightarrow> scheduled Q a (snd (this i a))" and "Q i" and "list_all Q (aliases_of i (app_stk a))"
  shows "scheduled Q a (snd (schedule_all this i space a))"
  using scheduled_ones [where Q = Q and this = this and xs = "i # aliases_of i (app_stk a)" and count = 0
      and space = space and a = a] assms
  by (simp add: schedule_all_def split_beta)

text \<open>What may be queued for a node: the end mark, and the entries that have a primary.\<close>

definition sendable :: "stack \<Rightarrow> int \<Rightarrow> bool" where
  "sendable s i \<longleftrightarrow> i = -1 \<or> 0 \<le> GetPrimaryIndex s i"

lemma sendable_bound:
  assumes "IsNVBound n i"
  shows "sendable (stk n) i" "list_all (sendable (stk n)) (aliases_of i (stk n))"
  using assms by (auto simp: IsNVBound_def sendable_def GetPrimaryIndex_def aliases_of_def list_all_iff)

lemma scheduled_primary:
  "scheduled (sendable (app_stk a)) a (PropagateThisPrimary i a)"
  "scheduled (sendable (app_stk a)) a (PollThisPrimary i a)"
proof -
  let ?Q = "sendable (app_stk a)"
  have mark: "?Q (-1)" by (simp add: sendable_def)
  have bound: "scheduled ?Q a (snd (schedule_all this i space a))"
    if "IsNVBound (nd a) i" "\<And>i a. ?Q i \<Longrightarrow> scheduled ?Q a (snd (this i a))" for this space
    using scheduled_all [where Q = ?Q and this = this, OF that(2)] sendable_bound [OF that(1)] by simp
  show "scheduled ?Q a (PropagateThisPrimary i a)"
  proof (cases "IsNVBound (nd a) i")
    case True
    obtain c b where s: "schedule_all PropagateThisIndex i (QueueCapacity (nvOutIndexQ a) - QueueEntries (nvOutIndexQ a)) a = (c, b)"
      by (cases "schedule_all PropagateThisIndex i (QueueCapacity (nvOutIndexQ a) - QueueEntries (nvOutIndexQ a)) a")
    have "scheduled ?Q a b" using bound [OF True, of PropagateThisIndex] scheduled_this(1) s by (metis snd_conv)
    then show ?thesis
      using scheduled_put(1,3) [where a = b and Q = ?Q] mark True s scheduled_trans [of ?Q a b]
      by (simp add: PropagateThisPrimary_def)
  qed (simp add: PropagateThisPrimary_def)
  show "scheduled ?Q a (PollThisPrimary i a)"
  proof (cases "IsNVBound (nd a) i")
    case True
    obtain c b where s: "schedule_all PollThisIndex i (QueueCapacity (nvInIndexQ a) - QueueEntries (nvInIndexQ a)) a = (c, b)"
      by (cases "schedule_all PollThisIndex i (QueueCapacity (nvInIndexQ a) - QueueEntries (nvInIndexQ a)) a")
    have "scheduled ?Q a b" using bound [OF True, of PollThisIndex] scheduled_this(2) s by (metis snd_conv)
    then show ?thesis
      using scheduled_put(2,3) [where a = b and Q = ?Q] mark True s scheduled_trans [of ?Q a b]
      by (simp add: PollThisPrimary_def)
  qed (simp add: PollThisPrimary_def)
qed

text \<open>The calls of the application that schedule variables.\<close>

datatype nv_call = CallPropagate | CallPropagateNV int | CallPropagateArrayNV int int
  | CallPoll | CallPollNV int | CallPollArrayNV int int

fun do_call :: "nv_call \<Rightarrow> app \<Rightarrow> app" where
  "do_call CallPropagate a = Propagate a"
| "do_call (CallPropagateNV i) a = PropagateNV i a"
| "do_call (CallPropagateArrayNV i k) a = PropagateArrayNV i k a"
| "do_call CallPoll a = Poll a"
| "do_call (CallPollNV i) a = PollNV i a"
| "do_call (CallPollArrayNV i k) a = PollArrayNV i k a"

lemma scheduled_call: "scheduled (sendable (app_stk a)) a (do_call c a)"
proof -
  have same: "scheduled (sendable (app_stk a)) b (PropagateThisPrimary i b)"
    "scheduled (sendable (app_stk a)) b (PollThisPrimary i b)" if "nd b = nd a" for b i
    using scheduled_primary [of b i] that by simp_all
  show ?thesis
    by (cases c) (auto simp: Propagate_def Poll_def PropagateNV_def PollNV_def PropagateArrayNV_def
        PollArrayNV_def same intro!: scheduled_fold split: option.split)
qed

text \<open>
  C23. Every index that a call of the application schedules is the end mark or names an entry
  of the tables whose primary exists: \<open>Propagate\<close> and \<open>Poll\<close>, for all variables, one, or one
  element of an array, only append such indices, in order, and leave the node and the
  scheduling of the other queue as they are. An alias with a bad primary is never scheduled.
\<close>

theorem scheduled_indices_have_a_primary:
  assumes "queue_wf (nvOutIndexQ a)" and "queue_wf (nvInIndexQ a)"
  shows "\<exists>outs ins.
    queue_list (nvOutIndexQ (do_call c a)) = queue_list (nvOutIndexQ a) @ outs \<and>
    queue_list (nvInIndexQ (do_call c a)) = queue_list (nvInIndexQ a) @ ins \<and>
    list_all (sendable (app_stk a)) (outs @ ins) \<and> nd (do_call c a) = nd a \<and>
    queue_wf (nvOutIndexQ (do_call c a)) \<and> queue_wf (nvInIndexQ (do_call c a))"
  using scheduled_call [of a c] assms by (auto simp: scheduled_def appended_def)


theorem scheduled_indices_have_a_primary_witness:
  "queue_wf (nvOutIndexQ (do_call CallPropagate (sampleApp (nvNode 0x40))))"
  using scheduled_indices_have_a_primary [of "sampleApp (nvNode 0x40)" CallPropagate] by auto

section \<open>The end of the sending of updates\<close>

lemma out_state_MsgSend [simp]: "out_state (MsgSend a) = out_state a"
  by (simp add: MsgSend_def Let_def)

text \<open>
  Steps of a node between two completions of updates: calls of the application, its handlers,
  and whatever the layers below do.
\<close>

inductive quiet_step :: "platform \<Rightarrow> app \<Rightarrow> app \<Rightarrow> bool" for P where
  quiet_send: "quiet_step P a (AppLayerSend a)"
| quiet_receive: "(\<And>r. QueueHead (appCeRspInQ (app_stk a)) = Some r \<Longrightarrow> \<not> update_completion r) \<Longrightarrow>
    quiet_step P a (AppLayerReceive P a)"
| quiet_below: "quiet_step P a (on_node f a)"
| quiet_call: "quiet_step P a (do_call c a)"
| quiet_message: "quiet_step P a (MsgSend a)"

lemma quiet_step_stopped:
  assumes "quiet_step P a b" and "\<not> nvOutCanSchedule a" and "queue_wf (nvOutIndexQ a)"
  shows "\<not> nvOutCanSchedule b \<and> queue_wf (nvOutIndexQ b) \<and>
    (\<exists>js. queue_list (nvOutIndexQ b) = queue_list (nvOutIndexQ a) @ js)"
  using assms
proof cases
  case (quiet_call c)
  then show ?thesis using scheduled_call [of a c] assms by (auto simp: scheduled_def appended_def)
next
  case quiet_send
  have "out_state (AppLayerSend a) = out_state a" by (rule out_state_AppLayerSend) (rule assms(2))
  then show ?thesis using assms quiet_send by (simp add: out_state_def)
next
  case quiet_receive
  then have "out_state (AppLayerReceive P a) = out_state a" by (intro out_state_AppLayerReceive)
  then show ?thesis using assms quiet_receive by (simp add: out_state_def)
next
  case quiet_message
  then show ?thesis using assms out_state_MsgSend [of a] by (simp add: out_state_def)
qed simp

lemma quiet_steps_stopped:
  assumes "(quiet_step P)\<^sup>*\<^sup>* a b" and "\<not> nvOutCanSchedule a" and "queue_wf (nvOutIndexQ a)"
  shows "\<not> nvOutCanSchedule b \<and> queue_wf (nvOutIndexQ b) \<and>
    (\<exists>js. queue_list (nvOutIndexQ b) = queue_list (nvOutIndexQ a) @ js)"
  using assms(1)
proof induction
  case base
  then show ?case using assms by simp
next
  case (step b c)
  then show ?case using quiet_step_stopped [of P b c] by fastforce
qed

text \<open>An update that is scheduled next, and has to leave the node.\<close>

definition next_update :: "int \<Rightarrow> int list \<Rightarrow> app \<Rightarrow> bool" where
  "next_update i is a \<longleftrightarrow>
     nvOutCanSchedule a \<and> queue_wf (nvOutIndexQ a) \<and> queue_list (nvOutIndexQ a) = i # is \<and>
     IZOT_READONLY_NODE_STATE (readOnlyData (app_stk a)) \<noteq> IzotApplicationUnconfig \<and>
     0 \<le> i \<and> 0 \<le> GetPrimaryIndex (app_stk a) i \<and>
     \<not> turnAroundOnly (nd a) (nv_entry (app_stk a) (nat i)) \<and> \<not> nv_turnaround (nv_entry (app_stk a) (nat i)) \<and>
     nv_service (nv_entry (app_stk a) (nat i)) \<in> {IzotServiceAcknowledged, IzotServiceRepeated} \<and>
     queue_wf (tsaOutQ (app_stk a)) \<and> queue_wf (tsaOutPriQ (app_stk a))"

lemma SendVar_next:
  assumes "next_update i is a" and "c = nv_entry (app_stk a) (nat i)"
  shows "SendVar a = send_update (GetPrimaryIndex (app_stk a) i) c (drop_nvOut (a\<lparr>nvOutCanSchedule := False\<rparr>))"
  using assms by (auto simp: next_update_def SendVar_def QueueHead_eq send_index_def Let_def send_blocked_def
      tsaQ_def split: if_splits)

text \<open>
  C14. The sending of updates stops for good at an update that does not fit: when the queue of
  the transport layer holds as many entries as it can, which the test for a full queue does
  not notice, or when the variable is too large for its buffers, the index is dropped,
  nothing is sent, and scheduling stays off. As long as no completion of an update comes, and
  none is on its way, no step of the node sends another update: later calls only add to
  the queue.
\<close>

theorem propagation_stops_at_a_full_queue:
  assumes "next_update i is a" and "c = nv_entry (app_stk a) (nat i)"
    and "queueEntries (tsaQ (nv_priority c) (app_stk a)) + 1 = queueCapacity (tsaQ (nv_priority c) (app_stk a)) \<or>
         nv_length (nd a) (GetPrimaryIndex (app_stk a) i) + 2 > nv_buf_size (nv_priority c) (nv_service c) (app_stk a)"
    and "(quiet_step P)\<^sup>*\<^sup>* (SendVar a) b"
  shows "queue_list (tsaOutQ (app_stk (SendVar a))) = queue_list (tsaOutQ (app_stk a)) \<and>
    queue_list (tsaOutPriQ (app_stk (SendVar a))) = queue_list (tsaOutPriQ (app_stk a)) \<and>
    (\<exists>js. queue_list (nvOutIndexQ b) = is @ js) \<and> \<not> nvOutCanSchedule b \<and> SendVar b = b"
proof -
  let ?p = "GetPrimaryIndex (app_stk a) i" and ?d = "drop_nvOut (a\<lparr>nvOutCanSchedule := False\<rparr>)"
  note sv = SendVar_next [OF assms(1,2)]
  have d: "nd ?d = nd a" "nvOutCanSchedule ?d = False" "nvOutIndexQ ?d = QueueDropHead (nvOutIndexQ a)"
    by (simp_all add: drop_nvOut_def)
  have out: "out_state (send_update ?p c ?d) = out_state ?d"
    by (simp add: send_update_def Let_def split: option.split)
  have lists: "queue_list (tsaOutQ (app_stk (SendVar a))) = queue_list (tsaOutQ (app_stk a))"
    "queue_list (tsaOutPriQ (app_stk (SendVar a))) = queue_list (tsaOutPriQ (app_stk a))"
    using assms(1,3) unfolding sv
    by (auto simp: send_update_def Let_def d next_update_def tsaQ_def set_tsaQ_def queue_list_Emit
        on_stack_def assms(2) [symmetric] split: option.split if_splits)
  have "\<not> nvOutCanSchedule (SendVar a) \<and> queue_wf (nvOutIndexQ (SendVar a)) \<and> queue_list (nvOutIndexQ (SendVar a)) = is"
    using assms(1) out d by (simp add: sv out_state_def next_update_def)
  with quiet_steps_stopped [OF assms(4)] lists show ?thesis by (auto simp: SendVar_stopped)
qed

theorem propagation_stops_at_a_full_queue_witness:
  "\<not> nvOutCanSchedule (SendVar (scheduledApp (on_stack (\<lambda>s. s\<lparr>tsaOutQ := emptyQueue 1 sampleTss\<rparr>) (nvNode 0x40)) [0, -1]))"
proof -
  let ?n = "on_stack (\<lambda>s. s\<lparr>tsaOutQ := emptyQueue 1 sampleTss\<rparr>) (nvNode 0x40)"
  let ?a = "scheduledApp ?n [0, -1]" and ?c = "zeroDatapoint\<lparr>dpSelhiDirPrio := 0x40\<rparr>"
  have "eep_image ?n = eep_image (nvNode 0x40)"
    by (simp add: on_stack_def eep_image_def readOnly_bytes_def config_bytes_def tail_bytes_def Let_def Config_1_def)
  then have t: "\<not> turnAroundOnly ?n ?c" using nvNode_bound(1) [of "0x40"] by (simp add: turnAroundOnly_def addr_entry_def)
  have e: "nv_entry (stk ?n) 0 = ?c" "GetPrimaryIndex (stk ?n) 0 = 0"
    using nvNode_entry(1) [of "0x40"] nvNode_primary(1) [of "0x40"]
    by (simp_all add: nv_entry_def GetPrimaryIndex_def GetNVStructPtr_def)
  have c: "\<not> nv_priority ?c" "\<not> nv_turnaround ?c" by (simp_all add: zeroDatapoint_def get_attribute_def)
  have "next_update 0 [-1] ?a"
    using t e c by (simp add: next_update_def queue_list_Put queueEntries_Put)
  then show ?thesis
    using propagation_stops_at_a_full_queue [of 0 "[-1]" ?a ?c samplePlatform "SendVar ?a"] e c by (simp add: tsaQ_def)
qed

end
