(* ===== verification/Lcs_App_Exchange.thy ===== *)
theory Lcs_App_Exchange
  imports Lcs_App_Properties
begin

text \<open>
  What the application layers of two nodes achieve together: an update brings the value of a
  variable to the peer, a poll brings it back, a message of the application reaches the layer
  below, and a propagation is completed exactly once.
\<close>

section \<open>Values from node to node\<close>

lemma set_value_value:
  assumes "length b = length (nv_value n p)" and "nat p < length (nvFixedTable n)"
  shows "nv_value (set_value p b n) p = b" "nat q \<noteq> nat p \<Longrightarrow> nv_value (set_value p b n) q = nv_value n q"
    "stk (set_value p b n) = stk n"
  using assms by (simp_all add: set_value_def nv_value_def Let_def copy_into_def)

text \<open>The variables are as the tables of the node declare them, with no conversion of values.\<close>

definition plain_variable :: "node \<Rightarrow> int \<Rightarrow> bool" where
  "plain_variable n p \<longleftrightarrow>
     0 \<le> p \<and> nat p < length (nvFixedTable n) \<and> length (nv_value n p) = nv_length n p \<and>
     ibolSeq (dpProp n ! nat p) = None"

text \<open>An entry of a node that takes updates with a selector.\<close>

definition takes_update :: "node \<Rightarrow> u16 \<Rightarrow> int \<Rightarrow> bool" where
  "takes_update n sel p \<longleftrightarrow>
     IZOT_READONLY_NODE_STATE (readOnlyData (stk n)) \<noteq> IzotApplicationUnconfig \<and>
     (\<exists>j js. nv_matches IzotDatapointDirectionIsInput sel (stk n) = j # js \<and> GetPrimaryIndex (stk n) (int j) = p) \<and>
     plain_variable n p"

lemma notify_base_values [simp]:
  "nvFixedTable (nd (notify_base r p a)) = nvFixedTable (nd a)"
  by (simp add: notify_base_def notify_update_def Let_def LCS_WritePersistentAppData_def)

lemma drop_values [simp]:
  "nvFixedTable (nd (drop_appIn a)) = nvFixedTable (nd a)" "nvFixedTable (nd (drop_appCe a)) = nvFixedTable (nd a)"
  "nvInDataStatus (drop_appIn a) = nvInDataStatus a" "nvInDataStatus (drop_appCe a) = nvInDataStatus a"
  by (simp_all add: drop_appIn_def drop_appCe_def on_stack_def)

lemma ProcessNVUpdate_takes:
  assumes "takes_update (nd b) (apdu_selector r) p" and "apdu_dir r = IzotDatapointDirectionIsInput"
    and "aprPduSize r = 2 + nv_length (nd b) p" and "0 < nv_length (nd b) p"
    and "aprAuth r \<or> \<not> nv_authenticated (nv_entry (app_stk b) (nat p))"
  shows "ProcessNVUpdate r b =
    (if aprService r = IzotServiceResponse then drop_appCe else drop_appIn) (update_variable r p b)"
proof -
  have "\<not> aprPduSize r \<le> 2" "\<not> p < 0" using assms by (auto simp: takes_update_def plain_variable_def)
  then show ?thesis
    using assms by (auto simp: takes_update_def ProcessNVUpdate_def Let_def IzotDatapointDirectionIsInput_def
        IzotDatapointDirectionIsOutput_def)
qed

lemma update_variable_value:
  assumes "plain_variable (nd b) p" and "apdu_bytes r 1 (nv_length (nd b) p) = v"
    and "aprPduSize r = 2 + nv_length (nd b) p" and "length v = nv_length (nd b) p"
  shows "nv_value (nd (update_variable r p b)) p = v \<and>
    (\<forall>q. nat q \<noteq> nat p \<longrightarrow> nv_value (nd (update_variable r p b)) q = nv_value (nd b) q)"
proof -
  let ?a = "if aprService r = IzotServiceResponse then b\<lparr>nvInDataStatus := LonStatusNoError\<rparr> else b"
  have "host_value r p (nd ?a) = Inr v"
    using assms by (simp add: host_value_def plain_variable_def)
  then have "update_variable r p b = notify_base r p (on_node (set_value p v) ?a)"
    by (simp add: update_variable_def)
  then show ?thesis
    using set_value_value [of v "nd b" p] assms(1,4) by (simp add: plain_variable_def nv_value_def)
qed

text \<open>The message of an update, as the transport layer gets it.\<close>

lemma SendVar_sends:
  assumes "next_update i is a" and "c = nv_entry (app_stk a) (nat i)" and "p = GetPrimaryIndex (app_stk a) i"
    and "queueEntries (tsaQ (nv_priority c) (app_stk a)) + 1 < queueCapacity (tsaQ (nv_priority c) (app_stk a))"
    and "nv_length (nd a) p + 2 \<le> nv_buf_size (nv_priority c) (nv_service c) (app_stk a)"
    and "AccessAddress (app_stk a) (addr_index c) \<noteq> None" and "plain_variable (nd a) p"
  shows "\<exists>m. SendVar a = on_stk (\<lambda>s. set_tsaQ (nv_priority c) (QueueEmit (\<lambda>_. m) (tsaQ (nv_priority c) s)) s)
      (drop_nvOut (a\<lparr>nvOutCanSchedule := False\<rparr>)) \<and>
    tssService m = nv_service c \<and> tssTag m = GET_NV_UPDATE_TAG p \<and> tssAuth m = nv_authenticated c \<and>
    tssPriority m = nv_priority c \<and> tssApduSize m = length (tssApdu m) \<and>
    tssApdu m = (0x80 OR nv_selhigh c) # dpSelectorLow c # nv_value (nd a) p"
proof -
  let ?d = "drop_nvOut (a\<lparr>nvOutCanSchedule := False\<rparr>)" and ?q = "tsaQ (nv_priority c) (app_stk a)"
  have d: "nd (drop_nvOut (a\<lparr>nvOutCanSchedule := b\<rparr>)) = nd a" for b by (simp add: drop_nvOut_def)
  have "IzotPrepareNetworkData (dpProp (nd a) ! nat p) (nv_length (nd a) p) (nv_value (nd a) p) = Some (nv_value (nd a) p)"
    using assms(7) by (simp add: IzotPrepareNetworkData_def plain_variable_def bytes_from_eq_take)
  moreover have "nv_service c \<noteq> IzotServiceUnacknowledged" using assms(1,2) by (auto simp: next_update_def)
  moreover obtain k where "AccessAddress (app_stk a) (addr_index c) = Some k" using assms(6) by auto
  ultimately have "SendVar a = on_stk (\<lambda>s. set_tsaQ (nv_priority c) (QueueEmit (nv_message (nv_priority c) (nv_service c)
      (GET_NV_UPDATE_TAG p) (addr_entry (nd a) (addr_index c)) c
      ((0x80 OR nv_selhigh c) # dpSelectorLow c # nv_value (nd a) p)) (tsaQ (nv_priority c) s)) s) ?d" (is "_ = on_stk (\<lambda>s. set_tsaQ _ (QueueEmit ?f _) s) _")
    using SendVar_next [OF assms(1,2)] assms(3,5) by (simp add: send_update_def Let_def d add.commute)
  moreover have "QueueEmit ?f ?q = QueueEmit (\<lambda>_. ?f (QueueDeref ?q (qtail ?q))) ?q"
    using assms(1) by (simp add: QueueEmit_eq_Put next_update_def tsaQ_def)
  ultimately have "SendVar a = on_stk (\<lambda>s. set_tsaQ (nv_priority c)
      (QueueEmit (\<lambda>_. ?f (QueueDeref ?q (qtail ?q))) (tsaQ (nv_priority c) s)) s) ?d"
    by (simp add: on_node_def on_stack_def d)
  then show ?thesis
    by (intro exI [of _ "?f (QueueDeref ?q (qtail ?q))"] conjI) (simp_all add: nv_message_def)
qed

lemma code_fields [simp]:
  fixes x :: u8
  shows "(0x80 OR x AND 0x3F) AND 0x3F = x AND 0x3F" "(0xC0 OR x AND 0x3F) AND 0x3F = x AND 0x3F"
    "get_attribute 0x40 6 (0x80 OR x AND 0x3F) = 0" "get_attribute 0x40 6 (0xC0 OR x AND 0x3F) = 1"
proof -
  have d: "(y OR x AND 0x3F) AND m = (y AND m) OR (x AND (0x3F AND m))" for y m :: u8
    by (simp add: bit.conj_disj_distrib2 and.assoc)
  show "(0x80 OR x AND 0x3F) AND 0x3F = x AND 0x3F" "(0xC0 OR x AND 0x3F) AND 0x3F = x AND 0x3F"
    by (simp_all add: d)
  show "get_attribute 0x40 6 (0x80 OR x AND 0x3F) = 0" "get_attribute 0x40 6 (0xC0 OR x AND 0x3F) = 1"
    by (simp_all add: d get_attribute_def)
qed

lemma nv_selhigh_and: "nv_selhigh c = dpSelhiDirPrio c AND 0x3F"
  by (simp add: get_attribute_def)

lemma nvNode_plain [simp]: "plain_variable (nvNode dir) 0"
  by (simp add: plain_variable_def)

lemma nvNode_config [simp]:
  "get_attribute 0x80 7 (0x40 :: u8) = 0" "get_attribute m k (0 :: u8) = 0" "dpAttribute1 zeroDatapoint = 0"
  by (simp_all add: zeroDatapoint_def get_attribute_def)

lemma nvNode_takes: "takes_update (nvNode 0) 0 0"
  using nvNode_matches(1) by (auto simp: takes_update_def)

lemma nvNode_next:
  "next_update 0 [-1] (scheduledApp (nvNode 0x40) [0, -1])"
  using nvNode_bound(1) by (simp add: next_update_def queue_list_Put queueEntries_Put)

text \<open>The APDU of a message reaches the application layer of another node.\<close>

definition carries :: "APPReceiveParam \<Rightarrow> TSASendParam \<Rightarrow> bool" where
  "carries r m \<longleftrightarrow>
     aprApdu r = tssApdu m \<and> aprPduSize r = tssApduSize m \<and> aprService r = tssService m \<and> aprAuth r = tssAuth m"

text \<open>
  C10. An update reaches the peer: what the node sends for a scheduled variable is a message
  with the selector and the value, and a node that has an input variable with this selector
  and length stores the value in it, and in no other, when the message arrives.
\<close>

theorem update_arrives:
  assumes "next_update i is a" and "c = nv_entry (app_stk a) (nat i)" and "p = GetPrimaryIndex (app_stk a) i"
    and "queueEntries (tsaQ (nv_priority c) (app_stk a)) + 1 < queueCapacity (tsaQ (nv_priority c) (app_stk a))"
    and "nv_length (nd a) p + 2 \<le> nv_buf_size (nv_priority c) (nv_service c) (app_stk a)"
    and "AccessAddress (app_stk a) (addr_index c) \<noteq> None" and "plain_variable (nd a) p"
    and "takes_update (nd b) (selector_of c) p'" and "nv_length (nd b) p' = nv_length (nd a) p" and "0 < nv_length (nd a) p"
    and "nv_authenticated c \<or> \<not> nv_authenticated (nv_entry (app_stk b) (nat p'))"
  shows "\<exists>m. queue_list (tsaQ (nv_priority c) (app_stk (SendVar a))) = queue_list (tsaQ (nv_priority c) (app_stk a)) @ [m] \<and>
    queue_list (nvOutIndexQ (SendVar a)) = is \<and> tssTag m = GET_NV_UPDATE_TAG p \<and>
    (\<forall>r. carries r m \<longrightarrow>
       nv_value (nd (ProcessNV r b)) p' = nv_value (nd a) p \<and>
       (\<forall>q. nat q \<noteq> nat p' \<longrightarrow> nv_value (nd (ProcessNV r b)) q = nv_value (nd b) q))"
proof -
  obtain m where m: "SendVar a = on_stk (\<lambda>s. set_tsaQ (nv_priority c) (QueueEmit (\<lambda>_. m) (tsaQ (nv_priority c) s)) s)
      (drop_nvOut (a\<lparr>nvOutCanSchedule := False\<rparr>))"
    "tssService m = nv_service c" "tssTag m = GET_NV_UPDATE_TAG p" "tssAuth m = nv_authenticated c"
    "tssApduSize m = length (tssApdu m)" "tssApdu m = (0x80 OR nv_selhigh c) # dpSelectorLow c # nv_value (nd a) p"
    using SendVar_sends [OF assms(1-7)] by blast
  have "queue_list (tsaQ (nv_priority c) (app_stk (SendVar a))) = queue_list (tsaQ (nv_priority c) (app_stk a)) @ [m]"
    "queue_list (nvOutIndexQ (SendVar a)) = is"
    using assms(1,4) by (simp_all add: m(1) drop_nvOut_def queue_list_Emit next_update_def tsaQ_def set_tsaQ_def split: if_splits)
  moreover have "nv_value (nd (ProcessNV r b)) p' = nv_value (nd a) p \<and>
      (\<forall>q. nat q \<noteq> nat p' \<longrightarrow> nv_value (nd (ProcessNV r b)) q = nv_value (nd b) q)" if r: "carries r m" for r
  proof -
    have v: "length (nv_value (nd a) p) = nv_length (nd a) p" using assms(7) by (simp add: plain_variable_def)
    have apdu: "apdu_selector r = selector_of c" "apdu_dir r = IzotDatapointDirectionIsInput"
      "apdu_bytes r 1 (nv_length (nd b) p') = nv_value (nd a) p"
      using r m(5,6) v assms(9)
      by (simp_all add: carries_def selector_of_def nv_selhigh_and apdu_data_def apdu_bytes_def
          IzotDatapointDirectionIsInput_def bytes_from_eq_take)
    have srv: "aprService r \<noteq> IzotServiceRequest" "aprService r \<noteq> IzotServiceResponse"
      using r m(2) assms(1,2) by (auto simp: carries_def next_update_def)
    have len: "aprPduSize r = 2 + nv_length (nd b) p'" using r m(5,6) v assms(9) by (simp add: carries_def)
    have "aprAuth r \<or> \<not> nv_authenticated (nv_entry (app_stk b) (nat p'))" using r m(4) assms(11) by (auto simp: carries_def)
    then have "ProcessNV r b = drop_appIn (update_variable r p' b)"
      using ProcessNVUpdate_takes [of b r p'] apdu srv len assms(8-10) by (simp add: ProcessNV_def)
    moreover have "plain_variable (nd b) p'" using assms(8) by (simp add: takes_update_def)
    ultimately show ?thesis
      using update_variable_value [of b p' r "nv_value (nd a) p"] apdu(3) len v assms(9) by (simp add: nv_value_def)
  qed
  ultimately show ?thesis using m(3) by blast
qed

theorem update_arrives_witness:
  "\<exists>m. queue_list (tsaOutQ (app_stk (SendVar (scheduledApp (nvNode 0x40) [0, -1])))) = [m] \<and>
    (\<forall>r. carries r m \<longrightarrow> nv_value (nd (ProcessNV r (sampleApp (nvNode 0)))) 0 = [7, 8])"
  using update_arrives [OF nvNode_next refl refl, of "sampleApp (nvNode 0)" 0] nvNode_takes
  by (auto simp: tsaQ_def nv_buf_size_def)

section \<open>Polls\<close>

text \<open>A poll that is scheduled next, and has to leave the node.\<close>

definition next_poll :: "int \<Rightarrow> int list \<Rightarrow> app \<Rightarrow> bool" where
  "next_poll i is a \<longleftrightarrow>
     nvInCanSchedule a \<and> queue_wf (nvInIndexQ a) \<and> queue_list (nvInIndexQ a) = i # is \<and>
     IZOT_READONLY_NODE_STATE (readOnlyData (app_stk a)) \<noteq> IzotApplicationUnconfig \<and>
     0 \<le> i \<and> 0 \<le> GetPrimaryIndex (app_stk a) i \<and>
     \<not> turnAroundOnly (nd a) (nv_entry (app_stk a) (nat i)) \<and> \<not> nv_turnaround (nv_entry (app_stk a) (nat i)) \<and>
     queue_wf (tsaOutQ (app_stk a)) \<and> queue_wf (tsaOutPriQ (app_stk a))"

text \<open>An entry of a node that answers polls with a selector.\<close>

definition answers_poll :: "node \<Rightarrow> u16 \<Rightarrow> nat \<Rightarrow> int \<Rightarrow> bool" where
  "answers_poll n sel j p \<longleftrightarrow>
     \<not> NodeUnConfigured (stk n) \<and> poll_match IzotDatapointDirectionIsOutput sel (stk n) = Some (Some j) \<and>
     GetPrimaryIndex (stk n) (int j) = p \<and> plain_variable n p \<and> nv_length n p + 2 \<le> tsaRespBufSize (stk n) \<and>
     queue_wf (tsaRespQ (stk n)) \<and> queueEntries (tsaRespQ (stk n)) + 1 < queueCapacity (tsaRespQ (stk n))"

lemma PollVar_sends:
  assumes "next_poll i is a" and "c = nv_entry (app_stk a) (nat i)" and "p = GetPrimaryIndex (app_stk a) i"
    and "queueEntries (tsaQ (nv_priority c) (app_stk a)) + 1 < queueCapacity (tsaQ (nv_priority c) (app_stk a))"
    and "AccessAddress (app_stk a) (addr_index c) \<noteq> None"
  shows "\<exists>m. queue_list (tsaQ (nv_priority c) (app_stk (PollVar a))) = queue_list (tsaQ (nv_priority c) (app_stk a)) @ [m] \<and>
    queue_list (nvInIndexQ (PollVar a)) = is \<and> \<not> nvInCanSchedule (PollVar a) \<and>
    tssService m = IzotServiceRequest \<and> tssTag m = GET_NV_POLL_TAG p \<and> tssAuth m = nv_authenticated c \<and>
    tssApduSize m = 2 \<and> tssApdu m = [0xC0 OR nv_selhigh c, dpSelectorLow c]"
proof -
  let ?q = "tsaQ (nv_priority c) (app_stk a)"
  let ?f = "nv_message (nv_priority c) IzotServiceRequest (GET_NV_POLL_TAG p) (addr_entry (nd a) (addr_index c)) c
    [0xC0 OR nv_selhigh c, dpSelectorLow c]"
  obtain k where k: "AccessAddress (app_stk a) (addr_index c) = Some k" using assms(5) by auto
  have d: "nd (drop_nvIn (a\<lparr>nvInCanSchedule := b\<rparr>)) = nd a" for b by (simp add: drop_nvIn_def)
  have q: "queue_wf ?q" using assms(1) by (simp add: next_poll_def tsaQ_def)
  then have "\<not> QueueFull ?q" by simp
  then have "PollVar a = send_poll p c (drop_nvIn (a\<lparr>nvInCanSchedule := False\<rparr>))"
    using assms(1-3) by (simp add: next_poll_def PollVar_def QueueHead_eq poll_index_def Let_def)
  then have v: "PollVar a = on_stk (\<lambda>s. set_tsaQ (nv_priority c) (QueueEmit ?f (tsaQ (nv_priority c) s)) s)
      (drop_nvIn (a\<lparr>nvInCanSchedule := False\<rparr>))"
    using k by (simp add: send_poll_def Let_def d)
  have "queue_list (tsaQ (nv_priority c) (app_stk (PollVar a))) = queue_list ?q @ [?f (QueueDeref ?q (qtail ?q))]"
    using q assms(4) by (simp add: v d queue_list_Emit)
  moreover have "queue_list (nvInIndexQ (PollVar a)) = is" "\<not> nvInCanSchedule (PollVar a)"
    using assms(1) by (simp_all add: v drop_nvIn_def next_poll_def)
  ultimately show ?thesis
    by (intro exI [of _ "?f (QueueDeref ?q (qtail ?q))"] conjI) (simp_all add: nv_message_def)
qed

lemma ProcessNVPoll_answers:
  assumes "answers_poll (nd b) (apdu_selector r) j p" and "apdu_dir r = IzotDatapointDirectionIsOutput"
    and "aprPduSize r = 2" and "aprAuth r \<or> \<not> nv_authenticated (nv_entry (app_stk b) j)"
  shows "\<exists>m. queue_list (tsaRespQ (app_stk (ProcessNVPoll r b))) = queue_list (tsaRespQ (app_stk b)) @ [m] \<and>
    \<not> tssNullResponse m \<and> tssService m = IzotServiceResponse \<and> tssReqId m = aprReqId r \<and>
    tssApduSize m = 2 + nv_length (nd b) p \<and>
    tssApdu m = (0x80 OR apdu_code r AND 0x3F) # apdu_data r 0 # nv_value (nd b) p"
proof -
  let ?dat = "(0x80 OR push_bit 6 (1 - apdu_dir r) OR (apdu_code r AND 0x3F)) # apdu_data r 0 # nv_value (nd b) p"
  have "IzotPrepareNetworkData (dpProp (nd b) ! nat p) (nv_length (nd b) p) (nv_value (nd b) p) = Some (nv_value (nd b) p)"
    using assms(1) by (simp add: IzotPrepareNetworkData_def answers_poll_def plain_variable_def bytes_from_eq_take)
  then have "poll_value r (Some j) (nd b) = Inr (nv_value (nd b) p)"
    using assms(1,4) by (auto simp: poll_value_def Let_def answers_poll_def plain_variable_def)
  then have "ProcessNVPoll r b = drop_appIn (on_node (update_respQ (QueueEmit
      (response (aprReqId r) False False ?dat))) b)"
    using assms(1-3) by (simp add: ProcessNVPoll_def Let_def answers_poll_def)
  moreover have room: "queueEntries (tsaRespQ (app_stk b)) < queueCapacity (tsaRespQ (app_stk b)) - 1"
    using assms(1) by (auto simp: answers_poll_def)
  ultimately have "queue_list (tsaRespQ (app_stk (ProcessNVPoll r b))) = queue_list (tsaRespQ (app_stk b)) @
      [response (aprReqId r) False False ?dat (QueueDeref (tsaRespQ (app_stk b)) (qtail (tsaRespQ (app_stk b))))]"
    using room assms(1) by (simp add: drop_appIn_def queue_list_Emit answers_poll_def)
  moreover have "?dat = (0x80 OR apdu_code r AND 0x3F) # apdu_data r 0 # nv_value (nd b) p"
    using assms(2) by (simp add: IzotDatapointDirectionIsOutput_def)
  moreover have "length (nv_value (nd b) p) = nv_length (nd b) p"
    using assms(1) by (simp add: answers_poll_def plain_variable_def)
  ultimately show ?thesis by (simp add: response_def)
qed

text \<open>
  C11. A polled value comes back: the request that the node sends for a polled variable is
  answered by a node that has an output variable with its selector, with the value of the
  latter, and when this answer arrives the polled variable has that value, no other variable
  has changed, and the poll counts as having received data.
\<close>

theorem polled_value_comes_back:
  assumes "next_poll i is a" and "c = nv_entry (app_stk a) (nat i)" and "p = GetPrimaryIndex (app_stk a) i"
    and "queueEntries (tsaQ (nv_priority c) (app_stk a)) + 1 < queueCapacity (tsaQ (nv_priority c) (app_stk a))"
    and "AccessAddress (app_stk a) (addr_index c) \<noteq> None"
    and "answers_poll (nd b) (selector_of c) j p'" and "nv_authenticated c \<or> \<not> nv_authenticated (nv_entry (app_stk b) j)"
    and "takes_update (nd a') (selector_of c) p" and "nv_length (nd a') p = nv_length (nd b) p'" and "0 < nv_length (nd b) p'"
  shows "\<exists>m. queue_list (tsaQ (nv_priority c) (app_stk (PollVar a))) = queue_list (tsaQ (nv_priority c) (app_stk a)) @ [m] \<and>
    (\<forall>r. carries r m \<longrightarrow>
      (\<exists>m'. queue_list (tsaRespQ (app_stk (ProcessNV r b))) = queue_list (tsaRespQ (app_stk b)) @ [m'] \<and>
        tssReqId m' = aprReqId r \<and> \<not> tssNullResponse m' \<and>
        (\<forall>r'. aprApdu r' = tssApdu m' \<and> aprPduSize r' = tssApduSize m' \<and> aprService r' = tssService m' \<and>
            (aprAuth r' \<or> \<not> nv_authenticated (nv_entry (app_stk a') (nat p))) \<longrightarrow>
          nv_value (nd (ProcessNV r' a')) p = nv_value (nd b) p' \<and>
          (\<forall>q. nat q \<noteq> nat p \<longrightarrow> nv_value (nd (ProcessNV r' a')) q = nv_value (nd a') q) \<and>
          nvInDataStatus (ProcessNV r' a') = LonStatusNoError)))"
proof -
  obtain m where m: "queue_list (tsaQ (nv_priority c) (app_stk (PollVar a))) = queue_list (tsaQ (nv_priority c) (app_stk a)) @ [m]"
    "tssService m = IzotServiceRequest" "tssAuth m = nv_authenticated c" "tssApduSize m = 2"
    "tssApdu m = [0xC0 OR nv_selhigh c, dpSelectorLow c]"
    using PollVar_sends [OF assms(1-5)] by blast
  have "\<exists>m'. queue_list (tsaRespQ (app_stk (ProcessNV r b))) = queue_list (tsaRespQ (app_stk b)) @ [m'] \<and>
      tssReqId m' = aprReqId r \<and> \<not> tssNullResponse m' \<and> tssService m' = IzotServiceResponse \<and>
      tssApduSize m' = 2 + nv_length (nd b) p' \<and>
      tssApdu m' = (0x80 OR nv_selhigh c) # dpSelectorLow c # nv_value (nd b) p'" if r: "carries r m" for r
  proof -
    have "apdu_selector r = selector_of c" "apdu_dir r = IzotDatapointDirectionIsOutput" "aprPduSize r = 2"
      "aprService r = IzotServiceRequest" "apdu_code r AND 0x3F = nv_selhigh c" "apdu_data r 0 = dpSelectorLow c"
      using r m(2,4,5) by (simp_all add: carries_def selector_of_def nv_selhigh_and apdu_data_def
          IzotDatapointDirectionIsOutput_def)
    moreover have "aprAuth r \<or> \<not> nv_authenticated (nv_entry (app_stk b) j)"
      using r m(3) assms(7) by (auto simp: carries_def)
    ultimately show ?thesis
      using ProcessNVPoll_answers [of b r j p'] assms(6) by (simp add: ProcessNV_def) blast
  qed
  moreover have "nv_value (nd (ProcessNV r' a')) p = nv_value (nd b) p' \<and>
      (\<forall>q. nat q \<noteq> nat p \<longrightarrow> nv_value (nd (ProcessNV r' a')) q = nv_value (nd a') q) \<and>
      nvInDataStatus (ProcessNV r' a') = LonStatusNoError"
    if r': "aprApdu r' = (0x80 OR nv_selhigh c) # dpSelectorLow c # nv_value (nd b) p'"
      "aprPduSize r' = 2 + nv_length (nd b) p'" "aprService r' = IzotServiceResponse"
      "aprAuth r' \<or> \<not> nv_authenticated (nv_entry (app_stk a') (nat p))" for r'
  proof -
    have v: "length (nv_value (nd b) p') = nv_length (nd b) p'"
      using assms(6) by (simp add: answers_poll_def plain_variable_def)
    have apdu: "apdu_selector r' = selector_of c" "apdu_dir r' = IzotDatapointDirectionIsInput"
      "apdu_bytes r' 1 (nv_length (nd a') p) = nv_value (nd b) p'"
      using r' v assms(9)
      by (simp_all add: selector_of_def nv_selhigh_and apdu_data_def apdu_bytes_def
          IzotDatapointDirectionIsInput_def bytes_from_eq_take)
    have "ProcessNV r' a' = drop_appCe (update_variable r' p a')"
      using ProcessNVUpdate_takes [of a' r' p] apdu r' assms(8-10) by (simp add: ProcessNV_def)
    moreover have "plain_variable (nd a') p" using assms(8) by (simp add: takes_update_def)
    moreover have "nvInDataStatus (update_variable r' p a') = LonStatusNoError"
      using r'(3) by (simp add: update_variable_def notify_base_def Let_def split: sum.split)
    ultimately show ?thesis
      using update_variable_value [of a' p r' "nv_value (nd b) p'"] apdu(3) r' v assms(9) by (simp add: nv_value_def)
  qed
  ultimately show ?thesis using m(1) by (metis (no_types, lifting))
qed

theorem polled_value_comes_back_witness:
  "\<exists>m. queue_list (tsaOutQ (app_stk (PollVar (scheduledApp (nvNode 0) [0, -1])))) = [m] \<and>
    (\<forall>r. carries r m \<longrightarrow> length (queue_list (tsaRespQ (app_stk (ProcessNV r (sampleApp (nvNode 0x40)))))) = 1)"
proof -
  let ?a = "scheduledApp (nvNode 0) [0, -1]" and ?b = "sampleApp (nvNode 0x40)"
  have "next_poll 0 [-1] ?a"
    using nvNode_bound(1) by (simp add: next_poll_def queue_list_Put queueEntries_Put)
  moreover have "answers_poll (nd ?b) 0 0 0"
    using nvNode_matches(2) by (simp add: answers_poll_def poll_match_def)
  ultimately show ?thesis
    using polled_value_comes_back [of 0 "[-1]" ?a "zeroDatapoint\<lparr>dpSelhiDirPrio := 0\<rparr>" 0 ?b 0 0 "sampleApp (nvNode 0)"] nvNode_takes
    by (fastforce simp: tsaQ_def)
qed

section \<open>Messages of the application\<close>

lemma QueueTouch_fill:
  "queue_wf q \<Longrightarrow> QueueTouch f q = QueueFill (f (QueueDeref q (qtail q))) q"
  using queue_wf_valid [of q] by (auto simp: QueueTouch_def QueueFill_def QueueTail_def queue_wf_def)

lemma QueueTouch_touch [simp]:
  assumes "queue_wf q" shows "QueueTouch g (QueueTouch f q) = QueueTouch (\<lambda>x. g (f x)) q"
proof -
  let ?x = "f (QueueDeref q (qtail q))"
  obtain d where d: "qdata q = Some d" "length d = queueCapacity q" using assms by (auto simp: queue_wf_def)
  then have fill: "QueueFill ?x q = q\<lparr>qdata := Some (d[tailIndex q := ?x])\<rparr>" by (simp add: QueueFill_wf_eq [OF assms])
  have "QueueFill y (QueueFill ?x q) = QueueFill y q" for y
    using QueueFill_wf_eq [OF QueueFill_wf [OF assms, of ?x], of "d[tailIndex q := ?x]" y] QueueFill_wf_eq [OF assms d(1)]
    by (simp add: fill)
  moreover have "QueueDeref (QueueFill ?x q) (qtail (QueueFill ?x q)) = ?x"
    using assms d by (auto simp: QueueFill_wf_eq [OF assms d(1)] QueueDeref_def queue_wf_def)
  ultimately show ?thesis using assms by (simp add: QueueTouch_fill)
qed

lemma QueueWrite_touch: "queue_wf q \<Longrightarrow> QueueWrite (QueueTouch f q) = QueueEmit f q"
  by (simp add: QueueTouch_fill QueueEmit_eq_Put QueuePut_def)

text \<open>
  C22. A message with an explicit address reaches the transport layer: \<open>MsgSend\<close> queues it, and
  the next round of sending hands it over, with its address, service, tag, authentication and
  data, and leaves the queue of the application empty. No completion is reported before the
  transport layer has dealt with it.
\<close>

theorem message_reaches_the_transport_layer:
  assumes "m = msgOut a" and "pri = moPriorityOn m" and "\<not> moTag m <s 0"
    and "moService m \<in> {IzotServiceAcknowledged, IzotServiceRepeated, IzotServiceRequest}"
    and "moLen m + 1 \<le> appOutBufSize a" and "moLen m + 1 \<le> tsaOutBufSize (app_stk a)" and "saTypeSize (moAddr m) \<noteq> 0"
    and "queue_wf (appQ pri a)" and "queue_list (appQ pri a) = []" and "1 < queueCapacity (appQ pri a)"
    and "queue_wf (tsaQ pri (app_stk a))"
    and "queueEntries (tsaQ pri (app_stk a)) + 1 < queueCapacity (tsaQ pri (app_stk a))"
  shows "\<exists>e. queue_list (tsaQ pri (app_stk (send_queued pri (MsgSend a)))) = queue_list (tsaQ pri (app_stk a)) @ [e] \<and>
    queue_list (appQ pri (send_queued pri (MsgSend a))) = [] \<and>
    completions (send_queued pri (MsgSend a)) = completions a \<and>
    tssDestAddr e = moAddr m \<and> tssService e = moService m \<and> tssTag e = moTag m \<and>
    tssAuth e = moAuthenticated m \<and> tssPriority e = pri \<and> tssApduSize e = moLen m + 1 \<and>
    tssApdu e = moCode m # bytes_from (moData m) 0 (moLen m)"
proof -
  let ?q = "appQ pri a" and ?t = "tsaQ pri (app_stk a)"
  let ?e = "msg_entry m (QueueDeref ?q (qtail ?q))"
  let ?p = "?e\<lparr>apsApdu := hd (apsApdu ?e) # bytes_from (moData m) 0 (moLen m)\<rparr>"
  have empty: "queueEntries ?q = 0" using assms(9) by (simp add: queue_list_Nil_iff)
  have e: "apsTag ?p = moTag m" "apsLen ?p = moLen m" "apsAddr ?p = moAddr m" "apsService ?p = moService m"
    "apsAuthenticated ?p = moAuthenticated m" "apsApdu ?p = moCode m # bytes_from (moData m) 0 (moLen m)"
    by (simp_all add: msg_entry_def)
  have "MsgSend a = ReinitMsgOut (set_appQ pri (QueueEmit (\<lambda>x. let y = msg_entry m x in
      y\<lparr>apsApdu := hd (apsApdu y) # bytes_from (moData m) 0 (moLen m)\<rparr>) ?q) a)" (is "_ = ReinitMsgOut (set_appQ pri ?q' a)")
    using assms(1-5,7,8) by (auto simp: MsgSend_def Let_def QueueWrite_touch)
  moreover have q': "queue_wf ?q'" "queue_list ?q' = [?p]"
    using assms(8-10) empty by (simp_all add: queue_list_Emit Let_def)
  ultimately obtain b where b: "MsgSend a = b" "appQ pri b = ?q'" "nd b = nd a" "completions b = completions a"
    by (simp add: ReinitMsgOut_def appQ_def set_appQ_def split: if_splits)
  let ?m = "\<lambda>x. (tsa_message pri ?p x)\<lparr>tssApdu := bytes_from (apsApdu ?p) 0 (apsLen ?p + 1)\<rparr>"
  let ?d = "on_stk (\<lambda>s. set_tsaQ pri (QueueEmit ?m (tsaQ pri s)) s) b"
  have "TryMsgSend pri ?p b = (LonStatusNoError, ?d)"
    using assms(4,6,7,11) by (auto simp: TryMsgSend_def Let_def e b)
  then have "send_queued pri b = set_appQ pri (QueueDropHead (appQ pri ?d)) ?d"
    using q' by (simp add: send_queued_def b QueueHead_eq)
  moreover have "appQ pri ?d = appQ pri b" by (simp add: appQ_def)
  ultimately have s: "send_queued pri (MsgSend a) = set_appQ pri (QueueDropHead ?q') ?d" by (simp add: b(1,2))
  obtain x where t: "queue_list (tsaQ pri (app_stk ?d)) = queue_list ?t @ [x]" "x = ?m (QueueDeref ?t (qtail ?t))"
    using assms(11,12) by (simp add: b(3) queue_list_Emit)
  have len: "bytes_from (moCode m # bytes_from (moData m) 0 (moLen m)) 0 (moLen m + 1) =
      moCode m # bytes_from (moData m) 0 (moLen m)" by (simp add: bytes_from_eq_take)
  have x: "tssDestAddr x = moAddr m" "tssService x = moService m" "tssTag x = moTag m"
    "tssAuth x = moAuthenticated m" "tssPriority x = pri" "tssApduSize x = moLen m + 1"
    "tssApdu x = moCode m # bytes_from (moData m) 0 (moLen m)"
    using len by (simp_all add: t(2) tsa_message_def e)
  have f: "completions (set_appQ p q ?d) = completions a" "nd (set_appQ p q ?d) = nd ?d" for p q
    by (simp_all add: set_appQ_def b(4))
  have "queue_list (QueueDropHead ?q') = []" using q' by simp
  with t(1) x f s show ?thesis by (intro exI [of _ x]) (simp only: f appQ_set if_True simp_thms)
qed

theorem message_reaches_the_transport_layer_witness:
  "\<exists>e. queue_list (tsaOutQ (app_stk (send_queued False (MsgSend (sampleApp (nvNode 0)))))) = [e] \<and>
    tssApdu e = [0x21, 1, 2] \<and> tssTag e = 5"
proof -
  let ?a = "sampleApp (nvNode 0)"
  have m: "\<not> moPriorityOn (msgOut ?a)" "moTag (msgOut ?a) = 5" "moLen (msgOut ?a) = 2" "moCode (msgOut ?a) = 0x21"
    "moData (msgOut ?a) = [1, 2]" "moService (msgOut ?a) = IzotServiceAcknowledged" "saTypeSize (moAddr (msgOut ?a)) \<noteq> 0"
    by (simp_all add: sampleApp_def sampleSendAddress_def)
  have "\<not> (5 :: u16) <s 0" by (simp add: word_sless_alt)
  then show ?thesis
    using message_reaches_the_transport_layer [of "msgOut ?a" ?a False] m
    by (fastforce simp: appQ_def tsaQ_def bytes_from_eq_take)
qed

section \<open>The end of a propagation\<close>

lemma update_tag:
  assumes "0 \<le> p" "p < 0x2000"
  shows "GET_NV_UPDATE_TAG p <s 0" "GET_NV_UPDATE_TAG p \<noteq> MANUAL_SERVICE_REQ_TAG_VALUE"
    "\<not> NV_POLL_TAG (GET_NV_UPDATE_TAG p)" "\<not> NV_LAST_TAG (GET_NV_UPDATE_TAG p)"
    "NV_INDEX_OF_TAG (GET_NV_UPDATE_TAG p) = p"
proof -
  define w where "w = (word_of_int p :: u16)"
  have u: "uint w = p" using assms by (simp add: w_def uint_word_of_int_eq take_bit_int_eq_self)
  have "w = take_bit 13 w" using assms u by (intro word_uint_eqI) (simp add: unsigned_take_bit_eq take_bit_int_eq_self)
  then have w: "w = w AND 0x1FFF" by (simp add: take_bit_eq_mask mask_eq_exp_minus_1)
  have tag: "GET_NV_UPDATE_TAG p = 0xC000 OR (w AND 0x1FFF)" using w by (simp add: GET_NV_UPDATE_TAG_def w_def)
  have d: "(y OR w AND 0x1FFF) AND m = (y AND m) OR (w AND (0x1FFF AND m))" for y m
    by (simp add: bit.conj_disj_distrib2 and.assoc)
  show "\<not> NV_POLL_TAG (GET_NV_UPDATE_TAG p)" by (simp add: tag NV_POLL_TAG_def d)
  show "\<not> NV_LAST_TAG (GET_NV_UPDATE_TAG p)" by (simp add: tag NV_LAST_TAG_def d)
  then show "GET_NV_UPDATE_TAG p \<noteq> MANUAL_SERVICE_REQ_TAG_VALUE"
    by (auto simp: MANUAL_SERVICE_REQ_TAG_VALUE_def NV_LAST_TAG_def)
  have "GET_NV_UPDATE_TAG p AND 0x1FFF = w AND 0x1FFF" by (simp add: tag d)
  then have "GET_NV_UPDATE_TAG p AND 0x1FFF = w" using w by metis
  then show "NV_INDEX_OF_TAG (GET_NV_UPDATE_TAG p) = p" by (simp add: NV_INDEX_OF_TAG_def u)
  have "bit (0xC000 :: u16) 15" by simp
  then have "bit (GET_NV_UPDATE_TAG p) 15" by (simp add: tag bit_or_iff)
  then show "GET_NV_UPDATE_TAG p <s 0" using bit_last_iff [of "GET_NV_UPDATE_TAG p"] by (simp add: word_sless_alt)
qed

text \<open>
  One update at a time: the layer sends, the layers below complete the transaction of the
  message with an outcome, and the layer takes the completion.
\<close>

definition settle :: "bool \<Rightarrow> bool \<Rightarrow> app \<Rightarrow> app" where
  "settle pri ok = on_stk (\<lambda>s. SendCompletion (hd (queue_list (tsaQ pri s))) ok s)"

definition round :: "bool \<Rightarrow> bool \<Rightarrow> app \<Rightarrow> app" where
  "round pri ok a = APPRspReceive (settle pri ok (SendVar a))"

fun rounds :: "(int \<times> bool) list \<Rightarrow> app \<Rightarrow> app" where
  "rounds [] a = a"
| "rounds ((i, ok) # xs) a = rounds xs (round (nv_priority (nv_entry (app_stk a) (nat i))) ok a)"

definition free_queue :: "'a Queue \<Rightarrow> bool" where
  "free_queue q \<longleftrightarrow> queue_wf q \<and> queue_list q = [] \<and> 1 < queueCapacity q"

lemma free_queue_cycle:
  assumes "free_queue q"
  shows "queue_list (QueueEmit f q) = [f (QueueDeref q (qtail q))]" "queue_wf (QueueEmit f q)"
    "free_queue (QueueDropHead (QueueEmit f q))" "free_queue (QueueDropHead (QueuePokeHead g (QueueEmit f q)))"
proof -
  have n: "queueEntries q = 0" "queue_wf q" "1 < queueCapacity q" "queue_list q = []"
    using assms by (auto simp: free_queue_def queue_list_Nil_iff)
  show e: "queue_list (QueueEmit f q) = [f (QueueDeref q (qtail q))]" using n by (simp add: queue_list_Emit)
  show "queue_wf (QueueEmit f q)" using n by simp
  then show "free_queue (QueueDropHead (QueueEmit f q))"
    "free_queue (QueueDropHead (QueuePokeHead g (QueueEmit f q)))"
    using n e by (simp_all add: free_queue_def queue_list_PokeHead)
qed

definition idle :: "app \<Rightarrow> bool" where
  "idle a \<longleftrightarrow> nvOutCanSchedule a \<and> queue_wf (nvOutIndexQ a) \<and> free_queue (tsaOutQ (app_stk a)) \<and>
     free_queue (tsaOutPriQ (app_stk a)) \<and> free_queue (appCeRspInQ (app_stk a)) \<and>
     IZOT_READONLY_NODE_STATE (readOnlyData (app_stk a)) \<noteq> IzotApplicationUnconfig"

text \<open>An entry of the tables over which updates of a primary leave the node.\<close>

definition sends_update :: "node \<Rightarrow> int \<Rightarrow> int \<Rightarrow> bool" where
  "sends_update n p i \<longleftrightarrow>
     (let s = stk n; c = nv_entry s (nat i)
      in 0 \<le> i \<and> GetPrimaryIndex s i = p \<and> \<not> turnAroundOnly n c \<and> \<not> nv_turnaround c \<and>
         nv_service c \<in> {IzotServiceAcknowledged, IzotServiceRepeated} \<and>
         nv_length n p + 2 \<le> nv_buf_size (nv_priority c) (nv_service c) s \<and>
         AccessAddress s (addr_index c) \<noteq> None)"

definition with_queues ::
    "TSASendParam Queue \<Rightarrow> TSASendParam Queue \<Rightarrow> APPReceiveParam Queue \<Rightarrow> node \<Rightarrow> node" where
  "with_queues q1 q2 q3 = on_stack (\<lambda>s. s\<lparr>tsaOutQ := q1, tsaOutPriQ := q2, appCeRspInQ := q3\<rparr>)"

lemma with_queues_twice [simp]:
  "with_queues q1 q2 q3 (with_queues r1 r2 r3 n) = with_queues q1 q2 q3 n"
  by (simp add: with_queues_def on_stack_def)

lemma with_queues_tables [simp]:
  "nv_entry (stk (with_queues q1 q2 q3 n)) = nv_entry (stk n)"
  "GetPrimaryIndex (stk (with_queues q1 q2 q3 n)) = GetPrimaryIndex (stk n)"
  "sends_update (with_queues q1 q2 q3 n) = sends_update n"
  "plain_variable (with_queues q1 q2 q3 n) = plain_variable n"
  "AppPgmRuns (stk (with_queues q1 q2 q3 n)) = AppPgmRuns (stk n)"
proof -
  have e: "nv_entry (stk (with_queues q1 q2 q3 n)) = nv_entry (stk n)"
    "GetPrimaryIndex (stk (with_queues q1 q2 q3 n)) = GetPrimaryIndex (stk n)"
    by (auto simp: fun_eq_iff nv_entry_def with_queues_def GetPrimaryIndex_def GetNVStructPtr_def)
  have "eep_image (with_queues q1 q2 q3 n) = eep_image n"
    by (simp add: with_queues_def on_stack_def eep_image_def readOnly_bytes_def config_bytes_def tail_bytes_def Let_def Config_1_def)
  then have t: "turnAroundOnly (with_queues q1 q2 q3 n) = turnAroundOnly n"
    by (simp add: fun_eq_iff turnAroundOnly_def addr_entry_def)
  have l: "nv_length (with_queues q1 q2 q3 n) = nv_length n" "nv_buf_size p v (stk (with_queues q1 q2 q3 n)) = nv_buf_size p v (stk n)"
    "AccessAddress (stk (with_queues q1 q2 q3 n)) = AccessAddress (stk n)" for p v
    by (auto simp: fun_eq_iff nv_length_def nv_buf_size_def AccessAddress_def with_queues_def on_stack_def)
  show "nv_entry (stk (with_queues q1 q2 q3 n)) = nv_entry (stk n)"
    "GetPrimaryIndex (stk (with_queues q1 q2 q3 n)) = GetPrimaryIndex (stk n)" by (fact e)+
  show "sends_update (with_queues q1 q2 q3 n) = sends_update n"
    by (simp add: fun_eq_iff sends_update_def Let_def e t l)
  show "plain_variable (with_queues q1 q2 q3 n) = plain_variable n"
    using l(1) by (simp add: fun_eq_iff plain_variable_def nv_value_def with_queues_def on_stack_def)
  show "AppPgmRuns (stk (with_queues q1 q2 q3 n)) = AppPgmRuns (stk n)"
    by (simp add: AppPgmRuns_def NodeConfigured_def with_queues_def)
qed

lemma round_update:
  assumes "idle a" and "queue_list (nvOutIndexQ a) = i # is" and "sends_update (nd a) p i"
    and "plain_variable (nd a) p" and "p < 0x2000"
  shows "\<exists>q1 q2 q3 q. round (nv_priority (nv_entry (app_stk a) (nat i))) ok a =
      a\<lparr>nd := with_queues q1 q2 q3 (nd a), nvOutIndexQ := q, nvOutIndex := p,
        nvOutStatus := (if ok then nvOutStatus a else LonStatusInvalidOperation)\<rparr> \<and>
    free_queue q1 \<and> free_queue q2 \<and> free_queue q3 \<and> queue_wf q \<and> queue_list q = is"
proof -
  let ?c = "nv_entry (app_stk a) (nat i)"
  let ?pri = "nv_priority ?c"
  let ?t = "tsaQ ?pri (app_stk a)" and ?r = "appCeRspInQ (app_stk a)" and ?q = "QueueDropHead (nvOutIndexQ a)"
  have nxt: "next_update i is a"
    using assms(1-4) by (auto simp: next_update_def idle_def sends_update_def plain_variable_def free_queue_def Let_def)
  have t: "free_queue ?t" "free_queue ?r" using assms(1) by (auto simp: idle_def tsaQ_def)
  then have room: "queueEntries ?t + 1 < queueCapacity ?t" by (simp add: free_queue_def queue_list_Nil_iff)
  have p: "p = GetPrimaryIndex (app_stk a) i" "0 \<le> p"
    using assms(3,4) by (simp_all add: sends_update_def plain_variable_def Let_def)
  obtain m where m: "SendVar a = on_stk (\<lambda>s. set_tsaQ ?pri (QueueEmit (\<lambda>_. m) (tsaQ ?pri s)) s)
      (drop_nvOut (a\<lparr>nvOutCanSchedule := False\<rparr>))" "tssTag m = GET_NV_UPDATE_TAG p" "tssPriority m = ?pri"
    using SendVar_sends [OF nxt refl p(1) room] assms(3,4) p by (auto simp: sends_update_def Let_def)
  let ?e = "\<lambda>r. r\<lparr>aprIndication := COMPLETION, aprSuccess := ok, aprTag := tssTag m, aprProxy := tssProxy m,
      aprProxyCount := tssProxyCount m, aprProxyDone := tssProxyDone m\<rparr>"
  let ?x = "QueueEmit ?e ?r" and ?y = "QueueDropHead (QueuePokeHead (\<lambda>r. r\<lparr>tssProxy := False\<rparr>) (QueueEmit (\<lambda>_. m) ?t))"
  let ?b = "a\<lparr>nd := on_stack (\<lambda>s. set_tsaQ ?pri ?y (s\<lparr>appCeRspInQ := ?x\<rparr>)) (nd a),
      nvOutIndexQ := ?q, nvOutCanSchedule := False\<rparr>"
  have emit: "queue_list (QueueEmit (\<lambda>_. m) ?t) = [m]" using free_queue_cycle(1) [OF t(1)] by simp
  have "\<not> QueueFull ?r" using t(2) by (simp add: free_queue_def)
  then have "SendCompletion m ok (set_tsaQ ?pri (QueueEmit (\<lambda>_. m) ?t) (app_stk a)) =
      set_tsaQ ?pri ?y ((app_stk a)\<lparr>appCeRspInQ := ?x\<rparr>)"
    by (simp add: SendCompletion_def Let_def m(3) tsaQ_def set_tsaQ_def)
  then have s: "settle ?pri ok (SendVar a) = ?b"
    using emit by (simp add: settle_def m(1) drop_nvOut_def on_node_def on_stack_def)
  let ?h = "?e (QueueDeref ?r (qtail ?r))"
  have x: "queue_list ?x = [?h]" "queue_wf ?x" "free_queue (QueueDropHead ?x)"
    using free_queue_cycle(1,2,3) [OF t(2), of ?e] by simp_all
  have "APPRspReceive ?b = HandleMsgCompletion ?h ?b"
    using x by (simp add: APPRspReceive_def QueueHead_eq)
  also have "\<dots> = drop_appCe (update_completed (GET_NV_UPDATE_TAG p) ok ?b)"
    using update_tag [OF p(2) assms(5)] by (simp add: HandleMsgCompletion_def m(2))
  also have "\<dots> = a\<lparr>nd := on_stack (\<lambda>s. set_tsaQ ?pri ?y (s\<lparr>appCeRspInQ := QueueDropHead ?x\<rparr>)) (nd a),
      nvOutIndexQ := ?q, nvOutIndex := p,
      nvOutStatus := (if ok then nvOutStatus a else LonStatusInvalidOperation)\<rparr>"
    using update_tag [OF p(2) assms(5)] assms(1)
    by (simp add: update_completed_def drop_appCe_def on_node_def on_stack_def set_tsaQ_def idle_def)
  finally have r: "round ?pri ok a = \<dots>" by (simp add: round_def s)
  let ?q1 = "if ?pri then tsaOutQ (app_stk a) else ?y" and ?q2 = "if ?pri then ?y else tsaOutPriQ (app_stk a)"
  have "on_stack (\<lambda>s. set_tsaQ ?pri ?y (s\<lparr>appCeRspInQ := QueueDropHead ?x\<rparr>)) (nd a) =
      with_queues ?q1 ?q2 (QueueDropHead ?x) (nd a)"
    by (simp add: with_queues_def on_stack_def set_tsaQ_def)
  moreover have "free_queue ?y" using free_queue_cycle(4) [OF t(1)] .
  moreover have "queue_wf ?q" "queue_list ?q = is" using assms(1,2) by (simp_all add: idle_def)
  ultimately show ?thesis
    using r x(3) assms(1) by (intro exI [of _ ?q1] exI [of _ ?q2] exI [of _ "QueueDropHead ?x"] exI [of _ ?q]) (auto simp: idle_def)
qed

lemma with_queues_self:
  "with_queues (tsaOutQ (stk n)) (tsaOutPriQ (stk n)) (appCeRspInQ (stk n)) n = n"
  by (simp add: with_queues_def on_stack_def)

lemma idle_with_queues:
  "idle a \<Longrightarrow> free_queue q1 \<Longrightarrow> free_queue q2 \<Longrightarrow> free_queue q3 \<Longrightarrow> queue_wf q \<Longrightarrow>
   idle (a\<lparr>nd := with_queues q1 q2 q3 (nd a), nvOutIndexQ := q, nvOutIndex := p, nvOutStatus := st\<rparr>)"
  by (simp add: idle_def with_queues_def)

lemma rounds_update:
  assumes "idle a" and "queue_list (nvOutIndexQ a) = map fst xs @ is" and "list_all (\<lambda>x. sends_update (nd a) p (fst x)) xs"
    and "plain_variable (nd a) p" and "p < 0x2000"
  shows "\<exists>q1 q2 q3 q. rounds xs a = a\<lparr>nd := with_queues q1 q2 q3 (nd a), nvOutIndexQ := q,
        nvOutIndex := (if xs = [] then nvOutIndex a else p),
        nvOutStatus := (if list_all snd xs then nvOutStatus a else LonStatusInvalidOperation)\<rparr> \<and>
    free_queue q1 \<and> free_queue q2 \<and> free_queue q3 \<and> queue_wf q \<and> queue_list q = is"
  using assms
proof (induction xs arbitrary: a)
  case Nil
  then show ?case
    by (intro exI [of _ "tsaOutQ (app_stk a)"] exI [of _ "tsaOutPriQ (app_stk a)"] exI [of _ "appCeRspInQ (app_stk a)"]
        exI [of _ "nvOutIndexQ a"]) (simp add: with_queues_self idle_def)
next
  case (Cons x xs)
  obtain i ok where x: "x = (i, ok)" by (cases x)
  obtain q1 q2 q3 q where r: "round (nv_priority (nv_entry (app_stk a) (nat i))) ok a =
      a\<lparr>nd := with_queues q1 q2 q3 (nd a), nvOutIndexQ := q, nvOutIndex := p,
        nvOutStatus := (if ok then nvOutStatus a else LonStatusInvalidOperation)\<rparr>"
    "free_queue q1" "free_queue q2" "free_queue q3" "queue_wf q" "queue_list q = map fst xs @ is"
    using round_update [of a i "map fst xs @ is" p ok] Cons.prems by (auto simp: x)
  let ?b = "a\<lparr>nd := with_queues q1 q2 q3 (nd a), nvOutIndexQ := q, nvOutIndex := p,
        nvOutStatus := (if ok then nvOutStatus a else LonStatusInvalidOperation)\<rparr>"
  have "idle ?b" using idle_with_queues [of a q1 q2 q3 q] Cons.prems(1) r by simp
  then obtain r1 r2 r3 t where c: "rounds xs ?b = ?b\<lparr>nd := with_queues r1 r2 r3 (nd ?b), nvOutIndexQ := t,
        nvOutIndex := (if xs = [] then nvOutIndex ?b else p),
        nvOutStatus := (if list_all snd xs then nvOutStatus ?b else LonStatusInvalidOperation)\<rparr>"
    "free_queue r1" "free_queue r2" "free_queue r3" "queue_wf t" "queue_list t = is"
    using Cons.IH [of ?b] Cons.prems(3-5) r by (auto simp: x)
  have "rounds (x # xs) a = a\<lparr>nd := with_queues r1 r2 r3 (nd a), nvOutIndexQ := t, nvOutIndex := p,
      nvOutStatus := (if list_all snd (x # xs) then nvOutStatus a else LonStatusInvalidOperation)\<rparr>"
    using c(1) by (simp add: x r(1))
  then show ?case using c(2-6) by (intro exI [of _ r1] exI [of _ r2] exI [of _ r3] exI [of _ t]) simp
qed

lemma round_end:
  assumes "idle a" and "queue_list (nvOutIndexQ a) = [-1]"
  shows "\<exists>q1 q2 q3 q. round False ok a =
      a\<lparr>nd := with_queues q1 q2 q3 (nd a), nvOutIndexQ := q, nvArrayIndex := nvOutIndex a - base_index (nvOutIndex a) a,
        nvOutStatus := LonStatusNoError,
        completions := completions a @ (if AppPgmRuns (app_stk a)
          then [DatapointUpdateCompleted (base_index (nvOutIndex a) a) (nvOutStatus a \<noteq> LonStatusNoError)] else [])\<rparr> \<and>
    free_queue q1 \<and> free_queue q2 \<and> free_queue q3 \<and> queue_wf q \<and> queue_list q = []"
proof -
  let ?t = "tsaOutQ (app_stk a)" and ?r = "appCeRspInQ (app_stk a)" and ?q = "QueueDropHead (nvOutIndexQ a)"
  have t: "free_queue ?t" "free_queue ?r" using assms(1) by (auto simp: idle_def)
  define m where "m = (end_message NV_UPDATE_LAST_TAG_VALUE (QueueDeref ?t (qtail ?t)))\<lparr>tssPriority := False\<rparr>"
  have m: "tssTag m = NV_UPDATE_LAST_TAG_VALUE" "\<not> tssPriority m" by (simp_all add: m_def end_message_def)
  let ?z = "QueueEmit (\<lambda>p. (end_message NV_UPDATE_LAST_TAG_VALUE p)\<lparr>tssPriority := False\<rparr>) ?t"
  have z: "queue_list ?z = [m]" using free_queue_cycle(1) [OF t(1)] by (simp add: m_def)
  have sv: "SendVar a = drop_nvOut ((on_stk (\<lambda>s. s\<lparr>tsaOutQ := ?z\<rparr>) a)\<lparr>nvOutCanSchedule := False\<rparr>)"
    using assms t by (auto simp: SendVar_def idle_def QueueHead_eq send_end_def free_queue_def on_node_def on_stack_def)
  let ?e = "\<lambda>r. r\<lparr>aprIndication := COMPLETION, aprSuccess := ok, aprTag := tssTag m, aprProxy := tssProxy m,
      aprProxyCount := tssProxyCount m, aprProxyDone := tssProxyDone m\<rparr>"
  let ?x = "QueueEmit ?e ?r" and ?y = "QueueDropHead (QueuePokeHead (\<lambda>r. r\<lparr>tssProxy := False\<rparr>) ?z)"
  let ?b = "a\<lparr>nd := with_queues ?y (tsaOutPriQ (app_stk a)) ?x (nd a), nvOutIndexQ := ?q, nvOutCanSchedule := False\<rparr>"
  have "\<not> QueueFull ?r" using t(2) by (simp add: free_queue_def)
  then have s: "settle False ok (SendVar a) = ?b"
    using z m by (simp add: settle_def sv drop_nvOut_def SendCompletion_def Let_def tsaQ_def set_tsaQ_def with_queues_def
        on_node_def on_stack_def)
  let ?h = "?e (QueueDeref ?r (qtail ?r))"
  have x: "queue_list ?x = [?h]" "queue_wf ?x" "free_queue (QueueDropHead ?x)"
    using free_queue_cycle(1,2,3) [OF t(2), of ?e] by simp_all
  have tag: "NV_UPDATE_LAST_TAG_VALUE <s 0" "NV_UPDATE_LAST_TAG_VALUE \<noteq> MANUAL_SERVICE_REQ_TAG_VALUE"
    "\<not> NV_POLL_TAG NV_UPDATE_LAST_TAG_VALUE" "NV_LAST_TAG NV_UPDATE_LAST_TAG_VALUE"
    by (simp_all add: NV_UPDATE_LAST_TAG_VALUE_def MANUAL_SERVICE_REQ_TAG_VALUE_def NV_POLL_TAG_def NV_LAST_TAG_def
        word_sless_alt)
  have qs: "appCeRspInQ (stk (with_queues q1 q2 q3 n)) = q3" "nvTableSize (stk (with_queues q1 q2 q3 n)) = nvTableSize (stk n)"
    for q1 q2 q3 n by (simp_all add: with_queues_def)
  have "APPRspReceive ?b = HandleMsgCompletion ?h ?b"
    using x by (simp add: APPRspReceive_def QueueHead_eq qs)
  also have "\<dots> = drop_appCe (update_completed NV_UPDATE_LAST_TAG_VALUE ok ?b)"
    using tag by (simp add: HandleMsgCompletion_def m)
  also have "\<dots> = a\<lparr>nd := with_queues ?y (tsaOutPriQ (app_stk a)) (QueueDropHead ?x) (nd a), nvOutIndexQ := ?q,
      nvArrayIndex := nvOutIndex a - base_index (nvOutIndex a) a, nvOutStatus := LonStatusNoError,
      completions := completions a @ (if AppPgmRuns (app_stk a)
          then [DatapointUpdateCompleted (base_index (nvOutIndex a) a) (nvOutStatus a \<noteq> LonStatusNoError)] else [])\<rparr>"
    using tag(4) assms(1)
    by (simp add: update_completed_def Let_def IsArrayNV_def qs idle_def drop_appCe_def on_node_def IzotDatapointUpdateCompleted_def)
      (simp add: with_queues_def on_stack_def)
  finally have r: "round False ok a = \<dots>" by (simp add: round_def s)
  have "free_queue ?y" using free_queue_cycle(4) [OF t(1)] .
  moreover have "queue_wf ?q" "queue_list ?q = []" using assms by (simp_all add: idle_def)
  ultimately show ?thesis using r x(3) assms(1)
    by (intro exI [of _ ?y] exI [of _ "tsaOutPriQ (app_stk a)"] exI [of _ "QueueDropHead ?x"] exI [of _ ?q]) (auto simp: idle_def)
qed

text \<open>
  C9. A propagation is completed: when a variable's primary and aliases are scheduled, one
  round for each of them, whatever the outcomes of their transactions, and one for the end mark
  empty the queue, and exactly one completion is reported, for the base index of the variable.
  Its flag, which the application reads as success, is set when a transaction has failed.
\<close>

theorem propagation_is_completed:
  assumes "idle a" and "queue_list (nvOutIndexQ a) = map fst xs @ [-1]" and "xs \<noteq> []"
    and "list_all (\<lambda>x. sends_update (nd a) p (fst x)) xs" and "plain_variable (nd a) p" and "p < 0x2000"
    and "nvOutStatus a = LonStatusNoError" and "AppPgmRuns (app_stk a)"
  shows "let b = round False ok (rounds xs a)
    in completions b = completions a @ [DatapointUpdateCompleted (base_index p a) (\<not> list_all snd xs)] \<and>
       queue_list (nvOutIndexQ b) = [] \<and> nvOutCanSchedule b \<and> nvOutStatus b = LonStatusNoError"
proof -
  obtain q1 q2 q3 q where r: "rounds xs a = a\<lparr>nd := with_queues q1 q2 q3 (nd a), nvOutIndexQ := q, nvOutIndex := p,
      nvOutStatus := (if list_all snd xs then nvOutStatus a else LonStatusInvalidOperation)\<rparr>"
    "free_queue q1" "free_queue q2" "free_queue q3" "queue_wf q" "queue_list q = [-1]"
    using rounds_update [OF assms(1,2,4-6)] assms(3) by auto
  have "idle (rounds xs a)" using idle_with_queues [OF assms(1) r(2-5)] by (simp add: r(1))
  moreover have "queue_list (nvOutIndexQ (rounds xs a)) = [-1]" using r(6) by (simp add: r(1))
  ultimately obtain b where b: "round False ok (rounds xs a) = b" "queue_list (nvOutIndexQ b) = []"
    "nvOutCanSchedule b = nvOutCanSchedule (rounds xs a)" "nvOutStatus b = LonStatusNoError"
    "completions b = completions (rounds xs a) @ (if AppPgmRuns (app_stk (rounds xs a))
      then [DatapointUpdateCompleted (base_index p (rounds xs a)) (nvOutStatus (rounds xs a) \<noteq> LonStatusNoError)] else [])"
    using round_end [of "rounds xs a" ok] by (auto simp: r(1))
  have "base_index p (rounds xs a) = base_index p a" by (simp add: r(1) IsArrayNV_def with_queues_def)
  then show ?thesis using b assms(1,7,8) by (simp add: r(1) idle_def)
qed

theorem propagation_is_completed_witness:
  "completions (round False True (rounds [(0, False)] (scheduledApp (nvNode 0x40) [0, -1]))) =
    [DatapointUpdateCompleted 0 True]"
proof -
  let ?a = "scheduledApp (nvNode 0x40) [0, -1]"
  have "idle ?a" by (simp add: idle_def free_queue_def)
  moreover have "sends_update (nvNode 0x40) 0 0"
    using nvNode_bound(1) [of "0x40"] by (simp add: sends_update_def Let_def nv_buf_size_def)
  moreover have "queue_list (nvOutIndexQ ?a) = [0, -1]" by (simp add: queue_list_Put queueEntries_Put)
  ultimately show ?thesis
    using propagation_is_completed [of ?a "[(0, False)]" 0 True] by (simp add: Let_def IsArrayNV_def)
qed

end
