(* ===== verification/Spec2Isabelle.thy ===== *)
theory Spec2Isabelle
  imports Lcs_Ring Lcs_Tsa_Auth Lcs_Link Lcs_Nm_Properties Lon_Persistence_Properties Lcs_App_Exchange
begin

text \<open>
  A verification library for the LON Stack DX: an EN 14908 protocol stack in C for a host that
  reaches the LON channel over a USB network interface. Every name in this library is the name
  of the C function, structure or macro it stands for, unless it clashes with one of HOL.

  \<^bold>\<open>The program.\<close> The stack is a column of layers, each with a function that sends and one that
  receives, called in turn by a scheduler (\<^verbatim>\<open>lcs/lcs.c\<close>). They share one structure,
  \<open>ProtocolStackData\<close>, and meet in fixed-size queues: a layer takes the entry at the head of one
  queue and forms an entry at the tail of another. From above: the application layer
  (\<^verbatim>\<open>lcs/lcs_app.c\<close>) with network management (\<^verbatim>\<open>lcs/lcs_netmgmt.c\<close>); the transport, session and
  authentication layers (\<^verbatim>\<open>lcs/lcs_tsa.c\<close>) over transaction control (\<^verbatim>\<open>lcs/lcs_tcs.c\<close>); the network
  layer (\<^verbatim>\<open>lcs/lcs_network.c\<close>); the link layer (\<^verbatim>\<open>lcs/lcs_link.c\<close>) over the USB driver
  (\<^verbatim>\<open>lon_usb/lon_usb_link.c\<close>). Beside them, the configuration is kept in the structure \<open>EEPROM\<close>,
  with a checksum, and stored in files by \<^verbatim>\<open>persistence/\<close> and \<^verbatim>\<open>abstraction/IzotHal.c\<close>.

  \<^bold>\<open>Theories.\<close>
  \<^item> \<open>Prelude\<close>: bytes and words, status codes, attribute macros, list and modulo lemmas.
  \<^item> \<open>Lcs_Timer\<close>, \<open>Lcs_Queue\<close>, \<open>Lcs_Ring\<close>: \<^verbatim>\<open>lcs_timer.c\<close> and \<^verbatim>\<open>lcs_queue.c\<close>, the latter in two
    theories (entry queues and byte rings); the interface of both is the locale \<open>bounded_fifo\<close>,
    interpreted on each.
  \<^item> \<open>Lon_Types\<close>, \<open>Sample_Stack\<close>: the data of the layers and the record \<open>stack\<close>, the part of
    \<open>ProtocolStackData\<close>, \<open>EEPROM\<close> and \<open>NmMap\<close> that the layers below the application use; a
    concrete stack for the examples.
  \<^item> \<open>Lcs_Node\<close>: \<^verbatim>\<open>lcs_node.c\<close>, tables, buffer codes, statistics.
  \<^item> \<open>Lcs_Tcs\<close>: \<^verbatim>\<open>lcs_tcs.c\<close>, transaction identifiers; the locale \<open>tid_allocator\<close> is the contract
    (two consecutive transactions with a destination have different identifiers).
  \<^item> \<open>Lcs_Tsa\<close>, \<open>Lcs_Tsa_Send\<close>, \<open>Lcs_Tsa_Answer\<close>, \<open>Lcs_Tsa_Receive\<close>, \<open>Lcs_Tsa_Exchange\<close>,
    \<open>Lcs_Encrypt\<close>, \<open>Lcs_Tsa_Auth\<close>: \<^verbatim>\<open>lcs_tsa.c\<close>, by direction; the invariant \<open>tsa_inv\<close>, the exchange
    between two nodes, the computation of challenges and replies, authentication.
  \<^item> \<open>Lcs_Network\<close>, \<open>Lcs_Link\<close>: \<^verbatim>\<open>lcs_network.c\<close> and \<^verbatim>\<open>lcs_link.c\<close>.
  \<^item> \<open>Lon_Usb_Link\<close> (frames, checksums, downlink), \<open>Lon_Usb_Uplink\<close> (the byte parser),
    \<open>Lon_Usb_Parser\<close> (what it guarantees for any bytes), \<open>Lon_Usb_Exchange\<close> (a message
    over the line), \<open>Lon_Usb_Startup\<close> (the state machine), \<open>Lon_Usb_Ready\<close> (reachable states, with
    the locale \<open>link_invariant\<close>): \<^verbatim>\<open>lon_usb_link.c\<close>.
  \<^item> \<open>Lcs_Eeprom\<close>: the record \<open>node\<close>, which is the stack with the rest of the structure \<open>EEPROM\<close>,
    its byte image and its checksum. \<open>Lcs_Nm\<close>, \<open>Lcs_Nm_Memory\<close>, \<open>Lcs_Nm_Dispatch\<close>: the handlers
    of \<^verbatim>\<open>lcs_netmgmt.c\<close> and the two dispatchers; \<open>Lcs_Nm_Safety\<close>, what all of them keep (locale
    \<open>management\<close>); \<open>Lcs_Nm_Properties\<close>, the properties of the entry points.
  \<^item> \<open>Lcs_App\<close> (the record \<open>app\<close>: the node with the application's queues and flags; messages),
    \<open>Lcs_App_Nv\<close> (network variables: updates and polls that come in, scheduling),
    \<open>Lcs_App_Layer\<close> (sending of scheduled variables, completion events, entry points, reset),
    \<open>Lcs_App_Sample\<close>, \<open>Lcs_App_Properties\<close>, \<open>Lcs_App_Exchange\<close> (examples, one node, two nodes):
    \<^verbatim>\<open>lcs_app.c\<close>.
  \<^item> \<open>Lon_Storage\<close>: files, power failures and the storage operations of \<^verbatim>\<open>IzotHal.c\<close>;
    \<open>Lon_Persistence\<close>: \<^verbatim>\<open>lon_persistence.c\<close> and \<^verbatim>\<open>storage_persistence.c\<close>;
    \<open>Lon_Persistence_Properties\<close>: what survives a restart.

  \<^bold>\<open>How C is rendered.\<close> A structure is a record, an 8-, 16- or 32-bit integer a word where it may
  wrap around, a buffer a list of bytes with its length; a function is a HOL function from the
  state to the new state and the result. A queue keeps its C fields (capacity, entries, head and
  tail offsets); \<open>queue_wf\<close> and \<open>queue_list\<close> relate it to the list of its entries. An access
  outside of an object, or through a null pointer, is tested where it happens, with the number of
  bytes that are copied and the size of the target, and sets \<open>memFault\<close> (\<open>fault_if\<close>); what such a
  write destroys is not modelled, so a state with the flag set says no more than that the flag is
  set. The safety properties show where it stays as it was, and some properties exhibit inputs at
  which it does not. The slots of the network layer's output queues have the sizes \<open>nwOutBufSize\<close>
  and \<open>nwOutPriBufSize\<close>, which the transport layer tests against. The USB link has the flag
  \<open>usbFault\<close> for its frame buffer: the parser is stuck at the write and stores nothing more. Fields of a
  queue entry that a layer does not set keep the contents of the slot; its PDU is the list of the
  bytes of the last use, so that what an earlier and longer PDU left behind them is not kept. Of a
  log message only the status is kept.

  \<^bold>\<open>Build.\<close> The default of the sources: \<open>SECURITY_IS(V1)\<close>, a USB MIP interface, native LON
  protocol, Linux storage; without proxy, image update, DMF and LON/UDP. Little-endian,
  enumerations in tables of one byte.

  \<^bold>\<open>Parameters.\<close> What is not under \<^verbatim>\<open>src/\<close> is an argument: the tick \<open>now\<close>, the random bytes of a
  challenge, the memory that an allocation returns, the bytes the USB device delivers and its
  acceptance of written bytes, the contents of memory outside of the modelled structures and
  their addresses (record \<open>platform\<close>, with the hypothesis \<open>platform_ok\<close> that writing the
  memory window of network management changes that window only), the outcome of each system call of
  the file system and the byte at which the power fails. Files are written in program order; the
  code never calls \<open>fsync\<close>, so this is the most favourable order.

  \<^bold>\<open>Loops and fuel.\<close> Loops over tables and buffers are structural recursion, \<open>filter\<close> or \<open>fold\<close>
  over the index range of the C loop. Loops with another measure (the bytes of \<open>Encrypt\<close>, the
  conversion of values, the blocks of a write) are functions with a termination proof. The loops
  of the rings and of the uplink parser, which end for a reason outside of their text, are
  partial functions into \<open>option\<close>, and lemmas show that they return: \<open>uplink_parser_returns\<close> for
  every input of the USB parser in a state that satisfies its invariant. There is no fuel.

  \<^bold>\<open>Lemma groups.\<close> (1) Data structures: refinement of queues and rings to lists. (2) Layers: an
  invariant per layer with a preservation lemma per function, then safety of every sequence of
  calls. (3) Exchanges: what one node sends, the peer's layer delivers: PDUs, acknowledgements,
  challenges and replies, USB frames, values of variables. (4) Management: protection of
  memory, authentication of commands, checksum, commit flags. (5) Persistence: round trip of the
  image, atomicity of an update under power failure. (6) Progress: transactions end, a link
  that is served comes up, a propagation is completed. (7) Faults: theorems that show where the code loses
  messages, stops sending, reads or writes outside of an object, or reports the opposite.

  \<^bold>\<open>Not modelled.\<close> \<^verbatim>\<open>lon_udp/\<close> and the sockets of \<^verbatim>\<open>abstraction/\<close> (operating system calls, not in this
  build); \<^verbatim>\<open>IzotApi.c\<close> apart from the start of the stack and the completion handler (glue to the
  application); \<open>NodeReset\<close> and \<open>InitEEPROM\<close> (they call every module's reset, which are modelled one
  by one); \<open>AppLayerInit\<close> and \<open>AddNV\<close> (construction of the self-identification area at start-up);
  \<open>IzotUpdateUnion\<close>; closing a USB interface and the table of several; \<^verbatim>\<open>lcs_proxy.c\<close>, \<^verbatim>\<open>lcs_iup.c\<close> and
  the other options that are not compiled in; ISI, of which the sources hold types only.
\<close>

end
